(* ===== verification/Prelude.thy ===== *)
theory Prelude
  imports Main
begin

text \<open>
  Shared vocabulary of the development: the results of fallible Rust code, the integer
  operations of the Rust standard library at a given width, and the hint collections that the
  component theories extend.

  A Rust function that returns \<open>Result<T, E>\<close> or that can panic becomes a function into
  \<open>('e, 'a) res\<close>. \<open>Inl Panic\<close> is a panic (\<open>unwrap\<close> on \<open>None\<close>, a failed \<open>assert!\<close>, an
  overflow that the code or the build checks, a division by zero), \<open>Inl (Err e)\<close> is an error
  value. On Solana either one aborts the whole transaction and drops every write, so a model
  that stops with \<open>Inl\<close> carries no state.

  Unsigned integers are \<open>nat\<close> and signed ones \<open>int\<close>; each operation carries its width and
  writes out what happens outside the range.
\<close>

named_theorems ok_dest \<open>what the success of an operation says about its result\<close>
named_theorems range_intro \<open>results that stay within their integer type\<close>

text \<open>
  An address is a number: the code only compares addresses, sorts by them and tests them for the
  all-zero default.
\<close>

type_synonym Pubkey = nat

definition pubkey_default :: Pubkey where "pubkey_default = 0"

subsection \<open>Results\<close>

datatype 'e fault = Panic | Err 'e

type_synonym ('e, 'a) res = "'e fault + 'a"

definition bindE :: "('e, 'a) res \<Rightarrow> ('a \<Rightarrow> ('e, 'b) res) \<Rightarrow> ('e, 'b) res" where
  "bindE m f = (case m of Inl e \<Rightarrow> Inl e | Inr x \<Rightarrow> f x)"

definition err :: "'e \<Rightarrow> ('e, 'a) res" where
  "err e = Inl (Err e)"

definition panic :: "('e, 'a) res" where
  "panic = Inl Panic"

definition unwrap :: "'a option \<Rightarrow> ('e, 'a) res" where
  "unwrap m = (case m of None \<Rightarrow> Inl Panic | Some x \<Rightarrow> Inr x)"

definition ok_or :: "'a option \<Rightarrow> 'e \<Rightarrow> ('e, 'a) res" where
  "ok_or m e = (case m of None \<Rightarrow> Inl (Err e) | Some x \<Rightarrow> Inr x)"

definition guardE :: "bool \<Rightarrow> 'e \<Rightarrow> ('e, unit) res" where
  "guardE b e = (if b then Inr () else Inl (Err e))"

definition assertE :: "bool \<Rightarrow> ('e, unit) res" where
  "assertE b = (if b then Inr () else Inl Panic)"

definition is_ok :: "('e, 'a) res \<Rightarrow> bool" where
  "is_ok m = (case m of Inl _ \<Rightarrow> False | Inr _ \<Rightarrow> True)"

text \<open>A \<open>for\<close> loop over a slice that stops at the first failure.\<close>

fun foldE :: "('a \<Rightarrow> 's \<Rightarrow> ('e, 's) res) \<Rightarrow> 'a list \<Rightarrow> 's \<Rightarrow> ('e, 's) res" where
  "foldE f [] s = Inr s"
| "foldE f (x # xs) s = bindE (f x s) (foldE f xs)"

lemma bindE_simps [simp]:
  "bindE (Inr x) f = f x"
  "bindE (Inl e) f = Inl e"
  by (simp_all add: bindE_def)

lemma bindE_Inr_iff [simp]:
  "bindE m f = Inr y \<longleftrightarrow> (\<exists>x. m = Inr x \<and> f x = Inr y)"
  by (cases m) auto

lemma bindE_Inl_iff:
  "bindE m f = Inl e \<longleftrightarrow> m = Inl e \<or> (\<exists>x. m = Inr x \<and> f x = Inl e)"
  by (cases m) auto

lemma bindE_Inr_right [simp]: "bindE m Inr = m"
  by (cases m) simp_all

lemma bindE_assoc: "bindE (bindE m f) g = bindE m (\<lambda>x. bindE (f x) g)"
  by (cases m) simp_all

lemma bindE_cong [fundef_cong]:
  "m = m' \<Longrightarrow> (\<And>x. m' = Inr x \<Longrightarrow> f x = f' x) \<Longrightarrow> bindE m f = bindE m' f'"
  by (cases m') simp_all

lemma unwrap_simps [simp]:
  "unwrap None = Inl Panic" "unwrap (Some x) = Inr x"
  "unwrap m = Inr y \<longleftrightarrow> m = Some y"
  "unwrap m = Inl e \<longleftrightarrow> m = None \<and> e = Panic"
  by (cases m; auto simp: unwrap_def)+

lemma ok_or_simps [simp]:
  "ok_or None e = Inl (Err e)" "ok_or (Some x) e = Inr x"
  "ok_or m e = Inr y \<longleftrightarrow> m = Some y"
  "ok_or m e = Inl d \<longleftrightarrow> m = None \<and> d = Err e"
  by (cases m; auto simp: ok_or_def)+

lemma guardE_simps [simp]:
  "guardE True e = Inr ()" "guardE False e = Inl (Err e)"
  "guardE b e = Inr u \<longleftrightarrow> b"
  "guardE b e = Inl d \<longleftrightarrow> \<not> b \<and> d = Err e"
  by (auto simp: guardE_def)

lemma assertE_simps [simp]:
  "assertE True = Inr ()" "assertE False = Inl Panic"
  "assertE b = Inr u \<longleftrightarrow> b"
  "assertE b = Inl d \<longleftrightarrow> \<not> b \<and> d = Panic"
  by (auto simp: assertE_def)

lemma panic_err_simps [simp]:
  "panic \<noteq> Inr x" "err e \<noteq> Inr x" "bindE panic f = panic" "bindE (err e) f = err e"
  "panic = Inl d \<longleftrightarrow> d = Panic" "err e = Inl d \<longleftrightarrow> d = Err e"
  by (auto simp: panic_def err_def)

lemma is_ok_simps [simp]:
  "is_ok (Inr x)" "\<not> is_ok (Inl e)" "\<not> is_ok panic" "\<not> is_ok (err d)"
  by (simp_all add: is_ok_def panic_def err_def)

lemma is_ok_iff: "is_ok m \<longleftrightarrow> (\<exists>x. m = Inr x)"
  by (cases m) simp_all

text \<open>An invariant that every step of a \<open>for\<close> loop keeps holds after the loop.\<close>

lemma foldE_invariant:
  assumes "foldE f xs s = Inr t" and "P s"
    and "\<And>x u v. x \<in> set xs \<Longrightarrow> P u \<Longrightarrow> f x u = Inr v \<Longrightarrow> P v"
  shows "P t"
  using assms
proof (induction xs arbitrary: s)
  case (Cons x xs)
  from Cons.prems(1) obtain u where "f x s = Inr u" "foldE f xs u = Inr t" by auto
  with Cons.prems show ?case by (intro Cons.IH [of u]) auto
qed simp

lemma foldE_append: "foldE f (xs @ ys) s = bindE (foldE f xs s) (foldE f ys)"
  by (induction xs arbitrary: s) (auto simp: bindE_assoc intro: bindE_cong)

subsection \<open>Unsigned integers at a width\<close>

definition u_range :: "nat \<Rightarrow> nat \<Rightarrow> bool" where
  "u_range w n \<longleftrightarrow> n < 2 ^ w"

abbreviation "u16 \<equiv> u_range 16"
abbreviation "u32 \<equiv> u_range 32"
abbreviation "u64 \<equiv> u_range 64"
abbreviation "u128 \<equiv> u_range 128"

lemma u_range_mono [range_intro]: "u_range w b \<Longrightarrow> a \<le> b \<Longrightarrow> u_range w a"
  by (simp add: u_range_def)

lemma u_range_widen: "u_range v a \<Longrightarrow> v \<le> w \<Longrightarrow> u_range w a"
  unfolding u_range_def by (erule order_less_le_trans) (rule power_increasing, simp_all)

lemma u_range_simps [simp]: "u_range w 0" "0 < w \<Longrightarrow> u_range w (Suc 0)"
  using one_less_power [of "2::nat" w] by (simp_all add: u_range_def)

lemma u_range_diff [range_intro]: "u_range w a \<Longrightarrow> u_range w (a - b)"
  by (simp add: u_range_def)

lemma u_range_div [range_intro]: "u_range w a \<Longrightarrow> u_range w (a div b)"
  by (erule u_range_mono) simp

definition checked_add :: "nat \<Rightarrow> nat \<Rightarrow> nat \<Rightarrow> nat option" where
  "checked_add w a b = (if u_range w (a + b) then Some (a + b) else None)"

definition checked_sub :: "nat \<Rightarrow> nat \<Rightarrow> nat option" where
  "checked_sub a b = (if b \<le> a then Some (a - b) else None)"

definition checked_mul :: "nat \<Rightarrow> nat \<Rightarrow> nat \<Rightarrow> nat option" where
  "checked_mul w a b = (if u_range w (a * b) then Some (a * b) else None)"

definition checked_div :: "nat \<Rightarrow> nat \<Rightarrow> nat option" where
  "checked_div a b = (if b = 0 then None else Some (a div b))"

definition saturating_add :: "nat \<Rightarrow> nat \<Rightarrow> nat \<Rightarrow> nat" where
  "saturating_add w a b = (if u_range w (a + b) then a + b else 2 ^ w - 1)"

definition saturating_sub :: "nat \<Rightarrow> nat \<Rightarrow> nat" where
  "saturating_sub a b = (if b \<le> a then a - b else 0)"

definition saturating_mul :: "nat \<Rightarrow> nat \<Rightarrow> nat \<Rightarrow> nat" where
  "saturating_mul w a b = (if u_range w (a * b) then a * b else 2 ^ w - 1)"

lemma checked_add_Some [simp]:
  "checked_add w a b = Some c \<longleftrightarrow> c = a + b \<and> u_range w (a + b)"
  by (auto simp: checked_add_def)

lemma checked_sub_Some [simp]: "checked_sub a b = Some c \<longleftrightarrow> b \<le> a \<and> c = a - b"
  by (auto simp: checked_sub_def)

lemma checked_mul_Some [simp]:
  "checked_mul w a b = Some c \<longleftrightarrow> c = a * b \<and> u_range w (a * b)"
  by (auto simp: checked_mul_def)

lemma checked_div_Some [simp]: "checked_div a b = Some c \<longleftrightarrow> b \<noteq> 0 \<and> c = a div b"
  by (auto simp: checked_div_def)

lemma checked_None [simp]:
  "checked_add w a b = None \<longleftrightarrow> \<not> u_range w (a + b)"
  "checked_sub a b = None \<longleftrightarrow> a < b"
  "checked_mul w a b = None \<longleftrightarrow> \<not> u_range w (a * b)"
  "checked_div a b = None \<longleftrightarrow> b = 0"
  by (auto simp: checked_add_def checked_sub_def checked_mul_def checked_div_def)

lemma saturating_sub_eq [simp]: "saturating_sub a b = a - b"
  by (simp add: saturating_sub_def)

lemma saturating_bounds [range_intro]:
  "u_range w (saturating_add w a b)" "u_range w (saturating_mul w a b)"
  by (simp_all add: saturating_add_def saturating_mul_def u_range_def)

text \<open>
  The unchecked operators \<open>+ - *\<close> on primitive integers. The compiler either panics or wraps
  around, as the build profile says. The workspace manifest (\<open>Cargo.toml\<close>) sets no profile and
  cargo ignores the one in \<open>programs/fixed-term/Cargo.toml\<close>, which is not the workspace root, so
  the deployed release build has the default: no overflow checks. The lemmas of this
  development do not unfold the constant.
\<close>

definition overflow_checks :: bool where
  "overflow_checks \<longleftrightarrow> False"

definition wrap_u :: "nat \<Rightarrow> int \<Rightarrow> nat" where
  "wrap_u w x = nat (x mod 2 ^ w)"

definition plain_u :: "nat \<Rightarrow> int \<Rightarrow> ('e, nat) res" where
  "plain_u w x =
     (if 0 \<le> x \<and> x < 2 ^ w then Inr (nat x)
      else if overflow_checks then Inl Panic else Inr (wrap_u w x))"

definition plain_add :: "nat \<Rightarrow> nat \<Rightarrow> nat \<Rightarrow> ('e, nat) res" where
  "plain_add w a b = plain_u w (int a + int b)"

definition plain_sub :: "nat \<Rightarrow> nat \<Rightarrow> nat \<Rightarrow> ('e, nat) res" where
  "plain_sub w a b = plain_u w (int a - int b)"

definition plain_mul :: "nat \<Rightarrow> nat \<Rightarrow> nat \<Rightarrow> ('e, nat) res" where
  "plain_mul w a b = plain_u w (int a * int b)"

definition plain_div :: "nat \<Rightarrow> nat \<Rightarrow> ('e, nat) res" where
  "plain_div a b = (if b = 0 then Inl Panic else Inr (a div b))"

lemma plain_u_in_range [simp]: "0 \<le> x \<Longrightarrow> x < 2 ^ w \<Longrightarrow> plain_u w x = Inr (nat x)"
  by (simp add: plain_u_def)

lemma plain_u_range [range_intro]: "plain_u w x = Inr y \<Longrightarrow> u_range w y"
proof -
  assume a: "plain_u w x = Inr y"
  have "nat (x mod 2 ^ w) < 2 ^ w" by (simp add: nat_less_iff)
  with a show ?thesis by (auto simp: plain_u_def wrap_u_def u_range_def nat_less_iff split: if_splits)
qed

lemma plain_add_ok [simp]: "u_range w (a + b) \<Longrightarrow> plain_add w a b = Inr (a + b)"
proof -
  assume "u_range w (a + b)"
  then have "int (a + b) < int (2 ^ w)" by (simp only: u_range_def of_nat_less_iff)
  then have "int a + int b < 2 ^ w" by simp
  then show ?thesis by (simp add: plain_add_def nat_add_distrib)
qed

lemma plain_sub_ok [simp]: "b \<le> a \<Longrightarrow> u_range w a \<Longrightarrow> plain_sub w a b = Inr (a - b)"
proof -
  assume b: "b \<le> a" and "u_range w a"
  then have "int a < int (2 ^ w)" by (simp only: u_range_def of_nat_less_iff)
  then have "int a - int b < 2 ^ w" unfolding of_nat_power of_nat_numeral by linarith
  with b show ?thesis by (simp add: plain_sub_def nat_diff_distrib)
qed

lemma plain_mul_ok [simp]: "u_range w (a * b) \<Longrightarrow> plain_mul w a b = Inr (a * b)"
proof -
  assume "u_range w (a * b)"
  then have "int (a * b) < int (2 ^ w)" by (simp only: u_range_def of_nat_less_iff)
  then have "int a * int b < 2 ^ w" by simp
  then show ?thesis by (simp add: plain_mul_def nat_mult_distrib)
qed

lemma plain_div_Inr [simp]: "plain_div a b = Inr c \<longleftrightarrow> b \<noteq> 0 \<and> c = a div b"
  by (auto simp: plain_div_def)

lemma u_range_mod [range_intro]: "u_range w a \<Longrightarrow> u_range w (a mod b)"
  by (erule u_range_mono) simp

subsection \<open>Signed integers at a width\<close>

definition i_range :: "nat \<Rightarrow> int \<Rightarrow> bool" where
  "i_range w x \<longleftrightarrow> - (2 ^ (w - 1)) \<le> x \<and> x < 2 ^ (w - 1)"

definition wrap_i :: "nat \<Rightarrow> int \<Rightarrow> int" where
  "wrap_i w x = (x + 2 ^ (w - 1)) mod 2 ^ w - 2 ^ (w - 1)"

definition checked_i :: "nat \<Rightarrow> int \<Rightarrow> int option" where
  "checked_i w x = (if i_range w x then Some x else None)"

definition plain_i :: "nat \<Rightarrow> int \<Rightarrow> ('e, int) res" where
  "plain_i w x =
     (if i_range w x then Inr x else if overflow_checks then Inl Panic else Inr (wrap_i w x))"

text \<open>Rust's \<open>/\<close> and \<open>%\<close> truncate towards zero.\<close>

definition trunc_div :: "int \<Rightarrow> int \<Rightarrow> int" where
  "trunc_div a b = sgn a * sgn b * (\<bar>a\<bar> div \<bar>b\<bar>)"

definition trunc_rem :: "int \<Rightarrow> int \<Rightarrow> int" where
  "trunc_rem a b = sgn a * (\<bar>a\<bar> mod \<bar>b\<bar>)"

text \<open>
  Division panics on a zero divisor and on \<open>MIN / -1\<close>, in every build profile.
\<close>

definition plain_idiv :: "nat \<Rightarrow> int \<Rightarrow> int \<Rightarrow> ('e, int) res" where
  "plain_idiv w a b =
     (if b = 0 \<or> \<not> i_range w (trunc_div a b) then Inl Panic else Inr (trunc_div a b))"

lemma checked_i_Some [simp]: "checked_i w x = Some y \<longleftrightarrow> y = x \<and> i_range w x"
  by (auto simp: checked_i_def)

lemma checked_i_None [simp]: "checked_i w x = None \<longleftrightarrow> \<not> i_range w x"
  by (simp add: checked_i_def)

lemma plain_i_in_range [simp]: "i_range w x \<Longrightarrow> plain_i w x = Inr x"
  by (simp add: plain_i_def)

lemma wrap_i_range: "0 < w \<Longrightarrow> i_range w (wrap_i w x)"
proof -
  assume "0 < w"
  then have e: "(2::int) ^ w = 2 * 2 ^ (w - 1)" by (cases w) simp_all
  have "0 \<le> (x + 2 ^ (w - 1)) mod 2 ^ w" "(x + 2 ^ (w - 1)) mod 2 ^ w < 2 ^ w" by simp_all
  then show ?thesis unfolding i_range_def wrap_i_def using e by linarith
qed

lemma plain_i_range [range_intro]: "0 < w \<Longrightarrow> plain_i w x = Inr y \<Longrightarrow> i_range w y"
  by (auto simp: plain_i_def wrap_i_range split: if_splits)

lemma plain_idiv_Inr [simp]:
  "plain_idiv w a b = Inr c \<longleftrightarrow> b \<noteq> 0 \<and> i_range w (trunc_div a b) \<and> c = trunc_div a b"
  by (auto simp: plain_idiv_def)

lemma trunc_div_nonneg: "0 \<le> a \<Longrightarrow> 0 \<le> b \<Longrightarrow> trunc_div a b = a div b"
  by (cases "a = 0"; cases "b = 0") (simp_all add: trunc_div_def)

lemma trunc_div_rem: "b * trunc_div a b + trunc_rem a b = a"
proof -
  have "b * (sgn b * (\<bar>a\<bar> div \<bar>b\<bar>)) = \<bar>b\<bar> * (\<bar>a\<bar> div \<bar>b\<bar>)"
    by (simp add: abs_sgn mult.commute mult.left_commute)
  then have "b * trunc_div a b = sgn a * (\<bar>b\<bar> * (\<bar>a\<bar> div \<bar>b\<bar>))"
    by (simp add: trunc_div_def mult.left_commute)
  then have "b * trunc_div a b + trunc_rem a b = sgn a * (\<bar>b\<bar> * (\<bar>a\<bar> div \<bar>b\<bar>) + \<bar>a\<bar> mod \<bar>b\<bar>)"
    by (simp only: trunc_rem_def distrib_left)
  then show ?thesis by (simp add: sgn_mult_abs)
qed

subsection \<open>Rounding\<close>

definition ceil_div :: "nat \<Rightarrow> nat \<Rightarrow> nat" where
  "ceil_div a b = (b - 1 + a) div b"

lemma ceil_div_le: "0 < b \<Longrightarrow> a \<le> b * ceil_div a b"
  unfolding ceil_div_def
  using dividend_less_times_div [of b "b - 1 + a"] by simp

lemma ceil_div_less: "0 < b \<Longrightarrow> b * ceil_div a b < a + b"
  unfolding ceil_div_def
  using times_div_less_eq_dividend [of b "b - 1 + a"] by linarith

lemma ceil_div_least: "0 < b \<Longrightarrow> a \<le> b * q \<Longrightarrow> ceil_div a b \<le> q"
proof -
  assume b: "0 < b" and q: "a \<le> b * q"
  then have "b - 1 + a < b * Suc q" by simp
  then have "(b - 1 + a) div b < Suc q" by (simp add: div_less_iff_less_mult b mult.commute)
  then show ?thesis by (simp add: ceil_div_def)
qed

lemma div_le_ceil_div: "a div b \<le> ceil_div a b"
  by (simp add: ceil_div_def div_le_mono)

lemma ceil_div_exact [simp]: "0 < b \<Longrightarrow> ceil_div (b * q) b = q"
  using ceil_div_least [of b "b * q" q] ceil_div_le [of b "b * q"]
  by (intro antisym) simp_all

subsection \<open>Sums over the accounts of a program\<close>

definition msum :: "('v \<Rightarrow> nat) \<Rightarrow> ('k \<Rightarrow> 'v option) \<Rightarrow> nat" where
  "msum f m = (\<Sum>k\<in>dom m. f (the (m k)))"

lemma msum_empty [simp]: "msum f Map.empty = 0"
  by (simp add: msum_def)

lemma msum_insert:
  assumes "finite (dom m)" "m k = None"
  shows "msum f (m(k \<mapsto> v)) = msum f m + f v"
proof -
  have "k \<notin> dom m" using assms(2) by auto
  moreover from this have "(\<Sum>j\<in>dom m. f (the ((m(k \<mapsto> v)) j))) = (\<Sum>j\<in>dom m. f (the (m j)))"
    by (intro sum.cong) auto
  ultimately show ?thesis using assms(1) by (simp add: msum_def)
qed

lemma msum_delete:
  assumes "finite (dom m)" "m k = Some u"
  shows "msum f m = msum f (m(k := None)) + f u"
proof -
  have "m = (m(k := None))(k \<mapsto> u)" using assms(2) by auto
  with msum_insert [of "m(k := None)" k f u] assms(1) show ?thesis by simp
qed

lemma msum_replace:
  assumes "finite (dom m)" "m k = Some u"
  shows "msum f (m(k \<mapsto> v)) + f u = msum f m + f v"
  using msum_delete [OF assms, of f] msum_insert [of "m(k := None)" k f v] assms(1) by simp

lemma msum_member:
  assumes "finite (dom m)" "m k = Some u"
  shows "f u \<le> msum f m"
  using msum_delete [OF assms, of f] by simp

lemma msum_zero: "(\<And>k v. m k = Some v \<Longrightarrow> f v = 0) \<Longrightarrow> msum f m = 0"
  by (auto simp: msum_def intro!: sum.neutral)

end
