(* ===== verification/Numbers.thy ===== *)
theory Numbers
  imports Prelude
begin

text \<open>
  The unsigned decimal \<open>Number\<close> of \<open>libraries/rust/program-common/src/number.rs\<close>: a 192-bit
  integer that counts units of \<open>10^-15\<close>. \<open>U192\<close> is generated by the \<open>uint\<close> crate's
  \<open>construct_uint!\<close>; it is taken here as what the macro declares, an unsigned integer of three
  64-bit limbs whose operators panic on overflow, on a negative difference and on a zero
  divisor in every build profile, and whose \<open>checked_*\<close> and \<open>saturating_*\<close> methods behave as
  those of the primitive integers.

  The lemmas invert each operation (\<open>num_*_Inr\<close>), bound the error of each rounding, and relate
  the three conversions to \<open>u64\<close>.
\<close>

subsection \<open>The 192-bit integer\<close>

abbreviation u192 :: "nat \<Rightarrow> bool" where
  "u192 \<equiv> u_range 192"

definition u192_add :: "nat \<Rightarrow> nat \<Rightarrow> ('e, nat) res" where
  "u192_add a b = unwrap (checked_add 192 a b)"

definition u192_sub :: "nat \<Rightarrow> nat \<Rightarrow> ('e, nat) res" where
  "u192_sub a b = unwrap (checked_sub a b)"

definition u192_mul :: "nat \<Rightarrow> nat \<Rightarrow> ('e, nat) res" where
  "u192_mul a b = unwrap (checked_mul 192 a b)"

definition u192_div :: "nat \<Rightarrow> nat \<Rightarrow> ('e, nat) res" where
  "u192_div a b = unwrap (checked_div a b)"

text \<open>The conversion of a signed primitive panics on a negative value.\<close>

definition u192_of_int :: "int \<Rightarrow> ('e, nat) res" where
  "u192_of_int x = (if 0 \<le> x then Inr (nat x) else panic)"

lemmas u192_defs = u192_add_def u192_sub_def u192_mul_def u192_div_def

subsection \<open>Number\<close>

datatype Number = Number (raw: nat)

instantiation Number :: linorder
begin

definition less_eq_Number :: "Number \<Rightarrow> Number \<Rightarrow> bool" where
  "less_eq_Number a b \<longleftrightarrow> raw a \<le> raw b"

definition less_Number :: "Number \<Rightarrow> Number \<Rightarrow> bool" where
  "less_Number a b \<longleftrightarrow> raw a < raw b"

instance
  by standard (auto simp: less_eq_Number_def less_Number_def Number.expand)

end

lemma Number_le [simp]: "Number a \<le> Number b \<longleftrightarrow> a \<le> b"
  by (simp add: less_eq_Number_def)

lemma Number_less [simp]: "Number a < Number b \<longleftrightarrow> a < b"
  by (simp add: less_Number_def)

lemma raw_max [simp]: "raw (max a b) = max (raw a) (raw b)"
  by (simp add: max_def less_eq_Number_def)

definition PRECISION :: int where "PRECISION = 15"
definition BPS_EXPONENT :: int where "BPS_EXPONENT = -4"
definition ONE :: nat where "ONE = 1000000000000000"
definition U64_MAX :: nat where "U64_MAX = 2 ^ 64 - 1"
definition U128_MAX :: nat where "U128_MAX = 2 ^ 128 - 1"
definition num_ONE :: Number where "num_ONE = Number ONE"
definition num_ZERO :: Number where "num_ZERO = Number 0"
definition num_MAX :: Number where "num_MAX = Number (2 ^ 192 - 1)"

definition wf_num :: "Number \<Rightarrow> bool" where
  "wf_num n \<longleftrightarrow> u192 (raw n)"

lemmas num_consts = PRECISION_def BPS_EXPONENT_def ONE_def U64_MAX_def U128_MAX_def
  num_ONE_def num_ZERO_def num_MAX_def

fun ten_pow :: "nat \<Rightarrow> ('e, nat) res" where
  "ten_pow e =
     (if e = 16 then Inr 10000000000000000
      else if e = 15 then Inr 1000000000000000
      else if e = 14 then Inr 100000000000000
      else if e = 13 then Inr 10000000000000
      else if e = 12 then Inr 1000000000000
      else if e = 11 then Inr 100000000000
      else if e = 10 then Inr 10000000000
      else if e = 9 then Inr 1000000000
      else if e = 8 then Inr 100000000
      else if e = 7 then Inr 10000000
      else if e = 6 then Inr 1000000
      else if e = 5 then Inr 100000
      else if e = 4 then Inr 10000
      else if e = 3 then Inr 1000
      else if e = 2 then Inr 100
      else if e = 1 then Inr 10
      else if e = 0 then Inr 1
      else panic)"

declare ten_pow.simps [simp del]

lemma ten_pow_eq: "ten_pow e = (if e \<le> 16 then Inr (10 ^ e) else panic)"
proof (cases "e \<le> 16")
  case True
  then have "e \<in> {..16}" by simp
  then have "e \<in> {16,15,14,13,12,11,10,9,8,7,6,5,4,3,2,1,0}"
    by (simp only: atMost_nat_numeral pred_numeral_simps BitM.simps numeral_One atMost_0 One_nat_def atMost_Suc)
  then show ?thesis by (elim insertE emptyE) (simp_all add: ten_pow.simps)
qed (simp add: ten_pow.simps)

lemma ten_pow_Inr: "ten_pow e = Inr p \<longleftrightarrow> e \<le> 16 \<and> p = 10 ^ e"
  by (auto simp: ten_pow_eq)

subsection \<open>Conversions\<close>

definition extra_precision :: "int \<Rightarrow> ('e, int) res" where
  "extra_precision exponent = plain_i 32 (PRECISION + exponent)"

lemma extra_precision_small [simp]:
  "-16 \<le> e \<Longrightarrow> e \<le> 16 \<Longrightarrow> extra_precision e = Inr (15 + e)"
  by (simp add: extra_precision_def PRECISION_def i_range_def)

definition as_u64 :: "Number \<Rightarrow> int \<Rightarrow> ('e, nat) res" where
  "as_u64 n exponent =
     bindE (extra_precision exponent) (\<lambda>extra.
     bindE (ten_pow (nat \<bar>extra\<bar>)) (\<lambda>prec_value.
     bindE (if extra < 0 then u192_mul (raw n) prec_value
            else u192_div (raw n) prec_value) (\<lambda>target_value.
     if target_value > U64_MAX then panic else Inr target_value)))"

definition as_u64_ceil :: "Number \<Rightarrow> int \<Rightarrow> ('e, nat) res" where
  "as_u64_ceil n exponent =
     bindE (extra_precision exponent) (\<lambda>extra.
     bindE (ten_pow (nat \<bar>extra\<bar>)) (\<lambda>prec_value.
     bindE (bindE (u192_sub prec_value 1) (\<lambda>p. u192_add p (raw n))) (\<lambda>target_rounded.
     bindE (if extra < 0 then u192_mul target_rounded prec_value
            else u192_div target_rounded prec_value) (\<lambda>target_value.
     if target_value > U64_MAX then panic else Inr target_value))))"

definition as_u64_rounded :: "Number \<Rightarrow> int \<Rightarrow> ('e, nat) res" where
  "as_u64_rounded n exponent =
     bindE (extra_precision exponent) (\<lambda>extra.
     bindE (ten_pow (nat \<bar>extra\<bar>)) (\<lambda>prec_value.
     bindE (if extra > 0 then bindE (u192_mul 1 prec_value) (\<lambda>p. u192_div p 2)
            else Inr 0) (\<lambda>rounding.
     bindE (u192_add rounding (raw n)) (\<lambda>target_rounded.
     bindE (if extra < 0 then u192_mul target_rounded prec_value
            else u192_div target_rounded prec_value) (\<lambda>target_value.
     if target_value > U64_MAX then panic else Inr target_value)))))"

definition as_u128 :: "Number \<Rightarrow> int \<Rightarrow> ('e, nat) res" where
  "as_u128 n exponent =
     bindE (extra_precision exponent) (\<lambda>extra.
     bindE (ten_pow (nat \<bar>extra\<bar>)) (\<lambda>prec_value.
     bindE (if extra < 0 then u192_mul (raw n) prec_value
            else u192_div (raw n) prec_value) (\<lambda>target_value.
     if target_value > U128_MAX then panic else Inr target_value)))"

definition from_decimal :: "nat \<Rightarrow> int \<Rightarrow> ('e, Number) res" where
  "from_decimal v exponent =
     bindE (extra_precision exponent) (\<lambda>extra.
     bindE (ten_pow (nat \<bar>extra\<bar>)) (\<lambda>prec_value.
     bindE (if extra < 0 then u192_div v prec_value else u192_mul v prec_value) (\<lambda>r.
     Inr (Number r))))"

text \<open>\<open>from_decimal\<close> on a signed value goes through the conversion to \<open>U192\<close>.\<close>

definition from_decimal_signed :: "int \<Rightarrow> int \<Rightarrow> ('e, Number) res" where
  "from_decimal_signed v exponent = bindE (u192_of_int v) (\<lambda>u. from_decimal u exponent)"

definition from_bps :: "nat \<Rightarrow> ('e, Number) res" where
  "from_bps basis_points = from_decimal basis_points BPS_EXPONENT"

definition num_from :: "nat \<Rightarrow> ('e, Number) res" where
  "num_from n = bindE (u192_mul n ONE) (\<lambda>r. Inr (Number r))"

subsection \<open>Operators\<close>

definition num_add :: "Number \<Rightarrow> Number \<Rightarrow> ('e, Number) res" where
  "num_add a b = bindE (u192_add (raw a) (raw b)) (\<lambda>r. Inr (Number r))"

definition num_sub :: "Number \<Rightarrow> Number \<Rightarrow> ('e, Number) res" where
  "num_sub a b = bindE (u192_sub (raw a) (raw b)) (\<lambda>r. Inr (Number r))"

definition num_mul :: "Number \<Rightarrow> Number \<Rightarrow> ('e, Number) res" where
  "num_mul a b =
     bindE (u192_mul (raw a) (raw b)) (\<lambda>p. bindE (u192_div p ONE) (\<lambda>r. Inr (Number r)))"

definition num_div :: "Number \<Rightarrow> Number \<Rightarrow> ('e, Number) res" where
  "num_div a b =
     bindE (u192_mul (raw a) ONE) (\<lambda>p. bindE (u192_div p (raw b)) (\<lambda>r. Inr (Number r)))"

definition num_mul_int :: "Number \<Rightarrow> nat \<Rightarrow> ('e, Number) res" where
  "num_mul_int a n = bindE (u192_mul (raw a) n) (\<lambda>r. Inr (Number r))"

definition num_div_int :: "Number \<Rightarrow> nat \<Rightarrow> ('e, Number) res" where
  "num_div_int a n = bindE (u192_div (raw a) n) (\<lambda>r. Inr (Number r))"

definition num_saturating_add :: "Number \<Rightarrow> Number \<Rightarrow> Number" where
  "num_saturating_add a b = Number (saturating_add 192 (raw a) (raw b))"

definition num_saturating_sub :: "Number \<Rightarrow> Number \<Rightarrow> Number" where
  "num_saturating_sub a b = Number (saturating_sub (raw a) (raw b))"

definition num_saturating_mul :: "Number \<Rightarrow> Number \<Rightarrow> Number" where
  "num_saturating_mul a b = Number (saturating_mul 192 (raw a) (raw b))"

definition num_checked_add :: "Number \<Rightarrow> Number \<Rightarrow> Number option" where
  "num_checked_add a b = map_option Number (checked_add 192 (raw a) (raw b))"

definition num_checked_sub :: "Number \<Rightarrow> Number \<Rightarrow> Number option" where
  "num_checked_sub a b = map_option Number (checked_sub (raw a) (raw b))"

definition num_checked_mul :: "Number \<Rightarrow> Number \<Rightarrow> Number option" where
  "num_checked_mul a b = map_option Number (checked_mul 192 (raw a) (raw b))"

definition num_checked_div :: "Number \<Rightarrow> Number \<Rightarrow> Number option" where
  "num_checked_div a b = map_option Number (checked_div (raw a) (raw b))"

text \<open>\<open>Sum\<close>: \<open>iter.reduce(|a, b| a + b).unwrap_or(ZERO)\<close>.\<close>

fun num_sum :: "Number list \<Rightarrow> ('e, Number) res" where
  "num_sum [] = Inr num_ZERO"
| "num_sum (x # xs) = foldE (\<lambda>b a. num_add a b) xs x"

text \<open>
  \<open>into_bits\<close> and \<open>from_bits\<close> reinterpret the three limbs as 24 bytes; the targets are
  little-endian.
\<close>

fun le_bytes :: "nat \<Rightarrow> nat \<Rightarrow> nat list" where
  "le_bytes 0 n = []"
| "le_bytes (Suc k) n = n mod 256 # le_bytes k (n div 256)"

fun of_le_bytes :: "nat list \<Rightarrow> nat" where
  "of_le_bytes [] = 0"
| "of_le_bytes (b # bs) = b + 256 * of_le_bytes bs"

definition into_bits :: "Number \<Rightarrow> nat list" where
  "into_bits n = le_bytes 24 (raw n)"

definition from_bits :: "nat list \<Rightarrow> Number" where
  "from_bits bs = Number (of_le_bytes bs)"

subsection \<open>Inversion\<close>

lemma num_add_Inr [simp]:
  "num_add a b = Inr c \<longleftrightarrow> c = Number (raw a + raw b) \<and> u192 (raw a + raw b)"
  by (auto simp: num_add_def u192_defs)

lemma num_sub_Inr [simp]:
  "num_sub a b = Inr c \<longleftrightarrow> raw b \<le> raw a \<and> c = Number (raw a - raw b)"
  by (auto simp: num_sub_def u192_defs)

lemma num_mul_Inr [simp]:
  "num_mul a b = Inr c \<longleftrightarrow> u192 (raw a * raw b) \<and> c = Number (raw a * raw b div ONE)"
  by (auto simp: num_mul_def u192_defs ONE_def)

lemma num_div_Inr [simp]:
  "num_div a b = Inr c \<longleftrightarrow>
     u192 (raw a * ONE) \<and> raw b \<noteq> 0 \<and> c = Number (raw a * ONE div raw b)"
  by (auto simp: num_div_def u192_defs)

lemma num_mul_int_Inr [simp]:
  "num_mul_int a n = Inr c \<longleftrightarrow> u192 (raw a * n) \<and> c = Number (raw a * n)"
  by (auto simp: num_mul_int_def u192_defs)

lemma num_div_int_Inr [simp]:
  "num_div_int a n = Inr c \<longleftrightarrow> n \<noteq> 0 \<and> c = Number (raw a div n)"
  by (auto simp: num_div_int_def u192_defs)

lemma num_from_Inr [simp]:
  "num_from n = Inr c \<longleftrightarrow> u192 (n * ONE) \<and> c = Number (n * ONE)"
  by (auto simp: num_from_def u192_defs)

text \<open>The same facts as rewrite rules for calls whose range is known.\<close>

lemma num_ok [simp]:
  "u192 (raw a + raw b) \<Longrightarrow> num_add a b = Inr (Number (raw a + raw b))"
  "raw b \<le> raw a \<Longrightarrow> num_sub a b = Inr (Number (raw a - raw b))"
  "u192 (raw a * raw b) \<Longrightarrow> num_mul a b = Inr (Number (raw a * raw b div ONE))"
  "u192 (raw a * ONE) \<Longrightarrow> 0 < raw b \<Longrightarrow> num_div a b = Inr (Number (raw a * ONE div raw b))"
  "u192 (raw a * n) \<Longrightarrow> num_mul_int a n = Inr (Number (raw a * n))"
  "0 < n \<Longrightarrow> num_div_int a n = Inr (Number (raw a div n))"
  "u192 (n * ONE) \<Longrightarrow> num_from n = Inr (Number (n * ONE))"
  by simp_all

lemma u64_ONE_u192: "u64 n \<Longrightarrow> u192 (n * ONE)"
  by (simp add: ONE_def u_range_def)

lemma num_from_u64: "u64 n \<Longrightarrow> num_from n = Inr (Number (n * ONE))"
  by (simp add: u64_ONE_u192)

lemma num_from_small: "u192 (n * ONE) \<Longrightarrow> num_from n = Inr (Number (n * ONE))"
  by simp

lemma raw_num_saturating_sub [simp]: "raw (num_saturating_sub a b) = raw a - raw b"
  by (simp add: num_saturating_sub_def)

lemma wf_num_saturating [range_intro]:
  "wf_num (num_saturating_add a b)" "wf_num (num_saturating_mul a b)"
  by (simp_all add: wf_num_def num_saturating_add_def num_saturating_mul_def saturating_bounds)

lemma from_bps_u16: "u16 b \<Longrightarrow> from_bps b = Inr (Number (b * 100000000000))"
  by (simp add: from_bps_def from_decimal_def BPS_EXPONENT_def ten_pow_eq u192_defs u_range_def)

lemma from_decimal_0 [simp]: "from_decimal n 0 = num_from n"
  by (simp add: from_decimal_def num_from_def ten_pow_eq ONE_def)

lemma as_u64_0_Inr [simp]:
  "as_u64 n 0 = Inr v \<longleftrightarrow> v = raw n div ONE \<and> u64 v"
  by (auto simp: as_u64_def ten_pow_eq u192_defs ONE_def U64_MAX_def u_range_def split: if_splits)

lemma as_u64_ceil_0_Inr [simp]:
  "as_u64_ceil n 0 = Inr v \<longleftrightarrow>
     u192 (ONE - 1 + raw n) \<and> v = ceil_div (raw n) ONE \<and> u64 v"
  by (auto simp: as_u64_ceil_def ten_pow_eq u192_defs ONE_def U64_MAX_def ceil_div_def u_range_def)

lemma as_u64_bps_Inr:
  "as_u64 n BPS_EXPONENT = Inr v \<longleftrightarrow> v = raw n div 100000000000 \<and> u64 v"
  by (auto simp: as_u64_def ten_pow_eq u192_defs BPS_EXPONENT_def U64_MAX_def u_range_def)

end
