(* ===== verification/FixedPoint.thy ===== *)
theory FixedPoint
  imports Numbers
begin

text \<open>
  The contract the program's unsigned fixed-point types share: a raw integer that counts units
  of \<open>1/one\<close>, a product and a quotient that round down. The locale states what a client may
  use of such a type; it is interpreted on \<open>Number\<close> here and on \<open>Fp32\<close> in \<open>Fp32Numbers\<close>.
  \<open>fits\<close> says that the intermediate product does not leave the underlying integer, which
  \<open>Number\<close> checks and \<open>Fp32\<close> does not.
\<close>

locale fixed_point =
  fixes one :: nat
    and raw_of :: "'n \<Rightarrow> nat"
    and fits :: "nat \<Rightarrow> bool"
    and mul :: "'n \<Rightarrow> 'n \<Rightarrow> ('e, 'n) res"
    and div_fp :: "'n \<Rightarrow> 'n \<Rightarrow> ('e, 'n) res"
  assumes one_pos: "0 < one"
    and mul_law: "fits (raw_of a * raw_of b) \<Longrightarrow> mul a b = Inr c \<Longrightarrow> raw_of c = raw_of a * raw_of b div one"
    and div_law: "fits (raw_of a * one) \<Longrightarrow> div_fp a b = Inr c \<Longrightarrow>
      raw_of b \<noteq> 0 \<and> raw_of c = raw_of a * one div raw_of b"
begin

text \<open>A product is at most one unit below the exact value.\<close>

lemma mul_bounds:
  assumes "fits (raw_of a * raw_of b)" "mul a b = Inr c"
  shows "raw_of c * one \<le> raw_of a * raw_of b" "raw_of a * raw_of b < (raw_of c + 1) * one"
  using mul_law [OF assms] one_pos dividend_less_times_div [of one "raw_of a * raw_of b"]
  by (auto simp: algebra_simps)

lemma div_bounds:
  assumes "fits (raw_of a * one)" "div_fp a b = Inr c"
  shows "raw_of c * raw_of b \<le> raw_of a * one" "raw_of a * one < (raw_of c + 1) * raw_of b"
  using div_law [OF assms] dividend_less_times_div [of "raw_of b" "raw_of a * one"]
  by (auto simp: algebra_simps)

text \<open>Dividing and multiplying back never gains.\<close>

lemma div_mul_le:
  assumes "fits (raw_of a * one)" "div_fp a b = Inr q"
    and "fits (raw_of q * raw_of b)" "mul q b = Inr p"
  shows "raw_of p \<le> raw_of a"
proof -
  have "raw_of p * one \<le> raw_of q * raw_of b" by (rule mul_bounds(1) [OF assms(3,4)])
  also have "\<dots> \<le> raw_of a * one" by (rule div_bounds(1) [OF assms(1,2)])
  finally show ?thesis using one_pos by simp
qed

lemma mul_mono:
  assumes "fits (raw_of a * raw_of b)" "mul a b = Inr c"
    and "fits (raw_of a' * raw_of b')" "mul a' b' = Inr c'"
    and "raw_of a \<le> raw_of a'" "raw_of b \<le> raw_of b'"
  shows "raw_of c \<le> raw_of c'"
  using mul_law [OF assms(1,2)] mul_law [OF assms(3,4)] assms(5,6)
  by (simp add: div_le_mono mult_le_mono)

lemma mul_le_left:
  assumes "fits (raw_of a * raw_of b)" "mul a b = Inr c" "raw_of b \<le> one"
  shows "raw_of c \<le> raw_of a"
proof -
  have "raw_of c * one \<le> raw_of a * raw_of b" by (rule mul_bounds(1) [OF assms(1,2)])
  also have "\<dots> \<le> raw_of a * one" using assms(3) by simp
  finally show ?thesis using one_pos by simp
qed

end

interpretation number_fp: fixed_point ONE raw u192 num_mul num_div
  by unfold_locales (auto simp: ONE_def)

subsection \<open>Rounding of the conversions of \<open>Number\<close>\<close>

text \<open>Every conversion at a precision the type has unfolds to one division.\<close>

lemma as_u64_Inr:
  assumes "-15 \<le> e" "e \<le> 1"
  shows "as_u64 n e = Inr v \<longleftrightarrow> v = raw n div 10 ^ nat (15 + e) \<and> u64 v"
  using assms by (auto simp: as_u64_def ten_pow_eq u192_defs U64_MAX_def u_range_def)

lemma as_u64_ceil_Inr:
  assumes "-15 \<le> e" "e \<le> 1"
  shows "as_u64_ceil n e = Inr v \<longleftrightarrow>
    u192 (10 ^ nat (15 + e) - 1 + raw n) \<and> v = ceil_div (raw n) (10 ^ nat (15 + e)) \<and> u64 v"
  using assms
  by (auto simp: as_u64_ceil_def ten_pow_eq u192_defs U64_MAX_def u_range_def ceil_div_def)

lemma as_u64_rounded_Inr:
  assumes "-15 \<le> e" "e \<le> 1"
  shows "as_u64_rounded n e = Inr v \<longleftrightarrow>
    (let p = 10 ^ nat (15 + e); h = (if e = -15 then 0 else p div 2)
     in u192 (h + raw n) \<and> v = (h + raw n) div p \<and> u64 v)"
proof (cases "e = -15")
  case True
  then show ?thesis
    by (auto simp: as_u64_rounded_def ten_pow_eq u192_defs U64_MAX_def u_range_def)
next
  case False
  have "u192 (10 ^ nat (15 + e))"
  proof (rule u_range_mono)
    show "u192 (10 ^ 16)" by (simp add: u_range_def)
    show "(10::nat) ^ nat (15 + e) \<le> 10 ^ 16"
      by (rule power_increasing) (use assms in auto)
  qed
  with assms False show ?thesis
    by (auto simp: as_u64_rounded_def ten_pow_eq u192_defs U64_MAX_def Let_def u_range_def)
qed

lemma from_decimal_Inr:
  assumes "-15 \<le> e" "e \<le> 1"
  shows "from_decimal v e = Inr n \<longleftrightarrow> u192 (v * 10 ^ nat (15 + e)) \<and> n = Number (v * 10 ^ nat (15 + e))"
  using assms by (auto simp: from_decimal_def ten_pow_eq u192_defs)

end
