(* ===== verification/Fp32Numbers.thy ===== *)
theory Fp32Numbers
  imports FixedPoint "HOL-Library.Word"
begin

unbundle bit_operations_syntax

text \<open>
  The binary fixed-point type \<open>Fp32\<close> of \<open>libraries/rust/program-common/src/fp32.rs\<close>: a \<open>u128\<close>
  that counts units of \<open>2^-32\<close>. Its operators are the unchecked primitive ones.
\<close>

datatype Fp32 = Fp32 (fp: nat)

definition FP32_ONE :: nat where "FP32_ONE = 2 ^ 32"

definition wrap_u128 :: "nat \<Rightarrow> Fp32" where
  "wrap_u128 n = Fp32 n"

definition as_decimal_u64 :: "Fp32 \<Rightarrow> nat option" where
  "as_decimal_u64 x =
     (let res = fp x div FP32_ONE in if res > 2 ^ 64 - 1 then None else Some res)"

text \<open>
  The source negates the low 32 bits, \<open>(!(self.0 as u32)).wrapping_add(1)\<close>, to find the distance
  to the next multiple of \<open>2^32\<close>.
\<close>

definition as_decimal_u64_ceil :: "Fp32 \<Rightarrow> nat option" where
  "as_decimal_u64_ceil x =
     (let add_one = unat (NOT (of_nat (fp x) :: 32 word) + 1)
      in Option.bind (checked_add 128 (fp x) add_one) (\<lambda>n. as_decimal_u64 (Fp32 n)))"

definition downcast_u64 :: "Fp32 \<Rightarrow> nat option" where
  "downcast_u64 x = (if fp x > 2 ^ 64 - 1 then None else Some (fp x))"

definition upcast_fp32 :: "nat \<Rightarrow> Fp32" where
  "upcast_fp32 n = Fp32 n"

definition fp32_from :: "nat \<Rightarrow> ('e, Fp32) res" where
  "fp32_from n = bindE (plain_mul 128 n FP32_ONE) (\<lambda>r. Inr (Fp32 r))"

definition fp32_add :: "Fp32 \<Rightarrow> Fp32 \<Rightarrow> ('e, Fp32) res" where
  "fp32_add a b = bindE (plain_add 128 (fp a) (fp b)) (\<lambda>r. Inr (Fp32 r))"

definition fp32_sub :: "Fp32 \<Rightarrow> Fp32 \<Rightarrow> ('e, Fp32) res" where
  "fp32_sub a b = bindE (plain_sub 128 (fp a) (fp b)) (\<lambda>r. Inr (Fp32 r))"

definition fp32_mul :: "Fp32 \<Rightarrow> Fp32 \<Rightarrow> ('e, Fp32) res" where
  "fp32_mul a b =
     bindE (plain_mul 128 (fp a) (fp b)) (\<lambda>p. bindE (plain_div p FP32_ONE) (\<lambda>r. Inr (Fp32 r)))"

definition fp32_div :: "Fp32 \<Rightarrow> Fp32 \<Rightarrow> ('e, Fp32) res" where
  "fp32_div a b =
     bindE (plain_mul 128 (fp a) FP32_ONE) (\<lambda>p. bindE (plain_div p (fp b)) (\<lambda>r. Inr (Fp32 r)))"

definition fp32_mul_int :: "Fp32 \<Rightarrow> nat \<Rightarrow> ('e, Fp32) res" where
  "fp32_mul_int a n = bindE (plain_mul 128 (fp a) n) (\<lambda>r. Inr (Fp32 r))"

definition fp32_div_int :: "Fp32 \<Rightarrow> nat \<Rightarrow> ('e, Fp32) res" where
  "fp32_div_int a n = bindE (plain_div (fp a) n) (\<lambda>r. Inr (Fp32 r))"

definition decimal_u64_mul :: "Fp32 \<Rightarrow> nat \<Rightarrow> ('e, nat option) res" where
  "decimal_u64_mul a rhs = bindE (fp32_mul_int a rhs) (\<lambda>r. Inr (as_decimal_u64 r))"

definition fp32_u64_div :: "Fp32 \<Rightarrow> nat \<Rightarrow> ('e, nat option) res" where
  "fp32_u64_div a rhs = bindE (fp32_div_int a rhs) (\<lambda>r. Inr (as_decimal_u64 r))"

text \<open>The same law as \<open>Number\<close>, where the intermediate product fits.\<close>

interpretation fp32_fp: fixed_point FP32_ONE fp u128 fp32_mul fp32_div
  by unfold_locales (auto simp: FP32_ONE_def fp32_mul_def fp32_div_def)

subsection \<open>The ceiling\<close>

lemma not_plus_one: "unat (NOT (w :: 32 word) + 1) = (2 ^ 32 - unat w) mod 2 ^ 32"
proof -
  have e: "NOT w + 1 = - w" by (simp add: minus_eq_not_plus_1)
  have w: "unat w < 2 ^ 32" using unsigned_less [of w] by simp
  have "int (unat (- w)) = (- uint w) mod 2 ^ 32" by (simp add: uint_word_ariths)
  also have "\<dots> = (2 ^ 32 - uint w) mod 2 ^ 32"
    by (metis add.commute diff_conv_add_uminus mod_add_self1)
  also have "\<dots> = int ((2 ^ 32 - unat w) mod 2 ^ 32)"
    using w by (simp add: zmod_int of_nat_diff)
  finally have "unat (- w) = (2 ^ 32 - unat w) mod 2 ^ 32" by (simp only: of_nat_eq_iff)
  with e show ?thesis by simp
qed

lemma up_to_multiple: "0 < m \<Longrightarrow> (x + (m - x mod m) mod m) div m = ceil_div x m" for m x :: nat
proof (cases "x mod m = 0")
  case True
  assume m: "0 < m"
  from True obtain q where "x = m * q" by auto
  with m show ?thesis by simp
next
  case False
  assume m: "0 < m"
  let ?q = "x div m" let ?r = "x mod m"
  have x: "x = m * ?q + ?r" by simp
  have r: "0 < ?r" "?r < m" using False m by auto
  then have "(m - ?r) mod m = m - ?r" by simp
  moreover have "x + (m - ?r) = m * Suc ?q" unfolding mult_Suc_right using x r by linarith
  ultimately have "(x + (m - ?r) mod m) div m = Suc ?q" using m
    by (metis nonzero_mult_div_cancel_left less_numeral_extra(3))
  moreover have "ceil_div x m = Suc ?q"
  proof (rule antisym)
    show "ceil_div x m \<le> Suc ?q"
      by (rule ceil_div_least [OF m], unfold mult_Suc_right) (use x r in linarith)
    have "m * ?q < m * ceil_div x m"
      using ceil_div_le [OF m, of x] x r by linarith
    then show "Suc ?q \<le> ceil_div x m" by simp
  qed
  ultimately show ?thesis by simp
qed

lemma as_decimal_u64_ceil_eq:
  assumes "u_range 127 (fp x)"
  shows "as_decimal_u64_ceil x =
    (let c = ceil_div (fp x) FP32_ONE in if u64 c then Some c else None)"
proof -
  let ?a = "(2 ^ 32 - fp x mod 2 ^ 32) mod 2 ^ 32"
  have a: "unat (NOT (of_nat (fp x) :: 32 word) + 1) = ?a"
    by (simp add: not_plus_one unat_of_nat)
  have "?a < 2 ^ 32" by simp
  with assms have u: "u128 (fp x + ?a)" by (simp add: u_range_def)
  have "(fp x + ?a) div FP32_ONE = ceil_div (fp x) FP32_ONE"
    unfolding FP32_ONE_def by (rule up_to_multiple) simp
  with u show ?thesis
    unfolding as_decimal_u64_ceil_def Let_def a checked_add_def
    by (auto simp: as_decimal_u64_def u_range_def)
qed

end
