(* ===== verification/Conversions.thy ===== *)
theory Conversions
  imports Fp32Numbers
begin

text \<open>
  What callers of the unsigned number types rely on: the three conversions of \<open>Number\<close> to \<open>u64\<close>
  bracket the exact value, conversions and byte representations round-trip, a quotient
  multiplied back never gains, and the ceiling of \<open>Fp32\<close> is the ceiling.
\<close>

subsection \<open>Rounding of \<open>Number\<close>\<close>

lemma ceil_div_le_Suc_div: "0 < p \<Longrightarrow> ceil_div a p \<le> Suc (a div p)" for a p :: nat
  by (rule ceil_div_least) (use dividend_less_times_div [of p a] in auto)

lemma half_div_between:
  fixes a p h :: nat
  assumes "0 < p" "h \<le> p - 1"
  shows "a div p \<le> (h + a) div p" "(h + a) div p \<le> ceil_div a p"
  using assms by (auto simp: ceil_div_def intro!: div_le_mono)

text \<open>
  Where \<open>as_u64_ceil\<close> returns, the other two conversions return too; the floor is the largest
  and the ceiling the smallest integer on its side of the exact value, they differ by at most
  one unit, and the rounded value lies between them and within half a unit.
\<close>

theorem number_rounding_bracket:
  assumes e: "-15 \<le> e" "e \<le> 1"
    and c: "as_u64_ceil n e = (Inr c :: ('e, nat) res)"
  defines "p \<equiv> 10 ^ nat (15 + e)"
  shows "\<exists>f r. as_u64 n e = (Inr f :: ('e, nat) res) \<and> as_u64_rounded n e = (Inr r :: ('e, nat) res) \<and>
    f * p \<le> raw n \<and> raw n < (f + 1) * p \<and> raw n \<le> c * p \<and> c * p < raw n + p \<and>
    f \<le> r \<and> r \<le> c \<and> c \<le> f + 1 \<and> 2 * raw n \<le> 2 * r * p + p \<and> 2 * r * p \<le> 2 * raw n + p"
proof -
  have p: "0 < p" by (simp add: p_def)
  define h where "h = (if e = -15 then 0 else p div 2)"
  have h: "h \<le> p - 1" "2 * h \<le> p" "p \<le> 2 * h + 1"
    using p by (auto simp: h_def p_def)
  from c e have u: "u192 (p - 1 + raw n)" and cv: "c = ceil_div (raw n) p" and cu: "u64 c"
    by (auto simp: as_u64_ceil_Inr [OF e] p_def)
  let ?f = "raw n div p" and ?r = "(h + raw n) div p"
  have fr: "?f \<le> ?r" "?r \<le> c" using half_div_between [OF p h(1), of "raw n"] by (simp_all add: cv)
  have ru: "u192 (h + raw n)" using u by (rule u_range_mono) (use h in simp)
  have rv: "as_u64_rounded n e = (Inr ?r :: ('e, nat) res)"
    using ru fr u_range_mono [OF cu fr(2)]
    by (cases "e = -15") (simp_all add: as_u64_rounded_Inr e Let_def h_def p_def)
  have fv: "as_u64 n e = (Inr ?f :: ('e, nat) res)"
    using u_range_mono [OF cu order_trans [OF fr]] by (simp add: as_u64_Inr [OF e] p_def)
  have f1: "?f * p \<le> raw n" and f2: "raw n < (?f + 1) * p"
    using dividend_less_times_div [OF p, of "raw n"] by (auto simp: algebra_simps)
  have "?r * p \<le> h + raw n" and "h + raw n < (?r + 1) * p"
    using dividend_less_times_div [OF p, of "h + raw n"] div_times_less_eq_dividend [of "h + raw n" p]
    by (auto simp: algebra_simps)
  then have r1: "2 * raw n \<le> 2 * ?r * p + p" and r2: "2 * ?r * p \<le> 2 * raw n + p"
    using h unfolding mult.assoc distrib_right by linarith+
  have c1: "raw n \<le> c * p" and c2: "c * p < raw n + p"
    using ceil_div_le [OF p, of "raw n"] ceil_div_less [OF p, of "raw n"] by (simp_all add: cv mult.commute)
  have c3: "c \<le> ?f + 1" using ceil_div_le_Suc_div [OF p, of "raw n"] by (simp add: cv)
  show ?thesis by (intro exI conjI) (rule fv rv f1 f2 c1 c2 fr c3 r1 r2)+
qed

theorem number_rounding_bracket_witness:
  "\<exists>f r. as_u64 (Number 1500000000000001) 0 = (Inr f :: (unit, nat) res) \<and>
    as_u64_rounded (Number 1500000000000001) 0 = (Inr r :: (unit, nat) res) \<and> f \<le> r \<and> r \<le> 2 \<and> 2 \<le> f + 1"
proof -
  have c: "as_u64_ceil (Number 1500000000000001) 0 = (Inr 2 :: (unit, nat) res)"
    by (simp add: u_range_def ONE_def ceil_div_def)
  show ?thesis using number_rounding_bracket [of 0, OF _ _ c] by fastforce
qed

text \<open>
  A \<open>u64\<close> read at a decimal exponent that \<open>Number\<close> can represent converts back to itself, in
  whichever direction the conversion rounds.
\<close>

theorem number_decimal_roundtrip:
  assumes v: "u64 v" and e: "-15 \<le> e" "e \<le> 1"
  shows "\<exists>n. from_decimal v e = (Inr n :: ('e, Number) res) \<and> as_u64 n e = (Inr v :: ('e, nat) res) \<and>
    as_u64_ceil n e = (Inr v :: ('e, nat) res) \<and> as_u64_rounded n e = (Inr v :: ('e, nat) res)"
proof -
  define p :: nat where "p = 10 ^ nat (15 + e)"
  have p: "0 < p" by (simp add: p_def)
  have "p \<le> 10 ^ 16" unfolding p_def by (rule power_increasing) (use e in auto)
  then have "v * p + p \<le> (2 ^ 64 + 1) * 10 ^ 16"
  proof -
    assume a: "p \<le> 10 ^ 16"
    have "v * p + p = (v + 1) * p" by simp
    also have "\<dots> \<le> (2 ^ 64 + 1) * 10 ^ 16"
      by (rule mult_le_mono [OF _ a]) (use v in \<open>simp add: u_range_def\<close>)
    finally show ?thesis .
  qed
  then have u: "u192 (v * p + p)" by (rule u_range_mono [rotated]) (simp add: u_range_def)
  have uv: "u192 (v * p)" "u192 (p - 1 + v * p)" by (rule u_range_mono [OF u], simp)+
  have h: "u192 (p div 2 + v * p)" by (rule u_range_mono [OF u]) simp
  have d: "(p div 2 + v * p) div p = v" using p by simp
  have c: "ceil_div (v * p) p = v" using ceil_div_exact [OF p, of v] by (simp add: mult.commute)
  show ?thesis
    using v uv h d c p
    by (simp add: from_decimal_Inr [OF e] as_u64_Inr [OF e] as_u64_ceil_Inr [OF e]
        as_u64_rounded_Inr [OF e] p_def [symmetric] Let_def)
qed

theorem number_decimal_roundtrip_witness:
  "\<exists>n. from_decimal 12345 (-4) = (Inr n :: (unit, Number) res) \<and>
    as_u64_ceil n (-4) = (Inr 12345 :: (unit, nat) res)"
  using number_decimal_roundtrip [of 12345 "-4"] by (auto simp: u_range_def)

subsection \<open>Bytes\<close>

lemma length_le_bytes: "length (le_bytes k n) = k"
  by (induction k arbitrary: n) simp_all

lemma le_bytes_range: "b \<in> set (le_bytes k n) \<Longrightarrow> b < 256"
  by (induction k arbitrary: n) auto

lemma of_le_bytes_le_bytes: "n < 256 ^ k \<Longrightarrow> of_le_bytes (le_bytes k n) = n"
proof (induction k arbitrary: n)
  case (Suc k)
  then have "n div 256 < 256 ^ k" by (simp add: div_less_iff_less_mult)
  with Suc.IH show ?case by simp
qed simp

lemma le_bytes_of_le_bytes: "\<forall>b \<in> set bs. b < 256 \<Longrightarrow> le_bytes (length bs) (of_le_bytes bs) = bs"
  by (induction bs) auto

text \<open>
  The 24 bytes in which the accounts store a \<open>Number\<close> hold exactly its value: reading back
  what was written gives the number, and every array of 24 bytes is the image of what it reads as.
\<close>

theorem number_bits_roundtrip:
  "(wf_num n \<longrightarrow> length (into_bits n) = 24 \<and> (\<forall>b \<in> set (into_bits n). b < 256) \<and>
      from_bits (into_bits n) = n) \<and>
   (length bs = 24 \<and> (\<forall>b \<in> set bs. b < 256) \<longrightarrow> into_bits (from_bits bs) = bs)"
proof (intro conjI impI ballI; (elim conjE)?)
  assume "wf_num n"
  then have "raw n < 256 ^ 24" by (simp add: wf_num_def u_range_def)
  then show "from_bits (into_bits n) = n"
    by (simp only: into_bits_def from_bits_def of_le_bytes_le_bytes Number.collapse)
next
  fix b assume "b \<in> set (into_bits n)"
  then show "b < 256" unfolding into_bits_def by (rule le_bytes_range)
next
  assume "length bs = 24" "\<forall>b \<in> set bs. b < 256"
  then show "into_bits (from_bits bs) = bs"
    using le_bytes_of_le_bytes [of bs] by (simp only: into_bits_def from_bits_def Number.sel)
qed (simp only: into_bits_def length_le_bytes)

theorem number_bits_roundtrip_witness:
  "from_bits (into_bits (Number 123456789)) = Number 123456789 \<and>
   into_bits (from_bits (replicate 24 7)) = replicate 24 7"
  using number_bits_roundtrip [of "Number 123456789" "replicate 24 7"]
  by (simp add: wf_num_def u_range_def)

subsection \<open>Quotients and products\<close>

text \<open>
  A quotient multiplied back never exceeds the dividend, and falls short of it by less than
  one raw unit of the quotient times the divisor plus one.
\<close>

theorem number_div_mul_no_gain:
  assumes "num_div a b = (Inr q :: ('e, Number) res)" "num_mul q b = (Inr p :: ('e, Number) res)"
  shows "raw p \<le> raw a \<and> raw a * ONE < (raw p + 1) * ONE + raw b"
proof -
  have f: "u192 (raw a * ONE)" "u192 (raw q * raw b)" using assms by auto
  have "raw a * ONE < (raw q + 1) * raw b" by (rule number_fp.div_bounds(2) [OF f(1) assms(1)])
  moreover have "raw q * raw b < (raw p + 1) * ONE"
    by (rule number_fp.mul_bounds(2) [OF f(2) assms(2)])
  ultimately have "raw a * ONE < (raw p + 1) * ONE + raw b" by (simp add: algebra_simps)
  with number_fp.div_mul_le [OF f(1) assms(1) f(2) assms(2)] show ?thesis by simp
qed

theorem number_div_mul_no_gain_witness:
  "raw (Number 999999999999999) \<le> raw (Number 1000000000000000)"
  using number_div_mul_no_gain [of "Number 1000000000000000" "Number 3000000000000000"
      "Number 333333333333333" "Number 999999999999999"]
  by (simp add: ONE_def u_range_def)

subsection \<open>\<open>Fp32\<close>\<close>

text \<open>
  Below \<open>2^127\<close>, \<open>as_decimal_u64_ceil\<close>, which negates the low 32 bits and adds them, is the
  smallest integer at or above the value, and \<open>None\<close> exactly when that is not a \<open>u64\<close>.
\<close>

theorem fp32_ceil_exact:
  assumes "u_range 127 (fp x)"
  shows "as_decimal_u64_ceil x = Some c \<longleftrightarrow>
    fp x \<le> c * FP32_ONE \<and> c * FP32_ONE < fp x + FP32_ONE \<and> u64 c"
proof -
  have p: "0 < FP32_ONE" by (simp add: FP32_ONE_def)
  have uniq: "c = ceil_div (fp x) FP32_ONE" if "fp x \<le> c * FP32_ONE" "c * FP32_ONE < fp x + FP32_ONE"
  proof (rule antisym)
    show "ceil_div (fp x) FP32_ONE \<le> c" using that(1) by (intro ceil_div_least [OF p]) (simp add: mult.commute)
    have "FP32_ONE * c < FP32_ONE * (ceil_div (fp x) FP32_ONE + 1)"
      using that(2) ceil_div_le [OF p, of "fp x"] by (simp add: algebra_simps)
    then have "c < ceil_div (fp x) FP32_ONE + 1" by (simp only: mult_less_cancel1)
    then show "c \<le> ceil_div (fp x) FP32_ONE" by simp
  qed
  moreover have "fp x \<le> ceil_div (fp x) FP32_ONE * FP32_ONE"
    "ceil_div (fp x) FP32_ONE * FP32_ONE < fp x + FP32_ONE"
    using ceil_div_le [OF p, of "fp x"] ceil_div_less [OF p, of "fp x"] by (simp_all add: mult.commute)
  ultimately show ?thesis
    unfolding as_decimal_u64_ceil_eq [OF assms] Let_def by auto
qed

theorem fp32_ceil_exact_witness: "as_decimal_u64_ceil (Fp32 4294967297) = Some 2"
  using fp32_ceil_exact [of "Fp32 4294967297" 2] by (simp add: u_range_def FP32_ONE_def)

end
