(* ===== verification/Interest.thy ===== *)
theory Interest
  imports Fp32Numbers
begin

text \<open>
  Interest arithmetic: the Taylor expansion \<open>expm1_approx\<close> (\<open>program-common/src/functions.rs\<close>),
  compounding and interpolation of the margin pool (\<open>programs/margin-pool/src/util.rs\<close>), and the
  integer pricers of \<open>program-common/src/interest_pricing.rs\<close>. The pricers over \<open>f64\<close> are not
  modelled.

  \<open>interpolate_ok\<close>, \<open>expm1_ok\<close> and \<open>compound_interest_ok\<close> say when the routines do not panic and
  bound their results.
\<close>

subsection \<open>The exponential\<close>

definition expm1_step :: "Number \<Rightarrow> nat \<Rightarrow> Number \<times> Number \<times> nat \<Rightarrow> ('e, Number \<times> Number \<times> nat) res" where
  "expm1_step x k = (\<lambda>(z, acc, fac).
     bindE (num_mul z x) (\<lambda>z'.
     bindE (plain_mul 64 fac k) (\<lambda>fac'.
     bindE (num_div_int z' fac') (\<lambda>t.
     bindE (num_add acc t) (\<lambda>acc'.
     Inr (z', acc', fac'))))))"

definition expm1_approx :: "Number \<Rightarrow> nat \<Rightarrow> ('e, Number) res" where
  "expm1_approx x terms =
     (if terms = 0 then num_from 0
      else if terms = 1 then Inr x
      else bindE (foldE (expm1_step x) [2..<terms + 1] (x, x, 1)) (\<lambda>(z, acc, fac). Inr acc))"

text \<open>
  For \<open>x\<close> at most one and up to twenty terms (\<open>20!\<close> is the last factorial below \<open>2^64\<close>): the
  power stays below \<open>x\<close> and the sum below \<open>2 x\<close>.
\<close>

definition expm1_inv :: "Number \<Rightarrow> nat \<Rightarrow> Number \<times> Number \<times> nat \<Rightarrow> bool" where
  "expm1_inv x k = (\<lambda>(z, acc, fac).
     raw z \<le> raw x \<and> raw x \<le> raw acc \<and> raw acc + raw x div 2 ^ (k - 1) \<le> 2 * raw x \<and> fac = fact k)"

lemma pow2_le_fact: "(2::nat) ^ k \<le> fact (Suc k)"
proof (induction k)
  case (Suc k)
  have "(2::nat) ^ Suc k = 2 * 2 ^ k" by simp
  also have "\<dots> \<le> Suc (Suc k) * fact (Suc k)" by (rule mult_le_mono) (simp, rule Suc)
  finally show ?case by simp
qed simp

lemma fact_u64: "k \<le> 20 \<Longrightarrow> u64 (fact k)"
proof -
  assume "k \<le> 20"
  then have "(fact k :: nat) \<le> fact 20" by (rule fact_mono_nat)
  also have "(fact 20 :: nat) = 2432902008176640000" by (simp add: fact_numeral)
  finally show ?thesis by (simp add: u_range_def)
qed

lemma expm1_step_inv:
  assumes inv: "expm1_inv x k s" and k: "1 \<le> k" "k < 20" and x: "raw x \<le> ONE"
  shows "\<exists>t. expm1_step x (Suc k) s = (Inr t :: ('e, _) res) \<and> expm1_inv x (Suc k) t"
proof -
  obtain z acc fac where s: "s = (z, acc, fac)" by (cases s)
  from inv have z: "raw z \<le> raw x" and a: "raw x \<le> raw acc"
      "raw acc + raw x div 2 ^ (k - 1) \<le> 2 * raw x" and f: "fac = fact k"
    by (auto simp: s expm1_inv_def)
  let ?z = "raw z * raw x div ONE"
  have zx: "raw z * raw x \<le> ONE * ONE" using z x by (intro mult_le_mono) auto
  then have u1: "u192 (raw z * raw x)"
    by (rule u_range_mono [rotated]) (simp add: u_range_def ONE_def)
  have "?z \<le> raw x * ONE div ONE"
    by (rule div_le_mono, rule mult_le_mono) (use z x in auto)
  then have z': "?z \<le> raw x" by (simp add: ONE_def)
  have fk: "fact k * Suc k = (fact (Suc k) :: nat)" by simp
  have u2: "u64 (fact k * Suc k)" unfolding fk by (rule fact_u64) (use k in simp)
  let ?t = "?z div fact (Suc k)"
  have "?t \<le> raw x div fact (Suc k)" by (rule div_le_mono [OF z'])
  also have "\<dots> \<le> raw x div 2 ^ k" by (rule div_le_mono2) (simp, rule pow2_le_fact)
  finally have t: "?t \<le> raw x div 2 ^ k" .
  have half: "2 * (raw x div 2 ^ k) \<le> raw x div 2 ^ (k - 1)"
  proof -
    have "(2::nat) ^ k = 2 ^ (k - 1) * 2" using k by (cases k) auto
    then have "raw x div 2 ^ k = raw x div 2 ^ (k - 1) div 2" by (simp add: div_mult2_eq)
    then show ?thesis by simp
  qed
  have acc: "raw acc + ?t + raw x div 2 ^ k \<le> 2 * raw x" using a(2) t half by linarith
  have "raw acc + ?t \<le> 2 * ONE" using acc x by linarith
  then have u3: "u192 (raw acc + ?t)"
    by (rule u_range_mono [rotated]) (simp add: u_range_def ONE_def)
  show ?thesis
    using u1 u2 u3 acc a(1) z'
    by (auto simp: s f expm1_step_def expm1_inv_def fk [symmetric] simp del: fact_Suc)
qed

lemma expm1_loop_inv:
  assumes "1 \<le> k" "k \<le> m" "m \<le> 20" "raw x \<le> ONE" "expm1_inv x k s"
  shows "\<exists>t. foldE (expm1_step x) [Suc k..<Suc m] s = (Inr t :: ('e, _) res) \<and> expm1_inv x m t"
  using assms
proof (induction "m - k" arbitrary: k s)
  case (Suc d)
  then have km: "k < m" by simp
  then obtain t where t: "expm1_step x (Suc k) s = (Inr t :: ('e, _) res)" "expm1_inv x (Suc k) t"
    using expm1_step_inv [OF Suc.prems(5)] Suc.prems by auto
  have "[Suc k..<Suc m] = Suc k # [Suc (Suc k)..<Suc m]" using km by (simp add: upt_conv_Cons)
  then have "foldE (expm1_step x) [Suc k..<Suc m] s =
    (foldE (expm1_step x) [Suc (Suc k)..<Suc m] t :: ('e, _) res)"
    by (simp only: foldE.simps t(1) bindE_simps)
  moreover have "\<exists>u. foldE (expm1_step x) [Suc (Suc k)..<Suc m] t = (Inr u :: ('e, _) res) \<and> expm1_inv x m u"
    by (rule Suc.hyps(1)) (use Suc.hyps(2) Suc.prems km t in auto)
  ultimately show ?case by simp
qed simp

theorem expm1_ok:
  assumes "1 \<le> terms" "terms \<le> 20" "raw x \<le> ONE"
  shows "\<exists>y. expm1_approx x terms = (Inr y :: ('e, _) res) \<and> raw x \<le> raw y \<and> raw y \<le> 2 * raw x"
proof -
  have "expm1_inv x 1 (x, x, 1)" by (simp add: expm1_inv_def)
  from expm1_loop_inv [OF _ assms(1,2,3) this] obtain t where
    "foldE (expm1_step x) [Suc 1..<Suc terms] (x, x, 1) = (Inr t :: ('e, _) res)" "expm1_inv x terms t"
    by (auto simp del: upt_Suc)
  moreover obtain z acc fac where t: "t = (z, acc, fac)" by (cases t)
  ultimately have "foldE (expm1_step x) [2..<terms + 1] (x, x, 1) = (Inr (z, acc, fac) :: ('e, _) res)"
    and a: "raw x \<le> raw acc" "raw acc \<le> 2 * raw x"
    by (auto simp: expm1_inv_def numeral_2_eq_2 simp del: upt_Suc)
  then have "terms \<noteq> 1 \<Longrightarrow> expm1_approx x terms = (Inr acc :: ('e, _) res)"
    using assms(1) by (simp add: expm1_approx_def del: upt_Suc)
  with a show ?thesis by (cases "terms = 1") (auto simp: expm1_approx_def)
qed

subsection \<open>Compounding\<close>

definition SECONDS_PER_HOUR :: int where "SECONDS_PER_HOUR = 3600"
definition SECONDS_PER_2H :: int where "SECONDS_PER_2H = SECONDS_PER_HOUR * 2"
definition SECONDS_PER_12H :: int where "SECONDS_PER_12H = SECONDS_PER_HOUR * 12"
definition SECONDS_PER_DAY :: int where "SECONDS_PER_DAY = SECONDS_PER_HOUR * 24"
definition SECONDS_PER_WEEK :: int where "SECONDS_PER_WEEK = SECONDS_PER_DAY * 7"
definition SECONDS_PER_YEAR :: int where "SECONDS_PER_YEAR = 31536000"
definition MAX_ACCRUAL_SECONDS :: int where "MAX_ACCRUAL_SECONDS = SECONDS_PER_WEEK"

lemmas seconds_defs = SECONDS_PER_HOUR_def SECONDS_PER_2H_def SECONDS_PER_12H_def
  SECONDS_PER_DAY_def SECONDS_PER_WEEK_def SECONDS_PER_YEAR_def MAX_ACCRUAL_SECONDS_def

definition compound_interest :: "Number \<Rightarrow> int \<Rightarrow> ('e, Number) res" where
  "compound_interest rate seconds =
     bindE (num_mul_int num_ONE 2) (\<lambda>two.
     if rate > two then panic
     else
       bindE (if seconds \<le> SECONDS_PER_2H then Inr 5
              else if seconds \<le> SECONDS_PER_12H then Inr 6
              else if seconds \<le> SECONDS_PER_DAY then Inr 7
              else if seconds \<le> SECONDS_PER_WEEK then Inr 10
              else panic) (\<lambda>terms.
       bindE (bindE (u192_of_int seconds) (num_mul_int rate)) (\<lambda>rs.
       bindE (bindE (u192_of_int SECONDS_PER_YEAR) (num_div_int rs)) (\<lambda>x.
       expm1_approx x terms))))"

lemma compound_interest_ok:
  assumes "raw rate \<le> 2 * ONE" "0 \<le> seconds" "seconds \<le> SECONDS_PER_WEEK"
  shows "\<exists>y. compound_interest rate seconds = (Inr y :: ('e, _) res) \<and>
    raw rate * nat seconds div 31536000 \<le> raw y \<and>
    raw y \<le> 2 * (raw rate * nat seconds div 31536000)"
proof -
  let ?x = "Number (raw rate * nat seconds div 31536000)"
  have s: "nat seconds \<le> 604800" using assms(3) by (simp add: seconds_defs)
  have rs: "raw rate * nat seconds \<le> 2 * ONE * 604800" by (rule mult_le_mono [OF assms(1) s])
  then have u: "u192 (raw rate * nat seconds)"
    by (rule u_range_mono [rotated]) (simp add: u_range_def ONE_def)
  have "raw ?x \<le> 2 * ONE * 604800 div 31536000" using rs by (simp add: div_le_mono)
  then have x: "raw ?x \<le> ONE" by (simp add: ONE_def)
  have "\<exists>n. (if seconds \<le> SECONDS_PER_2H then Inr 5
      else if seconds \<le> SECONDS_PER_12H then Inr 6
      else if seconds \<le> SECONDS_PER_DAY then Inr 7
      else if seconds \<le> SECONDS_PER_WEEK then Inr 10 else panic) = (Inr n :: ('e, nat) res)
      \<and> 1 \<le> n \<and> n \<le> 20"
    using assms(3) by simp
  then obtain n where n: "(if seconds \<le> SECONDS_PER_2H then Inr 5
      else if seconds \<le> SECONDS_PER_12H then Inr 6
      else if seconds \<le> SECONDS_PER_DAY then Inr 7
      else if seconds \<le> SECONDS_PER_WEEK then Inr 10 else panic) = (Inr n :: ('e, nat) res)"
      "1 \<le> n" "n \<le> 20" by blast
  have "compound_interest rate seconds =
      bindE (Inr n :: ('e, nat) res) (\<lambda>terms. expm1_approx ?x terms)"
    unfolding n(1) [symmetric] using assms u
    by (simp add: compound_interest_def u192_of_int_def SECONDS_PER_YEAR_def less_Number_def
        num_ONE_def ONE_def u_range_def)
  with expm1_ok [OF n(2,3) x] show ?thesis by simp
qed

subsection \<open>Linear interpolation\<close>

definition interpolate :: "Number \<Rightarrow> Number \<Rightarrow> Number \<Rightarrow> Number \<Rightarrow> Number \<Rightarrow> ('e, Number) res" where
  "interpolate x x0 x1 y0 y1 =
     bindE (assertE (x \<ge> x0)) (\<lambda>_.
     bindE (assertE (x \<le> x1)) (\<lambda>_.
     bindE (num_sub x x0) (\<lambda>dx.
     bindE (num_sub y1 y0) (\<lambda>dy.
     bindE (num_mul dx dy) (\<lambda>p.
     bindE (num_sub x1 x0) (\<lambda>w.
     bindE (num_div p w) (\<lambda>q.
     num_add y0 q)))))))"

lemma interpolate_bounds [ok_dest]:
  assumes "interpolate x x0 x1 y0 y1 = Inr y"
  shows "raw y0 \<le> raw y \<and> raw y \<le> raw y1"
proof -
  from assms have x: "raw x0 \<le> raw x" "raw x \<le> raw x1" and y: "raw y0 \<le> raw y1"
    and w: "raw x1 - raw x0 \<noteq> 0"
    and e: "raw y = raw y0 + (raw x - raw x0) * (raw y1 - raw y0) div ONE * ONE div (raw x1 - raw x0)"
    by (auto simp: interpolate_def less_eq_Number_def)
  let ?dx = "raw x - raw x0" and ?dy = "raw y1 - raw y0" and ?w = "raw x1 - raw x0"
  have "?dx * ?dy div ONE * ONE div ?w \<le> ?dx * ?dy div ?w"
    by (rule div_le_mono) (simp add: div_times_less_eq_dividend)
  also have "\<dots> \<le> ?w * ?dy div ?w"
    by (rule div_le_mono, rule mult_le_mono) (use x in auto)
  also have "\<dots> = ?dy" using w by simp
  finally show ?thesis using y e by linarith
qed

text \<open>Inputs up to \<open>1000\<close> in absolute size leave room in the 192-bit intermediate products.\<close>

lemma interpolate_ok:
  assumes "raw x0 \<le> raw x" "raw x \<le> raw x1" "raw x0 < raw x1" "raw y0 \<le> raw y1"
    and b: "raw x1 \<le> 1000 * ONE" "raw y1 \<le> 1000 * ONE"
  shows "\<exists>y. interpolate x x0 x1 y0 y1 = Inr y"
proof -
  let ?dx = "raw x - raw x0" and ?dy = "raw y1 - raw y0" and ?w = "raw x1 - raw x0"
  have p: "?dx * ?dy \<le> (1000 * ONE) * (1000 * ONE)"
    by (rule mult_le_mono) (use assms in auto)
  then have u1: "u192 (?dx * ?dy)"
    by (rule u_range_mono [rotated]) (simp add: u_range_def ONE_def)
  have "?dx * ?dy div ONE * ONE \<le> ?dx * ?dy" by (simp add: div_times_less_eq_dividend)
  then have u2: "u192 (?dx * ?dy div ONE * ONE)" using u1 by (rule u_range_mono [rotated])
  have "?dx * ?dy div ONE * ONE div ?w \<le> ?dx * ?dy"
    by (meson div_le_dividend div_times_less_eq_dividend le_trans)
  then have "raw y0 + ?dx * ?dy div ONE * ONE div ?w \<le> 1000 * ONE + (1000 * ONE) * (1000 * ONE)"
    using p assms(4) b(2) by linarith
  then have u3: "u192 (raw y0 + ?dx * ?dy div ONE * ONE div ?w)"
    by (rule u_range_mono [rotated]) (simp add: u_range_def ONE_def)
  show ?thesis using assms u1 u2 u3 by (simp add: interpolate_def less_eq_Number_def)
qed

subsection \<open>Linear pricing\<close>

text \<open>
  \<open>SECONDS_PER_YEAR\<close> of \<open>interest_pricing.rs\<close> is a constant of its own.
\<close>

definition PRICER_SECONDS_PER_YEAR :: nat where "PRICER_SECONDS_PER_YEAR = 31536000"

definition linear_rate_to_price_number :: "nat \<Rightarrow> nat \<Rightarrow> ('e, nat) res" where
  "linear_rate_to_price_number interest_rate tenor =
     bindE (bindE (num_from tenor) (\<lambda>t. num_div_int t PRICER_SECONDS_PER_YEAR)) (\<lambda>year_proportion.
     bindE (bindE (num_from interest_rate) (\<lambda>r. num_div_int r 10000)) (\<lambda>rate.
     bindE (bindE (num_mul rate year_proportion) (num_add num_ONE)) (\<lambda>growth.
     bindE (bindE (num_div num_ONE growth) (\<lambda>q. num_mul_int q FP32_ONE)) (\<lambda>price.
     bindE (as_u128 price 0) (\<lambda>v.
     unwrap (downcast_u64 (wrap_u128 v)))))))"

definition price_to_linear_rate_number :: "nat \<Rightarrow> nat \<Rightarrow> ('e, nat) res" where
  "price_to_linear_rate_number price tenor =
     bindE (bindE (num_from tenor) (\<lambda>t. num_div_int t PRICER_SECONDS_PER_YEAR)) (\<lambda>year_proportion.
     bindE (bindE (num_from price) (\<lambda>p. num_div_int p FP32_ONE)) (\<lambda>price.
     bindE (bindE (bindE (num_sub num_ONE price) (\<lambda>d. num_div d year_proportion))
              (\<lambda>q. num_mul q price)) (\<lambda>rate.
     bindE (num_mul_int rate 10000) (\<lambda>r. as_u64 r 0))))"

end
