(* ===== verification/Pricing.thy ===== *)
theory Pricing
  imports Interest
begin

text \<open>
  Properties of the interest arithmetic: compounding stays within twice the simple interest, and
  the linear pricer that turns rates into prices is total, bounded by one and decreasing, while
  the one that turns prices into rates is not its inverse.
\<close>

subsection \<open>From rates to prices\<close>

definition linear_growth :: "nat \<Rightarrow> nat \<Rightarrow> nat" where
  "linear_growth rate tenor = ONE + rate * ONE div 10000 * (tenor * ONE div PRICER_SECONDS_PER_YEAR) div ONE"

lemma linear_growth_range:
  assumes "u64 rate" "u64 tenor"
  shows "u192 (rate * ONE div 10000 * (tenor * ONE div PRICER_SECONDS_PER_YEAR))"
    and "u192 (linear_growth rate tenor)"
proof -
  have "rate * ONE div 10000 \<le> (2 ^ 64 - 1) * ONE div 10000"
    by (intro div_le_mono mult_le_mono1) (use assms(1) in \<open>simp add: u_range_def\<close>)
  moreover have "tenor * ONE div PRICER_SECONDS_PER_YEAR \<le> (2 ^ 64 - 1) * ONE div PRICER_SECONDS_PER_YEAR"
    by (intro div_le_mono mult_le_mono1) (use assms(2) in \<open>simp add: u_range_def\<close>)
  ultimately have le: "rate * ONE div 10000 * (tenor * ONE div PRICER_SECONDS_PER_YEAR) \<le>
      (2 ^ 64 - 1) * ONE div 10000 * ((2 ^ 64 - 1) * ONE div PRICER_SECONDS_PER_YEAR)"
    by (rule mult_le_mono)
  show u: "u192 (rate * ONE div 10000 * (tenor * ONE div PRICER_SECONDS_PER_YEAR))"
    by (rule u_range_mono [OF _ le]) (simp add: u_range_def ONE_def PRICER_SECONDS_PER_YEAR_def)
  have "linear_growth rate tenor \<le> ONE + rate * ONE div 10000 * (tenor * ONE div PRICER_SECONDS_PER_YEAR)"
    by (simp add: linear_growth_def)
  also have "\<dots> \<le> ONE + (2 ^ 64 - 1) * ONE div 10000 * ((2 ^ 64 - 1) * ONE div PRICER_SECONDS_PER_YEAR)"
    using le by simp
  finally show "u192 (linear_growth rate tenor)"
    by (rule u_range_mono [rotated]) (simp add: u_range_def ONE_def PRICER_SECONDS_PER_YEAR_def)
qed

lemma linear_growth_mono:
  "rate \<le> rate' \<Longrightarrow> tenor \<le> tenor' \<Longrightarrow> linear_growth rate tenor \<le> linear_growth rate' tenor'"
  unfolding linear_growth_def by (intro add_left_mono div_le_mono mult_le_mono mult_le_mono1) auto

lemma as_u128_0_Inr: "as_u128 n 0 = Inr v \<longleftrightarrow> v = raw n div ONE \<and> u128 v"
  by (auto simp: as_u128_def ten_pow_eq u192_defs ONE_def U128_MAX_def u_range_def split: if_splits)

lemma linear_rate_to_price_eq:
  assumes "u64 rate" "u64 tenor"
  shows "linear_rate_to_price_number rate tenor =
    (Inr (ONE * ONE div linear_growth rate tenor * FP32_ONE div ONE) :: ('e, nat) res)"
proof -
  let ?g = "linear_growth rate tenor"
  note u = linear_growth_range [OF assms]
  have g: "ONE \<le> ?g" by (simp add: linear_growth_def)
  then have "ONE * ONE div ?g \<le> ONE * ONE div ONE" by (intro div_le_mono2) (simp add: ONE_def)
  then have q: "ONE * ONE div ?g \<le> ONE" by simp
  then have p: "ONE * ONE div ?g * FP32_ONE \<le> ONE * FP32_ONE" by simp
  then have pu: "u192 (ONE * ONE div ?g * FP32_ONE)"
    by (rule u_range_mono [rotated]) (simp add: u_range_def ONE_def FP32_ONE_def)
  have v: "ONE * ONE div ?g * FP32_ONE div ONE \<le> FP32_ONE"
    using div_le_mono [OF p, of ONE] by (simp add: ONE_def)
  then have vu: "ONE * ONE div ?g * FP32_ONE div ONE < 2 ^ 64" by (simp add: FP32_ONE_def)
  have as: "as_u128 (Number (ONE * ONE div ?g * FP32_ONE)) 0 =
      (Inr (ONE * ONE div ?g * FP32_ONE div ONE) :: ('e, nat) res)"
    using vu by (simp add: as_u128_0_Inr u_range_def)
  have g0: "0 < ?g" using g by (simp add: ONE_def)
  have oo: "u192 (ONE * ONE)" by (simp add: u_range_def ONE_def)
  show ?thesis
    using u(1) u(2) [unfolded linear_growth_def] pu [unfolded linear_growth_def] as [unfolded linear_growth_def]
      vu [unfolded linear_growth_def] g0 [unfolded linear_growth_def] oo u64_ONE_u192 [OF assms(1)] u64_ONE_u192 [OF assms(2)]
    by (simp add: linear_rate_to_price_number_def num_ONE_def linear_growth_def wrap_u128_def downcast_u64_def
        PRICER_SECONDS_PER_YEAR_def)
qed

text \<open>
  For every \<open>u64\<close> rate in basis points and every \<open>u64\<close> tenor, \<open>linear_rate_to_price_number\<close>
  returns a price, without panic; the price is at most one (\<open>2^32\<close>), exactly one when the rate
  or the tenor is zero, and never rises when the rate or the tenor does.
\<close>

theorem linear_rate_to_price_total:
  assumes "u64 rate" "u64 tenor"
  shows "\<exists>price. linear_rate_to_price_number rate tenor = (Inr price :: ('e, nat) res) \<and>
    price \<le> FP32_ONE \<and> (rate = 0 \<or> tenor = 0 \<longrightarrow> price = FP32_ONE) \<and>
    (\<forall>rate' tenor' price'. rate \<le> rate' \<and> tenor \<le> tenor' \<and> u64 rate' \<and> u64 tenor' \<and>
       linear_rate_to_price_number rate' tenor' = (Inr price' :: ('e, nat) res) \<longrightarrow> price' \<le> price)"
proof (intro exI conjI impI allI)
  show "linear_rate_to_price_number rate tenor =
      Inr (ONE * ONE div linear_growth rate tenor * FP32_ONE div ONE)"
    by (rule linear_rate_to_price_eq [OF assms])
  have g: "ONE \<le> linear_growth r t" "0 < linear_growth r t" for r t
    by (simp_all add: linear_growth_def ONE_def)
  have "ONE * ONE div linear_growth rate tenor \<le> ONE * ONE div ONE"
    by (rule div_le_mono2) (use g in \<open>auto simp: ONE_def\<close>)
  then have "ONE * ONE div linear_growth rate tenor * FP32_ONE \<le> ONE * FP32_ONE" by simp
  from div_le_mono [OF this, of ONE]
  show "ONE * ONE div linear_growth rate tenor * FP32_ONE div ONE \<le> FP32_ONE" by (simp add: ONE_def)
  show "ONE * ONE div linear_growth rate tenor * FP32_ONE div ONE = FP32_ONE" if "rate = 0 \<or> tenor = 0"
    using that by (auto simp: linear_growth_def ONE_def)
  fix rate' tenor' price'
  assume a: "rate \<le> rate' \<and> tenor \<le> tenor' \<and> u64 rate' \<and> u64 tenor' \<and>
      linear_rate_to_price_number rate' tenor' = (Inr price' :: ('e, nat) res)"
  then have "price' = ONE * ONE div linear_growth rate' tenor' * FP32_ONE div ONE"
    by (auto simp: linear_rate_to_price_eq)
  also have "\<dots> \<le> ONE * ONE div linear_growth rate tenor * FP32_ONE div ONE"
    by (intro div_le_mono mult_le_mono1 div_le_mono2 linear_growth_mono) (use a g in auto)
  finally show "price' \<le> ONE * ONE div linear_growth rate tenor * FP32_ONE div ONE" .
qed

theorem linear_rate_to_price_total_witness:
  "\<exists>price. linear_rate_to_price_number 500 31536000 = (Inr price :: (unit, nat) res) \<and> price \<le> FP32_ONE"
  using linear_rate_to_price_total [of 500 31536000] by (auto simp: u_range_def)

subsection \<open>From prices to rates\<close>

lemma quarter: "(a - p) * p \<le> a * a div 4" for a p :: nat
proof (cases "p \<le> a")
  case True
  have "int (4 * ((a - p) * p)) \<le> int (a * a)"
  proof -
    have "0 \<le> (int a - 2 * int p) * (int a - 2 * int p)" by simp
    then show ?thesis using True by (simp add: of_nat_diff algebra_simps)
  qed
  then have "4 * ((a - p) * p) \<le> a * a" by (simp only: of_nat_le_iff)
  then show ?thesis by simp
qed simp

text \<open>
  \<open>price_to_linear_rate_number\<close> is not the inverse of \<open>linear_rate_to_price_number\<close>: it
  multiplies by the price where the inverse divides, so over a tenor of a year it never
  returns more than 2500 basis points, whatever the price. A rate of 10000 basis points has the price
  one half, which converts back to 2500.
\<close>

theorem price_to_linear_rate_at_most_quarter:
  "(\<forall>price rate. price_to_linear_rate_number price 31536000 = (Inr rate :: ('e, nat) res) \<longrightarrow> rate \<le> 2500) \<and>
   linear_rate_to_price_number 10000 31536000 = (Inr 2147483648 :: ('e, nat) res) \<and>
   price_to_linear_rate_number 2147483648 31536000 = (Inr 2500 :: ('e, nat) res)"
proof (intro conjI allI impI)
  fix price rate
  assume "price_to_linear_rate_number price 31536000 = (Inr rate :: ('e, nat) res)"
  then have r: "rate = (ONE - price * ONE div FP32_ONE) * ONE div ONE * (price * ONE div FP32_ONE) div ONE * 10000 div ONE"
    by (auto simp: price_to_linear_rate_number_def PRICER_SECONDS_PER_YEAR_def num_ONE_def)
  have "(ONE - price * ONE div FP32_ONE) * ONE div ONE * (price * ONE div FP32_ONE) \<le> ONE * ONE div 4"
    using quarter [of ONE] by (simp add: ONE_def)
  then have "(ONE - price * ONE div FP32_ONE) * ONE div ONE * (price * ONE div FP32_ONE) div ONE * 10000 \<le> ONE * ONE div 4 div ONE * 10000"
    by (intro mult_le_mono1 div_le_mono)
  then have "rate \<le> ONE * ONE div 4 div ONE * 10000 div ONE" unfolding r by (rule div_le_mono)
  then show "rate \<le> 2500" by (simp add: ONE_def)
next
  show "linear_rate_to_price_number 10000 31536000 = (Inr 2147483648 :: ('e, nat) res)"
    by (simp add: linear_rate_to_price_eq u_range_def linear_growth_def ONE_def FP32_ONE_def PRICER_SECONDS_PER_YEAR_def)
  show "price_to_linear_rate_number 2147483648 31536000 = (Inr 2500 :: ('e, nat) res)"
    by (simp add: price_to_linear_rate_number_def ONE_def FP32_ONE_def PRICER_SECONDS_PER_YEAR_def num_ONE_def u_range_def)
qed

theorem price_to_linear_rate_at_most_quarter_witness:
  "(2500::nat) \<le> 2500 \<and> linear_rate_to_price_number 10000 31536000 = (Inr 2147483648 :: (unit, nat) res)"
  using price_to_linear_rate_at_most_quarter by blast

subsection \<open>Compounding\<close>

text \<open>
  For a rate of at most 200\% and a period of at most a week \<open>compound_interest\<close> returns,
  and what it returns lies between the simple interest for the period and twice that.
\<close>

theorem compound_interest_bracket:
  assumes "raw rate \<le> 2 * ONE" "0 \<le> seconds" "seconds \<le> MAX_ACCRUAL_SECONDS"
  shows "\<exists>y. compound_interest rate seconds = (Inr y :: ('e, Number) res) \<and>
    raw rate * nat seconds div 31536000 \<le> raw y \<and>
    raw y \<le> 2 * (raw rate * nat seconds div 31536000)"
  by (rule compound_interest_ok) (use assms in \<open>simp_all add: MAX_ACCRUAL_SECONDS_def\<close>)

theorem compound_interest_bracket_witness:
  "\<exists>y. compound_interest (Number 50000000000000) 604800 = (Inr y :: (unit, Number) res)"
  using compound_interest_bracket [of "Number 50000000000000" 604800]
  by (auto simp: seconds_defs ONE_def)

end
