(* ===== verification/PoolState.thy ===== *)
theory PoolState
  imports Interest
begin

unbundle bit_operations_syntax

text \<open>
  The state of a margin pool and its operations, from \<open>programs/margin-pool/src/state.rs\<close> and the
  argument types of \<open>programs/margin-pool/src/lib.rs\<close>. The two byte arrays \<open>borrowed_tokens\<close> and
  \<open>uncollected_fees\<close> hold a \<open>Number\<close> each, which every access reinterprets; the model stores the
  \<open>Number\<close>.
\<close>

subsection \<open>Data\<close>

datatype PoolError =
    Disabled
  | InterestAccrualBehind
  | DepositsOnly
  | InsufficientLiquidity
  | InvalidAmount
  | InvalidPoolPrice
  | InvalidPoolOracle
  | InvalidSetTo
  | RepaymentExceedsTotalOutstanding
  | ExceedsMaxBorrowUtilRatio

type_synonym 'a pool_res = "(PoolError, 'a) res"

record MarginPoolConfig =
  cfg_flags :: nat
  utilization_rate_1 :: nat
  utilization_rate_2 :: nat
  borrow_rate_0 :: nat
  borrow_rate_1 :: nat
  borrow_rate_2 :: nat
  borrow_rate_3 :: nat
  management_fee_rate :: nat
  cfg_reserved :: nat

record MarginPool =
  pool_version :: nat
  pool_bump :: nat
  vault :: Pubkey
  fee_destination :: Pubkey
  deposit_note_mint :: Pubkey
  loan_note_mint :: Pubkey
  token_mint :: Pubkey
  token_price_oracle :: Pubkey
  pool_address :: Pubkey
  config :: MarginPoolConfig
  borrowed_tokens :: Number
  uncollected_fees :: Number
  deposit_tokens :: nat
  deposit_notes :: nat
  loan_notes :: nat
  accrued_until :: int

record FullAmount =
  fa_tokens :: nat
  fa_notes :: nat

datatype PoolAction = Borrow | Deposit | Repay | Withdraw

datatype RoundingDirection = Down | Up

datatype ChangeKind = SetTo | ShiftBy

record TokenChange =
  change_kind :: ChangeKind
  change_tokens :: nat

datatype AmountKind = Tokens | Notes

record Amount =
  amount_kind :: AmountKind
  amount_value :: nat

definition amount_tokens :: "nat \<Rightarrow> Amount" where
  "amount_tokens v = \<lparr>amount_kind = Tokens, amount_value = v\<rparr>"

definition amount_notes :: "nat \<Rightarrow> Amount" where
  "amount_notes v = \<lparr>amount_kind = Notes, amount_value = v\<rparr>"

record PriceResult =
  deposit_note_price :: int
  deposit_note_conf :: nat
  deposit_note_twap :: int
  loan_note_price :: int
  loan_note_conf :: nat
  loan_note_twap :: int

definition DISABLED :: nat where "DISABLED = 1"
definition ALLOW_LENDING :: nat where "ALLOW_LENDING = 2"
definition MAX_POOL_UTIL_RATIO_AFTER_BORROW_BPS :: nat where
  "MAX_POOL_UTIL_RATIO_AFTER_BORROW_BPS = 9500"

text \<open>\<open>PoolFlags::from_bits_truncate\<close>, then \<open>contains\<close>.\<close>

definition pool_flags :: "MarginPool \<Rightarrow> nat" where
  "pool_flags p = cfg_flags (config p) AND (DISABLED OR ALLOW_LENDING)"

definition flags_contain :: "nat \<Rightarrow> nat \<Rightarrow> bool" where
  "flags_contain f m \<longleftrightarrow> f AND m = m"

subsection \<open>Rates\<close>

definition total_value :: "MarginPool \<Rightarrow> Number pool_res" where
  "total_value p = bindE (num_from (deposit_tokens p)) (num_add (borrowed_tokens p))"

definition utilization_rate :: "MarginPool \<Rightarrow> Number pool_res" where
  "utilization_rate p = bindE (total_value p) (num_div (borrowed_tokens p))"

definition deposit_note_exchange_rate :: "MarginPool \<Rightarrow> Number pool_res" where
  "deposit_note_exchange_rate p =
     (let notes = max 1 (deposit_notes p) in
     bindE (total_value p) (\<lambda>tv.
     bindE (num_sub (max num_ONE tv) (uncollected_fees p)) (\<lambda>d.
     bindE (num_from notes) (num_div d))))"

definition loan_note_exchange_rate :: "MarginPool \<Rightarrow> Number pool_res" where
  "loan_note_exchange_rate p =
     (let notes = max 1 (loan_notes p); total_borrowed = max num_ONE (borrowed_tokens p) in
     bindE (num_from notes) (num_div total_borrowed))"

definition interest_rate :: "MarginPool \<Rightarrow> Number pool_res" where
  "interest_rate p =
     (let c = config p in
     bindE (from_bps (borrow_rate_1 c)) (\<lambda>borrow_1.
     if deposit_notes p = 0 then Inr borrow_1
     else
       bindE (utilization_rate p) (\<lambda>util_rate.
       bindE (from_bps (utilization_rate_1 c)) (\<lambda>util_1.
       if util_rate \<le> util_1 then
         bindE (from_bps (borrow_rate_0 c)) (\<lambda>borrow_0.
         interpolate util_rate num_ZERO util_1 borrow_0 borrow_1)
       else
         bindE (from_bps (utilization_rate_2 c)) (\<lambda>util_2.
         bindE (from_bps (borrow_rate_2 c)) (\<lambda>borrow_2.
         if util_rate \<le> util_2 then
           bindE (from_bps (borrow_rate_1 c)) (\<lambda>borrow_1.
           interpolate util_rate util_1 util_2 borrow_1 borrow_2)
         else
           bindE (from_bps (borrow_rate_3 c)) (\<lambda>borrow_3.
           if util_rate < num_ONE then
             interpolate util_rate util_2 num_ONE borrow_2 borrow_3
           else Inr borrow_3)))))))"

subsection \<open>Amounts\<close>

fun direction :: "PoolAction \<Rightarrow> AmountKind \<Rightarrow> RoundingDirection" where
  "direction Borrow Tokens = Up"
| "direction Deposit Notes = Up"
| "direction Repay Notes = Up"
| "direction Withdraw Tokens = Up"
| "direction Borrow Notes = Down"
| "direction Deposit Tokens = Down"
| "direction Repay Tokens = Down"
| "direction Withdraw Notes = Down"

definition convert_with_rounding_and_rate ::
  "Amount \<Rightarrow> RoundingDirection \<Rightarrow> Number \<Rightarrow> FullAmount pool_res" where
  "convert_with_rounding_and_rate amount rounding exchange_rate =
     (case amount_kind amount of
        Tokens \<Rightarrow>
          bindE (bindE (num_from (amount_value amount)) (\<lambda>v. num_div v exchange_rate)) (\<lambda>q.
          bindE (case rounding of Down \<Rightarrow> as_u64 q 0 | Up \<Rightarrow> as_u64_ceil q 0) (\<lambda>notes.
          Inr \<lparr>fa_tokens = amount_value amount, fa_notes = notes\<rparr>))
      | Notes \<Rightarrow>
          bindE (bindE (num_from (amount_value amount)) (\<lambda>v. num_mul v exchange_rate)) (\<lambda>q.
          bindE (case rounding of Down \<Rightarrow> as_u64 q 0 | Up \<Rightarrow> as_u64_ceil q 0) (\<lambda>tokens.
          Inr \<lparr>fa_tokens = tokens, fa_notes = amount_value amount\<rparr>)))"

definition convert_amount :: "MarginPool \<Rightarrow> Amount \<Rightarrow> PoolAction \<Rightarrow> FullAmount pool_res" where
  "convert_amount p amount action =
     bindE (case action of
              Deposit \<Rightarrow> deposit_note_exchange_rate p
            | Withdraw \<Rightarrow> deposit_note_exchange_rate p
            | Repay \<Rightarrow> loan_note_exchange_rate p
            | Borrow \<Rightarrow> loan_note_exchange_rate p) (\<lambda>exchange_rate.
     bindE (convert_with_rounding_and_rate amount (direction action (amount_kind amount)) exchange_rate)
       (\<lambda>a. if fa_notes a = 0 \<and> fa_tokens a > 0 \<or> fa_tokens a = 0 \<and> fa_notes a > 0
            then err InvalidAmount else Inr a))"

definition calculate_set_amount ::
  "MarginPool \<Rightarrow> nat \<Rightarrow> Amount \<Rightarrow> PoolAction \<Rightarrow> FullAmount pool_res" where
  "calculate_set_amount p current_notes_amount target_amount pool_action =
     bindE (convert_amount p target_amount pool_action) (\<lambda>t.
     bindE (case pool_action of
              Borrow \<Rightarrow> ok_or (checked_sub (fa_notes t) current_notes_amount) InvalidSetTo
            | Deposit \<Rightarrow> ok_or (checked_sub (fa_notes t) current_notes_amount) InvalidSetTo
            | Withdraw \<Rightarrow> ok_or (checked_sub current_notes_amount (fa_notes t)) InvalidSetTo
            | Repay \<Rightarrow> ok_or (checked_sub current_notes_amount (fa_notes t)) InvalidSetTo) (\<lambda>delta.
     convert_amount p (amount_notes delta) pool_action))"

definition calculate_full_amount ::
  "MarginPool \<Rightarrow> nat \<Rightarrow> TokenChange \<Rightarrow> PoolAction \<Rightarrow> FullAmount pool_res" where
  "calculate_full_amount p current_notes change action =
     (case change_kind change of
        ShiftBy \<Rightarrow> convert_amount p (amount_tokens (change_tokens change)) action
      | SetTo \<Rightarrow> calculate_set_amount p current_notes (amount_tokens (change_tokens change)) action)"

subsection \<open>State changes\<close>

definition signer_seeds :: "MarginPool \<Rightarrow> (Pubkey \<times> nat) pool_res" where
  "signer_seeds p =
     (if flags_contain (pool_flags p) DISABLED then err Disabled
      else Inr (token_mint p, pool_bump p))"

definition pool_deposit :: "MarginPool \<Rightarrow> FullAmount \<Rightarrow> MarginPool pool_res" where
  "pool_deposit p amount =
     bindE (unwrap (checked_add 64 (deposit_tokens p) (fa_tokens amount))) (\<lambda>t.
     bindE (unwrap (checked_add 64 (deposit_notes p) (fa_notes amount))) (\<lambda>n.
     Inr (p\<lparr>deposit_tokens := t, deposit_notes := n\<rparr>)))"

definition pool_withdraw :: "MarginPool \<Rightarrow> FullAmount \<Rightarrow> MarginPool pool_res" where
  "pool_withdraw p amount =
     bindE (ok_or (checked_sub (deposit_tokens p) (fa_tokens amount)) InsufficientLiquidity) (\<lambda>t.
     bindE (ok_or (checked_sub (deposit_notes p) (fa_notes amount)) InsufficientLiquidity) (\<lambda>n.
     Inr (p\<lparr>deposit_tokens := t, deposit_notes := n\<rparr>)))"

definition pool_borrow :: "MarginPool \<Rightarrow> FullAmount \<Rightarrow> MarginPool pool_res" where
  "pool_borrow p amount =
     (if \<not> flags_contain (pool_flags p) ALLOW_LENDING then err DepositsOnly
      else
        bindE (ok_or (checked_sub (deposit_tokens p) (fa_tokens amount)) InsufficientLiquidity) (\<lambda>t.
        bindE (unwrap (checked_add 64 (loan_notes p) (fa_notes amount))) (\<lambda>n.
        bindE (num_from (fa_tokens amount)) (\<lambda>tokens.
        bindE (num_add (borrowed_tokens p) tokens) (\<lambda>b.
        let p' = p\<lparr>deposit_tokens := t, loan_notes := n, borrowed_tokens := b\<rparr> in
        bindE (utilization_rate p') (\<lambda>util.
        bindE (as_u64 util BPS_EXPONENT) (\<lambda>bps.
        if bps > MAX_POOL_UTIL_RATIO_AFTER_BORROW_BPS then err ExceedsMaxBorrowUtilRatio
        else Inr p')))))))"

definition pool_repay :: "MarginPool \<Rightarrow> FullAmount \<Rightarrow> MarginPool pool_res" where
  "pool_repay p amount =
     bindE (unwrap (checked_add 64 (deposit_tokens p) (fa_tokens amount))) (\<lambda>t.
     bindE (ok_or (checked_sub (loan_notes p) (fa_notes amount)) InsufficientLiquidity) (\<lambda>n.
     bindE (as_u64_ceil (borrowed_tokens p) 0) (\<lambda>outstanding.
     if outstanding < fa_tokens amount then err RepaymentExceedsTotalOutstanding
     else
       bindE (num_from (fa_tokens amount)) (\<lambda>tokens.
       Inr (p\<lparr>deposit_tokens := t, loan_notes := n,
              borrowed_tokens := num_saturating_sub (borrowed_tokens p) tokens\<rparr>)))))"

definition pool_margin_repay ::
  "MarginPool \<Rightarrow> FullAmount \<Rightarrow> FullAmount \<Rightarrow> MarginPool pool_res" where
  "pool_margin_repay p repay_amount withdraw_amount =
     bindE (ok_or (checked_sub (deposit_notes p) (fa_notes withdraw_amount)) InsufficientLiquidity) (\<lambda>d.
     bindE (ok_or (checked_sub (loan_notes p) (fa_notes repay_amount)) InsufficientLiquidity) (\<lambda>n.
     bindE (as_u64_ceil (borrowed_tokens p) 0) (\<lambda>outstanding.
     if outstanding < fa_tokens repay_amount then err RepaymentExceedsTotalOutstanding
     else
       bindE (num_from (fa_tokens repay_amount)) (\<lambda>tokens.
       Inr (p\<lparr>deposit_notes := d, loan_notes := n,
              borrowed_tokens := num_saturating_sub (borrowed_tokens p) tokens\<rparr>)))))"

definition accrue_interest :: "MarginPool \<Rightarrow> int \<Rightarrow> (MarginPool \<times> bool) pool_res" where
  "accrue_interest p time =
     bindE (plain_i 64 (time - accrued_until p)) (\<lambda>time_behind.
     let time_to_accrue = min time_behind MAX_ACCRUAL_SECONDS in
     if time_to_accrue < 0 then panic
     else if time_to_accrue = 0 then Inr (p, True)
     else
       bindE (interest_rate p) (\<lambda>rate.
       bindE (compound_interest rate time_to_accrue) (\<lambda>compound_rate.
       bindE (from_bps (management_fee_rate (config p))) (\<lambda>interest_fee_rate.
       bindE (num_mul (borrowed_tokens p) compound_rate) (\<lambda>new_interest_accrued.
       bindE (num_mul new_interest_accrued interest_fee_rate) (\<lambda>fee_to_collect.
       bindE (num_add (borrowed_tokens p) new_interest_accrued) (\<lambda>b.
       bindE (num_add (uncollected_fees p) fee_to_collect) (\<lambda>f.
       bindE (unwrap (checked_i 64 (accrued_until p + time_to_accrue))) (\<lambda>u.
       Inr (p\<lparr>borrowed_tokens := b, uncollected_fees := f, accrued_until := u\<rparr>,
            time_behind = time_to_accrue))))))))))"

definition collect_accrued_fees :: "MarginPool \<Rightarrow> (MarginPool \<times> nat) pool_res" where
  "collect_accrued_fees p =
     (let uncollected = uncollected_fees p in
     bindE (deposit_note_exchange_rate p) (\<lambda>rate.
     bindE (bindE (num_div uncollected rate) (\<lambda>q. as_u64 q 0)) (\<lambda>fee_notes.
     if fee_notes > 0 then
       bindE (bindE (from_decimal fee_notes 0) (\<lambda>n. num_mul n rate)) (\<lambda>collected_tokens.
       bindE (num_sub uncollected collected_tokens) (\<lambda>remainder.
       bindE (unwrap (checked_add 64 (deposit_notes p) fee_notes)) (\<lambda>n.
       Inr (p\<lparr>uncollected_fees := remainder, deposit_notes := n\<rparr>, fee_notes))))
     else Inr (p, fee_notes))))"

text \<open>
  The two prices of a Pyth feed are arguments: the price with its confidence and the moving
  average, each with its exponent.
\<close>

record PythPrice =
  px_price :: int
  px_conf :: nat
  px_expo :: int
  px_publish_time :: int

definition i64_try_from :: "nat \<Rightarrow> int pool_res" where
  "i64_try_from n = (if n < 2 ^ 63 then Inr (int n) else panic)"

definition calculate_prices :: "MarginPool \<Rightarrow> PythPrice \<Rightarrow> PythPrice \<Rightarrow> PriceResult pool_res" where
  "calculate_prices p price_obj ema_obj =
     bindE (from_decimal_signed (px_price price_obj) (px_expo price_obj)) (\<lambda>price_value.
     bindE (from_decimal (px_conf price_obj) (px_expo price_obj)) (\<lambda>conf_value.
     bindE (from_decimal_signed (px_price ema_obj) (px_expo ema_obj)) (\<lambda>twap_value.
     bindE (deposit_note_exchange_rate p) (\<lambda>deposit_rate.
     bindE (loan_note_exchange_rate p) (\<lambda>loan_rate.
     let scaled = (\<lambda>v rate. bindE (num_mul v rate) (\<lambda>x. as_u64_rounded x (px_expo price_obj))) in
     bindE (bindE (scaled price_value deposit_rate) i64_try_from) (\<lambda>d_price.
     bindE (scaled conf_value deposit_rate) (\<lambda>d_conf.
     bindE (bindE (scaled twap_value deposit_rate) i64_try_from) (\<lambda>d_twap.
     bindE (bindE (scaled price_value loan_rate) i64_try_from) (\<lambda>l_price.
     bindE (scaled conf_value loan_rate) (\<lambda>l_conf.
     bindE (bindE (scaled twap_value loan_rate) i64_try_from) (\<lambda>l_twap.
     Inr \<lparr>deposit_note_price = d_price, deposit_note_conf = d_conf, deposit_note_twap = d_twap,
          loan_note_price = l_price, loan_note_conf = l_conf, loan_note_twap = l_twap\<rparr>)))))))))))"

subsection \<open>Well-formed pools\<close>

definition wf_config :: "MarginPoolConfig \<Rightarrow> bool" where
  "wf_config c \<longleftrightarrow> u64 (cfg_flags c) \<and> u16 (utilization_rate_1 c) \<and> u16 (utilization_rate_2 c) \<and>
     u16 (borrow_rate_0 c) \<and> u16 (borrow_rate_1 c) \<and> u16 (borrow_rate_2 c) \<and>
     u16 (borrow_rate_3 c) \<and> u16 (management_fee_rate c)"

definition wf_pool :: "MarginPool \<Rightarrow> bool" where
  "wf_pool p \<longleftrightarrow> wf_config (config p) \<and> wf_num (borrowed_tokens p) \<and> wf_num (uncollected_fees p) \<and>
     u64 (deposit_tokens p) \<and> u64 (deposit_notes p) \<and> u64 (loan_notes p) \<and>
     i_range 64 (accrued_until p)"

lemmas flag_defs = pool_flags_def flags_contain_def DISABLED_def ALLOW_LENDING_def

end
