(* ===== verification/Pool.thy ===== *)
theory Pool
  imports PoolState
begin

text \<open>
  Properties of the margin pool's state operations: what each operation returns
  (\<open>pool_*_Inr\<close>), that results stay within their integer types (\<open>wf_*\<close>), the direction of
  every rounding, the utilisation limit of a borrow, and interest accrual.
\<close>

subsection \<open>Inversion of the operations\<close>

lemma total_value_Inr [simp]:
  "total_value p = Inr v \<longleftrightarrow> u192 (deposit_tokens p * ONE) \<and>
     u192 (raw (borrowed_tokens p) + deposit_tokens p * ONE) \<and>
     v = Number (raw (borrowed_tokens p) + deposit_tokens p * ONE)"
  by (auto simp: total_value_def)

lemma pool_deposit_Inr [ok_dest]:
  "pool_deposit p a = Inr p' \<longleftrightarrow>
     u64 (deposit_tokens p + fa_tokens a) \<and> u64 (deposit_notes p + fa_notes a) \<and>
     p' = p\<lparr>deposit_tokens := deposit_tokens p + fa_tokens a, deposit_notes := deposit_notes p + fa_notes a\<rparr>"
  by (auto simp: pool_deposit_def)

lemma pool_withdraw_Inr [ok_dest]:
  "pool_withdraw p a = Inr p' \<longleftrightarrow>
     fa_tokens a \<le> deposit_tokens p \<and> fa_notes a \<le> deposit_notes p \<and>
     p' = p\<lparr>deposit_tokens := deposit_tokens p - fa_tokens a, deposit_notes := deposit_notes p - fa_notes a\<rparr>"
  by (auto simp: pool_withdraw_def)

lemma pool_repay_Inr [ok_dest]:
  "pool_repay p a = Inr p' \<longleftrightarrow>
     u64 (deposit_tokens p + fa_tokens a) \<and> fa_notes a \<le> loan_notes p \<and>
     u192 (ONE - 1 + raw (borrowed_tokens p)) \<and> u64 (ceil_div (raw (borrowed_tokens p)) ONE) \<and>
     fa_tokens a \<le> ceil_div (raw (borrowed_tokens p)) ONE \<and> u192 (fa_tokens a * ONE) \<and>
     p' = p\<lparr>deposit_tokens := deposit_tokens p + fa_tokens a, loan_notes := loan_notes p - fa_notes a,
            borrowed_tokens := Number (raw (borrowed_tokens p) - fa_tokens a * ONE)\<rparr>"
  by (auto simp: pool_repay_def num_saturating_sub_def not_less split: if_splits)

lemma pool_margin_repay_Inr [ok_dest]:
  "pool_margin_repay p r w = Inr p' \<longleftrightarrow>
     fa_notes w \<le> deposit_notes p \<and> fa_notes r \<le> loan_notes p \<and>
     u192 (ONE - 1 + raw (borrowed_tokens p)) \<and> u64 (ceil_div (raw (borrowed_tokens p)) ONE) \<and>
     fa_tokens r \<le> ceil_div (raw (borrowed_tokens p)) ONE \<and> u192 (fa_tokens r * ONE) \<and>
     p' = p\<lparr>deposit_notes := deposit_notes p - fa_notes w, loan_notes := loan_notes p - fa_notes r,
            borrowed_tokens := Number (raw (borrowed_tokens p) - fa_tokens r * ONE)\<rparr>"
  by (auto simp: pool_margin_repay_def num_saturating_sub_def not_less split: if_splits)

lemma pool_borrow_Inr [ok_dest]:
  assumes "pool_borrow p a = Inr p'"
  shows "flags_contain (pool_flags p) ALLOW_LENDING"
    and "fa_tokens a \<le> deposit_tokens p"
    and "u64 (loan_notes p + fa_notes a)"
    and "u192 (raw (borrowed_tokens p) + fa_tokens a * ONE)"
    and "p' = p\<lparr>deposit_tokens := deposit_tokens p - fa_tokens a, loan_notes := loan_notes p + fa_notes a,
            borrowed_tokens := Number (raw (borrowed_tokens p) + fa_tokens a * ONE)\<rparr>"
    and "\<exists>util. utilization_rate p' = Inr util \<and>
      raw util div 100000000000 \<le> MAX_POOL_UTIL_RATIO_AFTER_BORROW_BPS"
  using assms by (auto simp: pool_borrow_def Let_def not_less as_u64_bps_Inr split: if_splits)

lemma convert_with_rounding_and_rate_u64:
  "convert_with_rounding_and_rate a r x = Inr f \<Longrightarrow> u64 (amount_value a) \<Longrightarrow>
   u64 (fa_tokens f) \<and> u64 (fa_notes f)"
  by (auto simp: convert_with_rounding_and_rate_def split: AmountKind.splits RoundingDirection.splits)

lemma convert_amount_u64 [range_intro]:
  "convert_amount p a act = Inr f \<Longrightarrow> u64 (amount_value a) \<Longrightarrow> u64 (fa_tokens f) \<and> u64 (fa_notes f)"
  by (auto simp: convert_amount_def dest: convert_with_rounding_and_rate_u64 split: if_splits)

text \<open>A conversion keeps the side it was given and never has exactly one zero side.\<close>

lemma convert_amount_nonzero [ok_dest]:
  "convert_amount p a act = Inr f \<Longrightarrow> (fa_notes f = 0 \<longleftrightarrow> fa_tokens f = 0)"
  by (auto simp: convert_amount_def split: if_splits)

lemma convert_amount_kind [ok_dest]:
  assumes "convert_amount p a act = Inr f"
  shows "amount_kind a = Tokens \<Longrightarrow> fa_tokens f = amount_value a"
    and "amount_kind a = Notes \<Longrightarrow> fa_notes f = amount_value a"
  using assms
  by (auto simp: convert_amount_def convert_with_rounding_and_rate_def
      split: if_splits RoundingDirection.splits)

subsection \<open>Well-formedness\<close>

text \<open>
  A successful accrual over \<open>behind\<close> seconds: either nothing was due, or interest was added for
  \<open>min behind MAX_ACCRUAL_SECONDS\<close> of them.
\<close>

definition accrued_by :: "MarginPool \<Rightarrow> int \<Rightarrow> MarginPool \<Rightarrow> bool" where
  "accrued_by p secs p' \<longleftrightarrow> (\<exists>rate cr fr.
     interest_rate p = Inr rate \<and> compound_interest rate secs = (Inr cr :: Number pool_res) \<and>
     from_bps (management_fee_rate (config p)) = (Inr fr :: Number pool_res) \<and>
     (let i = raw (borrowed_tokens p) * raw cr div ONE; f = i * raw fr div ONE in
      u192 (raw (borrowed_tokens p) + i) \<and> u192 (raw (uncollected_fees p) + f) \<and>
      i_range 64 (accrued_until p + secs) \<and>
      p' = p\<lparr>borrowed_tokens := Number (raw (borrowed_tokens p) + i),
             uncollected_fees := Number (raw (uncollected_fees p) + f),
             accrued_until := accrued_until p + secs\<rparr>))"

lemma accrue_interest_cases:
  assumes "accrue_interest p t = Inr (p', done)"
  obtains (none) behind where "plain_i 64 (t - accrued_until p) = (Inr behind :: int pool_res)"
      "behind = 0" "p' = p" "done"
    | (some) behind where "plain_i 64 (t - accrued_until p) = (Inr behind :: int pool_res)"
      "0 < behind" "accrued_by p (min behind MAX_ACCRUAL_SECONDS) p'"
      "done \<longleftrightarrow> behind \<le> MAX_ACCRUAL_SECONDS"
proof -
  from assms obtain behind where b: "plain_i 64 (t - accrued_until p) = (Inr behind :: int pool_res)"
    by (auto simp: accrue_interest_def)
  define s where "s = min behind MAX_ACCRUAL_SECONDS"
  show thesis
  proof (cases "s = 0")
    case True
    then have "behind = 0" by (simp add: s_def min_def seconds_defs split: if_splits)
    with none [OF b] assms b show ?thesis by (simp add: accrue_interest_def seconds_defs)
  next
    case False
    have "accrue_interest p t = (if s < 0 then panic else if s = 0 then Inr (p, True) else
       bindE (interest_rate p) (\<lambda>rate.
       bindE (compound_interest rate s) (\<lambda>compound_rate.
       bindE (from_bps (management_fee_rate (config p))) (\<lambda>interest_fee_rate.
       bindE (num_mul (borrowed_tokens p) compound_rate) (\<lambda>new_interest_accrued.
       bindE (num_mul new_interest_accrued interest_fee_rate) (\<lambda>fee_to_collect.
       bindE (num_add (borrowed_tokens p) new_interest_accrued) (\<lambda>b.
       bindE (num_add (uncollected_fees p) fee_to_collect) (\<lambda>f.
       bindE (unwrap (checked_i 64 (accrued_until p + s))) (\<lambda>u.
       Inr (p\<lparr>borrowed_tokens := b, uncollected_fees := f, accrued_until := u\<rparr>,
            behind = s))))))))))"
      by (simp only: accrue_interest_def b bindE_simps Let_def s_def)
    with assms False have "\<not> s < 0 \<and> accrued_by p s p' \<and> done = (behind = s)"
      by (auto simp: accrued_by_def Let_def split: if_splits)
    with False some [OF b] show ?thesis by (simp add: s_def min_def split: if_splits)
  qed
qed

lemma accrued_by_frame:
  assumes "accrued_by p s p'"
  shows "pool_version p' = pool_version p" "pool_bump p' = pool_bump p" "vault p' = vault p"
    "fee_destination p' = fee_destination p" "deposit_note_mint p' = deposit_note_mint p"
    "loan_note_mint p' = loan_note_mint p" "token_mint p' = token_mint p"
    "token_price_oracle p' = token_price_oracle p" "pool_address p' = pool_address p"
    "config p' = config p" "deposit_tokens p' = deposit_tokens p"
    "deposit_notes p' = deposit_notes p" "loan_notes p' = loan_notes p"
  using assms by (auto simp: accrued_by_def Let_def)

lemma accrued_by_amounts:
  assumes "accrued_by p s p'"
  shows "raw (borrowed_tokens p) \<le> raw (borrowed_tokens p')"
    and "raw (uncollected_fees p) \<le> raw (uncollected_fees p')"
    and "accrued_until p' = accrued_until p + s"
    and "wf_num (borrowed_tokens p')" "wf_num (uncollected_fees p')" "i_range 64 (accrued_until p + s)"
  using assms by (auto simp: accrued_by_def Let_def wf_num_def)

lemma accrue_interest_frame:
  assumes "accrue_interest p t = Inr (p', done)"
  shows "pool_version p' = pool_version p" "pool_bump p' = pool_bump p" "vault p' = vault p"
    "fee_destination p' = fee_destination p" "deposit_note_mint p' = deposit_note_mint p"
    "loan_note_mint p' = loan_note_mint p" "token_mint p' = token_mint p"
    "token_price_oracle p' = token_price_oracle p" "pool_address p' = pool_address p"
    "config p' = config p" "deposit_tokens p' = deposit_tokens p"
    "deposit_notes p' = deposit_notes p" "loan_notes p' = loan_notes p"
    "raw (borrowed_tokens p) \<le> raw (borrowed_tokens p')"
    "raw (uncollected_fees p) \<le> raw (uncollected_fees p')"
  using assms by (cases rule: accrue_interest_cases; simp add: accrued_by_frame accrued_by_amounts)+

lemma wf_pool_accrue_interest:
  assumes "accrue_interest p t = Inr (p', done)" "wf_pool p"
  shows "wf_pool p'"
  using assms
  by (cases rule: accrue_interest_cases)
    (auto simp: wf_pool_def accrued_by_frame accrued_by_amounts)

text \<open>Collecting divides the fees by the exchange rate and keeps the remainder.\<close>

lemma collect_accrued_fees_Inr:
  assumes "collect_accrued_fees p = Inr (p', n)"
  shows "\<exists>rate. deposit_note_exchange_rate p = Inr rate \<and> 0 < raw rate \<and>
    n = raw (uncollected_fees p) div raw rate \<and> (0 < n \<longrightarrow> u64 (deposit_notes p + n)) \<and>
    p' = (if n = 0 then p
          else p\<lparr>uncollected_fees := Number (raw (uncollected_fees p) mod raw rate),
                 deposit_notes := deposit_notes p + n\<rparr>)"
proof -
  have e: "x * ONE div r div ONE = x div r" for x r :: nat
    by (simp add: div_mult2_eq [symmetric] mult.commute [of r]) (simp add: ONE_def)
  have m: "x div r * ONE * r div ONE = x div r * r" for x r :: nat
    by (simp add: ONE_def)
  from assms obtain rate where r: "deposit_note_exchange_rate p = Inr rate" "0 < raw rate"
    and n: "n = raw (uncollected_fees p) div raw rate"
    and rest: "if n = 0 then p' = p else
      u64 (deposit_notes p + n) \<and>
      p' = p\<lparr>uncollected_fees := Number (raw (uncollected_fees p) - n * ONE * raw rate div ONE),
             deposit_notes := deposit_notes p + n\<rparr>"
  proof -
    from assms [unfolded collect_accrued_fees_def Let_def bindE_Inr_iff]
    obtain rate fee q where r: "deposit_note_exchange_rate p = Inr rate"
      and f: "num_div (uncollected_fees p) rate = (Inr q :: Number pool_res)"
        "as_u64 q 0 = (Inr fee :: nat pool_res)"
      and b: "(if 0 < fee then
         bindE (bindE (from_decimal fee 0) (\<lambda>n. num_mul n rate)) (\<lambda>collected_tokens.
         bindE (num_sub (uncollected_fees p) collected_tokens) (\<lambda>remainder.
         bindE (unwrap (checked_add 64 (deposit_notes p) fee)) (\<lambda>n.
         Inr (p\<lparr>uncollected_fees := remainder, deposit_notes := n\<rparr>, fee))))
         else Inr (p, fee)) = (Inr (p', n) :: (MarginPool \<times> nat) pool_res)"
      by (elim exE conjE) (rule that)
    from f e have "0 < raw rate" "fee = raw (uncollected_fees p) div raw rate" by auto
    moreover from b have "n = fee" by (auto split: if_split_asm)
    ultimately show thesis using that [OF r] b by (auto split: if_split_asm)
  qed
  moreover have "raw (uncollected_fees p) - n * ONE * raw rate div ONE =
      raw (uncollected_fees p) mod raw rate"
    unfolding n m by (rule minus_div_mult_eq_mod)
  ultimately show ?thesis by (auto split: if_splits)
qed

lemma wf_pool_deposit:
  "pool_deposit p a = Inr p' \<Longrightarrow> wf_pool p \<Longrightarrow> wf_pool p'"
  by (auto simp: pool_deposit_Inr wf_pool_def)

lemma wf_pool_withdraw:
  "pool_withdraw p a = Inr p' \<Longrightarrow> wf_pool p \<Longrightarrow> wf_pool p'"
  by (auto simp: pool_withdraw_Inr wf_pool_def intro: u_range_diff)

lemma wf_pool_borrow:
  "pool_borrow p a = Inr p' \<Longrightarrow> wf_pool p \<Longrightarrow> wf_pool p'"
  using pool_borrow_Inr [of p a p'] by (auto simp: wf_pool_def wf_num_def intro: u_range_diff)

lemma wf_pool_repay:
  "pool_repay p a = Inr p' \<Longrightarrow> wf_pool p \<Longrightarrow> wf_pool p'"
  by (auto simp: pool_repay_Inr wf_pool_def wf_num_def intro: u_range_diff)

lemma wf_pool_margin_repay:
  "pool_margin_repay p r w = Inr p' \<Longrightarrow> wf_pool p \<Longrightarrow> wf_pool p'"
  by (auto simp: pool_margin_repay_Inr wf_pool_def wf_num_def intro: u_range_diff)

lemma wf_pool_collect:
  "collect_accrued_fees p = Inr (p', n) \<Longrightarrow> wf_pool p \<Longrightarrow> wf_pool p'"
  by (auto dest!: collect_accrued_fees_Inr simp: wf_pool_def wf_num_def intro: u_range_diff u_range_mod split: if_splits)

lemmas wf_pool_ops = wf_pool_deposit wf_pool_withdraw wf_pool_borrow wf_pool_repay
  wf_pool_margin_repay wf_pool_accrue_interest wf_pool_collect

subsection \<open>Rounding\<close>

text \<open>
  With \<open>r\<close> the exchange rate in units of \<open>10^-15\<close> tokens per note, a conversion rounded down
  stays at or below the exact value and one rounded up is at most one unit of \<open>10^-15\<close> notes
  (tokens) short of it.
\<close>

lemma convert_tokens_down:
  assumes "convert_with_rounding_and_rate (amount_tokens t) Down r = Inr f"
  shows "fa_notes f * raw r \<le> t * ONE" "t * ONE < (fa_notes f + 1) * raw r"
proof -
  let ?q = "t * ONE * ONE div raw r"
  from assms have n: "fa_notes f = ?q div ONE" and r: "0 < raw r"
    by (auto simp: convert_with_rounding_and_rate_def amount_tokens_def)
  have "?q div ONE = t * ONE div raw r"
    by (simp add: div_mult2_eq [symmetric] mult.commute [of "raw r"])
  with n have n: "fa_notes f = t * ONE div raw r" by simp
  show "fa_notes f * raw r \<le> t * ONE" by (simp add: n div_times_less_eq_dividend)
  show "t * ONE < (fa_notes f + 1) * raw r"
    using dividend_less_times_div [OF r, of "t * ONE"] by (simp add: n algebra_simps)
qed

lemma convert_tokens_up:
  assumes "convert_with_rounding_and_rate (amount_tokens t) Up r = Inr f"
  shows "t * ONE * ONE < (fa_notes f * ONE + 1) * raw r"
proof -
  let ?q = "t * ONE * ONE div raw r"
  from assms have n: "fa_notes f = ceil_div ?q ONE" and r: "0 < raw r"
    by (auto simp: convert_with_rounding_and_rate_def amount_tokens_def)
  have "?q \<le> ONE * fa_notes f" unfolding n by (rule ceil_div_le) (simp add: ONE_def)
  moreover have "t * ONE * ONE < (?q + 1) * raw r"
    using dividend_less_times_div [OF r, of "t * ONE * ONE"] by (simp add: algebra_simps)
  moreover have "(?q + 1) * raw r \<le> (fa_notes f * ONE + 1) * raw r"
    by (rule mult_le_mono1) (use calculation(1) in \<open>simp add: mult.commute\<close>)
  ultimately show ?thesis by linarith
qed

lemma convert_notes_down:
  assumes "convert_with_rounding_and_rate (amount_notes n) Down r = Inr f"
  shows "fa_tokens f * ONE \<le> n * raw r"
proof -
  from assms have t: "fa_tokens f = n * ONE * raw r div ONE div ONE"
    by (auto simp: convert_with_rounding_and_rate_def amount_notes_def)
  have "n * ONE * raw r div ONE = n * raw r" by (simp add: ONE_def)
  then show ?thesis by (simp add: t div_times_less_eq_dividend)
qed

lemma convert_notes_up:
  assumes "convert_with_rounding_and_rate (amount_notes n) Up r = Inr f"
  shows "n * raw r \<le> fa_tokens f * ONE"
proof -
  from assms have t: "fa_tokens f = ceil_div (n * ONE * raw r div ONE) ONE"
    by (auto simp: convert_with_rounding_and_rate_def amount_notes_def)
  have "n * ONE * raw r div ONE = n * raw r" by (simp add: ONE_def)
  then show ?thesis unfolding t
    using ceil_div_le [of ONE "n * raw r"] by (simp add: ONE_def mult.commute)
qed

end
