(* ===== verification/PoolSafety.thy ===== *)
theory PoolSafety
  imports Pool
begin

text \<open>
  What the margin pool promises its depositors and borrowers: conversions never favour the user,
  a deposit cannot be turned into a profit, the value of a deposit note does not fall while the
  pool lends, borrows are limited by utilisation, interest accrues without panics and fees are
  collected without loss. \<open>pool_exec\<close> runs one operation with the conversion that precedes it.
\<close>

datatype PoolOp =
    OpDeposit Amount
  | OpWithdraw Amount
  | OpBorrow Amount
  | OpRepay Amount
  | OpMarginRepay Amount
  | OpAccrue int
  | OpCollect

text \<open>
  The instruction handlers compose the conversion and the state change as here; \<open>margin_repay\<close>
  converts the repayment and withdraws the same tokens.
\<close>

fun pool_exec :: "PoolOp \<Rightarrow> MarginPool \<Rightarrow> MarginPool pool_res" where
  "pool_exec (OpDeposit a) p = bindE (convert_amount p a Deposit) (pool_deposit p)"
| "pool_exec (OpWithdraw a) p = bindE (convert_amount p a Withdraw) (pool_withdraw p)"
| "pool_exec (OpBorrow a) p = bindE (convert_amount p a Borrow) (pool_borrow p)"
| "pool_exec (OpRepay a) p = bindE (convert_amount p a Repay) (pool_repay p)"
| "pool_exec (OpMarginRepay a) p =
     bindE (convert_amount p a Repay) (\<lambda>r.
     bindE (convert_amount p (amount_tokens (fa_tokens r)) Withdraw) (pool_margin_repay p r))"
| "pool_exec (OpAccrue t) p = bindE (accrue_interest p t) (\<lambda>(p', done). Inr p')"
| "pool_exec OpCollect p = bindE (collect_accrued_fees p) (\<lambda>(p', n). Inr p')"

text \<open>The amounts of a pool stay within their integer types.\<close>

lemma pool_exec_wf: "pool_exec op p = Inr p' \<Longrightarrow> wf_pool p \<Longrightarrow> wf_pool p'"
  by (cases op) (auto dest: wf_pool_ops)

definition sample_pool :: MarginPool where
  "sample_pool =
     \<lparr>pool_version = 0, pool_bump = 255, vault = 11, fee_destination = 12, deposit_note_mint = 13,
      loan_note_mint = 14, token_mint = 15, token_price_oracle = 16, pool_address = 17,
      config = \<lparr>cfg_flags = 2, utilization_rate_1 = 5000, utilization_rate_2 = 8000,
        borrow_rate_0 = 100, borrow_rate_1 = 400, borrow_rate_2 = 1000, borrow_rate_3 = 10000,
        management_fee_rate = 500, cfg_reserved = 0\<rparr>,
      borrowed_tokens = Number (500 * ONE), uncollected_fees = Number (20 * ONE),
      deposit_tokens = 700, deposit_notes = 1000, loan_notes = 450, accrued_until = 1000\<rparr>"

lemma sample_pool_deposit:
  "pool_exec (OpDeposit (amount_tokens 118)) sample_pool =
     Inr (sample_pool\<lparr>deposit_tokens := 818, deposit_notes := 1100\<rparr>)"
  by (simp add: convert_amount_def deposit_note_exchange_rate_def total_value_def sample_pool_def Let_def
      u_range_def ONE_def num_ONE_def max_def less_eq_Number_def amount_tokens_def
      convert_with_rounding_and_rate_def pool_deposit_def num_add_def num_sub_def num_div_def u192_defs
      as_u64_def ten_pow_eq U64_MAX_def num_from_def)

subsection \<open>Exchange rates\<close>

definition deposit_backing :: "MarginPool \<Rightarrow> nat" where
  "deposit_backing p =
     max ONE (raw (borrowed_tokens p) + deposit_tokens p * ONE) - raw (uncollected_fees p)"

lemma deposit_rate_Inr:
  assumes "deposit_note_exchange_rate p = Inr r"
  shows "raw r = deposit_backing p div max 1 (deposit_notes p)"
    and "raw (uncollected_fees p) \<le> max ONE (raw (borrowed_tokens p) + deposit_tokens p * ONE)"
proof -
  have e: "x * ONE div (n * ONE) = x div n" for x n :: nat by (simp add: ONE_def)
  show "raw r = deposit_backing p div max 1 (deposit_notes p)"
    "raw (uncollected_fees p) \<le> max ONE (raw (borrowed_tokens p) + deposit_tokens p * ONE)"
    using assms unfolding deposit_note_exchange_rate_def Let_def bindE_Inr_iff
    by (auto simp: e deposit_backing_def num_ONE_def simp del: max.bounded_iff)
qed

text \<open>The rate of the notes that an action converts.\<close>

definition action_rate :: "MarginPool \<Rightarrow> PoolAction \<Rightarrow> Number pool_res" where
  "action_rate p action =
     (case action of Deposit \<Rightarrow> deposit_note_exchange_rate p | Withdraw \<Rightarrow> deposit_note_exchange_rate p
      | Repay \<Rightarrow> loan_note_exchange_rate p | Borrow \<Rightarrow> loan_note_exchange_rate p)"

lemma convert_amountE:
  assumes "convert_amount p a action = Inr f"
  obtains r where "action_rate p action = Inr r"
    "convert_with_rounding_and_rate a (direction action (amount_kind a)) r = Inr f"
proof -
  have "convert_amount p a action = bindE (action_rate p action) (\<lambda>r.
      bindE (convert_with_rounding_and_rate a (direction action (amount_kind a)) r)
       (\<lambda>a. if fa_notes a = 0 \<and> fa_tokens a > 0 \<or> fa_tokens a = 0 \<and> fa_notes a > 0
            then err InvalidAmount else Inr a))"
    by (simp only: convert_amount_def action_rate_def)
  from trans [OF sym [OF this] assms] obtain r f' where r: "action_rate p action = Inr r"
    "convert_with_rounding_and_rate a (direction action (amount_kind a)) r = Inr f'"
    "(if fa_notes f' = 0 \<and> fa_tokens f' > 0 \<or> fa_tokens f' = 0 \<and> fa_notes f' > 0
      then err InvalidAmount else Inr f') = (Inr f :: _ pool_res)"
    unfolding bindE_Inr_iff by (elim exE conjE) (rule that)
  then show thesis using that by (auto split: if_split_asm)
qed

lemma amount_cases:
  obtains (by_tokens) v where "a = amount_tokens v" | (by_notes) v where "a = amount_notes v"
  by (cases a; cases "amount_kind a") (auto simp: amount_tokens_def amount_notes_def)

lemma amount_simps [simp]:
  "amount_kind (amount_tokens v) = Tokens" "amount_value (amount_tokens v) = v"
  "amount_kind (amount_notes v) = Notes" "amount_value (amount_notes v) = v"
  by (simp_all add: amount_tokens_def amount_notes_def)

text \<open>
  C29: Whatever the user asks for and in whichever unit, a conversion rounds towards the pool.
  With \<open>r\<close> the value of a note in \<open>10^-15\<close> tokens: depositing or repaying gives notes worth at
  most the tokens paid; withdrawing or borrowing hands out tokens worth at most the notes, up to
  \<open>10^-15\<close> of a note, since the quotient is truncated before it is rounded up. The side the user
  named is kept and no conversion trades something for nothing.
\<close>

theorem conversion_favours_pool:
  assumes "convert_amount p a action = Inr f"
  shows "\<exists>r. action_rate p action = Inr r \<and>
    (action \<in> {Deposit, Repay} \<longrightarrow> fa_notes f * raw r \<le> fa_tokens f * ONE) \<and>
    (action \<in> {Withdraw, Borrow} \<longrightarrow> fa_tokens f * ONE * ONE \<le> (fa_notes f * ONE + 1) * raw r) \<and>
    (if amount_kind a = Tokens then fa_tokens f = amount_value a else fa_notes f = amount_value a) \<and>
    (fa_notes f = 0 \<longleftrightarrow> fa_tokens f = 0)"
proof -
  obtain r where r: "action_rate p action = Inr r"
    and c: "convert_with_rounding_and_rate a (direction action (amount_kind a)) r = Inr f"
    using convert_amountE [OF assms] by blast
  have k: "if amount_kind a = Tokens then fa_tokens f = amount_value a else fa_notes f = amount_value a"
    using convert_amount_kind [OF assms] by (cases "amount_kind a") auto
  have in_pool: "fa_notes f * raw r \<le> fa_tokens f * ONE" if "action \<in> {Deposit, Repay}"
  proof (cases rule: amount_cases [of a])
    case (by_tokens v)
    with that c have "convert_with_rounding_and_rate (amount_tokens v) Down r = Inr f" by auto
    from convert_tokens_down(1) [OF this] k by_tokens show ?thesis by simp
  next
    case (by_notes v)
    with that c have "convert_with_rounding_and_rate (amount_notes v) Up r = Inr f" by auto
    from convert_notes_up [OF this] k by_notes show ?thesis by simp
  qed
  have out_pool: "fa_tokens f * ONE * ONE \<le> (fa_notes f * ONE + 1) * raw r" if "action \<in> {Withdraw, Borrow}"
  proof (cases rule: amount_cases [of a])
    case (by_tokens v)
    with that c have "convert_with_rounding_and_rate (amount_tokens v) Up r = Inr f" by auto
    from convert_tokens_up [OF this] k by_tokens show ?thesis by simp
  next
    case (by_notes v)
    with that c have "convert_with_rounding_and_rate (amount_notes v) Down r = Inr f" by auto
    from convert_notes_down [OF this] k by_notes have "fa_tokens f * ONE \<le> fa_notes f * raw r" by simp
    then have "fa_tokens f * ONE * ONE \<le> fa_notes f * raw r * ONE" by (rule mult_le_mono1)
    also have "fa_notes f * raw r * ONE = fa_notes f * ONE * raw r" by (metis mult.assoc mult.commute)
    also have "\<dots> \<le> (fa_notes f * ONE + 1) * raw r" by simp
    finally show ?thesis .
  qed
  show ?thesis
    by (rule exI [of _ r]) (intro conjI impI r k in_pool out_pool convert_amount_nonzero [OF assms])
qed

lemma sample_pool_convert:
  "convert_amount sample_pool (amount_tokens 118) Deposit = Inr \<lparr>fa_tokens = 118, fa_notes = 100\<rparr>"
  by (simp add: convert_amount_def deposit_note_exchange_rate_def total_value_def sample_pool_def Let_def
      u_range_def ONE_def num_ONE_def max_def less_eq_Number_def amount_tokens_def
      convert_with_rounding_and_rate_def num_add_def num_sub_def num_div_def u192_defs
      as_u64_def ten_pow_eq U64_MAX_def num_from_def)

theorem conversion_favours_pool_witness:
  "\<exists>r. action_rate sample_pool Deposit = Inr r \<and> 100 * raw r \<le> 118 * ONE"
  using conversion_favours_pool [OF sample_pool_convert] by auto

subsection \<open>No profit from depositing\<close>

lemma deposit_backing_deposit:
  assumes "pool_deposit p f = Inr p'"
    and "raw (uncollected_fees p) \<le> max ONE (raw (borrowed_tokens p) + deposit_tokens p * ONE)"
  shows "deposit_backing p' \<le> deposit_backing p + fa_tokens f * ONE"
    and "ONE \<le> raw (borrowed_tokens p) + deposit_tokens p * ONE \<Longrightarrow>
      deposit_backing p' = deposit_backing p + fa_tokens f * ONE"
  using assms by (auto simp: pool_deposit_Inr deposit_backing_def distrib_right max_def)

lemma round_trip_bound:
  fixes D N n t u :: nat
  assumes N: "0 < N" and n: "n * (D div N) \<le> t * u" "0 < n"
    and x: "x * u \<le> n * (D' div (N + n))" "D' \<le> D + t * u" and u: "0 < u"
  shows "x \<le> t + (n - 1) div u"
proof -
  have "D < (D div N + 1) * N" using dividend_less_times_div [OF N, of D] by (simp add: algebra_simps)
  then have "n * D < n * ((D div N + 1) * N)" using n(2) by simp
  also have "\<dots> = n * (D div N) * N + n * N" by (simp add: algebra_simps)
  also have "\<dots> \<le> t * u * N + n * N" using n(1) by simp
  finally have nD: "n * D < t * u * N + n * N" .
  have "x * u * (N + n) \<le> n * (D' div (N + n)) * (N + n)" using x(1) by (rule mult_le_mono1)
  also have "\<dots> \<le> n * D'" by (simp add: mult.assoc div_times_less_eq_dividend)
  also have "\<dots> \<le> n * (D + t * u)" using x(2) by simp
  also have "\<dots> < (t * u + n) * (N + n)" using nD by (simp add: algebra_simps)
  finally have "x * u < t * u + n" by (rule mult_less_cancel2 [THEN iffD1, THEN conjunct2])
  then have "x * u \<le> t * u + (n - 1)" by linarith
  then have "x * u div u \<le> (t * u + (n - 1)) div u" by (rule div_le_mono)
  then show ?thesis using u by (simp del: One_nat_def)
qed

text \<open>
  C30: Depositing into a pool that has depositors and then redeeming the notes received, at the exchange rate the
  deposit leaves behind, returns at most the tokens put in, and one token more for each full \<open>10^15\<close> notes received
  beyond the first note: that is what the rate, truncated to 15 decimals, can add up to. So a deposit for up to
  \<open>10^15\<close> notes gains nothing.
\<close>

theorem deposit_withdraw_no_gain:
  assumes "0 < deposit_notes p"
    and "convert_amount p (amount_tokens t) Deposit = Inr f" "pool_deposit p f = Inr p'"
    and "convert_amount p' (amount_notes (fa_notes f)) Withdraw = Inr g"
  shows "fa_tokens g \<le> t + (fa_notes f - 1) div ONE"
proof (cases "fa_notes f = 0")
  case True
  with convert_amount_nonzero [OF assms(4)] convert_amount_kind(2) [OF assms(4)] show ?thesis by simp
next
  case False
  obtain r where r: "deposit_note_exchange_rate p = Inr r"
    "convert_with_rounding_and_rate (amount_tokens t) Down r = Inr f"
    using convert_amountE [OF assms(2)] by (auto simp: action_rate_def)
  obtain r' where r': "deposit_note_exchange_rate p' = Inr r'"
    "convert_with_rounding_and_rate (amount_notes (fa_notes f)) Down r' = Inr g"
    using convert_amountE [OF assms(4)] by (auto simp: action_rate_def)
  note d = deposit_rate_Inr [OF r(1)] and d' = deposit_rate_Inr [OF r'(1)]
  have nts: "max 1 (deposit_notes p') = deposit_notes p + fa_notes f" "max 1 (deposit_notes p) = deposit_notes p"
    using assms(1,3) by (auto simp: pool_deposit_Inr)
  have ft: "fa_tokens f = t" using convert_amount_kind(1) [OF assms(2)] by simp
  show ?thesis
  proof (rule round_trip_bound [OF assms(1)])
    show "fa_notes f * (deposit_backing p div deposit_notes p) \<le> t * ONE"
      using convert_tokens_down(1) [OF r(2)] d(1) nts by simp
    show "fa_tokens g * ONE \<le> fa_notes f * (deposit_backing p' div (deposit_notes p + fa_notes f))"
      using convert_notes_down [OF r'(2)] d'(1) nts by simp
    show "deposit_backing p' \<le> deposit_backing p + t * ONE"
      using deposit_backing_deposit(1) [OF assms(3) d(2)] ft by simp
  qed (use False in \<open>simp_all add: ONE_def\<close>)
qed

lemma sample_pool_round_trip:
  "pool_deposit sample_pool \<lparr>fa_tokens = 118, fa_notes = 100\<rparr> =
     Inr (sample_pool\<lparr>deposit_tokens := 818, deposit_notes := 1100\<rparr>)"
  "convert_amount (sample_pool\<lparr>deposit_tokens := 818, deposit_notes := 1100\<rparr>) (amount_notes 100) Withdraw =
     Inr \<lparr>fa_tokens = 118, fa_notes = 100\<rparr>"
  by (simp_all add: convert_amount_def deposit_note_exchange_rate_def total_value_def sample_pool_def Let_def
      u_range_def ONE_def num_ONE_def max_def less_eq_Number_def
      convert_with_rounding_and_rate_def num_add_def num_sub_def num_div_def num_mul_def u192_defs
      as_u64_def ten_pow_eq U64_MAX_def num_from_def pool_deposit_def)

theorem deposit_withdraw_no_gain_witness:
  "fa_tokens \<lparr>fa_tokens = 118, fa_notes = 100\<rparr> \<le> 118"
  using deposit_withdraw_no_gain [OF _ sample_pool_convert sample_pool_round_trip(1)]
  by (simp add: sample_pool_round_trip(2) sample_pool_def ONE_def)

subsection \<open>The value of a deposit note\<close>

lemma conversion_down:
  assumes "convert_amount p a Deposit = Inr f" "deposit_note_exchange_rate p = Inr r"
  shows "fa_notes f * raw r \<le> fa_tokens f * ONE"
proof -
  obtain r' where c: "action_rate p Deposit = Inr r'"
    "convert_with_rounding_and_rate a (direction Deposit (amount_kind a)) r' = Inr f"
    using convert_amountE [OF assms(1)] by blast
  with assms(2) have r': "r' = r" by (simp add: action_rate_def)
  show ?thesis
  proof (cases rule: amount_cases [of a])
    case (by_tokens v)
    with c r' have "convert_with_rounding_and_rate (amount_tokens v) Down r = Inr f" by auto
    from convert_tokens_down(1) [OF this] convert_amount_kind(1) [OF assms(1)] by_tokens show ?thesis by simp
  next
    case (by_notes v)
    with c r' have "convert_with_rounding_and_rate (amount_notes v) Up r = Inr f" by auto
    from convert_notes_up [OF this] convert_amount_kind(2) [OF assms(1)] by_notes show ?thesis by simp
  qed
qed

lemma from_bps_Inr: "from_bps b = (Inr x :: ('e, _) res) \<Longrightarrow> raw x = b * 100000000000"
  by (auto simp: from_bps_def from_decimal_def BPS_EXPONENT_def ten_pow_eq u192_defs)

lemma accrue_fee_le:
  assumes "accrue_interest p t = Inr (p', d)" "management_fee_rate (config p) \<le> 10000"
  shows "raw (uncollected_fees p') - raw (uncollected_fees p) \<le> raw (borrowed_tokens p') - raw (borrowed_tokens p)"
  using assms(1)
proof (cases rule: accrue_interest_cases)
  case (some behind)
  then obtain cr fr where fr: "from_bps (management_fee_rate (config p)) = (Inr fr :: Number pool_res)"
    and p': "raw (borrowed_tokens p') = raw (borrowed_tokens p) + raw (borrowed_tokens p) * raw cr div ONE"
      "raw (uncollected_fees p') = raw (uncollected_fees p) + raw (borrowed_tokens p) * raw cr div ONE * raw fr div ONE"
    by (auto simp: accrued_by_def Let_def)
  have "raw fr \<le> ONE" using from_bps_Inr [OF fr] assms(2) by (simp add: ONE_def)
  then have "i * raw fr div ONE \<le> i" for i
    using div_le_mono [OF mult_le_mono2 [of "raw fr" ONE i], of ONE] by (simp add: ONE_def)
  with p' show ?thesis by simp
qed simp

lemma collect_backing:
  assumes "collect_accrued_fees p = Inr (p', n)" "deposit_note_exchange_rate p = Inr r"
  shows "deposit_backing p' = deposit_backing p + n * raw r" "deposit_notes p' = deposit_notes p + n"
proof -
  obtain r' where r': "deposit_note_exchange_rate p = Inr r'" "0 < raw r'"
    "n = raw (uncollected_fees p) div raw r'"
    "p' = (if n = 0 then p
          else p\<lparr>uncollected_fees := Number (raw (uncollected_fees p) mod raw r'),
                 deposit_notes := deposit_notes p + n\<rparr>)"
    using collect_accrued_fees_Inr [OF assms(1)] by blast
  with assms(2) have e: "r' = r" by simp
  have "raw (uncollected_fees p) = n * raw r + raw (uncollected_fees p) mod raw r"
    using r'(3) by (simp add: e)
  then show "deposit_backing p' = deposit_backing p + n * raw r" "deposit_notes p' = deposit_notes p + n"
    using r'(4) deposit_rate_Inr(2) [OF assms(2)] by (auto simp: e deposit_backing_def)
qed

text \<open>The rate does not fall when the backing grows by the value of the new notes.\<close>

lemma rate_grows_with_backing:
  assumes rates: "deposit_note_exchange_rate p = Inr r" "deposit_note_exchange_rate p' = Inr r'"
    and backing: "deposit_backing p + n * (deposit_backing p div max 1 (deposit_notes p)) \<le> deposit_backing p'"
    and issued: "max 1 (deposit_notes p') \<le> max 1 (deposit_notes p) + n"
  shows "raw r \<le> raw r'"
proof -
  let ?N = "max 1 (deposit_notes p)" and ?r = "deposit_backing p div max 1 (deposit_notes p)"
  have base: "?N * ?r \<le> deposit_backing p" by (simp add: mult.commute div_times_less_eq_dividend)
  have "max 1 (deposit_notes p') * ?r \<le> (?N + n) * ?r" using issued by (rule mult_le_mono1)
  also have "\<dots> \<le> deposit_backing p'" unfolding distrib_right using base backing by linarith
  finally have "max 1 (deposit_notes p') * ?r div max 1 (deposit_notes p') \<le> raw r'"
    unfolding deposit_rate_Inr [OF rates(2)] by (rule div_le_mono)
  then show ?thesis using deposit_rate_Inr [OF rates(1)] by simp
qed

text \<open>
  C28: While the management fee rate of a pool is at most 100 percent and what it holds and has lent is worth at
  least one token, its deposits, borrows, repayments, interest accrual and fee collection never lower the exchange
  rate of the deposit notes. Neither condition is checked by the program: a fee above the interest eats into the
  deposits, and below one token the value of the pool is counted as one. Withdrawals, and
  repayments out of deposits, are not among these operations.
\<close>

theorem deposit_rate_never_falls:
  assumes op: "pool_exec op p = Inr p'"
    and lend: "op = OpDeposit a \<or> op = OpBorrow a \<or> op = OpRepay a \<or> op = OpAccrue t \<or> op = OpCollect"
    and fee: "management_fee_rate (config p) \<le> 10000"
    and tv: "ONE \<le> raw (borrowed_tokens p) + deposit_tokens p * ONE"
    and rates: "deposit_note_exchange_rate p = Inr r" "deposit_note_exchange_rate p' = Inr r'"
  shows "raw r \<le> raw r'"
proof -
  note d = deposit_rate_Inr [OF rates(1)] and ge = rate_grows_with_backing [OF rates]
  let ?r = "deposit_backing p div max 1 (deposit_notes p)"
  show ?thesis
  proof (cases op)
    case (OpDeposit a')
    with op obtain f where f: "convert_amount p a' Deposit = Inr f" "pool_deposit p f = Inr p'" by auto
    from conversion_down [OF f(1) rates(1)] have "fa_notes f * ?r \<le> fa_tokens f * ONE" using d(1) by simp
    then show ?thesis
      by (intro ge [of "fa_notes f"])
        (use f(2) deposit_backing_deposit(2) [OF f(2) d(2) tv] in \<open>auto simp: pool_deposit_Inr\<close>)
  next
    case (OpBorrow a')
    with op obtain f where f: "pool_borrow p f = Inr p'" by auto
    note b = pool_borrow_Inr [OF f]
    have "fa_tokens f * ONE \<le> deposit_tokens p * ONE" using b(2) by (rule mult_le_mono1)
    then show ?thesis by (intro ge [of 0]) (use b(5) in \<open>auto simp: deposit_backing_def diff_mult_distrib\<close>)
  next
    case (OpRepay a')
    with op obtain f where "pool_repay p f = Inr p'" by auto
    then show ?thesis
      by (intro ge [of 0]) (auto simp: pool_repay_Inr deposit_backing_def distrib_right)
  next
    case (OpAccrue t')
    with op obtain dn where a: "accrue_interest p t' = Inr (p', dn)" by auto
    from a have "raw (uncollected_fees p') - raw (uncollected_fees p) \<le> raw (borrowed_tokens p') - raw (borrowed_tokens p)"
      by (rule accrue_fee_le [OF _ fee])
    with accrue_interest_frame [OF a] show ?thesis
      by (intro ge [of 0]) (use tv d(2) in \<open>auto simp: deposit_backing_def max_def\<close>)
  next
    case OpCollect
    with op obtain n where "collect_accrued_fees p = Inr (p', n)" by auto
    from collect_backing [OF this rates(1)] d(1) show ?thesis by (intro ge [of n]) auto
  qed (use lend in auto)
qed

lemma sample_pool_rates:
  "deposit_note_exchange_rate sample_pool = Inr (Number 1180000000000000)"
  "deposit_note_exchange_rate (sample_pool\<lparr>deposit_tokens := 818, deposit_notes := 1100\<rparr>) =
     Inr (Number 1180000000000000)"
  by (simp_all add: deposit_note_exchange_rate_def total_value_def sample_pool_def Let_def
      u_range_def ONE_def num_ONE_def max_def less_eq_Number_def num_add_def num_sub_def num_div_def u192_defs
      num_from_def)

theorem deposit_rate_never_falls_witness:
  "raw (Number 1180000000000000) \<le> raw (Number 1180000000000000)"
  by (rule deposit_rate_never_falls [OF sample_pool_deposit, of "amount_tokens 118" 0, OF _ _ _ sample_pool_rates])
    (simp_all add: sample_pool_def)

subsection \<open>Borrowing\<close>

lemma borrow_facts:
  assumes "pool_borrow p a = Inr p'"
  shows "raw (borrowed_tokens p') * 10000 < 9501 * (raw (borrowed_tokens p') + deposit_tokens p' * ONE)"
    "flags_contain (pool_flags p) ALLOW_LENDING" "fa_tokens a \<le> deposit_tokens p"
    "raw (borrowed_tokens p') + deposit_tokens p' * ONE = raw (borrowed_tokens p) + deposit_tokens p * ONE"
    "deposit_notes p' = deposit_notes p" "uncollected_fees p' = uncollected_fees p"
    "loan_notes p' = loan_notes p + fa_notes a"
proof -
  note b = pool_borrow_Inr [OF assms]
  let ?b = "raw (borrowed_tokens p')" and ?t = "raw (borrowed_tokens p') + deposit_tokens p' * ONE"
  from b(6) obtain util where u: "utilization_rate p' = Inr util" "raw util div 100000000000 \<le> 9500"
    by (auto simp: MAX_POOL_UTIL_RATIO_AFTER_BORROW_BPS_def)
  from u(1) have e: "raw util = ?b * ONE div ?t" and t: "?t \<noteq> 0"
    by (auto simp: utilization_rate_def)
  have "raw util < 9501 * 100000000000" using u(2) by simp
  with e t have "?b * ONE < 9501 * 100000000000 * ?t" by (simp add: div_less_iff_less_mult)
  then show "?b * 10000 < 9501 * ?t" by (simp add: ONE_def)
  show "flags_contain (pool_flags p) ALLOW_LENDING" "fa_tokens a \<le> deposit_tokens p" by (rule b)+
  have "fa_tokens a * ONE \<le> deposit_tokens p * ONE" using b(2) by simp
  then show "?t = raw (borrowed_tokens p) + deposit_tokens p * ONE"
    using b(5) by (simp add: diff_mult_distrib)
  show "deposit_notes p' = deposit_notes p" "uncollected_fees p' = uncollected_fees p"
    "loan_notes p' = loan_notes p + fa_notes a" using b(5) by simp_all
qed

text \<open>
  After a successful borrow the loans are below 95.01\% of the pool's value, the tokens lent
  were in the pool, lending was allowed, and the pool's value, its depositors' notes and its
  collected fees are what they were.
\<close>

theorem borrow_utilisation_limit:
  assumes "pool_borrow p a = Inr p'"
  shows "raw (borrowed_tokens p') * 10000 < 9501 * (raw (borrowed_tokens p') + deposit_tokens p' * ONE) \<and>
    flags_contain (pool_flags p) ALLOW_LENDING \<and> fa_tokens a \<le> deposit_tokens p \<and>
    raw (borrowed_tokens p') + deposit_tokens p' * ONE = raw (borrowed_tokens p) + deposit_tokens p * ONE \<and>
    deposit_notes p' = deposit_notes p \<and> uncollected_fees p' = uncollected_fees p \<and>
    loan_notes p' = loan_notes p + fa_notes a"
  using borrow_facts [OF assms] by blast

lemma sample_pool_borrow:
  "pool_borrow sample_pool \<lparr>fa_tokens = 100, fa_notes = 90\<rparr> =
     Inr (sample_pool\<lparr>deposit_tokens := 600, loan_notes := 540, borrowed_tokens := Number (600 * ONE)\<rparr>)"
  by (simp add: pool_borrow_def sample_pool_def Let_def flag_defs u_range_def ONE_def num_from_def num_add_def
      u192_defs utilization_rate_def total_value_def num_div_def as_u64_bps_Inr BPS_EXPONENT_def as_u64_def
      ten_pow_eq U64_MAX_def MAX_POOL_UTIL_RATIO_AFTER_BORROW_BPS_def)

theorem borrow_utilisation_limit_witness:
  "fa_tokens \<lparr>fa_tokens = 100, fa_notes = 90\<rparr> \<le> deposit_tokens sample_pool"
  using borrow_utilisation_limit [OF sample_pool_borrow] by blast

subsection \<open>Fees\<close>

text \<open>
  Collecting fees converts as many whole notes as the fees pay for: the value of the notes
  minted and the remainder add up to the fees, the remainder is worth less than one note, and
  nothing but the fee counter and the note count changes.
\<close>

theorem collect_fees_conserves:
  assumes "collect_accrued_fees p = Inr (p', n)" "deposit_note_exchange_rate p = Inr r"
  shows "raw (uncollected_fees p) = n * raw r + raw (uncollected_fees p') \<and>
    raw (uncollected_fees p') < raw r \<and> deposit_notes p' = deposit_notes p + n \<and>
    p' = p\<lparr>uncollected_fees := uncollected_fees p', deposit_notes := deposit_notes p'\<rparr>"
proof -
  obtain r' where r': "deposit_note_exchange_rate p = Inr r'" "0 < raw r'"
    "n = raw (uncollected_fees p) div raw r'"
    "p' = (if n = 0 then p
          else p\<lparr>uncollected_fees := Number (raw (uncollected_fees p) mod raw r'),
                 deposit_notes := deposit_notes p + n\<rparr>)"
    using collect_accrued_fees_Inr [OF assms(1)] by blast
  with assms(2) have e: "r' = r" by simp
  show ?thesis
  proof (cases "n = 0")
    case True
    with r' e have "raw (uncollected_fees p) < raw r" by (simp add: div_eq_0_iff)
    with True r'(4) show ?thesis by simp
  next
    case False
    with r' e show ?thesis by simp
  qed
qed

lemma sample_pool_collect:
  "collect_accrued_fees sample_pool =
     Inr (sample_pool\<lparr>uncollected_fees := Number 1120000000000000, deposit_notes := 1016\<rparr>, 16)"
  by (simp add: collect_accrued_fees_def sample_pool_rates)
    (simp add: sample_pool_def Let_def u_range_def ONE_def num_div_def u192_defs as_u64_def ten_pow_eq
      U64_MAX_def num_from_def num_mul_def num_sub_def)

theorem collect_fees_conserves_witness:
  "raw (uncollected_fees sample_pool) = 16 * 1180000000000000 + 1120000000000000"
  using collect_fees_conserves [OF sample_pool_collect sample_pool_rates(1)] by simp

end
