(* ===== verification/PoolRates.thy ===== *)
theory PoolRates
  imports PoolSafety
begin

text \<open>
  The interest curve of a margin pool and the accrual of interest: for a configuration whose
  breakpoints and rates ascend, the rate is defined for every utilisation, lies between the
  lowest and the highest configured rate, and accrual never panics.
\<close>

text \<open>
  What the authority is expected to configure; the program itself does not check it.
\<close>

definition valid_config :: "MarginPoolConfig \<Rightarrow> bool" where
  "valid_config c \<longleftrightarrow>
     0 < utilization_rate_1 c \<and> utilization_rate_1 c < utilization_rate_2 c \<and>
     utilization_rate_2 c < 10000 \<and> borrow_rate_0 c \<le> borrow_rate_1 c \<and>
     borrow_rate_1 c \<le> borrow_rate_2 c \<and> borrow_rate_2 c \<le> borrow_rate_3 c \<and>
     borrow_rate_3 c \<le> 20000 \<and> management_fee_rate c \<le> 10000"

lemma valid_config_u16:
  assumes "valid_config c"
  shows "u16 (utilization_rate_1 c)" "u16 (utilization_rate_2 c)" "u16 (borrow_rate_0 c)"
    "u16 (borrow_rate_1 c)" "u16 (borrow_rate_2 c)" "u16 (borrow_rate_3 c)" "u16 (management_fee_rate c)"
  using assms by (auto simp: valid_config_def u_range_def)

definition bps_raw :: "nat \<Rightarrow> nat" where
  "bps_raw b = b * 100000000000"

lemma from_bps_raw: "u16 b \<Longrightarrow> from_bps b = Inr (Number (bps_raw b))"
  by (simp add: from_bps_u16 bps_raw_def)

lemma bps_raw_simps:
  "bps_raw a \<le> bps_raw b \<longleftrightarrow> a \<le> b" "bps_raw a < bps_raw b \<longleftrightarrow> a < b" "bps_raw 10000 = ONE"
  by (simp_all add: bps_raw_def ONE_def)

lemma utilization_rate_ok:
  assumes "0 < raw (borrowed_tokens p) + deposit_tokens p * ONE" "u64 (deposit_tokens p)"
    and "raw (borrowed_tokens p) \<le> 2 ^ 80 * ONE"
  shows "\<exists>u. utilization_rate p = Inr u \<and> raw u \<le> ONE"
proof -
  let ?b = "raw (borrowed_tokens p)" and ?t = "deposit_tokens p * ONE"
  have t: "?t \<le> 2 ^ 64 * ONE" using assms(2) by (simp add: u_range_def)
  have u1: "u192 (?b + ?t)"
    by (rule u_range_mono [of _ "2 ^ 80 * ONE + 2 ^ 64 * ONE"], simp add: u_range_def ONE_def)
      (use t assms(3) in linarith)
  have "?b * ONE \<le> 2 ^ 80 * ONE * ONE" using assms(3) by (rule mult_le_mono1)
  then have u2: "u192 (?b * ONE)" by (rule u_range_mono [rotated]) (simp add: u_range_def ONE_def)
  have "?b * ONE div (?b + ?t) \<le> (?b + ?t) * ONE div (?b + ?t)" by (rule div_le_mono) simp
  then have "?b * ONE div (?b + ?t) \<le> ONE" using assms(1) by (auto split: if_splits)
  then show ?thesis using u1 u2 assms(1) u_range_mono [OF u1, of ?t]
    by (auto simp: utilization_rate_def)
qed

text \<open>Between two kinks of the rate curve the rate is between those of the kinks.\<close>

lemma interpolate_within:
  assumes "x0 \<le> x" "x \<le> x1" "x0 < x1" "x1 \<le> ONE" "y0 \<le> y1" "y1 \<le> 20000"
  obtains y where "interpolate (Number x) (Number x0) (Number x1) (Number (bps_raw y0)) (Number (bps_raw y1)) =
      (Inr y :: Number pool_res)" "bps_raw y0 \<le> raw y" "raw y \<le> bps_raw y1"
proof -
  have small: "bps_raw b \<le> 1000 * ONE" if "b \<le> 20000" for b
    using that by (simp add: bps_raw_def ONE_def)
  have "\<exists>y. interpolate (Number x) (Number x0) (Number x1) (Number (bps_raw y0)) (Number (bps_raw y1)) =
      (Inr y :: Number pool_res)"
    by (rule interpolate_ok) (use assms small in \<open>auto simp: bps_raw_simps\<close>)
  with that show thesis using interpolate_bounds assms by fastforce
qed

lemma utilization_kinks:
  assumes "valid_config c"
  shows "0 < bps_raw (utilization_rate_1 c)" "bps_raw (utilization_rate_1 c) < bps_raw (utilization_rate_2 c)"
    "bps_raw (utilization_rate_2 c) < ONE"
  using assms bps_raw_simps(2) [of _ 10000, unfolded bps_raw_simps(3)] bps_raw_simps(2)
  by (auto simp: valid_config_def bps_raw_def)

lemma borrow_rates_sorted:
  assumes "valid_config c"
  shows "borrow_rate_0 c \<le> borrow_rate_1 c" "borrow_rate_1 c \<le> borrow_rate_2 c" "borrow_rate_2 c \<le> borrow_rate_3 c"
    "borrow_rate_3 c \<le> 20000"
  using assms by (auto simp: valid_config_def)

text \<open>
  With ascending breakpoints and rates the interest rate of a pool is defined at every
  utilisation and lies between the first and the last configured rate. A pool with deposit
  notes but no value is excluded: there the utilisation divides by zero.
\<close>

theorem interest_rate_within_config:
  assumes "valid_config (config p)" "u64 (deposit_tokens p)"
    and "raw (borrowed_tokens p) \<le> 2 ^ 80 * ONE"
    and "deposit_notes p = 0 \<or> 0 < raw (borrowed_tokens p) + deposit_tokens p * ONE"
  shows "\<exists>r. interest_rate p = Inr r \<and>
    bps_raw (borrow_rate_0 (config p)) \<le> raw r \<and> raw r \<le> bps_raw (borrow_rate_3 (config p))"
proof (cases "deposit_notes p = 0")
  case True
  with borrow_rates_sorted [OF assms(1)] valid_config_u16 [OF assms(1), THEN from_bps_raw] show ?thesis
    by (auto simp: interest_rate_def Let_def bps_raw_simps)
next
  case False
  let ?c = "config p"
  let ?u1 = "bps_raw (utilization_rate_1 ?c)" and ?u2 = "bps_raw (utilization_rate_2 ?c)"
  note bps [simp] = valid_config_u16 [OF assms(1), THEN from_bps_raw]
  note r = borrow_rates_sorted [OF assms(1)] and us = utilization_kinks [OF assms(1)]
  obtain u where u: "utilization_rate p = Inr u" "raw u \<le> ONE"
    using utilization_rate_ok [OF _ assms(2,3)] False assms(4) by auto
  have uN: "Number (raw u) = u" by simp
  consider (low) "raw u \<le> ?u1" | (mid) "?u1 < raw u" "raw u \<le> ?u2" | (high) "?u2 < raw u" "raw u < ONE"
    | (full) "raw u = ONE" using u(2) by linarith
  then show ?thesis
  proof cases
    case low
    from interpolate_within [of 0 "raw u" ?u1 "borrow_rate_0 ?c" "borrow_rate_1 ?c"] low us r obtain y where
      "interpolate u num_ZERO (Number ?u1) (Number (bps_raw (borrow_rate_0 ?c))) (Number (bps_raw (borrow_rate_1 ?c))) =
         (Inr y :: Number pool_res)" "bps_raw (borrow_rate_0 ?c) \<le> raw y" "raw y \<le> bps_raw (borrow_rate_1 ?c)"
      by (auto simp: num_ZERO_def)
    with False u low r show ?thesis
      by (fastforce simp: interest_rate_def Let_def less_eq_Number_def bps_raw_simps intro: order_trans)
  next
    case mid
    from interpolate_within [of ?u1 "raw u" ?u2 "borrow_rate_1 ?c" "borrow_rate_2 ?c"] mid us r obtain y where
      y: "interpolate u (Number ?u1) (Number ?u2) (Number (bps_raw (borrow_rate_1 ?c)))
         (Number (bps_raw (borrow_rate_2 ?c))) = (Inr y :: Number pool_res)"
      "bps_raw (borrow_rate_1 ?c) \<le> raw y" "raw y \<le> bps_raw (borrow_rate_2 ?c)" by auto
    have "interest_rate p = Inr y"
      using False u mid y(1) by (simp add: interest_rate_def Let_def less_eq_Number_def)
    moreover have "bps_raw (borrow_rate_0 ?c) \<le> raw y" "raw y \<le> bps_raw (borrow_rate_3 ?c)"
      using y(2,3) r bps_raw_simps(1) order_trans by metis+
    ultimately show ?thesis by blast
  next
    case high
    from interpolate_within [of ?u2 "raw u" ONE "borrow_rate_2 ?c" "borrow_rate_3 ?c"] high us r obtain y where
      y: "interpolate u (Number ?u2) num_ONE (Number (bps_raw (borrow_rate_2 ?c)))
         (Number (bps_raw (borrow_rate_3 ?c))) = (Inr y :: Number pool_res)"
      "bps_raw (borrow_rate_2 ?c) \<le> raw y" "raw y \<le> bps_raw (borrow_rate_3 ?c)" by (auto simp: num_ONE_def)
    have "interest_rate p = Inr y"
      using False u high us y(1) by (simp add: interest_rate_def Let_def less_eq_Number_def less_Number_def num_ONE_def)
    moreover have "bps_raw (borrow_rate_0 ?c) \<le> raw y"
      using y(2) r bps_raw_simps(1) order_trans by metis
    ultimately show ?thesis using y(3) by blast
  next
    case full
    have "interest_rate p = Inr (Number (bps_raw (borrow_rate_3 ?c)))"
      using False u full us by (simp add: interest_rate_def Let_def less_eq_Number_def less_Number_def num_ONE_def)
    moreover have "bps_raw (borrow_rate_0 ?c) \<le> bps_raw (borrow_rate_3 ?c)"
      using r bps_raw_simps(1) order_trans by metis
    ultimately show ?thesis by simp
  qed
qed

theorem interest_rate_within_config_witness:
  "\<exists>r. interest_rate sample_pool = Inr r \<and> raw r \<le> bps_raw (borrow_rate_3 (config sample_pool))"
  using interest_rate_within_config [of sample_pool]
  by (auto simp: sample_pool_def valid_config_def u_range_def ONE_def)

subsection \<open>Accrual\<close>

lemma week_share:
  assumes "raw rate \<le> 2 * ONE" "s \<le> 604800"
  shows "2 * (raw rate * s div 31536000) \<le> 80000000000000"
proof -
  have "raw rate * s \<le> 2 * ONE * 604800" using assms by (rule mult_le_mono)
  then have "raw rate * s div 31536000 \<le> 2 * ONE * 604800 div 31536000" by (rule div_le_mono)
  then show ?thesis by (simp add: ONE_def)
qed

text \<open>The rate of an accrual and its compound interest over at most a week.\<close>

lemma accrual_compounds:
  assumes "valid_config (config p)" "u64 (deposit_tokens p)"
    and "deposit_notes p = 0 \<or> 0 < raw (borrowed_tokens p) + deposit_tokens p * ONE"
    and "raw (borrowed_tokens p) \<le> 2 ^ 80 * ONE" "0 < s" "s \<le> MAX_ACCRUAL_SECONDS"
  obtains rate cr where "interest_rate p = Inr rate" "compound_interest rate s = (Inr cr :: Number pool_res)"
    "raw cr \<le> 80000000000000"
proof -
  obtain rate where rate: "interest_rate p = Inr rate" "raw rate \<le> bps_raw (borrow_rate_3 (config p))"
    using interest_rate_within_config [OF assms(1,2,4,3)] by blast
  have r2: "raw rate \<le> 2 * ONE"
    using rate(2) assms(1) by (simp add: valid_config_def bps_raw_def ONE_def)
  obtain cr where cr: "compound_interest rate s = (Inr cr :: Number pool_res)"
    "raw cr \<le> 2 * (raw rate * nat s div 31536000)"
    using compound_interest_ok [OF r2, of s] assms(5,6) by (auto simp: seconds_defs)
  have "nat s \<le> 604800" using assms(6) by (simp add: seconds_defs)
  from week_share [OF r2 this] cr(2) have "raw cr \<le> 80000000000000" by linarith
  with that rate(1) cr(1) show thesis by blast
qed

text \<open>The interest on the loans and the fee on the interest fit and are small.\<close>

lemma accrual_amounts:
  fixes b c m :: nat
  defines "i \<equiv> b * c div ONE"
  assumes b: "b \<le> 2 ^ 80 * ONE" and c: "c \<le> 80000000000000" and m: "m \<le> ONE"
  shows "u192 (b * c)" "i * 100 \<le> b * 8" "u192 (i * m)" "i * m div ONE \<le> i"
proof -
  have "b * c \<le> 2 ^ 80 * ONE * 80000000000000" using b c by (rule mult_le_mono)
  then show "u192 (b * c)" by (rule u_range_mono [rotated]) (simp add: u_range_def ONE_def)
  have "i * ONE \<le> b * c" unfolding i_def by (rule div_times_less_eq_dividend)
  also have "\<dots> \<le> b * 80000000000000" using c by (rule mult_le_mono2)
  finally show i: "i * 100 \<le> b * 8" by (simp add: ONE_def)
  then have "i \<le> b" by linarith
  then have "i * m \<le> 2 ^ 80 * ONE * ONE" using b m by (intro mult_le_mono) auto
  then show "u192 (i * m)" by (rule u_range_mono [rotated]) (simp add: u_range_def ONE_def)
  show "i * m div ONE \<le> i" using div_le_mono [OF mult_le_mono2 [OF m, of i], of ONE] by (simp add: ONE_def)
qed

text \<open>
  C31: Accrual at any time from the last accrual on returns, for a pool with a valid
  configuration whose amounts are below the stated bounds: time advances to the current time
  but by at most a week, the flag tells whether it caught up, the loans do not shrink and grow
  by at most 8\%, the fee is part of the interest and nothing else changes.
\<close>

theorem accrue_interest_total:
  assumes "valid_config (config p)" "u64 (deposit_tokens p)"
    and "deposit_notes p = 0 \<or> 0 < raw (borrowed_tokens p) + deposit_tokens p * ONE"
    and "raw (borrowed_tokens p) \<le> 2 ^ 80 * ONE" "raw (uncollected_fees p) \<le> 2 ^ 90 * ONE"
    and "0 \<le> accrued_until p" "accrued_until p \<le> time" "time < 2 ^ 62"
  shows "\<exists>p' caught_up. accrue_interest p time = Inr (p', caught_up) \<and>
    accrued_until p' = min time (accrued_until p + MAX_ACCRUAL_SECONDS) \<and>
    (caught_up \<longleftrightarrow> accrued_until p' = time) \<and>
    raw (borrowed_tokens p) \<le> raw (borrowed_tokens p') \<and>
    raw (borrowed_tokens p') * 100 \<le> raw (borrowed_tokens p) * 108 \<and>
    raw (uncollected_fees p) \<le> raw (uncollected_fees p') \<and>
    raw (uncollected_fees p') - raw (uncollected_fees p) \<le> raw (borrowed_tokens p') - raw (borrowed_tokens p) \<and>
    p' = p\<lparr>borrowed_tokens := borrowed_tokens p', uncollected_fees := uncollected_fees p',
           accrued_until := accrued_until p'\<rparr>"
proof (cases "accrued_until p = time")
  case True
  then have "accrue_interest p time = Inr (p, True)"
    by (simp add: accrue_interest_def i_range_def seconds_defs)
  with True show ?thesis by (simp add: seconds_defs)
next
  case False
  let ?b = "raw (borrowed_tokens p)" and ?f = "raw (uncollected_fees p)"
  define s where "s = min (time - accrued_until p) MAX_ACCRUAL_SECONDS"
  have s: "0 < s" "s \<le> MAX_ACCRUAL_SECONDS" "s \<le> time - accrued_until p"
    using False assms(6,7) by (auto simp: s_def seconds_defs)
  have behind: "plain_i 64 (time - accrued_until p) = (Inr (time - accrued_until p) :: int pool_res)"
    using assms(6-8) by (intro plain_i_in_range) (auto simp: i_range_def)
  obtain rate cr where rate: "interest_rate p = Inr rate" "compound_interest rate s = (Inr cr :: Number pool_res)"
    and cr: "raw cr \<le> 80000000000000"
    using accrual_compounds [OF assms(1-4) s(1,2)] .
  let ?m = "management_fee_rate (config p)"
  have fr: "from_bps ?m = (Inr (Number (bps_raw ?m)) :: Number pool_res)"
    by (rule from_bps_raw [OF valid_config_u16(7) [OF assms(1)]])
  have m: "bps_raw ?m \<le> ONE" using assms(1) by (simp add: valid_config_def bps_raw_def ONE_def)
  let ?i = "?b * raw cr div ONE"
  let ?g = "?i * bps_raw ?m div ONE"
  note amounts = accrual_amounts [OF assms(4) cr m]
  then have i_le: "?i \<le> ?b" by linarith
  have u3: "u192 (?b + ?i)"
    by (rule u_range_mono [of _ "2 * (2 ^ 80 * ONE)"], simp add: u_range_def ONE_def) (use i_le assms(4) in linarith)
  have u4: "u192 (?f + ?g)"
    by (rule u_range_mono [of _ "2 ^ 90 * ONE + 2 ^ 80 * ONE"], simp add: u_range_def ONE_def)
      (use amounts(4) i_le assms(4,5) in linarith)
  have u5: "i_range 64 (accrued_until p + s)"
    using assms(6-8) s unfolding i_range_def by simp
  let ?p = "p\<lparr>borrowed_tokens := Number (?b + ?i), uncollected_fees := Number (?f + ?g),
      accrued_until := accrued_until p + s\<rparr>"
  have "accrue_interest p time = Inr (?p, time - accrued_until p = s)"
    unfolding accrue_interest_def behind bindE_simps Let_def s_def [symmetric]
    using s rate fr amounts(1,3) u3 u4 u5 by simp
  moreover have "accrued_until p + s = min time (accrued_until p + MAX_ACCRUAL_SECONDS)"
    by (simp add: s_def min_def)
  moreover have "time - accrued_until p = s \<longleftrightarrow> accrued_until p + s = time" by auto
  moreover have "(?b + ?i) * 100 \<le> ?b * 108"
    using amounts(2) unfolding add_mult_distrib by linarith
  ultimately show ?thesis using amounts(4) by simp
qed

theorem accrue_interest_total_witness:
  "\<exists>p' caught_up. accrue_interest sample_pool 2000000 = Inr (p', caught_up) \<and> accrued_until p' = 605800"
  using accrue_interest_total [of sample_pool 2000000]
  by (auto simp: sample_pool_def valid_config_def u_range_def ONE_def seconds_defs)

end
