(* ===== verification/Numbers128.thy ===== *)
theory Numbers128
  imports Prelude
begin

text \<open>
  The signed decimal \<open>Number128\<close> of \<open>libraries/rust/program-common/src/number_128.rs\<close>: an
  \<open>i128\<close> that counts units of \<open>10^-10\<close>. Some of its operators check for overflow
  (\<open>+\<close>, \<open>-\<close>, \<open>*\<close>) and panic; others use the unchecked primitive operators, whose behaviour is
  the build profile's (\<open>plain_i\<close>).
\<close>

datatype Number128 = Number128 (n128: int)

instantiation Number128 :: linorder
begin

definition less_eq_Number128 :: "Number128 \<Rightarrow> Number128 \<Rightarrow> bool" where
  "less_eq_Number128 a b \<longleftrightarrow> n128 a \<le> n128 b"

definition less_Number128 :: "Number128 \<Rightarrow> Number128 \<Rightarrow> bool" where
  "less_Number128 a b \<longleftrightarrow> n128 a < n128 b"

instance
  by standard (auto simp: less_eq_Number128_def less_Number128_def Number128.expand)

end

abbreviation i128 :: "int \<Rightarrow> bool" where
  "i128 \<equiv> i_range 128"

definition wf128 :: "Number128 \<Rightarrow> bool" where
  "wf128 a \<longleftrightarrow> i128 (n128 a)"

definition PRECISION128 :: int where "PRECISION128 = 10"
definition ONE128 :: int where "ONE128 = 10000000000"
definition n128_ONE :: Number128 where "n128_ONE = Number128 ONE128"
definition n128_ZERO :: Number128 where "n128_ZERO = Number128 0"
definition n128_MAX :: Number128 where "n128_MAX = Number128 (2 ^ 127 - 1)"
definition n128_MIN :: Number128 where "n128_MIN = Number128 (- (2 ^ 127))"

definition POWERS_OF_TEN :: "int list" where
  "POWERS_OF_TEN =
    [1,
     10,
     100,
     1000,
     10000,
     100000,
     1000000,
     10000000,
     100000000,
     1000000000,
     10000000000,
     100000000000,
     1000000000000,
     10000000000000,
     100000000000000,
     1000000000000000,
     10000000000000000,
     100000000000000000,
     1000000000000000000,
     10000000000000000000,
     100000000000000000000,
     1000000000000000000000,
     10000000000000000000000,
     100000000000000000000000,
     1000000000000000000000000,
     10000000000000000000000000,
     100000000000000000000000000,
     1000000000000000000000000000]"

text \<open>An index past the end of the table panics.\<close>

definition index_E :: "'a list \<Rightarrow> nat \<Rightarrow> ('e, 'a) res" where
  "index_E xs i = (if i < length xs then Inr (xs ! i) else Inl Panic)"

lemma index_E_Inr [simp]: "index_E xs i = Inr x \<longleftrightarrow> i < length xs \<and> x = xs ! i"
  by (auto simp: index_E_def)

lemma POWERS_OF_TEN_map: "POWERS_OF_TEN = map (\<lambda>n. 10 ^ n) [0..<28]"
  by (simp add: POWERS_OF_TEN_def upt_rec)

lemma length_POWERS_OF_TEN [simp]: "length POWERS_OF_TEN = 28"
  by (simp add: POWERS_OF_TEN_map)

lemma POWERS_OF_TEN_nth [simp]: "n < 28 \<Longrightarrow> POWERS_OF_TEN ! n = 10 ^ n"
  by (simp add: POWERS_OF_TEN_map)

subsection \<open>Conversions\<close>

definition n128_from_decimal :: "int \<Rightarrow> int \<Rightarrow> ('e, Number128) res" where
  "n128_from_decimal v exponent =
     bindE (plain_i 32 (PRECISION128 + exponent)) (\<lambda>extra.
     bindE (index_E POWERS_OF_TEN (nat \<bar>extra\<bar>)) (\<lambda>prec_value.
     bindE (if extra < 0 then plain_idiv 128 v prec_value
            else plain_i 128 (v * prec_value)) (\<lambda>r.
     Inr (Number128 r))))"

definition n128_from_bps :: "nat \<Rightarrow> ('e, Number128) res" where
  "n128_from_bps bps = n128_from_decimal (int bps) (-4)"

definition n128_as_u64 :: "Number128 \<Rightarrow> int \<Rightarrow> ('e, nat) res" where
  "n128_as_u64 a exponent =
     bindE (plain_i 32 (PRECISION128 + exponent)) (\<lambda>extra.
     bindE (index_E POWERS_OF_TEN (nat \<bar>extra\<bar>)) (\<lambda>prec_value.
     bindE (if extra < 0 then plain_i 128 (n128 a * prec_value)
            else plain_idiv 128 (n128 a) prec_value) (\<lambda>target_value.
     if target_value > 2 ^ 64 - 1 then panic
     else if target_value < 0 then panic
     else Inr (nat target_value))))"

definition n128_from_i128 :: "int \<Rightarrow> Number128" where
  "n128_from_i128 v = Number128 v"

definition n128_to_i128 :: "Number128 \<Rightarrow> int" where
  "n128_to_i128 a = n128 a"

subsection \<open>Operators\<close>

definition n128_add :: "Number128 \<Rightarrow> Number128 \<Rightarrow> ('e, Number128) res" where
  "n128_add a b = bindE (unwrap (checked_i 128 (n128 a + n128 b))) (\<lambda>r. Inr (Number128 r))"

definition n128_sub :: "Number128 \<Rightarrow> Number128 \<Rightarrow> ('e, Number128) res" where
  "n128_sub a b = bindE (unwrap (checked_i 128 (n128 a - n128 b))) (\<lambda>r. Inr (Number128 r))"

definition n128_mul :: "Number128 \<Rightarrow> Number128 \<Rightarrow> ('e, Number128) res" where
  "n128_mul a b =
     bindE (unwrap (checked_i 128 (n128 a * n128 b))) (\<lambda>p.
     bindE (plain_idiv 128 p ONE128) (\<lambda>r. Inr (Number128 r)))"

definition n128_mul_assign :: "Number128 \<Rightarrow> Number128 \<Rightarrow> ('e, Number128) res" where
  "n128_mul_assign a b =
     bindE (plain_i 128 (n128 a * n128 b)) (\<lambda>p.
     bindE (plain_idiv 128 p ONE128) (\<lambda>r. Inr (Number128 r)))"

definition n128_div :: "Number128 \<Rightarrow> Number128 \<Rightarrow> ('e, Number128) res" where
  "n128_div a b =
     bindE (plain_i 128 (n128 a * ONE128)) (\<lambda>p.
     bindE (plain_idiv 128 p (n128 b)) (\<lambda>r. Inr (Number128 r)))"

definition n128_mul_int :: "Number128 \<Rightarrow> int \<Rightarrow> ('e, Number128) res" where
  "n128_mul_int a n = bindE (plain_i 128 (n128 a * n)) (\<lambda>r. Inr (Number128 r))"

definition n128_div_int :: "Number128 \<Rightarrow> int \<Rightarrow> ('e, Number128) res" where
  "n128_div_int a n = bindE (plain_idiv 128 (n128 a) n) (\<lambda>r. Inr (Number128 r))"

definition n128_neg :: "Number128 \<Rightarrow> ('e, Number128) res" where
  "n128_neg a = bindE (plain_i 128 (- n128 a)) (\<lambda>r. Inr (Number128 r))"

definition n128_abs :: "Number128 \<Rightarrow> ('e, Number128) res" where
  "n128_abs a =
     (if a < n128_ZERO then bindE (n128_from_decimal (-1) 0) (n128_mul a) else Inr a)"

definition n128_checked_add :: "Number128 \<Rightarrow> Number128 \<Rightarrow> Number128 option" where
  "n128_checked_add a b = map_option n128_from_i128 (checked_i 128 (n128 a + n128 b))"

definition n128_checked_sub :: "Number128 \<Rightarrow> Number128 \<Rightarrow> Number128 option" where
  "n128_checked_sub a b = map_option n128_from_i128 (checked_i 128 (n128 a - n128 b))"

definition n128_checked_mul :: "Number128 \<Rightarrow> Number128 \<Rightarrow> Number128 option" where
  "n128_checked_mul a b = map_option n128_from_i128 (checked_i 128 (n128 a * n128 b))"

definition n128_checked_div :: "Number128 \<Rightarrow> Number128 \<Rightarrow> Number128 option" where
  "n128_checked_div a b =
     (if n128 b = 0 then None
      else map_option n128_from_i128 (checked_i 128 (trunc_div (n128 a) (n128 b))))"

subsection \<open>Inversion\<close>

lemma n128_add_Inr [simp]:
  "n128_add a b = Inr c \<longleftrightarrow> c = Number128 (n128 a + n128 b) \<and> i128 (n128 a + n128 b)"
  by (auto simp: n128_add_def)

lemma n128_sub_Inr [simp]:
  "n128_sub a b = Inr c \<longleftrightarrow> c = Number128 (n128 a - n128 b) \<and> i128 (n128 a - n128 b)"
  by (auto simp: n128_sub_def)

lemma i128_div_ONE: "i128 p \<Longrightarrow> i128 (trunc_div p ONE128)"
proof -
  assume p: "i128 p"
  have "\<bar>p\<bar> div ONE128 \<le> \<bar>p\<bar>" unfolding ONE128_def by linarith
  moreover have "0 \<le> \<bar>p\<bar> div ONE128" by (simp add: ONE128_def pos_imp_zdiv_nonneg_iff)
  moreover have "trunc_div p ONE128 = sgn p * (\<bar>p\<bar> div ONE128)"
    by (simp add: trunc_div_def ONE128_def)
  ultimately show ?thesis using p
    by (cases p rule: linorder_cases [of _ 0]) (auto simp: i_range_def)
qed

lemma n128_mul_Inr [simp]:
  "n128_mul a b = Inr c \<longleftrightarrow>
     i128 (n128 a * n128 b) \<and> c = Number128 (trunc_div (n128 a * n128 b) ONE128)"
  using i128_div_ONE by (auto simp: n128_mul_def ONE128_def)

text \<open>With no overflow in the intermediate product, \<open>*=\<close> and \<open>*\<close> agree.\<close>

lemma n128_mul_assign_eq:
  "i128 (n128 a * n128 b) \<Longrightarrow> n128_mul_assign a b = n128_mul a b"
  by (simp add: n128_mul_assign_def n128_mul_def checked_i_def)

lemma n128_div_ok:
  "i128 (n128 a * ONE128) \<Longrightarrow>
   n128_div a b = Inr c \<longleftrightarrow> n128 b \<noteq> 0 \<and> i128 (trunc_div (n128 a * ONE128) (n128 b)) \<and>
     c = Number128 (trunc_div (n128 a * ONE128) (n128 b))"
  by (auto simp: n128_div_def)

lemma n128_from_decimal_Inr:
  assumes "-10 \<le> e" "e \<le> 17" "i128 (v * 10 ^ nat (10 + e))"
  shows "n128_from_decimal v e = Inr (Number128 (v * 10 ^ nat (10 + e)))"
proof -
  have "i_range 32 (10 + e)" using assms by (simp add: i_range_def)
  moreover have "nat \<bar>10 + e\<bar> < 28" using assms by linarith
  ultimately show ?thesis using assms
    by (simp add: n128_from_decimal_def PRECISION128_def index_E_def)
qed

lemma wf128_add [range_intro]: "n128_add a b = Inr c \<Longrightarrow> wf128 c"
  by (simp add: wf128_def)

lemma wf128_sub [range_intro]: "n128_sub a b = Inr c \<Longrightarrow> wf128 c"
  by (simp add: wf128_def)

lemma wf128_mul [range_intro]: "n128_mul a b = Inr c \<Longrightarrow> wf128 c"
  using i128_div_ONE by (auto simp: wf128_def)

lemma wf128_div [range_intro]: "n128_div a b = Inr c \<Longrightarrow> wf128 c"
  by (auto simp: wf128_def n128_div_def)

lemma wf128_from_decimal [range_intro]: "n128_from_decimal v e = Inr c \<Longrightarrow> wf128 c"
  by (auto simp: wf128_def n128_from_decimal_def intro: plain_i_range [of 128] split: if_splits)

end
