(* ===== verification/MarginTypes.thy ===== *)
theory MarginTypes
  imports Numbers128
begin

unbundle bit_operations_syntax

text \<open>
  The data of the margin program: errors, token configurations and permits
  (\<open>programs/margin/src/state/config.rs\<close>), positions and prices
  (\<open>programs/margin/src/state/account/positions.rs\<close>), the changes an adapter may request
  (\<open>programs/margin/src/adapter.rs\<close>) and the invocation flags (\<open>programs/margin/src/util.rs\<close>),
  with the operations that touch only these values.
\<close>

datatype MarginError =
    NoAdapterResult
  | WrongProgramAdapterResult
  | UnauthorizedInvocation
  | IndirectInvocation
  | MaxPositions
  | UnknownPosition
  | CloseNonZeroPosition
  | PositionAlreadyRegistered
  | AccountNotEmpty
  | PositionNotRegistered
  | CloseRequiredPosition
  | InvalidPositionOwner
  | PositionNotRegisterable
  | InvalidPositionAdapter
  | OutdatedPrice
  | InvalidPrice
  | OutdatedBalance
  | Unhealthy
  | Healthy
  | Liquidating
  | NotLiquidating
  | StalePositions
  | UnauthorizedLiquidator
  | LiquidationLostValue
  | WrongLiquidationState
  | WrongAirspace
  | InvalidConfig
  | InvalidOracle
  | AlreadyJoinedAirspace
  | InsufficientPermissions
  | PermitNotOwned
  | AnchorError
  | ProgramError

type_synonym 'a margin_res = "(MarginError, 'a) res"

definition MAX_ORACLE_CONFIDENCE :: nat where "MAX_ORACLE_CONFIDENCE = 500"
definition MAX_ORACLE_STALENESS :: int where "MAX_ORACLE_STALENESS = 30"
definition MAX_PRICE_QUOTE_AGE :: nat where "MAX_PRICE_QUOTE_AGE = 30"
definition LIQUIDATION_MAX_TOTAL_EQUITY_LOSS_BPS :: nat where
  "LIQUIDATION_MAX_TOTAL_EQUITY_LOSS_BPS = 400"
definition LIQUIDATION_TIMEOUT :: int where "LIQUIDATION_TIMEOUT = 60"
definition MAX_USER_POSITIONS :: nat where "MAX_USER_POSITIONS = 24"

subsection \<open>Token configuration and permits\<close>

datatype TokenKind = Collateral | Claim | AdapterCollateral

definition tokenkind_default :: TokenKind where "tokenkind_default = Collateral"

fun tokenkind_into_integer :: "TokenKind \<Rightarrow> nat" where
  "tokenkind_into_integer Collateral = 1"
| "tokenkind_into_integer Claim = 2"
| "tokenkind_into_integer AdapterCollateral = 3"

definition tokenkind_from_integer :: "nat \<Rightarrow> TokenKind option" where
  "tokenkind_from_integer n =
     (if n = 1 then Some Collateral else if n = 2 then Some Claim
      else if n = 3 then Some AdapterCollateral else None)"

lemma tokenkind_roundtrip [simp]: "tokenkind_from_integer (tokenkind_into_integer k) = Some k"
  by (cases k) (simp_all add: tokenkind_from_integer_def)

datatype TokenOracle = Pyth (oracle_price: Pubkey) (oracle_product: Pubkey)

datatype TokenAdmin = AdminMargin TokenOracle | AdminAdapter Pubkey

record TokenConfig =
  tc_mint :: Pubkey
  tc_underlying_mint :: Pubkey
  tc_airspace :: Pubkey
  tc_token_kind :: TokenKind
  tc_value_modifier :: nat
  tc_max_staleness :: nat
  tc_admin :: TokenAdmin

definition tokenconfig_validate :: "TokenConfig \<Rightarrow> unit margin_res" where
  "tokenconfig_validate c = guardE (tc_underlying_mint c \<noteq> pubkey_default) InvalidConfig"

definition adapter_program :: "TokenConfig \<Rightarrow> Pubkey option" where
  "adapter_program c = (case tc_admin c of AdminAdapter a \<Rightarrow> Some a | _ \<Rightarrow> None)"

definition token_oracle :: "TokenConfig \<Rightarrow> TokenOracle option" where
  "token_oracle c = (case tc_admin c of AdminMargin o' \<Rightarrow> Some o' | _ \<Rightarrow> None)"

record Permit =
  permit_airspace :: Pubkey
  permit_owner :: Pubkey
  permit_permissions :: nat

definition PERM_LIQUIDATE :: nat where "PERM_LIQUIDATE = 1"
definition PERM_REFRESH_POSITION_CONFIG :: nat where "PERM_REFRESH_POSITION_CONFIG = 2"

definition permit_validate :: "Permit \<Rightarrow> Pubkey \<Rightarrow> Pubkey \<Rightarrow> nat \<Rightarrow> unit margin_res" where
  "permit_validate p airspace owner permissions =
     bindE (guardE (airspace = permit_airspace p) WrongAirspace) (\<lambda>_.
     bindE (guardE (owner = permit_owner p) PermitNotOwned) (\<lambda>_.
     guardE (permit_permissions p AND permissions = permissions) InsufficientPermissions))"

subsection \<open>Prices and positions\<close>

definition POS_PRICE_VALID :: nat where "POS_PRICE_VALID = 1"

record PriceInfo =
  pi_value :: int
  pi_timestamp :: nat
  pi_exponent :: int
  pi_is_valid :: nat

definition price_new_valid :: "int \<Rightarrow> int \<Rightarrow> nat \<Rightarrow> PriceInfo" where
  "price_new_valid e v t = \<lparr>pi_value = v, pi_timestamp = t, pi_exponent = e, pi_is_valid = POS_PRICE_VALID\<rparr>"

definition price_new_invalid :: PriceInfo where
  "price_new_invalid = \<lparr>pi_value = 0, pi_timestamp = 0, pi_exponent = 0, pi_is_valid = 0\<rparr>"

definition price_is_valid :: "PriceInfo \<Rightarrow> bool" where
  "price_is_valid p \<longleftrightarrow> pi_is_valid p = POS_PRICE_VALID"

record AccountPosition =
  pos_token :: Pubkey
  pos_address :: Pubkey
  pos_adapter :: Pubkey
  pos_value :: Number128
  pos_balance :: nat
  pos_balance_timestamp :: nat
  pos_price :: PriceInfo
  pos_kind :: nat
  pos_exponent :: int
  pos_value_modifier :: nat
  pos_max_staleness :: nat
  pos_flags :: nat

definition zeroed_position :: AccountPosition where
  "zeroed_position =
     \<lparr>pos_token = 0, pos_address = 0, pos_adapter = 0, pos_value = Number128 0, pos_balance = 0,
      pos_balance_timestamp = 0, pos_price = price_new_invalid, pos_kind = 0, pos_exponent = 0,
      pos_value_modifier = 0, pos_max_staleness = 0, pos_flags = 0\<rparr>"

definition FLAG_REQUIRED :: nat where "FLAG_REQUIRED = 1"
definition FLAG_PAST_DUE :: nat where "FLAG_PAST_DUE = 2"

definition has_flag :: "nat \<Rightarrow> nat \<Rightarrow> bool" where
  "has_flag f m \<longleftrightarrow> f AND m = m"

definition position_kind :: "AccountPosition \<Rightarrow> TokenKind" where
  "position_kind p =
     (case tokenkind_from_integer (pos_kind p) of Some k \<Rightarrow> k | None \<Rightarrow> tokenkind_default)"

definition calculate_value :: "AccountPosition \<Rightarrow> AccountPosition margin_res" where
  "calculate_value p =
     bindE (n128_from_decimal (int (pos_balance p)) (pos_exponent p)) (\<lambda>amount.
     bindE (n128_from_decimal (pi_value (pos_price p)) (pi_exponent (pos_price p))) (\<lambda>px.
     bindE (n128_mul amount px) (\<lambda>v.
     Inr (p\<lparr>pos_value := v\<rparr>))))"

definition collateral_value :: "AccountPosition \<Rightarrow> Number128 margin_res" where
  "collateral_value p =
     bindE (assertE (position_kind p = Collateral \<or> position_kind p = AdapterCollateral)) (\<lambda>_.
     bindE (n128_from_decimal (int (pos_value_modifier p)) (-2)) (\<lambda>m.
     n128_mul m (pos_value p)))"

definition required_collateral_value :: "AccountPosition \<Rightarrow> Number128 margin_res" where
  "required_collateral_value p =
     bindE (assertE (position_kind p = Claim)) (\<lambda>_.
     bindE (n128_from_decimal (int (pos_value_modifier p)) (-2)) (\<lambda>modifier.
     if modifier = n128_ZERO then Inr n128_MAX
     else n128_div (pos_value p) modifier))"

definition set_balance :: "nat \<Rightarrow> nat \<Rightarrow> AccountPosition \<Rightarrow> AccountPosition margin_res" where
  "set_balance balance timestamp p =
     calculate_value (p\<lparr>pos_balance := balance, pos_balance_timestamp := timestamp\<rparr>)"

definition set_price :: "PriceInfo \<Rightarrow> AccountPosition \<Rightarrow> AccountPosition margin_res" where
  "set_price price p = calculate_value (p\<lparr>pos_price := price\<rparr>)"

datatype Approver = MarginAccountAuthority | Adapter Pubkey

text \<open>The loop over the approvals overwrites \<open>adapter_approved\<close> for every adapter it meets.\<close>

fun scan_approvals :: "Pubkey \<Rightarrow> Approver list \<Rightarrow> bool \<times> bool \<Rightarrow> bool \<times> bool" where
  "scan_approvals adapter [] acc = acc"
| "scan_approvals adapter (MarginAccountAuthority # as) (auth, ad) = scan_approvals adapter as (True, ad)"
| "scan_approvals adapter (Adapter a # as) (auth, ad) = scan_approvals adapter as (auth, a = adapter)"

definition may_be_registered_or_closed :: "AccountPosition \<Rightarrow> Approver list \<Rightarrow> bool" where
  "may_be_registered_or_closed p approvals =
     (let (authority_approved, adapter_approved) = scan_approvals (pos_adapter p) approvals (False, False) in
      case position_kind p of
        Collateral \<Rightarrow> authority_approved \<and> \<not> adapter_approved
      | Claim \<Rightarrow> authority_approved \<and> adapter_approved
      | AdapterCollateral \<Rightarrow> authority_approved \<and> adapter_approved)"

subsection \<open>What adapters report\<close>

record PriceChangeInfo =
  pc_value :: int
  pc_confidence :: nat
  pc_twap :: int
  pc_publish_time :: int
  pc_exponent :: int

datatype PositionChange =
    ChangePrice PriceChangeInfo
  | ChangeFlags nat bool
  | ChangeRegister Pubkey
  | ChangeClose Pubkey

record AdapterResult =
  position_changes :: "(Pubkey \<times> PositionChange list) list"

definition cast_u64 :: "int \<Rightarrow> nat" where
  "cast_u64 x = wrap_u 64 x"

text \<open>
  The two match guards compare the relative confidence and the age of the price; the time of a
  valid price is the current one.
\<close>

definition price_change_try_into :: "PriceChangeInfo \<Rightarrow> int \<Rightarrow> PriceInfo margin_res" where
  "price_change_try_into c unix_timestamp =
     bindE (n128_from_bps MAX_ORACLE_CONFIDENCE) (\<lambda>max_confidence.
     bindE (n128_from_decimal (pc_twap c) (pc_exponent c)) (\<lambda>twap.
     bindE (n128_from_decimal (int (pc_confidence c)) (pc_exponent c)) (\<lambda>confidence.
     if twap = n128_ZERO then Inr price_new_invalid
     else
       bindE (n128_div confidence twap) (\<lambda>ratio.
       if ratio > max_confidence then Inr price_new_invalid
       else
         bindE (plain_i 64 (unix_timestamp - pc_publish_time c)) (\<lambda>age.
         if age > MAX_ORACLE_STALENESS then Inr price_new_invalid
         else Inr (price_new_valid (pc_exponent c) (pc_value c) (cast_u64 unix_timestamp)))))))"

subsection \<open>Invocation flags\<close>

text \<open>A set of stack heights, kept in the bits of a \<open>u8\<close>.\<close>

type_synonym BitSet = nat

definition bitset_insert :: "BitSet \<Rightarrow> nat \<Rightarrow> BitSet margin_res" where
  "bitset_insert s n = (if n > 7 then panic else Inr (s OR push_bit n 1))"

text \<open>A shift by the width or more panics with overflow checks and is taken modulo the width without.\<close>

definition shift_amount :: "nat \<Rightarrow> nat \<Rightarrow> nat margin_res" where
  "shift_amount w n =
     (if n < w then Inr n else if overflow_checks then panic else Inr (n mod w))"

definition bitset_remove :: "BitSet \<Rightarrow> nat \<Rightarrow> BitSet margin_res" where
  "bitset_remove s n = bindE (shift_amount 8 n) (\<lambda>k. Inr (unset_bit k s))"

definition bitset_contains :: "BitSet \<Rightarrow> nat \<Rightarrow> bool margin_res" where
  "bitset_contains s n = bindE (shift_amount 8 n) (\<lambda>k. Inr (drop_bit k s AND 1 = 1))"

definition invocation_start :: "nat \<Rightarrow> BitSet \<Rightarrow> BitSet margin_res" where
  "invocation_start height s = bitset_insert s (height mod 256)"

definition invocation_end :: "nat \<Rightarrow> BitSet \<Rightarrow> BitSet margin_res" where
  "invocation_end height s = bitset_remove s (height mod 256)"

definition directly_invoked :: "nat \<Rightarrow> BitSet \<Rightarrow> bool margin_res" where
  "directly_invoked height s =
     (if height = 0 then Inr False
      else bindE (plain_sub 8 (height mod 256) 1) (bitset_contains s))"

definition verify_directly_invoked :: "nat \<Rightarrow> BitSet \<Rightarrow> unit margin_res" where
  "verify_directly_invoked height s =
     bindE (directly_invoked height s) (\<lambda>d. guardE d IndirectInvocation)"

lemma shift_amount_small [simp]: "n < w \<Longrightarrow> shift_amount w n = Inr n"
  by (simp add: shift_amount_def)

text \<open>At the stack heights Solana allows, the flags are a set of heights.\<close>

lemma drop_bit_odd: "drop_bit k s mod 2 = Suc 0 \<longleftrightarrow> bit s k" for s :: nat
  by (simp add: bit_iff_odd_drop_bit odd_iff_mod_2_eq_one)

lemma bitset_contains_iff [simp]: "n < 8 \<Longrightarrow> bitset_contains s n = Inr (bit s n)"
  by (simp add: bitset_contains_def drop_bit_odd and_one_eq)

lemma bitset_insert_ok [simp]: "n < 8 \<Longrightarrow> bitset_insert s n = Inr (set_bit n s)"
  by (simp add: bitset_insert_def set_bit_eq_or)

lemma bitset_remove_ok [simp]: "n < 8 \<Longrightarrow> bitset_remove s n = Inr (unset_bit n s)"
  by (simp add: bitset_remove_def)

lemma directly_invoked_iff:
  "0 < h \<Longrightarrow> h \<le> 8 \<Longrightarrow> directly_invoked h s = Inr (bit s (h - 1))"
  by (simp add: directly_invoked_def u_range_def)

text \<open>
  An adapter one level above a marked height is directly invoked, also when other levels are
  marked; after \<open>end\<close> it no longer is.
\<close>

lemma invocation_start_direct:
  "0 < h \<Longrightarrow> h < 8 \<Longrightarrow> \<exists>s'. invocation_start h s = Inr s' \<and>
     directly_invoked (Suc h) s' = Inr True \<and>
     (\<forall>k. 0 < k \<and> k \<le> 8 \<and> k \<noteq> Suc h \<longrightarrow> directly_invoked k s' = directly_invoked k s)"
  by (auto simp: invocation_start_def directly_invoked_iff bit_set_bit_iff)

lemma invocation_start_end:
  "0 < h \<Longrightarrow> h < 8 \<Longrightarrow> \<not> bit s h \<Longrightarrow>
     bindE (invocation_start h s) (invocation_end h) = Inr s"
  by (simp add: invocation_start_def invocation_end_def)
    (auto intro!: bit_eqI simp: bit_set_bit_iff bit_unset_bit_iff)

end
