(* ===== verification/Search.thy ===== *)
theory Search
  imports Prelude
begin

text \<open>
  Binary search over a slice, \<open>binary_search_by_key\<close> of the standard library, as the loop over the
  bounds \<open>left\<close> and \<open>right\<close>: on strictly sorted keys it finds exactly the entry, on sorted keys with
  repetitions one of the entries of the key.
\<close>

function bsearch :: "('a \<Rightarrow> 'k::linorder) \<Rightarrow> 'a list \<Rightarrow> 'k \<Rightarrow> nat \<Rightarrow> nat \<Rightarrow> nat option" where
  "bsearch f xs k left right =
     (if left < right then
        let mid = left + (right - left) div 2 in
        if f (xs ! mid) < k then bsearch f xs k (mid + 1) right
        else if k < f (xs ! mid) then bsearch f xs k left mid
        else Some mid
      else None)"
  by pat_completeness auto
termination
  by (relation "measure (\<lambda>(f, xs, k, left, right). right - left)") auto

declare bsearch.simps [simp del]

definition strict_keys :: "('a \<Rightarrow> 'k::linorder) \<Rightarrow> 'a list \<Rightarrow> bool" where
  "strict_keys f xs \<longleftrightarrow> sorted_wrt (<) (map f xs)"

lemma strict_keys_less:
  "strict_keys f xs \<Longrightarrow> i < length xs \<Longrightarrow> j < length xs \<Longrightarrow> f (xs ! i) < f (xs ! j) \<longleftrightarrow> i < j"
  unfolding strict_keys_def
  by (metis (no_types, lifting) length_map linorder_neqE_nat nth_map order_less_asym sorted_wrt_nth_less
      order_less_irrefl)

lemma strict_keys_eq:
  "strict_keys f xs \<Longrightarrow> i < length xs \<Longrightarrow> j < length xs \<Longrightarrow> f (xs ! i) = f (xs ! j) \<longleftrightarrow> i = j"
  using strict_keys_less [of f xs i j] strict_keys_less [of f xs j i]
  by (metis linorder_neqE_nat order_less_irrefl)

lemma bsearch_range:
  assumes "strict_keys f xs" "right \<le> length xs"
  shows "bsearch f xs k left right = Some i \<longleftrightarrow> left \<le> i \<and> i < right \<and> f (xs ! i) = k"
  using assms
proof (induction f xs k left right rule: bsearch.induct)
  case (1 f xs k left right)
  note sorted = "1.prems"(1) and le = "1.prems"(2)
  show ?case
  proof (cases "left < right")
    case False
    then show ?thesis by (subst bsearch.simps) auto
  next
    case True
    define mid where "mid = left + (right - left) div 2"
    have mid: "left \<le> mid" "mid < right" using True by (auto simp: mid_def)
    have in_xs: "j < right \<Longrightarrow> j < length xs" for j using le by simp
    have step: "bsearch f xs k left right =
        (if f (xs ! mid) < k then bsearch f xs k (mid + 1) right
         else if k < f (xs ! mid) then bsearch f xs k left mid else Some mid)"
      using True by (subst bsearch.simps) (simp add: mid_def)
    consider (lt) "f (xs ! mid) < k" | (gt) "k < f (xs ! mid)" | (eq) "f (xs ! mid) = k"
      by fastforce
    then show ?thesis
    proof cases
      case lt
      then have "bsearch f xs k left right = Some i \<longleftrightarrow> mid + 1 \<le> i \<and> i < right \<and> f (xs ! i) = k"
        using "1.IH"(1) [OF True mid_def lt] sorted le by (simp add: step)
      moreover have "i < right \<Longrightarrow> f (xs ! i) = k \<Longrightarrow> mid < i"
        using strict_keys_less [OF sorted, of mid i] lt mid in_xs by auto
      ultimately show ?thesis using mid by fastforce
    next
      case gt
      then have "bsearch f xs k left right = Some i \<longleftrightarrow> left \<le> i \<and> i < mid \<and> f (xs ! i) = k"
        using "1.IH"(2) [OF True mid_def _ gt] sorted le mid
        by (auto simp: step)
      moreover have "i < right \<Longrightarrow> f (xs ! i) = k \<Longrightarrow> i < mid"
        using strict_keys_less [OF sorted, of i mid] gt mid in_xs by auto
      ultimately show ?thesis using mid by fastforce
    next
      case eq
      then have "bsearch f xs k left right = Some mid" by (simp add: step)
      moreover have "i < right \<Longrightarrow> f (xs ! i) = k \<Longrightarrow> i = mid"
        using strict_keys_eq [OF sorted, of i mid] eq mid in_xs by auto
      ultimately show ?thesis using eq mid by auto
    qed
  qed
qed

lemma bsearch_sound:
  assumes "bsearch f xs k left right = Some i"
  shows "left \<le> i \<and> i < right \<and> f (xs ! i) = k"
  using assms
proof (induction f xs k left right rule: bsearch.induct)
  case (1 f xs k left right)
  from "1.prems" have lr: "left < right" by (subst (asm) bsearch.simps) (auto split: if_split_asm)
  define mid where "mid = left + (right - left) div 2"
  have mid: "left \<le> mid" "mid < right" using lr by (auto simp: mid_def)
  have step: "(if f (xs ! mid) < k then bsearch f xs k (mid + 1) right
       else if k < f (xs ! mid) then bsearch f xs k left mid else Some mid) = Some i"
    using "1.prems" lr unfolding bsearch.simps [of f xs k left right] Let_def mid_def by (simp only: if_True)
  consider (lt) "f (xs ! mid) < k" | (gt) "\<not> f (xs ! mid) < k" "k < f (xs ! mid)" | (eq) "f (xs ! mid) = k"
    by fastforce
  then show ?case
  proof cases
    case lt
    with "1.IH"(1) [OF lr mid_def lt] step mid show ?thesis by simp
  next
    case gt
    with "1.IH"(2) [OF lr mid_def gt] step mid show ?thesis by simp
  next
    case eq
    with step mid show ?thesis by simp
  qed
qed

lemma bsearch_complete:
  assumes "sorted (map f xs)" "right \<le> length xs" "left \<le> i" "i < right" "f (xs ! i) = k"
  shows "\<exists>j. bsearch f xs k left right = Some j"
  using assms
proof (induction f xs k left right rule: bsearch.induct)
  case (1 f xs k left right)
  have lr: "left < right" using "1.prems" by simp
  define mid where "mid = left + (right - left) div 2"
  have mid: "left \<le> mid" "mid < right" using lr by (auto simp: mid_def)
  have step: "bsearch f xs k left right =
      (if f (xs ! mid) < k then bsearch f xs k (mid + 1) right
       else if k < f (xs ! mid) then bsearch f xs k left mid else Some mid)"
    using lr by (subst bsearch.simps) (simp add: mid_def)
  have mono: "a \<le> b \<Longrightarrow> b < length xs \<Longrightarrow> f (xs ! a) \<le> f (xs ! b)" for a b
    using sorted_nth_mono [OF "1.prems"(1), of a b] by simp
  consider (lt) "f (xs ! mid) < k" | (gt) "\<not> f (xs ! mid) < k" "k < f (xs ! mid)" | (eq) "f (xs ! mid) = k"
    by fastforce
  then show ?case
  proof cases
    case lt
    then have "mid + 1 \<le> i" using mono [of i mid] "1.prems" mid by (cases "i \<le> mid") auto
    with "1.IH"(1) [OF lr mid_def lt] "1.prems" lt show ?thesis by (simp add: step)
  next
    case gt
    then have "i < mid" using mono [of mid i] "1.prems" by (cases "mid \<le> i") auto
    with "1.IH"(2) [OF lr mid_def gt] "1.prems" gt mid show ?thesis by (simp add: step)
  next
    case eq
    then show ?thesis by (simp add: step)
  qed
qed

end
