(* ===== verification/PositionList.thy ===== *)
theory PositionList
  imports MarginTypes Search "HOL-Library.Multiset"
begin

text \<open>
  The position list of a margin account, \<open>AccountPositionList\<close> of
  \<open>programs/margin/src/state/account/positions.rs\<close>: 32 slots of positions and a map from mints to
  slot numbers, of which the first \<open>length\<close> entries are in use and sorted by mint.

  \<open>wf_plist\<close> is the representation invariant and \<open>plist_abs\<close> the finite map a list stands for. The
  lemmas show that every operation keeps the invariant and acts on the abstract map as lookup,
  insertion, update and deletion; the locale \<open>position_store\<close> states that contract for clients and
  is interpreted on the list.
\<close>

subsection \<open>The list\<close>

record AccountPositionKey =
  key_mint :: Pubkey
  key_index :: nat

record AccountPositionList =
  pl_length :: nat
  pl_map :: "AccountPositionKey list"
  pl_positions :: "AccountPosition list"

definition default_key :: AccountPositionKey where
  "default_key = \<lparr>key_mint = 0, key_index = 0\<rparr>"

definition empty_plist :: AccountPositionList where
  "empty_plist = \<lparr>pl_length = 0, pl_map = replicate 32 default_key,
                 pl_positions = replicate 32 zeroed_position\<rparr>"

text \<open>Indexing and slicing outside the array panics.\<close>

definition get_E :: "'a list \<Rightarrow> nat \<Rightarrow> 'a margin_res" where
  "get_E xs i = (if i < length xs then Inr (xs ! i) else panic)"

definition set_E :: "'a list \<Rightarrow> nat \<Rightarrow> 'a \<Rightarrow> 'a list margin_res" where
  "set_E xs i x = (if i < length xs then Inr (xs[i := x]) else panic)"

definition slice_to_E :: "'a list \<Rightarrow> nat \<Rightarrow> 'a list margin_res" where
  "slice_to_E xs n = (if n \<le> length xs then Inr (take n xs) else panic)"

text \<open>\<open>copy_within(a..b, d)\<close>.\<close>

definition copy_within_E :: "'a list \<Rightarrow> nat \<Rightarrow> nat \<Rightarrow> nat \<Rightarrow> 'a list margin_res" where
  "copy_within_E xs a b d =
     (if a \<le> b \<and> b \<le> length xs \<and> d \<le> length xs - (b - a)
      then Inr (take d xs @ take (b - a) (drop a xs) @ drop (d + (b - a)) xs)
      else panic)"

definition get_map_index :: "AccountPositionList \<Rightarrow> Pubkey \<Rightarrow> nat option margin_res" where
  "get_map_index l mint =
     bindE (slice_to_E (pl_map l) (pl_length l)) (\<lambda>m.
     Inr (bsearch key_mint m mint 0 (length m)))"

definition get_key :: "AccountPositionList \<Rightarrow> Pubkey \<Rightarrow> AccountPositionKey option margin_res" where
  "get_key l mint =
     bindE (get_map_index l mint) (\<lambda>i. case i of
       None \<Rightarrow> Inr None
     | Some i \<Rightarrow> bindE (get_E (pl_map l) i) (\<lambda>k. Inr (Some k)))"

definition plist_get :: "AccountPositionList \<Rightarrow> Pubkey \<Rightarrow> AccountPosition option margin_res" where
  "plist_get l mint =
     bindE (get_key l mint) (\<lambda>k. case k of
       None \<Rightarrow> Inr None
     | Some k \<Rightarrow> bindE (get_E (pl_positions l) (key_index k)) (\<lambda>p. Inr (Some p)))"

text \<open>
  \<open>get_mut\<close> hands out a reference to the slot; the model returns its number.
\<close>

definition plist_get_mut :: "AccountPositionList \<Rightarrow> Pubkey \<Rightarrow> nat option margin_res" where
  "plist_get_mut l mint =
     bindE (get_key l mint) (\<lambda>k. case k of
       None \<Rightarrow> Inr None
     | Some k \<Rightarrow> bindE (get_E (pl_positions l) (key_index k)) (\<lambda>p. Inr (Some (key_index k))))"

definition write_slot :: "nat \<Rightarrow> AccountPosition \<Rightarrow> AccountPositionList \<Rightarrow> AccountPositionList" where
  "write_slot i p l = l\<lparr>pl_positions := (pl_positions l)[i := p]\<rparr>"

text \<open>
  \<open>add\<close> returns the key and, for a new position, the slot that the caller must fill.
\<close>

definition plist_add :: "AccountPositionList \<Rightarrow> Pubkey \<Rightarrow>
    (AccountPositionList \<times> AccountPositionKey \<times> nat option) margin_res" where
  "plist_add l mint =
     (case find (\<lambda>k. key_mint k = mint) (pl_map l) of
        Some k \<Rightarrow> Inr (l, k, None)
      | None \<Rightarrow>
          bindE (ok_or (find (\<lambda>i. pos_token (pl_positions l ! i) = pubkey_default)
                          [0..<length (pl_positions l)]) MaxPositions) (\<lambda>index.
          let key = \<lparr>key_mint = mint, key_index = index\<rparr>; max_index = pl_length l in
          bindE (set_E (pl_map l) max_index key) (\<lambda>m1.
          bindE (slice_to_E m1 (max_index + 1)) (\<lambda>s.
          bindE (plain_add 64 (pl_length l) 1) (\<lambda>n.
          Inr (l\<lparr>pl_length := n,
                 pl_map := sort_key key_mint s @ drop (max_index + 1) m1,
                 pl_positions := (pl_positions l)[index := (pl_positions l ! index)\<lparr>pos_token := mint\<rparr>]\<rparr>,
               key, Some index))))))"

definition plist_remove :: "AccountPositionList \<Rightarrow> Pubkey \<Rightarrow> Pubkey \<Rightarrow>
    (AccountPositionList \<times> AccountPosition) margin_res" where
  "plist_remove l mint account =
     bindE (bindE (get_map_index l mint) (\<lambda>i. ok_or i PositionNotRegistered)) (\<lambda>map_index.
     bindE (get_E (pl_map l) map_index) (\<lambda>m.
     bindE (get_E (pl_positions l) (key_index m)) (\<lambda>position.
     if pos_address position \<noteq> account then err PositionNotRegistered
     else
       bindE (set_E (pl_positions l) (key_index m) zeroed_position) (\<lambda>positions.
       let n = pl_length l in
       bindE (copy_within_E (pl_map l) (map_index + 1) n map_index) (\<lambda>m1.
       bindE (plain_sub 64 n 1) (\<lambda>last_index.
       bindE (set_E m1 last_index default_key) (\<lambda>m2.
       Inr (l\<lparr>pl_length := last_index, pl_map := m2, pl_positions := positions\<rparr>, position))))))))"

subsection \<open>Invariant and abstraction\<close>

definition used_keys :: "AccountPositionList \<Rightarrow> AccountPositionKey list" where
  "used_keys l = take (pl_length l) (pl_map l)"

definition key_ok :: "AccountPosition list \<Rightarrow> AccountPositionKey \<Rightarrow> bool" where
  "key_ok ps k \<longleftrightarrow> key_mint k \<noteq> 0 \<and> key_index k < length ps \<and> pos_token (ps ! key_index k) = key_mint k"

definition wf_plist :: "AccountPositionList \<Rightarrow> bool" where
  "wf_plist l \<longleftrightarrow>
     length (pl_map l) = 32 \<and> length (pl_positions l) = 32 \<and> pl_length l \<le> 32 \<and>
     strict_keys key_mint (used_keys l) \<and>
     (\<forall>k \<in> set (used_keys l). key_ok (pl_positions l) k) \<and>
     (\<forall>j < 32. pos_token (pl_positions l ! j) \<noteq> 0 \<longrightarrow> j \<in> key_index ` set (used_keys l)) \<and>
     (\<forall>j < 32. pos_token (pl_positions l ! j) = 0 \<longrightarrow> pl_positions l ! j = zeroed_position) \<and>
     drop (pl_length l) (pl_map l) = replicate (32 - pl_length l) default_key"

definition plist_abs :: "AccountPositionList \<Rightarrow> Pubkey \<Rightarrow> AccountPosition option" where
  "plist_abs l mint =
     map_option (\<lambda>k. pl_positions l ! key_index k) (find (\<lambda>k. key_mint k = mint) (used_keys l))"

lemma wf_empty_plist: "wf_plist empty_plist"
  by (simp add: wf_plist_def empty_plist_def used_keys_def strict_keys_def zeroed_position_def)

lemma plist_abs_empty: "plist_abs empty_plist = Map.empty"
  by (simp add: fun_eq_iff plist_abs_def empty_plist_def used_keys_def)

lemma wf_plistD:
  assumes "wf_plist l"
  shows "length (pl_map l) = 32" "length (pl_positions l) = 32" "pl_length l \<le> 32"
    "strict_keys key_mint (used_keys l)" "k \<in> set (used_keys l) \<Longrightarrow> key_ok (pl_positions l) k"
    "length (used_keys l) = pl_length l"
    "pl_map l = used_keys l @ replicate (32 - pl_length l) default_key"
  using assms unfolding wf_plist_def used_keys_def
  by (auto simp: min_def) (metis append_take_drop_id)


lemma option_eqI: "(\<And>x. a = Some x \<longleftrightarrow> b = Some x) \<Longrightarrow> a = b"
  by (cases a; cases b) auto

lemma strict_keys_distinct: "strict_keys f xs \<Longrightarrow> distinct (map f xs)"
  by (simp add: strict_keys_def strict_sorted_iff)

lemma find_strict_keys:
  assumes "distinct (map f xs)"
  shows "find (\<lambda>x. f x = k) xs = Some x \<longleftrightarrow> x \<in> set xs \<and> f x = k"
  using assms by (induction xs) (auto simp: image_iff)

lemma plist_abs_Some:
  assumes "wf_plist l"
  shows "plist_abs l m = Some p \<longleftrightarrow>
    (\<exists>k \<in> set (used_keys l). key_mint k = m \<and> p = pl_positions l ! key_index k)"
  using find_strict_keys [OF strict_keys_distinct [OF wf_plistD(4) [OF assms]]]
  by (auto simp: plist_abs_def)

lemma plist_abs_token:
  "wf_plist l \<Longrightarrow> plist_abs l m = Some p \<Longrightarrow> pos_token p = m \<and> m \<noteq> 0"
  by (auto simp: plist_abs_Some key_ok_def dest: wf_plistD(5))

lemma key_index_inj:
  assumes "wf_plist l" "k \<in> set (used_keys l)" "k' \<in> set (used_keys l)" "key_index k = key_index k'"
  shows "k = k'"
proof -
  have "key_mint k = key_mint k'"
    using wf_plistD(5) [OF assms(1,2)] wf_plistD(5) [OF assms(1,3)] assms(4)
    by (simp add: key_ok_def)
  then show ?thesis
    using find_strict_keys [OF strict_keys_distinct [OF wf_plistD(4) [OF assms(1)]], of "key_mint k"]
      assms(2,3) by (metis option.inject)
qed

subsection \<open>Lookup\<close>

lemma get_map_index_eq:
  assumes "wf_plist l"
  shows "\<exists>r. get_map_index l mint = Inr r \<and>
    (\<forall>i. r = Some i \<longleftrightarrow> i < pl_length l \<and> key_mint (used_keys l ! i) = mint)"
proof -
  have "get_map_index l mint =
      Inr (bsearch key_mint (used_keys l) mint 0 (length (used_keys l)))"
    using wf_plistD(1,3) [OF assms] by (simp add: get_map_index_def slice_to_E_def used_keys_def)
  then show ?thesis
    using bsearch_range [OF wf_plistD(4) [OF assms] order_refl, of mint 0] wf_plistD(6) [OF assms]
    by simp
qed

lemma get_key_eq:
  assumes "wf_plist l"
  shows "get_key l mint = Inr (find (\<lambda>k. key_mint k = mint) (used_keys l))"
proof -
  obtain r where r: "get_map_index l mint = Inr r"
    "\<And>i. r = Some i \<longleftrightarrow> i < pl_length l \<and> key_mint (used_keys l ! i) = mint"
    using get_map_index_eq [OF assms] by blast
  have len: "pl_length l \<le> length (pl_map l)" using wf_plistD(1,3) [OF assms] by simp
  note fs = find_strict_keys [OF strict_keys_distinct [OF wf_plistD(4) [OF assms]], of mint]
  show ?thesis
  proof (cases r)
    case None
    then have "find (\<lambda>k. key_mint k = mint) (used_keys l) = None"
      using r(2) wf_plistD(6) [OF assms] by (auto simp: find_None_iff in_set_conv_nth)
    with None r(1) show ?thesis by (simp add: get_key_def)
  next
    case (Some i)
    with r(2) have i: "i < pl_length l" "key_mint (used_keys l ! i) = mint" by auto
    moreover have "used_keys l ! i = pl_map l ! i" using i by (simp add: used_keys_def)
    moreover have "used_keys l ! i \<in> set (used_keys l)" using i wf_plistD(6) [OF assms] by simp
    ultimately have "find (\<lambda>k. key_mint k = mint) (used_keys l) = Some (pl_map l ! i)"
      using fs by metis
    with Some r(1) i len show ?thesis by (simp add: get_key_def get_E_def)
  qed
qed

lemma find_in_set: "find P xs = Some x \<Longrightarrow> x \<in> set xs"
  by (induction xs) (auto split: if_splits)

theorem plist_get_abs:
  assumes "wf_plist l"
  shows "plist_get l mint = Inr (plist_abs l mint)"
proof (cases "find (\<lambda>k. key_mint k = mint) (used_keys l)")
  case (Some k)
  then have "k \<in> set (used_keys l)" by (rule find_in_set)
  with wf_plistD(5) [OF assms] have "key_index k < length (pl_positions l)" by (simp add: key_ok_def)
  with Some show ?thesis by (simp add: plist_get_def get_key_eq [OF assms] plist_abs_def get_E_def)
qed (simp add: plist_get_def get_key_eq [OF assms] plist_abs_def)

lemma plist_get_mut_eq:
  assumes "wf_plist l"
  shows "plist_get_mut l mint = Inr (map_option key_index (find (\<lambda>k. key_mint k = mint) (used_keys l)))"
proof (cases "find (\<lambda>k. key_mint k = mint) (used_keys l)")
  case (Some k)
  then have "k \<in> set (used_keys l)" by (rule find_in_set)
  with wf_plistD(5) [OF assms] have "key_index k < length (pl_positions l)" by (simp add: key_ok_def)
  with Some show ?thesis by (simp add: plist_get_mut_def get_key_eq [OF assms] get_E_def)
qed (simp add: plist_get_mut_def get_key_eq [OF assms])

subsection \<open>Writing through a slot\<close>

lemma plist_get_mut_Some:
  assumes "wf_plist l" "plist_get_mut l mint = Inr (Some i)"
  shows "\<exists>k \<in> set (used_keys l). key_mint k = mint \<and> key_index k = i"
    and "plist_abs l mint = Some (pl_positions l ! i)" and "i < 32"
  using assms find_strict_keys [OF strict_keys_distinct [OF wf_plistD(4) [OF assms(1)]], of mint]
    wf_plistD(2,5) [OF assms(1)]
  by (auto simp: plist_get_mut_eq plist_abs_def key_ok_def)

lemma write_slot_wf:
  assumes "wf_plist l" "k \<in> set (used_keys l)" "pos_token p = key_mint k"
  shows "wf_plist (write_slot (key_index k) p l)"
proof -
  have k: "key_mint k \<noteq> 0" "key_index k < 32"
    using wf_plistD(2,5) [OF assms(1)] assms(2) by (auto simp: key_ok_def)
  have u: "used_keys (write_slot (key_index k) p l) = used_keys l"
    by (simp add: used_keys_def write_slot_def)
  have "key_ok ((pl_positions l)[key_index k := p]) k'" if "k' \<in> set (used_keys l)" for k'
  proof (cases "key_index k' = key_index k")
    case True
    with key_index_inj [OF assms(1) that assms(2)] have "k' = k" by simp
    with k assms(3) wf_plistD(2) [OF assms(1)] show ?thesis by (simp add: key_ok_def)
  next
    case False
    with wf_plistD(5) [OF assms(1) that] show ?thesis by (simp add: key_ok_def)
  qed
  then show ?thesis using assms k u
    unfolding wf_plist_def by (auto simp: write_slot_def nth_list_update)
qed

lemma write_slot_abs:
  assumes "wf_plist l" "k \<in> set (used_keys l)" "pos_token p = key_mint k"
  shows "plist_abs (write_slot (key_index k) p l) = (plist_abs l)(key_mint k \<mapsto> p)"
proof (rule ext, rule option_eqI)
  fix m q
  have u: "used_keys (write_slot (key_index k) p l) = used_keys l"
    by (simp add: used_keys_def write_slot_def)
  have len: "key_index k < length (pl_positions l)"
    using wf_plistD(5) [OF assms(1,2)] by (simp add: key_ok_def)
  have i: "key_index k' = key_index k \<longleftrightarrow> k' = k" if "k' \<in> set (used_keys l)" for k'
    using key_index_inj [OF assms(1) that assms(2)] by auto
  have mi: "key_mint k' = key_mint k \<longleftrightarrow> k' = k" if "k' \<in> set (used_keys l)" for k'
    using find_strict_keys [OF strict_keys_distinct [OF wf_plistD(4) [OF assms(1)]], of "key_mint k"]
      that assms(2) by (metis option.inject)
  have "plist_abs (write_slot (key_index k) p l) m = Some q \<longleftrightarrow>
      (\<exists>k' \<in> set (used_keys l). key_mint k' = m \<and> q = (pl_positions l)[key_index k := p] ! key_index k')"
    unfolding plist_abs_Some [OF write_slot_wf [OF assms]] u by (simp add: write_slot_def)
  also have "\<dots> \<longleftrightarrow>
      (\<exists>k' \<in> set (used_keys l). key_mint k' = m \<and>
         q = (if k' = k then p else pl_positions l ! key_index k'))"
  proof (intro bex_cong refl)
    fix k' assume "k' \<in> set (used_keys l)"
    then show "(key_mint k' = m \<and> q = (pl_positions l)[key_index k := p] ! key_index k') \<longleftrightarrow>
        (key_mint k' = m \<and> q = (if k' = k then p else pl_positions l ! key_index k'))"
      using len i [of k'] by (cases "k' = k") (simp_all add: nth_list_update_neq [of _ "key_index k'"])
  qed
  also have "\<dots> \<longleftrightarrow> ((plist_abs l)(key_mint k \<mapsto> p)) m = Some q"
    using assms(2) mi by (cases "m = key_mint k") (auto simp: plist_abs_Some [OF assms(1)])
  finally show "plist_abs (write_slot (key_index k) p l) m = Some q \<longleftrightarrow>
      ((plist_abs l)(key_mint k \<mapsto> p)) m = Some q" .
qed

subsection \<open>Insertion\<close>

lemma find_used:
  assumes "wf_plist l" "mint \<noteq> 0"
  shows "find (\<lambda>k. key_mint k = mint) (pl_map l) = find (\<lambda>k. key_mint k = mint) (used_keys l)"
proof -
  have "find P (xs @ replicate n (x::AccountPositionKey)) = find P xs" if "\<not> P x" for P xs n x
    using that by (induction xs) (auto simp: find_None_iff)
  then show ?thesis using wf_plistD(7) [OF assms(1)] assms(2) by (simp add: default_key_def)
qed

lemma find_used_None:
  assumes "wf_plist l"
  shows "find (\<lambda>k. key_mint k = mint) (used_keys l) = None \<longleftrightarrow> plist_abs l mint = None"
  by (simp add: plist_abs_def)

lemma slot_taken_iff:
  assumes "wf_plist l" "j < 32"
  shows "pos_token (pl_positions l ! j) \<noteq> 0 \<longleftrightarrow> j \<in> key_index ` set (used_keys l)"
proof
  show "j \<in> key_index ` set (used_keys l)" if "pos_token (pl_positions l ! j) \<noteq> 0"
    using assms that by (simp add: wf_plist_def)
  show "pos_token (pl_positions l ! j) \<noteq> 0" if "j \<in> key_index ` set (used_keys l)"
    using that wf_plistD(5) [OF assms(1)] by (auto simp: key_ok_def)
qed

definition free_slot :: "AccountPositionList \<Rightarrow> nat option" where
  "free_slot l = find (\<lambda>i. pos_token (pl_positions l ! i) = pubkey_default) [0..<length (pl_positions l)]"

lemma free_slot_exists:
  assumes "wf_plist l" "pl_length l < 32"
  obtains i where "free_slot l = Some i" "i < 32" "pl_positions l ! i = zeroed_position"
    "i \<notin> key_index ` set (used_keys l)"
proof -
  have "card (key_index ` set (used_keys l)) \<le> pl_length l"
    using card_image_le [of "set (used_keys l)" key_index] card_length [of "used_keys l"]
      wf_plistD(6) [OF assms(1)] by simp
  with assms(2) have "card (key_index ` set (used_keys l)) < card {0..<32::nat}" by simp
  then have "\<not> {0..<32} \<subseteq> key_index ` set (used_keys l)"
    using card_mono [of "key_index ` set (used_keys l)" "{0..<32}"] by fastforce
  then obtain j where "j \<in> {0..<32}" "j \<notin> key_index ` set (used_keys l)" by blast
  then have j: "j < 32" "j \<notin> key_index ` set (used_keys l)" by simp_all
  with slot_taken_iff [OF assms(1) j(1)] have "pos_token (pl_positions l ! j) = 0" by simp
  with j(1) wf_plistD(2) [OF assms(1)] have "free_slot l \<noteq> None"
    by (auto simp: free_slot_def find_None_iff pubkey_default_def)
  then obtain i where i: "free_slot l = Some i" by blast
  then have "i \<in> set [0..<length (pl_positions l)]" "pos_token (pl_positions l ! i) = 0"
    by (auto simp: free_slot_def find_Some_iff pubkey_default_def simp del: upt_Suc)
  then have l: "i < 32" "pos_token (pl_positions l ! i) = 0" using wf_plistD(2) [OF assms(1)] by auto
  show ?thesis
    by (rule that [OF i l(1)]) (use l slot_taken_iff [OF assms(1) l(1)] assms(1) in \<open>auto simp: wf_plist_def\<close>)
qed

lemma free_slot_full:
  assumes "wf_plist l" "pl_length l = 32"
  shows "free_slot l = None"
proof -
  have "card (key_index ` set (used_keys l)) = 32"
  proof -
    have "inj_on key_index (set (used_keys l))"
      by (intro inj_onI) (rule key_index_inj [OF assms(1)])
    moreover have "distinct (used_keys l)"
      using strict_keys_distinct [OF wf_plistD(4) [OF assms(1)]] by (simp add: distinct_map)
    ultimately show ?thesis
      using wf_plistD(6) [OF assms(1)] assms(2) by (simp add: card_image distinct_card)
  qed
  moreover have "key_index ` set (used_keys l) \<subseteq> {0..<32}"
    using wf_plistD(2,5) [OF assms(1)] by (auto simp: key_ok_def)
  ultimately have "key_index ` set (used_keys l) = {0..<32}"
    by (intro card_subset_eq) auto
  then show ?thesis
    using slot_taken_iff [OF assms(1)] wf_plistD(2) [OF assms(1)]
    by (auto simp: free_slot_def find_None_iff pubkey_default_def)
qed

lemma plist_add_existing:
  assumes "wf_plist l" "mint \<noteq> 0" "plist_abs l mint \<noteq> None"
  shows "\<exists>k. plist_add l mint = Inr (l, k, None)"
  using assms find_used [OF assms(1,2)] by (auto simp: plist_add_def plist_abs_def)

lemma plist_add_full:
  assumes "wf_plist l" "mint \<noteq> 0" "plist_abs l mint = None" "pl_length l = 32"
  shows "plist_add l mint = err MaxPositions"
  using assms find_used [OF assms(1,2)] free_slot_full [OF assms(1,4)]
  by (simp add: plist_add_def plist_abs_def free_slot_def err_def)

text \<open>The list with a new key and its slot.\<close>

definition added :: "AccountPositionList \<Rightarrow> Pubkey \<Rightarrow> nat \<Rightarrow> AccountPositionList" where
  "added l mint i =
     \<lparr>pl_length = pl_length l + 1,
      pl_map = sort_key key_mint (used_keys l @ [\<lparr>key_mint = mint, key_index = i\<rparr>]) @
        replicate (31 - pl_length l) default_key,
      pl_positions = (pl_positions l)[i := zeroed_position\<lparr>pos_token := mint\<rparr>]\<rparr>"

lemma plist_add_new:
  assumes "wf_plist l" "mint \<noteq> 0" "plist_abs l mint = None" "pl_length l < 32" "free_slot l = Some i"
  shows "plist_add l mint = Inr (added l mint i, \<lparr>key_mint = mint, key_index = i\<rparr>, Some i)"
proof -
  let ?k = "\<lparr>key_mint = mint, key_index = i\<rparr>"
  have none: "find (\<lambda>k. key_mint k = mint) (pl_map l) = None"
    using find_used [OF assms(1,2)] assms(3) by (simp add: plist_abs_def)
  have z: "pl_positions l ! i = zeroed_position"
    using free_slot_exists [OF assms(1,4)] assms(5) by (metis option.inject)
  have map: "(pl_map l)[pl_length l := ?k] = used_keys l @ ?k # replicate (31 - pl_length l) default_key"
  proof -
    have "pl_map l = used_keys l @ default_key # replicate (31 - pl_length l) default_key"
    proof -
      have "32 - pl_length l = Suc (31 - pl_length l)" using assms(4) by arith
      with wf_plistD(7) [OF assms(1)] show ?thesis by (metis replicate_Suc)
    qed
    then show ?thesis by (simp add: list_update_append wf_plistD(6) [OF assms(1)])
  qed
  have drop: "drop (Suc (pl_length l)) (pl_map l) = replicate (31 - pl_length l) default_key"
    using arg_cong [OF map, of "drop (Suc (pl_length l))"] wf_plistD(6) [OF assms(1)] by simp
  have len: "pl_length l < length (pl_map l)" using assms(4) wf_plistD(1) [OF assms(1)] by simp
  have add: "plain_add 64 (pl_length l) (Suc 0) = Inr (Suc (pl_length l))"
    using assms(4) plain_add_ok [of 64 "pl_length l" 1] by (simp add: u_range_def)
  show ?thesis
    using len wf_plistD(6) [OF assms(1)] assms(4,5)
    by (simp add: plist_add_def none free_slot_def [symmetric] set_E_def map drop slice_to_E_def add z
        added_def Let_def)
qed

lemma added_keys:
  assumes "wf_plist l" "plist_abs l mint = None"
  shows "set (used_keys (added l mint i)) = insert \<lparr>key_mint = mint, key_index = i\<rparr> (set (used_keys l))"
    and "mint \<notin> key_mint ` set (used_keys l)" "strict_keys key_mint (used_keys (added l mint i))"
proof -
  let ?k = "\<lparr>key_mint = mint, key_index = i\<rparr>"
  note wf = wf_plistD [OF assms(1)]
  have used: "used_keys (added l mint i) = sort_key key_mint (used_keys l @ [?k])"
    using wf(6) by (simp add: used_keys_def [of "added l mint i"]) (simp add: added_def)
  then show "set (used_keys (added l mint i)) = insert ?k (set (used_keys l))" by simp
  show new: "mint \<notin> key_mint ` set (used_keys l)"
    using assms(2) by (auto simp: plist_abs_def find_None_iff)
  have "mset (map key_mint (used_keys (added l mint i))) = mset (map key_mint (used_keys l @ [?k]))"
    by (simp only: used mset_map mset_sort)
  moreover have "distinct (map key_mint (used_keys l @ [?k]))"
    using new strict_keys_distinct [OF wf(4)] by simp
  ultimately have "distinct (map key_mint (used_keys (added l mint i)))" by (metis mset_eq_imp_distinct_iff)
  moreover have "sorted (map key_mint (used_keys (added l mint i)))" by (simp only: used sorted_sort_key)
  ultimately show "strict_keys key_mint (used_keys (added l mint i))"
    by (simp add: strict_keys_def strict_sorted_iff)
qed

lemma added_slots:
  assumes "wf_plist l" "i < 32"
  shows "pl_positions (added l mint i) ! j =
    (if j = i then zeroed_position\<lparr>pos_token := mint\<rparr> else pl_positions l ! j)"
  using wf_plistD(2) [OF assms(1)] assms(2) by (simp add: added_def nth_list_update)

lemma added_wf:
  assumes "wf_plist l" "mint \<noteq> 0" "plist_abs l mint = None" "pl_length l < 32" "free_slot l = Some i"
  shows "wf_plist (added l mint i)"
  unfolding wf_plist_def
proof (intro conjI ballI allI impI)
  let ?l = "added l mint i"
  note wf = wf_plistD [OF assms(1)] and keys = added_keys [OF assms(1,3)]
  have i: "i < 32" "i \<notin> key_index ` set (used_keys l)"
    using free_slot_exists [OF assms(1,4)] assms(5) by (metis option.inject)+
  note slots = added_slots [OF assms(1) i(1), of mint]
  show "length (pl_map ?l) = 32" using wf(6) assms(4) by (simp add: added_def)
  show "length (pl_positions ?l) = 32" using wf(2) by (simp add: added_def)
  show "pl_length ?l \<le> 32" using assms(4) by (simp add: added_def)
  show "drop (pl_length ?l) (pl_map ?l) = replicate (32 - pl_length ?l) default_key"
    using wf(6) by (simp add: added_def)
  show "strict_keys key_mint (used_keys ?l)" by (rule keys(3))
  show "key_ok (pl_positions ?l) k" if "k \<in> set (used_keys ?l)" for k
    using that wf(2) wf(5) [of k] i assms(2) by (auto simp: keys(1) key_ok_def slots) (auto simp: added_def)
  show "j \<in> key_index ` set (used_keys ?l)" if "j < 32" "pos_token (pl_positions ?l ! j) \<noteq> 0" for j
    using that slots [of j] slot_taken_iff [OF assms(1)] by (auto simp: keys(1) split: if_splits)
  show "pl_positions ?l ! j = zeroed_position" if "j < 32" "pos_token (pl_positions ?l ! j) = 0" for j
    using that slots [of j] assms(1,2) by (auto simp: wf_plist_def split: if_splits)
qed

lemma added_abs:
  assumes "wf_plist l" "mint \<noteq> 0" "plist_abs l mint = None" "pl_length l < 32" "free_slot l = Some i"
  shows "plist_abs (added l mint i) = (plist_abs l)(mint \<mapsto> zeroed_position\<lparr>pos_token := mint\<rparr>)"
proof (rule ext, rule option_eqI)
  fix m q
  let ?p = "zeroed_position\<lparr>pos_token := mint\<rparr>"
  note keys = added_keys [OF assms(1,3)]
  have i: "i < 32" "i \<notin> key_index ` set (used_keys l)"
    using free_slot_exists [OF assms(1,4)] assms(5) by (metis option.inject)+
  have "plist_abs (added l mint i) m = Some q \<longleftrightarrow> (mint = m \<and> q = ?p) \<or>
      (\<exists>k \<in> set (used_keys l). key_mint k = m \<and> q = pl_positions (added l mint i) ! key_index k)"
    unfolding plist_abs_Some [OF added_wf [OF assms]] keys(1) by (simp add: added_slots [OF assms(1) i(1)])
  also have "\<dots> \<longleftrightarrow> (mint = m \<and> q = ?p) \<or>
      (\<exists>k \<in> set (used_keys l). key_mint k = m \<and> q = pl_positions l ! key_index k)"
    using i(2) by (intro disj_cong bex_cong refl) (auto simp: added_slots [OF assms(1) i(1)])
  also have "\<dots> \<longleftrightarrow> ((plist_abs l)(mint \<mapsto> ?p)) m = Some q"
    using keys(2) by (cases "m = mint") (auto simp: plist_abs_Some [OF assms(1)])
  finally show "plist_abs (added l mint i) m = Some q \<longleftrightarrow> ((plist_abs l)(mint \<mapsto> ?p)) m = Some q" .
qed

lemmas added_wf_abs = added_wf added_abs

subsection \<open>Deletion\<close>

lemma plist_remove_absent:
  assumes "wf_plist l" "plist_abs l mint = None"
  shows "plist_remove l mint account = err PositionNotRegistered"
proof -
  obtain r where r: "get_map_index l mint = Inr r"
    "\<And>i. r = Some i \<longleftrightarrow> i < pl_length l \<and> key_mint (used_keys l ! i) = mint"
    using get_map_index_eq [OF assms(1)] by blast
  have "r = None"
  proof (rule ccontr)
    assume "r \<noteq> None"
    then obtain i where "i < pl_length l" "key_mint (used_keys l ! i) = mint" using r(2) by auto
    then show False using assms(2) wf_plistD(6) [OF assms(1)]
      by (auto simp: plist_abs_def find_None_iff in_set_conv_nth)
  qed
  with r(1) show ?thesis by (simp add: plist_remove_def err_def)
qed

text \<open>The list without the entry at map index \<open>i\<close>.\<close>

definition removed :: "AccountPositionList \<Rightarrow> nat \<Rightarrow> AccountPositionList" where
  "removed l i =
     \<lparr>pl_length = pl_length l - 1,
      pl_map = take i (used_keys l) @ drop (Suc i) (used_keys l) @
        replicate (33 - pl_length l) default_key,
      pl_positions = (pl_positions l)[key_index (used_keys l ! i) := zeroed_position]\<rparr>"

lemma plist_remove_present:
  assumes "wf_plist l" "i < pl_length l" "key_mint (used_keys l ! i) = mint"
  defines "p \<equiv> pl_positions l ! key_index (used_keys l ! i)"
  shows "plist_remove l mint account =
    (if pos_address p \<noteq> account then err PositionNotRegistered else Inr (removed l i, p))"
proof -
  note wf = wf_plistD [OF assms(1)]
  obtain r where r: "get_map_index l mint = Inr r"
    "\<And>i. r = Some i \<longleftrightarrow> i < pl_length l \<and> key_mint (used_keys l ! i) = mint"
    using get_map_index_eq [OF assms(1)] by blast
  with assms(2,3) have idx: "get_map_index l mint = Inr (Some i)" by metis
  have nth: "pl_map l ! i = used_keys l ! i" using assms(2) by (simp add: used_keys_def)
  have "used_keys l ! i \<in> set (used_keys l)" using assms(2) wf(6) by simp
  then have slot: "key_index (used_keys l ! i) < 32" using wf(2) wf(5) by (auto simp: key_ok_def)
  have split: "take i (pl_map l) @ take (pl_length l - Suc i) (drop (Suc i) (pl_map l)) @
      drop (i + (pl_length l - Suc i)) (pl_map l) =
      (take i (used_keys l) @ drop (Suc i) (used_keys l)) @ drop (pl_length l - 1) (pl_map l)"
    using assms(2) by (simp add: used_keys_def take_drop min_def)
  have last: "(drop (pl_length l - 1) (pl_map l))[0 := default_key] =
      replicate (33 - pl_length l) default_key"
  proof -
    have "drop (pl_length l - 1) (pl_map l) = pl_map l ! (pl_length l - 1) # drop (pl_length l) (pl_map l)"
      using assms(2) wf(1,3) Cons_nth_drop_Suc [of "pl_length l - 1" "pl_map l"] by simp
    moreover have "drop (pl_length l) (pl_map l) = replicate (32 - pl_length l) default_key"
      using assms(1) by (simp add: wf_plist_def)
    moreover have "33 - pl_length l = Suc (32 - pl_length l)" using wf(3) by simp
    ultimately show ?thesis by (simp only: list_update_code replicate_Suc)
  qed
  have pre: "length (take i (used_keys l) @ drop (Suc i) (used_keys l)) = pl_length l - 1"
    using assms(2) wf(6) by simp
  have set: "((take i (used_keys l) @ drop (Suc i) (used_keys l)) @ drop (pl_length l - 1) (pl_map l))
      [pl_length l - 1 := default_key] =
      take i (used_keys l) @ drop (Suc i) (used_keys l) @ replicate (33 - pl_length l) default_key"
    by (subst list_update_append, subst (1 2) pre) (simp only: less_irrefl if_False diff_self_eq_0 last append_assoc)
  have sub: "plain_sub 64 (pl_length l) 1 = Inr (pl_length l - 1)"
    using assms(2) wf(3) by (intro plain_sub_ok) (simp_all add: u_range_def)
  have copy: "copy_within_E (pl_map l) (i + 1) (pl_length l) i =
      Inr ((take i (used_keys l) @ drop (Suc i) (used_keys l)) @ drop (pl_length l - 1) (pl_map l))"
    using assms(2) wf(1,3) split by (simp add: copy_within_E_def)
  have "pl_length l - 1 < length ((take i (used_keys l) @ drop (Suc i) (used_keys l)) @
      drop (pl_length l - 1) (pl_map l))"
    using assms(2) wf(1,3) pre by simp
  then have set_E: "set_E ((take i (used_keys l) @ drop (Suc i) (used_keys l)) @
      drop (pl_length l - 1) (pl_map l)) (pl_length l - 1) default_key =
      Inr (take i (used_keys l) @ drop (Suc i) (used_keys l) @ replicate (33 - pl_length l) default_key)"
    using set by (simp only: set_E_def if_True)
  have i: "i < length (pl_map l)" using assms(2) wf(1,3) by simp
  show ?thesis
    unfolding plist_remove_def
    by (simp only: idx bindE_simps ok_or_simps get_E_def i if_True nth slot wf(2) p_def set_E_def [of "pl_positions l"]
        Let_def copy sub set_E removed_def split: if_split) simp
qed

lemma removed_keys:
  assumes "wf_plist l" "i < pl_length l"
  defines "k \<equiv> used_keys l ! i"
  shows "k \<in> set (used_keys l)" "set (used_keys (removed l i)) = set (used_keys l) - {k}"
    and "strict_keys key_mint (used_keys (removed l i))"
    and "k' \<in> set (used_keys (removed l i)) \<Longrightarrow> key_index k' \<noteq> key_index k"
proof -
  note wf = wf_plistD [OF assms(1)]
  have split: "used_keys l = take i (used_keys l) @ k # drop (Suc i) (used_keys l)"
    unfolding k_def using assms(2) wf(6) by (simp add: id_take_nth_drop [symmetric])
  have used: "used_keys (removed l i) = take i (used_keys l) @ drop (Suc i) (used_keys l)"
    using assms(2) wf(6) by (simp add: used_keys_def [of "removed l i"]) (simp add: removed_def)
  show k: "k \<in> set (used_keys l)" unfolding k_def using assms(2) wf(6) by simp
  have "distinct (used_keys l)"
    using strict_keys_distinct [OF wf(4)] by (simp add: distinct_map)
  then have "distinct (take i (used_keys l) @ k # drop (Suc i) (used_keys l))"
    using split by simp
  moreover have "set (used_keys l) = set (take i (used_keys l) @ k # drop (Suc i) (used_keys l))"
    using split by simp
  ultimately show set_used: "set (used_keys (removed l i)) = set (used_keys l) - {k}"
    unfolding used by auto
  show "strict_keys key_mint (used_keys (removed l i))"
    using wf(4) unfolding strict_keys_def used
    by (subst (asm) split) (auto simp: sorted_wrt_append)
  show "key_index k' \<noteq> key_index k" if "k' \<in> set (used_keys (removed l i))"
    using that key_index_inj [OF assms(1) _ k, of k'] by (auto simp: set_used)
qed

lemma removed_slots:
  assumes "wf_plist l" "j < 32"
  shows "pl_positions (removed l i) ! j =
    (if j = key_index (used_keys l ! i) then zeroed_position else pl_positions l ! j)"
  using wf_plistD(2) [OF assms(1)] assms(2) by (simp add: removed_def nth_list_update)

lemma removed_wf:
  assumes "wf_plist l" "i < pl_length l"
  shows "wf_plist (removed l i)"
  unfolding wf_plist_def
proof (intro conjI ballI allI impI)
  let ?l = "removed l i" and ?k = "used_keys l ! i"
  note wf = wf_plistD [OF assms(1)] and keys = removed_keys [OF assms] and slots = removed_slots [OF assms(1)]
  show "length (pl_map ?l) = 32" using wf(3,6) assms(2) by (simp add: removed_def)
  show len: "length (pl_positions ?l) = 32" using wf(2) by (simp add: removed_def)
  show "pl_length ?l \<le> 32" using wf(3) by (simp add: removed_def)
  show "drop (pl_length ?l) (pl_map ?l) = replicate (32 - pl_length ?l) default_key"
    using wf(6) wf(3) assms(2) by (simp add: removed_def)
  show "strict_keys key_mint (used_keys ?l)" by (rule keys(3))
  show "key_ok (pl_positions ?l) k'" if "k' \<in> set (used_keys ?l)" for k'
    using that keys(4) [OF that] wf(2) wf(5) [of k'] slots [of "key_index k'"] len by (auto simp: key_ok_def keys(2))
  show "j \<in> key_index ` set (used_keys ?l)" if "j < 32" "pos_token (pl_positions ?l ! j) \<noteq> 0" for j
  proof -
    have "j \<noteq> key_index ?k" "j \<in> key_index ` set (used_keys l)"
      using that slots [of j] slot_taken_iff [OF assms(1)] by (auto simp: zeroed_position_def split: if_splits)
    then show ?thesis by (auto simp: keys(2))
  qed
  show "pl_positions ?l ! j = zeroed_position" if "j < 32" "pos_token (pl_positions ?l ! j) = 0" for j
    using that slots [of j] assms(1) by (auto simp: wf_plist_def split: if_splits)
qed

lemma removed_abs:
  assumes "wf_plist l" "i < pl_length l"
  shows "plist_abs (removed l i) = (plist_abs l)(key_mint (used_keys l ! i) := None)"
proof (rule ext, rule option_eqI)
  fix m q
  let ?k = "used_keys l ! i"
  note wf = wf_plistD [OF assms(1)] and keys = removed_keys [OF assms] and slots = removed_slots [OF assms(1)]
  have "plist_abs (removed l i) m = Some q \<longleftrightarrow>
      (\<exists>k' \<in> set (used_keys (removed l i)). key_mint k' = m \<and> q = pl_positions l ! key_index k')"
    unfolding plist_abs_Some [OF removed_wf [OF assms]]
    using keys(2,4) slots wf(2) wf(5) by (intro bex_cong refl) (auto simp: key_ok_def)
  also have "\<dots> \<longleftrightarrow> ((plist_abs l)(key_mint ?k := None)) m = Some q"
  proof -
    have "k' = ?k" if "k' \<in> set (used_keys l)" "key_mint k' = key_mint ?k" for k'
      using find_strict_keys [OF strict_keys_distinct [OF wf(4)], of "key_mint ?k"] keys(1) that
      by (metis option.inject)
    then show ?thesis by (cases "m = key_mint ?k") (auto simp: plist_abs_Some [OF assms(1)] keys(2))
  qed
  finally show "plist_abs (removed l i) m = Some q \<longleftrightarrow> ((plist_abs l)(key_mint ?k := None)) m = Some q" .
qed

lemmas removed_wf_abs = removed_wf removed_abs

lemma removed_result:
  assumes "wf_plist l" "plist_abs l mint = Some p"
  obtains i where "i < pl_length l" "key_mint (used_keys l ! i) = mint"
    "p = pl_positions l ! key_index (used_keys l ! i)"
  using assms wf_plistD(6) [OF assms(1)] by (auto simp: plist_abs_Some in_set_conv_nth)

subsection \<open>The contract\<close>

text \<open>
  What the margin account asks of its position store: \<open>view\<close> is the finite map the store stands
  for, \<open>slot\<close> and \<open>put\<close> read and write the place that \<open>get_mut\<close> or \<open>add\<close> hands out.
\<close>

definition slot_of :: "AccountPositionList \<Rightarrow> nat \<Rightarrow> AccountPosition" where
  "slot_of l i = pl_positions l ! i"

locale position_store =
  fixes invar :: "'s \<Rightarrow> bool"
    and view :: "'s \<Rightarrow> Pubkey \<Rightarrow> AccountPosition option"
    and get :: "'s \<Rightarrow> Pubkey \<Rightarrow> AccountPosition option margin_res"
    and get_mut :: "'s \<Rightarrow> Pubkey \<Rightarrow> nat option margin_res"
    and slot :: "'s \<Rightarrow> nat \<Rightarrow> AccountPosition"
    and put :: "nat \<Rightarrow> AccountPosition \<Rightarrow> 's \<Rightarrow> 's"
    and add :: "'s \<Rightarrow> Pubkey \<Rightarrow> ('s \<times> AccountPositionKey \<times> nat option) margin_res"
    and remove :: "'s \<Rightarrow> Pubkey \<Rightarrow> Pubkey \<Rightarrow> ('s \<times> AccountPosition) margin_res"
  assumes view_token: "invar s \<Longrightarrow> view s m = Some p \<Longrightarrow> pos_token p = m \<and> m \<noteq> 0"
    and get_view: "invar s \<Longrightarrow> get s m = Inr (view s m)"
    and get_mut_total: "invar s \<Longrightarrow> \<exists>i. get_mut s m = Inr i \<and> (i = None \<longleftrightarrow> view s m = None)"
    and get_mut_slot: "invar s \<Longrightarrow> get_mut s m = Inr (Some i) \<Longrightarrow> view s m = Some (slot s i)"
    and write_invar: "invar s \<Longrightarrow> get_mut s m = Inr (Some i) \<Longrightarrow> pos_token p = m \<Longrightarrow> invar (put i p s)"
    and write_view: "invar s \<Longrightarrow> get_mut s m = Inr (Some i) \<Longrightarrow> pos_token p = m \<Longrightarrow>
      view (put i p s) = (view s)(m \<mapsto> p)"
    and add_present: "invar s \<Longrightarrow> m \<noteq> 0 \<Longrightarrow> view s m \<noteq> None \<Longrightarrow> \<exists>k. add s m = Inr (s, k, None)"
    and add_absent: "invar s \<Longrightarrow> m \<noteq> 0 \<Longrightarrow> view s m = None \<Longrightarrow>
      add s m = err MaxPositions \<or>
      (\<exists>s' k i. add s m = Inr (s', k, Some i) \<and> key_mint k = m \<and> key_index k = i \<and> invar s' \<and>
         get_mut s' m = Inr (Some i) \<and> slot s' i = zeroed_position\<lparr>pos_token := m\<rparr> \<and>
         view s' = (view s)(m \<mapsto> zeroed_position\<lparr>pos_token := m\<rparr>))"
    and remove_absent: "invar s \<Longrightarrow> view s m = None \<Longrightarrow> remove s m a = err PositionNotRegistered"
    and remove_present: "invar s \<Longrightarrow> view s m = Some p \<Longrightarrow>
      (if pos_address p \<noteq> a then remove s m a = err PositionNotRegistered
       else \<exists>s'. remove s m a = Inr (s', p) \<and> invar s' \<and> view s' = (view s)(m := None))"
begin

text \<open>A read-modify-put of one position changes exactly that position.\<close>

definition modify :: "'s \<Rightarrow> Pubkey \<Rightarrow> (AccountPosition \<Rightarrow> AccountPosition margin_res) \<Rightarrow> 's margin_res" where
  "modify s m f =
     bindE (get_mut s m) (\<lambda>i. case i of
       None \<Rightarrow> err PositionNotRegistered
     | Some i \<Rightarrow> bindE (f (slot s i)) (\<lambda>p. Inr (put i p s)))"

lemma get_mut_None: "invar s \<Longrightarrow> view s m = None \<Longrightarrow> get_mut s m = Inr None"
  using get_mut_total [of s m] by auto

lemma get_mut_Some:
  assumes "invar s" "view s m = Some p"
  obtains i where "get_mut s m = Inr (Some i)" "slot s i = p"
  using get_mut_total [OF assms(1), of m] get_mut_slot [OF assms(1)] assms(2) that by auto

lemma get_mut_cases:
  assumes "invar s"
  obtains (none) "get_mut s m = Inr None" "view s m = None"
    | (some) i where "get_mut s m = Inr (Some i)" "view s m = Some (slot s i)"
  using get_mut_None [OF assms] get_mut_slot [OF assms] get_mut_Some [OF assms]
  by (metis not_None_eq)

lemma write_same:
  assumes "invar s" "get_mut s m = Inr (Some i)" "pos_token p = pos_token (slot s i)"
  shows "invar (put i p s)" "view (put i p s) = (view s)(m \<mapsto> p)"
  using assms write_invar write_view view_token get_mut_slot by metis+

lemma add_Inr:
  assumes "invar s" "m \<noteq> 0" "add s m = Inr (s', k, r)"
  shows "(r = None \<and> s' = s \<and> view s m \<noteq> None) \<or>
    (view s m = None \<and> r = Some (key_index k) \<and> key_mint k = m \<and> invar s' \<and>
     get_mut s' m = Inr r \<and> slot s' (key_index k) = zeroed_position\<lparr>pos_token := m\<rparr> \<and>
     view s' = (view s)(m \<mapsto> zeroed_position\<lparr>pos_token := m\<rparr>))"
proof (cases "view s m = None")
  case True
  show ?thesis using add_absent [OF assms(1,2) True] assms(3) True by (auto simp: err_def)
qed (use add_present [OF assms(1,2)] assms(3) in auto)

lemma remove_Inr:
  assumes "invar s" "remove s m a = Inr (s', p)"
  shows "view s m = Some p \<and> pos_address p = a \<and> invar s' \<and> view s' = (view s)(m := None)"
proof (cases "view s m")
  case None
  with remove_absent [OF assms(1)] assms(2) show ?thesis by (simp add: err_def)
next
  case (Some q)
  from remove_present [OF assms(1) Some, of a] assms(2) Some show ?thesis
    by (auto simp: err_def split: if_splits)
qed

end

interpretation ps: position_store wf_plist plist_abs plist_get plist_get_mut slot_of write_slot
  plist_add plist_remove
proof (unfold_locales, goal_cases)
  case (1 s m p) then show ?case by (rule plist_abs_token)
next
  case (2 s m) then show ?case by (rule plist_get_abs)
next
  case (3 s m) then show ?case by (simp add: plist_get_mut_eq plist_abs_def)
next
  case (4 s m i) then show ?case by (simp add: plist_get_mut_Some(2) slot_of_def)
next
  case (5 s m i p) then show ?case using plist_get_mut_Some(1) [OF 5(1,2)] write_slot_wf by metis
next
  case (6 s m i p) then show ?case using plist_get_mut_Some(1) [OF 6(1,2)] write_slot_abs by metis
next
  case (7 s m) then show ?case by (rule plist_add_existing)
next
  case (8 s m)
  show ?case
  proof (cases "pl_length s < 32")
    case False
    then have "pl_length s = 32" using wf_plistD(3) [OF 8(1)] by simp
    then show ?thesis using plist_add_full [OF 8] by blast
  next
    case True
    obtain i where i: "free_slot s = Some i" "i < 32" using free_slot_exists [OF 8(1) True] by metis
    note wa = added_wf_abs [OF 8 True i(1)]
    have s: "slot_of (added s m i) i = zeroed_position\<lparr>pos_token := m\<rparr>"
      using i(2) wf_plistD(2) [OF 8(1)] by (simp add: slot_of_def added_def)
    have "\<lparr>key_mint = m, key_index = i\<rparr> \<in> set (used_keys (added s m i))"
      using wf_plistD(6) [OF 8(1)] by (simp add: used_keys_def [of "added s m i"]) (simp add: added_def)
    then have "find (\<lambda>k. key_mint k = m) (used_keys (added s m i)) = Some \<lparr>key_mint = m, key_index = i\<rparr>"
      using find_strict_keys [OF strict_keys_distinct [OF wf_plistD(4) [OF wa(1)]]] by simp
    then have "plist_get_mut (added s m i) m = Inr (Some i)" by (simp add: plist_get_mut_eq [OF wa(1)])
    with s wa plist_add_new [OF 8 True i(1)] show ?thesis by simp
  qed
next
  case (9 s m a) then show ?case by (rule plist_remove_absent)
next
  case (10 s m p a)
  obtain i where i: "i < pl_length s" "key_mint (used_keys s ! i) = m"
    "p = pl_positions s ! key_index (used_keys s ! i)"
    using removed_result [OF 10] by blast
  show ?case
    using plist_remove_present [OF 10(1) i(1,2), of a] removed_wf_abs [OF 10(1) i(1)] i by auto
qed

end
