(* ===== verification/MarginAccount.thy ===== *)
theory MarginAccount
  imports PositionList
begin

text \<open>
  The margin account of \<open>programs/margin/src/state/account.rs\<close>: registering, updating and closing
  positions, the authority over the account, its valuation and the liquidation record.

  The \<open>positions\<close> bytes hold an \<open>AccountPositionList\<close>, which every access reinterprets; the model
  stores the list. \<open>account_spec\<close> lemmas state each operation on the finite map of positions, and
  \<open>valuation_spec\<close> gives the valuation as sums over the fresh positions.
\<close>

subsection \<open>Data\<close>

record MarginAccount =
  ma_version :: nat
  ma_bump_seed :: nat
  ma_user_seed :: nat
  ma_invocation :: BitSet
  ma_owner :: Pubkey
  ma_airspace :: Pubkey
  ma_liquidator :: Pubkey
  ma_positions :: AccountPositionList

definition MARGIN_ACCOUNT_VERSION :: nat where "MARGIN_ACCOUNT_VERSION = 1"

record PositionConfigUpdate =
  pcu_mint :: Pubkey
  pcu_decimals :: nat
  pcu_address :: Pubkey
  pcu_airspace :: Pubkey
  pcu_adapter :: Pubkey
  pcu_kind :: TokenKind
  pcu_value_modifier :: nat
  pcu_max_staleness :: nat

definition new_from_config :: "TokenConfig \<Rightarrow> nat \<Rightarrow> Pubkey \<Rightarrow> Pubkey \<Rightarrow> PositionConfigUpdate" where
  "new_from_config c mint_decimals address adapter =
     \<lparr>pcu_mint = tc_mint c, pcu_decimals = mint_decimals, pcu_address = address,
      pcu_airspace = tc_airspace c, pcu_adapter = adapter, pcu_kind = tc_token_kind c,
      pcu_value_modifier = tc_value_modifier c, pcu_max_staleness = tc_max_staleness c\<rparr>"

record Liquidation =
  lq_start_time :: int
  lq_equity_loss :: Number128
  lq_max_equity_loss :: int

record LiquidationState =
  ls_liquidator :: Pubkey
  ls_margin_account :: Pubkey
  ls_state :: Liquidation

definition liquidation_new :: "int \<Rightarrow> Number128 \<Rightarrow> Liquidation" where
  "liquidation_new start_time max_equity_loss =
     \<lparr>lq_start_time = start_time, lq_equity_loss = Number128 0,
      lq_max_equity_loss = n128_to_i128 max_equity_loss\<rparr>"

definition max_equity_loss :: "Liquidation \<Rightarrow> Number128" where
  "max_equity_loss l = n128_from_i128 (lq_max_equity_loss l)"

record Valuation =
  equity :: Number128
  liabilities :: Number128
  required_collateral :: Number128
  weighted_collateral :: Number128
  effective_collateral :: Number128
  stale_collateral_list :: "(Pubkey \<times> MarginError) list"
  past_due :: bool

subsection \<open>Operations\<close>

definition start_liquidation :: "Pubkey \<Rightarrow> MarginAccount \<Rightarrow> MarginAccount" where
  "start_liquidation liquidator a = a\<lparr>ma_liquidator := liquidator\<rparr>"

definition end_liquidation :: "MarginAccount \<Rightarrow> MarginAccount" where
  "end_liquidation a = a\<lparr>ma_liquidator := pubkey_default\<rparr>"

definition is_liquidating :: "MarginAccount \<Rightarrow> bool" where
  "is_liquidating a \<longleftrightarrow> ma_liquidator a \<noteq> pubkey_default"

definition verify_not_liquidating :: "MarginAccount \<Rightarrow> unit margin_res" where
  "verify_not_liquidating a = guardE (\<not> is_liquidating a) Liquidating"

definition account_initialize :: "Pubkey \<Rightarrow> Pubkey \<Rightarrow> nat \<Rightarrow> nat \<Rightarrow> MarginAccount \<Rightarrow> MarginAccount" where
  "account_initialize airspace owner seed bump_seed a =
     a\<lparr>ma_version := MARGIN_ACCOUNT_VERSION, ma_airspace := airspace, ma_owner := owner,
       ma_bump_seed := bump_seed, ma_user_seed := seed, ma_liquidator := pubkey_default\<rparr>"

definition account_positions :: "MarginAccount \<Rightarrow> AccountPosition list" where
  "account_positions a = filter (\<lambda>p. pos_address p \<noteq> pubkey_default) (pl_positions (ma_positions a))"

definition fill_position :: "PositionConfigUpdate \<Rightarrow> AccountPosition \<Rightarrow> AccountPosition" where
  "fill_position c p =
     p\<lparr>pos_exponent := - int (pcu_decimals c), pos_address := pcu_address c, pos_adapter := pcu_adapter c,
       pos_kind := tokenkind_into_integer (pcu_kind c), pos_balance := 0,
       pos_value_modifier := pcu_value_modifier c, pos_max_staleness := pcu_max_staleness c\<rparr>"

definition register_position ::
  "PositionConfigUpdate \<Rightarrow> Approver list \<Rightarrow> MarginAccount \<Rightarrow> (MarginAccount \<times> AccountPositionKey) margin_res" where
  "register_position c approvals a =
     (if \<not> is_liquidating a \<and> pl_length (ma_positions a) \<ge> MAX_USER_POSITIONS then err MaxPositions
      else if ma_airspace a \<noteq> pcu_airspace c then err WrongAirspace
      else
        bindE (plist_add (ma_positions a) (pcu_mint c)) (\<lambda>(l, key, free_position).
        case free_position of
          None \<Rightarrow> Inr (a\<lparr>ma_positions := l\<rparr>, key)
        | Some i \<Rightarrow>
            let p = fill_position c (slot_of l i) in
            if \<not> may_be_registered_or_closed p approvals then err InvalidPositionOwner
            else Inr (a\<lparr>ma_positions := write_slot i p l\<rparr>, key)))"

definition unregister_position ::
  "Pubkey \<Rightarrow> Pubkey \<Rightarrow> Approver list \<Rightarrow> MarginAccount \<Rightarrow> MarginAccount margin_res" where
  "unregister_position mint account approvals a =
     bindE (plist_remove (ma_positions a) mint account) (\<lambda>(l, removed).
     if \<not> may_be_registered_or_closed removed approvals then err InvalidPositionOwner
     else if pos_balance removed \<noteq> 0 then err CloseNonZeroPosition
     else if has_flag (pos_flags removed) FLAG_REQUIRED then err CloseRequiredPosition
     else Inr (a\<lparr>ma_positions := l\<rparr>))"

definition refresh_position_metadata ::
  "Pubkey \<Rightarrow> TokenKind \<Rightarrow> nat \<Rightarrow> nat \<Rightarrow> MarginAccount \<Rightarrow> (MarginAccount \<times> AccountPosition) margin_res" where
  "refresh_position_metadata mint kind value_modifier max_staleness a =
     bindE (plist_get_mut (ma_positions a) mint) (\<lambda>i. case i of
       None \<Rightarrow> err PositionNotRegistered
     | Some i \<Rightarrow>
         let p = (slot_of (ma_positions a) i)\<lparr>pos_kind := tokenkind_into_integer kind,
                   pos_value_modifier := value_modifier, pos_max_staleness := max_staleness\<rparr>
         in Inr (a\<lparr>ma_positions := write_slot i p (ma_positions a)\<rparr>, p))"

definition get_position :: "Pubkey \<Rightarrow> MarginAccount \<Rightarrow> AccountPosition option margin_res" where
  "get_position mint a = plist_get (ma_positions a) mint"

definition get_position_key :: "Pubkey \<Rightarrow> MarginAccount \<Rightarrow> AccountPositionKey option margin_res" where
  "get_position_key mint a = get_key (ma_positions a) mint"

definition get_position_by_key :: "AccountPositionKey \<Rightarrow> MarginAccount \<Rightarrow> AccountPosition option margin_res" where
  "get_position_by_key key a =
     bindE (get_E (pl_positions (ma_positions a)) (key_index key)) (\<lambda>position.
     if pos_token position = key_mint key then Inr (Some position)
     else plist_get (ma_positions a) (key_mint key))"

definition get_position_by_key_mut :: "AccountPositionKey \<Rightarrow> MarginAccount \<Rightarrow> nat option margin_res" where
  "get_position_by_key_mut key a =
     bindE (get_E (pl_positions (ma_positions a)) (key_index key)) (\<lambda>position.
     if pos_token position = key_mint key then Inr (Some (key_index key))
     else plist_get_mut (ma_positions a) (key_mint key))"

definition set_position_balance ::
  "Pubkey \<Rightarrow> Pubkey \<Rightarrow> nat \<Rightarrow> nat \<Rightarrow> MarginAccount \<Rightarrow> (MarginAccount \<times> AccountPosition) margin_res" where
  "set_position_balance mint account balance timestamp a =
     bindE (plist_get_mut (ma_positions a) mint) (\<lambda>i.
     bindE (ok_or i PositionNotRegistered) (\<lambda>i.
     let position = slot_of (ma_positions a) i in
     if pos_address position \<noteq> account then err PositionNotRegistered
     else
       bindE (set_balance balance timestamp position) (\<lambda>p.
       Inr (a\<lparr>ma_positions := write_slot i p (ma_positions a)\<rparr>, p))))"

definition set_position_price :: "Pubkey \<Rightarrow> PriceInfo \<Rightarrow> MarginAccount \<Rightarrow> MarginAccount margin_res" where
  "set_position_price mint price a =
     bindE (plist_get_mut (ma_positions a) mint) (\<lambda>i.
     bindE (ok_or i PositionNotRegistered) (\<lambda>i.
     bindE (set_price price (slot_of (ma_positions a) i)) (\<lambda>p.
     Inr (a\<lparr>ma_positions := write_slot i p (ma_positions a)\<rparr>))))"

definition verify_authority :: "Pubkey \<Rightarrow> MarginAccount \<Rightarrow> unit margin_res" where
  "verify_authority authority a =
     (if is_liquidating a then
        if authority = ma_owner a then err Liquidating
        else if authority \<noteq> ma_liquidator a then err UnauthorizedLiquidator
        else Inr ()
      else if authority \<noteq> ma_owner a then err UnauthorizedInvocation
      else Inr ())"

subsection \<open>Valuation\<close>

definition stale_reason :: "nat \<Rightarrow> AccountPosition \<Rightarrow> MarginError option margin_res" where
  "stale_reason timestamp p =
     bindE (plain_sub 64 timestamp (pos_balance_timestamp p)) (\<lambda>balance_age.
     bindE (plain_sub 64 timestamp (pi_timestamp (pos_price p))) (\<lambda>price_quote_age.
     Inr (if \<not> price_is_valid (pos_price p) then Some InvalidPrice
          else if pos_max_staleness p > 0 \<and> balance_age > pos_max_staleness p then Some OutdatedBalance
          else if price_quote_age > MAX_PRICE_QUOTE_AGE then Some OutdatedPrice
          else None)))"

text \<open>The body of the loop; \<open>v\<close> holds the local variables, except for the effective collateral.\<close>

definition valuation_step :: "nat \<Rightarrow> AccountPosition \<Rightarrow> Valuation \<Rightarrow> Valuation margin_res" where
  "valuation_step timestamp p v =
     (if pos_balance p = 0 then Inr v
      else
        bindE (stale_reason timestamp p) (\<lambda>stale.
        case position_kind p of
          Claim \<Rightarrow>
            (case stale of
               None \<Rightarrow>
                 bindE (n128_sub (equity v) (pos_value p)) (\<lambda>e.
                 bindE (n128_add (liabilities v) (pos_value p)) (\<lambda>l.
                 bindE (bindE (required_collateral_value p) (n128_add (required_collateral v))) (\<lambda>r.
                 Inr (v\<lparr>past_due := past_due v \<or> (pos_balance p > 0 \<and> has_flag (pos_flags p) FLAG_PAST_DUE),
                        equity := e, liabilities := l, required_collateral := r\<rparr>))))
             | Some e \<Rightarrow> err e)
        | _ \<Rightarrow>
            (case stale of
               None \<Rightarrow>
                 bindE (n128_add (equity v) (pos_value p)) (\<lambda>e.
                 bindE (bindE (collateral_value p) (n128_add (weighted_collateral v))) (\<lambda>w.
                 Inr (v\<lparr>equity := e, weighted_collateral := w\<rparr>)))
             | Some e \<Rightarrow>
                 Inr (v\<lparr>stale_collateral_list := stale_collateral_list v @ [(pos_token p, e)]\<rparr>))))"

definition valuation_init :: Valuation where
  "valuation_init =
     \<lparr>equity = n128_ZERO, liabilities = n128_ZERO, required_collateral = n128_ZERO,
      weighted_collateral = n128_ZERO, effective_collateral = n128_ZERO, stale_collateral_list = [],
      past_due = False\<rparr>"

definition valuation :: "nat \<Rightarrow> MarginAccount \<Rightarrow> Valuation margin_res" where
  "valuation timestamp a =
     bindE (foldE (valuation_step timestamp) (account_positions a) valuation_init) (\<lambda>v.
     bindE (n128_sub (weighted_collateral v) (liabilities v)) (\<lambda>e.
     Inr (v\<lparr>effective_collateral := e\<rparr>)))"

definition available_collateral :: "Valuation \<Rightarrow> Number128 margin_res" where
  "available_collateral v = n128_sub (effective_collateral v) (required_collateral v)"

definition effective_c_ratio :: "Valuation \<Rightarrow> Number128 margin_res" where
  "effective_c_ratio v =
     (if liabilities v = n128_ZERO then Inr n128_MAX
      else n128_div (effective_collateral v) (required_collateral v))"

definition verify_healthy :: "Valuation \<Rightarrow> unit margin_res" where
  "verify_healthy v =
     (if required_collateral v > effective_collateral v then err Unhealthy else Inr ())"

definition verify_unhealthy :: "Valuation \<Rightarrow> unit margin_res" where
  "verify_unhealthy v =
     (if stale_collateral_list v \<noteq> [] then err StalePositions
      else if required_collateral v > effective_collateral v then Inr ()
      else if past_due v then Inr ()
      else err Healthy)"

subsection \<open>Positions as a finite map\<close>

abbreviation account_view :: "MarginAccount \<Rightarrow> Pubkey \<Rightarrow> AccountPosition option" where
  "account_view a \<equiv> plist_abs (ma_positions a)"

abbreviation wf_account :: "MarginAccount \<Rightarrow> bool" where
  "wf_account a \<equiv> wf_plist (ma_positions a)"

definition same_owner :: "MarginAccount \<Rightarrow> MarginAccount \<Rightarrow> bool" where
  "same_owner a b \<longleftrightarrow> ma_owner b = ma_owner a \<and> ma_airspace b = ma_airspace a \<and>
     ma_liquidator b = ma_liquidator a \<and> ma_invocation b = ma_invocation a"

lemma same_owner_refl [simp]: "same_owner a a"
  by (simp add: same_owner_def)

lemma same_owner_trans: "same_owner a b \<Longrightarrow> same_owner b c \<Longrightarrow> same_owner a c"
  by (simp add: same_owner_def)

lemma same_owner_update [simp]: "same_owner a (a\<lparr>ma_positions := l\<rparr>)"
  by (simp add: same_owner_def)

lemma calculate_value_frame:
  assumes "calculate_value p = Inr p'"
  shows "pos_token p' = pos_token p" "pos_address p' = pos_address p" "pos_adapter p' = pos_adapter p"
    "pos_balance p' = pos_balance p" "pos_balance_timestamp p' = pos_balance_timestamp p"
    "pos_price p' = pos_price p" "pos_kind p' = pos_kind p" "pos_exponent p' = pos_exponent p"
    "pos_value_modifier p' = pos_value_modifier p" "pos_max_staleness p' = pos_max_staleness p"
    "pos_flags p' = pos_flags p"
  using assms by (auto simp: calculate_value_def simp del: n128_mul_Inr)

lemma calculate_value_idem:
  assumes "calculate_value p = Inr p'"
  shows "calculate_value p' = Inr p'"
  using assms by (auto simp: calculate_value_def simp del: n128_mul_Inr)

lemma set_balance_frame:
  assumes "set_balance b t p = Inr p'"
  shows "pos_token p' = pos_token p" "pos_address p' = pos_address p" "pos_adapter p' = pos_adapter p"
    "pos_balance p' = b" "pos_balance_timestamp p' = t" "pos_price p' = pos_price p"
    "pos_kind p' = pos_kind p" "pos_flags p' = pos_flags p" "calculate_value p' = Inr p'"
  using calculate_value_frame [OF assms [unfolded set_balance_def]]
    calculate_value_idem [OF assms [unfolded set_balance_def]] by simp_all

lemma set_price_frame:
  assumes "set_price px p = Inr p'"
  shows "pos_token p' = pos_token p" "pos_address p' = pos_address p" "pos_adapter p' = pos_adapter p"
    "pos_balance p' = pos_balance p" "pos_balance_timestamp p' = pos_balance_timestamp p"
    "pos_price p' = px" "pos_kind p' = pos_kind p" "pos_flags p' = pos_flags p"
    "calculate_value p' = Inr p'"
  using calculate_value_frame [OF assms [unfolded set_price_def]]
    calculate_value_idem [OF assms [unfolded set_price_def]] by simp_all

lemma fill_position_token [simp]: "pos_token (fill_position c p) = pos_token p"
  by (simp add: fill_position_def)

lemma register_position_spec:
  assumes "wf_account a" "pcu_mint c \<noteq> 0" "register_position c approvals a = Inr (a', key)"
  defines "p \<equiv> fill_position c (zeroed_position\<lparr>pos_token := pcu_mint c\<rparr>)"
  shows "wf_account a'" "same_owner a a'" "ma_airspace a = pcu_airspace c"
    and "account_view a (pcu_mint c) \<noteq> None \<and> account_view a' = account_view a \<or>
      account_view a (pcu_mint c) = None \<and> may_be_registered_or_closed p approvals \<and>
      account_view a' = (account_view a)(pcu_mint c \<mapsto> p)"
    and "is_liquidating a \<or> pl_length (ma_positions a) < MAX_USER_POSITIONS"
proof -
  from assms(3) have g: "is_liquidating a \<or> pl_length (ma_positions a) < MAX_USER_POSITIONS"
      "ma_airspace a = pcu_airspace c"
    by (auto simp: register_position_def split: if_split_asm)
  show "ma_airspace a = pcu_airspace c" "is_liquidating a \<or> pl_length (ma_positions a) < MAX_USER_POSITIONS"
    by (rule g)+
  from assms(3) obtain l k r where add: "plist_add (ma_positions a) (pcu_mint c) = Inr (l, k, r)"
    and rest: "(case r of None \<Rightarrow> Inr (a\<lparr>ma_positions := l\<rparr>, k)
        | Some i \<Rightarrow>
            let q = fill_position c (slot_of l i) in
            if \<not> may_be_registered_or_closed q approvals then err InvalidPositionOwner
            else Inr (a\<lparr>ma_positions := write_slot i q l\<rparr>, k)) = (Inr (a', key) :: _ margin_res)"
    by (auto simp: register_position_def split: if_split_asm)
  from ps.add_Inr [OF assms(1,2) add]
  consider (old) "r = None" "l = ma_positions a" "account_view a (pcu_mint c) \<noteq> None"
    | (new) "account_view a (pcu_mint c) = None" "r = Some (key_index k)" "wf_plist l"
        "plist_get_mut l (pcu_mint c) = Inr r"
        "slot_of l (key_index k) = zeroed_position\<lparr>pos_token := pcu_mint c\<rparr>"
        "plist_abs l = (account_view a)(pcu_mint c \<mapsto> zeroed_position\<lparr>pos_token := pcu_mint c\<rparr>)"
    by (elim disjE conjE) (assumption | rule that)+
  then have "wf_account a' \<and> same_owner a a' \<and>
      (account_view a (pcu_mint c) \<noteq> None \<and> account_view a' = account_view a \<or>
       account_view a (pcu_mint c) = None \<and> may_be_registered_or_closed p approvals \<and>
       account_view a' = (account_view a)(pcu_mint c \<mapsto> p))"
  proof cases
    case old
    with rest assms(1) show ?thesis by auto
  next
    case new
    have gm: "plist_get_mut l (pcu_mint c) = Inr (Some (key_index k))" using new by simp
    have tok: "pos_token p = pcu_mint c" by (simp add: p_def)
    from rest new(2,5) have m: "may_be_registered_or_closed p approvals"
      and a': "a' = a\<lparr>ma_positions := write_slot (key_index k) p l\<rparr>"
      by (auto simp: p_def Let_def split: if_split_asm)
    show ?thesis
      using ps.write_invar [OF new(3) gm tok] ps.write_view [OF new(3) gm tok] new(1,6) m
      by (simp add: a')
  qed
  then show "wf_account a'" "same_owner a a'"
    "account_view a (pcu_mint c) \<noteq> None \<and> account_view a' = account_view a \<or>
      account_view a (pcu_mint c) = None \<and> may_be_registered_or_closed p approvals \<and>
      account_view a' = (account_view a)(pcu_mint c \<mapsto> p)"
    by blast+
qed

lemma unregister_position_spec:
  assumes "wf_account a" "unregister_position mint account approvals a = Inr a'"
  shows "\<exists>p. account_view a mint = Some p \<and> pos_address p = account \<and> pos_balance p = 0 \<and>
    \<not> has_flag (pos_flags p) FLAG_REQUIRED \<and> may_be_registered_or_closed p approvals \<and>
    wf_account a' \<and> same_owner a a' \<and> account_view a' = (account_view a)(mint := None)"
proof -
  from assms(2) obtain l p where r: "plist_remove (ma_positions a) mint account = Inr (l, p)"
    and "may_be_registered_or_closed p approvals" "pos_balance p = 0"
      "\<not> has_flag (pos_flags p) FLAG_REQUIRED" "a' = a\<lparr>ma_positions := l\<rparr>"
    by (auto simp: unregister_position_def split: if_split_asm)
  with ps.remove_Inr [OF assms(1) r] show ?thesis by auto
qed

lemma set_position_balance_spec:
  assumes "wf_account a" "set_position_balance mint account b t a = Inr (a', p')"
  shows "\<exists>p. account_view a mint = Some p \<and> pos_address p = account \<and> set_balance b t p = Inr p' \<and>
    wf_account a' \<and> same_owner a a' \<and> account_view a' = (account_view a)(mint \<mapsto> p')"
proof -
  from assms(2) obtain i where i: "plist_get_mut (ma_positions a) mint = Inr (Some i)"
    and "pos_address (slot_of (ma_positions a) i) = account"
    and b: "set_balance b t (slot_of (ma_positions a) i) = Inr p'"
    and a': "a' = a\<lparr>ma_positions := write_slot i p' (ma_positions a)\<rparr>"
    by (auto simp: set_position_balance_def Let_def split: if_split_asm)
  with ps.get_mut_slot [OF assms(1) i] ps.write_same [OF assms(1) i set_balance_frame(1) [OF b]]
  show ?thesis by simp
qed

lemma set_position_price_spec:
  assumes "wf_account a" "set_position_price mint px a = Inr a'"
  shows "\<exists>p p'. account_view a mint = Some p \<and> set_price px p = Inr p' \<and>
    wf_account a' \<and> same_owner a a' \<and> account_view a' = (account_view a)(mint \<mapsto> p')"
proof -
  from assms(2) obtain i p' where i: "plist_get_mut (ma_positions a) mint = Inr (Some i)"
    and b: "set_price px (slot_of (ma_positions a) i) = Inr p'"
    and a': "a' = a\<lparr>ma_positions := write_slot i p' (ma_positions a)\<rparr>"
    by (auto simp: set_position_price_def)
  with ps.get_mut_slot [OF assms(1) i] ps.write_same [OF assms(1) i set_price_frame(1) [OF b]]
  show ?thesis by simp
qed

lemma refresh_position_metadata_spec:
  assumes "wf_account a" "refresh_position_metadata mint kind vm ms a = Inr (a', p')"
  shows "\<exists>p. account_view a mint = Some p \<and>
    p' = p\<lparr>pos_kind := tokenkind_into_integer kind, pos_value_modifier := vm, pos_max_staleness := ms\<rparr> \<and>
    wf_account a' \<and> same_owner a a' \<and> account_view a' = (account_view a)(mint \<mapsto> p')"
proof -
  from assms(2) obtain i where i: "plist_get_mut (ma_positions a) mint = Inr (Some i)"
    and p': "p' = (slot_of (ma_positions a) i)\<lparr>pos_kind := tokenkind_into_integer kind,
                   pos_value_modifier := vm, pos_max_staleness := ms\<rparr>"
    and a': "a' = a\<lparr>ma_positions := write_slot i p' (ma_positions a)\<rparr>"
    by (auto simp: refresh_position_metadata_def Let_def split: option.splits)
  have "pos_token p' = pos_token (slot_of (ma_positions a) i)" by (simp add: p')
  with ps.get_mut_slot [OF assms(1) i] ps.write_same [OF assms(1) i, of p'] a' p'
  show ?thesis by simp
qed

lemmas account_spec = register_position_spec unregister_position_spec set_position_balance_spec
  set_position_price_spec refresh_position_metadata_spec

subsection \<open>Sequences of operations\<close>

datatype AccountOp =
    Register PositionConfigUpdate "Approver list"
  | Unregister Pubkey Pubkey "Approver list"
  | Refresh Pubkey TokenKind nat nat
  | SetBalance Pubkey Pubkey nat nat
  | SetPrice Pubkey PriceInfo
  | StartLiquidation Pubkey
  | EndLiquidation

fun account_exec :: "AccountOp \<Rightarrow> MarginAccount \<Rightarrow> MarginAccount margin_res" where
  "account_exec (Register c ap) a = bindE (register_position c ap a) (\<lambda>(a', k). Inr a')"
| "account_exec (Unregister m acc ap) a = unregister_position m acc ap a"
| "account_exec (Refresh m k vm ms) a = bindE (refresh_position_metadata m k vm ms a) (\<lambda>(a', p). Inr a')"
| "account_exec (SetBalance m acc b t) a = bindE (set_position_balance m acc b t a) (\<lambda>(a', p). Inr a')"
| "account_exec (SetPrice m px) a = set_position_price m px a"
| "account_exec (StartLiquidation l) a = Inr (start_liquidation l a)"
| "account_exec EndLiquidation a = Inr (end_liquidation a)"

text \<open>
  Mints are addresses of existing accounts, so no operation names the all-zero address; without
  this, \<open>add\<close> finds the default entry of an unused map slot.
\<close>

definition op_mint_ok :: "AccountOp \<Rightarrow> bool" where
  "op_mint_ok op = (case op of Register c ap \<Rightarrow> pcu_mint c \<noteq> 0 | _ \<Rightarrow> True)"

text \<open>The stored value of a position is what its balance and price give.\<close>

definition value_ok :: "AccountPosition \<Rightarrow> bool" where
  "value_ok p \<longleftrightarrow> calculate_value p = Inr p \<or> pos_balance p = 0 \<and> pos_value p = Number128 0"

definition account_inv :: "MarginAccount \<Rightarrow> bool" where
  "account_inv a \<longleftrightarrow> wf_account a \<and> (\<forall>m p. account_view a m = Some p \<longrightarrow> value_ok p)"

lemma value_ok_set_balance: "set_balance b t p = Inr p' \<Longrightarrow> value_ok p'"
  by (simp add: value_ok_def set_balance_frame)

lemma value_ok_set_price: "set_price px p = Inr p' \<Longrightarrow> value_ok p'"
  by (simp add: value_ok_def set_price_frame)

lemma value_ok_fill: "value_ok (fill_position c (zeroed_position\<lparr>pos_token := m\<rparr>))"
  by (simp add: value_ok_def fill_position_def zeroed_position_def)

lemma value_ok_cong:
  assumes "pos_balance p' = pos_balance p" "pos_exponent p' = pos_exponent p" "pos_price p' = pos_price p"
    "pos_value p' = pos_value p" "value_ok p"
  shows "value_ok p'"
proof -
  have v: "calculate_value q = Inr q \<longleftrightarrow>
      bindE (n128_from_decimal (int (pos_balance q)) (pos_exponent q)) (\<lambda>amount.
      bindE (n128_from_decimal (pi_value (pos_price q)) (pi_exponent (pos_price q))) (\<lambda>px.
      n128_mul amount px)) = (Inr (pos_value q) :: Number128 margin_res)" for q
  proof -
    have u: "q\<lparr>pos_value := x\<rparr> = q \<longleftrightarrow> x = pos_value q" for x by (cases q) auto
    show ?thesis unfolding calculate_value_def bindE_Inr_iff by (simp only: sum.inject u) blast
  qed
  show ?thesis using assms(5) unfolding value_ok_def v using assms(1-4) by simp
qed

lemma account_inv_update:
  assumes "account_inv a" "wf_account a'" "account_view a' = (account_view a)(m \<mapsto> p)" "value_ok p"
  shows "account_inv a'"
  using assms by (auto simp: account_inv_def split: if_splits)

lemma account_exec_inv:
  assumes "account_exec op a = Inr a'" "account_inv a" "op_mint_ok op"
  shows "account_inv a'"
proof -
  have wf: "wf_account a" using assms(2) by (simp add: account_inv_def)
  show ?thesis
  proof (cases op)
    case (Register c ap)
    with assms obtain k where r: "register_position c ap a = Inr (a', k)" and m: "pcu_mint c \<noteq> 0"
      by (auto simp: op_mint_ok_def)
    note s = register_position_spec [OF wf m r]
    from s(4) show ?thesis
    proof (elim disjE conjE)
      assume "account_view a' = account_view a"
      with s(1) assms(2) show ?thesis by (simp add: account_inv_def)
    next
      assume "account_view a' = (account_view a)(pcu_mint c \<mapsto>
          fill_position c (zeroed_position\<lparr>pos_token := pcu_mint c\<rparr>))"
      from account_inv_update [OF assms(2) s(1) this value_ok_fill] show ?thesis .
    qed
  next
    case (Unregister m acc ap)
    with assms have "unregister_position m acc ap a = Inr a'" by simp
    from unregister_position_spec [OF wf this] assms(2) show ?thesis
      by (auto simp: account_inv_def split: if_splits)
  next
    case (Refresh m k vm ms)
    with assms obtain p' where "refresh_position_metadata m k vm ms a = Inr (a', p')" by auto
    from refresh_position_metadata_spec [OF wf this] obtain p where p: "account_view a m = Some p"
      "p' = p\<lparr>pos_kind := tokenkind_into_integer k, pos_value_modifier := vm, pos_max_staleness := ms\<rparr>"
      "wf_account a'" "account_view a' = (account_view a)(m \<mapsto> p')" by blast
    have "value_ok p'"
      by (rule value_ok_cong [of _ p]) (use p assms(2) in \<open>auto simp: account_inv_def\<close>)
    with account_inv_update [OF assms(2) p(3,4)] show ?thesis .
  next
    case (SetBalance m acc b t)
    with assms obtain p' where "set_position_balance m acc b t a = Inr (a', p')" by auto
    from set_position_balance_spec [OF wf this] account_inv_update [OF assms(2)] value_ok_set_balance
    show ?thesis by blast
  next
    case (SetPrice m px)
    with assms have "set_position_price m px a = Inr a'" by simp
    from set_position_price_spec [OF wf this] account_inv_update [OF assms(2)] value_ok_set_price
    show ?thesis by blast
  qed (use assms in \<open>auto simp: account_inv_def start_liquidation_def end_liquidation_def\<close>)
qed

text \<open>
  C5: Along any sequence of operations on a margin account the position list stays a sorted,
  duplicate-free index of its slots, and every position's stored value is the one its current
  balance and price give.
\<close>

theorem account_invariant:
  assumes "foldE account_exec ops a = Inr a'" "account_inv a" "\<forall>op \<in> set ops. op_mint_ok op"
  shows "account_inv a'"
  by (rule foldE_invariant [where P = account_inv, OF assms(1,2)]) (use assms(3) account_exec_inv in blast)

subsection \<open>Every branch\<close>

lemma plist_add_room:
  assumes "wf_plist l" "m \<noteq> 0" "plist_abs l m = None" "pl_length l < 32"
  obtains l' k where "plist_add l m = Inr (l', k, Some (key_index k))" "key_mint k = m" "wf_plist l'"
    "slot_of l' (key_index k) = zeroed_position\<lparr>pos_token := m\<rparr>"
    "plist_get_mut l' m = Inr (Some (key_index k))"
    "plist_abs l' = (plist_abs l)(m \<mapsto> zeroed_position\<lparr>pos_token := m\<rparr>)"
proof -
  obtain i where i: "free_slot l = Some i" using free_slot_exists [OF assms(1,4)] by blast
  note new = plist_add_new [OF assms i]
  from ps.add_Inr [OF assms(1,2) new] assms(3) show thesis
    by (intro that [of "added l m i" "\<lparr>key_mint = m, key_index = i\<rparr>"]) (auto simp: new)
qed

lemma register_position_result:
  assumes "wf_account a" "pcu_mint c \<noteq> 0"
  defines "p \<equiv> fill_position c (zeroed_position\<lparr>pos_token := pcu_mint c\<rparr>)"
  shows "if \<not> is_liquidating a \<and> pl_length (ma_positions a) \<ge> 24
    then register_position c approvals a = err MaxPositions
    else if ma_airspace a \<noteq> pcu_airspace c then register_position c approvals a = err WrongAirspace
    else if account_view a (pcu_mint c) \<noteq> None
      then \<exists>k. register_position c approvals a = Inr (a, k)
    else if pl_length (ma_positions a) = 32 then register_position c approvals a = err MaxPositions
    else if \<not> may_be_registered_or_closed p approvals
      then register_position c approvals a = err InvalidPositionOwner
    else \<exists>a' k. register_position c approvals a = Inr (a', k) \<and> wf_account a' \<and> key_mint k = pcu_mint c \<and>
      same_owner a a' \<and> account_view a' = (account_view a)(pcu_mint c \<mapsto> p)"
proof -
  let ?l = "ma_positions a" and ?m = "pcu_mint c"
  have le: "pl_length ?l \<le> 32" by (rule wf_plistD(3) [OF assms(1)])
  consider (limit) "\<not> is_liquidating a \<and> pl_length ?l \<ge> 24"
    | (airspace) "is_liquidating a \<or> pl_length ?l < 24" "ma_airspace a \<noteq> pcu_airspace c"
    | (old) "is_liquidating a \<or> pl_length ?l < 24" "ma_airspace a = pcu_airspace c" "account_view a ?m \<noteq> None"
    | (full) "is_liquidating a \<or> pl_length ?l < 24" "ma_airspace a = pcu_airspace c" "account_view a ?m = None"
        "pl_length ?l = 32"
    | (new) "is_liquidating a \<or> pl_length ?l < 24" "ma_airspace a = pcu_airspace c" "account_view a ?m = None"
        "pl_length ?l < 32"
    using le by linarith
  then show ?thesis
  proof cases
    case old
    obtain k where "plist_add ?l ?m = Inr (?l, k, None)"
      using plist_add_existing [OF assms(1,2) old(3)] by blast
    with old show ?thesis by (auto simp: register_position_def MAX_USER_POSITIONS_def)
  next
    case full
    with plist_add_full [OF assms(1,2) full(3,4)] show ?thesis
      by (auto simp: register_position_def MAX_USER_POSITIONS_def)
  next
    case new
    obtain l' k where add: "plist_add ?l ?m = Inr (l', k, Some (key_index k))" "key_mint k = ?m" "wf_plist l'"
      "slot_of l' (key_index k) = zeroed_position\<lparr>pos_token := ?m\<rparr>"
      "plist_get_mut l' ?m = Inr (Some (key_index k))"
      "plist_abs l' = (account_view a)(?m \<mapsto> zeroed_position\<lparr>pos_token := ?m\<rparr>)"
      using plist_add_room [OF assms(1,2) new(3,4)] by blast
    have tok: "pos_token p = ?m" by (simp add: p_def)
    have "register_position c approvals a =
        (if \<not> may_be_registered_or_closed p approvals then err InvalidPositionOwner
         else Inr (a\<lparr>ma_positions := write_slot (key_index k) p l'\<rparr>, k))"
      using new add by (auto simp: register_position_def MAX_USER_POSITIONS_def p_def Let_def)
    with new add(2,6) ps.write_invar [OF add(3,5) tok] ps.write_view [OF add(3,5) tok]
    show ?thesis by auto
  qed (auto simp: register_position_def MAX_USER_POSITIONS_def)
qed

text \<open>
  C32: Registering a position, for a well-formed account and a mint other than the default key: an account that is
  not under liquidation takes at most 24 positions and any account 32, the
  airspaces must match, a mint that is already registered is left as it is, and a new one needs
  the approvals of its kind; it then appears with the configured address, adapter, kind and
  weights and a zero balance, and every other position is untouched.
\<close>

theorem register_position_cases:
  assumes "wf_account a" "pcu_mint c \<noteq> 0"
  defines "p \<equiv> fill_position c (zeroed_position\<lparr>pos_token := pcu_mint c\<rparr>)"
  shows "if \<not> is_liquidating a \<and> pl_length (ma_positions a) \<ge> 24
    then register_position c approvals a = err MaxPositions
    else if ma_airspace a \<noteq> pcu_airspace c then register_position c approvals a = err WrongAirspace
    else if account_view a (pcu_mint c) \<noteq> None
      then \<exists>k. register_position c approvals a = Inr (a, k)
    else if pl_length (ma_positions a) = 32 then register_position c approvals a = err MaxPositions
    else if \<not> may_be_registered_or_closed p approvals
      then register_position c approvals a = err InvalidPositionOwner
    else \<exists>a' k. register_position c approvals a = Inr (a', k) \<and> wf_account a' \<and> key_mint k = pcu_mint c \<and>
      same_owner a a' \<and> account_view a' = (account_view a)(pcu_mint c \<mapsto> p)"
  unfolding p_def by (rule register_position_result [OF assms(1,2)])

text \<open>
  A position is closed only with the approvals of its kind, at the address it was registered
  for, with a zero balance and without the adapter's \<open>REQUIRED\<close> flag; each missing condition is
  its own error and success removes exactly that position.
\<close>

theorem unregister_position_cases:
  assumes "wf_account a"
  shows "case account_view a mint of
      None \<Rightarrow> unregister_position mint account approvals a = err PositionNotRegistered
    | Some p \<Rightarrow>
        if pos_address p \<noteq> account then unregister_position mint account approvals a = err PositionNotRegistered
        else if \<not> may_be_registered_or_closed p approvals
          then unregister_position mint account approvals a = err InvalidPositionOwner
        else if pos_balance p \<noteq> 0 then unregister_position mint account approvals a = err CloseNonZeroPosition
        else if has_flag (pos_flags p) FLAG_REQUIRED
          then unregister_position mint account approvals a = err CloseRequiredPosition
        else \<exists>a'. unregister_position mint account approvals a = Inr a' \<and> wf_account a' \<and> same_owner a a' \<and>
          account_view a' = (account_view a)(mint := None)"
proof (cases "account_view a mint")
  case None
  with ps.remove_absent [OF assms None] show ?thesis by (simp add: unregister_position_def)
next
  case (Some p)
  show ?thesis
  proof (cases "pos_address p = account")
    case False
    with ps.remove_present [OF assms Some, of account] Some show ?thesis
      by (simp add: unregister_position_def)
  next
    case True
    then obtain l where "plist_remove (ma_positions a) mint account = Inr (l, p)" "wf_plist l"
      "plist_abs l = (account_view a)(mint := None)"
      using ps.remove_present [OF assms Some, of account] by auto
    with True Some show ?thesis by (auto simp: unregister_position_def)
  qed
qed

lemma set_position_balance_result:
  assumes "wf_account a"
  shows "case account_view a mint of
      None \<Rightarrow> set_position_balance mint account b t a = err PositionNotRegistered
    | Some p \<Rightarrow>
        if pos_address p \<noteq> account then set_position_balance mint account b t a = err PositionNotRegistered
        else (case set_balance b t p of
            Inl e \<Rightarrow> set_position_balance mint account b t a = Inl e
          | Inr p' \<Rightarrow> \<exists>a'. set_position_balance mint account b t a = Inr (a', p') \<and> wf_account a' \<and>
              same_owner a a' \<and> account_view a' = (account_view a)(mint \<mapsto> p'))"
proof (cases rule: ps.get_mut_cases [OF assms, of mint])
  case 1
  then show ?thesis by (simp add: set_position_balance_def err_def)
next
  case (2 i)
  show ?thesis
  proof (cases "pos_address (slot_of (ma_positions a) i) = account")
    case False
    with 2 show ?thesis by (simp add: set_position_balance_def Let_def err_def)
  next
    case True
    show ?thesis
    proof (cases "set_balance b t (slot_of (ma_positions a) i)")
      case (Inl e)
      with 2 True show ?thesis by (simp add: set_position_balance_def Let_def)
    next
      case (Inr p')
      with 2 True ps.write_same [OF assms 2(1) set_balance_frame(1) [OF Inr]] show ?thesis
        by (simp add: set_position_balance_def Let_def)
    qed
  qed
qed

definition empty_account :: MarginAccount where
  "empty_account =
     \<lparr>ma_version = 1, ma_bump_seed = 254, ma_user_seed = 0, ma_invocation = 0, ma_owner = 100,
      ma_airspace = 50, ma_liquidator = 0, ma_positions = empty_plist\<rparr>"

definition sample_config :: PositionConfigUpdate where
  "sample_config =
     \<lparr>pcu_mint = 7, pcu_decimals = 6, pcu_address = 70, pcu_airspace = 50, pcu_adapter = 0,
      pcu_kind = Collateral, pcu_value_modifier = 90, pcu_max_staleness = 0\<rparr>"

lemma empty_account_inv: "account_inv empty_account"
  by (simp add: account_inv_def empty_account_def wf_empty_plist plist_abs_empty)

lemma sample_approved:
  "may_be_registered_or_closed (fill_position sample_config (zeroed_position\<lparr>pos_token := 7\<rparr>))
     [MarginAccountAuthority]"
  by (simp add: may_be_registered_or_closed_def position_kind_def fill_position_def sample_config_def
      zeroed_position_def tokenkind_from_integer_def)

lemma sample_facts:
  "wf_account empty_account" "pcu_mint sample_config = 7" "\<not> is_liquidating empty_account"
  "pl_length (ma_positions empty_account) = 0" "account_view empty_account = Map.empty"
  "ma_airspace empty_account = pcu_airspace sample_config"
  using wf_empty_plist plist_abs_empty
  by (simp_all add: empty_account_def is_liquidating_def pubkey_default_def sample_config_def)
    (simp add: empty_plist_def)

lemma sample_registers:
  obtains a k where "register_position sample_config [MarginAccountAuthority] empty_account = Inr (a, k)"
    "wf_account a" "account_view a = [7 \<mapsto> fill_position sample_config (zeroed_position\<lparr>pos_token := 7\<rparr>)]"
  using register_position_result [of empty_account sample_config "[MarginAccountAuthority]"] sample_approved that
  by (auto simp: sample_facts)

theorem account_invariant_witness:
  "\<exists>a. foldE account_exec [Register sample_config [MarginAccountAuthority], StartLiquidation 9] empty_account = Inr a \<and>
     account_inv a"
proof -
  obtain a k where "register_position sample_config [MarginAccountAuthority] empty_account = Inr (a, k)"
    using sample_registers by blast
  then have "foldE account_exec [Register sample_config [MarginAccountAuthority], StartLiquidation 9] empty_account =
      Inr (start_liquidation 9 a)" by simp
  moreover from account_invariant [OF this empty_account_inv] have "account_inv (start_liquidation 9 a)"
    by (simp add: op_mint_ok_def sample_facts)
  ultimately show ?thesis by blast
qed

theorem register_position_cases_witness:
  "\<exists>a k. register_position sample_config [MarginAccountAuthority] empty_account = Inr (a, k) \<and> key_mint k = 7"
  using register_position_cases [of empty_account sample_config "[MarginAccountAuthority]"] sample_approved
  by (auto simp: sample_facts)

theorem unregister_position_cases_witness:
  "unregister_position 7 70 [MarginAccountAuthority] empty_account = err PositionNotRegistered"
  using unregister_position_cases [of empty_account 7 70 "[MarginAccountAuthority]"]
  by (simp add: empty_account_def wf_empty_plist plist_abs_empty)

subsection \<open>Authority\<close>

text \<open>
  The owner controls the account while it is not being liquidated and the liquidator, and
  not the owner, while it is; everyone else is refused, each with the error of its case.
\<close>

theorem verify_authority_iff:
  "(verify_authority who a = Inr () \<longleftrightarrow>
      who = (if ma_liquidator a = 0 then ma_owner a else ma_liquidator a) \<and>
      (ma_liquidator a \<noteq> 0 \<longrightarrow> who \<noteq> ma_owner a)) \<and>
   (ma_liquidator a \<noteq> 0 \<longrightarrow> verify_authority (ma_owner a) a = err Liquidating) \<and>
   (liq \<noteq> 0 \<longrightarrow> verify_authority (ma_owner a) (start_liquidation liq a) = err Liquidating) \<and>
   verify_authority (ma_owner a) (end_liquidation a) = Inr ()"
  by (auto simp: verify_authority_def is_liquidating_def pubkey_default_def start_liquidation_def
      end_liquidation_def)

theorem verify_authority_iff_witness:
  "verify_authority 100 empty_account = Inr () \<and> verify_authority 9 empty_account \<noteq> Inr ()"
  using verify_authority_iff [of 100 empty_account 9] verify_authority_iff [of 9 empty_account 9]
  by (simp add: empty_account_def)

subsection \<open>The valuation\<close>

definition active :: "MarginAccount \<Rightarrow> AccountPosition list" where
  "active a = filter (\<lambda>p. pos_balance p \<noteq> 0) (account_positions a)"

definition claims_of :: "AccountPosition list \<Rightarrow> AccountPosition list" where
  "claims_of ps = filter (\<lambda>p. position_kind p = Claim) ps"

definition fresh_collateral :: "nat \<Rightarrow> AccountPosition list \<Rightarrow> AccountPosition list" where
  "fresh_collateral t ps = filter (\<lambda>p. position_kind p \<noteq> Claim \<and> stale_reason t p = Inr None) ps"

definition stale_collateral :: "nat \<Rightarrow> AccountPosition list \<Rightarrow> (Pubkey \<times> MarginError) list" where
  "stale_collateral t ps =
     concat (map (\<lambda>p. if position_kind p = Claim then [] else
       (case stale_reason t p of Inr (Some e) \<Rightarrow> [(pos_token p, e)] | _ \<Rightarrow> [])) ps)"

definition amount_of :: "Number128 margin_res \<Rightarrow> int" where
  "amount_of r = (case r of Inr x \<Rightarrow> n128 x | Inl _ \<Rightarrow> 0)"

lemma amount_of_Inr [simp]: "amount_of (Inr x) = n128 x"
  by (simp add: amount_of_def)

definition value_sum :: "AccountPosition list \<Rightarrow> int" where
  "value_sum ps = sum_list (map (\<lambda>p. n128 (pos_value p)) ps)"

lemma value_sum_simps [simp]:
  "value_sum [] = 0" "value_sum (p # ps) = n128 (pos_value p) + value_sum ps"
  by (simp_all add: value_sum_def)

lemma valuation_step_skip: "pos_balance p = 0 \<Longrightarrow> valuation_step t p v = Inr v"
  by (simp add: valuation_step_def)

lemma foldE_skip: "foldE (valuation_step t) ps v = foldE (valuation_step t) (filter (\<lambda>p. pos_balance p \<noteq> 0) ps) v"
  by (induction ps arbitrary: v) (auto simp: valuation_step_skip intro: bindE_cong)

lemma valuation_step_claim:
  assumes "valuation_step t p v = Inr w" "pos_balance p \<noteq> 0" "position_kind p = Claim"
  shows "stale_reason t p = Inr None"
    "n128 (equity w) = n128 (equity v) - n128 (pos_value p)"
    "n128 (liabilities w) = n128 (liabilities v) + n128 (pos_value p)"
    "n128 (required_collateral w) = n128 (required_collateral v) + amount_of (required_collateral_value p)"
    "weighted_collateral w = weighted_collateral v" "stale_collateral_list w = stale_collateral_list v"
    "past_due w \<longleftrightarrow> past_due v \<or> has_flag (pos_flags p) FLAG_PAST_DUE"
  using assms by (auto simp: valuation_step_def split: option.splits)

lemma valuation_step_collateral:
  assumes "valuation_step t p v = Inr w" "pos_balance p \<noteq> 0" "position_kind p \<noteq> Claim"
  shows "liabilities w = liabilities v" "required_collateral w = required_collateral v" "past_due w = past_due v"
    and "stale_reason t p = Inr None \<Longrightarrow>
      n128 (equity w) = n128 (equity v) + n128 (pos_value p) \<and>
      n128 (weighted_collateral w) = n128 (weighted_collateral v) + amount_of (collateral_value p) \<and>
      stale_collateral_list w = stale_collateral_list v"
    and "stale_reason t p \<noteq> Inr None \<Longrightarrow>
      \<exists>e. stale_reason t p = Inr (Some e) \<and> equity w = equity v \<and>
        weighted_collateral w = weighted_collateral v \<and>
        stale_collateral_list w = stale_collateral_list v @ [(pos_token p, e)]"
  using assms by (auto simp: valuation_step_def split: option.splits TokenKind.splits)

text \<open>
  The loop as sums: claims count against equity, liabilities and the required collateral; fresh
  collateral counts towards equity and the weighted collateral; stale collateral only into the list.
\<close>

lemma valuation_fold:
  assumes "foldE (valuation_step t) ps v = Inr w" "\<forall>p \<in> set ps. pos_balance p \<noteq> 0"
  shows "(\<forall>p \<in> set (claims_of ps). stale_reason t p = Inr None) \<and>
    n128 (equity w) = n128 (equity v) + value_sum (fresh_collateral t ps) - value_sum (claims_of ps) \<and>
    n128 (liabilities w) = n128 (liabilities v) + value_sum (claims_of ps) \<and>
    n128 (required_collateral w) = n128 (required_collateral v) +
      sum_list (map (\<lambda>p. amount_of (required_collateral_value p)) (claims_of ps)) \<and>
    n128 (weighted_collateral w) = n128 (weighted_collateral v) +
      sum_list (map (\<lambda>p. amount_of (collateral_value p)) (fresh_collateral t ps)) \<and>
    stale_collateral_list w = stale_collateral_list v @ stale_collateral t ps \<and>
    (past_due w \<longleftrightarrow> past_due v \<or> (\<exists>p \<in> set (claims_of ps). has_flag (pos_flags p) FLAG_PAST_DUE))"
  using assms
proof (induction ps arbitrary: v)
  case Nil
  then show ?case by (simp add: claims_of_def fresh_collateral_def stale_collateral_def)
next
  case (Cons p ps)
  from Cons.prems(1) obtain u where u: "valuation_step t p v = Inr u" "foldE (valuation_step t) ps u = Inr w"
    by auto
  have b: "pos_balance p \<noteq> 0" using Cons.prems(2) by simp
  note IH = Cons.IH [OF u(2)] Cons.prems(2)
  show ?case
  proof (cases "position_kind p = Claim")
    case True
    note s = valuation_step_claim [OF u(1) b True]
    have "claims_of (p # ps) = p # claims_of ps" "fresh_collateral t (p # ps) = fresh_collateral t ps"
      "stale_collateral t (p # ps) = stale_collateral t ps"
      using True by (simp_all add: claims_of_def fresh_collateral_def stale_collateral_def)
    with IH s show ?thesis by auto
  next
    case False
    note s = valuation_step_collateral [OF u(1) b False]
    have c: "claims_of (p # ps) = claims_of ps" using False by (simp add: claims_of_def)
    show ?thesis
    proof (cases "stale_reason t p = Inr None")
      case True
      with False have "fresh_collateral t (p # ps) = p # fresh_collateral t ps"
        "stale_collateral t (p # ps) = stale_collateral t ps"
        by (simp_all add: fresh_collateral_def stale_collateral_def)
      with IH s(1-3) s(4) [OF True] c show ?thesis by auto
    next
      case stale: False
      from s(5) [OF stale] obtain e where e: "stale_reason t p = Inr (Some e)" "equity u = equity v"
        "weighted_collateral u = weighted_collateral v"
        "stale_collateral_list u = stale_collateral_list v @ [(pos_token p, e)]" by blast
      with False have "fresh_collateral t (p # ps) = fresh_collateral t ps"
        "stale_collateral t (p # ps) = (pos_token p, e) # stale_collateral t ps"
        by (simp_all add: fresh_collateral_def stale_collateral_def)
      with IH s(1-3) e c show ?thesis by auto
    qed
  qed
qed

lemma valuation_spec_facts:
  assumes "valuation t a = Inr v"
  shows "(\<forall>p \<in> set (claims_of (active a)). stale_reason t p = Inr None) \<and>
    n128 (equity v) = value_sum (fresh_collateral t (active a)) - value_sum (claims_of (active a)) \<and>
    n128 (liabilities v) = value_sum (claims_of (active a)) \<and>
    n128 (required_collateral v) =
      sum_list (map (\<lambda>p. amount_of (required_collateral_value p)) (claims_of (active a))) \<and>
    n128 (weighted_collateral v) =
      sum_list (map (\<lambda>p. amount_of (collateral_value p)) (fresh_collateral t (active a))) \<and>
    n128 (effective_collateral v) = n128 (weighted_collateral v) - n128 (liabilities v) \<and>
    stale_collateral_list v = stale_collateral t (active a) \<and>
    (past_due v \<longleftrightarrow> (\<exists>p \<in> set (claims_of (active a)). has_flag (pos_flags p) FLAG_PAST_DUE))"
proof -
  from assms obtain w where w: "foldE (valuation_step t) (account_positions a) valuation_init = Inr w"
    and e: "n128 (effective_collateral v) = n128 (weighted_collateral w) - n128 (liabilities w)"
    and f: "equity v = equity w" "liabilities v = liabilities w" "required_collateral v = required_collateral w"
      "weighted_collateral v = weighted_collateral w" "stale_collateral_list v = stale_collateral_list w"
      "past_due v = past_due w"
    by (auto simp: valuation_def)
  have "foldE (valuation_step t) (active a) valuation_init = Inr w"
    using w foldE_skip [of t "account_positions a" valuation_init] by (simp add: active_def)
  from valuation_fold [OF this] e f show ?thesis
    by (simp add: active_def valuation_init_def n128_ZERO_def)
qed

text \<open>
  C3: A valuation succeeds only when every claim with a balance is fresh. It then is exactly: equity,
  the fresh collateral less the claims; liabilities, the claims; required and weighted
  collateral, the claims and the fresh collateral under their modifiers; effective collateral,
  weighted collateral less liabilities; past due, some claim with a balance is flagged so. Stale
  collateral is left out of every sum and listed.
\<close>

theorem valuation_spec:
  assumes "valuation t a = Inr v"
  shows "(\<forall>p \<in> set (claims_of (active a)). stale_reason t p = Inr None) \<and>
    n128 (equity v) = value_sum (fresh_collateral t (active a)) - value_sum (claims_of (active a)) \<and>
    n128 (liabilities v) = value_sum (claims_of (active a)) \<and>
    n128 (required_collateral v) =
      sum_list (map (\<lambda>p. amount_of (required_collateral_value p)) (claims_of (active a))) \<and>
    n128 (weighted_collateral v) =
      sum_list (map (\<lambda>p. amount_of (collateral_value p)) (fresh_collateral t (active a))) \<and>
    n128 (effective_collateral v) = n128 (weighted_collateral v) - n128 (liabilities v) \<and>
    stale_collateral_list v = stale_collateral t (active a) \<and>
    (past_due v \<longleftrightarrow> (\<exists>p \<in> set (claims_of (active a)). has_flag (pos_flags p) FLAG_PAST_DUE))"
  by (rule valuation_spec_facts [OF assms])

definition sample_collateral :: AccountPosition where
  "sample_collateral = zeroed_position\<lparr>pos_token := 7, pos_address := 70, pos_kind := 1, pos_balance := 3000000,
     pos_balance_timestamp := 1000, pos_price := price_new_valid (-8) 200000000 1000, pos_exponent := -6,
     pos_value := Number128 60000000000, pos_value_modifier := 90\<rparr>"

definition sample_claim :: AccountPosition where
  "sample_claim = zeroed_position\<lparr>pos_token := 8, pos_address := 80, pos_kind := 2, pos_balance := 2000000,
     pos_balance_timestamp := 1000, pos_price := price_new_valid (-8) 100000000 1000, pos_exponent := -6,
     pos_value := Number128 20000000000, pos_value_modifier := 1000\<rparr>"

definition sample_account :: MarginAccount where
  "sample_account = empty_account\<lparr>ma_positions :=
     \<lparr>pl_length = 2,
      pl_map = \<lparr>key_mint = 7, key_index = 0\<rparr> # \<lparr>key_mint = 8, key_index = 1\<rparr> # replicate 30 default_key,
      pl_positions = sample_collateral # sample_claim # replicate 30 zeroed_position\<rparr>\<rparr>"

definition sample_valuation :: Valuation where
  "sample_valuation =
     \<lparr>equity = Number128 40000000000, liabilities = Number128 20000000000,
      required_collateral = Number128 2000000000, weighted_collateral = Number128 54000000000,
      effective_collateral = Number128 34000000000, stale_collateral_list = [], past_due = False\<rparr>"

lemma sample_account_positions: "account_positions sample_account = [sample_collateral, sample_claim]"
  by (simp add: account_positions_def sample_account_def pubkey_default_def sample_collateral_def
      sample_claim_def) (simp add: zeroed_position_def)

lemma sample_steps:
  "valuation_step 1010 sample_collateral valuation_init =
     Inr (valuation_init\<lparr>equity := Number128 60000000000, weighted_collateral := Number128 54000000000\<rparr>)"
  "valuation_step 1010 sample_claim
     (valuation_init\<lparr>equity := Number128 60000000000, weighted_collateral := Number128 54000000000\<rparr>) =
     Inr (sample_valuation\<lparr>effective_collateral := Number128 0\<rparr>)"
  by (simp_all add: valuation_step_def stale_reason_def sample_collateral_def sample_claim_def zeroed_position_def
      price_new_valid_def price_is_valid_def POS_PRICE_VALID_def MAX_PRICE_QUOTE_AGE_def position_kind_def
      tokenkind_from_integer_def u_range_def valuation_init_def n128_ZERO_def n128_add_def n128_sub_def
      collateral_value_def required_collateral_value_def n128_from_decimal_def PRECISION128_def index_E_def
      n128_mul_def n128_div_def ONE128_def i_range_def checked_i_def plain_i_def plain_idiv_def trunc_div_def
      sample_valuation_def has_flag_def FLAG_PAST_DUE_def)

lemma sample_account_valuation: "valuation 1010 sample_account = Inr sample_valuation"
  by (simp add: valuation_def sample_account_positions sample_steps)
    (simp add: sample_valuation_def n128_sub_def checked_i_def i_range_def)

theorem valuation_spec_witness:
  "stale_reason 1010 sample_claim = Inr None \<and>
   value_sum (fresh_collateral 1010 (active sample_account)) - value_sum (claims_of (active sample_account)) = 40000000000"
  using valuation_spec [OF sample_account_valuation]
  by (simp add: sample_valuation_def active_def sample_account_positions claims_of_def sample_claim_def
      sample_collateral_def position_kind_def tokenkind_from_integer_def)

subsection \<open>Health\<close>

text \<open>
  C4: Of an account that can be valued: it counts as healthy exactly when the weighted fresh
  collateral covers the claims and what they require on top; it may be liquidated exactly when
  no collateral is stale and it falls short of that or a claim is past due. Only a past due
  account is both.
\<close>

theorem health_decision:
  assumes "valuation t a = Inr v"
  defines "need \<equiv> value_sum (claims_of (active a)) +
      sum_list (map (\<lambda>p. amount_of (required_collateral_value p)) (claims_of (active a)))"
    and "have' \<equiv> sum_list (map (\<lambda>p. amount_of (collateral_value p)) (fresh_collateral t (active a)))"
  shows "(verify_healthy v = Inr () \<longleftrightarrow> need \<le> have') \<and>
    (verify_unhealthy v = Inr () \<longleftrightarrow> stale_collateral t (active a) = [] \<and>
       (have' < need \<or> (\<exists>p \<in> set (claims_of (active a)). has_flag (pos_flags p) FLAG_PAST_DUE))) \<and>
    (verify_healthy v = Inr () \<and> verify_unhealthy v = Inr () \<longrightarrow> past_due v)"
  using valuation_spec_facts [OF assms(1)]
  by (auto simp: verify_healthy_def verify_unhealthy_def less_Number128_def need_def have'_def
      split: if_splits)

theorem health_decision_witness:
  "verify_healthy sample_valuation = Inr () \<and> verify_unhealthy sample_valuation \<noteq> Inr ()"
proof -
  note h = health_decision [OF sample_account_valuation]
  have "verify_healthy sample_valuation = Inr ()"
    by (simp add: verify_healthy_def sample_valuation_def less_Number128_def)
  with h show ?thesis by (auto simp: sample_valuation_def)
qed

end
