(* ===== verification/Runtime.thy ===== *)
theory Runtime
  imports Prelude
begin

text \<open>
  What the instruction handlers use of Solana and of the SPL token program. Neither is in the
  repository, so both are a parameter: a \<open>Runtime\<close> record with the token program's accounts as an
  abstract ledger \<open>'l\<close>, its instructions, program addresses, the signers of the instruction and the
  clock. \<open>spl_token\<close> collects the documented laws of the token program that properties rely on:
  what a successful transfer, mint, burn or close does to balances and supplies.

  \<open>ledger_runtime\<close> is a concrete ledger that satisfies the laws; the witnesses run on it.
\<close>

subsection \<open>Errors of an instruction\<close>

text \<open>
  An error code of the program, a violated constraint of the instruction's accounts, a failure of
  the token program or of \<open>jet_margin::write_adapter_result\<close>.
\<close>

datatype 'e tx_error = ProgramErr 'e | AccountErr | TokenErr | AdapterErr

type_synonym ('e, 'a) tx = "('e tx_error, 'a) res"

definition lift_err :: "('e \<Rightarrow> 'd) \<Rightarrow> ('e, 'a) res \<Rightarrow> ('d, 'a) res" where
  "lift_err f m =
     (case m of Inr x \<Rightarrow> Inr x | Inl Panic \<Rightarrow> Inl Panic | Inl (Err e) \<Rightarrow> Inl (Err (f e)))"

lemma lift_err_Inr [simp]: "lift_err f m = Inr x \<longleftrightarrow> m = Inr x"
  by (auto simp: lift_err_def split: sum.splits fault.splits)

lemma lift_err_simps [simp]:
  "lift_err f (Inr x) = Inr x" "lift_err f (err e) = err (f e)" "lift_err f panic = panic"
  by (simp_all add: lift_err_def err_def panic_def)

abbreviation lift_tx :: "('e, 'a) res \<Rightarrow> ('e, 'a) tx" where
  "lift_tx \<equiv> lift_err ProgramErr"

subsection \<open>The token program\<close>

record TokenAccount =
  ta_mint :: Pubkey
  ta_owner :: Pubkey
  ta_delegate :: "Pubkey option"
  ta_amount :: nat

record MintAccount =
  mint_supply :: nat
  mint_authority :: "Pubkey option"
  mint_decimals :: nat

datatype TokenIx =
    TokenTransfer Pubkey Pubkey Pubkey nat
  | TokenMintTo Pubkey Pubkey Pubkey nat
  | TokenBurn Pubkey Pubkey Pubkey nat
  | TokenClose Pubkey Pubkey Pubkey

text \<open>Seeds of program addresses: keys, byte strings and little-endian integers.\<close>

datatype Seed = SeedKey Pubkey | SeedBytes string | SeedInt nat

record 'l Runtime =
  rt_account :: "'l \<Rightarrow> Pubkey \<Rightarrow> TokenAccount option"
  rt_mint :: "'l \<Rightarrow> Pubkey \<Rightarrow> MintAccount option"
  rt_invoke :: "Pubkey list \<Rightarrow> TokenIx \<Rightarrow> 'l \<Rightarrow> 'l option"
  rt_create :: "Pubkey \<Rightarrow> TokenAccount \<Rightarrow> 'l \<Rightarrow> 'l option"
  rt_create_mint :: "Pubkey \<Rightarrow> MintAccount \<Rightarrow> 'l \<Rightarrow> 'l option"
  rt_signer_address :: "Seed list \<Rightarrow> Pubkey"
  rt_find_address :: "Seed list \<Rightarrow> Pubkey \<times> nat"
  rt_signers :: "Pubkey list"
  rt_clock :: int

definition pda :: "'l Runtime \<Rightarrow> Seed list \<Rightarrow> Pubkey" where
  "pda rt seeds = fst (rt_find_address rt seeds)"

text \<open>Calls of the token program, with the signers of the instruction or with a program address.\<close>

definition token_cpi :: "'l Runtime \<Rightarrow> TokenIx \<Rightarrow> 'l \<Rightarrow> ('e, 'l) tx" where
  "token_cpi rt ix l = ok_or (rt_invoke rt (rt_signers rt) ix l) TokenErr"

definition token_cpi_signed :: "'l Runtime \<Rightarrow> Seed list \<Rightarrow> TokenIx \<Rightarrow> 'l \<Rightarrow> ('e, 'l) tx" where
  "token_cpi_signed rt seeds ix l =
     ok_or (rt_invoke rt (rt_signer_address rt seeds # rt_signers rt) ix l) TokenErr"

definition load_token_account :: "'l Runtime \<Rightarrow> 'l \<Rightarrow> Pubkey \<Rightarrow> ('e, TokenAccount) tx" where
  "load_token_account rt l k = ok_or (rt_account rt l k) AccountErr"

text \<open>\<open>token::accessor::amount\<close>; on an account that is no token account a later call fails anyway.\<close>

definition accessor_amount :: "'l Runtime \<Rightarrow> 'l \<Rightarrow> Pubkey \<Rightarrow> ('e, nat) tx" where
  "accessor_amount rt l k = bindE (load_token_account rt l k) (\<lambda>a. Inr (ta_amount a))"

definition constraint :: "bool \<Rightarrow> ('e, unit) tx" where
  "constraint b = guardE b AccountErr"

lemma constraint_simps [simp]: "constraint b = Inr u \<longleftrightarrow> b" "constraint True = Inr ()"
  by (simp_all add: constraint_def)

definition require_signer :: "'l Runtime \<Rightarrow> Pubkey \<Rightarrow> ('e, unit) tx" where
  "require_signer rt k = guardE (k \<in> set (rt_signers rt)) AccountErr"

lemma token_cpi_Inr [simp]:
  "token_cpi rt ix l = Inr l' \<longleftrightarrow> rt_invoke rt (rt_signers rt) ix l = Some l'"
  by (simp add: token_cpi_def)

lemma token_cpi_signed_Inr [simp]:
  "token_cpi_signed rt seeds ix l = Inr l' \<longleftrightarrow>
     rt_invoke rt (rt_signer_address rt seeds # rt_signers rt) ix l = Some l'"
  by (simp add: token_cpi_signed_def)

lemma load_token_account_Inr [simp]: "load_token_account rt l k = Inr a \<longleftrightarrow> rt_account rt l k = Some a"
  by (simp add: load_token_account_def)

lemma require_signer_Inr [simp]: "require_signer rt k = Inr u \<longleftrightarrow> k \<in> set (rt_signers rt)"
  by (simp add: require_signer_def)

definition load_mint :: "'l Runtime \<Rightarrow> 'l \<Rightarrow> Pubkey \<Rightarrow> ('e, MintAccount) tx" where
  "load_mint rt l k = ok_or (rt_mint rt l k) AccountErr"

lemma load_mint_Inr [simp]: "load_mint rt l k = Inr m \<longleftrightarrow> rt_mint rt l k = Some m"
  by (simp add: load_mint_def)

definition create_token_account ::
  "'l Runtime \<Rightarrow> Pubkey \<Rightarrow> Pubkey \<Rightarrow> Pubkey \<Rightarrow> 'l \<Rightarrow> ('e, 'l) tx" where
  "create_token_account rt k mint owner l =
     ok_or (rt_create rt k \<lparr>ta_mint = mint, ta_owner = owner, ta_delegate = None, ta_amount = 0\<rparr> l) AccountErr"

lemma create_token_account_Inr [simp]:
  "create_token_account rt k mint owner l = Inr l' \<longleftrightarrow>
     rt_create rt k \<lparr>ta_mint = mint, ta_owner = owner, ta_delegate = None, ta_amount = 0\<rparr> l = Some l'"
  by (simp add: create_token_account_def)

definition create_mint :: "'l Runtime \<Rightarrow> Pubkey \<Rightarrow> Pubkey \<Rightarrow> nat \<Rightarrow> 'l \<Rightarrow> ('e, 'l) tx" where
  "create_mint rt k authority decimals l =
     ok_or (rt_create_mint rt k \<lparr>mint_supply = 0, mint_authority = Some authority, mint_decimals = decimals\<rparr> l)
       AccountErr"

lemma create_mint_Inr [simp]:
  "create_mint rt k authority decimals l = Inr l' \<longleftrightarrow>
     rt_create_mint rt k
       \<lparr>mint_supply = 0, mint_authority = Some authority, mint_decimals = decimals\<rparr> l = Some l'"
  by (simp add: create_mint_def)

text \<open>
  The laws. The authority of a transfer, a burn or a close must have signed, and it is the owner
  of the account or, for a transfer or a burn, the delegate that the owner approved. Only the authority of a mint
  creates its tokens.
\<close>

definition may_spend :: "Pubkey list \<Rightarrow> Pubkey \<Rightarrow> TokenAccount \<Rightarrow> bool" where
  "may_spend s auth a \<longleftrightarrow> auth \<in> set s \<and> (auth = ta_owner a \<or> ta_delegate a = Some auth)"

text \<open>A spent-up approval is withdrawn, so the delegate may be cleared.\<close>

definition spend :: "TokenAccount \<Rightarrow> Pubkey option \<Rightarrow> nat \<Rightarrow> TokenAccount" where
  "spend a dl n = a\<lparr>ta_amount := ta_amount a - n, ta_delegate := dl\<rparr>"

lemma spend_simps [simp]:
  "ta_amount (spend a dl n) = ta_amount a - n" "ta_mint (spend a dl n) = ta_mint a"
  "ta_owner (spend a dl n) = ta_owner a" "ta_delegate (spend a dl n) = dl"
  "spend a (ta_delegate a) n = a\<lparr>ta_amount := ta_amount a - n\<rparr>"
  by (simp_all add: spend_def)

definition transfer_law :: "'l Runtime \<Rightarrow> bool" where
  "transfer_law rt \<longleftrightarrow>
     (\<forall>s l l' from to auth n. rt_invoke rt s (TokenTransfer from to auth n) l = Some l' \<longrightarrow>
        rt_mint rt l' = rt_mint rt l \<and>
        (\<exists>a b dl. rt_account rt l from = Some a \<and> rt_account rt l to = Some b \<and> may_spend s auth a \<and> dl \<in> {ta_delegate a, None} \<and>
           ta_mint a = ta_mint b \<and> n \<le> ta_amount a \<and>
           rt_account rt l' =
             (if from = to then rt_account rt l
              else (rt_account rt l)(from \<mapsto> spend a dl n,
                                     to \<mapsto> b\<lparr>ta_amount := ta_amount b + n\<rparr>))))"

definition mint_law :: "'l Runtime \<Rightarrow> bool" where
  "mint_law rt \<longleftrightarrow>
     (\<forall>s l l' m to auth n. rt_invoke rt s (TokenMintTo m to auth n) l = Some l' \<longrightarrow>
        (\<exists>b d. rt_account rt l to = Some b \<and> ta_mint b = m \<and> rt_mint rt l m = Some d \<and>
           mint_authority d = Some auth \<and> auth \<in> set s \<and>
           rt_mint rt l' = (rt_mint rt l)(m \<mapsto> d\<lparr>mint_supply := mint_supply d + n\<rparr>) \<and>
           rt_account rt l' = (rt_account rt l)(to \<mapsto> b\<lparr>ta_amount := ta_amount b + n\<rparr>)))"

definition burn_law :: "'l Runtime \<Rightarrow> bool" where
  "burn_law rt \<longleftrightarrow>
     (\<forall>s l l' m from auth n. rt_invoke rt s (TokenBurn m from auth n) l = Some l' \<longrightarrow>
        (\<exists>a d dl. rt_account rt l from = Some a \<and> ta_mint a = m \<and> rt_mint rt l m = Some d \<and>
           may_spend s auth a \<and> dl \<in> {ta_delegate a, None} \<and> n \<le> ta_amount a \<and> n \<le> mint_supply d \<and>
           rt_mint rt l' = (rt_mint rt l)(m \<mapsto> d\<lparr>mint_supply := mint_supply d - n\<rparr>) \<and>
           rt_account rt l' = (rt_account rt l)(from \<mapsto> spend a dl n)))"

definition close_law :: "'l Runtime \<Rightarrow> bool" where
  "close_law rt \<longleftrightarrow>
     (\<forall>s l l' k dest auth. rt_invoke rt s (TokenClose k dest auth) l = Some l' \<longrightarrow>
        rt_mint rt l' = rt_mint rt l \<and>
        (\<exists>a. rt_account rt l k = Some a \<and> auth \<in> set s \<and> auth = ta_owner a \<and> ta_amount a = 0 \<and>
           rt_account rt l' = (rt_account rt l)(k := None)))"

definition create_law :: "'l Runtime \<Rightarrow> bool" where
  "create_law rt \<longleftrightarrow>
     (\<forall>l l' k a. rt_create rt k a l = Some l' \<longrightarrow>
        rt_mint rt l' = rt_mint rt l \<and> rt_account rt l k = None \<and>
        rt_account rt l' = (rt_account rt l)(k \<mapsto> a\<lparr>ta_amount := 0\<rparr>))"

definition create_mint_law :: "'l Runtime \<Rightarrow> bool" where
  "create_mint_law rt \<longleftrightarrow>
     (\<forall>l l' m d. rt_create_mint rt m d l = Some l' \<longrightarrow>
        rt_account rt l' = rt_account rt l \<and> rt_mint rt l m = None \<and>
        rt_mint rt l' = (rt_mint rt l)(m \<mapsto> d\<lparr>mint_supply := 0\<rparr>))"

definition spl_token :: "'l Runtime \<Rightarrow> bool" where
  "spl_token rt \<longleftrightarrow> transfer_law rt \<and> mint_law rt \<and> burn_law rt \<and> close_law rt \<and> create_law rt \<and>
     create_mint_law rt"

text \<open>What clients of the token program rely on.\<close>

locale token_program =
  fixes rt :: "'l Runtime"
  assumes laws: "spl_token rt"
begin

lemma spl_transfer:
  assumes "rt_invoke rt s (TokenTransfer from to auth n) l = Some l'"
  obtains a b dl where "dl \<in> {ta_delegate a, None}" "rt_mint rt l' = rt_mint rt l" "may_spend s auth a"
    "rt_account rt l from = Some a" "rt_account rt l to = Some b" "ta_mint a = ta_mint b" "n \<le> ta_amount a"
    "rt_account rt l' = (if from = to then rt_account rt l
       else (rt_account rt l)(from \<mapsto> spend a dl n, to \<mapsto> b\<lparr>ta_amount := ta_amount b + n\<rparr>))"
  using assms laws unfolding spl_token_def transfer_law_def by blast

lemma spl_mint:
  assumes "rt_invoke rt s (TokenMintTo m to auth n) l = Some l'"
  obtains b d where "auth \<in> set s" "rt_mint rt l m = Some d" "mint_authority d = Some auth"
    "rt_mint rt l' = (rt_mint rt l)(m \<mapsto> d\<lparr>mint_supply := mint_supply d + n\<rparr>)"
    "rt_account rt l to = Some b" "ta_mint b = m"
    "rt_account rt l' = (rt_account rt l)(to \<mapsto> b\<lparr>ta_amount := ta_amount b + n\<rparr>)"
  using assms laws unfolding spl_token_def mint_law_def by blast

lemma spl_burn:
  assumes "rt_invoke rt s (TokenBurn m from auth n) l = Some l'"
  obtains a d dl where "dl \<in> {ta_delegate a, None}" "may_spend s auth a" "rt_mint rt l m = Some d" "n \<le> mint_supply d"
    "rt_mint rt l' = (rt_mint rt l)(m \<mapsto> d\<lparr>mint_supply := mint_supply d - n\<rparr>)"
    "rt_account rt l from = Some a" "ta_mint a = m" "n \<le> ta_amount a"
    "rt_account rt l' = (rt_account rt l)(from \<mapsto> spend a dl n)"
  using assms laws unfolding spl_token_def burn_law_def by blast

lemma spl_close:
  assumes "rt_invoke rt s (TokenClose k dest auth) l = Some l'"
  obtains a where "auth \<in> set s" "auth = ta_owner a" "rt_mint rt l' = rt_mint rt l" "rt_account rt l k = Some a"
    "ta_amount a = 0" "rt_account rt l' = (rt_account rt l)(k := None)"
  using assms laws unfolding spl_token_def close_law_def by blast

lemma spl_create:
  assumes "rt_create rt k a l = Some l'"
  shows "rt_mint rt l' = rt_mint rt l" "rt_account rt l k = None"
    "rt_account rt l' = (rt_account rt l)(k \<mapsto> a\<lparr>ta_amount := 0\<rparr>)"
  using assms laws unfolding spl_token_def create_law_def by blast+

lemma spl_create_mint:
  assumes "rt_create_mint rt m d l = Some l'"
  shows "rt_account rt l' = rt_account rt l" "rt_mint rt l m = None"
    "rt_mint rt l' = (rt_mint rt l)(m \<mapsto> d\<lparr>mint_supply := 0\<rparr>)"
  using assms laws unfolding spl_token_def create_mint_law_def by blast+

end

text \<open>The runtime of one instruction: its signers and the time of its execution.\<close>

definition instruction :: "'l Runtime \<Rightarrow> Pubkey list \<Rightarrow> int \<Rightarrow> 'l Runtime" where
  "instruction rt s t = rt\<lparr>rt_signers := s, rt_clock := t\<rparr>"

lemma instruction_simps [simp]:
  "rt_signers (instruction rt s t) = s" "rt_clock (instruction rt s t) = t" "pda (instruction rt s t) = pda rt"
  "rt_find_address (instruction rt s t) = rt_find_address rt"
  "spl_token (instruction rt s t) = spl_token rt"
  by (simp_all add: instruction_def pda_def spl_token_def transfer_law_def mint_law_def
      burn_law_def close_law_def create_law_def create_mint_law_def fun_eq_iff)

subsection \<open>A concrete ledger\<close>

record Ledger =
  lg_accounts :: "Pubkey \<Rightarrow> TokenAccount option"
  lg_mints :: "Pubkey \<Rightarrow> MintAccount option"

fun ledger_invoke :: "Pubkey list \<Rightarrow> TokenIx \<Rightarrow> Ledger \<Rightarrow> Ledger option" where
  "ledger_invoke s (TokenTransfer from to auth n) l =
     (case (lg_accounts l from, lg_accounts l to) of
        (Some a, Some b) \<Rightarrow>
          if may_spend s auth a \<and> ta_mint a = ta_mint b \<and> n \<le> ta_amount a then
            Some (if from = to then l
                  else l\<lparr>lg_accounts := (lg_accounts l)(from \<mapsto> a\<lparr>ta_amount := ta_amount a - n\<rparr>,
                                                        to \<mapsto> b\<lparr>ta_amount := ta_amount b + n\<rparr>)\<rparr>)
          else None
      | _ \<Rightarrow> None)"
| "ledger_invoke s (TokenMintTo m to auth n) l =
     (case (lg_accounts l to, lg_mints l m) of
        (Some b, Some d) \<Rightarrow>
          if auth \<in> set s \<and> mint_authority d = Some auth \<and> ta_mint b = m \<and> u64 (mint_supply d + n) then
            Some (l\<lparr>lg_accounts := (lg_accounts l)(to \<mapsto> b\<lparr>ta_amount := ta_amount b + n\<rparr>),
                    lg_mints := (lg_mints l)(m \<mapsto> d\<lparr>mint_supply := mint_supply d + n\<rparr>)\<rparr>)
          else None
      | _ \<Rightarrow> None)"
| "ledger_invoke s (TokenBurn m from auth n) l =
     (case (lg_accounts l from, lg_mints l m) of
        (Some a, Some d) \<Rightarrow>
          if may_spend s auth a \<and> ta_mint a = m \<and> n \<le> ta_amount a \<and> n \<le> mint_supply d then
            Some (l\<lparr>lg_accounts := (lg_accounts l)(from \<mapsto> a\<lparr>ta_amount := ta_amount a - n\<rparr>),
                    lg_mints := (lg_mints l)(m \<mapsto> d\<lparr>mint_supply := mint_supply d - n\<rparr>)\<rparr>)
          else None
      | _ \<Rightarrow> None)"
| "ledger_invoke s (TokenClose k dest auth) l =
     (case lg_accounts l k of
        Some a \<Rightarrow>
          if auth \<in> set s \<and> auth = ta_owner a \<and> ta_amount a = 0 then
            Some (l\<lparr>lg_accounts := (lg_accounts l)(k := None)\<rparr>)
          else None
      | None \<Rightarrow> None)"

definition ledger_create :: "Pubkey \<Rightarrow> TokenAccount \<Rightarrow> Ledger \<Rightarrow> Ledger option" where
  "ledger_create k a l =
     (if lg_accounts l k = None
      then Some (l\<lparr>lg_accounts := (lg_accounts l)(k \<mapsto> a\<lparr>ta_amount := 0\<rparr>)\<rparr>) else None)"

definition ledger_create_mint :: "Pubkey \<Rightarrow> MintAccount \<Rightarrow> Ledger \<Rightarrow> Ledger option" where
  "ledger_create_mint m d l =
     (if lg_mints l m = None
      then Some (l\<lparr>lg_mints := (lg_mints l)(m \<mapsto> d\<lparr>mint_supply := 0\<rparr>)\<rparr>) else None)"

definition ledger_runtime :: "(Seed list \<Rightarrow> Pubkey) \<Rightarrow> Pubkey list \<Rightarrow> int \<Rightarrow> Ledger Runtime" where
  "ledger_runtime address signers clock =
     \<lparr>rt_account = lg_accounts, rt_mint = lg_mints, rt_invoke = ledger_invoke,
      rt_create = ledger_create, rt_create_mint = ledger_create_mint,
      rt_signer_address = address, rt_find_address = (\<lambda>s. (address s, 255)),
      rt_signers = signers, rt_clock = clock\<rparr>"

lemma ledger_runtime_simps [simp]:
  "rt_account (ledger_runtime g s c) = lg_accounts" "rt_mint (ledger_runtime g s c) = lg_mints"
  "rt_invoke (ledger_runtime g s c) = ledger_invoke" "rt_create (ledger_runtime g s c) = ledger_create"
  "rt_create_mint (ledger_runtime g s c) = ledger_create_mint"
  "rt_signer_address (ledger_runtime g s c) = g" "pda (ledger_runtime g s c) = g"
  "rt_find_address (ledger_runtime g s c) = (\<lambda>s. (g s, 255))"
  "rt_signers (ledger_runtime g s c) = s" "rt_clock (ledger_runtime g s c) = c"
  by (simp_all add: ledger_runtime_def pda_def fun_eq_iff)

lemma ledger_runtime_spl: "spl_token (ledger_runtime g s c)"
  unfolding spl_token_def
proof (intro conjI)
  show "transfer_law (ledger_runtime g s c)"
    unfolding transfer_law_def ledger_runtime_simps
  proof (intro allI impI)
    fix ss l l' src tgt auth n
    assume i: "ledger_invoke ss (TokenTransfer src tgt auth n) l = Some l'"
    then obtain a b where "lg_accounts l src = Some a" "lg_accounts l tgt = Some b"
      by (auto split: option.splits)
    with i show "lg_mints l' = lg_mints l \<and>
        (\<exists>a b dl. lg_accounts l src = Some a \<and> lg_accounts l tgt = Some b \<and> may_spend ss auth a \<and>
           dl \<in> {ta_delegate a, None} \<and> ta_mint a = ta_mint b \<and> n \<le> ta_amount a \<and>
           lg_accounts l' =
             (if src = tgt then lg_accounts l
              else (lg_accounts l)(src \<mapsto> spend a dl n, tgt \<mapsto> b\<lparr>ta_amount := ta_amount b + n\<rparr>)))"
      by (intro conjI exI [of _ a] exI [of _ b] exI [of _ "ta_delegate a"]) (auto split: if_split_asm)
  qed
  show "mint_law (ledger_runtime g s c)"
    unfolding mint_law_def ledger_runtime_simps by (auto split: option.splits if_split_asm)
  show "burn_law (ledger_runtime g s c)"
    unfolding burn_law_def ledger_runtime_simps
  proof (intro allI impI)
    fix ss l l' m src auth n
    assume i: "ledger_invoke ss (TokenBurn m src auth n) l = Some l'"
    then obtain a d where "lg_accounts l src = Some a" "lg_mints l m = Some d"
      by (auto split: option.splits)
    with i show "\<exists>a d dl. lg_accounts l src = Some a \<and> ta_mint a = m \<and> lg_mints l m = Some d \<and>
        may_spend ss auth a \<and> dl \<in> {ta_delegate a, None} \<and> n \<le> ta_amount a \<and> n \<le> mint_supply d \<and>
        lg_mints l' = (lg_mints l)(m \<mapsto> d\<lparr>mint_supply := mint_supply d - n\<rparr>) \<and>
        lg_accounts l' = (lg_accounts l)(src \<mapsto> spend a dl n)"
      by (intro exI [of _ a] exI [of _ d] exI [of _ "ta_delegate a"]) (auto split: if_split_asm)
  qed
  show "close_law (ledger_runtime g s c)"
    unfolding close_law_def ledger_runtime_simps by (auto split: option.splits if_split_asm)
  show "create_law (ledger_runtime g s c)"
    unfolding create_law_def ledger_runtime_simps ledger_create_def by (auto split: if_split_asm)
  show "create_mint_law (ledger_runtime g s c)"
    unfolding create_mint_law_def ledger_runtime_simps ledger_create_mint_def by (auto split: if_split_asm)
qed

interpretation ledger: token_program "ledger_runtime g s c" for g s c
  by (rule token_program.intro) (rule ledger_runtime_spl)

end
