(* ===== verification/MarginAdapter.thy ===== *)
theory MarginAdapter
  imports MarginAccount Runtime
begin

unbundle bit_operations_syntax

text \<open>
  Invoking an adapter, \<open>programs/margin/src/adapter.rs\<close>: the margin program calls another program
  with the margin account's signature, reads the balances of the token accounts it was given,
  and applies the position changes that the adapter returns.

  The adapter is not part of the repository's margin program: it is a parameter, a function from
  what it is called with to the accounts as it leaves them and its return data. Solana does not
  let it call back into the margin program, so it cannot touch the margin account itself. An
  \<open>AccountInfo\<close> carries its data as what the program that owns it would decode.

  The lemmas show that an adapter changes nothing but the balance of positions it does not
  manage, and that an unsigned invocation neither opens nor closes positions.
\<close>

subsection \<open>Accounts\<close>

datatype AccountData =
    DataToken TokenAccount
  | DataMint nat
  | DataTokenConfig TokenConfig
  | DataOther

record AccountInfo =
  ai_key :: Pubkey
  ai_data :: AccountData

record AdapterContext =
  ic_adapter_program :: Pubkey
  ic_accounts :: "AccountInfo list"
  ic_signed :: bool

text \<open>
  The called program: the accounts and whether the margin account signs, the invocation flags it
  can read, the instruction data; it fails or leaves the accounts and the return data, the
  program that set it and the decoded result, if it decodes.
\<close>

type_synonym AdapterProgram =
  "bool \<Rightarrow> AccountInfo list \<Rightarrow> BitSet \<Rightarrow> nat list \<Rightarrow>
     (AccountInfo list \<times> (Pubkey \<times> AdapterResult option) option) margin_res"

record Sys =
  sys_unix_timestamp :: nat
  sys_stack_height :: nat

definition cast_i64 :: "nat \<Rightarrow> int" where
  "cast_i64 n = wrap_i 64 (int n)"

definition adapter_result_approvals :: "AdapterContext \<Rightarrow> Approver list" where
  "adapter_result_approvals ctx =
     (if ic_signed ctx then [MarginAccountAuthority] else []) @ [Adapter (ic_adapter_program ctx)]"

subsection \<open>Balances\<close>

definition update_balance :: "Sys \<Rightarrow> AccountInfo \<Rightarrow> MarginAccount \<Rightarrow> MarginAccount margin_res" where
  "update_balance sys info a =
     (case ai_data info of
        DataToken t \<Rightarrow>
          (case set_position_balance (ta_mint t) (ai_key info) (ta_amount t) (sys_unix_timestamp sys) a of
             Inr (a', p) \<Rightarrow> Inr a'
           | Inl e \<Rightarrow> if e = Err PositionNotRegistered then Inr a else Inl e)
      | _ \<Rightarrow> Inr a)"

definition update_balances :: "Sys \<Rightarrow> AdapterContext \<Rightarrow> MarginAccount \<Rightarrow> MarginAccount margin_res" where
  "update_balances sys ctx a = foldE (update_balance sys) (ic_accounts ctx) a"

subsection \<open>Position changes\<close>

text \<open>
  The scan for the token account, the mint and the configuration; the first two fail at once when
  the account at the address has other data.
\<close>

record FoundAccounts =
  found_token_account :: "(Pubkey \<times> TokenAccount) option"
  found_mint :: "(Pubkey \<times> nat) option"
  found_config :: "TokenConfig option"

definition find_account ::
  "Pubkey \<Rightarrow> Pubkey \<Rightarrow> AccountInfo \<Rightarrow> FoundAccounts \<Rightarrow> FoundAccounts margin_res" where
  "find_account mint_address token_account_address info f =
     (if ai_key info = token_account_address then
        (case ai_data info of
           DataToken t \<Rightarrow> Inr (f\<lparr>found_token_account := Some (ai_key info, t)\<rparr>)
         | _ \<Rightarrow> err AnchorError)
      else if ai_key info = mint_address then
        (case ai_data info of
           DataMint d \<Rightarrow> Inr (f\<lparr>found_mint := Some (ai_key info, d)\<rparr>)
         | _ \<Rightarrow> err AnchorError)
      else
        (case ai_data info of
           DataTokenConfig c \<Rightarrow>
             if tc_mint c = mint_address then Inr (f\<lparr>found_config := Some c\<rparr>) else Inr f
         | _ \<Rightarrow> Inr f))"

definition adapter_register_position ::
  "Sys \<Rightarrow> AccountInfo list \<Rightarrow> Approver list \<Rightarrow> Pubkey \<Rightarrow> Pubkey \<Rightarrow> MarginAccount \<Rightarrow>
     (MarginAccount \<times> AccountPositionKey) margin_res" where
  "adapter_register_position sys remaining_accounts approvals mint_address token_account_address a =
     bindE (foldE (find_account mint_address token_account_address) remaining_accounts
       \<lparr>found_token_account = None, found_mint = None, found_config = None\<rparr>) (\<lambda>f.
     bindE (ok_or (found_token_account f) PositionNotRegisterable) (\<lambda>(ta_key, token_account).
     bindE (ok_or (found_mint f) PositionNotRegisterable) (\<lambda>(mint_key, decimals).
     if mint_key \<noteq> ta_mint token_account then err PositionNotRegisterable
     else
       bindE (ok_or (found_config f) PositionNotRegisterable) (\<lambda>c.
       bindE (register_position
         (new_from_config c decimals ta_key
            (case adapter_program c of Some x \<Rightarrow> x | None \<Rightarrow> pubkey_default)) approvals a) (\<lambda>(a, key).
       bindE (set_position_balance mint_address token_account_address (ta_amount token_account)
         (sys_unix_timestamp sys) a) (\<lambda>(a, p).
       Inr (a, key)))))))"

definition clear_flags :: "nat \<Rightarrow> nat \<Rightarrow> nat" where
  "clear_flags flags f = flags AND (255 XOR f)"

definition write_position :: "nat \<Rightarrow> AccountPosition \<Rightarrow> MarginAccount \<Rightarrow> MarginAccount" where
  "write_position i p a = a\<lparr>ma_positions := write_slot i p (ma_positions a)\<rparr>"

definition position_of_key :: "AccountPositionKey option \<Rightarrow> MarginAccount \<Rightarrow> nat option margin_res" where
  "position_of_key key a =
     (case key of None \<Rightarrow> Inr None | Some k \<Rightarrow> get_position_by_key_mut k a)"

text \<open>The loop body: the account and the key it holds for the mint.\<close>

definition apply_change ::
  "Sys \<Rightarrow> AdapterContext \<Rightarrow> Pubkey \<Rightarrow> PositionChange \<Rightarrow> MarginAccount \<times> AccountPositionKey option \<Rightarrow>
     (MarginAccount \<times> AccountPositionKey option) margin_res" where
  "apply_change sys ctx mint change = (\<lambda>(a, key).
     bindE (position_of_key key a) (\<lambda>position.
     case change of
       ChangePrice px \<Rightarrow>
         (case position of
            None \<Rightarrow> Inr (a, key)
          | Some i \<Rightarrow>
              bindE (price_change_try_into px (cast_i64 (sys_unix_timestamp sys))) (\<lambda>price.
              bindE (set_price price (slot_of (ma_positions a) i)) (\<lambda>p.
              Inr (write_position i p a, key))))
     | ChangeFlags flags on \<Rightarrow>
         bindE (ok_or position PositionNotRegistered) (\<lambda>i.
         let p = slot_of (ma_positions a) i in
         Inr (write_position i
                (p\<lparr>pos_flags := (if on then pos_flags p OR flags else clear_flags (pos_flags p) flags)\<rparr>) a,
              key))
     | ChangeRegister token_account \<Rightarrow>
         (case position of
            Some i \<Rightarrow>
              if pos_address (slot_of (ma_positions a) i) \<noteq> token_account then err PositionNotRegisterable
              else Inr (a, key)
          | None \<Rightarrow>
              bindE (adapter_register_position sys (ic_accounts ctx) (adapter_result_approvals ctx) mint
                token_account a) (\<lambda>(a, k). Inr (a, Some k)))
     | ChangeClose token_account \<Rightarrow>
         (case position of
            None \<Rightarrow> Inr (a, key)
          | Some i \<Rightarrow>
              if pos_address (slot_of (ma_positions a) i) \<noteq> token_account then err PositionNotRegisterable
              else
                bindE (unregister_position mint token_account (adapter_result_approvals ctx) a) (\<lambda>a.
                Inr (a, None)))))"

definition apply_changes ::
  "Sys \<Rightarrow> AdapterContext \<Rightarrow> Pubkey \<Rightarrow> PositionChange list \<Rightarrow> MarginAccount \<Rightarrow> MarginAccount margin_res" where
  "apply_changes sys ctx mint changes a =
     bindE (get_position_key mint a) (\<lambda>key.
     bindE (position_of_key key a) (\<lambda>position.
     bindE (case position of
              None \<Rightarrow> Inr ()
            | Some i \<Rightarrow> guardE (pos_adapter (slot_of (ma_positions a) i) = ic_adapter_program ctx)
                         InvalidPositionAdapter) (\<lambda>_.
     bindE (foldE (apply_change sys ctx mint) changes (a, key)) (\<lambda>(a, key). Inr a))))"

definition handle_adapter_result ::
  "Sys \<Rightarrow> AdapterContext \<Rightarrow> (Pubkey \<times> AdapterResult option) option \<Rightarrow> MarginAccount \<Rightarrow> MarginAccount margin_res" where
  "handle_adapter_result sys ctx return_data a =
     bindE (update_balances sys ctx a) (\<lambda>a.
     case return_data of
       None \<Rightarrow> Inr a
     | Some (program_id, data) \<Rightarrow>
         if program_id \<noteq> ic_adapter_program ctx then Inr a
         else
           (case data of
              None \<Rightarrow> err AnchorError
            | Some result \<Rightarrow>
                foldE (\<lambda>(mint, changes). apply_changes sys ctx mint changes) (position_changes result) a))"

definition adapter_invoke_with ::
  "AdapterProgram \<Rightarrow> Sys \<Rightarrow> AdapterContext \<Rightarrow> nat list \<Rightarrow> MarginAccount \<Rightarrow>
     (MarginAccount \<times> AccountInfo list) margin_res" where
  "adapter_invoke_with program sys ctx data a =
     bindE (invocation_start (sys_stack_height sys) (ma_invocation a)) (\<lambda>s.
     bindE (program (ic_signed ctx) (ic_accounts ctx) s data) (\<lambda>(accounts, return_data).
     bindE (invocation_end (sys_stack_height sys) s) (\<lambda>s'.
     bindE (handle_adapter_result sys (ctx\<lparr>ic_accounts := accounts\<rparr>) return_data
              (a\<lparr>ma_invocation := s'\<rparr>)) (\<lambda>a.
     Inr (a, accounts)))))"

subsection \<open>Keys\<close>

text \<open>
  A key that the code holds leads to the position of its mint: by its slot while that still holds
  the mint, and by search otherwise.
\<close>

lemma get_position_by_key_mut_eq:
  assumes "wf_account a" "key_index k < 32" "key_mint k \<noteq> 0"
  shows "get_position_by_key_mut k a = plist_get_mut (ma_positions a) (key_mint k)"
proof (cases "pos_token (pl_positions (ma_positions a) ! key_index k) = key_mint k")
  case True
  let ?l = "ma_positions a"
  have "key_index k \<in> key_index ` set (used_keys ?l)"
    using slot_taken_iff [OF assms(1,2)] True assms(3) by simp
  then obtain k' where k': "k' \<in> set (used_keys ?l)" "key_index k' = key_index k" by auto
  with wf_plistD(5) [OF assms(1) k'(1)] True have "key_mint k' = key_mint k" by (simp add: key_ok_def)
  with k' have "find (\<lambda>x. key_mint x = key_mint k) (used_keys ?l) = Some k'"
    using find_strict_keys [OF strict_keys_distinct [OF wf_plistD(4) [OF assms(1)]]] by simp
  with k'(2) have "plist_get_mut ?l (key_mint k) = Inr (Some (key_index k))"
    by (simp add: plist_get_mut_eq [OF assms(1)])
  with True assms(1,2) wf_plistD(2) [OF assms(1)] show ?thesis
    by (simp add: get_position_by_key_mut_def get_E_def)
next
  case False
  with assms(2) wf_plistD(2) [OF assms(1)] show ?thesis
    by (simp add: get_position_by_key_mut_def get_E_def)
qed

lemma register_position_key:
  assumes "wf_account a" "pcu_mint c \<noteq> 0" "account_view a (pcu_mint c) = None"
    and "register_position c approvals a = Inr (a', key)"
  shows "key_mint key = pcu_mint c" "key_index key < 32"
proof -
  from assms(4) obtain l r where add: "plist_add (ma_positions a) (pcu_mint c) = Inr (l, key, r)"
    by (auto simp: register_position_def Let_def split: if_split_asm option.split_asm)
  from ps.add_Inr [OF assms(1,2) add] assms(3)
  have n: "key_mint key = pcu_mint c" "wf_plist l" "plist_get_mut l (pcu_mint c) = Inr (Some (key_index key))"
    by auto
  show "key_mint key = pcu_mint c" by (rule n)
  show "key_index key < 32" using plist_get_mut_Some(3) [OF n(2,3)] .
qed

definition key_inv :: "Pubkey \<Rightarrow> MarginAccount \<Rightarrow> AccountPositionKey option \<Rightarrow> bool" where
  "key_inv m a key \<longleftrightarrow>
     (case key of
        None \<Rightarrow> account_view a m = None
      | Some k \<Rightarrow> key_mint k = m \<and> key_index k < 32 \<and> account_view a m \<noteq> None)"

lemma position_of_key_eq:
  assumes "wf_account a" "key_inv m a key" "m \<noteq> 0"
  shows "position_of_key key a = plist_get_mut (ma_positions a) m"
  using assms get_position_by_key_mut_eq [OF assms(1)] ps.get_mut_None [OF assms(1)]
  by (auto simp: position_of_key_def key_inv_def split: option.splits)

lemma get_position_key_inv:
  assumes "wf_account a" "get_position_key m a = Inr key"
  shows "key_inv m a key"
  using assms wf_plistD(2,5) [OF assms(1)] find_in_set [of "\<lambda>k. key_mint k = m" "used_keys (ma_positions a)"]
  by (auto simp: get_position_key_def get_key_eq key_inv_def plist_abs_def key_ok_def find_Some_iff
      split: option.splits)

text \<open>
  One change to mint \<open>m\<close>: the account stays well-formed, the key stays in step with the map, and the
  positions of other mints stay as they are.
\<close>

definition changes_only :: "Pubkey \<Rightarrow> MarginAccount \<Rightarrow> MarginAccount \<Rightarrow> bool" where
  "changes_only m a b \<longleftrightarrow> account_inv b \<and> same_owner a b \<and> (\<forall>m'. m' \<noteq> m \<longrightarrow> account_view b m' = account_view a m')"

lemma changes_only_refl: "account_inv a \<Longrightarrow> changes_only m a a"
  by (simp add: changes_only_def)

lemma changes_only_trans: "changes_only m a b \<Longrightarrow> changes_only m b c \<Longrightarrow> changes_only m a c"
  by (auto simp: changes_only_def intro: same_owner_trans)

lemma changes_only_update:
  assumes "account_inv a" "wf_account b" "same_owner a b" "account_view b = (account_view a)(m \<mapsto> p)" "value_ok p"
  shows "changes_only m a b"
  using assms account_inv_update [OF assms(1,2,4,5)] by (simp add: changes_only_def)

lemma write_position_update:
  assumes "account_inv a" "plist_get_mut (ma_positions a) m = Inr (Some i)"
    and "pos_token p = pos_token (slot_of (ma_positions a) i)" "value_ok p"
  shows "changes_only m a (write_position i p a)"
    "account_view (write_position i p a) = (account_view a)(m \<mapsto> p)"
proof -
  have wf: "wf_account a" using assms(1) by (simp add: account_inv_def)
  note w = ps.write_same [OF wf assms(2,3)]
  show "account_view (write_position i p a) = (account_view a)(m \<mapsto> p)"
    using w by (simp add: write_position_def)
  show "changes_only m a (write_position i p a)"
    by (rule changes_only_update [OF assms(1) _ _ _ assms(4)]) (use w in \<open>simp_all add: write_position_def\<close>)
qed

lemma found_config_mint:
  assumes "foldE (find_account m ta) infos f = Inr g" "\<forall>c. found_config f = Some c \<longrightarrow> tc_mint c = m"
  shows "\<forall>c. found_config g = Some c \<longrightarrow> tc_mint c = m"
  by (rule foldE_invariant [where P = "\<lambda>f. \<forall>c. found_config f = Some c \<longrightarrow> tc_mint c = m", OF assms])
    (auto simp: find_account_def split: if_split_asm AccountData.splits)

lemma adapter_register_position_spec:
  assumes "account_inv a" "m \<noteq> 0" "account_view a m = None"
    and "adapter_register_position sys infos approvals m ta a = Inr (a', key)"
  shows "changes_only m a a'" "key_inv m a' (Some key)"
    and "\<exists>p. pos_address p = ta \<and> may_be_registered_or_closed p approvals"
proof -
  have wf: "wf_account a" using assms(1) by (simp add: account_inv_def)
  from assms(4) obtain f k d c b p and t :: TokenAccount where
    f: "foldE (find_account m ta) infos
       \<lparr>found_token_account = None, found_mint = None, found_config = None\<rparr> = (Inr f :: _ margin_res)"
    and c: "found_config f = Some c"
    and r: "register_position (new_from_config c d k
        (case adapter_program c of Some x \<Rightarrow> x | None \<Rightarrow> pubkey_default)) approvals a = Inr (b, key)"
    and s: "set_position_balance m ta (ta_amount t) (sys_unix_timestamp sys) b = Inr (a', p)"
    by (auto simp: adapter_register_position_def split: if_split_asm)
  have "tc_mint c = m" using found_config_mint [OF f] c by simp
  then have m: "pcu_mint (new_from_config c d k x) = m" for x by (simp add: new_from_config_def)
  let ?p = "fill_position (new_from_config c d k
        (case adapter_program c of Some x \<Rightarrow> x | None \<Rightarrow> pubkey_default)) (zeroed_position\<lparr>pos_token := m\<rparr>)"
  have n: "pcu_mint (new_from_config c d k (case adapter_program c of Some x \<Rightarrow> x | None \<Rightarrow> pubkey_default)) \<noteq> 0"
    using m assms(2) by simp
  note rs = register_position_spec [OF wf n r, unfolded m]
  from rs(4) assms(3) have ap: "may_be_registered_or_closed ?p approvals"
    and vb: "account_view b = (account_view a)(m \<mapsto> ?p)" by auto
  have cb: "changes_only m a b" by (rule changes_only_update [OF assms(1) rs(1,2) vb value_ok_fill])
  from set_position_balance_spec [OF rs(1) s] obtain q where q: "account_view b m = Some q" "pos_address q = ta"
    "set_balance (ta_amount t) (sys_unix_timestamp sys) q = Inr p" "wf_account a'" "same_owner b a'"
    "account_view a' = (account_view b)(m \<mapsto> p)" by blast
  have "changes_only m b a'"
    by (rule changes_only_update [OF _ q(4-6) value_ok_set_balance [OF q(3)]])
      (use cb in \<open>simp add: changes_only_def\<close>)
  with cb show "changes_only m a a'" by (rule changes_only_trans)
  have v: "account_view a (pcu_mint (new_from_config c d k
      (case adapter_program c of Some x \<Rightarrow> x | None \<Rightarrow> pubkey_default))) = None"
    using m assms(3) by simp
  show "key_inv m a' (Some key)"
    using register_position_key [OF wf n v r] m q(6) by (simp add: key_inv_def)
  show "\<exists>p. pos_address p = ta \<and> may_be_registered_or_closed p approvals"
    using ap q(1,2) vb by auto
qed

subsection \<open>One change\<close>

lemma approvals_unsigned:
  "\<not> ic_signed ctx \<Longrightarrow> \<not> may_be_registered_or_closed p (adapter_result_approvals ctx)"
  by (simp add: may_be_registered_or_closed_def adapter_result_approvals_def split: TokenKind.splits)

lemma value_ok_flags: "value_ok p \<Longrightarrow> value_ok (p\<lparr>pos_flags := f\<rparr>)"
  by (rule value_ok_cong) simp_all

lemma apply_change_without_position:
  assumes inv: "account_inv a" and k: "key_inv m a key" and m: "m \<noteq> 0"
    and pos: "plist_get_mut (ma_positions a) m = Inr None"
    and step: "apply_change sys ctx m change (a, key) = Inr (b, key')"
  shows "changes_only m a b \<and> key_inv m b key' \<and>
    (\<not> ic_signed ctx \<longrightarrow> (account_view b m = None \<longleftrightarrow> account_view a m = None))"
proof -
  have wf: "wf_account a" using inv by (simp add: account_inv_def)
  note step' = step [unfolded apply_change_def prod.case position_of_key_eq [OF wf k m] pos bindE_simps]
  have none: "account_view a m = None" using pos ps.get_mut_Some [OF wf, of m]
    by (metis Inr_inject option.exhaust option.discI)
  show ?thesis
  proof (cases change)
    case (ChangeRegister ta)
    with step' obtain k' where r: "adapter_register_position sys (ic_accounts ctx)
        (adapter_result_approvals ctx) m ta a = Inr (b, k')" and k': "key' = Some k'" by auto
    from adapter_register_position_spec [OF inv m none r] k' show ?thesis
      using approvals_unsigned [of ctx] by blast
  qed (use step' changes_only_refl [OF inv] k in auto)
qed

lemma apply_change_spec:
  assumes inv: "account_inv a" and k: "key_inv m a key" and m: "m \<noteq> 0"
    and step: "apply_change sys ctx m change (a, key) = Inr (b, key')"
  shows "changes_only m a b \<and> key_inv m b key' \<and>
    (\<not> ic_signed ctx \<longrightarrow> (account_view b m = None \<longleftrightarrow> account_view a m = None))"
proof -
  have wf: "wf_account a" using inv by (simp add: account_inv_def)
  have refl: "changes_only m a a" using inv by (rule changes_only_refl)
  from step obtain position where pos: "plist_get_mut (ma_positions a) m = Inr position"
    and rest: "apply_change sys ctx m change (a, key) = Inr (b, key')"
    using position_of_key_eq [OF wf k m] by (auto simp: apply_change_def)
  note step' = rest [unfolded apply_change_def prod.case position_of_key_eq [OF wf k m] pos bindE_simps]
  show ?thesis
  proof (cases position)
    case None
    with pos apply_change_without_position [OF inv k m _ step] show ?thesis by simp
  next
    case (Some i)
    note gm = pos [unfolded Some]
    let ?p = "slot_of (ma_positions a) i"
    have view: "account_view a m = Some ?p" by (rule ps.get_mut_slot [OF wf gm])
    have ok: "value_ok ?p" using inv view by (simp add: account_inv_def)
    have wr: "changes_only m a (write_position i q a) \<and> key_inv m (write_position i q a) key \<and>
        account_view (write_position i q a) m \<noteq> None"
      if "pos_token q = pos_token ?p" "value_ok q" for q
      using write_position_update [OF inv gm that] k view by (auto simp: key_inv_def split: option.splits)
    show ?thesis
    proof (cases change)
      case (ChangePrice px)
      with step' Some obtain price q where q: "set_price price ?p = Inr q"
        "b = write_position i q a" "key' = key" by auto
      from wr [OF set_price_frame(1) [OF q(1)] value_ok_set_price [OF q(1)]] q(2,3) view
      show ?thesis by simp
    next
      case (ChangeFlags f on)
      with step' Some obtain q where q: "b = write_position i (?p\<lparr>pos_flags := q\<rparr>) a" "key' = key"
        by (auto simp: Let_def)
      from wr [of "?p\<lparr>pos_flags := q\<rparr>"] value_ok_flags [OF ok] q view show ?thesis by simp
    next
      case (ChangeRegister ta)
      with step' Some refl k show ?thesis by (auto split: if_split_asm)
    next
      case (ChangeClose ta)
      with step' Some have u: "unregister_position m ta (adapter_result_approvals ctx) a = Inr b" "key' = None"
        by (auto split: if_split_asm)
      from unregister_position_spec [OF wf u(1)] obtain p where
        "may_be_registered_or_closed p (adapter_result_approvals ctx)" and b: "wf_account b" "same_owner a b"
        "account_view b = (account_view a)(m := None)" by blast
      then have "ic_signed ctx" using approvals_unsigned by blast
      moreover have "account_inv b" using inv b by (auto simp: account_inv_def split: if_splits)
      ultimately show ?thesis using b u(2) by (simp add: changes_only_def key_inv_def)
    qed
  qed
qed

subsection \<open>A list of changes\<close>

lemma apply_change_fold:
  assumes "foldE (apply_change sys ctx m) changes (a, key) = Inr (b, key')"
    and "account_inv a" "key_inv m a key" "m \<noteq> 0"
  shows "changes_only m a b \<and> (\<not> ic_signed ctx \<longrightarrow> (account_view b m = None \<longleftrightarrow> account_view a m = None))"
  using assms
proof (induction changes arbitrary: a key)
  case (Cons change changes)
  from Cons.prems(1) obtain c k where c: "apply_change sys ctx m change (a, key) = Inr (c, k)"
    "foldE (apply_change sys ctx m) changes (c, k) = Inr (b, key')" by auto
  note s = apply_change_spec [OF Cons.prems(2-4) c(1)]
  then have "account_inv c" "key_inv m c k" by (auto simp: changes_only_def)
  from Cons.IH [OF c(2) this Cons.prems(4)] s show ?case by (auto intro: changes_only_trans)
qed (simp add: changes_only_refl)

lemma apply_changes_spec:
  assumes "apply_changes sys ctx m changes a = Inr b" "account_inv a" "m \<noteq> 0"
  shows "changes_only m a b"
    and "account_view a m = Some p \<Longrightarrow> pos_adapter p = ic_adapter_program ctx"
    and "\<not> ic_signed ctx \<Longrightarrow> account_view b m = None \<longleftrightarrow> account_view a m = None"
proof -
  have wf: "wf_account a" using assms(2) by (simp add: account_inv_def)
  from assms(1) obtain key position key' where k: "get_position_key m a = Inr key"
    and p: "position_of_key key a = Inr position"
    and g: "(case position of None \<Rightarrow> Inr ()
        | Some i \<Rightarrow> guardE (pos_adapter (slot_of (ma_positions a) i) = ic_adapter_program ctx)
                         InvalidPositionAdapter) = (Inr () :: unit margin_res)"
    and f: "foldE (apply_change sys ctx m) changes (a, key) = Inr (b, key')"
    by (auto simp: apply_changes_def)
  have ki: "key_inv m a key" by (rule get_position_key_inv [OF wf k])
  note fold = apply_change_fold [OF f assms(2) ki assms(3)]
  show "changes_only m a b" using fold by simp
  show "account_view b m = None \<longleftrightarrow> account_view a m = None" if "\<not> ic_signed ctx" using fold that by simp
  show "pos_adapter p = ic_adapter_program ctx" if "account_view a m = Some p"
  proof -
    note v = that
    obtain i where "plist_get_mut (ma_positions a) m = Inr (Some i)" "slot_of (ma_positions a) i = p"
      using ps.get_mut_Some [OF wf v] by blast
    with p position_of_key_eq [OF wf ki assms(3)] g show ?thesis by (auto split: option.splits)
  qed
qed

subsection \<open>Balances\<close>

text \<open>What a balance update leaves of a position.\<close>

definition same_but_balance :: "AccountPosition \<Rightarrow> AccountPosition \<Rightarrow> bool" where
  "same_but_balance p q \<longleftrightarrow> pos_token q = pos_token p \<and> pos_address q = pos_address p \<and>
     pos_adapter q = pos_adapter p \<and> pos_kind q = pos_kind p \<and> pos_flags q = pos_flags p \<and>
     pos_price q = pos_price p \<and> pos_exponent q = pos_exponent p \<and>
     pos_value_modifier q = pos_value_modifier p \<and> pos_max_staleness q = pos_max_staleness p"

definition balances_only :: "MarginAccount \<Rightarrow> MarginAccount \<Rightarrow> bool" where
  "balances_only a b \<longleftrightarrow> account_inv b \<and> same_owner a b \<and>
     (\<forall>m. rel_option same_but_balance (account_view a m) (account_view b m))"

lemma same_but_balance_refl [simp]: "same_but_balance p p"
  by (simp add: same_but_balance_def)

lemma balances_only_refl: "account_inv a \<Longrightarrow> balances_only a a"
  by (simp add: balances_only_def option.rel_refl)

lemma balances_only_trans:
  assumes "balances_only a b" "balances_only b c"
  shows "balances_only a c"
proof -
  have "rel_option same_but_balance (account_view a m) (account_view c m)" for m
    using assms unfolding balances_only_def
    by (cases "account_view a m"; cases "account_view b m"; cases "account_view c m")
      (auto simp: same_but_balance_def dest!: spec [of _ m])
  with assms show ?thesis by (auto simp: balances_only_def intro: same_owner_trans)
qed

lemma set_balance_same:
  assumes "set_balance b t p = Inr q"
  shows "same_but_balance p q"
  using calculate_value_frame [OF assms [unfolded set_balance_def]] by (simp add: same_but_balance_def)

lemma update_balance_spec:
  assumes "update_balance sys info a = Inr b" "account_inv a"
  shows "balances_only a b"
proof (cases "\<exists>t p. ai_data info = DataToken t \<and>
    set_position_balance (ta_mint t) (ai_key info) (ta_amount t) (sys_unix_timestamp sys) a = Inr (b, p)")
  case True
  then obtain t :: TokenAccount and p where "set_position_balance (ta_mint t) (ai_key info) (ta_amount t) (sys_unix_timestamp sys) a = Inr (b, p)"
    by blast
  moreover have wf: "wf_account a" using assms(2) by (simp add: account_inv_def)
  ultimately obtain q where q: "account_view a (ta_mint t) = Some q"
    "set_balance (ta_amount t) (sys_unix_timestamp sys) q = Inr p" "wf_account b" "same_owner a b"
    "account_view b = (account_view a)(ta_mint t \<mapsto> p)"
    using set_position_balance_spec by blast
  with account_inv_update [OF assms(2) q(3,5) value_ok_set_balance [OF q(2)]] set_balance_same [OF q(2)]
  show ?thesis by (auto simp: balances_only_def option.rel_refl)
next
  case False
  with assms(1) have "b = a"
    by (auto simp: update_balance_def split: AccountData.splits sum.splits if_split_asm)
  with assms(2) show ?thesis by (simp add: balances_only_refl)
qed

lemma update_balances_spec:
  assumes "update_balances sys ctx a = Inr b" "account_inv a"
  shows "balances_only a b"
proof -
  have "account_inv b \<and> balances_only a b"
  proof (rule foldE_invariant [where P = "\<lambda>b. account_inv b \<and> balances_only a b",
        OF assms(1) [unfolded update_balances_def]])
    show "account_inv a \<and> balances_only a a" using assms(2) balances_only_refl by blast
  next
    fix info u v
    assume u: "account_inv u \<and> balances_only a u" and "update_balance sys info u = Inr v"
    then have "balances_only u v" using update_balance_spec by blast
    with u show "account_inv v \<and> balances_only a v"
      using balances_only_trans [of a u v] by (simp add: balances_only_def [of u v])
  qed
  then show ?thesis ..
qed

subsection \<open>The result of an invocation\<close>

text \<open>
  No account is the mint at the all-zero address.
\<close>

definition result_ok :: "(Pubkey \<times> AdapterResult option) option \<Rightarrow> bool" where
  "result_ok r \<longleftrightarrow>
     (case r of Some (p, Some res) \<Rightarrow> \<forall>(m, cs) \<in> set (position_changes res). m \<noteq> 0 | _ \<Rightarrow> True)"

definition adapter_frame :: "AdapterContext \<Rightarrow> MarginAccount \<Rightarrow> MarginAccount \<Rightarrow> bool" where
  "adapter_frame ctx a b \<longleftrightarrow> account_inv b \<and> same_owner a b \<and>
     (\<forall>m p. account_view a m = Some p \<and> pos_adapter p \<noteq> ic_adapter_program ctx \<longrightarrow>
        (\<exists>q. account_view b m = Some q \<and> same_but_balance p q)) \<and>
     (\<not> ic_signed ctx \<longrightarrow> (\<forall>m. account_view b m = None \<longleftrightarrow> account_view a m = None))"

lemma same_but_balance_trans:
  "same_but_balance p q \<Longrightarrow> same_but_balance q r \<Longrightarrow> same_but_balance p r"
  by (simp add: same_but_balance_def)

lemma adapter_frame_trans:
  assumes "adapter_frame ctx a b" "adapter_frame ctx b c"
  shows "adapter_frame ctx a c"
proof -
  have "\<exists>r. account_view c m = Some r \<and> same_but_balance p r"
    if p: "account_view a m = Some p" "pos_adapter p \<noteq> ic_adapter_program ctx" for m p
  proof -
    from assms(1) p obtain q where q: "account_view b m = Some q" "same_but_balance p q"
      unfolding adapter_frame_def by blast
    with p have "pos_adapter q \<noteq> ic_adapter_program ctx" by (simp add: same_but_balance_def)
    with assms(2) q obtain r where "account_view c m = Some r" "same_but_balance q r"
      unfolding adapter_frame_def by blast
    with q same_but_balance_trans show ?thesis by blast
  qed
  with assms show ?thesis unfolding adapter_frame_def by (auto intro: same_owner_trans)
qed

lemma balances_only_frame:
  assumes "balances_only a b"
  shows "adapter_frame ctx a b"
proof -
  have r: "rel_option same_but_balance (account_view a m) (account_view b m)" for m
    using assms by (simp add: balances_only_def)
  have "\<exists>q. account_view b m = Some q \<and> same_but_balance p q" if "account_view a m = Some p" for m p
    using r [of m] that by (simp add: option_rel_Some1)
  moreover have "account_view b m = None \<longleftrightarrow> account_view a m = None" for m
    using r [of m] by (auto dest: rel_option_None1 [THEN iffD1] rel_option_None2 [THEN iffD1])
  ultimately show ?thesis using assms unfolding adapter_frame_def balances_only_def by blast
qed

lemma apply_changes_frame:
  assumes "apply_changes sys ctx m changes a = Inr b" "account_inv a" "m \<noteq> 0"
  shows "adapter_frame ctx a b"
proof -
  note s = apply_changes_spec [OF assms]
  have "\<exists>q. account_view b m' = Some q \<and> same_but_balance p q"
    if "account_view a m' = Some p" "pos_adapter p \<noteq> ic_adapter_program ctx" for m' p
    using that s(1,2) by (cases "m' = m") (auto simp: changes_only_def)
  moreover have "account_view b m' = None \<longleftrightarrow> account_view a m' = None" if "\<not> ic_signed ctx" for m'
    using s(1,3) that by (cases "m' = m") (auto simp: changes_only_def)
  ultimately show ?thesis using s(1) unfolding adapter_frame_def changes_only_def by blast
qed

lemma handle_adapter_result_frame:
  assumes "handle_adapter_result sys ctx r a = Inr b" "account_inv a" "result_ok r"
  shows "adapter_frame ctx a b"
proof -
  from assms(1) obtain c where c: "update_balances sys ctx a = Inr c"
    and rest: "(case r of
       None \<Rightarrow> Inr c
     | Some (program_id, data) \<Rightarrow>
         if program_id \<noteq> ic_adapter_program ctx then Inr c
         else
           (case data of
              None \<Rightarrow> err AnchorError
            | Some result \<Rightarrow>
                foldE (\<lambda>(mint, changes). apply_changes sys ctx mint changes) (position_changes result) c)) =
        (Inr b :: _ margin_res)"
    by (auto simp: handle_adapter_result_def)
  note fc = balances_only_frame [OF update_balances_spec [OF c assms(2)], of ctx]
  have "b = c \<or> (\<exists>p res. r = Some (p, Some res) \<and>
      foldE (\<lambda>(mint, changes). apply_changes sys ctx mint changes) (position_changes res) c = (Inr b :: _ margin_res))"
    using rest by (auto split: option.split_asm if_split_asm)
  then show ?thesis
  proof (elim disjE exE conjE)
    fix p res assume r: "r = Some (p, Some res)" and f:
      "foldE (\<lambda>(mint, changes). apply_changes sys ctx mint changes) (position_changes res) c = (Inr b :: _ margin_res)"
    show ?thesis
    proof (rule foldE_invariant [where P = "adapter_frame ctx a", OF f fc])
      fix x u v
      assume x: "x \<in> set (position_changes res)" and u: "adapter_frame ctx a u"
        and st: "(case x of (mint, changes) \<Rightarrow> apply_changes sys ctx mint changes) u = Inr v"
      obtain m cs where mc: "x = (m, cs)" by (cases x)
      with x assms(3) r have "m \<noteq> 0" by (auto simp: result_ok_def)
      moreover have "account_inv u" using u by (simp add: adapter_frame_def)
      ultimately have "adapter_frame ctx u v" using apply_changes_frame st mc by auto
      with u show "adapter_frame ctx a v" by (rule adapter_frame_trans)
    qed
  qed (use fc in simp)
qed

lemma adapter_invoke_frame:
  assumes "adapter_invoke_with program sys ctx data a = Inr (b, accounts)" "account_inv a"
    and "\<forall>s as r. program (ic_signed ctx) (ic_accounts ctx) s data = Inr (as, r) \<longrightarrow> result_ok r"
    and "0 < sys_stack_height sys" "sys_stack_height sys < 8" "\<not> bit (ma_invocation a) (sys_stack_height sys)"
  shows "adapter_frame ctx a b"
proof -
  from assms(1) obtain s r s' where s: "invocation_start (sys_stack_height sys) (ma_invocation a) = (Inr s :: _ margin_res)"
    and r: "program (ic_signed ctx) (ic_accounts ctx) s data = Inr (accounts, r)"
    and s': "invocation_end (sys_stack_height sys) s = (Inr s' :: _ margin_res)"
    and h: "handle_adapter_result sys (ctx\<lparr>ic_accounts := accounts\<rparr>) r (a\<lparr>ma_invocation := s'\<rparr>) = Inr b"
    by (auto simp: adapter_invoke_with_def)
  have "s' = ma_invocation a"
    using invocation_start_end [OF assms(4-6)] s s' by simp
  then have a: "a\<lparr>ma_invocation := s'\<rparr> = a" by simp
  have "result_ok r" using assms(3) r by blast
  from handle_adapter_result_frame [OF h [unfolded a] assms(2) this]
  show ?thesis by (simp add: adapter_frame_def)
qed

text \<open>
  C2: Whatever a called adapter does and returns, a position it does not manage keeps its token,
  address, adapter, kind, flags, price and weights: at most its balance, read from the token
  account itself, is updated. An invocation that the account's authority did not sign opens and
  closes no position. Owner, airspace, liquidator and the invocation flags end as they were, and
  the account's invariant holds. The call height is one that Solana allows and is not already
  marked, and the all-zero address is no mint.
\<close>

theorem adapter_isolation:
  assumes "adapter_invoke_with program sys ctx data a = Inr (b, accounts)" "account_inv a"
    and "\<forall>s as r. program (ic_signed ctx) (ic_accounts ctx) s data = Inr (as, r) \<longrightarrow> result_ok r"
    and "0 < sys_stack_height sys" "sys_stack_height sys < 8" "\<not> bit (ma_invocation a) (sys_stack_height sys)"
  shows "account_inv b \<and> same_owner a b \<and>
    (\<forall>m p. account_view a m = Some p \<and> pos_adapter p \<noteq> ic_adapter_program ctx \<longrightarrow>
       (\<exists>q. account_view b m = Some q \<and> same_but_balance p q)) \<and>
    (\<not> ic_signed ctx \<longrightarrow> (\<forall>m. account_view b m = None \<longleftrightarrow> account_view a m = None))"
  using adapter_invoke_frame [OF assms] by (simp add: adapter_frame_def)

definition sample_sys :: Sys where
  "sample_sys = \<lparr>sys_unix_timestamp = 1000, sys_stack_height = 1\<rparr>"

definition sample_px :: PriceChangeInfo where
  "sample_px = \<lparr>pc_value = 500000000, pc_confidence = 1000, pc_twap = 400000000, pc_publish_time = 990,
     pc_exponent = -8\<rparr>"

definition sample_token_config :: TokenConfig where
  "sample_token_config =
     \<lparr>tc_mint = 7, tc_underlying_mint = 7, tc_airspace = 50, tc_token_kind = Collateral,
      tc_value_modifier = 90, tc_max_staleness = 0, tc_admin = AdminMargin (Pyth 61 62)\<rparr>"

definition sample_context :: AdapterContext where
  "sample_context =
     \<lparr>ic_adapter_program = 99,
      ic_accounts = [\<lparr>ai_key = 70, ai_data = DataToken \<lparr>ta_mint = 7, ta_owner = 1, ta_delegate = None, ta_amount = 0\<rparr>\<rparr>,
        \<lparr>ai_key = 7, ai_data = DataMint 6\<rparr>,
        \<lparr>ai_key = 40, ai_data = DataTokenConfig sample_token_config\<rparr>],
      ic_signed = True\<rparr>"

definition sample_program :: AdapterProgram where
  "sample_program signed accounts flags data =
     Inr (accounts, Some (99, Some \<lparr>position_changes = [(5, [ChangePrice sample_px])]\<rparr>))"

lemma empty_lookup: "plist_get_mut empty_plist m = Inr None" "get_key empty_plist m = Inr None"
  by (simp_all add: plist_get_mut_eq get_key_eq wf_empty_plist) (simp_all add: used_keys_def empty_plist_def)

lemma sample_invoke:
  "adapter_invoke_with sample_program sample_sys sample_context [] empty_account =
     Inr (empty_account, ic_accounts sample_context)"
proof -
  have "bitset_insert 0 1 = (Inr 2 :: _ margin_res)" "bitset_remove 2 1 = (Inr 0 :: _ margin_res)"
    by (simp_all add: set_bit_eq_or unset_bit_eq_and_not flip_bit_nat_def set_bit_nat_def unset_bit_nat_def)
  then show ?thesis
    by (simp add: adapter_invoke_with_def invocation_start_def invocation_end_def sample_sys_def sample_program_def
        handle_adapter_result_def update_balances_def update_balance_def set_position_balance_def
        sample_context_def empty_account_def empty_lookup err_def apply_changes_def get_position_key_def
        position_of_key_def apply_change_def)
qed

theorem adapter_isolation_witness: "account_inv empty_account \<and> same_owner empty_account empty_account"
proof -
  have "\<forall>s bs r. sample_program (ic_signed sample_context) (ic_accounts sample_context) s [] = Inr (bs, r) \<longrightarrow>
      result_ok r"
    by (auto simp: sample_program_def result_ok_def)
  from adapter_isolation [OF sample_invoke empty_account_inv this] show ?thesis
    by (simp add: sample_sys_def empty_account_def)
qed

subsection \<open>The limit of the isolation\<close>

definition registered_sample :: AccountPosition where
  "registered_sample =
     (fill_position sample_config (zeroed_position\<lparr>pos_token := 7\<rparr>))\<lparr>pos_balance_timestamp := 1000\<rparr>"

lemma sample_config_eq: "new_from_config sample_token_config 6 70 0 = sample_config"
  by (simp add: new_from_config_def sample_token_config_def sample_config_def)

lemma sample_set_balance:
  "set_balance 0 1000 (fill_position sample_config (zeroed_position\<lparr>pos_token := 7\<rparr>)) = Inr registered_sample"
  by (simp add: set_balance_def calculate_value_def fill_position_def sample_config_def zeroed_position_def
      price_new_invalid_def n128_from_decimal_def PRECISION128_def index_E_def i_range_def n128_mul_def
      checked_i_def plain_i_def plain_idiv_def trunc_div_def ONE128_def registered_sample_def)

lemma sample_price_valid:
  "price_change_try_into sample_px (cast_i64 1000) = Inr (price_new_valid (-8) 500000000 1000)"
  by (simp add: price_change_try_into_def sample_px_def cast_i64_def wrap_i_def cast_u64_def wrap_u_def
      n128_from_bps_def MAX_ORACLE_CONFIDENCE_def n128_from_decimal_def PRECISION128_def index_E_def i_range_def
      plain_i_def plain_idiv_def n128_ZERO_def n128_div_def trunc_div_def ONE128_def less_Number128_def
      MAX_ORACLE_STALENESS_def)

lemma sample_registration:
  obtains a k where
    "adapter_register_position sample_sys (ic_accounts sample_context) (adapter_result_approvals sample_context)
       7 70 empty_account = Inr (a, k)"
    "account_inv a" "key_inv 7 a (Some k)" "account_view a 7 = Some registered_sample"
proof -
  let ?ap = "adapter_result_approvals sample_context"
  let ?p = "fill_position sample_config (zeroed_position\<lparr>pos_token := 7\<rparr>)"
  have ap: "may_be_registered_or_closed ?p ?ap"
    by (simp add: may_be_registered_or_closed_def adapter_result_approvals_def sample_context_def position_kind_def
        fill_position_def sample_config_def zeroed_position_def tokenkind_from_integer_def)
  obtain a k where r: "register_position sample_config ?ap empty_account = Inr (a, k)" "wf_account a"
    "account_view a = [7 \<mapsto> ?p]"
    using register_position_result [of empty_account sample_config ?ap] ap by (auto simp: sample_facts)
  obtain b where b: "set_position_balance 7 70 0 1000 a = Inr (b, registered_sample)"
    "account_view b = [7 \<mapsto> registered_sample]"
    using set_position_balance_result [OF r(2), of 7 70 0 1000] r(3) sample_set_balance
    by (auto simp: fill_position_def sample_config_def)
  have f: "foldE (find_account 7 70) (ic_accounts sample_context)
      \<lparr>found_token_account = None, found_mint = None, found_config = None\<rparr> =
      Inr \<lparr>found_token_account = Some (70, \<lparr>ta_mint = 7, ta_owner = 1, ta_delegate = None, ta_amount = 0\<rparr>),
           found_mint = Some (7, 6), found_config = Some sample_token_config\<rparr>"
    by (simp add: sample_context_def find_account_def sample_token_config_def)
  have c: "(case adapter_program sample_token_config of Some x \<Rightarrow> x | None \<Rightarrow> pubkey_default) = 0"
    by (simp add: adapter_program_def sample_token_config_def pubkey_default_def)
  have "adapter_register_position sample_sys (ic_accounts sample_context) ?ap 7 70 empty_account = Inr (b, k)"
    unfolding adapter_register_position_def f bindE_simps using r(1) b(1) c
    by (simp add: sample_config_eq sample_sys_def)
  moreover from adapter_register_position_spec(1,2) [OF empty_account_inv _ _ this]
  have "changes_only 7 empty_account b" "key_inv 7 b (Some k)"
    by (simp_all add: sample_facts)
  ultimately show thesis using b(2) by (intro that [of b k]) (simp_all add: changes_only_def)
qed

text \<open>
  C33: The check that an adapter manages a position is made once per mint and before the first
  change. In a signed invocation an adapter can register a position of plain collateral, whose
  price the oracle should give, and set its price in the same list of changes; the same price
  change on its own is refused.
\<close>

theorem adapter_prices_foreign_position:
  "\<exists>b p. apply_changes sample_sys sample_context 7 [ChangeRegister 70, ChangePrice sample_px] empty_account = Inr b \<and>
     account_view b 7 = Some p \<and> pos_adapter p \<noteq> ic_adapter_program sample_context \<and>
     pi_value (pos_price p) = pc_value sample_px \<and>
     (\<forall>c. apply_changes sample_sys sample_context 7 [ChangePrice sample_px] b \<noteq> Inr c)"
proof -
  obtain a k where a:
    "adapter_register_position sample_sys (ic_accounts sample_context) (adapter_result_approvals sample_context)
       7 70 empty_account = Inr (a, k)"
    "account_inv a" "key_inv 7 a (Some k)" "account_view a 7 = Some registered_sample"
    using sample_registration by blast
  have wf: "wf_account a" using a(2) by (simp add: account_inv_def)
  obtain i where i: "plist_get_mut (ma_positions a) 7 = Inr (Some i)" "slot_of (ma_positions a) i = registered_sample"
    using ps.get_mut_Some [OF wf a(4)] by blast
  have k: "position_of_key (Some k) a = Inr (Some i)"
    using position_of_key_eq [OF wf a(3)] i(1) by simp
  obtain p where p: "set_price (price_new_valid (-8) 500000000 1000) registered_sample = Inr p"
    by (simp add: set_price_def calculate_value_def registered_sample_def fill_position_def sample_config_def
      zeroed_position_def price_new_valid_def n128_from_decimal_def PRECISION128_def index_E_def i_range_def
      n128_mul_def checked_i_def plain_i_def plain_idiv_def trunc_div_def ONE128_def)
  let ?b = "write_position i p a"
  have tok: "pos_token p = pos_token (slot_of (ma_positions a) i)" using set_price_frame(1) [OF p] i(2) by simp
  note w = write_position_update [OF a(2) i(1) tok value_ok_set_price [OF p]]
  have inv: "account_inv ?b" and view: "account_view ?b 7 = Some p" using w by (simp_all add: changes_only_def)
  have adapter: "pos_adapter p \<noteq> ic_adapter_program sample_context"
    using set_price_frame(3) [OF p]
    by (simp add: registered_sample_def fill_position_def sample_config_def sample_context_def)
  have "apply_changes sample_sys sample_context 7 [ChangeRegister 70, ChangePrice sample_px] empty_account = Inr ?b"
    using a(1) k p i(2) sample_price_valid
    by (simp add: apply_changes_def get_position_key_def empty_account_def empty_lookup position_of_key_def
        apply_change_def sample_sys_def)
  moreover have "apply_changes sample_sys sample_context 7 [ChangePrice sample_px] ?b \<noteq> Inr c" for c
    using apply_changes_spec(2) [OF _ inv _ view, of sample_sys sample_context "[ChangePrice sample_px]" c] adapter
    by auto
  moreover have "pi_value (pos_price p) = pc_value sample_px"
    using set_price_frame(6) [OF p] by (simp add: price_new_valid_def sample_px_def)
  ultimately show ?thesis using view adapter by blast
qed

end
