(* ===== verification/PoolHandlers.thy ===== *)
theory PoolHandlers
  imports PoolRates MarginAdapter
begin

text \<open>
  The instructions of the margin pool program, \<open>programs/margin-pool/src/instructions/*.rs\<close>: the
  constraints on the accounts of each, the change of the pool's state, the calls of the token
  program and the event. A handler returns the pool, the token ledger and what it emits; an
  instruction that fails leaves no trace.

  A pool is passed with its address. The \<open>signer\<close> and \<open>has_one\<close> attributes of the \<open>Accounts\<close>
  structs are the \<open>constraint\<close>s at the start of each handler.

  \<open>pool_backed\<close> states that the ledger covers the pool's books and the lemmas \<open>*_backed\<close> that
  every handler keeps it so.
\<close>

subsection \<open>Events\<close>

record MarginPoolSummary =
  sum_borrowed_tokens :: nat
  sum_uncollected_fees :: nat
  sum_deposit_tokens :: nat
  sum_deposit_notes :: nat
  sum_loan_notes :: nat
  sum_accrued_until :: int

definition pool_summary :: "MarginPool \<Rightarrow> MarginPoolSummary pool_res" where
  "pool_summary p =
     bindE (as_u64_ceil (borrowed_tokens p) 0) (\<lambda>b.
     bindE (as_u64 (uncollected_fees p) 0) (\<lambda>f.
     Inr \<lparr>sum_borrowed_tokens = b, sum_uncollected_fees = f, sum_deposit_tokens = deposit_tokens p,
          sum_deposit_notes = deposit_notes p, sum_loan_notes = loan_notes p,
          sum_accrued_until = accrued_until p\<rparr>))"

text \<open>The fields of each event in the order of \<open>events.rs\<close>.\<close>

datatype PoolEvent =
    PoolCreated Pubkey Pubkey Pubkey Pubkey Pubkey Pubkey Pubkey Pubkey MarginPoolSummary nat
  | PoolConfigured Pubkey Pubkey Pubkey MarginPoolConfig
  | DepositEvent Pubkey Pubkey Pubkey Pubkey nat nat MarginPoolSummary
  | WithdrawEvent Pubkey Pubkey Pubkey Pubkey nat nat MarginPoolSummary
  | MarginBorrowEvent Pubkey Pubkey Pubkey Pubkey nat nat nat MarginPoolSummary
  | MarginRepayEvent Pubkey Pubkey Pubkey Pubkey nat nat nat MarginPoolSummary
  | RepayEvent Pubkey Pubkey Pubkey Pubkey nat nat MarginPoolSummary
  | CollectEvent Pubkey nat nat nat nat MarginPoolSummary
  | LoanTransferred Pubkey Pubkey Pubkey nat

type_synonym 'a pool_tx = "(PoolError, 'a) tx"

text \<open>
  What all operations share: interest must be accrued to the present.
\<close>

definition accrue_to_now :: "'l Runtime \<Rightarrow> MarginPool \<Rightarrow> MarginPool pool_tx" where
  "accrue_to_now rt pool =
     bindE (lift_tx (accrue_interest pool (rt_clock rt))) (\<lambda>(pool, caught_up).
     if \<not> caught_up then err (ProgramErr InterestAccrualBehind) else Inr pool)"

definition pool_signer :: "MarginPool \<Rightarrow> Seed list pool_tx" where
  "pool_signer pool =
     bindE (lift_tx (signer_seeds pool)) (\<lambda>(mint, bump). Inr [SeedKey mint, SeedInt bump])"

subsection \<open>Deposit\<close>

record DepositAccounts =
  dep_margin_pool :: Pubkey
  dep_vault :: Pubkey
  dep_deposit_note_mint :: Pubkey
  dep_depositor :: Pubkey
  dep_source :: Pubkey
  dep_destination :: Pubkey

definition deposit_handler ::
  "'l Runtime \<Rightarrow> DepositAccounts \<Rightarrow> ChangeKind \<Rightarrow> nat \<Rightarrow> MarginPool \<Rightarrow> 'l \<Rightarrow>
     (MarginPool \<times> 'l \<times> PoolEvent) pool_tx" where
  "deposit_handler rt ac ck amount pool l =
     bindE (constraint (vault pool = dep_vault ac \<and> deposit_note_mint pool = dep_deposit_note_mint ac)) (\<lambda>_.
     bindE (require_signer rt (dep_depositor ac)) (\<lambda>_.
     let change = \<lparr>change_kind = ck, change_tokens = amount\<rparr> in
     bindE (accrue_to_now rt pool) (\<lambda>pool.
     bindE (accessor_amount rt l (dep_destination ac)) (\<lambda>current.
     bindE (lift_tx (calculate_full_amount pool current change Deposit)) (\<lambda>deposit_amount.
     bindE (lift_tx (pool_deposit pool deposit_amount)) (\<lambda>pool.
     bindE (pool_signer pool) (\<lambda>signer.
     bindE (token_cpi rt (TokenTransfer (dep_source ac) (dep_vault ac) (dep_depositor ac)
              (fa_tokens deposit_amount)) l) (\<lambda>l.
     bindE (token_cpi_signed rt signer (TokenMintTo (dep_deposit_note_mint ac) (dep_destination ac)
              (dep_margin_pool ac) (fa_notes deposit_amount)) l) (\<lambda>l.
     bindE (lift_tx (pool_summary pool)) (\<lambda>summary.
     Inr (pool, l, DepositEvent (dep_margin_pool ac) (dep_depositor ac) (dep_source ac) (dep_destination ac)
            (fa_tokens deposit_amount) (fa_notes deposit_amount) summary)))))))))))"

subsection \<open>Withdraw\<close>

record WithdrawAccounts =
  wd_depositor :: Pubkey
  wd_margin_pool :: Pubkey
  wd_vault :: Pubkey
  wd_deposit_note_mint :: Pubkey
  wd_source :: Pubkey
  wd_destination :: Pubkey

definition withdraw_handler ::
  "'l Runtime \<Rightarrow> WithdrawAccounts \<Rightarrow> ChangeKind \<Rightarrow> nat \<Rightarrow> MarginPool \<Rightarrow> 'l \<Rightarrow>
     (MarginPool \<times> 'l \<times> PoolEvent) pool_tx" where
  "withdraw_handler rt ac ck amount pool l =
     bindE (constraint (vault pool = wd_vault ac \<and> deposit_note_mint pool = wd_deposit_note_mint ac)) (\<lambda>_.
     bindE (require_signer rt (wd_depositor ac)) (\<lambda>_.
     let change = \<lparr>change_kind = ck, change_tokens = amount\<rparr> in
     bindE (accrue_to_now rt pool) (\<lambda>pool.
     bindE (accessor_amount rt l (wd_source ac)) (\<lambda>current.
     bindE (lift_tx (calculate_full_amount pool current change Withdraw)) (\<lambda>withdraw_amount.
     bindE (lift_tx (pool_withdraw pool withdraw_amount)) (\<lambda>pool.
     bindE (pool_signer pool) (\<lambda>signer.
     bindE (token_cpi_signed rt signer (TokenTransfer (wd_vault ac) (wd_destination ac) (wd_margin_pool ac)
              (fa_tokens withdraw_amount)) l) (\<lambda>l.
     bindE (token_cpi rt (TokenBurn (wd_deposit_note_mint ac) (wd_source ac) (wd_depositor ac)
              (fa_notes withdraw_amount)) l) (\<lambda>l.
     bindE (lift_tx (pool_summary pool)) (\<lambda>summary.
     Inr (pool, l, WithdrawEvent (wd_margin_pool ac) (wd_depositor ac) (wd_source ac) (wd_destination ac)
            (fa_tokens withdraw_amount) (fa_notes withdraw_amount) summary)))))))))))"

subsection \<open>Borrow\<close>

record MarginBorrowAccounts =
  mb_margin_account :: Pubkey
  mb_margin_pool :: Pubkey
  mb_loan_note_mint :: Pubkey
  mb_deposit_note_mint :: Pubkey
  mb_loan_account :: Pubkey
  mb_deposit_account :: Pubkey

definition margin_borrow_handler ::
  "'l Runtime \<Rightarrow> MarginBorrowAccounts \<Rightarrow> ChangeKind \<Rightarrow> nat \<Rightarrow> MarginPool \<Rightarrow> 'l \<Rightarrow>
     (MarginPool \<times> 'l \<times> PoolEvent) pool_tx" where
  "margin_borrow_handler rt ac ck amount pool l =
     bindE (require_signer rt (mb_margin_account ac)) (\<lambda>_.
     bindE (constraint (loan_note_mint pool = mb_loan_note_mint ac \<and>
              deposit_note_mint pool = mb_deposit_note_mint ac)) (\<lambda>_.
     bindE (load_token_account rt l (mb_loan_account ac)) (\<lambda>loan_account.
     bindE (constraint (ta_owner loan_account = mb_margin_pool ac \<and>
              mb_loan_account ac =
                pda rt [SeedKey (mb_margin_account ac), SeedKey (mb_loan_note_mint ac)])) (\<lambda>_.
     bindE (load_token_account rt l (mb_deposit_account ac)) (\<lambda>deposit_account.
     bindE (constraint (ta_owner deposit_account = mb_margin_account ac)) (\<lambda>_.
     let change = \<lparr>change_kind = ck, change_tokens = amount\<rparr> in
     bindE (accrue_to_now rt pool) (\<lambda>pool.
     bindE (lift_tx (calculate_full_amount pool (ta_amount loan_account) change Borrow)) (\<lambda>borrow_amount.
     bindE (lift_tx (pool_borrow pool borrow_amount)) (\<lambda>pool.
     bindE (lift_tx (convert_amount pool (amount_tokens (fa_tokens borrow_amount)) Deposit)) (\<lambda>deposit_amount.
     bindE (lift_tx (pool_deposit pool deposit_amount)) (\<lambda>pool.
     bindE (pool_signer pool) (\<lambda>signer.
     bindE (token_cpi_signed rt signer (TokenMintTo (mb_loan_note_mint ac) (mb_loan_account ac)
              (mb_margin_pool ac) (fa_notes borrow_amount)) l) (\<lambda>l.
     bindE (token_cpi_signed rt signer (TokenMintTo (mb_deposit_note_mint ac) (mb_deposit_account ac)
              (mb_margin_pool ac) (fa_notes deposit_amount)) l) (\<lambda>l.
     bindE (lift_tx (pool_summary pool)) (\<lambda>summary.
     Inr (pool, l, MarginBorrowEvent (mb_margin_pool ac) (mb_margin_account ac) (mb_loan_account ac)
            (mb_deposit_account ac) (fa_tokens borrow_amount) (fa_notes borrow_amount)
            (fa_notes deposit_amount) summary))))))))))))))))"

record MarginBorrowV2Accounts =
  mb2_margin_account :: Pubkey
  mb2_margin_pool :: Pubkey
  mb2_vault :: Pubkey
  mb2_loan_note_mint :: Pubkey
  mb2_loan_account :: Pubkey
  mb2_destination :: Pubkey

definition margin_borrow_v2_handler ::
  "'l Runtime \<Rightarrow> MarginBorrowV2Accounts \<Rightarrow> nat \<Rightarrow> MarginPool \<Rightarrow> 'l \<Rightarrow>
     (MarginPool \<times> 'l \<times> PoolEvent) pool_tx" where
  "margin_borrow_v2_handler rt ac amount pool l =
     bindE (require_signer rt (mb2_margin_account ac)) (\<lambda>_.
     bindE (constraint (vault pool = mb2_vault ac \<and> loan_note_mint pool = mb2_loan_note_mint ac)) (\<lambda>_.
     bindE (load_token_account rt l (mb2_vault ac)) (\<lambda>_.
     bindE (load_token_account rt l (mb2_loan_account ac)) (\<lambda>loan_account.
     bindE (constraint (ta_owner loan_account = mb2_margin_pool ac \<and>
              mb2_loan_account ac =
                pda rt [SeedKey (mb2_margin_account ac), SeedKey (mb2_loan_note_mint ac)])) (\<lambda>_.
     bindE (load_token_account rt l (mb2_destination ac)) (\<lambda>_.
     let change = \<lparr>change_kind = ShiftBy, change_tokens = amount\<rparr> in
     bindE (accrue_to_now rt pool) (\<lambda>pool.
     bindE (lift_tx (calculate_full_amount pool (ta_amount loan_account) change Borrow)) (\<lambda>borrow_amount.
     bindE (lift_tx (pool_borrow pool borrow_amount)) (\<lambda>pool.
     bindE (pool_signer pool) (\<lambda>signer.
     bindE (token_cpi_signed rt signer (TokenMintTo (mb2_loan_note_mint ac) (mb2_loan_account ac)
              (mb2_margin_pool ac) (fa_notes borrow_amount)) l) (\<lambda>l.
     bindE (token_cpi_signed rt signer (TokenTransfer (mb2_vault ac) (mb2_destination ac)
              (mb2_margin_pool ac) (fa_tokens borrow_amount)) l) (\<lambda>l.
     bindE (lift_tx (pool_summary pool)) (\<lambda>summary.
     Inr (pool, l, MarginBorrowEvent (mb2_margin_pool ac) (mb2_margin_account ac) (mb2_loan_account ac)
            (mb2_destination ac) (fa_tokens borrow_amount) (fa_notes borrow_amount) 0 summary))))))))))))))"

subsection \<open>Repay\<close>

record RepayAccounts =
  rp_margin_pool :: Pubkey
  rp_loan_note_mint :: Pubkey
  rp_vault :: Pubkey
  rp_loan_account :: Pubkey
  rp_repayment_token_account :: Pubkey
  rp_repayment_account_authority :: Pubkey

definition repay_handler ::
  "'l Runtime \<Rightarrow> RepayAccounts \<Rightarrow> ChangeKind \<Rightarrow> nat \<Rightarrow> MarginPool \<Rightarrow> 'l \<Rightarrow>
     (MarginPool \<times> 'l \<times> PoolEvent) pool_tx" where
  "repay_handler rt ac ck amount pool l =
     bindE (constraint (loan_note_mint pool = rp_loan_note_mint ac \<and> vault pool = rp_vault ac)) (\<lambda>_.
     bindE (load_token_account rt l (rp_vault ac)) (\<lambda>_.
     bindE (load_token_account rt l (rp_loan_account ac)) (\<lambda>loan_account.
     bindE (load_token_account rt l (rp_repayment_token_account ac)) (\<lambda>_.
     bindE (require_signer rt (rp_repayment_account_authority ac)) (\<lambda>_.
     let change = \<lparr>change_kind = ck, change_tokens = amount\<rparr> in
     bindE (accrue_to_now rt pool) (\<lambda>pool.
     bindE (lift_tx (calculate_full_amount pool (ta_amount loan_account) change Repay)) (\<lambda>repay_amount.
     bindE (lift_tx (pool_repay pool repay_amount)) (\<lambda>pool.
     bindE (pool_signer pool) (\<lambda>signer.
     bindE (token_cpi rt (TokenTransfer (rp_repayment_token_account ac) (rp_vault ac)
              (rp_repayment_account_authority ac) (fa_tokens repay_amount)) l) (\<lambda>l.
     bindE (token_cpi_signed rt signer (TokenBurn (rp_loan_note_mint ac) (rp_loan_account ac)
              (rp_margin_pool ac) (fa_notes repay_amount)) l) (\<lambda>l.
     bindE (lift_tx (pool_summary pool)) (\<lambda>summary.
     Inr (pool, l, RepayEvent (rp_margin_pool ac) (rp_repayment_account_authority ac) (rp_loan_account ac)
            (rp_repayment_token_account ac) (fa_tokens repay_amount) (fa_notes repay_amount)
            summary)))))))))))))"

record MarginRepayAccounts =
  mr_margin_account :: Pubkey
  mr_margin_pool :: Pubkey
  mr_loan_note_mint :: Pubkey
  mr_deposit_note_mint :: Pubkey
  mr_loan_account :: Pubkey
  mr_deposit_account :: Pubkey

definition margin_repay_handler ::
  "'l Runtime \<Rightarrow> MarginRepayAccounts \<Rightarrow> ChangeKind \<Rightarrow> nat \<Rightarrow> MarginPool \<Rightarrow> 'l \<Rightarrow>
     (MarginPool \<times> 'l \<times> PoolEvent) pool_tx" where
  "margin_repay_handler rt ac ck amount pool l =
     bindE (require_signer rt (mr_margin_account ac)) (\<lambda>_.
     bindE (constraint (deposit_note_mint pool = mr_deposit_note_mint ac \<and>
              loan_note_mint pool = mr_loan_note_mint ac)) (\<lambda>_.
     bindE (load_token_account rt l (mr_loan_account ac)) (\<lambda>loan_account.
     bindE (load_token_account rt l (mr_deposit_account ac)) (\<lambda>_.
     let change = \<lparr>change_kind = ck, change_tokens = amount\<rparr> in
     bindE (accrue_to_now rt pool) (\<lambda>pool.
     bindE (lift_tx (calculate_full_amount pool (ta_amount loan_account) change Repay)) (\<lambda>repay_amount.
     bindE (lift_tx (convert_amount pool (amount_tokens (fa_tokens repay_amount)) Withdraw)) (\<lambda>withdraw_amount.
     bindE (lift_tx (pool_margin_repay pool repay_amount withdraw_amount)) (\<lambda>pool.
     bindE (pool_signer pool) (\<lambda>signer.
     bindE (token_cpi_signed rt signer (TokenBurn (mr_loan_note_mint ac) (mr_loan_account ac)
              (mr_margin_pool ac) (fa_notes repay_amount)) l) (\<lambda>l.
     bindE (token_cpi rt (TokenBurn (mr_deposit_note_mint ac) (mr_deposit_account ac)
              (mr_margin_account ac) (fa_notes withdraw_amount)) l) (\<lambda>l.
     bindE (lift_tx (pool_summary pool)) (\<lambda>summary.
     Inr (pool, l, MarginRepayEvent (mr_margin_pool ac) (mr_margin_account ac) (mr_loan_account ac)
            (mr_deposit_account ac) (fa_tokens repay_amount) (fa_notes repay_amount)
            (fa_notes withdraw_amount) summary)))))))))))))"

subsection \<open>Collecting fees\<close>

record CollectAccounts =
  co_margin_pool :: Pubkey
  co_vault :: Pubkey
  co_fee_destination :: Pubkey
  co_deposit_note_mint :: Pubkey

text \<open>
  A pool that could not be brought up to date keeps what has accrued, and no fees are taken. The
  event's balance converts the amount of tokens in the vault, read when the instruction started,
  as if it were an amount of notes.
\<close>

definition collect_handler ::
  "'l Runtime \<Rightarrow> CollectAccounts \<Rightarrow> MarginPool \<Rightarrow> 'l \<Rightarrow> (MarginPool \<times> 'l \<times> PoolEvent option) pool_tx" where
  "collect_handler rt ac pool l =
     bindE (constraint (vault pool = co_vault ac \<and> deposit_note_mint pool = co_deposit_note_mint ac \<and>
              fee_destination pool = co_fee_destination ac)) (\<lambda>_.
     bindE (load_token_account rt l (co_vault ac)) (\<lambda>vault_account.
     bindE (lift_tx (accrue_interest pool (rt_clock rt))) (\<lambda>(pool, caught_up).
     if \<not> caught_up then Inr (pool, l, None)
     else
       bindE (lift_tx (collect_accrued_fees pool)) (\<lambda>(pool, fee_notes).
       bindE (pool_signer pool) (\<lambda>signer.
       bindE (token_cpi_signed rt signer (TokenMintTo (co_deposit_note_mint ac) (co_fee_destination ac)
                (co_margin_pool ac) fee_notes) l) (\<lambda>l.
       bindE (lift_tx (convert_amount pool (amount_notes fee_notes) Withdraw)) (\<lambda>claimed_amount.
       bindE (lift_tx (convert_amount pool (amount_notes (ta_amount vault_account)) Withdraw)) (\<lambda>balance_amount.
       bindE (lift_tx (pool_summary pool)) (\<lambda>summary.
       Inr (pool, l, Some (CollectEvent (co_margin_pool ac) fee_notes (fa_tokens claimed_amount)
              (fa_notes balance_amount) (fa_tokens balance_amount) summary)))))))))))"

subsection \<open>Loan positions of a margin account\<close>

text \<open>
  \<open>jet_margin::write_adapter_result\<close> refuses unless the margin program invoked this instruction
  directly for the margin account; its result becomes the return data of the instruction.
\<close>

definition write_adapter_result ::
  "nat \<Rightarrow> MarginAccount \<Rightarrow> AdapterResult \<Rightarrow> AdapterResult pool_tx" where
  "write_adapter_result height a result =
     bindE (lift_err (\<lambda>_. AdapterErr) (verify_directly_invoked height (ma_invocation a))) (\<lambda>_. Inr result)"

record RegisterLoanAccounts =
  rl_margin_account :: Pubkey
  rl_loan_note_account :: Pubkey
  rl_loan_note_mint :: Pubkey
  rl_margin_pool :: Pubkey
  rl_payer :: Pubkey

definition register_loan_handler ::
  "'l Runtime \<Rightarrow> nat \<Rightarrow> RegisterLoanAccounts \<Rightarrow> MarginAccount \<Rightarrow> MarginPool \<Rightarrow> 'l \<Rightarrow>
     ('l \<times> AdapterResult) pool_tx" where
  "register_loan_handler rt height ac a pool l =
     bindE (require_signer rt (rl_margin_account ac)) (\<lambda>_.
     bindE (require_signer rt (rl_payer ac)) (\<lambda>_.
     bindE (constraint (rl_loan_note_account ac =
              pda rt [SeedKey (rl_margin_account ac), SeedKey (rl_loan_note_mint ac)])) (\<lambda>_.
     bindE (create_token_account rt (rl_loan_note_account ac) (rl_loan_note_mint ac) (rl_margin_pool ac) l) (\<lambda>l.
     bindE (constraint (loan_note_mint pool = rl_loan_note_mint ac)) (\<lambda>_.
     bindE (write_adapter_result height a
              \<lparr>position_changes = [(rl_loan_note_mint ac, [ChangeRegister (rl_loan_note_account ac)])]\<rparr>) (\<lambda>r.
     Inr (l, r)))))))"

record CloseLoanAccounts =
  cl_margin_account :: Pubkey
  cl_loan_note_account :: Pubkey
  cl_loan_note_mint :: Pubkey
  cl_margin_pool :: Pubkey
  cl_beneficiary :: Pubkey

definition close_loan_handler ::
  "'l Runtime \<Rightarrow> nat \<Rightarrow> CloseLoanAccounts \<Rightarrow> MarginAccount \<Rightarrow> MarginPool \<Rightarrow> 'l \<Rightarrow>
     ('l \<times> AdapterResult) pool_tx" where
  "close_loan_handler rt height ac a pool l =
     bindE (require_signer rt (cl_margin_account ac)) (\<lambda>_.
     bindE (require_signer rt (cl_beneficiary ac)) (\<lambda>_.
     bindE (load_token_account rt l (cl_loan_note_account ac)) (\<lambda>_.
     bindE (constraint (cl_loan_note_account ac =
              pda rt [SeedKey (cl_margin_account ac), SeedKey (cl_loan_note_mint ac)] \<and>
              loan_note_mint pool = cl_loan_note_mint ac)) (\<lambda>_.
     bindE (pool_signer pool) (\<lambda>signer.
     bindE (token_cpi_signed rt signer (TokenClose (cl_loan_note_account ac) (cl_beneficiary ac)
              (cl_margin_pool ac)) l) (\<lambda>l.
     bindE (write_adapter_result height a
              \<lparr>position_changes = [(cl_loan_note_mint ac, [ChangeClose (cl_loan_note_account ac)])]\<rparr>) (\<lambda>r.
     Inr (l, r))))))))"

text \<open>
  The feed is what the Pyth library decodes from the oracle account: the price and the moving
  average.
\<close>

definition margin_refresh_position_handler ::
  "nat \<Rightarrow> Pubkey \<Rightarrow> (PythPrice \<times> PythPrice) option \<Rightarrow> MarginAccount \<Rightarrow> MarginPool \<Rightarrow> AdapterResult pool_tx" where
  "margin_refresh_position_handler height oracle feed a pool =
     bindE (constraint (token_price_oracle pool = oracle)) (\<lambda>_.
     bindE (ok_or feed (ProgramErr InvalidPoolOracle)) (\<lambda>(price, ema).
     bindE (lift_tx (calculate_prices pool price ema)) (\<lambda>prices.
     write_adapter_result height a
       \<lparr>position_changes =
          [(deposit_note_mint pool,
            [ChangePrice \<lparr>pc_value = deposit_note_price prices, pc_confidence = deposit_note_conf prices,
               pc_twap = deposit_note_twap prices, pc_publish_time = px_publish_time price,
               pc_exponent = px_expo price\<rparr>]),
           (loan_note_mint pool,
            [ChangePrice \<lparr>pc_value = loan_note_price prices, pc_confidence = loan_note_conf prices,
               pc_twap = loan_note_twap prices, pc_publish_time = px_publish_time price,
               pc_exponent = px_expo price\<rparr>])]\<rparr>)))"

subsection \<open>Administration\<close>

text \<open>A Pyth product account, as decoded, with its attributes in order.\<close>

record PythProduct =
  px_acc :: Pubkey
  px_attributes :: "(string \<times> string) list"

definition default_config :: MarginPoolConfig where
  "default_config =
     \<lparr>cfg_flags = 0, utilization_rate_1 = 0, utilization_rate_2 = 0, borrow_rate_0 = 0, borrow_rate_1 = 0,
      borrow_rate_2 = 0, borrow_rate_3 = 0, management_fee_rate = 0, cfg_reserved = 0\<rparr>"

record ConfigureAccounts =
  cf_margin_pool :: Pubkey
  cf_authority :: Pubkey
  cf_pyth_product :: Pubkey
  cf_pyth_price :: Pubkey

definition check_product :: "Pubkey \<Rightarrow> PythProduct option \<Rightarrow> unit pool_tx" where
  "check_product price_key product =
     bindE (ok_or product (ProgramErr InvalidPoolOracle)) (\<lambda>p.
     if px_acc p \<noteq> price_key then err (ProgramErr InvalidPoolOracle)
     else
       bindE (unwrap (find (\<lambda>(k, v). k = ''quote_currency'') (px_attributes p))) (\<lambda>(k, quote_currency).
       if quote_currency \<noteq> ''USD'' then err (ProgramErr InvalidPoolOracle) else Inr ()))"

text \<open>
  \<open>is_control_authority\<close> tells which accounts hold the type \<open>ControlAuthority\<close>; the build for
  production requires its signature.
\<close>

definition configure_handler ::
  "'l Runtime \<Rightarrow> (Pubkey \<Rightarrow> bool) \<Rightarrow> ConfigureAccounts \<Rightarrow> PythProduct option \<Rightarrow> MarginPoolConfig option \<Rightarrow>
     MarginPool \<Rightarrow> (MarginPool \<times> PoolEvent) pool_tx" where
  "configure_handler rt is_control_authority ac product new_config pool =
     bindE (constraint (is_control_authority (cf_authority ac))) (\<lambda>_.
     bindE (require_signer rt (cf_authority ac)) (\<lambda>_.
     let pool = (case new_config of Some c \<Rightarrow> pool\<lparr>config := c\<rparr> | None \<Rightarrow> pool) in
     bindE (if cf_pyth_price ac \<noteq> pubkey_default then
              bindE (check_product (cf_pyth_price ac) product) (\<lambda>_.
              Inr (pool\<lparr>token_price_oracle := cf_pyth_price ac\<rparr>))
            else Inr pool) (\<lambda>pool.
     Inr (pool, PoolConfigured (cf_margin_pool ac) (cf_pyth_product ac) (cf_pyth_price ac)
            (case new_config of Some c \<Rightarrow> c | None \<Rightarrow> default_config)))))"

record CreatePoolAccounts =
  cp_margin_pool :: Pubkey
  cp_vault :: Pubkey
  cp_deposit_note_mint :: Pubkey
  cp_loan_note_mint :: Pubkey
  cp_token_mint :: Pubkey
  cp_authority :: Pubkey
  cp_payer :: Pubkey

text \<open>A new account is all zero; \<open>existing\<close> is the pool already at the address.\<close>

definition zeroed_pool :: MarginPool where
  "zeroed_pool =
     \<lparr>pool_version = 0, pool_bump = 0, vault = 0, fee_destination = 0, deposit_note_mint = 0,
      loan_note_mint = 0, token_mint = 0, token_price_oracle = 0, pool_address = 0, config = default_config,
      borrowed_tokens = num_ZERO, uncollected_fees = num_ZERO, deposit_tokens = 0, deposit_notes = 0,
      loan_notes = 0, accrued_until = 0\<rparr>"

definition create_pool_handler ::
  "'l Runtime \<Rightarrow> (Pubkey \<Rightarrow> bool) \<Rightarrow> CreatePoolAccounts \<Rightarrow> Pubkey \<Rightarrow> MarginPool option \<Rightarrow> 'l \<Rightarrow>
     (MarginPool \<times> 'l \<times> PoolEvent) pool_tx" where
  "create_pool_handler rt is_control_authority ac fee_dest existing l =
     bindE (load_mint rt l (cp_token_mint ac)) (\<lambda>token.
     bindE (constraint (is_control_authority (cp_authority ac))) (\<lambda>_.
     bindE (require_signer rt (cp_authority ac)) (\<lambda>_.
     bindE (require_signer rt (cp_payer ac)) (\<lambda>_.
     bindE (constraint (existing = None \<and> cp_margin_pool ac = pda rt [SeedKey (cp_token_mint ac)])) (\<lambda>_.
     bindE (constraint (cp_vault ac = pda rt [SeedKey (cp_margin_pool ac), SeedBytes ''vault''])) (\<lambda>_.
     bindE (create_token_account rt (cp_vault ac) (cp_token_mint ac) (cp_margin_pool ac) l) (\<lambda>l.
     bindE (constraint (cp_deposit_note_mint ac =
              pda rt [SeedKey (cp_margin_pool ac), SeedBytes ''deposit-notes''])) (\<lambda>_.
     bindE (create_mint rt (cp_deposit_note_mint ac) (cp_margin_pool ac) (mint_decimals token) l) (\<lambda>l.
     bindE (constraint (cp_loan_note_mint ac =
              pda rt [SeedKey (cp_margin_pool ac), SeedBytes ''loan-notes''])) (\<lambda>_.
     bindE (create_mint rt (cp_loan_note_mint ac) (cp_margin_pool ac) (mint_decimals token) l) (\<lambda>l.
     let pool = zeroed_pool\<lparr>pool_address := cp_margin_pool ac,
                  pool_bump := snd (rt_find_address rt [SeedKey (cp_token_mint ac)]),
                  token_mint := cp_token_mint ac, vault := cp_vault ac,
                  deposit_note_mint := cp_deposit_note_mint ac, loan_note_mint := cp_loan_note_mint ac,
                  fee_destination := fee_dest, accrued_until := rt_clock rt\<rparr> in
     bindE (lift_tx (pool_summary pool)) (\<lambda>summary.
     Inr (pool, l, PoolCreated (cp_margin_pool ac) (cp_vault ac) fee_dest (cp_deposit_note_mint ac)
            (cp_loan_note_mint ac) (cp_token_mint ac) (cp_authority ac) (cp_payer ac) summary
            (pool_version pool))))))))))))))"

record AdminTransferLoanAccounts =
  at_authority :: Pubkey
  at_margin_pool :: Pubkey
  at_source_loan_account :: Pubkey
  at_target_loan_account :: Pubkey

text \<open>\<open>governor\<close> is the constant \<open>GOVERNOR_ID\<close> of the build.\<close>

definition admin_transfer_loan_handler ::
  "'l Runtime \<Rightarrow> Pubkey \<Rightarrow> AdminTransferLoanAccounts \<Rightarrow> nat \<Rightarrow> MarginPool \<Rightarrow> 'l \<Rightarrow> ('l \<times> PoolEvent) pool_tx" where
  "admin_transfer_loan_handler rt governor ac amount pool l =
     bindE (require_signer rt (at_authority ac)) (\<lambda>_.
     bindE (constraint (at_authority ac = governor)) (\<lambda>_.
     bindE (load_token_account rt l (at_source_loan_account ac)) (\<lambda>source.
     bindE (load_token_account rt l (at_target_loan_account ac)) (\<lambda>target.
     bindE (constraint (ta_owner source = at_margin_pool ac \<and> ta_owner target = at_margin_pool ac)) (\<lambda>_.
     bindE (pool_signer pool) (\<lambda>signer.
     bindE (token_cpi_signed rt signer (TokenTransfer (at_source_loan_account ac) (at_target_loan_account ac)
              (at_margin_pool ac) amount) l) (\<lambda>l.
     Inr (l, LoanTransferred (at_margin_pool ac) (at_source_loan_account ac) (at_target_loan_account ac)
            amount))))))))"

end
