(* ===== verification/Vaults.thy ===== *)
theory Vaults
  imports Runtime
begin

text \<open>
  A vault: a token account that a program address owns and nobody else may spend. Shared by the
  programs that keep tokens for their users. The lemmas follow the vault's amount through the calls
  of the token program. First, the amount of any account and what each call does to it.
\<close>

definition tokens_at :: "'l Runtime \<Rightarrow> 'l \<Rightarrow> Pubkey \<Rightarrow> nat" where
  "tokens_at rt l k = (case rt_account rt l k of None \<Rightarrow> 0 | Some t \<Rightarrow> ta_amount t)"

lemma tokens_at_Some: "rt_account rt l k = Some t \<Longrightarrow> tokens_at rt l k = ta_amount t"
  by (simp add: tokens_at_def)

lemma accessor_amount_tokens: "accessor_amount rt l k = Inr n \<Longrightarrow> tokens_at rt l k = n"
  by (auto simp: accessor_amount_def tokens_at_Some)

text \<open>A step that changes at most the accounts \<open>K\<close>.\<close>

definition touches_only :: "'l Runtime \<Rightarrow> Pubkey set \<Rightarrow> 'l \<Rightarrow> 'l \<Rightarrow> bool" where
  "touches_only rt K l l' \<longleftrightarrow> (\<forall>k. k \<notin> K \<longrightarrow> rt_account rt l' k = rt_account rt l k)"

lemma touches_only_tokens: "touches_only rt K l l' \<Longrightarrow> k \<notin> K \<Longrightarrow> tokens_at rt l' k = tokens_at rt l k"
  by (simp add: touches_only_def tokens_at_def)

lemma touches_only_trans: "touches_only rt K l l' \<Longrightarrow> touches_only rt J l' l'' \<Longrightarrow> touches_only rt (K \<union> J) l l''"
  by (simp add: touches_only_def)

context token_program begin

lemma transfer_tokens:
  assumes "rt_invoke rt s (TokenTransfer src tgt auth n) l = Some l'" "src \<noteq> tgt"
  shows "touches_only rt {src, tgt} l l' \<and> tokens_at rt l' tgt = tokens_at rt l tgt + n \<and>
    tokens_at rt l src = tokens_at rt l' src + n"
  using spl_transfer [OF assms(1)] by cases (use assms(2) in \<open>auto simp: touches_only_def tokens_at_def\<close>)

lemma mint_tokens:
  assumes "rt_invoke rt s (TokenMintTo m tgt auth n) l = Some l'"
  shows "touches_only rt {tgt} l l' \<and> tokens_at rt l' tgt = tokens_at rt l tgt + n"
  using spl_mint [OF assms] by cases (auto simp: touches_only_def tokens_at_def)

lemma burn_tokens:
  assumes "rt_invoke rt s (TokenBurn m src auth n) l = Some l'"
  shows "touches_only rt {src} l l' \<and> tokens_at rt l src = tokens_at rt l' src + n"
  using spl_burn [OF assms] by cases (auto simp: touches_only_def tokens_at_def)

end

definition vault_covers :: "Pubkey \<Rightarrow> Pubkey \<Rightarrow> nat \<Rightarrow> TokenAccount option \<Rightarrow> bool" where
  "vault_covers addr mint t account =
     (case account of
        None \<Rightarrow> False
      | Some v \<Rightarrow> ta_owner v = addr \<and> ta_delegate v = None \<and> ta_mint v = mint \<and> t \<le> ta_amount v)"

lemma vault_covers_simps [simp]:
  "\<not> vault_covers addr mint t None"
  "vault_covers addr mint t (Some v) \<longleftrightarrow>
     ta_owner v = addr \<and> ta_delegate v = None \<and> ta_mint v = mint \<and> t \<le> ta_amount v"
  by (simp_all add: vault_covers_def)

lemma vault_covers_mono: "vault_covers addr mint t a \<Longrightarrow> t' \<le> t \<Longrightarrow> vault_covers addr mint t' a"
  by (cases a) simp_all

lemma vault_coversE:
  assumes "vault_covers addr mint t a"
  obtains v where "a = Some v" "ta_owner v = addr" "ta_delegate v = None" "ta_mint v = mint" "t \<le> ta_amount v"
  using assms by (cases a) auto

context token_program begin

lemma vault_transfer:
  assumes "vault_covers addr mint t (rt_account rt l v)" "rt_invoke rt s (TokenTransfer src tgt auth k) l = Some l'"
  shows "vault_covers addr mint (if src = v \<and> tgt \<noteq> v then t - k else if src \<noteq> v \<and> tgt = v then t + k else t)
    (rt_account rt l' v)"
  using spl_transfer [OF assms(2)] by cases (use assms(1) in auto)

lemma vault_spent_by:
  assumes "vault_covers addr mint t (rt_account rt l v)" "rt_invoke rt s (TokenTransfer src tgt auth k) l = Some l'"
    and "addr \<notin> set s"
  shows "src \<noteq> v"
  using spl_transfer [OF assms(2)] by cases (use assms(1,3) in \<open>auto simp: may_spend_def\<close>)

text \<open>A call of the token program without the signature of the vault's owner.\<close>

lemma vault_external:
  assumes "vault_covers addr mint t (rt_account rt l v)" "rt_invoke rt s ix l = Some l'" "addr \<notin> set s"
  shows "vault_covers addr mint t (rt_account rt l' v)"
proof (cases ix)
  case (TokenTransfer src tgt auth k)
  note i = assms(2) [unfolded TokenTransfer]
  show ?thesis
    using vault_transfer [OF assms(1) i] vault_spent_by [OF assms(1) i assms(3)]
    by (auto intro: vault_covers_mono split: if_split_asm)
next
  case (TokenMintTo m tgt auth k)
  show ?thesis using spl_mint [OF assms(2) [unfolded TokenMintTo]] by cases (use assms(1) in auto)
next
  case (TokenBurn m src auth k)
  show ?thesis using spl_burn [OF assms(2) [unfolded TokenBurn]]
    by cases (use assms(1,3) in \<open>auto simp: may_spend_def\<close>)
next
  case (TokenClose k dest auth)
  show ?thesis using spl_close [OF assms(2) [unfolded TokenClose]] by cases (use assms(1,3) in auto)
qed

lemma vault_create:
  assumes "vault_covers addr mint t (rt_account rt l v)" "rt_create rt k a l = Some l'"
  shows "vault_covers addr mint t (rt_account rt l' v)"
  using assms(1) spl_create [OF assms(2)] by auto

lemma vault_create_mint:
  assumes "vault_covers addr mint t (rt_account rt l v)" "rt_create_mint rt k a l = Some l'"
  shows "vault_covers addr mint t (rt_account rt l' v)"
  using assms(1) spl_create_mint [OF assms(2)] by simp

end

end
