(* ===== verification/PoolSolvency.thy ===== *)
theory PoolSolvency
  imports PoolHandlers Vaults
begin

text \<open>
  The pool's books against the token ledger. \<open>pool_step\<close> is the system around one pool: every
  instruction of the pool program, by any signers at any time, interleaved with any call of the
  token program by others. \<open>backed\<close> states that the vault holds at least the recorded deposit
  tokens, but for what the governor moved out of it, and that no more notes circulate than the books record; it
  holds from the creation of the pool on.

  The pool's address is a program address, which signs only in the calls that the program itself
  makes: no instruction starts with its signature.
\<close>

subsection \<open>The ledger covers the books\<close>

definition mint_covered :: "Pubkey \<Rightarrow> nat \<Rightarrow> MintAccount option \<Rightarrow> bool" where
  "mint_covered addr k mint =
     (case mint of None \<Rightarrow> False | Some m \<Rightarrow> mint_authority m = Some addr \<and> mint_supply m \<le> k)"

definition covers ::
  "'l Runtime \<Rightarrow> Pubkey \<Rightarrow> MarginPool \<Rightarrow> 'l \<Rightarrow> nat \<Rightarrow> nat \<Rightarrow> nat \<Rightarrow> bool" where
  "covers rt addr p l t d n \<longleftrightarrow>
     distinct [token_mint p, deposit_note_mint p, loan_note_mint p] \<and>
     vault_covers addr (token_mint p) t (rt_account rt l (vault p)) \<and>
     mint_covered addr d (rt_mint rt l (deposit_note_mint p)) \<and>
     mint_covered addr n (rt_mint rt l (loan_note_mint p))"

lemma mint_covered_simps [simp]:
  "\<not> mint_covered addr k None"
  "mint_covered addr k (Some m) \<longleftrightarrow> mint_authority m = Some addr \<and> mint_supply m \<le> k"
  by (simp_all add: mint_covered_def)

lemma mint_covered_mono: "mint_covered addr k m \<Longrightarrow> k \<le> k' \<Longrightarrow> mint_covered addr k' m"
  by (cases m) simp_all

text \<open>The ledger covers the books except for \<open>lost\<close> tokens.\<close>

definition backed :: "'l Runtime \<Rightarrow> Pubkey \<Rightarrow> nat \<Rightarrow> MarginPool \<Rightarrow> 'l \<Rightarrow> bool" where
  "backed rt addr lost p l \<longleftrightarrow> covers rt addr p l (deposit_tokens p - lost) (deposit_notes p) (loan_notes p)"

lemma covers_mono:
  "covers rt addr p l t d n \<Longrightarrow> t' \<le> t \<Longrightarrow> d \<le> d' \<Longrightarrow> n \<le> n' \<Longrightarrow> covers rt addr p l t' d' n'"
  by (auto simp: covers_def intro: vault_covers_mono mint_covered_mono)

lemma covers_cong:
  assumes "vault p' = vault p" "token_mint p' = token_mint p" "deposit_note_mint p' = deposit_note_mint p"
    "loan_note_mint p' = loan_note_mint p"
  shows "covers rt addr p' l t d n = covers rt addr p l t d n"
  using assms by (simp add: covers_def)

context token_program begin

lemma covers_transfer:
  assumes "covers rt addr p l t d n" "rt_invoke rt s (TokenTransfer src tgt auth k) l = Some l'"
  shows "covers rt addr p l' (if src = vault p \<and> tgt \<noteq> vault p then t - k
           else if src \<noteq> vault p \<and> tgt = vault p then t + k else t) d n"
  using spl_transfer [OF assms(2)] by cases (use assms(1) in \<open>auto simp: covers_def\<close>)

lemma covers_spent_by:
  assumes "covers rt addr p l t d n" "rt_invoke rt s (TokenTransfer src tgt auth k) l = Some l'"
    and "addr \<notin> set s"
  shows "src \<noteq> vault p"
  using spl_transfer [OF assms(2)] by cases (use assms(1,3) in \<open>auto simp: covers_def may_spend_def\<close>)

lemma covers_mint:
  assumes "covers rt addr p l t d n" "rt_invoke rt s (TokenMintTo m tgt auth k) l = Some l'"
    and "m \<in> {deposit_note_mint p, loan_note_mint p} \<or> addr \<notin> set s"
  shows "covers rt addr p l' t (if m = deposit_note_mint p then d + k else d)
           (if m = loan_note_mint p then n + k else n)"
proof -
  obtain b e where x: "auth \<in> set s" "rt_mint rt l m = Some e" "mint_authority e = Some auth"
    "rt_mint rt l' = (rt_mint rt l)(m \<mapsto> e\<lparr>mint_supply := mint_supply e + k\<rparr>)"
    "rt_account rt l tgt = Some b" "ta_mint b = m"
    "rt_account rt l' = (rt_account rt l)(tgt \<mapsto> b\<lparr>ta_amount := ta_amount b + k\<rparr>)"
    by (rule spl_mint [OF assms(2)])
  have m: "m = deposit_note_mint p \<or> m = loan_note_mint p \<or>
      m \<noteq> deposit_note_mint p \<and> m \<noteq> loan_note_mint p" by blast
  have v: "vault_covers addr (token_mint p) t (rt_account rt l' (vault p))"
    using assms(1) x(5) by (cases "vault p = tgt") (simp_all add: covers_def x(7))
  from m assms(1) x(2) show ?thesis
    by (elim disjE) (simp_all add: covers_def v [unfolded covers_def] x(4))
qed

lemma covers_burn:
  assumes "covers rt addr p l t d n" "rt_invoke rt s (TokenBurn m src auth k) l = Some l'"
    and "m \<in> {deposit_note_mint p, loan_note_mint p} \<or> addr \<notin> set s"
  shows "covers rt addr p l' t (if m = deposit_note_mint p then d - k else d)
           (if m = loan_note_mint p then n - k else n)"
proof -
  obtain b e dl where x: "dl \<in> {ta_delegate b, None}" "may_spend s auth b" "rt_mint rt l m = Some e"
    "k \<le> mint_supply e" "rt_mint rt l' = (rt_mint rt l)(m \<mapsto> e\<lparr>mint_supply := mint_supply e - k\<rparr>)"
    "rt_account rt l src = Some b" "ta_mint b = m" "k \<le> ta_amount b"
    "rt_account rt l' = (rt_account rt l)(src \<mapsto> spend b dl k)"
    by (rule spl_burn [OF assms(2)])
  have "vault p \<noteq> src"
  proof
    assume "vault p = src"
    with assms(1) x(6,7) have "m = token_mint p" "ta_owner b = addr" "ta_delegate b = None"
      by (simp_all add: covers_def)
    with assms(1,3) x(2) show False by (auto simp: covers_def may_spend_def)
  qed
  then have v: "rt_account rt l' (vault p) = rt_account rt l (vault p)" by (simp add: x(9))
  have m: "m = deposit_note_mint p \<or> m = loan_note_mint p \<or>
      m \<noteq> deposit_note_mint p \<and> m \<noteq> loan_note_mint p" by blast
  from m assms(1) x(3) show ?thesis
    by (elim disjE) (simp_all add: covers_def v x(5) diff_le_mono)
qed

lemma covers_close:
  assumes "covers rt addr p l t d n" "rt_invoke rt s (TokenClose k dest auth) l = Some l'"
    and "k \<noteq> vault p \<or> addr \<notin> set s"
  shows "covers rt addr p l' t d n"
  using spl_close [OF assms(2)] by cases (use assms(1,3) in \<open>auto simp: covers_def\<close>)

lemma covers_create:
  assumes "covers rt addr p l t d n" "rt_create rt k a l = Some l'"
  shows "covers rt addr p l' t d n"
  using assms(1) spl_create [OF assms(2)] by (auto simp: covers_def)

lemma covers_create_mint:
  assumes "covers rt addr p l t d n" "rt_create_mint rt k a l = Some l'"
  shows "covers rt addr p l' t d n"
  using assms(1) spl_create_mint [OF assms(2)] by (auto simp: covers_def)

text \<open>A call of the token program that the pool does not sign.\<close>

lemma covers_external:
  assumes "covers rt addr p l t d n" "rt_invoke rt s ix l = Some l'" "addr \<notin> set s"
  shows "covers rt addr p l' t d n"
proof (cases ix)
  case (TokenTransfer src tgt auth k)
  note i = assms(2) [unfolded TokenTransfer]
  show ?thesis
    using covers_transfer [OF assms(1) i] covers_spent_by [OF assms(1) i assms(3)]
    by (auto intro: covers_mono split: if_split_asm)
next
  case (TokenMintTo m tgt auth k)
  note i = assms(2) [unfolded TokenMintTo]
  have "m \<noteq> deposit_note_mint p \<and> m \<noteq> loan_note_mint p"
    using spl_mint [OF i] by cases (use assms(1,3) in \<open>auto simp: covers_def\<close>)
  then show ?thesis using covers_mint [OF assms(1) i] assms(3) by simp
next
  case (TokenBurn m src auth k)
  note i = assms(2) [unfolded TokenBurn]
  show ?thesis using covers_burn [OF assms(1) i] assms(3) by (auto intro: covers_mono split: if_split_asm)
next
  case (TokenClose k dest auth)
  show ?thesis by (rule covers_close [OF assms(1) assms(2) [unfolded TokenClose]]) (use assms(3) in simp)
qed

text \<open>The instructions.\<close>

lemma accrue_to_now_frame:
  assumes "accrue_to_now rt p = Inr p'"
  shows "vault p' = vault p" "token_mint p' = token_mint p" "deposit_note_mint p' = deposit_note_mint p"
    "loan_note_mint p' = loan_note_mint p" "deposit_tokens p' = deposit_tokens p"
    "deposit_notes p' = deposit_notes p" "loan_notes p' = loan_notes p"
proof -
  from assms obtain b where "accrue_interest p (rt_clock rt) = Inr (p', b)"
    by (auto simp: accrue_to_now_def split: if_split_asm)
  note f = accrue_interest_frame [OF this]
  show "vault p' = vault p" "token_mint p' = token_mint p" "deposit_note_mint p' = deposit_note_mint p"
    "loan_note_mint p' = loan_note_mint p" "deposit_tokens p' = deposit_tokens p"
    "deposit_notes p' = deposit_notes p" "loan_notes p' = loan_notes p"
    by (simp_all add: f)
qed

lemma backed_accrue:
  assumes "accrue_to_now rt p = Inr p'" "backed rt addr lost p l"
  shows "backed rt addr lost p' l"
  using assms(2) accrue_to_now_frame [OF assms(1)] by (simp add: backed_def covers_def)

lemma deposit_backed:
  assumes "deposit_handler rt ac ck amount p l = Inr (p', l', e)" "backed rt addr lost p l"
    and "addr \<notin> set (rt_signers rt)"
  shows "backed rt addr lost p' l'" "vault p' = vault p"
proof -
  from assms(1) obtain q f l1 s where q: "accrue_to_now rt p = Inr q"
    and d: "pool_deposit q f = Inr p'" and ac: "dep_vault ac = vault p" "dep_deposit_note_mint ac = deposit_note_mint p"
    and t: "rt_invoke rt (rt_signers rt)
      (TokenTransfer (dep_source ac) (dep_vault ac) (dep_depositor ac) (fa_tokens f)) l = Some l1"
    and m: "rt_invoke rt (rt_signer_address rt s # rt_signers rt)
      (TokenMintTo (dep_deposit_note_mint ac) (dep_destination ac) (dep_margin_pool ac) (fa_notes f)) l1 = Some l'"
    by (auto simp: deposit_handler_def Let_def)
  note fr = accrue_to_now_frame [OF q]
  have b: "covers rt addr q l (deposit_tokens q - lost) (deposit_notes q) (loan_notes q)"
    using backed_accrue [OF q assms(2)] by (simp add: backed_def)
  have "dep_source ac \<noteq> vault q" by (rule covers_spent_by [OF b t assms(3)])
  with covers_transfer [OF b t] ac fr
  have b1: "covers rt addr q l1 (deposit_tokens q + fa_tokens f - lost) (deposit_notes q) (loan_notes q)"
    by (auto elim: covers_mono)
  have n: "deposit_note_mint q \<noteq> loan_note_mint q" using b by (simp add: covers_def)
  show "backed rt addr lost p' l'" using covers_mint [OF b1 m] d ac fr n by (simp add: pool_deposit_Inr backed_def covers_def)
  show "vault p' = vault p" using d fr by (simp add: pool_deposit_Inr)
qed

lemma withdraw_backed:
  assumes "withdraw_handler rt ac ck amount p l = Inr (p', l', e)" "backed rt addr lost p l"
  shows "backed rt addr lost p' l'" "vault p' = vault p"
proof -
  from assms(1) obtain q f l1 s where q: "accrue_to_now rt p = Inr q"
    and d: "pool_withdraw q f = Inr p'" and ac: "wd_vault ac = vault p" "wd_deposit_note_mint ac = deposit_note_mint p"
    and t: "rt_invoke rt (rt_signer_address rt s # rt_signers rt)
      (TokenTransfer (wd_vault ac) (wd_destination ac) (wd_margin_pool ac) (fa_tokens f)) l = Some l1"
    and m: "rt_invoke rt (rt_signers rt)
      (TokenBurn (wd_deposit_note_mint ac) (wd_source ac) (wd_depositor ac) (fa_notes f)) l1 = Some l'"
    by (auto simp: withdraw_handler_def Let_def)
  note fr = accrue_to_now_frame [OF q]
  have b: "covers rt addr q l (deposit_tokens q - lost) (deposit_notes q) (loan_notes q)"
    using backed_accrue [OF q assms(2)] by (simp add: backed_def)
  have b1: "covers rt addr q l1 (deposit_tokens q - fa_tokens f - lost) (deposit_notes q) (loan_notes q)"
    using covers_transfer [OF b t] ac fr by (auto intro: covers_mono split: if_split_asm)
  have n: "deposit_note_mint q \<noteq> loan_note_mint q" using b by (simp add: covers_def)
  show "backed rt addr lost p' l'" using covers_burn [OF b1 m] d ac fr n by (simp add: pool_withdraw_Inr backed_def covers_def)
  show "vault p' = vault p" using d fr by (simp add: pool_withdraw_Inr)
qed

lemma repay_backed:
  assumes "repay_handler rt ac ck amount p l = Inr (p', l', e)" "backed rt addr lost p l"
    and "addr \<notin> set (rt_signers rt)"
  shows "backed rt addr lost p' l'" "vault p' = vault p"
proof -
  from assms(1) obtain q f l1 s where q: "accrue_to_now rt p = Inr q"
    and d: "pool_repay q f = Inr p'" and ac: "rp_vault ac = vault p" "rp_loan_note_mint ac = loan_note_mint p"
    and t: "rt_invoke rt (rt_signers rt) (TokenTransfer (rp_repayment_token_account ac) (rp_vault ac)
      (rp_repayment_account_authority ac) (fa_tokens f)) l = Some l1"
    and m: "rt_invoke rt (rt_signer_address rt s # rt_signers rt)
      (TokenBurn (rp_loan_note_mint ac) (rp_loan_account ac) (rp_margin_pool ac) (fa_notes f)) l1 = Some l'"
    by (auto simp: repay_handler_def Let_def)
  note fr = accrue_to_now_frame [OF q]
  have b: "covers rt addr q l (deposit_tokens q - lost) (deposit_notes q) (loan_notes q)"
    using backed_accrue [OF q assms(2)] by (simp add: backed_def)
  have "rp_repayment_token_account ac \<noteq> vault q" by (rule covers_spent_by [OF b t assms(3)])
  with covers_transfer [OF b t] ac fr
  have b1: "covers rt addr q l1 (deposit_tokens q + fa_tokens f - lost) (deposit_notes q) (loan_notes q)"
    by (auto elim: covers_mono)
  have n: "loan_note_mint q \<noteq> deposit_note_mint q" using b by (simp add: covers_def)
  show "backed rt addr lost p' l'" using covers_burn [OF b1 m] d ac fr n by (simp add: pool_repay_Inr backed_def covers_def)
  show "vault p' = vault p" using d fr by (simp add: pool_repay_Inr)
qed

lemma borrow_v2_backed:
  assumes "margin_borrow_v2_handler rt ac amount p l = Inr (p', l', e)" "backed rt addr lost p l"
  shows "backed rt addr lost p' l'" "vault p' = vault p"
proof -
  from assms(1) obtain q f l1 s where q: "accrue_to_now rt p = Inr q"
    and d: "pool_borrow q f = Inr p'" and ac: "mb2_vault ac = vault p" "mb2_loan_note_mint ac = loan_note_mint p"
    and m: "rt_invoke rt (rt_signer_address rt s # rt_signers rt)
      (TokenMintTo (mb2_loan_note_mint ac) (mb2_loan_account ac) (mb2_margin_pool ac) (fa_notes f)) l = Some l1"
    and t: "rt_invoke rt (rt_signer_address rt s # rt_signers rt)
      (TokenTransfer (mb2_vault ac) (mb2_destination ac) (mb2_margin_pool ac) (fa_tokens f)) l1 = Some l'"
    by (auto simp: margin_borrow_v2_handler_def Let_def)
  note fr = accrue_to_now_frame [OF q]
  have b: "covers rt addr q l (deposit_tokens q - lost) (deposit_notes q) (loan_notes q)"
    using backed_accrue [OF q assms(2)] by (simp add: backed_def)
  have n: "loan_note_mint q \<noteq> deposit_note_mint q" using b by (simp add: covers_def)
  have b1: "covers rt addr q l1 (deposit_tokens q - lost) (deposit_notes q) (loan_notes q + fa_notes f)"
    using covers_mint [OF b m] ac fr n by simp
  have "covers rt addr q l' (deposit_tokens q - fa_tokens f - lost) (deposit_notes q) (loan_notes q + fa_notes f)"
    using covers_transfer [OF b1 t] ac fr by (auto intro: covers_mono split: if_split_asm)
  then show "backed rt addr lost p' l'" using pool_borrow_Inr(5) [OF d] by (simp add: backed_def covers_def)
  show "vault p' = vault p" using pool_borrow_Inr(5) [OF d] fr by simp
qed

text \<open>A margin borrow moves no tokens: what is lent is deposited again at once.\<close>

lemma borrow_backed:
  assumes "margin_borrow_handler rt ac ck amount p l = Inr (p', l', e)" "backed rt addr lost p l"
  shows "backed rt addr lost p' l'" "vault p' = vault p"
proof -
  from assms(1) obtain q f l1 s r g where q: "accrue_to_now rt p = Inr q"
    and d: "pool_borrow q f = Inr r" "convert_amount r (amount_tokens (fa_tokens f)) Deposit = Inr g"
      "pool_deposit r g = Inr p'"
    and ac: "mb_deposit_note_mint ac = deposit_note_mint p" "mb_loan_note_mint ac = loan_note_mint p"
    and m: "rt_invoke rt (rt_signer_address rt s # rt_signers rt)
      (TokenMintTo (mb_loan_note_mint ac) (mb_loan_account ac) (mb_margin_pool ac) (fa_notes f)) l = Some l1"
    and m': "rt_invoke rt (rt_signer_address rt s # rt_signers rt)
      (TokenMintTo (mb_deposit_note_mint ac) (mb_deposit_account ac) (mb_margin_pool ac) (fa_notes g)) l1 = Some l'"
    by (auto simp: margin_borrow_handler_def Let_def)
  note fr = accrue_to_now_frame [OF q]
  have b: "covers rt addr q l (deposit_tokens q - lost) (deposit_notes q) (loan_notes q)"
    using backed_accrue [OF q assms(2)] by (simp add: backed_def)
  have n: "loan_note_mint q \<noteq> deposit_note_mint q" using b by (simp add: covers_def)
  have b1: "covers rt addr q l1 (deposit_tokens q - lost) (deposit_notes q) (loan_notes q + fa_notes f)"
    using covers_mint [OF b m] ac fr n by simp
  have b2: "covers rt addr q l' (deposit_tokens q - lost) (deposit_notes q + fa_notes g) (loan_notes q + fa_notes f)"
    using covers_mint [OF b1 m'] ac fr n by simp
  have "fa_tokens g = fa_tokens f" using convert_amount_kind(1) [OF d(2)] by simp
  then show "backed rt addr lost p' l'" using b2 pool_borrow_Inr(2,5) [OF d(1)] d(3)
    by (simp add: pool_deposit_Inr backed_def covers_def)
  show "vault p' = vault p" using d(3) pool_borrow_Inr(5) [OF d(1)] fr by (simp add: pool_deposit_Inr)
qed

lemma margin_repay_backed:
  assumes "margin_repay_handler rt ac ck amount p l = Inr (p', l', e)" "backed rt addr lost p l"
  shows "backed rt addr lost p' l'" "vault p' = vault p"
proof -
  from assms(1) obtain q f l1 s g where q: "accrue_to_now rt p = Inr q"
    and d: "pool_margin_repay q f g = Inr p'"
    and ac: "mr_deposit_note_mint ac = deposit_note_mint p" "mr_loan_note_mint ac = loan_note_mint p"
    and m: "rt_invoke rt (rt_signer_address rt s # rt_signers rt)
      (TokenBurn (mr_loan_note_mint ac) (mr_loan_account ac) (mr_margin_pool ac) (fa_notes f)) l = Some l1"
    and m': "rt_invoke rt (rt_signers rt)
      (TokenBurn (mr_deposit_note_mint ac) (mr_deposit_account ac) (mr_margin_account ac) (fa_notes g)) l1 = Some l'"
    by (auto simp: margin_repay_handler_def Let_def)
  note fr = accrue_to_now_frame [OF q]
  have b: "covers rt addr q l (deposit_tokens q - lost) (deposit_notes q) (loan_notes q)"
    using backed_accrue [OF q assms(2)] by (simp add: backed_def)
  have n: "loan_note_mint q \<noteq> deposit_note_mint q" using b by (simp add: covers_def)
  have b1: "covers rt addr q l1 (deposit_tokens q - lost) (deposit_notes q) (loan_notes q - fa_notes f)"
    using covers_burn [OF b m] ac fr n by simp
  have "covers rt addr q l' (deposit_tokens q - lost) (deposit_notes q - fa_notes g) (loan_notes q - fa_notes f)"
    using covers_burn [OF b1 m'] ac fr n by simp
  then show "backed rt addr lost p' l'" using d by (simp add: pool_margin_repay_Inr backed_def covers_def)
  show "vault p' = vault p" using d fr by (simp add: pool_margin_repay_Inr)
qed

text \<open>A collection either only accrues, or mints the notes of the fees to their destination.\<close>

lemma collect_result:
  assumes "collect_handler rt ac p l = Inr (p', l', e)"
  obtains q c where "accrue_interest p (rt_clock rt) = Inr (q, c)" "co_deposit_note_mint ac = deposit_note_mint p"
    "\<not> c \<and> p' = q \<and> l' = l \<or>
      (\<exists>n s. collect_accrued_fees q = Inr (p', n) \<and> rt_invoke rt (rt_signer_address rt s # rt_signers rt)
        (TokenMintTo (co_deposit_note_mint ac) (co_fee_destination ac) (co_margin_pool ac) n) l = Some l')"
proof -
  define mint_fees where "mint_fees = (\<lambda>(v :: TokenAccount) (pool, fee_notes).
       bindE (pool_signer pool) (\<lambda>signer.
       bindE (token_cpi_signed rt signer (TokenMintTo (co_deposit_note_mint ac) (co_fee_destination ac)
                (co_margin_pool ac) fee_notes) l) (\<lambda>l.
       bindE (lift_tx (convert_amount pool (amount_notes fee_notes) Withdraw)) (\<lambda>claimed_amount.
       bindE (lift_tx (convert_amount pool (amount_notes (ta_amount v)) Withdraw)) (\<lambda>balance_amount.
       bindE (lift_tx (pool_summary pool)) (\<lambda>summary.
       (Inr (pool, l, Some (CollectEvent (co_margin_pool ac) fee_notes (fa_tokens claimed_amount)
              (fa_notes balance_amount) (fa_tokens balance_amount) summary)) :: _ pool_tx)))))))"
  have "collect_handler rt ac p l =
     bindE (constraint (vault p = co_vault ac \<and> deposit_note_mint p = co_deposit_note_mint ac \<and>
              fee_destination p = co_fee_destination ac)) (\<lambda>_.
     bindE (load_token_account rt l (co_vault ac)) (\<lambda>v.
     bindE (lift_tx (accrue_interest p (rt_clock rt))) (\<lambda>(q, c).
     if \<not> c then Inr (q, l, None) else bindE (lift_tx (collect_accrued_fees q)) (mint_fees v))))"
    by (simp only: collect_handler_def mint_fees_def)
  with assms obtain q c v where q: "accrue_interest p (rt_clock rt) = Inr (q, c)"
    and h: "(if \<not> c then Inr (q, l, None) else bindE (lift_tx (collect_accrued_fees q)) (mint_fees v))
      = Inr (p', l', e)"
    and ac: "co_deposit_note_mint ac = deposit_note_mint p"
    by (auto simp del: if_not_P if_P split del: if_split)
  have rest: "\<not> c \<and> p' = q \<and> l' = l \<or>
      (\<exists>n s. collect_accrued_fees q = Inr (p', n) \<and> rt_invoke rt (rt_signer_address rt s # rt_signers rt)
        (TokenMintTo (co_deposit_note_mint ac) (co_fee_destination ac) (co_margin_pool ac) n) l = Some l')"
  proof (cases c)
    case True
    with h obtain r n where c: "collect_accrued_fees q = Inr (r, n)" "mint_fees v (r, n) = Inr (p', l', e)" by auto
    from c(2) obtain s l1 where s: "Inr (r, l1) = (Inr (p', l') :: _ pool_tx)"
      "rt_invoke rt (rt_signer_address rt s # rt_signers rt)
        (TokenMintTo (co_deposit_note_mint ac) (co_fee_destination ac) (co_margin_pool ac) n) l = Some l1"
      unfolding mint_fees_def prod.case bindE_Inr_iff token_cpi_signed_Inr by (elim exE conjE) (rule that, simp_all)
    show ?thesis
      by (rule disjI2, rule exI [of _ n], rule exI [of _ s]) (use c s in simp)
  qed (use h in simp)
  with that q ac show thesis by blast
qed

lemma collect_backed:
  assumes "collect_handler rt ac p l = Inr (p', l', e)" "backed rt addr lost p l"
  shows "backed rt addr lost p' l'" "vault p' = vault p"
proof -
  obtain q c where q: "accrue_interest p (rt_clock rt) = Inr (q, c)" and ac: "co_deposit_note_mint ac = deposit_note_mint p"
    and rest: "\<not> c \<and> p' = q \<and> l' = l \<or>
      (\<exists>n s. collect_accrued_fees q = Inr (p', n) \<and> rt_invoke rt (rt_signer_address rt s # rt_signers rt)
        (TokenMintTo (co_deposit_note_mint ac) (co_fee_destination ac) (co_margin_pool ac) n) l = Some l')"
    using collect_result [OF assms(1)] .
  note fr = accrue_interest_frame [OF q]
  have b: "covers rt addr q l (deposit_tokens q - lost) (deposit_notes q) (loan_notes q)"
    using assms(2) fr by (simp add: backed_def covers_def)
  have "backed rt addr lost p' l' \<and> vault p' = vault q"
    using rest
  proof (elim disjE exE conjE)
    fix n s
    assume c: "collect_accrued_fees q = Inr (p', n)"
      and m: "rt_invoke rt (rt_signer_address rt s # rt_signers rt)
        (TokenMintTo (co_deposit_note_mint ac) (co_fee_destination ac) (co_margin_pool ac) n) l = Some l'"
    have "deposit_note_mint q \<noteq> loan_note_mint q" using b by (simp add: covers_def)
    then have "covers rt addr q l' (deposit_tokens q - lost) (deposit_notes q + n) (loan_notes q)"
      using covers_mint [OF b m] ac fr by simp
    moreover from collect_accrued_fees_Inr [OF c] obtain x where "p' = (if n = 0 then q
          else q\<lparr>uncollected_fees := x, deposit_notes := deposit_notes q + n\<rparr>)" by blast
    ultimately show "backed rt addr lost p' l' \<and> vault p' = vault q" by (cases "n = 0") (simp_all add: backed_def covers_def)
  qed (use b in \<open>simp add: backed_def\<close>)
  then show "backed rt addr lost p' l'" "vault p' = vault p" using fr by simp_all
qed

lemma close_loan_backed:
  assumes "close_loan_handler rt h ac a p l = Inr (l', r)" "backed rt addr lost p l"
    and "\<forall>x m. pda rt [SeedKey x, SeedKey m] \<noteq> vault p"
  shows "backed rt addr lost p l'"
proof -
  from assms(1,3) obtain s where "cl_loan_note_account ac \<noteq> vault p"
    "rt_invoke rt s (TokenClose (cl_loan_note_account ac) (cl_beneficiary ac) (cl_margin_pool ac)) l = Some l'"
    by (auto simp: close_loan_handler_def)
  with assms(2) show ?thesis unfolding backed_def by (blast intro: covers_close)
qed

lemma register_loan_backed:
  assumes "register_loan_handler rt h ac a p l = Inr (l', r)" "backed rt addr lost p l"
  shows "backed rt addr lost p l'"
  using assms by (auto simp: register_loan_handler_def backed_def intro: covers_create)

text \<open>The governor may move tokens out of the vault, which the pool owns like its loan accounts.\<close>

lemma admin_transfer_backed:
  assumes "admin_transfer_loan_handler rt g ac amount p l = Inr (l', e)" "backed rt addr lost p l"
  shows "backed rt addr (if at_source_loan_account ac = vault p then lost + amount else lost) p l'"
proof -
  from assms(1) obtain s where "rt_invoke rt s (TokenTransfer (at_source_loan_account ac)
      (at_target_loan_account ac) (at_margin_pool ac) amount) l = Some l'"
    by (auto simp: admin_transfer_loan_handler_def)
  from covers_transfer [OF assms(2) [unfolded backed_def] this] show ?thesis
    unfolding backed_def by (auto intro: covers_mono split: if_split_asm)
qed

lemma create_pool_backed:
  assumes "create_pool_handler rt c ac f None l = Inr (p, l', e)" "cp_margin_pool ac = addr"
  shows "backed rt addr 0 p l'" "vault p = pda rt [SeedKey addr, SeedBytes ''vault'']"
proof -
  from assms obtain d l1 l2 where m: "rt_mint rt l (cp_token_mint ac) = Some d"
    and v: "rt_create rt (cp_vault ac)
      \<lparr>ta_mint = cp_token_mint ac, ta_owner = addr, ta_delegate = None, ta_amount = 0\<rparr> l = Some l1"
    and dm: "rt_create_mint rt (cp_deposit_note_mint ac)
      \<lparr>mint_supply = 0, mint_authority = Some addr, mint_decimals = mint_decimals d\<rparr> l1 = Some l2"
    and lm: "rt_create_mint rt (cp_loan_note_mint ac)
      \<lparr>mint_supply = 0, mint_authority = Some addr, mint_decimals = mint_decimals d\<rparr> l2 = Some l'"
    and p: "vault p = cp_vault ac" "token_mint p = cp_token_mint ac" "deposit_note_mint p = cp_deposit_note_mint ac"
      "loan_note_mint p = cp_loan_note_mint ac" "deposit_tokens p = 0"
    and pv: "cp_vault ac = pda rt [SeedKey addr, SeedBytes ''vault'']"
    by (auto simp: create_pool_handler_def Let_def zeroed_pool_def)
  note s = spl_create [OF v] spl_create_mint [OF dm] spl_create_mint [OF lm]
  have "distinct [cp_token_mint ac, cp_deposit_note_mint ac, cp_loan_note_mint ac]"
    using s m by (auto split: if_split_asm)
  then show "backed rt addr 0 p l'" using s by (simp add: backed_def covers_def p)
  show "vault p = pda rt [SeedKey addr, SeedBytes ''vault'']" using p(1) pv by simp
qed

end

subsection \<open>The system around a pool\<close>

lemma instruction_backed [simp]:
  "covers (instruction rt s t) addr p l = covers rt addr p l"
  "backed (instruction rt s t) addr lost p l = backed rt addr lost p l"
  by (simp_all add: instruction_def covers_def backed_def fun_eq_iff)

text \<open>
  One instruction that reaches the pool at \<open>addr\<close>, or one of anybody else's calls of the token
  program. \<open>governor\<close> and \<open>is_ca\<close> are the administrators. The last part of the state counts the tokens that the
  governor has moved out of the vault with \<open>admin_transfer_loan\<close>, which takes any account of the pool for a loan
  account.
\<close>

inductive pool_step ::
  "'l Runtime \<Rightarrow> Pubkey \<Rightarrow> (Pubkey \<Rightarrow> bool) \<Rightarrow> Pubkey \<Rightarrow> MarginPool \<times> 'l \<times> nat \<Rightarrow> MarginPool \<times> 'l \<times> nat \<Rightarrow> bool"
  for rt governor is_ca addr where
  step_deposit: "addr \<notin> set s \<Longrightarrow> dep_margin_pool ac = addr \<Longrightarrow>
    deposit_handler (instruction rt s t) ac ck amount p l = Inr (p', l', e) \<Longrightarrow>
    pool_step rt governor is_ca addr (p, l, x) (p', l', x)"
| step_withdraw: "addr \<notin> set s \<Longrightarrow> wd_margin_pool ac' = addr \<Longrightarrow>
    withdraw_handler (instruction rt s t) ac' ck amount p l = Inr (p', l', e) \<Longrightarrow>
    pool_step rt governor is_ca addr (p, l, x) (p', l', x)"
| step_margin_borrow: "addr \<notin> set s \<Longrightarrow> mb_margin_pool ac1 = addr \<Longrightarrow>
    margin_borrow_handler (instruction rt s t) ac1 ck amount p l = Inr (p', l', e) \<Longrightarrow>
    pool_step rt governor is_ca addr (p, l, x) (p', l', x)"
| step_margin_borrow_v2: "addr \<notin> set s \<Longrightarrow> mb2_margin_pool ac2 = addr \<Longrightarrow>
    margin_borrow_v2_handler (instruction rt s t) ac2 amount p l = Inr (p', l', e) \<Longrightarrow>
    pool_step rt governor is_ca addr (p, l, x) (p', l', x)"
| step_repay: "addr \<notin> set s \<Longrightarrow> rp_margin_pool ac3 = addr \<Longrightarrow>
    repay_handler (instruction rt s t) ac3 ck amount p l = Inr (p', l', e) \<Longrightarrow>
    pool_step rt governor is_ca addr (p, l, x) (p', l', x)"
| step_margin_repay: "addr \<notin> set s \<Longrightarrow> mr_margin_pool ac4 = addr \<Longrightarrow>
    margin_repay_handler (instruction rt s t) ac4 ck amount p l = Inr (p', l', e) \<Longrightarrow>
    pool_step rt governor is_ca addr (p, l, x) (p', l', x)"
| step_collect: "addr \<notin> set s \<Longrightarrow> co_margin_pool ac5 = addr \<Longrightarrow>
    collect_handler (instruction rt s t) ac5 p l = Inr (p', l', oe) \<Longrightarrow>
    pool_step rt governor is_ca addr (p, l, x) (p', l', x)"
| step_register_loan: "addr \<notin> set s \<Longrightarrow> rl_margin_pool ac6 = addr \<Longrightarrow>
    register_loan_handler (instruction rt s t) h ac6 a p l = Inr (l', r) \<Longrightarrow>
    pool_step rt governor is_ca addr (p, l, x) (p, l', x)"
| step_close_loan: "addr \<notin> set s \<Longrightarrow> cl_margin_pool ac7 = addr \<Longrightarrow>
    close_loan_handler (instruction rt s t) h ac7 a p l = Inr (l', r) \<Longrightarrow>
    pool_step rt governor is_ca addr (p, l, x) (p, l', x)"
| step_configure: "addr \<notin> set s \<Longrightarrow> cf_margin_pool ac8 = addr \<Longrightarrow>
    configure_handler (instruction rt s t) is_ca ac8 product c p = Inr (p', e) \<Longrightarrow>
    pool_step rt governor is_ca addr (p, l, x) (p', l, x)"
| step_admin_transfer_loan: "addr \<notin> set s \<Longrightarrow> at_margin_pool ac9 = addr \<Longrightarrow>
    admin_transfer_loan_handler (instruction rt s t) governor ac9 amount p l = Inr (l', e) \<Longrightarrow>
    pool_step rt governor is_ca addr (p, l, x)
      (p, l', if at_source_loan_account ac9 = vault p then x + amount else x)"
| step_token: "addr \<notin> set s \<Longrightarrow> rt_invoke rt s ix l = Some l' \<Longrightarrow>
    pool_step rt governor is_ca addr (p, l, x) (p, l', x)"
| step_create_account: "rt_create rt k ta l = Some l' \<Longrightarrow> pool_step rt governor is_ca addr (p, l, x) (p, l', x)"
| step_create_mint: "rt_create_mint rt k m l = Some l' \<Longrightarrow> pool_step rt governor is_ca addr (p, l, x) (p, l', x)"

lemma configure_frame:
  assumes "configure_handler rt is_ca ac product c p = Inr (p', e)"
  shows "vault p' = vault p" "backed rt addr lost p' l = backed rt addr lost p l"
  using assms
  by (auto simp: configure_handler_def Let_def backed_def covers_def split: option.splits if_split_asm)

inductive_cases pool_stepE: "pool_step rt governor is_ca addr (p, l, x) (p', l', y)"

definition solvent :: "'l Runtime \<Rightarrow> Pubkey \<Rightarrow> MarginPool \<times> 'l \<times> nat \<Rightarrow> bool" where
  "solvent rt addr = (\<lambda>(p, l, x). vault p = pda rt [SeedKey addr, SeedBytes ''vault''] \<and> backed rt addr x p l)"

lemma pool_step_solvent:
  assumes "pool_step rt governor is_ca addr x y" "solvent rt addr x" "spl_token rt"
    and "\<forall>k m. pda rt [SeedKey k, SeedKey m] \<noteq> pda rt [SeedKey addr, SeedBytes ''vault'']"
  shows "solvent rt addr y"
proof -
  have i: "token_program (instruction rt s t)" for s t using assms(3) by (simp add: token_program_def)
  have i0: "token_program rt" by (rule token_program.intro) (rule assms(3))
  note b = token_program.deposit_backed [OF i, where addr = addr, simplified] token_program.withdraw_backed [OF i, where addr = addr, simplified]
    token_program.borrow_backed [OF i, where addr = addr, simplified] token_program.borrow_v2_backed [OF i, where addr = addr, simplified]
    token_program.repay_backed [OF i, where addr = addr, simplified] token_program.margin_repay_backed [OF i, where addr = addr, simplified]
    token_program.collect_backed [OF i, where addr = addr, simplified] token_program.register_loan_backed [OF i, where addr = addr, simplified]
    token_program.close_loan_backed [OF i, where addr = addr, simplified]
  from assms(1) show ?thesis
  proof cases
    case (step_configure s ac8 t product c p p' e l)
    with configure_frame [OF step_configure(5)] assms(2) show ?thesis by (simp add: solvent_def)
  next
    case (step_token s ix l l' p)
    with assms(2,3) show ?thesis by (auto simp: solvent_def backed_def intro: token_program.covers_external [OF i0])
  next
    case (step_create_account k ta l l' p)
    with assms(2,3) show ?thesis by (auto simp: solvent_def backed_def intro: token_program.covers_create [OF i0])
  next
    case (step_create_mint k m l l' p)
    with assms(2,3) show ?thesis by (auto simp: solvent_def backed_def intro: token_program.covers_create_mint [OF i0])
  next
    case (step_admin_transfer_loan s ac9 t amount p l l' e x)
    from token_program.admin_transfer_backed [OF i step_admin_transfer_loan(5), where addr = addr and lost = x]
    show ?thesis using step_admin_transfer_loan(1,2) assms(2) by (simp add: solvent_def)
  qed (use assms(2,4) b in \<open>simp add: solvent_def; metis\<close>)+
qed

lemma pool_run_solvent:
  assumes "spl_token rt" "\<forall>k m. pda rt [SeedKey k, SeedKey m] \<noteq> pda rt [SeedKey addr, SeedBytes ''vault'']"
    and "create_pool_handler (instruction rt s t) is_ca ac f None l0 = Inr (p0, l1, e)" "cp_margin_pool ac = addr"
    and "(pool_step rt governor is_ca addr)\<^sup>*\<^sup>* (p0, l1, 0) x"
  shows "solvent rt addr x"
  using assms(5)
proof (induction rule: rtranclp_induct)
  case base
  have "token_program (instruction rt s t)" using assms(1) by (simp add: token_program_def)
  from token_program.create_pool_backed [OF this assms(3,4)] show ?case by (simp add: solvent_def)
next
  case (step y z)
  then show ?case using pool_step_solvent [OF step(2) _ assms(1,2)] by blast
qed

text \<open>
  C1: From the creation of a pool on, whatever instructions of the pool program and calls of the token
  program follow in whatever order, the pool's vault belongs to the pool and holds, with what the governor has
  moved out of it by \<open>admin_transfer_loan\<close>, at least the deposit tokens of the pool's books, and no more deposit
  notes and loan notes circulate than the books record. Without such a transfer the vault covers the books. Assumed
  are the token program's laws and that no loan account has the derived address of the pool's vault.
\<close>

theorem pool_stays_solvent:
  assumes "spl_token rt" "\<forall>k m. pda rt [SeedKey k, SeedKey m] \<noteq> pda rt [SeedKey addr, SeedBytes ''vault'']"
    and "create_pool_handler (instruction rt s t) is_ca ac f None l0 = Inr (p0, l1, e)" "cp_margin_pool ac = addr"
    and "(pool_step rt governor is_ca addr)\<^sup>*\<^sup>* (p0, l1, 0) (p, l, moved)"
  shows "\<exists>v d n. rt_account rt l (vault p) = Some v \<and> ta_owner v = addr \<and> deposit_tokens p \<le> ta_amount v + moved \<and>
    rt_mint rt l (deposit_note_mint p) = Some d \<and> mint_supply d \<le> deposit_notes p \<and>
    rt_mint rt l (loan_note_mint p) = Some n \<and> mint_supply n \<le> loan_notes p"
  using pool_run_solvent [OF assms]
  by (auto simp: solvent_def backed_def covers_def vault_covers_def mint_covered_def split: option.split_asm)

fun sample_address :: "Seed list \<Rightarrow> Pubkey" where
  "sample_address [SeedKey k] = 100"
| "sample_address [SeedKey k, SeedInt b] = 100"
| "sample_address [SeedKey k, SeedBytes b] = 200 + length b"
| "sample_address _ = 300"

definition sample_runtime :: "Ledger Runtime" where
  "sample_runtime = ledger_runtime sample_address [] 0"

definition sample_ledger :: Ledger where
  "sample_ledger =
     \<lparr>lg_accounts = [50 \<mapsto> \<lparr>ta_mint = 7, ta_owner = 60, ta_delegate = None, ta_amount = 1000\<rparr>],
      lg_mints = [7 \<mapsto> \<lparr>mint_supply = 1000, mint_authority = None, mint_decimals = 6\<rparr>]\<rparr>"

definition sample_create :: CreatePoolAccounts where
  "sample_create =
     \<lparr>cp_margin_pool = 100, cp_vault = 205, cp_deposit_note_mint = 213, cp_loan_note_mint = 210,
      cp_token_mint = 7, cp_authority = 1, cp_payer = 2\<rparr>"

definition created_pool :: MarginPool where
  "created_pool = zeroed_pool\<lparr>pool_address := 100, pool_bump := 255, token_mint := 7, vault := 205,
     deposit_note_mint := 213, loan_note_mint := 210, fee_destination := 9, accrued_until := 5\<rparr>"

definition created_ledger :: Ledger where
  "created_ledger =
     \<lparr>lg_accounts = (lg_accounts sample_ledger)
        (205 \<mapsto> \<lparr>ta_mint = 7, ta_owner = 100, ta_delegate = None, ta_amount = 0\<rparr>),
      lg_mints = (lg_mints sample_ledger)
        (213 \<mapsto> \<lparr>mint_supply = 0, mint_authority = Some 100, mint_decimals = 6\<rparr>,
         210 \<mapsto> \<lparr>mint_supply = 0, mint_authority = Some 100, mint_decimals = 6\<rparr>)\<rparr>"

definition noted_ledger :: Ledger where
  "noted_ledger = created_ledger\<lparr>lg_accounts := (lg_accounts created_ledger)
     (51 \<mapsto> \<lparr>ta_mint = 213, ta_owner = 60, ta_delegate = None, ta_amount = 0\<rparr>)\<rparr>"

definition deposited_ledger :: Ledger where
  "deposited_ledger =
     \<lparr>lg_accounts = (lg_accounts noted_ledger)
        (50 \<mapsto> \<lparr>ta_mint = 7, ta_owner = 60, ta_delegate = None, ta_amount = 500\<rparr>,
         205 \<mapsto> \<lparr>ta_mint = 7, ta_owner = 100, ta_delegate = None, ta_amount = 500\<rparr>,
         51 \<mapsto> \<lparr>ta_mint = 213, ta_owner = 60, ta_delegate = None, ta_amount = 500\<rparr>),
      lg_mints = (lg_mints noted_ledger)
        (213 \<mapsto> \<lparr>mint_supply = 500, mint_authority = Some 100, mint_decimals = 6\<rparr>)\<rparr>"

lemma sample_instruction [simp]:
  "instruction sample_runtime s t = ledger_runtime sample_address s t"
  by (simp add: instruction_def sample_runtime_def ledger_runtime_def)

lemma pool_summary_no_loans:
  "borrowed_tokens p = num_ZERO \<Longrightarrow> uncollected_fees p = num_ZERO \<Longrightarrow>
   pool_summary p = Inr \<lparr>sum_borrowed_tokens = 0, sum_uncollected_fees = 0, sum_deposit_tokens = deposit_tokens p,
     sum_deposit_notes = deposit_notes p, sum_loan_notes = loan_notes p, sum_accrued_until = accrued_until p\<rparr>"
  by (simp add: pool_summary_def as_u64_ceil_def as_u64_def num_ZERO_def ten_pow_eq u192_defs U64_MAX_def u_range_def)

lemma sample_create_pool:
  "\<exists>e. create_pool_handler (instruction sample_runtime [1, 2] 5) (\<lambda>k. k = 1) sample_create 9 None sample_ledger =
     Inr (created_pool, created_ledger, e)"
  by (simp add: create_pool_handler_def sample_create_def Let_def load_mint_def sample_ledger_def require_signer_def
      create_token_account_def create_mint_def ledger_create_def ledger_create_mint_def created_pool_def
      created_ledger_def zeroed_pool_def pool_summary_no_loans)

definition sample_deposit :: DepositAccounts where
  "sample_deposit = \<lparr>dep_margin_pool = 100, dep_vault = 205, dep_deposit_note_mint = 213, dep_depositor = 60,
     dep_source = 50, dep_destination = 51\<rparr>"

lemma created_pool_simps [simp]:
  "borrowed_tokens created_pool = num_ZERO" "uncollected_fees created_pool = num_ZERO"
  "deposit_tokens created_pool = 0" "deposit_notes created_pool = 0" "loan_notes created_pool = 0"
  "accrued_until created_pool = 5" "vault created_pool = 205" "deposit_note_mint created_pool = 213"
  "config created_pool = default_config" "loan_note_mint created_pool = 210"
  by (simp_all add: created_pool_def zeroed_pool_def)

lemma created_pool_convert:
  "convert_amount created_pool (amount_tokens 500) Deposit = Inr \<lparr>fa_tokens = 500, fa_notes = 500\<rparr>"
  by (simp add: convert_amount_def deposit_note_exchange_rate_def total_value_def Let_def
      u_range_def ONE_def num_ONE_def num_ZERO_def max_def less_eq_Number_def
      convert_with_rounding_and_rate_def num_add_def num_sub_def num_div_def u192_defs
      as_u64_def ten_pow_eq U64_MAX_def num_from_def)

lemma sample_deposit_run:
  "\<exists>e. deposit_handler (instruction sample_runtime [60] 5) sample_deposit ShiftBy 500 created_pool noted_ledger =
     Inr (created_pool\<lparr>deposit_tokens := 500, deposit_notes := 500\<rparr>, deposited_ledger, e)"
proof -
  have a: "accrue_to_now (ledger_runtime sample_address [60] 5) created_pool = Inr created_pool"
    by (simp add: accrue_to_now_def accrue_interest_def plain_i_def i_range_def Let_def seconds_defs)
  have d: "pool_deposit created_pool \<lparr>fa_tokens = 500, fa_notes = 500\<rparr> =
      Inr (created_pool\<lparr>deposit_tokens := 500, deposit_notes := 500\<rparr>)"
    by (simp add: pool_deposit_Inr u_range_def)
  have s: "pool_signer (created_pool\<lparr>deposit_tokens := 500, deposit_notes := 500\<rparr>) = Inr [SeedKey 7, SeedInt 255]"
    by (simp add: pool_signer_def signer_seeds_def flag_defs default_config_def created_pool_def zeroed_pool_def)
  show ?thesis
    by (simp add: s may_spend_def u_range_def deposit_handler_def sample_deposit_def require_signer_def Let_def a calculate_full_amount_def
        created_pool_convert d pool_summary_no_loans accessor_amount_def load_token_account_def noted_ledger_def
        created_ledger_def sample_ledger_def deposited_ledger_def)
qed

text \<open>A depositor with an account for the notes pays 500 tokens in.\<close>

lemma sample_run:
  "(pool_step sample_runtime 3 (\<lambda>k. k = 1) 100)\<^sup>*\<^sup>* (created_pool, created_ledger, 0)
     (created_pool\<lparr>deposit_tokens := 500, deposit_notes := 500\<rparr>, deposited_ledger, 0)"
proof (rule converse_rtranclp_into_rtranclp)
  show "pool_step sample_runtime 3 (\<lambda>k. k = 1) 100 (created_pool, created_ledger, 0) (created_pool, noted_ledger, 0)"
    by (rule step_create_account [where k = 51 and
          ta = "\<lparr>ta_mint = 213, ta_owner = 60, ta_delegate = None, ta_amount = 0\<rparr>"])
      (simp add: sample_runtime_def ledger_create_def noted_ledger_def created_ledger_def sample_ledger_def)
next
  from sample_deposit_run obtain e where
    "deposit_handler (instruction sample_runtime [60] 5) sample_deposit ShiftBy 500 created_pool noted_ledger =
     Inr (created_pool\<lparr>deposit_tokens := 500, deposit_notes := 500\<rparr>, deposited_ledger, e)" by blast
  then have "pool_step sample_runtime 3 (\<lambda>k. k = 1) 100 (created_pool, noted_ledger, 0)
     (created_pool\<lparr>deposit_tokens := 500, deposit_notes := 500\<rparr>, deposited_ledger, 0)"
    by (intro step_deposit [of _ "[60]" sample_deposit]) (simp_all add: sample_deposit_def)
  then show "(pool_step sample_runtime 3 (\<lambda>k. k = 1) 100)\<^sup>*\<^sup>* (created_pool, noted_ledger, 0)
     (created_pool\<lparr>deposit_tokens := 500, deposit_notes := 500\<rparr>, deposited_ledger, 0)" by (rule r_into_rtranclp)
qed

theorem pool_stays_solvent_witness:
  "\<exists>v. lg_accounts deposited_ledger 205 = Some v \<and> 500 \<le> ta_amount v"
proof -
  from sample_create_pool obtain e where c:
    "create_pool_handler (instruction sample_runtime [1, 2] 5) (\<lambda>k. k = 1) sample_create 9 None sample_ledger =
     Inr (created_pool, created_ledger, e)" by blast
  have "spl_token sample_runtime" by (simp add: sample_runtime_def ledger_runtime_spl)
  moreover have "\<forall>k m. pda sample_runtime [SeedKey k, SeedKey m] \<noteq> pda sample_runtime [SeedKey 100, SeedBytes ''vault'']"
    by (simp add: sample_runtime_def)
  ultimately show ?thesis
    using pool_stays_solvent [OF _ _ c _ sample_run] by (auto simp: sample_create_def sample_runtime_def)
qed

end
