(* ===== verification/Airspaces.thy ===== *)
theory Airspaces
  imports Runtime
begin

text \<open>
  The airspace program, \<open>programs/airspace\<close>: the isolation boundaries of the protocol, who
  administers them, who may issue permits for them and the permits themselves.

  \<open>AirspaceState\<close> holds the accounts of the program by address. The properties state exactly who
  can create and revoke permits, which differs from the documentation in two places.
\<close>

subsection \<open>State\<close>

datatype AirspaceError = PermissionDenied

type_synonym 'a airspace_tx = "(AirspaceError, 'a) tx"

record Airspace =
  as_authority :: Pubkey
  as_is_restricted :: bool

record AirspacePermitIssuerId =
  ai_airspace :: Pubkey
  ai_issuer :: Pubkey

record AirspacePermit =
  ap_airspace :: Pubkey
  ap_owner :: Pubkey
  ap_issuer :: Pubkey

record AirspaceState =
  st_airspaces :: "Pubkey \<Rightarrow> Airspace option"
  st_issuers :: "Pubkey \<Rightarrow> AirspacePermitIssuerId option"
  st_permits :: "Pubkey \<Rightarrow> AirspacePermit option"
  st_governor :: "Pubkey option"

datatype AirspaceEvent =
    AirspaceCreated Pubkey string Pubkey bool
  | AirspaceAuthoritySet Pubkey Pubkey
  | AirspaceIssuerIdCreated Pubkey Pubkey
  | AirspaceIssuerIdRevoked Pubkey Pubkey
  | AirspacePermitCreated Pubkey Pubkey Pubkey
  | AirspacePermitRevoked Pubkey Pubkey

definition issuer_address :: "'l Runtime \<Rightarrow> Pubkey \<Rightarrow> Pubkey \<Rightarrow> Pubkey" where
  "issuer_address rt airspace issuer =
     pda rt [SeedBytes ''airspace-permit-issuer'', SeedKey airspace, SeedKey issuer]"

definition permit_address :: "'l Runtime \<Rightarrow> Pubkey \<Rightarrow> Pubkey \<Rightarrow> Pubkey" where
  "permit_address rt airspace owner = pda rt [SeedBytes ''airspace-permit'', SeedKey airspace, SeedKey owner]"

definition load_airspace :: "AirspaceState \<Rightarrow> Pubkey \<Rightarrow> Airspace airspace_tx" where
  "load_airspace s k = ok_or (st_airspaces s k) AccountErr"

lemma load_airspace_simps [simp]:
  "load_airspace s k = Inr a \<longleftrightarrow> st_airspaces s k = Some a"
  "st_airspaces s k = Some a \<Longrightarrow> load_airspace s k = Inr a"
  by (simp_all add: load_airspace_def)

subsection \<open>Instructions\<close>

text \<open>The governor's record is created when missing, with the governor built into the program.\<close>

definition create_governor_id_handler ::
  "'l Runtime \<Rightarrow> Pubkey \<Rightarrow> Pubkey \<Rightarrow> AirspaceState \<Rightarrow> AirspaceState airspace_tx" where
  "create_governor_id_handler rt governor_id payer s =
     bindE (require_signer rt payer) (\<lambda>_.
     let current = (case st_governor s of Some g \<Rightarrow> g | None \<Rightarrow> pubkey_default) in
     Inr (s\<lparr>st_governor := Some (if current = pubkey_default then governor_id else current)\<rparr>))"

definition set_governor_handler ::
  "'l Runtime \<Rightarrow> Pubkey \<Rightarrow> Pubkey \<Rightarrow> AirspaceState \<Rightarrow> AirspaceState airspace_tx" where
  "set_governor_handler rt governor new_governor s =
     bindE (require_signer rt governor) (\<lambda>_.
     bindE (constraint (st_governor s = Some governor)) (\<lambda>_.
     Inr (s\<lparr>st_governor := Some new_governor\<rparr>)))"

definition airspace_create_handler ::
  "'l Runtime \<Rightarrow> Pubkey \<Rightarrow> Pubkey \<Rightarrow> Pubkey \<Rightarrow> string \<Rightarrow> bool \<Rightarrow> Pubkey \<Rightarrow> AirspaceState \<Rightarrow>
     (AirspaceState \<times> AirspaceEvent) airspace_tx" where
  "airspace_create_handler rt payer airspace governor seed is_restricted authority s =
     bindE (require_signer rt payer) (\<lambda>_.
     bindE (require_signer rt governor) (\<lambda>_.
     bindE (constraint (st_governor s = Some governor)) (\<lambda>_.
     bindE (constraint (airspace = pda rt [SeedBytes ''airspace'', SeedBytes seed] \<and>
              st_airspaces s airspace = None)) (\<lambda>_.
     Inr (s\<lparr>st_airspaces := (st_airspaces s)
              (airspace \<mapsto> \<lparr>as_authority = authority, as_is_restricted = is_restricted\<rparr>)\<rparr>,
          AirspaceCreated airspace seed authority is_restricted)))))"

definition airspace_set_authority_handler ::
  "'l Runtime \<Rightarrow> Pubkey \<Rightarrow> Pubkey \<Rightarrow> Pubkey \<Rightarrow> AirspaceState \<Rightarrow> (AirspaceState \<times> AirspaceEvent) airspace_tx" where
  "airspace_set_authority_handler rt authority airspace new_authority s =
     bindE (require_signer rt authority) (\<lambda>_.
     bindE (load_airspace s airspace) (\<lambda>a.
     bindE (constraint (as_authority a = authority)) (\<lambda>_.
     Inr (s\<lparr>st_airspaces := (st_airspaces s)(airspace \<mapsto> a\<lparr>as_authority := new_authority\<rparr>)\<rparr>,
          AirspaceAuthoritySet airspace new_authority))))"

text \<open>The authority has to sign, but nothing relates it to the airspace.\<close>

definition airspace_permit_issuer_create_handler ::
  "'l Runtime \<Rightarrow> Pubkey \<Rightarrow> Pubkey \<Rightarrow> Pubkey \<Rightarrow> Pubkey \<Rightarrow> Pubkey \<Rightarrow> AirspaceState \<Rightarrow>
     (AirspaceState \<times> AirspaceEvent) airspace_tx" where
  "airspace_permit_issuer_create_handler rt payer authority airspace issuer_id issuer s =
     bindE (require_signer rt payer) (\<lambda>_.
     bindE (require_signer rt authority) (\<lambda>_.
     bindE (load_airspace s airspace) (\<lambda>_.
     bindE (constraint (issuer_id = issuer_address rt airspace issuer \<and> st_issuers s issuer_id = None)) (\<lambda>_.
     Inr (s\<lparr>st_issuers := (st_issuers s)(issuer_id \<mapsto> \<lparr>ai_airspace = airspace, ai_issuer = issuer\<rparr>)\<rparr>,
          AirspaceIssuerIdCreated airspace issuer)))))"

definition airspace_permit_issuer_revoke_handler ::
  "'l Runtime \<Rightarrow> Pubkey \<Rightarrow> Pubkey \<Rightarrow> Pubkey \<Rightarrow> Pubkey \<Rightarrow> AirspaceState \<Rightarrow>
     (AirspaceState \<times> AirspaceEvent) airspace_tx" where
  "airspace_permit_issuer_revoke_handler rt receiver authority airspace issuer_id s =
     bindE (require_signer rt receiver) (\<lambda>_.
     bindE (require_signer rt authority) (\<lambda>_.
     bindE (load_airspace s airspace) (\<lambda>a.
     bindE (constraint (as_authority a = authority)) (\<lambda>_.
     bindE (ok_or (st_issuers s issuer_id) AccountErr) (\<lambda>i.
     bindE (constraint (ai_airspace i = airspace)) (\<lambda>_.
     Inr (s\<lparr>st_issuers := (st_issuers s)(issuer_id := None)\<rparr>,
          AirspaceIssuerIdRevoked airspace (ai_issuer i))))))))"

definition airspace_permit_create_handler ::
  "'l Runtime \<Rightarrow> Pubkey \<Rightarrow> Pubkey \<Rightarrow> Pubkey \<Rightarrow> Pubkey \<Rightarrow> Pubkey \<Rightarrow> Pubkey \<Rightarrow> AirspaceState \<Rightarrow>
     (AirspaceState \<times> AirspaceEvent) airspace_tx" where
  "airspace_permit_create_handler rt payer authority airspace permit issuer_id owner s =
     bindE (require_signer rt payer) (\<lambda>_.
     bindE (require_signer rt authority) (\<lambda>_.
     bindE (load_airspace s airspace) (\<lambda>a.
     bindE (constraint (permit = permit_address rt airspace owner \<and> st_permits s permit = None)) (\<lambda>_.
     bindE (constraint (issuer_id = issuer_address rt airspace authority)) (\<lambda>_.
     bindE (if as_is_restricted a \<and> as_authority a \<noteq> authority then
              bindE (ok_or (st_issuers s issuer_id) AccountErr) (\<lambda>_. Inr ())
            else Inr ()) (\<lambda>_.
     let issuer = (if as_authority a = authority then airspace else authority) in
     Inr (s\<lparr>st_permits := (st_permits s)
              (permit \<mapsto> \<lparr>ap_airspace = airspace, ap_owner = owner, ap_issuer = issuer\<rparr>)\<rparr>,
          AirspacePermitCreated airspace issuer owner)))))))"

definition airspace_permit_revoke_handler ::
  "'l Runtime \<Rightarrow> Pubkey \<Rightarrow> Pubkey \<Rightarrow> Pubkey \<Rightarrow> Pubkey \<Rightarrow> Pubkey \<Rightarrow> AirspaceState \<Rightarrow>
     (AirspaceState \<times> AirspaceEvent) airspace_tx" where
  "airspace_permit_revoke_handler rt receiver authority airspace issuer_id permit s =
     bindE (require_signer rt receiver) (\<lambda>_.
     bindE (require_signer rt authority) (\<lambda>_.
     bindE (load_airspace s airspace) (\<lambda>a.
     bindE (ok_or (st_permits s permit) AccountErr) (\<lambda>p.
     bindE (constraint (issuer_id = issuer_address rt airspace (ap_issuer p))) (\<lambda>_.
     bindE (constraint (ap_airspace p = airspace)) (\<lambda>_.
     if authority \<noteq> as_authority a \<and> authority \<noteq> ap_issuer p then err (ProgramErr PermissionDenied)
     else if \<not> as_is_restricted a \<or> st_issuers s issuer_id \<noteq> None \<or> ap_issuer p = airspace
       then err (ProgramErr PermissionDenied)
     else Inr (s\<lparr>st_permits := (st_permits s)(permit := None)\<rparr>, AirspacePermitRevoked airspace permit)))))))"

subsection \<open>Permits\<close>

text \<open>
  A permit for an airspace is created exactly when its address is free and the signer is the
  airspace's authority, or the airspace is open to everybody, or the signer has an issuer's
  licence; it records the airspace itself as the issuer when its authority signed. A restricted
  airspace refuses everyone else.
\<close>

theorem permit_create_iff:
  assumes "st_airspaces s airspace = Some a" "payer \<in> set (rt_signers rt)" "authority \<in> set (rt_signers rt)"
  shows "(\<exists>r. airspace_permit_create_handler rt payer authority airspace (permit_address rt airspace owner)
        (issuer_address rt airspace authority) owner s = Inr r) \<longleftrightarrow>
      st_permits s (permit_address rt airspace owner) = None \<and>
      (authority = as_authority a \<or> \<not> as_is_restricted a \<or>
       st_issuers s (issuer_address rt airspace authority) \<noteq> None)"
    (is "(\<exists>r. ?h = Inr r) \<longleftrightarrow> _")
  using assms
  by (cases "st_issuers s (issuer_address rt airspace authority)")
    (auto simp: airspace_permit_create_handler_def require_signer_def Let_def)

definition sample_airspace :: AirspaceState where
  "sample_airspace =
     \<lparr>st_airspaces = [20 \<mapsto> \<lparr>as_authority = 1, as_is_restricted = True\<rparr>], st_issuers = Map.empty,
      st_permits = Map.empty, st_governor = Some 2\<rparr>"

fun airspace_pda :: "Seed list \<Rightarrow> Pubkey" where
  "airspace_pda [SeedBytes b, SeedKey a, SeedKey k] = 1000 * length b + k"
| "airspace_pda _ = 0"

definition airspace_runtime :: "Ledger Runtime" where
  "airspace_runtime = ledger_runtime airspace_pda [8, 9] 0"

theorem permit_create_iff_witness:
  "\<not> (\<exists>r. airspace_permit_create_handler airspace_runtime 8 9 20 (permit_address airspace_runtime 20 30)
        (issuer_address airspace_runtime 20 9) 30 sample_airspace = Inr r)"
  using permit_create_iff [of sample_airspace 20 "\<lparr>as_authority = 1, as_is_restricted = True\<rparr>" 8 airspace_runtime 9 30]
  by (simp add: sample_airspace_def airspace_runtime_def)

text \<open>
  The licence of an issuer is granted to whoever asks: with any signer for an authority, any
  address obtains a licence for any airspace, and with it creates permits for any owner in an
  airspace that is restricted to others.
\<close>

theorem anyone_becomes_issuer:
  assumes "st_airspaces s airspace = Some a" "{payer, who} \<subseteq> set (rt_signers rt)"
    and "st_issuers s (issuer_address rt airspace who) = None" "st_permits s (permit_address rt airspace owner) = None"
  shows "\<exists>s' e s'' e'.
    airspace_permit_issuer_create_handler rt payer who airspace (issuer_address rt airspace who) who s = Inr (s', e) \<and>
    airspace_permit_create_handler rt payer who airspace (permit_address rt airspace owner)
      (issuer_address rt airspace who) owner s' = Inr (s'', e') \<and>
    (\<exists>p. st_permits s'' (permit_address rt airspace owner) = Some p \<and> ap_airspace p = airspace \<and> ap_owner p = owner)"
  using assms
  by (simp add: airspace_permit_issuer_create_handler_def airspace_permit_create_handler_def require_signer_def
      Let_def)

theorem anyone_becomes_issuer_witness:
  "\<exists>s' e. airspace_permit_issuer_create_handler airspace_runtime 8 9 20 (issuer_address airspace_runtime 20 9) 9
     sample_airspace = Inr (s', e)"
  using anyone_becomes_issuer [of sample_airspace 20 "\<lparr>as_authority = 1, as_is_restricted = True\<rparr>" 8 9 airspace_runtime 30]
  by (simp add: sample_airspace_def airspace_runtime_def) blast

text \<open>
  A permit is revoked exactly when the airspace is restricted, a licensed issuer created it and
  has lost the licence since, and the signer is the airspace's authority or that issuer. So the
  authority cannot revoke the permits it issued, nor anyone those of an active issuer.
\<close>

theorem permit_revoke_iff:
  assumes "st_airspaces s airspace = Some a" "st_permits s permit = Some p" "ap_airspace p = airspace"
    and "{receiver, authority} \<subseteq> set (rt_signers rt)"
  shows "(\<exists>s' e. airspace_permit_revoke_handler rt receiver authority airspace
        (issuer_address rt airspace (ap_issuer p)) permit s = Inr (s', e) \<and> st_permits s' permit = None) \<longleftrightarrow>
      authority \<in> {as_authority a, ap_issuer p} \<and> as_is_restricted a \<and>
      st_issuers s (issuer_address rt airspace (ap_issuer p)) = None \<and> ap_issuer p \<noteq> airspace"
  using assms by (auto simp: airspace_permit_revoke_handler_def require_signer_def)

theorem permit_revoke_iff_witness:
  "\<not> (\<exists>s' e. airspace_permit_revoke_handler airspace_runtime 8 9 20 (issuer_address airspace_runtime 20 20) 77
        (sample_airspace\<lparr>st_airspaces := [20 \<mapsto> \<lparr>as_authority = 9, as_is_restricted = True\<rparr>],
           st_permits := [77 \<mapsto> \<lparr>ap_airspace = 20, ap_owner = 30, ap_issuer = 20\<rparr>]\<rparr>) = Inr (s', e) \<and>
      st_permits s' 77 = None)"
  using permit_revoke_iff [of "sample_airspace\<lparr>st_airspaces := [20 \<mapsto> \<lparr>as_authority = 9, as_is_restricted = True\<rparr>],
           st_permits := [77 \<mapsto> \<lparr>ap_airspace = 20, ap_owner = 30, ap_issuer = 20\<rparr>]\<rparr>" 20
      "\<lparr>as_authority = 9, as_is_restricted = True\<rparr>" 77 "\<lparr>ap_airspace = 20, ap_owner = 30, ap_issuer = 20\<rparr>" 8 9
      airspace_runtime]
  by (simp add: airspace_runtime_def)

subsection \<open>Authority\<close>

datatype AirspaceOp =
    CreateGovernor Pubkey
  | SetGovernor Pubkey Pubkey
  | CreateAirspace Pubkey Pubkey Pubkey string bool Pubkey
  | SetAuthority Pubkey Pubkey Pubkey
  | CreateIssuer Pubkey Pubkey Pubkey Pubkey Pubkey
  | RevokeIssuer Pubkey Pubkey Pubkey Pubkey
  | CreatePermit Pubkey Pubkey Pubkey Pubkey Pubkey Pubkey
  | RevokePermit Pubkey Pubkey Pubkey Pubkey Pubkey

definition state_only :: "(AirspaceState \<times> AirspaceEvent) airspace_tx \<Rightarrow> AirspaceState airspace_tx" where
  "state_only m = bindE m (\<lambda>(s, e). Inr s)"

fun airspace_exec :: "'l Runtime \<Rightarrow> Pubkey \<Rightarrow> AirspaceOp \<Rightarrow> AirspaceState \<Rightarrow> AirspaceState airspace_tx" where
  "airspace_exec rt g (CreateGovernor payer) s = create_governor_id_handler rt g payer s"
| "airspace_exec rt g (SetGovernor gov new) s = set_governor_handler rt gov new s"
| "airspace_exec rt g (CreateAirspace payer k gov seed r auth) s =
     state_only (airspace_create_handler rt payer k gov seed r auth s)"
| "airspace_exec rt g (SetAuthority auth k new) s = state_only (airspace_set_authority_handler rt auth k new s)"
| "airspace_exec rt g (CreateIssuer payer auth k i who) s =
     state_only (airspace_permit_issuer_create_handler rt payer auth k i who s)"
| "airspace_exec rt g (RevokeIssuer rec auth k i) s =
     state_only (airspace_permit_issuer_revoke_handler rt rec auth k i s)"
| "airspace_exec rt g (CreatePermit payer auth k p i owner) s =
     state_only (airspace_permit_create_handler rt payer auth k p i owner s)"
| "airspace_exec rt g (RevokePermit rec auth k i p) s =
     state_only (airspace_permit_revoke_handler rt rec auth k i p s)"

lemma airspaces_step:
  assumes "airspace_exec rt g op s = Inr s'"
  shows "(\<forall>k a. st_airspaces s k = Some a \<longrightarrow>
      (\<exists>a'. st_airspaces s' k = Some a' \<and> as_is_restricted a' = as_is_restricted a \<and>
        (as_authority a' \<noteq> as_authority a \<longrightarrow> as_authority a \<in> set (rt_signers rt)))) \<and>
    (\<forall>x. st_governor s = Some x \<and> x \<noteq> 0 \<and> st_governor s' \<noteq> Some x \<longrightarrow> x \<in> set (rt_signers rt)) \<and>
    (\<forall>k. st_airspaces s k = None \<and> st_airspaces s' k \<noteq> None \<longrightarrow>
      (\<exists>x. st_governor s = Some x \<and> x \<in> set (rt_signers rt)))"
proof (cases op)
  case (CreateGovernor payer)
  with assms show ?thesis
    by (auto simp: create_governor_id_handler_def Let_def pubkey_default_def split: option.splits if_split_asm)
next
  case (SetGovernor gov new)
  with assms show ?thesis by (auto simp: set_governor_handler_def)
next
  case (CreateAirspace payer k gov seed r auth)
  with assms show ?thesis by (auto simp: state_only_def airspace_create_handler_def)
next
  case (SetAuthority auth k new)
  with assms show ?thesis by (auto simp: state_only_def airspace_set_authority_handler_def split: if_split_asm)
next
  case (CreateIssuer payer auth k i who)
  with assms show ?thesis by (auto simp: state_only_def airspace_permit_issuer_create_handler_def)
next
  case (RevokeIssuer rec auth k i)
  with assms show ?thesis by (auto simp: state_only_def airspace_permit_issuer_revoke_handler_def)
next
  case (CreatePermit payer auth k p i owner)
  with assms show ?thesis
    by (auto simp: state_only_def airspace_permit_create_handler_def Let_def split: if_split_asm)
next
  case (RevokePermit rec auth k i p)
  with assms show ?thesis
    by (auto simp: state_only_def airspace_permit_revoke_handler_def split: if_split_asm)
qed

lemma licences_step:
  assumes "airspace_exec rt g op s = Inr s'"
  shows "st_issuers s k = Some i \<Longrightarrow> st_issuers s' k \<noteq> Some i \<Longrightarrow>
      \<exists>a. st_airspaces s (ai_airspace i) = Some a \<and> as_authority a \<in> set (rt_signers rt)"
    and "st_issuers s k = None \<Longrightarrow> st_issuers s' k = Some i \<Longrightarrow>
      k = issuer_address rt (ai_airspace i) (ai_issuer i) \<and> st_airspaces s (ai_airspace i) \<noteq> None"
  using assms
  by (cases op; auto simp: state_only_def create_governor_id_handler_def set_governor_handler_def airspace_create_handler_def
      airspace_set_authority_handler_def airspace_permit_issuer_create_handler_def airspace_permit_issuer_revoke_handler_def
      airspace_permit_create_handler_def airspace_permit_revoke_handler_def Let_def split: if_split_asm)+

lemma permits_step:
  assumes "airspace_exec rt g op s = Inr s'"
  shows "st_permits s k = Some p \<Longrightarrow> st_permits s' k \<noteq> Some p \<Longrightarrow>
      \<exists>a. st_airspaces s (ap_airspace p) = Some a \<and> as_is_restricted a \<and> ap_issuer p \<noteq> ap_airspace p \<and>
        st_issuers s (issuer_address rt (ap_airspace p) (ap_issuer p)) = None \<and>
        (as_authority a \<in> set (rt_signers rt) \<or> ap_issuer p \<in> set (rt_signers rt))"
    and "st_permits s k = None \<Longrightarrow> st_permits s' k = Some p \<Longrightarrow>
      k = permit_address rt (ap_airspace p) (ap_owner p) \<and>
      (\<exists>a. st_airspaces s (ap_airspace p) = Some a \<and>
        (as_authority a \<in> set (rt_signers rt) \<and> ap_issuer p = ap_airspace p \<or>
         ap_issuer p \<in> set (rt_signers rt) \<and>
         (as_is_restricted a \<longrightarrow> st_issuers s (issuer_address rt (ap_airspace p) (ap_issuer p)) \<noteq> None)))"
  using assms
  by (cases op; auto simp: state_only_def create_governor_id_handler_def set_governor_handler_def airspace_create_handler_def
      airspace_set_authority_handler_def airspace_permit_issuer_create_handler_def airspace_permit_issuer_revoke_handler_def
      airspace_permit_create_handler_def airspace_permit_revoke_handler_def Let_def split: if_split_asm)+

text \<open>
  C27: Who controls what in the airspace program, for each of its instructions. Airspaces: none is removed, no
  restriction is changed, the authority changes only with its own signature and a new airspace needs that of the
  governor, who is replaced only with the governor's own signature once set. Licences of issuers: one is withdrawn
  only with the signature of the airspace's authority; a new one names an airspace that exists, and no
  particular signature is needed, as \<open>anyone_becomes_issuer\<close> shows. Permits: a new one is issued by the airspace with
  its authority's signature, or by an issuer who signs and, if the airspace is restricted, has a licence; one is
  withdrawn only in a restricted airspace, when its issuer has no licence, with the signature of the authority or
  of the issuer.
\<close>

theorem airspace_control:
  assumes "airspace_exec rt g op s = Inr s'"
  shows "(\<forall>k a. st_airspaces s k = Some a \<longrightarrow>
      (\<exists>a'. st_airspaces s' k = Some a' \<and> as_is_restricted a' = as_is_restricted a \<and>
        (as_authority a' \<noteq> as_authority a \<longrightarrow> as_authority a \<in> set (rt_signers rt)))) \<and>
    (\<forall>x. st_governor s = Some x \<and> x \<noteq> 0 \<and> st_governor s' \<noteq> Some x \<longrightarrow> x \<in> set (rt_signers rt)) \<and>
    (\<forall>k. st_airspaces s k = None \<and> st_airspaces s' k \<noteq> None \<longrightarrow>
      (\<exists>x. st_governor s = Some x \<and> x \<in> set (rt_signers rt))) \<and>
    (\<forall>k i. st_issuers s k = Some i \<and> st_issuers s' k \<noteq> Some i \<longrightarrow>
      (\<exists>a. st_airspaces s (ai_airspace i) = Some a \<and> as_authority a \<in> set (rt_signers rt))) \<and>
    (\<forall>k i. st_issuers s k = None \<and> st_issuers s' k = Some i \<longrightarrow>
      k = issuer_address rt (ai_airspace i) (ai_issuer i) \<and> st_airspaces s (ai_airspace i) \<noteq> None) \<and>
    (\<forall>k p. st_permits s k = Some p \<and> st_permits s' k \<noteq> Some p \<longrightarrow>
      (\<exists>a. st_airspaces s (ap_airspace p) = Some a \<and> as_is_restricted a \<and> ap_issuer p \<noteq> ap_airspace p \<and>
        st_issuers s (issuer_address rt (ap_airspace p) (ap_issuer p)) = None \<and>
        (as_authority a \<in> set (rt_signers rt) \<or> ap_issuer p \<in> set (rt_signers rt)))) \<and>
    (\<forall>k p. st_permits s k = None \<and> st_permits s' k = Some p \<longrightarrow>
      k = permit_address rt (ap_airspace p) (ap_owner p) \<and>
      (\<exists>a. st_airspaces s (ap_airspace p) = Some a \<and>
        (as_authority a \<in> set (rt_signers rt) \<and> ap_issuer p = ap_airspace p \<or>
         ap_issuer p \<in> set (rt_signers rt) \<and>
         (as_is_restricted a \<longrightarrow> st_issuers s (issuer_address rt (ap_airspace p) (ap_issuer p)) \<noteq> None))))"
  (is "?a1 \<and> ?a2 \<and> ?a3 \<and> ?l1 \<and> ?l2 \<and> ?p1 \<and> ?p2")
proof (intro conjI)
  show ?a1 ?a2 ?a3 using airspaces_step [OF assms] by blast+
  show ?l1 ?l2 using licences_step [OF assms] by blast+
  show ?p1 ?p2 using permits_step [OF assms] by blast+
qed

theorem airspace_control_witness:
  "\<exists>s'. airspace_exec (ledger_runtime airspace_pda [1] 0) 2 (SetAuthority 1 20 5) sample_airspace = Inr s' \<and>
     (\<exists>a'. st_airspaces s' 20 = Some a' \<and> as_is_restricted a')"
proof -
  obtain s' where s: "airspace_exec (ledger_runtime airspace_pda [1] 0) 2 (SetAuthority 1 20 5) sample_airspace = Inr s'"
    by (simp add: state_only_def airspace_set_authority_handler_def require_signer_def sample_airspace_def)
  have "st_airspaces sample_airspace 20 = Some \<lparr>as_authority = 1, as_is_restricted = True\<rparr>"
    by (simp add: sample_airspace_def)
  with airspace_control [OF s] s show ?thesis by fastforce
qed

end
