(* ===== verification/MarginHandlers.thy ===== *)
theory MarginHandlers
  imports MarginAdapter PoolState Airspaces
begin

unbundle bit_operations_syntax

text \<open>
  The instructions of the margin program, \<open>programs/margin/src/instructions\<close>: accounts and
  positions, deposits, invocations of adapters, liquidation and configuration. As for the pool, the
  constraints of the \<open>Accounts\<close> struct stand at the start of a handler and a failed instruction
  leaves no trace. A handler takes the accounts it loads by value and returns what it writes back.
  Events are returned in the order in which they are emitted.
\<close>

subsection \<open>Shared\<close>

type_synonym 'a margin_tx = "(MarginError, 'a) tx"

record AdapterConfig =
  ac_airspace :: Pubkey
  ac_adapter_program :: Pubkey

record ValuationSummary =
  vs_equity :: int
  vs_liabilities :: int
  vs_required_collateral :: int
  vs_weighted_collateral :: int
  vs_effective_collateral :: int
  vs_available_collateral :: int
  vs_past_due :: bool

definition valuation_summary :: "Valuation \<Rightarrow> ValuationSummary margin_res" where
  "valuation_summary v =
     bindE (available_collateral v) (\<lambda>available.
     Inr \<lparr>vs_equity = n128_to_i128 (equity v), vs_liabilities = n128_to_i128 (liabilities v),
          vs_required_collateral = n128_to_i128 (required_collateral v),
          vs_weighted_collateral = n128_to_i128 (weighted_collateral v),
          vs_effective_collateral = n128_to_i128 (effective_collateral v),
          vs_available_collateral = n128_to_i128 available, vs_past_due = past_due v\<rparr>)"

record TokenConfigUpdate =
  tu_underlying_mint :: Pubkey
  tu_admin :: TokenAdmin
  tu_token_kind :: TokenKind
  tu_value_modifier :: nat
  tu_max_staleness :: nat

datatype MarginEvent =
    AccountCreated Pubkey Pubkey Pubkey nat
  | AccountClosed Pubkey
  | VerifiedHealthy Pubkey
  | VerifiedUnhealthy Pubkey
  | AccountingInvokeBegin Pubkey Pubkey
  | AccountingInvokeEnd
  | AdapterInvokeBegin Pubkey Pubkey
  | AdapterInvokeEnd
  | LiquidationBegun Pubkey Pubkey Pubkey Liquidation ValuationSummary
  | LiquidatorInvokeBegin Pubkey Pubkey Pubkey
  | LiquidatorInvokeEnd Liquidation ValuationSummary
  | LiquidationEnded Pubkey Pubkey bool
  | TransferPosition Pubkey Pubkey Pubkey Pubkey nat
  | TokenConfigured Pubkey "TokenConfigUpdate option" Pubkey
  | AdapterConfigured Pubkey Pubkey bool
  | PermitConfigured Pubkey Pubkey nat

text \<open>The clock as \<open>sys()\<close> reads it, and the program address that signs for an account.\<close>

definition sys_time :: "'l Runtime \<Rightarrow> nat" where
  "sys_time rt = cast_u64 (rt_clock rt)"

definition sys_of :: "'l Runtime \<Rightarrow> nat \<Rightarrow> Sys" where
  "sys_of rt height = \<lparr>sys_unix_timestamp = sys_time rt, sys_stack_height = height\<rparr>"

definition account_signer :: "MarginAccount \<Rightarrow> Seed list" where
  "account_signer a = [SeedKey (ma_owner a), SeedInt (ma_user_seed a), SeedInt (ma_bump_seed a)]"

definition ensure :: "bool \<Rightarrow> MarginError \<Rightarrow> unit margin_tx" where
  "ensure b e = guardE b (ProgramErr e)"

lemma ensure_Inr [simp]: "ensure b e = Inr u \<longleftrightarrow> b"
  by (simp add: ensure_def)

subsection \<open>Accounts\<close>

record CreateAccount =
  ca_owner :: Pubkey
  ca_payer :: Pubkey
  ca_margin_account :: Pubkey

text \<open>A new account is all zero.\<close>

definition zeroed_account :: MarginAccount where
  "zeroed_account =
     \<lparr>ma_version = 0, ma_bump_seed = 0, ma_user_seed = 0, ma_invocation = 0, ma_owner = 0, ma_airspace = 0,
      ma_liquidator = 0, ma_positions = empty_plist\<rparr>"

definition create_account_handler ::
  "'l Runtime \<Rightarrow> CreateAccount \<Rightarrow> AirspacePermit \<Rightarrow> nat \<Rightarrow> MarginAccount option \<Rightarrow>
     (MarginAccount \<times> MarginEvent) margin_tx" where
  "create_account_handler rt ac permit seed existing =
     bindE (require_signer rt (ca_owner ac)) (\<lambda>_.
     bindE (constraint (ap_owner permit = ca_owner ac)) (\<lambda>_.
     bindE (require_signer rt (ca_payer ac)) (\<lambda>_.
     bindE (constraint (existing = None \<and>
              ca_margin_account ac = pda rt [SeedKey (ca_owner ac), SeedInt seed])) (\<lambda>_.
     let bump = snd (rt_find_address rt [SeedKey (ca_owner ac), SeedInt seed]) in
     Inr (account_initialize (ap_airspace permit) (ca_owner ac) seed bump zeroed_account,
          AccountCreated (ca_margin_account ac) (ca_owner ac) (ap_airspace permit) seed)))))"

text \<open>Success closes the account; the caller's \<open>receiver\<close> gets the rent.\<close>

definition close_account_handler ::
  "'l Runtime \<Rightarrow> Pubkey \<Rightarrow> Pubkey \<Rightarrow> MarginAccount \<Rightarrow> MarginEvent margin_tx" where
  "close_account_handler rt owner key a =
     bindE (require_signer rt owner) (\<lambda>_.
     bindE (constraint (ma_owner a = owner)) (\<lambda>_.
     if length (account_positions a) > 0 then err (ProgramErr AccountNotEmpty)
     else Inr (AccountClosed key)))"

definition verify_healthy_handler :: "'l Runtime \<Rightarrow> Pubkey \<Rightarrow> MarginAccount \<Rightarrow> MarginEvent margin_tx" where
  "verify_healthy_handler rt key a =
     bindE (lift_tx (valuation (sys_time rt) a)) (\<lambda>v.
     bindE (lift_tx (verify_healthy v)) (\<lambda>_. Inr (VerifiedHealthy key)))"

definition verify_unhealthy_handler :: "'l Runtime \<Rightarrow> Pubkey \<Rightarrow> MarginAccount \<Rightarrow> MarginEvent margin_tx" where
  "verify_unhealthy_handler rt key a =
     bindE (lift_tx (valuation (sys_time rt) a)) (\<lambda>v.
     bindE (lift_tx (verify_unhealthy v)) (\<lambda>_. Inr (VerifiedUnhealthy key)))"

subsection \<open>Positions\<close>

record RegisterPosition =
  rg_authority :: Pubkey
  rg_payer :: Pubkey
  rg_margin_account :: Pubkey
  rg_position_token_mint :: Pubkey
  rg_token_account :: Pubkey

definition register_position_handler ::
  "'l Runtime \<Rightarrow> RegisterPosition \<Rightarrow> TokenConfig \<Rightarrow> MarginAccount \<Rightarrow> 'l \<Rightarrow> (MarginAccount \<times> 'l) margin_tx" where
  "register_position_handler rt ac c a l =
     bindE (require_signer rt (rg_authority ac)) (\<lambda>_.
     bindE (require_signer rt (rg_payer ac)) (\<lambda>_.
     bindE (load_mint rt l (rg_position_token_mint ac)) (\<lambda>mint.
     bindE (constraint (ma_airspace a = tc_airspace c \<and> tc_mint c = rg_position_token_mint ac)) (\<lambda>_.
     bindE (constraint (rg_token_account ac =
              pda rt [SeedKey (rg_margin_account ac), SeedKey (rg_position_token_mint ac)])) (\<lambda>_.
     bindE (create_token_account rt (rg_token_account ac) (rg_position_token_mint ac) (rg_margin_account ac) l) (\<lambda>l.
     bindE (lift_tx (verify_authority (rg_authority ac) a)) (\<lambda>_.
     bindE (ok_or (adapter_program c) (ProgramErr InvalidConfig)) (\<lambda>adapter.
     bindE (lift_tx (register_position (new_from_config c (mint_decimals mint) (rg_token_account ac) adapter)
              [MarginAccountAuthority] a)) (\<lambda>(a, key).
     Inr (a, l))))))))))"

record ClosePosition =
  cs_authority :: Pubkey
  cs_receiver :: Pubkey
  cs_margin_account :: Pubkey
  cs_position_token_mint :: Pubkey
  cs_token_account :: Pubkey

definition close_position_handler ::
  "'l Runtime \<Rightarrow> ClosePosition \<Rightarrow> MarginAccount \<Rightarrow> 'l \<Rightarrow> (MarginAccount \<times> 'l) margin_tx" where
  "close_position_handler rt ac a l =
     bindE (require_signer rt (cs_authority ac)) (\<lambda>_.
     bindE (load_mint rt l (cs_position_token_mint ac)) (\<lambda>_.
     bindE (load_token_account rt l (cs_token_account ac)) (\<lambda>t.
     bindE (lift_tx (verify_authority (cs_authority ac) a)) (\<lambda>_.
     bindE (lift_tx (unregister_position (cs_position_token_mint ac) (cs_token_account ac)
              [MarginAccountAuthority] a)) (\<lambda>a.
     if ta_owner t = cs_margin_account ac then
       bindE (token_cpi_signed rt (account_signer a)
                (TokenClose (cs_token_account ac) (cs_receiver ac) (cs_margin_account ac)) l) (\<lambda>l.
       Inr (a, l))
     else Inr (a, l))))))"

definition update_position_balance_handler ::
  "'l Runtime \<Rightarrow> Pubkey \<Rightarrow> MarginAccount \<Rightarrow> 'l \<Rightarrow> MarginAccount margin_tx" where
  "update_position_balance_handler rt token_key a l =
     bindE (load_token_account rt l token_key) (\<lambda>t.
     bindE (lift_tx (set_position_balance (ta_mint t) token_key (ta_amount t) (sys_time rt) a)) (\<lambda>(a, p).
     Inr a))"

definition refresh_position_config_handler ::
  "'l Runtime \<Rightarrow> TokenConfig \<Rightarrow> Permit \<Rightarrow> Pubkey \<Rightarrow> MarginAccount \<Rightarrow> MarginAccount margin_tx" where
  "refresh_position_config_handler rt c permit refresher a =
     bindE (ensure (tc_airspace c = ma_airspace a) WrongAirspace) (\<lambda>_.
     bindE (ensure (permit_airspace permit = ma_airspace a) WrongAirspace) (\<lambda>_.
     bindE (require_signer rt refresher) (\<lambda>_.
     bindE (lift_tx (permit_validate permit (ma_airspace a) refresher PERM_REFRESH_POSITION_CONFIG)) (\<lambda>_.
     bindE (lift_tx (refresh_position_metadata (tc_mint c) (tc_token_kind c) (tc_value_modifier c)
              (tc_max_staleness c) a)) (\<lambda>(a, p).
     Inr a)))))"

subsection \<open>Deposits\<close>

record CreateDepositPosition =
  cd_authority :: Pubkey
  cd_payer :: Pubkey
  cd_margin_account :: Pubkey
  cd_mint :: Pubkey
  cd_token_account :: Pubkey

text \<open>\<open>associated owner mint\<close> is the address of the associated token account.\<close>

definition create_deposit_position_handler ::
  "'l Runtime \<Rightarrow> (Pubkey \<Rightarrow> Pubkey \<Rightarrow> Pubkey) \<Rightarrow> CreateDepositPosition \<Rightarrow> TokenConfig \<Rightarrow> MarginAccount \<Rightarrow> 'l \<Rightarrow>
     MarginAccount margin_tx" where
  "create_deposit_position_handler rt associated ac c a l =
     bindE (require_signer rt (cd_authority ac)) (\<lambda>_.
     bindE (require_signer rt (cd_payer ac)) (\<lambda>_.
     bindE (load_mint rt l (cd_mint ac)) (\<lambda>mint.
     bindE (constraint (tc_mint c = cd_mint ac)) (\<lambda>_.
     bindE (ensure (tc_airspace c = ma_airspace a) WrongAirspace) (\<lambda>_.
     bindE (load_token_account rt l (cd_token_account ac)) (\<lambda>t.
     bindE (constraint (ta_mint t = cd_mint ac \<and> ta_owner t = cd_margin_account ac \<and>
              cd_token_account ac = associated (cd_margin_account ac) (cd_mint ac))) (\<lambda>_.
     bindE (lift_tx (verify_authority (cd_authority ac) a)) (\<lambda>_.
     bindE (lift_tx (register_position (new_from_config c (mint_decimals mint) (cd_token_account ac)
              (case adapter_program c of Some x \<Rightarrow> x | None \<Rightarrow> pubkey_default))
              [MarginAccountAuthority] a)) (\<lambda>(a, key).
     Inr a)))))))))"

text \<open>The feed is what the Pyth library decodes from the oracle account: price and moving average.\<close>

definition refresh_deposit_position_handler ::
  "'l Runtime \<Rightarrow> TokenConfig \<Rightarrow> Pubkey \<Rightarrow> (PythPrice \<times> PythPrice) option \<Rightarrow> Pubkey option \<Rightarrow>
     MarginAccount \<Rightarrow> 'l \<Rightarrow> MarginAccount margin_tx" where
  "refresh_deposit_position_handler rt c oracle_key feed token_key a l =
     bindE (ensure (tc_airspace c = ma_airspace a) WrongAirspace) (\<lambda>_.
     case token_oracle c of
       None \<Rightarrow> err (ProgramErr InvalidOracle)
     | Some oracle \<Rightarrow>
         bindE (ensure (oracle_key = oracle_price oracle) InvalidOracle) (\<lambda>_.
         bindE (ok_or feed (ProgramErr InvalidOracle)) (\<lambda>(price_obj, ema_obj).
         let price_info = \<lparr>pc_value = px_price price_obj, pc_confidence = px_conf price_obj,
               pc_twap = px_price ema_obj, pc_publish_time = px_publish_time price_obj,
               pc_exponent = px_expo price_obj\<rparr> in
         bindE (case token_key of
                  None \<Rightarrow> Inr a
                | Some k \<Rightarrow>
                    bindE (accessor_amount rt l k) (\<lambda>balance.
                    bindE (lift_tx (set_position_balance (tc_mint c) k balance (sys_time rt) a)) (\<lambda>(a, p).
                    Inr a))) (\<lambda>a.
         bindE (lift_tx (price_change_try_into price_info (cast_i64 (sys_time rt)))) (\<lambda>price.
         lift_tx (set_position_price (tc_mint c) price a))))))"

record TransferDeposit =
  td_owner :: Pubkey
  td_margin_account :: Pubkey
  td_source_owner :: Pubkey
  td_source :: Pubkey
  td_destination :: Pubkey

definition transfer_deposit_handler ::
  "'l Runtime \<Rightarrow> TransferDeposit \<Rightarrow> nat \<Rightarrow> MarginAccount \<Rightarrow> 'l \<Rightarrow> (MarginAccount \<times> 'l) margin_tx" where
  "transfer_deposit_handler rt ac amount a l =
     bindE (require_signer rt (td_owner ac)) (\<lambda>_.
     bindE (constraint (ma_owner a = td_owner ac)) (\<lambda>_.
     bindE (load_token_account rt l (td_source ac)) (\<lambda>source.
     bindE (load_token_account rt l (td_destination ac)) (\<lambda>_.
     bindE (lift_tx (get_position (ta_mint source) a)) (\<lambda>position.
     bindE (ok_or position (ProgramErr PositionNotRegistered)) (\<lambda>p.
     if pos_address p = td_source ac then
       bindE (token_cpi_signed rt (account_signer a)
                (TokenTransfer (td_source ac) (td_destination ac) (td_margin_account ac) amount) l) (\<lambda>l.
       bindE (load_token_account rt l (td_source ac)) (\<lambda>source.
       bindE (lift_tx (set_position_balance (ta_mint source) (td_source ac) (ta_amount source)
                (sys_time rt) a)) (\<lambda>(a, p).
       Inr (a, l))))
     else
       bindE (token_cpi rt (TokenTransfer (td_source ac) (td_destination ac) (td_source_owner ac) amount) l) (\<lambda>l.
       bindE (load_token_account rt l (td_destination ac)) (\<lambda>destination.
       bindE (lift_tx (set_position_balance (ta_mint destination) (td_destination ac) (ta_amount destination)
                (sys_time rt) a)) (\<lambda>(a, p).
       Inr (a, l))))))))))"

record AdminTransferPosition =
  tp_authority :: Pubkey
  tp_target_account :: Pubkey
  tp_source_account :: Pubkey
  tp_source_token_account :: Pubkey
  tp_target_token_account :: Pubkey

text \<open>Two accounts that are borrowed mutably must differ.\<close>

definition admin_transfer_position_handler ::
  "'l Runtime \<Rightarrow> Pubkey \<Rightarrow> AdminTransferPosition \<Rightarrow> nat \<Rightarrow> MarginAccount \<Rightarrow> MarginAccount \<Rightarrow> 'l \<Rightarrow>
     (MarginAccount \<times> MarginAccount \<times> 'l \<times> MarginEvent) margin_tx" where
  "admin_transfer_position_handler rt governor ac amount source target l =
     bindE (require_signer rt (tp_authority ac)) (\<lambda>_.
     bindE (constraint (tp_authority ac = governor)) (\<lambda>_.
     bindE (load_token_account rt l (tp_source_token_account ac)) (\<lambda>_.
     bindE (load_token_account rt l (tp_target_token_account ac)) (\<lambda>_.
     bindE (token_cpi_signed rt (account_signer source) (TokenTransfer (tp_source_token_account ac)
              (tp_target_token_account ac) (tp_source_account ac) amount) l) (\<lambda>l.
     bindE (load_token_account rt l (tp_source_token_account ac)) (\<lambda>source_tokens.
     bindE (load_token_account rt l (tp_target_token_account ac)) (\<lambda>target_tokens.
     bindE (constraint (tp_source_account ac \<noteq> tp_target_account ac)) (\<lambda>_.
     bindE (lift_tx (set_position_balance (ta_mint source_tokens) (tp_source_token_account ac)
              (ta_amount source_tokens) (sys_time rt) source)) (\<lambda>(source, p).
     bindE (lift_tx (set_position_balance (ta_mint target_tokens) (tp_target_token_account ac)
              (ta_amount target_tokens) (sys_time rt) target)) (\<lambda>(target, q).
     Inr (source, target, l, TransferPosition (tp_source_account ac) (tp_target_account ac)
            (tp_source_token_account ac) (tp_target_token_account ac) amount)))))))))))"

subsection \<open>Invoking adapters\<close>

definition check_adapter :: "AdapterConfig \<Rightarrow> Pubkey \<Rightarrow> MarginAccount \<Rightarrow> unit margin_tx" where
  "check_adapter c program a =
     bindE (constraint (ac_adapter_program c = program)) (\<lambda>_.
     ensure (ac_airspace c = ma_airspace a) WrongAirspace)"

text \<open>
  \<open>program\<close> is the code at the adapter's address and \<open>infos\<close> are the remaining accounts of the
  instruction. The margin account is written back, the other accounts are as the adapter left them.
\<close>

definition adapter_invoke_handler ::
  "'l Runtime \<Rightarrow> nat \<Rightarrow> AdapterProgram \<Rightarrow> Pubkey \<Rightarrow> Pubkey \<Rightarrow> Pubkey \<Rightarrow> AdapterConfig \<Rightarrow> AccountInfo list \<Rightarrow> nat list \<Rightarrow>
     MarginAccount \<Rightarrow> (MarginAccount \<times> AccountInfo list \<times> MarginEvent list) margin_tx" where
  "adapter_invoke_handler rt height program owner key adapter c infos data a =
     bindE (require_signer rt owner) (\<lambda>_.
     bindE (constraint (ma_owner a = owner)) (\<lambda>_.
     bindE (check_adapter c adapter a) (\<lambda>_.
     if ma_liquidator a \<noteq> pubkey_default then err (ProgramErr Liquidating)
     else
       bindE (lift_tx (adapter_invoke_with program (sys_of rt height)
                \<lparr>ic_adapter_program = adapter, ic_accounts = infos, ic_signed = True\<rparr> data a)) (\<lambda>(a, infos).
       bindE (lift_tx (valuation (sys_time rt) a)) (\<lambda>v.
       bindE (lift_tx (verify_healthy v)) (\<lambda>_.
       Inr (a, infos, [AdapterInvokeBegin key adapter, AdapterInvokeEnd])))))))"

definition accounting_invoke_handler ::
  "'l Runtime \<Rightarrow> nat \<Rightarrow> AdapterProgram \<Rightarrow> Pubkey \<Rightarrow> Pubkey \<Rightarrow> AdapterConfig \<Rightarrow> AccountInfo list \<Rightarrow> nat list \<Rightarrow>
     MarginAccount \<Rightarrow> (MarginAccount \<times> AccountInfo list \<times> MarginEvent list) margin_tx" where
  "accounting_invoke_handler rt height program key adapter c infos data a =
     bindE (check_adapter c adapter a) (\<lambda>_.
     bindE (lift_tx (adapter_invoke_with program (sys_of rt height)
              \<lparr>ic_adapter_program = adapter, ic_accounts = infos, ic_signed = False\<rparr> data a)) (\<lambda>(a, infos).
     Inr (a, infos, [AccountingInvokeBegin key adapter, AccountingInvokeEnd])))"

subsection \<open>Liquidation\<close>

record LiquidateBegin =
  lb_margin_account :: Pubkey
  lb_payer :: Pubkey
  lb_liquidator :: Pubkey
  lb_liquidation :: Pubkey

definition liquidate_begin_handler ::
  "'l Runtime \<Rightarrow> LiquidateBegin \<Rightarrow> Permit \<Rightarrow> LiquidationState option \<Rightarrow> MarginAccount \<Rightarrow>
     (MarginAccount \<times> LiquidationState \<times> MarginEvent) margin_tx" where
  "liquidate_begin_handler rt ac permit existing a =
     bindE (require_signer rt (lb_payer ac)) (\<lambda>_.
     bindE (require_signer rt (lb_liquidator ac)) (\<lambda>_.
     bindE (ensure (permit_owner permit = lb_liquidator ac) UnauthorizedLiquidator) (\<lambda>_.
     bindE (ensure (permit_permissions permit AND PERM_LIQUIDATE = PERM_LIQUIDATE) UnauthorizedLiquidator) (\<lambda>_.
     bindE (ensure (permit_airspace permit = ma_airspace a) WrongAirspace) (\<lambda>_.
     bindE (constraint (existing = None \<and> lb_liquidation ac =
              pda rt [SeedBytes ''liquidation'', SeedKey (lb_margin_account ac), SeedKey (lb_liquidator ac)])) (\<lambda>_.
     bindE (lift_tx (valuation (sys_time rt) a)) (\<lambda>v.
     bindE (lift_tx (verify_unhealthy v)) (\<lambda>_.
     if ma_liquidator a = lb_liquidator ac then panic
     else if ma_liquidator a \<noteq> pubkey_default then err (ProgramErr Liquidating)
     else
       let a = start_liquidation (lb_liquidator ac) a in
       bindE (lift_tx (valuation (sys_time rt) a)) (\<lambda>v.
       bindE (lift_tx (n128_from_bps LIQUIDATION_MAX_TOTAL_EQUITY_LOSS_BPS)) (\<lambda>bps.
       bindE (lift_tx (n128_mul (liabilities v) bps)) (\<lambda>max_loss.
       let state = \<lparr>ls_liquidator = lb_liquidator ac, ls_margin_account = lb_margin_account ac,
             ls_state = liquidation_new (rt_clock rt) max_loss\<rparr> in
       bindE (lift_tx (valuation_summary v)) (\<lambda>summary.
       Inr (a, state, LiquidationBegun (lb_margin_account ac) (lb_liquidator ac) (lb_liquidation ac)
              (ls_state state) summary)))))))))))))"

text \<open>Success closes the liquidation record.\<close>

definition liquidate_end_handler ::
  "'l Runtime \<Rightarrow> Pubkey \<Rightarrow> Pubkey \<Rightarrow> LiquidationState \<Rightarrow> MarginAccount \<Rightarrow> (MarginAccount \<times> MarginEvent) margin_tx" where
  "liquidate_end_handler rt authority key s a =
     bindE (require_signer rt authority) (\<lambda>_.
     bindE (ensure (ma_liquidator a = ls_liquidator s) UnauthorizedLiquidator) (\<lambda>_.
     bindE (ensure (ls_margin_account s = key) WrongLiquidationState) (\<lambda>_.
     bindE (plain_i 64 (rt_clock rt - lq_start_time (ls_state s))) (\<lambda>elapsed.
     let timed_out = elapsed \<ge> LIQUIDATION_TIMEOUT in
     if ma_liquidator a \<noteq> authority \<and> \<not> timed_out then err (ProgramErr UnauthorizedLiquidator)
     else Inr (end_liquidation a, LiquidationEnded key authority timed_out)))))"

definition update_and_verify_liquidation ::
  "nat \<Rightarrow> MarginAccount \<Rightarrow> Liquidation \<Rightarrow> Valuation \<Rightarrow> (Liquidation \<times> Valuation) margin_res" where
  "update_and_verify_liquidation timestamp a q start_value =
     bindE (valuation timestamp a) (\<lambda>end_value.
     bindE (n128_sub (equity start_value) (equity end_value)) (\<lambda>loss.
     bindE (n128_add (lq_equity_loss q) loss) (\<lambda>total.
     let q = q\<lparr>lq_equity_loss := total\<rparr> in
     if lq_equity_loss q > max_equity_loss q then err LiquidationLostValue
     else Inr (q, end_value))))"

definition liquidator_invoke_handler ::
  "'l Runtime \<Rightarrow> nat \<Rightarrow> AdapterProgram \<Rightarrow> Pubkey \<Rightarrow> Pubkey \<Rightarrow> Pubkey \<Rightarrow> AdapterConfig \<Rightarrow> AccountInfo list \<Rightarrow> nat list \<Rightarrow>
     LiquidationState \<Rightarrow> MarginAccount \<Rightarrow>
     (MarginAccount \<times> LiquidationState \<times> AccountInfo list \<times> MarginEvent list) margin_tx" where
  "liquidator_invoke_handler rt height program liquidator key adapter c infos data s a =
     bindE (require_signer rt liquidator) (\<lambda>_.
     bindE (constraint (ls_liquidator s = liquidator \<and> ls_margin_account s = key)) (\<lambda>_.
     bindE (check_adapter c adapter a) (\<lambda>_.
     bindE (lift_tx (valuation (sys_time rt) a)) (\<lambda>start_value.
     bindE (lift_tx (adapter_invoke_with program (sys_of rt height)
              \<lparr>ic_adapter_program = adapter, ic_accounts = infos, ic_signed = True\<rparr> data a)) (\<lambda>(a, infos).
     bindE (lift_tx (update_and_verify_liquidation (sys_time rt) a (ls_state s) start_value)) (\<lambda>(q, end_value).
     bindE (lift_tx (valuation_summary end_value)) (\<lambda>summary.
     Inr (a, s\<lparr>ls_state := q\<rparr>, infos,
          [LiquidatorInvokeBegin key adapter liquidator, LiquidatorInvokeEnd q summary]))))))))"

subsection \<open>Configuration\<close>

definition configure_account_airspace_handler :: "Pubkey \<Rightarrow> MarginAccount \<Rightarrow> MarginAccount margin_tx" where
  "configure_account_airspace_handler default_airspace a =
     (if ma_airspace a \<noteq> pubkey_default then err (ProgramErr AlreadyJoinedAirspace)
      else Inr (a\<lparr>ma_airspace := default_airspace\<rparr>))"

text \<open>
  An airspace comes with its address. The three configuration accounts exist at an address
  derived from the airspace and their subject, and are created when missing; \<open>None\<close> is a missing
  or a closed account.
\<close>

definition airspace_authority :: "'l Runtime \<Rightarrow> Pubkey \<Rightarrow> Airspace \<Rightarrow> Pubkey \<Rightarrow> unit margin_tx" where
  "airspace_authority rt authority airspace payer =
     bindE (require_signer rt authority) (\<lambda>_.
     bindE (constraint (as_authority airspace = authority)) (\<lambda>_.
     require_signer rt payer))"

definition configure_adapter_handler ::
  "'l Runtime \<Rightarrow> Pubkey \<Rightarrow> Pubkey \<times> Airspace \<Rightarrow> Pubkey \<Rightarrow> Pubkey \<Rightarrow> Pubkey \<Rightarrow> bool \<Rightarrow> AdapterConfig option \<Rightarrow>
     (AdapterConfig option \<times> MarginEvent) margin_tx" where
  "configure_adapter_handler rt authority airspace payer program key is_adapter existing =
     bindE (airspace_authority rt authority (snd airspace) payer) (\<lambda>_.
     bindE (constraint (key = pda rt [SeedBytes ''adapter-config'', SeedKey (fst airspace), SeedKey program])) (\<lambda>_.
     let event = AdapterConfigured (fst airspace) program is_adapter in
     if \<not> is_adapter then Inr (None, event)
     else Inr (Some \<lparr>ac_airspace = fst airspace, ac_adapter_program = program\<rparr>, event)))"

definition configure_permit_handler ::
  "'l Runtime \<Rightarrow> Pubkey \<Rightarrow> Pubkey \<times> Airspace \<Rightarrow> Pubkey \<Rightarrow> Pubkey \<Rightarrow> Pubkey \<Rightarrow> bool \<Rightarrow> nat \<Rightarrow> Permit option \<Rightarrow>
     (Permit option \<times> MarginEvent) margin_tx" where
  "configure_permit_handler rt authority airspace payer owner key test flag existing =
     bindE (airspace_authority rt authority (snd airspace) payer) (\<lambda>_.
     bindE (constraint (key = pda rt [SeedBytes ''permit'', SeedKey (fst airspace), SeedKey owner])) (\<lambda>_.
     let old = (case existing of Some p \<Rightarrow> permit_permissions p | None \<Rightarrow> 0);
         permissions = (if test then old OR flag else old AND ((2 ^ 32 - 1) XOR flag));
         event = PermitConfigured (fst airspace) owner permissions in
     if permissions = 0 then Inr (None, event)
     else Inr (Some \<lparr>permit_airspace = fst airspace, permit_owner = owner,
                      permit_permissions = permissions\<rparr>, event)))"

definition configure_token_handler ::
  "'l Runtime \<Rightarrow> Pubkey \<Rightarrow> Pubkey \<times> Airspace \<Rightarrow> Pubkey \<Rightarrow> Pubkey \<Rightarrow> Pubkey \<Rightarrow> TokenConfigUpdate option \<Rightarrow>
     TokenConfig option \<Rightarrow> 'l \<Rightarrow> (TokenConfig option \<times> MarginEvent) margin_tx" where
  "configure_token_handler rt authority airspace payer mint key updated_config existing l =
     bindE (airspace_authority rt authority (snd airspace) payer) (\<lambda>_.
     bindE (load_mint rt l mint) (\<lambda>_.
     bindE (constraint (key = pda rt [SeedBytes ''token-config'', SeedKey (fst airspace), SeedKey mint])) (\<lambda>_.
     let event = TokenConfigured (fst airspace) updated_config mint;
         old = (case existing of Some c \<Rightarrow> tc_underlying_mint c | None \<Rightarrow> pubkey_default) in
     case updated_config of
       None \<Rightarrow> Inr (None, event)
     | Some u \<Rightarrow>
         if old \<noteq> pubkey_default \<and> tu_underlying_mint u \<noteq> old then err (ProgramErr InvalidConfig)
         else
           let c = \<lparr>tc_mint = mint, tc_underlying_mint = tu_underlying_mint u, tc_airspace = fst airspace,
                 tc_token_kind = tu_token_kind u, tc_value_modifier = tu_value_modifier u,
                 tc_max_staleness = tu_max_staleness u, tc_admin = tu_admin u\<rparr> in
           bindE (lift_tx (tokenconfig_validate c)) (\<lambda>_. Inr (Some c, event)))))"

end
