(* ===== verification/MarginLiquidation.thy ===== *)
theory MarginLiquidation
  imports MarginHandlers
begin

text \<open>
  Properties of the margin program's instructions: what a successful invocation guarantees, the
  liquidation of an account from its begin to its end, and where the checks fall short of that.

  \<open>MarginWorld\<close> holds the margin accounts and the liquidation records by address and \<open>margin_step\<close>
  is any instruction of the program on them, in any order and by any signers.
\<close>

subsection \<open>What an instruction keeps of an account\<close>

definition keeps :: "MarginAccount \<Rightarrow> MarginAccount \<Rightarrow> bool" where
  "keeps a b \<longleftrightarrow> account_inv b \<and> ma_liquidator b = ma_liquidator a \<and> ma_invocation b = ma_invocation a"

lemma register_keeps:
  assumes "register_position c ap a = Inr (b, k)" "account_inv a" "pcu_mint c \<noteq> 0"
  shows "keeps a b"
proof -
  have "wf_account a" using assms(2) by (simp add: account_inv_def)
  with register_position_spec [OF this assms(3,1)] have "same_owner a b" by simp
  moreover have "account_inv b"
    by (rule account_exec_inv [of "Register c ap" a]) (use assms in \<open>simp_all add: op_mint_ok_def\<close>)
  ultimately show ?thesis by (simp add: keeps_def same_owner_def)
qed

lemma unregister_keeps:
  assumes "unregister_position m acc ap a = Inr b" "account_inv a"
  shows "keeps a b"
proof -
  have wf: "wf_account a" using assms(2) by (simp add: account_inv_def)
  from unregister_position_spec [OF wf assms(1)] have "same_owner a b" by auto
  moreover have "account_inv b"
    by (rule account_exec_inv [of "Unregister m acc ap" a]) (use assms in \<open>simp_all add: op_mint_ok_def\<close>)
  ultimately show ?thesis by (simp add: keeps_def same_owner_def)
qed

lemma set_balance_keeps:
  assumes "set_position_balance m acc n t a = Inr (b, p)" "account_inv a"
  shows "keeps a b"
proof -
  have wf: "wf_account a" using assms(2) by (simp add: account_inv_def)
  from set_position_balance_spec [OF wf assms(1)] have "same_owner a b" by auto
  moreover have "account_inv b"
    by (rule account_exec_inv [of "SetBalance m acc n t" a]) (use assms in \<open>simp_all add: op_mint_ok_def\<close>)
  ultimately show ?thesis by (simp add: keeps_def same_owner_def)
qed

lemma set_price_keeps:
  assumes "set_position_price m px a = Inr b" "account_inv a"
  shows "keeps a b"
proof -
  have wf: "wf_account a" using assms(2) by (simp add: account_inv_def)
  from set_position_price_spec [OF wf assms(1)] have "same_owner a b" by auto
  moreover have "account_inv b"
    by (rule account_exec_inv [of "SetPrice m px" a]) (use assms in \<open>simp_all add: op_mint_ok_def\<close>)
  ultimately show ?thesis by (simp add: keeps_def same_owner_def)
qed

lemma refresh_keeps:
  assumes "refresh_position_metadata m k vm ms a = Inr (b, p)" "account_inv a"
  shows "keeps a b"
proof -
  have wf: "wf_account a" using assms(2) by (simp add: account_inv_def)
  from refresh_position_metadata_spec [OF wf assms(1)] have "same_owner a b" by auto
  moreover have "account_inv b"
    by (rule account_exec_inv [of "Refresh m k vm ms" a]) (use assms in \<open>simp_all add: op_mint_ok_def\<close>)
  ultimately show ?thesis by (simp add: keeps_def same_owner_def)
qed

lemma keeps_refl: "account_inv a \<Longrightarrow> keeps a a"
  by (simp add: keeps_def)

lemma keeps_trans: "keeps a b \<Longrightarrow> keeps b c \<Longrightarrow> keeps a c"
  by (simp add: keeps_def)

lemmas keeps_ops = register_keeps unregister_keeps set_balance_keeps set_price_keeps refresh_keeps

text \<open>An adapter whose results name no mint at the all-zero address, called at a legal height.\<close>

definition sane_adapter :: "AdapterProgram \<Rightarrow> bool" where
  "sane_adapter program \<longleftrightarrow>
     (\<forall>signed infos s data infos' r. program signed infos s data = Inr (infos', r) \<longrightarrow> result_ok r)"

definition sane_height :: "nat \<Rightarrow> bool" where
  "sane_height h \<longleftrightarrow> 0 < h \<and> h < 8"

lemma invoke_frame:
  assumes "adapter_invoke_with program (sys_of rt h) ctx data a = Inr (b, infos)" "account_inv a"
    and "ma_invocation a = 0" "sane_adapter program" "sane_height h"
  shows "adapter_frame ctx a b"
  by (rule adapter_invoke_frame [OF assms(1,2)])
    (use assms(3-5) in \<open>auto simp: sane_adapter_def sane_height_def sys_of_def\<close>)

lemma frame_keeps: "adapter_frame ctx a b \<Longrightarrow> keeps a b"
  by (simp add: adapter_frame_def keeps_def same_owner_def)

text \<open>
  The instructions that work on one account and neither begin nor end a liquidation. Mints are
  addresses of existing accounts, so none is all zero.
\<close>

inductive account_step :: "'l Runtime \<Rightarrow> MarginAccount \<Rightarrow> MarginAccount \<Rightarrow> bool" for rt where
  as_register: "register_position_handler rt ac c a l = Inr (b, l') \<Longrightarrow> tc_mint c \<noteq> 0 \<Longrightarrow> account_step rt a b"
| as_close_position: "close_position_handler rt ac1 a l = Inr (b, l') \<Longrightarrow> account_step rt a b"
| as_update_balance: "update_position_balance_handler rt k a l = Inr b \<Longrightarrow> account_step rt a b"
| as_refresh_config: "refresh_position_config_handler rt c permit who a = Inr b \<Longrightarrow> account_step rt a b"
| as_create_deposit: "create_deposit_position_handler rt assoc ac2 c a l = Inr b \<Longrightarrow> tc_mint c \<noteq> 0 \<Longrightarrow>
    account_step rt a b"
| as_refresh_deposit: "refresh_deposit_position_handler rt c oracle feed tk a l = Inr b \<Longrightarrow> account_step rt a b"
| as_transfer_deposit: "transfer_deposit_handler rt ac3 n a l = Inr (b, l') \<Longrightarrow> account_step rt a b"
| as_adapter_invoke: "adapter_invoke_handler rt h program owner key adapter cfg infos data a = Inr (b, infos', e) \<Longrightarrow>
    sane_adapter program \<Longrightarrow> sane_height h \<Longrightarrow> account_step rt a b"
| as_accounting_invoke: "accounting_invoke_handler rt h program key adapter cfg infos data a = Inr (b, infos', e) \<Longrightarrow>
    sane_adapter program \<Longrightarrow> sane_height h \<Longrightarrow> account_step rt a b"
| as_configure_airspace: "configure_account_airspace_handler d a = Inr b \<Longrightarrow> account_step rt a b"
| as_admin_source: "admin_transfer_position_handler rt gov ac4 n a x l = Inr (b, y, l', ev) \<Longrightarrow> account_step rt a b"
| as_admin_target: "admin_transfer_position_handler rt gov ac4 n x a l = Inr (y, b, l', ev) \<Longrightarrow> account_step rt a b"

lemma new_from_config_mint [simp]: "pcu_mint (new_from_config c d k x) = tc_mint c"
  by (simp add: new_from_config_def)

lemma account_step_keeps:
  assumes "account_step rt a b" "account_inv a" "ma_invocation a = 0"
  shows "keeps a b"
  using assms(1)
proof cases
  case (as_register ac c l l')
  then show ?thesis using assms(2) by (auto simp: register_position_handler_def intro: register_keeps)
next
  case (as_close_position ac l l')
  then show ?thesis using assms(2)
    by (auto simp: close_position_handler_def intro: unregister_keeps split: if_split_asm)
next
  case (as_update_balance k l)
  then show ?thesis using assms(2) by (auto simp: update_position_balance_handler_def intro: set_balance_keeps)
next
  case (as_refresh_config c permit who)
  then show ?thesis using assms(2) by (auto simp: refresh_position_config_handler_def intro: refresh_keeps)
next
  case (as_create_deposit assoc ac c l)
  then show ?thesis using assms(2) by (auto simp: create_deposit_position_handler_def intro: register_keeps)
next
  case (as_refresh_deposit c orc feed tk l)
  then obtain a' px where "a' = a \<or> (\<exists>m acc n t p. set_position_balance m acc n t a = Inr (a', p))"
    and p: "set_position_price (tc_mint c) px a' = Inr b"
    by (auto simp: refresh_deposit_position_handler_def Let_def split: option.split_asm) blast
  then have "keeps a a'" using assms(2) keeps_refl set_balance_keeps by blast
  moreover have "keeps a' b" using set_price_keeps [OF p] calculation by (simp add: keeps_def)
  ultimately show ?thesis by (rule keeps_trans)
next
  case (as_transfer_deposit ac n l l')
  then show ?thesis using assms(2)
    by (auto simp: transfer_deposit_handler_def intro: set_balance_keeps split: if_split_asm)
next
  case (as_adapter_invoke h program owner key adapter cfg infos data infos' e)
  then show ?thesis using assms(2,3)
    by (auto simp: adapter_invoke_handler_def intro: frame_keeps invoke_frame split: if_split_asm)
next
  case (as_accounting_invoke h program key adapter cfg infos data infos' e)
  then show ?thesis using assms(2,3)
    by (auto simp: accounting_invoke_handler_def intro: frame_keeps invoke_frame)
next
  case (as_configure_airspace d)
  then show ?thesis using assms(2)
    by (auto simp: configure_account_airspace_handler_def keeps_def account_inv_def split: if_split_asm)
next
  case (as_admin_source gov ac n x l y l' ev)
  then show ?thesis using assms(2) by (auto simp: admin_transfer_position_handler_def intro: set_balance_keeps)
next
  case (as_admin_target gov ac n x l y l' ev)
  then show ?thesis using assms(2) by (auto simp: admin_transfer_position_handler_def intro: set_balance_keeps)
qed

subsection \<open>Accounts and their liquidations\<close>

record MarginWorld =
  mw_accounts :: "Pubkey \<Rightarrow> MarginAccount option"
  mw_liquidations :: "Pubkey \<Rightarrow> LiquidationState option"

definition empty_world :: MarginWorld where
  "empty_world = \<lparr>mw_accounts = Map.empty, mw_liquidations = Map.empty\<rparr>"

definition liquidation_address :: "'l Runtime \<Rightarrow> Pubkey \<Rightarrow> Pubkey \<Rightarrow> Pubkey" where
  "liquidation_address rt k liquidator = pda rt [SeedBytes ''liquidation'', SeedKey k, SeedKey liquidator]"

text \<open>
  One instruction; the all-zero address signs nothing. An account may be closed while it is being
  liquidated, \<open>stale_liquidation\<close> shows what becomes of its record.
\<close>

inductive margin_step :: "'l Runtime \<Rightarrow> MarginWorld \<Rightarrow> MarginWorld \<Rightarrow> bool" for rt where
  ws_create: "create_account_handler (instruction rt s t) ac permit seed (mw_accounts w (ca_margin_account ac)) =
      Inr (a, e) \<Longrightarrow>
    margin_step rt w (w\<lparr>mw_accounts := (mw_accounts w)(ca_margin_account ac \<mapsto> a)\<rparr>)"
| ws_close: "mw_accounts w k = Some a \<Longrightarrow>
    close_account_handler (instruction rt s t) owner k a = Inr e \<Longrightarrow>
    margin_step rt w (w\<lparr>mw_accounts := (mw_accounts w)(k := None)\<rparr>)"
| ws_account: "mw_accounts w k = Some a \<Longrightarrow> account_step (instruction rt s t) a b \<Longrightarrow>
    margin_step rt w (w\<lparr>mw_accounts := (mw_accounts w)(k \<mapsto> b)\<rparr>)"
| ws_liquidate_begin: "0 \<notin> set s \<Longrightarrow> mw_accounts w (lb_margin_account lb) = Some a \<Longrightarrow>
    liquidate_begin_handler (instruction rt s t) lb lpermit (mw_liquidations w (lb_liquidation lb)) a =
      Inr (b, st, e) \<Longrightarrow>
    margin_step rt w (w\<lparr>mw_accounts := (mw_accounts w)(lb_margin_account lb \<mapsto> b),
      mw_liquidations := (mw_liquidations w)(lb_liquidation lb \<mapsto> st)\<rparr>)"
| ws_liquidate_end: "mw_accounts w k = Some a \<Longrightarrow> mw_liquidations w j = Some st \<Longrightarrow>
    liquidate_end_handler (instruction rt s t) authority k st a = Inr (b, e) \<Longrightarrow>
    margin_step rt w (w\<lparr>mw_accounts := (mw_accounts w)(k \<mapsto> b),
      mw_liquidations := (mw_liquidations w)(j := None)\<rparr>)"
| ws_liquidator_invoke: "mw_accounts w k = Some a \<Longrightarrow> mw_liquidations w j = Some st \<Longrightarrow>
    liquidator_invoke_handler (instruction rt s t) h program liquidator k adapter cfg infos data st a =
      Inr (b, st', infos', es) \<Longrightarrow> sane_adapter program \<Longrightarrow> sane_height h \<Longrightarrow>
    margin_step rt w (w\<lparr>mw_accounts := (mw_accounts w)(k \<mapsto> b),
      mw_liquidations := (mw_liquidations w)(j \<mapsto> st')\<rparr>)"

definition accounts_ok :: "MarginWorld \<Rightarrow> bool" where
  "accounts_ok w \<longleftrightarrow> (\<forall>k a. mw_accounts w k = Some a \<longrightarrow> account_inv a \<and> ma_invocation a = 0)"

definition records_ok :: "'l Runtime \<Rightarrow> MarginWorld \<Rightarrow> bool" where
  "records_ok rt w \<longleftrightarrow> (\<forall>j st. mw_liquidations w j = Some st \<longrightarrow>
     ls_liquidator st \<noteq> 0 \<and> j = liquidation_address rt (ls_margin_account st) (ls_liquidator st))"

definition claims_ok :: "'l Runtime \<Rightarrow> MarginWorld \<Rightarrow> bool" where
  "claims_ok rt w \<longleftrightarrow> (\<forall>k a. mw_accounts w k = Some a \<and> ma_liquidator a \<noteq> 0 \<longrightarrow>
     (\<exists>st. mw_liquidations w (liquidation_address rt k (ma_liquidator a)) = Some st \<and>
        ls_margin_account st = k \<and> ls_liquidator st = ma_liquidator a))"

definition world_ok :: "'l Runtime \<Rightarrow> MarginWorld \<Rightarrow> bool" where
  "world_ok rt w \<longleftrightarrow> accounts_ok w \<and> records_ok rt w \<and> claims_ok rt w"

lemma accounts_okD:
  "accounts_ok w \<Longrightarrow> mw_accounts w k = Some a \<Longrightarrow> account_inv a"
  "accounts_ok w \<Longrightarrow> mw_accounts w k = Some a \<Longrightarrow> ma_invocation a = 0"
  by (auto simp: accounts_ok_def)

lemma accounts_ok_update:
  "accounts_ok w \<Longrightarrow> account_inv a \<Longrightarrow> ma_invocation a = 0 \<Longrightarrow>
   accounts_ok (w\<lparr>mw_accounts := (mw_accounts w)(k \<mapsto> a), mw_liquidations := L\<rparr>)"
  by (simp add: accounts_ok_def)

lemma accounts_ok_simps [simp]:
  "accounts_ok (w\<lparr>mw_liquidations := L\<rparr>) = accounts_ok w"
  by (simp add: accounts_ok_def)

text \<open>An account that keeps its liquidator keeps the records in step.\<close>

lemma records_ok_accounts [simp]: "records_ok rt (w\<lparr>mw_accounts := f\<rparr>) = records_ok rt w"
  by (simp add: records_ok_def)

lemma world_okI:
  assumes "accounts_ok w" "records_ok rt w"
    and "\<And>k a. mw_accounts w k = Some a \<Longrightarrow> ma_liquidator a \<noteq> 0 \<Longrightarrow>
      \<exists>st. mw_liquidations w (liquidation_address rt k (ma_liquidator a)) = Some st \<and>
        ls_margin_account st = k \<and> ls_liquidator st = ma_liquidator a"
  shows "world_ok rt w"
  using assms by (auto simp: world_ok_def claims_ok_def)

lemma world_ok_claim:
  assumes "world_ok rt w" "mw_accounts w k = Some a" "ma_liquidator a \<noteq> 0"
  obtains st where "mw_liquidations w (liquidation_address rt k (ma_liquidator a)) = Some st"
    "ls_margin_account st = k" "ls_liquidator st = ma_liquidator a"
  using assms unfolding world_ok_def claims_ok_def by blast

lemma world_ok_account:
  assumes "world_ok rt w" "mw_accounts w k = Some a" "keeps a b"
  shows "world_ok rt (w\<lparr>mw_accounts := (mw_accounts w)(k \<mapsto> b)\<rparr>)" (is "world_ok rt ?w")
proof (rule world_okI)
  show "accounts_ok ?w" using assms by (auto simp: world_ok_def accounts_ok_def keeps_def)
  show "records_ok rt ?w" using assms(1) by (simp add: world_ok_def)
next
  fix k' x assume x: "mw_accounts ?w k' = Some x" "ma_liquidator x \<noteq> 0"
  show "\<exists>st. mw_liquidations ?w (liquidation_address rt k' (ma_liquidator x)) = Some st \<and>
        ls_margin_account st = k' \<and> ls_liquidator st = ma_liquidator x"
  proof (cases "k' = k")
    case True
    with x assms(3) have "ma_liquidator a = ma_liquidator x" by (simp add: keeps_def)
    with world_ok_claim [OF assms(1,2)] x(2) True show ?thesis by auto
  next
    case False
    with x(1) have "mw_accounts w k' = Some x" by simp
    from world_ok_claim [OF assms(1) this x(2)] show ?thesis by auto
  qed
qed

lemma world_ok_record:
  assumes "world_ok rt w" "mw_liquidations w j = Some st"
    and "ls_liquidator st' = ls_liquidator st" "ls_margin_account st' = ls_margin_account st"
  shows "world_ok rt (w\<lparr>mw_liquidations := (mw_liquidations w)(j \<mapsto> st')\<rparr>)" (is "world_ok rt ?w")
proof (rule world_okI)
  show "accounts_ok ?w" using assms(1) by (simp add: world_ok_def)
  show "records_ok rt ?w" using assms unfolding world_ok_def records_ok_def by (auto split: if_split_asm)
next
  fix k a assume "mw_accounts ?w k = Some a" "ma_liquidator a \<noteq> 0"
  then obtain x where "mw_liquidations w (liquidation_address rt k (ma_liquidator a)) = Some x"
    "ls_margin_account x = k" "ls_liquidator x = ma_liquidator a"
    using world_ok_claim [OF assms(1)] by auto
  with assms(2-4) show "\<exists>st. mw_liquidations ?w (liquidation_address rt k (ma_liquidator a)) = Some st \<and>
        ls_margin_account st = k \<and> ls_liquidator st = ma_liquidator a" by auto
qed

lemma zeroed_account_inv: "account_inv (account_initialize air owner seed bump zeroed_account)"
  by (simp add: account_inv_def account_initialize_def zeroed_account_def wf_empty_plist plist_abs_empty)

lemma world_ok_create:
  assumes "world_ok rt w" "account_inv a" "ma_invocation a = 0" "ma_liquidator a = 0"
  shows "world_ok rt (w\<lparr>mw_accounts := (mw_accounts w)(k \<mapsto> a)\<rparr>)"
  using assms by (intro world_okI) (auto simp: world_ok_def accounts_ok_def claims_ok_def split: if_split_asm)

lemma world_ok_close:
  assumes "world_ok rt w"
  shows "world_ok rt (w\<lparr>mw_accounts := (mw_accounts w)(k := None)\<rparr>)"
  using assms by (intro world_okI) (auto simp: world_ok_def accounts_ok_def claims_ok_def split: if_split_asm)

lemma world_ok_begin:
  assumes "world_ok rt w" "mw_accounts w k = Some a" "q \<noteq> 0"
    and "mw_liquidations w (liquidation_address rt k q) = None"
    and "ls_liquidator st = q" "ls_margin_account st = k"
  shows "world_ok rt (w\<lparr>mw_accounts := (mw_accounts w)(k \<mapsto> start_liquidation q a),
      mw_liquidations := (mw_liquidations w)(liquidation_address rt k q \<mapsto> st)\<rparr>)" (is "world_ok rt ?w")
proof (rule world_okI)
  show "accounts_ok ?w" using assms(1,2)
    by (auto simp: world_ok_def accounts_ok_def start_liquidation_def account_inv_def)
  show "records_ok rt ?w" using assms unfolding world_ok_def records_ok_def by (auto split: if_split_asm)
next
  fix k' x assume x: "mw_accounts ?w k' = Some x" "ma_liquidator x \<noteq> 0"
  show "\<exists>y. mw_liquidations ?w (liquidation_address rt k' (ma_liquidator x)) = Some y \<and>
      ls_margin_account y = k' \<and> ls_liquidator y = ma_liquidator x"
  proof (cases "k' = k")
    case True
    with x assms(5,6) show ?thesis by (auto simp: start_liquidation_def)
  next
    case False
    with x(1) have "mw_accounts w k' = Some x" by simp
    then obtain y where "mw_liquidations w (liquidation_address rt k' (ma_liquidator x)) = Some y"
      "ls_margin_account y = k'" "ls_liquidator y = ma_liquidator x"
      using world_ok_claim [OF assms(1)] x(2) by blast
    with assms(4) show ?thesis by (intro exI [of _ y]) auto
  qed
qed

lemma world_ok_end:
  assumes "world_ok rt w" "mw_accounts w k = Some a" "mw_liquidations w j = Some st" "ls_margin_account st = k"
  shows "world_ok rt (w\<lparr>mw_accounts := (mw_accounts w)(k \<mapsto> end_liquidation a),
      mw_liquidations := (mw_liquidations w)(j := None)\<rparr>)" (is "world_ok rt ?w")
proof (rule world_okI)
  show "accounts_ok ?w" using assms(1,2)
    by (auto simp: world_ok_def accounts_ok_def end_liquidation_def account_inv_def)
  show "records_ok rt ?w" using assms(1) unfolding world_ok_def records_ok_def by (auto split: if_split_asm)
next
  fix k' x assume x: "mw_accounts ?w k' = Some x" "ma_liquidator x \<noteq> 0"
  then have k': "k' \<noteq> k" by (auto simp: end_liquidation_def pubkey_default_def)
  with x(1) have "mw_accounts w k' = Some x" by simp
  then obtain y where y: "mw_liquidations w (liquidation_address rt k' (ma_liquidator x)) = Some y"
    "ls_margin_account y = k'" "ls_liquidator y = ma_liquidator x"
    using world_ok_claim [OF assms(1)] x(2) by blast
  then have "liquidation_address rt k' (ma_liquidator x) \<noteq> j" using assms(3,4) k' by auto
  with y show "\<exists>y. mw_liquidations ?w (liquidation_address rt k' (ma_liquidator x)) = Some y \<and>
      ls_margin_account y = k' \<and> ls_liquidator y = ma_liquidator x" by simp
qed

lemma create_account_Inr:
  assumes "create_account_handler rt ac permit seed existing = Inr (a, e)"
  shows "existing = None" "account_inv a" "ma_invocation a = 0" "ma_liquidator a = 0"
    "ma_owner a = ca_owner ac" "ca_owner ac \<in> set (rt_signers rt)" "ma_airspace a = ap_airspace permit"
    "ap_owner permit = ca_owner ac"
  using assms zeroed_account_inv
  by (auto simp: create_account_handler_def Let_def account_initialize_def zeroed_account_def pubkey_default_def)

lemma liquidate_begin_Inr:
  assumes "liquidate_begin_handler rt ac permit existing a = Inr (b, st, e)"
  shows "existing = None" "b = start_liquidation (lb_liquidator ac) a" "ma_liquidator a = 0"
    "lb_liquidator ac \<in> set (rt_signers rt)" "ls_liquidator st = lb_liquidator ac"
    "ls_margin_account st = lb_margin_account ac"
    "lb_liquidation ac = liquidation_address rt (lb_margin_account ac) (lb_liquidator ac)"
    "lq_start_time (ls_state st) = rt_clock rt"
  using assms
  by (auto simp: liquidate_begin_handler_def Let_def liquidation_address_def pubkey_default_def liquidation_new_def
      split: if_split_asm)

lemma liquidate_end_Inr:
  assumes "liquidate_end_handler rt authority k st a = Inr (b, e)"
  shows "b = end_liquidation a" "ma_liquidator a = ls_liquidator st" "ls_margin_account st = k"
    "authority \<in> set (rt_signers rt)"
  using assms by (auto simp: liquidate_end_handler_def ensure_def Let_def split: if_split_asm)

lemma liquidator_invoke_Inr:
  assumes "liquidator_invoke_handler rt h program liquidator k adapter cfg infos data st a = Inr (b, st', infos', es)"
  obtains v q x where "liquidator \<in> set (rt_signers rt)" "ls_liquidator st = liquidator" "ls_margin_account st = k"
    "ac_adapter_program cfg = adapter" "ac_airspace cfg = ma_airspace a"
    "valuation (sys_time rt) a = Inr v"
    "adapter_invoke_with program (sys_of rt h) \<lparr>ic_adapter_program = adapter, ic_accounts = infos, ic_signed = True\<rparr>
       data a = Inr (b, infos')"
    "update_and_verify_liquidation (sys_time rt) b (ls_state st) v = Inr (q, x)" "st' = st\<lparr>ls_state := q\<rparr>"
  using assms by (auto simp: liquidator_invoke_handler_def check_adapter_def)

lemma liquidation_address_instruction [simp]: "liquidation_address (instruction rt s t) = liquidation_address rt"
  by (simp add: liquidation_address_def fun_eq_iff)

lemma world_ok_step:
  assumes "margin_step rt w w'" "world_ok rt w"
  shows "world_ok rt w'"
  using assms(1)
proof cases
  case (ws_create s t ac permit seed a e)
  note c = create_account_Inr [OF ws_create(2)]
  show ?thesis unfolding ws_create(1) by (rule world_ok_create [OF assms(2) c(2-4)])
next
  case (ws_close k a s t owner e)
  show ?thesis unfolding ws_close(1) by (rule world_ok_close [OF assms(2)])
next
  case (ws_account k a s t b)
  then have "account_inv a" "ma_invocation a = 0" using assms(2) accounts_okD by (auto simp: world_ok_def)
  with ws_account(3) have "keeps a b" by (rule account_step_keeps)
  with ws_account(2) show ?thesis unfolding ws_account(1) by (rule world_ok_account [OF assms(2)])
next
  case (ws_liquidate_begin s lb a t lpermit b st e)
  note b = liquidate_begin_Inr [OF ws_liquidate_begin(4)]
  have "lb_liquidator lb \<noteq> 0" using b(4) ws_liquidate_begin(2) by (cases "lb_liquidator lb = 0") auto
  from world_ok_begin [OF assms(2) ws_liquidate_begin(3) this] b show ?thesis
    unfolding ws_liquidate_begin(1) by simp
next
  case (ws_liquidate_end k a j st s t authority b e)
  note b = liquidate_end_Inr [OF ws_liquidate_end(4)]
  from world_ok_end [OF assms(2) ws_liquidate_end(2,3) b(3)] show ?thesis
    unfolding ws_liquidate_end(1) b(1) .
next
  case (ws_liquidator_invoke k a j st s t h program liquidator adapter cfg infos data b st' infos' es)
  obtain q where i: "adapter_invoke_with program (sys_of (instruction rt s t) h)
      \<lparr>ic_adapter_program = adapter, ic_accounts = infos, ic_signed = True\<rparr> data a = Inr (b, infos')"
    "st' = st\<lparr>ls_state := q\<rparr>"
    using liquidator_invoke_Inr [OF ws_liquidator_invoke(4)] by blast
  have "account_inv a" "ma_invocation a = 0"
    using assms(2) ws_liquidator_invoke(2) accounts_okD by (auto simp: world_ok_def)
  with invoke_frame [OF i(1)] ws_liquidator_invoke(5,6) have "keeps a b" by (blast intro: frame_keeps)
  with ws_liquidator_invoke(2) have w: "world_ok rt (w\<lparr>mw_accounts := (mw_accounts w)(k \<mapsto> b)\<rparr>)"
    by (rule world_ok_account [OF assms(2)])
  from world_ok_record [OF w, of j st st'] ws_liquidator_invoke(3) i(2) show ?thesis
    unfolding ws_liquidator_invoke(1) by simp
qed

lemma world_ok_reachable:
  assumes "(margin_step rt)\<^sup>*\<^sup>* empty_world w"
  shows "world_ok rt w"
  using assms
proof induction
  case base
  show ?case by (simp add: world_ok_def accounts_ok_def records_ok_def claims_ok_def empty_world_def)
next
  case (step w w')
  then show ?case using world_ok_step by blast
qed


subsection \<open>Properties\<close>

text \<open>
  C7: Whatever the order of instructions and whoever signs them, from no accounts on: every margin
  account keeps its invariant and no invocation is left marked, an account under liquidation has
  the record of that liquidation at the address derived from the two, and every record is at its
  own address.
\<close>

theorem liquidation_records:
  assumes "(margin_step rt)\<^sup>*\<^sup>* empty_world w"
  shows "(\<forall>k a. mw_accounts w k = Some a \<longrightarrow> account_inv a \<and> ma_invocation a = 0 \<and>
      (ma_liquidator a \<noteq> 0 \<longrightarrow>
         (\<exists>st. mw_liquidations w (liquidation_address rt k (ma_liquidator a)) = Some st \<and>
            ls_margin_account st = k \<and> ls_liquidator st = ma_liquidator a))) \<and>
    (\<forall>j st. mw_liquidations w j = Some st \<longrightarrow> ls_liquidator st \<noteq> 0 \<and>
       j = liquidation_address rt (ls_margin_account st) (ls_liquidator st))"
  using world_ok_reachable [OF assms] unfolding world_ok_def accounts_ok_def records_ok_def claims_ok_def by blast

text \<open>Addresses of the examples: a list of seeds read as the digits of a number.\<close>

fun seed_code :: "Seed \<Rightarrow> nat" where
  "seed_code (SeedKey k) = k"
| "seed_code (SeedInt n) = n"
| "seed_code (SeedBytes b) = length b"

definition sample_address :: "Seed list \<Rightarrow> Pubkey" where
  "sample_address seeds = foldl (\<lambda>acc s. 1000 * acc + seed_code s) 0 seeds"

abbreviation sample_rt :: "Pubkey list \<Rightarrow> int \<Rightarrow> Ledger Runtime" where
  "sample_rt \<equiv> ledger_runtime sample_address"

lemma sample_rt_instruction: "instruction (sample_rt s t) s' t' = sample_rt s' t'"
  by (simp add: instruction_def ledger_runtime_def)

definition sample_create :: CreateAccount where
  "sample_create = \<lparr>ca_owner = 100, ca_payer = 100, ca_margin_account = 100000\<rparr>"

definition sample_created :: MarginAccount where
  "sample_created = account_initialize 50 100 0 255 zeroed_account"

lemma sample_create_account:
  "create_account_handler (sample_rt [100] t) sample_create \<lparr>ap_airspace = 50, ap_owner = 100, ap_issuer = 9\<rparr> 0 None =
     Inr (sample_created, AccountCreated 100000 100 50 0)"
  by (simp add: create_account_handler_def sample_create_def sample_address_def sample_created_def
      require_signer_def constraint_def)

lemma sample_created_eq: "sample_created = empty_account\<lparr>ma_bump_seed := 255\<rparr>"
  by (simp add: sample_created_def account_initialize_def zeroed_account_def empty_account_def
      MARGIN_ACCOUNT_VERSION_def pubkey_default_def)

lemma sample_created_step:
  assumes "mw_accounts w 100000 = None"
  shows "margin_step (sample_rt s t) w (w\<lparr>mw_accounts := (mw_accounts w)(100000 \<mapsto> sample_created)\<rparr>)"
proof -
  have k: "ca_margin_account sample_create = 100000" by (simp add: sample_create_def)
  have "create_account_handler (instruction (sample_rt s t) [100] t) sample_create
      \<lparr>ap_airspace = 50, ap_owner = 100, ap_issuer = 9\<rparr> 0 (mw_accounts w (ca_margin_account sample_create)) =
      Inr (sample_created, AccountCreated 100000 100 50 0)"
    unfolding sample_rt_instruction k assms by (rule sample_create_account)
  from ws_create [OF this] show ?thesis unfolding k .
qed

theorem liquidation_records_witness:
  "\<exists>w. (margin_step (sample_rt [] 0))\<^sup>*\<^sup>* empty_world w \<and> mw_accounts w 100000 = Some sample_created \<and>
     account_inv sample_created"
proof -
  let ?w = "empty_world\<lparr>mw_accounts := (mw_accounts empty_world)(100000 \<mapsto> sample_created)\<rparr>"
  have "margin_step (sample_rt [] 0) empty_world ?w"
    by (rule sample_created_step) (simp add: empty_world_def)
  then have "(margin_step (sample_rt [] 0))\<^sup>*\<^sup>* empty_world ?w" by blast
  moreover have "mw_accounts ?w 100000 = Some sample_created" by simp
  ultimately show ?thesis using liquidation_records [of "sample_rt [] 0" ?w] by blast
qed

text \<open>
  C8: No account is held in liquidation for ever. In every state that the instructions keep to,
  an account under liquidation has a record with which anyone, 60 seconds after its start, and its
  liquidator at any time, can end the liquidation: the instruction succeeds, frees the account
  and closes the record.
\<close>

theorem liquidation_can_end:
  assumes "world_ok rt w" "mw_accounts w k = Some a" "ma_liquidator a \<noteq> 0"
  shows "\<exists>st. mw_liquidations w (liquidation_address rt k (ma_liquidator a)) = Some st \<and>
    (\<forall>s t who. who \<in> set s \<and> i_range 64 (t - lq_start_time (ls_state st)) \<and>
       (who = ma_liquidator a \<or> t - lq_start_time (ls_state st) \<ge> 60) \<longrightarrow>
       (\<exists>w'. margin_step rt w w' \<and> mw_accounts w' k = Some (a\<lparr>ma_liquidator := 0\<rparr>) \<and>
          mw_liquidations w' (liquidation_address rt k (ma_liquidator a)) = None))"
proof -
  let ?j = "liquidation_address rt k (ma_liquidator a)"
  obtain st where st: "mw_liquidations w ?j = Some st" "ls_margin_account st = k" "ls_liquidator st = ma_liquidator a"
    by (rule world_ok_claim [OF assms])
  have "\<exists>w'. margin_step rt w w' \<and> mw_accounts w' k = Some (a\<lparr>ma_liquidator := 0\<rparr>) \<and> mw_liquidations w' ?j = None"
    if h: "who \<in> set s" "i_range 64 (t - lq_start_time (ls_state st))"
      "who = ma_liquidator a \<or> t - lq_start_time (ls_state st) \<ge> 60" for s t who
  proof -
    have "\<exists>e. liquidate_end_handler (instruction rt s t) who k st a = Inr (end_liquidation a, e)"
      using h st by (auto simp: liquidate_end_handler_def require_signer_def ensure_def LIQUIDATION_TIMEOUT_def Let_def)
    then obtain e where e: "liquidate_end_handler (instruction rt s t) who k st a = Inr (end_liquidation a, e)" by blast
    from ws_liquidate_end [OF assms(2) st(1) e] show ?thesis
      by (intro exI conjI) (auto simp: end_liquidation_def pubkey_default_def)
  qed
  with st(1) show ?thesis by blast
qed

definition sample_state :: LiquidationState where
  "sample_state = \<lparr>ls_liquidator = 300, ls_margin_account = 100000,
     ls_state = \<lparr>lq_start_time = 1000, lq_equity_loss = Number128 0, lq_max_equity_loss = 5\<rparr>\<rparr>"

definition sample_liquidating :: MarginWorld where
  "sample_liquidating = \<lparr>mw_accounts = [100000 \<mapsto> sample_created\<lparr>ma_liquidator := 300\<rparr>],
     mw_liquidations = [111000300 \<mapsto> sample_state]\<rparr>"

lemma sample_liquidation_address [simp]: "liquidation_address (sample_rt s t) 100000 300 = 111000300"
  by (simp add: liquidation_address_def sample_address_def)

lemma sample_created_inv: "account_inv (sample_created\<lparr>ma_liquidator := q\<rparr>)" "ma_invocation sample_created = 0"
  using empty_account_inv by (simp_all add: sample_created_eq account_inv_def) (simp add: empty_account_def)

lemma sample_liquidating_ok: "world_ok (sample_rt s t) sample_liquidating"
  by (rule world_okI)
    (auto simp: accounts_ok_def records_ok_def sample_liquidating_def sample_created_inv sample_state_def
      split: if_split_asm)

theorem liquidation_can_end_witness:
  "\<exists>w. margin_step (sample_rt [] 0) sample_liquidating w \<and> mw_accounts w 100000 = Some sample_created"
proof -
  have a: "mw_accounts sample_liquidating 100000 = Some (sample_created\<lparr>ma_liquidator := 300\<rparr>)"
    "ma_liquidator (sample_created\<lparr>ma_liquidator := 300\<rparr>) \<noteq> 0"
    by (simp_all add: sample_liquidating_def)
  note e = liquidation_can_end [OF sample_liquidating_ok a, of "[]" 0]
  obtain st where st: "mw_liquidations sample_liquidating 111000300 = Some st"
    and all: "\<forall>s t who. who \<in> set s \<and> i_range 64 (t - lq_start_time (ls_state st)) \<and>
       (who = (300 :: nat) \<or> t - lq_start_time (ls_state st) \<ge> 60) \<longrightarrow>
       (\<exists>w'. margin_step (sample_rt [] 0) sample_liquidating w' \<and>
          mw_accounts w' 100000 = Some (sample_created\<lparr>ma_liquidator := 300, ma_liquidator := 0\<rparr>))"
    using e by (auto simp del: split_paired_All)
  have "lq_start_time (ls_state st) = 1000" using st by (auto simp: sample_liquidating_def sample_state_def)
  with all [THEN spec, of "[300]", THEN spec, of 1060, THEN spec, of 300]
  have "\<exists>w'. margin_step (sample_rt [] 0) sample_liquidating w' \<and>
      mw_accounts w' 100000 = Some (sample_created\<lparr>ma_liquidator := 300, ma_liquidator := 0\<rparr>)"
    by (simp add: i_range_def)
  moreover have "sample_created\<lparr>ma_liquidator := 300, ma_liquidator := 0\<rparr> = sample_created"
    by (simp add: sample_created_eq empty_account_def)
  ultimately show ?thesis by simp
qed

text \<open>
  C9: Each invocation by a liquidator adds exactly the equity the account lost in it to the
  liquidation's loss and is refused when the total exceeds the maximum that was set at the start;
  the liquidator signed, the record is of this liquidator and account, the adapter belongs to the
  account's airspace, and the start time and the maximum stay.
\<close>

theorem liquidator_invoke_bounded:
  assumes "liquidator_invoke_handler rt h program liquidator k adapter cfg infos data st a = Inr (b, st', infos', es)"
  shows "\<exists>v x. valuation (sys_time rt) a = Inr v \<and> valuation (sys_time rt) b = Inr x \<and>
      n128 (lq_equity_loss (ls_state st')) =
        n128 (lq_equity_loss (ls_state st)) + (n128 (equity v) - n128 (equity x)) \<and>
      n128 (lq_equity_loss (ls_state st')) \<le> lq_max_equity_loss (ls_state st) \<and>
      st' = st\<lparr>ls_state := (ls_state st)\<lparr>lq_equity_loss := lq_equity_loss (ls_state st')\<rparr>\<rparr> \<and>
      liquidator \<in> set (rt_signers rt) \<and> ls_liquidator st = liquidator \<and> ls_margin_account st = k \<and>
      ac_adapter_program cfg = adapter \<and> ac_airspace cfg = ma_airspace a"
proof -
  obtain v q x where f: "liquidator \<in> set (rt_signers rt)" "ls_liquidator st = liquidator" "ls_margin_account st = k"
    "ac_adapter_program cfg = adapter" "ac_airspace cfg = ma_airspace a" "valuation (sys_time rt) a = Inr v"
    and u: "update_and_verify_liquidation (sys_time rt) b (ls_state st) v = Inr (q, x)" and st': "st' = st\<lparr>ls_state := q\<rparr>"
    using liquidator_invoke_Inr [OF assms] by blast
  from u have "valuation (sys_time rt) b = Inr x"
    "q = (ls_state st)\<lparr>lq_equity_loss :=
       Number128 (n128 (lq_equity_loss (ls_state st)) + (n128 (equity v) - n128 (equity x)))\<rparr>"
    "\<not> lq_equity_loss q > max_equity_loss q"
    by (auto simp: update_and_verify_liquidation_def Let_def split: if_split_asm)
  with f st' show ?thesis
    by (intro exI [of _ v] exI [of _ x]) (simp add: less_Number128_def max_equity_loss_def n128_from_i128_def)
qed


definition noop_program :: AdapterProgram where
  "noop_program sg infos flags data = Inr (infos, None)"

lemma noop_invoke:
  assumes "ma_invocation a = 0"
  shows "adapter_invoke_with noop_program (sys_of rt 1)
     \<lparr>ic_adapter_program = 99, ic_accounts = [], ic_signed = s\<rparr> data a = Inr (a, [])"
proof -
  have "bitset_insert 0 1 = (Inr 2 :: _ margin_res)" "bitset_remove 2 1 = (Inr 0 :: _ margin_res)"
    by (simp_all add: set_bit_eq_or unset_bit_eq_and_not flip_bit_nat_def set_bit_nat_def unset_bit_nat_def)
  moreover have "a\<lparr>ma_invocation := 0\<rparr> = a" using assms by (cases a) simp
  ultimately show ?thesis
    by (simp add: assms adapter_invoke_with_def invocation_start_def invocation_end_def sys_of_def noop_program_def
        handle_adapter_result_def update_balances_def)
qed

lemma sane_noop: "sane_adapter noop_program" "sane_height 1"
  by (simp_all add: sane_adapter_def noop_program_def result_ok_def sane_height_def)

lemma no_positions: "account_positions empty_account = []"
  by (simp add: account_positions_def empty_account_def empty_plist_def pubkey_default_def zeroed_position_def)

lemma no_positions_valuation: "valuation t (empty_account\<lparr>ma_bump_seed := b, ma_liquidator := q\<rparr>) = Inr valuation_init"
proof -
  have "account_positions (empty_account\<lparr>ma_bump_seed := b, ma_liquidator := q\<rparr>) = []"
    using no_positions by (simp add: account_positions_def)
  then show ?thesis
    by (simp add: valuation_def valuation_init_def n128_ZERO_def n128_sub_def checked_i_def i_range_def)
qed

definition sample_adapter :: AdapterConfig where
  "sample_adapter = \<lparr>ac_airspace = 50, ac_adapter_program = 99\<rparr>"

lemma sample_liquidator_invoke:
  "\<exists>es. liquidator_invoke_handler (sample_rt [300] t) 1 noop_program 300 100000 99 sample_adapter [] []
     sample_state (sample_created\<lparr>ma_liquidator := q\<rparr>) =
     Inr (sample_created\<lparr>ma_liquidator := q\<rparr>, sample_state, [], es)"
proof -
  let ?a = "sample_created\<lparr>ma_liquidator := q\<rparr>"
  have a: "?a = empty_account\<lparr>ma_bump_seed := 255, ma_liquidator := q\<rparr>" by (simp add: sample_created_eq)
  have v: "valuation x ?a = Inr valuation_init" for x unfolding a by (rule no_positions_valuation)
  have i: "adapter_invoke_with noop_program (sys_of (sample_rt [300] t) 1)
      \<lparr>ic_adapter_program = 99, ic_accounts = [], ic_signed = True\<rparr> [] ?a = Inr (?a, [])"
    by (rule noop_invoke) (simp add: sample_created_inv)
  have "update_and_verify_liquidation x ?a (ls_state sample_state) valuation_init =
      Inr (ls_state sample_state, valuation_init)" for x
    unfolding update_and_verify_liquidation_def v
    by (simp add: sample_state_def valuation_init_def n128_ZERO_def n128_sub_def n128_add_def checked_i_def i_range_def
        max_equity_loss_def n128_from_i128_def less_Number128_def)
  moreover have "\<exists>s. valuation_summary valuation_init = Inr s"
    by (simp add: valuation_summary_def available_collateral_def valuation_init_def n128_ZERO_def n128_sub_def
        checked_i_def i_range_def)
  moreover have "check_adapter sample_adapter 99 ?a = Inr ()"
    by (simp add: check_adapter_def sample_adapter_def a) (simp add: empty_account_def)
  ultimately show ?thesis unfolding liquidator_invoke_handler_def i v
    by (auto simp: require_signer_def constraint_def) (auto simp: sample_state_def)
qed

theorem liquidator_invoke_bounded_witness:
  "n128 (lq_equity_loss (ls_state sample_state)) \<le> 5 \<and> ls_liquidator sample_state = 300"
proof -
  obtain es where "liquidator_invoke_handler (sample_rt [300] 0) 1 noop_program 300 100000 99 sample_adapter [] []
     sample_state (sample_created\<lparr>ma_liquidator := 300\<rparr>) =
     Inr (sample_created\<lparr>ma_liquidator := 300\<rparr>, sample_state, [], es)"
    using sample_liquidator_invoke by blast
  from liquidator_invoke_bounded [OF this] show ?thesis by (auto simp: sample_state_def)
qed


text \<open>
  C6: After an adapter invocation by the owner the account is healthy: no claim is stale and the
  weighted fresh collateral covers the claims and what they require. The invocation was signed by
  the owner, outside a liquidation, with an adapter of the account's airspace, and keeps the
  account's invariant and its owner.
\<close>

theorem adapter_invoke_healthy:
  assumes "adapter_invoke_handler rt h program owner key adapter cfg infos data a = Inr (b, infos', es)"
    and "account_inv a" "ma_invocation a = 0" "sane_adapter program" "sane_height h"
  shows "owner \<in> set (rt_signers rt) \<and> ma_owner a = owner \<and> ma_liquidator a = 0 \<and>
    ac_adapter_program cfg = adapter \<and> ac_airspace cfg = ma_airspace a \<and> account_inv b \<and> same_owner a b \<and>
    (\<forall>p \<in> set (claims_of (active b)). stale_reason (sys_time rt) p = Inr None) \<and>
    value_sum (claims_of (active b)) +
        sum_list (map (\<lambda>p. amount_of (required_collateral_value p)) (claims_of (active b)))
      \<le> sum_list (map (\<lambda>p. amount_of (collateral_value p)) (fresh_collateral (sys_time rt) (active b)))"
proof -
  from assms(1) obtain v where f: "owner \<in> set (rt_signers rt)" "ma_owner a = owner" "ma_liquidator a = 0"
    "ac_adapter_program cfg = adapter" "ac_airspace cfg = ma_airspace a"
    and i: "adapter_invoke_with program (sys_of rt h)
      \<lparr>ic_adapter_program = adapter, ic_accounts = infos, ic_signed = True\<rparr> data a = Inr (b, infos')"
    and v: "valuation (sys_time rt) b = Inr v" "verify_healthy v = Inr ()"
    by (auto simp: adapter_invoke_handler_def check_adapter_def pubkey_default_def split: if_split_asm)
  have "\<not> required_collateral v > effective_collateral v"
    using v(2) by (auto simp: verify_healthy_def split: if_split_asm)
  with valuation_spec_facts [OF v(1)] f invoke_frame [OF i assms(2-5)] show ?thesis
    by (simp add: less_Number128_def adapter_frame_def)
qed

lemma sample_adapter_invoke:
  "adapter_invoke_handler (sample_rt [100] 0) 1 noop_program 100 100000 99 sample_adapter [] [] sample_created =
     Inr (sample_created, [], [AdapterInvokeBegin 100000 99, AdapterInvokeEnd])"
proof -
  have a: "sample_created = empty_account\<lparr>ma_bump_seed := 255, ma_liquidator := 0\<rparr>"
    by (simp add: sample_created_eq empty_account_def)
  have v: "valuation x sample_created = Inr valuation_init" for x unfolding a by (rule no_positions_valuation)
  have i: "adapter_invoke_with noop_program (sys_of (sample_rt [100] 0) 1)
      \<lparr>ic_adapter_program = 99, ic_accounts = [], ic_signed = True\<rparr> [] sample_created = Inr (sample_created, [])"
    by (rule noop_invoke) (simp add: sample_created_inv)
  have "ma_owner sample_created = 100" "ma_airspace sample_created = 50" "ma_liquidator sample_created = pubkey_default"
    by (simp_all add: sample_created_eq empty_account_def pubkey_default_def)
  then show ?thesis unfolding adapter_invoke_handler_def i
    by (simp add: v check_adapter_def sample_adapter_def require_signer_def constraint_def ensure_def
        verify_healthy_def) (simp add: valuation_init_def n128_ZERO_def less_Number128_def)
qed

theorem adapter_invoke_healthy_witness: "account_inv sample_created \<and> value_sum (claims_of (active sample_created)) = 0"
proof -
  have "account_inv sample_created" "ma_invocation sample_created = 0"
    using empty_account_inv sample_created_inv(2) by (simp_all add: sample_created_eq account_inv_def)
  from adapter_invoke_healthy [OF sample_adapter_invoke this sane_noop] show ?thesis
    using no_positions by (auto simp: active_def account_positions_def claims_of_def sample_created_eq)
qed

lemma bindE_branches:
  "bindE (if b then x else y) f = (if b then bindE x f else bindE y f)"
  "bindE (err e) f = err e"
  "lift_err g (bindE m f) = bindE (lift_err g m) (\<lambda>x. lift_err g (f x))"
  "lift_err g (Inr x) = Inr x"
  by (simp_all add: err_def) (cases m; simp add: lift_err_def split: fault.split)

text \<open>
  The transfer of a deposit does not look at a liquidation: on an account under liquidation by
  anyone it does exactly what it does on the same account otherwise, to its tokens, its positions
  and its failures alike. No step of it values the account.
\<close>

theorem transfer_deposit_during_liquidation:
  "transfer_deposit_handler rt ac n (a\<lparr>ma_liquidator := q\<rparr>) l =
     bindE (transfer_deposit_handler rt ac n a l) (\<lambda>(b, l'). Inr (b\<lparr>ma_liquidator := q\<rparr>, l'))"
proof -
  have comm: "a\<lparr>ma_liquidator := q, ma_positions := x\<rparr> = a\<lparr>ma_positions := x, ma_liquidator := q\<rparr>" for x
    by simp
  have set: "set_position_balance m acc x t (a\<lparr>ma_liquidator := q\<rparr>) =
      bindE (set_position_balance m acc x t a) (\<lambda>(b, p). Inr (b\<lparr>ma_liquidator := q\<rparr>, p))" for m acc x t
    unfolding set_position_balance_def by (simp add: Let_def bindE_assoc bindE_branches comm cong: if_cong)
  have s: "account_signer (a\<lparr>ma_liquidator := q\<rparr>) = account_signer a"
    "get_position m (a\<lparr>ma_liquidator := q\<rparr>) = get_position m a" for m
    by (simp_all add: account_signer_def get_position_def)
  show ?thesis unfolding transfer_deposit_handler_def s set
    by (simp add: bindE_assoc bindE_branches split_def cong: if_cong)
qed

text \<open>
  The owner can close an account without positions while it is being liquidated, and open it
  again at the same address. The record of the liquidation outlives this: the new account is not
  under liquidation, yet the former liquidator can still invoke adapters with its signature.
\<close>

theorem stale_liquidation:
  "\<exists>w es. world_ok (sample_rt [] 0) sample_liquidating \<and> (margin_step (sample_rt [] 0))\<^sup>*\<^sup>* sample_liquidating w \<and>
     mw_accounts w 100000 = Some sample_created \<and> ma_liquidator sample_created = 0 \<and>
     mw_liquidations w 111000300 = Some sample_state \<and>
     liquidator_invoke_handler (sample_rt [300] 0) 1 noop_program 300 100000 99 sample_adapter [] []
       sample_state sample_created = Inr (sample_created, sample_state, [], es)"
proof -
  let ?v = "sample_liquidating\<lparr>mw_accounts := (mw_accounts sample_liquidating)(100000 := None)\<rparr>"
  let ?w = "?v\<lparr>mw_accounts := (mw_accounts ?v)(100000 \<mapsto> sample_created)\<rparr>"
  let ?a = "sample_created\<lparr>ma_liquidator := 300\<rparr>"
  have l0: "ma_liquidator sample_created = 0" "sample_created\<lparr>ma_liquidator := 0\<rparr> = sample_created"
    by (simp_all add: sample_created_eq empty_account_def)
  have p: "account_positions ?a = []" using no_positions by (simp add: sample_created_eq account_positions_def)
  have a: "mw_accounts sample_liquidating 100000 = Some ?a" by (simp add: sample_liquidating_def)
  have "close_account_handler (instruction (sample_rt [] 0) [100] 0) 100 100000 ?a = Inr (AccountClosed 100000)"
    unfolding close_account_handler_def p
    by (simp add: require_signer_def constraint_def sample_created_eq) (simp add: empty_account_def)
  from ws_close [OF a this] have "margin_step (sample_rt [] 0) sample_liquidating ?v" .
  moreover have "margin_step (sample_rt [] 0) ?v ?w" by (rule sample_created_step) simp
  ultimately have "(margin_step (sample_rt [] 0))\<^sup>*\<^sup>* sample_liquidating ?w"
    by (rule rtranclp.rtrancl_into_rtrancl [OF r_into_rtranclp])
  moreover obtain es where "liquidator_invoke_handler (sample_rt [300] 0) 1 noop_program 300 100000 99 sample_adapter [] []
       sample_state sample_created = Inr (sample_created, sample_state, [], es)"
    using sample_liquidator_invoke [of 0 0] unfolding l0(2) by blast
  ultimately show ?thesis using l0(1) sample_liquidating_ok
    by (intro exI [of _ ?w] exI [of _ es]) (simp add: sample_liquidating_def)
qed

end
