(* ===== verification/Staking.thy ===== *)
theory Staking
  imports Runtime
begin

text \<open>
  The staking program, \<open>programs/staking\<close>, and the authentication program \<open>programs/auth\<close> that
  admits its users. Staked tokens are held in one vault and owned in shares of two pools, the
  bonded tokens, which airdrops and dilutions reach, and the tokens being unbonded.

  \<open>SharedTokenPool\<close> is the share arithmetic, \<open>StakePool\<close> and \<open>StakeAccount\<close> the two accounts, and
  the handlers the instructions. All amounts are \<open>u64\<close>; the code checks its arithmetic and
  unwraps, so an overflow is a panic.
\<close>

subsection \<open>Users\<close>

record UserAuthentication =
  ua_owner :: Pubkey
  ua_complete :: bool
  ua_allowed :: bool

definition create_user_auth_handler ::
  "'l Runtime \<Rightarrow> Pubkey \<Rightarrow> Pubkey \<Rightarrow> Pubkey \<Rightarrow> UserAuthentication option \<Rightarrow> (unit, UserAuthentication) tx" where
  "create_user_auth_handler rt user payer key existing =
     bindE (require_signer rt payer) (\<lambda>_.
     bindE (constraint (existing = None \<and> key = pda rt [SeedKey user])) (\<lambda>_.
     Inr \<lparr>ua_owner = user, ua_complete = False, ua_allowed = False\<rparr>))"

text \<open>\<open>authority_id\<close> is the address that is built into the program.\<close>

definition authenticate_handler ::
  "'l Runtime \<Rightarrow> Pubkey \<Rightarrow> Pubkey \<Rightarrow> UserAuthentication \<Rightarrow> (unit, UserAuthentication) tx" where
  "authenticate_handler rt authority_id authority auth =
     bindE (require_signer rt authority) (\<lambda>_.
     bindE (constraint (authority = authority_id)) (\<lambda>_.
     Inr (auth\<lparr>ua_complete := True, ua_allowed := True\<rparr>)))"

subsection \<open>Shares\<close>

definition INIT_TOKEN_SCALE :: nat where "INIT_TOKEN_SCALE = 1000000000"

definition INIT_SHARE_SCALE :: nat where "INIT_SHARE_SCALE = 10000000000"

datatype StakingError =
    InsufficientStake | InvalidTokenOwnerRecord | OutstandingVotes | NotYetUnbonded | StakeRemaining | StakeInvalidAmount

type_synonym 'a staking_res = "(StakingError, 'a) res"
type_synonym 'a staking_tx = "(StakingError, 'a) tx"

datatype Rounding = Up | Down

record StakeAmount =
  sa_tokens :: nat
  sa_shares :: nat
  sa_all_shares :: nat
  sa_all_tokens :: nat

text \<open>The amount \<open>x * num / den\<close>, rounded as asked for, and the two assertions on it.\<close>

definition exchange :: "Rounding \<Rightarrow> nat \<Rightarrow> nat \<Rightarrow> nat \<Rightarrow> nat staking_res" where
  "exchange rounding x num den =
     bindE (if rounding = Up \<and> x > 0 then plain_sub 128 den 1 else Inr 0) (\<lambda>round_amount.
     bindE (unwrap (checked_mul 128 x num)) (\<lambda>product.
     bindE (unwrap (checked_add 128 round_amount product)) (\<lambda>n.
     bindE (plain_div n den) (\<lambda>y.
     bindE (assertE (y < 2 ^ 64 - 1)) (\<lambda>_.
     bindE (assertE (y > 0 \<and> x > 0 \<or> y = 0 \<and> x = 0)) (\<lambda>_.
     Inr y))))))"

definition with_tokens :: "Rounding \<Rightarrow> nat \<Rightarrow> StakeAmount \<Rightarrow> StakeAmount staking_res" where
  "with_tokens rounding token_amount f =
     bindE (exchange rounding token_amount (sa_all_shares f) (sa_all_tokens f)) (\<lambda>share_amount.
     Inr (f\<lparr>sa_tokens := token_amount, sa_shares := share_amount\<rparr>))"

definition with_shares :: "Rounding \<Rightarrow> nat \<Rightarrow> StakeAmount \<Rightarrow> StakeAmount staking_res" where
  "with_shares rounding share_amount f =
     bindE (exchange rounding share_amount (sa_all_tokens f) (sa_all_shares f)) (\<lambda>token_amount.
     Inr (f\<lparr>sa_tokens := token_amount, sa_shares := share_amount\<rparr>))"

record SharedTokenPool =
  stp_tokens :: nat
  stp_shares :: nat

definition stp_amount :: "SharedTokenPool \<Rightarrow> StakeAmount" where
  "stp_amount p =
     (let (tokens, shares) = (if stp_tokens p = 0 then (INIT_TOKEN_SCALE, INIT_SHARE_SCALE)
                              else (stp_tokens p, stp_shares p))
      in \<lparr>sa_tokens = 0, sa_shares = 0, sa_all_shares = shares, sa_all_tokens = tokens\<rparr>)"

definition stp_deposit :: "nat \<Rightarrow> SharedTokenPool \<Rightarrow> (SharedTokenPool \<times> StakeAmount) staking_res" where
  "stp_deposit tokens p =
     bindE (with_tokens Down tokens (stp_amount p)) (\<lambda>f.
     bindE (unwrap (checked_add 64 (stp_shares p) (sa_shares f))) (\<lambda>shares.
     bindE (unwrap (checked_add 64 (stp_tokens p) (sa_tokens f))) (\<lambda>tokens.
     Inr (\<lparr>stp_tokens = tokens, stp_shares = shares\<rparr>, f))))"

definition withdraw_full_amount :: "StakeAmount \<Rightarrow> SharedTokenPool \<Rightarrow> SharedTokenPool staking_res" where
  "withdraw_full_amount f p =
     bindE (unwrap (checked_sub (stp_shares p) (sa_shares f))) (\<lambda>shares.
     bindE (unwrap (checked_sub (stp_tokens p) (sa_tokens f))) (\<lambda>tokens.
     Inr \<lparr>stp_tokens = tokens, stp_shares = shares\<rparr>))"

definition stp_withdraw :: "nat \<Rightarrow> SharedTokenPool \<Rightarrow> (SharedTokenPool \<times> StakeAmount) staking_res" where
  "stp_withdraw shares p =
     bindE (with_shares Down shares (stp_amount p)) (\<lambda>f.
     bindE (withdraw_full_amount f p) (\<lambda>p. Inr (p, f)))"

definition stp_withdraw_tokens :: "nat \<Rightarrow> SharedTokenPool \<Rightarrow> (SharedTokenPool \<times> StakeAmount) staking_res" where
  "stp_withdraw_tokens tokens p =
     bindE (with_tokens Up tokens (stp_amount p)) (\<lambda>f.
     bindE (withdraw_full_amount f p) (\<lambda>p. Inr (p, f)))"

definition stp_donate :: "nat \<Rightarrow> SharedTokenPool \<Rightarrow> SharedTokenPool staking_res" where
  "stp_donate tokens p =
     bindE (unwrap (checked_add 64 (stp_tokens p) tokens)) (\<lambda>t. Inr (p\<lparr>stp_tokens := t\<rparr>))"

definition stp_dilute :: "nat \<Rightarrow> SharedTokenPool \<Rightarrow> SharedTokenPool staking_res" where
  "stp_dilute tokens p =
     bindE (unwrap (checked_sub (stp_tokens p) tokens)) (\<lambda>t. Inr (p\<lparr>stp_tokens := t\<rparr>))"

subsection \<open>Accounts\<close>

datatype VoterWeightAction = CastVote | CommentProposal | CreateGovernance | CreateProposal | SignOffProposal

record VoterWeightRecord =
  vw_realm :: Pubkey
  vw_governing_token_mint :: Pubkey
  vw_owner :: Pubkey
  vw_voter_weight :: nat
  vw_voter_weight_expiry :: "nat option"
  vw_weight_action :: "VoterWeightAction option"
  vw_weight_action_target :: "Pubkey option"

record MaxVoterWeightRecord =
  mw_realm :: Pubkey
  mw_governing_token_mint :: Pubkey
  mw_max_voter_weight :: nat
  mw_max_voter_weight_expiry :: "nat option"

record StakeAccount =
  sk_owner :: Pubkey
  sk_stake_pool :: Pubkey
  sk_voter_weight_record :: Pubkey
  sk_bonded_shares :: nat
  sk_unbonding_shares :: nat

record UnbondingAccount =
  ub_stake_account :: Pubkey
  ub_shares :: nat
  ub_unbonded_at :: int

record StakePool =
  sp_authority :: Pubkey
  sp_seed :: string
  sp_bump_seed :: nat
  sp_token_mint :: Pubkey
  sp_stake_pool_vault :: Pubkey
  sp_max_voter_weight_record :: Pubkey
  sp_governance_realm :: Pubkey
  sp_unbond_period :: int
  sp_vault_amount :: nat
  sp_bonded :: SharedTokenPool
  sp_unbonding :: SharedTokenPool

definition sk_deposit :: "nat \<Rightarrow> StakeAccount \<Rightarrow> StakeAccount staking_res" where
  "sk_deposit shares a =
     bindE (unwrap (checked_add 64 (sk_bonded_shares a) shares)) (\<lambda>s. Inr (a\<lparr>sk_bonded_shares := s\<rparr>))"

definition sk_unbond :: "nat \<Rightarrow> nat \<Rightarrow> StakeAccount \<Rightarrow> StakeAccount staking_res" where
  "sk_unbond bonded_shares_to_burn unbonding_shares_to_award a =
     (if sk_bonded_shares a < bonded_shares_to_burn then err InsufficientStake
      else
        bindE (unwrap (checked_sub (sk_bonded_shares a) bonded_shares_to_burn)) (\<lambda>bonded.
        bindE (unwrap (checked_add 64 (sk_unbonding_shares a) unbonding_shares_to_award)) (\<lambda>unbonding.
        Inr (a\<lparr>sk_bonded_shares := bonded, sk_unbonding_shares := unbonding\<rparr>))))"

definition sk_withdraw_unbonded :: "nat \<Rightarrow> StakeAccount \<Rightarrow> StakeAccount staking_res" where
  "sk_withdraw_unbonded shares a =
     bindE (unwrap (checked_sub (sk_unbonding_shares a) shares)) (\<lambda>s. Inr (a\<lparr>sk_unbonding_shares := s\<rparr>))"

definition update_voter_weight_record :: "StakeAccount \<Rightarrow> VoterWeightRecord \<Rightarrow> VoterWeightRecord" where
  "update_voter_weight_record a r =
     r\<lparr>vw_owner := sk_owner a, vw_voter_weight := sk_bonded_shares a, vw_weight_action := Some CastVote\<rparr>"

definition update_max_vote_weight_record :: "StakePool \<Rightarrow> MaxVoterWeightRecord \<Rightarrow> MaxVoterWeightRecord" where
  "update_max_vote_weight_record p r =
     r\<lparr>mw_max_voter_weight := stp_shares (sp_bonded p), mw_max_voter_weight_expiry := None\<rparr>"

subsection \<open>The stake pool\<close>

definition update_vault :: "nat \<Rightarrow> StakePool \<Rightarrow> StakePool staking_res" where
  "update_vault vault_amount p =
     bindE (unwrap (checked_sub vault_amount (sp_vault_amount p))) (\<lambda>d.
     bindE (stp_donate d (sp_bonded p)) (\<lambda>b.
     Inr (p\<lparr>sp_bonded := b, sp_vault_amount := vault_amount\<rparr>)))"

definition sp_deposit :: "StakeAccount \<Rightarrow> nat \<Rightarrow> StakePool \<Rightarrow> (StakePool \<times> StakeAccount \<times> StakeAmount) staking_res" where
  "sp_deposit a tokens p =
     bindE (stp_deposit tokens (sp_bonded p)) (\<lambda>(b, f).
     bindE (unwrap (checked_add 64 (sp_vault_amount p) (sa_tokens f))) (\<lambda>v.
     bindE (sk_deposit (sa_shares f) a) (\<lambda>a.
     Inr (p\<lparr>sp_bonded := b, sp_vault_amount := v\<rparr>, a, f))))"

definition sp_unbond ::
  "StakeAccount \<Rightarrow> UnbondingAccount \<Rightarrow> nat option \<Rightarrow> StakePool \<Rightarrow>
     (StakePool \<times> StakeAccount \<times> UnbondingAccount \<times> StakeAmount) staking_res" where
  "sp_unbond a r tokens p =
     bindE (case tokens of
              Some n \<Rightarrow> stp_withdraw_tokens n (sp_bonded p)
            | None \<Rightarrow> stp_withdraw (sk_bonded_shares a) (sp_bonded p)) (\<lambda>(b, f).
     bindE (stp_deposit (sa_tokens f) (sp_unbonding p)) (\<lambda>(u, g).
     bindE (sk_unbond (sa_shares f) (sa_shares g) a) (\<lambda>a.
     Inr (p\<lparr>sp_bonded := b, sp_unbonding := u\<rparr>, a, r\<lparr>ub_shares := sa_shares g\<rparr>, f))))"

definition sp_withdraw_unbonded ::
  "StakeAccount \<Rightarrow> UnbondingAccount \<Rightarrow> StakePool \<Rightarrow> (StakePool \<times> StakeAccount \<times> StakeAmount) staking_res" where
  "sp_withdraw_unbonded a r p =
     bindE (stp_withdraw (ub_shares r) (sp_unbonding p)) (\<lambda>(u, f).
     bindE (sk_withdraw_unbonded (sa_shares f) a) (\<lambda>a.
     bindE (unwrap (checked_sub (sp_vault_amount p) (sa_tokens f))) (\<lambda>v.
     Inr (p\<lparr>sp_unbonding := u, sp_vault_amount := v\<rparr>, a, f))))"

definition sp_withdraw_bonded :: "nat \<Rightarrow> StakePool \<Rightarrow> StakePool staking_res" where
  "sp_withdraw_bonded amount p =
     bindE (unwrap (checked_mul 128 amount (stp_tokens (sp_bonded p)))) (\<lambda>product.
     bindE (unwrap (checked_div product (sp_vault_amount p))) (\<lambda>q.
     bindE (unwrap (if q < 2 ^ 64 then Some q else None)) (\<lambda>bonded_withdrawal.
     bindE (unwrap (checked_sub amount bonded_withdrawal)) (\<lambda>unbonding_withdrawal.
     bindE (stp_dilute bonded_withdrawal (sp_bonded p)) (\<lambda>b.
     bindE (stp_dilute unbonding_withdrawal (sp_unbonding p)) (\<lambda>u.
     bindE (unwrap (checked_sub (sp_vault_amount p) amount)) (\<lambda>v.
     Inr (p\<lparr>sp_bonded := b, sp_unbonding := u, sp_vault_amount := v\<rparr>))))))))"

definition sp_rebond ::
  "StakeAccount \<Rightarrow> UnbondingAccount \<Rightarrow> StakePool \<Rightarrow> (StakePool \<times> StakeAccount \<times> StakeAmount) staking_res" where
  "sp_rebond a r p =
     bindE (sp_withdraw_unbonded a r p) (\<lambda>(p, a, amount).
     bindE (sp_deposit a (sa_tokens amount) p) (\<lambda>(p, a, f).
     Inr (p, a, amount)))"

definition stake_pool_signer :: "StakePool \<Rightarrow> Seed list" where
  "stake_pool_signer p = [SeedBytes (sp_seed p), SeedInt (sp_bump_seed p)]"


subsection \<open>Instructions\<close>

record StakePoolNote =
  pn_vault_amount :: nat
  pn_bonded :: SharedTokenPool
  pn_unbonding :: SharedTokenPool

record StakeAccountNote =
  an_bonded_shares :: nat
  an_unbonding_shares :: nat

definition pool_note :: "StakePool \<Rightarrow> StakePoolNote" where
  "pool_note p = \<lparr>pn_vault_amount = sp_vault_amount p, pn_bonded = sp_bonded p, pn_unbonding = sp_unbonding p\<rparr>"

definition account_note :: "StakeAccount \<Rightarrow> StakeAccountNote" where
  "account_note a = \<lparr>an_bonded_shares = sk_bonded_shares a, an_unbonding_shares = sk_unbonding_shares a\<rparr>"

record StakingPoolConfig =
  cf_unbond_period :: nat
  cf_governance_realm :: Pubkey

datatype StakingEvent =
    StakePoolCreated Pubkey Pubkey string Pubkey StakingPoolConfig nat
  | StakeAccountCreated Pubkey Pubkey Pubkey
  | StakeAdded Pubkey Pubkey Pubkey Pubkey StakeAmount StakePoolNote StakeAccountNote nat nat
  | StakeUnbonded Pubkey Pubkey Pubkey Pubkey StakeAmount int StakePoolNote StakeAccountNote nat nat
  | UnbondCancelled Pubkey Pubkey Pubkey Pubkey StakeAmount StakePoolNote StakeAccountNote nat nat
  | UnbondedWithdrawn Pubkey Pubkey Pubkey Pubkey StakeAmount StakePoolNote StakeAccountNote
  | BondedWithdrawn Pubkey nat StakePoolNote
  | StakeAccountClosed Pubkey Pubkey

text \<open>
  The keys of the accounts that an instruction names; the accounts themselves are passed by value.
  \<open>ss_vault\<close> and the like are checked against the pool's fields, \<open>has_one\<close> in the code.
\<close>

record StakeKeys =
  ss_owner :: Pubkey
  ss_payer :: Pubkey
  ss_stake_pool :: Pubkey
  ss_vault :: Pubkey
  ss_stake_account :: Pubkey
  ss_voter_weight_record :: Pubkey
  ss_max_voter_weight_record :: Pubkey
  ss_unbonding_account :: Pubkey
  ss_token_account :: Pubkey

definition check_pool :: "StakeKeys \<Rightarrow> StakePool \<Rightarrow> bool" where
  "check_pool k p \<longleftrightarrow> sp_stake_pool_vault p = ss_vault k \<and>
     sp_max_voter_weight_record p = ss_max_voter_weight_record k"

definition check_account :: "StakeKeys \<Rightarrow> StakeAccount \<Rightarrow> bool" where
  "check_account k a \<longleftrightarrow> sk_stake_pool a = ss_stake_pool k \<and>
     sk_voter_weight_record a = ss_voter_weight_record k"

definition zeroed_stake_pool :: StakePool where
  "zeroed_stake_pool =
     \<lparr>sp_authority = 0, sp_seed = [], sp_bump_seed = 0, sp_token_mint = 0, sp_stake_pool_vault = 0,
      sp_max_voter_weight_record = 0, sp_governance_realm = 0, sp_unbond_period = 0, sp_vault_amount = 0,
      sp_bonded = \<lparr>stp_tokens = 0, stp_shares = 0\<rparr>, sp_unbonding = \<lparr>stp_tokens = 0, stp_shares = 0\<rparr>\<rparr>"

text \<open>
  The new accounts: the pool, its vote weight record, the collateral mint (\<open>ss_token_account\<close>) and the
  vault. Writing the seed fails when it is longer than the 30 bytes it has room for.
\<close>

definition init_pool_handler ::
  "'l Runtime \<Rightarrow> StakeKeys \<Rightarrow> Pubkey \<Rightarrow> Pubkey \<Rightarrow> string \<Rightarrow> StakingPoolConfig \<Rightarrow> StakePool option \<Rightarrow>
     MaxVoterWeightRecord option \<Rightarrow> 'l \<Rightarrow> (StakePool \<times> MaxVoterWeightRecord \<times> 'l \<times> StakingEvent) staking_tx" where
  "init_pool_handler rt k authority token_mint seed config existing_pool existing_record l =
     bindE (require_signer rt (ss_payer k)) (\<lambda>_.
     bindE (load_mint rt l token_mint) (\<lambda>mint.
     bindE (constraint (existing_pool = None \<and> ss_stake_pool k = pda rt [SeedBytes seed])) (\<lambda>_.
     bindE (constraint (existing_record = None \<and> ss_max_voter_weight_record k =
              pda rt [SeedKey (cf_governance_realm config), SeedBytes ''max-vote-weight-record''])) (\<lambda>_.
     bindE (constraint (ss_token_account k = pda rt [SeedBytes seed, SeedBytes ''collateral-mint''])) (\<lambda>_.
     bindE (create_mint rt (ss_token_account k) (ss_stake_pool k) (mint_decimals mint) l) (\<lambda>l.
     bindE (constraint (ss_vault k = pda rt [SeedBytes seed, SeedBytes ''vault''])) (\<lambda>_.
     bindE (create_token_account rt (ss_vault k) token_mint (ss_stake_pool k) l) (\<lambda>l.
     bindE (constraint (length seed \<le> 30)) (\<lambda>_.
     let p = zeroed_stake_pool\<lparr>sp_authority := authority, sp_token_mint := token_mint,
           sp_stake_pool_vault := ss_vault k, sp_max_voter_weight_record := ss_max_voter_weight_record k,
           sp_governance_realm := cf_governance_realm config, sp_seed := seed,
           sp_bump_seed := snd (rt_find_address rt [SeedBytes seed]),
           sp_unbond_period := wrap_i 64 (int (cf_unbond_period config))\<rparr>;
         r = update_max_vote_weight_record p
           \<lparr>mw_realm = cf_governance_realm config, mw_governing_token_mint = token_mint,
            mw_max_voter_weight = 0, mw_max_voter_weight_expiry = None\<rparr> in
     Inr (p, r, l, StakePoolCreated (ss_stake_pool k) authority seed token_mint config
            (mw_max_voter_weight r)))))))))))"

definition init_stake_account_handler ::
  "'l Runtime \<Rightarrow> StakeKeys \<Rightarrow> UserAuthentication \<Rightarrow> StakePool \<Rightarrow> StakeAccount option \<Rightarrow>
     VoterWeightRecord option \<Rightarrow> (StakeAccount \<times> VoterWeightRecord \<times> StakingEvent) staking_tx" where
  "init_stake_account_handler rt k auth p existing_account existing_record =
     bindE (require_signer rt (ss_owner k)) (\<lambda>_.
     bindE (require_signer rt (ss_payer k)) (\<lambda>_.
     bindE (constraint (ua_owner auth = ss_owner k \<and> ua_allowed auth)) (\<lambda>_.
     bindE (constraint (existing_account = None \<and>
              ss_stake_account k = pda rt [SeedKey (ss_stake_pool k), SeedKey (ss_owner k)])) (\<lambda>_.
     bindE (constraint (existing_record = None \<and> ss_voter_weight_record k =
              pda rt [SeedBytes ''voter-weight-record'', SeedKey (ss_stake_account k)])) (\<lambda>_.
     let a = \<lparr>sk_owner = ss_owner k, sk_stake_pool = ss_stake_pool k,
              sk_voter_weight_record = ss_voter_weight_record k, sk_bonded_shares = 0, sk_unbonding_shares = 0\<rparr>;
         r = update_voter_weight_record a
           \<lparr>vw_realm = sp_governance_realm p, vw_governing_token_mint = sp_token_mint p, vw_owner = 0,
            vw_voter_weight = 0, vw_voter_weight_expiry = None, vw_weight_action = None,
            vw_weight_action_target = None\<rparr> in
     Inr (a, r, StakeAccountCreated (ss_stake_pool k) (ss_stake_account k) (sk_owner a)))))))"

definition add_stake_handler ::
  "'l Runtime \<Rightarrow> StakeKeys \<Rightarrow> nat option \<Rightarrow> StakePool \<Rightarrow> StakeAccount \<Rightarrow> VoterWeightRecord \<Rightarrow> MaxVoterWeightRecord \<Rightarrow> 'l \<Rightarrow>
     (StakePool \<times> StakeAccount \<times> VoterWeightRecord \<times> MaxVoterWeightRecord \<times> 'l \<times> StakingEvent) staking_tx" where
  "add_stake_handler rt k amount p a vw mw l =
     bindE (constraint (check_pool k p \<and> check_account k a)) (\<lambda>_.
     bindE (load_token_account rt l (ss_vault k)) (\<lambda>vault.
     bindE (require_signer rt (ss_payer k)) (\<lambda>_.
     bindE (load_token_account rt l (ss_token_account k)) (\<lambda>payer_token_account.
     bindE (lift_tx (update_vault (ta_amount vault) p)) (\<lambda>p.
     let token_amount = (case amount of Some n \<Rightarrow> n | None \<Rightarrow> ta_amount payer_token_account) in
     bindE (lift_tx (sp_deposit a token_amount p)) (\<lambda>(p, a, f).
     let vw = update_voter_weight_record a vw; mw = update_max_vote_weight_record p mw in
     bindE (token_cpi rt (TokenTransfer (ss_token_account k) (ss_vault k) (ss_payer k) (sa_tokens f)) l) (\<lambda>l.
     Inr (p, a, vw, mw, l, StakeAdded (ss_stake_pool k) (ss_stake_account k) (sk_owner a) (ss_payer k) f
            (pool_note p) (account_note a) (vw_voter_weight vw) (mw_max_voter_weight mw)))))))))"

text \<open>
  What the governance library decodes from a token owner record, and whether it lets the owner
  withdraw, which it refuses while votes are outstanding.
\<close>

record TokenOwnerRecord =
  tor_realm :: Pubkey
  tor_governing_token_mint :: Pubkey
  tor_governing_token_owner :: Pubkey
  tor_can_withdraw :: bool

definition read_token_owner_record ::
  "StakeKeys \<Rightarrow> StakePool \<Rightarrow> TokenOwnerRecord option \<Rightarrow> TokenOwnerRecord staking_tx" where
  "read_token_owner_record k p account =
     bindE (ok_or account AccountErr) (\<lambda>r.
     if tor_governing_token_owner r \<noteq> ss_owner k then err (ProgramErr InvalidTokenOwnerRecord)
     else if tor_realm r \<noteq> sp_governance_realm p then err (ProgramErr InvalidTokenOwnerRecord)
     else if tor_governing_token_mint r \<noteq> sp_token_mint p then err (ProgramErr InvalidTokenOwnerRecord)
     else Inr r)"

definition unbond_stake_handler ::
  "'l Runtime \<Rightarrow> StakeKeys \<Rightarrow> TokenOwnerRecord option \<Rightarrow> nat \<Rightarrow> nat option \<Rightarrow> StakePool \<Rightarrow> StakeAccount \<Rightarrow>
     UnbondingAccount option \<Rightarrow> VoterWeightRecord \<Rightarrow> MaxVoterWeightRecord \<Rightarrow> 'l \<Rightarrow>
     (StakePool \<times> StakeAccount \<times> UnbondingAccount \<times> VoterWeightRecord \<times> MaxVoterWeightRecord \<times> StakingEvent)
       staking_tx" where
  "unbond_stake_handler rt k owner_record seed amount p a existing vw mw l =
     bindE (require_signer rt (ss_owner k)) (\<lambda>_.
     bindE (require_signer rt (ss_payer k)) (\<lambda>_.
     bindE (constraint (sk_owner a = ss_owner k \<and> check_account k a \<and> check_pool k p)) (\<lambda>_.
     bindE (load_token_account rt l (ss_vault k)) (\<lambda>vault.
     bindE (constraint (existing = None \<and>
              ss_unbonding_account k = pda rt [SeedKey (ss_stake_account k), SeedInt seed])) (\<lambda>_.
     bindE (read_token_owner_record k p owner_record) (\<lambda>gov_owner_record.
     bindE (guardE (tor_can_withdraw gov_owner_record) (ProgramErr OutstandingVotes)) (\<lambda>_.
     bindE (plain_i 64 (rt_clock rt + sp_unbond_period p)) (\<lambda>unbonded_at.
     let r = \<lparr>ub_stake_account = ss_stake_account k, ub_shares = 0, ub_unbonded_at = unbonded_at\<rparr> in
     bindE (lift_tx (update_vault (ta_amount vault) p)) (\<lambda>p.
     bindE (lift_tx (sp_unbond a r amount p)) (\<lambda>(p, a, r, f).
     let vw = update_voter_weight_record a vw; mw = update_max_vote_weight_record p mw in
     Inr (p, a, r, vw, mw, StakeUnbonded (ss_stake_pool k) (ss_stake_account k) (ss_unbonding_account k)
            (ss_owner k) f (ub_unbonded_at r) (pool_note p) (account_note a) (vw_voter_weight vw)
            (mw_max_voter_weight mw))))))))))))"

text \<open>Success closes the unbonding account, here and in the withdrawal.\<close>

definition cancel_unbond_handler ::
  "'l Runtime \<Rightarrow> StakeKeys \<Rightarrow> StakePool \<Rightarrow> StakeAccount \<Rightarrow> UnbondingAccount \<Rightarrow> VoterWeightRecord \<Rightarrow>
     MaxVoterWeightRecord \<Rightarrow> 'l \<Rightarrow>
     (StakePool \<times> StakeAccount \<times> VoterWeightRecord \<times> MaxVoterWeightRecord \<times> StakingEvent) staking_tx" where
  "cancel_unbond_handler rt k p a r vw mw l =
     bindE (require_signer rt (ss_owner k)) (\<lambda>_.
     bindE (constraint (sk_owner a = ss_owner k \<and> check_account k a \<and> check_pool k p)) (\<lambda>_.
     bindE (load_token_account rt l (ss_vault k)) (\<lambda>vault.
     bindE (constraint (ub_stake_account r = ss_stake_account k)) (\<lambda>_.
     bindE (lift_tx (update_vault (ta_amount vault) p)) (\<lambda>p.
     bindE (lift_tx (sp_rebond a r p)) (\<lambda>(p, a, f).
     let vw = update_voter_weight_record a vw; mw = update_max_vote_weight_record p mw in
     Inr (p, a, vw, mw, UnbondCancelled (ss_stake_pool k) (ss_stake_account k) (ss_unbonding_account k)
            (ss_owner k) f (pool_note p) (account_note a) (vw_voter_weight vw) (mw_max_voter_weight mw))))))))"

definition withdraw_unbonded_handler ::
  "'l Runtime \<Rightarrow> StakeKeys \<Rightarrow> StakePool \<Rightarrow> StakeAccount \<Rightarrow> UnbondingAccount \<Rightarrow> 'l \<Rightarrow>
     (StakePool \<times> StakeAccount \<times> 'l \<times> StakingEvent) staking_tx" where
  "withdraw_unbonded_handler rt k p a r l =
     bindE (require_signer rt (ss_owner k)) (\<lambda>_.
     bindE (constraint (sk_owner a = ss_owner k \<and> sk_stake_pool a = ss_stake_pool k \<and>
              sp_stake_pool_vault p = ss_vault k)) (\<lambda>_.
     bindE (load_token_account rt l (ss_vault k)) (\<lambda>vault.
     bindE (constraint (ub_stake_account r = ss_stake_account k)) (\<lambda>_.
     if ub_unbonded_at r > rt_clock rt then err (ProgramErr NotYetUnbonded)
     else
       bindE (lift_tx (update_vault (ta_amount vault) p)) (\<lambda>p.
       bindE (lift_tx (sp_withdraw_unbonded a r p)) (\<lambda>(p, a, f).
       bindE (token_cpi_signed rt (stake_pool_signer p)
                (TokenTransfer (ss_vault k) (ss_token_account k) (ss_stake_pool k) (sa_tokens f)) l) (\<lambda>l.
       Inr (p, a, l, UnbondedWithdrawn (ss_stake_pool k) (ss_stake_account k) (ss_unbonding_account k)
              (ss_owner k) f (pool_note p) (account_note a)))))))))"

definition withdraw_bonded_handler ::
  "'l Runtime \<Rightarrow> StakeKeys \<Rightarrow> Pubkey \<Rightarrow> nat \<Rightarrow> StakePool \<Rightarrow> 'l \<Rightarrow> (StakePool \<times> 'l \<times> StakingEvent) staking_tx" where
  "withdraw_bonded_handler rt k authority amount p l =
     bindE (require_signer rt authority) (\<lambda>_.
     bindE (constraint (sp_authority p = authority \<and> sp_stake_pool_vault p = ss_vault k)) (\<lambda>_.
     bindE (load_token_account rt l (ss_vault k)) (\<lambda>vault.
     bindE (lift_tx (update_vault (ta_amount vault) p)) (\<lambda>p.
     bindE (lift_tx (sp_withdraw_bonded amount p)) (\<lambda>p.
     bindE (token_cpi_signed rt (stake_pool_signer p)
              (TokenTransfer (ss_vault k) (ss_token_account k) (ss_stake_pool k) amount) l) (\<lambda>l.
     Inr (p, l, BondedWithdrawn (ss_stake_pool k) amount (pool_note p))))))))"

text \<open>The vote weight record is only required to be one of the same owner.\<close>

definition close_stake_account_handler ::
  "'l Runtime \<Rightarrow> StakeKeys \<Rightarrow> StakeAccount \<Rightarrow> VoterWeightRecord \<Rightarrow> StakingEvent staking_tx" where
  "close_stake_account_handler rt k a vw =
     bindE (require_signer rt (ss_owner k)) (\<lambda>_.
     bindE (constraint (sk_owner a = ss_owner k \<and> vw_owner vw = ss_owner k)) (\<lambda>_.
     bindE (assertE (sk_bonded_shares a = 0)) (\<lambda>_.
     bindE (assertE (sk_unbonding_shares a = 0)) (\<lambda>_.
     Inr (StakeAccountClosed (ss_stake_account k) (ss_owner k))))))"

end
