(* ===== verification/StakingSafety.thy ===== *)
theory StakingSafety
  imports Staking Vaults
begin

text \<open>
  Properties of the staking program: the share arithmetic never favours the one who trades with
  it, and in any interleaving of the instructions the shares, the votes and the vault add up.
\<close>

subsection \<open>Share arithmetic\<close>

lemma exchange_Inr:
  assumes "exchange r x num den = Inr y"
  shows "x = 0 \<longleftrightarrow> y = 0" "y < 2 ^ 64 - 1"
    and "r = Down \<Longrightarrow> den \<noteq> 0 \<and> y = x * num div den"
    and "r = Up \<Longrightarrow> 0 < den \<Longrightarrow> u_range 128 den \<Longrightarrow> y = ceil_div (x * num) den"
proof -
  from assms show "x = 0 \<longleftrightarrow> y = 0" "y < 2 ^ 64 - 1" "r = Down \<Longrightarrow> den \<noteq> 0 \<and> y = x * num div den"
    by (auto simp: exchange_def)
  assume r: "r = Up" "0 < den" "u_range 128 den"
  then have "plain_sub 128 den 1 = (Inr (den - 1) :: _ staking_res)" by (intro plain_sub_ok) auto
  with assms r show "y = ceil_div (x * num) den"
    by (cases "x = 0") (auto simp: exchange_def ceil_div_def add.commute)
qed

lemma stp_deposit_Inr:
  assumes "stp_deposit t p = Inr (p', f)"
  shows "p' = \<lparr>stp_tokens = stp_tokens p + t, stp_shares = stp_shares p + sa_shares f\<rparr>" "sa_tokens f = t"
    "t = 0 \<longleftrightarrow> sa_shares f = 0"
    "stp_tokens p \<noteq> 0 \<Longrightarrow> sa_shares f = t * stp_shares p div stp_tokens p"
    "stp_tokens p = 0 \<Longrightarrow> sa_shares f = 10 * t"
    "u64 (stp_tokens p')" "u64 (stp_shares p')"
proof -
  from assms obtain f' where f: "with_tokens Down t (stp_amount p) = Inr f'" "f = f'"
    and p': "p' = \<lparr>stp_tokens = stp_tokens p + sa_tokens f, stp_shares = stp_shares p + sa_shares f\<rparr>"
    and u: "u64 (stp_tokens p')" "u64 (stp_shares p')"
    by (auto simp: stp_deposit_def)
  from f obtain y where y: "exchange Down t (sa_all_shares (stp_amount p)) (sa_all_tokens (stp_amount p)) = Inr y"
    "sa_shares f = y" and t: "sa_tokens f = t"
    by (auto simp: with_tokens_def)
  note e = exchange_Inr [OF y(1)]
  show "p' = \<lparr>stp_tokens = stp_tokens p + t, stp_shares = stp_shares p + sa_shares f\<rparr>" "sa_tokens f = t"
    using p' t by simp_all
  show "t = 0 \<longleftrightarrow> sa_shares f = 0" using e(1) y(2) by simp
  show "stp_tokens p \<noteq> 0 \<Longrightarrow> sa_shares f = t * stp_shares p div stp_tokens p"
    "stp_tokens p = 0 \<Longrightarrow> sa_shares f = 10 * t"
    using e(3) y(2) by (simp_all add: stp_amount_def INIT_TOKEN_SCALE_def INIT_SHARE_SCALE_def)
  show "u64 (stp_tokens p')" "u64 (stp_shares p')" using u .
qed

lemma withdraw_full_amount_Inr:
  "withdraw_full_amount f p = Inr p' \<longleftrightarrow> sa_shares f \<le> stp_shares p \<and> sa_tokens f \<le> stp_tokens p \<and>
     p' = \<lparr>stp_tokens = stp_tokens p - sa_tokens f, stp_shares = stp_shares p - sa_shares f\<rparr>"
  by (auto simp: withdraw_full_amount_def)

lemma stp_withdraw_Inr:
  assumes "stp_withdraw s p = Inr (p', f)"
  shows "sa_shares f = s" "s \<le> stp_shares p" "sa_tokens f \<le> stp_tokens p"
    "p' = \<lparr>stp_tokens = stp_tokens p - sa_tokens f, stp_shares = stp_shares p - s\<rparr>"
    "s = 0 \<longleftrightarrow> sa_tokens f = 0"
    "stp_tokens p \<noteq> 0 \<Longrightarrow> sa_tokens f = s * stp_tokens p div stp_shares p"
proof -
  from assms have f: "with_shares Down s (stp_amount p) = Inr f" and w: "withdraw_full_amount f p = Inr p'"
    by (auto simp: stp_withdraw_def)
  from f obtain y where y: "exchange Down s (sa_all_tokens (stp_amount p)) (sa_all_shares (stp_amount p)) = Inr y"
    "sa_tokens f = y" and s: "sa_shares f = s"
    by (auto simp: with_shares_def)
  note e = exchange_Inr [OF y(1)]
  show "sa_shares f = s" by (rule s)
  show "s \<le> stp_shares p" "sa_tokens f \<le> stp_tokens p"
    "p' = \<lparr>stp_tokens = stp_tokens p - sa_tokens f, stp_shares = stp_shares p - s\<rparr>"
    using w s by (simp_all add: withdraw_full_amount_Inr)
  show "s = 0 \<longleftrightarrow> sa_tokens f = 0" using e(1) y(2) by simp
  show "stp_tokens p \<noteq> 0 \<Longrightarrow> sa_tokens f = s * stp_tokens p div stp_shares p"
    using e(3) y(2) by (simp add: stp_amount_def)
qed

lemma stp_withdraw_tokens_Inr:
  assumes "stp_withdraw_tokens t p = Inr (p', f)" "u64 (stp_tokens p)"
  shows "sa_tokens f = t" "t \<le> stp_tokens p" "sa_shares f \<le> stp_shares p"
    "p' = \<lparr>stp_tokens = stp_tokens p - t, stp_shares = stp_shares p - sa_shares f\<rparr>"
    "t = 0 \<longleftrightarrow> sa_shares f = 0"
    "stp_tokens p \<noteq> 0 \<Longrightarrow> sa_shares f = ceil_div (t * stp_shares p) (stp_tokens p)"
proof -
  from assms(1) have f: "with_tokens Up t (stp_amount p) = Inr f" and w: "withdraw_full_amount f p = Inr p'"
    by (auto simp: stp_withdraw_tokens_def)
  from f obtain y where y: "exchange Up t (sa_all_shares (stp_amount p)) (sa_all_tokens (stp_amount p)) = Inr y"
    "sa_shares f = y" and t: "sa_tokens f = t"
    by (auto simp: with_tokens_def)
  note e = exchange_Inr [OF y(1)]
  show "sa_tokens f = t" by (rule t)
  show "t \<le> stp_tokens p" "sa_shares f \<le> stp_shares p"
    "p' = \<lparr>stp_tokens = stp_tokens p - t, stp_shares = stp_shares p - sa_shares f\<rparr>"
    using w t by (simp_all add: withdraw_full_amount_Inr)
  show "t = 0 \<longleftrightarrow> sa_shares f = 0" using e(1) y(2) by simp
  have "u_range 128 (stp_tokens p)" using assms(2) by (rule u_range_widen) simp
  then show "stp_tokens p \<noteq> 0 \<Longrightarrow> sa_shares f = ceil_div (t * stp_shares p) (stp_tokens p)"
    using e(4) y(2) by (simp add: stp_amount_def)
qed

text \<open>The value of a share, as a ratio of tokens to shares: \<open>q\<close> is worth at least \<open>p\<close>.\<close>

definition worth_at_least :: "SharedTokenPool \<Rightarrow> SharedTokenPool \<Rightarrow> bool" where
  "worth_at_least q p \<longleftrightarrow> stp_tokens p * stp_shares q \<le> stp_tokens q * stp_shares p"

lemma deposit_worth:
  assumes "stp_deposit t p = Inr (p', f)"
  shows "worth_at_least p' p"
proof (cases "stp_tokens p = 0")
  case False
  note d = stp_deposit_Inr [OF assms]
  have "stp_tokens p * sa_shares f \<le> t * stp_shares p" using d(4) [OF False] by simp
  then show ?thesis by (simp add: worth_at_least_def d(1) algebra_simps)
qed (simp add: worth_at_least_def)

lemma withdraw_worth:
  assumes "stp_withdraw s p = Inr (p', f)"
  shows "worth_at_least p' p"
proof (cases "stp_tokens p = 0")
  case False
  note d = stp_withdraw_Inr [OF assms]
  have "sa_tokens f * stp_shares p \<le> s * stp_tokens p"
    using d(6) [OF False] by (simp add: div_times_less_eq_dividend)
  then show ?thesis using d(2,3)
    by (simp add: worth_at_least_def d(4) diff_mult_distrib diff_mult_distrib2 algebra_simps)
qed (simp add: worth_at_least_def)

lemma withdraw_tokens_worth:
  assumes "stp_withdraw_tokens t p = Inr (p', f)" "u64 (stp_tokens p)"
  shows "worth_at_least p' p"
proof (cases "stp_tokens p = 0")
  case False
  note d = stp_withdraw_tokens_Inr [OF assms]
  have "t * stp_shares p \<le> stp_tokens p * sa_shares f"
    using d(6) [OF False] ceil_div_le [of "stp_tokens p" "t * stp_shares p"] False by simp
  then show ?thesis using d(2,3)
    by (simp add: worth_at_least_def d(4) diff_mult_distrib diff_mult_distrib2 algebra_simps)
qed (simp add: worth_at_least_def)

text \<open>
  C36: No trade of bonded or unbonding shares lowers the value of the shares of others: depositing,
  redeeming shares and withdrawing tokens all leave at least as many tokens per share.
\<close>

theorem share_value_never_falls:
  assumes "u64 (stp_tokens p)"
  shows "(stp_deposit t p = Inr (p', f) \<longrightarrow> worth_at_least p' p) \<and>
    (stp_withdraw s p = Inr (p', f) \<longrightarrow> worth_at_least p' p) \<and>
    (stp_withdraw_tokens t p = Inr (p', f) \<longrightarrow> worth_at_least p' p)"
  using assms deposit_worth withdraw_worth withdraw_tokens_worth by blast

definition sample_shares :: SharedTokenPool where
  "sample_shares = \<lparr>stp_tokens = 1500, stp_shares = 10000\<rparr>"

lemma sample_shares_deposit:
  "stp_deposit 28 sample_shares =
     Inr (\<lparr>stp_tokens = 1528, stp_shares = 10186\<rparr>, \<lparr>sa_tokens = 28, sa_shares = 186, sa_all_shares = 10000, sa_all_tokens = 1500\<rparr>)"
  by (simp add: stp_deposit_def with_tokens_def exchange_def stp_amount_def sample_shares_def u_range_def)

theorem share_value_never_falls_witness:
  "worth_at_least \<lparr>stp_tokens = 1528, stp_shares = 10186\<rparr> sample_shares"
  using share_value_never_falls [of sample_shares 28] sample_shares_deposit by (auto simp: sample_shares_def u_range_def)

text \<open>
  What is staked and redeemed at once never comes back as more: after a deposit into a pool,
  redeeming the new shares returns at most the tokens that were put in.
\<close>

theorem stake_round_trip:
  assumes "stp_deposit t p = Inr (q, f)" "stp_withdraw (sa_shares f) q = Inr (r, g)"
  shows "sa_tokens g \<le> t"
proof -
  note d = stp_deposit_Inr [OF assms(1)]
  note w = stp_withdraw_Inr [OF assms(2)]
  show ?thesis
  proof (cases "t = 0")
    case True
    with d(3) w(5) show ?thesis by simp
  next
    case False
    then have q: "stp_tokens q \<noteq> 0" "0 < stp_shares q" using d(1,3) by auto
    have "sa_shares f * stp_tokens q \<le> t * stp_shares q"
    proof (cases "stp_tokens p = 0")
      case True
      with d(1) show ?thesis by simp
    next
      case p: False
      have "stp_tokens p * sa_shares f \<le> t * stp_shares p" using d(4) [OF p] by simp
      then show ?thesis by (simp add: d(1) algebra_simps)
    qed
    then have "sa_shares f * stp_tokens q div stp_shares q \<le> t * stp_shares q div stp_shares q"
      by (rule div_le_mono)
    then show ?thesis using w(6) [OF q(1)] q(2) by simp
  qed
qed

subsection \<open>What the operations do\<close>

lemma update_vault_Inr:
  "update_vault v p = Inr q \<longleftrightarrow> sp_vault_amount p \<le> v \<and>
     u64 (stp_tokens (sp_bonded p) + (v - sp_vault_amount p)) \<and>
     q = p\<lparr>sp_bonded := (sp_bonded p)\<lparr>stp_tokens := stp_tokens (sp_bonded p) + (v - sp_vault_amount p)\<rparr>,
           sp_vault_amount := v\<rparr>"
  by (auto simp: update_vault_def stp_donate_def)

lemma sk_unbond_Inr:
  "sk_unbond s n a = Inr b \<longleftrightarrow> s \<le> sk_bonded_shares a \<and> u64 (sk_unbonding_shares a + n) \<and>
     b = a\<lparr>sk_bonded_shares := sk_bonded_shares a - s, sk_unbonding_shares := sk_unbonding_shares a + n\<rparr>"
  by (auto simp: sk_unbond_def)

definition book_balanced :: "StakePool \<Rightarrow> bool" where
  "book_balanced p \<longleftrightarrow> sp_vault_amount p = stp_tokens (sp_bonded p) + stp_tokens (sp_unbonding p)"

text \<open>The fields of a pool and of an account that no operation changes.\<close>

definition same_pool :: "StakePool \<Rightarrow> StakePool \<Rightarrow> bool" where
  "same_pool p q \<longleftrightarrow> sp_authority q = sp_authority p \<and> sp_token_mint q = sp_token_mint p \<and>
     sp_stake_pool_vault q = sp_stake_pool_vault p \<and>
     sp_max_voter_weight_record q = sp_max_voter_weight_record p \<and>
     sp_unbond_period q = sp_unbond_period p"

definition same_account :: "StakeAccount \<Rightarrow> StakeAccount \<Rightarrow> bool" where
  "same_account a b \<longleftrightarrow> sk_owner b = sk_owner a \<and> sk_stake_pool b = sk_stake_pool a \<and>
     sk_voter_weight_record b = sk_voter_weight_record a"

lemma same_refl [simp]: "same_pool p p" "same_account a a"
  by (simp_all add: same_pool_def same_account_def)

lemma update_vault_spec:
  assumes "update_vault v p = Inr q" "book_balanced p"
  shows "book_balanced q" "same_pool p q" "sp_vault_amount q = v" "sp_unbonding q = sp_unbonding p"
    "stp_shares (sp_bonded q) = stp_shares (sp_bonded p)" "u64 (stp_tokens (sp_bonded q))"
  using assms by (auto simp: update_vault_Inr book_balanced_def same_pool_def)

lemma sp_deposit_spec:
  assumes "sp_deposit a t p = Inr (q, b, f)" "book_balanced p"
  shows "book_balanced q" "same_pool p q" "same_account a b" "sa_tokens f = t"
    "sp_vault_amount q = sp_vault_amount p + t" "sp_unbonding q = sp_unbonding p"
    "stp_shares (sp_bonded q) = stp_shares (sp_bonded p) + sa_shares f"
    "sk_bonded_shares b = sk_bonded_shares a + sa_shares f" "sk_unbonding_shares b = sk_unbonding_shares a"
proof -
  from assms(1) obtain r where d: "stp_deposit t (sp_bonded p) = Inr (r, f)"
    and q: "q = p\<lparr>sp_bonded := r, sp_vault_amount := sp_vault_amount p + sa_tokens f\<rparr>"
    and b: "b = a\<lparr>sk_bonded_shares := sk_bonded_shares a + sa_shares f\<rparr>"
    by (auto simp: sp_deposit_def sk_deposit_def)
  note e = stp_deposit_Inr(1,2) [OF d]
  show "book_balanced q" "same_pool p q" "same_account a b" "sa_tokens f = t"
    "sp_vault_amount q = sp_vault_amount p + t" "sp_unbonding q = sp_unbonding p"
    "stp_shares (sp_bonded q) = stp_shares (sp_bonded p) + sa_shares f"
    "sk_bonded_shares b = sk_bonded_shares a + sa_shares f" "sk_unbonding_shares b = sk_unbonding_shares a"
    using assms(2) e q b by (simp_all add: book_balanced_def same_pool_def same_account_def)
qed

lemma sp_unbond_spec:
  assumes "sp_unbond a r n p = Inr (q, b, r', f)" "book_balanced p" "u64 (stp_tokens (sp_bonded p))"
  shows "book_balanced q" "same_pool p q" "same_account a b" "r' = r\<lparr>ub_shares := ub_shares r'\<rparr>"
    "sp_vault_amount q = sp_vault_amount p"
    "sa_shares f \<le> sk_bonded_shares a" "sk_bonded_shares b = sk_bonded_shares a - sa_shares f"
    "sa_shares f \<le> stp_shares (sp_bonded p)"
    "stp_shares (sp_bonded q) = stp_shares (sp_bonded p) - sa_shares f"
    "sk_unbonding_shares b = sk_unbonding_shares a + ub_shares r'"
    "stp_shares (sp_unbonding q) = stp_shares (sp_unbonding p) + ub_shares r'"
proof -
  from assms(1) obtain bd u g where
    w: "(case n of Some n \<Rightarrow> stp_withdraw_tokens n (sp_bonded p)
          | None \<Rightarrow> stp_withdraw (sk_bonded_shares a) (sp_bonded p)) = Inr (bd, f)"
    and d: "stp_deposit (sa_tokens f) (sp_unbonding p) = Inr (u, g)"
    and b: "sk_unbond (sa_shares f) (sa_shares g) a = Inr b"
    and q: "q = p\<lparr>sp_bonded := bd, sp_unbonding := u\<rparr>" and r': "r' = r\<lparr>ub_shares := sa_shares g\<rparr>"
    by (auto simp: sp_unbond_def)
  have e: "sa_shares f \<le> stp_shares (sp_bonded p) \<and> sa_tokens f \<le> stp_tokens (sp_bonded p) \<and>
      bd = \<lparr>stp_tokens = stp_tokens (sp_bonded p) - sa_tokens f, stp_shares = stp_shares (sp_bonded p) - sa_shares f\<rparr>"
  proof (cases n)
    case None
    with w have "stp_withdraw (sk_bonded_shares a) (sp_bonded p) = Inr (bd, f)" by simp
    from stp_withdraw_Inr [OF this] show ?thesis by simp
  next
    case (Some t)
    with w have "stp_withdraw_tokens t (sp_bonded p) = Inr (bd, f)" by simp
    from stp_withdraw_tokens_Inr [OF this assms(3)] show ?thesis by simp
  qed
  note g = stp_deposit_Inr(1) [OF d]
  show "book_balanced q" "same_pool p q" "same_account a b" "r' = r\<lparr>ub_shares := ub_shares r'\<rparr>"
    "sp_vault_amount q = sp_vault_amount p"
    "sa_shares f \<le> sk_bonded_shares a" "sk_bonded_shares b = sk_bonded_shares a - sa_shares f"
    "sa_shares f \<le> stp_shares (sp_bonded p)"
    "stp_shares (sp_bonded q) = stp_shares (sp_bonded p) - sa_shares f"
    "sk_unbonding_shares b = sk_unbonding_shares a + ub_shares r'"
    "stp_shares (sp_unbonding q) = stp_shares (sp_unbonding p) + ub_shares r'"
    using assms(2) e g b q r' by (simp_all add: sk_unbond_Inr book_balanced_def same_pool_def same_account_def)
qed

lemma sp_withdraw_unbonded_spec:
  assumes "sp_withdraw_unbonded a r p = Inr (q, b, f)" "book_balanced p"
  shows "book_balanced q" "same_pool p q" "same_account a b" "sp_bonded q = sp_bonded p"
    "sa_tokens f \<le> sp_vault_amount p" "sp_vault_amount q = sp_vault_amount p - sa_tokens f"
    "ub_shares r \<le> stp_shares (sp_unbonding p)"
    "stp_shares (sp_unbonding q) = stp_shares (sp_unbonding p) - ub_shares r"
    "ub_shares r \<le> sk_unbonding_shares a" "sk_unbonding_shares b = sk_unbonding_shares a - ub_shares r"
    "sk_bonded_shares b = sk_bonded_shares a"
proof -
  from assms(1) obtain u where d: "stp_withdraw (ub_shares r) (sp_unbonding p) = Inr (u, f)"
    and v: "sa_tokens f \<le> sp_vault_amount p" "sa_shares f \<le> sk_unbonding_shares a"
    and q: "q = p\<lparr>sp_unbonding := u, sp_vault_amount := sp_vault_amount p - sa_tokens f\<rparr>"
    and b: "b = a\<lparr>sk_unbonding_shares := sk_unbonding_shares a - sa_shares f\<rparr>"
    by (auto simp: sp_withdraw_unbonded_def sk_withdraw_unbonded_def)
  note e = stp_withdraw_Inr(1-4) [OF d]
  show "book_balanced q" "same_pool p q" "same_account a b" "sp_bonded q = sp_bonded p"
    "sa_tokens f \<le> sp_vault_amount p" "sp_vault_amount q = sp_vault_amount p - sa_tokens f"
    "ub_shares r \<le> stp_shares (sp_unbonding p)"
    "stp_shares (sp_unbonding q) = stp_shares (sp_unbonding p) - ub_shares r"
    "ub_shares r \<le> sk_unbonding_shares a" "sk_unbonding_shares b = sk_unbonding_shares a - ub_shares r"
    "sk_bonded_shares b = sk_bonded_shares a"
    using assms(2) e v q b by (simp_all add: book_balanced_def same_pool_def same_account_def)
qed

lemma sp_withdraw_bonded_spec:
  assumes "sp_withdraw_bonded n p = Inr q" "book_balanced p"
  shows "book_balanced q" "same_pool p q" "n \<le> sp_vault_amount p" "sp_vault_amount q = sp_vault_amount p - n"
    "stp_shares (sp_bonded q) = stp_shares (sp_bonded p)" "stp_shares (sp_unbonding q) = stp_shares (sp_unbonding p)"
proof -
  from assms(1) obtain x where x: "x \<le> n" "x \<le> stp_tokens (sp_bonded p)" "n - x \<le> stp_tokens (sp_unbonding p)"
    "n \<le> sp_vault_amount p"
    and q: "q = p\<lparr>sp_bonded := (sp_bonded p)\<lparr>stp_tokens := stp_tokens (sp_bonded p) - x\<rparr>,
        sp_unbonding := (sp_unbonding p)\<lparr>stp_tokens := stp_tokens (sp_unbonding p) - (n - x)\<rparr>,
        sp_vault_amount := sp_vault_amount p - n\<rparr>"
    by (auto simp: sp_withdraw_bonded_def stp_dilute_def)
  then show "book_balanced q" "same_pool p q" "n \<le> sp_vault_amount p" "sp_vault_amount q = sp_vault_amount p - n"
    "stp_shares (sp_bonded q) = stp_shares (sp_bonded p)" "stp_shares (sp_unbonding q) = stp_shares (sp_unbonding p)"
    using assms(2) by (simp_all add: book_balanced_def same_pool_def)
qed

subsection \<open>The system around a pool\<close>

record StakeWorld =
  sw_pool :: StakePool
  sw_max :: MaxVoterWeightRecord
  sw_accounts :: "Pubkey \<Rightarrow> StakeAccount option"
  sw_unbonding :: "Pubkey \<Rightarrow> UnbondingAccount option"
  sw_voters :: "Pubkey \<Rightarrow> VoterWeightRecord option"
  sw_unvoted :: "Pubkey set"

text \<open>
  One instruction on the pool at \<open>addr\<close>, or a call of the token program by others. The pool's
  address is a program address, so no instruction starts with its signature. The vote weight record
  that is closed with a stake account may be one of another pool, and a record of this pool may be closed with
  a stake account of another pool: \<open>sw_unvoted\<close> collects the owners who have done the latter.
\<close>

inductive stake_step :: "'l Runtime \<Rightarrow> Pubkey \<Rightarrow> StakeWorld \<times> 'l \<Rightarrow> StakeWorld \<times> 'l \<Rightarrow> bool" for rt addr where
  st_init_account: "ss_stake_pool k = addr \<Longrightarrow>
    init_stake_account_handler (instruction rt s t) k auth (sw_pool w) (sw_accounts w (ss_stake_account k))
      (sw_voters w (ss_voter_weight_record k)) = Inr (a, v, e) \<Longrightarrow>
    stake_step rt addr (w, l)
      (w\<lparr>sw_accounts := (sw_accounts w)(ss_stake_account k \<mapsto> a),
         sw_voters := (sw_voters w)(ss_voter_weight_record k \<mapsto> v)\<rparr>, l)"
| st_add_stake: "ss_stake_pool k = addr \<Longrightarrow> addr \<notin> set s \<Longrightarrow> sw_accounts w (ss_stake_account k) = Some a \<Longrightarrow>
    sw_voters w (ss_voter_weight_record k) = Some v \<Longrightarrow>
    add_stake_handler (instruction rt s t) k n (sw_pool w) a v (sw_max w) l = Inr (p, b, v', m, l', e) \<Longrightarrow>
    stake_step rt addr (w, l)
      (w\<lparr>sw_pool := p, sw_max := m, sw_accounts := (sw_accounts w)(ss_stake_account k \<mapsto> b),
         sw_voters := (sw_voters w)(ss_voter_weight_record k \<mapsto> v')\<rparr>, l')"
| st_unbond: "ss_stake_pool k = addr \<Longrightarrow> sw_accounts w (ss_stake_account k) = Some a \<Longrightarrow>
    sw_voters w (ss_voter_weight_record k) = Some v \<Longrightarrow>
    unbond_stake_handler (instruction rt s t) k gov seed n (sw_pool w) a (sw_unbonding w (ss_unbonding_account k))
      v (sw_max w) l = Inr (p, b, r, v', m, e) \<Longrightarrow>
    stake_step rt addr (w, l)
      (w\<lparr>sw_pool := p, sw_max := m, sw_accounts := (sw_accounts w)(ss_stake_account k \<mapsto> b),
         sw_unbonding := (sw_unbonding w)(ss_unbonding_account k \<mapsto> r),
         sw_voters := (sw_voters w)(ss_voter_weight_record k \<mapsto> v')\<rparr>, l)"
| st_cancel: "ss_stake_pool k = addr \<Longrightarrow> sw_accounts w (ss_stake_account k) = Some a \<Longrightarrow>
    sw_voters w (ss_voter_weight_record k) = Some v \<Longrightarrow> sw_unbonding w (ss_unbonding_account k) = Some r \<Longrightarrow>
    cancel_unbond_handler (instruction rt s t) k (sw_pool w) a r v (sw_max w) l = Inr (p, b, v', m, e) \<Longrightarrow>
    stake_step rt addr (w, l)
      (w\<lparr>sw_pool := p, sw_max := m, sw_accounts := (sw_accounts w)(ss_stake_account k \<mapsto> b),
         sw_unbonding := (sw_unbonding w)(ss_unbonding_account k := None),
         sw_voters := (sw_voters w)(ss_voter_weight_record k \<mapsto> v')\<rparr>, l)"
| st_withdraw_unbonded: "ss_stake_pool k = addr \<Longrightarrow> sw_accounts w (ss_stake_account k) = Some a \<Longrightarrow>
    sw_unbonding w (ss_unbonding_account k) = Some r \<Longrightarrow>
    withdraw_unbonded_handler (instruction rt s t) k (sw_pool w) a r l = Inr (p, b, l', e) \<Longrightarrow>
    stake_step rt addr (w, l)
      (w\<lparr>sw_pool := p, sw_accounts := (sw_accounts w)(ss_stake_account k \<mapsto> b),
         sw_unbonding := (sw_unbonding w)(ss_unbonding_account k := None)\<rparr>, l')"
| st_withdraw_bonded: "ss_stake_pool k = addr \<Longrightarrow>
    withdraw_bonded_handler (instruction rt s t) k authority n (sw_pool w) l = Inr (p, l', e) \<Longrightarrow>
    stake_step rt addr (w, l) (w\<lparr>sw_pool := p\<rparr>, l')"
| st_close: "sw_accounts w (ss_stake_account k) = Some a \<Longrightarrow>
    sw_voters w (ss_voter_weight_record k) = Some v \<or> sw_voters w (ss_voter_weight_record k) = None \<Longrightarrow>
    close_stake_account_handler (instruction rt s t) k a v = Inr e \<Longrightarrow>
    stake_step rt addr (w, l)
      (w\<lparr>sw_accounts := (sw_accounts w)(ss_stake_account k := None),
         sw_voters := (sw_voters w)(ss_voter_weight_record k := None)\<rparr>, l)"
| st_close_foreign: "sw_accounts w (ss_stake_account k) = None \<Longrightarrow>
    sw_voters w (ss_voter_weight_record k) = Some v \<Longrightarrow>
    close_stake_account_handler (instruction rt s t) k a v = Inr e \<Longrightarrow>
    stake_step rt addr (w, l)
      (w\<lparr>sw_voters := (sw_voters w)(ss_voter_weight_record k := None),
         sw_unvoted := insert (ss_owner k) (sw_unvoted w)\<rparr>, l)"
| st_token: "addr \<notin> set s \<Longrightarrow> rt_invoke rt s ix l = Some l' \<Longrightarrow> stake_step rt addr (w, l) (w, l')"
| st_create_account: "rt_create rt j ta l = Some l' \<Longrightarrow> stake_step rt addr (w, l) (w, l')"
| st_create_mint: "rt_create_mint rt j mi l = Some l' \<Longrightarrow> stake_step rt addr (w, l) (w, l')"

definition owned :: "Pubkey \<Rightarrow> UnbondingAccount \<Rightarrow> nat" where
  "owned k r = (if ub_stake_account r = k then ub_shares r else 0)"

definition voter_record :: "'l Runtime \<Rightarrow> Pubkey \<Rightarrow> Pubkey" where
  "voter_record rt k = pda rt [SeedBytes ''voter-weight-record'', SeedKey k]"

text \<open>
  An account is at its address and so is its vote weight record, which says who owns it and how it votes, and
  which is missing only when its owner has closed it with an account of another pool.
\<close>

definition voted :: "(Pubkey \<Rightarrow> VoterWeightRecord option) \<Rightarrow> Pubkey set \<Rightarrow> StakeAccount \<Rightarrow> bool" where
  "voted voters unvoted a \<longleftrightarrow>
     (case voters (sk_voter_weight_record a) of
        None \<Rightarrow> sk_owner a \<in> unvoted
      | Some v \<Rightarrow> vw_owner v = sk_owner a \<and> vw_voter_weight v = sk_bonded_shares a)"

lemma voted_mono:
  assumes "voted voters u a" "voters' (sk_voter_weight_record a) = voters (sk_voter_weight_record a)" "u \<subseteq> u'"
    and "same_account a b" "sk_bonded_shares b = sk_bonded_shares a"
  shows "voted voters' u' b"
  using assms by (auto simp: voted_def same_account_def split: option.splits)

definition account_ok :: "'l Runtime \<Rightarrow> Pubkey \<Rightarrow> StakeWorld \<Rightarrow> Pubkey \<Rightarrow> StakeAccount \<Rightarrow> bool" where
  "account_ok rt addr w k a \<longleftrightarrow> k = pda rt [SeedKey addr, SeedKey (sk_owner a)] \<and>
     sk_voter_weight_record a = voter_record rt k \<and> voted (sw_voters w) (sw_unvoted w) a"

definition accounts_wf :: "'l Runtime \<Rightarrow> Pubkey \<Rightarrow> StakeWorld \<Rightarrow> bool" where
  "accounts_wf rt addr w \<longleftrightarrow> inj (voter_record rt) \<and> (\<forall>k a. sw_accounts w k = Some a \<longrightarrow> account_ok rt addr w k a)"

definition shares_ok :: "StakeWorld \<Rightarrow> bool" where
  "shares_ok w \<longleftrightarrow> finite (dom (sw_accounts w)) \<and> finite (dom (sw_unbonding w)) \<and>
     stp_shares (sp_bonded (sw_pool w)) = msum sk_bonded_shares (sw_accounts w) \<and>
     stp_shares (sp_unbonding (sw_pool w)) = msum sk_unbonding_shares (sw_accounts w) \<and>
     mw_max_voter_weight (sw_max w) = stp_shares (sp_bonded (sw_pool w)) \<and>
     (\<forall>k. msum (owned k) (sw_unbonding w) =
        (case sw_accounts w k of None \<Rightarrow> 0 | Some a \<Rightarrow> sk_unbonding_shares a))"

definition vault_ok :: "'l Runtime \<Rightarrow> Pubkey \<Rightarrow> StakePool \<Rightarrow> 'l \<Rightarrow> bool" where
  "vault_ok rt addr p l \<longleftrightarrow>
     vault_covers addr (sp_token_mint p) (sp_vault_amount p) (rt_account rt l (sp_stake_pool_vault p))"

definition stake_inv :: "'l Runtime \<Rightarrow> Pubkey \<Rightarrow> StakeWorld \<times> 'l \<Rightarrow> bool" where
  "stake_inv rt addr = (\<lambda>(w, l). book_balanced (sw_pool w) \<and> accounts_wf rt addr w \<and> shares_ok w \<and>
     vault_ok rt addr (sw_pool w) l)"

lemma voter_record_instruction [simp]: "voter_record (instruction rt s t) = voter_record rt"
  by (simp add: voter_record_def fun_eq_iff)

lemma accounts_wfD:
  assumes "accounts_wf rt addr w" "sw_accounts w k = Some a"
  shows "account_ok rt addr w k a" "k = pda rt [SeedKey addr, SeedKey (sk_owner a)]"
    "sk_voter_weight_record a = voter_record rt k"
    "sw_voters w (sk_voter_weight_record a) = Some v \<Longrightarrow> vw_owner v = sk_owner a \<and> vw_voter_weight v = sk_bonded_shares a"
  using assms unfolding accounts_wf_def by (force simp: account_ok_def voted_def)+

lemma accounts_wf_update:
  assumes "accounts_wf rt addr w" "sw_accounts w k = Some a" "same_account a b"
  shows "accounts_wf rt addr (w\<lparr>sw_accounts := (sw_accounts w)(k \<mapsto> b),
    sw_voters := (sw_voters w)(sk_voter_weight_record a \<mapsto> update_voter_weight_record b v)\<rparr>)"
  (is "accounts_wf rt addr ?w")
proof -
  have "account_ok rt addr ?w j c" if c: "sw_accounts ?w j = Some c" for j c
  proof (cases "j = k")
    case True
    with c assms(3) accounts_wfD(2,3) [OF assms(1,2)] show ?thesis
      by (simp add: account_ok_def voted_def same_account_def update_voter_weight_record_def)
  next
    case False
    with c have j: "sw_accounts w j = Some c" by simp
    note ok = accounts_wfD [OF assms(1) j]
    have "sk_voter_weight_record c \<noteq> sk_voter_weight_record a"
      using False ok(3) accounts_wfD(3) [OF assms(1,2)] assms(1) by (simp add: accounts_wf_def inj_eq)
    then have same: "sw_voters ?w (sk_voter_weight_record c) = sw_voters w (sk_voter_weight_record c)" by simp
    from ok(1) have voted: "voted (sw_voters w) (sw_unvoted w) c" unfolding account_ok_def by blast
    then have "voted (sw_voters ?w) (sw_unvoted w) c" using same unfolding voted_def by simp
    with ok(1) show ?thesis unfolding account_ok_def by simp
  qed
  with assms(1) show ?thesis by (auto simp: accounts_wf_def)
qed

lemma accounts_wf_keep:
  assumes "accounts_wf rt addr w" "sw_accounts w k = Some a" "same_account a b"
    "sk_bonded_shares b = sk_bonded_shares a"
  shows "accounts_wf rt addr (w\<lparr>sw_accounts := (sw_accounts w)(k \<mapsto> b)\<rparr>)"
proof -
  have "voted (sw_voters w) (sw_unvoted w) b"
    by (rule voted_mono [OF _ refl subset_refl assms(3,4)])
      (use accounts_wfD(1) [OF assms(1,2)] in \<open>simp add: account_ok_def\<close>)
  with assms show ?thesis by (auto simp: accounts_wf_def account_ok_def same_account_def)
qed

lemma accounts_wf_cong:
  assumes "sw_accounts w' = sw_accounts w" "sw_voters w' = sw_voters w" "sw_unvoted w' = sw_unvoted w"
  shows "accounts_wf rt addr w' = accounts_wf rt addr w"
  using assms by (simp add: accounts_wf_def account_ok_def)

text \<open>The shares after an account changed from \<open>a\<close> to \<open>b\<close> and the pool and its records with it.\<close>

lemma shares_ok_update:
  assumes "shares_ok w" "sw_accounts w k = Some a"
    and "stp_shares (sp_bonded p) + sk_bonded_shares a = stp_shares (sp_bonded (sw_pool w)) + sk_bonded_shares b"
    and "stp_shares (sp_unbonding p) + sk_unbonding_shares a =
      stp_shares (sp_unbonding (sw_pool w)) + sk_unbonding_shares b"
    and "mw_max_voter_weight m = stp_shares (sp_bonded p)" "finite (dom u)"
    and "\<And>j. msum (owned j) u + (if j = k then sk_unbonding_shares a else 0) =
      msum (owned j) (sw_unbonding w) + (if j = k then sk_unbonding_shares b else 0)"
  shows "shares_ok (w\<lparr>sw_pool := p, sw_max := m, sw_accounts := (sw_accounts w)(k \<mapsto> b), sw_unbonding := u\<rparr>)"
proof -
  have f: "finite (dom (sw_accounts w))" using assms(1) by (simp add: shares_ok_def)
  note r = msum_replace [OF f assms(2), of sk_bonded_shares b] msum_replace [OF f assms(2), of sk_unbonding_shares b]
  have "msum (owned j) u = (case ((sw_accounts w)(k \<mapsto> b)) j of None \<Rightarrow> 0 | Some a \<Rightarrow> sk_unbonding_shares a)" for j
    using assms(7) [of j] assms(1,2) by (cases "j = k") (simp_all add: shares_ok_def)
  with r f assms(1,3-6) show ?thesis by (simp add: shares_ok_def)
qed

lemma shares_ok_voters [simp]: "shares_ok (w\<lparr>sw_voters := x\<rparr>) = shares_ok w"
  by (simp add: shares_ok_def)

lemma instruction_frame [simp]:
  "rt_account (instruction rt s t) = rt_account rt" "rt_mint (instruction rt s t) = rt_mint rt"
  "rt_invoke (instruction rt s t) = rt_invoke rt" "rt_create (instruction rt s t) = rt_create rt"
  "rt_signer_address (instruction rt s t) = rt_signer_address rt"
  by (simp_all add: instruction_def)

lemma vault_ok_same:
  assumes "same_pool p q" "vault_covers addr (sp_token_mint p) n (rt_account rt l (sp_stake_pool_vault p))"
    "sp_vault_amount q \<le> n"
  shows "vault_ok rt addr q l"
  using assms by (auto simp: vault_ok_def same_pool_def intro: vault_covers_mono)

lemma update_vault_covered:
  assumes "update_vault (ta_amount x) p = Inr q" "vault_ok rt addr p l"
    "rt_account rt l (sp_stake_pool_vault p) = Some x"
  shows "vault_covers addr (sp_token_mint p) (sp_vault_amount q) (rt_account rt l (sp_stake_pool_vault p))"
  using assms by (auto simp: vault_ok_def update_vault_Inr)

lemma add_stake_Inr:
  assumes "add_stake_handler rt k n p a v mw l = Inr (q, b, v', m, l', e)" "book_balanced p"
  obtains x p1 f t where "check_pool k p" "check_account k a" "rt_account rt l (ss_vault k) = Some x"
    "update_vault (ta_amount x) p = Inr p1" "sp_deposit a t p1 = Inr (q, b, f)"
    "v' = update_voter_weight_record b v" "m = update_max_vote_weight_record q mw"
    "rt_invoke rt (rt_signers rt) (TokenTransfer (ss_token_account k) (ss_vault k) (ss_payer k) t) l = Some l'"
proof -
  from assms(1) obtain x p1 f t where f: "check_pool k p" "check_account k a" "rt_account rt l (ss_vault k) = Some x"
    "update_vault (ta_amount x) p = Inr p1" "sp_deposit a t p1 = Inr (q, b, f)"
    "v' = update_voter_weight_record b v" "m = update_max_vote_weight_record q mw"
    "rt_invoke rt (rt_signers rt) (TokenTransfer (ss_token_account k) (ss_vault k) (ss_payer k) (sa_tokens f)) l = Some l'"
    by (auto simp: add_stake_handler_def Let_def)
  have "sa_tokens f = t" using sp_deposit_spec(4) [OF f(5)] update_vault_spec(1) [OF f(4) assms(2)] by blast
  with f that show thesis by simp
qed

lemma unbond_stake_Inr:
  assumes "unbond_stake_handler rt k gov seed n p a existing v mw l = Inr (q, b, r, v', m, e)"
  obtains x p1 f r0 where "check_pool k p" "check_account k a" "existing = None" "sk_owner a = ss_owner k"
    "ss_owner k \<in> set (rt_signers rt)" "rt_account rt l (ss_vault k) = Some x"
    "update_vault (ta_amount x) p = Inr p1" "sp_unbond a r0 n p1 = Inr (q, b, r, f)"
    "ub_stake_account r0 = ss_stake_account k"
    "plain_i 64 (rt_clock rt + sp_unbond_period p) = (Inr (ub_unbonded_at r0) :: _ staking_tx)"
    "v' = update_voter_weight_record b v" "m = update_max_vote_weight_record q mw"
proof -
  from assms obtain x p1 f t where "check_pool k p" "check_account k a" "existing = None" "sk_owner a = ss_owner k"
    "ss_owner k \<in> set (rt_signers rt)" "rt_account rt l (ss_vault k) = Some x"
    "update_vault (ta_amount x) p = Inr p1"
    "sp_unbond a \<lparr>ub_stake_account = ss_stake_account k, ub_shares = 0, ub_unbonded_at = t\<rparr> n p1 = Inr (q, b, r, f)"
    "plain_i 64 (rt_clock rt + sp_unbond_period p) = (Inr t :: _ staking_tx)"
    "v' = update_voter_weight_record b v" "m = update_max_vote_weight_record q mw"
    by (auto simp: unbond_stake_handler_def Let_def)
  then show thesis
    using that [of x p1 "\<lparr>ub_stake_account = ss_stake_account k, ub_shares = 0, ub_unbonded_at = t\<rparr>" f] by simp
qed

lemma cancel_unbond_Inr:
  assumes "cancel_unbond_handler rt k p a r v mw l = Inr (q, b, v', m, e)"
  obtains x p1 p2 a2 f g where "check_pool k p" "check_account k a" "ub_stake_account r = ss_stake_account k"
    "rt_account rt l (ss_vault k) = Some x" "update_vault (ta_amount x) p = Inr p1"
    "sp_withdraw_unbonded a r p1 = Inr (p2, a2, f)" "sp_deposit a2 (sa_tokens f) p2 = Inr (q, b, g)"
    "v' = update_voter_weight_record b v" "m = update_max_vote_weight_record q mw"
  using assms by (auto simp: cancel_unbond_handler_def sp_rebond_def Let_def)

lemma withdraw_unbonded_Inr:
  assumes "withdraw_unbonded_handler rt k p a r l = Inr (q, b, l', e)"
  obtains x p1 f s where "sp_stake_pool_vault p = ss_vault k" "sk_stake_pool a = ss_stake_pool k"
    "sk_owner a = ss_owner k" "ss_owner k \<in> set (rt_signers rt)" "ub_unbonded_at r \<le> rt_clock rt"
    "ub_stake_account r = ss_stake_account k" "rt_account rt l (ss_vault k) = Some x"
    "update_vault (ta_amount x) p = Inr p1" "sp_withdraw_unbonded a r p1 = Inr (q, b, f)"
    "rt_invoke rt s (TokenTransfer (ss_vault k) (ss_token_account k) (ss_stake_pool k) (sa_tokens f)) l = Some l'"
  using assms by (auto simp: withdraw_unbonded_handler_def split: if_split_asm)

lemma withdraw_bonded_Inr:
  assumes "withdraw_bonded_handler rt k authority n p l = Inr (q, l', e)"
  obtains x p1 s where "sp_stake_pool_vault p = ss_vault k" "sp_authority p = authority"
    "authority \<in> set (rt_signers rt)" "rt_account rt l (ss_vault k) = Some x"
    "update_vault (ta_amount x) p = Inr p1" "sp_withdraw_bonded n p1 = Inr q"
    "rt_invoke rt s (TokenTransfer (ss_vault k) (ss_token_account k) (ss_stake_pool k) n) l = Some l'"
  using assms by (auto simp: withdraw_bonded_handler_def)

context token_program begin

lemma vault_paid_out:
  assumes "vault_covers addr mint t (rt_account rt l v)" "rt_invoke rt s (TokenTransfer v tgt auth k) l = Some l'"
  shows "vault_covers addr mint (t - k) (rt_account rt l' v)"
  using vault_transfer [OF assms] by (auto intro: vault_covers_mono split: if_split_asm)

lemma vault_paid_in:
  assumes "vault_covers addr mint t (rt_account rt l v)" "rt_invoke rt s (TokenTransfer src v auth k) l = Some l'"
    and "addr \<notin> set s"
  shows "vault_covers addr mint (t + k) (rt_account rt l' v)"
  using vault_transfer [OF assms(1,2)] vault_spent_by [OF assms] by simp

lemma add_stake_inv:
  assumes "add_stake_handler (instruction rt s t) k n (sw_pool w) a v (sw_max w) l = Inr (p, b, v', m, l', e)"
    and "stake_inv rt addr (w, l)" "addr \<notin> set s" "sw_accounts w (ss_stake_account k) = Some a"
  shows "stake_inv rt addr (w\<lparr>sw_pool := p, sw_max := m, sw_accounts := (sw_accounts w)(ss_stake_account k \<mapsto> b),
         sw_voters := (sw_voters w)(ss_voter_weight_record k \<mapsto> v')\<rparr>, l')"
proof -
  have inv: "book_balanced (sw_pool w)" "accounts_wf rt addr w" "shares_ok w" "vault_ok rt addr (sw_pool w) l"
    using assms(2) by (simp_all add: stake_inv_def)
  obtain x p1 f n' where h: "check_pool k (sw_pool w)" "check_account k a" "rt_account rt l (ss_vault k) = Some x"
    "update_vault (ta_amount x) (sw_pool w) = Inr p1" "sp_deposit a n' p1 = Inr (p, b, f)"
    "v' = update_voter_weight_record b v" "m = update_max_vote_weight_record p (sw_max w)"
    "rt_invoke rt s (TokenTransfer (ss_token_account k) (ss_vault k) (ss_payer k) n') l = Some l'"
    by (rule add_stake_Inr [OF assms(1) inv(1)]) simp
  note u = update_vault_spec [OF h(4) inv(1)]
  note d = sp_deposit_spec [OF h(5) u(1)]
  have v: "sp_stake_pool_vault (sw_pool w) = ss_vault k" using h(1) by (simp add: check_pool_def)
  have "vault_covers addr (sp_token_mint (sw_pool w)) (sp_vault_amount p1) (rt_account rt l (ss_vault k))"
    using update_vault_covered [OF h(4) inv(4)] h(3) v by simp
  from vault_paid_in [OF this h(8) assms(3)]
  have "vault_ok rt addr p l'" using u(2) d(2,5) v by (simp add: vault_ok_def same_pool_def)
  moreover have "accounts_wf rt addr (w\<lparr>sw_accounts := (sw_accounts w)(ss_stake_account k \<mapsto> b),
      sw_voters := (sw_voters w)(ss_voter_weight_record k \<mapsto> v')\<rparr>)"
    using accounts_wf_update [OF inv(2) assms(4) d(3), of v] h(2,6) by (simp add: check_account_def)
  moreover have "shares_ok (w\<lparr>sw_pool := p, sw_max := m, sw_accounts := (sw_accounts w)(ss_stake_account k \<mapsto> b),
      sw_unbonding := sw_unbonding w\<rparr>)"
    by (rule shares_ok_update [OF inv(3) assms(4)])
      (use u d h(7) inv(3) in \<open>simp_all add: update_max_vote_weight_record_def shares_ok_def\<close>)
  ultimately show ?thesis using d(1) by (simp add: stake_inv_def accounts_wf_def account_ok_def shares_ok_def)
qed

lemma withdraw_unbonded_inv:
  assumes "withdraw_unbonded_handler (instruction rt s t) k (sw_pool w) a r l = Inr (p, b, l', e)"
    and "stake_inv rt addr (w, l)" "sw_accounts w (ss_stake_account k) = Some a"
    and "sw_unbonding w (ss_unbonding_account k) = Some r"
  shows "stake_inv rt addr (w\<lparr>sw_pool := p, sw_accounts := (sw_accounts w)(ss_stake_account k \<mapsto> b),
         sw_unbonding := (sw_unbonding w)(ss_unbonding_account k := None)\<rparr>, l')"
proof -
  have inv: "book_balanced (sw_pool w)" "accounts_wf rt addr w" "shares_ok w" "vault_ok rt addr (sw_pool w) l"
    using assms(2) by (simp_all add: stake_inv_def)
  obtain x p1 f s' where h: "sp_stake_pool_vault (sw_pool w) = ss_vault k" "ub_stake_account r = ss_stake_account k"
    "rt_account rt l (ss_vault k) = Some x" "update_vault (ta_amount x) (sw_pool w) = Inr p1"
    "sp_withdraw_unbonded a r p1 = Inr (p, b, f)"
    "rt_invoke rt s' (TokenTransfer (ss_vault k) (ss_token_account k) (ss_stake_pool k) (sa_tokens f)) l = Some l'"
    by (rule withdraw_unbonded_Inr [OF assms(1)]) simp
  note u = update_vault_spec [OF h(4) inv(1)]
  note d = sp_withdraw_unbonded_spec [OF h(5) u(1)]
  have "vault_covers addr (sp_token_mint (sw_pool w)) (sp_vault_amount p1) (rt_account rt l (ss_vault k))"
    using update_vault_covered [OF h(4) inv(4)] h(1,3) by simp
  from vault_paid_out [OF this h(6)]
  have "vault_ok rt addr p l'" using u(2) d(2,6) h(1) by (simp add: vault_ok_def same_pool_def)
  moreover have "accounts_wf rt addr (w\<lparr>sw_accounts := (sw_accounts w)(ss_stake_account k \<mapsto> b)\<rparr>)"
    by (rule accounts_wf_keep [OF inv(2) assms(3) d(3,11)])
  moreover have "shares_ok (w\<lparr>sw_pool := p, sw_max := sw_max w, sw_accounts := (sw_accounts w)(ss_stake_account k \<mapsto> b),
      sw_unbonding := (sw_unbonding w)(ss_unbonding_account k := None)\<rparr>)"
  proof (rule shares_ok_update [OF inv(3) assms(3)])
    have fin: "finite (dom (sw_unbonding w))" using inv(3) by (simp add: shares_ok_def)
    then show "finite (dom ((sw_unbonding w)(ss_unbonding_account k := None)))" by simp
    fix j
    show "msum (owned j) ((sw_unbonding w)(ss_unbonding_account k := None)) +
        (if j = ss_stake_account k then sk_unbonding_shares a else 0) =
        msum (owned j) (sw_unbonding w) + (if j = ss_stake_account k then sk_unbonding_shares b else 0)"
      using msum_delete [OF fin assms(4), of "owned j"] h(2) d(9,10) by (simp add: owned_def)
  qed (use u d inv(3) in \<open>simp_all add: shares_ok_def\<close>)
  ultimately show ?thesis using d(1) by (simp add: stake_inv_def accounts_wf_def account_ok_def shares_ok_def)
qed

lemma withdraw_bonded_inv:
  assumes "withdraw_bonded_handler (instruction rt s t) k authority n (sw_pool w) l = Inr (p, l', e)"
    and "stake_inv rt addr (w, l)"
  shows "stake_inv rt addr (w\<lparr>sw_pool := p\<rparr>, l')"
proof -
  have inv: "book_balanced (sw_pool w)" "accounts_wf rt addr w" "shares_ok w" "vault_ok rt addr (sw_pool w) l"
    using assms(2) by (simp_all add: stake_inv_def)
  obtain x p1 s' where h: "sp_stake_pool_vault (sw_pool w) = ss_vault k"
    "rt_account rt l (ss_vault k) = Some x" "update_vault (ta_amount x) (sw_pool w) = Inr p1"
    "sp_withdraw_bonded n p1 = Inr p"
    "rt_invoke rt s' (TokenTransfer (ss_vault k) (ss_token_account k) (ss_stake_pool k) n) l = Some l'"
    by (rule withdraw_bonded_Inr [OF assms(1)]) simp
  note u = update_vault_spec [OF h(3) inv(1)]
  note d = sp_withdraw_bonded_spec [OF h(4) u(1)]
  have "vault_covers addr (sp_token_mint (sw_pool w)) (sp_vault_amount p1) (rt_account rt l (ss_vault k))"
    using update_vault_covered [OF h(3) inv(4)] h(1,2) by simp
  from vault_paid_out [OF this h(5)]
  have "vault_ok rt addr p l'" using u(2) d(2,4) h(1) by (simp add: vault_ok_def same_pool_def)
  then show ?thesis using inv(2,3) u(4,5) d(1,5,6) by (simp add: stake_inv_def accounts_wf_def account_ok_def shares_ok_def)
qed

end

lemma unbond_inv:
  assumes "unbond_stake_handler (instruction rt s t) k gov seed n (sw_pool w) a (sw_unbonding w (ss_unbonding_account k))
      v (sw_max w) l = Inr (p, b, r, v', m, e)"
    and "stake_inv rt addr (w, l)" "sw_accounts w (ss_stake_account k) = Some a"
  shows "stake_inv rt addr (w\<lparr>sw_pool := p, sw_max := m, sw_accounts := (sw_accounts w)(ss_stake_account k \<mapsto> b),
         sw_unbonding := (sw_unbonding w)(ss_unbonding_account k \<mapsto> r),
         sw_voters := (sw_voters w)(ss_voter_weight_record k \<mapsto> v')\<rparr>, l)"
proof -
  have inv: "book_balanced (sw_pool w)" "accounts_wf rt addr w" "shares_ok w" "vault_ok rt addr (sw_pool w) l"
    using assms(2) by (simp_all add: stake_inv_def)
  obtain x p1 f r0 where h: "check_pool k (sw_pool w)" "check_account k a"
    "sw_unbonding w (ss_unbonding_account k) = None" "rt_account rt l (ss_vault k) = Some x"
    "update_vault (ta_amount x) (sw_pool w) = Inr p1" "sp_unbond a r0 n p1 = Inr (p, b, r, f)"
    "ub_stake_account r0 = ss_stake_account k"
    "v' = update_voter_weight_record b v" "m = update_max_vote_weight_record p (sw_max w)"
    by (rule unbond_stake_Inr [OF assms(1)]) simp
  note u = update_vault_spec [OF h(5) inv(1)]
  note d = sp_unbond_spec [OF h(6) u(1,6)]
  have v: "sp_stake_pool_vault (sw_pool w) = ss_vault k" using h(1) by (simp add: check_pool_def)
  have r: "ub_stake_account r = ss_stake_account k"
    by (subst d(4)) (simp add: h(7))
  have "vault_covers addr (sp_token_mint (sw_pool w)) (sp_vault_amount p1) (rt_account rt l (ss_vault k))"
    using update_vault_covered [OF h(5) inv(4)] h(4) v by simp
  then have "vault_ok rt addr p l" using u(2) d(2,5) v by (simp add: vault_ok_def same_pool_def)
  moreover have "accounts_wf rt addr (w\<lparr>sw_accounts := (sw_accounts w)(ss_stake_account k \<mapsto> b),
      sw_voters := (sw_voters w)(ss_voter_weight_record k \<mapsto> v')\<rparr>)"
    using accounts_wf_update [OF inv(2) assms(3) d(3), of v] h(2,8) by (simp add: check_account_def)
  moreover have "shares_ok (w\<lparr>sw_pool := p, sw_max := m, sw_accounts := (sw_accounts w)(ss_stake_account k \<mapsto> b),
      sw_unbonding := (sw_unbonding w)(ss_unbonding_account k \<mapsto> r)\<rparr>)"
  proof (rule shares_ok_update [OF inv(3) assms(3)])
    have fin: "finite (dom (sw_unbonding w))" using inv(3) by (simp add: shares_ok_def)
    then show "finite (dom ((sw_unbonding w)(ss_unbonding_account k \<mapsto> r)))" by simp
    fix j
    show "msum (owned j) ((sw_unbonding w)(ss_unbonding_account k \<mapsto> r)) +
        (if j = ss_stake_account k then sk_unbonding_shares a else 0) =
        msum (owned j) (sw_unbonding w) + (if j = ss_stake_account k then sk_unbonding_shares b else 0)"
      using msum_insert [OF fin h(3), of "owned j" r] r d(10) by (simp add: owned_def)
  qed (use u d h(9) inv(3) in \<open>simp_all add: update_max_vote_weight_record_def shares_ok_def\<close>)
  ultimately show ?thesis using d(1) by (simp add: stake_inv_def accounts_wf_def account_ok_def shares_ok_def)
qed

lemma cancel_inv:
  assumes "cancel_unbond_handler (instruction rt s t) k (sw_pool w) a r v (sw_max w) l = Inr (p, b, v', m, e)"
    and "stake_inv rt addr (w, l)" "sw_accounts w (ss_stake_account k) = Some a"
    and "sw_unbonding w (ss_unbonding_account k) = Some r"
  shows "stake_inv rt addr (w\<lparr>sw_pool := p, sw_max := m, sw_accounts := (sw_accounts w)(ss_stake_account k \<mapsto> b),
         sw_unbonding := (sw_unbonding w)(ss_unbonding_account k := None),
         sw_voters := (sw_voters w)(ss_voter_weight_record k \<mapsto> v')\<rparr>, l)"
proof -
  have inv: "book_balanced (sw_pool w)" "accounts_wf rt addr w" "shares_ok w" "vault_ok rt addr (sw_pool w) l"
    using assms(2) by (simp_all add: stake_inv_def)
  obtain x p1 p2 a2 f g where h: "check_pool k (sw_pool w)" "check_account k a" "ub_stake_account r = ss_stake_account k"
    "rt_account rt l (ss_vault k) = Some x" "update_vault (ta_amount x) (sw_pool w) = Inr p1"
    "sp_withdraw_unbonded a r p1 = Inr (p2, a2, f)" "sp_deposit a2 (sa_tokens f) p2 = Inr (p, b, g)"
    "v' = update_voter_weight_record b v" "m = update_max_vote_weight_record p (sw_max w)"
    by (rule cancel_unbond_Inr [OF assms(1)]) simp
  note u = update_vault_spec [OF h(5) inv(1)]
  note d = sp_withdraw_unbonded_spec [OF h(6) u(1)]
  note c = sp_deposit_spec [OF h(7) d(1)]
  have v: "sp_stake_pool_vault (sw_pool w) = ss_vault k" using h(1) by (simp add: check_pool_def)
  have ab: "same_account a b" using d(3) c(3) by (simp add: same_account_def)
  have "vault_covers addr (sp_token_mint (sw_pool w)) (sp_vault_amount p1) (rt_account rt l (ss_vault k))"
    using update_vault_covered [OF h(5) inv(4)] h(4) v by simp
  then have "vault_ok rt addr p l" using u(2) d(2,5,6) c(2,5) v by (simp add: vault_ok_def same_pool_def)
  moreover have "accounts_wf rt addr (w\<lparr>sw_accounts := (sw_accounts w)(ss_stake_account k \<mapsto> b),
      sw_voters := (sw_voters w)(ss_voter_weight_record k \<mapsto> v')\<rparr>)"
    using accounts_wf_update [OF inv(2) assms(3) ab, of v] h(2,8) by (simp add: check_account_def)
  moreover have "shares_ok (w\<lparr>sw_pool := p, sw_max := m, sw_accounts := (sw_accounts w)(ss_stake_account k \<mapsto> b),
      sw_unbonding := (sw_unbonding w)(ss_unbonding_account k := None)\<rparr>)"
  proof (rule shares_ok_update [OF inv(3) assms(3)])
    have fin: "finite (dom (sw_unbonding w))" using inv(3) by (simp add: shares_ok_def)
    then show "finite (dom ((sw_unbonding w)(ss_unbonding_account k := None)))" by simp
    fix j
    show "msum (owned j) ((sw_unbonding w)(ss_unbonding_account k := None)) +
        (if j = ss_stake_account k then sk_unbonding_shares a else 0) =
        msum (owned j) (sw_unbonding w) + (if j = ss_stake_account k then sk_unbonding_shares b else 0)"
      using msum_delete [OF fin assms(4), of "owned j"] h(3) d(9,10) c(9) by (simp add: owned_def)
  qed (use u d c h(9) inv(3) in \<open>simp_all add: update_max_vote_weight_record_def shares_ok_def\<close>)
  ultimately show ?thesis using c(1) by (simp add: stake_inv_def accounts_wf_def account_ok_def shares_ok_def)
qed

lemma init_account_inv:
  assumes "init_stake_account_handler (instruction rt s t) k auth (sw_pool w) (sw_accounts w (ss_stake_account k))
      (sw_voters w (ss_voter_weight_record k)) = Inr (a, v, e)"
    and "stake_inv rt addr (w, l)" "ss_stake_pool k = addr"
  shows "stake_inv rt addr (w\<lparr>sw_accounts := (sw_accounts w)(ss_stake_account k \<mapsto> a),
         sw_voters := (sw_voters w)(ss_voter_weight_record k \<mapsto> v)\<rparr>, l)"
proof -
  have inv: "accounts_wf rt addr w" "shares_ok w" using assms(2) by (simp_all add: stake_inv_def)
  from assms(1,3) have h: "sw_accounts w (ss_stake_account k) = None"
    "ss_stake_account k = pda rt [SeedKey addr, SeedKey (sk_owner a)]" "sk_voter_weight_record a = ss_voter_weight_record k"
    "ss_voter_weight_record k = voter_record rt (ss_stake_account k)"
    "sk_bonded_shares a = 0" "sk_unbonding_shares a = 0" "vw_owner v = sk_owner a" "vw_voter_weight v = 0"
    by (auto simp: init_stake_account_handler_def update_voter_weight_record_def voter_record_def Let_def)
  have "accounts_wf rt addr (w\<lparr>sw_accounts := (sw_accounts w)(ss_stake_account k \<mapsto> a),
         sw_voters := (sw_voters w)(ss_voter_weight_record k \<mapsto> v)\<rparr>)"
    using inv(1) h voted_mono [OF _ _ subset_refl same_refl(2) refl, of "sw_voters w"]
    by (auto simp: accounts_wf_def account_ok_def inj_eq voted_def [of _ _ a])
  moreover have "shares_ok (w\<lparr>sw_accounts := (sw_accounts w)(ss_stake_account k \<mapsto> a)\<rparr>)"
    using inv(2) h msum_insert [of "sw_accounts w" "ss_stake_account k"] by (simp add: shares_ok_def)
  ultimately show ?thesis using assms(2) by (simp add: stake_inv_def shares_ok_def)
qed

text \<open>Closing a record costs nobody but its owner the vote.\<close>

lemma record_closed:
  assumes "accounts_wf rt addr w" "sw_accounts w j = Some c" "sw_voters w r = Some v" "vw_owner v \<noteq> sk_owner c"
  shows "sk_voter_weight_record c \<noteq> r"
  using accounts_wfD(4) [OF assms(1,2)] assms(3,4) by auto

lemma close_inv:
  assumes "close_stake_account_handler (instruction rt s t) k a v = Inr e"
    and "stake_inv rt addr (w, l)" "sw_accounts w (ss_stake_account k) = Some a"
    and "sw_voters w (ss_voter_weight_record k) = Some v \<or> sw_voters w (ss_voter_weight_record k) = None"
  shows "stake_inv rt addr (w\<lparr>sw_accounts := (sw_accounts w)(ss_stake_account k := None),
         sw_voters := (sw_voters w)(ss_voter_weight_record k := None)\<rparr>, l)"
proof -
  have inv: "accounts_wf rt addr w" "shares_ok w" using assms(2) by (simp_all add: stake_inv_def)
  from assms(1) have h: "vw_owner v = sk_owner a" "sk_bonded_shares a = 0" "sk_unbonding_shares a = 0"
    by (auto simp: close_stake_account_handler_def)
  have "account_ok rt addr (w\<lparr>sw_accounts := (sw_accounts w)(ss_stake_account k := None),
         sw_voters := (sw_voters w)(ss_voter_weight_record k := None)\<rparr>) j c"
    if j: "sw_accounts w j = Some c" "j \<noteq> ss_stake_account k" for j c
  proof -
    have "sk_owner c \<noteq> sk_owner a" using j accounts_wfD(2) [OF inv(1)] assms(3) by metis
    then have "sk_voter_weight_record c \<noteq> ss_voter_weight_record k \<or> sw_voters w (ss_voter_weight_record k) = None"
      using record_closed [OF inv(1) j(1)] h(1) assms(4) by metis
    with accounts_wfD(1) [OF inv(1) j(1)] show ?thesis by (auto simp: account_ok_def voted_def)
  qed
  then have "accounts_wf rt addr (w\<lparr>sw_accounts := (sw_accounts w)(ss_stake_account k := None),
         sw_voters := (sw_voters w)(ss_voter_weight_record k := None)\<rparr>)"
    using inv(1) by (auto simp: accounts_wf_def)
  moreover have "shares_ok (w\<lparr>sw_accounts := (sw_accounts w)(ss_stake_account k := None)\<rparr>)"
    using inv(2) h(2,3) assms(3) msum_delete [of "sw_accounts w" "ss_stake_account k"] by (auto simp: shares_ok_def)
  ultimately show ?thesis using assms(2) by (simp add: stake_inv_def shares_ok_def)
qed

lemma close_foreign_inv:
  assumes "close_stake_account_handler (instruction rt s t) k a v = Inr e" "stake_inv rt addr (w, l)"
    and "sw_voters w (ss_voter_weight_record k) = Some v"
  shows "stake_inv rt addr (w\<lparr>sw_voters := (sw_voters w)(ss_voter_weight_record k := None),
         sw_unvoted := insert (ss_owner k) (sw_unvoted w)\<rparr>, l)"
proof -
  have inv: "accounts_wf rt addr w" using assms(2) by (simp add: stake_inv_def)
  from assms(1) have o: "vw_owner v = ss_owner k" by (auto simp: close_stake_account_handler_def)
  have "account_ok rt addr (w\<lparr>sw_voters := (sw_voters w)(ss_voter_weight_record k := None),
         sw_unvoted := insert (ss_owner k) (sw_unvoted w)\<rparr>) j c" if "sw_accounts w j = Some c" for j c
    using record_closed [OF inv that assms(3)] accounts_wfD(1) [OF inv that] o assms(3)
    by (auto simp: account_ok_def voted_def split: option.splits)
  then show ?thesis using assms(2) inv by (auto simp: stake_inv_def accounts_wf_def shares_ok_def)
qed

lemma stake_step_inv:
  assumes "stake_step rt addr x y" "stake_inv rt addr x" "spl_token rt"
  shows "stake_inv rt addr y"
proof -
  have i: "token_program rt" by (rule token_program.intro) (rule assms(3))
  from assms(1) show ?thesis
  proof cases
    case (st_init_account k s t auth w a v e l)
    with assms(2) show ?thesis by (simp add: init_account_inv)
  next
    case (st_add_stake k s w a v t n l p b v' m l' e)
    with token_program.add_stake_inv [OF i st_add_stake(7)] assms(2) show ?thesis by simp
  next
    case (st_unbond k w a v s t gov seed n l p b r v' m e)
    with unbond_inv [OF st_unbond(6)] assms(2) show ?thesis by simp
  next
    case (st_cancel k w a v r s t l p b v' m e)
    with cancel_inv [OF st_cancel(7)] assms(2) show ?thesis by simp
  next
    case (st_withdraw_unbonded k w a r s t l p b l' e)
    with token_program.withdraw_unbonded_inv [OF i st_withdraw_unbonded(6)] assms(2) show ?thesis by simp
  next
    case (st_withdraw_bonded k s t authority n w l p l' e)
    with token_program.withdraw_bonded_inv [OF i st_withdraw_bonded(4)] assms(2) show ?thesis by simp
  next
    case (st_close w k a v s t e l)
    with close_inv [OF st_close(5)] assms(2) show ?thesis by simp
  next
    case (st_close_foreign w k v s t a e l)
    with close_foreign_inv [OF st_close_foreign(5)] assms(2) show ?thesis by simp
  next
    case (st_token s ix l l' w)
    with assms(2) token_program.vault_external [OF i] show ?thesis by (auto simp: stake_inv_def vault_ok_def)
  next
    case (st_create_account j ta l l' w)
    with assms(2) token_program.vault_create [OF i] show ?thesis by (auto simp: stake_inv_def vault_ok_def)
  next
    case (st_create_mint j mi l l' w)
    with assms(2) token_program.vault_create_mint [OF i] show ?thesis by (auto simp: stake_inv_def vault_ok_def)
  qed
qed

definition new_stake_world :: "StakePool \<Rightarrow> MaxVoterWeightRecord \<Rightarrow> StakeWorld" where
  "new_stake_world p m = \<lparr>sw_pool = p, sw_max = m, sw_accounts = Map.empty, sw_unbonding = Map.empty,
     sw_voters = Map.empty, sw_unvoted = {}\<rparr>"

lemma init_pool_inv:
  assumes "init_pool_handler (instruction rt s t) k authority mint seed cfg x y l0 = Inr (p, m, l, e)"
    and "ss_stake_pool k = addr" "spl_token rt" "inj (voter_record rt)"
  shows "stake_inv rt addr (new_stake_world p m, l)"
proof -
  have i: "token_program rt" by (rule token_program.intro) (rule assms(3))
  from assms(1) obtain l1 d where
    l: "rt_create rt (ss_vault k) \<lparr>ta_mint = mint, ta_owner = ss_stake_pool k, ta_delegate = None, ta_amount = 0\<rparr> l1 = Some l"
    and p: "sp_stake_pool_vault p = ss_vault k" "sp_token_mint p = mint" "sp_vault_amount p = 0"
      "sp_bonded p = \<lparr>stp_tokens = 0, stp_shares = 0\<rparr>" "sp_unbonding p = \<lparr>stp_tokens = 0, stp_shares = 0\<rparr>"
      "mw_max_voter_weight m = 0"
    by (auto simp: init_pool_handler_def Let_def zeroed_stake_pool_def update_max_vote_weight_record_def instruction_def)
  have "vault_ok rt addr p l"
    using token_program.spl_create(3) [OF i l] p assms(2) by (simp add: vault_ok_def)
  with p assms(4) show ?thesis
    by (simp add: stake_inv_def new_stake_world_def book_balanced_def accounts_wf_def shares_ok_def)
qed

lemma stake_run_inv:
  assumes "spl_token rt" "stake_inv rt addr x" "(stake_step rt addr)\<^sup>*\<^sup>* x y"
  shows "stake_inv rt addr y"
  using assms(3,2)
proof (induction rule: rtranclp_induct)
  case (step y z)
  then show ?case using stake_step_inv [OF step(2) _ assms(1)] by blast
qed

text \<open>
  C34: From the creation of a stake pool on, in every interleaving of its instructions with calls of the
  token program, under the token program's laws: the pool's vault belongs to the pool and holds at least the bonded and the
  unbonding tokens together; the shares of either pool are exactly those of the stake accounts;
  every account's unbonding shares are exactly those of its open unbonding requests; the maximum vote is the
  total of the bonded shares; and the vote of every account is its bonded shares, unless the account has no vote
  weight record, because its owner closed the record together with an empty stake account of another pool. That
  different stake accounts have different vote weight records is the property of derived addresses that is assumed.
\<close>

theorem staking_books_balance:
  assumes "spl_token rt" "inj (\<lambda>j. pda rt [SeedBytes ''voter-weight-record'', SeedKey j])" "ss_stake_pool k = addr"
    and "init_pool_handler (instruction rt s t) k authority mint seed cfg None None l0 = Inr (p0, m0, l1, e)"
    and "(stake_step rt addr)\<^sup>*\<^sup>* (new_stake_world p0 m0, l1) (w, l)"
  shows "(\<exists>v. rt_account rt l (sp_stake_pool_vault (sw_pool w)) = Some v \<and> ta_owner v = addr \<and>
      stp_tokens (sp_bonded (sw_pool w)) + stp_tokens (sp_unbonding (sw_pool w)) \<le> ta_amount v) \<and>
    stp_shares (sp_bonded (sw_pool w)) = msum sk_bonded_shares (sw_accounts w) \<and>
    stp_shares (sp_unbonding (sw_pool w)) = msum sk_unbonding_shares (sw_accounts w) \<and>
    mw_max_voter_weight (sw_max w) = msum sk_bonded_shares (sw_accounts w) \<and>
    (\<forall>k a. sw_accounts w k = Some a \<longrightarrow>
       sk_unbonding_shares a = msum (\<lambda>r. if ub_stake_account r = k then ub_shares r else 0) (sw_unbonding w) \<and>
       (case sw_voters w (sk_voter_weight_record a) of
          Some v \<Rightarrow> vw_owner v = sk_owner a \<and> vw_voter_weight v = sk_bonded_shares a
        | None \<Rightarrow> sk_owner a \<in> sw_unvoted w))"
proof -
  have "inj (voter_record rt)" using assms(2) by (simp add: voter_record_def [abs_def])
  from stake_run_inv [OF assms(1) init_pool_inv [OF assms(4,3,1) this] assms(5)]
  have inv: "book_balanced (sw_pool w)" "accounts_wf rt addr w" "shares_ok w" "vault_ok rt addr (sw_pool w) l"
    by (simp_all add: stake_inv_def)
  have o: "owned k = (\<lambda>r. if ub_stake_account r = k then ub_shares r else 0)" for k
    by (simp add: owned_def fun_eq_iff)
  have "sk_unbonding_shares a = msum (owned k) (sw_unbonding w) \<and>
      (case sw_voters w (sk_voter_weight_record a) of
         Some v \<Rightarrow> vw_owner v = sk_owner a \<and> vw_voter_weight v = sk_bonded_shares a
       | None \<Rightarrow> sk_owner a \<in> sw_unvoted w)"
    if k: "sw_accounts w k = Some a" for k a
    using inv(3) k accounts_wfD(1) [OF inv(2) k] by (simp add: shares_ok_def account_ok_def voted_def split: option.splits)
  moreover have "\<exists>v. rt_account rt l (sp_stake_pool_vault (sw_pool w)) = Some v \<and> ta_owner v = addr \<and>
      stp_tokens (sp_bonded (sw_pool w)) + stp_tokens (sp_unbonding (sw_pool w)) \<le> ta_amount v"
    using inv(1,4) by (auto simp: vault_ok_def book_balanced_def elim: vault_coversE)
  ultimately show ?thesis using inv(3) unfolding o by (simp add: shares_ok_def)
qed

lemma wrap_i_64_id: "i_range 64 x \<Longrightarrow> wrap_i 64 x = x"
  by (simp add: wrap_i_def i_range_def)

text \<open>
  C35: In a pool whose books balance, unbonding stake can only be withdrawn when its time has come: the request
  was made with the signature of the stake account's owner, and whoever withdraws it signs as the owner of that
  same stake account, at the earliest at the time of the request plus the pool's unbonding period, a sum that wraps in 64
  bits: only when it is in their range, which \<open>init_pool\<close> does not see to, does the withdrawal wait for the period.
\<close>

theorem unbonding_waits:
  assumes "unbond_stake_handler (instruction rt s t) k gov seed n p a existing v mw l = Inr (q, b, r, v', m, e)"
    and "withdraw_unbonded_handler (instruction rt s' t') k' p' a' r l' = Inr (q', b', l2, e')"
    and "book_balanced p"
  shows "wrap_i 64 (t + sp_unbond_period p) \<le> t' \<and>
    (i_range 64 (t + sp_unbond_period p) \<longrightarrow> t + sp_unbond_period p \<le> t') \<and>
    sk_owner a \<in> set s \<and> sk_owner a' \<in> set s' \<and> ss_stake_account k' = ss_stake_account k"
proof -
  obtain x :: TokenAccount and p1 f r0 where h: "sk_owner a = ss_owner k" "ss_owner k \<in> set (rt_signers (instruction rt s t))"
    "update_vault (ta_amount x) p = Inr p1" "sp_unbond a r0 n p1 = Inr (q, b, r, f)"
    "ub_stake_account r0 = ss_stake_account k"
    "plain_i 64 (rt_clock (instruction rt s t) + sp_unbond_period p) = (Inr (ub_unbonded_at r0) :: _ staking_tx)"
    by (rule unbond_stake_Inr [OF assms(1)])
  note u = update_vault_spec [OF h(3) assms(3)]
  note r = sp_unbond_spec(4) [OF h(4) u(1,6)]
  have "ub_unbonded_at r = ub_unbonded_at r0" by (subst r) simp
  with h(6) have at: "ub_unbonded_at r = wrap_i 64 (t + sp_unbond_period p)"
    "i_range 64 (t + sp_unbond_period p) \<Longrightarrow> ub_unbonded_at r = t + sp_unbond_period p"
    by (auto simp: plain_i_def overflow_checks_def wrap_i_64_id split: if_splits)
  have ac: "ub_stake_account r = ss_stake_account k" by (subst r) (simp add: h(5))
  have w: "sk_owner a' = ss_owner k'" "ss_owner k' \<in> set (rt_signers (instruction rt s' t'))"
    "ub_unbonded_at r \<le> rt_clock (instruction rt s' t')" "ub_stake_account r = ss_stake_account k'"
    using withdraw_unbonded_Inr [OF assms(2)] by blast+
  show ?thesis using h(1,2) at ac w by auto
qed

text \<open>A period of nearly the largest value is over before it begins.\<close>

lemma longest_period_is_over: "0 < t \<Longrightarrow> t < 2 ^ 63 \<Longrightarrow> wrap_i 64 (t + (2 ^ 63 - 1)) < 0"
proof -
  assume "0 < t" "t < 2 ^ 63"
  then have "(t - 1 + 18446744073709551616) mod 18446744073709551616 = t - 1"
    unfolding mod_add_self2 by simp
  then have "(18446744073709551615 + t) mod 18446744073709551616 = t - 1" by (simp add: algebra_simps)
  with \<open>t < 2 ^ 63\<close> show ?thesis by (simp add: wrap_i_def)
qed

text \<open>
  C37: While a pool has no bonded shares but bonded tokens, or more in its vault than its books say, no stake
  of a token or more can be added, neither a given number of tokens nor, when no number is given, all the tokens of the payer: the
  tokens without shares are booked as bonded, and at that rate any stake is worth no share, which the code asserts
  against. Anyone can bring this about by sending one token to the vault of a new pool; the authority of the pool can
  end it by withdrawing the tokens.
\<close>

theorem donation_blocks_staking:
  assumes "stp_shares (sp_bonded p) = 0" "rt_account rt l (ss_vault k) = Some x"
    and "stp_tokens (sp_bonded p) \<noteq> 0 \<or> sp_vault_amount p < ta_amount x"
    and "rt_account rt l (ss_token_account k) = Some y" "0 < (case amount of Some n \<Rightarrow> n | None \<Rightarrow> ta_amount y)"
  shows "add_stake_handler rt k amount p a v m l \<noteq> Inr r"
proof
  let ?n = "case amount of Some n \<Rightarrow> n | None \<Rightarrow> ta_amount y"
  assume "add_stake_handler rt k amount p a v m l = Inr r"
  with assms(2,4) obtain p1 q b f where u: "update_vault (ta_amount x) p = Inr p1"
    and d: "sp_deposit a ?n p1 = Inr (q, b, f)"
    by (auto simp: add_stake_handler_def Let_def)
  from d obtain c where c: "stp_deposit ?n (sp_bonded p1) = Inr (c, f)" by (auto simp: sp_deposit_def)
  from u assms(1,3) have "stp_tokens (sp_bonded p1) \<noteq> 0" "stp_shares (sp_bonded p1) = 0"
    by (auto simp: update_vault_Inr)
  with stp_deposit_Inr(3,4) [OF c] assms(5) show False by simp
qed

subsection \<open>Examples\<close>

fun stake_address :: "Seed list \<Rightarrow> Pubkey" where
  "stake_address [SeedBytes a] = 100"
| "stake_address [SeedBytes a, SeedInt n] = 100"
| "stake_address [SeedKey a, SeedBytes b] = 101"
| "stake_address [SeedBytes a, SeedBytes b] = 110 + length b"
| "stake_address [SeedKey a, SeedKey b] = 1000 + b"
| "stake_address [SeedBytes a, SeedKey b] = 5000 + b"
| "stake_address [SeedKey a, SeedInt n] = 9000 + n"
| "stake_address _ = 0"

abbreviation stake_rt :: "Pubkey list \<Rightarrow> int \<Rightarrow> Ledger Runtime" where
  "stake_rt \<equiv> ledger_runtime stake_address"

lemma stake_rt_instruction [simp]: "instruction (stake_rt s t) s' t' = stake_rt s' t'"
  by (simp add: instruction_def ledger_runtime_def)

definition stake_keys :: StakeKeys where
  "stake_keys = \<lparr>ss_owner = 60, ss_payer = 60, ss_stake_pool = 100, ss_vault = 115, ss_stake_account = 1060,
     ss_voter_weight_record = 6060, ss_max_voter_weight_record = 101, ss_unbonding_account = 9001,
     ss_token_account = 50\<rparr>"

definition stake_config :: StakingPoolConfig where
  "stake_config = \<lparr>cf_unbond_period = 30, cf_governance_realm = 3\<rparr>"

text \<open>The pool with the given vault amount, bonded and unbonding tokens, at ten shares a token.\<close>

definition stake_pool_at :: "nat \<Rightarrow> nat \<Rightarrow> StakePool" where
  "stake_pool_at b u = zeroed_stake_pool\<lparr>sp_authority := 1, sp_token_mint := 7, sp_stake_pool_vault := 115,
     sp_max_voter_weight_record := 101, sp_governance_realm := 3, sp_seed := ''x'', sp_bump_seed := 255,
     sp_unbond_period := 30, sp_vault_amount := b + u, sp_bonded := \<lparr>stp_tokens = b, stp_shares = 10 * b\<rparr>,
     sp_unbonding := \<lparr>stp_tokens = u, stp_shares = 10 * u\<rparr>\<rparr>"

definition stake_max_at :: "nat \<Rightarrow> MaxVoterWeightRecord" where
  "stake_max_at b = \<lparr>mw_realm = 3, mw_governing_token_mint = 7, mw_max_voter_weight = 10 * b,
     mw_max_voter_weight_expiry = None\<rparr>"

definition stake_account_at :: "nat \<Rightarrow> nat \<Rightarrow> StakeAccount" where
  "stake_account_at b u = \<lparr>sk_owner = 60, sk_stake_pool = 100, sk_voter_weight_record = 6060,
     sk_bonded_shares = 10 * b, sk_unbonding_shares = 10 * u\<rparr>"

definition stake_voter_at :: "nat \<Rightarrow> VoterWeightRecord" where
  "stake_voter_at b = \<lparr>vw_realm = 3, vw_governing_token_mint = 7, vw_owner = 60, vw_voter_weight = 10 * b,
     vw_voter_weight_expiry = None, vw_weight_action = Some CastVote, vw_weight_action_target = None\<rparr>"

definition stake_ledger_at :: "nat \<Rightarrow> nat \<Rightarrow> Ledger" where
  "stake_ledger_at x v =
     \<lparr>lg_accounts = [50 \<mapsto> \<lparr>ta_mint = 7, ta_owner = 60, ta_delegate = None, ta_amount = x\<rparr>,
        115 \<mapsto> \<lparr>ta_mint = 7, ta_owner = 100, ta_delegate = None, ta_amount = v\<rparr>],
      lg_mints = [7 \<mapsto> \<lparr>mint_supply = 1000, mint_authority = None, mint_decimals = 6\<rparr>,
        125 \<mapsto> \<lparr>mint_supply = 0, mint_authority = Some 100, mint_decimals = 6\<rparr>]\<rparr>"

definition stake_ledger :: Ledger where
  "stake_ledger =
     \<lparr>lg_accounts = [50 \<mapsto> \<lparr>ta_mint = 7, ta_owner = 60, ta_delegate = None, ta_amount = 1000\<rparr>],
      lg_mints = [7 \<mapsto> \<lparr>mint_supply = 1000, mint_authority = None, mint_decimals = 6\<rparr>]\<rparr>"

definition stake_request :: UnbondingAccount where
  "stake_request = \<lparr>ub_stake_account = 1060, ub_shares = 2000, ub_unbonded_at = 40\<rparr>"

lemma stake_init_pool:
  "\<exists>e. init_pool_handler (stake_rt [60] 0) (stake_keys\<lparr>ss_token_account := 125\<rparr>) 1 7 ''x'' stake_config None None
     stake_ledger = Inr (stake_pool_at 0 0, stake_max_at 0, stake_ledger_at 1000 0, e)"
  by (simp add: init_pool_handler_def require_signer_def stake_keys_def load_mint_def stake_ledger_def constraint_def
      create_mint_def create_token_account_def ledger_create_def ledger_create_mint_def Let_def stake_config_def
      stake_pool_at_def stake_max_at_def stake_ledger_at_def update_max_vote_weight_record_def wrap_i_def
      zeroed_stake_pool_def fun_upd_twist)

lemma stake_init_account:
  "\<exists>e. init_stake_account_handler (stake_rt [60] 5) stake_keys \<lparr>ua_owner = 60, ua_complete = True, ua_allowed = True\<rparr>
     (stake_pool_at 0 0) None None = Inr (stake_account_at 0 0, stake_voter_at 0, e)"
  by (simp add: init_stake_account_handler_def require_signer_def stake_keys_def constraint_def Let_def
      stake_account_at_def stake_voter_at_def update_voter_weight_record_def stake_pool_at_def zeroed_stake_pool_def)

lemma stake_add:
  "\<exists>e. add_stake_handler (stake_rt [60] 6) stake_keys (Some 500) (stake_pool_at 0 0) (stake_account_at 0 0)
     (stake_voter_at 0) (stake_max_at 0) (stake_ledger_at 1000 0) =
     Inr (stake_pool_at 500 0, stake_account_at 500 0, stake_voter_at 500, stake_max_at 500, stake_ledger_at 500 500, e)"
  by (simp add: add_stake_handler_def require_signer_def stake_keys_def constraint_def Let_def check_pool_def
      check_account_def stake_account_at_def stake_voter_at_def stake_max_at_def stake_pool_at_def zeroed_stake_pool_def
      load_token_account_def stake_ledger_at_def update_vault_def stp_donate_def sp_deposit_def stp_deposit_def
      with_tokens_def exchange_def stp_amount_def INIT_TOKEN_SCALE_def INIT_SHARE_SCALE_def u_range_def sk_deposit_def
      update_voter_weight_record_def update_max_vote_weight_record_def token_cpi_def may_spend_def fun_upd_twist)

lemma stake_unbond:
  "\<exists>e. unbond_stake_handler (stake_rt [60] 10) stake_keys
     (Some \<lparr>tor_realm = 3, tor_governing_token_mint = 7, tor_governing_token_owner = 60, tor_can_withdraw = True\<rparr>) 1
     (Some 200) (stake_pool_at 500 0) (stake_account_at 500 0) None (stake_voter_at 500) (stake_max_at 500)
     (stake_ledger_at 500 500) =
     Inr (stake_pool_at 300 200, stake_account_at 300 200, stake_request, stake_voter_at 300, stake_max_at 300, e)"
  by (simp add: unbond_stake_handler_def require_signer_def stake_keys_def constraint_def Let_def check_pool_def
      check_account_def stake_account_at_def stake_voter_at_def stake_max_at_def stake_pool_at_def zeroed_stake_pool_def
      load_token_account_def stake_ledger_at_def update_vault_def stp_donate_def sp_unbond_def stp_withdraw_tokens_def
      withdraw_full_amount_def stp_deposit_def read_token_owner_record_def plain_i_def i_range_def plain_sub_def
      plain_u_def with_tokens_def exchange_def stp_amount_def INIT_TOKEN_SCALE_def INIT_SHARE_SCALE_def u_range_def
      sk_unbond_def update_voter_weight_record_def update_max_vote_weight_record_def stake_request_def)

lemma stake_withdraw:
  "\<exists>e. withdraw_unbonded_handler (stake_rt [60] 40) stake_keys (stake_pool_at 300 200) (stake_account_at 300 200)
     stake_request (stake_ledger_at 500 500) =
     Inr (stake_pool_at 300 0, stake_account_at 300 0, stake_ledger_at 700 300, e)"
  by (simp add: withdraw_unbonded_handler_def require_signer_def stake_keys_def constraint_def
      stake_account_at_def stake_pool_at_def zeroed_stake_pool_def
      load_token_account_def stake_ledger_at_def update_vault_def stp_donate_def sp_withdraw_unbonded_def stp_withdraw_def
      withdraw_full_amount_def with_shares_def exchange_def stp_amount_def u_range_def sk_withdraw_unbonded_def
      stake_request_def token_cpi_signed_def may_spend_def stake_pool_signer_def fun_upd_twist)

theorem staking_books_balance_witness:
  "\<exists>w. (stake_step (stake_rt [] 0) 100)\<^sup>*\<^sup>* (new_stake_world (stake_pool_at 0 0) (stake_max_at 0), stake_ledger_at 1000 0)
       (w, stake_ledger_at 500 500) \<and>
     sw_accounts w = [1060 \<mapsto> stake_account_at 500 0] \<and> msum sk_bonded_shares (sw_accounts w) = 5000 \<and>
     mw_max_voter_weight (sw_max w) = 5000"
proof -
  let ?rt = "stake_rt [] 0"
  let ?w0 = "new_stake_world (stake_pool_at 0 0) (stake_max_at 0)"
  let ?w1 = "?w0\<lparr>sw_accounts := (sw_accounts ?w0)(ss_stake_account stake_keys \<mapsto> stake_account_at 0 0),
         sw_voters := (sw_voters ?w0)(ss_voter_weight_record stake_keys \<mapsto> stake_voter_at 0)\<rparr>"
  let ?w2 = "?w1\<lparr>sw_pool := stake_pool_at 500 0, sw_max := stake_max_at 500,
         sw_accounts := (sw_accounts ?w1)(ss_stake_account stake_keys \<mapsto> stake_account_at 500 0),
         sw_voters := (sw_voters ?w1)(ss_voter_weight_record stake_keys \<mapsto> stake_voter_at 500)\<rparr>"
  have w0: "sw_pool ?w0 = stake_pool_at 0 0" "sw_accounts ?w0 (ss_stake_account stake_keys) = None"
    "sw_voters ?w0 (ss_voter_weight_record stake_keys) = None" "ss_stake_pool stake_keys = 100"
    by (simp_all add: new_stake_world_def stake_keys_def)
  have w1: "sw_pool ?w1 = stake_pool_at 0 0" "sw_max ?w1 = stake_max_at 0"
    "sw_accounts ?w1 (ss_stake_account stake_keys) = Some (stake_account_at 0 0)"
    "sw_voters ?w1 (ss_voter_weight_record stake_keys) = Some (stake_voter_at 0)"
    by (simp_all add: new_stake_world_def)
  obtain e1 where "init_stake_account_handler (instruction ?rt [60] 5) stake_keys
      \<lparr>ua_owner = 60, ua_complete = True, ua_allowed = True\<rparr> (sw_pool ?w0)
      (sw_accounts ?w0 (ss_stake_account stake_keys)) (sw_voters ?w0 (ss_voter_weight_record stake_keys)) =
      Inr (stake_account_at 0 0, stake_voter_at 0, e1)"
    using stake_init_account unfolding w0 stake_rt_instruction by blast
  from st_init_account [OF w0(4) this]
  have s1: "stake_step ?rt 100 (?w0, stake_ledger_at 1000 0) (?w1, stake_ledger_at 1000 0)" .
  obtain e2 where "add_stake_handler (instruction ?rt [60] 6) stake_keys (Some 500) (sw_pool ?w1) (stake_account_at 0 0)
     (stake_voter_at 0) (sw_max ?w1) (stake_ledger_at 1000 0) =
     Inr (stake_pool_at 500 0, stake_account_at 500 0, stake_voter_at 500, stake_max_at 500, stake_ledger_at 500 500, e2)"
    using stake_add unfolding w1 stake_rt_instruction by blast
  from st_add_stake [OF w0(4) _ w1(3,4) this]
  have "stake_step ?rt 100 (?w1, stake_ledger_at 1000 0) (?w2, stake_ledger_at 500 500)" by simp
  with s1 have run: "(stake_step ?rt 100)\<^sup>*\<^sup>* (?w0, stake_ledger_at 1000 0) (?w2, stake_ledger_at 500 500)"
    by (rule rtranclp.rtrancl_into_rtrancl [OF r_into_rtranclp])
  obtain e0 where i: "init_pool_handler (instruction ?rt [60] 0) (stake_keys\<lparr>ss_token_account := 125\<rparr>) 1 7 ''x''
      stake_config None None stake_ledger = Inr (stake_pool_at 0 0, stake_max_at 0, stake_ledger_at 1000 0, e0)"
    using stake_init_pool unfolding stake_rt_instruction by blast
  have inj: "inj (\<lambda>j. pda ?rt [SeedBytes ''voter-weight-record'', SeedKey j])" by (simp add: inj_def)
  have "ss_stake_pool (stake_keys\<lparr>ss_token_account := 125\<rparr>) = 100" by (simp add: stake_keys_def)
  from staking_books_balance [OF ledger_runtime_spl inj this i run] run show ?thesis
    by (intro exI [of _ ?w2]) (simp add: new_stake_world_def stake_keys_def stake_max_at_def)
qed

theorem unbonding_waits_witness: "(10 :: int) + 30 \<le> 40 \<and> (60 :: nat) \<in> set [60]"
proof -
  obtain e where u: "unbond_stake_handler (instruction (stake_rt [] 0) [60] 10) stake_keys
     (Some \<lparr>tor_realm = 3, tor_governing_token_mint = 7, tor_governing_token_owner = 60, tor_can_withdraw = True\<rparr>) 1
     (Some 200) (stake_pool_at 500 0) (stake_account_at 500 0) None (stake_voter_at 500) (stake_max_at 500)
     (stake_ledger_at 500 500) =
     Inr (stake_pool_at 300 200, stake_account_at 300 200, stake_request, stake_voter_at 300, stake_max_at 300, e)"
    using stake_unbond unfolding stake_rt_instruction by blast
  obtain e' where w: "withdraw_unbonded_handler (instruction (stake_rt [] 0) [60] 40) stake_keys (stake_pool_at 300 200)
     (stake_account_at 300 200) stake_request (stake_ledger_at 500 500) =
     Inr (stake_pool_at 300 0, stake_account_at 300 0, stake_ledger_at 700 300, e')"
    using stake_withdraw unfolding stake_rt_instruction by blast
  have "book_balanced (stake_pool_at 500 0)" by (simp add: stake_pool_at_def book_balanced_def)
  from unbonding_waits [OF u w this] show ?thesis by (simp add: stake_pool_at_def stake_account_at_def i_range_def)
qed

theorem donation_blocks_staking_witness:
  "\<forall>r. add_stake_handler (stake_rt [60] 6) stake_keys (Some 500) (stake_pool_at 0 0) (stake_account_at 0 0)
     (stake_voter_at 0) (stake_max_at 0) (stake_ledger_at 999 1) \<noteq> Inr r"
  by (intro allI, rule donation_blocks_staking
      [where x = "\<lparr>ta_mint = 7, ta_owner = 100, ta_delegate = None, ta_amount = 1\<rparr>"
        and y = "\<lparr>ta_mint = 7, ta_owner = 60, ta_delegate = None, ta_amount = 999\<rparr>"])
    (simp_all add: stake_pool_at_def stake_ledger_at_def stake_keys_def)

end
