(* ===== verification/Rewards.thy ===== *)
theory Rewards
  imports Search Staking
begin

text \<open>
  The rewards program, \<open>programs/rewards\<close>: airdrops that their recipients claim as stake, awards that
  vest into a stake account and distributions that release tokens to an account over time.

  Claims and releases of awards call \<open>add_stake\<close> of the staking program, whose model they use. A
  \<open>TokenDistribution\<close> is the schedule that awards and distributions share.
\<close>

datatype RewardsError =
    RecipientNotFound | AddOutOfOrder | AirdropFinal | AirdropInsufficientRewardBalance | AirdropExpired
  | AirdropNotFinal | RecipientsNotSorted | DistributionNotEnded | AwardNotFullyVested

type_synonym 'a rewards_res = "(RewardsError, 'a) res"
type_synonym 'a rewards_tx = "(RewardsError, 'a) tx"

subsection \<open>Schedules\<close>

datatype DistributionKind = LinearDistribution

record TokenDistribution =
  dt_target_amount :: nat
  dt_distributed :: nat
  dt_begin_at :: nat
  dt_end_at :: nat
  dt_kind :: DistributionKind

definition distributed_amount_linear :: "nat \<Rightarrow> TokenDistribution \<Rightarrow> nat rewards_res" where
  "distributed_amount_linear timestamp d =
     bindE (unwrap (checked_sub (dt_end_at d) (dt_begin_at d))) (\<lambda>length.
     let range = max 1 length; remaining = saturating_sub (dt_end_at d) timestamp in
     bindE (unwrap (checked_mul 128 remaining (dt_target_amount d))) (\<lambda>product.
     bindE (plain_div product range) (\<lambda>undistributed.
     bindE (unwrap (checked_sub (dt_target_amount d) undistributed)) (\<lambda>distributed.
     bindE (assertE (distributed < 2 ^ 64 - 1)) (\<lambda>_.
     Inr distributed)))))"

definition distributed_amount :: "nat \<Rightarrow> TokenDistribution \<Rightarrow> nat rewards_res" where
  "distributed_amount timestamp d =
     (case dt_kind d of LinearDistribution \<Rightarrow> distributed_amount_linear timestamp d)"

definition distribute :: "nat \<Rightarrow> TokenDistribution \<Rightarrow> (TokenDistribution \<times> nat) rewards_res" where
  "distribute timestamp d =
     bindE (distributed_amount timestamp d) (\<lambda>now.
     bindE (unwrap (checked_sub now (dt_distributed d))) (\<lambda>amount.
     Inr (d\<lparr>dt_distributed := now\<rparr>, amount)))"

record Award =
  aw_authority :: Pubkey
  aw_seed :: string
  aw_bump_seed :: nat
  aw_stake_account :: Pubkey
  aw_vault :: Pubkey
  aw_token_distribution :: TokenDistribution

definition award_signer :: "Award \<Rightarrow> Seed list" where
  "award_signer a =
     [SeedBytes ''award'', SeedKey (aw_stake_account a), SeedBytes (aw_seed a), SeedInt (aw_bump_seed a)]"

record Distribution =
  ds_address :: Pubkey
  ds_authority :: Pubkey
  ds_vault :: Pubkey
  ds_seed :: string
  ds_bump_seed :: nat
  ds_target_account :: Pubkey
  ds_token_distribution :: TokenDistribution

definition distribution_signer :: "Distribution \<Rightarrow> Seed list" where
  "distribution_signer d = [SeedBytes ''distribution'', SeedBytes (ds_seed d), SeedInt (ds_bump_seed d)]"

subsection \<open>Airdrops\<close>

record AirdropTarget =
  at_amount :: nat
  at_recipient :: Pubkey

text \<open>\<open>ti_recipients\<close> is an array of 10000 entries, of which the first \<open>ti_recipients_total\<close> are in use.\<close>

record AirdropTargetInfo =
  ti_reward_total :: nat
  ti_recipients_total :: nat
  ti_finalized :: nat
  ti_recipients :: "AirdropTarget list"

record Airdrop =
  ai_address :: Pubkey
  ai_reward_vault :: Pubkey
  ai_authority :: Pubkey
  ai_expire_at :: int
  ai_stake_pool :: Pubkey
  ai_flags :: nat
  ai_short_desc :: string
  ai_long_desc :: string
  ai_vault_bump :: nat
  ai_target_info :: AirdropTargetInfo

definition add_recipient :: "Pubkey \<times> nat \<Rightarrow> AirdropTargetInfo \<Rightarrow> AirdropTargetInfo rewards_res" where
  "add_recipient = (\<lambda>(recipient, amount) t.
     bindE (assertE (ti_recipients_total t < length (ti_recipients t))) (\<lambda>_.
     let recipients = (ti_recipients t)[ti_recipients_total t := \<lparr>at_amount = amount, at_recipient = recipient\<rparr>] in
     bindE (plain_add 64 (ti_recipients_total t) 1) (\<lambda>total.
     bindE (unwrap (checked_add 64 (ti_reward_total t) amount)) (\<lambda>reward.
     Inr (t\<lparr>ti_recipients := recipients, ti_recipients_total := total, ti_reward_total := reward\<rparr>)))))"

text \<open>The slice from \<open>i\<close> to \<open>j\<close>; the code panics outside the array.\<close>

definition recipient_range :: "nat \<Rightarrow> nat \<Rightarrow> AirdropTarget list \<Rightarrow> AirdropTarget list rewards_res" where
  "recipient_range i j xs = bindE (assertE (i \<le> j \<and> j \<le> length xs)) (\<lambda>_. Inr (drop i (take j xs)))"

definition add_recipients :: "nat \<Rightarrow> (Pubkey \<times> nat) list \<Rightarrow> Airdrop \<Rightarrow> Airdrop rewards_res" where
  "add_recipients start_idx to_add a =
     (let target = ai_target_info a in
      if ti_recipients_total target \<noteq> start_idx then err AddOutOfOrder
      else if ti_finalized target > 0 then err AirdropFinal
      else
        bindE (foldE add_recipient to_add target) (\<lambda>t.
        bindE (recipient_range (if start_idx = 0 then 0 else start_idx - 1) (ti_recipients_total t)
                 (ti_recipients t)) (\<lambda>range.
        if \<not> successively (\<lambda>x y. at_recipient x \<le> at_recipient y) range then err RecipientsNotSorted
        else Inr (a\<lparr>ai_target_info := t\<rparr>))))"

definition find_recipient :: "Pubkey \<Rightarrow> AirdropTargetInfo \<Rightarrow> nat rewards_res" where
  "find_recipient recipient t =
     bindE (recipient_range 0 (ti_recipients_total t) (ti_recipients t)) (\<lambda>rs.
     ok_or (bsearch at_recipient rs recipient 0 (length rs)) RecipientNotFound)"

definition has_recipient :: "Pubkey \<Rightarrow> Airdrop \<Rightarrow> bool" where
  "has_recipient recipient a = is_ok (find_recipient recipient (ai_target_info a))"

definition airdrop_finalize :: "nat \<Rightarrow> Airdrop \<Rightarrow> Airdrop rewards_res" where
  "airdrop_finalize vault_balance a =
     (if vault_balance < ti_reward_total (ai_target_info a) then err AirdropInsufficientRewardBalance
      else Inr (a\<lparr>ai_target_info := (ai_target_info a)\<lparr>ti_finalized := 1\<rparr>\<rparr>))"

definition airdrop_claim :: "Pubkey \<Rightarrow> Airdrop \<Rightarrow> (Airdrop \<times> nat) rewards_res" where
  "airdrop_claim recipient a =
     (let target = ai_target_info a in
      if ti_finalized target \<noteq> 1 then err AirdropNotFinal
      else
        bindE (find_recipient recipient target) (\<lambda>i.
        let entry = ti_recipients target ! i; amount = at_amount entry in
        bindE (unwrap (checked_sub (ti_reward_total target) amount)) (\<lambda>reward.
        Inr (a\<lparr>ai_target_info := target\<lparr>ti_recipients := (ti_recipients target)[i := entry\<lparr>at_amount := 0\<rparr>],
                 ti_reward_total := reward\<rparr>\<rparr>, amount))))"

definition airdrop_signer :: "Airdrop \<Rightarrow> Seed list" where
  "airdrop_signer a = [SeedKey (ai_address a), SeedBytes ''vault'', SeedInt (ai_vault_bump a)]"

subsection \<open>Instructions\<close>

record AirdropCreateParams =
  ap_expire_at :: int
  ap_stake_pool :: Pubkey
  ap_short_desc :: string
  ap_long_desc :: string
  ap_flags :: nat

record AwardCreateParams =
  wp_seed :: string
  wp_authority :: Pubkey
  wp_stake_account :: Pubkey
  wp_amount :: nat
  wp_begin_at :: nat
  wp_end_at :: nat

record DistributionCreateParams =
  dp_seed :: string
  dp_authority :: Pubkey
  dp_target_account :: Pubkey
  dp_amount :: nat
  dp_begin_at :: nat
  dp_end_at :: nat

datatype RewardsEvent =
    AirdropCreated Pubkey Pubkey Pubkey AirdropCreateParams
  | AirdropRecipientsAdded Pubkey nat nat nat nat "(Pubkey \<times> nat) list"
  | AirdropFinalized Pubkey nat nat nat
  | AirdropClaimed Pubkey Pubkey nat nat nat
  | AirdropClosed Pubkey nat
  | AwardCreated Pubkey Pubkey AwardCreateParams DistributionKind
  | AwardReleased Pubkey nat nat nat
  | AwardRevoked Pubkey nat nat nat
  | AwardClosed Pubkey
  | DistributionCreated Pubkey Pubkey Pubkey DistributionCreateParams DistributionKind
  | DistributionReleased Pubkey nat nat nat
  | DistributionClosed Pubkey

record AirdropCreate =
  ac_airdrop :: Pubkey
  ac_authority :: Pubkey
  ac_reward_vault :: Pubkey
  ac_payer :: Pubkey
  ac_token_mint :: Pubkey

definition zeroed_target_info :: AirdropTargetInfo where
  "zeroed_target_info = \<lparr>ti_reward_total = 0, ti_recipients_total = 0, ti_finalized = 0,
     ti_recipients = replicate 10000 \<lparr>at_amount = 0, at_recipient = 0\<rparr>\<rparr>"

definition airdrop_create_handler ::
  "'l Runtime \<Rightarrow> AirdropCreate \<Rightarrow> AirdropCreateParams \<Rightarrow> Airdrop option \<Rightarrow> 'l \<Rightarrow>
     (Airdrop \<times> 'l \<times> RewardsEvent) rewards_tx" where
  "airdrop_create_handler rt ac params existing l =
     bindE (constraint (existing = None)) (\<lambda>_.
     bindE (require_signer rt (ac_payer ac)) (\<lambda>_.
     bindE (constraint (ac_reward_vault ac = pda rt [SeedKey (ac_airdrop ac), SeedBytes ''vault''])) (\<lambda>_.
     bindE (create_token_account rt (ac_reward_vault ac) (ac_token_mint ac) (ac_reward_vault ac) l) (\<lambda>l.
     bindE (constraint (length (ap_short_desc params) \<le> 32 \<and> length (ap_long_desc params) \<le> 255)) (\<lambda>_.
     Inr (\<lparr>ai_address = ac_airdrop ac, ai_reward_vault = ac_reward_vault ac, ai_authority = ac_authority ac,
           ai_expire_at = ap_expire_at params, ai_stake_pool = ap_stake_pool params, ai_flags = ap_flags params,
           ai_short_desc = ap_short_desc params, ai_long_desc = ap_long_desc params,
           ai_vault_bump = snd (rt_find_address rt [SeedKey (ac_airdrop ac), SeedBytes ''vault'']),
           ai_target_info = zeroed_target_info\<rparr>, l,
          AirdropCreated (ac_airdrop ac) (ac_authority ac) (ac_token_mint ac) params))))))"

definition airdrop_add_recipients_handler ::
  "'l Runtime \<Rightarrow> Pubkey \<Rightarrow> nat \<Rightarrow> (Pubkey \<times> nat) list \<Rightarrow> Airdrop \<Rightarrow> (Airdrop \<times> RewardsEvent) rewards_tx" where
  "airdrop_add_recipients_handler rt authority start_index recipients a =
     bindE (require_signer rt authority) (\<lambda>_.
     bindE (constraint (ai_authority a = authority)) (\<lambda>_.
     let reward_0 = ti_reward_total (ai_target_info a) in
     bindE (lift_tx (add_recipients start_index recipients a)) (\<lambda>a.
     let reward_1 = ti_reward_total (ai_target_info a) in
     bindE (plain_sub 64 reward_1 reward_0) (\<lambda>additional.
     Inr (a, AirdropRecipientsAdded (ai_address a) additional reward_1 (length recipients)
            (ti_recipients_total (ai_target_info a)) recipients)))))"

definition airdrop_finalize_handler ::
  "'l Runtime \<Rightarrow> Pubkey \<Rightarrow> Pubkey \<Rightarrow> Airdrop \<Rightarrow> 'l \<Rightarrow> (Airdrop \<times> RewardsEvent) rewards_tx" where
  "airdrop_finalize_handler rt authority reward_vault a l =
     bindE (require_signer rt authority) (\<lambda>_.
     bindE (constraint (ai_authority a = authority \<and> ai_reward_vault a = reward_vault)) (\<lambda>_.
     bindE (load_token_account rt l reward_vault) (\<lambda>vault.
     bindE (accessor_amount rt l reward_vault) (\<lambda>vault_balance.
     bindE (lift_tx (airdrop_finalize vault_balance a)) (\<lambda>a.
     Inr (a, AirdropFinalized (ai_address a) (ti_reward_total (ai_target_info a))
            (ti_recipients_total (ai_target_info a)) (ta_amount vault)))))))"

text \<open>
  The call of \<open>add_stake\<close> with the signature of a program address; \<open>k\<close> names the accounts of the
  staking program, and the tokens come from \<open>token_account\<close>, of which \<open>payer\<close> is the authority.
\<close>

definition stake_cpi ::
  "'l Runtime \<Rightarrow> Seed list \<Rightarrow> StakeKeys \<Rightarrow> Pubkey \<Rightarrow> Pubkey \<Rightarrow> nat \<Rightarrow> StakePool \<Rightarrow> StakeAccount \<Rightarrow> VoterWeightRecord \<Rightarrow>
     MaxVoterWeightRecord \<Rightarrow> 'l \<Rightarrow>
     (StakePool \<times> StakeAccount \<times> VoterWeightRecord \<times> MaxVoterWeightRecord \<times> 'l \<times> StakingEvent) rewards_tx" where
  "stake_cpi rt seeds k payer token_account amount p sa vw mw l =
     lift_err (\<lambda>_. AdapterErr)
       (add_stake_handler (rt\<lparr>rt_signers := rt_signer_address rt seeds # rt_signers rt\<rparr>)
          (k\<lparr>ss_payer := payer, ss_token_account := token_account\<rparr>) (Some amount) p sa vw mw l)"

definition airdrop_claim_handler ::
  "'l Runtime \<Rightarrow> Pubkey \<Rightarrow> Pubkey \<Rightarrow> StakeKeys \<Rightarrow> Airdrop \<Rightarrow> StakePool \<Rightarrow> StakeAccount \<Rightarrow> VoterWeightRecord \<Rightarrow>
     MaxVoterWeightRecord \<Rightarrow> 'l \<Rightarrow>
     (Airdrop \<times> StakePool \<times> StakeAccount \<times> VoterWeightRecord \<times> MaxVoterWeightRecord \<times> 'l \<times> RewardsEvent)
       rewards_tx" where
  "airdrop_claim_handler rt recipient reward_vault k a p sa vw mw l =
     bindE (constraint (ai_stake_pool a = ss_stake_pool k \<and> ai_reward_vault a = reward_vault)) (\<lambda>_.
     bindE (load_token_account rt l reward_vault) (\<lambda>vault.
     bindE (require_signer rt recipient) (\<lambda>_.
     if ai_expire_at a \<le> rt_clock rt then err (ProgramErr AirdropExpired)
     else
       bindE (lift_tx (airdrop_claim recipient a)) (\<lambda>(a, claimed_amount).
       bindE (stake_cpi rt (airdrop_signer a) k reward_vault reward_vault claimed_amount p sa vw mw l)
         (\<lambda>(p, sa, vw, mw, l, e).
       Inr (a, p, sa, vw, mw, l, AirdropClaimed (ai_address a) recipient claimed_amount
              (ti_reward_total (ai_target_info a)) (ta_amount vault)))))))"

definition airdrop_close_handler ::
  "'l Runtime \<Rightarrow> Pubkey \<Rightarrow> Pubkey \<Rightarrow> Pubkey \<Rightarrow> Pubkey \<Rightarrow> Airdrop \<Rightarrow> 'l \<Rightarrow> ('l \<times> RewardsEvent) rewards_tx" where
  "airdrop_close_handler rt authority reward_vault receiver token_receiver a l =
     bindE (constraint (ai_authority a = authority \<and> ai_reward_vault a = reward_vault)) (\<lambda>_.
     bindE (load_token_account rt l reward_vault) (\<lambda>vault.
     bindE (require_signer rt authority) (\<lambda>_.
     if ai_expire_at a > rt_clock rt then err (ProgramErr AirdropExpired)
     else
       bindE (token_cpi_signed rt (airdrop_signer a)
                (TokenTransfer reward_vault token_receiver reward_vault (ta_amount vault)) l) (\<lambda>l.
       bindE (token_cpi_signed rt (airdrop_signer a) (TokenClose reward_vault receiver reward_vault) l) (\<lambda>l.
       Inr (l, AirdropClosed (ai_address a) (ta_amount vault)))))))"

record AwardCreate =
  wc_award :: Pubkey
  wc_vault :: Pubkey
  wc_token_mint :: Pubkey
  wc_token_source :: Pubkey
  wc_token_source_authority :: Pubkey
  wc_payer_rent :: Pubkey

definition award_create_handler ::
  "'l Runtime \<Rightarrow> AwardCreate \<Rightarrow> AwardCreateParams \<Rightarrow> Award option \<Rightarrow> 'l \<Rightarrow> (Award \<times> 'l \<times> RewardsEvent) rewards_tx" where
  "award_create_handler rt ac params existing l =
     (let seeds = [SeedBytes ''award'', SeedKey (wp_stake_account params), SeedBytes (wp_seed params)] in
      bindE (require_signer rt (wc_token_source_authority ac)) (\<lambda>_.
      bindE (require_signer rt (wc_payer_rent ac)) (\<lambda>_.
      bindE (constraint (existing = None \<and> wc_award ac = pda rt seeds)) (\<lambda>_.
      bindE (constraint (wc_vault ac = pda rt [SeedKey (wc_award ac), SeedBytes ''vault''])) (\<lambda>_.
      bindE (create_token_account rt (wc_vault ac) (wc_token_mint ac) (wc_award ac) l) (\<lambda>l.
      bindE (constraint (length (wp_seed params) \<le> 30)) (\<lambda>_.
      bindE (token_cpi rt (TokenTransfer (wc_token_source ac) (wc_vault ac) (wc_token_source_authority ac)
               (wp_amount params)) l) (\<lambda>l.
      Inr (\<lparr>aw_authority = wp_authority params, aw_seed = wp_seed params,
            aw_bump_seed = snd (rt_find_address rt seeds), aw_stake_account = wp_stake_account params,
            aw_vault = wc_vault ac,
            aw_token_distribution =
              \<lparr>dt_target_amount = wp_amount params, dt_distributed = 0, dt_begin_at = wp_begin_at params,
               dt_end_at = wp_end_at params, dt_kind = LinearDistribution\<rparr>\<rparr>, l,
           AwardCreated (wc_award ac) (wc_token_mint ac) params LinearDistribution)))))))))"

definition award_release_handler ::
  "'l Runtime \<Rightarrow> Pubkey \<Rightarrow> Pubkey \<Rightarrow> StakeKeys \<Rightarrow> Award \<Rightarrow> StakePool \<Rightarrow> StakeAccount \<Rightarrow> VoterWeightRecord \<Rightarrow>
     MaxVoterWeightRecord \<Rightarrow> 'l \<Rightarrow>
     (Award \<times> StakePool \<times> StakeAccount \<times> VoterWeightRecord \<times> MaxVoterWeightRecord \<times> 'l \<times> RewardsEvent)
       rewards_tx" where
  "award_release_handler rt key vault_key k a p sa vw mw l =
     bindE (constraint (aw_vault a = vault_key \<and> aw_stake_account a = ss_stake_account k)) (\<lambda>_.
     bindE (load_token_account rt l vault_key) (\<lambda>vault.
     bindE (lift_tx (distribute (wrap_u 64 (rt_clock rt)) (aw_token_distribution a))) (\<lambda>(d, to_distribute).
     let a = a\<lparr>aw_token_distribution := d\<rparr> in
     bindE (stake_cpi rt (award_signer a) k key vault_key to_distribute p sa vw mw l) (\<lambda>(p, sa, vw, mw, l, e).
     Inr (a, p, sa, vw, mw, l, AwardReleased key to_distribute (dt_distributed d) (ta_amount vault))))))"

definition award_close_handler ::
  "'l Runtime \<Rightarrow> Pubkey \<Rightarrow> Pubkey \<Rightarrow> Pubkey \<Rightarrow> Pubkey \<Rightarrow> Award \<Rightarrow> 'l \<Rightarrow> ('l \<times> RewardsEvent) rewards_tx" where
  "award_close_handler rt key authority vault_key receiver a l =
     bindE (constraint (aw_authority a = authority \<and> aw_vault a = vault_key)) (\<lambda>_.
     bindE (load_token_account rt l vault_key) (\<lambda>_.
     bindE (require_signer rt authority) (\<lambda>_.
     if dt_end_at (aw_token_distribution a) > wrap_u 64 (rt_clock rt) then err (ProgramErr AwardNotFullyVested)
     else
       bindE (token_cpi_signed rt (award_signer a) (TokenClose vault_key receiver key) l) (\<lambda>l.
       Inr (l, AwardClosed key)))))"

definition award_revoke_handler ::
  "'l Runtime \<Rightarrow> Pubkey \<Rightarrow> Pubkey \<Rightarrow> Pubkey \<Rightarrow> Pubkey \<Rightarrow> Pubkey \<Rightarrow> Award \<Rightarrow> 'l \<Rightarrow> ('l \<times> RewardsEvent) rewards_tx" where
  "award_revoke_handler rt key authority vault_key receiver token_receiver a l =
     bindE (constraint (aw_authority a = authority \<and> aw_vault a = vault_key)) (\<lambda>_.
     bindE (load_token_account rt l vault_key) (\<lambda>vault.
     bindE (require_signer rt authority) (\<lambda>_.
     let vault_amount = ta_amount vault; total_released = dt_distributed (aw_token_distribution a) in
     bindE (plain_sub 64 (dt_target_amount (aw_token_distribution a)) total_released) (\<lambda>unreleased_amount.
     bindE (token_cpi_signed rt (award_signer a) (TokenTransfer vault_key token_receiver key vault_amount) l) (\<lambda>l.
     bindE (token_cpi_signed rt (award_signer a) (TokenClose vault_key receiver key) l) (\<lambda>l.
     Inr (l, AwardRevoked key unreleased_amount total_released vault_amount)))))))"

record DistributionCreate =
  dc_distribution :: Pubkey
  dc_vault :: Pubkey
  dc_payer_rent :: Pubkey
  dc_payer_token_authority :: Pubkey
  dc_payer_token_account :: Pubkey
  dc_token_mint :: Pubkey

definition distribution_create_handler ::
  "'l Runtime \<Rightarrow> DistributionCreate \<Rightarrow> DistributionCreateParams \<Rightarrow> Distribution option \<Rightarrow> 'l \<Rightarrow>
     (Distribution \<times> 'l \<times> RewardsEvent) rewards_tx" where
  "distribution_create_handler rt ac params existing l =
     (let seeds = [SeedBytes ''distribution'', SeedBytes (dp_seed params)] in
      bindE (constraint (existing = None \<and> dc_distribution ac = pda rt seeds)) (\<lambda>_.
      bindE (constraint (dc_vault ac = pda rt [SeedKey (dc_distribution ac), SeedBytes ''vault''])) (\<lambda>_.
      bindE (create_token_account rt (dc_vault ac) (dc_token_mint ac) (dc_distribution ac) l) (\<lambda>l.
      bindE (require_signer rt (dc_payer_rent ac)) (\<lambda>_.
      bindE (require_signer rt (dc_payer_token_authority ac)) (\<lambda>_.
      bindE (constraint (length (dp_seed params) \<le> 30)) (\<lambda>_.
      bindE (token_cpi rt (TokenTransfer (dc_payer_token_account ac) (dc_vault ac) (dc_payer_token_authority ac)
               (dp_amount params)) l) (\<lambda>l.
      Inr (\<lparr>ds_address = dc_distribution ac, ds_authority = dp_authority params, ds_vault = dc_vault ac,
            ds_seed = dp_seed params, ds_bump_seed = snd (rt_find_address rt seeds),
            ds_target_account = dp_target_account params,
            ds_token_distribution =
              \<lparr>dt_target_amount = dp_amount params, dt_distributed = 0, dt_begin_at = dp_begin_at params,
               dt_end_at = dp_end_at params, dt_kind = LinearDistribution\<rparr>\<rparr>, l,
           DistributionCreated (dc_distribution ac) (dp_authority params) (dc_token_mint ac) params
             LinearDistribution)))))))))"

definition distribution_release_handler ::
  "'l Runtime \<Rightarrow> Pubkey \<Rightarrow> Pubkey \<Rightarrow> Pubkey \<Rightarrow> Distribution \<Rightarrow> 'l \<Rightarrow> (Distribution \<times> 'l \<times> RewardsEvent) rewards_tx" where
  "distribution_release_handler rt key vault_key target_account d l =
     bindE (constraint (ds_vault d = vault_key \<and> ds_target_account d = target_account)) (\<lambda>_.
     bindE (load_token_account rt l vault_key) (\<lambda>vault.
     bindE (lift_tx (distribute (wrap_u 64 (rt_clock rt)) (ds_token_distribution d))) (\<lambda>(t, to_distribute).
     let d = d\<lparr>ds_token_distribution := t\<rparr> in
     bindE (token_cpi_signed rt (distribution_signer d) (TokenTransfer vault_key target_account key to_distribute) l)
       (\<lambda>l.
     Inr (d, l, DistributionReleased key to_distribute (dt_distributed t) (ta_amount vault))))))"

definition distribution_close_handler ::
  "'l Runtime \<Rightarrow> Pubkey \<Rightarrow> Pubkey \<Rightarrow> Pubkey \<Rightarrow> Pubkey \<Rightarrow> Distribution \<Rightarrow> 'l \<Rightarrow> ('l \<times> RewardsEvent) rewards_tx" where
  "distribution_close_handler rt key authority vault_key receiver d l =
     bindE (constraint (ds_authority d = authority \<and> ds_vault d = vault_key)) (\<lambda>_.
     bindE (load_token_account rt l vault_key) (\<lambda>_.
     bindE (require_signer rt authority) (\<lambda>_.
     if dt_end_at (ds_token_distribution d) > wrap_u 64 (rt_clock rt) then err (ProgramErr DistributionNotEnded)
     else
       bindE (token_cpi_signed rt (distribution_signer d) (TokenClose vault_key receiver key) l) (\<lambda>l.
       Inr (l, DistributionClosed key)))))"

end
