(* ===== verification/RewardsSafety.thy ===== *)
theory RewardsSafety
  imports Rewards Vaults
begin

text \<open>
  Properties of the rewards program: the vesting schedule, the accounting of an airdrop from its
  first recipient to the last claim, and the vaults of distributions.
\<close>

subsection \<open>Schedules\<close>

lemma distributed_amount_Inr:
  "distributed_amount t d = Inr n \<longleftrightarrow> dt_begin_at d \<le> dt_end_at d \<and>
     u_range 128 ((dt_end_at d - t) * dt_target_amount d) \<and>
     (dt_end_at d - t) * dt_target_amount d div max 1 (dt_end_at d - dt_begin_at d) \<le> dt_target_amount d \<and>
     n = dt_target_amount d - (dt_end_at d - t) * dt_target_amount d div max 1 (dt_end_at d - dt_begin_at d) \<and>
     n < 2 ^ 64 - 1"
  by (cases "dt_kind d") (auto simp: distributed_amount_def distributed_amount_linear_def Let_def)

lemma schedule_range:
  fixes x r :: nat
  assumes "x \<le> r" "0 < r"
  shows "x * t div r \<le> t"
proof -
  have "x * t div r \<le> r * t div r" using assms(1) by (intro div_le_mono mult_le_mono1)
  then show ?thesis using assms(2) by simp
qed

text \<open>
  The schedule of an award or a distribution: from its begin on the amount that is due is
  defined, grows with time, never exceeds the target and is all of it from the end on. Before
  the begin nothing is due.
\<close>

theorem linear_schedule:
  assumes "dt_begin_at d \<le> dt_end_at d" "u64 (dt_end_at d)" "dt_target_amount d < 2 ^ 64 - 1"
  shows "(\<forall>t \<ge> dt_begin_at d. \<exists>n. distributed_amount t d = Inr n \<and> n \<le> dt_target_amount d \<and>
       (dt_end_at d \<le> t \<longrightarrow> n = dt_target_amount d)) \<and>
    (\<forall>t t' n n'. t \<le> t' \<and> distributed_amount t d = Inr n \<and> distributed_amount t' d = Inr n' \<longrightarrow> n \<le> n') \<and>
    (\<forall>t n. t < dt_begin_at d \<and> distributed_amount t d = Inr n \<longrightarrow> n = 0)"
proof (intro conjI allI impI)
  let ?r = "max 1 (dt_end_at d - dt_begin_at d)"
  fix t assume t: "dt_begin_at d \<le> t"
  have "(dt_end_at d - t) * dt_target_amount d \<le> (2 ^ 64 - 1) * (2 ^ 64 - 1)"
    using assms(2,3) by (intro mult_le_mono) (auto simp: u_range_def)
  then have "u_range 128 ((dt_end_at d - t) * dt_target_amount d)" by (simp add: u_range_def)
  moreover have "(dt_end_at d - t) * dt_target_amount d div ?r \<le> dt_target_amount d"
    by (rule schedule_range) (use t in auto)
  ultimately show "\<exists>n. distributed_amount t d = Inr n \<and> n \<le> dt_target_amount d \<and>
      (dt_end_at d \<le> t \<longrightarrow> n = dt_target_amount d)"
    using assms(1,3)
    by (intro exI [of _ "dt_target_amount d - (dt_end_at d - t) * dt_target_amount d div ?r"])
      (auto simp: distributed_amount_Inr)
next
  fix t t' n n' assume a: "t \<le> t' \<and> distributed_amount t d = Inr n \<and> distributed_amount t' d = Inr n'"
  then have "(dt_end_at d - t') * dt_target_amount d div max 1 (dt_end_at d - dt_begin_at d) \<le>
      (dt_end_at d - t) * dt_target_amount d div max 1 (dt_end_at d - dt_begin_at d)"
    by (intro div_le_mono mult_le_mono1) auto
  from diff_le_mono2 [OF this, of "dt_target_amount d"] show "n \<le> n'"
    using a by (simp only: distributed_amount_Inr)
next
  fix t n assume a: "t < dt_begin_at d \<and> distributed_amount t d = Inr n"
  let ?r = "max 1 (dt_end_at d - dt_begin_at d)"
  have "?r \<le> dt_end_at d - t" using a assms(1) by auto
  then have "dt_target_amount d * ?r div ?r \<le> (dt_end_at d - t) * dt_target_amount d div ?r"
    by (intro div_le_mono) (simp add: mult.commute)
  then have "dt_target_amount d \<le> (dt_end_at d - t) * dt_target_amount d div ?r" by simp
  with a show "n = 0" by (simp add: distributed_amount_Inr)
qed

definition sample_schedule :: TokenDistribution where
  "sample_schedule = \<lparr>dt_target_amount = 1000000000000, dt_distributed = 0, dt_begin_at = 1642720446,
     dt_end_at = 1645312446, dt_kind = LinearDistribution\<rparr>"

lemma sample_schedule_at: "distributed_amount 1642721054 sample_schedule = Inr 234567902"
  by (simp add: distributed_amount_Inr sample_schedule_def u_range_def)

theorem linear_schedule_witness: "(234567902 :: nat) \<le> dt_target_amount sample_schedule"
proof -
  have "dt_begin_at sample_schedule \<le> dt_end_at sample_schedule" "u64 (dt_end_at sample_schedule)"
    "dt_target_amount sample_schedule < 2 ^ 64 - 1" "dt_begin_at sample_schedule \<le> 1642721054"
    by (simp_all add: sample_schedule_def u_range_def)
  with linear_schedule [OF this(1-3)] sample_schedule_at show ?thesis by auto
qed

subsection \<open>Airdrops\<close>

definition entries :: "AirdropTargetInfo \<Rightarrow> AirdropTarget list" where
  "entries t = take (ti_recipients_total t) (ti_recipients t)"

definition airdrop_inv :: "AirdropTargetInfo \<Rightarrow> bool" where
  "airdrop_inv t \<longleftrightarrow> ti_recipients_total t \<le> length (ti_recipients t) \<and> sorted (map at_recipient (entries t)) \<and>
     ti_reward_total t = sum_list (map at_amount (entries t))"

lemma length_entries: "airdrop_inv t \<Longrightarrow> length (entries t) = ti_recipients_total t"
  by (simp add: airdrop_inv_def entries_def)

text \<open>What the loop of \<open>add_recipients\<close> does to the list.\<close>

lemma add_recipient_Inr:
  assumes "add_recipient (r, n) t = Inr u" "ti_recipients_total t \<le> length (ti_recipients t)"
    "length (ti_recipients t) < 2 ^ 64"
  shows "entries u = entries t @ [\<lparr>at_amount = n, at_recipient = r\<rparr>]"
    "ti_recipients_total u = Suc (ti_recipients_total t)" "ti_recipients_total u \<le> length (ti_recipients u)"
    "length (ti_recipients u) = length (ti_recipients t)"
    "ti_reward_total u = ti_reward_total t + n" "ti_finalized u = ti_finalized t"
proof -
  from assms have l: "ti_recipients_total t < length (ti_recipients t)"
    and p: "plain_add 64 (ti_recipients_total t) 1 = (Inr (ti_recipients_total t + 1) :: nat rewards_res)"
    by (auto simp: add_recipient_def Let_def intro!: plain_add_ok simp: u_range_def)
  have u: "u = t\<lparr>ti_recipients := (ti_recipients t)[ti_recipients_total t := \<lparr>at_amount = n, at_recipient = r\<rparr>],
      ti_recipients_total := ti_recipients_total t + 1, ti_reward_total := ti_reward_total t + n\<rparr>"
    using assms(1) l p [unfolded add_Suc_right add_0_right One_nat_def]
    unfolding add_recipient_def by (auto simp: Let_def)
  show "entries u = entries t @ [\<lparr>at_amount = n, at_recipient = r\<rparr>]"
    using l by (simp add: u entries_def take_Suc_conv_app_nth)
  show "ti_recipients_total u = Suc (ti_recipients_total t)" "ti_recipients_total u \<le> length (ti_recipients u)"
    "length (ti_recipients u) = length (ti_recipients t)"
    "ti_reward_total u = ti_reward_total t + n" "ti_finalized u = ti_finalized t"
    using l by (simp_all add: u)
qed

lemma add_loop:
  assumes "foldE add_recipient xs t = Inr u" "ti_recipients_total t \<le> length (ti_recipients t)"
    "length (ti_recipients t) < 2 ^ 64"
  shows "entries u = entries t @ map (\<lambda>(r, n). \<lparr>at_amount = n, at_recipient = r\<rparr>) xs \<and>
    ti_recipients_total u = ti_recipients_total t + length xs \<and>
    ti_recipients_total u \<le> length (ti_recipients u) \<and> length (ti_recipients u) = length (ti_recipients t) \<and>
    ti_reward_total u = ti_reward_total t + sum_list (map snd xs) \<and> ti_finalized u = ti_finalized t"
  using assms
proof (induction xs arbitrary: t)
  case (Cons x xs)
  obtain r n where x: "x = (r, n)" by (cases x)
  from Cons.prems(1) obtain v where v: "add_recipient (r, n) t = Inr v" "foldE add_recipient xs v = Inr u"
    by (auto simp: x)
  note a = add_recipient_Inr [OF v(1) Cons.prems(2,3)]
  from Cons.IH [OF v(2) a(3)] a Cons.prems(3) show ?case by (simp add: x)
qed simp

lemma sorted_join:
  assumes "sorted xs" "sorted (drop (length xs - 1) (xs @ ys))"
  shows "sorted (xs @ ys)"
proof (cases xs rule: rev_cases)
  case (snoc zs z)
  with assms have "sorted zs" "\<forall>x\<in>set zs. x \<le> z" "\<forall>y\<in>set ys. z \<le> y" "sorted ys"
    by (auto simp: sorted_append)
  with snoc show ?thesis by (fastforce simp: sorted_append)
qed (use assms in simp)

lemma add_recipients_inv:
  assumes "add_recipients i xs a = Inr b" "airdrop_inv (ai_target_info a)" "length (ti_recipients (ai_target_info a)) < 2 ^ 64"
  shows "airdrop_inv (ai_target_info b) \<and> length (ti_recipients (ai_target_info b)) = length (ti_recipients (ai_target_info a)) \<and>
    ti_reward_total (ai_target_info b) = ti_reward_total (ai_target_info a) + sum_list (map snd xs) \<and>
    ti_finalized (ai_target_info a) = 0 \<and> ti_finalized (ai_target_info b) = 0"
proof -
  let ?t = "ai_target_info a"
  from assms(1) obtain u range where i: "ti_recipients_total ?t = i" "ti_finalized ?t = 0"
    and f: "foldE add_recipient xs ?t = Inr u"
    and r: "recipient_range (if i = 0 then 0 else i - 1) (ti_recipients_total u) (ti_recipients u) =
      (Inr range :: _ rewards_res)"
    and s: "successively (\<lambda>x y. at_recipient x \<le> at_recipient y) range" and b: "ai_target_info b = u"
    by (auto simp: add_recipients_def Let_def split: if_split_asm)
  have t: "ti_recipients_total ?t \<le> length (ti_recipients ?t)" using assms(2) by (simp add: airdrop_inv_def)
  note l = add_loop [OF f t assms(3)]
  let ?new = "map (\<lambda>(r, n). \<lparr>at_amount = n, at_recipient = r\<rparr>) xs"
  have len: "length (entries ?t) = i" using length_entries [OF assms(2)] i(1) by simp
  have "range = drop (i - 1) (entries u)"
    using r by (auto simp: recipient_range_def entries_def split: if_split_asm)
  then have range: "range = drop (length (entries ?t) - 1) (entries ?t @ ?new)" using l len by simp
  have "sorted (map at_recipient range)"
    using s by (simp add: successively_map successively_conv_sorted_wrt sorted_wrt_map transp_def transp_on_def)
  moreover have "map at_recipient range =
      drop (length (map at_recipient (entries ?t)) - 1) (map at_recipient (entries ?t) @ map at_recipient ?new)"
    by (simp only: range drop_map [symmetric] length_map map_append)
  moreover have "sorted (map at_recipient (entries ?t))" using assms(2) by (simp add: airdrop_inv_def)
  ultimately have "sorted (map at_recipient (entries ?t) @ map at_recipient ?new)" by (simp only: sorted_join)
  moreover have "sum_list (map at_amount ?new) = sum_list (map snd xs)"
    by (simp add: comp_def split_def)
  ultimately show ?thesis using l i b assms(2) by (simp add: airdrop_inv_def)
qed

lemma find_recipient_Inr:
  assumes "find_recipient r t = Inr i"
  shows "i < length (entries t) \<and> at_recipient (entries t ! i) = r \<and> i < length (ti_recipients t) \<and>
    entries t ! i = ti_recipients t ! i"
proof -
  from assms have "bsearch at_recipient (entries t) r 0 (length (entries t)) = Some i"
    by (auto simp: find_recipient_def recipient_range_def entries_def)
  from bsearch_sound [OF this] show ?thesis by (auto simp: entries_def)
qed

lemma find_recipient_total:
  assumes "airdrop_inv t" "r \<in> set (map at_recipient (entries t))"
  shows "\<exists>i. find_recipient r t = Inr i"
proof -
  from assms(2) obtain j where j: "j < length (entries t)" "at_recipient (entries t ! j) = r"
    by (auto simp: in_set_conv_nth)
  have "sorted (map at_recipient (entries t))" using assms(1) by (simp add: airdrop_inv_def)
  from bsearch_complete [OF this order_refl _ j] obtain i where
    "bsearch at_recipient (entries t) r 0 (length (entries t)) = Some i" by auto
  then show ?thesis
    using assms(1) by (simp add: find_recipient_def recipient_range_def airdrop_inv_def entries_def)
qed

text \<open>The search looks at the recipients only, so it finds the same entry after any claim.\<close>

lemma bsearch_cong:
  assumes "map f xs = map f ys" "right \<le> length xs"
  shows "bsearch f xs k left right = bsearch f ys k left right"
  using assms
proof (induction f xs k left right rule: bsearch.induct)
  case (1 f xs k left right)
  show ?case
  proof (cases "left < right")
    case False
    then show ?thesis by (simp add: bsearch.simps [of f _ k left right])
  next
    case True
    define mid where "mid = left + (right - left) div 2"
    have mid: "mid < right" using True by (auto simp: mid_def)
    have len: "length xs = length ys" using "1.prems"(1) by (rule map_eq_imp_length_eq)
    have e: "f (xs ! mid) = f (ys ! mid)"
      using "1.prems" mid len by (metis nth_map order.strict_trans2)
    have step: "bsearch f zs k left right =
        (if f (zs ! mid) < k then bsearch f zs k (mid + 1) right
         else if k < f (zs ! mid) then bsearch f zs k left mid else Some mid)" for zs
      using True by (subst bsearch.simps) (simp add: mid_def)
    show ?thesis unfolding step
      using "1.IH"(1) [OF True mid_def] "1.IH"(2) [OF True mid_def] "1.prems" mid e by simp
  qed
qed

lemma airdrop_claim_Inr:
  assumes "airdrop_claim r a = Inr (b, n)" "airdrop_inv (ai_target_info a)"
  shows "airdrop_inv (ai_target_info b)" "ti_finalized (ai_target_info a) = 1" "ti_finalized (ai_target_info b) = 1"
    "n \<le> ti_reward_total (ai_target_info a)" "ti_reward_total (ai_target_info b) = ti_reward_total (ai_target_info a) - n"
    "length (ti_recipients (ai_target_info b)) = length (ti_recipients (ai_target_info a))"
    "\<exists>i < length (entries (ai_target_info a)). at_recipient (entries (ai_target_info a) ! i) = r \<and>
       at_amount (entries (ai_target_info a) ! i) = n \<and>
       entries (ai_target_info b) = (entries (ai_target_info a))[i := \<lparr>at_amount = 0, at_recipient = r\<rparr>] \<and>
       find_recipient r (ai_target_info a) = Inr i"
proof -
  let ?t = "ai_target_info a"
  from assms(1) obtain i where fin: "ti_finalized ?t = 1" and i: "find_recipient r ?t = Inr i"
    and n: "n = at_amount (ti_recipients ?t ! i)" "n \<le> ti_reward_total ?t"
    and b: "ai_target_info b = ?t\<lparr>ti_recipients := (ti_recipients ?t)[i := (ti_recipients ?t ! i)\<lparr>at_amount := 0\<rparr>],
      ti_reward_total := ti_reward_total ?t - n\<rparr>"
    by (auto simp: airdrop_claim_def Let_def split: if_split_asm)
  note f = find_recipient_Inr [OF i]
  have "at_recipient (entries ?t ! i) = r" "entries ?t ! i = ti_recipients ?t ! i" using f by blast+
  then have r: "at_recipient (ti_recipients ?t ! i) = r" by metis
  then have "(ti_recipients ?t ! i)\<lparr>at_amount := 0\<rparr> = \<lparr>at_amount = 0, at_recipient = r\<rparr>"
    by (cases "ti_recipients ?t ! i") simp
  then have e: "entries (ai_target_info b) = (entries ?t)[i := \<lparr>at_amount = 0, at_recipient = r\<rparr>]"
    using f by (simp add: b entries_def take_update_swap)
  have keys: "map at_recipient (entries (ai_target_info b)) = map at_recipient (entries ?t)"
    using f r by (simp add: e map_update list_update_same_conv)
  have sum: "sum_list (map at_amount (entries ?t)) =
      sum_list (map at_amount (entries (ai_target_info b))) + n"
    using f n(1) elem_le_sum_list [of i "map at_amount (entries ?t)"]
    by (simp add: e map_update sum_list_update)
  have "ti_recipients_total (ai_target_info b) = ti_recipients_total ?t"
    "length (ti_recipients (ai_target_info b)) = length (ti_recipients ?t)"
    "ti_reward_total (ai_target_info b) = ti_reward_total ?t - n" by (simp_all add: b)
  with keys assms(2) sum show "airdrop_inv (ai_target_info b)"
    unfolding airdrop_inv_def by (metis add_diff_cancel_right')
  show "ti_finalized ?t = 1" "ti_finalized (ai_target_info b) = 1" "n \<le> ti_reward_total ?t"
    "ti_reward_total (ai_target_info b) = ti_reward_total ?t - n"
    "length (ti_recipients (ai_target_info b)) = length (ti_recipients ?t)"
    using fin n(2) by (simp_all add: b)
  show "\<exists>i < length (entries ?t). at_recipient (entries ?t ! i) = r \<and> at_amount (entries ?t ! i) = n \<and>
      entries (ai_target_info b) = (entries ?t)[i := \<lparr>at_amount = 0, at_recipient = r\<rparr>] \<and>
      find_recipient r ?t = Inr i"
    using f i n(1) e by auto
qed

text \<open>
  A run of an airdrop: its authority adds recipients and closes the list at some vault balance,
  recipients claim. A step that fails leaves everything as it was. Beside the airdrop the run keeps
  what has been promised and what has been paid.
\<close>

datatype AirdropOp = AddRecipients nat "(Pubkey \<times> nat) list" | FinalizeAirdrop nat | ClaimAirdrop Pubkey

record AirdropRun =
  ar_airdrop :: Airdrop
  ar_promised :: nat
  ar_paid :: nat

fun airdrop_op :: "AirdropOp \<Rightarrow> AirdropRun \<Rightarrow> AirdropRun" where
  "airdrop_op (AddRecipients i xs) s =
     (case add_recipients i xs (ar_airdrop s) of
        Inr a \<Rightarrow> s\<lparr>ar_airdrop := a, ar_promised := ar_promised s + sum_list (map snd xs)\<rparr> | Inl _ \<Rightarrow> s)"
| "airdrop_op (FinalizeAirdrop balance) s =
     (case airdrop_finalize balance (ar_airdrop s) of Inr a \<Rightarrow> s\<lparr>ar_airdrop := a\<rparr> | Inl _ \<Rightarrow> s)"
| "airdrop_op (ClaimAirdrop r) s =
     (case airdrop_claim r (ar_airdrop s) of
        Inr (a, n) \<Rightarrow> s\<lparr>ar_airdrop := a, ar_paid := ar_paid s + n\<rparr> | Inl _ \<Rightarrow> s)"

abbreviation run_target :: "AirdropRun \<Rightarrow> AirdropTargetInfo" where
  "run_target s \<equiv> ai_target_info (ar_airdrop s)"

definition airdrop_run_inv :: "AirdropRun \<Rightarrow> bool" where
  "airdrop_run_inv s \<longleftrightarrow> airdrop_inv (run_target s) \<and> length (ti_recipients (run_target s)) < 2 ^ 64 \<and>
     ti_reward_total (run_target s) + ar_paid s = ar_promised s"

lemma airdrop_finalize_Inr:
  "airdrop_finalize v a = Inr b \<longleftrightarrow> ti_reward_total (ai_target_info a) \<le> v \<and>
     b = a\<lparr>ai_target_info := (ai_target_info a)\<lparr>ti_finalized := 1\<rparr>\<rparr>"
  by (auto simp: airdrop_finalize_def)

lemma airdrop_op_inv:
  assumes "airdrop_run_inv s"
  shows "airdrop_run_inv (airdrop_op op s)"
proof (cases op)
  case (AddRecipients i xs)
  then show ?thesis
    using assms add_recipients_inv [of i xs "ar_airdrop s"]
    by (auto simp: airdrop_run_inv_def split: sum.split)
next
  case (FinalizeAirdrop v)
  then show ?thesis
    using assms by (auto simp: airdrop_run_inv_def airdrop_inv_def airdrop_finalize_Inr entries_def split: sum.split)
next
  case (ClaimAirdrop r)
  then show ?thesis
    using assms airdrop_claim_Inr [of r "ar_airdrop s"]
    by (auto simp: airdrop_run_inv_def split: sum.split)
qed

lemma airdrop_run_keeps_inv:
  "airdrop_run_inv s \<Longrightarrow> airdrop_run_inv (fold airdrop_op ops s)"
  by (induction ops arbitrary: s) (auto simp: airdrop_op_inv)

text \<open>
  C38: Whatever is done to a new airdrop, its entries stay sorted by recipient, what is still
  owed is the sum of the entries, and what is owed and what has been paid is together exactly what
  was promised. So the airdrop never pays more than the recipients were promised.
\<close>

theorem airdrop_accounting:
  assumes "ai_target_info a = zeroed_target_info"
    and "s = fold airdrop_op ops \<lparr>ar_airdrop = a, ar_promised = 0, ar_paid = 0\<rparr>"
  shows "sorted (map at_recipient (entries (run_target s))) \<and>
    ti_reward_total (run_target s) = sum_list (map at_amount (entries (run_target s))) \<and>
    ti_reward_total (run_target s) + ar_paid s = ar_promised s"
proof -
  have "airdrop_run_inv \<lparr>ar_airdrop = a, ar_promised = 0, ar_paid = 0\<rparr>"
    by (simp add: airdrop_run_inv_def airdrop_inv_def entries_def assms(1) zeroed_target_info_def)
  from airdrop_run_keeps_inv [OF this, of ops] show ?thesis
    by (simp add: assms(2) airdrop_run_inv_def airdrop_inv_def)
qed

text \<open>What a claim leaves fixed: once a recipient is paid, the entry the search finds holds nothing.\<close>

definition claimed_entry :: "Pubkey \<Rightarrow> Airdrop \<Rightarrow> bool" where
  "claimed_entry r a \<longleftrightarrow> airdrop_inv (ai_target_info a) \<and> ti_finalized (ai_target_info a) = 1 \<and>
     (\<exists>i. find_recipient r (ai_target_info a) = Inr i \<and> at_amount (entries (ai_target_info a) ! i) = 0)"

lemma find_recipient_cong:
  assumes "map at_recipient (entries t) = map at_recipient (entries u)" "airdrop_inv t" "airdrop_inv u"
  shows "find_recipient r t = find_recipient r u"
proof -
  have "length (entries t) = length (entries u)" using assms(1) by (rule map_eq_imp_length_eq)
  moreover have "bsearch at_recipient (entries t) r 0 (length (entries t)) =
      bsearch at_recipient (entries u) r 0 (length (entries t))"
    by (rule bsearch_cong) (use assms(1) in simp_all)
  ultimately show ?thesis
    using assms(2,3) by (simp add: find_recipient_def recipient_range_def airdrop_inv_def entries_def)
qed

lemma airdrop_claim_keys:
  assumes "airdrop_claim r a = Inr (b, n)" "airdrop_inv (ai_target_info a)"
  shows "map at_recipient (entries (ai_target_info b)) = map at_recipient (entries (ai_target_info a))"
proof -
  from airdrop_claim_Inr(7) [OF assms] obtain i where "i < length (entries (ai_target_info a))"
    "at_recipient (entries (ai_target_info a) ! i) = r"
    "entries (ai_target_info b) = (entries (ai_target_info a))[i := \<lparr>at_amount = 0, at_recipient = r\<rparr>]" by auto
  then show ?thesis by (simp add: map_update list_update_same_conv)
qed

lemma claimed_entry_claim:
  assumes "airdrop_claim r' a = Inr (b, n)" "airdrop_inv (ai_target_info a)" "r' = r \<or> claimed_entry r a"
  shows "claimed_entry r b"
proof -
  note c = airdrop_claim_Inr [OF assms(1,2)]
  from c(7) obtain j where j: "j < length (entries (ai_target_info a))" "find_recipient r' (ai_target_info a) = Inr j"
    "entries (ai_target_info b) = (entries (ai_target_info a))[j := \<lparr>at_amount = 0, at_recipient = r'\<rparr>]" by auto
  have same: "find_recipient r (ai_target_info b) = find_recipient r (ai_target_info a)"
    by (rule find_recipient_cong [OF airdrop_claim_keys [OF assms(1,2)] c(1) assms(2)])
  show ?thesis
  proof (cases "r' = r")
    case True
    then show ?thesis using c(1,3) same j by (auto simp: claimed_entry_def)
  next
    case False
    with assms(3) obtain i where "find_recipient r (ai_target_info a) = Inr i" "at_amount (entries (ai_target_info a) ! i) = 0"
      by (auto simp: claimed_entry_def)
    then show ?thesis using c(1,3) same j
      by (cases "i = j") (auto simp: claimed_entry_def)
  qed
qed

lemma claimed_entry_op:
  assumes "claimed_entry r (ar_airdrop s)"
  shows "claimed_entry r (ar_airdrop (airdrop_op op s))"
proof (cases op)
  case (AddRecipients i xs)
  have "add_recipients i xs (ar_airdrop s) \<noteq> Inr b" for b
    using assms by (auto simp: add_recipients_def claimed_entry_def Let_def)
  then show ?thesis using AddRecipients assms by (cases "add_recipients i xs (ar_airdrop s)") auto
next
  case (FinalizeAirdrop v)
  then show ?thesis using assms
    by (auto simp: airdrop_finalize_Inr claimed_entry_def airdrop_inv_def find_recipient_def entries_def
        split: sum.split)
next
  case (ClaimAirdrop r')
  then show ?thesis using assms claimed_entry_claim [of r' "ar_airdrop s" _ _ r]
    by (auto simp: claimed_entry_def split: sum.split)
qed

lemma claimed_entry_run:
  "claimed_entry r (ar_airdrop s) \<Longrightarrow> claimed_entry r (ar_airdrop (fold airdrop_op ops s))"
  by (induction ops arbitrary: s) (auto simp: claimed_entry_op)

lemma claimed_entry_pays_nothing:
  assumes "claimed_entry r a"
  shows "airdrop_claim r a = Inr (a, 0)"
proof -
  from assms obtain i where fin: "ti_finalized (ai_target_info a) = 1" and i: "find_recipient r (ai_target_info a) = Inr i"
    and z: "at_amount (entries (ai_target_info a) ! i) = 0" by (auto simp: claimed_entry_def)
  let ?e = "ti_recipients (ai_target_info a) ! i"
  have z: "at_amount ?e = 0" using find_recipient_Inr [OF i] z by simp
  then have e: "?e\<lparr>at_amount := 0\<rparr> = ?e" by (cases ?e) simp
  show ?thesis using z fin i by (simp add: airdrop_claim_def Let_def e)
qed

text \<open>
  C39: A recipient is paid once: after a claim of the recipient, whatever is done to the airdrop in
  between, another claim of the same recipient succeeds, pays nothing and changes nothing.
\<close>

theorem second_claim_pays_nothing:
  assumes "airdrop_run_inv \<lparr>ar_airdrop = a, ar_promised = p, ar_paid = q\<rparr>" "airdrop_claim r a = Inr (b, n)"
    and "s = fold airdrop_op ops \<lparr>ar_airdrop = b, ar_promised = p, ar_paid = q + n\<rparr>"
  shows "airdrop_claim r (ar_airdrop s) = Inr (ar_airdrop s, 0)"
proof -
  have "airdrop_inv (ai_target_info a)" using assms(1) by (simp add: airdrop_run_inv_def)
  from claimed_entry_claim [OF assms(2) this] have "claimed_entry r b" by simp
  then have "claimed_entry r (ar_airdrop s)" unfolding assms(3) by (intro claimed_entry_run) simp
  then show ?thesis by (rule claimed_entry_pays_nothing)
qed

definition sample_airdrop :: "nat \<Rightarrow> Airdrop" where
  "sample_airdrop capacity = \<lparr>ai_address = 1, ai_reward_vault = 2, ai_authority = 3, ai_expire_at = 100, ai_stake_pool = 4,
     ai_flags = 0, ai_short_desc = [], ai_long_desc = [], ai_vault_bump = 255,
     ai_target_info = \<lparr>ti_reward_total = 0, ti_recipients_total = 0, ti_finalized = 0,
       ti_recipients = replicate capacity \<lparr>at_amount = 0, at_recipient = 0\<rparr>\<rparr>\<rparr>"

abbreviation sample_run :: "nat \<Rightarrow> AirdropRun" where
  "sample_run capacity \<equiv> \<lparr>ar_airdrop = sample_airdrop capacity, ar_promised = 0, ar_paid = 0\<rparr>"

lemma sample_adds:
  "\<exists>a. add_recipients 0 [(7, 40)] (sample_airdrop 10000) = Inr a"
proof -
  have "take (Suc 0) ((replicate 10000 \<lparr>at_amount = 0, at_recipient = 0\<rparr>)[0 := x]) = [x]" for x :: AirdropTarget
    by (simp add: numeral_eq_Suc)
  then show ?thesis
    by (simp add: add_recipients_def sample_airdrop_def add_recipient_def Let_def recipient_range_def plain_add_def
        plain_u_def u_range_def)
qed

theorem airdrop_accounting_witness:
  "ar_promised (airdrop_op (AddRecipients 0 [(7, 40)]) (sample_run 10000)) = 40 \<and>
   ti_reward_total (run_target (airdrop_op (AddRecipients 0 [(7, 40)]) (sample_run 10000))) = 40"
proof -
  let ?s = "airdrop_op (AddRecipients 0 [(7, 40)]) (sample_run 10000)"
  have p: "ar_promised ?s = 40" "ar_paid ?s = 0" using sample_adds by auto
  have "ai_target_info (sample_airdrop 10000) = zeroed_target_info"
    by (simp add: sample_airdrop_def zeroed_target_info_def)
  from airdrop_accounting [OF this, of ?s "[AddRecipients 0 [(7, 40)]]"] p show ?thesis by simp
qed

definition sample_finalized :: "nat \<Rightarrow> Airdrop" where
  "sample_finalized n = (sample_airdrop 0)\<lparr>ai_target_info := \<lparr>ti_reward_total = n + 5, ti_recipients_total = 2,
     ti_finalized = 1, ti_recipients = [\<lparr>at_amount = n, at_recipient = 7\<rparr>, \<lparr>at_amount = 5, at_recipient = 9\<rparr>]\<rparr>\<rparr>"

lemma sample_claim: "airdrop_claim 7 (sample_finalized 40) = Inr (sample_finalized 0, 40)"
  by (simp add: airdrop_claim_def sample_finalized_def Let_def find_recipient_def recipient_range_def bsearch.simps)

theorem second_claim_pays_nothing_witness:
  "airdrop_claim 7 (sample_finalized 0) = Inr (sample_finalized 0, 0)"
proof -
  have "airdrop_run_inv \<lparr>ar_airdrop = sample_finalized 40, ar_promised = 45, ar_paid = 0\<rparr>"
    by (simp add: airdrop_run_inv_def airdrop_inv_def sample_finalized_def entries_def)
  from second_claim_pays_nothing [OF this sample_claim, of _ "[]"] show ?thesis by simp
qed

subsection \<open>Distributions\<close>

lemma badly_timed_schedule: "dt_end_at d < dt_begin_at d \<Longrightarrow> distribute t d \<noteq> Inr r"
  by (auto simp: distribute_def distributed_amount_Inr)

context token_program begin

lemma vault_filled:
  assumes "rt_create rt v \<lparr>ta_mint = mint, ta_owner = addr, ta_delegate = None, ta_amount = 0\<rparr> l = Some l1"
    and "rt_invoke rt s (TokenTransfer src v auth n) l1 = Some l2"
  shows "vault_covers addr mint n (rt_account rt l2 v)"
proof -
  have c: "vault_covers addr mint 0 (rt_account rt l1 v)" using spl_create [OF assms(1)] by simp
  show ?thesis
  proof (cases "src = v")
    case True
    have "n = 0" using spl_transfer [OF assms(2)] by cases (use True spl_create [OF assms(1)] in auto)
    then show ?thesis using vault_transfer [OF c assms(2)] True by simp
  next
    case False
    then show ?thesis using vault_transfer [OF c assms(2)] by simp
  qed
qed

lemma close_needs_empty:
  assumes "rt_invoke rt s (TokenClose k dest auth) l = Some l'" "rt_account rt l k = Some v"
  shows "ta_amount v = 0"
  using spl_close [OF assms(1)] by cases (use assms(2) in simp)

end

text \<open>
  C40: Creating a distribution does not check its dates. One that ends before it begins takes the
  tokens of its creator and never gives them back: no release succeeds at any time, and it cannot
  be closed while the vault holds a token.
\<close>

theorem badly_timed_distribution_stuck:
  assumes "spl_token rt" "distribution_create_handler rt ac params existing l = Inr (d, l', e)"
    and "dp_end_at params < dp_begin_at params"
  shows "vault_covers (dc_distribution ac) (dc_token_mint ac) (dp_amount params) (rt_account rt l' (dc_vault ac)) \<and>
    (\<forall>s t k v target m r. distribution_release_handler (instruction rt s t) k v target d m \<noteq> Inr r) \<and>
    (\<forall>s t k auth receiver m x r. rt_account rt m (dc_vault ac) = Some x \<and> 0 < ta_amount x \<longrightarrow>
       distribution_close_handler (instruction rt s t) k auth (dc_vault ac) receiver d m \<noteq> Inr r)"
proof (intro conjI allI impI)
  from assms(2) obtain l1 where c: "rt_create rt (dc_vault ac)
      \<lparr>ta_mint = dc_token_mint ac, ta_owner = dc_distribution ac, ta_delegate = None, ta_amount = 0\<rparr> l = Some l1"
    and t: "rt_invoke rt (rt_signers rt) (TokenTransfer (dc_payer_token_account ac) (dc_vault ac)
      (dc_payer_token_authority ac) (dp_amount params)) l1 = Some l'"
    and d: "dt_begin_at (ds_token_distribution d) = dp_begin_at params"
      "dt_end_at (ds_token_distribution d) = dp_end_at params"
    by (auto simp: distribution_create_handler_def Let_def)
  have rt: "token_program rt" by (rule token_program.intro) (rule assms(1))
  show "vault_covers (dc_distribution ac) (dc_token_mint ac) (dp_amount params) (rt_account rt l' (dc_vault ac))"
    by (rule token_program.vault_filled [OF rt c t])
  show "distribution_release_handler (instruction rt s t) k v target d m \<noteq> Inr r" for s t k v target m r
    using badly_timed_schedule [of "ds_token_distribution d"] assms(3) d
    by (auto simp: distribution_release_handler_def)
  show "distribution_close_handler (instruction rt s t) k auth (dc_vault ac) receiver d m \<noteq> Inr r"
    if x: "rt_account rt m (dc_vault ac) = Some x \<and> 0 < ta_amount x" for s t k auth receiver m x r
  proof
    assume "distribution_close_handler (instruction rt s t) k auth (dc_vault ac) receiver d m = Inr r"
    then obtain ss m' where "rt_invoke (instruction rt s t) ss (TokenClose (dc_vault ac) receiver k) m = Some m'"
      by (auto simp: distribution_close_handler_def split: if_split_asm)
    moreover have "token_program (instruction rt s t)" by (rule token_program.intro) (simp add: assms(1))
    moreover have "rt_account (instruction rt s t) m (dc_vault ac) = Some x" using x by (simp add: instruction_def)
    ultimately have "ta_amount x = 0" by (metis token_program.close_needs_empty)
    with x show False by simp
  qed
qed

definition stuck_create :: DistributionCreate where
  "stuck_create = \<lparr>dc_distribution = 10, dc_vault = 20, dc_payer_rent = 60, dc_payer_token_authority = 60,
     dc_payer_token_account = 61, dc_token_mint = 7\<rparr>"

definition stuck_params :: DistributionCreateParams where
  "stuck_params = \<lparr>dp_seed = ''x'', dp_authority = 60, dp_target_account = 62, dp_amount = 500, dp_begin_at = 200,
     dp_end_at = 100\<rparr>"

definition stuck_ledger :: "nat \<Rightarrow> TokenAccount option \<Rightarrow> Ledger" where
  "stuck_ledger n v = \<lparr>lg_accounts = [61 \<mapsto> \<lparr>ta_mint = 7, ta_owner = 60, ta_delegate = None, ta_amount = n\<rparr>](20 := v),
     lg_mints = Map.empty\<rparr>"

definition stuck_rt :: "Ledger Runtime" where
  "stuck_rt = ledger_runtime (\<lambda>seeds. case seeds of SeedKey _ # _ \<Rightarrow> 20 | _ \<Rightarrow> 10) [60] 0"

lemma stuck_creates:
  "\<exists>d e. distribution_create_handler stuck_rt stuck_create stuck_params None (stuck_ledger 500 None) =
     Inr (d, stuck_ledger 0 (Some \<lparr>ta_mint = 7, ta_owner = 10, ta_delegate = None, ta_amount = 500\<rparr>), e)"
  by (simp add: distribution_create_handler_def Let_def stuck_rt_def stuck_create_def stuck_params_def constraint_def
      require_signer_def create_token_account_def token_cpi_def ledger_create_def stuck_ledger_def may_spend_def
      fun_upd_twist)

theorem badly_timed_distribution_stuck_witness:
  "\<exists>d e. distribution_create_handler stuck_rt stuck_create stuck_params None (stuck_ledger 500 None) =
       Inr (d, stuck_ledger 0 (Some \<lparr>ta_mint = 7, ta_owner = 10, ta_delegate = None, ta_amount = 500\<rparr>), e) \<and>
     (\<forall>r. distribution_close_handler (instruction stuck_rt [60] 300) 10 60 20 60 d
       (stuck_ledger 0 (Some \<lparr>ta_mint = 7, ta_owner = 10, ta_delegate = None, ta_amount = 500\<rparr>)) \<noteq> Inr r)"
proof -
  let ?v = "\<lparr>ta_mint = 7, ta_owner = 10, ta_delegate = None, ta_amount = 500\<rparr>"
  obtain d e where c: "distribution_create_handler stuck_rt stuck_create stuck_params None (stuck_ledger 500 None) =
     Inr (d, stuck_ledger 0 (Some ?v), e)" using stuck_creates by blast
  have spl: "spl_token stuck_rt" by (simp add: stuck_rt_def ledger_runtime_spl)
  have "dp_end_at stuck_params < dp_begin_at stuck_params" by (simp add: stuck_params_def)
  from badly_timed_distribution_stuck [OF spl c this, THEN conjunct2, THEN conjunct2, rule_format,
      of "stuck_ledger 0 (Some ?v)" ?v "[60]" 300 10 60 60]
  have "\<forall>r. distribution_close_handler (instruction stuck_rt [60] 300) 10 60 20 60 d (stuck_ledger 0 (Some ?v)) \<noteq> Inr r"
    by (simp add: stuck_rt_def stuck_ledger_def stuck_create_def)
  with c show ?thesis by blast
qed

end
