(* ===== verification/FixedTermState.thy ===== *)
theory FixedTermState
  imports Fp32Numbers MarginTypes Runtime
begin

text \<open>
  The state of the fixed-term markets, \<open>programs/fixed-term\<close>: the market (\<open>control/state.rs\<close>), the
  debt and the assets of a user of the market, term loans (\<open>margin/state.rs\<close>) and term deposits
  (\<open>tickets/state.rs\<close>), the fee on new loans (\<open>margin/origination_fee.rs\<close>), and the orders of the
  order book with the information that comes back with their events (\<open>orderbook/state\<close>).

  An order trades tickets, the base, for the underlying token, the quote. Tickets are claims on one
  token each at the end of the term.
\<close>

datatype NumericalError = AdditionOverflow | MultiplicationOverflow | SubtractionUnderflow | ZeroDivisionError

datatype FixedTermError =
    FixedPointMath | FailedToPushEvent | ImmatureTicket | InvalidAutoRollConfig | NoEvents | NoMoreAccounts
  | OracleError | OrderNotFound | OrderRejected | TermDepositHasWrongSequenceNumber
  | TermLoanHasWrongSequenceNumber | TicketSettlementAccountNotRegistered
  | UnderlyingSettlementAccountNotRegistered | UserDoesNotOwnAdapter | UserNotInMarket | WrongAdapter
  | WrongEventQueue | WrongTicketMint | WrongUserAccount | AutoRollDisabled | AutoRollNotReady
  | MarginUserCannotUseInstruction | PriceOutOfBounds | Numerical NumericalError

type_synonym 'a ft_res = "(FixedTermError, 'a) res"
type_synonym 'a ft_tx = "(FixedTermError, 'a) tx"
type_synonym SequenceNumber = nat
type_synonym UnixTimestamp = int

text \<open>\<open>try_add_assign\<close>, \<open>safe_add\<close> and \<open>safe_sub\<close> of \<open>program-common/src/traits.rs\<close> on \<open>u64\<close> and \<open>i64\<close>.\<close>

definition safe_add :: "nat \<Rightarrow> nat \<Rightarrow> nat ft_res" where
  "safe_add a b = ok_or (checked_add 64 a b) (Numerical AdditionOverflow)"

definition safe_sub :: "nat \<Rightarrow> nat \<Rightarrow> nat ft_res" where
  "safe_sub a b = ok_or (checked_sub a b) (Numerical SubtractionUnderflow)"

definition safe_add_i64 :: "int \<Rightarrow> int \<Rightarrow> int ft_res" where
  "safe_add_i64 a b = ok_or (checked_i 64 (a + b)) (Numerical AdditionOverflow)"

definition safe_sub_i64 :: "int \<Rightarrow> int \<Rightarrow> int ft_res" where
  "safe_sub_i64 a b = ok_or (checked_i 64 (a - b)) (Numerical SubtractionUnderflow)"

lemma safe_Inr [simp]:
  "safe_add a b = Inr c \<longleftrightarrow> c = a + b \<and> u64 (a + b)"
  "safe_sub a b = Inr c \<longleftrightarrow> b \<le> a \<and> c = a - b"
  "safe_add_i64 x y = Inr z \<longleftrightarrow> z = x + y \<and> i_range 64 (x + y)"
  "safe_sub_i64 x y = Inr z \<longleftrightarrow> z = x - y \<and> i_range 64 (x - y)"
  by (auto simp: safe_add_def safe_sub_def safe_add_i64_def safe_sub_i64_def checked_add_def
      checked_sub_def checked_i_def)

subsection \<open>The origination fee\<close>

definition FEE_UNIT :: nat where "FEE_UNIT = 1000000"

text \<open>The computation is in \<open>u128\<close>, where the products of two \<open>u64\<close> stay in range.\<close>

definition borrow_order_qty :: "nat \<Rightarrow> nat \<Rightarrow> nat" where
  "borrow_order_qty requested fee =
     (if requested = 0 then 0
      else if fee = 0 then requested
      else let quote = 1 + requested + requested * fee div FEE_UNIT in
           if quote \<ge> 2 ^ 64 - 1 then 2 ^ 64 - 1 else quote)"

definition loan_to_disburse :: "nat \<Rightarrow> nat \<Rightarrow> nat ft_res" where
  "loan_to_disburse filled_quote fee =
     (if filled_quote = 0 then Inr 0
      else if fee = 0 then Inr filled_quote
      else if filled_quote < (2 ^ 64 - 1) div FEE_UNIT then
        bindE (plain_mul 64 FEE_UNIT filled_quote) (\<lambda>p.
        bindE (plain_add 64 FEE_UNIT fee) (\<lambda>d. plain_div p d))
      else Inr (FEE_UNIT * filled_quote div (FEE_UNIT + fee) mod 2 ^ 64))"

subsection \<open>Rounding\<close>

datatype RoundingAction = PostBorrow | FillBorrow | CancelBorrow | PostLend | FillLend | CancelLend

datatype QuoteRounding = RoundUp | RoundDown

fun rounding_direction :: "RoundingAction \<Rightarrow> QuoteRounding" where
  "rounding_direction PostBorrow = RoundDown"
| "rounding_direction FillBorrow = RoundDown"
| "rounding_direction CancelBorrow = RoundDown"
| "rounding_direction PostLend = RoundDown"
| "rounding_direction FillLend = RoundDown"
| "rounding_direction CancelLend = RoundDown"

definition try_into_u64 :: "nat \<Rightarrow> nat option" where
  "try_into_u64 n = (if u64 n then Some n else None)"

definition fp32_mul_floor :: "nat \<Rightarrow> nat \<Rightarrow> nat option" where
  "fp32_mul_floor a b = Option.bind (checked_mul 128 a b) (\<lambda>x. try_into_u64 (drop_bit 32 x))"

definition fp32_ceil_util :: "nat \<Rightarrow> nat option" where
  "fp32_ceil_util x = checked_add 128 x (unat (NOT (of_nat x :: 32 word) + 1))"

definition fp32_mul_ceil :: "nat \<Rightarrow> nat \<Rightarrow> nat option" where
  "fp32_mul_ceil a b =
     Option.bind (checked_mul 128 a b) (\<lambda>x.
     Option.bind (fp32_ceil_util x) (\<lambda>y. try_into_u64 (drop_bit 32 y)))"

definition fp32_u64_quotient :: "nat \<Rightarrow> nat \<Rightarrow> nat option" where
  "fp32_u64_quotient a b = Option.bind (checked_div (push_bit 32 a) b) try_into_u64"

definition quote_from_base :: "nat \<Rightarrow> nat \<Rightarrow> QuoteRounding \<Rightarrow> nat ft_res" where
  "quote_from_base base price rounding =
     ok_or (case rounding of RoundUp \<Rightarrow> fp32_mul_ceil base price | RoundDown \<Rightarrow> fp32_mul_floor base price)
       FixedPointMath"

subsection \<open>The debt of a user\<close>

record Debt =
  db_next_new_term_loan_seqno :: SequenceNumber
  db_next_unpaid_term_loan_seqno :: SequenceNumber
  db_next_term_loan_maturity :: UnixTimestamp
  db_pending :: nat
  db_committed :: nat

record TermLoanFlags =
  tlf_marked_due :: bool
  tlf_auto_roll :: bool

definition no_loan_flags :: TermLoanFlags where
  "no_loan_flags = \<lparr>tlf_marked_due = False, tlf_auto_roll = False\<rparr>"

record TermLoan =
  tl_sequence_number :: SequenceNumber
  tl_margin_user :: Pubkey
  tl_market :: Pubkey
  tl_payer :: Pubkey
  tl_order_tag :: nat
  tl_maturation_timestamp :: UnixTimestamp
  tl_strike_timestamp :: UnixTimestamp
  tl_principal :: nat
  tl_interest :: nat
  tl_balance :: nat
  tl_flags :: TermLoanFlags

definition next_term_loan_to_repay :: "Debt \<Rightarrow> SequenceNumber option" where
  "next_term_loan_to_repay d =
     (if db_next_new_term_loan_seqno d > db_next_unpaid_term_loan_seqno d
      then Some (db_next_unpaid_term_loan_seqno d) else None)"

definition debt_total :: "Debt \<Rightarrow> nat ft_res" where
  "debt_total d = unwrap (checked_add 64 (db_pending d) (db_committed d))"

definition outstanding_term_loans :: "Debt \<Rightarrow> nat ft_res" where
  "outstanding_term_loans d = plain_sub 64 (db_next_new_term_loan_seqno d) (db_next_unpaid_term_loan_seqno d)"

definition active_loans :: "Debt \<Rightarrow> SequenceNumber list" where
  "active_loans d = [db_next_unpaid_term_loan_seqno d ..< db_next_new_term_loan_seqno d]"

definition debt_is_past_due :: "Debt \<Rightarrow> UnixTimestamp \<Rightarrow> bool ft_res" where
  "debt_is_past_due d now =
     bindE (outstanding_term_loans d) (\<lambda>n. Inr (n > 0 \<and> db_next_term_loan_maturity d \<le> now))"

definition debt_post_borrow_order :: "nat \<Rightarrow> Debt \<Rightarrow> Debt ft_res" where
  "debt_post_borrow_order posted d =
     bindE (safe_add (db_pending d) posted) (\<lambda>p. Inr (d\<lparr>db_pending := p\<rparr>))"

definition new_term_loan_without_posting ::
  "nat \<Rightarrow> UnixTimestamp \<Rightarrow> Debt \<Rightarrow> (Debt \<times> SequenceNumber) ft_res" where
  "new_term_loan_without_posting amount maturity d =
     bindE (safe_add (db_committed d) amount) (\<lambda>c.
     let d = d\<lparr>db_committed := c\<rparr>;
         d = (if db_next_new_term_loan_seqno d = db_next_unpaid_term_loan_seqno d
              then d\<lparr>db_next_term_loan_maturity := maturity\<rparr> else d);
         seqno = db_next_new_term_loan_seqno d in
     bindE (safe_add seqno 1) (\<lambda>n. Inr (d\<lparr>db_next_new_term_loan_seqno := n\<rparr>, seqno)))"

definition new_term_loan_from_fill ::
  "nat \<Rightarrow> UnixTimestamp \<Rightarrow> Debt \<Rightarrow> (Debt \<times> SequenceNumber) ft_res" where
  "new_term_loan_from_fill amount maturity d =
     bindE (safe_sub (db_pending d) amount) (\<lambda>p.
     new_term_loan_without_posting amount maturity (d\<lparr>db_pending := p\<rparr>))"

definition process_out :: "nat \<Rightarrow> Debt \<Rightarrow> Debt ft_res" where
  "process_out amount d = bindE (safe_sub (db_pending d) amount) (\<lambda>p. Inr (d\<lparr>db_pending := p\<rparr>))"

definition partially_repay_term_loan :: "SequenceNumber \<Rightarrow> nat \<Rightarrow> Debt \<Rightarrow> Debt ft_res" where
  "partially_repay_term_loan seqno amount d =
     (if seqno \<noteq> db_next_unpaid_term_loan_seqno d then err TermLoanHasWrongSequenceNumber
      else bindE (safe_sub (db_committed d) amount) (\<lambda>c. Inr (d\<lparr>db_committed := c\<rparr>)))"

text \<open>The next loan is only looked at when there is one.\<close>

definition fully_repay_term_loan ::
  "SequenceNumber \<Rightarrow> nat \<Rightarrow> TermLoan ft_tx \<Rightarrow> Debt \<Rightarrow> Debt ft_tx" where
  "fully_repay_term_loan seqno amount next_loan d =
     (if seqno \<noteq> db_next_unpaid_term_loan_seqno d then err (ProgramErr TermLoanHasWrongSequenceNumber)
      else
        bindE (lift_tx (safe_sub (db_committed d) amount)) (\<lambda>c.
        bindE (lift_tx (safe_add (db_next_unpaid_term_loan_seqno d) 1)) (\<lambda>n.
        let d = d\<lparr>db_committed := c, db_next_unpaid_term_loan_seqno := n\<rparr> in
        if n < db_next_new_term_loan_seqno d then
          bindE next_loan (\<lambda>loan.
          bindE (guardE (tl_sequence_number loan = n) (ProgramErr TermLoanHasWrongSequenceNumber)) (\<lambda>_.
          Inr (d\<lparr>db_next_term_loan_maturity := tl_maturation_timestamp loan\<rparr>)))
        else Inr d)))"

subsection \<open>The assets of a user\<close>

record Assets =
  fa_entitled_tokens :: nat
  fa_entitled_tickets :: nat
  fa_next_deposit_seqno :: SequenceNumber
  fa_next_unredeemed_deposit_seqno :: SequenceNumber
  fa_tickets_staked :: nat
  fa_tickets_posted :: nat
  fa_tokens_posted :: nat

definition default_assets :: Assets where
  "default_assets = \<lparr>fa_entitled_tokens = 0, fa_entitled_tickets = 0, fa_next_deposit_seqno = 0,
     fa_next_unredeemed_deposit_seqno = 0, fa_tickets_staked = 0, fa_tickets_posted = 0, fa_tokens_posted = 0\<rparr>"

definition next_unredeemed_deposit_seqno :: "Assets \<Rightarrow> SequenceNumber option" where
  "next_unredeemed_deposit_seqno a =
     (if fa_next_unredeemed_deposit_seqno a = fa_next_deposit_seqno a then None
      else Some (fa_next_unredeemed_deposit_seqno a))"

definition new_deposit :: "nat \<Rightarrow> Assets \<Rightarrow> (Assets \<times> SequenceNumber) ft_res" where
  "new_deposit tickets a =
     (let seqno = fa_next_deposit_seqno a in
      if tickets > 0 then
        bindE (plain_add 64 seqno 1) (\<lambda>n.
        bindE (safe_add (fa_tickets_staked a) tickets) (\<lambda>s.
        Inr (a\<lparr>fa_next_deposit_seqno := n, fa_tickets_staked := s\<rparr>, seqno)))
      else Inr (a, seqno))"

definition assets_redeem_deposit :: "SequenceNumber \<Rightarrow> nat \<Rightarrow> Assets \<Rightarrow> Assets ft_res" where
  "assets_redeem_deposit seqno tickets a =
     bindE (guardE (seqno = fa_next_unredeemed_deposit_seqno a) TermDepositHasWrongSequenceNumber) (\<lambda>_.
     bindE (plain_add 64 (fa_next_unredeemed_deposit_seqno a) 1) (\<lambda>n.
     Inr (a\<lparr>fa_next_unredeemed_deposit_seqno := n,
            fa_tickets_staked := saturating_sub (fa_tickets_staked a) tickets\<rparr>)))"

definition borrow_order_fill :: "nat \<Rightarrow> nat \<Rightarrow> Assets \<Rightarrow> Assets ft_res" where
  "borrow_order_fill token_value_filled disbursement a =
     bindE (safe_sub (fa_tokens_posted a) token_value_filled) (\<lambda>p.
     bindE (safe_add (fa_entitled_tokens a) disbursement) (\<lambda>e.
     Inr (a\<lparr>fa_tokens_posted := p, fa_entitled_tokens := e\<rparr>)))"

definition ticket_collateral :: "Assets \<Rightarrow> nat ft_res" where
  "ticket_collateral a = safe_add (fa_tickets_staked a) (fa_tickets_posted a)"

definition underlying_collateral :: "Assets \<Rightarrow> nat" where
  "underlying_collateral a = fa_tokens_posted a"

definition active_deposits :: "Assets \<Rightarrow> SequenceNumber list" where
  "active_deposits a = [fa_next_unredeemed_deposit_seqno a ..< fa_next_deposit_seqno a]"

subsection \<open>The user of a market\<close>

record BorrowAutoRollConfig =
  brc_limit_price :: nat
  brc_roll_tenor :: nat

record LendAutoRollConfig =
  lrc_limit_price :: nat

datatype AutoRollConfig = BorrowRoll BorrowAutoRollConfig | LendRoll LendAutoRollConfig

record MarginUser =
  mu_version :: nat
  mu_margin_account :: Pubkey
  mu_market :: Pubkey
  mu_claims :: Pubkey
  mu_ticket_collateral :: Pubkey
  mu_underlying_collateral :: Pubkey
  mu_debt :: Debt
  mu_assets :: Assets
  mu_borrow_roll_config :: "BorrowAutoRollConfig option"
  mu_lend_roll_config :: "LendAutoRollConfig option"

definition MARGIN_USER_VERSION :: nat where "MARGIN_USER_VERSION = 0"

definition default_debt :: Debt where
  "default_debt = \<lparr>db_next_new_term_loan_seqno = 0, db_next_unpaid_term_loan_seqno = 0,
     db_next_term_loan_maturity = 0, db_pending = 0, db_committed = 0\<rparr>"

definition margin_user_new ::
  "nat \<Rightarrow> Pubkey \<Rightarrow> Pubkey \<Rightarrow> Pubkey \<Rightarrow> Pubkey \<Rightarrow> Pubkey \<Rightarrow> MarginUser" where
  "margin_user_new version margin_account market claims ticket_coll underlying_coll =
     \<lparr>mu_version = version, mu_margin_account = margin_account, mu_market = market, mu_claims = claims,
      mu_ticket_collateral = ticket_coll, mu_underlying_collateral = underlying_coll,
      mu_debt = default_debt, mu_assets = default_assets, mu_borrow_roll_config = None,
      mu_lend_roll_config = None\<rparr>"

definition derive_address :: "'l Runtime \<Rightarrow> MarginUser \<Rightarrow> Pubkey" where
  "derive_address rt u =
     pda rt [SeedBytes ''margin_user'', SeedKey (mu_market u), SeedKey (mu_margin_account u)]"

text \<open>Updates of the two components.\<close>

definition on_debt :: "(Debt \<Rightarrow> Debt ft_res) \<Rightarrow> MarginUser \<Rightarrow> MarginUser ft_res" where
  "on_debt f u = bindE (f (mu_debt u)) (\<lambda>d. Inr (u\<lparr>mu_debt := d\<rparr>))"

definition on_assets :: "(Assets \<Rightarrow> Assets ft_res) \<Rightarrow> MarginUser \<Rightarrow> MarginUser ft_res" where
  "on_assets f u = bindE (f (mu_assets u)) (\<lambda>a. Inr (u\<lparr>mu_assets := a\<rparr>))"

definition add_tokens_posted :: "nat \<Rightarrow> Assets \<Rightarrow> Assets ft_res" where
  "add_tokens_posted n a = bindE (safe_add (fa_tokens_posted a) n) (\<lambda>p. Inr (a\<lparr>fa_tokens_posted := p\<rparr>))"

definition sub_tokens_posted :: "nat \<Rightarrow> Assets \<Rightarrow> Assets ft_res" where
  "sub_tokens_posted n a = bindE (safe_sub (fa_tokens_posted a) n) (\<lambda>p. Inr (a\<lparr>fa_tokens_posted := p\<rparr>))"

definition add_tickets_posted :: "nat \<Rightarrow> Assets \<Rightarrow> Assets ft_res" where
  "add_tickets_posted n a = bindE (safe_add (fa_tickets_posted a) n) (\<lambda>p. Inr (a\<lparr>fa_tickets_posted := p\<rparr>))"

definition sub_tickets_posted :: "nat \<Rightarrow> Assets \<Rightarrow> Assets ft_res" where
  "sub_tickets_posted n a = bindE (safe_sub (fa_tickets_posted a) n) (\<lambda>p. Inr (a\<lparr>fa_tickets_posted := p\<rparr>))"

definition add_entitled_tickets :: "nat \<Rightarrow> Assets \<Rightarrow> Assets ft_res" where
  "add_entitled_tickets n a =
     bindE (safe_add (fa_entitled_tickets a) n) (\<lambda>e. Inr (a\<lparr>fa_entitled_tickets := e\<rparr>))"

definition add_entitled_tokens :: "nat \<Rightarrow> Assets \<Rightarrow> Assets ft_res" where
  "add_entitled_tokens n a =
     bindE (safe_add (fa_entitled_tokens a) n) (\<lambda>e. Inr (a\<lparr>fa_entitled_tokens := e\<rparr>))"

definition post_borrow_order :: "nat \<Rightarrow> nat \<Rightarrow> MarginUser \<Rightarrow> MarginUser ft_res" where
  "post_borrow_order token_value_posted ticket_value_posted u =
     bindE (on_assets (add_tokens_posted token_value_posted) u)
       (on_debt (debt_post_borrow_order ticket_value_posted))"

definition taker_fill_borrow_order ::
  "nat \<Rightarrow> UnixTimestamp \<Rightarrow> MarginUser \<Rightarrow> (MarginUser \<times> SequenceNumber) ft_res" where
  "taker_fill_borrow_order ticket_value_filled maturity u =
     bindE (new_term_loan_without_posting ticket_value_filled maturity (mu_debt u)) (\<lambda>(d, seqno).
     Inr (u\<lparr>mu_debt := d\<rparr>, seqno))"

definition maker_fill_borrow_order ::
  "bool \<Rightarrow> nat \<Rightarrow> nat \<Rightarrow> nat \<Rightarrow> UnixTimestamp \<Rightarrow> MarginUser \<Rightarrow> (MarginUser \<times> SequenceNumber) ft_res" where
  "maker_fill_borrow_order new_debt tokens_disbursed token_value_filled ticket_value_filled maturity u =
     bindE (on_assets (borrow_order_fill token_value_filled tokens_disbursed) u) (\<lambda>u.
     if new_debt then
       bindE (new_term_loan_from_fill ticket_value_filled maturity (mu_debt u)) (\<lambda>(d, seqno).
       Inr (u\<lparr>mu_debt := d\<rparr>, seqno))
     else Inr (u, 0))"

definition cancel_borrow_order :: "nat \<Rightarrow> nat \<Rightarrow> bool \<Rightarrow> MarginUser \<Rightarrow> MarginUser ft_res" where
  "cancel_borrow_order token_value ticket_value is_debt u =
     bindE (on_assets (sub_tokens_posted token_value) u) (\<lambda>u.
     if is_debt then on_debt (process_out ticket_value) u
     else on_assets (add_entitled_tickets ticket_value) u)"

definition user_lend_order :: "nat \<Rightarrow> nat \<Rightarrow> MarginUser \<Rightarrow> MarginUser ft_res" where
  "user_lend_order tickets_staked tickets_posted u =
     bindE (if tickets_staked > 0
            then on_assets (\<lambda>a. bindE (new_deposit tickets_staked a) (\<lambda>(a, _). Inr a)) u else Inr u)
       (on_assets (add_tickets_posted tickets_posted))"

definition maker_fill_lend_order ::
  "bool \<Rightarrow> nat \<Rightarrow> MarginUser \<Rightarrow> (MarginUser \<times> SequenceNumber) ft_res" where
  "maker_fill_lend_order auto_stake tickets u =
     bindE (on_assets (sub_tickets_posted tickets) u) (\<lambda>u.
     if auto_stake then
       bindE (new_deposit tickets (mu_assets u)) (\<lambda>(a, seqno). Inr (u\<lparr>mu_assets := a\<rparr>, seqno))
     else bindE (on_assets (add_entitled_tickets tickets) u) (\<lambda>u. Inr (u, 0)))"

definition cancel_lend_order :: "nat \<Rightarrow> nat \<Rightarrow> MarginUser \<Rightarrow> MarginUser ft_res" where
  "cancel_lend_order token_value ticket_value u =
     bindE (on_assets (add_entitled_tokens token_value) u) (on_assets (sub_tickets_posted ticket_value))"

definition user_sell_tickets :: "nat \<Rightarrow> MarginUser \<Rightarrow> MarginUser ft_res" where
  "user_sell_tickets value_posted = on_assets (add_tickets_posted value_posted)"

definition user_redeem_deposit :: "SequenceNumber \<Rightarrow> nat \<Rightarrow> MarginUser \<Rightarrow> MarginUser ft_res" where
  "user_redeem_deposit deposit_seqno tickets_redeemed =
     on_assets (assets_redeem_deposit deposit_seqno tickets_redeemed)"

definition partially_repay_loan :: "TermLoan \<Rightarrow> nat \<Rightarrow> MarginUser \<Rightarrow> MarginUser ft_res" where
  "partially_repay_loan loan amount = on_debt (partially_repay_term_loan (tl_sequence_number loan) amount)"

definition user_fully_repay_term_loan ::
  "TermLoan \<Rightarrow> nat \<Rightarrow> TermLoan ft_tx \<Rightarrow> MarginUser \<Rightarrow> MarginUser ft_tx" where
  "user_fully_repay_term_loan loan amount next_loan u =
     bindE (fully_repay_term_loan (tl_sequence_number loan) amount next_loan (mu_debt u)) (\<lambda>d.
     Inr (u\<lparr>mu_debt := d\<rparr>))"

definition settlement_complete :: "MarginUser \<Rightarrow> MarginUser" where
  "settlement_complete u =
     u\<lparr>mu_assets := (mu_assets u)\<lparr>fa_entitled_tickets := 0, fa_entitled_tokens := 0\<rparr>\<rparr>"

definition user_is_past_due :: "MarginUser \<Rightarrow> UnixTimestamp \<Rightarrow> bool ft_res" where
  "user_is_past_due u now = debt_is_past_due (mu_debt u) now"

subsection \<open>Loans\<close>

text \<open>The price of a loan, principal by repayment, and its term.\<close>

definition loan_price :: "TermLoan \<Rightarrow> Fp32 ft_res" where
  "loan_price t =
     bindE (safe_add (tl_principal t) (tl_interest t)) (\<lambda>base.
     bindE (fp32_from (tl_principal t)) (\<lambda>p. fp32_div_int p base))"

definition loan_tenor :: "TermLoan \<Rightarrow> nat ft_res" where
  "loan_tenor t =
     bindE (safe_sub_i64 (tl_maturation_timestamp t) (tl_strike_timestamp t)) (\<lambda>n. Inr (wrap_u 64 n))"

subsection \<open>Deposits\<close>

record TermDepositFlags =
  tdf_auto_roll :: bool
  tdf_margin :: bool

record TermDeposit =
  dep_owner :: Pubkey
  dep_market :: Pubkey
  dep_payer :: Pubkey
  dep_sequence_number :: SequenceNumber
  dep_matures_at :: UnixTimestamp
  dep_amount :: nat
  dep_principal :: nat
  dep_flags :: TermDepositFlags

subsection \<open>The market\<close>

record Market =
  mk_address :: Pubkey
  mk_version_tag :: nat
  mk_airspace :: Pubkey
  mk_orderbook_market_state :: Pubkey
  mk_event_queue :: Pubkey
  mk_asks :: Pubkey
  mk_bids :: Pubkey
  mk_underlying_token_mint :: Pubkey
  mk_underlying_token_vault :: Pubkey
  mk_ticket_mint :: Pubkey
  mk_claims_mint :: Pubkey
  mk_ticket_collateral_mint :: Pubkey
  mk_underlying_collateral_mint :: Pubkey
  mk_underlying_oracle :: Pubkey
  mk_ticket_oracle :: Pubkey
  mk_fee_vault :: Pubkey
  mk_fee_destination :: Pubkey
  mk_seed :: string
  mk_bump :: nat
  mk_orderbook_paused :: bool
  mk_tickets_paused :: bool
  mk_borrow_tenor :: nat
  mk_lend_tenor :: nat
  mk_origination_fee :: nat
  mk_nonce :: nat

definition market_signer :: "Market \<Rightarrow> Seed list" where
  "market_signer m =
     [SeedBytes ''market'', SeedKey (mk_airspace m), SeedKey (mk_underlying_token_mint m), SeedBytes (mk_seed m),
      SeedInt (mk_bump m)]"

definition market_loan_to_disburse :: "Market \<Rightarrow> nat \<Rightarrow> nat ft_res" where
  "market_loan_to_disburse m filled_quote = loan_to_disburse filled_quote (mk_origination_fee m)"

definition market_borrow_order_qty :: "Market \<Rightarrow> nat \<Rightarrow> nat" where
  "market_borrow_order_qty m requested = borrow_order_qty requested (mk_origination_fee m)"

record CrankAuthorization =
  ca_crank :: Pubkey
  ca_airspace :: Pubkey
  ca_market :: Pubkey

end
