(* ===== verification/FixedTermOrders.thy ===== *)
theory FixedTermOrders
  imports FixedTermState
begin

text \<open>
  Orders of the fixed-term markets: the information that travels with an order and comes back with
  its events (\<open>orderbook/state/mod.rs\<close>), the queue of events, a ring buffer in an account
  (\<open>orderbook/state/event_queue.rs\<close>), and the events that the program emits.

  The order book itself is the \<open>agnostic-orderbook\<close> crate, which is not in the repository. It is a
  parameter: an \<open>Engine\<close> on an abstract book \<open>'b\<close>.
\<close>

subsection \<open>Callback information\<close>

datatype Side = Bid | Ask

fun opposite :: "Side \<Rightarrow> Side" where
  "opposite Bid = Ask"
| "opposite Ask = Bid"

datatype MarketSide = MarketBorrow | MarketLend

fun market_side :: "Side \<Rightarrow> MarketSide" where
  "market_side Bid = MarketLend"
| "market_side Ask = MarketBorrow"

fun side_of_market :: "MarketSide \<Rightarrow> Side" where
  "side_of_market MarketLend = Bid"
| "side_of_market MarketBorrow = Ask"

record CallbackFlags =
  cbf_auto_stake :: bool
  cbf_new_debt :: bool
  cbf_margin :: bool
  cbf_auto_roll :: bool

definition no_callback_flags :: CallbackFlags where
  "no_callback_flags = \<lparr>cbf_auto_stake = False, cbf_new_debt = False, cbf_margin = False, cbf_auto_roll = False\<rparr>"

definition deposit_flags :: "CallbackFlags \<Rightarrow> TermDepositFlags" where
  "deposit_flags f = \<lparr>tdf_auto_roll = cbf_auto_roll f, tdf_margin = cbf_margin f\<rparr>"

record CallbackInfo =
  cb_order_tag :: nat
  cb_signer_or_margin_account :: Pubkey
  cb_ticket_account :: Pubkey
  cb_token_or_margin_user_account :: Pubkey
  cb_adapter_account_key :: Pubkey
  cb_order_submitted :: UnixTimestamp
  cb_flags :: CallbackFlags

record MarginCallbackInfo =
  mi_order_tag :: nat
  mi_margin_account :: Pubkey
  mi_margin_user :: Pubkey
  mi_adapter_account_key :: Pubkey
  mi_order_submitted :: UnixTimestamp
  mi_flags :: CallbackFlags

record SignerCallbackInfo =
  si_order_tag :: nat
  si_signer :: Pubkey
  si_ticket_account :: Pubkey
  si_token_account :: Pubkey
  si_adapter_account_key :: Pubkey
  si_order_submitted :: UnixTimestamp
  si_flags :: CallbackFlags

datatype UserCallbackInfo = MarginInfo MarginCallbackInfo | SignerInfo SignerCallbackInfo

fun callback_info :: "UserCallbackInfo \<Rightarrow> CallbackInfo" where
  "callback_info (MarginInfo i) =
     \<lparr>cb_order_tag = mi_order_tag i, cb_signer_or_margin_account = mi_margin_account i,
      cb_ticket_account = mi_margin_user i, cb_token_or_margin_user_account = mi_margin_user i,
      cb_adapter_account_key = mi_adapter_account_key i, cb_order_submitted = mi_order_submitted i,
      cb_flags = mi_flags i\<rparr>"
| "callback_info (SignerInfo i) =
     \<lparr>cb_order_tag = si_order_tag i, cb_signer_or_margin_account = si_signer i,
      cb_ticket_account = si_ticket_account i, cb_token_or_margin_user_account = si_token_account i,
      cb_adapter_account_key = si_adapter_account_key i, cb_order_submitted = si_order_submitted i,
      cb_flags = si_flags i\<rparr>"

definition margin_callback_info :: "CallbackInfo \<Rightarrow> MarginCallbackInfo" where
  "margin_callback_info c =
     \<lparr>mi_order_tag = cb_order_tag c, mi_margin_account = cb_signer_or_margin_account c,
      mi_margin_user = cb_token_or_margin_user_account c, mi_adapter_account_key = cb_adapter_account_key c,
      mi_order_submitted = cb_order_submitted c, mi_flags = cb_flags c\<rparr>"

definition signer_callback_info :: "CallbackInfo \<Rightarrow> SignerCallbackInfo" where
  "signer_callback_info c =
     \<lparr>si_order_tag = cb_order_tag c, si_signer = cb_signer_or_margin_account c,
      si_ticket_account = cb_ticket_account c, si_token_account = cb_token_or_margin_user_account c,
      si_adapter_account_key = cb_adapter_account_key c, si_order_submitted = cb_order_submitted c,
      si_flags = cb_flags c\<rparr>"

definition user_callback_info :: "CallbackInfo \<Rightarrow> UserCallbackInfo" where
  "user_callback_info c =
     (if cbf_margin (cb_flags c) then MarginInfo (margin_callback_info c)
      else SignerInfo (signer_callback_info c))"

fun unwrap_margin :: "UserCallbackInfo \<Rightarrow> MarginCallbackInfo ft_res" where
  "unwrap_margin (MarginInfo i) = Inr i"
| "unwrap_margin (SignerInfo _) = panic"

fun unwrap_signer :: "UserCallbackInfo \<Rightarrow> SignerCallbackInfo ft_res" where
  "unwrap_signer (SignerInfo i) = Inr i"
| "unwrap_signer (MarginInfo _) = panic"

fun info_adapter :: "UserCallbackInfo \<Rightarrow> Pubkey" where
  "info_adapter (MarginInfo i) = mi_adapter_account_key i"
| "info_adapter (SignerInfo i) = si_adapter_account_key i"

fun info_flags :: "UserCallbackInfo \<Rightarrow> CallbackFlags" where
  "info_flags (MarginInfo i) = mi_flags i"
| "info_flags (SignerInfo i) = si_flags i"

text \<open>The authority, the tag and the time of an order, as the handlers report them.\<close>

fun order_source :: "UserCallbackInfo \<Rightarrow> Pubkey \<times> nat \<times> UnixTimestamp" where
  "order_source (MarginInfo i) = (mi_margin_account i, mi_order_tag i, mi_order_submitted i)"
| "order_source (SignerInfo i) = (si_signer i, si_order_tag i, si_order_submitted i)"

lemma callback_roundtrip:
  "user_callback_info (callback_info i) = i \<longleftrightarrow> (cbf_margin (info_flags i) \<longleftrightarrow> (\<exists>m. i = MarginInfo m))"
  by (cases i) (auto simp: user_callback_info_def margin_callback_info_def signer_callback_info_def)

subsection \<open>Orders\<close>

record OrderParams =
  op_max_ticket_qty :: nat
  op_max_underlying_token_qty :: nat
  op_limit_price :: nat
  op_match_limit :: nat
  op_post_only :: bool
  op_post_allowed :: bool
  op_auto_stake :: bool
  op_auto_roll :: bool

text \<open>The parameters of the engine; the self trade behaviour is always to abort the transaction.\<close>

record NewOrderParams =
  no_max_base_qty :: nat
  no_max_quote_qty :: nat
  no_limit_price :: nat
  no_side :: Side
  no_match_limit :: nat
  no_callback_info :: CallbackInfo
  no_post_only :: bool
  no_post_allowed :: bool

definition as_new_order_params :: "Side \<Rightarrow> CallbackInfo \<Rightarrow> OrderParams \<Rightarrow> NewOrderParams" where
  "as_new_order_params side info p =
     \<lparr>no_max_base_qty = op_max_ticket_qty p, no_max_quote_qty = op_max_underlying_token_qty p,
      no_limit_price = op_limit_price p, no_side = side, no_match_limit = op_match_limit p,
      no_callback_info = info, no_post_only = op_post_only p, no_post_allowed = op_post_allowed p\<rparr>"

definition add_origination_fee :: "Market \<Rightarrow> OrderParams \<Rightarrow> OrderParams" where
  "add_origination_fee m p =
     p\<lparr>op_max_ticket_qty := market_borrow_order_qty m (op_max_ticket_qty p),
       op_max_underlying_token_qty := market_borrow_order_qty m (op_max_underlying_token_qty p)\<rparr>"

record OrderSummary =
  os_posted_order_id :: "nat option"
  os_total_base_qty :: nat
  os_total_quote_qty :: nat
  os_total_base_qty_posted :: nat

record SensibleOrderSummary =
  sm_limit_price :: nat
  sm_summary :: OrderSummary

definition base_posted :: "SensibleOrderSummary \<Rightarrow> nat" where
  "base_posted s = os_total_base_qty_posted (sm_summary s)"

definition quote_posted :: "QuoteRounding \<Rightarrow> SensibleOrderSummary \<Rightarrow> nat ft_res" where
  "quote_posted r s = quote_from_base (base_posted s) (sm_limit_price s) r"

definition quote_filled :: "QuoteRounding \<Rightarrow> SensibleOrderSummary \<Rightarrow> nat ft_res" where
  "quote_filled r s =
     bindE (quote_posted r s) (\<lambda>q. plain_sub 64 (os_total_quote_qty (sm_summary s)) q)"

definition base_filled :: "SensibleOrderSummary \<Rightarrow> nat ft_res" where
  "base_filled s = plain_sub 64 (os_total_base_qty (sm_summary s)) (os_total_base_qty_posted (sm_summary s))"

definition quote_combined :: "SensibleOrderSummary \<Rightarrow> nat" where
  "quote_combined s = os_total_quote_qty (sm_summary s)"

definition base_combined :: "SensibleOrderSummary \<Rightarrow> nat" where
  "base_combined s = os_total_base_qty (sm_summary s)"

subsection \<open>Order book events\<close>

record FillEvent =
  fe_taker_side :: Side
  fe_base_size :: nat
  fe_trade_price :: nat

record OutEvent =
  oe_side :: Side
  oe_base_size :: nat
  oe_order_id :: nat

definition fill_quote_size :: "FillEvent \<Rightarrow> nat ft_res" where
  "fill_quote_size e =
     (let maker_side = market_side (opposite (fe_taker_side e));
          rounding = (case maker_side of MarketBorrow \<Rightarrow> FillBorrow | MarketLend \<Rightarrow> FillLend) in
      quote_from_base (fe_base_size e) (fe_trade_price e) (rounding_direction rounding))"

definition out_quote_size :: "OutEvent \<Rightarrow> nat ft_res" where
  "out_quote_size e =
     (let side = market_side (opposite (oe_side e));
          rounding = (case side of MarketBorrow \<Rightarrow> CancelBorrow | MarketLend \<Rightarrow> CancelLend);
          price = drop_bit 64 (oe_order_id e) mod 2 ^ 64 in
      quote_from_base (oe_base_size e) price (rounding_direction rounding))"

text \<open>An entry of the queue; the constructor is the event's tag.\<close>

datatype GenericEvent = FillEntry FillEvent | OutEntry OutEvent

datatype OrderbookEvent =
    FillInfo FillEvent UserCallbackInfo UserCallbackInfo
  | OutInfo OutEvent UserCallbackInfo

text \<open>
  The account of a queue: the program that owns it, the header, the slots for events and two slots
  for callback information per event.
\<close>

record EventQueue =
  eq_owned_by_program :: bool
  eq_head :: nat
  eq_count :: nat
  eq_capacity :: nat
  eq_events :: "GenericEvent list"
  eq_callbacks :: "CallbackInfo list"

definition deserialize_market :: "EventQueue \<Rightarrow> EventQueue ft_res" where
  "deserialize_market q = bindE (guardE (eq_owned_by_program q) WrongEventQueue) (\<lambda>_. Inr q)"

definition deserialize_user_adapter :: "EventQueue \<Rightarrow> EventQueue ft_res" where
  "deserialize_user_adapter q =
     bindE (guardE (\<not> eq_owned_by_program q) UserDoesNotOwnAdapter) (\<lambda>_. Inr q)"

definition plain_rem :: "nat \<Rightarrow> nat \<Rightarrow> nat ft_res" where
  "plain_rem a b = (if b = 0 then panic else Inr (a mod b))"

definition store_at :: "'a list \<Rightarrow> nat \<Rightarrow> 'a \<Rightarrow> 'a list ft_res" where
  "store_at xs i x = bindE (assertE (i < length xs)) (\<lambda>_. Inr (xs[i := x]))"

definition load_at :: "'a list \<Rightarrow> nat \<Rightarrow> 'a ft_res" where
  "load_at xs i = bindE (assertE (i < length xs)) (\<lambda>_. Inr (xs ! i))"

definition store_callback :: "nat \<Rightarrow> CallbackInfo option \<Rightarrow> CallbackInfo list \<Rightarrow> CallbackInfo list ft_res" where
  "store_callback i c xs = (case c of None \<Rightarrow> Inr xs | Some x \<Rightarrow> store_at xs i x)"

definition push_event ::
  "GenericEvent \<Rightarrow> CallbackInfo option \<Rightarrow> CallbackInfo option \<Rightarrow> EventQueue \<Rightarrow> EventQueue ft_res" where
  "push_event e maker taker q =
     bindE (plain_add 64 (eq_head q) (eq_count q)) (\<lambda>n.
     bindE (plain_rem n (eq_capacity q)) (\<lambda>i.
     bindE (store_at (eq_events q) i e) (\<lambda>events.
     bindE (plain_add 64 (eq_count q) 1) (\<lambda>count.
     bindE (store_callback (i * 2) maker (eq_callbacks q)) (\<lambda>callbacks.
     bindE (store_callback (i * 2 + 1) taker callbacks) (\<lambda>callbacks.
     Inr (q\<lparr>eq_events := events, eq_count := count, eq_callbacks := callbacks\<rparr>)))))))"

definition pop_events :: "nat \<Rightarrow> EventQueue \<Rightarrow> EventQueue ft_res" where
  "pop_events num_events q =
     (let capped = min (eq_count q) num_events in
      bindE (plain_sub 64 (eq_count q) capped) (\<lambda>count.
      bindE (plain_add 64 (eq_head q) capped) (\<lambda>n.
      bindE (plain_rem n (eq_capacity q)) (\<lambda>head.
      Inr (q\<lparr>eq_count := count, eq_head := head\<rparr>)))))"

definition get_event :: "nat \<Rightarrow> EventQueue \<Rightarrow> OrderbookEvent ft_res" where
  "get_event i q =
     bindE (load_at (eq_events q) i) (\<lambda>e.
     bindE (load_at (eq_callbacks q) (2 * i)) (\<lambda>maker.
     case e of
       FillEntry f \<Rightarrow>
         bindE (load_at (eq_callbacks q) (2 * i + 1)) (\<lambda>taker.
         Inr (FillInfo f (user_callback_info maker) (user_callback_info taker)))
     | OutEntry e \<Rightarrow> Inr (OutInfo e (user_callback_info maker))))"

text \<open>The first \<open>n\<close> items of the iterator over the queue, which starts at \<open>index\<close>.\<close>

fun queue_items :: "nat \<Rightarrow> nat \<Rightarrow> EventQueue \<Rightarrow> OrderbookEvent list ft_res" where
  "queue_items 0 index q = Inr []"
| "queue_items (Suc n) index q =
     (if index < eq_count q then
        bindE (plain_add 64 (eq_head q) index) (\<lambda>k.
        bindE (plain_rem k (eq_capacity q)) (\<lambda>i.
        bindE (get_event i q) (\<lambda>e.
        bindE (queue_items n (index + 1) q) (\<lambda>es. Inr (e # es)))))
      else Inr [])"

subsection \<open>The order book\<close>

text \<open>
  What the program uses of the order book crate: placing and cancelling an order, the callback
  information of a posted order, the account of the event queue, consuming and appending events,
  pausing. \<open>en_tag\<close> is the first half of the SHA-256 hash of a market, a user and a nonce.
\<close>

record 'b Engine =
  en_new_order :: "NewOrderParams \<Rightarrow> 'b \<Rightarrow> (OrderSummary \<times> 'b) option"
  en_side_of :: "nat \<Rightarrow> Side"
  en_find :: "Side \<Rightarrow> nat \<Rightarrow> 'b \<Rightarrow> CallbackInfo option"
  en_cancel :: "nat \<Rightarrow> 'b \<Rightarrow> (OrderSummary \<times> 'b) option"
  en_push_out :: "OutEvent \<Rightarrow> CallbackInfo \<Rightarrow> 'b \<Rightarrow> 'b option"
  en_queue :: "'b \<Rightarrow> EventQueue"
  en_consume :: "nat \<Rightarrow> 'b \<Rightarrow> 'b option"
  en_create :: "nat \<Rightarrow> nat \<Rightarrow> 'b option"
  en_pause :: "'b \<Rightarrow> 'b option"
  en_resume :: "'b \<Rightarrow> 'b option"
  en_matching_paused :: "'b \<Rightarrow> bool"
  en_tag :: "Pubkey \<Rightarrow> Pubkey \<Rightarrow> nat \<Rightarrow> nat"

definition generate_from_market :: "'b Engine \<Rightarrow> Market \<Rightarrow> Pubkey \<Rightarrow> Market \<times> nat" where
  "generate_from_market en m user =
     (m\<lparr>mk_nonce := wrap_u 64 (int (mk_nonce m) + 1)\<rparr>, en_tag en (mk_address m) user (mk_nonce m))"

subsection \<open>Emitted events\<close>

datatype OrderType = MarginBorrowOrder | MarginLendOrder | MarginSellTicketsOrder | LendOrderType | SellTicketsType

datatype FtEvent =
    MarginUserInitialized Pubkey Pubkey Pubkey
  | OrderPlaced Pubkey Pubkey "Pubkey option" nat OrderType OrderSummary nat bool bool bool bool
  | TermLoanCreated Pubkey Pubkey Pubkey nat nat Pubkey int nat nat TermLoanFlags nat
  | TermLoanRepay Pubkey Pubkey nat nat bool
  | TermLoanFulfilled Pubkey Pubkey Pubkey nat int bool
  | TermDepositCreated Pubkey Pubkey Pubkey "nat option" nat Pubkey int nat nat TermDepositFlags
  | DebtUpdated Pubkey nat "SequenceNumber option" nat bool
  | AssetsUpdated Pubkey nat nat nat nat
  | BorrowRollConfigUpdated BorrowAutoRollConfig
  | LendRollConfigUpdated LendAutoRollConfig
  | TermDepositFlagsToggled Pubkey Pubkey TermDepositFlags
  | TermLoanFlagsToggled Pubkey Pubkey Pubkey TermLoanFlags
  | OrderCancelled Pubkey Pubkey nat
  | EventAdapterRegistered Pubkey Pubkey Pubkey
  | OrderFilled Pubkey Pubkey Pubkey nat nat OrderType nat nat nat int int
  | OrderRemoved Pubkey Pubkey nat nat nat
  | TokensExchanged Pubkey Pubkey nat
  | DepositRedeemed Pubkey Pubkey nat int bool
  | TicketsStaked Pubkey Pubkey nat
  | DepositTransferred Pubkey Pubkey Pubkey
  | MarketInitialized nat Pubkey Pubkey Pubkey Pubkey Pubkey nat nat
  | OrderbookInitialized Pubkey Pubkey Pubkey Pubkey Pubkey nat nat
  | PositionRefreshed Pubkey
  | ToggleOrderMatching Pubkey bool
  | FeesWithdrawn Pubkey Pubkey nat

definition debt_updated :: "'l Runtime \<Rightarrow> MarginUser \<Rightarrow> FtEvent ft_res" where
  "debt_updated rt u =
     bindE (debt_total (mu_debt u)) (\<lambda>total.
     bindE (outstanding_term_loans (mu_debt u)) (\<lambda>n.
     bindE (user_is_past_due u (rt_clock rt)) (\<lambda>due.
     Inr (DebtUpdated (derive_address rt u) total (next_term_loan_to_repay (mu_debt u)) n due))))"

definition assets_updated :: "'l Runtime \<Rightarrow> MarginUser \<Rightarrow> FtEvent ft_res" where
  "assets_updated rt u =
     bindE (ticket_collateral (mu_assets u)) (\<lambda>c.
     Inr (AssetsUpdated (derive_address rt u) (fa_entitled_tokens (mu_assets u))
            (fa_entitled_tickets (mu_assets u)) c (underlying_collateral (mu_assets u))))"

end
