(* ===== verification/FixedTermMargin.thy ===== *)
theory FixedTermMargin
  imports FixedTermOrders MarginHandlers PoolHandlers
begin

text \<open>
  The instructions by which users act on a fixed-term market: orders (\<open>orderbook/state\<close>,
  \<open>orderbook/instructions\<close>), loans, settlement and rolling (\<open>margin\<close>), tickets and deposits
  (\<open>tickets\<close>).

  The state of an instruction is the market, the order book, the ledger of the token program and the
  events so far, and for a user of the margin program also the user's account. Accounts that an
  instruction creates or closes are arguments and results of its handler. \<open>height\<close> and \<open>a\<close> are the
  stack height and the margin account, to which \<open>return_to_margin\<close> reports.
\<close>

record ('b, 'l) MarketState =
  ms_market :: Market
  ms_book :: 'b
  ms_ledger :: 'l
  ms_events :: "FtEvent list"

record ('b, 'l) UserState = "('b, 'l) MarketState" +
  us_user :: MarginUser

definition emit_event :: "FtEvent \<Rightarrow> ('b, 'l, 'z) MarketState_scheme \<Rightarrow> ('b, 'l, 'z) MarketState_scheme" where
  "emit_event e s = s\<lparr>ms_events := ms_events s @ [e]\<rparr>"

definition on_user :: "(MarginUser \<Rightarrow> MarginUser ft_res) \<Rightarrow> ('b, 'l) UserState \<Rightarrow> ('b, 'l) UserState ft_tx" where
  "on_user f s = bindE (lift_tx (f (us_user s))) (\<lambda>u. Inr (s\<lparr>us_user := u\<rparr>))"

definition emit_debt_balances :: "'l Runtime \<Rightarrow> ('b, 'l) UserState \<Rightarrow> ('b, 'l) UserState ft_tx" where
  "emit_debt_balances rt s = bindE (lift_tx (debt_updated rt (us_user s))) (\<lambda>e. Inr (emit_event e s))"

definition emit_asset_balances :: "'l Runtime \<Rightarrow> ('b, 'l) UserState \<Rightarrow> ('b, 'l) UserState ft_tx" where
  "emit_asset_balances rt s = bindE (lift_tx (assets_updated rt (us_user s))) (\<lambda>e. Inr (emit_event e s))"

definition emit_all_balances :: "'l Runtime \<Rightarrow> ('b, 'l) UserState \<Rightarrow> ('b, 'l) UserState ft_tx" where
  "emit_all_balances rt s = bindE (emit_asset_balances rt s) (emit_debt_balances rt)"

definition return_to_margin :: "nat \<Rightarrow> MarginAccount \<Rightarrow> AdapterResult \<Rightarrow> AdapterResult ft_tx" where
  "return_to_margin height a result = lift_err (\<lambda>_. AdapterErr) (write_adapter_result height a result)"

subsection \<open>Tokens of the market\<close>

definition market_cpi ::
  "'l Runtime \<Rightarrow> TokenIx \<Rightarrow> ('b, 'l, 'z) MarketState_scheme \<Rightarrow> ('b, 'l, 'z) MarketState_scheme ft_tx" where
  "market_cpi rt ix s =
     bindE (token_cpi_signed rt (market_signer (ms_market s)) ix (ms_ledger s)) (\<lambda>l. Inr (s\<lparr>ms_ledger := l\<rparr>))"

definition user_cpi ::
  "'l Runtime \<Rightarrow> TokenIx \<Rightarrow> ('b, 'l, 'z) MarketState_scheme \<Rightarrow> ('b, 'l, 'z) MarketState_scheme ft_tx" where
  "user_cpi rt ix s = bindE (token_cpi rt ix (ms_ledger s)) (\<lambda>l. Inr (s\<lparr>ms_ledger := l\<rparr>))"

definition market_mint ::
  "'l Runtime \<Rightarrow> Pubkey \<Rightarrow> Pubkey \<Rightarrow> nat \<Rightarrow> ('b, 'l, 'z) MarketState_scheme \<Rightarrow>
     ('b, 'l, 'z) MarketState_scheme ft_tx" where
  "market_mint rt mint to amount s = market_cpi rt (TokenMintTo mint to (mk_address (ms_market s)) amount) s"

definition market_withdraw ::
  "'l Runtime \<Rightarrow> Pubkey \<Rightarrow> Pubkey \<Rightarrow> nat \<Rightarrow> ('b, 'l, 'z) MarketState_scheme \<Rightarrow>
     ('b, 'l, 'z) MarketState_scheme ft_tx" where
  "market_withdraw rt from to amount s = market_cpi rt (TokenTransfer from to (mk_address (ms_market s)) amount) s"

definition market_burn ::
  "'l Runtime \<Rightarrow> Pubkey \<Rightarrow> Pubkey \<Rightarrow> nat \<Rightarrow> ('b, 'l, 'z) MarketState_scheme \<Rightarrow>
     ('b, 'l, 'z) MarketState_scheme ft_tx" where
  "market_burn rt mint from amount s = market_cpi rt (TokenBurn mint from (mk_address (ms_market s)) amount) s"

subsection \<open>Placing orders\<close>

record OrderbookKeys =
  obk_orderbook_market_state :: Pubkey
  obk_event_queue :: Pubkey
  obk_bids :: Pubkey
  obk_asks :: Pubkey
  obk_state_owned_by_program :: bool

definition check_orderbook :: "OrderbookKeys \<Rightarrow> Market \<Rightarrow> bool" where
  "check_orderbook k m \<longleftrightarrow> mk_orderbook_market_state m = obk_orderbook_market_state k \<and> mk_bids m = obk_bids k \<and>
     mk_asks m = obk_asks k \<and> mk_event_queue m = obk_event_queue k \<and> \<not> mk_orderbook_paused m \<and>
     obk_state_owned_by_program k"

text \<open>An account passed as event adapter, loaded as \<open>AdapterLoader\<close> in \<open>serialization.rs\<close> does.\<close>

record AdapterAccount =
  ad_key :: Pubkey
  ad_discriminator_ok :: bool
  ad_is_writable :: bool
  ad_queue :: EventQueue

definition load_adapter :: "AdapterAccount \<Rightarrow> EventQueue ft_tx" where
  "load_adapter a =
     bindE (constraint (eq_owned_by_program (ad_queue a))) (\<lambda>_.
     bindE (constraint (ad_discriminator_ok a \<and> ad_is_writable a)) (\<lambda>_.
     lift_tx (deserialize_user_adapter (ad_queue a))))"

definition maybe_next_adapter :: "AdapterAccount option \<Rightarrow> Pubkey option ft_tx" where
  "maybe_next_adapter remaining =
     (case remaining of
        None \<Rightarrow> Inr None
      | Some a \<Rightarrow> bindE (load_adapter a) (\<lambda>_. Inr (Some (ad_key a))))"

definition adapter_key :: "Pubkey option \<Rightarrow> Pubkey" where
  "adapter_key adapter = (case adapter of Some k \<Rightarrow> k | None \<Rightarrow> pubkey_default)"

definition place_order ::
  "'b Engine \<Rightarrow> Side \<Rightarrow> OrderParams \<Rightarrow> UserCallbackInfo \<Rightarrow> ('b, 'l, 'z) MarketState_scheme \<Rightarrow>
     (SensibleOrderSummary \<times> ('b, 'l, 'z) MarketState_scheme) ft_tx" where
  "place_order en side p info s =
     bindE (guardE (op_limit_price p \<le> FP32_ONE) (ProgramErr PriceOutOfBounds)) (\<lambda>_.
     bindE (ok_or (en_new_order en (as_new_order_params side (callback_info info) p) (ms_book s)) AdapterErr)
       (\<lambda>(summary, b).
     bindE (guardE (os_posted_order_id summary \<noteq> None \<or> os_total_base_qty summary > 0) (ProgramErr OrderRejected)) (\<lambda>_.
     Inr (\<lparr>sm_limit_price = op_limit_price p, sm_summary = summary\<rparr>, s\<lparr>ms_book := b\<rparr>))))"

definition place_margin_order ::
  "'l Runtime \<Rightarrow> 'b Engine \<Rightarrow> Side \<Rightarrow> OrderParams \<Rightarrow> Pubkey \<Rightarrow> Pubkey \<Rightarrow> Pubkey option \<Rightarrow> CallbackFlags \<Rightarrow>
     ('b, 'l, 'z) MarketState_scheme \<Rightarrow>
     (MarginCallbackInfo \<times> SensibleOrderSummary \<times> ('b, 'l, 'z) MarketState_scheme) ft_tx" where
  "place_margin_order rt en side p margin_account margin_user adapter flags s =
     (let (m, tag) = generate_from_market en (ms_market s) margin_account;
          info = \<lparr>mi_order_tag = tag, mi_margin_account = margin_account, mi_margin_user = margin_user,
            mi_adapter_account_key = adapter_key adapter, mi_order_submitted = rt_clock rt, mi_flags = flags\<rparr> in
      bindE (place_order en side p (MarginInfo info) (s\<lparr>ms_market := m\<rparr>)) (\<lambda>(summary, s).
      Inr (info, summary, s)))"

definition place_signer_order ::
  "'l Runtime \<Rightarrow> 'b Engine \<Rightarrow> Side \<Rightarrow> OrderParams \<Rightarrow> Pubkey \<Rightarrow> Pubkey \<Rightarrow> Pubkey \<Rightarrow> Pubkey option \<Rightarrow> CallbackFlags \<Rightarrow>
     ('b, 'l, 'z) MarketState_scheme \<Rightarrow>
     (SignerCallbackInfo \<times> SensibleOrderSummary \<times> ('b, 'l, 'z) MarketState_scheme) ft_tx" where
  "place_signer_order rt en side p signer ticket_account token_account adapter flags s =
     (let (m, tag) = generate_from_market en (ms_market s) signer;
          info = \<lparr>si_order_tag = tag, si_signer = signer, si_ticket_account = ticket_account,
            si_token_account = token_account, si_adapter_account_key = adapter_key adapter,
            si_order_submitted = rt_clock rt, si_flags = flags\<rparr> in
      bindE (place_order en side p (SignerInfo info) (s\<lparr>ms_market := m\<rparr>)) (\<lambda>(summary, s).
      Inr (info, summary, s)))"

definition order_placed ::
  "Pubkey \<Rightarrow> Pubkey option \<Rightarrow> nat \<Rightarrow> OrderType \<Rightarrow> SensibleOrderSummary \<Rightarrow> OrderParams \<Rightarrow> Market \<Rightarrow> FtEvent" where
  "order_placed authority user tag order_type summary p m =
     OrderPlaced (mk_address m) authority user tag order_type (sm_summary summary) (op_limit_price p)
       (op_auto_stake p) (op_post_only p) (op_post_allowed p) (op_auto_roll p)"

text \<open>The owner of an order cancels it. An event for the rest of the order goes to the queue.\<close>

definition cancel_order_handler ::
  "'l Runtime \<Rightarrow> 'b Engine \<Rightarrow> OrderbookKeys \<Rightarrow> Pubkey \<Rightarrow> nat \<Rightarrow> ('b, 'l) MarketState \<Rightarrow> ('b, 'l) MarketState ft_tx" where
  "cancel_order_handler rt en k owner order_id s =
     bindE (require_signer rt owner) (\<lambda>_.
     bindE (constraint (check_orderbook k (ms_market s))) (\<lambda>_.
     let side = en_side_of en order_id in
     bindE (ok_or (en_find en side order_id (ms_book s)) (ProgramErr OrderNotFound)) (\<lambda>c.
     let info = user_callback_info c; (info_owner, tag, _) = order_source info in
     bindE (guardE (info_owner = owner) (ProgramErr WrongUserAccount)) (\<lambda>_.
     bindE (ok_or (en_cancel en order_id (ms_book s)) AdapterErr) (\<lambda>(summary, b).
     bindE (ok_or (en_push_out en \<lparr>oe_side = side, oe_base_size = os_total_base_qty summary, oe_order_id = order_id\<rparr>
              (callback_info info) b) (ProgramErr FailedToPushEvent)) (\<lambda>b.
     Inr (emit_event (OrderCancelled (mk_address (ms_market s)) owner tag) (s\<lparr>ms_book := b\<rparr>))))))))"

subsection \<open>Borrowing\<close>

record BorrowKeys =
  bk_margin_account :: Pubkey
  bk_margin_user :: Pubkey
  bk_term_loan :: Pubkey
  bk_claims :: Pubkey
  bk_claims_mint :: Pubkey
  bk_underlying_collateral :: Pubkey
  bk_underlying_collateral_mint :: Pubkey
  bk_underlying_token_vault :: Pubkey
  bk_fee_vault :: Pubkey
  bk_underlying_settlement :: Pubkey
  bk_payer :: Pubkey

definition borrow_callback_flags :: "OrderParams \<Rightarrow> MarginUser \<Rightarrow> CallbackFlags ft_res" where
  "borrow_callback_flags p u =
     (if op_auto_roll p \<and> mu_borrow_roll_config u = None then err InvalidAutoRollConfig
      else Inr \<lparr>cbf_auto_stake = False, cbf_new_debt = True, cbf_margin = True, cbf_auto_roll = op_auto_roll p\<rparr>)"

definition borrow_handle_posted ::
  "'l Runtime \<Rightarrow> BorrowKeys \<Rightarrow> SensibleOrderSummary \<Rightarrow> ('b, 'l) UserState \<Rightarrow> ('b, 'l) UserState ft_tx" where
  "borrow_handle_posted rt k summary s =
     bindE (lift_tx (quote_posted (rounding_direction PostBorrow) summary)) (\<lambda>posted_token_value.
     bindE (on_user (post_borrow_order posted_token_value (base_posted summary)) s)
       (market_mint rt (bk_underlying_collateral_mint k) (bk_underlying_collateral k) posted_token_value))"

definition term_loan_seeds :: "Pubkey \<Rightarrow> Pubkey \<Rightarrow> SequenceNumber \<Rightarrow> Seed list" where
  "term_loan_seeds market margin_user seqno =
     [SeedBytes ''term_loan'', SeedKey market, SeedKey margin_user, SeedInt seqno]"

text \<open>The account \<open>existing\<close> at the address of the new loan must not exist yet.\<close>

definition borrow_handle_filled ::
  "'l Runtime \<Rightarrow> BorrowKeys \<Rightarrow> TermLoan option \<Rightarrow> SensibleOrderSummary \<Rightarrow> MarginCallbackInfo \<Rightarrow> ('b, 'l) UserState \<Rightarrow>
     (nat \<times> TermLoan \<times> ('b, 'l) UserState) ft_tx" where
  "borrow_handle_filled rt k existing summary info s =
     bindE (lift_tx (base_filled summary)) (\<lambda>tickets.
     bindE (lift_tx (quote_filled (rounding_direction FillBorrow) summary)) (\<lambda>tokens.
     bindE (lift_tx (plain_i 64 (wrap_i 64 (int (mk_borrow_tenor (ms_market s))) + rt_clock rt))) (\<lambda>maturity.
     bindE (lift_tx (taker_fill_borrow_order tickets maturity (us_user s))) (\<lambda>(u, seqno).
     let s = s\<lparr>us_user := u\<rparr> in
     bindE (lift_tx (market_loan_to_disburse (ms_market s) tokens)) (\<lambda>disburse.
     bindE (lift_tx (safe_sub tokens disburse)) (\<lambda>fees.
     bindE (constraint (existing = None \<and>
              bk_term_loan k = pda rt (term_loan_seeds (mk_address (ms_market s)) (bk_margin_user k) seqno))) (\<lambda>_.
     bindE (lift_tx (safe_sub tickets tokens)) (\<lambda>interest.
     let flags = no_loan_flags\<lparr>tlf_auto_roll := cbf_auto_roll (mi_flags info)\<rparr>;
         loan = \<lparr>tl_sequence_number = seqno, tl_margin_user = bk_margin_user k, tl_market = mk_address (ms_market s),
           tl_payer = bk_payer k, tl_order_tag = mi_order_tag info, tl_maturation_timestamp = maturity,
           tl_strike_timestamp = rt_clock rt, tl_principal = tokens, tl_interest = interest, tl_balance = tickets,
           tl_flags = flags\<rparr>;
         s = emit_event (TermLoanCreated (bk_term_loan k) (bk_margin_account k) (bk_payer k) (mi_order_tag info) seqno
               (mk_address (ms_market s)) maturity tokens tickets flags fees) s in
     bindE (market_withdraw rt (bk_underlying_token_vault k) (bk_underlying_settlement k) disburse s) (\<lambda>s.
     bindE (market_withdraw rt (bk_underlying_token_vault k) (bk_fee_vault k) fees s) (\<lambda>s.
     Inr (disburse, loan, s)))))))))))"

definition borrow_order ::
  "'l Runtime \<Rightarrow> 'b Engine \<Rightarrow> nat \<Rightarrow> BorrowKeys \<Rightarrow> OrderParams \<Rightarrow> Pubkey option \<Rightarrow> TermLoan option \<Rightarrow> MarginAccount \<Rightarrow>
     ('b, 'l) UserState \<Rightarrow> (nat \<times> TermLoan option \<times> AdapterResult \<times> ('b, 'l) UserState) ft_tx" where
  "borrow_order rt en height k p adapter existing a s =
     (let p = add_origination_fee (ms_market s) p in
      bindE (lift_tx (borrow_callback_flags p (us_user s))) (\<lambda>flags.
      bindE (place_margin_order rt en Ask p (bk_margin_account k) (bk_margin_user k) adapter flags s)
        (\<lambda>(info, summary, s).
      bindE (borrow_handle_posted rt k summary s) (\<lambda>s.
      bindE (lift_tx (base_filled summary)) (\<lambda>filled.
      bindE (if filled > 0 then
               bindE (borrow_handle_filled rt k existing summary info s) (\<lambda>(d, loan, s). Inr (d, Some loan, s))
             else Inr (0, None, s)) (\<lambda>(disbursed, loan, s).
      bindE (market_mint rt (bk_claims_mint k) (bk_claims k) (base_combined summary) s) (\<lambda>s.
      let s = emit_event (order_placed (bk_margin_account k) (Some (bk_margin_user k)) (mi_order_tag info)
                MarginBorrowOrder summary p (ms_market s)) s in
      bindE (emit_debt_balances rt s) (\<lambda>s.
      bindE (return_to_margin height a
               \<lparr>position_changes = [(bk_claims_mint k, [ChangeRegister (bk_claims k)])]\<rparr>) (\<lambda>r.
      Inr (disbursed, loan, r, s))))))))))"

definition check_borrow_keys :: "BorrowKeys \<Rightarrow> Market \<Rightarrow> MarginUser \<Rightarrow> bool" where
  "check_borrow_keys k m u \<longleftrightarrow> mu_margin_account u = bk_margin_account k \<and> mu_claims u = bk_claims k \<and>
     mu_underlying_collateral u = bk_underlying_collateral k \<and> mu_market u = mk_address m \<and>
     bk_claims_mint k = mk_claims_mint m \<and> bk_underlying_collateral_mint k = mk_underlying_collateral_mint m \<and>
     bk_underlying_token_vault k = mk_underlying_token_vault m \<and> bk_fee_vault k = mk_fee_vault m"

definition margin_borrow_order_handler ::
  "'l Runtime \<Rightarrow> 'b Engine \<Rightarrow> (Pubkey \<Rightarrow> Pubkey \<Rightarrow> Pubkey) \<Rightarrow> nat \<Rightarrow> OrderbookKeys \<Rightarrow> BorrowKeys \<Rightarrow> OrderParams \<Rightarrow>
     AdapterAccount option \<Rightarrow> TermLoan option \<Rightarrow> MarginAccount \<Rightarrow> ('b, 'l) UserState \<Rightarrow>
     (TermLoan option \<times> AdapterResult \<times> ('b, 'l) UserState) ft_tx" where
  "margin_borrow_order_handler rt en associated height ok k p remaining existing a s =
     bindE (constraint (check_borrow_keys k (ms_market s) (us_user s))) (\<lambda>_.
     bindE (require_signer rt (bk_margin_account k)) (\<lambda>_.
     bindE (constraint (bk_underlying_settlement k =
              associated (mu_margin_account (us_user s)) (mk_underlying_token_mint (ms_market s)))) (\<lambda>_.
     bindE (constraint (check_orderbook ok (ms_market s))) (\<lambda>_.
     bindE (require_signer rt (bk_payer k)) (\<lambda>_.
     bindE (maybe_next_adapter remaining) (\<lambda>adapter.
     bindE (borrow_order rt en height k p adapter existing a s) (\<lambda>(_, loan, r, s).
     Inr (loan, r, s))))))))"

subsection \<open>Lending\<close>

record LendKeys =
  lk_authority :: Pubkey
  lk_ticket_settlement :: Pubkey
  lk_lender_tokens :: Pubkey
  lk_underlying_token_vault :: Pubkey
  lk_ticket_mint :: Pubkey
  lk_payer :: Pubkey

record TermDepositWriter =
  dw_market :: Pubkey
  dw_owner :: Pubkey
  dw_payer :: Pubkey
  dw_order_tag :: nat
  dw_tenor :: nat
  dw_sequence_number :: SequenceNumber
  dw_amount :: nat
  dw_principal :: nat
  dw_flags :: TermDepositFlags

definition term_deposit_seeds :: "Pubkey \<Rightarrow> Pubkey \<Rightarrow> Seed \<Rightarrow> Seed list" where
  "term_deposit_seeds market owner seed = [SeedBytes ''term_deposit'', SeedKey market, SeedKey owner, seed]"

definition write_deposit :: "'l Runtime \<Rightarrow> TermDepositWriter \<Rightarrow> Pubkey \<Rightarrow> (TermDeposit \<times> FtEvent) ft_res" where
  "write_deposit rt w key =
     bindE (plain_i 64 (rt_clock rt + wrap_i 64 (int (dw_tenor w)))) (\<lambda>maturity.
     Inr (\<lparr>dep_owner = dw_owner w, dep_market = dw_market w, dep_payer = dw_payer w,
           dep_sequence_number = dw_sequence_number w, dep_matures_at = maturity, dep_amount = dw_amount w,
           dep_principal = dw_principal w, dep_flags = dw_flags w\<rparr>,
          TermDepositCreated key (dw_owner w) (dw_payer w) (Some (dw_order_tag w)) (dw_sequence_number w) (dw_market w)
            maturity (dw_principal w) (dw_amount w) (dw_flags w)))"

definition init_and_write_deposit ::
  "'l Runtime \<Rightarrow> TermDepositWriter \<Rightarrow> Seed \<Rightarrow> Pubkey \<Rightarrow> TermDeposit option \<Rightarrow> (TermDeposit \<times> FtEvent) ft_tx" where
  "init_and_write_deposit rt w seed key existing =
     bindE (constraint (existing = None \<and> key = pda rt (term_deposit_seeds (dw_market w) (dw_owner w) seed))) (\<lambda>_.
     lift_tx (write_deposit rt w key))"

text \<open>\<open>issue\<close>: the filled tickets are staked in a new deposit or minted to the lender.\<close>

definition issue ::
  "'l Runtime \<Rightarrow> LendKeys \<Rightarrow> TermDeposit option \<Rightarrow> SensibleOrderSummary \<Rightarrow> (TermDepositWriter \<times> Seed) option \<Rightarrow>
     ('b, 'l, 'z) MarketState_scheme \<Rightarrow> (nat \<times> TermDeposit option \<times> ('b, 'l, 'z) MarketState_scheme) ft_tx" where
  "issue rt k existing summary writer s =
     bindE (lift_tx (base_filled summary)) (\<lambda>filled.
     case writer of
       Some (w, seed) \<Rightarrow>
         if filled > 0 then
           bindE (init_and_write_deposit rt w seed (lk_ticket_settlement k) existing) (\<lambda>(d, e).
           Inr (filled, Some d, emit_event e s))
         else Inr (filled, None, s)
     | None \<Rightarrow>
         bindE (market_mint rt (lk_ticket_mint k) (lk_ticket_settlement k) filled s) (\<lambda>s. Inr (0, None, s)))"

definition lend ::
  "'l Runtime \<Rightarrow> LendKeys \<Rightarrow> TermDeposit option \<Rightarrow> SensibleOrderSummary \<Rightarrow> (TermDepositWriter \<times> Seed) option \<Rightarrow> bool \<Rightarrow>
     ('b, 'l, 'z) MarketState_scheme \<Rightarrow> (nat \<times> TermDeposit option \<times> ('b, 'l, 'z) MarketState_scheme) ft_tx" where
  "lend rt k existing summary writer requires_payment s =
     bindE (issue rt k existing summary writer s) (\<lambda>(staked, d, s).
     bindE (if requires_payment then
              user_cpi rt (TokenTransfer (lk_lender_tokens k) (lk_underlying_token_vault k) (lk_authority k)
                (quote_combined summary)) s
            else Inr s) (\<lambda>s.
     Inr (staked, d, s)))"

definition lender_tickets_token_account ::
  "'l Runtime \<Rightarrow> LendKeys \<Rightarrow> Market \<Rightarrow> 'l \<Rightarrow> Pubkey ft_tx" where
  "lender_tickets_token_account rt k m l =
     bindE (load_token_account rt l (lk_ticket_settlement k)) (\<lambda>t.
     bindE (guardE (ta_mint t = mk_ticket_mint m) (ProgramErr WrongTicketMint)) (\<lambda>_.
     Inr (lk_ticket_settlement k)))"

definition signer_term_deposit ::
  "LendKeys \<Rightarrow> SignerCallbackInfo \<Rightarrow> SensibleOrderSummary \<Rightarrow> string \<Rightarrow> Market \<Rightarrow>
     (TermDepositWriter \<times> Seed) option ft_res" where
  "signer_term_deposit k info summary seed m =
     (if cbf_auto_stake (si_flags info) then
        bindE (base_filled summary) (\<lambda>amount.
        bindE (quote_filled (rounding_direction FillLend) summary) (\<lambda>principal.
        Inr (Some (\<lparr>dw_market = mk_address m, dw_owner = lk_authority k, dw_payer = lk_payer k,
               dw_order_tag = si_order_tag info, dw_tenor = mk_lend_tenor m, dw_sequence_number = 0,
               dw_amount = amount, dw_principal = principal, dw_flags = deposit_flags (si_flags info)\<rparr>,
               SeedBytes seed))))
      else Inr None)"

text \<open>The permit of the lender is \<open>permit\<close>, loaded from its account.\<close>

definition check_permit :: "AirspacePermit \<Rightarrow> Pubkey \<Rightarrow> Market \<Rightarrow> bool" where
  "check_permit permit owner m \<longleftrightarrow> ap_owner permit = owner \<and> ap_airspace permit = mk_airspace m"

definition lend_order_handler ::
  "'l Runtime \<Rightarrow> 'b Engine \<Rightarrow> OrderbookKeys \<Rightarrow> LendKeys \<Rightarrow> AirspacePermit \<Rightarrow> OrderParams \<Rightarrow> string \<Rightarrow>
     AdapterAccount option \<Rightarrow> TermDeposit option \<Rightarrow> ('b, 'l) MarketState \<Rightarrow>
     (TermDeposit option \<times> ('b, 'l) MarketState) ft_tx" where
  "lend_order_handler rt en ok k permit p seed remaining existing s =
     bindE (constraint (check_permit permit (lk_authority k) (ms_market s))) (\<lambda>_.
     bindE (require_signer rt (lk_authority k)) (\<lambda>_.
     bindE (constraint (check_orderbook ok (ms_market s))) (\<lambda>_.
     bindE (load_token_account rt (ms_ledger s) (lk_lender_tokens k)) (\<lambda>t.
     bindE (constraint (ta_mint t = mk_underlying_token_mint (ms_market s))) (\<lambda>_.
     bindE (constraint (lk_underlying_token_vault k = mk_underlying_token_vault (ms_market s) \<and>
              lk_ticket_mint k = mk_ticket_mint (ms_market s))) (\<lambda>_.
     bindE (require_signer rt (lk_payer k)) (\<lambda>_.
     bindE (maybe_next_adapter remaining) (\<lambda>adapter.
     bindE (if op_auto_stake p then Inr (lk_authority k)
            else lender_tickets_token_account rt k (ms_market s) (ms_ledger s)) (\<lambda>ticket_account.
     bindE (place_signer_order rt en Bid p (lk_authority k) ticket_account (lk_lender_tokens k) adapter
              (no_callback_flags\<lparr>cbf_auto_stake := op_auto_stake p\<rparr>) s) (\<lambda>(info, summary, s).
     bindE (lift_tx (signer_term_deposit k info summary seed (ms_market s))) (\<lambda>writer.
     bindE (lend rt k existing summary writer True s) (\<lambda>(_, d, s).
     Inr (d, emit_event (order_placed (lk_authority k) None (si_order_tag info) LendOrderType summary p (ms_market s))
               s)))))))))))))"

record MarginLendKeys =
  ml_margin_user :: Pubkey
  ml_ticket_collateral :: Pubkey
  ml_ticket_collateral_mint :: Pubkey
  ml_inner :: LendKeys

definition lend_order_flags :: "OrderParams \<Rightarrow> MarginUser \<Rightarrow> CallbackFlags ft_res" where
  "lend_order_flags p u =
     (if op_auto_roll p \<and> mu_lend_roll_config u = None then err InvalidAutoRollConfig
      else Inr \<lparr>cbf_auto_stake = op_auto_stake p, cbf_new_debt = False, cbf_margin = True,
             cbf_auto_roll = op_auto_roll p\<rparr>)"

definition maybe_term_deposit ::
  "LendKeys \<Rightarrow> MarginCallbackInfo \<Rightarrow> SensibleOrderSummary \<Rightarrow> Market \<Rightarrow> MarginUser \<Rightarrow>
     (TermDepositWriter \<times> Seed) option ft_res" where
  "maybe_term_deposit k info summary m u =
     (if cbf_auto_stake (mi_flags info) then
        bindE (base_filled summary) (\<lambda>amount.
        bindE (quote_filled (rounding_direction FillLend) summary) (\<lambda>principal.
        let seqno = fa_next_deposit_seqno (mu_assets u) in
        Inr (Some (\<lparr>dw_market = mk_address m, dw_owner = lk_authority k, dw_payer = lk_payer k,
               dw_order_tag = mi_order_tag info, dw_tenor = mk_lend_tenor m, dw_sequence_number = seqno,
               dw_amount = amount, dw_principal = principal, dw_flags = deposit_flags (mi_flags info)\<rparr>,
               SeedInt seqno))))
      else Inr None)"

definition margin_lend_order ::
  "'l Runtime \<Rightarrow> 'b Engine \<Rightarrow> MarginLendKeys \<Rightarrow> OrderParams \<Rightarrow> Pubkey option \<Rightarrow> bool \<Rightarrow> TermDeposit option \<Rightarrow>
     ('b, 'l) UserState \<Rightarrow> (TermDeposit option \<times> ('b, 'l) UserState) ft_tx" where
  "margin_lend_order rt en k p adapter requires_payment existing s =
     (let i = ml_inner k in
      bindE (lift_tx (lend_order_flags p (us_user s))) (\<lambda>flags.
      bindE (place_margin_order rt en Bid p (lk_authority i) (ml_margin_user k) adapter flags s)
        (\<lambda>(info, summary, s).
      bindE (lift_tx (maybe_term_deposit i info summary (ms_market s) (us_user s))) (\<lambda>writer.
      bindE (lend rt i existing summary writer requires_payment s) (\<lambda>(staked, d, s).
      bindE (on_user (user_lend_order staked (base_posted summary)) s) (\<lambda>s.
      bindE (lift_tx (safe_add (base_posted summary) staked)) (\<lambda>collateral.
      bindE (market_mint rt (ml_ticket_collateral_mint k) (ml_ticket_collateral k) collateral s) (\<lambda>s.
      let s = emit_event (order_placed (lk_authority i) (Some (ml_margin_user k)) (mi_order_tag info) MarginLendOrder
                summary p (ms_market s)) s in
      bindE (emit_asset_balances rt s) (\<lambda>s. Inr (d, s))))))))))"

definition margin_lend_order_handler ::
  "'l Runtime \<Rightarrow> 'b Engine \<Rightarrow> OrderbookKeys \<Rightarrow> MarginLendKeys \<Rightarrow> OrderParams \<Rightarrow> AdapterAccount option \<Rightarrow>
     TermDeposit option \<Rightarrow> ('b, 'l) UserState \<Rightarrow> (TermDeposit option \<times> ('b, 'l) UserState) ft_tx" where
  "margin_lend_order_handler rt en ok k p remaining existing s =
     (let i = ml_inner k; m = ms_market s; u = us_user s in
      bindE (constraint (mu_market u = mk_address m \<and> mu_ticket_collateral u = ml_ticket_collateral k \<and>
               mu_margin_account u = lk_authority i)) (\<lambda>_.
      bindE (constraint (ml_ticket_collateral_mint k = mk_ticket_collateral_mint m)) (\<lambda>_.
      bindE (require_signer rt (lk_authority i)) (\<lambda>_.
      bindE (constraint (check_orderbook ok m)) (\<lambda>_.
      bindE (load_token_account rt (ms_ledger s) (lk_lender_tokens i)) (\<lambda>t.
      bindE (constraint (ta_mint t = mk_underlying_token_mint m)) (\<lambda>_.
      bindE (constraint (lk_underlying_token_vault i = mk_underlying_token_vault m \<and>
               lk_ticket_mint i = mk_ticket_mint m)) (\<lambda>_.
      bindE (require_signer rt (lk_payer i)) (\<lambda>_.
      bindE (maybe_next_adapter remaining) (\<lambda>adapter.
      margin_lend_order rt en k p adapter True existing s))))))))))"

subsection \<open>Selling tickets\<close>

record SellKeys =
  sl_authority :: Pubkey
  sl_user_ticket_vault :: Pubkey
  sl_user_token_vault :: Pubkey
  sl_ticket_mint :: Pubkey
  sl_underlying_token_vault :: Pubkey

definition sell_tickets ::
  "'l Runtime \<Rightarrow> SellKeys \<Rightarrow> nat \<Rightarrow> SensibleOrderSummary \<Rightarrow> OrderParams \<Rightarrow> Pubkey option \<Rightarrow> OrderType \<Rightarrow>
     ('b, 'l, 'z) MarketState_scheme \<Rightarrow> ('b, 'l, 'z) MarketState_scheme ft_tx" where
  "sell_tickets rt k tag summary p margin_user order_type s =
     bindE (lift_tx (quote_filled (rounding_direction FillBorrow) summary)) (\<lambda>tokens.
     bindE (market_withdraw rt (sl_underlying_token_vault k) (sl_user_token_vault k) tokens s) (\<lambda>s.
     bindE (user_cpi rt (TokenBurn (sl_ticket_mint k) (sl_user_ticket_vault k) (sl_authority k) (base_combined summary)) s)
       (\<lambda>s.
     Inr (emit_event (order_placed (sl_authority k) margin_user tag order_type summary p (ms_market s)) s))))"

definition check_sell_keys :: "'l Runtime \<Rightarrow> SellKeys \<Rightarrow> ('b, 'l, 'z) MarketState_scheme \<Rightarrow> unit ft_tx" where
  "check_sell_keys rt k s =
     bindE (load_token_account rt (ms_ledger s) (sl_user_ticket_vault k)) (\<lambda>tickets.
     bindE (constraint (ta_mint tickets = sl_ticket_mint k)) (\<lambda>_.
     bindE (load_token_account rt (ms_ledger s) (sl_user_token_vault k)) (\<lambda>tokens.
     bindE (constraint (ta_mint tokens = mk_underlying_token_mint (ms_market s))) (\<lambda>_.
     constraint (sl_ticket_mint k = mk_ticket_mint (ms_market s) \<and>
       sl_underlying_token_vault k = mk_underlying_token_vault (ms_market s))))))"

definition sell_tickets_order_handler ::
  "'l Runtime \<Rightarrow> 'b Engine \<Rightarrow> OrderbookKeys \<Rightarrow> SellKeys \<Rightarrow> AirspacePermit \<Rightarrow> OrderParams \<Rightarrow> AdapterAccount option \<Rightarrow>
     ('b, 'l) MarketState \<Rightarrow> ('b, 'l) MarketState ft_tx" where
  "sell_tickets_order_handler rt en ok k permit p remaining s =
     bindE (constraint (check_permit permit (sl_authority k) (ms_market s))) (\<lambda>_.
     bindE (require_signer rt (sl_authority k)) (\<lambda>_.
     bindE (check_sell_keys rt k s) (\<lambda>_.
     bindE (constraint (check_orderbook ok (ms_market s))) (\<lambda>_.
     bindE (maybe_next_adapter remaining) (\<lambda>adapter.
     bindE (place_signer_order rt en Ask p (sl_authority k) (sl_user_token_vault k) (sl_user_ticket_vault k) adapter
              no_callback_flags s) (\<lambda>(info, summary, s).
     sell_tickets rt k (si_order_tag info) summary p None SellTicketsType s))))))"

definition margin_sell_tickets_order_handler ::
  "'l Runtime \<Rightarrow> 'b Engine \<Rightarrow> OrderbookKeys \<Rightarrow> Pubkey \<Rightarrow> Pubkey \<Rightarrow> Pubkey \<Rightarrow> SellKeys \<Rightarrow> OrderParams \<Rightarrow>
     AdapterAccount option \<Rightarrow> ('b, 'l) UserState \<Rightarrow> ('b, 'l) UserState ft_tx" where
  "margin_sell_tickets_order_handler rt en ok margin_user collateral collateral_mint k p remaining s =
     bindE (constraint (mu_margin_account (us_user s) = sl_authority k \<and> mu_ticket_collateral (us_user s) = collateral \<and>
              mu_market (us_user s) = mk_address (ms_market s))) (\<lambda>_.
     bindE (require_signer rt (sl_authority k)) (\<lambda>_.
     bindE (check_sell_keys rt k s) (\<lambda>_.
     bindE (constraint (check_orderbook ok (ms_market s))) (\<lambda>_.
     bindE (maybe_next_adapter remaining) (\<lambda>adapter.
     bindE (place_margin_order rt en Ask p (sl_authority k) margin_user adapter
              (no_callback_flags\<lparr>cbf_margin := True\<rparr>) s) (\<lambda>(info, summary, s).
     bindE (lift_tx (quote_posted (rounding_direction PostBorrow) summary)) (\<lambda>posted_value.
     bindE (on_user (user_sell_tickets posted_value) s) (\<lambda>s.
     bindE (market_mint rt collateral_mint collateral posted_value s) (\<lambda>s.
     sell_tickets rt k (mi_order_tag info) summary p (Some margin_user) MarginSellTicketsOrder s)))))))))"

subsection \<open>Repaying\<close>

record RepayKeys =
  rk_margin_user :: Pubkey
  rk_term_loan :: Pubkey
  rk_source :: Pubkey
  rk_source_authority :: Pubkey
  rk_payer :: Pubkey
  rk_underlying_token_vault :: Pubkey
  rk_claims :: Pubkey
  rk_claims_mint :: Pubkey

definition next_term_loan :: "RepayKeys \<Rightarrow> TermLoan option \<Rightarrow> TermLoan ft_tx" where
  "next_term_loan k account =
     bindE (ok_or account AccountErr) (\<lambda>ob.
     bindE (guardE (tl_margin_user ob = rk_margin_user k) (ProgramErr UserNotInMarket)) (\<lambda>_. Inr ob))"

text \<open>\<open>None\<close> for a loan that is fully repaid: its account is closed.\<close>

definition repay_loan ::
  "'l Runtime \<Rightarrow> RepayKeys \<Rightarrow> nat \<Rightarrow> bool \<Rightarrow> TermLoan \<Rightarrow> TermLoan option \<Rightarrow> ('b, 'l) UserState \<Rightarrow>
     (TermLoan option \<times> ('b, 'l) UserState) ft_tx" where
  "repay_loan rt k amount skip_token_transfer loan next_account s =
     (let amount = min amount (tl_balance loan) in
      bindE (if skip_token_transfer then Inr s
             else user_cpi rt (TokenTransfer (rk_source k) (rk_underlying_token_vault k) (rk_source_authority k) amount) s)
        (\<lambda>s.
      bindE (market_burn rt (rk_claims_mint k) (rk_claims k) amount s) (\<lambda>s.
      bindE (lift_tx (safe_sub (tl_balance loan) amount)) (\<lambda>balance.
      let loan = loan\<lparr>tl_balance := balance\<rparr> in
      if balance > 0 then
        bindE (on_user (partially_repay_loan loan amount) s) (\<lambda>s.
        Inr (Some loan, emit_event (TermLoanRepay (rk_margin_user k) (rk_term_loan k) amount balance
               skip_token_transfer) s))
      else
        bindE (user_fully_repay_term_loan loan amount (next_term_loan k next_account) (us_user s)) (\<lambda>u.
        Inr (None, emit_event (TermLoanFulfilled (rk_term_loan k) (rk_margin_user k) (tl_margin_user loan) amount
               (rt_clock rt) skip_token_transfer) (s\<lparr>us_user := u\<rparr>)))))))"

definition term_repay_handler ::
  "'l Runtime \<Rightarrow> RepayKeys \<Rightarrow> nat \<Rightarrow> TermLoan \<Rightarrow> TermLoan option \<Rightarrow> ('b, 'l) UserState \<Rightarrow>
     (TermLoan option \<times> ('b, 'l) UserState) ft_tx" where
  "term_repay_handler rt k amount loan next_account s =
     (let m = ms_market s; u = us_user s in
      bindE (constraint (mu_claims u = rk_claims k \<and> mu_market u = mk_address m)) (\<lambda>_.
      bindE (constraint (tl_margin_user loan = rk_margin_user k \<and> tl_market loan = mk_address m \<and>
               tl_payer loan = rk_payer k)) (\<lambda>_.
      bindE (lift_tx (unwrap (next_term_loan_to_repay (mu_debt u)))) (\<lambda>seqno.
      bindE (constraint (tl_sequence_number loan = seqno)) (\<lambda>_.
      bindE (require_signer rt (rk_source_authority k)) (\<lambda>_.
      bindE (constraint (mk_claims_mint m = rk_claims_mint k \<and>
               mk_underlying_token_vault m = rk_underlying_token_vault k)) (\<lambda>_.
      repay_loan rt k amount False loan next_account s)))))))"

end
