(* ===== verification/FixedTermInstructions.thy ===== *)
theory FixedTermInstructions
  imports FixedTermMargin
begin

text \<open>
  The remaining instructions for users of the fixed-term markets: joining a market, settlement,
  prices, auto rolling (\<open>margin/instructions\<close>), tickets and deposits (\<open>tickets\<close>).
\<close>

subsection \<open>Joining a market\<close>

record InitUserKeys =
  iu_margin_user :: Pubkey
  iu_margin_account :: Pubkey
  iu_claims :: Pubkey
  iu_claims_mint :: Pubkey
  iu_ticket_collateral :: Pubkey
  iu_ticket_collateral_mint :: Pubkey
  iu_underlying_collateral :: Pubkey
  iu_underlying_collateral_mint :: Pubkey
  iu_payer :: Pubkey

definition initialize_margin_user_handler ::
  "'l Runtime \<Rightarrow> nat \<Rightarrow> InitUserKeys \<Rightarrow> MarginAccount \<Rightarrow> MarginUser option \<Rightarrow> ('b, 'l) MarketState \<Rightarrow>
     (MarginUser \<times> AdapterResult \<times> ('b, 'l) MarketState) ft_tx" where
  "initialize_margin_user_handler rt height k a existing s =
     (let m = ms_market s in
      bindE (constraint (existing = None \<and> iu_margin_user k =
               pda rt [SeedBytes ''margin_user'', SeedKey (mk_address m), SeedKey (iu_margin_account k)])) (\<lambda>_.
      bindE (require_signer rt (iu_margin_account k)) (\<lambda>_.
      bindE (constraint (ma_airspace a = mk_airspace m)) (\<lambda>_.
      bindE (constraint (mk_claims_mint m = iu_claims_mint k \<and> mk_ticket_collateral_mint m = iu_ticket_collateral_mint k \<and>
               mk_underlying_collateral_mint m = iu_underlying_collateral_mint k)) (\<lambda>_.
      bindE (constraint (iu_claims k = pda rt [SeedBytes ''claim_notes'', SeedKey (iu_margin_user k)])) (\<lambda>_.
      bindE (create_token_account rt (iu_claims k) (iu_claims_mint k) (mk_address m) (ms_ledger s)) (\<lambda>l.
      bindE (constraint (iu_ticket_collateral k =
               pda rt [SeedBytes ''ticket_collateral_notes'', SeedKey (iu_margin_user k)])) (\<lambda>_.
      bindE (create_token_account rt (iu_ticket_collateral k) (iu_ticket_collateral_mint k) (mk_address m) l) (\<lambda>l.
      bindE (constraint (iu_underlying_collateral k =
               pda rt [SeedBytes ''underlying_collateral_notes'', SeedKey (iu_margin_user k)])) (\<lambda>_.
      bindE (create_token_account rt (iu_underlying_collateral k) (iu_underlying_collateral_mint k) (mk_address m) l) (\<lambda>l.
      bindE (require_signer rt (iu_payer k)) (\<lambda>_.
      let u = margin_user_new MARGIN_USER_VERSION (iu_margin_account k) (mk_address m) (iu_claims k)
                (iu_ticket_collateral k) (iu_underlying_collateral k);
          s = emit_event (MarginUserInitialized (mk_address m) (iu_margin_user k) (iu_margin_account k))
                (s\<lparr>ms_ledger := l\<rparr>) in
      bindE (return_to_margin height a
               \<lparr>position_changes =
                  [(iu_claims_mint k, [ChangeRegister (iu_claims k)]),
                   (iu_ticket_collateral_mint k, [ChangeRegister (iu_ticket_collateral k)]),
                   (iu_underlying_collateral_mint k, [ChangeRegister (iu_underlying_collateral k)])]\<rparr>) (\<lambda>r.
      Inr (u, r, s))))))))))))))"

subsection \<open>Settlement\<close>

record SettleKeys =
  st_margin_account :: Pubkey
  st_claims :: Pubkey
  st_claims_mint :: Pubkey
  st_ticket_collateral :: Pubkey
  st_ticket_collateral_mint :: Pubkey
  st_underlying_collateral :: Pubkey
  st_underlying_collateral_mint :: Pubkey
  st_underlying_token_vault :: Pubkey
  st_ticket_mint :: Pubkey
  st_underlying_settlement :: Pubkey
  st_ticket_settlement :: Pubkey

text \<open>Burns or mints notes of a user until the account, which holds \<open>held\<close>, has \<open>deserved\<close>.\<close>

definition settle_notes ::
  "'l Runtime \<Rightarrow> Pubkey \<Rightarrow> Pubkey \<Rightarrow> nat \<Rightarrow> nat \<Rightarrow> ('b, 'l) UserState \<Rightarrow> ('b, 'l) UserState ft_tx" where
  "settle_notes rt mint account held deserved s =
     bindE (if held > deserved then market_burn rt mint account (held - deserved) s else Inr s) (\<lambda>s.
     if held < deserved then market_mint rt mint account (deserved - held) s else Inr s)"

definition verify_settlement_account_registration ::
  "MarginAccount \<Rightarrow> Pubkey \<Rightarrow> Pubkey \<Rightarrow> FixedTermError \<Rightarrow> unit ft_tx" where
  "verify_settlement_account_registration a mint token_account e =
     bindE (lift_err (\<lambda>_. AdapterErr) (get_position mint a)) (\<lambda>pos.
     case pos of
       Some p \<Rightarrow> if pos_address p \<noteq> token_account then err (ProgramErr e) else Inr ()
     | None \<Rightarrow> err (ProgramErr e))"

definition check_settle_keys ::
  "(Pubkey \<Rightarrow> Pubkey \<Rightarrow> Pubkey) \<Rightarrow> SettleKeys \<Rightarrow> Market \<Rightarrow> MarginUser \<Rightarrow> bool" where
  "check_settle_keys associated k m u \<longleftrightarrow>
     mu_margin_account u = st_margin_account k \<and> mu_market u = mk_address m \<and> mu_claims u = st_claims k \<and>
     mu_ticket_collateral u = st_ticket_collateral k \<and> mu_underlying_collateral u = st_underlying_collateral k \<and>
     mk_underlying_token_vault m = st_underlying_token_vault k \<and> mk_ticket_mint m = st_ticket_mint k \<and>
     mk_claims_mint m = st_claims_mint k \<and> mk_ticket_collateral_mint m = st_ticket_collateral_mint k \<and>
     mk_underlying_collateral_mint m = st_underlying_collateral_mint k \<and>
     st_underlying_settlement k = associated (mu_margin_account u) (mk_underlying_token_mint m) \<and>
     st_ticket_settlement k = associated (mu_margin_account u) (st_ticket_mint k)"

text \<open>The three note accounts are loaded before the handler, so their amounts are those at its start.\<close>

definition settle_handler ::
  "'l Runtime \<Rightarrow> (Pubkey \<Rightarrow> Pubkey \<Rightarrow> Pubkey) \<Rightarrow> nat \<Rightarrow> SettleKeys \<Rightarrow> MarginAccount \<Rightarrow> ('b, 'l) UserState \<Rightarrow>
     (AdapterResult \<times> ('b, 'l) UserState) ft_tx" where
  "settle_handler rt associated height k a s =
     (let u = us_user s; assets = mu_assets u in
      bindE (constraint (check_settle_keys associated k (ms_market s) u)) (\<lambda>_.
      bindE (load_token_account rt (ms_ledger s) (st_claims k)) (\<lambda>claims.
      bindE (load_token_account rt (ms_ledger s) (st_ticket_collateral k)) (\<lambda>ctickets.
      bindE (load_token_account rt (ms_ledger s) (st_underlying_collateral k)) (\<lambda>ctokens.
      bindE (lift_tx (debt_total (mu_debt u))) (\<lambda>debt.
      bindE (settle_notes rt (st_claims_mint k) (st_claims k) (ta_amount claims) debt s) (\<lambda>s.
      bindE (lift_tx (ticket_collateral assets)) (\<lambda>ctickets_deserved.
      bindE (settle_notes rt (st_ticket_collateral_mint k) (st_ticket_collateral k) (ta_amount ctickets)
               ctickets_deserved s) (\<lambda>s.
      bindE (settle_notes rt (st_underlying_collateral_mint k) (st_underlying_collateral k) (ta_amount ctokens)
               (underlying_collateral assets) s) (\<lambda>s.
      bindE (if fa_entitled_tickets assets > 0 then
               bindE (verify_settlement_account_registration a (st_ticket_mint k) (st_ticket_settlement k)
                        TicketSettlementAccountNotRegistered) (\<lambda>_.
               market_mint rt (st_ticket_mint k) (st_ticket_settlement k) (fa_entitled_tickets assets) s)
             else Inr s) (\<lambda>s.
      bindE (if fa_entitled_tokens assets > 0 then
               bindE (verify_settlement_account_registration a (mk_underlying_token_mint (ms_market s))
                        (st_underlying_settlement k) UnderlyingSettlementAccountNotRegistered) (\<lambda>_.
               market_withdraw rt (st_underlying_token_vault k) (st_underlying_settlement k)
                 (fa_entitled_tokens assets) s)
             else Inr s) (\<lambda>s.
      bindE (emit_all_balances rt (s\<lparr>us_user := settlement_complete (us_user s)\<rparr>)) (\<lambda>s.
      bindE (return_to_margin height a \<lparr>position_changes = []\<rparr>) (\<lambda>r.
      Inr (r, s)))))))))))))))"

subsection \<open>Prices\<close>

text \<open>A price feed as the Pyth library decodes it; \<open>None\<close> when it cannot.\<close>

type_synonym PriceFeed = "(PythPrice \<times> PythPrice) option"

definition price_change_of_feed :: "PythPrice \<times> PythPrice \<Rightarrow> PriceChangeInfo" where
  "price_change_of_feed = (\<lambda>(price, ema).
     \<lparr>pc_value = px_price price, pc_confidence = px_conf price, pc_twap = px_price ema,
      pc_publish_time = px_publish_time price, pc_exponent = px_expo price\<rparr>)"

definition oracle_changes :: "bool \<Rightarrow> PriceFeed \<Rightarrow> PositionChange list ft_res" where
  "oracle_changes expect_price feed =
     (case feed of
        Some f \<Rightarrow> Inr [ChangePrice (price_change_of_feed f)]
      | None \<Rightarrow> if expect_price then err OracleError else Inr [])"

definition refresh_positions_deserialized ::
  "Market \<Rightarrow> PriceFeed \<Rightarrow> PriceFeed \<Rightarrow> MarginUser \<Rightarrow> bool \<Rightarrow> UnixTimestamp \<Rightarrow> AdapterResult ft_res" where
  "refresh_positions_deserialized m ticket_feed underlying_feed u expect_price now =
     bindE (user_is_past_due u now) (\<lambda>past_due.
     bindE (oracle_changes expect_price underlying_feed) (\<lambda>underlying.
     bindE (oracle_changes expect_price ticket_feed) (\<lambda>tickets.
     Inr \<lparr>position_changes =
       [(mk_claims_mint m, ChangeFlags FLAG_PAST_DUE past_due # underlying),
        (mk_underlying_collateral_mint m, underlying),
        (mk_ticket_collateral_mint m, tickets)]\<rparr>)))"

definition refresh_position_handler ::
  "'l Runtime \<Rightarrow> nat \<Rightarrow> Pubkey \<Rightarrow> Pubkey \<Rightarrow> Pubkey \<Rightarrow> Pubkey \<Rightarrow> PriceFeed \<Rightarrow> PriceFeed \<Rightarrow> bool \<Rightarrow> MarginAccount \<Rightarrow>
     ('b, 'l) UserState \<Rightarrow> (AdapterResult \<times> ('b, 'l) UserState) ft_tx" where
  "refresh_position_handler rt height user_key margin_account underlying_oracle ticket_oracle underlying_feed
     ticket_feed expect_price a s =
     (let m = ms_market s; u = us_user s in
      bindE (constraint (mu_market u = mk_address m \<and> mu_margin_account u = margin_account)) (\<lambda>_.
      bindE (constraint (mk_underlying_oracle m = underlying_oracle \<and> mk_ticket_oracle m = ticket_oracle)) (\<lambda>_.
      bindE (lift_tx (refresh_positions_deserialized m ticket_feed underlying_feed u expect_price (rt_clock rt))) (\<lambda>r.
      bindE (return_to_margin height a r) (\<lambda>r.
      Inr (r, emit_event (PositionRefreshed user_key) s))))))"

subsection \<open>Settings for auto rolling\<close>

definition assert_limit_price :: "nat \<Rightarrow> unit ft_res" where
  "assert_limit_price limit_price =
     (if limit_price \<ge> FP32_ONE \<or> limit_price = 0 then err InvalidAutoRollConfig else Inr ())"

definition check_lend_config :: "LendAutoRollConfig \<Rightarrow> unit ft_res" where
  "check_lend_config c = assert_limit_price (lrc_limit_price c)"

definition check_borrow_config :: "BorrowAutoRollConfig \<Rightarrow> nat \<Rightarrow> unit ft_res" where
  "check_borrow_config c market_tenor =
     bindE (assert_limit_price (brc_limit_price c)) (\<lambda>_.
     if brc_roll_tenor c \<ge> market_tenor \<or> brc_roll_tenor c = 0 then err InvalidAutoRollConfig else Inr ())"

definition configure_auto_roll_handler ::
  "'l Runtime \<Rightarrow> Pubkey \<Rightarrow> Pubkey \<Rightarrow> AutoRollConfig \<Rightarrow> MarginAccount \<Rightarrow> ('b, 'l) UserState \<Rightarrow>
     ('b, 'l) UserState ft_tx" where
  "configure_auto_roll_handler rt margin_account owner roll a s =
     (let u = us_user s; m = ms_market s in
      bindE (constraint (mu_margin_account u = margin_account \<and> mu_market u = mk_address m)) (\<lambda>_.
      bindE (constraint (ma_owner a = owner)) (\<lambda>_.
      bindE (require_signer rt owner) (\<lambda>_.
      case roll of
        BorrowRoll c \<Rightarrow>
          bindE (lift_tx (check_borrow_config c (mk_borrow_tenor m))) (\<lambda>_.
          Inr (emit_event (BorrowRollConfigUpdated c) (s\<lparr>us_user := u\<lparr>mu_borrow_roll_config := Some c\<rparr>\<rparr>)))
      | LendRoll c \<Rightarrow>
          bindE (lift_tx (check_lend_config c)) (\<lambda>_.
          Inr (emit_event (LendRollConfigUpdated c) (s\<lparr>us_user := u\<lparr>mu_lend_roll_config := Some c\<rparr>\<rparr>)))))))"

definition toggle_auto_roll_loan_handler ::
  "'l Runtime \<Rightarrow> Pubkey \<Rightarrow> Pubkey \<Rightarrow> Pubkey \<Rightarrow> TermLoan \<Rightarrow> ('b, 'l) UserState \<Rightarrow>
     (TermLoan \<times> ('b, 'l) UserState) ft_tx" where
  "toggle_auto_roll_loan_handler rt margin_account user_key loan_key loan s =
     bindE (require_signer rt margin_account) (\<lambda>_.
     bindE (constraint (mu_margin_account (us_user s) = margin_account)) (\<lambda>_.
     bindE (constraint (tl_margin_user loan = user_key)) (\<lambda>_.
     let flags = (tl_flags loan)\<lparr>tlf_auto_roll := \<not> tlf_auto_roll (tl_flags loan)\<rparr> in
     Inr (loan\<lparr>tl_flags := flags\<rparr>,
          emit_event (TermLoanFlagsToggled margin_account user_key loan_key flags) s))))"

definition toggle_auto_roll_deposit_handler ::
  "'l Runtime \<Rightarrow> Pubkey \<Rightarrow> Pubkey \<Rightarrow> TermDeposit \<Rightarrow> (TermDeposit \<times> FtEvent) ft_tx" where
  "toggle_auto_roll_deposit_handler rt margin_account deposit_key d =
     bindE (require_signer rt margin_account) (\<lambda>_.
     bindE (constraint (margin_account = dep_owner d)) (\<lambda>_.
     let flags = (dep_flags d)\<lparr>tdf_auto_roll := \<not> tdf_auto_roll (dep_flags d)\<rparr> in
     Inr (d\<lparr>dep_flags := flags\<rparr>, TermDepositFlagsToggled margin_account deposit_key flags)))"

subsection \<open>Tickets and deposits\<close>

definition exchange_tokens_handler ::
  "'l Runtime \<Rightarrow> Pubkey \<Rightarrow> Pubkey \<Rightarrow> Pubkey \<Rightarrow> Pubkey \<Rightarrow> Pubkey \<Rightarrow> AirspacePermit \<Rightarrow> nat \<Rightarrow> ('b, 'l) MarketState \<Rightarrow>
     ('b, 'l) MarketState ft_tx" where
  "exchange_tokens_handler rt vault_key ticket_mint user_ticket_vault user_token_vault authority permit amount s =
     bindE (constraint (check_permit permit authority (ms_market s))) (\<lambda>_.
     bindE (constraint (mk_ticket_mint (ms_market s) = ticket_mint \<and>
              mk_underlying_token_vault (ms_market s) = vault_key)) (\<lambda>_.
     bindE (require_signer rt authority) (\<lambda>_.
     bindE (user_cpi rt (TokenTransfer user_token_vault vault_key authority amount) s) (\<lambda>s.
     bindE (market_mint rt ticket_mint user_ticket_vault amount s) (\<lambda>s.
     Inr (emit_event (TokensExchanged (mk_address (ms_market s)) authority amount) s))))))"

record StakeTicketsKeys =
  sx_deposit :: Pubkey
  sx_ticket_holder :: Pubkey
  sx_ticket_token_account :: Pubkey
  sx_ticket_mint :: Pubkey
  sx_payer :: Pubkey

definition stake_tickets_handler ::
  "'l Runtime \<Rightarrow> StakeTicketsKeys \<Rightarrow> AirspacePermit \<Rightarrow> nat \<Rightarrow> string \<Rightarrow> TermDeposit option \<Rightarrow> ('b, 'l) MarketState \<Rightarrow>
     (TermDeposit \<times> ('b, 'l) MarketState) ft_tx" where
  "stake_tickets_handler rt k permit amount seed existing s =
     (let m = ms_market s in
      bindE (constraint (check_permit permit (sx_ticket_holder k) m)) (\<lambda>_.
      bindE (constraint (existing = None \<and> sx_deposit k =
               pda rt [SeedBytes ''term_deposit'', SeedKey (mk_address m), SeedKey (sx_ticket_holder k),
                       SeedBytes ''user'', SeedBytes seed])) (\<lambda>_.
      bindE (constraint (mk_ticket_mint m = sx_ticket_mint k)) (\<lambda>_.
      bindE (require_signer rt (sx_ticket_holder k)) (\<lambda>_.
      bindE (require_signer rt (sx_payer k)) (\<lambda>_.
      bindE (user_cpi rt (TokenBurn (sx_ticket_mint k) (sx_ticket_token_account k) (sx_ticket_holder k) amount) s) (\<lambda>s.
      bindE (lift_tx (plain_i 64 (rt_clock rt + wrap_i 64 (int (mk_lend_tenor m))))) (\<lambda>matures_at.
      let d = \<lparr>dep_owner = sx_ticket_holder k, dep_market = mk_address m, dep_payer = sx_payer k,
               dep_sequence_number = 0, dep_matures_at = matures_at, dep_amount = amount, dep_principal = amount,
               dep_flags = \<lparr>tdf_auto_roll = False, tdf_margin = False\<rparr>\<rparr>;
          s = emit_event (TicketsStaked (mk_address m) (sx_ticket_holder k) amount) s in
      Inr (d, emit_event (TermDepositCreated (sx_deposit k) (sx_ticket_holder k) (sx_payer k) None 0 (mk_address m)
                matures_at amount amount (dep_flags d)) s)))))))))"

text \<open>Redeems a deposit; \<open>is_withdrawing\<close> is false when the tokens stay for a new order.\<close>

definition redeem ::
  "'l Runtime \<Rightarrow> Pubkey \<Rightarrow> Pubkey \<Rightarrow> Pubkey \<Rightarrow> Pubkey \<Rightarrow> bool \<Rightarrow> TermDeposit \<Rightarrow>
     ('b, 'l, 'z) MarketState_scheme \<Rightarrow> (nat \<times> ('b, 'l, 'z) MarketState_scheme) ft_tx" where
  "redeem rt deposit_key owner vault_key token_account is_withdrawing d s =
     (if rt_clock rt < dep_matures_at d then err (ProgramErr ImmatureTicket)
      else
        let redeemed = dep_amount d in
        bindE (if is_withdrawing then market_withdraw rt vault_key token_account redeemed s else Inr s) (\<lambda>s.
        Inr (redeemed, emit_event (DepositRedeemed deposit_key owner redeemed (rt_clock rt) (\<not> is_withdrawing)) s)))"

definition redeem_deposit_handler ::
  "'l Runtime \<Rightarrow> Pubkey \<Rightarrow> Pubkey \<Rightarrow> Pubkey \<Rightarrow> Pubkey \<Rightarrow> Pubkey \<Rightarrow> AirspacePermit \<Rightarrow> TermDeposit \<Rightarrow>
     ('b, 'l) MarketState \<Rightarrow> ('b, 'l) MarketState ft_tx" where
  "redeem_deposit_handler rt deposit_key owner payer vault_key token_account permit d s =
     (let m = ms_market s in
      bindE (constraint (check_permit permit owner m)) (\<lambda>_.
      bindE (constraint (dep_market d = mk_address m \<and> dep_owner d = owner \<and> dep_payer d = payer)) (\<lambda>_.
      bindE (require_signer rt owner) (\<lambda>_.
      bindE (constraint (mk_underlying_token_vault m = vault_key \<and> \<not> mk_tickets_paused m)) (\<lambda>_.
      if tdf_margin (dep_flags d) then err (ProgramErr MarginUserCannotUseInstruction)
      else bindE (redeem rt deposit_key owner vault_key token_account True d s) (\<lambda>(_, s). Inr s))))))"

definition transfer_deposit_ownership_handler ::
  "'l Runtime \<Rightarrow> Pubkey \<Rightarrow> Pubkey \<Rightarrow> Pubkey \<Rightarrow> TermDeposit \<Rightarrow> (TermDeposit \<times> FtEvent) ft_tx" where
  "transfer_deposit_ownership_handler rt deposit_key owner new_owner d =
     bindE (constraint (dep_owner d = owner)) (\<lambda>_.
     bindE (require_signer rt owner) (\<lambda>_.
     Inr (d\<lparr>dep_owner := new_owner\<rparr>, DepositTransferred deposit_key owner new_owner)))"

record MarginRedeemKeys =
  mr_margin_account :: Pubkey
  mr_ticket_collateral :: Pubkey
  mr_ticket_collateral_mint :: Pubkey
  mr_deposit :: Pubkey
  mr_payer :: Pubkey
  mr_token_account :: Pubkey
  mr_underlying_token_vault :: Pubkey

definition margin_redeem ::
  "'l Runtime \<Rightarrow> MarginRedeemKeys \<Rightarrow> bool \<Rightarrow> TermDeposit \<Rightarrow> ('b, 'l) UserState \<Rightarrow> ('b, 'l) UserState ft_tx" where
  "margin_redeem rt k is_withdrawing d s =
     bindE (redeem rt (mr_deposit k) (mr_margin_account k) (mr_underlying_token_vault k) (mr_token_account k)
              is_withdrawing d s) (\<lambda>(redeemed, s).
     bindE (on_user (user_redeem_deposit (dep_sequence_number d) redeemed) s) (\<lambda>s.
     bindE (market_burn rt (mr_ticket_collateral_mint k) (mr_ticket_collateral k) redeemed s)
       (emit_asset_balances rt)))"

definition margin_redeem_deposit_handler ::
  "'l Runtime \<Rightarrow> MarginRedeemKeys \<Rightarrow> TermDeposit \<Rightarrow> ('b, 'l) UserState \<Rightarrow> ('b, 'l) UserState ft_tx" where
  "margin_redeem_deposit_handler rt k d s =
     (let m = ms_market s; u = us_user s in
      bindE (constraint (mu_margin_account u = mr_margin_account k \<and> mu_ticket_collateral u = mr_ticket_collateral k \<and>
               mu_market u = mk_address m)) (\<lambda>_.
      bindE (require_signer rt (mr_margin_account k)) (\<lambda>_.
      bindE (constraint (mr_ticket_collateral_mint k = mk_ticket_collateral_mint m)) (\<lambda>_.
      bindE (constraint (dep_owner d = mr_margin_account k \<and> dep_payer d = mr_payer k)) (\<lambda>_.
      bindE (constraint (mk_underlying_token_vault m = mr_underlying_token_vault k \<and> \<not> mk_tickets_paused m)) (\<lambda>_.
      margin_redeem rt k True d s))))))"

subsection \<open>Rolling loans and deposits\<close>

record RollBorrowKeys =
  rb_borrow :: BorrowKeys
  rb_loan :: Pubkey
  rb_rent_receiver :: Pubkey

definition roll_borrow_params :: "TermLoan \<Rightarrow> Market \<Rightarrow> MarginUser \<Rightarrow> OrderParams ft_res" where
  "roll_borrow_params loan m u =
     (case mu_borrow_roll_config u of
        None \<Rightarrow> err InvalidAutoRollConfig
      | Some c \<Rightarrow> Inr (add_origination_fee m
          \<lparr>op_max_ticket_qty = 2 ^ 64 - 1, op_max_underlying_token_qty = tl_balance loan,
           op_limit_price = brc_limit_price c, op_match_limit = 2 ^ 64 - 1, op_post_only = False,
           op_post_allowed = False, op_auto_stake = False, op_auto_roll = True\<rparr>))"

definition assert_can_auto_roll :: "TermLoan \<Rightarrow> UnixTimestamp \<Rightarrow> MarginUser \<Rightarrow> unit ft_res" where
  "assert_can_auto_roll loan now u =
     (if \<not> tlf_auto_roll (tl_flags loan) then err AutoRollDisabled
      else case mu_borrow_roll_config u of
        None \<Rightarrow> err InvalidAutoRollConfig
      | Some c \<Rightarrow>
          bindE (plain_add 64 (brc_roll_tenor c) (wrap_u 64 (tl_strike_timestamp loan))) (\<lambda>threshold.
          if wrap_u 64 now < threshold then err AutoRollNotReady else Inr ()))"

text \<open>
  The new loan settles into the vault. \<open>payer\<close> of the repayment, who receives the rent of a closed loan, is the
  payer of the instruction.
\<close>

definition roll_repay_keys :: "RollBorrowKeys \<Rightarrow> RepayKeys" where
  "roll_repay_keys k =
     (let b = rb_borrow k in
      \<lparr>rk_margin_user = bk_margin_user b, rk_term_loan = rb_loan k, rk_source = bk_margin_account b,
       rk_source_authority = bk_margin_account b, rk_payer = bk_payer b,
       rk_underlying_token_vault = bk_underlying_token_vault b, rk_claims = bk_claims b,
       rk_claims_mint = bk_claims_mint b\<rparr>)"

text \<open>\<open>next_account\<close> is the account of the next loan, once the new loan has been written.\<close>

definition auto_roll_borrow_order_handler ::
  "'l Runtime \<Rightarrow> 'b Engine \<Rightarrow> nat \<Rightarrow> OrderbookKeys \<Rightarrow> RollBorrowKeys \<Rightarrow> AdapterAccount option \<Rightarrow> TermLoan \<Rightarrow>
     TermLoan option \<Rightarrow> (TermLoan option \<Rightarrow> TermLoan option) \<Rightarrow> MarginAccount \<Rightarrow> ('b, 'l) UserState \<Rightarrow>
     (TermLoan option \<times> TermLoan option \<times> AdapterResult \<times> ('b, 'l) UserState) ft_tx" where
  "auto_roll_borrow_order_handler rt en height ok k remaining loan existing next_account a s =
     (let b = (rb_borrow k)\<lparr>bk_underlying_settlement := bk_underlying_token_vault (rb_borrow k)\<rparr>;
          m = ms_market s in
      bindE (constraint (check_borrow_keys b m (us_user s))) (\<lambda>_.
      bindE (constraint (tl_margin_user loan = bk_margin_user b \<and> tl_payer loan = rb_rent_receiver k)) (\<lambda>_.
      bindE (constraint (check_orderbook ok m)) (\<lambda>_.
      bindE (require_signer rt (bk_payer b)) (\<lambda>_.
      bindE (lift_tx (assert_can_auto_roll loan (rt_clock rt) (us_user s))) (\<lambda>_.
      bindE (lift_tx (roll_borrow_params loan m (us_user s))) (\<lambda>p.
      bindE (maybe_next_adapter remaining) (\<lambda>adapter.
      bindE (borrow_order rt en height b p adapter existing a s) (\<lambda>(filled, new_loan, r, s).
      bindE (repay_loan rt (roll_repay_keys k) filled True loan (next_account new_loan) s)
        (\<lambda>(old_loan, s).
      Inr (new_loan, old_loan, r, s)))))))))))"

record RollLendKeys =
  rl_lend :: MarginLendKeys
  rl_deposit :: Pubkey
  rl_rent_receiver :: Pubkey

definition roll_lend_params :: "TermDeposit \<Rightarrow> MarginUser \<Rightarrow> OrderParams ft_res" where
  "roll_lend_params d u =
     (case mu_lend_roll_config u of
        None \<Rightarrow> err InvalidAutoRollConfig
      | Some c \<Rightarrow> Inr
          \<lparr>op_max_ticket_qty = 2 ^ 64 - 1, op_max_underlying_token_qty = dep_amount d,
           op_limit_price = lrc_limit_price c, op_match_limit = 2 ^ 64 - 1, op_post_only = False,
           op_post_allowed = True, op_auto_stake = True, op_auto_roll = True\<rparr>)"

definition assert_deposit_can_auto_roll :: "TermDeposit \<Rightarrow> unit ft_res" where
  "assert_deposit_can_auto_roll d = (if \<not> tdf_auto_roll (dep_flags d) then err AutoRollDisabled else Inr ())"

definition roll_redeem_keys :: "RollLendKeys \<Rightarrow> MarginRedeemKeys" where
  "roll_redeem_keys k =
     (let m = rl_lend k; i = ml_inner m in
      \<lparr>mr_margin_account = lk_authority i, mr_ticket_collateral = ml_ticket_collateral m,
       mr_ticket_collateral_mint = ml_ticket_collateral_mint m, mr_deposit = rl_deposit k,
       mr_payer = rl_rent_receiver k, mr_token_account = lk_ticket_settlement i,
       mr_underlying_token_vault = lk_underlying_token_vault i\<rparr>)"

text \<open>Neither redeeming nor lending moves tokens: what the deposit was worth stays in the vault.\<close>

definition auto_roll_lend_order_handler ::
  "'l Runtime \<Rightarrow> 'b Engine \<Rightarrow> OrderbookKeys \<Rightarrow> RollLendKeys \<Rightarrow> AdapterAccount option \<Rightarrow> TermDeposit \<Rightarrow>
     TermDeposit option \<Rightarrow> ('b, 'l) UserState \<Rightarrow> (TermDeposit option \<times> ('b, 'l) UserState) ft_tx" where
  "auto_roll_lend_order_handler rt en ok k remaining d existing s =
     (let c = rl_lend k; i = (ml_inner c)\<lparr>lk_lender_tokens := lk_ticket_settlement (ml_inner c)\<rparr>;
          m = ms_market s; u = us_user s in
      bindE (constraint (mu_market u = mk_address m \<and> mu_margin_account u = lk_authority i \<and>
               mu_ticket_collateral u = ml_ticket_collateral c)) (\<lambda>_.
      bindE (constraint (dep_owner d = lk_authority i \<and> dep_payer d = rl_rent_receiver k)) (\<lambda>_.
      bindE (load_token_account rt (ms_ledger s) (ml_ticket_collateral c)) (\<lambda>t.
      bindE (constraint (ta_mint t = ml_ticket_collateral_mint c \<and>
               ml_ticket_collateral_mint c = mk_ticket_collateral_mint m)) (\<lambda>_.
      bindE (constraint (lk_ticket_mint i = mk_ticket_mint m \<and>
               lk_underlying_token_vault i = mk_underlying_token_vault m)) (\<lambda>_.
      bindE (constraint (check_orderbook ok m)) (\<lambda>_.
      bindE (require_signer rt (lk_payer i)) (\<lambda>_.
      bindE (lift_tx (assert_deposit_can_auto_roll d)) (\<lambda>_.
      bindE (margin_redeem rt (roll_redeem_keys k) False d s) (\<lambda>s.
      bindE (lift_tx (roll_lend_params d (us_user s))) (\<lambda>p.
      bindE (maybe_next_adapter remaining) (\<lambda>adapter.
      margin_lend_order rt en (c\<lparr>ml_inner := i\<rparr>) p adapter False existing s))))))))))))"

end
