(* ===== verification/FixedTermCrank.thy ===== *)
theory FixedTermCrank
  imports FixedTermInstructions
begin

text \<open>
  The crank of the fixed-term markets: consuming the events of the order book
  (\<open>orderbook/instructions/consume_events\<close>).

  Consuming an event takes the accounts it needs from the remaining accounts of the instruction, in
  order, and checks each against the callback information. Users, loans and deposits are the accounts
  of the program that these keys name.
\<close>

record ('b, 'l) CrankState = "('b, 'l) MarketState" +
  cs_users :: "Pubkey \<Rightarrow> MarginUser option"
  cs_loans :: "Pubkey \<Rightarrow> TermLoan option"
  cs_deposits :: "Pubkey \<Rightarrow> TermDeposit option"
  cs_adapters :: "Pubkey \<Rightarrow> AdapterAccount option"
  cs_accounts :: "Pubkey list"
  cs_seed :: "nat list"
  cs_payer :: Pubkey
  cs_skipped :: nat

subsection \<open>Taking accounts\<close>

definition next_account :: "('b, 'l) CrankState \<Rightarrow> (Pubkey \<times> ('b, 'l) CrankState) ft_tx" where
  "next_account s =
     (case cs_accounts s of
        [] \<Rightarrow> err (ProgramErr NoMoreAccounts)
      | k # ks \<Rightarrow> Inr (k, s\<lparr>cs_accounts := ks\<rparr>))"

definition next_user_account :: "Pubkey \<Rightarrow> ('b, 'l) CrankState \<Rightarrow> ('b, 'l) CrankState ft_tx" where
  "next_user_account expected s =
     bindE (next_account s) (\<lambda>(k, s).
     bindE (guardE (k = expected) (ProgramErr WrongUserAccount)) (\<lambda>_. Inr s))"

definition next_margin_user :: "Pubkey \<Rightarrow> ('b, 'l) CrankState \<Rightarrow> (MarginUser \<times> ('b, 'l) CrankState) ft_tx" where
  "next_margin_user key s =
     bindE (next_user_account key s) (\<lambda>s. bindE (ok_or (cs_users s key) AccountErr) (\<lambda>u. Inr (u, s)))"

text \<open>\<open>init_next\<close>: the next account must be the address of the seeds and not exist yet.\<close>

definition init_next :: "'l Runtime \<Rightarrow> Seed list \<Rightarrow> (Pubkey \<Rightarrow> bool) \<Rightarrow> ('b, 'l) CrankState \<Rightarrow>
    (Pubkey \<times> ('b, 'l) CrankState) ft_tx" where
  "init_next rt seeds exists s =
     bindE (next_account s) (\<lambda>(k, s).
     bindE (constraint (k = pda rt seeds \<and> \<not> exists k)) (\<lambda>_. Inr (k, s)))"

text \<open>
  An adapter that cannot be loaded is skipped with an event; a loaded one must be the expected one.
  The event goes to its queue.
\<close>

definition try_push_event ::
  "Pubkey \<Rightarrow> GenericEvent \<Rightarrow> CallbackInfo option \<Rightarrow> CallbackInfo option \<Rightarrow> ('b, 'l) CrankState \<Rightarrow>
     ('b, 'l) CrankState ft_tx" where
  "try_push_event adapter e maker taker s =
     (if adapter = pubkey_default then Inr s
      else
        (let skip = (\<lambda>s. Inr (s\<lparr>cs_skipped := cs_skipped s + 1\<rparr>)) in
         case cs_accounts s of
           [] \<Rightarrow> skip s
         | k # ks \<Rightarrow>
             (let s = s\<lparr>cs_accounts := ks\<rparr> in
              case cs_adapters s k of
                None \<Rightarrow> skip s
              | Some a \<Rightarrow>
                  (case load_adapter a of
                     Inl _ \<Rightarrow> skip s
                   | Inr q \<Rightarrow>
                       bindE (guardE (adapter = k) (ProgramErr WrongAdapter)) (\<lambda>_.
                       case push_event e maker taker q of
                         Inl Panic \<Rightarrow> panic
                       | Inl (Err _) \<Rightarrow> skip s
                       | Inr q \<Rightarrow> Inr (s\<lparr>cs_adapters := (cs_adapters s)(k \<mapsto> a\<lparr>ad_queue := q\<rparr>)\<rparr>))))))"

definition try_update_fill_adapters ::
  "FillEvent \<Rightarrow> UserCallbackInfo \<Rightarrow> UserCallbackInfo \<Rightarrow> ('b, 'l) CrankState \<Rightarrow> ('b, 'l) CrankState ft_tx" where
  "try_update_fill_adapters f maker taker s =
     (let push = (\<lambda>adapter. try_push_event adapter (FillEntry f) (Some (callback_info maker)) (Some (callback_info taker))) in
      bindE (push (info_adapter maker) s) (push (info_adapter taker)))"

datatype TermAccount = DepositAccount Pubkey | LoanAccount Pubkey

datatype FillAccounts =
    MarginFill MarginUser "TermAccount option"
  | SignerTokenFill Pubkey
  | SignerDepositFill Pubkey

text \<open>
  The eight bytes of the seed of a signer's deposit as a little-endian number; the first byte of the
  argument is incremented for the next one.
\<close>

fun le_number :: "nat list \<Rightarrow> nat" where
  "le_number [] = 0"
| "le_number (b # bs) = b + 256 * le_number bs"

definition next_seed :: "('b, 'l) CrankState \<Rightarrow> (nat \<times> ('b, 'l) CrankState) ft_res" where
  "next_seed s =
     (case cs_seed s of
        [] \<Rightarrow> panic
      | b # bs \<Rightarrow>
          bindE (assertE (length (cs_seed s) \<le> 8)) (\<lambda>_.
          Inr (le_number (cs_seed s), s\<lparr>cs_seed := ((b + 1) mod 256) # bs\<rparr>)))"

definition extract_fill_accounts ::
  "'l Runtime \<Rightarrow> FillEvent \<Rightarrow> UserCallbackInfo \<Rightarrow> UserCallbackInfo \<Rightarrow> ('b, 'l) CrankState \<Rightarrow>
     (FillAccounts \<times> ('b, 'l) CrankState) ft_tx" where
  "extract_fill_accounts rt f maker taker s =
     (let market = mk_address (ms_market s) in
      bindE (try_update_fill_adapters f maker taker s) (\<lambda>s.
      case maker of
        MarginInfo info \<Rightarrow>
          bindE (next_margin_user (mi_margin_user info) s) (\<lambda>(u, s).
          if cbf_auto_stake (mi_flags info) then
            bindE (init_next rt (term_deposit_seeds market (mi_margin_account info)
                     (SeedInt (fa_next_deposit_seqno (mu_assets u)))) (\<lambda>k. cs_deposits s k \<noteq> None) s) (\<lambda>(k, s).
            Inr (MarginFill u (Some (DepositAccount k)), s))
          else if cbf_new_debt (mi_flags info) then
            bindE (init_next rt (term_loan_seeds market (mi_margin_user info)
                     (db_next_new_term_loan_seqno (mu_debt u))) (\<lambda>k. cs_loans s k \<noteq> None) s) (\<lambda>(k, s).
            Inr (MarginFill u (Some (LoanAccount k)), s))
          else Inr (MarginFill u None, s))
      | SignerInfo info \<Rightarrow>
          if cbf_auto_stake (si_flags info) then
            bindE (lift_tx (next_seed s)) (\<lambda>(seed, s).
            bindE (init_next rt (term_deposit_seeds market (si_signer info) (SeedInt seed))
                     (\<lambda>k. cs_deposits s k \<noteq> None) s) (\<lambda>(k, s).
            Inr (SignerDepositFill k, s)))
          else
            bindE (next_user_account (si_ticket_account info) s) (\<lambda>s.
            Inr (SignerTokenFill (si_ticket_account info), s))))"

subsection \<open>Fills\<close>

definition user_event ::
  "('l Runtime \<Rightarrow> MarginUser \<Rightarrow> FtEvent ft_res) \<Rightarrow> 'l Runtime \<Rightarrow> MarginUser \<Rightarrow> ('b, 'l) CrankState \<Rightarrow>
     ('b, 'l) CrankState ft_tx" where
  "user_event f rt u s = bindE (lift_tx (f rt u)) (\<lambda>e. Inr (emit_event e s))"

text \<open>The term accounts of the wrong kind panic.\<close>

definition handle_lend_fill ::
  "'l Runtime \<Rightarrow> nat \<Rightarrow> nat \<Rightarrow> MarginCallbackInfo \<Rightarrow> MarginUser \<Rightarrow> TermAccount option \<Rightarrow> ('b, 'l) CrankState \<Rightarrow>
     (SequenceNumber \<times> ('b, 'l) CrankState) ft_tx" where
  "handle_lend_fill rt base_size quote_size info u term_account s =
     bindE (case term_account of
              Some (DepositAccount k) \<Rightarrow>
                bindE (lift_tx (maker_fill_lend_order True base_size u)) (\<lambda>(u, seqno).
                bindE (lift_tx (write_deposit rt
                  \<lparr>dw_market = mu_market u, dw_owner = mu_margin_account u, dw_payer = cs_payer s,
                   dw_order_tag = mi_order_tag info, dw_tenor = mk_lend_tenor (ms_market s), dw_sequence_number = seqno,
                   dw_amount = base_size, dw_principal = quote_size, dw_flags = deposit_flags (mi_flags info)\<rparr> k))
                  (\<lambda>(d, e).
                Inr (seqno, u, emit_event e (s\<lparr>cs_deposits := (cs_deposits s)(k \<mapsto> d)\<rparr>))))
            | Some (LoanAccount k) \<Rightarrow> panic
            | None \<Rightarrow>
                bindE (lift_tx (maker_fill_lend_order False base_size u)) (\<lambda>(u, _). Inr (0, u, s))) (\<lambda>(seqno, u, s).
     bindE (user_event assets_updated rt u s) (\<lambda>s.
     Inr (seqno, s\<lparr>cs_users := (cs_users s)(mi_margin_user info \<mapsto> u)\<rparr>)))"

definition handle_borrow_fill ::
  "'l Runtime \<Rightarrow> nat \<Rightarrow> nat \<Rightarrow> MarginCallbackInfo \<Rightarrow> MarginUser \<Rightarrow> TermAccount option \<Rightarrow> ('b, 'l) CrankState \<Rightarrow>
     (SequenceNumber \<times> ('b, 'l) CrankState) ft_tx" where
  "handle_borrow_fill rt base_size quote_size info u term_account s =
     (let m = ms_market s; now = rt_clock rt in
      bindE (lift_tx (market_loan_to_disburse m quote_size)) (\<lambda>disburse.
      bindE (lift_tx (safe_add_i64 now (wrap_i 64 (int (mk_borrow_tenor m))))) (\<lambda>maturity.
      case term_account of
        Some (LoanAccount k) \<Rightarrow>
          bindE (lift_tx (safe_sub quote_size disburse)) (\<lambda>fees.
          bindE (market_withdraw rt (mk_underlying_token_vault m) (mk_fee_vault m) fees s) (\<lambda>s.
          bindE (lift_tx (maker_fill_borrow_order True disburse quote_size base_size maturity u)) (\<lambda>(u, seqno).
          bindE (lift_tx (safe_sub base_size quote_size)) (\<lambda>interest.
          let flags = no_loan_flags\<lparr>tlf_auto_roll := cbf_auto_roll (mi_flags info)\<rparr>;
              loan = \<lparr>tl_sequence_number = seqno, tl_margin_user = mi_margin_user info, tl_market = mu_market u,
                tl_payer = cs_payer s, tl_order_tag = mi_order_tag info, tl_maturation_timestamp = maturity,
                tl_strike_timestamp = now, tl_principal = quote_size, tl_interest = interest, tl_balance = base_size,
                tl_flags = flags\<rparr>;
              s = emit_event (TermLoanCreated k (mi_margin_account info) (cs_payer s) (mi_order_tag info) seqno (mu_market u)
                    maturity quote_size base_size flags fees)
                    (s\<lparr>cs_loans := (cs_loans s)(k \<mapsto> loan), cs_users := (cs_users s)(mi_margin_user info \<mapsto> u)\<rparr>) in
          bindE (user_event assets_updated rt u s) (\<lambda>s.
          bindE (user_event debt_updated rt u s) (\<lambda>s. Inr (seqno, s)))))))
      | Some (DepositAccount k) \<Rightarrow> panic
      | None \<Rightarrow>
          bindE (lift_tx (maker_fill_borrow_order False disburse quote_size base_size maturity u)) (\<lambda>(u, _).
          bindE (user_event assets_updated rt u s) (\<lambda>s.
          Inr (0, s\<lparr>cs_users := (cs_users s)(mi_margin_user info \<mapsto> u)\<rparr>))))))"

definition order_filled ::
  "Pubkey \<Rightarrow> Pubkey \<Rightarrow> nat \<Rightarrow> UserCallbackInfo \<Rightarrow> OrderType \<Rightarrow> SequenceNumber \<Rightarrow> nat \<Rightarrow> nat \<Rightarrow> nat \<Rightarrow> FtEvent ft_res" where
  "order_filled market maker_authority maker_tag taker order_type seqno base_size quote_size tenor =
     (let (taker_authority, taker_tag, submitted) = order_source taker in
      bindE (safe_add_i64 submitted (wrap_i 64 (int tenor))) (\<lambda>maturity.
      Inr (OrderFilled market maker_authority taker_authority maker_tag taker_tag order_type seqno base_size quote_size
             submitted maturity)))"

definition handle_margin_fill ::
  "'l Runtime \<Rightarrow> FillEvent \<Rightarrow> UserCallbackInfo \<Rightarrow> UserCallbackInfo \<Rightarrow> MarginUser \<Rightarrow> TermAccount option \<Rightarrow>
     ('b, 'l) CrankState \<Rightarrow> ('b, 'l) CrankState ft_tx" where
  "handle_margin_fill rt f maker taker u term_account s =
     bindE (lift_tx (fill_quote_size f)) (\<lambda>quote_size.
     bindE (lift_tx (unwrap_margin maker)) (\<lambda>info.
     let base_size = fe_base_size f; m = ms_market s in
     bindE (case market_side (opposite (fe_taker_side f)) of
              MarketLend \<Rightarrow>
                bindE (handle_lend_fill rt base_size quote_size info u term_account s) (\<lambda>(seqno, s).
                Inr (MarginLendOrder, seqno, mk_lend_tenor m, s))
            | MarketBorrow \<Rightarrow>
                bindE (handle_borrow_fill rt base_size quote_size info u term_account s) (\<lambda>(seqno, s).
                Inr (MarginBorrowOrder, seqno, mk_borrow_tenor m, s))) (\<lambda>(order_type, seqno, tenor, s).
     bindE (lift_tx (order_filled (mu_market u) (mi_margin_account info) (mi_order_tag info) taker order_type seqno
              base_size quote_size tenor)) (\<lambda>e.
     Inr (emit_event e s)))))"

definition handle_signer_fill ::
  "'l Runtime \<Rightarrow> FillEvent \<Rightarrow> UserCallbackInfo \<Rightarrow> UserCallbackInfo \<Rightarrow> FillAccounts \<Rightarrow> ('b, 'l) CrankState \<Rightarrow>
     ('b, 'l) CrankState ft_tx" where
  "handle_signer_fill rt f maker taker account s =
     bindE (lift_tx (fill_quote_size f)) (\<lambda>quote_size.
     bindE (lift_tx (unwrap_signer maker)) (\<lambda>info.
     let base_size = fe_base_size f; m = ms_market s in
     bindE (case market_side (opposite (fe_taker_side f)) of
              MarketLend \<Rightarrow>
                (case account of
                   SignerDepositFill k \<Rightarrow>
                     bindE (lift_tx (write_deposit rt
                       \<lparr>dw_market = mk_address m, dw_owner = si_signer info, dw_payer = cs_payer s,
                        dw_order_tag = si_order_tag info, dw_tenor = mk_lend_tenor m, dw_sequence_number = 0,
                        dw_amount = base_size, dw_principal = quote_size, dw_flags = deposit_flags (si_flags info)\<rparr> k))
                       (\<lambda>(d, e).
                     Inr (LendOrderType, mk_lend_tenor m, emit_event e (s\<lparr>cs_deposits := (cs_deposits s)(k \<mapsto> d)\<rparr>)))
                 | SignerTokenFill k \<Rightarrow>
                     bindE (market_mint rt (mk_ticket_mint m) k base_size s) (\<lambda>s.
                     Inr (LendOrderType, mk_lend_tenor m, s))
                 | MarginFill _ _ \<Rightarrow> panic)
            | MarketBorrow \<Rightarrow>
                (case account of
                   SignerTokenFill k \<Rightarrow>
                     bindE (market_withdraw rt (mk_underlying_token_vault m) k quote_size s) (\<lambda>s.
                     Inr (SellTicketsType, mk_borrow_tenor m, s))
                 | _ \<Rightarrow> panic)) (\<lambda>(order_type, tenor, s).
     bindE (lift_tx (order_filled (mk_address m) (si_signer info) (si_order_tag info) taker order_type 0
              base_size quote_size tenor)) (\<lambda>e.
     Inr (emit_event e s)))))"

definition handle_fill ::
  "'l Runtime \<Rightarrow> FillEvent \<Rightarrow> UserCallbackInfo \<Rightarrow> UserCallbackInfo \<Rightarrow> ('b, 'l) CrankState \<Rightarrow>
     ('b, 'l) CrankState ft_tx" where
  "handle_fill rt f maker taker s =
     bindE (extract_fill_accounts rt f maker taker s) (\<lambda>(accounts, s).
     case accounts of
       MarginFill u term_account \<Rightarrow> handle_margin_fill rt f maker taker u term_account s
     | _ \<Rightarrow> handle_signer_fill rt f maker taker accounts s)"

subsection \<open>Orders leaving the book\<close>

definition handle_out ::
  "'l Runtime \<Rightarrow> OutEvent \<Rightarrow> UserCallbackInfo \<Rightarrow> ('b, 'l) CrankState \<Rightarrow> ('b, 'l) CrankState ft_tx" where
  "handle_out rt e info s =
     bindE (try_push_event (info_adapter info) (OutEntry e) (Some (callback_info info)) None s) (\<lambda>s.
     let m = ms_market s; base_size = oe_base_size e in
     case info of
       MarginInfo i \<Rightarrow>
         bindE (next_margin_user (mi_margin_user i) s) (\<lambda>(u, s).
         bindE (lift_tx (out_quote_size e)) (\<lambda>quote_size.
         bindE (case market_side (oe_side e) of
                  MarketBorrow \<Rightarrow>
                    bindE (lift_tx (cancel_borrow_order quote_size base_size (cbf_new_debt (mi_flags i)) u)) (\<lambda>u.
                    bindE (user_event (if cbf_new_debt (mi_flags i) then debt_updated else assets_updated) rt u s) (\<lambda>s.
                    Inr (u, s)))
                | MarketLend \<Rightarrow>
                    bindE (lift_tx (cancel_lend_order quote_size base_size u)) (\<lambda>u.
                    bindE (user_event assets_updated rt u s) (\<lambda>s. Inr (u, s)))) (\<lambda>(u, s).
         Inr (emit_event (OrderRemoved (mk_address m) (mi_margin_account i) (mi_order_tag i) base_size quote_size)
                (s\<lparr>cs_users := (cs_users s)(mi_margin_user i \<mapsto> u)\<rparr>)))))
     | SignerInfo i \<Rightarrow>
         bindE (next_user_account (si_token_account i) s) (\<lambda>s.
         bindE (lift_tx (out_quote_size e)) (\<lambda>quote_size.
         bindE (case oe_side e of
                  Bid \<Rightarrow> market_withdraw rt (mk_underlying_token_vault m) (si_token_account i) quote_size s
                | Ask \<Rightarrow> market_mint rt (mk_ticket_mint m) (si_token_account i) base_size s) (\<lambda>s.
         Inr (emit_event (OrderRemoved (mk_address m) (si_signer i) (si_order_tag i) base_size quote_size) s)))))"

fun handle_event :: "'l Runtime \<Rightarrow> OrderbookEvent \<Rightarrow> ('b, 'l) CrankState \<Rightarrow> ('b, 'l) CrankState ft_tx" where
  "handle_event rt (FillInfo f maker taker) s = handle_fill rt f maker taker s"
| "handle_event rt (OutInfo e info) s = handle_out rt e info s"

definition consume_events_handler ::
  "'l Runtime \<Rightarrow> 'b Engine \<Rightarrow> Pubkey \<Rightarrow> CrankAuthorization \<Rightarrow> nat \<Rightarrow> ('b, 'l) CrankState \<Rightarrow>
     ('b, 'l) CrankState ft_tx" where
  "consume_events_handler rt en crank auth num_events s =
     bindE (constraint (ca_crank auth = crank \<and> ca_airspace auth = mk_airspace (ms_market s) \<and>
              ca_market auth = mk_address (ms_market s))) (\<lambda>_.
     bindE (require_signer rt crank) (\<lambda>_.
     bindE (require_signer rt (cs_payer s)) (\<lambda>_.
     bindE (lift_tx (deserialize_market (en_queue en (ms_book s)))) (\<lambda>q.
     bindE (lift_tx (queue_items num_events 0 q)) (\<lambda>es.
     bindE (foldE (handle_event rt) es s) (\<lambda>s.
     bindE (guardE (es \<noteq> []) (ProgramErr NoEvents)) (\<lambda>_.
     bindE (ok_or (en_consume en (length es) (ms_book s)) AdapterErr) (\<lambda>b.
     Inr (s\<lparr>ms_book := b\<rparr>)))))))))"

end
