(* ===== verification/FixedTermFrames.thy ===== *)
theory FixedTermFrames
  imports FixedTermCrank
begin

text \<open>
  What the instructions of the fixed-term markets leave alone: the address and the tenor of the
  market, and, but for borrowing, repaying, fills and orders that leave the book, the debt of a user.
  Each lemma is a frame rule: it turns the successful call of an operation into equations.
\<close>

named_theorems frame

lemmas opt_splits = option.splits if_splits prod.splits sum.splits

subsection \<open>Operations on the market\<close>

definition terms_of :: "Market \<Rightarrow> Pubkey \<times> nat" where
  "terms_of m = (mk_address m, mk_borrow_tenor m)"

text \<open>All of a market but the nonce, which every order increments.\<close>

definition market_core :: "Market \<Rightarrow> Market" where
  "market_core m = m\<lparr>mk_nonce := 0\<rparr>"

lemma terms_of_core: "market_core m' = market_core m \<Longrightarrow> terms_of m' = terms_of m"
  by (cases m, cases m') (simp add: market_core_def terms_of_def)

definition same_but_market :: "('b, 'l, 'z) MarketState_scheme \<Rightarrow> ('b, 'l, 'z) MarketState_scheme \<Rightarrow> bool" where
  "same_but_market s s' \<longleftrightarrow> MarketState.more s' = MarketState.more s \<and>
     market_core (ms_market s') = market_core (ms_market s)"

lemma same_but_market_refl: "same_but_market s s"
  by (simp add: same_but_market_def)

lemma same_but_market_trans [trans]: "same_but_market s t \<Longrightarrow> same_but_market t u \<Longrightarrow> same_but_market s u"
  by (simp add: same_but_market_def)

lemma same_but_market_updates [simp]:
  "same_but_market s (s\<lparr>ms_ledger := l\<rparr>)" "same_but_market s (s\<lparr>ms_book := b\<rparr>)" "same_but_market s (emit_event e s)"
  "same_but_market s t \<Longrightarrow> same_but_market s (emit_event e t)" "same_but_market s s"
  by (simp_all add: same_but_market_def emit_event_def)

lemma market_cpi_same: "market_cpi rt ix s = Inr s' \<Longrightarrow> same_but_market s s'"
  by (auto simp: market_cpi_def)

lemma market_token_same:
  "market_mint rt m t n s = Inr s' \<Longrightarrow> same_but_market s s'"
  "market_withdraw rt f t n s = Inr s' \<Longrightarrow> same_but_market s s'"
  "market_burn rt m f n s = Inr s' \<Longrightarrow> same_but_market s s'"
  "user_cpi rt ix s = Inr s' \<Longrightarrow> same_but_market s s'"
  by (auto simp: market_mint_def market_withdraw_def market_burn_def user_cpi_def dest: market_cpi_same)

lemma place_order_same: "place_order en side p i s = Inr (summary, s') \<Longrightarrow> same_but_market s s'"
  by (auto simp: place_order_def split: opt_splits)

lemma generate_core: "generate_from_market en m u = (m', tag) \<Longrightarrow> market_core m' = market_core m"
  by (auto simp: generate_from_market_def market_core_def)

lemma place_orders_same:
  "place_margin_order rt en side p a u k f s = Inr (i, summary, s') \<Longrightarrow> same_but_market s s'"
  "place_signer_order rt en side p g t v k f s = Inr (j, summary, s') \<Longrightarrow> same_but_market s s'"
  by (auto simp: place_margin_order_def place_signer_order_def Let_def same_but_market_def
      dest!: place_order_same generate_core split: prod.splits)

lemma issue_same: "issue rt k ex summary w s = Inr (n, d, s') \<Longrightarrow> same_but_market s s'"
  by (cases w) (auto simp: issue_def dest: market_token_same split: if_split_asm)

lemma lend_same: "lend rt k ex summary w pay s = Inr (n, d, s') \<Longrightarrow> same_but_market s s'"
  by (auto simp: lend_def dest!: issue_same market_token_same intro: same_but_market_trans split: opt_splits)

lemma sell_tickets_same: "sell_tickets rt k tag summary p u ot s = Inr s' \<Longrightarrow> same_but_market s s'"
  by (auto simp: sell_tickets_def dest!: market_token_same intro: same_but_market_trans)

lemma redeem_same: "redeem rt dk ow vk ta w d s = Inr (n, s') \<Longrightarrow> same_but_market s s'"
  by (auto simp: redeem_def Let_def dest: market_token_same split: if_splits)

lemmas market_same = market_token_same place_orders_same issue_same lend_same sell_tickets_same redeem_same

subsection \<open>Operations on a user\<close>

text \<open>The user is the rest of the state.\<close>

lemma same_user: "same_but_market s s' \<Longrightarrow> us_user s' = us_user (s :: ('b, 'l) UserState)"
  by (cases s, cases s') (simp add: same_but_market_def)

definition debt_of :: "('b, 'l) UserState \<Rightarrow> (Pubkey \<times> nat) \<times> Debt \<times> Pubkey" where
  "debt_of s = (terms_of (ms_market s), mu_debt (us_user s), mu_market (us_user s))"

lemma same_debt: "same_but_market s s' \<Longrightarrow> debt_of s' = debt_of s"
  using terms_of_core [of "ms_market s'" "ms_market s"] by (simp add: debt_of_def same_user) (simp add: same_but_market_def)

lemma debt_of_emit [simp]: "debt_of (emit_event e s) = debt_of s"
  by (simp add: debt_of_def emit_event_def)

lemmas market_debt [frame] = market_same [THEN same_debt]

lemma assets_debt:
  "on_assets f u = Inr u' \<Longrightarrow> mu_debt u' = mu_debt u \<and> mu_market u' = mu_market u"
  by (auto simp: on_assets_def)

lemma user_ops_debt:
  "user_lend_order n p u = Inr u' \<Longrightarrow> mu_debt u' = mu_debt u \<and> mu_market u' = mu_market u"
  "user_sell_tickets n u = Inr u' \<Longrightarrow> mu_debt u' = mu_debt u \<and> mu_market u' = mu_market u"
  "user_redeem_deposit q n u = Inr u' \<Longrightarrow> mu_debt u' = mu_debt u \<and> mu_market u' = mu_market u"
  "maker_fill_lend_order st n u = Inr (u', r) \<Longrightarrow> mu_debt u' = mu_debt u \<and> mu_market u' = mu_market u"
  "cancel_lend_order n p u = Inr u' \<Longrightarrow> mu_debt u' = mu_debt u \<and> mu_market u' = mu_market u"
  by (auto simp: user_lend_order_def user_sell_tickets_def user_redeem_deposit_def maker_fill_lend_order_def
      cancel_lend_order_def dest!: assets_debt split: if_splits)

lemma on_user_debt [frame]:
  "on_user (user_lend_order n p) s = Inr s' \<Longrightarrow> debt_of s' = debt_of s"
  "on_user (user_sell_tickets n) s = Inr s' \<Longrightarrow> debt_of s' = debt_of s"
  "on_user (user_redeem_deposit q n) s = Inr s' \<Longrightarrow> debt_of s' = debt_of s"
  by (auto simp: on_user_def debt_of_def dest!: user_ops_debt)

lemma emit_balances_debt [frame]:
  "emit_debt_balances rt s = Inr s' \<Longrightarrow> debt_of s' = debt_of s"
  "emit_asset_balances rt s = Inr s' \<Longrightarrow> debt_of s' = debt_of s"
  "emit_all_balances rt s = Inr s' \<Longrightarrow> debt_of s' = debt_of s"
  by (auto simp: emit_debt_balances_def emit_asset_balances_def emit_all_balances_def)

lemma settle_notes_debt [frame]: "settle_notes rt m a h d s = Inr s' \<Longrightarrow> debt_of s' = debt_of s"
  by (auto simp: settle_notes_def dest!: market_debt split: if_splits)

lemma margin_lend_order_debt [frame]:
  "margin_lend_order rt en k p ad pay ex s = Inr (d, s') \<Longrightarrow> debt_of s' = debt_of s"
  by (auto simp: margin_lend_order_def Let_def dest!: frame)

lemma margin_redeem_debt [frame]: "margin_redeem rt k w d s = Inr s' \<Longrightarrow> debt_of s' = debt_of s"
  by (auto simp: margin_redeem_def dest!: frame)

lemma settlement_complete_debt [simp]: "debt_of (s\<lparr>us_user := settlement_complete (us_user s)\<rparr>) = debt_of s"
  by (simp add: debt_of_def settlement_complete_def)

lemma settle_debt: "settle_handler rt assoc height k a s = Inr (r, s') \<Longrightarrow> debt_of s' = debt_of s"
  by (auto simp: settle_handler_def Let_def dest!: frame split: if_splits)

lemma user_handlers_debt:
  "margin_lend_order_handler rt en ok lk p ad ex s = Inr (d, s') \<Longrightarrow> debt_of s' = debt_of s"
  "margin_redeem_deposit_handler rt rk dep s = Inr s' \<Longrightarrow> debt_of s' = debt_of s"
  "auto_roll_lend_order_handler rt en ok rlk ad dep ex s = Inr (d, s') \<Longrightarrow> debt_of s' = debt_of s"
  by (auto simp: margin_lend_order_handler_def margin_redeem_deposit_handler_def auto_roll_lend_order_handler_def Let_def
      dest!: frame)

lemma sell_handler_debt:
  "margin_sell_tickets_order_handler rt en ok mu c cm k p ad s = Inr s' \<Longrightarrow> debt_of s' = debt_of s"
  by (auto simp: margin_sell_tickets_order_handler_def dest!: frame)

lemma configure_debt:
  "configure_auto_roll_handler rt ma ow roll a s = Inr s' \<Longrightarrow> debt_of s' = debt_of s"
  by (auto simp: configure_auto_roll_handler_def Let_def debt_of_def emit_event_def
      split: AutoRollConfig.splits)

end
