(* ===== verification/FixedTermLoans.thy ===== *)
theory FixedTermLoans
  imports FixedTermFrames
begin

text \<open>
  The debt of a user of a fixed-term market against the accounts of the user's loans: whatever is
  done in a market, by users or by the crank, the committed debt is the sum of the balances of the
  loans, the loans that exist are those with the active numbers, and the user is past due exactly when one
  of the loans has matured.
\<close>

subsection \<open>Addresses of loans\<close>

definition loan_key :: "'l Runtime \<Rightarrow> Pubkey \<Rightarrow> Pubkey \<Rightarrow> SequenceNumber \<Rightarrow> Pubkey" where
  "loan_key rt market user q = pda rt (term_loan_seeds market user q)"

text \<open>Program addresses are hashes of their seeds; different loans have different addresses.\<close>

definition loan_addresses :: "'l Runtime \<Rightarrow> Pubkey \<Rightarrow> bool" where
  "loan_addresses rt market \<longleftrightarrow>
     (\<forall>u q u' q'. u64 q \<longrightarrow> u64 q' \<longrightarrow> loan_key rt market u q = loan_key rt market u' q' \<longrightarrow> u = u' \<and> q = q')"

lemma loan_addresses_eq:
  "loan_addresses rt market \<Longrightarrow> u64 q \<Longrightarrow> u64 q' \<Longrightarrow>
     loan_key rt market u q = loan_key rt market u' q' \<longleftrightarrow> u = u' \<and> q = q'"
  unfolding loan_addresses_def by blast

lemma loan_key_instruction [simp]: "loan_key (instruction rt s t) = loan_key rt"
  by (simp add: loan_key_def fun_eq_iff)

type_synonym Loans = "Pubkey \<Rightarrow> TermLoan option"

definition put_loan :: "Pubkey \<Rightarrow> TermLoan option \<Rightarrow> Loans \<Rightarrow> Loans" where
  "put_loan k l ls = (case l of None \<Rightarrow> ls | Some t \<Rightarrow> ls(k \<mapsto> t))"

lemma put_loan_simps [simp]: "put_loan k None ls = ls" "put_loan k (Some t) ls = ls(k \<mapsto> t)"
  by (simp_all add: put_loan_def)

definition wf_loans :: "'l Runtime \<Rightarrow> Pubkey \<Rightarrow> Loans \<Rightarrow> bool" where
  "wf_loans rt market ls \<longleftrightarrow>
     (\<forall>k t. ls k = Some t \<longrightarrow> u64 (tl_sequence_number t) \<and> k = loan_key rt market (tl_margin_user t) (tl_sequence_number t))"

lemma wf_loansD:
  "wf_loans rt market ls \<Longrightarrow> ls k = Some t \<Longrightarrow>
     u64 (tl_sequence_number t) \<and> k = loan_key rt market (tl_margin_user t) (tl_sequence_number t)"
  by (simp add: wf_loans_def)

subsection \<open>A user and the loans\<close>

text \<open>\<open>at\<close> gives the loan of a number; \<open>bound\<close> is the latest maturity a loan can have by now.\<close>

definition owes :: "int \<Rightarrow> (SequenceNumber \<Rightarrow> TermLoan option) \<Rightarrow> Debt \<Rightarrow> bool" where
  "owes bound at d \<longleftrightarrow>
     db_next_unpaid_term_loan_seqno d \<le> db_next_new_term_loan_seqno d \<and> u64 (db_next_new_term_loan_seqno d) \<and>
     (\<forall>q. u64 q \<longrightarrow> (at q \<noteq> None \<longleftrightarrow> q \<in> set (active_loans d))) \<and>
     db_committed d = sum_list (map (\<lambda>q. tl_balance (the (at q))) (active_loans d)) \<and>
     (active_loans d \<noteq> [] \<longrightarrow>
        db_next_term_loan_maturity d = tl_maturation_timestamp (the (at (db_next_unpaid_term_loan_seqno d)))) \<and>
     sorted (map (\<lambda>q. tl_maturation_timestamp (the (at q))) (active_loans d)) \<and>
     (\<forall>q \<in> set (active_loans d). tl_maturation_timestamp (the (at q)) \<le> bound)"

lemma active_loans_set [simp]:
  "q \<in> set (active_loans d) \<longleftrightarrow> db_next_unpaid_term_loan_seqno d \<le> q \<and> q < db_next_new_term_loan_seqno d"
  by (auto simp: active_loans_def)

lemma active_loans_pending [simp]: "active_loans (d\<lparr>db_pending := p\<rparr>) = active_loans d"
  by (simp add: active_loans_def)

lemma active_loans_u64: "u64 (db_next_new_term_loan_seqno d) \<Longrightarrow> q \<in> set (active_loans d) \<Longrightarrow> u64 q"
  by (auto simp: u_range_def)

lemma owes_pending [simp]: "owes bound at (d\<lparr>db_pending := p\<rparr>) = owes bound at d"
  by (simp add: owes_def)

lemma owes_u64: "owes bound at d \<Longrightarrow> u64 (db_next_new_term_loan_seqno d)"
  unfolding owes_def by (elim conjE)

lemma owes_cong:
  assumes "\<And>q. u64 q \<Longrightarrow> at' q = at q" "owes bound at d"
  shows "owes bound at' d"
proof -
  have "u64 q" if "q \<in> set (active_loans d)" for q
    by (rule active_loans_u64 [OF owes_u64 [OF assms(2)] that])
  then have eq: "q \<in> set (active_loans d) \<Longrightarrow> at' q = at q" for q using assms(1) by blast
  have maps: "map (\<lambda>q. tl_balance (the (at' q))) (active_loans d) = map (\<lambda>q. tl_balance (the (at q))) (active_loans d)"
    "map (\<lambda>q. tl_maturation_timestamp (the (at' q))) (active_loans d) =
       map (\<lambda>q. tl_maturation_timestamp (the (at q))) (active_loans d)"
    using eq by (simp_all del: active_loans_set cong: map_cong)
  have first: "active_loans d \<noteq> [] \<Longrightarrow> at' (db_next_unpaid_term_loan_seqno d) = at (db_next_unpaid_term_loan_seqno d)"
    by (rule eq) (auto simp: active_loans_def)
  have ex: "(\<forall>q. u64 q \<longrightarrow> (at' q \<noteq> None \<longleftrightarrow> q \<in> set (active_loans d))) \<longleftrightarrow>
      (\<forall>q. u64 q \<longrightarrow> (at q \<noteq> None \<longleftrightarrow> q \<in> set (active_loans d)))"
    using assms(1) by simp
  have bd: "(\<forall>q \<in> set (active_loans d). tl_maturation_timestamp (the (at' q)) \<le> bound) \<longleftrightarrow>
      (\<forall>q \<in> set (active_loans d). tl_maturation_timestamp (the (at q)) \<le> bound)"
    using eq by (simp del: active_loans_set)
  show ?thesis
    using assms(2) first unfolding owes_def maps ex bd by (elim conjE, intro conjI impI) (assumption | simp)+
qed

lemma owes_later: "owes bound at d \<Longrightarrow> bound \<le> bound' \<Longrightarrow> owes bound' at d"
  unfolding owes_def by (elim conjE, intro conjI) (assumption | blast intro: order_trans)+

text \<open>A new loan comes last, a repayment goes to the first.\<close>

lemma owes_new:
  assumes "new_term_loan_without_posting amount maturity d = Inr (d', q)" "owes bound at d" "bound \<le> maturity"
    and "tl_balance t = amount" "tl_maturation_timestamp t = maturity"
  shows "q = db_next_new_term_loan_seqno d \<and> u64 q \<and> owes maturity (at(q \<mapsto> t)) d'"
proof -
  let ?a = "db_next_unpaid_term_loan_seqno d" and ?q = "db_next_new_term_loan_seqno d"
  from assms(1) have q: "q = ?q" "u64 (q + 1)" and d': "active_loans d' = (active_loans d @ [q])"
      "db_next_unpaid_term_loan_seqno d' = ?a" "db_next_new_term_loan_seqno d' = q + 1"
      "db_committed d' = db_committed d + amount"
      "db_next_term_loan_maturity d' = (if ?q = ?a then maturity else db_next_term_loan_maturity d)"
    using assms(2) by (auto simp: new_term_loan_without_posting_def Let_def active_loans_def owes_def split: if_splits)
  have old: "map (\<lambda>x. f (the ((at(q \<mapsto> t)) x))) (active_loans d) = map (\<lambda>x. f (the (at x))) (active_loans d)" for f
    by (simp add: q(1))
  have u: "u64 q" using q(2) by (auto simp: u_range_def)
  have le: "?a \<le> ?q" and ex: "u64 x \<Longrightarrow> (at x \<noteq> None) = (x \<in> set (active_loans d))" for x
    using assms(2) unfolding owes_def by auto
  have "sorted (map (\<lambda>x. tl_maturation_timestamp (the ((at(q \<mapsto> t)) x))) (active_loans d'))"
    using assms(2,3,5) by (simp only: d'(1) map_append old) (fastforce simp: owes_def sorted_append)
  moreover have "db_committed d' = sum_list (map (\<lambda>x. tl_balance (the ((at(q \<mapsto> t)) x))) (active_loans d'))"
    using assms(2,4) by (simp only: d'(1) map_append old) (simp add: d'(4) owes_def)
  moreover have "u64 x \<Longrightarrow> ((at(q \<mapsto> t)) x \<noteq> None) = (x \<in> set (active_loans d'))" for x
    using ex [of x] le by (auto simp: d' q(1))
  moreover have "db_next_term_loan_maturity d' = tl_maturation_timestamp (the ((at(q \<mapsto> t)) ?a))"
    using assms(2,5) le by (auto simp: d' q(1) owes_def active_loans_def)
  moreover have "\<forall>x \<in> set (active_loans d'). tl_maturation_timestamp (the ((at(q \<mapsto> t)) x)) \<le> maturity"
  proof
    fix x assume x: "x \<in> set (active_loans d')"
    have "tl_maturation_timestamp (the (at x)) \<le> bound" if "x \<noteq> q"
      using assms(2) x that unfolding owes_def by (simp add: d'(1) del: active_loans_set)
    with assms(3,5) show "tl_maturation_timestamp (the ((at(q \<mapsto> t)) x)) \<le> maturity" by (cases "x = q") auto
  qed
  ultimately show ?thesis using q u d' le unfolding owes_def by (simp del: fun_upd_apply active_loans_set)
qed

lemma owes_first:
  assumes "owes bound at d" "u64 q" "at q = Some t" "q = db_next_unpaid_term_loan_seqno d"
  shows "active_loans d = q # [q + 1..<db_next_new_term_loan_seqno d]"
proof -
  have "q < db_next_new_term_loan_seqno d" using assms by (auto simp: owes_def)
  with assms(4) show ?thesis by (simp add: active_loans_def upt_conv_Cons)
qed

lemma owes_committed:
  assumes "owes bound at d" "u64 q" "at q = Some t" "q = db_next_unpaid_term_loan_seqno d"
  shows "db_committed d =
    tl_balance t + sum_list (map (\<lambda>x. tl_balance (the (at x))) [q + 1..<db_next_new_term_loan_seqno d])"
  using assms(1,3) owes_first [OF assms] by (simp add: owes_def)

lemma balances_later:
  assumes "\<And>x. x \<noteq> q \<Longrightarrow> at' x = at x"
  shows "map (\<lambda>x. f (the (at' x))) [q + 1..<n] = map (\<lambda>x. f (the (at x))) [q + 1..<n]"
  using assms by (intro map_cong) auto

lemma owes_partial:
  assumes "partially_repay_term_loan q amount d = Inr d'" "owes bound at d" "u64 q" "at q = Some t"
    and "amount \<le> tl_balance t"
  shows "owes bound (at(q \<mapsto> t\<lparr>tl_balance := tl_balance t - amount\<rparr>)) d'"
proof -
  let ?at = "at(q \<mapsto> t\<lparr>tl_balance := tl_balance t - amount\<rparr>)"
  from assms(1) have q: "q = db_next_unpaid_term_loan_seqno d"
    and d': "d' = d\<lparr>db_committed := db_committed d - amount\<rparr>"
    by (auto simp: partially_repay_term_loan_def split: if_splits)
  note first = owes_first [OF assms(2,3,4) q]
  have a: "active_loans d' = active_loans d" by (simp add: d' active_loans_def)
  have m: "tl_maturation_timestamp (the (?at x)) = tl_maturation_timestamp (the (at x))" for x
    using assms(4) by simp
  have old: "map (\<lambda>x. tl_balance (the (?at x))) [q + 1..<n] = map (\<lambda>x. tl_balance (the (at x))) [q + 1..<n]" for n
    by (rule balances_later) simp
  have "sum_list (map (\<lambda>x. tl_balance (the (?at x))) (active_loans d')) =
      tl_balance t - amount + sum_list (map (\<lambda>x. tl_balance (the (at x))) [q + 1..<db_next_new_term_loan_seqno d])"
    by (simp only: a first list.map sum_list.Cons old) simp
  then have "db_committed d' = sum_list (map (\<lambda>x. tl_balance (the (?at x))) (active_loans d'))"
    using owes_committed [OF assms(2,3,4) q] assms(5) by (simp only: d') simp
  moreover have "u64 x \<Longrightarrow> (?at x \<noteq> None) = (x \<in> set (active_loans d'))" for x
    using assms(2,3,4) unfolding a by (auto simp: owes_def)
  ultimately show ?thesis using assms(2) unfolding owes_def m a by (simp add: d' del: fun_upd_apply active_loans_set)
qed

lemma owes_full:
  assumes "fully_repay_term_loan q amount next d = Inr d'" "owes bound at d" "u64 q" "at q = Some t"
    and "amount = tl_balance t" and "\<And>l. next = Inr l \<Longrightarrow> tl_sequence_number l = q + 1 \<Longrightarrow> at (q + 1) = Some l"
  shows "owes bound (at(q := None)) d'"
proof -
  let ?n = "db_next_new_term_loan_seqno d" and ?at = "at(q := None)"
  from assms(1) have q: "q = db_next_unpaid_term_loan_seqno d"
    and d': "db_committed d' = db_committed d - amount" "db_next_unpaid_term_loan_seqno d' = q + 1"
      "db_next_new_term_loan_seqno d' = ?n"
    and nx: "q + 1 < ?n \<Longrightarrow> db_next_term_loan_maturity d' = tl_maturation_timestamp (the (at (q + 1)))"
    using assms(6) by (auto simp: fully_repay_term_loan_def Let_def split: if_splits)
  note first = owes_first [OF assms(2,3,4) q]
  have a: "active_loans d' = [q + 1..<?n]" by (simp add: active_loans_def d')
  have old: "map (\<lambda>x. f (the (?at x))) [q + 1..<?n] = map (\<lambda>x. f (the (at x))) [q + 1..<?n]" for f
    by (rule balances_later) simp
  have lt: "q < ?n" using assms(2,3,4) q by (auto simp: owes_def)
  have "db_committed d' = sum_list (map (\<lambda>x. tl_balance (the (?at x))) (active_loans d'))"
    using owes_committed [OF assms(2,3,4) q] assms(5) by (simp only: d'(1) a old)
  moreover have "sorted (map (\<lambda>x. tl_maturation_timestamp (the (?at x))) (active_loans d'))"
    using assms(2) by (simp only: a old) (simp add: owes_def first)
  moreover have "u64 x \<Longrightarrow> (?at x \<noteq> None) = (x \<in> set (active_loans d'))" for x
    using assms(2) lt q by (auto simp: a owes_def)
  moreover have "active_loans d' \<noteq> [] \<Longrightarrow>
      db_next_term_loan_maturity d' = tl_maturation_timestamp (the (?at (db_next_unpaid_term_loan_seqno d')))"
    using nx by (auto simp: a d')
  moreover have "\<forall>x \<in> set (active_loans d'). tl_maturation_timestamp (the (?at x)) \<le> bound"
    using assms(2) q by (auto simp: a owes_def)
  ultimately show ?thesis using assms(2) lt d' unfolding owes_def by (simp del: fun_upd_apply active_loans_set)
qed

subsection \<open>What an operation does to the loans of a user\<close>

definition loans_move ::
  "'l Runtime \<Rightarrow> Pubkey \<Rightarrow> int \<Rightarrow> Pubkey \<Rightarrow> Debt \<Rightarrow> Loans \<Rightarrow> Debt \<Rightarrow> Loans \<Rightarrow> bool" where
  "loans_move rt m bound uk d ls d' ls' \<longleftrightarrow>
     (wf_loans rt m ls \<longrightarrow> owes bound (\<lambda>q. ls (loan_key rt m uk q)) d \<longrightarrow>
        wf_loans rt m ls' \<and> owes bound (\<lambda>q. ls' (loan_key rt m uk q)) d' \<and>
        (\<forall>k t. ls' k = Some t \<longrightarrow> tl_margin_user t = uk \<or> ls k = Some t) \<and>
        (\<forall>k. ls' k \<noteq> ls k \<longrightarrow> (\<exists>q. u64 q \<and> k = loan_key rt m uk q)))"

lemma loans_move_pending [simp]:
  "loans_move rt m bound uk d ls (d\<lparr>db_pending := p\<rparr>) ls" "loans_move rt m bound uk d ls d ls"
  by (simp_all add: loans_move_def)

lemma loans_move_trans:
  "loans_move rt m bound uk d ls d' ls' \<Longrightarrow> loans_move rt m bound uk d' ls' d'' ls'' \<Longrightarrow>
     loans_move rt m bound uk d ls d'' ls''"
  unfolding loans_move_def by metis

text \<open>A change at the address of one number, seen through the addresses.\<close>

lemma owes_upd:
  assumes "loan_addresses rt m" "u64 q" "owes bound ((\<lambda>x. ls (loan_key rt m uk x))(q := l)) d"
  shows "owes bound (\<lambda>x. (ls(loan_key rt m uk q := l)) (loan_key rt m uk x)) d"
  using assms(3) by (rule owes_cong [rotated]) (use assms(1,2) in \<open>auto simp: loan_addresses_eq\<close>)

lemma loans_move_at:
  assumes "loan_addresses rt m" "u64 q"
    and "\<And>t. l = Some t \<Longrightarrow> tl_margin_user t = uk \<and> tl_sequence_number t = q"
    and "wf_loans rt m ls \<Longrightarrow> owes bound (\<lambda>x. ls (loan_key rt m uk x)) d \<Longrightarrow>
           owes bound ((\<lambda>x. ls (loan_key rt m uk x))(q := l)) d'"
  shows "loans_move rt m bound uk d ls d' (ls(loan_key rt m uk q := l))"
  unfolding loans_move_def
proof (intro impI conjI allI)
  assume w: "wf_loans rt m ls" "owes bound (\<lambda>q. ls (loan_key rt m uk q)) d"
  show "wf_loans rt m (ls(loan_key rt m uk q := l))"
    using w(1) assms(2,3) unfolding wf_loans_def by (auto split: if_split_asm)
  show "owes bound (\<lambda>x. (ls(loan_key rt m uk q := l)) (loan_key rt m uk x)) d'"
    using assms(1,2) assms(4) [OF w] by (rule owes_upd)
qed (use assms(2,3) in \<open>auto split: if_split_asm\<close>)

lemma loans_move_new:
  assumes "new_term_loan_without_posting amount bound d = Inr (d', q)" "loan_addresses rt m" "u64 q"
    and "tl_margin_user t = uk" "tl_sequence_number t = q" "tl_balance t = amount" "tl_maturation_timestamp t = bound"
  shows "loans_move rt m bound uk d ls d' (ls(loan_key rt m uk q \<mapsto> t))"
  using assms by (intro loans_move_at) (auto dest!: owes_new [where t = t])

lemma new_loan_u64: "new_term_loan_without_posting amount maturity d = Inr (d', q) \<Longrightarrow> u64 q"
  by (auto simp: new_term_loan_without_posting_def Let_def u_range_def split: if_splits)

lemma loans_move_partial:
  assumes "partially_repay_term_loan q amount d = Inr d'" "loan_addresses rt m"
    and "ls k = Some t" "tl_margin_user t = uk" "tl_sequence_number t = q" "amount \<le> tl_balance t"
  shows "loans_move rt m bound uk d ls d' (ls(k \<mapsto> t\<lparr>tl_balance := tl_balance t - amount\<rparr>))"
proof (cases "wf_loans rt m ls")
  case True
  with wf_loansD [OF this assms(3)] assms have "u64 q" "k = loan_key rt m uk q" by auto
  with assms show ?thesis by (auto intro!: loans_move_at owes_partial)
qed (simp add: loans_move_def)

lemma loans_move_full:
  assumes "fully_repay_term_loan q amount next d = Inr d'" "loan_addresses rt m"
    and "ls k = Some t" "tl_margin_user t = uk" "tl_sequence_number t = q" "amount = tl_balance t"
    and "\<And>l. next = Inr l \<Longrightarrow> tl_margin_user l = uk \<and> (\<exists>k'. ls k' = Some l)"
  shows "loans_move rt m bound uk d ls d' (ls(k := None))"
proof (cases "wf_loans rt m ls")
  case True
  with wf_loansD [OF this assms(3)] assms have k: "u64 q" "k = loan_key rt m uk q" by auto
  have "ls (loan_key rt m uk (q + 1)) = Some l" if "next = Inr l" "tl_sequence_number l = q + 1" for l
    using assms(7) [OF that(1)] wf_loansD [OF True] that(2) by fastforce
  with assms k show ?thesis by (auto intro!: loans_move_at owes_full)
qed (simp add: loans_move_def)

end
