(* ===== verification/FixedTermControl.thy ===== *)
theory FixedTermControl
  imports FixedTermCrank
begin

text \<open>
  The administration of the fixed-term markets: creating, pausing and configuring a market, cranks
  and fees (\<open>control/instructions\<close>), and the accounts of event adapters
  (\<open>orderbook/instructions/event_adapter\<close>).

  \<open>airspace\<close> and its key \<open>airspace_key\<close> are the airspace account of the instruction. The accounts that
  an instruction initializes are arguments \<open>existing\<close>, which must be \<open>None\<close>.
\<close>

definition check_airspace :: "'l Runtime \<Rightarrow> Pubkey \<Rightarrow> Airspace \<Rightarrow> unit ft_tx" where
  "check_airspace rt authority airspace =
     bindE (require_signer rt authority) (\<lambda>_. constraint (as_authority airspace = authority))"

subsection \<open>Creating a market\<close>

record InitializeMarketParams =
  ip_version_tag :: nat
  ip_seed :: string
  ip_borrow_tenor :: nat
  ip_lend_tenor :: nat
  ip_origination_fee :: nat

record InitializeMarketKeys =
  ik_market :: Pubkey
  ik_underlying_token_vault :: Pubkey
  ik_underlying_token_mint :: Pubkey
  ik_ticket_mint :: Pubkey
  ik_claims :: Pubkey
  ik_ticket_collateral :: Pubkey
  ik_underlying_collateral :: Pubkey
  ik_authority :: Pubkey
  ik_airspace :: Pubkey
  ik_underlying_oracle :: Pubkey
  ik_ticket_oracle :: Pubkey
  ik_fee_vault :: Pubkey
  ik_fee_destination :: Pubkey
  ik_payer :: Pubkey

definition market_pda :: "'l Runtime \<Rightarrow> string \<Rightarrow> Pubkey \<Rightarrow> Pubkey" where
  "market_pda rt tag market = pda rt [SeedBytes tag, SeedKey market]"

definition init_market_mint ::
  "'l Runtime \<Rightarrow> string \<Rightarrow> Pubkey \<Rightarrow> Pubkey \<Rightarrow> nat \<Rightarrow> 'l \<Rightarrow> 'l ft_tx" where
  "init_market_mint rt tag key market decimals l =
     bindE (constraint (key = market_pda rt tag market)) (\<lambda>_. create_mint rt key market decimals l)"

definition init_market_vault ::
  "'l Runtime \<Rightarrow> string \<Rightarrow> Pubkey \<Rightarrow> Pubkey \<Rightarrow> Pubkey \<Rightarrow> 'l \<Rightarrow> 'l ft_tx" where
  "init_market_vault rt tag key market mint l =
     bindE (constraint (key = market_pda rt tag market)) (\<lambda>_. create_token_account rt key mint market l)"

text \<open>The keys of the order book and the nonce are those of a zeroed account.\<close>

definition initialize_market_handler ::
  "'l Runtime \<Rightarrow> InitializeMarketKeys \<Rightarrow> InitializeMarketParams \<Rightarrow> Airspace \<Rightarrow> Market option \<Rightarrow> 'l \<Rightarrow>
     (Market \<times> FtEvent \<times> 'l) ft_tx" where
  "initialize_market_handler rt k p airspace existing l =
     (let key = ik_market k; mint = ik_underlying_token_mint k;
          seeds = [SeedBytes ''market'', SeedKey (ik_airspace k), SeedKey mint, SeedBytes (ip_seed p)] in
      bindE (require_signer rt (ik_payer k)) (\<lambda>_.
      bindE (constraint (existing = None \<and> key = pda rt seeds)) (\<lambda>_.
      bindE (load_mint rt l mint) (\<lambda>token.
      bindE (init_market_vault rt ''underlying_token_vault'' (ik_underlying_token_vault k) key mint l) (\<lambda>l.
      bindE (init_market_mint rt ''ticket_mint'' (ik_ticket_mint k) key (mint_decimals token) l) (\<lambda>l.
      bindE (init_market_mint rt ''claim_notes'' (ik_claims k) key (mint_decimals token) l) (\<lambda>l.
      bindE (init_market_mint rt ''ticket_collateral_notes'' (ik_ticket_collateral k) key (mint_decimals token) l) (\<lambda>l.
      bindE (init_market_mint rt ''underlying_collateral_notes'' (ik_underlying_collateral k) key
               (mint_decimals token) l) (\<lambda>l.
      bindE (check_airspace rt (ik_authority k) airspace) (\<lambda>_.
      bindE (init_market_vault rt ''fee_vault'' (ik_fee_vault k) key mint l) (\<lambda>l.
      bindE (load_token_account rt l (ik_fee_destination k)) (\<lambda>t.
      bindE (constraint (ta_mint t = mint)) (\<lambda>_.
      let m = \<lparr>mk_address = key, mk_version_tag = ip_version_tag p, mk_airspace = ik_airspace k,
               mk_orderbook_market_state = pubkey_default, mk_event_queue = pubkey_default,
               mk_asks = pubkey_default, mk_bids = pubkey_default, mk_underlying_token_mint = mint,
               mk_underlying_token_vault = ik_underlying_token_vault k, mk_ticket_mint = ik_ticket_mint k,
               mk_claims_mint = ik_claims k, mk_ticket_collateral_mint = ik_ticket_collateral k,
               mk_underlying_collateral_mint = ik_underlying_collateral k,
               mk_underlying_oracle = ik_underlying_oracle k, mk_ticket_oracle = ik_ticket_oracle k,
               mk_fee_vault = ik_fee_vault k, mk_fee_destination = ik_fee_destination k, mk_seed = ip_seed p,
               mk_bump = snd (rt_find_address rt seeds), mk_orderbook_paused = False, mk_tickets_paused = False,
               mk_borrow_tenor = ip_borrow_tenor p, mk_lend_tenor = ip_lend_tenor p,
               mk_origination_fee = ip_origination_fee p, mk_nonce = 0\<rparr> in
      Inr (m, MarketInitialized (ip_version_tag p) key (ik_airspace k) mint (ik_underlying_oracle k)
                (ik_ticket_oracle k) (ip_borrow_tenor p) (ip_lend_tenor p), l))))))))))))))"

definition TICK_SIZE :: nat where "TICK_SIZE = 1"

record InitializeOrderbookKeys =
  oi_orderbook_market_state :: Pubkey
  oi_event_queue :: Pubkey
  oi_bids :: Pubkey
  oi_asks :: Pubkey
  oi_authority :: Pubkey
  oi_airspace :: Pubkey
  oi_payer :: Pubkey

text \<open>
  \<open>state_exists\<close>: the account of the order book's state exists already; \<open>zeroed\<close>: the queue and the
  two slabs belong to the program and are not initialized.
\<close>

definition initialize_orderbook_handler ::
  "'l Runtime \<Rightarrow> 'b Engine \<Rightarrow> InitializeOrderbookKeys \<Rightarrow> nat \<Rightarrow> Airspace \<Rightarrow> bool \<Rightarrow> bool \<Rightarrow> Market \<Rightarrow>
     (Market \<times> 'b \<times> FtEvent) ft_tx" where
  "initialize_orderbook_handler rt en k min_base_order_size airspace state_exists zeroed m =
     bindE (constraint (mk_airspace m = oi_airspace k)) (\<lambda>_.
     bindE (require_signer rt (oi_payer k)) (\<lambda>_.
     bindE (constraint (\<not> state_exists \<and>
              oi_orderbook_market_state k = market_pda rt ''orderbook_market_state'' (mk_address m))) (\<lambda>_.
     bindE (constraint zeroed) (\<lambda>_.
     bindE (check_airspace rt (oi_authority k) airspace) (\<lambda>_.
     let m = m\<lparr>mk_orderbook_market_state := oi_orderbook_market_state k, mk_event_queue := oi_event_queue k,
               mk_asks := oi_asks k, mk_bids := oi_bids k\<rparr> in
     bindE (ok_or (en_create en min_base_order_size TICK_SIZE) AdapterErr) (\<lambda>b.
     Inr (m, b, OrderbookInitialized (mk_address m) (mk_orderbook_market_state m) (mk_event_queue m) (mk_bids m)
                  (mk_asks m) min_base_order_size TICK_SIZE)))))))"

subsection \<open>Pausing and resuming\<close>

definition pause_order_matching_handler ::
  "'l Runtime \<Rightarrow> 'b Engine \<Rightarrow> Pubkey \<Rightarrow> Pubkey \<Rightarrow> Pubkey \<Rightarrow> Airspace \<Rightarrow> ('b, 'l) MarketState \<Rightarrow>
     ('b, 'l) MarketState ft_tx" where
  "pause_order_matching_handler rt en orderbook_market_state authority airspace_key airspace s =
     (let m = ms_market s in
      bindE (constraint (mk_orderbook_market_state m = orderbook_market_state \<and> mk_airspace m = airspace_key)) (\<lambda>_.
      bindE (check_airspace rt authority airspace) (\<lambda>_.
      bindE (ok_or (en_pause en (ms_book s)) AdapterErr) (\<lambda>b.
      Inr (emit_event (ToggleOrderMatching (mk_address m) True) (s\<lparr>ms_book := b\<rparr>))))))"

text \<open>Matching the crossed orders can take several calls; the event says that it is done.\<close>

definition resume_order_matching_handler ::
  "'l Runtime \<Rightarrow> 'b Engine \<Rightarrow> OrderbookKeys \<Rightarrow> Pubkey \<Rightarrow> Pubkey \<Rightarrow> Airspace \<Rightarrow> ('b, 'l) MarketState \<Rightarrow>
     ('b, 'l) MarketState ft_tx" where
  "resume_order_matching_handler rt en k authority airspace_key airspace s =
     (let m = ms_market s in
      bindE (constraint (mk_airspace m = airspace_key \<and> mk_orderbook_market_state m = obk_orderbook_market_state k \<and>
               mk_bids m = obk_bids k \<and> mk_asks m = obk_asks k \<and> mk_event_queue m = obk_event_queue k)) (\<lambda>_.
      bindE (check_airspace rt authority airspace) (\<lambda>_.
      bindE (ok_or (en_resume en (ms_book s)) AdapterErr) (\<lambda>b.
      let s = s\<lparr>ms_book := b\<rparr> in
      Inr (if en_matching_paused en b then s else emit_event (ToggleOrderMatching (mk_address m) False) s)))))"

subsection \<open>Configuration, cranks and fees\<close>

text \<open>Only a build with the feature \<open>testing\<close>, which is not modelled, writes \<open>data\<close> at \<open>offset\<close>.\<close>

definition modify_market_handler ::
  "'l Runtime \<Rightarrow> Pubkey \<Rightarrow> Pubkey \<Rightarrow> Airspace \<Rightarrow> string \<Rightarrow> nat \<Rightarrow> Market \<Rightarrow> Market ft_tx" where
  "modify_market_handler rt authority airspace_key airspace data offset m =
     bindE (constraint (mk_airspace m = airspace_key)) (\<lambda>_.
     bindE (check_airspace rt authority airspace) (\<lambda>_. Inr m))"

definition authorize_crank_handler ::
  "'l Runtime \<Rightarrow> Pubkey \<Rightarrow> Pubkey \<Rightarrow> Pubkey \<Rightarrow> Pubkey \<Rightarrow> Airspace \<Rightarrow> Pubkey \<Rightarrow> CrankAuthorization option \<Rightarrow> Market \<Rightarrow>
     CrankAuthorization ft_tx" where
  "authorize_crank_handler rt crank key authority airspace_key airspace payer existing m =
     bindE (require_signer rt payer) (\<lambda>_.
     bindE (constraint (existing = None \<and>
              key = pda rt [SeedBytes ''crank_authorization'', SeedKey (mk_address m), SeedKey crank])) (\<lambda>_.
     bindE (constraint (mk_airspace m = airspace_key)) (\<lambda>_.
     bindE (check_airspace rt authority airspace) (\<lambda>_.
     Inr \<lparr>ca_crank = crank, ca_airspace = airspace_key, ca_market = mk_address m\<rparr>))))"

text \<open>Closes the authorization; nothing is left of it.\<close>

definition revoke_crank_handler ::
  "'l Runtime \<Rightarrow> Pubkey \<Rightarrow> Pubkey \<Rightarrow> Airspace \<Rightarrow> CrankAuthorization \<Rightarrow> CrankAuthorization option ft_tx" where
  "revoke_crank_handler rt authority airspace_key airspace auth =
     bindE (constraint (ca_airspace auth = airspace_key)) (\<lambda>_.
     bindE (check_airspace rt authority airspace) (\<lambda>_. Inr None))"

definition withdraw_fees_handler ::
  "'l Runtime \<Rightarrow> Pubkey \<Rightarrow> Pubkey \<Rightarrow> ('b, 'l) MarketState \<Rightarrow> ('b, 'l) MarketState ft_tx" where
  "withdraw_fees_handler rt fee_dest fee_vault s =
     bindE (constraint (mk_fee_destination (ms_market s) = fee_dest \<and> mk_fee_vault (ms_market s) = fee_vault)) (\<lambda>_.
     bindE (load_token_account rt (ms_ledger s) fee_vault) (\<lambda>t.
     bindE (market_withdraw rt fee_vault fee_dest (ta_amount t) s) (\<lambda>s.
     Inr (emit_event (FeesWithdrawn (mk_address (ms_market s)) fee_dest (ta_amount t)) s))))"

subsection \<open>Event adapters\<close>

record EventAdapterMetadata =
  am_owner :: Pubkey
  am_market :: Pubkey
  am_orderbook_user :: Pubkey

definition register_adapter_handler ::
  "'l Runtime \<Rightarrow> Pubkey \<Rightarrow> Pubkey \<Rightarrow> Pubkey \<Rightarrow> Pubkey \<Rightarrow> EventAdapterMetadata option \<Rightarrow>
     (EventAdapterMetadata \<times> FtEvent) ft_tx" where
  "register_adapter_handler rt key market owner payer existing =
     bindE (require_signer rt payer) (\<lambda>_.
     bindE (constraint (existing = None \<and>
              key = pda rt [SeedBytes ''event_adapter'', SeedKey market, SeedKey owner])) (\<lambda>_.
     bindE (require_signer rt owner) (\<lambda>_.
     Inr (\<lparr>am_owner = owner, am_market = market, am_orderbook_user = pubkey_default\<rparr>,
          EventAdapterRegistered market owner key))))"

text \<open>The account is loaded as one of the program's, and then as one that is not.\<close>

definition pop_adapter_events_handler ::
  "'l Runtime \<Rightarrow> Pubkey \<Rightarrow> EventAdapterMetadata \<Rightarrow> nat \<Rightarrow> AdapterAccount \<Rightarrow> AdapterAccount ft_tx" where
  "pop_adapter_events_handler rt owner meta num_events a =
     bindE (constraint (eq_owned_by_program (ad_queue a) \<and> ad_discriminator_ok a \<and> ad_is_writable a)) (\<lambda>_.
     bindE (constraint (am_owner meta = owner)) (\<lambda>_.
     bindE (require_signer rt owner) (\<lambda>_.
     bindE (lift_tx (deserialize_user_adapter (ad_queue a))) (\<lambda>q.
     bindE (lift_tx (pop_events num_events q)) (\<lambda>q. Inr (a\<lparr>ad_queue := q\<rparr>))))))"

end
