(* ===== verification/FixedTermSample.thy ===== *)
theory FixedTermSample
  imports FixedTermControl
begin

text \<open>
  A small fixed-term market, on which the witnesses run: every call of the token program succeeds, and the
  order book fills every order.
\<close>

subsection \<open>The market\<close>

fun plain_address :: "Seed list \<Rightarrow> Pubkey" where
  "plain_address [SeedBytes b, SeedKey m, SeedKey u, SeedInt q] = 1000 + u * 2 ^ 64 + q"
| "plain_address [SeedBytes b, SeedKey u] = 100 + length b"
| "plain_address _ = 7"

definition plain_runtime :: "unit Runtime" where
  "plain_runtime = \<lparr>rt_account = (\<lambda>_ _. None), rt_mint = (\<lambda>_ _. None), rt_invoke = (\<lambda>_ _ l. Some l),
     rt_create = (\<lambda>_ _ l. Some l), rt_create_mint = (\<lambda>_ _ l. Some l), rt_signer_address = (\<lambda>_. 2),
     rt_find_address = (\<lambda>s. (plain_address s, 255)), rt_signers = [], rt_clock = 0\<rparr>"

text \<open>An order book that fills every order of 100 tokens for 110 tickets.\<close>

definition filling_engine :: "unit Engine" where
  "filling_engine = \<lparr>en_new_order = (\<lambda>p b. Some (\<lparr>os_posted_order_id = None, os_total_base_qty = 110,
        os_total_quote_qty = 100, os_total_base_qty_posted = 0\<rparr>, b)),
     en_side_of = (\<lambda>_. Ask), en_find = (\<lambda>_ _ _. None), en_cancel = (\<lambda>_ _. None), en_push_out = (\<lambda>_ _ _. None),
     en_queue = (\<lambda>_. \<lparr>eq_owned_by_program = True, eq_head = 0, eq_count = 0, eq_capacity = 1, eq_events = [], eq_callbacks = []\<rparr>),
     en_consume = (\<lambda>_ b. Some b), en_create = (\<lambda>_ _. Some ()), en_pause = Some, en_resume = Some,
     en_matching_paused = (\<lambda>_. False), en_tag = (\<lambda>_ _ _. 0)\<rparr>"

definition plain_market :: Market where
  "plain_market = \<lparr>mk_address = 2, mk_version_tag = 0, mk_airspace = 2, mk_orderbook_market_state = 3, mk_event_queue = 3,
     mk_asks = 3, mk_bids = 3, mk_underlying_token_mint = 4, mk_underlying_token_vault = 5, mk_ticket_mint = 6,
     mk_claims_mint = 8, mk_ticket_collateral_mint = 9, mk_underlying_collateral_mint = 10, mk_underlying_oracle = 0,
     mk_ticket_oracle = 0, mk_fee_vault = 12, mk_fee_destination = 13, mk_seed = '''', mk_bump = 0,
     mk_orderbook_paused = False, mk_tickets_paused = False, mk_borrow_tenor = 50, mk_lend_tenor = 50,
     mk_origination_fee = 0, mk_nonce = 0\<rparr>"

definition plain_user :: MarginUser where
  "plain_user = margin_user_new MARGIN_USER_VERSION 20 2 111 123 127"

definition plain_state :: "(unit, unit) MarketState" where
  "plain_state = \<lparr>ms_market = plain_market, ms_book = (), ms_ledger = (), ms_events = []\<rparr>"

definition plain_join :: InitUserKeys where
  "plain_join = \<lparr>iu_margin_user = 7, iu_margin_account = 20, iu_claims = 111, iu_claims_mint = 8,
     iu_ticket_collateral = 123, iu_ticket_collateral_mint = 9, iu_underlying_collateral = 127,
     iu_underlying_collateral_mint = 10, iu_payer = 20\<rparr>"

definition invoked_account :: MarginAccount where
  "invoked_account = empty_account\<lparr>ma_invocation := 3, ma_airspace := 2\<rparr>"

definition plain_borrow :: BorrowKeys where
  "plain_borrow = \<lparr>bk_margin_account = 20, bk_margin_user = 7, bk_term_loan = 1000 + 7 * 2 ^ 64, bk_claims = 111,
     bk_claims_mint = 8, bk_underlying_collateral = 127, bk_underlying_collateral_mint = 10,
     bk_underlying_token_vault = 5, bk_fee_vault = 12, bk_underlying_settlement = 14, bk_payer = 20\<rparr>"

definition plain_params :: OrderParams where
  "plain_params = \<lparr>op_max_ticket_qty = 110, op_max_underlying_token_qty = 100, op_limit_price = 5, op_match_limit = 10,
     op_post_only = False, op_post_allowed = False, op_auto_stake = False, op_auto_roll = False\<rparr>"

definition plain_orderbook :: OrderbookKeys where
  "plain_orderbook = \<lparr>obk_orderbook_market_state = 3, obk_event_queue = 3, obk_bids = 3, obk_asks = 3,
     obk_state_owned_by_program = True\<rparr>"

definition plain_user_state :: "(unit, unit) UserState" where
  "plain_user_state = \<lparr>ms_market = plain_market, ms_book = (), ms_ledger = (), ms_events = [], us_user = plain_user\<rparr>"

definition plain_loan :: TermLoan where
  "plain_loan = \<lparr>tl_sequence_number = 0, tl_margin_user = 7, tl_market = 2, tl_payer = 20, tl_order_tag = 0,
     tl_maturation_timestamp = 70, tl_strike_timestamp = 20, tl_principal = 100, tl_interest = 10, tl_balance = 110,
     tl_flags = no_loan_flags\<rparr>"

definition plain_debt :: Debt where
  "plain_debt = \<lparr>db_next_new_term_loan_seqno = 1, db_next_unpaid_term_loan_seqno = 0, db_next_term_loan_maturity = 70,
     db_pending = 0, db_committed = 110\<rparr>"

subsection \<open>Joining the market and borrowing\<close>

lemmas sample_defs = plain_state_def plain_market_def plain_join_def plain_runtime_def instruction_def plain_user_def
  plain_user_state_def plain_borrow_def plain_orderbook_def plain_params_def filling_engine_def plain_loan_def plain_debt_def
  margin_user_new_def default_assets_def default_debt_def no_loan_flags_def

lemmas step_defs = Let_def require_signer_def pda_def term_loan_seeds_def market_signer_def token_cpi_signed_def
  market_cpi_def market_mint_def market_withdraw_def emit_event_def u_range_def i_range_def wrap_i_def
  safe_add_def safe_sub_def checked_add_def checked_sub_def checked_mul_def try_into_u64_def unwrap_def FP32_ONE_def

lemmas order_defs = check_borrow_keys_def check_orderbook_def maybe_next_adapter_def add_origination_fee_def
  market_borrow_order_qty_def borrow_order_qty_def borrow_callback_flags_def place_margin_order_def place_order_def
  generate_from_market_def as_new_order_params_def adapter_key_def quote_posted_def quote_filled_def base_posted_def
  base_filled_def quote_from_base_def fp32_mul_floor_def

lemmas user_defs = on_user_def post_borrow_order_def on_assets_def add_tokens_posted_def on_debt_def
  debt_post_borrow_order_def taker_fill_borrow_order_def new_term_loan_without_posting_def market_loan_to_disburse_def
  loan_to_disburse_def emit_debt_balances_def debt_updated_def debt_total_def outstanding_term_loans_def
  user_is_past_due_def debt_is_past_due_def next_term_loan_to_repay_def derive_address_def

lemma invoked: "return_to_margin 2 invoked_account r = Inr r"
proof -
  have "(case verify_directly_invoked 2 (ma_invocation invoked_account) of Inr u \<Rightarrow> True | _ \<Rightarrow> False)" by code_simp
  then obtain u where "verify_directly_invoked 2 (ma_invocation invoked_account) = Inr u" by (auto split: sum.splits)
  then show ?thesis by (simp add: return_to_margin_def write_adapter_result_def)
qed

lemma plain_joined:
  obtains r s' where "initialize_margin_user_handler (instruction plain_runtime [20] 10) 2 plain_join invoked_account None
    plain_state = Inr (plain_user, r, s')"
proof -
  have "case initialize_margin_user_handler (instruction plain_runtime [20] 10) 2 plain_join invoked_account None plain_state of
     Inr (u, r, s') \<Rightarrow> u = plain_user | _ \<Rightarrow> False"
    by code_simp
  with that show ?thesis by (auto split: sum.splits)
qed

lemma plain_borrowed:
  obtains r s' where "us_user s' = plain_user\<lparr>mu_debt := plain_debt\<rparr>"
    "margin_borrow_order_handler (instruction plain_runtime [20] 20) filling_engine (\<lambda>_ _. 14) 2 plain_orderbook plain_borrow
       plain_params None None invoked_account plain_user_state = Inr (Some plain_loan, r, s')"
proof -
  have "case margin_borrow_order_handler (instruction plain_runtime [20] 20) filling_engine (\<lambda>_ _. 14) 2 plain_orderbook
       plain_borrow plain_params None None invoked_account plain_user_state of
     Inr (l, r, s') \<Rightarrow> l = Some plain_loan \<and> us_user s' = plain_user\<lparr>mu_debt := plain_debt\<rparr> | _ \<Rightarrow> False"
    unfolding margin_borrow_order_handler_def borrow_order_def borrow_handle_posted_def borrow_handle_filled_def
    by (simp del: bindE_Inr_iff add: sample_defs step_defs order_defs user_defs invoked)
  with that show ?thesis by (auto split: sum.splits)
qed

end
