(* ===== verification/EventQueues.thy ===== *)
theory EventQueues
  imports FixedTermOrders
begin

text \<open>
  The ring buffer of order book events refines a queue: the abstraction lists the entries from the
  oldest to the newest, pushing appends, popping drops from the front, the iterator yields them in
  order. A push does not check for room; on a full buffer it overwrites the oldest entry.
\<close>

type_synonym Entry = "GenericEvent \<times> CallbackInfo \<times> CallbackInfo"

locale fifo =
  fixes invar :: "'q \<Rightarrow> bool" and entries :: "'q \<Rightarrow> 'e list" and room :: "'q \<Rightarrow> nat"
    and push :: "'e \<Rightarrow> 'q \<Rightarrow> 'q ft_res" and pop :: "nat \<Rightarrow> 'q \<Rightarrow> 'q ft_res"
    and items :: "nat \<Rightarrow> 'q \<Rightarrow> 'v list ft_res" and decode :: "'e \<Rightarrow> 'v"
  assumes push_law: "invar q \<Longrightarrow> 0 < room q \<Longrightarrow>
      \<exists>q'. push e q = Inr q' \<and> invar q' \<and> entries q' = entries q @ [e] \<and> Suc (room q') = room q"
    and pop_law: "invar q \<Longrightarrow> \<exists>q'. pop n q = Inr q' \<and> invar q' \<and> entries q' = drop n (entries q) \<and>
      room q' = room q + min n (length (entries q))"
    and items_law: "invar q \<Longrightarrow> items n q = Inr (map decode (take n (entries q)))"

context fifo begin

lemma push_all:
  assumes "invar q" "length es \<le> room q"
  shows "\<exists>q'. foldE push es q = Inr q' \<and> invar q' \<and> entries q' = entries q @ es"
  using assms
proof (induction es arbitrary: q)
  case (Cons e es)
  from push_law [of q e] Cons.prems obtain u where u: "push e q = Inr u" "invar u" "entries u = entries q @ [e]"
    "Suc (room u) = room q" by auto
  from Cons.IH [of u] Cons.prems u obtain v where "foldE push es u = Inr v" "invar v" "entries v = entries u @ es" by auto
  with u show ?case by auto
qed simp

text \<open>What is pushed on an empty queue comes back in order, and a pop removes what was read.\<close>

lemma read_then_pop:
  assumes "invar q" "n \<le> length (entries q)"
  shows "\<exists>q'. pop n q = Inr q' \<and> bindE (items n q) (\<lambda>a. bindE (items m q') (\<lambda>b. Inr (a @ b))) = items (n + m) q"
proof -
  from pop_law [OF assms(1), of n] obtain q' where "pop n q = Inr q'" "invar q'" "entries q' = drop n (entries q)" by auto
  with assms show ?thesis by (auto simp: items_law take_add)
qed

end

definition slot :: "EventQueue \<Rightarrow> nat \<Rightarrow> Entry" where
  "slot q i = (eq_events q ! i, eq_callbacks q ! (2 * i), eq_callbacks q ! (2 * i + 1))"

definition wf_queue :: "EventQueue \<Rightarrow> bool" where
  "wf_queue q \<longleftrightarrow> 0 < eq_capacity q \<and> eq_capacity q < 2 ^ 63 \<and> length (eq_events q) = eq_capacity q \<and>
     length (eq_callbacks q) = 2 * eq_capacity q \<and> eq_head q < eq_capacity q \<and> eq_count q \<le> eq_capacity q"

definition queue_entries :: "EventQueue \<Rightarrow> Entry list" where
  "queue_entries q = map (\<lambda>k. slot q ((eq_head q + k) mod eq_capacity q)) [0..<eq_count q]"

fun decode_entry :: "Entry \<Rightarrow> OrderbookEvent" where
  "decode_entry (FillEntry f, maker, taker) = FillInfo f (user_callback_info maker) (user_callback_info taker)"
| "decode_entry (OutEntry e, maker, taker) = OutInfo e (user_callback_info maker)"

definition push_entry :: "Entry \<Rightarrow> EventQueue \<Rightarrow> EventQueue ft_res" where
  "push_entry = (\<lambda>(e, maker, taker). push_event e (Some maker) (Some taker))"

lemma length_queue_entries [simp]: "length (queue_entries q) = eq_count q"
  by (simp add: queue_entries_def)

lemma store_load_Inr [simp]:
  "store_at xs i x = Inr ys \<longleftrightarrow> i < length xs \<and> ys = xs[i := x]"
  "load_at xs i = Inr y \<longleftrightarrow> i < length xs \<and> y = xs ! i"
  by (auto simp: store_at_def load_at_def)

lemma mod_shift_less:
  fixes h i j m :: nat
  assumes "i < j" "j < m"
  shows "(h + i) mod m \<noteq> (h + j) mod m"
proof
  assume "(h + i) mod m = (h + j) mod m"
  then have "m dvd h + j - (h + i)" using assms by (metis mod_eq_dvd_iff_nat add_le_cancel_left less_imp_le)
  then have "m dvd j - i" by simp
  with assms show False by (auto dest: dvd_imp_le)
qed

lemma mod_shift_inj: "(h + i) mod m = (h + j) mod m \<Longrightarrow> i < m \<Longrightarrow> j < m \<Longrightarrow> i = j" for h i j m :: nat
  by (metis mod_shift_less linorder_neqE_nat)

lemma callback_slots_differ: "i \<noteq> j \<Longrightarrow> 2 * i \<noteq> j * 2 \<and> 2 * i \<noteq> j * 2 + 1 \<and> 2 * i + 1 \<noteq> j * 2 \<and> 2 * i + 1 \<noteq> j * 2 + 1"
  for i j :: nat
  by presburger

lemma queue_entries_nth: "k < eq_count q \<Longrightarrow> queue_entries q ! k = slot q ((eq_head q + k) mod eq_capacity q)"
  by (simp add: queue_entries_def)

lemma push_entry_refines:
  assumes "wf_queue q" "eq_count q < eq_capacity q"
  shows "\<exists>q'. push_entry e q = Inr q' \<and> wf_queue q' \<and> queue_entries q' = queue_entries q @ [e] \<and>
    eq_capacity q' = eq_capacity q \<and> eq_count q' = Suc (eq_count q)"
proof -
  obtain x maker taker where e: "e = (x, maker, taker)" by (cases e)
  let ?i = "(eq_head q + eq_count q) mod eq_capacity q"
  let ?q = "q\<lparr>eq_events := (eq_events q)[?i := x], eq_count := eq_count q + 1,
    eq_callbacks := (eq_callbacks q)[?i * 2 := maker, ?i * 2 + 1 := taker]\<rparr>"
  have i: "?i < eq_capacity q" using assms by (simp add: wf_queue_def)
  have r: "u64 (eq_head q + eq_count q)" "u64 (eq_count q + 1)" using assms by (auto simp: wf_queue_def u_range_def)
  have l: "length (eq_events q) = eq_capacity q" "length (eq_callbacks q) = 2 * eq_capacity q"
    using assms by (simp_all add: wf_queue_def)
  have s: "?i < length (eq_events q)" "?i * 2 < length (eq_callbacks q)" "?i * 2 + 1 < length (eq_callbacks q)"
    unfolding l using i by linarith+
  have push: "push_entry e q = Inr ?q"
    using assms r s by (simp add: e push_entry_def push_event_def plain_rem_def wf_queue_def store_at_def store_callback_def)
  have new: "slot ?q ?i = e" using s by (simp add: slot_def e mult.commute)
  have old: "slot ?q ((eq_head q + k) mod eq_capacity q) = slot q ((eq_head q + k) mod eq_capacity q)"
    if "k < eq_count q" for k
  proof -
    let ?j = "(eq_head q + k) mod eq_capacity q"
    have "?j \<noteq> ?i" using mod_shift_less [of k "eq_count q" "eq_capacity q"] that assms(2) by metis
    with callback_slots_differ [of ?j ?i] show ?thesis by (simp add: slot_def)
  qed
  have "queue_entries ?q = map (\<lambda>k. slot ?q ((eq_head q + k) mod eq_capacity q)) [0..<eq_count q] @ [slot ?q ?i]"
    by (simp add: queue_entries_def)
  also have "map (\<lambda>k. slot ?q ((eq_head q + k) mod eq_capacity q)) [0..<eq_count q] = queue_entries q"
    unfolding queue_entries_def using old by (intro map_cong) simp_all
  finally have "queue_entries ?q = queue_entries q @ [e]" by (simp only: new)
  moreover have "wf_queue ?q" using assms by (simp add: wf_queue_def)
  ultimately show ?thesis using push by (intro exI [of _ ?q]) simp
qed

lemma pop_events_refines:
  assumes "wf_queue q"
  shows "\<exists>q'. pop_events n q = Inr q' \<and> wf_queue q' \<and> queue_entries q' = drop n (queue_entries q) \<and>
    eq_capacity q' = eq_capacity q \<and> eq_count q' = eq_count q - min n (eq_count q)"
proof -
  let ?c = "min (eq_count q) n"
  let ?h = "(eq_head q + ?c) mod eq_capacity q"
  let ?q = "q\<lparr>eq_count := eq_count q - ?c, eq_head := ?h\<rparr>"
  have r: "u64 (eq_head q + ?c)" "u64 (eq_count q)" using assms by (auto simp: wf_queue_def u_range_def)
  have pop: "pop_events n q = Inr ?q" using assms r by (simp add: pop_events_def plain_rem_def wf_queue_def Let_def)
  have "queue_entries ?q = drop ?c (queue_entries q)"
  proof (rule nth_equalityI)
    fix k assume "k < length (queue_entries ?q)"
    then have k: "k < eq_count ?q" "?c + k < eq_count q" by auto
    have "slot ?q i = slot q i" for i by (simp add: slot_def)
    with k show "queue_entries ?q ! k = drop ?c (queue_entries q) ! k"
      by (simp add: queue_entries_nth mod_add_left_eq add.assoc)
  qed simp
  also have "\<dots> = drop n (queue_entries q)" by (simp add: min_def)
  finally have "queue_entries ?q = drop n (queue_entries q)" .
  moreover have "wf_queue ?q" using assms by (auto simp: wf_queue_def)
  ultimately show ?thesis using pop by (intro exI [of _ ?q]) (simp add: min.commute)
qed

lemma get_event_slot:
  assumes "wf_queue q" "i < eq_capacity q"
  shows "get_event i q = Inr (decode_entry (slot q i))"
proof -
  have s: "i < length (eq_events q)" "2 * i < length (eq_callbacks q)" "2 * i + 1 < length (eq_callbacks q)"
    using assms by (auto simp: wf_queue_def)
  then show ?thesis by (cases "eq_events q ! i") (simp_all add: get_event_def slot_def load_at_def)
qed

lemma queue_items_from:
  assumes "wf_queue q"
  shows "queue_items n k q = Inr (map decode_entry (take n (drop k (queue_entries q))))"
proof (induction n arbitrary: k)
  case (Suc n)
  show ?case
  proof (cases "k < eq_count q")
    case True
    let ?i = "(eq_head q + k) mod eq_capacity q"
    have r: "u64 (eq_head q + k)" "?i < eq_capacity q" using assms True by (auto simp: wf_queue_def u_range_def)
    have "drop k (queue_entries q) = slot q ?i # drop (Suc k) (queue_entries q)"
      using True by (subst Cons_nth_drop_Suc [symmetric]) (simp_all add: queue_entries_def)
    then show ?thesis using True r assms get_event_slot [OF assms r(2)] Suc.IH [of "Suc k"]
      by (simp add: plain_rem_def wf_queue_def)
  next
    case False
    then show ?thesis by simp
  qed
qed simp

interpretation eq: fifo wf_queue queue_entries "\<lambda>q. eq_capacity q - eq_count q" push_entry pop_events
  "\<lambda>n. queue_items n 0" decode_entry
proof unfold_locales
  fix q e assume q: "wf_queue q" "0 < eq_capacity q - eq_count q"
  then show "\<exists>q'. push_entry e q = Inr q' \<and> wf_queue q' \<and> queue_entries q' = queue_entries q @ [e] \<and>
      Suc (eq_capacity q' - eq_count q') = eq_capacity q - eq_count q"
    using push_entry_refines [of q e] by fastforce
next
  fix q n assume q: "wf_queue q"
  then have "eq_count q \<le> eq_capacity q" by (simp add: wf_queue_def)
  with pop_events_refines [OF q, of n]
  show "\<exists>q'. pop_events n q = Inr q' \<and> wf_queue q' \<and> queue_entries q' = drop n (queue_entries q) \<and>
      eq_capacity q' - eq_count q' = eq_capacity q - eq_count q + min n (length (queue_entries q))"
    by (auto simp: min_def)
qed (simp add: queue_items_from)

text \<open>
  C12: The event queue refines a first-in first-out queue: on a well-formed buffer with room for
  them, events and their callback information are pushed in order, the iterator yields the
  oldest first, decoded by their tag, and popping \<open>n\<close> events removes exactly the first \<open>n\<close>.
\<close>

theorem event_queue_refines_fifo:
  assumes "wf_queue q" "eq_count q + length es \<le> eq_capacity q"
  shows "\<exists>u v. foldE push_entry es q = Inr u \<and>
    queue_items n 0 u = Inr (map decode_entry (take n (queue_entries q @ es))) \<and>
    pop_events n u = Inr v \<and> wf_queue v \<and> queue_entries v = drop n (queue_entries q @ es)"
proof -
  have "length es \<le> eq_capacity q - eq_count q" using assms(2) by simp
  from eq.push_all [OF assms(1) this] obtain u where u: "foldE push_entry es q = Inr u" "wf_queue u"
    "queue_entries u = queue_entries q @ es" by blast
  from eq.pop_law [OF u(2), of n] obtain v where "pop_events n u = Inr v" "wf_queue v"
    "queue_entries v = drop n (queue_entries u)" by blast
  with u eq.items_law [OF u(2), of n] show ?thesis by auto
qed

definition sample_callback :: CallbackInfo where
  "sample_callback = \<lparr>cb_order_tag = 1, cb_signer_or_margin_account = 2, cb_ticket_account = 3,
     cb_token_or_margin_user_account = 4, cb_adapter_account_key = 0, cb_order_submitted = 5,
     cb_flags = no_callback_flags\<rparr>"

definition sample_entry :: "nat \<Rightarrow> Entry" where
  "sample_entry n = (OutEntry \<lparr>oe_side = Bid, oe_base_size = n, oe_order_id = n\<rparr>, sample_callback, sample_callback)"

definition sample_queue :: EventQueue where
  "sample_queue = \<lparr>eq_owned_by_program = True, eq_head = 1, eq_count = 1, eq_capacity = 2,
     eq_events = [fst (sample_entry 0), fst (sample_entry 1)], eq_callbacks = replicate 4 sample_callback\<rparr>"

theorem event_queue_refines_fifo_witness:
  "\<exists>u. push_entry (sample_entry 2) sample_queue = Inr u \<and>
     queue_items 2 0 u = Inr [decode_entry (sample_entry 1), decode_entry (sample_entry 2)]"
proof -
  have q: "wf_queue sample_queue" "eq_count sample_queue + length [sample_entry 2] \<le> eq_capacity sample_queue"
    by (simp_all add: wf_queue_def sample_queue_def)
  have "queue_entries sample_queue = [sample_entry 1]"
    by (simp add: queue_entries_def sample_queue_def slot_def sample_entry_def numeral_eq_Suc)
  with event_queue_refines_fifo [OF q, of 2] obtain u where u: "foldE push_entry [sample_entry 2] sample_queue = Inr u"
    "queue_items 2 0 u = Inr (map decode_entry (take 2 ([sample_entry 1] @ [sample_entry 2])))" by metis
  have "map decode_entry (take 2 ([sample_entry 1] @ [sample_entry 2])) =
      [decode_entry (sample_entry 1), decode_entry (sample_entry 2)]" by (simp add: numeral_2_eq_2)
  moreover have "push_entry (sample_entry 2) sample_queue = Inr u" using u(1) by simp
  ultimately show ?thesis using u(2) by (intro exI [of _ u] conjI) (simp_all only:)
qed

text \<open>A push on a full buffer goes to the slot of the oldest entry, which is lost unread.\<close>

lemma full_queue_overwrites:
  assumes "wf_queue q" "eq_count q = eq_capacity q"
  shows "\<exists>q'. push_entry e q = Inr q' \<and> slot q' (eq_head q') = e \<and> eq_count q' = Suc (eq_capacity q')"
proof -
  obtain x maker taker where e: "e = (x, maker, taker)" by (cases e)
  have r: "u64 (eq_head q + eq_count q)" "u64 (eq_count q + 1)" using assms by (auto simp: wf_queue_def u_range_def)
  have h: "(eq_head q + eq_count q) mod eq_capacity q = eq_head q" using assms by (simp add: wf_queue_def)
  have s: "eq_head q < length (eq_events q)" "eq_head q * 2 < length (eq_callbacks q)"
    "eq_head q * 2 + 1 < length (eq_callbacks q)" using assms by (auto simp: wf_queue_def)
  show ?thesis
    using r h s assms by (simp add: e push_entry_def push_event_def plain_rem_def wf_queue_def store_at_def
        store_callback_def slot_def mult.commute)
qed

end
