(* ===== verification/FixedTermSafety.thy ===== *)
theory FixedTermSafety
  imports FixedTermLoans FixedTermSample EventQueues
begin

text \<open>
  The properties of the fixed-term markets. Users and the crank act on a market in any order; every
  instruction comes with its own signers and time, and with any ledger and order book.
\<close>

subsection \<open>Handlers and the loans of their user\<close>

definition user_moves ::
  "'l Runtime \<Rightarrow> int \<Rightarrow> Pubkey \<Rightarrow> ('b, 'l) UserState \<Rightarrow> Loans \<Rightarrow> ('b, 'l) UserState \<Rightarrow> Loans \<Rightarrow> bool" where
  "user_moves rt bound uk s ls s' ls' \<longleftrightarrow>
     loans_move rt (mk_address (ms_market s)) bound uk (mu_debt (us_user s)) ls (mu_debt (us_user s')) ls' \<and>
     terms_of (ms_market s') = terms_of (ms_market s) \<and> mu_market (us_user s') = mu_market (us_user s)"

lemma terms_address: "terms_of m' = terms_of m \<Longrightarrow> mk_address m' = mk_address m"
  by (simp add: terms_of_def)

lemma user_moves_trans [trans]:
  "user_moves rt bound uk s ls s' ls' \<Longrightarrow> user_moves rt bound uk s' ls' s'' ls'' \<Longrightarrow> user_moves rt bound uk s ls s'' ls''"
  unfolding user_moves_def by (elim conjE, frule terms_address [of "ms_market s'"])
    (auto intro: loans_move_trans)

lemma user_moves_frame: "debt_of s' = debt_of s \<Longrightarrow> user_moves rt bound uk s ls s' ls"
  by (simp add: user_moves_def debt_of_def)

lemma user_moves_debt:
  "debt_of s' = debt_of t \<Longrightarrow> user_moves rt bound uk s ls t ls' \<Longrightarrow> user_moves rt bound uk s ls s' ls'"
  by (simp add: user_moves_def debt_of_def)

lemma borrow_handle_posted_moves:
  assumes "borrow_handle_posted rt k summary s = Inr s'"
  shows "user_moves rt' bound uk s ls s' ls"
proof -
  from assms obtain n p t where "on_user (post_borrow_order n p) s = Inr t" and s': "debt_of s' = debt_of t"
    by (auto simp: borrow_handle_posted_def dest!: frame)
  then have "user_moves rt' bound uk s ls t ls"
    by (auto simp: user_moves_def on_user_def post_borrow_order_def on_assets_def on_debt_def debt_post_borrow_order_def)
  with s' show ?thesis by (rule user_moves_debt)
qed

lemma borrow_handle_filled_moves:
  assumes "borrow_handle_filled rt k ex summary info s = Inr (n, loan, s')"
    and "loan_addresses rt (mk_address (ms_market s))"
    and "bound = rt_clock rt + wrap_i 64 (int (mk_borrow_tenor (ms_market s)))" "i_range 64 bound"
  shows "user_moves rt bound (bk_margin_user k) s ls s' (ls(bk_term_loan k \<mapsto> loan))"
proof -
  let ?m = "ms_market s"
  from assms(1) assms(3,4) obtain tickets u q where
    u: "taker_fill_borrow_order tickets bound (us_user s) = Inr (u, q)"
    and key: "bk_term_loan k = loan_key rt (mk_address ?m) (bk_margin_user k) q"
    and loan: "tl_margin_user loan = bk_margin_user k" "tl_sequence_number loan = q" "tl_balance loan = tickets"
      "tl_maturation_timestamp loan = bound"
    and s': "debt_of s' = debt_of (s\<lparr>us_user := u\<rparr>)"
    by (auto simp: borrow_handle_filled_def Let_def loan_key_def add.commute dest!: frame)
  from u obtain d where d: "new_term_loan_without_posting tickets bound (mu_debt (us_user s)) = Inr (d, q)"
    and u': "u = us_user s\<lparr>mu_debt := d\<rparr>"
    by (auto simp: taker_fill_borrow_order_def)
  have "user_moves rt bound (bk_margin_user k) s ls (s\<lparr>us_user := u\<rparr>) (ls(bk_term_loan k \<mapsto> loan))"
    unfolding key user_moves_def
    using loans_move_new [OF d assms(2) new_loan_u64 [OF d]] loan by (simp add: u')
  with s' show ?thesis by (rule user_moves_debt)
qed

lemma borrow_order_moves:
  fixes s :: "('b, 'l) UserState"
  assumes "borrow_order rt en height k p ad ex a s = Inr (n, loan, r, s')"
    and "loan_addresses rt (mk_address (ms_market s))"
    and "bound = rt_clock rt + wrap_i 64 (int (mk_borrow_tenor (ms_market s)))" "i_range 64 bound"
  shows "user_moves rt bound (bk_margin_user k) s ls s' (put_loan (bk_term_loan k) loan ls)"
proof -
  from assms(1) obtain info summary filled and s1 s2 s3 :: "('b, 'l) UserState" where
    p: "debt_of s1 = debt_of s"
    and posted: "borrow_handle_posted rt k summary s1 = Inr s2"
    and fill: "(if (0::nat) < filled then bindE (borrow_handle_filled rt k ex summary info s2) (\<lambda>(d, l, s). Inr (d, Some l, s))
                else Inr (0, None, s2)) = Inr (n, loan, s3)"
    and s': "debt_of s' = debt_of s3"
    unfolding borrow_order_def Let_def by (auto split del: if_split dest!: frame)
  note m1 = user_moves_frame [OF p, of rt bound "bk_margin_user k" ls]
  note m2 = borrow_handle_posted_moves [OF posted, of rt bound "bk_margin_user k" ls]
  have terms: "terms_of (ms_market s2) = terms_of (ms_market s)"
    using m1 m2 by (simp add: user_moves_def)
  have m3: "user_moves rt bound (bk_margin_user k) s2 ls s3 (put_loan (bk_term_loan k) loan ls)"
  proof (cases "0 < filled")
    case True
    with fill obtain l where "borrow_handle_filled rt k ex summary info s2 = Inr (n, l, s3)" "loan = Some l" by auto
    with borrow_handle_filled_moves [of rt k ex summary info s2 n l s3 bound ls] assms(2-4) terms show ?thesis
      by (simp add: terms_of_def)
  next
    case False
    with fill show ?thesis by (simp add: user_moves_def)
  qed
  from m1 m2 have "user_moves rt bound (bk_margin_user k) s ls s2 ls" by (rule user_moves_trans)
  from this m3 have "user_moves rt bound (bk_margin_user k) s ls s3 (put_loan (bk_term_loan k) loan ls)"
    by (rule user_moves_trans)
  with s' show ?thesis by (rule user_moves_debt)
qed

lemma repay_loan_moves:
  fixes s :: "('b, 'l) UserState"
  assumes "repay_loan rt k amount skip loan next s = Inr (l, s')"
    and "loan_addresses rt' (mk_address (ms_market s))" "ls (rk_term_loan k) = Some loan"
    and "tl_margin_user loan = rk_margin_user k" "\<And>x. next = Some x \<Longrightarrow> \<exists>k'. ls k' = Some x"
  shows "user_moves rt' bound (rk_margin_user k) s ls s' (ls(rk_term_loan k := l))"
proof -
  let ?n = "min amount (tl_balance loan)" and ?loan = "loan\<lparr>tl_balance := tl_balance loan - min amount (tl_balance loan)\<rparr>"
  from assms(1) obtain t :: "('b, 'l) UserState" where t: "debt_of t = debt_of s"
    and fin: "(if tl_balance ?loan > 0 then \<exists>s1. on_user (partially_repay_loan ?loan ?n) t = Inr s1 \<and> l = Some ?loan \<and>
                 debt_of s' = debt_of s1
               else \<exists>u. user_fully_repay_term_loan ?loan ?n (next_term_loan k next) (us_user t) = Inr u \<and> l = None \<and>
                 debt_of s' = debt_of (t\<lparr>us_user := u\<rparr>))"
    unfolding repay_loan_def Let_def by (auto dest!: frame split: if_splits)
  note terms = user_moves_frame [OF t, of rt' bound "rk_margin_user k" ls]
  have addr: "loan_addresses rt' (mk_address (ms_market t))"
    using assms(2) terms by (simp add: user_moves_def terms_of_def)
  have "user_moves rt' bound (rk_margin_user k) t ls s' (ls(rk_term_loan k := l))"
  proof (cases "tl_balance ?loan > 0")
    case True
    from fin [unfolded if_P [OF True]] obtain s1 where
      s1: "on_user (partially_repay_loan ?loan ?n) t = Inr s1" "l = Some ?loan" "debt_of s' = debt_of s1" by blast
    from s1(1) obtain d where d: "partially_repay_term_loan (tl_sequence_number loan) ?n (mu_debt (us_user t)) = Inr d"
      "s1 = t\<lparr>us_user := us_user t\<lparr>mu_debt := d\<rparr>\<rparr>"
      by (auto simp: on_user_def partially_repay_loan_def on_debt_def)
    from loans_move_partial [where ls = ls and k = "rk_term_loan k", OF d(1) addr assms(3,4) refl] have "user_moves rt' bound (rk_margin_user k) t ls s1 (ls(rk_term_loan k := l))"
      by (simp add: user_moves_def d(2) s1(2))
    with s1(3) show ?thesis by (rule user_moves_debt)
  next
    case False
    from fin [unfolded if_not_P [OF False]] obtain u where u: "user_fully_repay_term_loan ?loan ?n (next_term_loan k next) (us_user t) = Inr u" "l = None"
      "debt_of s' = debt_of (t\<lparr>us_user := u\<rparr>)" by blast
    from u(1) obtain d where d: "fully_repay_term_loan (tl_sequence_number loan) ?n (next_term_loan k next) (mu_debt (us_user t)) = Inr d"
      "u = us_user t\<lparr>mu_debt := d\<rparr>"
      by (auto simp: user_fully_repay_term_loan_def)
    have nx: "tl_margin_user x = rk_margin_user k \<and> (\<exists>k'. ls k' = Some x)" if "next_term_loan k next = Inr x" for x
      using that assms(5) by (auto simp: next_term_loan_def)
    from False have "?n = tl_balance loan" by auto
    from loans_move_full [where ls = ls and k = "rk_term_loan k", OF d(1) addr assms(3,4) refl this nx]
    have "user_moves rt' bound (rk_margin_user k) t ls (t\<lparr>us_user := u\<rparr>) (ls(rk_term_loan k := l))"
      by (simp add: user_moves_def d(2) u(2))
    with u(3) show ?thesis by (rule user_moves_debt)
  qed
  with terms show ?thesis by (rule user_moves_trans)
qed

lemma borrow_handler_moves:
  assumes "margin_borrow_order_handler rt en assoc height ok k p ad ex a s = Inr (loan, r, s')"
    and "loan_addresses rt (mk_address (ms_market s))"
    and "bound = rt_clock rt + wrap_i 64 (int (mk_borrow_tenor (ms_market s)))" "i_range 64 bound"
  shows "user_moves rt bound (bk_margin_user k) s ls s' (put_loan (bk_term_loan k) loan ls)"
  using assms by (auto simp: margin_borrow_order_handler_def intro: borrow_order_moves)

lemma term_repay_moves:
  assumes "term_repay_handler rt k amount loan next s = Inr (l, s')"
    and "loan_addresses rt' (mk_address (ms_market s))" "ls (rk_term_loan k) = Some loan"
    and "\<And>x. next = Some x \<Longrightarrow> \<exists>k'. ls k' = Some x"
  shows "user_moves rt' bound (rk_margin_user k) s ls s' (ls(rk_term_loan k := l))"
  using assms by (auto simp: term_repay_handler_def Let_def intro: repay_loan_moves)

lemma roll_repay_keys_simps [simp]:
  "rk_margin_user (roll_repay_keys k) = bk_margin_user (rb_borrow k)" "rk_term_loan (roll_repay_keys k) = rb_loan k"
  by (simp_all add: roll_repay_keys_def Let_def)

lemma roll_handler_moves:
  fixes s :: "('b, 'l) UserState"
  assumes "auto_roll_borrow_order_handler rt en height ok k ad loan ex next a s = Inr (new, old, r, s')"
    and "loan_addresses rt (mk_address (ms_market s))"
    and "bound = rt_clock rt + wrap_i 64 (int (mk_borrow_tenor (ms_market s)))" "i_range 64 bound"
    and "ls (rb_loan k) = Some loan" "rb_loan k \<noteq> bk_term_loan (rb_borrow k)"
    and "\<And>x. next new = Some x \<Longrightarrow> \<exists>k'. put_loan (bk_term_loan (rb_borrow k)) new ls k' = Some x"
  shows "user_moves rt bound (bk_margin_user (rb_borrow k)) s ls s'
           ((put_loan (bk_term_loan (rb_borrow k)) new ls)(rb_loan k := old))"
proof -
  let ?b = "(rb_borrow k)\<lparr>bk_underlying_settlement := bk_underlying_token_vault (rb_borrow k)\<rparr>"
  let ?ls = "put_loan (bk_term_loan (rb_borrow k)) new ls"
  from assms(1) obtain n p adapter r' and s1 :: "('b, 'l) UserState" where
    b: "borrow_order rt en height ?b p adapter ex a s = Inr (n, new, r', s1)"
    and rp: "repay_loan rt (roll_repay_keys k) n True loan (next new) s1 = Inr (old, s')"
    and user: "tl_margin_user loan = bk_margin_user (rb_borrow k)"
    by (auto simp: auto_roll_borrow_order_handler_def Let_def)
  from borrow_order_moves [OF b assms(2-4), of ls]
  have m1: "user_moves rt bound (bk_margin_user (rb_borrow k)) s ls s1 ?ls" by simp
  have "user_moves rt bound (rk_margin_user (roll_repay_keys k)) s1 ?ls s' (?ls(rk_term_loan (roll_repay_keys k) := old))"
  proof (rule repay_loan_moves [OF rp])
    show "loan_addresses rt (mk_address (ms_market s1))" using assms(2) m1 by (simp add: user_moves_def terms_of_def)
    show "?ls (rk_term_loan (roll_repay_keys k)) = Some loan"
      using assms(5,6) by (simp add: put_loan_def split: option.splits)
    show "tl_margin_user loan = rk_margin_user (roll_repay_keys k)" by (simp add: user)
  qed (rule assms(7))
  then have "user_moves rt bound (bk_margin_user (rb_borrow k)) s1 ?ls s' (?ls(rb_loan k := old))" by simp
  with m1 show ?thesis by (rule user_moves_trans)
qed

subsection \<open>All users and their loans\<close>

type_synonym Users = "Pubkey \<Rightarrow> MarginUser option"

definition loan_inv :: "'l Runtime \<Rightarrow> Pubkey \<Rightarrow> int \<Rightarrow> Users \<Rightarrow> Loans \<Rightarrow> bool" where
  "loan_inv rt m bound users ls \<longleftrightarrow>
     wf_loans rt m ls \<and> (\<forall>k t. ls k = Some t \<longrightarrow> users (tl_margin_user t) \<noteq> None) \<and>
     (\<forall>uk u. users uk = Some u \<longrightarrow> mu_market u = m \<and> owes bound (\<lambda>q. ls (loan_key rt m uk q)) (mu_debt u))"

lemma loan_inv_later: "loan_inv rt m bound users ls \<Longrightarrow> bound \<le> bound' \<Longrightarrow> loan_inv rt m bound' users ls"
  unfolding loan_inv_def by (blast intro: owes_later)

lemma loan_inv_move:
  assumes "loan_inv rt m bound users ls" "loan_addresses rt m" "users uk = Some u"
    and "loans_move rt m bound uk (mu_debt u) ls (mu_debt u') ls'" "mu_market u' = mu_market u"
  shows "loan_inv rt m bound (users(uk \<mapsto> u')) ls'"
proof -
  from assms(1,3) have w: "wf_loans rt m ls" "owes bound (\<lambda>q. ls (loan_key rt m uk q)) (mu_debt u)" "mu_market u = m"
    by (auto simp: loan_inv_def)
  with assms(4) have m: "wf_loans rt m ls'" "owes bound (\<lambda>q. ls' (loan_key rt m uk q)) (mu_debt u')"
    "\<And>k t. ls' k = Some t \<Longrightarrow> tl_margin_user t = uk \<or> ls k = Some t"
    "\<And>k. ls' k \<noteq> ls k \<Longrightarrow> \<exists>q. u64 q \<and> k = loan_key rt m uk q"
    unfolding loans_move_def by blast+
  have "owes bound (\<lambda>q. ls' (loan_key rt m x q)) (mu_debt y)" if "x \<noteq> uk" "users x = Some y" for x y
  proof (rule owes_cong)
    show "owes bound (\<lambda>q. ls (loan_key rt m x q)) (mu_debt y)" using assms(1) that by (simp add: loan_inv_def)
    show "ls' (loan_key rt m x q) = ls (loan_key rt m x q)" if "u64 q" for q
      using m(4) [of "loan_key rt m x q"] assms(2) \<open>u64 q\<close> \<open>x \<noteq> uk\<close> loan_addresses_eq by metis
  qed
  moreover have "(users(uk \<mapsto> u')) (tl_margin_user t) \<noteq> None" if "ls' k = Some t" for k t
    using m(3) [OF that] assms(1) unfolding loan_inv_def by auto
  ultimately show ?thesis
    using assms(1,5) m(1,2) w(3) unfolding loan_inv_def by (auto split: if_split_asm)
qed

lemma loan_inv_same:
  "loan_inv rt m bound users ls \<Longrightarrow> loan_addresses rt m \<Longrightarrow> users uk = Some u \<Longrightarrow> mu_debt u' = mu_debt u \<Longrightarrow>
     mu_market u' = mu_market u \<Longrightarrow> loan_inv rt m bound (users(uk \<mapsto> u')) ls"
  by (erule loan_inv_move) auto

text \<open>A user joins with no debt, at an address where there was none.\<close>

lemma owes_nothing: "(\<And>q. u64 q \<Longrightarrow> at q = None) \<Longrightarrow> owes bound at default_debt"
  by (simp add: owes_def default_debt_def active_loans_def u_range_def)

lemma loan_inv_join:
  assumes "loan_inv rt m bound users ls" "loan_addresses rt m" "users uk = None"
    and "mu_market u = m" "mu_debt u = default_debt"
  shows "loan_inv rt m bound (users(uk \<mapsto> u)) ls"
proof -
  have "ls (loan_key rt m uk q) = None" if "u64 q" for q
  proof (rule ccontr)
    assume "ls (loan_key rt m uk q) \<noteq> None"
    then obtain t where t: "ls (loan_key rt m uk q) = Some t" by auto
    with assms(1) have w: "wf_loans rt m ls" "users (tl_margin_user t) \<noteq> None" unfolding loan_inv_def by blast+
    from wf_loansD [OF w(1) t] loan_addresses_eq [OF assms(2) that] have "uk = tl_margin_user t" by blast
    with w(2) assms(3) show False by simp
  qed
  then have "owes bound (\<lambda>q. ls (loan_key rt m uk q)) (mu_debt u)" unfolding assms(5) by (rule owes_nothing)
  with assms show ?thesis unfolding loan_inv_def by (auto split: if_split_asm)
qed

subsection \<open>The crank\<close>

definition books_of :: "('b, 'l) CrankState \<Rightarrow> (Pubkey \<times> nat) \<times> Users \<times> Loans" where
  "books_of s = (terms_of (ms_market s), cs_users s, cs_loans s)"

named_theorems crank_frame

lemma same_books: "same_but_market s s' \<Longrightarrow> books_of s' = books_of s"
  using terms_of_core [of "ms_market s'" "ms_market s"] by (cases s, cases s') (simp add: same_but_market_def books_of_def)

lemmas market_books [crank_frame] = market_token_same [THEN same_books]

lemma books_of_updates [simp]:
  "books_of (emit_event e s) = books_of s" "books_of (s\<lparr>cs_accounts := a\<rparr>) = books_of s"
  "books_of (s\<lparr>cs_adapters := b\<rparr>) = books_of s" "books_of (s\<lparr>cs_skipped := n\<rparr>) = books_of s"
  "books_of (s\<lparr>cs_seed := x\<rparr>) = books_of s" "books_of (s\<lparr>cs_deposits := d\<rparr>) = books_of s"
  "books_of (s\<lparr>ms_book := e'\<rparr>) = books_of s"
  by (simp_all add: books_of_def emit_event_def)

lemma accounts_books [crank_frame]:
  "next_account s = Inr (k, s') \<Longrightarrow> books_of s' = books_of s"
  "next_user_account ex s = Inr s' \<Longrightarrow> books_of s' = books_of s"
  "next_margin_user ex s = Inr (u, s') \<Longrightarrow> books_of s' = books_of s \<and> cs_users s ex = Some u"
  "init_next rt seeds present s = Inr (k, s') \<Longrightarrow> books_of s' = books_of s \<and> k = pda rt seeds"
  "next_seed s = Inr (n, s') \<Longrightarrow> books_of s' = books_of s"
  by (auto simp: next_account_def next_user_account_def next_margin_user_def init_next_def next_seed_def books_of_def
      split: list.splits)

lemma try_push_event_books [crank_frame]:
  "try_push_event adapter e maker taker s = Inr s' \<Longrightarrow> books_of s' = books_of s"
  by (auto simp: try_push_event_def Let_def split: if_splits list.splits option.splits sum.splits fault.splits)

lemma try_update_fill_adapters_books [crank_frame]:
  "try_update_fill_adapters f maker taker s = Inr s' \<Longrightarrow> books_of s' = books_of s"
  by (auto simp: try_update_fill_adapters_def Let_def dest!: crank_frame)

lemma user_event_books [crank_frame]: "user_event f rt u s = Inr s' \<Longrightarrow> books_of s' = books_of s"
  by (auto simp: user_event_def)

lemma extract_fill_accounts_books [crank_frame]:
  "extract_fill_accounts rt f maker taker s = Inr (acs, s') \<Longrightarrow> books_of s' = books_of s"
  unfolding extract_fill_accounts_def Let_def
  by (cases maker) (auto dest!: crank_frame split: if_split_asm)

lemma extract_fill_accounts_margin:
  assumes "extract_fill_accounts rt f maker taker s = Inr (MarginFill u ta, s')"
  obtains info where "maker = MarginInfo info" "cs_users s (mi_margin_user info) = Some u"
    "\<And>k. ta = Some (LoanAccount k) \<Longrightarrow>
       k = loan_key rt (mk_address (ms_market s)) (mi_margin_user info) (db_next_new_term_loan_seqno (mu_debt u))"
proof (cases maker)
  case (MarginInfo info)
  with assms show ?thesis unfolding extract_fill_accounts_def Let_def
    by (intro that [of info]) (auto simp: loan_key_def books_of_def dest!: crank_frame split: if_split_asm)
next
  case (SignerInfo info)
  with assms show ?thesis unfolding extract_fill_accounts_def Let_def by (auto split: if_split_asm)
qed

text \<open>The crank keeps the invariant of users and loans, at its time and in its market.\<close>

definition crank_inv :: "'l Runtime \<Rightarrow> Pubkey \<times> nat \<Rightarrow> ('b, 'l) CrankState \<Rightarrow> bool" where
  "crank_inv rt mt s \<longleftrightarrow> terms_of (ms_market s) = mt \<and>
     loan_inv rt (fst mt) (rt_clock rt + wrap_i 64 (int (snd mt))) (cs_users s) (cs_loans s)"

lemma crank_inv_books: "books_of s' = books_of s \<Longrightarrow> crank_inv rt mt s' = crank_inv rt mt s"
  by (simp add: crank_inv_def books_of_def)

definition set_user :: "Pubkey \<Rightarrow> MarginUser \<Rightarrow> ('b, 'l) CrankState \<Rightarrow> ('b, 'l) CrankState" where
  "set_user k u s = s\<lparr>cs_users := (cs_users s)(k \<mapsto> u)\<rparr>"

lemma crank_inv_user:
  assumes "crank_inv rt mt s" "loan_addresses rt (fst mt)" "cs_users s k = Some u"
    and "mu_debt u' = mu_debt u" "mu_market u' = mu_market u"
  shows "crank_inv rt mt (s\<lparr>cs_users := (cs_users s)(k \<mapsto> u')\<rparr>)"
  using assms loan_inv_same by (fastforce simp: crank_inv_def)

lemma books_user: "books_of s' = books_of s \<Longrightarrow> cs_users s' = cs_users s"
  by (simp add: books_of_def)

lemma maker_fill_borrow_debt:
  "maker_fill_borrow_order False a b c mat u = Inr (u', q) \<Longrightarrow> mu_debt u' = mu_debt u \<and> mu_market u' = mu_market u"
  by (auto simp: maker_fill_borrow_order_def dest!: assets_debt)

lemma maker_fill_borrow_new:
  assumes "maker_fill_borrow_order True a b c mat u = Inr (u', q)"
  obtains p where "new_term_loan_without_posting c mat (mu_debt u\<lparr>db_pending := p\<rparr>) = Inr (mu_debt u', q)"
    "mu_market u' = mu_market u"
  using assms by (auto simp: maker_fill_borrow_order_def new_term_loan_from_fill_def dest!: assets_debt)

lemma write_user_inv:
  assumes "user_event g rt' u' s1 = Inr s2" "books_of s1 = books_of s" "crank_inv rt mt s" "loan_addresses rt (fst mt)"
    and "cs_users s k = Some u" "mu_debt u' = mu_debt u" "mu_market u' = mu_market u"
  shows "crank_inv rt mt (s2\<lparr>cs_users := (cs_users s2)(k \<mapsto> u')\<rparr>)"
proof -
  from user_event_books [OF assms(1)] assms(2) have b: "books_of s2 = books_of s" by simp
  then have "crank_inv rt mt s2" "cs_users s2 k = Some u"
    using assms(3,5) crank_inv_books [OF b] books_user [OF b] by simp_all
  then show ?thesis using assms(4,6,7) by (intro crank_inv_user)
qed

lemma handle_lend_fill_inv:
  fixes s :: "('b, 'l) CrankState"
  assumes "handle_lend_fill rt base_size quote_size info u ta s = Inr (q, s')" "crank_inv rt mt s"
    and "loan_addresses rt (fst mt)" "cs_users s (mi_margin_user info) = Some u"
  shows "crank_inv rt mt s'"
proof (cases ta)
  case None
  with assms(1) obtain u' r s1 where "maker_fill_lend_order False base_size u = Inr (u', r)"
    "user_event assets_updated rt u' s = Inr s1" "s' = s1\<lparr>cs_users := (cs_users s1)(mi_margin_user info \<mapsto> u')\<rparr>"
    by (auto simp: handle_lend_fill_def)
  with assms(2-4) show ?thesis by (auto intro!: write_user_inv [where s = s] dest!: user_ops_debt)
next
  case (Some a)
  with assms(1) obtain k where "a = DepositAccount k" by (cases a) (simp_all add: handle_lend_fill_def)
  with Some assms(1) obtain u' r d e s1 where "maker_fill_lend_order True base_size u = Inr (u', r)"
    "user_event assets_updated rt u' (emit_event e (s\<lparr>cs_deposits := (cs_deposits s)(k \<mapsto> d)\<rparr>)) = Inr s1"
    "s' = s1\<lparr>cs_users := (cs_users s1)(mi_margin_user info \<mapsto> u')\<rparr>"
    by (auto simp: handle_lend_fill_def)
  with assms(2-4) show ?thesis by (auto intro!: write_user_inv [where s = s] dest!: user_ops_debt)
qed

lemma handle_borrow_fill_inv:
  fixes s :: "('b, 'l) CrankState"
  assumes "handle_borrow_fill rt base_size quote_size info u ta s = Inr (q, s')" "crank_inv rt mt s"
    and "loan_addresses rt (fst mt)" "cs_users s (mi_margin_user info) = Some u"
    and "\<And>k. ta = Some (LoanAccount k) \<Longrightarrow>
       k = loan_key rt (fst mt) (mi_margin_user info) (db_next_new_term_loan_seqno (mu_debt u))"
  shows "crank_inv rt mt s'"
proof (cases ta)
  case None
  with assms(1) obtain n mat u' r s1 where "maker_fill_borrow_order False n quote_size base_size mat u = Inr (u', r)"
    "user_event assets_updated rt u' s = Inr s1" "s' = s1\<lparr>cs_users := (cs_users s1)(mi_margin_user info \<mapsto> u')\<rparr>"
    by (auto simp: handle_borrow_fill_def Let_def)
  with assms(2-4) show ?thesis by (auto intro!: write_user_inv [where s = s] dest!: maker_fill_borrow_debt)
next
  case (Some a)
  let ?bound = "rt_clock rt + wrap_i 64 (int (snd mt))" and ?uk = "mi_margin_user info"
  from Some assms(1) obtain k where a: "a = LoanAccount k" by (cases a) (auto simp: handle_borrow_fill_def Let_def)
  from assms(2) have tn: "mk_borrow_tenor (ms_market s) = snd mt" by (auto simp: crank_inv_def terms_of_def)
  from Some a assms(1) obtain n fees interest loan e u' s1 s2 s3 where
    w: "market_withdraw rt (mk_underlying_token_vault (ms_market s)) (mk_fee_vault (ms_market s)) fees s = Inr s1"
    and u': "maker_fill_borrow_order True n quote_size base_size ?bound u = Inr (u', q)"
    and ev: "user_event assets_updated rt u' (emit_event e (s1\<lparr>cs_loans := (cs_loans s1)(k \<mapsto> loan),
               cs_users := (cs_users s1)(?uk \<mapsto> u')\<rparr>)) = Inr s2" "user_event debt_updated rt u' s2 = Inr s'"
    and loan: "tl_margin_user loan = ?uk" "tl_sequence_number loan = q" "tl_balance loan = base_size"
      "tl_maturation_timestamp loan = ?bound"
    unfolding handle_borrow_fill_def Let_def tn by auto
  from w have s1: "books_of s1 = books_of s" by (rule market_books)
  from user_event_books [OF ev(1)] user_event_books [OF ev(2)] s1
  have s': "terms_of (ms_market s') = mt" "cs_users s' = (cs_users s)(?uk \<mapsto> u')" "cs_loans s' = (cs_loans s)(k \<mapsto> loan)"
    using assms(2) by (simp_all add: books_of_def crank_inv_def emit_event_def)
  from u' obtain p where d: "new_term_loan_without_posting base_size ?bound (mu_debt u\<lparr>db_pending := p\<rparr>) = Inr (mu_debt u', q)"
    and mk: "mu_market u' = mu_market u" by (rule maker_fill_borrow_new)
  have q: "q = db_next_new_term_loan_seqno (mu_debt u)"
    using d by (auto simp: new_term_loan_without_posting_def Let_def split: if_splits)
  have pend: "loans_move rt (fst mt) ?bound ?uk (mu_debt u) (cs_loans s) (mu_debt u\<lparr>db_pending := p\<rparr>) (cs_loans s)" by simp
  have "loans_move rt (fst mt) ?bound ?uk (mu_debt u\<lparr>db_pending := p\<rparr>) (cs_loans s) (mu_debt u')
      ((cs_loans s)(loan_key rt (fst mt) ?uk q \<mapsto> loan))"
    using loan by (intro loans_move_new [OF d assms(3) new_loan_u64 [OF d]])
  with pend have "loans_move rt (fst mt) ?bound ?uk (mu_debt u) (cs_loans s) (mu_debt u')
      ((cs_loans s)(loan_key rt (fst mt) ?uk q \<mapsto> loan))"
    by (rule loans_move_trans)
  then have "loan_inv rt (fst mt) ?bound ((cs_users s)(?uk \<mapsto> u')) ((cs_loans s)(k \<mapsto> loan))"
    using assms(2-4) assms(5) [OF Some [unfolded a]] mk q by (auto simp: crank_inv_def intro: loan_inv_move)
  with s' show ?thesis by (simp add: crank_inv_def)
qed

lemma crank_inv_emit [simp]: "crank_inv rt mt (emit_event e s) = crank_inv rt mt s"
  by (rule crank_inv_books) simp

lemma handle_margin_fill_inv:
  fixes s :: "('b, 'l) CrankState"
  assumes "handle_margin_fill rt f (MarginInfo info) taker u ta s = Inr s'" "crank_inv rt mt s" "loan_addresses rt (fst mt)"
    and "cs_users s (mi_margin_user info) = Some u"
    and "\<And>k. ta = Some (LoanAccount k) \<Longrightarrow>
       k = loan_key rt (fst mt) (mi_margin_user info) (db_next_new_term_loan_seqno (mu_debt u))"
  shows "crank_inv rt mt s'"
proof -
  from assms(1) obtain q n e and s1 :: "('b, 'l) CrankState" where s': "s' = emit_event e s1"
    and fill: "handle_lend_fill rt (fe_base_size f) n info u ta s = Inr (q, s1) \<or>
      handle_borrow_fill rt (fe_base_size f) n info u ta s = Inr (q, s1)"
    unfolding handle_margin_fill_def Let_def
    by (cases "market_side (opposite (fe_taker_side f))") auto
  from fill have "crank_inv rt mt s1"
    using handle_lend_fill_inv [OF _ assms(2-4)] handle_borrow_fill_inv [OF _ assms(2-5)] by blast
  with s' show ?thesis by simp
qed

lemma handle_signer_fill_books [crank_frame]:
  "handle_signer_fill rt f maker taker acs s = Inr s' \<Longrightarrow> books_of s' = books_of s"
  unfolding handle_signer_fill_def Let_def
  by (cases "market_side (opposite (fe_taker_side f))"; cases acs) (auto dest!: crank_frame)

lemma handle_fill_inv:
  fixes s :: "('b, 'l) CrankState"
  assumes "handle_fill rt f maker taker s = Inr s'" "crank_inv rt mt s" "loan_addresses rt (fst mt)"
  shows "crank_inv rt mt s'"
proof -
  from assms(1) obtain acs and s1 :: "('b, 'l) CrankState" where x: "extract_fill_accounts rt f maker taker s = Inr (acs, s1)"
    and h: "(case acs of MarginFill u ta \<Rightarrow> handle_margin_fill rt f maker taker u ta s1
             | _ \<Rightarrow> handle_signer_fill rt f maker taker acs s1) = Inr s'"
    by (auto simp: handle_fill_def)
  note b = extract_fill_accounts_books [OF x]
  have s1: "crank_inv rt mt s1" using assms(2) crank_inv_books [OF b] by simp
  show ?thesis
  proof (cases acs)
    case (MarginFill u ta)
    have m: "mk_address (ms_market s) = fst mt" using assms(2) by (auto simp: crank_inv_def terms_of_def)
    from x [unfolded MarginFill] obtain info where "maker = MarginInfo info" "cs_users s (mi_margin_user info) = Some u"
      "\<And>k. ta = Some (LoanAccount k) \<Longrightarrow>
         k = loan_key rt (fst mt) (mi_margin_user info) (db_next_new_term_loan_seqno (mu_debt u))"
      by (rule extract_fill_accounts_margin) (rule that, simp_all add: m)
    with h MarginFill s1 assms(3) books_user [OF b] show ?thesis by (auto intro: handle_margin_fill_inv)
  next
    case (SignerTokenFill k)
    with h handle_signer_fill_books [of rt f maker taker acs s1 s'] s1 crank_inv_books [of s' s1 rt mt]
    show ?thesis by auto
  next
    case (SignerDepositFill k)
    with h handle_signer_fill_books [of rt f maker taker acs s1 s'] s1 crank_inv_books [of s' s1 rt mt]
    show ?thesis by auto
  qed
qed

lemma cancel_borrow_debt:
  "cancel_borrow_order a b is_debt u = Inr u' \<Longrightarrow>
     mu_market u' = mu_market u \<and> (\<exists>p. mu_debt u' = mu_debt u\<lparr>db_pending := p\<rparr>)"
  by (auto simp: cancel_borrow_order_def process_out_def on_debt_def dest!: assets_debt split: if_splits
      intro: exI [of _ "db_pending (mu_debt u)"])

lemma cancel_lend_pending:
  "cancel_lend_order a b u = Inr u' \<Longrightarrow> mu_market u' = mu_market u \<and> (\<exists>p. mu_debt u' = mu_debt u\<lparr>db_pending := p\<rparr>)"
  by (auto dest!: user_ops_debt intro: exI [of _ "db_pending (mu_debt u)"])

lemma crank_inv_pending:
  assumes "crank_inv rt mt s" "loan_addresses rt (fst mt)" "cs_users s k = Some u"
    and "mu_debt u' = mu_debt u\<lparr>db_pending := p\<rparr>" "mu_market u' = mu_market u"
  shows "crank_inv rt mt (s\<lparr>cs_users := (cs_users s)(k \<mapsto> u')\<rparr>)"
  using assms loan_inv_move [of rt "fst mt" _ "cs_users s" "cs_loans s" k u u' "cs_loans s"] by (simp add: crank_inv_def)

lemma handle_out_inv:
  fixes s :: "('b, 'l) CrankState"
  assumes "handle_out rt e info s = Inr s'" "crank_inv rt mt s" "loan_addresses rt (fst mt)"
  shows "crank_inv rt mt s'"
proof (cases info)
  case (SignerInfo i)
  with assms(1) have "books_of s' = books_of s"
    unfolding handle_out_def Let_def by (cases "oe_side e") (auto dest!: crank_frame)
  with assms(2) show ?thesis using crank_inv_books by blast
next
  case (MarginInfo i)
  with assms(1) obtain ad u u' q g ev and s0 s1 s2 :: "('b, 'l) CrankState" where
    b0: "books_of s0 = books_of s" and nx: "next_margin_user (mi_margin_user i) s0 = Inr (u, s1)"
    and u': "cancel_borrow_order q (oe_base_size e) (cbf_new_debt (mi_flags i)) u = Inr u' \<or>
      cancel_lend_order q (oe_base_size e) u = Inr u'"
    and ev: "user_event g rt u' s1 = Inr s2"
    and s': "s' = emit_event ev (s2\<lparr>cs_users := (cs_users s2)(mi_margin_user i \<mapsto> u')\<rparr>)"
    unfolding handle_out_def Let_def
    by (cases "market_side (oe_side e)") (auto dest!: try_push_event_books, blast+)
  from accounts_books(3) [OF nx] user_event_books [OF ev] b0 have b: "books_of s2 = books_of s"
    and u: "cs_users s (mi_margin_user i) = Some u" by (auto simp: books_of_def)
  from u' obtain p where p: "mu_market u' = mu_market u" "mu_debt u' = mu_debt u\<lparr>db_pending := p\<rparr>"
    using cancel_borrow_debt cancel_lend_pending by blast
  from b assms(2) have i: "crank_inv rt mt s2" using crank_inv_books by blast
  have "crank_inv rt mt (s2\<lparr>cs_users := (cs_users s2)(mi_margin_user i \<mapsto> u')\<rparr>)"
    by (rule crank_inv_pending [OF i assms(3) _ p(2,1)]) (simp add: books_user [OF b] u)
  then show ?thesis unfolding s' by simp
qed

lemma handle_event_inv:
  "handle_event rt e s = Inr s' \<Longrightarrow> crank_inv rt mt s \<Longrightarrow> loan_addresses rt (fst mt) \<Longrightarrow> crank_inv rt mt s'"
  by (cases e) (auto intro: handle_fill_inv handle_out_inv)

lemma consume_events_inv:
  assumes "consume_events_handler rt en crank auth n s = Inr s'" "crank_inv rt mt s" "loan_addresses rt (fst mt)"
  shows "crank_inv rt mt s'"
proof -
  from assms(1) obtain es b and s1 where f: "foldE (handle_event rt) es s = Inr s1" and s': "s' = s1\<lparr>ms_book := b\<rparr>"
    by (auto simp: consume_events_handler_def)
  have "crank_inv rt mt s1" using f assms(2)
    by (rule foldE_invariant [where P = "crank_inv rt mt"]) (use assms(3) in \<open>auto intro: handle_event_inv\<close>)
  then show ?thesis unfolding s' by (simp add: crank_inv_def)
qed

subsection \<open>A market over time\<close>

text \<open>
  The users and the loans of one market, whose address and borrow tenor are \<open>mt\<close>, and the time. Each
  step is an instruction with its own signers, time, ledger and book. In a roll the next loan is
  loaded after the new loan has been written.
\<close>

record LoanWorld =
  lw_users :: Users
  lw_loans :: Loans
  lw_now :: int

definition set_world :: "Pubkey \<Rightarrow> ('b, 'l) UserState \<Rightarrow> Loans \<Rightarrow> int \<Rightarrow> LoanWorld \<Rightarrow> LoanWorld" where
  "set_world uk s ls t w = \<lparr>lw_users = (lw_users w)(uk \<mapsto> us_user s), lw_loans = ls, lw_now = t\<rparr>"

definition enter :: "Pubkey \<times> nat \<Rightarrow> LoanWorld \<Rightarrow> int \<Rightarrow> Pubkey \<Rightarrow> ('b, 'l) UserState \<Rightarrow> bool" where
  "enter mt w t uk s \<longleftrightarrow> lw_now w \<le> t \<and> i_range 64 (t + wrap_i 64 (int (snd mt))) \<and>
     terms_of (ms_market s) = mt \<and> lw_users w uk = Some (us_user s)"

inductive loan_step :: "'l Runtime \<Rightarrow> 'b Engine \<Rightarrow> Pubkey \<times> nat \<Rightarrow> LoanWorld \<Rightarrow> LoanWorld \<Rightarrow> bool"
  for rt en mt where
  ls_join: "lw_now w \<le> t \<Longrightarrow> terms_of (ms_market (s :: ('b, 'l) MarketState)) = mt \<Longrightarrow>
    initialize_margin_user_handler (instruction rt sg t) height k a (lw_users w (iu_margin_user k)) s = Inr (u, r, s') \<Longrightarrow>
    loan_step rt en mt w (w\<lparr>lw_users := (lw_users w)(iu_margin_user k \<mapsto> u), lw_now := t\<rparr>)"
| ls_borrow: "enter mt w t (bk_margin_user k) s \<Longrightarrow>
    margin_borrow_order_handler (instruction rt sg t) en assoc height ok k p ad (lw_loans w (bk_term_loan k)) a s =
      Inr (loan, r, s') \<Longrightarrow>
    loan_step rt en mt w (set_world (bk_margin_user k) s' (put_loan (bk_term_loan k) loan (lw_loans w)) t w)"
| ls_repay: "enter mt w t (rk_margin_user k) (s :: ('b, 'l) UserState) \<Longrightarrow> lw_loans w (rk_term_loan k) = Some loan \<Longrightarrow>
    term_repay_handler (instruction rt sg t) k amount loan (lw_loans w nk) s = Inr (l, s') \<Longrightarrow>
    loan_step rt en mt w (set_world (rk_margin_user k) s' ((lw_loans w)(rk_term_loan k := l)) t w)"
| ls_roll_loan: "enter mt w t (bk_margin_user (rb_borrow k)) s \<Longrightarrow> lw_loans w (rb_loan k) = Some loan \<Longrightarrow>
    rb_loan k \<noteq> bk_term_loan (rb_borrow k) \<Longrightarrow>
    auto_roll_borrow_order_handler (instruction rt sg t) en height ok k ad loan
      (lw_loans w (bk_term_loan (rb_borrow k))) (\<lambda>l. put_loan (bk_term_loan (rb_borrow k)) l (lw_loans w) nk) a s =
      Inr (new, old, r, s') \<Longrightarrow>
    loan_step rt en mt w
      (set_world (bk_margin_user (rb_borrow k)) s'
        ((put_loan (bk_term_loan (rb_borrow k)) new (lw_loans w))(rb_loan k := old)) t w)"
| ls_toggle_loan: "enter mt w t uk (s :: ('b, 'l) UserState) \<Longrightarrow> lw_loans w lk = Some loan \<Longrightarrow>
    toggle_auto_roll_loan_handler (instruction rt sg t) ma uk lk loan s = Inr (l, s') \<Longrightarrow>
    loan_step rt en mt w (set_world uk s' ((lw_loans w)(lk \<mapsto> l)) t w)"
| ls_settle: "enter mt w t uk (s :: ('b, 'l) UserState) \<Longrightarrow>
    settle_handler (instruction rt sg t) assoc height sk a s = Inr (r, s') \<Longrightarrow>
    loan_step rt en mt w (set_world uk s' (lw_loans w) t w)"
| ls_lend: "enter mt w t uk s \<Longrightarrow>
    margin_lend_order_handler (instruction rt sg t) en ok lk p ad ex s = Inr (d, s') \<Longrightarrow>
    loan_step rt en mt w (set_world uk s' (lw_loans w) t w)"
| ls_sell: "enter mt w t uk s \<Longrightarrow>
    margin_sell_tickets_order_handler (instruction rt sg t) en ok uk c cm slk p ad s = Inr s' \<Longrightarrow>
    loan_step rt en mt w (set_world uk s' (lw_loans w) t w)"
| ls_redeem: "enter mt w t uk (s :: ('b, 'l) UserState) \<Longrightarrow>
    margin_redeem_deposit_handler (instruction rt sg t) rk d s = Inr s' \<Longrightarrow>
    loan_step rt en mt w (set_world uk s' (lw_loans w) t w)"
| ls_roll_deposit: "enter mt w t uk s \<Longrightarrow>
    auto_roll_lend_order_handler (instruction rt sg t) en ok rlk ad d ex s = Inr (d', s') \<Longrightarrow>
    loan_step rt en mt w (set_world uk s' (lw_loans w) t w)"
| ls_configure: "enter mt w t uk (s :: ('b, 'l) UserState) \<Longrightarrow>
    configure_auto_roll_handler (instruction rt sg t) ma owner roll a s = Inr s' \<Longrightarrow>
    loan_step rt en mt w (set_world uk s' (lw_loans w) t w)"
| ls_crank: "lw_now w \<le> t \<Longrightarrow> terms_of (ms_market s) = mt \<Longrightarrow> cs_users s = lw_users w \<Longrightarrow> cs_loans s = lw_loans w \<Longrightarrow>
    consume_events_handler (instruction rt sg t) en crank auth n s = Inr s' \<Longrightarrow>
    loan_step rt en mt w \<lparr>lw_users = cs_users s', lw_loans = cs_loans s', lw_now = t\<rparr>"

definition no_loans :: "int \<Rightarrow> LoanWorld" where
  "no_loans t = \<lparr>lw_users = Map.empty, lw_loans = Map.empty, lw_now = t\<rparr>"

definition world_inv :: "'l Runtime \<Rightarrow> Pubkey \<times> nat \<Rightarrow> LoanWorld \<Rightarrow> bool" where
  "world_inv rt mt w \<longleftrightarrow> loan_inv rt (fst mt) (lw_now w + wrap_i 64 (int (snd mt))) (lw_users w) (lw_loans w)"

lemma loan_inv_instruction [simp]: "loan_inv (instruction rt sg t) = loan_inv rt"
  by (simp add: loan_inv_def wf_loans_def fun_eq_iff)

lemma loan_addresses_instruction [simp]: "loan_addresses (instruction rt sg t) = loan_addresses rt"
  by (simp add: loan_addresses_def fun_eq_iff)

lemma loans_move_instruction [simp]: "loans_move (instruction rt sg t) = loans_move rt"
  by (simp add: loans_move_def wf_loans_def fun_eq_iff)

lemma user_moves_instruction [simp]: "user_moves (instruction rt sg t) = user_moves rt"
  by (simp add: user_moves_def fun_eq_iff)

lemma world_inv_user:
  assumes "world_inv rt mt w" "loan_addresses rt (fst mt)" "enter mt w t uk s"
    and "user_moves rt (t + wrap_i 64 (int (snd mt))) uk s (lw_loans w) s' ls'"
  shows "world_inv rt mt (set_world uk s' ls' t w)"
proof -
  let ?bound = "t + wrap_i 64 (int (snd mt))"
  from assms(1,3) have "loan_inv rt (fst mt) ?bound (lw_users w) (lw_loans w)"
    unfolding world_inv_def enter_def by (auto intro: loan_inv_later)
  with assms(2-4) show ?thesis
    by (auto simp: world_inv_def set_world_def enter_def user_moves_def terms_of_def intro: loan_inv_move)
qed

lemma owes_same_numbers:
  assumes "owes bound at d" "\<And>q. map_option (\<lambda>t. (tl_balance t, tl_maturation_timestamp t)) (at' q) =
      map_option (\<lambda>t. (tl_balance t, tl_maturation_timestamp t)) (at q)"
  shows "owes bound at' d"
proof -
  have ex: "(at' q \<noteq> None) = (at q \<noteq> None)" for q using assms(2) [of q] by (cases "at q"; cases "at' q") auto
  have eq: "tl_balance (the (at' q)) = tl_balance (the (at q)) \<and>
      tl_maturation_timestamp (the (at' q)) = tl_maturation_timestamp (the (at q))" if "at q \<noteq> None" for q
    using assms(2) [of q] that by auto
  have act: "at q \<noteq> None" if "q \<in> set (active_loans d)" for q
    using assms(1) that active_loans_u64 [OF owes_u64 [OF assms(1)] that] unfolding owes_def by blast
  have maps: "map (\<lambda>q. tl_balance (the (at' q))) (active_loans d) = map (\<lambda>q. tl_balance (the (at q))) (active_loans d)"
    "map (\<lambda>q. tl_maturation_timestamp (the (at' q))) (active_loans d) =
       map (\<lambda>q. tl_maturation_timestamp (the (at q))) (active_loans d)"
    using eq act by (simp_all del: active_loans_set cong: map_cong)
  have first: "active_loans d \<noteq> [] \<Longrightarrow> tl_maturation_timestamp (the (at' (db_next_unpaid_term_loan_seqno d))) =
      tl_maturation_timestamp (the (at (db_next_unpaid_term_loan_seqno d)))"
    using eq [OF act] by (auto simp: active_loans_def)
  have bd: "(\<forall>q \<in> set (active_loans d). tl_maturation_timestamp (the (at' q)) \<le> bound) \<longleftrightarrow>
      (\<forall>q \<in> set (active_loans d). tl_maturation_timestamp (the (at q)) \<le> bound)"
    using eq act by (simp del: active_loans_set)
  show ?thesis
    using assms(1) first unfolding owes_def maps ex bd by (elim conjE, intro conjI impI) (assumption | simp)+
qed

lemma loans_move_flags:
  assumes "ls k = Some t" "tl_margin_user t = uk"
  shows "loans_move rt m bound uk d ls d (ls(k \<mapsto> t\<lparr>tl_flags := fl\<rparr>))"
proof -
  have "owes bound (\<lambda>q. (ls(k \<mapsto> t\<lparr>tl_flags := fl\<rparr>)) (loan_key rt m uk q)) d" if "owes bound (\<lambda>q. ls (loan_key rt m uk q)) d"
    by (rule owes_same_numbers [OF that]) (use assms(1) in auto)
  with assms show ?thesis unfolding loans_move_def wf_loans_def by (auto split: if_split_asm)
qed

lemma toggle_loan_moves:
  assumes "toggle_auto_roll_loan_handler rt ma uk lk loan s = Inr (l, s')" "ls lk = Some loan"
  shows "user_moves rt' bound uk s ls s' (ls(lk \<mapsto> l))"
  using assms by (auto simp: toggle_auto_roll_loan_handler_def user_moves_def emit_event_def Let_def intro!: loans_move_flags)

lemma join_user:
  assumes "initialize_margin_user_handler rt height k a existing s = Inr (u, r, s')"
  shows "existing = None \<and> mu_market u = mk_address (ms_market s) \<and> mu_debt u = default_debt"
  using assms by (auto simp: initialize_margin_user_handler_def margin_user_new_def Let_def)

lemma loan_step_inv:
  assumes "loan_step rt en mt w w'" "loan_addresses rt (fst mt)" "world_inv rt mt w"
  shows "world_inv rt mt w'"
  using assms(1)
proof cases
  case (ls_join t s sg height k a u r s')
  from join_user [OF ls_join(4)] have "lw_users w (iu_margin_user k) = None" "mu_market u = fst mt" "mu_debt u = default_debt"
    using ls_join(3) by (auto simp: terms_of_def)
  with assms(2,3) ls_join(2) show ?thesis unfolding ls_join(1) world_inv_def
    by (auto intro!: loan_inv_join intro: loan_inv_later)
next
  case (ls_borrow t k s sg assoc height ok p ad a loan r s')
  then show ?thesis unfolding ls_borrow(1)
    using borrow_handler_moves [OF ls_borrow(3), of _ "lw_loans w"] assms(2)
    by (intro world_inv_user [OF assms(3,2)]) (auto simp: enter_def terms_of_def)
next
  case (ls_repay t k s loan sg amount nk l s')
  have "user_moves rt b (rk_margin_user k) s (lw_loans w) s' ((lw_loans w)(rk_term_loan k := l))" for b
    using ls_repay(2,3) assms(2) by (intro term_repay_moves [OF ls_repay(4)]) (auto simp: enter_def terms_of_def)
  then show ?thesis unfolding ls_repay(1) using ls_repay(2) by (intro world_inv_user [OF assms(3,2)])
next
  case (ls_roll_loan t k s loan sg height ok ad nk a new old r s')
  have "user_moves (instruction rt sg t) (t + wrap_i 64 (int (snd mt))) (bk_margin_user (rb_borrow k)) s (lw_loans w) s'
      ((put_loan (bk_term_loan (rb_borrow k)) new (lw_loans w))(rb_loan k := old))"
    using ls_roll_loan(2-4) assms(2) by (intro roll_handler_moves [OF ls_roll_loan(5)]) (auto simp: enter_def terms_of_def)
  then show ?thesis unfolding ls_roll_loan(1) using ls_roll_loan(2) by (intro world_inv_user [OF assms(3,2)]) simp_all
next
  case (ls_toggle_loan t uk s lk loan sg ma l s')
  then show ?thesis unfolding ls_toggle_loan(1)
    by (intro world_inv_user [OF assms(3,2)]) (auto intro: toggle_loan_moves)
next
  case (ls_settle t uk s sg assoc height sk a r s')
  then show ?thesis unfolding ls_settle(1)
    by (intro world_inv_user [OF assms(3,2)]) (auto intro!: user_moves_frame dest: settle_debt)
next
  case (ls_lend t uk s sg ok lk p ad ex d s')
  then show ?thesis unfolding ls_lend(1)
    by (intro world_inv_user [OF assms(3,2)]) (auto intro!: user_moves_frame dest: user_handlers_debt)
next
  case (ls_sell t uk s sg ok c cm slk p ad s')
  then show ?thesis unfolding ls_sell(1)
    by (intro world_inv_user [OF assms(3,2)]) (auto intro!: user_moves_frame dest: sell_handler_debt)
next
  case (ls_redeem t uk s sg rk d s')
  then show ?thesis unfolding ls_redeem(1)
    by (intro world_inv_user [OF assms(3,2)]) (auto intro!: user_moves_frame dest: user_handlers_debt)
next
  case (ls_roll_deposit t uk s sg ok rlk ad d ex d' s')
  then show ?thesis unfolding ls_roll_deposit(1)
    by (intro world_inv_user [OF assms(3,2)]) (auto intro!: user_moves_frame dest: user_handlers_debt)
next
  case (ls_configure t uk s sg ma owner roll a s')
  then show ?thesis unfolding ls_configure(1)
    by (intro world_inv_user [OF assms(3,2)]) (auto intro!: user_moves_frame dest: configure_debt)
next
  case (ls_crank t s sg crank auth n s')
  have "crank_inv (instruction rt sg t) mt s"
    using assms(3) ls_crank(2-5) unfolding crank_inv_def world_inv_def by (auto intro: loan_inv_later)
  with consume_events_inv [OF ls_crank(6)] assms(2) show ?thesis
    unfolding ls_crank(1) by (simp add: crank_inv_def world_inv_def)
qed

lemma world_inv_reachable:
  assumes "(loan_step rt en mt)\<^sup>*\<^sup>* (no_loans t0) w" "loan_addresses rt (fst mt)"
  shows "world_inv rt mt w"
  using assms(1)
proof (induction rule: rtranclp_induct)
  case base
  show ?case by (simp add: world_inv_def no_loans_def loan_inv_def wf_loans_def)
next
  case (step w w')
  then show ?case using assms(2) by (blast intro: loan_step_inv)
qed

text \<open>The first of the active loans matures first.\<close>

lemma owes_past_due:
  assumes o: "owes bound at d"
  shows "debt_is_past_due d now = Inr (\<exists>q \<in> set (active_loans d). tl_maturation_timestamp (the (at q)) \<le> now)"
proof -
  let ?a = "db_next_unpaid_term_loan_seqno d" and ?m = "\<lambda>q. tl_maturation_timestamp (the (at q))"
  have le: "?a \<le> db_next_new_term_loan_seqno d" and u: "u64 (db_next_new_term_loan_seqno d)"
    using o unfolding owes_def by blast+
  then have n: "outstanding_term_loans d = Inr (db_next_new_term_loan_seqno d - ?a)"
    by (simp add: outstanding_term_loans_def)
  show ?thesis
  proof (cases "active_loans d = []")
    case True
    then have "db_next_new_term_loan_seqno d - ?a = 0" using le by (auto simp: active_loans_def)
    with True show ?thesis by (simp add: debt_is_past_due_def n del: active_loans_set)
  next
    case False
    then have lt: "?a < db_next_new_term_loan_seqno d" by (simp add: active_loans_def)
    then have act: "active_loans d = ?a # [Suc ?a..<db_next_new_term_loan_seqno d]"
      by (simp add: active_loans_def upt_conv_Cons)
    have first: "db_next_term_loan_maturity d = ?m ?a" and "sorted (map ?m (active_loans d))"
      using o False unfolding owes_def by blast+
    then have "?m ?a \<le> ?m q" if "q \<in> set (active_loans d)" for q
      using that unfolding act by auto
    moreover have "?a \<in> set (active_loans d)" unfolding act by simp
    ultimately have "(?m ?a \<le> now) = (\<exists>q \<in> set (active_loans d). ?m q \<le> now)" by (blast intro: order_trans)
    with lt show ?thesis by (simp add: debt_is_past_due_def n first del: active_loans_set)
  qed
qed

text \<open>A run of the sample market: a user joins and borrows.\<close>

definition plain_world :: LoanWorld where
  "plain_world = \<lparr>lw_users = [7 \<mapsto> plain_user\<lparr>mu_debt := plain_debt\<rparr>], lw_loans = [1000 + 7 * 2 ^ 64 \<mapsto> plain_loan],
     lw_now = 20\<rparr>"

lemma plain_loan_key: "loan_key plain_runtime m u q = 1000 + u * 2 ^ 64 + q"
  by (simp add: loan_key_def pda_def plain_runtime_def term_loan_seeds_def)

lemma plain_addresses: "loan_addresses plain_runtime m"
  unfolding loan_addresses_def plain_loan_key
proof (intro allI impI)
  fix u q u' q' :: nat
  assume q: "u64 q" "u64 q'" and e: "1000 + u * 2 ^ 64 + q = 1000 + u' * 2 ^ 64 + q'"
  then have "(u * 2 ^ 64 + q) div 2 ^ 64 = (u' * 2 ^ 64 + q') div 2 ^ 64"
    "(u * 2 ^ 64 + q) mod 2 ^ 64 = (u' * 2 ^ 64 + q') mod 2 ^ 64" "q < 2 ^ 64" "q' < 2 ^ 64"
    by (auto simp: u_range_def)
  then show "u = u' \<and> q = q'" by simp
qed

lemma plain_reachable: "(loan_step plain_runtime filling_engine (2, 50))\<^sup>*\<^sup>* (no_loans 0) plain_world"
proof -
  let ?w = "\<lparr>lw_users = [7 \<mapsto> plain_user], lw_loans = Map.empty, lw_now = 10\<rparr>"
  have tm: "terms_of plain_market = (2, 50)" by (simp add: plain_market_def terms_of_def)
  obtain r s' where j: "initialize_margin_user_handler (instruction plain_runtime [20] 10) 2 plain_join invoked_account None
      plain_state = Inr (plain_user, r, s')" by (rule plain_joined)
  have "loan_step plain_runtime filling_engine (2, 50) (no_loans 0)
      ((no_loans 0)\<lparr>lw_users := (lw_users (no_loans 0))(iu_margin_user plain_join \<mapsto> plain_user), lw_now := 10\<rparr>)"
    using j by (intro ls_join) (simp_all add: no_loans_def plain_state_def tm)
  then have one: "loan_step plain_runtime filling_engine (2, 50) (no_loans 0) ?w"
    by (simp add: no_loans_def plain_join_def)
  obtain r s' where b: "us_user s' = plain_user\<lparr>mu_debt := plain_debt\<rparr>"
    "margin_borrow_order_handler (instruction plain_runtime [20] 20) filling_engine (\<lambda>_ _. 14) 2 plain_orderbook plain_borrow
       plain_params None None invoked_account plain_user_state = Inr (Some plain_loan, r, s')" by (rule plain_borrowed)
  have e: "enter (2, 50) ?w 20 (bk_margin_user plain_borrow) plain_user_state"
    by (simp add: enter_def plain_borrow_def plain_user_state_def tm i_range_def wrap_i_def)
  have "loan_step plain_runtime filling_engine (2, 50) ?w
      (set_world (bk_margin_user plain_borrow) s' (put_loan (bk_term_loan plain_borrow) (Some plain_loan) (lw_loans ?w)) 20 ?w)"
    using e b(2) by (intro ls_borrow) simp_all
  then have "loan_step plain_runtime filling_engine (2, 50) ?w plain_world"
    by (simp add: set_world_def plain_borrow_def plain_world_def b(1))
  with one show ?thesis by (meson converse_rtranclp_into_rtranclp rtranclp.rtrancl_refl)
qed

text \<open>
  C10: Whatever users and the crank do in a market, in any order, the committed debt of each user is the sum
  of the balances of the user's loans, and the loans that exist are exactly those with the active numbers.
\<close>

theorem loans_match_debt:
  assumes "(loan_step rt en mt)\<^sup>*\<^sup>* (no_loans t0) w" "loan_addresses rt (fst mt)" "lw_users w uk = Some u"
  shows "db_committed (mu_debt u) =
      sum_list (map (\<lambda>q. tl_balance (the (lw_loans w (loan_key rt (fst mt) uk q)))) (active_loans (mu_debt u))) \<and>
    (\<forall>q. u64 q \<longrightarrow> (lw_loans w (loan_key rt (fst mt) uk q) \<noteq> None \<longleftrightarrow> q \<in> set (active_loans (mu_debt u))))"
proof -
  from world_inv_reachable [OF assms(1,2)] assms(3)
  obtain bound where "owes bound (\<lambda>q. lw_loans w (loan_key rt (fst mt) uk q)) (mu_debt u)"
    unfolding world_inv_def loan_inv_def by blast
  then show ?thesis unfolding owes_def by (elim conjE, intro conjI)
qed

theorem loans_match_debt_witness:
  "db_committed plain_debt = 110 \<and> lw_loans plain_world (loan_key plain_runtime 2 7 0) \<noteq> None \<and>
     lw_loans plain_world (loan_key plain_runtime 2 7 1) = None"
  using loans_match_debt [OF plain_reachable plain_addresses, of 7 "plain_user\<lparr>mu_debt := plain_debt\<rparr>"]
  by (simp add: plain_world_def plain_debt_def plain_loan_def plain_loan_key u_range_def active_loans_def)

text \<open>
  C14: A user is reported past due exactly when one of the user's loans has matured, and the report never fails.
\<close>

theorem past_due_iff_loan_matured:
  assumes "(loan_step rt en mt)\<^sup>*\<^sup>* (no_loans t0) w" "loan_addresses rt (fst mt)" "lw_users w uk = Some u"
  shows "user_is_past_due u now =
    Inr (\<exists>k t. lw_loans w k = Some t \<and> tl_margin_user t = uk \<and> tl_maturation_timestamp t \<le> now)"
proof -
  let ?d = "mu_debt u" and ?at = "\<lambda>q. lw_loans w (loan_key rt (fst mt) uk q)"
  from world_inv_reachable [OF assms(1,2)] assms(3) obtain bound where o: "owes bound ?at ?d"
    and wf: "wf_loans rt (fst mt) (lw_loans w)"
    unfolding world_inv_def loan_inv_def by blast
  have ex: "u64 q \<Longrightarrow> ?at q \<noteq> None \<longleftrightarrow> q \<in> set (active_loans ?d)" for q
    using o unfolding owes_def by blast
  have own: "tl_margin_user (the (?at q)) = uk" if "q \<in> set (active_loans ?d)" for q
    using ex [OF active_loans_u64 [OF owes_u64 [OF o] that]] that wf_loansD [OF wf] assms(2)
      active_loans_u64 [OF owes_u64 [OF o] that] loan_addresses_eq by (metis option.collapse)
  have "(\<exists>q \<in> set (active_loans ?d). tl_maturation_timestamp (the (?at q)) \<le> now) \<longleftrightarrow>
      (\<exists>k t. lw_loans w k = Some t \<and> tl_margin_user t = uk \<and> tl_maturation_timestamp t \<le> now)"
  proof
    assume "\<exists>q \<in> set (active_loans ?d). tl_maturation_timestamp (the (?at q)) \<le> now"
    then obtain q where q: "q \<in> set (active_loans ?d)" "tl_maturation_timestamp (the (?at q)) \<le> now" by blast
    with ex [OF active_loans_u64 [OF owes_u64 [OF o] q(1)]] own [OF q(1)]
    show "\<exists>k t. lw_loans w k = Some t \<and> tl_margin_user t = uk \<and> tl_maturation_timestamp t \<le> now"
      by (metis option.collapse)
  next
    assume "\<exists>k t. lw_loans w k = Some t \<and> tl_margin_user t = uk \<and> tl_maturation_timestamp t \<le> now"
    then obtain k t where t: "lw_loans w k = Some t" "tl_margin_user t = uk" "tl_maturation_timestamp t \<le> now" by blast
    with wf_loansD [OF wf t(1)] have k: "u64 (tl_sequence_number t)" "?at (tl_sequence_number t) = Some t" by auto
    with ex [OF k(1)] t show "\<exists>q \<in> set (active_loans ?d). tl_maturation_timestamp (the (?at q)) \<le> now"
      by (intro bexI [of _ "tl_sequence_number t"]) (simp_all del: active_loans_set)
  qed
  then show ?thesis by (simp add: user_is_past_due_def owes_past_due [OF o] del: active_loans_set)
qed

theorem past_due_iff_loan_matured_witness:
  "user_is_past_due (plain_user\<lparr>mu_debt := plain_debt\<rparr>) 69 = Inr False \<and>
     user_is_past_due (plain_user\<lparr>mu_debt := plain_debt\<rparr>) 70 = Inr True"
  using past_due_iff_loan_matured [OF plain_reachable plain_addresses, of 7 "plain_user\<lparr>mu_debt := plain_debt\<rparr>"]
  by (auto simp: plain_world_def plain_loan_def)

end
