(* ===== verification/FixedTermSettlement.thy ===== *)
theory FixedTermSettlement
  imports FixedTermFrames FixedTermSample Vaults
begin

text \<open>
  Settlement brings the notes of a user in line with the user's debt and collateral, and pays out what the
  user is entitled to.
\<close>

text \<open>An instruction that changes at most the accounts \<open>K\<close>.\<close>

definition touches :: "'l Runtime \<Rightarrow> Pubkey set \<Rightarrow> ('b, 'l) UserState \<Rightarrow> ('b, 'l) UserState \<Rightarrow> bool" where
  "touches rt K s s' \<longleftrightarrow> us_user s' = us_user s \<and> ms_market s' = ms_market s \<and>
     (\<forall>k. k \<notin> K \<longrightarrow> rt_account rt (ms_ledger s') k = rt_account rt (ms_ledger s) k)"

lemma touches_amount: "touches rt K s s' \<Longrightarrow> k \<notin> K \<Longrightarrow> tokens_at rt (ms_ledger s') k = tokens_at rt (ms_ledger s) k"
  by (simp add: touches_def tokens_at_def)

context token_program
begin

lemma market_cpi_effect:
  assumes "market_cpi rt ix s = Inr (s' :: ('b, 'l) UserState)"
  obtains l where "s' = s\<lparr>ms_ledger := l\<rparr>"
    "rt_invoke rt (rt_signer_address rt (market_signer (ms_market s)) # rt_signers rt) ix (ms_ledger s) = Some l"
  using assms by (auto simp: market_cpi_def)

lemma market_mint_effect:
  assumes "market_mint rt m t n s = Inr (s' :: ('b, 'l) UserState)"
  shows "touches rt {t} s s' \<and> tokens_at rt (ms_ledger s') t = tokens_at rt (ms_ledger s) t + n"
  using market_cpi_effect [OF assms [unfolded market_mint_def]]
  by cases (auto simp: touches_def touches_only_def dest: mint_tokens)

lemma market_burn_effect:
  assumes "market_burn rt m t n s = Inr (s' :: ('b, 'l) UserState)"
  shows "touches rt {t} s s' \<and> tokens_at rt (ms_ledger s') t = tokens_at rt (ms_ledger s) t - n"
  using market_cpi_effect [OF assms [unfolded market_burn_def]]
  by cases (auto simp: touches_def touches_only_def dest: burn_tokens)

lemma market_withdraw_effect:
  assumes "market_withdraw rt f t n s = Inr (s' :: ('b, 'l) UserState)" "f \<noteq> t"
  shows "touches rt {f, t} s s' \<and> tokens_at rt (ms_ledger s') t = tokens_at rt (ms_ledger s) t + n"
  using market_cpi_effect [OF assms(1) [unfolded market_withdraw_def]]
  by cases (use assms(2) in \<open>auto simp: touches_def touches_only_def dest: transfer_tokens\<close>)

lemma settle_notes_effect:
  assumes "settle_notes rt m t held deserved s = Inr (s' :: ('b, 'l) UserState)" "tokens_at rt (ms_ledger s) t = held"
  shows "touches rt {t} s s' \<and> tokens_at rt (ms_ledger s') t = deserved"
proof -
  consider "held = deserved" | "held > deserved" | "held < deserved" by linarith
  then show ?thesis
    using assms market_mint_effect [of m t "deserved - held" s s'] market_burn_effect [of m t "held - deserved" s s']
    by cases (auto simp: settle_notes_def touches_def)
qed

lemma pay_tickets:
  assumes "(if n > 0 then bindE (verify_settlement_account_registration a mint t e) (\<lambda>_. market_mint rt m t n s)
            else Inr s) = Inr (s' :: ('b, 'l) UserState)"
  shows "touches rt {t} s s' \<and> tokens_at rt (ms_ledger s') t = tokens_at rt (ms_ledger s) t + n"
  using assms market_mint_effect [of m t n s s'] by (auto simp: touches_def split: if_split_asm)

lemma pay_tokens:
  assumes "(if n > 0 then bindE (verify_settlement_account_registration a mint t e) (\<lambda>_. market_withdraw rt f t n s)
            else Inr s) = Inr (s' :: ('b, 'l) UserState)" "f \<noteq> t"
  shows "touches rt {f, t} s s' \<and> tokens_at rt (ms_ledger s') t = tokens_at rt (ms_ledger s) t + n"
  using assms market_withdraw_effect [of f t n s s'] by (auto simp: touches_def split: if_split_asm)

lemma emit_all_keeps:
  "emit_all_balances rt' s = Inr s' \<Longrightarrow> us_user s' = us_user s \<and> ms_ledger s' = ms_ledger s"
  by (auto simp: emit_all_balances_def emit_asset_balances_def emit_debt_balances_def emit_event_def)

lemma settle_effect:
  fixes s :: "('b, 'l) UserState"
  assumes "settle_handler rt assoc height k a s = Inr (r, s')"
    and "distinct [st_claims k, st_ticket_collateral k, st_underlying_collateral k, st_ticket_settlement k,
           st_underlying_settlement k, st_underlying_token_vault k]"
  shows "tokens_at rt (ms_ledger s') (st_claims k) = db_pending (mu_debt (us_user s)) + db_committed (mu_debt (us_user s)) \<and>
    tokens_at rt (ms_ledger s') (st_ticket_collateral k) =
      fa_tickets_staked (mu_assets (us_user s)) + fa_tickets_posted (mu_assets (us_user s)) \<and>
    tokens_at rt (ms_ledger s') (st_underlying_collateral k) = fa_tokens_posted (mu_assets (us_user s)) \<and>
    tokens_at rt (ms_ledger s') (st_ticket_settlement k) =
      tokens_at rt (ms_ledger s) (st_ticket_settlement k) + fa_entitled_tickets (mu_assets (us_user s)) \<and>
    tokens_at rt (ms_ledger s') (st_underlying_settlement k) =
      tokens_at rt (ms_ledger s) (st_underlying_settlement k) + fa_entitled_tokens (mu_assets (us_user s)) \<and>
    us_user s' = settlement_complete (us_user s)"
proof -
  let ?u = "us_user s" and ?vault = "st_underlying_token_vault k"
  let ?debt = "db_pending (mu_debt ?u) + db_committed (mu_debt ?u)"
  let ?tickets = "fa_tickets_staked (mu_assets ?u) + fa_tickets_posted (mu_assets ?u)"
  from assms(1) obtain c1 c2 c3 e1 e2 m and s1 s2 s3 s4 s5 :: "('b, 'l) UserState" where
    acc: "rt_account rt (ms_ledger s) (st_claims k) = Some c1" "rt_account rt (ms_ledger s) (st_ticket_collateral k) = Some c2"
      "rt_account rt (ms_ledger s) (st_underlying_collateral k) = Some c3"
    and n1: "settle_notes rt (st_claims_mint k) (st_claims k) (ta_amount c1) ?debt s = Inr s1"
    and n2: "settle_notes rt (st_ticket_collateral_mint k) (st_ticket_collateral k) (ta_amount c2) ?tickets s1 = Inr s2"
    and n3: "settle_notes rt (st_underlying_collateral_mint k) (st_underlying_collateral k) (ta_amount c3)
      (fa_tokens_posted (mu_assets ?u)) s2 = Inr s3"
    and n4: "(if fa_entitled_tickets (mu_assets ?u) > 0
      then bindE (verify_settlement_account_registration a (st_ticket_mint k) (st_ticket_settlement k) e1)
        (\<lambda>_. market_mint rt (st_ticket_mint k) (st_ticket_settlement k) (fa_entitled_tickets (mu_assets ?u)) s3)
      else Inr s3) = Inr s4"
    and n5: "(if fa_entitled_tokens (mu_assets ?u) > 0
      then bindE (verify_settlement_account_registration a m (st_underlying_settlement k) e2)
        (\<lambda>_. market_withdraw rt ?vault (st_underlying_settlement k) (fa_entitled_tokens (mu_assets ?u)) s4)
      else Inr s4) = Inr s5"
    and s': "us_user s' = settlement_complete (us_user s5)" "ms_ledger s' = ms_ledger s5"
    unfolding settle_handler_def Let_def debt_total_def ticket_collateral_def underlying_collateral_def unwrap_def
    by (auto dest!: emit_all_keeps split: option.splits split del: if_split)
  have d: "?vault \<noteq> st_underlying_settlement k" using assms(2) by auto
  from settle_notes_effect [OF n1] acc have t1: "touches rt {st_claims k} s s1"
    "tokens_at rt (ms_ledger s1) (st_claims k) = ?debt" by (simp_all add: tokens_at_Some)
  from settle_notes_effect [OF n2] touches_amount [OF t1(1), of "st_ticket_collateral k"] acc assms(2)
  have t2: "touches rt {st_ticket_collateral k} s1 s2" "tokens_at rt (ms_ledger s2) (st_ticket_collateral k) = ?tickets"
    by (auto simp: tokens_at_Some)
  from settle_notes_effect [OF n3] touches_amount [OF t1(1), of "st_underlying_collateral k"]
    touches_amount [OF t2(1), of "st_underlying_collateral k"] acc assms(2)
  have t3: "touches rt {st_underlying_collateral k} s2 s3"
    "tokens_at rt (ms_ledger s3) (st_underlying_collateral k) = fa_tokens_posted (mu_assets ?u)"
    by (auto simp: tokens_at_Some)
  note p4 = pay_tickets [OF n4] and p5 = pay_tokens [OF n5 d]
  have "us_user s5 = ?u" using t1 t2 t3 p4 p5 by (simp add: touches_def)
  moreover note ta = touches_amount [OF t1(1)] touches_amount [OF t2(1)] touches_amount [OF t3(1)]
    touches_amount [OF conjunct1 [OF p4]] touches_amount [OF conjunct1 [OF p5]]
  ultimately show ?thesis using assms(2) t1(2) t2(2) t3(2) p4 p5 s' by auto
qed

end

text \<open>
  C11: After a settlement the claim notes of the user are the user's debt, the two collateral notes are the tickets
  and tokens the user has at stake and in orders, and the user has been paid what was owed.
\<close>

theorem settlement_matches_books:
  assumes "spl_token rt" "settle_handler rt assoc height k a s = Inr (r, s')"
    and "distinct [st_claims k, st_ticket_collateral k, st_underlying_collateral k, st_ticket_settlement k,
           st_underlying_settlement k, st_underlying_token_vault k]"
  shows "tokens_at rt (ms_ledger s') (st_claims k) = db_pending (mu_debt (us_user s)) + db_committed (mu_debt (us_user s)) \<and>
    tokens_at rt (ms_ledger s') (st_ticket_collateral k) =
      fa_tickets_staked (mu_assets (us_user s)) + fa_tickets_posted (mu_assets (us_user s)) \<and>
    tokens_at rt (ms_ledger s') (st_underlying_collateral k) = fa_tokens_posted (mu_assets (us_user s)) \<and>
    tokens_at rt (ms_ledger s') (st_ticket_settlement k) =
      tokens_at rt (ms_ledger s) (st_ticket_settlement k) + fa_entitled_tickets (mu_assets (us_user s)) \<and>
    tokens_at rt (ms_ledger s') (st_underlying_settlement k) =
      tokens_at rt (ms_ledger s) (st_underlying_settlement k) + fa_entitled_tokens (mu_assets (us_user s)) \<and>
    us_user s' = settlement_complete (us_user s)"
  by (rule token_program.settle_effect [OF token_program.intro [OF assms(1)] assms(2,3)])

text \<open>A borrower of 110 tickets who still has 5 notes of an old deposit and only 100 claim notes.\<close>

definition note_account :: "Pubkey \<Rightarrow> nat \<Rightarrow> TokenAccount" where
  "note_account mint n = \<lparr>ta_mint = mint, ta_owner = 2, ta_delegate = None, ta_amount = n\<rparr>"

definition unsettled_ledger :: Ledger where
  "unsettled_ledger =
     \<lparr>lg_accounts = [111 \<mapsto> note_account 8 100, 123 \<mapsto> note_account 9 5, 127 \<mapsto> note_account 10 0],
      lg_mints = (\<lambda>m. Some \<lparr>mint_supply = 1000, mint_authority = Some 2, mint_decimals = 6\<rparr>)\<rparr>"

definition unsettled_state :: "(unit, Ledger) UserState" where
  "unsettled_state = \<lparr>ms_market = plain_market, ms_book = (), ms_ledger = unsettled_ledger, ms_events = [],
     us_user = plain_user\<lparr>mu_debt := plain_debt\<rparr>\<rparr>"

definition plain_settle :: SettleKeys where
  "plain_settle = \<lparr>st_margin_account = 20, st_claims = 111, st_claims_mint = 8, st_ticket_collateral = 123,
     st_ticket_collateral_mint = 9, st_underlying_collateral = 127, st_underlying_collateral_mint = 10,
     st_underlying_token_vault = 5, st_ticket_mint = 6, st_underlying_settlement = 24, st_ticket_settlement = 26\<rparr>"

lemma plain_settled:
  obtains r s' where "settle_handler (ledger_runtime (\<lambda>_. 2) [] 60) (\<lambda>owner mint. owner + mint) 2 plain_settle invoked_account
     unsettled_state = Inr (r, s')"
proof -
  have "case settle_handler (ledger_runtime (\<lambda>_. 2) [] 60) (\<lambda>owner mint. owner + mint) 2 plain_settle invoked_account
     unsettled_state of Inr (r, s') \<Rightarrow> True | _ \<Rightarrow> False"
    unfolding settle_handler_def settle_notes_def market_burn_def
    by (simp del: bindE_Inr_iff add: check_settle_keys_def unsettled_state_def unsettled_ledger_def note_account_def
        plain_settle_def load_token_account_def debt_total_def ticket_collateral_def underlying_collateral_def
        may_spend_def emit_all_balances_def emit_asset_balances_def assets_updated_def settlement_complete_def
        sample_defs step_defs user_defs invoked)
  with that show ?thesis by (auto split: sum.splits)
qed

theorem settlement_matches_books_witness:
  "\<exists>r s'. settle_handler (ledger_runtime (\<lambda>_. 2) [] 60) (\<lambda>owner mint. owner + mint) 2 plain_settle invoked_account
     unsettled_state = Inr (r, s') \<and> tokens_at (ledger_runtime (\<lambda>_. 2) [] 60) (ms_ledger s') 111 = 110 \<and>
     tokens_at (ledger_runtime (\<lambda>_. 2) [] 60) (ms_ledger s') 123 = 0"
proof -
  obtain r s' where h: "settle_handler (ledger_runtime (\<lambda>_. 2) [] 60) (\<lambda>owner mint. owner + mint) 2 plain_settle
     invoked_account unsettled_state = Inr (r, s')" by (rule plain_settled)
  have "distinct [st_claims plain_settle, st_ticket_collateral plain_settle, st_underlying_collateral plain_settle,
      st_ticket_settlement plain_settle, st_underlying_settlement plain_settle, st_underlying_token_vault plain_settle]"
    by (simp add: plain_settle_def)
  from settlement_matches_books [OF ledger_runtime_spl h this] h show ?thesis
    by (intro exI [of _ r] exI [of _ s'])
       (simp add: plain_settle_def unsettled_state_def plain_debt_def plain_user_def margin_user_new_def default_assets_def)
qed

end
