(* ===== verification/FixedTermOutcomes.thy ===== *)
theory FixedTermOutcomes
  imports FixedTermSafety FixedTermSettlement
begin

text \<open>
  Fees, rolls, redemptions, event adapters and the crank: what the instructions of the fixed-term markets
  guarantee and where they fall short of it.
\<close>

subsection \<open>The origination fee\<close>

lemma fee_quotient:
  fixes r f U :: nat
  assumes "0 < f" "0 < U"
  shows "U * (1 + r + r * f div U) div (U + f) = r"
proof -
  define x where "x = r * f div U"
  define y where "y = r * f mod U"
  have rf: "r * f = U * x + y" "y < U" using assms(2) unfolding x_def y_def by simp_all
  have "r * (U + f) \<le> U * (1 + r + x)" using rf by (simp add: algebra_simps)
  moreover have "U * (1 + r + x) < Suc r * (U + f)" using rf assms(1) by (simp add: algebra_simps)
  ultimately show ?thesis unfolding x_def
    by (intro div_nat_eqI) (simp_all add: mult.commute)
qed

lemma loan_to_disburse_value:
  assumes "u64 q" "u64 (FEE_UNIT + f)"
  shows "loan_to_disburse q f = Inr (FEE_UNIT * q div (FEE_UNIT + f))"
proof -
  have "FEE_UNIT * q div (FEE_UNIT + f) \<le> q"
    by (rule order.trans [OF div_le_mono2 [of FEE_UNIT]]) (simp_all add: FEE_UNIT_def)
  with assms(1) have v: "u64 (FEE_UNIT * q div (FEE_UNIT + f))" by (simp add: u_range_def)
  consider "q = 0" | "f = 0" "q \<noteq> 0" | "0 < f" "q \<noteq> 0" "q < (2 ^ 64 - 1) div FEE_UNIT"
    | "0 < f" "q \<noteq> 0" "\<not> q < (2 ^ 64 - 1) div FEE_UNIT" by linarith
  then show ?thesis
  proof cases
    case 3
    then have "u64 (FEE_UNIT * q)" by (simp add: FEE_UNIT_def u_range_def)
    then have "plain_mul 64 FEE_UNIT q = (Inr (FEE_UNIT * q) :: nat ft_res)"
      by (simp add: plain_mul_def u_range_def nat_mult_distrib flip: of_nat_mult)
    with 3 assms show ?thesis by (simp add: loan_to_disburse_def plain_div_def FEE_UNIT_def)
  next
    case 4
    with v show ?thesis by (simp add: loan_to_disburse_def u_range_def)
  qed (simp_all add: loan_to_disburse_def FEE_UNIT_def)
qed

lemma fee_removed:
  assumes "1 + requested + requested * fee div FEE_UNIT < 2 ^ 64 - 1"
  shows "FEE_UNIT * borrow_order_qty requested fee div (FEE_UNIT + fee) = requested"
    "u64 (borrow_order_qty requested fee)" "0 < fee \<Longrightarrow> 0 < requested \<Longrightarrow> requested < borrow_order_qty requested fee"
proof -
  consider "requested = 0" | "fee = 0" "requested \<noteq> 0" | "0 < fee" "0 < requested" by linarith
  then show "FEE_UNIT * borrow_order_qty requested fee div (FEE_UNIT + fee) = requested"
  proof cases
    case 3
    with fee_quotient [OF 3(1), of FEE_UNIT requested] assms show ?thesis
      by (simp add: borrow_order_qty_def Let_def FEE_UNIT_def)
  qed (simp_all add: borrow_order_qty_def FEE_UNIT_def)
  show "u64 (borrow_order_qty requested fee)" using assms by (auto simp: borrow_order_qty_def u_range_def Let_def)
  show "0 < fee \<Longrightarrow> 0 < requested \<Longrightarrow> requested < borrow_order_qty requested fee"
    using assms by (simp add: borrow_order_qty_def Let_def)
qed

lemma fee_restored:
  assumes "u64 (FEE_UNIT + fee)" "1 + requested + requested * fee div FEE_UNIT < 2 ^ 64 - 1"
  shows "loan_to_disburse (borrow_order_qty requested fee) fee = Inr requested"
  using loan_to_disburse_value [OF fee_removed(2) [OF assms(2)] assms(1)] fee_removed(1) [OF assms(2)] by simp

text \<open>Rounding each part down loses at most one for each part after the first.\<close>

lemma parts_rounded_down:
  fixes m d :: nat
  assumes "0 < d" "fills \<noteq> []"
  shows "sum_list (map (\<lambda>q. m * q div d) fills) \<le> m * sum_list fills div d \<and>
    m * sum_list fills div d \<le> sum_list (map (\<lambda>q. m * q div d) fills) + (length fills - 1)"
  using assms(2)
proof (induction fills rule: list_nonempty_induct)
  case (cons q qs)
  let ?a = "m * q" and ?b = "m * sum_list qs"
  have "?a div d + ?b div d \<le> (?a + ?b) div d" using div_add1_eq [of ?a ?b d] by simp
  moreover have "(?a mod d + ?b mod d) div d < 2"
    using assms(1) by (intro div_less_iff_less_mult [THEN iffD2]) (simp_all add: add_strict_mono mult_2)
  then have "(?a + ?b) div d \<le> ?a div d + ?b div d + 1" using div_add1_eq [of ?a ?b d] by linarith
  moreover obtain n where "length qs = Suc n" using cons.hyps by (cases qs) auto
  ultimately show ?case using cons.IH by (simp add: distrib_left)
qed simp

text \<open>
  C17: A borrow order of the size that includes the origination fee, filled completely in one or more parts,
  disburses what was requested but for one token at most for each part after the first, and never more; filled
  at once it disburses exactly the requested amount. This is so when the size with the fee does not reach the
  largest \<open>u64\<close>, at which the code caps it, and when the fee rate added to the fee unit is a \<open>u64\<close>.
\<close>

theorem origination_fee_round_trip:
  assumes "u64 (FEE_UNIT + fee)" "1 + requested + requested * fee div FEE_UNIT < 2 ^ 64 - 1"
    and "fills \<noteq> []" "sum_list fills = borrow_order_qty requested fee"
  shows "\<exists>disbursed. map (\<lambda>q. loan_to_disburse q fee) fills = map Inr disbursed \<and>
    sum_list disbursed \<le> requested \<and> requested \<le> sum_list disbursed + (length fills - 1)"
proof (intro exI conjI)
  let ?ds = "map (\<lambda>q. FEE_UNIT * q div (FEE_UNIT + fee)) fills"
  have "u64 q" if "q \<in> set fills" for q
    using member_le_sum_list [OF that] fee_removed(2) [OF assms(2)] assms(4) by (simp add: u_range_def)
  then show "map (\<lambda>q. loan_to_disburse q fee) fills = map Inr ?ds"
    using loan_to_disburse_value assms(1) by simp
  show "sum_list ?ds \<le> requested" "requested \<le> sum_list ?ds + (length fills - 1)"
    using parts_rounded_down [OF _ assms(3), of "FEE_UNIT + fee" FEE_UNIT] fee_removed(1) [OF assms(2)] assms(4)
    by (simp_all add: FEE_UNIT_def)
qed

theorem origination_fee_round_trip_witness:
  "\<exists>a b. loan_to_disburse 500001 2500 = Inr a \<and> loan_to_disburse 502500 2500 = Inr b \<and>
     (a + b = 1000000 \<or> a + b = 999999)"
proof -
  have "\<exists>ds. map (\<lambda>q. loan_to_disburse q 2500) [500001, 502500] = map Inr ds \<and> sum_list ds \<le> 1000000 \<and>
      1000000 \<le> sum_list ds + (length [500001, 502500 :: nat] - 1)"
    by (rule origination_fee_round_trip) (simp_all add: u_range_def FEE_UNIT_def borrow_order_qty_def Let_def)
  then obtain a b where "loan_to_disburse 500001 2500 = Inr a" "loan_to_disburse 502500 2500 = Inr b"
    "a + b \<le> 1000000" "1000000 \<le> a + b + 1"
    by (auto simp: Cons_eq_map_conv)
  then show ?thesis by auto
qed

text \<open>A book that fills every order to its whole size in tokens, and posts nothing.\<close>

definition fills_completely :: "'b Engine \<Rightarrow> bool" where
  "fills_completely en \<longleftrightarrow> (\<forall>order b summary b'. en_new_order en order b = Some (summary, b') \<longrightarrow>
     os_total_base_qty_posted summary = 0 \<and> 0 < os_total_base_qty summary \<and> u64 (os_total_base_qty summary) \<and>
     os_total_quote_qty summary = no_max_quote_qty order)"

lemma entitled_kept:
  "on_user (post_borrow_order n t) s = Inr s' \<Longrightarrow>
     fa_entitled_tokens (mu_assets (us_user s')) = fa_entitled_tokens (mu_assets (us_user s))"
  "taker_fill_borrow_order t m u = Inr (u', q) \<Longrightarrow> mu_assets u' = mu_assets u"
  by (auto simp: on_user_def post_borrow_order_def on_assets_def add_tokens_posted_def on_debt_def
      taker_fill_borrow_order_def)

lemma nothing_posted: "base_posted summary = 0 \<Longrightarrow> quote_posted r summary = Inr 0"
  by (cases r) (simp_all add: quote_posted_def quote_from_base_def fp32_mul_floor_def fp32_mul_ceil_def
      fp32_ceil_util_def checked_mul_def checked_add_def try_into_u64_def u_range_def)

lemma filled_amounts:
  assumes "place_margin_order rt en side p ma mu ad f s = Inr (info, summary, s')" "fills_completely en"
  shows "base_posted summary = 0" "0 < os_total_base_qty (sm_summary summary)"
    "u64 (os_total_base_qty (sm_summary summary))"
    "os_total_quote_qty (sm_summary summary) = op_max_underlying_token_qty p"
proof -
  obtain b order b' where "en_new_order en order b = Some (sm_summary summary, b')"
    "no_max_quote_qty order = op_max_underlying_token_qty p"
    using assms(1) by (auto simp: place_margin_order_def place_order_def as_new_order_params_def generate_from_market_def)
  with assms(2) show "base_posted summary = 0" "0 < os_total_base_qty (sm_summary summary)"
    "u64 (os_total_base_qty (sm_summary summary))" "os_total_quote_qty (sm_summary summary) = op_max_underlying_token_qty p"
    unfolding fills_completely_def base_posted_def by metis+
qed

lemma same_fee: "same_but_market s s' \<Longrightarrow> mk_origination_fee (ms_market s') = mk_origination_fee (ms_market s)"
  by (cases "ms_market s", cases "ms_market s'") (simp add: same_but_market_def market_core_def)

lemma minus_nothing: "plain_sub 64 n 0 = Inr x \<Longrightarrow> u64 n \<Longrightarrow> x = n"
  by (auto simp: plain_sub_def plain_u_def u_range_def split: if_splits)

lemma borrow_filled_principal:
  fixes s :: "('b, 'l) UserState"
  assumes "borrow_handle_filled rt k existing summary info s = Inr (disbursed, loan, s')"
    and "quote_posted (rounding_direction FillBorrow) summary = Inr 0" "os_total_quote_qty (sm_summary summary) = n" "u64 n"
  shows "tl_principal loan = n \<and> market_loan_to_disburse (ms_market s) n = Inr disbursed \<and>
    mu_assets (us_user s') = mu_assets (us_user s)"
  using assms by (auto simp: borrow_handle_filled_def Let_def quote_filled_def emit_event_def
      dest!: market_token_same [THEN same_user] entitled_kept(2) minus_nothing [OF _ assms(4)])

lemma borrow_order_filled:
  fixes s :: "('b, 'l) UserState"
  assumes "borrow_order rt en height k p adapter existing a s = Inr (disbursed, new, r, s')" "fills_completely en"
    and "u64 (market_borrow_order_qty (ms_market s) (op_max_underlying_token_qty p))"
  shows "\<exists>loan. new = Some loan \<and>
      tl_principal loan = market_borrow_order_qty (ms_market s) (op_max_underlying_token_qty p) \<and>
      market_loan_to_disburse (ms_market s) (tl_principal loan) = Inr disbursed \<and>
      fa_entitled_tokens (mu_assets (us_user s')) = fa_entitled_tokens (mu_assets (us_user s))"
proof -
  let ?p = "add_origination_fee (ms_market s) p"
  from assms(1) obtain flags info summary s1 s2 filled loan and s3 s4 s5 :: "('b, 'l) UserState" where
    placed: "place_margin_order rt en Ask ?p (bk_margin_account k) (bk_margin_user k) adapter flags s = Inr (info, summary, s1)"
    and posted: "borrow_handle_posted rt k summary s1 = Inr s2"
    and filled: "base_filled summary = Inr filled"
    and loan: "if filled > 0 then borrow_handle_filled rt k existing summary info s2 = Inr (disbursed, loan, s3) \<and> new = Some loan
      else new = None"
    and rest: "market_mint rt (bk_claims_mint k) (bk_claims k) (base_combined summary) s3 = Inr s4"
      "emit_debt_balances rt (emit_event (order_placed (bk_margin_account k) (Some (bk_margin_user k)) (mi_order_tag info)
         MarginBorrowOrder summary ?p (ms_market s4)) s4) = Inr s'"
    by (auto simp: borrow_order_def Let_def split: if_splits)
  note f = filled_amounts [OF placed assms(2)]
  note none = nothing_posted [OF f(1)]
  have "0 < filled" using filled f(1-3) by (auto simp: base_filled_def base_posted_def dest!: minus_nothing)
  with loan have loan: "borrow_handle_filled rt k existing summary info s2 = Inr (disbursed, loan, s3)" "new = Some loan"
    by simp_all
  have b: "tl_principal loan = market_borrow_order_qty (ms_market s) (op_max_underlying_token_qty p)"
    "market_loan_to_disburse (ms_market s2) (tl_principal loan) = Inr disbursed"
    "mu_assets (us_user s3) = mu_assets (us_user s2)"
    using borrow_filled_principal [OF loan(1) none f(4)] assms(3) by (simp_all add: add_origination_fee_def)
  have "us_user s1 = us_user s" using placed by (blast dest: market_same same_user)
  moreover from posted obtain s2' where s2': "on_user (post_borrow_order 0 (base_posted summary)) s1 = Inr s2'"
    "market_mint rt (bk_underlying_collateral_mint k) (bk_underlying_collateral k) 0 s2' = Inr s2"
    by (auto simp: borrow_handle_posted_def none)
  have "us_user s2 = us_user s2'" "mk_origination_fee (ms_market s2) = mk_origination_fee (ms_market s2')"
    using s2'(2) by (blast dest: market_same same_user same_fee)+
  moreover have "ms_market s2' = ms_market s1" using s2'(1) by (auto simp: on_user_def)
  moreover have "mk_origination_fee (ms_market s1) = mk_origination_fee (ms_market s)"
    using placed by (blast dest: market_same same_fee)
  moreover have "us_user s' = us_user s4" using rest(2) by (auto simp: emit_debt_balances_def emit_event_def)
  moreover have "us_user s4 = us_user s3" using rest(1) by (blast dest: market_same same_user)
  ultimately show ?thesis using b entitled_kept(1) [OF s2'(1)] loan(2)
    by (simp add: market_loan_to_disburse_def)
qed

lemma repay_loan_in_full:
  assumes "repay_loan rt k amount skip loan next s = Inr (old, s')" "tl_balance loan \<le> amount"
  shows "old = None" "mu_assets (us_user s') = mu_assets (us_user s)"
    "TermLoanFulfilled (rk_term_loan k) (rk_margin_user k) (tl_margin_user loan) (tl_balance loan) (rt_clock rt) skip
       \<in> set (ms_events s')"
proof -
  from assms obtain s1 s2 u where s: "if skip then s1 = s else user_cpi rt (TokenTransfer (rk_source k)
      (rk_underlying_token_vault k) (rk_source_authority k) (tl_balance loan)) s = Inr s1"
    "market_burn rt (rk_claims_mint k) (rk_claims k) (tl_balance loan) s1 = Inr s2"
    and u: "user_fully_repay_term_loan (loan\<lparr>tl_balance := 0\<rparr>) (tl_balance loan) (next_term_loan k next) (us_user s2) = Inr u"
    and r: "old = None" "s' = emit_event (TermLoanFulfilled (rk_term_loan k) (rk_margin_user k) (tl_margin_user loan)
      (tl_balance loan) (rt_clock rt) skip) (s2\<lparr>us_user := u\<rparr>)"
    by (auto simp: repay_loan_def Let_def safe_sub_def checked_sub_def min_absorb2 split: if_splits)
  have "us_user s1 = us_user s" using s(1) by (auto dest: market_same same_user split: if_splits)
  moreover have "us_user s2 = us_user s1" using s(2) by (blast dest: market_same same_user)
  moreover have "mu_assets u = mu_assets (us_user s2)" using u by (auto simp: user_fully_repay_term_loan_def)
  ultimately show "old = None" "mu_assets (us_user s') = mu_assets (us_user s)"
    "TermLoanFulfilled (rk_term_loan k) (rk_margin_user k) (tl_margin_user loan) (tl_balance loan) (rt_clock rt) skip
       \<in> set (ms_events s')"
    using r by (simp_all add: emit_event_def)
qed

text \<open>
  C16: An automatic roll that the book fills completely adds the origination fee to the order twice. The principal
  of the new loan is the old balance with the fee added twice, and more than the balance is disbursed: the balance
  with the fee added once. The old loan is closed by a payment of its balance, and what was disbursed beyond it is
  credited to nobody. An order with the fee added once would have disbursed the balance. This is for a fee rate
  above zero whose sum with the fee unit is a \<open>u64\<close>, and for amounts at which the code does not cap the size of the
  order.
\<close>

theorem auto_roll_charges_fee_twice:
  fixes s :: "('b, 'l) UserState"
  assumes "auto_roll_borrow_order_handler rt en height ok k remaining loan existing next a s = Inr (new, old, r, s')"
    and "fills_completely en" "fee = mk_origination_fee (ms_market s)" "0 < fee" "0 < tl_balance loan"
    and "u64 (FEE_UNIT + fee)" "once = borrow_order_qty (tl_balance loan) fee"
    and "1 + once + once * fee div FEE_UNIT < 2 ^ 64 - 1"
  shows "\<exists>rolled. new = Some rolled \<and> tl_principal rolled = borrow_order_qty once fee \<and>
    loan_to_disburse (tl_principal rolled) fee = Inr once \<and> tl_balance loan < once \<and>
    old = None \<and> TermLoanFulfilled (rb_loan k) (bk_margin_user (rb_borrow k)) (tl_margin_user loan) (tl_balance loan)
      (rt_clock rt) True \<in> set (ms_events s') \<and>
    fa_entitled_tokens (mu_assets (us_user s')) = fa_entitled_tokens (mu_assets (us_user s)) \<and>
    loan_to_disburse once fee = Inr (tl_balance loan)"
proof -
  let ?b = "(rb_borrow k)\<lparr>bk_underlying_settlement := bk_underlying_token_vault (rb_borrow k)\<rparr>"
  have once: "once < 2 ^ 64 - 1" using assms(8) by linarith
  then have "1 + tl_balance loan + tl_balance loan * fee div FEE_UNIT < 2 ^ 64 - 1"
    using assms(4,5,7) by (auto simp: borrow_order_qty_def Let_def split: if_splits)
  note first = fee_restored [OF assms(6) this] fee_removed(3) [OF this assms(4,5)]
  from assms(1) obtain p adapter disbursed r' and s1 :: "('b, 'l) UserState" where
    p: "roll_borrow_params loan (ms_market s) (us_user s) = Inr p"
    and b: "borrow_order rt en height ?b p adapter existing a s = Inr (disbursed, new, r', s1)"
    and repaid: "repay_loan rt (roll_repay_keys k) disbursed True loan (next new) s1 = Inr (old, s')"
    by (auto simp: auto_roll_borrow_order_handler_def Let_def)
  have "op_max_underlying_token_qty p = once" using p assms(3,7)
    by (auto simp: roll_borrow_params_def add_origination_fee_def market_borrow_order_qty_def split: option.splits)
  with borrow_order_filled [OF b assms(2)] assms(3) fee_removed(2) [OF assms(8)] obtain rolled where rolled: "new = Some rolled"
    "tl_principal rolled = borrow_order_qty once fee" "loan_to_disburse (tl_principal rolled) fee = Inr disbursed"
    "fa_entitled_tokens (mu_assets (us_user s1)) = fa_entitled_tokens (mu_assets (us_user s))"
    by (auto simp: market_borrow_order_qty_def market_loan_to_disburse_def)
  have d: "disbursed = once" using rolled(2,3) fee_restored [OF assms(6,8)] by simp
  have "tl_balance loan < once" using first(2) assms(7) by simp
  moreover from this have "tl_balance loan \<le> disbursed" using d by simp
  note repay_loan_in_full [OF repaid this]
  ultimately show ?thesis using rolled first(1) d assms(7) by (simp add: roll_repay_keys_def Let_def)
qed

text \<open>The loan of the sample market, rolled when it owes 110 and the fee is one percent.\<close>

definition rolled_market :: Market where
  "rolled_market = plain_market\<lparr>mk_origination_fee := 10000\<rparr>"

definition rolling_user :: MarginUser where
  "rolling_user = plain_user\<lparr>mu_debt := plain_debt,
     mu_borrow_roll_config := Some \<lparr>brc_limit_price = 5, brc_roll_tenor = 10\<rparr>\<rparr>"

definition rolling_loan :: TermLoan where
  "rolling_loan = plain_loan\<lparr>tl_flags := no_loan_flags\<lparr>tlf_auto_roll := True\<rparr>\<rparr>"

definition rolling_engine :: "unit Engine" where
  "rolling_engine = filling_engine\<lparr>en_new_order := (\<lambda>order b.
     if u64 (no_max_quote_qty order + 10)
     then Some (\<lparr>os_posted_order_id = None, os_total_base_qty = no_max_quote_qty order + 10,
            os_total_quote_qty = no_max_quote_qty order, os_total_base_qty_posted = 0\<rparr>, b)
     else None)\<rparr>"

definition rolling_keys :: RollBorrowKeys where
  "rolling_keys = \<lparr>rb_borrow = plain_borrow\<lparr>bk_term_loan := 1001 + 7 * 2 ^ 64\<rparr>, rb_loan = 1000 + 7 * 2 ^ 64,
     rb_rent_receiver = 20\<rparr>"

definition rolling_state :: "(unit, unit) UserState" where
  "rolling_state = plain_user_state\<lparr>ms_market := rolled_market, us_user := rolling_user\<rparr>"

lemmas roll_defs = rolled_market_def rolling_user_def rolling_loan_def rolling_engine_def rolling_keys_def rolling_state_def

text \<open>Evaluation of a handler step by step: what follows a step is left alone until the step has a value.\<close>

lemma bindE_step: "m = m' \<Longrightarrow> bindE m f = bindE m' f"
  by simp

lemma plain_rolled:
  obtains new old r s' where "auto_roll_borrow_order_handler (instruction plain_runtime [20] 100) rolling_engine 2
    plain_orderbook rolling_keys None rolling_loan None (\<lambda>new. new) invoked_account rolling_state = Inr (new, old, r, s')"
proof -
  have "is_ok (auto_roll_borrow_order_handler (instruction plain_runtime [20] 100) rolling_engine 2
    plain_orderbook rolling_keys None rolling_loan None (\<lambda>new. new) invoked_account rolling_state)"
    unfolding auto_roll_borrow_order_handler_def borrow_order_def borrow_handle_posted_def borrow_handle_filled_def
      repay_loan_def roll_borrow_params_def assert_can_auto_roll_def roll_repay_keys_def
    by (simp del: bindE_Inr_iff add: roll_defs sample_defs step_defs order_defs user_defs invoked FEE_UNIT_def
        market_burn_def user_fully_repay_term_loan_def fully_repay_term_loan_def next_term_loan_def is_ok_def plain_div_def plain_add_def plain_u_def wrap_u_def
        cong: bindE_step)
  with that show ?thesis by (auto simp: is_ok_def split: sum.splits)
qed

theorem auto_roll_charges_fee_twice_witness:
  "\<exists>rolled r s'. auto_roll_borrow_order_handler (instruction plain_runtime [20] 100) rolling_engine 2
      plain_orderbook rolling_keys None rolling_loan None (\<lambda>new. new) invoked_account rolling_state =
        Inr (Some rolled, None, r, s') \<and>
     tl_balance rolling_loan = 110 \<and> tl_principal rolled = 114 \<and> loan_to_disburse 114 10000 = Inr 112"
proof -
  obtain new old r s' where roll: "auto_roll_borrow_order_handler (instruction plain_runtime [20] 100) rolling_engine 2
    plain_orderbook rolling_keys None rolling_loan None (\<lambda>new. new) invoked_account rolling_state = Inr (new, old, r, s')"
    by (rule plain_rolled)
  have vals: "mk_origination_fee (ms_market rolling_state) = 10000" "tl_balance rolling_loan = 110"
    "borrow_order_qty 110 10000 = 112" "borrow_order_qty 112 10000 = 114"
    by (simp_all add: roll_defs plain_user_state_def plain_market_def plain_loan_def borrow_order_qty_def FEE_UNIT_def)
  have "fills_completely rolling_engine"
    by (auto simp: fills_completely_def rolling_engine_def split: if_splits)
  from auto_roll_charges_fee_twice [OF roll this refl _ _ _ refl] roll show ?thesis
    unfolding vals by (auto simp: vals FEE_UNIT_def u_range_def)
qed

subsection \<open>Redeeming deposits\<close>

text \<open>
  Redeeming a deposit of a margin account does not look at the deposit's market: a deposit that belongs to another
  market is paid, one for one, from the vault of this one.
\<close>

theorem margin_redeem_ignores_market:
  "margin_redeem_deposit_handler rt k (d\<lparr>dep_market := other\<rparr>) s = margin_redeem_deposit_handler rt k d s"
  by (simp add: margin_redeem_deposit_handler_def margin_redeem_def redeem_def Let_def)

subsection \<open>Event adapters\<close>

text \<open>
  No account can be loaded as an event adapter: the loader wants an account of the program, the queue wants one that
  is not. So events of a registered adapter can never be removed, and orders that name one are rejected.
\<close>

theorem adapters_never_load:
  "pop_adapter_events_handler rt owner meta n a \<noteq> Inr b \<and> maybe_next_adapter (Some a) \<noteq> Inr adapter"
  by (auto simp: pop_adapter_events_handler_def maybe_next_adapter_def load_adapter_def deserialize_user_adapter_def)

subsection \<open>Tickets sold from a margin account\<close>

lemma queue_items_first:
  assumes "queue_items 1 0 q = Inr [e]" "queue_items n 0 q = Inr es" "es \<noteq> []"
  obtains es' where "es = e # es'"
  using assms by (cases n) (auto split: if_splits)

lemma cancelled_sale_fails:
  assumes "cbf_new_debt (mi_flags i) = False" "market_side (oe_side e) = MarketBorrow" "out_quote_size e = Inr n"
    and "cs_users s (mi_margin_user i) = Some u" "fa_tokens_posted (mu_assets u) < n"
  shows "handle_event rt (OutInfo e (MarginInfo i)) s \<noteq> Inr s'"
proof
  assume "handle_event rt (OutInfo e (MarginInfo i)) s = Inr s'"
  then obtain s0 u' s1 u'' where p: "try_push_event (mi_adapter_account_key i) (OutEntry e) (Some (callback_info (MarginInfo i))) None s = Inr s0"
    and n: "next_margin_user (mi_margin_user i) s0 = Inr (u', s1)"
    and c: "cancel_borrow_order n (oe_base_size e) False u' = Inr u''"
    using assms(1-3) by (auto simp: handle_out_def Let_def)
  have "u' = u" using accounts_books(3) [OF n] try_push_event_books [OF p] assms(4) by (auto simp: books_of_def)
  with c assms(5) show False by (auto simp: cancel_borrow_order_def on_assets_def sub_tokens_posted_def)
qed

lemma events_stuck:
  assumes "cbf_new_debt (mi_flags i) = False" "market_side (oe_side e) = MarketBorrow" "out_quote_size e = Inr quote"
    and "cs_users s (mi_margin_user i) = Some u" "fa_tokens_posted (mu_assets u) < quote"
    and "queue_items 1 0 (en_queue en (ms_book s)) = Inr [OutInfo e (MarginInfo i)]"
  shows "consume_events_handler rt en crank auth n s \<noteq> Inr s'"
proof
  assume "consume_events_handler rt en crank auth n s = Inr s'"
  then obtain es s1 where "queue_items n 0 (en_queue en (ms_book s)) = Inr es" "es \<noteq> []" "foldE (handle_event rt) es s = Inr s1"
    by (auto simp: consume_events_handler_def deserialize_market_def)
  moreover from queue_items_first [OF assms(6) this(1,2)] obtain es' where "es = OutInfo e (MarginInfo i) # es'" .
  ultimately obtain s2 where "handle_event rt (OutInfo e (MarginInfo i)) s = Inr s2" by auto
  with cancelled_sale_fails [OF assms(1-5)] show False by blast
qed

lemma margin_info_restored: "cbf_margin (mi_flags i) \<Longrightarrow> user_callback_info (callback_info (MarginInfo i)) = MarginInfo i"
  by (cases i) (simp add: user_callback_info_def margin_callback_info_def)

lemma same_book:
  "market_mint rt m t n s = Inr s' \<Longrightarrow> ms_book s' = ms_book s"
  "sell_tickets rt k tag summary p u ot s = Inr s' \<Longrightarrow> ms_book s' = ms_book s"
  by (auto simp: sell_tickets_def market_mint_def market_withdraw_def market_cpi_def user_cpi_def emit_event_def)

text \<open>What a sale places, and what it does to the user's tokens: nothing.\<close>

lemma sale_posts_no_tokens:
  fixes s :: "('b, 'l) UserState"
  assumes "margin_sell_tickets_order_handler rt en ok margin_user collateral collateral_mint k p remaining s = Inr s'"
  obtains order summary i where "en_new_order en order (ms_book s) = Some (summary, ms_book s')"
    "no_side order = Ask" "user_callback_info (no_callback_info order) = MarginInfo i" "mi_margin_user i = margin_user"
    "cbf_new_debt (mi_flags i) = False"
    "fa_tokens_posted (mu_assets (us_user s')) = fa_tokens_posted (mu_assets (us_user s))"
proof -
  from assms obtain adapter i summary posted and s1 s2 s3 :: "('b, 'l) UserState" where
    placed: "place_margin_order rt en Ask p (sl_authority k) margin_user adapter (no_callback_flags\<lparr>cbf_margin := True\<rparr>) s =
      Inr (i, summary, s1)"
    and sold: "on_user (user_sell_tickets posted) s1 = Inr s2" "market_mint rt collateral_mint collateral posted s2 = Inr s3"
      "sell_tickets rt k (mi_order_tag i) summary p (Some margin_user) MarginSellTicketsOrder s3 = Inr s'"
    by (auto simp: margin_sell_tickets_order_handler_def)
  let ?order = "as_new_order_params Ask (callback_info (MarginInfo i)) p"
  have "ms_book s' = ms_book s1" using sold by (auto simp: on_user_def dest!: same_book)
  with placed have "en_new_order en ?order (ms_book s) = Some (sm_summary summary, ms_book s')"
    "mi_margin_user i = margin_user" "mi_flags i = no_callback_flags\<lparr>cbf_margin := True\<rparr>"
    by (auto simp: place_margin_order_def place_order_def generate_from_market_def)
  moreover have "us_user s1 = us_user s" "us_user s3 = us_user s2" "us_user s' = us_user s3"
    using placed sold by (blast dest: market_same same_user)+
  then have "fa_tokens_posted (mu_assets (us_user s')) = fa_tokens_posted (mu_assets (us_user s))"
    using sold(1) by (auto simp: on_user_def user_sell_tickets_def on_assets_def add_tickets_posted_def)
  ultimately show thesis
    by (intro that [of ?order "sm_summary summary" i])
      (simp_all add: as_new_order_params_def margin_info_restored no_callback_flags_def del: callback_info.simps)
qed

text \<open>
  C15: A sale of tickets from a margin account posts no tokens for the user, yet the removal of its order from the
  book takes the order's tokens from those the user has posted. So when the user had posted fewer tokens than the
  order is worth before the sale, and has posted no more since, the crank cannot pass the event that removes the
  order once it is the first of the queue: with no number of events, accounts, crank or time does consuming
  events succeed.
\<close>

theorem cancelled_sale_blocks_crank:
  fixes s :: "('b, 'l) UserState"
  assumes "margin_sell_tickets_order_handler rt en ok margin_user collateral collateral_mint k p remaining s = Inr s'"
    and "out_quote_size e = Inr quote" "oe_side e = Ask" "fa_tokens_posted (mu_assets (us_user s)) < quote"
  shows "\<exists>order summary. en_new_order en order (ms_book s) = Some (summary, ms_book s') \<and> no_side order = Ask \<and>
    (\<forall>t u. cs_users t margin_user = Some u \<and>
       fa_tokens_posted (mu_assets u) \<le> fa_tokens_posted (mu_assets (us_user s')) \<and>
       queue_items 1 0 (en_queue en (ms_book t)) = Inr [OutInfo e (user_callback_info (no_callback_info order))] \<longrightarrow>
       (\<forall>rt' crank auth n t'. consume_events_handler rt' en crank auth n t \<noteq> Inr t'))"
proof -
  from sale_posts_no_tokens [OF assms(1)] obtain order summary i where
    "en_new_order en order (ms_book s) = Some (summary, ms_book s')" "no_side order = Ask"
    and i: "user_callback_info (no_callback_info order) = MarginInfo i" "mi_margin_user i = margin_user"
      "cbf_new_debt (mi_flags i) = False"
      "fa_tokens_posted (mu_assets (us_user s')) = fa_tokens_posted (mu_assets (us_user s))" .
  moreover have "consume_events_handler rt' en crank auth n t \<noteq> Inr t'"
    if "cs_users t margin_user = Some u" "fa_tokens_posted (mu_assets u) \<le> fa_tokens_posted (mu_assets (us_user s'))"
      "queue_items 1 0 (en_queue en (ms_book t)) = Inr [OutInfo e (user_callback_info (no_callback_info order))]"
    for rt' :: "'z Runtime" and crank auth n t u t'
    using that i assms(2-4) by (intro events_stuck [of i e quote t u en]) simp_all
  ultimately show ?thesis by blast
qed

text \<open>
  The user of the sample market sells tickets in an order of 64 for 32 tokens, which is posted, and takes it back.
\<close>

definition sale_removed :: OutEvent where
  "sale_removed = \<lparr>oe_side = Ask, oe_base_size = 64, oe_order_id = 2 ^ 31 * 2 ^ 64\<rparr>"

text \<open>The book is the list of the callback information of the orders that were placed and taken back.\<close>

definition sale_engine :: "CallbackInfo list Engine" where
  "sale_engine = \<lparr>en_new_order = (\<lambda>order b. Some (\<lparr>os_posted_order_id = Some (2 ^ 31 * 2 ^ 64), os_total_base_qty = 64,
        os_total_quote_qty = 32, os_total_base_qty_posted = 64\<rparr>, b @ [no_callback_info order])),
     en_side_of = (\<lambda>_. Ask), en_find = (\<lambda>_ _ _. None), en_cancel = (\<lambda>_ _. None), en_push_out = (\<lambda>_ _ _. None),
     en_queue = (\<lambda>b. \<lparr>eq_owned_by_program = True, eq_head = 0, eq_count = length b, eq_capacity = 1,
       eq_events = replicate (length b) (OutEntry sale_removed), eq_callbacks = concat (map (\<lambda>c. [c, c]) b)\<rparr>),
     en_consume = (\<lambda>n b. Some (drop n b)), en_create = (\<lambda>_ _. Some []), en_pause = Some, en_resume = Some,
     en_matching_paused = (\<lambda>_. False), en_tag = (\<lambda>_ _ _. 0)\<rparr>"

definition sale_runtime :: "unit Runtime" where
  "sale_runtime = instruction (plain_runtime\<lparr>rt_account := (\<lambda>_ k. Some \<lparr>ta_mint = (if k = 30 then 6 else 4), ta_owner = 20,
     ta_delegate = None, ta_amount = 64\<rparr>)\<rparr>) [20] 5"

definition sale_user :: "(CallbackInfo list, unit) UserState" where
  "sale_user = \<lparr>ms_market = plain_market, ms_book = [], ms_ledger = (), ms_events = [], us_user = plain_user\<rparr>"

definition sale_keys :: SellKeys where
  "sale_keys = \<lparr>sl_authority = 20, sl_user_ticket_vault = 30, sl_user_token_vault = 31, sl_ticket_mint = 6,
     sl_underlying_token_vault = 5\<rparr>"

definition sale_params :: OrderParams where
  "sale_params = \<lparr>op_max_ticket_qty = 64, op_max_underlying_token_qty = 32, op_limit_price = 2 ^ 31, op_match_limit = 10,
     op_post_only = True, op_post_allowed = True, op_auto_stake = False, op_auto_roll = False\<rparr>"

text \<open>What the crank sees after the sale, with the order taken back.\<close>

definition crank_state :: "(CallbackInfo list, unit) UserState \<Rightarrow> (CallbackInfo list, unit) CrankState" where
  "crank_state s = \<lparr>ms_market = ms_market s, ms_book = ms_book s, ms_ledger = (), ms_events = [], cs_users = [7 \<mapsto> us_user s],
     cs_loans = Map.empty, cs_deposits = Map.empty, cs_adapters = Map.empty, cs_accounts = [7], cs_seed = [],
     cs_payer = 20, cs_skipped = 0\<rparr>"

lemmas sale_defs = sale_removed_def sale_engine_def sale_runtime_def sale_user_def sale_keys_def sale_params_def

lemma plain_sold:
  obtains s' where "margin_sell_tickets_order_handler sale_runtime sale_engine plain_orderbook 7 123 9 sale_keys sale_params
    None sale_user = Inr s'"
proof -
  have "is_ok (margin_sell_tickets_order_handler sale_runtime sale_engine plain_orderbook 7 123 9 sale_keys sale_params
    None sale_user)"
    unfolding margin_sell_tickets_order_handler_def check_sell_keys_def sell_tickets_def
    by (simp del: bindE_Inr_iff add: sale_defs sample_defs step_defs order_defs user_defs is_ok_def load_token_account_def
        constraint_def user_sell_tickets_def add_tickets_posted_def user_cpi_def token_cpi_def plain_sub_def plain_u_def
        drop_bit_eq_div cong: bindE_step)
  with that show ?thesis by (auto simp: is_ok_def split: sum.splits)
qed

theorem cancelled_sale_blocks_crank_witness:
  "\<exists>s'. margin_sell_tickets_order_handler sale_runtime sale_engine plain_orderbook 7 123 9 sale_keys sale_params
      None sale_user = Inr s' \<and>
    (\<forall>n t'. consume_events_handler (instruction plain_runtime [20] 9) sale_engine 20
       \<lparr>ca_crank = 20, ca_airspace = 2, ca_market = 2\<rparr> n (crank_state s') \<noteq> Inr t')"
proof -
  obtain s' where sale: "margin_sell_tickets_order_handler sale_runtime sale_engine plain_orderbook 7 123 9 sale_keys
    sale_params None sale_user = Inr s'" by (rule plain_sold)
  have quote: "out_quote_size sale_removed = Inr 32"
    by (simp add: out_quote_size_def sale_removed_def quote_from_base_def fp32_mul_floor_def checked_mul_def
        try_into_u64_def u_range_def drop_bit_eq_div Let_def)
  have "oe_side sale_removed = Ask" "fa_tokens_posted (mu_assets (us_user sale_user)) < 32"
    by (simp_all add: sale_defs plain_user_def margin_user_new_def default_assets_def)
  from cancelled_sale_blocks_crank [OF sale quote this] obtain order summary where
    o: "en_new_order sale_engine order (ms_book sale_user) = Some (summary, ms_book s')"
    and stuck: "\<And>(rt' :: unit Runtime) crank auth n t' t u. cs_users t 7 = Some u \<Longrightarrow>
      fa_tokens_posted (mu_assets u) \<le> fa_tokens_posted (mu_assets (us_user s')) \<Longrightarrow>
      queue_items 1 0 (en_queue sale_engine (ms_book t)) = Inr [OutInfo sale_removed (user_callback_info (no_callback_info order))] \<Longrightarrow>
      consume_events_handler rt' sale_engine crank auth n t \<noteq> Inr t'"
    by blast
  have "ms_book s' = [no_callback_info order]" using o by (simp add: sale_engine_def sale_user_def)
  then have "queue_items 1 0 (en_queue sale_engine (ms_book (crank_state s'))) =
      Inr [OutInfo sale_removed (user_callback_info (no_callback_info order))]"
    by (simp add: crank_state_def sale_engine_def get_event_def load_at_def plain_rem_def u_range_def assertE_def)
  with sale stuck [of "crank_state s'" "us_user s'"] show ?thesis by (auto simp: crank_state_def)
qed

end
