(* ===== verification/Instructions.thy ===== *)
theory Instructions
  imports Runtime
begin

text \<open>
  What the instruction builders of \<open>libraries/rust/instructions\<close> share: instructions with their account
  metas, the programs' addresses and the derivation of program addresses by a client.

  A program takes its accounts from the list of an instruction by position and checks that those it
  declares as signers are. \<open>runtime_of\<close> is the runtime of a program for one instruction: its signers are
  the metas marked as such, whose signatures the transaction must carry.
\<close>

subsection \<open>Instructions\<close>

record AccountMeta =
  am_pubkey :: Pubkey
  am_is_signer :: bool
  am_is_writable :: bool

text \<open>The flags that \<open>#[derive(Accounts)]\<close> gives an account, \<open>mut\<close> and \<open>Signer\<close>.\<close>

definition meta_ro :: "Pubkey \<Rightarrow> AccountMeta" where
  "meta_ro k = \<lparr>am_pubkey = k, am_is_signer = False, am_is_writable = False\<rparr>"

definition meta_mut :: "Pubkey \<Rightarrow> AccountMeta" where
  "meta_mut k = \<lparr>am_pubkey = k, am_is_signer = False, am_is_writable = True\<rparr>"

definition meta_signer :: "Pubkey \<Rightarrow> AccountMeta" where
  "meta_signer k = \<lparr>am_pubkey = k, am_is_signer = True, am_is_writable = False\<rparr>"

definition meta_payer :: "Pubkey \<Rightarrow> AccountMeta" where
  "meta_payer k = \<lparr>am_pubkey = k, am_is_signer = True, am_is_writable = True\<rparr>"

named_theorems metas \<open>account metas and the keys and signers of a list of them\<close>

lemma meta_simps [metas]:
  "am_pubkey (meta_ro k) = k" "am_pubkey (meta_mut k) = k" "am_pubkey (meta_signer k) = k" "am_pubkey (meta_payer k) = k"
  "\<not> am_is_signer (meta_ro k)" "\<not> am_is_signer (meta_mut k)" "am_is_signer (meta_signer k)" "am_is_signer (meta_payer k)"
  by (simp_all add: meta_ro_def meta_mut_def meta_signer_def meta_payer_def)

text \<open>\<open>'d\<close> is the data of the instruction before its encoding: which instruction, and its arguments.\<close>

record 'd Instruction =
  ix_program :: Pubkey
  ix_accounts :: "AccountMeta list"
  ix_data :: 'd

definition keys_of :: "AccountMeta list \<Rightarrow> Pubkey list" where
  "keys_of ms = map am_pubkey ms"

definition signers_of :: "AccountMeta list \<Rightarrow> Pubkey list" where
  "signers_of ms = map am_pubkey (filter am_is_signer ms)"

lemma keys_of_simps [metas]:
  "keys_of [] = []" "keys_of (m # ms) = am_pubkey m # keys_of ms" "keys_of (ms @ ns) = keys_of ms @ keys_of ns"
  by (simp_all add: keys_of_def)

lemma signers_of_simps [metas]:
  "signers_of [] = []"
  "signers_of (m # ms) = (if am_is_signer m then am_pubkey m # signers_of ms else signers_of ms)"
  "signers_of (ms @ ns) = signers_of ms @ signers_of ns"
  by (simp_all add: signers_of_def)

definition runtime_of :: "'l Runtime \<Rightarrow> AccountMeta list \<Rightarrow> 'l Runtime" where
  "runtime_of rt ms = rt\<lparr>rt_signers := signers_of ms\<rparr>"

lemma runtime_of_simps [simp]:
  "rt_signers (runtime_of rt ms) = signers_of ms" "rt_account (runtime_of rt ms) = rt_account rt"
  "rt_mint (runtime_of rt ms) = rt_mint rt" "rt_invoke (runtime_of rt ms) = rt_invoke rt"
  "rt_create (runtime_of rt ms) = rt_create rt" "rt_create_mint (runtime_of rt ms) = rt_create_mint rt"
  "rt_signer_address (runtime_of rt ms) = rt_signer_address rt"
  "rt_find_address (runtime_of rt ms) = rt_find_address rt" "rt_clock (runtime_of rt ms) = rt_clock rt"
  by (simp_all add: runtime_of_def)

lemma pda_runtime_of [simp]: "pda (runtime_of rt ms) seeds = pda rt seeds"
  by (simp add: pda_def)

subsection \<open>Programs\<close>

text \<open>The declared addresses of the programs, their 32 bytes as numbers.\<close>

definition JET_MARGIN :: Pubkey where
  "JET_MARGIN = 2014465888014831513966453349252876230354295282293421597370956995092234190224"

definition JET_METADATA :: Pubkey where
  "JET_METADATA = 2014473979106382902845638436746782803886882600209977422083618804286688247789"

definition JET_MARGIN_SWAP :: Pubkey where
  "JET_MARGIN_SWAP = 2014456824723335635523002748629056452546472943888472494921128245831630314352"

definition JET_AIRSPACE :: Pubkey where
  "JET_AIRSPACE = 2014087647636960140663728440214993575315901249395834340389408154684293812593"

definition JET_MARGIN_POOL :: Pubkey where
  "JET_MARGIN_POOL = 2014548159125713317370835969958540978733297644104495864941021491677048414342"

definition JET_FIXED_TERM :: Pubkey where
  "JET_FIXED_TERM = 2014680627376468811925119479004333014816818692891026879868118187714839659693"

definition JET_CONTROL :: Pubkey where
  "JET_CONTROL = 2014172269928819243030978847140249642246206927279177147767832922395064893471"

definition GOVERNOR_ID :: Pubkey where
  "GOVERNOR_ID = 43114605020067399130926677513586813517700523598516754542115657869358383852295"

definition DEFAULT_AIRSPACE :: Pubkey where
  "DEFAULT_AIRSPACE = 73509715622440874567234290494972704961455100354263387854717932401757497531736"

definition ADDRESS_LOOKUP_REGISTRY_ID :: Pubkey where
  "ADDRESS_LOOKUP_REGISTRY_ID = 2254327622734577937754500266361264678611964476673725088784611216522464785282"

text \<open>
  What a client has from the Solana SDK: the derivation of program addresses, of associated token
  accounts and of lookup tables, and the addresses of the standard programs and sysvars.
\<close>

record Sdk =
  sdk_find_address :: "Pubkey \<Rightarrow> Seed list \<Rightarrow> Pubkey \<times> nat"
  sdk_associated :: "Pubkey \<Rightarrow> Pubkey \<Rightarrow> Pubkey"
  sdk_lookup_table :: "Pubkey \<Rightarrow> nat \<Rightarrow> Pubkey"
  sdk_token_program :: Pubkey
  sdk_associated_program :: Pubkey
  sdk_system_program :: Pubkey
  sdk_lookup_program :: Pubkey
  sdk_rent :: Pubkey

definition derive :: "Sdk \<Rightarrow> Pubkey \<Rightarrow> Seed list \<Rightarrow> Pubkey" where
  "derive sdk program_id seeds = fst (sdk_find_address sdk program_id seeds)"

definition check_program :: "Pubkey \<Rightarrow> Pubkey \<Rightarrow> ('e, unit) tx" where
  "check_program expected k = constraint (k = expected)"

text \<open>A program derives its addresses as its clients do.\<close>

definition runs_as :: "Sdk \<Rightarrow> Pubkey \<Rightarrow> 'l Runtime \<Rightarrow> bool" where
  "runs_as sdk program_id rt \<longleftrightarrow> rt_find_address rt = sdk_find_address sdk program_id"

lemma pda_eq_derive: "runs_as sdk p rt \<Longrightarrow> pda rt seeds = derive sdk p seeds"
  by (simp add: runs_as_def pda_def derive_def)

lemma runs_as_runtime_of [simp]: "runs_as sdk p (runtime_of rt ms) \<longleftrightarrow> runs_as sdk p rt"
  by (simp add: runs_as_def)

definition get_metadata_address :: "Sdk \<Rightarrow> Pubkey \<Rightarrow> Pubkey" where
  "get_metadata_address sdk address = derive sdk JET_METADATA [SeedKey address]"

definition get_control_authority_address :: "Sdk \<Rightarrow> Pubkey" where
  "get_control_authority_address sdk = derive sdk JET_CONTROL []"

subsection \<open>A concrete client\<close>

text \<open>Addresses that do not depend on the program, for the witnesses.\<close>

definition sample_sdk :: "(Seed list \<Rightarrow> Pubkey) \<Rightarrow> Sdk" where
  "sample_sdk f =
     \<lparr>sdk_find_address = (\<lambda>_ seeds. (f seeds, 255)), sdk_associated = (\<lambda>owner mint. f [SeedKey owner, SeedKey mint, SeedInt 0]),
      sdk_lookup_table = (\<lambda>owner slot. f [SeedKey owner, SeedInt slot]), sdk_token_program = 1, sdk_associated_program = 2,
      sdk_system_program = 3, sdk_lookup_program = 4, sdk_rent = 5\<rparr>"

lemma sample_sdk_simps [simp]:
  "derive (sample_sdk f) p seeds = f seeds" "sdk_token_program (sample_sdk f) = 1"
  "sdk_system_program (sample_sdk f) = 3" "sdk_rent (sample_sdk f) = 5"
  "sdk_associated (sample_sdk f) owner mint = f [SeedKey owner, SeedKey mint, SeedInt 0]"
  by (simp_all add: sample_sdk_def derive_def)

lemma sample_runs_as [simp]: "runs_as (sample_sdk f) p (ledger_runtime f s c)"
  by (simp add: runs_as_def sample_sdk_def)

end
