(* ===== verification/FixedTermProgram.thy ===== *)
theory FixedTermProgram
  imports Instructions FixedTermControl
begin

text \<open>
  The fixed-term program as a whole, the \<open>#[program]\<close> module of \<open>programs/fixed-term/src/lib.rs\<close>: its accounts by
  address, and for each instruction the accounts it takes from the instruction's list and the handler it runs.

  A market and its order book are separate accounts; the book is found under the address of its state. The
  instructions that have no use for the book run without one. \<open>withdraw_fees\<close> has a handler but no entry.
\<close>

subsection \<open>State\<close>

record ('b, 'l) FtProgram =
  fp_markets :: "Pubkey \<Rightarrow> Market option"
  fp_books :: "Pubkey \<Rightarrow> 'b option"
  fp_users :: "Pubkey \<Rightarrow> MarginUser option"
  fp_loans :: "Pubkey \<Rightarrow> TermLoan option"
  fp_deposits :: "Pubkey \<Rightarrow> TermDeposit option"
  fp_cranks :: "Pubkey \<Rightarrow> CrankAuthorization option"
  fp_adapters :: "Pubkey \<Rightarrow> (EventAdapterMetadata \<times> AdapterAccount) option"
  fp_zeroed :: "Pubkey \<Rightarrow> bool"
  fp_lamports :: "Pubkey \<Rightarrow> nat"
  fp_ledger :: 'l
  fp_events :: "FtEvent list"
  fp_skipped :: nat
  fp_result :: "AdapterResult option"

text \<open>
  The environment carries what belongs to others: airspaces, permits, the record of the governor, margin accounts,
  price feeds, which accounts the program owns, the stack height of the instruction, which accounts it may write, and
  the queue in a fresh adapter account for a number of events.
\<close>

record FtEnv =
  fe_airspace :: "Pubkey \<Rightarrow> Airspace option"
  fe_permit :: "Pubkey \<Rightarrow> AirspacePermit option"
  fe_governor :: "Pubkey \<Rightarrow> Pubkey option"
  fe_margin_account :: "Pubkey \<Rightarrow> MarginAccount option"
  fe_feed :: "Pubkey \<Rightarrow> PriceFeed"
  fe_owned :: "Pubkey \<Rightarrow> bool"
  fe_fresh_queue :: "nat \<Rightarrow> EventQueue"
  fe_height :: nat
  fe_writable :: "Pubkey \<Rightarrow> bool"

datatype FtIxData =
    AuthorizeCrankData
  | RevokeCrankData
  | InitializeMarketData InitializeMarketParams
  | InitializeOrderbookData nat
  | ModifyMarketData string nat
  | RecoverUninitializedData
  | PauseOrderMatchingData
  | ResumeOrderMatchingData
  | AutoRollBorrowOrderData
  | AutoRollLendOrderData
  | ConfigureAutoRollBorrowData BorrowAutoRollConfig
  | ConfigureAutoRollLendData LendAutoRollConfig
  | ToggleAutoRollDepositData
  | ToggleAutoRollLoanData
  | InitializeMarginUserData
  | MarginBorrowOrderData OrderParams
  | MarginSellTicketsOrderData OrderParams
  | MarginRedeemDepositData
  | MarginLendOrderData OrderParams
  | RefreshPositionData bool
  | TermRepayData nat
  | SettleData
  | SellTicketsOrderData OrderParams
  | CancelOrderData nat
  | LendOrderData OrderParams string
  | ConsumeEventsData nat "nat list"
  | ExchangeTokensData nat
  | RedeemDepositData
  | StakeTicketsData nat string
  | TransferDepositData Pubkey
  | RegisterAdapterData nat
  | PopAdapterEventsData nat

subsection \<open>Loading and storing accounts\<close>

definition load_from :: "(Pubkey \<Rightarrow> 'a option) \<Rightarrow> Pubkey \<Rightarrow> 'a ft_tx" where
  "load_from accounts k = ok_or (accounts k) AccountErr"

lemma load_from_Inr [simp]: "load_from accounts k = Inr x \<longleftrightarrow> accounts k = Some x"
  by (simp add: load_from_def)

definition market_state :: "('b, 'l) FtProgram \<Rightarrow> Market \<Rightarrow> 'c \<Rightarrow> ('c, 'l) MarketState" where
  "market_state s m b = \<lparr>ms_market = m, ms_book = b, ms_ledger = fp_ledger s, ms_events = fp_events s\<rparr>"

definition user_state :: "('b, 'l) FtProgram \<Rightarrow> Market \<Rightarrow> 'c \<Rightarrow> MarginUser \<Rightarrow> ('c, 'l) UserState" where
  "user_state s m b u =
     \<lparr>ms_market = m, ms_book = b, ms_ledger = fp_ledger s, ms_events = fp_events s, us_user = u\<rparr>"

lemma program_state_simps [simp]:
  "ms_market (market_state s m b) = m" "ms_market (user_state s m b u) = m"
  "ms_book (market_state s m b) = b" "ms_ledger (market_state s m b) = fp_ledger s"
  by (simp_all add: market_state_def user_state_def)

definition put_market :: "Pubkey \<Rightarrow> ('c, 'l, 'z) MarketState_scheme \<Rightarrow> ('b, 'l) FtProgram \<Rightarrow> ('b, 'l) FtProgram" where
  "put_market k t s =
     s\<lparr>fp_markets := (fp_markets s)(k \<mapsto> ms_market t), fp_ledger := ms_ledger t, fp_events := ms_events t\<rparr>"

definition put_book :: "Pubkey \<Rightarrow> ('b, 'l, 'z) MarketState_scheme \<Rightarrow> ('b, 'l) FtProgram \<Rightarrow> ('b, 'l) FtProgram" where
  "put_book k t s = s\<lparr>fp_books := (fp_books s)(k \<mapsto> ms_book t)\<rparr>"

definition put_user :: "Pubkey \<Rightarrow> ('c, 'l) UserState \<Rightarrow> ('b, 'l) FtProgram \<Rightarrow> ('b, 'l) FtProgram" where
  "put_user k t s = s\<lparr>fp_users := (fp_users s)(k \<mapsto> us_user t)\<rparr>"

text \<open>The account of a loan or deposit that an order creates, if it does.\<close>

definition new_account :: "Pubkey \<Rightarrow> 'a option \<Rightarrow> (Pubkey \<Rightarrow> 'a option) \<Rightarrow> Pubkey \<Rightarrow> 'a option" where
  "new_account k x accounts = (case x of Some y \<Rightarrow> accounts(k \<mapsto> y) | None \<Rightarrow> accounts)"

definition put_new_loan :: "Pubkey \<Rightarrow> TermLoan option \<Rightarrow> ('b, 'l) FtProgram \<Rightarrow> ('b, 'l) FtProgram" where
  "put_new_loan k l s = s\<lparr>fp_loans := new_account k l (fp_loans s)\<rparr>"

definition put_new_deposit :: "Pubkey \<Rightarrow> TermDeposit option \<Rightarrow> ('b, 'l) FtProgram \<Rightarrow> ('b, 'l) FtProgram" where
  "put_new_deposit k d s = s\<lparr>fp_deposits := new_account k d (fp_deposits s)\<rparr>"

definition put_loan_account :: "Pubkey \<Rightarrow> TermLoan option \<Rightarrow> ('b, 'l) FtProgram \<Rightarrow> ('b, 'l) FtProgram" where
  "put_loan_account k l s = s\<lparr>fp_loans := (fp_loans s)(k := l)\<rparr>"

definition put_deposit_account :: "Pubkey \<Rightarrow> TermDeposit option \<Rightarrow> ('b, 'l) FtProgram \<Rightarrow> ('b, 'l) FtProgram" where
  "put_deposit_account k d s = s\<lparr>fp_deposits := (fp_deposits s)(k := d)\<rparr>"

definition put_ft_result :: "AdapterResult \<Rightarrow> ('b, 'l) FtProgram \<Rightarrow> ('b, 'l) FtProgram" where
  "put_ft_result r s = s\<lparr>fp_result := Some r\<rparr>"

text \<open>The first of the remaining accounts is the adapter of the order, if there is one.\<close>

definition adapter_account :: "FtEnv \<Rightarrow> ('b, 'l) FtProgram \<Rightarrow> Pubkey \<Rightarrow> AdapterAccount option" where
  "adapter_account env s k = map_option (\<lambda>(_, a). a\<lparr>ad_is_writable := fe_writable env k\<rparr>) (fp_adapters s k)"

definition remaining_adapter :: "FtEnv \<Rightarrow> ('b, 'l) FtProgram \<Rightarrow> Pubkey list \<Rightarrow> AdapterAccount option ft_tx" where
  "remaining_adapter env s ks =
     (case ks of
        [] \<Rightarrow> Inr None
      | k # _ \<Rightarrow> bindE (load_from (adapter_account env s) k) (\<lambda>a. Inr (Some a)))"

definition book_keys :: "Pubkey \<Rightarrow> Pubkey \<Rightarrow> Pubkey \<Rightarrow> Pubkey \<Rightarrow> OrderbookKeys" where
  "book_keys state queue bids asks =
     \<lparr>obk_orderbook_market_state = state, obk_event_queue = queue, obk_bids = bids, obk_asks = asks,
      obk_state_owned_by_program = True\<rparr>"

text \<open>The programs and the sysvar that the instruction names.\<close>

definition check_token_id :: "Sdk \<Rightarrow> Pubkey \<Rightarrow> unit ft_tx" where
  "check_token_id sdk tok = check_program (sdk_token_program sdk) tok"

definition check_system_id :: "Sdk \<Rightarrow> Pubkey \<Rightarrow> unit ft_tx" where
  "check_system_id sdk sys = check_program (sdk_system_program sdk) sys"

definition check_program_ids :: "Sdk \<Rightarrow> Pubkey \<Rightarrow> Pubkey \<Rightarrow> unit ft_tx" where
  "check_program_ids sdk tok sys = bindE (check_token_id sdk tok) (\<lambda>_. check_system_id sdk sys)"

subsection \<open>Administration\<close>

text \<open>
  The governor takes the lamports of an account of the program that was never initialized. When the account is its
  own recipient, the lamports are gone and the runtime, which is not modelled, rejects the transaction.
\<close>

definition recover_uninitialized_handler ::
  "'l Runtime \<Rightarrow> Pubkey \<Rightarrow> Pubkey option \<Rightarrow> bool \<Rightarrow> bool \<Rightarrow> Pubkey \<Rightarrow> Pubkey \<Rightarrow> (Pubkey \<Rightarrow> nat) \<Rightarrow>
     (Pubkey \<Rightarrow> nat) ft_tx" where
  "recover_uninitialized_handler rt governor governor_id owned zeroed uninitialized recipient lamports =
     bindE (require_signer rt governor) (\<lambda>_.
     bindE (constraint (governor_id = Some governor)) (\<lambda>_.
     bindE (constraint owned) (\<lambda>_.
     bindE (lift_tx (assertE zeroed)) (\<lambda>_.
     bindE (lift_tx (plain_add 64 (lamports recipient) (lamports uninitialized))) (\<lambda>n.
     Inr ((lamports(recipient := n))(uninitialized := 0)))))))"

definition recover_uninitialized_entry ::
  "FtEnv \<Rightarrow> 'l Runtime \<Rightarrow> Pubkey list \<Rightarrow> ('b, 'l) FtProgram \<Rightarrow> ('b, 'l) FtProgram ft_tx" where
  "recover_uninitialized_entry env rt ks s =
     (case ks of
        governor # governor_id # uninitialized # recipient # _ \<Rightarrow>
          bindE (recover_uninitialized_handler rt governor (fe_governor env governor_id) (fe_owned env uninitialized)
                   (fp_zeroed s uninitialized) uninitialized recipient (fp_lamports s)) (\<lambda>lamports.
          Inr (s\<lparr>fp_lamports := lamports, fp_zeroed := (fp_zeroed s)(uninitialized := False)\<rparr>))
      | _ \<Rightarrow> err AccountErr)"

definition authorize_crank_entry ::
  "Sdk \<Rightarrow> FtEnv \<Rightarrow> 'l Runtime \<Rightarrow> Pubkey list \<Rightarrow> ('b, 'l) FtProgram \<Rightarrow> ('b, 'l) FtProgram ft_tx" where
  "authorize_crank_entry sdk env rt ks s =
     (case ks of
        crank # crank_authorization # market # authority # airspace # payer # sys # _ \<Rightarrow>
          bindE (check_system_id sdk sys) (\<lambda>_.
          bindE (load_from (fp_markets s) market) (\<lambda>m.
          bindE (load_from (fe_airspace env) airspace) (\<lambda>a.
          bindE (authorize_crank_handler rt crank crank_authorization authority airspace a payer
                   (fp_cranks s crank_authorization) m) (\<lambda>c.
          Inr (s\<lparr>fp_cranks := (fp_cranks s)(crank_authorization \<mapsto> c)\<rparr>)))))
      | _ \<Rightarrow> err AccountErr)"

definition revoke_crank_entry ::
  "FtEnv \<Rightarrow> 'l Runtime \<Rightarrow> Pubkey list \<Rightarrow> ('b, 'l) FtProgram \<Rightarrow> ('b, 'l) FtProgram ft_tx" where
  "revoke_crank_entry env rt ks s =
     (case ks of
        metadata # authority # airspace # _ # _ \<Rightarrow>
          bindE (load_from (fp_cranks s) metadata) (\<lambda>c.
          bindE (load_from (fe_airspace env) airspace) (\<lambda>a.
          bindE (revoke_crank_handler rt authority airspace a c) (\<lambda>c.
          Inr (s\<lparr>fp_cranks := (fp_cranks s)(metadata := c)\<rparr>))))
      | _ \<Rightarrow> err AccountErr)"

definition initialize_market_entry ::
  "Sdk \<Rightarrow> FtEnv \<Rightarrow> 'l Runtime \<Rightarrow> InitializeMarketParams \<Rightarrow> Pubkey list \<Rightarrow> ('b, 'l) FtProgram \<Rightarrow> ('b, 'l) FtProgram ft_tx" where
  "initialize_market_entry sdk env rt p ks s =
     (case ks of
        market # vlt # mint # tickets # clms # tcol # ucol # authority # airspace # uoracle # toracle # fees # fee_dest #
          payer # rent # tok # sys # _ \<Rightarrow>
          bindE (check_program_ids sdk tok sys) (\<lambda>_.
          bindE (check_program (sdk_rent sdk) rent) (\<lambda>_.
          bindE (load_from (fe_airspace env) airspace) (\<lambda>a.
          bindE (initialize_market_handler rt
                   \<lparr>ik_market = market, ik_underlying_token_vault = vlt, ik_underlying_token_mint = mint,
                    ik_ticket_mint = tickets, ik_claims = clms, ik_ticket_collateral = tcol,
                    ik_underlying_collateral = ucol, ik_authority = authority, ik_airspace = airspace,
                    ik_underlying_oracle = uoracle, ik_ticket_oracle = toracle, ik_fee_vault = fees,
                    ik_fee_destination = fee_dest, ik_payer = payer\<rparr>
                   p a (fp_markets s market) (fp_ledger s)) (\<lambda>(m, e, l).
          Inr (s\<lparr>fp_markets := (fp_markets s)(market \<mapsto> m), fp_ledger := l, fp_events := fp_events s @ [e]\<rparr>)))))
      | _ \<Rightarrow> err AccountErr)"

text \<open>The queue and the slabs are marked as initialized by the order book.\<close>

definition initialize_orderbook_entry ::
  "Sdk \<Rightarrow> FtEnv \<Rightarrow> 'l Runtime \<Rightarrow> 'b Engine \<Rightarrow> nat \<Rightarrow> Pubkey list \<Rightarrow> ('b, 'l) FtProgram \<Rightarrow> ('b, 'l) FtProgram ft_tx" where
  "initialize_orderbook_entry sdk env rt en min_size ks s =
     (case ks of
        market # state # queue # bids # asks # authority # airspace # payer # sys # _ \<Rightarrow>
          bindE (check_system_id sdk sys) (\<lambda>_.
          bindE (load_from (fp_markets s) market) (\<lambda>m.
          bindE (load_from (fe_airspace env) airspace) (\<lambda>a.
          bindE (initialize_orderbook_handler rt en
                   \<lparr>oi_orderbook_market_state = state, oi_event_queue = queue, oi_bids = bids, oi_asks = asks,
                    oi_authority = authority, oi_airspace = airspace, oi_payer = payer\<rparr>
                   min_size a (fp_books s state \<noteq> None)
                   (\<forall>k \<in> {queue, bids, asks}. fp_zeroed s k \<and> fe_owned env k) m) (\<lambda>(m, b, e).
          Inr (s\<lparr>fp_markets := (fp_markets s)(market \<mapsto> m), fp_books := (fp_books s)(state \<mapsto> b),
                 fp_zeroed := (fp_zeroed s)(queue := False, bids := False, asks := False),
                 fp_events := fp_events s @ [e]\<rparr>)))))
      | _ \<Rightarrow> err AccountErr)"

definition modify_market_entry ::
  "FtEnv \<Rightarrow> 'l Runtime \<Rightarrow> string \<Rightarrow> nat \<Rightarrow> Pubkey list \<Rightarrow> ('b, 'l) FtProgram \<Rightarrow> ('b, 'l) FtProgram ft_tx" where
  "modify_market_entry env rt bytes offset ks s =
     (case ks of
        market # authority # airspace # _ \<Rightarrow>
          bindE (load_from (fp_markets s) market) (\<lambda>m.
          bindE (load_from (fe_airspace env) airspace) (\<lambda>a.
          bindE (modify_market_handler rt authority airspace a bytes offset m) (\<lambda>m.
          Inr (s\<lparr>fp_markets := (fp_markets s)(market \<mapsto> m)\<rparr>))))
      | _ \<Rightarrow> err AccountErr)"

definition pause_order_matching_entry ::
  "FtEnv \<Rightarrow> 'l Runtime \<Rightarrow> 'b Engine \<Rightarrow> Pubkey list \<Rightarrow> ('b, 'l) FtProgram \<Rightarrow> ('b, 'l) FtProgram ft_tx" where
  "pause_order_matching_entry env rt en ks s =
     (case ks of
        market # state # authority # airspace # _ \<Rightarrow>
          bindE (load_from (fp_markets s) market) (\<lambda>m.
          bindE (load_from (fp_books s) state) (\<lambda>b.
          bindE (load_from (fe_airspace env) airspace) (\<lambda>a.
          bindE (pause_order_matching_handler rt en state authority airspace a (market_state s m b)) (\<lambda>t.
          Inr (put_book state t (put_market market t s))))))
      | _ \<Rightarrow> err AccountErr)"

definition resume_order_matching_entry ::
  "FtEnv \<Rightarrow> 'l Runtime \<Rightarrow> 'b Engine \<Rightarrow> Pubkey list \<Rightarrow> ('b, 'l) FtProgram \<Rightarrow> ('b, 'l) FtProgram ft_tx" where
  "resume_order_matching_entry env rt en ks s =
     (case ks of
        market # state # queue # bids # asks # authority # airspace # _ \<Rightarrow>
          bindE (load_from (fp_markets s) market) (\<lambda>m.
          bindE (load_from (fp_books s) state) (\<lambda>b.
          bindE (load_from (fe_airspace env) airspace) (\<lambda>a.
          bindE (resume_order_matching_handler rt en (book_keys state queue bids asks) authority airspace a
                   (market_state s m b)) (\<lambda>t.
          Inr (put_book state t (put_market market t s))))))
      | _ \<Rightarrow> err AccountErr)"

subsection \<open>Margin users\<close>

definition initialize_margin_user_entry ::
  "Sdk \<Rightarrow> FtEnv \<Rightarrow> 'l Runtime \<Rightarrow> Pubkey list \<Rightarrow> ('b, 'l) FtProgram \<Rightarrow> ('b, 'l) FtProgram ft_tx" where
  "initialize_margin_user_entry sdk env rt ks s =
     (case ks of
        user # margin_account # market # clms # cmint # tcol # tmint # ucol # umint # payer # rent # sys # tok #
          cmeta # tmeta # umeta # _ \<Rightarrow>
          bindE (check_program_ids sdk tok sys) (\<lambda>_.
          bindE (check_program (sdk_rent sdk) rent) (\<lambda>_.
          bindE (load_from (fe_margin_account env) margin_account) (\<lambda>a.
          bindE (load_from (fp_markets s) market) (\<lambda>m.
          bindE (initialize_margin_user_handler rt (fe_height env)
                   \<lparr>iu_margin_user = user, iu_margin_account = margin_account, iu_claims = clms, iu_claims_mint = cmint,
                    iu_ticket_collateral = tcol, iu_ticket_collateral_mint = tmint, iu_underlying_collateral = ucol,
                    iu_underlying_collateral_mint = umint, iu_payer = payer\<rparr>
                   a (fp_users s user) (market_state s m ())) (\<lambda>(u, r, t).
          let s = put_ft_result r (put_market market t s) in
          Inr (s\<lparr>fp_users := (fp_users s)(user \<mapsto> u)\<rparr>))))))
      | _ \<Rightarrow> err AccountErr)"

definition settle_entry ::
  "Sdk \<Rightarrow> FtEnv \<Rightarrow> 'l Runtime \<Rightarrow> Pubkey list \<Rightarrow> ('b, 'l) FtProgram \<Rightarrow> ('b, 'l) FtProgram ft_tx" where
  "settle_entry sdk env rt ks s =
     (case ks of
        user # margin_account # market # tok # clms # cmint # tcol # tmint # ucol # umint # vlt # tickets # usettle #
          tsettle # _ \<Rightarrow>
          bindE (check_token_id sdk tok) (\<lambda>_.
          bindE (load_from (fe_margin_account env) margin_account) (\<lambda>a.
          bindE (load_from (fp_markets s) market) (\<lambda>m.
          bindE (load_from (fp_users s) user) (\<lambda>u.
          bindE (settle_handler rt (sdk_associated sdk) (fe_height env)
                   \<lparr>st_margin_account = margin_account, st_claims = clms, st_claims_mint = cmint,
                    st_ticket_collateral = tcol, st_ticket_collateral_mint = tmint, st_underlying_collateral = ucol,
                    st_underlying_collateral_mint = umint, st_underlying_token_vault = vlt, st_ticket_mint = tickets,
                    st_underlying_settlement = usettle, st_ticket_settlement = tsettle\<rparr>
                   a (user_state s m () u)) (\<lambda>(r, t).
          Inr (put_ft_result r (put_user user t (put_market market t s))))))))
      | _ \<Rightarrow> err AccountErr)"

definition refresh_position_entry ::
  "Sdk \<Rightarrow> FtEnv \<Rightarrow> 'l Runtime \<Rightarrow> bool \<Rightarrow> Pubkey list \<Rightarrow> ('b, 'l) FtProgram \<Rightarrow> ('b, 'l) FtProgram ft_tx" where
  "refresh_position_entry sdk env rt expect_price ks s =
     (case ks of
        user # margin_account # market # uoracle # toracle # tok # _ \<Rightarrow>
          bindE (check_token_id sdk tok) (\<lambda>_.
          bindE (load_from (fe_margin_account env) margin_account) (\<lambda>a.
          bindE (load_from (fp_markets s) market) (\<lambda>m.
          bindE (load_from (fp_users s) user) (\<lambda>u.
          bindE (refresh_position_handler rt (fe_height env) user margin_account uoracle toracle (fe_feed env uoracle)
                   (fe_feed env toracle) expect_price a (user_state s m () u)) (\<lambda>(r, t).
          Inr (put_ft_result r (put_user user t (put_market market t s))))))))
      | _ \<Rightarrow> err AccountErr)"

definition configure_auto_roll_entry ::
  "FtEnv \<Rightarrow> 'l Runtime \<Rightarrow> AutoRollConfig \<Rightarrow> Pubkey list \<Rightarrow> ('b, 'l) FtProgram \<Rightarrow> ('b, 'l) FtProgram ft_tx" where
  "configure_auto_roll_entry env rt roll ks s =
     (case ks of
        user # margin_account # owner # market # _ \<Rightarrow>
          bindE (load_from (fe_margin_account env) margin_account) (\<lambda>a.
          bindE (load_from (fp_markets s) market) (\<lambda>m.
          bindE (load_from (fp_users s) user) (\<lambda>u.
          bindE (configure_auto_roll_handler rt margin_account owner roll a (user_state s m () u)) (\<lambda>t.
          Inr (put_user user t (put_market market t s))))))
      | _ \<Rightarrow> err AccountErr)"

text \<open>The instruction has no market account; its handler only reads the user and the loan.\<close>

definition toggle_auto_roll_loan_entry ::
  "'l Runtime \<Rightarrow> Pubkey list \<Rightarrow> ('b, 'l) FtProgram \<Rightarrow> ('b, 'l) FtProgram ft_tx" where
  "toggle_auto_roll_loan_entry rt ks s =
     (case ks of
        margin_account # user # loan_key # _ \<Rightarrow>
          bindE (load_from (fp_users s) user) (\<lambda>u.
          bindE (load_from (fp_loans s) loan_key) (\<lambda>l.
          bindE (load_from (fp_markets s) (mu_market u)) (\<lambda>m.
          bindE (toggle_auto_roll_loan_handler rt margin_account user loan_key l (user_state s m () u)) (\<lambda>(l, t).
          Inr (put_loan_account loan_key (Some l) (s\<lparr>fp_events := ms_events t\<rparr>))))))
      | _ \<Rightarrow> err AccountErr)"

definition toggle_auto_roll_deposit_entry ::
  "'l Runtime \<Rightarrow> Pubkey list \<Rightarrow> ('b, 'l) FtProgram \<Rightarrow> ('b, 'l) FtProgram ft_tx" where
  "toggle_auto_roll_deposit_entry rt ks s =
     (case ks of
        margin_account # deposit # _ \<Rightarrow>
          bindE (load_from (fp_deposits s) deposit) (\<lambda>d.
          bindE (toggle_auto_roll_deposit_handler rt margin_account deposit d) (\<lambda>(d, e).
          Inr (put_deposit_account deposit (Some d) (s\<lparr>fp_events := fp_events s @ [e]\<rparr>))))
      | _ \<Rightarrow> err AccountErr)"

definition margin_redeem_deposit_entry ::
  "Sdk \<Rightarrow> 'l Runtime \<Rightarrow> Pubkey list \<Rightarrow> ('b, 'l) FtProgram \<Rightarrow> ('b, 'l) FtProgram ft_tx" where
  "margin_redeem_deposit_entry sdk rt ks s =
     (case ks of
        user # margin_account # tcol # tmint # deposit # payer # token_account # market # vlt # tok # _ \<Rightarrow>
          bindE (check_token_id sdk tok) (\<lambda>_.
          bindE (load_from (fp_markets s) market) (\<lambda>m.
          bindE (load_from (fp_users s) user) (\<lambda>u.
          bindE (load_from (fp_deposits s) deposit) (\<lambda>d.
          bindE (margin_redeem_deposit_handler rt
                   \<lparr>mr_margin_account = margin_account, mr_ticket_collateral = tcol, mr_ticket_collateral_mint = tmint,
                    mr_deposit = deposit, mr_payer = payer, mr_token_account = token_account,
                    mr_underlying_token_vault = vlt\<rparr>
                   d (user_state s m () u)) (\<lambda>t.
          Inr (put_deposit_account deposit None (put_user user t (put_market market t s))))))))
      | _ \<Rightarrow> err AccountErr)"

definition term_repay_entry ::
  "Sdk \<Rightarrow> 'l Runtime \<Rightarrow> nat \<Rightarrow> Pubkey list \<Rightarrow> ('b, 'l) FtProgram \<Rightarrow> ('b, 'l) FtProgram ft_tx" where
  "term_repay_entry sdk rt amount ks s =
     (case ks of
        user # loan_key # next_key # source # authority # payer # vlt # clms # cmint # market # tok # _ \<Rightarrow>
          bindE (check_token_id sdk tok) (\<lambda>_.
          bindE (load_from (fp_markets s) market) (\<lambda>m.
          bindE (load_from (fp_users s) user) (\<lambda>u.
          bindE (load_from (fp_loans s) loan_key) (\<lambda>l.
          bindE (term_repay_handler rt
                   \<lparr>rk_margin_user = user, rk_term_loan = loan_key, rk_source = source, rk_source_authority = authority,
                    rk_payer = payer, rk_underlying_token_vault = vlt, rk_claims = clms, rk_claims_mint = cmint\<rparr>
                   amount l (fp_loans s next_key) (user_state s m () u)) (\<lambda>(l, t).
          Inr (put_loan_account loan_key l (put_user user t (put_market market t s))))))))
      | _ \<Rightarrow> err AccountErr)"

subsection \<open>Orders of margin users\<close>

definition margin_borrow_order_entry ::
  "Sdk \<Rightarrow> FtEnv \<Rightarrow> 'l Runtime \<Rightarrow> 'b Engine \<Rightarrow> OrderParams \<Rightarrow> Pubkey list \<Rightarrow> ('b, 'l) FtProgram \<Rightarrow>
     ('b, 'l) FtProgram ft_tx" where
  "margin_borrow_order_entry sdk env rt en p ks s =
     (case ks of
        user # loan_key # margin_account # clms # cmint # ucol # umint # vlt # fees # settlement # market # state #
          queue # bids # asks # payer # sys # tok # rest \<Rightarrow>
          bindE (check_program_ids sdk tok sys) (\<lambda>_.
          bindE (load_from (fe_margin_account env) margin_account) (\<lambda>a.
          bindE (load_from (fp_markets s) market) (\<lambda>m.
          bindE (load_from (fp_books s) state) (\<lambda>b.
          bindE (load_from (fp_users s) user) (\<lambda>u.
          bindE (remaining_adapter env s rest) (\<lambda>adapter.
          bindE (margin_borrow_order_handler rt en (sdk_associated sdk) (fe_height env) (book_keys state queue bids asks)
                   \<lparr>bk_margin_account = margin_account, bk_margin_user = user, bk_term_loan = loan_key,
                    bk_claims = clms, bk_claims_mint = cmint, bk_underlying_collateral = ucol,
                    bk_underlying_collateral_mint = umint, bk_underlying_token_vault = vlt, bk_fee_vault = fees,
                    bk_underlying_settlement = settlement, bk_payer = payer\<rparr>
                   p adapter (fp_loans s loan_key) a (user_state s m b u)) (\<lambda>(l, r, t).
          Inr (put_ft_result r (put_new_loan loan_key l
                (put_user user t (put_book state t (put_market market t s))))))))))))
      | _ \<Rightarrow> err AccountErr)"

definition margin_sell_tickets_order_entry ::
  "Sdk \<Rightarrow> FtEnv \<Rightarrow> 'l Runtime \<Rightarrow> 'b Engine \<Rightarrow> OrderParams \<Rightarrow> Pubkey list \<Rightarrow> ('b, 'l) FtProgram \<Rightarrow>
     ('b, 'l) FtProgram ft_tx" where
  "margin_sell_tickets_order_entry sdk env rt en p ks s =
     (case ks of
        user # tcol # tmint # margin_account # user_tickets # user_tokens # market # state # queue # bids # asks #
          tickets # vlt # tok # rest \<Rightarrow>
          bindE (check_token_id sdk tok) (\<lambda>_.
          bindE (load_from (fp_markets s) market) (\<lambda>m.
          bindE (load_from (fp_books s) state) (\<lambda>b.
          bindE (load_from (fp_users s) user) (\<lambda>u.
          bindE (remaining_adapter env s rest) (\<lambda>adapter.
          bindE (margin_sell_tickets_order_handler rt en (book_keys state queue bids asks) user tcol tmint
                   \<lparr>sl_authority = margin_account, sl_user_ticket_vault = user_tickets, sl_user_token_vault = user_tokens,
                    sl_ticket_mint = tickets, sl_underlying_token_vault = vlt\<rparr>
                   p adapter (user_state s m b u)) (\<lambda>t.
          Inr (put_user user t (put_book state t (put_market market t s)))))))))
      | _ \<Rightarrow> err AccountErr)"

definition margin_lend_order_entry ::
  "Sdk \<Rightarrow> FtEnv \<Rightarrow> 'l Runtime \<Rightarrow> 'b Engine \<Rightarrow> OrderParams \<Rightarrow> Pubkey list \<Rightarrow> ('b, 'l) FtProgram \<Rightarrow>
     ('b, 'l) FtProgram ft_tx" where
  "margin_lend_order_entry sdk env rt en p ks s =
     (case ks of
        user # tcol # tmint # margin_account # market # state # queue # bids # asks # settlement # tokens # vlt #
          tickets # payer # sys # tok # rest \<Rightarrow>
          bindE (check_program_ids sdk tok sys) (\<lambda>_.
          bindE (load_from (fp_markets s) market) (\<lambda>m.
          bindE (load_from (fp_books s) state) (\<lambda>b.
          bindE (load_from (fp_users s) user) (\<lambda>u.
          bindE (remaining_adapter env s rest) (\<lambda>adapter.
          bindE (margin_lend_order_handler rt en (book_keys state queue bids asks)
                   \<lparr>ml_margin_user = user, ml_ticket_collateral = tcol, ml_ticket_collateral_mint = tmint,
                    ml_inner = \<lparr>lk_authority = margin_account, lk_ticket_settlement = settlement,
                      lk_lender_tokens = tokens, lk_underlying_token_vault = vlt, lk_ticket_mint = tickets,
                      lk_payer = payer\<rparr>\<rparr>
                   p adapter (fp_deposits s settlement) (user_state s m b u)) (\<lambda>(d, t).
          Inr (put_new_deposit settlement d (put_user user t (put_book state t (put_market market t s))))))))))
      | _ \<Rightarrow> err AccountErr)"

text \<open>The account of the next unpaid loan is read after the new loan has been written, which it may be.\<close>

definition auto_roll_borrow_order_entry ::
  "Sdk \<Rightarrow> FtEnv \<Rightarrow> 'l Runtime \<Rightarrow> 'b Engine \<Rightarrow> Pubkey list \<Rightarrow> ('b, 'l) FtProgram \<Rightarrow> ('b, 'l) FtProgram ft_tx" where
  "auto_roll_borrow_order_entry sdk env rt en ks s =
     (case ks of
        user # margin_account # clms # cmint # ucol # umint # vlt # fees # loan_key # new_key # next_key # receiver #
          market # state # queue # bids # asks # payer # sys # tok # rest \<Rightarrow>
          bindE (check_program_ids sdk tok sys) (\<lambda>_.
          bindE (load_from (fe_margin_account env) margin_account) (\<lambda>a.
          bindE (load_from (fp_markets s) market) (\<lambda>m.
          bindE (load_from (fp_books s) state) (\<lambda>b.
          bindE (load_from (fp_users s) user) (\<lambda>u.
          bindE (load_from (fp_loans s) loan_key) (\<lambda>l.
          bindE (remaining_adapter env s rest) (\<lambda>adapter.
          bindE (auto_roll_borrow_order_handler rt en (fe_height env) (book_keys state queue bids asks)
                   \<lparr>rb_borrow =
                      \<lparr>bk_margin_account = margin_account, bk_margin_user = user, bk_term_loan = new_key,
                       bk_claims = clms, bk_claims_mint = cmint, bk_underlying_collateral = ucol,
                       bk_underlying_collateral_mint = umint, bk_underlying_token_vault = vlt, bk_fee_vault = fees,
                       bk_underlying_settlement = vlt, bk_payer = payer\<rparr>,
                    rb_loan = loan_key, rb_rent_receiver = receiver\<rparr>
                   adapter l (fp_loans s new_key) (\<lambda>new. new_account new_key new (fp_loans s) next_key) a
                   (user_state s m b u)) (\<lambda>(new, old, r, t).
          Inr (put_ft_result r (put_loan_account loan_key old (put_new_loan new_key new
                (put_user user t (put_book state t (put_market market t s))))))))))))))
      | _ \<Rightarrow> err AccountErr)"

definition auto_roll_lend_order_entry ::
  "Sdk \<Rightarrow> FtEnv \<Rightarrow> 'l Runtime \<Rightarrow> 'b Engine \<Rightarrow> Pubkey list \<Rightarrow> ('b, 'l) FtProgram \<Rightarrow> ('b, 'l) FtProgram ft_tx" where
  "auto_roll_lend_order_entry sdk env rt en ks s =
     (case ks of
        user # margin_account # deposit # new_key # tcol # tmint # tickets # vlt # receiver # market # state # queue #
          bids # asks # payer # sys # tok # rest \<Rightarrow>
          bindE (check_program_ids sdk tok sys) (\<lambda>_.
          bindE (load_from (fp_markets s) market) (\<lambda>m.
          bindE (load_from (fp_books s) state) (\<lambda>b.
          bindE (load_from (fp_users s) user) (\<lambda>u.
          bindE (load_from (fp_deposits s) deposit) (\<lambda>d.
          bindE (remaining_adapter env s rest) (\<lambda>adapter.
          bindE (auto_roll_lend_order_handler rt en (book_keys state queue bids asks)
                   \<lparr>rl_lend =
                      \<lparr>ml_margin_user = user, ml_ticket_collateral = tcol, ml_ticket_collateral_mint = tmint,
                       ml_inner = \<lparr>lk_authority = margin_account, lk_ticket_settlement = new_key,
                         lk_lender_tokens = new_key, lk_underlying_token_vault = vlt, lk_ticket_mint = tickets,
                         lk_payer = payer\<rparr>\<rparr>,
                    rl_deposit = deposit, rl_rent_receiver = receiver\<rparr>
                   adapter d (fp_deposits s new_key) (user_state s m b u)) (\<lambda>(new, t).
          Inr (put_deposit_account deposit None (put_new_deposit new_key new
                (put_user user t (put_book state t (put_market market t s))))))))))))
      | _ \<Rightarrow> err AccountErr)"

subsection \<open>Orders and tickets of others\<close>

definition sell_tickets_order_entry ::
  "Sdk \<Rightarrow> FtEnv \<Rightarrow> 'l Runtime \<Rightarrow> 'b Engine \<Rightarrow> OrderParams \<Rightarrow> Pubkey list \<Rightarrow> ('b, 'l) FtProgram \<Rightarrow>
     ('b, 'l) FtProgram ft_tx" where
  "sell_tickets_order_entry sdk env rt en p ks s =
     (case ks of
        permit # authority # user_tickets # user_tokens # market # state # queue # bids # asks # tickets # vlt # tok #
          rest \<Rightarrow>
          bindE (check_token_id sdk tok) (\<lambda>_.
          bindE (load_from (fe_permit env) permit) (\<lambda>q.
          bindE (load_from (fp_markets s) market) (\<lambda>m.
          bindE (load_from (fp_books s) state) (\<lambda>b.
          bindE (remaining_adapter env s rest) (\<lambda>adapter.
          bindE (sell_tickets_order_handler rt en (book_keys state queue bids asks)
                   \<lparr>sl_authority = authority, sl_user_ticket_vault = user_tickets, sl_user_token_vault = user_tokens,
                    sl_ticket_mint = tickets, sl_underlying_token_vault = vlt\<rparr>
                   q p adapter (market_state s m b)) (\<lambda>t.
          Inr (put_book state t (put_market market t s))))))))
      | _ \<Rightarrow> err AccountErr)"

definition cancel_order_entry ::
  "'l Runtime \<Rightarrow> 'b Engine \<Rightarrow> nat \<Rightarrow> Pubkey list \<Rightarrow> ('b, 'l) FtProgram \<Rightarrow> ('b, 'l) FtProgram ft_tx" where
  "cancel_order_entry rt en order_id ks s =
     (case ks of
        owner # market # state # queue # bids # asks # _ \<Rightarrow>
          bindE (load_from (fp_markets s) market) (\<lambda>m.
          bindE (load_from (fp_books s) state) (\<lambda>b.
          bindE (cancel_order_handler rt en (book_keys state queue bids asks) owner order_id (market_state s m b)) (\<lambda>t.
          Inr (put_book state t (put_market market t s)))))
      | _ \<Rightarrow> err AccountErr)"

definition lend_order_entry ::
  "Sdk \<Rightarrow> FtEnv \<Rightarrow> 'l Runtime \<Rightarrow> 'b Engine \<Rightarrow> OrderParams \<Rightarrow> string \<Rightarrow> Pubkey list \<Rightarrow> ('b, 'l) FtProgram \<Rightarrow>
     ('b, 'l) FtProgram ft_tx" where
  "lend_order_entry sdk env rt en p seed ks s =
     (case ks of
        permit # authority # market # state # queue # bids # asks # settlement # tokens # vlt # tickets # payer # sys #
          tok # rest \<Rightarrow>
          bindE (check_program_ids sdk tok sys) (\<lambda>_.
          bindE (load_from (fe_permit env) permit) (\<lambda>q.
          bindE (load_from (fp_markets s) market) (\<lambda>m.
          bindE (load_from (fp_books s) state) (\<lambda>b.
          bindE (remaining_adapter env s rest) (\<lambda>adapter.
          bindE (lend_order_handler rt en (book_keys state queue bids asks)
                   \<lparr>lk_authority = authority, lk_ticket_settlement = settlement, lk_lender_tokens = tokens,
                    lk_underlying_token_vault = vlt, lk_ticket_mint = tickets, lk_payer = payer\<rparr>
                   q p seed adapter (fp_deposits s settlement) (market_state s m b)) (\<lambda>(d, t).
          Inr (put_new_deposit settlement d (put_book state t (put_market market t s)))))))))
      | _ \<Rightarrow> err AccountErr)"

definition exchange_tokens_entry ::
  "Sdk \<Rightarrow> FtEnv \<Rightarrow> 'l Runtime \<Rightarrow> nat \<Rightarrow> Pubkey list \<Rightarrow> ('b, 'l) FtProgram \<Rightarrow> ('b, 'l) FtProgram ft_tx" where
  "exchange_tokens_entry sdk env rt amount ks s =
     (case ks of
        permit # market # vlt # tickets # user_tickets # user_tokens # authority # tok # _ \<Rightarrow>
          bindE (check_token_id sdk tok) (\<lambda>_.
          bindE (load_from (fe_permit env) permit) (\<lambda>q.
          bindE (load_from (fp_markets s) market) (\<lambda>m.
          bindE (exchange_tokens_handler rt vlt tickets user_tickets user_tokens authority q amount
                   (market_state s m ())) (\<lambda>t.
          Inr (put_market market t s)))))
      | _ \<Rightarrow> err AccountErr)"

definition stake_tickets_entry ::
  "Sdk \<Rightarrow> FtEnv \<Rightarrow> 'l Runtime \<Rightarrow> nat \<Rightarrow> string \<Rightarrow> Pubkey list \<Rightarrow> ('b, 'l) FtProgram \<Rightarrow> ('b, 'l) FtProgram ft_tx" where
  "stake_tickets_entry sdk env rt amount seed ks s =
     (case ks of
        permit # deposit # market # holder # holder_tickets # tickets # payer # tok # sys # _ \<Rightarrow>
          bindE (check_program_ids sdk tok sys) (\<lambda>_.
          bindE (load_from (fe_permit env) permit) (\<lambda>q.
          bindE (load_from (fp_markets s) market) (\<lambda>m.
          bindE (stake_tickets_handler rt
                   \<lparr>sx_deposit = deposit, sx_ticket_holder = holder, sx_ticket_token_account = holder_tickets,
                    sx_ticket_mint = tickets, sx_payer = payer\<rparr>
                   q amount seed (fp_deposits s deposit) (market_state s m ())) (\<lambda>(d, t).
          Inr (put_deposit_account deposit (Some d) (put_market market t s))))))
      | _ \<Rightarrow> err AccountErr)"

definition redeem_deposit_entry ::
  "Sdk \<Rightarrow> FtEnv \<Rightarrow> 'l Runtime \<Rightarrow> Pubkey list \<Rightarrow> ('b, 'l) FtProgram \<Rightarrow> ('b, 'l) FtProgram ft_tx" where
  "redeem_deposit_entry sdk env rt ks s =
     (case ks of
        permit # deposit # owner # payer # token_account # market # vlt # tok # _ \<Rightarrow>
          bindE (check_token_id sdk tok) (\<lambda>_.
          bindE (load_from (fe_permit env) permit) (\<lambda>q.
          bindE (load_from (fp_markets s) market) (\<lambda>m.
          bindE (load_from (fp_deposits s) deposit) (\<lambda>d.
          bindE (redeem_deposit_handler rt deposit owner payer vlt token_account q d (market_state s m ())) (\<lambda>t.
          Inr (put_deposit_account deposit None (put_market market t s)))))))
      | _ \<Rightarrow> err AccountErr)"

definition transfer_deposit_entry ::
  "'l Runtime \<Rightarrow> Pubkey \<Rightarrow> Pubkey list \<Rightarrow> ('b, 'l) FtProgram \<Rightarrow> ('b, 'l) FtProgram ft_tx" where
  "transfer_deposit_entry rt new_owner ks s =
     (case ks of
        deposit # owner # _ \<Rightarrow>
          bindE (load_from (fp_deposits s) deposit) (\<lambda>d.
          bindE (transfer_deposit_ownership_handler rt deposit owner new_owner d) (\<lambda>(d, e).
          Inr (put_deposit_account deposit (Some d) (s\<lparr>fp_events := fp_events s @ [e]\<rparr>))))
      | _ \<Rightarrow> err AccountErr)"

subsection \<open>The crank and event adapters\<close>

definition put_crank :: "Pubkey \<Rightarrow> Pubkey \<Rightarrow> ('b, 'l) CrankState \<Rightarrow> ('b, 'l) FtProgram \<Rightarrow> ('b, 'l) FtProgram" where
  "put_crank market state t s =
     (put_book state t (put_market market t s))
       \<lparr>fp_users := cs_users t, fp_loans := cs_loans t, fp_deposits := cs_deposits t, fp_skipped := cs_skipped t,
        fp_adapters := (\<lambda>k. map_option (\<lambda>(meta, a). (meta, case cs_adapters t k of Some b \<Rightarrow> b | None \<Rightarrow> a))
          (fp_adapters s k))\<rparr>"

definition consume_events_entry ::
  "Sdk \<Rightarrow> FtEnv \<Rightarrow> 'l Runtime \<Rightarrow> 'b Engine \<Rightarrow> nat \<Rightarrow> nat list \<Rightarrow> Pubkey list \<Rightarrow> ('b, 'l) FtProgram \<Rightarrow>
     ('b, 'l) FtProgram ft_tx" where
  "consume_events_entry sdk env rt en num_events seed ks s =
     (case ks of
        market # tickets # vlt # fees # state # queue # crank_authorization # crank # payer # sys # tok # rest \<Rightarrow>
          bindE (check_program_ids sdk tok sys) (\<lambda>_.
          bindE (load_from (fp_markets s) market) (\<lambda>m.
          bindE (constraint (mk_ticket_mint m = tickets \<and> mk_underlying_token_vault m = vlt \<and> mk_fee_vault m = fees \<and>
                   mk_orderbook_market_state m = state \<and> mk_event_queue m = queue)) (\<lambda>_.
          bindE (load_from (fp_books s) state) (\<lambda>b.
          bindE (load_from (fp_cranks s) crank_authorization) (\<lambda>c.
          bindE (consume_events_handler rt en crank c num_events
                   \<lparr>ms_market = m, ms_book = b, ms_ledger = fp_ledger s, ms_events = fp_events s,
                    cs_users = fp_users s, cs_loans = fp_loans s, cs_deposits = fp_deposits s,
                    cs_adapters = adapter_account env s, cs_accounts = rest, cs_seed = seed, cs_payer = payer,
                    cs_skipped = fp_skipped s\<rparr>) (\<lambda>t.
          Inr (put_crank market state t s)))))))
      | _ \<Rightarrow> err AccountErr)"

definition register_adapter_entry ::
  "Sdk \<Rightarrow> FtEnv \<Rightarrow> 'l Runtime \<Rightarrow> nat \<Rightarrow> Pubkey list \<Rightarrow> ('b, 'l) FtProgram \<Rightarrow> ('b, 'l) FtProgram ft_tx" where
  "register_adapter_entry sdk env rt num_events ks s =
     (case ks of
        queue # market # owner # payer # sys # _ \<Rightarrow>
          bindE (check_system_id sdk sys) (\<lambda>_.
          bindE (register_adapter_handler rt queue market owner payer (map_option fst (fp_adapters s queue))) (\<lambda>(meta, e).
          Inr (s\<lparr>fp_adapters := (fp_adapters s)(queue \<mapsto> (meta,
                   \<lparr>ad_key = queue, ad_discriminator_ok = True, ad_is_writable = True,
                    ad_queue = fe_fresh_queue env num_events\<rparr>)),
                 fp_events := fp_events s @ [e]\<rparr>)))
      | _ \<Rightarrow> err AccountErr)"

definition pop_adapter_events_entry ::
  "FtEnv \<Rightarrow> 'l Runtime \<Rightarrow> nat \<Rightarrow> Pubkey list \<Rightarrow> ('b, 'l) FtProgram \<Rightarrow> ('b, 'l) FtProgram ft_tx" where
  "pop_adapter_events_entry env rt num_events ks s =
     (case ks of
        queue # owner # _ \<Rightarrow>
          bindE (load_from (fp_adapters s) queue) (\<lambda>(meta, a).
          bindE (pop_adapter_events_handler rt owner meta num_events
                   (a\<lparr>ad_is_writable := fe_writable env queue\<rparr>)) (\<lambda>a.
          Inr (s\<lparr>fp_adapters := (fp_adapters s)(queue \<mapsto> (meta, a))\<rparr>)))
      | _ \<Rightarrow> err AccountErr)"

subsection \<open>The entry of the program\<close>

fun ft_dispatch ::
  "Sdk \<Rightarrow> FtEnv \<Rightarrow> 'l Runtime \<Rightarrow> 'b Engine \<Rightarrow> FtIxData \<Rightarrow> Pubkey list \<Rightarrow> ('b, 'l) FtProgram \<Rightarrow>
     ('b, 'l) FtProgram ft_tx" where
  "ft_dispatch sdk env rt en AuthorizeCrankData ks s = authorize_crank_entry sdk env rt ks s"
| "ft_dispatch sdk env rt en RevokeCrankData ks s = revoke_crank_entry env rt ks s"
| "ft_dispatch sdk env rt en (InitializeMarketData p) ks s = initialize_market_entry sdk env rt p ks s"
| "ft_dispatch sdk env rt en (InitializeOrderbookData n) ks s = initialize_orderbook_entry sdk env rt en n ks s"
| "ft_dispatch sdk env rt en (ModifyMarketData bytes offset) ks s = modify_market_entry env rt bytes offset ks s"
| "ft_dispatch sdk env rt en RecoverUninitializedData ks s = recover_uninitialized_entry env rt ks s"
| "ft_dispatch sdk env rt en PauseOrderMatchingData ks s = pause_order_matching_entry env rt en ks s"
| "ft_dispatch sdk env rt en ResumeOrderMatchingData ks s = resume_order_matching_entry env rt en ks s"
| "ft_dispatch sdk env rt en AutoRollBorrowOrderData ks s = auto_roll_borrow_order_entry sdk env rt en ks s"
| "ft_dispatch sdk env rt en AutoRollLendOrderData ks s = auto_roll_lend_order_entry sdk env rt en ks s"
| "ft_dispatch sdk env rt en (ConfigureAutoRollBorrowData c) ks s = configure_auto_roll_entry env rt (BorrowRoll c) ks s"
| "ft_dispatch sdk env rt en (ConfigureAutoRollLendData c) ks s = configure_auto_roll_entry env rt (LendRoll c) ks s"
| "ft_dispatch sdk env rt en ToggleAutoRollDepositData ks s = toggle_auto_roll_deposit_entry rt ks s"
| "ft_dispatch sdk env rt en ToggleAutoRollLoanData ks s = toggle_auto_roll_loan_entry rt ks s"
| "ft_dispatch sdk env rt en InitializeMarginUserData ks s = initialize_margin_user_entry sdk env rt ks s"
| "ft_dispatch sdk env rt en (MarginBorrowOrderData p) ks s = margin_borrow_order_entry sdk env rt en p ks s"
| "ft_dispatch sdk env rt en (MarginSellTicketsOrderData p) ks s = margin_sell_tickets_order_entry sdk env rt en p ks s"
| "ft_dispatch sdk env rt en MarginRedeemDepositData ks s = margin_redeem_deposit_entry sdk rt ks s"
| "ft_dispatch sdk env rt en (MarginLendOrderData p) ks s = margin_lend_order_entry sdk env rt en p ks s"
| "ft_dispatch sdk env rt en (RefreshPositionData expect_price) ks s = refresh_position_entry sdk env rt expect_price ks s"
| "ft_dispatch sdk env rt en (TermRepayData amount) ks s = term_repay_entry sdk rt amount ks s"
| "ft_dispatch sdk env rt en SettleData ks s = settle_entry sdk env rt ks s"
| "ft_dispatch sdk env rt en (SellTicketsOrderData p) ks s = sell_tickets_order_entry sdk env rt en p ks s"
| "ft_dispatch sdk env rt en (CancelOrderData order_id) ks s = cancel_order_entry rt en order_id ks s"
| "ft_dispatch sdk env rt en (LendOrderData p seed) ks s = lend_order_entry sdk env rt en p seed ks s"
| "ft_dispatch sdk env rt en (ConsumeEventsData n seed) ks s = consume_events_entry sdk env rt en n seed ks s"
| "ft_dispatch sdk env rt en (ExchangeTokensData amount) ks s = exchange_tokens_entry sdk env rt amount ks s"
| "ft_dispatch sdk env rt en RedeemDepositData ks s = redeem_deposit_entry sdk env rt ks s"
| "ft_dispatch sdk env rt en (StakeTicketsData amount seed) ks s = stake_tickets_entry sdk env rt amount seed ks s"
| "ft_dispatch sdk env rt en (TransferDepositData new_owner) ks s = transfer_deposit_entry rt new_owner ks s"
| "ft_dispatch sdk env rt en (RegisterAdapterData n) ks s = register_adapter_entry sdk env rt n ks s"
| "ft_dispatch sdk env rt en (PopAdapterEventsData n) ks s = pop_adapter_events_entry env rt n ks s"

text \<open>An account is writable when some meta of the instruction says so.\<close>

definition writable_in :: "AccountMeta list \<Rightarrow> Pubkey \<Rightarrow> bool" where
  "writable_in ms k \<longleftrightarrow> (\<exists>m \<in> set ms. am_pubkey m = k \<and> am_is_writable m)"

definition ft_process ::
  "Sdk \<Rightarrow> FtEnv \<Rightarrow> 'l Runtime \<Rightarrow> 'b Engine \<Rightarrow> FtIxData Instruction \<Rightarrow> ('b, 'l) FtProgram \<Rightarrow> ('b, 'l) FtProgram ft_tx" where
  "ft_process sdk env rt en ix s =
     ft_dispatch sdk (env\<lparr>fe_writable := writable_in (ix_accounts ix)\<rparr>) (runtime_of rt (ix_accounts ix)) en
       (ix_data ix) (keys_of (ix_accounts ix)) s"

end
