(* ===== verification/FixedTermAddresses.thy ===== *)
theory FixedTermAddresses
  imports FixedTermFrames FixedTermProgram
begin

text \<open>
  The addresses of a fixed-term market never change: no instruction writes anything of a market that exists but its
  nonce and, once, the addresses of its order book. \<open>dispatch_markets\<close>: in every state the program can reach, each
  market has the vaults and mints that are derived from its address, and its address is derived from its airspace,
  token and seed.
\<close>

named_theorems core_frame \<open>successful operations keep the market but for its nonce\<close>

lemma same_core: "same_but_market s s' \<Longrightarrow> market_core (ms_market s') = market_core (ms_market s)"
  by (simp add: same_but_market_def)

lemmas market_same_core [core_frame] = market_same [THEN same_core]

lemma emit_market [simp]: "ms_market (emit_event e s) = ms_market s"
  by (simp add: emit_event_def)

subsection \<open>Operations of users\<close>

lemma user_ops_core [core_frame]:
  "on_user f s = Inr s' \<Longrightarrow> market_core (ms_market s') = market_core (ms_market s)"
  "emit_debt_balances rt s = Inr s' \<Longrightarrow> market_core (ms_market s') = market_core (ms_market s)"
  "emit_asset_balances rt s = Inr s' \<Longrightarrow> market_core (ms_market s') = market_core (ms_market s)"
  "emit_all_balances rt s = Inr s' \<Longrightarrow> market_core (ms_market s') = market_core (ms_market s)"
  by (auto simp: on_user_def emit_debt_balances_def emit_asset_balances_def emit_all_balances_def)

lemma settle_notes_core [core_frame]:
  "settle_notes rt m a h d s = Inr s' \<Longrightarrow> market_core (ms_market s') = market_core (ms_market s)"
  by (auto simp: settle_notes_def dest!: core_frame split: if_splits)

lemma borrow_parts_core [core_frame]:
  "borrow_handle_posted rt k summary s = Inr s' \<Longrightarrow> market_core (ms_market s') = market_core (ms_market s)"
  "borrow_handle_filled rt k ex summary info s = Inr (n, l, s') \<Longrightarrow> market_core (ms_market s') = market_core (ms_market s)"
  by (auto simp: borrow_handle_posted_def borrow_handle_filled_def Let_def dest!: core_frame)

lemma borrow_order_core [core_frame]:
  "borrow_order rt en h k p ad ex a s = Inr (n, l, r, s') \<Longrightarrow> market_core (ms_market s') = market_core (ms_market s)"
  by (auto simp: borrow_order_def Let_def dest!: core_frame split: if_splits)

lemma margin_lend_core [core_frame]:
  "margin_lend_order rt en k p ad pay ex s = Inr (d, s') \<Longrightarrow> market_core (ms_market s') = market_core (ms_market s)"
  by (auto simp: margin_lend_order_def Let_def dest!: core_frame)

lemma margin_redeem_core [core_frame]:
  "margin_redeem rt k w d s = Inr s' \<Longrightarrow> market_core (ms_market s') = market_core (ms_market s)"
  by (auto simp: margin_redeem_def dest!: core_frame)

lemma repay_core [core_frame]:
  "repay_loan rt k n skip l nx s = Inr (l', s') \<Longrightarrow> market_core (ms_market s') = market_core (ms_market s)"
  by (auto simp: repay_loan_def Let_def dest!: core_frame split: if_splits)

subsection \<open>The crank\<close>

lemma take_accounts_core [core_frame]:
  "next_account s = Inr (k, s') \<Longrightarrow> market_core (ms_market s') = market_core (ms_market s)"
  "next_user_account k s = Inr s' \<Longrightarrow> market_core (ms_market s') = market_core (ms_market s)"
  "next_margin_user k s = Inr (u, s') \<Longrightarrow> market_core (ms_market s') = market_core (ms_market s)"
  "init_next rt seeds ex s = Inr (k, s') \<Longrightarrow> market_core (ms_market s') = market_core (ms_market s)"
  "next_seed s = Inr (n, s') \<Longrightarrow> market_core (ms_market s') = market_core (ms_market s)"
  by (auto simp: next_account_def next_user_account_def next_margin_user_def init_next_def next_seed_def
      split: list.splits)

lemma adapters_core [core_frame]:
  "try_push_event ad e mk tk s = Inr s' \<Longrightarrow> market_core (ms_market s') = market_core (ms_market s)"
  by (auto simp: try_push_event_def Let_def split: if_splits list.splits option.splits sum.splits fault.splits)

lemma fill_adapters_core [core_frame]:
  "try_update_fill_adapters f mk tk s = Inr s' \<Longrightarrow> market_core (ms_market s') = market_core (ms_market s)"
  by (auto simp: try_update_fill_adapters_def Let_def dest!: core_frame)

lemma extract_core [core_frame]:
  "extract_fill_accounts rt f mk tk s = Inr (x, s') \<Longrightarrow> market_core (ms_market s') = market_core (ms_market s)"
  by (cases mk) (auto simp: extract_fill_accounts_def Let_def dest!: core_frame split: if_split_asm)

lemma user_event_core [core_frame]:
  "user_event g rt u s = Inr s' \<Longrightarrow> market_core (ms_market s') = market_core (ms_market s)"
  by (auto simp: user_event_def)

lemma term_account_cases:
  obtains "ta = None" | k where "ta = Some (DepositAccount k)" | k where "ta = Some (LoanAccount k)"
  by (metis TermAccount.exhaust option.exhaust)

lemma margin_fills_core [core_frame]:
  "handle_lend_fill rt n q i u ta s = Inr (m, s') \<Longrightarrow> market_core (ms_market s') = market_core (ms_market s)"
  "handle_borrow_fill rt n q i u ta s = Inr (m, s') \<Longrightarrow> market_core (ms_market s') = market_core (ms_market s)"
  by (cases ta rule: term_account_cases;
      auto simp: handle_lend_fill_def handle_borrow_fill_def Let_def dest!: core_frame)+

lemma fill_core [core_frame]:
  "handle_margin_fill rt f mk tk u ta s = Inr s' \<Longrightarrow> market_core (ms_market s') = market_core (ms_market s)"
  "handle_signer_fill rt f mk tk ac s = Inr s' \<Longrightarrow> market_core (ms_market s') = market_core (ms_market s)"
  by (cases "market_side (opposite (fe_taker_side f))"; cases ac;
      auto simp: handle_margin_fill_def handle_signer_fill_def Let_def dest!: core_frame)+

lemma handle_fill_core [core_frame]:
  assumes "handle_fill rt f mk tk s = Inr s'"
  shows "market_core (ms_market s') = market_core (ms_market s)"
proof -
  from assms obtain accounts t where t: "extract_fill_accounts rt f mk tk s = Inr (accounts, t)"
    and "(case accounts of MarginFill u term_account \<Rightarrow> handle_margin_fill rt f mk tk u term_account t
          | _ \<Rightarrow> handle_signer_fill rt f mk tk accounts t) = Inr s'"
    by (auto simp: handle_fill_def)
  then have "market_core (ms_market s') = market_core (ms_market t)"
    by (cases accounts) (auto dest: fill_core)
  with extract_core [OF t] show ?thesis by simp
qed

lemma handle_out_core [core_frame]:
  "handle_out rt e i s = Inr s' \<Longrightarrow> market_core (ms_market s') = market_core (ms_market s)"
  by (cases i; cases "market_side (oe_side e)"; cases "oe_side e")
    (auto simp: handle_out_def Let_def dest!: core_frame)

lemma handle_event_core [core_frame]:
  "handle_event rt e s = Inr s' \<Longrightarrow> market_core (ms_market s') = market_core (ms_market s)"
  by (cases e) (auto dest: core_frame)

lemma handle_events_core [core_frame]:
  "foldE (handle_event rt) es s = Inr s' \<Longrightarrow> market_core (ms_market s') = market_core (ms_market s)"
proof (rule foldE_invariant [where P = "\<lambda>t. market_core (ms_market t) = market_core (ms_market s)"])
qed (auto dest: handle_event_core)

subsection \<open>Handlers\<close>

named_theorems handler_core \<open>successful handlers keep the market but for its nonce\<close>

lemma user_handlers_core [handler_core]:
  "settle_handler rt assoc h k a s = Inr (r, s') \<Longrightarrow> market_core (ms_market s') = market_core (ms_market s)"
  "refresh_position_handler rt h uk ma uo to uf tf ex a s = Inr (r, s') \<Longrightarrow>
     market_core (ms_market s') = market_core (ms_market s)"
  "margin_redeem_deposit_handler rt rk d s = Inr s' \<Longrightarrow> market_core (ms_market s') = market_core (ms_market s)"
  by (auto simp: settle_handler_def refresh_position_handler_def margin_redeem_deposit_handler_def Let_def
      dest!: core_frame split: if_splits)

lemma configure_core [handler_core]:
  "configure_auto_roll_handler rt ma ow roll a s = Inr s' \<Longrightarrow> market_core (ms_market s') = market_core (ms_market s)"
  by (cases roll) (auto simp: configure_auto_roll_handler_def Let_def)

lemma term_repay_core [handler_core]:
  "term_repay_handler rt k n l nx s = Inr (l', s') \<Longrightarrow> market_core (ms_market s') = market_core (ms_market s)"
  by (auto simp: term_repay_handler_def Let_def dest!: core_frame)

lemma initialize_user_core [handler_core]:
  "initialize_margin_user_handler rt h k a ex s = Inr (u, r, s') \<Longrightarrow>
     market_core (ms_market s') = market_core (ms_market s)"
  by (auto simp: initialize_margin_user_handler_def Let_def)

lemma margin_orders_core [handler_core]:
  "margin_borrow_order_handler rt en assoc h ok bk p ad ex a s = Inr (l, r, s') \<Longrightarrow>
     market_core (ms_market s') = market_core (ms_market s)"
  "margin_lend_order_handler rt en ok mk p ad ed s = Inr (d, s') \<Longrightarrow>
     market_core (ms_market s') = market_core (ms_market s)"
  "margin_sell_tickets_order_handler rt en ok mu c cm sk p ad s = Inr s' \<Longrightarrow>
     market_core (ms_market s') = market_core (ms_market s)"
  by (auto simp: margin_borrow_order_handler_def margin_lend_order_handler_def margin_sell_tickets_order_handler_def
      Let_def dest!: core_frame)

lemma rolls_core [handler_core]:
  "auto_roll_borrow_order_handler rt en h ok rk ad l ex nx a s = Inr (new, old, r, s') \<Longrightarrow>
     market_core (ms_market s') = market_core (ms_market s)"
  "auto_roll_lend_order_handler rt en ok lk ad d ed s = Inr (dn, s') \<Longrightarrow>
     market_core (ms_market s') = market_core (ms_market s)"
  by (auto simp: auto_roll_borrow_order_handler_def auto_roll_lend_order_handler_def Let_def dest!: core_frame)

lemma market_handlers_core [handler_core]:
  "sell_tickets_order_handler rt en ok sk q p ad s = Inr s' \<Longrightarrow> market_core (ms_market s') = market_core (ms_market s)"
  "lend_order_handler rt en ok lk q p seed ad ex s = Inr (d, s') \<Longrightarrow>
     market_core (ms_market s') = market_core (ms_market s)"
  "cancel_order_handler rt en ok ow i s = Inr s' \<Longrightarrow> market_core (ms_market s') = market_core (ms_market s)"
  by (auto simp: sell_tickets_order_handler_def lend_order_handler_def cancel_order_handler_def Let_def split_beta
      dest!: core_frame)

lemma ticket_handlers_core [handler_core]:
  "exchange_tokens_handler rt v t ut uk au q n s = Inr s' \<Longrightarrow> market_core (ms_market s') = market_core (ms_market s)"
  "stake_tickets_handler rt k q n seed ex s = Inr (d, s') \<Longrightarrow> market_core (ms_market s') = market_core (ms_market s)"
  "redeem_deposit_handler rt dk ow pa v ta q dp s = Inr s' \<Longrightarrow> market_core (ms_market s') = market_core (ms_market s)"
  by (auto simp: exchange_tokens_handler_def stake_tickets_handler_def redeem_deposit_handler_def Let_def
      dest!: core_frame split: if_splits)

lemma pause_core [handler_core]:
  "pause_order_matching_handler rt en k au ak a s = Inr s' \<Longrightarrow> market_core (ms_market s') = market_core (ms_market s)"
  "resume_order_matching_handler rt en ok au ak a s = Inr s' \<Longrightarrow> market_core (ms_market s') = market_core (ms_market s)"
  by (auto simp: pause_order_matching_handler_def resume_order_matching_handler_def Let_def split: if_splits)

lemma consume_events_core [handler_core]:
  "consume_events_handler rt en crank c n s = Inr s' \<Longrightarrow> market_core (ms_market s') = market_core (ms_market s)"
  by (auto simp: consume_events_handler_def dest!: core_frame)

lemma modify_market_core [handler_core]:
  "modify_market_handler rt au ak a bytes offset m = Inr m' \<Longrightarrow> market_core m' = market_core m"
  by (simp add: modify_market_handler_def)

subsection \<open>The addresses of a market\<close>

definition market_addresses_ok :: "'l Runtime \<Rightarrow> Pubkey \<Rightarrow> Market \<Rightarrow> bool" where
  "market_addresses_ok rt k m \<longleftrightarrow>
     mk_address m = k \<and>
     k = pda rt [SeedBytes ''market'', SeedKey (mk_airspace m), SeedKey (mk_underlying_token_mint m), SeedBytes (mk_seed m)] \<and>
     mk_underlying_token_vault m = market_pda rt ''underlying_token_vault'' k \<and>
     mk_ticket_mint m = market_pda rt ''ticket_mint'' k \<and> mk_claims_mint m = market_pda rt ''claim_notes'' k \<and>
     mk_ticket_collateral_mint m = market_pda rt ''ticket_collateral_notes'' k \<and>
     mk_underlying_collateral_mint m = market_pda rt ''underlying_collateral_notes'' k \<and>
     mk_fee_vault m = market_pda rt ''fee_vault'' k \<and>
     (mk_orderbook_market_state m = pubkey_default \<or>
        mk_orderbook_market_state m = market_pda rt ''orderbook_market_state'' k)"

definition all_markets_ok :: "'l Runtime \<Rightarrow> ('b, 'l) FtProgram \<Rightarrow> bool" where
  "all_markets_ok rt s \<longleftrightarrow> (\<forall>k m. fp_markets s k = Some m \<longrightarrow> market_addresses_ok rt k m)"

lemma market_addresses_core:
  "market_core m' = market_core m \<Longrightarrow> market_addresses_ok rt k m \<Longrightarrow> market_addresses_ok rt k m'"
proof -
  have "market_addresses_ok rt k (market_core n) = market_addresses_ok rt k n" for n
    by (simp add: market_addresses_ok_def market_core_def)
  then show "market_core m' = market_core m \<Longrightarrow> market_addresses_ok rt k m \<Longrightarrow> market_addresses_ok rt k m'" by metis
qed

lemma initialize_market_ok:
  "initialize_market_handler rt k p a ex l = Inr (m, e, l') \<Longrightarrow> market_addresses_ok rt (ik_market k) m"
  by (auto simp: initialize_market_handler_def init_market_mint_def init_market_vault_def Let_def market_addresses_ok_def)

lemma initialize_orderbook_ok:
  "initialize_orderbook_handler rt en k n a ex z m = Inr (m', b, e) \<Longrightarrow> market_addresses_ok rt key m \<Longrightarrow>
     market_addresses_ok rt key m'"
  by (auto simp: initialize_orderbook_handler_def Let_def market_addresses_ok_def)

subsection \<open>Entries\<close>

lemma put_markets [simp]:
  "fp_markets (put_market k t s) = (fp_markets s)(k \<mapsto> ms_market t)" "fp_markets (put_book k u s) = fp_markets s"
  "fp_markets (put_user k v s) = fp_markets s" "fp_markets (put_new_loan k l s) = fp_markets s"
  "fp_markets (put_new_deposit k d s) = fp_markets s" "fp_markets (put_loan_account k l s) = fp_markets s"
  "fp_markets (put_deposit_account k d s) = fp_markets s" "fp_markets (put_ft_result r s) = fp_markets s"
  "fp_markets (put_crank k b c s) = (fp_markets s)(k \<mapsto> ms_market c)"
  by (simp_all add: put_market_def put_book_def put_user_def put_new_loan_def put_new_deposit_def put_loan_account_def
      put_deposit_account_def put_ft_result_def put_crank_def)

text \<open>Every market of the new state was there before and differs in its nonce at most.\<close>

definition markets_kept :: "('b, 'l) FtProgram \<Rightarrow> ('b, 'l) FtProgram \<Rightarrow> bool" where
  "markets_kept s s' \<longleftrightarrow>
     (\<forall>k m'. fp_markets s' k = Some m' \<longrightarrow> (\<exists>m. fp_markets s k = Some m \<and> market_core m' = market_core m))"

lemma markets_kept_ok: "markets_kept s s' \<Longrightarrow> all_markets_ok rt s \<Longrightarrow> all_markets_ok rt s'"
  by (fastforce simp: markets_kept_def all_markets_ok_def intro: market_addresses_core)

lemma markets_kept_same: "fp_markets s' = fp_markets s \<Longrightarrow> markets_kept s s'"
  by (simp add: markets_kept_def)

text \<open>An instruction whose list of accounts is too short fails.\<close>

lemma take_key [simp]:
  "(case ks of [] \<Rightarrow> err e | k # ks' \<Rightarrow> f k ks') = Inr x \<longleftrightarrow> (\<exists>k ks'. ks = k # ks' \<and> f k ks' = Inr x)"
  by (cases ks) simp_all

lemmas entry_simps = markets_kept_def Let_def

lemma margin_entries_kept:
  "settle_entry sdk env rt ks s = Inr s' \<Longrightarrow> markets_kept s s'"
  "refresh_position_entry sdk env rt expect ks s = Inr s' \<Longrightarrow> markets_kept s s'"
  "configure_auto_roll_entry env rt roll ks s = Inr s' \<Longrightarrow> markets_kept s s'"
  "margin_redeem_deposit_entry sdk rt ks s = Inr s' \<Longrightarrow> markets_kept s s'"
  "term_repay_entry sdk rt n ks s = Inr s' \<Longrightarrow> markets_kept s s'"
  "initialize_margin_user_entry sdk env rt ks s = Inr s' \<Longrightarrow> markets_kept s s'"
  by (auto simp: settle_entry_def refresh_position_entry_def configure_auto_roll_entry_def
      margin_redeem_deposit_entry_def term_repay_entry_def initialize_margin_user_entry_def entry_simps
      dest!: handler_core split: if_split_asm)

lemma order_entries_kept:
  "margin_borrow_order_entry sdk env rt en p ks s = Inr s' \<Longrightarrow> markets_kept s s'"
  "margin_sell_tickets_order_entry sdk env rt en p ks s = Inr s' \<Longrightarrow> markets_kept s s'"
  "margin_lend_order_entry sdk env rt en p ks s = Inr s' \<Longrightarrow> markets_kept s s'"
  "auto_roll_borrow_order_entry sdk env rt en ks s = Inr s' \<Longrightarrow> markets_kept s s'"
  "auto_roll_lend_order_entry sdk env rt en ks s = Inr s' \<Longrightarrow> markets_kept s s'"
  "sell_tickets_order_entry sdk env rt en p ks s = Inr s' \<Longrightarrow> markets_kept s s'"
  "cancel_order_entry rt en i ks s = Inr s' \<Longrightarrow> markets_kept s s'"
  "lend_order_entry sdk env rt en p seed ks s = Inr s' \<Longrightarrow> markets_kept s s'"
  by (auto simp: margin_borrow_order_entry_def margin_sell_tickets_order_entry_def margin_lend_order_entry_def
      auto_roll_borrow_order_entry_def auto_roll_lend_order_entry_def sell_tickets_order_entry_def
      cancel_order_entry_def lend_order_entry_def entry_simps dest!: handler_core split: if_split_asm)

lemma ticket_entries_kept:
  "exchange_tokens_entry sdk env rt n ks s = Inr s' \<Longrightarrow> markets_kept s s'"
  "stake_tickets_entry sdk env rt n seed ks s = Inr s' \<Longrightarrow> markets_kept s s'"
  "redeem_deposit_entry sdk env rt ks s = Inr s' \<Longrightarrow> markets_kept s s'"
  "transfer_deposit_entry rt new ks s = Inr s' \<Longrightarrow> markets_kept s s'"
  "toggle_auto_roll_loan_entry rt ks s = Inr s' \<Longrightarrow> markets_kept s s'"
  "toggle_auto_roll_deposit_entry rt ks s = Inr s' \<Longrightarrow> markets_kept s s'"
  by (auto simp: exchange_tokens_entry_def stake_tickets_entry_def redeem_deposit_entry_def transfer_deposit_entry_def
      toggle_auto_roll_loan_entry_def toggle_auto_roll_deposit_entry_def entry_simps dest!: handler_core split: if_split_asm)

lemma admin_entries_kept:
  "recover_uninitialized_entry env rt ks s = Inr s' \<Longrightarrow> markets_kept s s'"
  "authorize_crank_entry sdk env rt ks s = Inr s' \<Longrightarrow> markets_kept s s'"
  "revoke_crank_entry env rt ks s = Inr s' \<Longrightarrow> markets_kept s s'"
  "modify_market_entry env rt bytes offset ks s = Inr s' \<Longrightarrow> markets_kept s s'"
  "pause_order_matching_entry env rt en ks s = Inr s' \<Longrightarrow> markets_kept s s'"
  "resume_order_matching_entry env rt en ks s = Inr s' \<Longrightarrow> markets_kept s s'"
  by (auto simp: recover_uninitialized_entry_def authorize_crank_entry_def revoke_crank_entry_def
      modify_market_entry_def pause_order_matching_entry_def resume_order_matching_entry_def entry_simps
      dest!: handler_core split: if_split_asm)

lemma crank_entries_kept:
  "consume_events_entry sdk env rt en n seed ks s = Inr s' \<Longrightarrow> markets_kept s s'"
  "register_adapter_entry sdk env rt n ks s = Inr s' \<Longrightarrow> markets_kept s s'"
  "pop_adapter_events_entry env rt n ks s = Inr s' \<Longrightarrow> markets_kept s s'"
  by (auto simp: consume_events_entry_def register_adapter_entry_def pop_adapter_events_entry_def entry_simps
      dest!: handler_core split: if_split_asm)

lemmas entries_kept =
  margin_entries_kept order_entries_kept ticket_entries_kept admin_entries_kept crank_entries_kept

lemma initialize_entries_ok:
  "initialize_market_entry sdk env rt p ks s = Inr s' \<Longrightarrow> all_markets_ok rt s \<Longrightarrow> all_markets_ok rt s'"
  "initialize_orderbook_entry sdk env rt en n ks s = Inr s' \<Longrightarrow> all_markets_ok rt s \<Longrightarrow> all_markets_ok rt s'"
proof -
  show "initialize_market_entry sdk env rt p ks s = Inr s' \<Longrightarrow> all_markets_ok rt s \<Longrightarrow> all_markets_ok rt s'"
    by (auto simp: initialize_market_entry_def all_markets_ok_def dest!: initialize_market_ok split: if_split_asm)
  show "initialize_orderbook_entry sdk env rt en n ks s = Inr s' \<Longrightarrow> all_markets_ok rt s \<Longrightarrow> all_markets_ok rt s'"
    by (clarsimp simp: initialize_orderbook_entry_def all_markets_ok_def split: if_split_asm)
      (blast intro: initialize_orderbook_ok)
qed

lemma dispatch_markets:
  "ft_dispatch sdk env rt en d ks s = Inr s' \<Longrightarrow> all_markets_ok rt s \<Longrightarrow> all_markets_ok rt s'"
  by (cases d) (auto dest: initialize_entries_ok entries_kept [THEN markets_kept_ok])

end
