(* ===== verification/LookupTables.thy ===== *)
theory LookupTables
  imports MarginHandlers
begin

text \<open>
  The lookup tables of margin accounts, \<open>margin/src/instructions/lookup_tables\<close>: whoever has authority over
  an account has the account sign a call of the registry program. The registry is outside the
  repository and a parameter, a function of the signers, the call and its accounts \<open>'r\<close>.
\<close>

datatype RegistryIx =
    InitRegistryAccount Pubkey Pubkey Pubkey
  | CreateLookupTableIx Pubkey Pubkey Pubkey Pubkey nat nat
  | AppendToLookupTableIx Pubkey Pubkey Pubkey Pubkey "Pubkey list" nat

record LookupKeys =
  lk_authority :: Pubkey
  lk_payer :: Pubkey
  lk_margin_account :: Pubkey
  lk_registry_account :: Pubkey
  lk_lookup_table :: Pubkey

definition registry_cpi ::
  "'l Runtime \<Rightarrow> (Pubkey list \<Rightarrow> RegistryIx \<Rightarrow> 'r \<Rightarrow> 'r option) \<Rightarrow> LookupKeys \<Rightarrow> RegistryIx \<Rightarrow> MarginAccount \<Rightarrow> 'r \<Rightarrow>
     'r margin_tx" where
  "registry_cpi rt registry k ix a r =
     bindE (require_signer rt (lk_authority k)) (\<lambda>_.
     bindE (require_signer rt (lk_payer k)) (\<lambda>_.
     bindE (lift_tx (verify_authority (lk_authority k) a)) (\<lambda>_.
     ok_or (registry (rt_signer_address rt (account_signer a) # rt_signers rt) ix r) AdapterErr)))"

definition init_lookup_registry_handler ::
  "'l Runtime \<Rightarrow> (Pubkey list \<Rightarrow> RegistryIx \<Rightarrow> 'r \<Rightarrow> 'r option) \<Rightarrow> LookupKeys \<Rightarrow> MarginAccount \<Rightarrow> 'r \<Rightarrow> 'r margin_tx" where
  "init_lookup_registry_handler rt registry k a r =
     registry_cpi rt registry k
       (InitRegistryAccount (lk_margin_account k) (lk_payer k) (lk_registry_account k)) a r"

definition create_lookup_table_handler ::
  "'l Runtime \<Rightarrow> (Pubkey list \<Rightarrow> RegistryIx \<Rightarrow> 'r \<Rightarrow> 'r option) \<Rightarrow> LookupKeys \<Rightarrow> nat \<Rightarrow> nat \<Rightarrow> MarginAccount \<Rightarrow> 'r \<Rightarrow>
     'r margin_tx" where
  "create_lookup_table_handler rt registry k recent_slot discriminator a r =
     registry_cpi rt registry k
       (CreateLookupTableIx (lk_margin_account k) (lk_payer k) (lk_lookup_table k) (lk_registry_account k)
          recent_slot discriminator) a r"

definition append_to_lookup_handler ::
  "'l Runtime \<Rightarrow> (Pubkey list \<Rightarrow> RegistryIx \<Rightarrow> 'r \<Rightarrow> 'r option) \<Rightarrow> LookupKeys \<Rightarrow> nat \<Rightarrow> Pubkey list \<Rightarrow> MarginAccount \<Rightarrow> 'r \<Rightarrow>
     'r margin_tx" where
  "append_to_lookup_handler rt registry k discriminator addresses a r =
     registry_cpi rt registry k
       (AppendToLookupTableIx (lk_margin_account k) (lk_payer k) (lk_lookup_table k) (lk_registry_account k)
          addresses discriminator) a r"

text \<open>
  During a liquidation exactly the liquidator has the account sign, otherwise exactly the owner; an owner who
  is the liquidator is refused.
\<close>

lemma registry_call_iff:
  "registry_cpi rt registry k ix a r = Inr r' \<longleftrightarrow>
   {lk_authority k, lk_payer k} \<subseteq> set (rt_signers rt) \<and>
   (if ma_liquidator a = pubkey_default then lk_authority k = ma_owner a
    else lk_authority k = ma_liquidator a \<and> ma_liquidator a \<noteq> ma_owner a) \<and>
   registry (rt_signer_address rt (account_signer a) # rt_signers rt) ix r = Some r'"
  by (auto simp: registry_cpi_def verify_authority_def is_liquidating_def)

end
