(* ===== verification/MarginProgram.thy ===== *)
theory MarginProgram
  imports Instructions MarginHandlers LookupTables
begin

text \<open>
  The margin program as a whole, the \<open>#[program]\<close> module of \<open>programs/margin/src/lib.rs\<close>: its accounts by
  address, and for each instruction the accounts it takes from the instruction's list, the records it
  loads from them, the handler it runs and what it writes back.

  The environment carries what belongs to others: the code of the adapters, the contents of the remaining
  accounts of an invocation and what the adapter leaves in them, the price feeds of the oracles, the
  registry of lookup tables and the stack height of the instruction.
\<close>

subsection \<open>State\<close>

record ('l, 'r) MarginProgram =
  mg_accounts :: "Pubkey \<Rightarrow> MarginAccount option"
  mg_liquidations :: "Pubkey \<Rightarrow> LiquidationState option"
  mg_permits :: "Pubkey \<Rightarrow> Permit option"
  mg_token_configs :: "Pubkey \<Rightarrow> TokenConfig option"
  mg_adapter_configs :: "Pubkey \<Rightarrow> AdapterConfig option"
  mg_airspace :: AirspaceState
  mg_ledger :: 'l
  mg_registry :: 'r
  mg_events :: "MarginEvent list"

record ('l, 'r) MarginEnv =
  me_program :: "Pubkey \<Rightarrow> AdapterProgram"
  me_infos :: "'l \<Rightarrow> Pubkey list \<Rightarrow> AccountInfo list"
  me_absorb :: "AccountInfo list \<Rightarrow> 'l \<Rightarrow> 'l"
  me_feed :: "Pubkey \<Rightarrow> (PythPrice \<times> PythPrice) option"
  me_registry :: "Pubkey list \<Rightarrow> RegistryIx \<Rightarrow> 'r \<Rightarrow> 'r option"
  me_height :: nat

text \<open>Which instruction, and its arguments.\<close>

datatype MarginIxData =
    CreateAccountData nat
  | CloseAccountData
  | RegisterPositionData
  | UpdatePositionBalanceData
  | ClosePositionData
  | VerifyHealthyData
  | VerifyUnhealthyData
  | AdapterInvokeData "nat list"
  | AccountingInvokeData "nat list"
  | LiquidateBeginData
  | LiquidateEndData
  | LiquidatorInvokeData "nat list"
  | RefreshPositionConfigData
  | RefreshDepositPositionData
  | CreateDepositPositionData
  | TransferDepositData nat
  | ConfigureTokenData "TokenConfigUpdate option"
  | ConfigureAdapterData bool
  | ConfigureLiquidatorData bool
  | ConfigureAccountAirspaceData
  | ConfigurePositionConfigRefresherData bool
  | AdminTransferPositionData nat
  | InitLookupRegistryData
  | CreateLookupTableData nat nat
  | AppendToLookupData nat "Pubkey list"

subsection \<open>Loading and storing\<close>

definition load :: "('k \<Rightarrow> 'v option) \<Rightarrow> 'k \<Rightarrow> 'v margin_tx" where
  "load m k = ok_or (m k) AccountErr"

lemma load_Inr [simp]: "load m k = Inr v \<longleftrightarrow> m k = Some v"
  by (simp add: load_def)

lemma load_Some [simp]: "m k = Some v \<Longrightarrow> load m k = Inr v"
  by (simp add: load_def)

definition put_account :: "Pubkey \<Rightarrow> MarginAccount \<Rightarrow> ('l, 'r) MarginProgram \<Rightarrow> ('l, 'r) MarginProgram" where
  "put_account k a s = s\<lparr>mg_accounts := (mg_accounts s)(k \<mapsto> a)\<rparr>"

definition put_ledger :: "'l \<Rightarrow> ('l, 'r) MarginProgram \<Rightarrow> ('l, 'r) MarginProgram" where
  "put_ledger l s = s\<lparr>mg_ledger := l\<rparr>"

definition emit :: "MarginEvent list \<Rightarrow> ('l, 'r) MarginProgram \<Rightarrow> ('l, 'r) MarginProgram" where
  "emit es s = s\<lparr>mg_events := mg_events s @ es\<rparr>"

lemmas margin_put_defs = put_account_def put_ledger_def emit_def

text \<open>The accounts of an instruction that invokes an adapter, and what it leaves in the remaining ones.\<close>

definition absorb ::
  "('l, 'r) MarginEnv \<Rightarrow> Pubkey \<Rightarrow> MarginAccount \<Rightarrow> AccountInfo list \<Rightarrow> MarginEvent list \<Rightarrow>
     ('l, 'r) MarginProgram \<Rightarrow> ('l, 'r) MarginProgram" where
  "absorb env k a infos es s = emit es (put_ledger (me_absorb env infos (mg_ledger s)) (put_account k a s))"

subsection \<open>The entry of the program\<close>

definition lookup_keys :: "Pubkey \<Rightarrow> Pubkey \<Rightarrow> Pubkey \<Rightarrow> Pubkey \<Rightarrow> Pubkey \<Rightarrow> LookupKeys" where
  "lookup_keys authority payer margin_account registry_account lookup_table =
     \<lparr>lk_authority = authority, lk_payer = payer, lk_margin_account = margin_account,
      lk_registry_account = registry_account, lk_lookup_table = lookup_table\<rparr>"

definition configure_permit_ix ::
  "Sdk \<Rightarrow> 'l Runtime \<Rightarrow> bool \<Rightarrow> nat \<Rightarrow> Pubkey list \<Rightarrow> ('l, 'r) MarginProgram \<Rightarrow> ('l, 'r) MarginProgram margin_tx" where
  "configure_permit_ix sdk rt test flag ks s =
     (case ks of
        authority # airspace # payer # owner # permit # system # _ \<Rightarrow>
          bindE (check_program (sdk_system_program sdk) system) (\<lambda>_.
          bindE (load (st_airspaces (mg_airspace s)) airspace) (\<lambda>air.
          bindE (configure_permit_handler rt authority (airspace, air) payer owner permit test flag
                   (mg_permits s permit)) (\<lambda>(p, e).
          Inr (emit [e] (s\<lparr>mg_permits := (mg_permits s)(permit := p)\<rparr>)))))
      | _ \<Rightarrow> err AccountErr)"

fun margin_dispatch ::
  "Sdk \<Rightarrow> ('l, 'r) MarginEnv \<Rightarrow> 'l Runtime \<Rightarrow> MarginIxData \<Rightarrow> Pubkey list \<Rightarrow>
     ('l, 'r) MarginProgram \<Rightarrow> ('l, 'r) MarginProgram margin_tx" where
  "margin_dispatch sdk env rt (CreateAccountData seed) ks s =
     (case ks of
        owner # permit # payer # margin_account # system # _ \<Rightarrow>
          bindE (check_program (sdk_system_program sdk) system) (\<lambda>_.
          bindE (load (st_permits (mg_airspace s)) permit) (\<lambda>p.
          bindE (create_account_handler rt
                   \<lparr>ca_owner = owner, ca_payer = payer, ca_margin_account = margin_account\<rparr> p seed
                   (mg_accounts s margin_account)) (\<lambda>(a, e).
          Inr (emit [e] (put_account margin_account a s)))))
      | _ \<Rightarrow> err AccountErr)"
| "margin_dispatch sdk env rt CloseAccountData ks s =
     (case ks of
        owner # receiver # margin_account # _ \<Rightarrow>
          bindE (load (mg_accounts s) margin_account) (\<lambda>a.
          bindE (close_account_handler rt owner margin_account a) (\<lambda>e.
          Inr (emit [e] (s\<lparr>mg_accounts := (mg_accounts s)(margin_account := None)\<rparr>))))
      | _ \<Rightarrow> err AccountErr)"
| "margin_dispatch sdk env rt RegisterPositionData ks s =
     (case ks of
        authority # payer # margin_account # mint # token_config # token_account # token_id # rent # system # _ \<Rightarrow>
          bindE (check_program (sdk_token_program sdk) token_id) (\<lambda>_.
          bindE (check_program (sdk_rent sdk) rent) (\<lambda>_.
          bindE (check_program (sdk_system_program sdk) system) (\<lambda>_.
          bindE (load (mg_accounts s) margin_account) (\<lambda>a.
          bindE (load (mg_token_configs s) token_config) (\<lambda>c.
          bindE (register_position_handler rt
                   \<lparr>rg_authority = authority, rg_payer = payer, rg_margin_account = margin_account,
                    rg_position_token_mint = mint, rg_token_account = token_account\<rparr> c a (mg_ledger s)) (\<lambda>(a, l).
          Inr (put_ledger l (put_account margin_account a s))))))))
      | _ \<Rightarrow> err AccountErr)"
| "margin_dispatch sdk env rt UpdatePositionBalanceData ks s =
     (case ks of
        margin_account # token_account # _ \<Rightarrow>
          bindE (load (mg_accounts s) margin_account) (\<lambda>a.
          bindE (update_position_balance_handler rt token_account a (mg_ledger s)) (\<lambda>a.
          Inr (put_account margin_account a s)))
      | _ \<Rightarrow> err AccountErr)"
| "margin_dispatch sdk env rt ClosePositionData ks s =
     (case ks of
        authority # receiver # margin_account # mint # token_account # token_id # _ \<Rightarrow>
          bindE (check_program (sdk_token_program sdk) token_id) (\<lambda>_.
          bindE (load (mg_accounts s) margin_account) (\<lambda>a.
          bindE (close_position_handler rt
                   \<lparr>cs_authority = authority, cs_receiver = receiver, cs_margin_account = margin_account,
                    cs_position_token_mint = mint, cs_token_account = token_account\<rparr> a (mg_ledger s)) (\<lambda>(a, l).
          Inr (put_ledger l (put_account margin_account a s)))))
      | _ \<Rightarrow> err AccountErr)"
| "margin_dispatch sdk env rt VerifyHealthyData ks s =
     (case ks of
        margin_account # _ \<Rightarrow>
          bindE (load (mg_accounts s) margin_account) (\<lambda>a.
          bindE (verify_healthy_handler rt margin_account a) (\<lambda>e. Inr (emit [e] s)))
      | _ \<Rightarrow> err AccountErr)"
| "margin_dispatch sdk env rt VerifyUnhealthyData ks s =
     (case ks of
        margin_account # _ \<Rightarrow>
          bindE (load (mg_accounts s) margin_account) (\<lambda>a.
          bindE (verify_unhealthy_handler rt margin_account a) (\<lambda>e. Inr (emit [e] s)))
      | _ \<Rightarrow> err AccountErr)"
| "margin_dispatch sdk env rt (AdapterInvokeData data) ks s =
     (case ks of
        owner # margin_account # adapter # adapter_config # rest \<Rightarrow>
          bindE (load (mg_accounts s) margin_account) (\<lambda>a.
          bindE (load (mg_adapter_configs s) adapter_config) (\<lambda>c.
          bindE (adapter_invoke_handler rt (me_height env) (me_program env adapter) owner margin_account adapter c
                   (me_infos env (mg_ledger s) rest) data a) (\<lambda>(a, infos, es).
          Inr (absorb env margin_account a infos es s))))
      | _ \<Rightarrow> err AccountErr)"
| "margin_dispatch sdk env rt (AccountingInvokeData data) ks s =
     (case ks of
        margin_account # adapter # adapter_config # rest \<Rightarrow>
          bindE (load (mg_accounts s) margin_account) (\<lambda>a.
          bindE (load (mg_adapter_configs s) adapter_config) (\<lambda>c.
          bindE (accounting_invoke_handler rt (me_height env) (me_program env adapter) margin_account adapter c
                   (me_infos env (mg_ledger s) rest) data a) (\<lambda>(a, infos, es).
          Inr (absorb env margin_account a infos es s))))
      | _ \<Rightarrow> err AccountErr)"
| "margin_dispatch sdk env rt LiquidateBeginData ks s =
     (case ks of
        margin_account # payer # liquidator # permit # liquidation # system # _ \<Rightarrow>
          bindE (check_program (sdk_system_program sdk) system) (\<lambda>_.
          bindE (load (mg_accounts s) margin_account) (\<lambda>a.
          bindE (load (mg_permits s) permit) (\<lambda>p.
          bindE (liquidate_begin_handler rt
                   \<lparr>lb_margin_account = margin_account, lb_payer = payer, lb_liquidator = liquidator,
                    lb_liquidation = liquidation\<rparr> p (mg_liquidations s liquidation) a) (\<lambda>(a, st, e).
          Inr (emit [e] (put_account margin_account a
                 (s\<lparr>mg_liquidations := (mg_liquidations s)(liquidation \<mapsto> st)\<rparr>)))))))
      | _ \<Rightarrow> err AccountErr)"
| "margin_dispatch sdk env rt LiquidateEndData ks s =
     (case ks of
        authority # margin_account # liquidation # _ \<Rightarrow>
          bindE (load (mg_accounts s) margin_account) (\<lambda>a.
          bindE (load (mg_liquidations s) liquidation) (\<lambda>st.
          bindE (liquidate_end_handler rt authority margin_account st a) (\<lambda>(a, e).
          Inr (emit [e] (put_account margin_account a
                 (s\<lparr>mg_liquidations := (mg_liquidations s)(liquidation := None)\<rparr>))))))
      | _ \<Rightarrow> err AccountErr)"
| "margin_dispatch sdk env rt (LiquidatorInvokeData data) ks s =
     (case ks of
        liquidator # liquidation # margin_account # adapter # adapter_config # rest \<Rightarrow>
          bindE (load (mg_liquidations s) liquidation) (\<lambda>st.
          bindE (load (mg_accounts s) margin_account) (\<lambda>a.
          bindE (load (mg_adapter_configs s) adapter_config) (\<lambda>c.
          bindE (liquidator_invoke_handler rt (me_height env) (me_program env adapter) liquidator margin_account adapter c
                   (me_infos env (mg_ledger s) rest) data st a) (\<lambda>(a, st, infos, es).
          Inr (absorb env margin_account a infos es
                 (s\<lparr>mg_liquidations := (mg_liquidations s)(liquidation \<mapsto> st)\<rparr>))))))
      | _ \<Rightarrow> err AccountErr)"
| "margin_dispatch sdk env rt RefreshPositionConfigData ks s =
     (case ks of
        margin_account # token_config # permit # refresher # _ \<Rightarrow>
          bindE (load (mg_accounts s) margin_account) (\<lambda>a.
          bindE (load (mg_token_configs s) token_config) (\<lambda>c.
          bindE (load (mg_permits s) permit) (\<lambda>p.
          bindE (refresh_position_config_handler rt c p refresher a) (\<lambda>a.
          Inr (put_account margin_account a s)))))
      | _ \<Rightarrow> err AccountErr)"
| "margin_dispatch sdk env rt RefreshDepositPositionData ks s =
     (case ks of
        margin_account # token_config # price_oracle # rest \<Rightarrow>
          bindE (load (mg_accounts s) margin_account) (\<lambda>a.
          bindE (load (mg_token_configs s) token_config) (\<lambda>c.
          bindE (refresh_deposit_position_handler rt c price_oracle (me_feed env price_oracle)
                   (case rest of [] \<Rightarrow> None | k # _ \<Rightarrow> Some k) a (mg_ledger s)) (\<lambda>a.
          Inr (put_account margin_account a s))))
      | _ \<Rightarrow> err AccountErr)"
| "margin_dispatch sdk env rt CreateDepositPositionData ks s =
     (case ks of
        authority # payer # margin_account # mint # token_config # token_account # ata # token_id # rent # system # _ \<Rightarrow>
          bindE (check_program (sdk_associated_program sdk) ata) (\<lambda>_.
          bindE (check_program (sdk_token_program sdk) token_id) (\<lambda>_.
          bindE (check_program (sdk_rent sdk) rent) (\<lambda>_.
          bindE (check_program (sdk_system_program sdk) system) (\<lambda>_.
          bindE (load (mg_accounts s) margin_account) (\<lambda>a.
          bindE (load (mg_token_configs s) token_config) (\<lambda>c.
          bindE (create_deposit_position_handler rt (sdk_associated sdk)
                   \<lparr>cd_authority = authority, cd_payer = payer, cd_margin_account = margin_account, cd_mint = mint,
                    cd_token_account = token_account\<rparr> c a (mg_ledger s)) (\<lambda>a.
          Inr (put_account margin_account a s))))))))
      | _ \<Rightarrow> err AccountErr)"
| "margin_dispatch sdk env rt (TransferDepositData amount) ks s =
     (case ks of
        owner # margin_account # source_owner # source # destination # token_id # _ \<Rightarrow>
          bindE (check_program (sdk_token_program sdk) token_id) (\<lambda>_.
          bindE (load (mg_accounts s) margin_account) (\<lambda>a.
          bindE (transfer_deposit_handler rt
                   \<lparr>td_owner = owner, td_margin_account = margin_account, td_source_owner = source_owner,
                    td_source = source, td_destination = destination\<rparr> amount a (mg_ledger s)) (\<lambda>(a, l).
          Inr (put_ledger l (put_account margin_account a s)))))
      | _ \<Rightarrow> err AccountErr)"
| "margin_dispatch sdk env rt (ConfigureTokenData update) ks s =
     (case ks of
        authority # airspace # payer # mint # token_config # system # _ \<Rightarrow>
          bindE (check_program (sdk_system_program sdk) system) (\<lambda>_.
          bindE (load (st_airspaces (mg_airspace s)) airspace) (\<lambda>air.
          bindE (configure_token_handler rt authority (airspace, air) payer mint token_config update
                   (mg_token_configs s token_config) (mg_ledger s)) (\<lambda>(c, e).
          Inr (emit [e] (s\<lparr>mg_token_configs := (mg_token_configs s)(token_config := c)\<rparr>)))))
      | _ \<Rightarrow> err AccountErr)"
| "margin_dispatch sdk env rt (ConfigureAdapterData is_adapter) ks s =
     (case ks of
        authority # airspace # payer # adapter # adapter_config # system # _ \<Rightarrow>
          bindE (check_program (sdk_system_program sdk) system) (\<lambda>_.
          bindE (load (st_airspaces (mg_airspace s)) airspace) (\<lambda>air.
          bindE (configure_adapter_handler rt authority (airspace, air) payer adapter adapter_config is_adapter
                   (mg_adapter_configs s adapter_config)) (\<lambda>(c, e).
          Inr (emit [e] (s\<lparr>mg_adapter_configs := (mg_adapter_configs s)(adapter_config := c)\<rparr>)))))
      | _ \<Rightarrow> err AccountErr)"
| "margin_dispatch sdk env rt (ConfigureLiquidatorData is_liquidator) ks s =
     configure_permit_ix sdk rt is_liquidator PERM_LIQUIDATE ks s"
| "margin_dispatch sdk env rt ConfigureAccountAirspaceData ks s =
     (case ks of
        margin_account # _ \<Rightarrow>
          bindE (load (mg_accounts s) margin_account) (\<lambda>a.
          bindE (configure_account_airspace_handler DEFAULT_AIRSPACE a) (\<lambda>a. Inr (put_account margin_account a s)))
      | _ \<Rightarrow> err AccountErr)"
| "margin_dispatch sdk env rt (ConfigurePositionConfigRefresherData may_refresh) ks s =
     configure_permit_ix sdk rt may_refresh PERM_REFRESH_POSITION_CONFIG ks s"
| "margin_dispatch sdk env rt (AdminTransferPositionData amount) ks s =
     (case ks of
        authority # target_account # source_account # source_token # target_token # token_id # _ \<Rightarrow>
          bindE (check_program (sdk_token_program sdk) token_id) (\<lambda>_.
          bindE (load (mg_accounts s) source_account) (\<lambda>source.
          bindE (load (mg_accounts s) target_account) (\<lambda>target.
          bindE (admin_transfer_position_handler rt GOVERNOR_ID
                   \<lparr>tp_authority = authority, tp_target_account = target_account, tp_source_account = source_account,
                    tp_source_token_account = source_token, tp_target_token_account = target_token\<rparr> amount
                   source target (mg_ledger s)) (\<lambda>(source, target, l, e).
          Inr (emit [e] (put_ledger l (put_account target_account target (put_account source_account source s))))))))
      | _ \<Rightarrow> err AccountErr)"
| "margin_dispatch sdk env rt InitLookupRegistryData ks s =
     (case ks of
        authority # payer # margin_account # registry_account # registry_program # system # _ \<Rightarrow>
          bindE (check_program ADDRESS_LOOKUP_REGISTRY_ID registry_program) (\<lambda>_.
          bindE (check_program (sdk_system_program sdk) system) (\<lambda>_.
          bindE (load (mg_accounts s) margin_account) (\<lambda>a.
          bindE (init_lookup_registry_handler rt (me_registry env)
                   (lookup_keys authority payer margin_account registry_account pubkey_default) a (mg_registry s)) (\<lambda>r.
          Inr (s\<lparr>mg_registry := r\<rparr>)))))
      | _ \<Rightarrow> err AccountErr)"
| "margin_dispatch sdk env rt (CreateLookupTableData recent_slot discriminator) ks s =
     (case ks of
        authority # payer # margin_account # registry_account # lookup_table # _ # registry_program # system # _ \<Rightarrow>
          bindE (check_program ADDRESS_LOOKUP_REGISTRY_ID registry_program) (\<lambda>_.
          bindE (check_program (sdk_system_program sdk) system) (\<lambda>_.
          bindE (load (mg_accounts s) margin_account) (\<lambda>a.
          bindE (create_lookup_table_handler rt (me_registry env)
                   (lookup_keys authority payer margin_account registry_account lookup_table) recent_slot discriminator
                   a (mg_registry s)) (\<lambda>r.
          Inr (s\<lparr>mg_registry := r\<rparr>)))))
      | _ \<Rightarrow> err AccountErr)"
| "margin_dispatch sdk env rt (AppendToLookupData discriminator addresses) ks s =
     (case ks of
        authority # payer # margin_account # registry_account # lookup_table # _ # registry_program # system # _ \<Rightarrow>
          bindE (check_program ADDRESS_LOOKUP_REGISTRY_ID registry_program) (\<lambda>_.
          bindE (check_program (sdk_system_program sdk) system) (\<lambda>_.
          bindE (load (mg_accounts s) margin_account) (\<lambda>a.
          bindE (append_to_lookup_handler rt (me_registry env)
                   (lookup_keys authority payer margin_account registry_account lookup_table) discriminator addresses
                   a (mg_registry s)) (\<lambda>r.
          Inr (s\<lparr>mg_registry := r\<rparr>)))))
      | _ \<Rightarrow> err AccountErr)"

definition margin_process ::
  "Sdk \<Rightarrow> ('l, 'r) MarginEnv \<Rightarrow> 'l Runtime \<Rightarrow> MarginIxData Instruction \<Rightarrow> ('l, 'r) MarginProgram \<Rightarrow>
     ('l, 'r) MarginProgram margin_tx" where
  "margin_process sdk env rt ix s =
     margin_dispatch sdk env (runtime_of rt (ix_accounts ix)) (ix_data ix) (keys_of (ix_accounts ix)) s"

end
