(* ===== verification/AirspaceBuilder.thy ===== *)
theory AirspaceBuilder
  imports Instructions Airspaces
begin

text \<open>
  The builder of airspace instructions, \<open>instructions/src/airspace.rs\<close>, and the entry of the airspace
  program, which takes the accounts of an instruction by position (\<open>airspace_process\<close>).

  The lemmas \<open>*_process\<close> state which handler an instruction reaches and with which arguments. The two
  instructions built to revoke something carry the data of the instructions that create it.
\<close>

subsection \<open>The entry of the program\<close>

datatype AirspaceIxData =
    CreateGovernorIdData
  | SetGovernorData Pubkey
  | AirspaceCreateData string bool Pubkey
  | AirspaceSetAuthorityData Pubkey
  | AirspacePermitIssuerCreateData Pubkey
  | AirspacePermitIssuerRevokeData
  | AirspacePermitCreateData Pubkey
  | AirspacePermitRevokeData

definition state_of_tx :: "('a \<times> 'b) airspace_tx \<Rightarrow> 'a airspace_tx" where
  "state_of_tx m = bindE m (\<lambda>(s, _). Inr s)"

definition check_governor_id :: "'l Runtime \<Rightarrow> Pubkey \<Rightarrow> ('e, unit) tx" where
  "check_governor_id rt k = constraint (k = pda rt [SeedBytes ''governor-id''])"

text \<open>\<open>g\<close> is the governor built into the program.\<close>

fun airspace_dispatch ::
  "Sdk \<Rightarrow> 'l Runtime \<Rightarrow> Pubkey \<Rightarrow> AirspaceIxData \<Rightarrow> Pubkey list \<Rightarrow> AirspaceState \<Rightarrow> AirspaceState airspace_tx" where
  "airspace_dispatch sdk rt g CreateGovernorIdData ks s =
     (case ks of
        payer # governor_id # system # _ \<Rightarrow>
          bindE (check_program (sdk_system_program sdk) system) (\<lambda>_.
          bindE (check_governor_id rt governor_id) (\<lambda>_. create_governor_id_handler rt g payer s))
      | _ \<Rightarrow> err AccountErr)"
| "airspace_dispatch sdk rt g (SetGovernorData new_governor) ks s =
     (case ks of
        governor # governor_id # system # _ \<Rightarrow>
          bindE (check_program (sdk_system_program sdk) system) (\<lambda>_.
          bindE (check_governor_id rt governor_id) (\<lambda>_. set_governor_handler rt governor new_governor s))
      | _ \<Rightarrow> err AccountErr)"
| "airspace_dispatch sdk rt g (AirspaceCreateData seed is_restricted authority) ks s =
     (case ks of
        payer # airspace # governor # governor_id # system # _ \<Rightarrow>
          bindE (check_program (sdk_system_program sdk) system) (\<lambda>_.
          bindE (check_governor_id rt governor_id) (\<lambda>_.
          state_of_tx (airspace_create_handler rt payer airspace governor seed is_restricted authority s)))
      | _ \<Rightarrow> err AccountErr)"
| "airspace_dispatch sdk rt g (AirspaceSetAuthorityData new_authority) ks s =
     (case ks of
        authority # airspace # _ \<Rightarrow> state_of_tx (airspace_set_authority_handler rt authority airspace new_authority s)
      | _ \<Rightarrow> err AccountErr)"
| "airspace_dispatch sdk rt g (AirspacePermitIssuerCreateData issuer) ks s =
     (case ks of
        payer # authority # airspace # issuer_id # system # _ \<Rightarrow>
          bindE (check_program (sdk_system_program sdk) system) (\<lambda>_.
          state_of_tx (airspace_permit_issuer_create_handler rt payer authority airspace issuer_id issuer s))
      | _ \<Rightarrow> err AccountErr)"
| "airspace_dispatch sdk rt g AirspacePermitIssuerRevokeData ks s =
     (case ks of
        receiver # authority # airspace # issuer_id # _ \<Rightarrow>
          state_of_tx (airspace_permit_issuer_revoke_handler rt receiver authority airspace issuer_id s)
      | _ \<Rightarrow> err AccountErr)"
| "airspace_dispatch sdk rt g (AirspacePermitCreateData owner) ks s =
     (case ks of
        payer # authority # airspace # permit # issuer_id # system # _ \<Rightarrow>
          bindE (check_program (sdk_system_program sdk) system) (\<lambda>_.
          state_of_tx (airspace_permit_create_handler rt payer authority airspace permit issuer_id owner s))
      | _ \<Rightarrow> err AccountErr)"
| "airspace_dispatch sdk rt g AirspacePermitRevokeData ks s =
     (case ks of
        receiver # authority # airspace # issuer_id # permit # _ \<Rightarrow>
          state_of_tx (airspace_permit_revoke_handler rt receiver authority airspace issuer_id permit s)
      | _ \<Rightarrow> err AccountErr)"

definition airspace_process ::
  "Sdk \<Rightarrow> 'l Runtime \<Rightarrow> Pubkey \<Rightarrow> AirspaceIxData Instruction \<Rightarrow> AirspaceState \<Rightarrow> AirspaceState airspace_tx" where
  "airspace_process sdk rt g ix s =
     airspace_dispatch sdk (runtime_of rt (ix_accounts ix)) g (ix_data ix) (keys_of (ix_accounts ix)) s"

subsection \<open>Addresses\<close>

definition derive_governor_id :: "Sdk \<Rightarrow> Pubkey" where
  "derive_governor_id sdk = derive sdk JET_AIRSPACE [SeedBytes ''governor-id'']"

definition derive_airspace :: "Sdk \<Rightarrow> string \<Rightarrow> Pubkey" where
  "derive_airspace sdk seed = derive sdk JET_AIRSPACE [SeedBytes ''airspace'', SeedBytes seed]"

definition derive_issuer_id :: "Sdk \<Rightarrow> Pubkey \<Rightarrow> Pubkey \<Rightarrow> Pubkey" where
  "derive_issuer_id sdk airspace issuer =
     derive sdk JET_AIRSPACE [SeedBytes ''airspace-permit-issuer'', SeedKey airspace, SeedKey issuer]"

definition derive_permit :: "Sdk \<Rightarrow> Pubkey \<Rightarrow> Pubkey \<Rightarrow> Pubkey" where
  "derive_permit sdk airspace user =
     derive sdk JET_AIRSPACE [SeedBytes ''airspace-permit'', SeedKey airspace, SeedKey user]"

subsection \<open>The builder\<close>

record AirspaceIxBuilder =
  ab_payer :: Pubkey
  ab_authority :: Pubkey
  ab_address :: Pubkey
  ab_seed :: string

definition airspace_builder_new :: "Sdk \<Rightarrow> string \<Rightarrow> Pubkey \<Rightarrow> Pubkey \<Rightarrow> AirspaceIxBuilder" where
  "airspace_builder_new sdk seed payer authority =
     \<lparr>ab_payer = payer, ab_authority = authority, ab_address = derive_airspace sdk seed, ab_seed = seed\<rparr>"

definition airspace_builder_new_from_address :: "Pubkey \<Rightarrow> Pubkey \<Rightarrow> Pubkey \<Rightarrow> AirspaceIxBuilder" where
  "airspace_builder_new_from_address address payer authority =
     \<lparr>ab_payer = payer, ab_authority = authority, ab_address = address, ab_seed = ''''\<rparr>"

definition airspace_ix :: "AccountMeta list \<Rightarrow> AirspaceIxData \<Rightarrow> AirspaceIxData Instruction" where
  "airspace_ix accounts data = \<lparr>ix_program = JET_AIRSPACE, ix_accounts = accounts, ix_data = data\<rparr>"

definition ab_create_governor_id :: "Sdk \<Rightarrow> AirspaceIxBuilder \<Rightarrow> AirspaceIxData Instruction" where
  "ab_create_governor_id sdk b =
     airspace_ix
       [meta_payer (ab_payer b), meta_mut (derive_governor_id sdk), meta_ro (sdk_system_program sdk)]
       CreateGovernorIdData"

definition ab_set_governor :: "Sdk \<Rightarrow> AirspaceIxBuilder \<Rightarrow> Pubkey \<Rightarrow> AirspaceIxData Instruction" where
  "ab_set_governor sdk b new_governor =
     airspace_ix
       [meta_signer (ab_authority b), meta_mut (derive_governor_id sdk), meta_ro (sdk_system_program sdk)]
       (SetGovernorData new_governor)"

definition ab_create :: "Sdk \<Rightarrow> AirspaceIxBuilder \<Rightarrow> Pubkey \<Rightarrow> bool \<Rightarrow> AirspaceIxData Instruction" where
  "ab_create sdk b authority is_restricted =
     airspace_ix
       [meta_payer (ab_payer b), meta_mut (ab_address b), meta_signer (ab_authority b),
        meta_ro (derive_governor_id sdk), meta_ro (sdk_system_program sdk)]
       (AirspaceCreateData (ab_seed b) is_restricted authority)"

definition ab_set_authority :: "AirspaceIxBuilder \<Rightarrow> Pubkey \<Rightarrow> AirspaceIxData Instruction" where
  "ab_set_authority b new_authority =
     airspace_ix [meta_signer (ab_authority b), meta_mut (ab_address b)] (AirspaceSetAuthorityData new_authority)"

definition ab_permit_issuer_create :: "Sdk \<Rightarrow> AirspaceIxBuilder \<Rightarrow> Pubkey \<Rightarrow> AirspaceIxData Instruction" where
  "ab_permit_issuer_create sdk b issuer =
     airspace_ix
       [meta_payer (ab_payer b), meta_signer (ab_authority b), meta_ro (ab_address b),
        meta_mut (derive_issuer_id sdk (ab_address b) issuer), meta_ro (sdk_system_program sdk)]
       (AirspacePermitIssuerCreateData issuer)"

definition ab_permit_issuer_revoke :: "Sdk \<Rightarrow> AirspaceIxBuilder \<Rightarrow> Pubkey \<Rightarrow> AirspaceIxData Instruction" where
  "ab_permit_issuer_revoke sdk b issuer =
     airspace_ix
       [meta_payer (ab_payer b), meta_signer (ab_authority b), meta_ro (ab_address b),
        meta_mut (derive_issuer_id sdk (ab_address b) issuer)]
       (AirspacePermitIssuerCreateData issuer)"

definition ab_permit_create :: "Sdk \<Rightarrow> AirspaceIxBuilder \<Rightarrow> Pubkey \<Rightarrow> AirspaceIxData Instruction" where
  "ab_permit_create sdk b user =
     airspace_ix
       [meta_payer (ab_payer b), meta_signer (ab_authority b), meta_ro (ab_address b),
        meta_mut (derive_permit sdk (ab_address b) user),
        meta_ro (derive_issuer_id sdk (ab_address b) (ab_authority b)), meta_ro (sdk_system_program sdk)]
       (AirspacePermitCreateData user)"

definition ab_permit_revoke :: "Sdk \<Rightarrow> AirspaceIxBuilder \<Rightarrow> Pubkey \<Rightarrow> Pubkey \<Rightarrow> AirspaceIxData Instruction" where
  "ab_permit_revoke sdk b user issuer =
     airspace_ix
       [meta_payer (ab_payer b), meta_signer (ab_authority b), meta_ro (ab_address b),
        meta_ro (derive_issuer_id sdk (ab_address b) issuer), meta_mut (derive_permit sdk (ab_address b) user)]
       (AirspacePermitCreateData user)"

subsection \<open>What the built instructions do\<close>

text \<open>The addresses that the program requires are the ones that the builder derives.\<close>

lemma airspace_addresses:
  assumes "runs_as sdk JET_AIRSPACE rt"
  shows "issuer_address (runtime_of rt ms) a i = derive_issuer_id sdk a i"
    "permit_address (runtime_of rt ms) a u = derive_permit sdk a u"
    "pda rt [SeedBytes ''airspace'', SeedBytes seed] = derive_airspace sdk seed"
    "pda rt [SeedBytes ''governor-id''] = derive_governor_id sdk"
  by (simp_all add: issuer_address_def permit_address_def derive_issuer_id_def derive_permit_def derive_airspace_def
      derive_governor_id_def pda_eq_derive [OF assms])

lemmas airspace_process_simps =
  airspace_process_def airspace_ix_def metas check_program_def check_governor_id_def state_of_tx_def require_signer_def

lemma ab_create_process:
  assumes "runs_as sdk JET_AIRSPACE rt"
  shows "airspace_process sdk rt g (ab_create sdk (airspace_builder_new sdk seed payer governor) authority r) s = Inr s'
    \<longleftrightarrow> st_governor s = Some governor \<and> st_airspaces s (derive_airspace sdk seed) = None \<and>
      s' = s\<lparr>st_airspaces := (st_airspaces s)
               (derive_airspace sdk seed \<mapsto> \<lparr>as_authority = authority, as_is_restricted = r\<rparr>)\<rparr>"
  by (auto simp: ab_create_def airspace_builder_new_def airspace_process_simps airspace_addresses [OF assms]
      airspace_create_handler_def)

lemma ab_permit_create_process:
  assumes "runs_as sdk JET_AIRSPACE rt" "st_airspaces s (ab_address b) = Some a"
    and "as_authority a = ab_authority b"
  shows "airspace_process sdk rt g (ab_permit_create sdk b user) s = Inr s' \<longleftrightarrow>
    st_permits s (derive_permit sdk (ab_address b) user) = None \<and>
    s' = s\<lparr>st_permits := (st_permits s)(derive_permit sdk (ab_address b) user \<mapsto>
             \<lparr>ap_airspace = ab_address b, ap_owner = user, ap_issuer = ab_address b\<rparr>)\<rparr>"
  using assms(2,3)
  by (auto simp: ab_permit_create_def airspace_process_simps airspace_addresses [OF assms(1)]
      airspace_permit_create_handler_def Let_def)

lemma ab_permit_issuer_create_process:
  assumes "runs_as sdk JET_AIRSPACE rt" "st_airspaces s (ab_address b) = Some a"
  shows "airspace_process sdk rt g (ab_permit_issuer_create sdk b issuer) s = Inr s' \<longleftrightarrow>
    st_issuers s (derive_issuer_id sdk (ab_address b) issuer) = None \<and>
    s' = s\<lparr>st_issuers := (st_issuers s)(derive_issuer_id sdk (ab_address b) issuer \<mapsto>
             \<lparr>ai_airspace = ab_address b, ai_issuer = issuer\<rparr>)\<rparr>"
  using assms(2)
  by (auto simp: ab_permit_issuer_create_def airspace_process_simps airspace_addresses [OF assms(1)]
      airspace_permit_issuer_create_handler_def)

text \<open>
  C26: The instruction that the builder makes to revoke a permit, and the one to revoke the licence of an
  issuer, never succeed: they name the instructions that create a permit and a licence, which need
  one account more than they carry. With the data of the revoking instruction the same accounts
  revoke the licence.
\<close>

theorem built_revocations_fail:
  "\<not> is_ok (airspace_process sdk rt g (ab_permit_revoke sdk b user issuer) s) \<and>
   \<not> is_ok (airspace_process sdk rt g (ab_permit_issuer_revoke sdk b issuer) s) \<and>
   (\<forall>a i. st_airspaces s (ab_address b) = Some a \<and> as_authority a = ab_authority b \<and>
      st_issuers s (derive_issuer_id sdk (ab_address b) issuer) = Some i \<and> ai_airspace i = ab_address b \<longrightarrow>
      airspace_process sdk rt g
        ((ab_permit_issuer_revoke sdk b issuer)\<lparr>ix_data := AirspacePermitIssuerRevokeData\<rparr>) s =
      Inr (s\<lparr>st_issuers := (st_issuers s)(derive_issuer_id sdk (ab_address b) issuer := None)\<rparr>))"
  by (auto simp: ab_permit_revoke_def ab_permit_issuer_revoke_def airspace_process_simps
      airspace_permit_issuer_revoke_handler_def)

definition sample_airspace_builder :: AirspaceIxBuilder where
  "sample_airspace_builder = airspace_builder_new_from_address 20 8 1"

theorem built_revocations_fail_witness:
  "\<exists>s'. airspace_process (sample_sdk airspace_pda) airspace_runtime 2
     ((ab_permit_issuer_revoke (sample_sdk airspace_pda) sample_airspace_builder 9)\<lparr>ix_data := AirspacePermitIssuerRevokeData\<rparr>)
     (sample_airspace\<lparr>st_issuers := [22009 \<mapsto> \<lparr>ai_airspace = 20, ai_issuer = 9\<rparr>]\<rparr>) = Inr s' \<and> st_issuers s' = Map.empty"
  using built_revocations_fail [of "sample_sdk airspace_pda" airspace_runtime 2 sample_airspace_builder 0 9
      "sample_airspace\<lparr>st_issuers := [22009 \<mapsto> \<lparr>ai_airspace = 20, ai_issuer = 9\<rparr>]\<rparr>"]
  by (simp add: sample_airspace_builder_def airspace_builder_new_from_address_def sample_airspace_def derive_issuer_id_def)

end
