(* ===== verification/MarginBuilder.thy ===== *)
theory MarginBuilder
  imports MarginProgram AirspaceBuilder
begin

text \<open>
  The builders of margin instructions, \<open>instructions/src/margin.rs\<close>: \<open>MarginIxBuilder\<close> for one account
  and \<open>MarginConfigIxBuilder\<close> for the configuration of an airspace. The lists of account metas are in
  the order of the \<open>Accounts\<close> structs of the program, with their flags.
\<close>

subsection \<open>Addresses\<close>

definition derive_position_token_account :: "Sdk \<Rightarrow> Pubkey \<Rightarrow> Pubkey \<Rightarrow> Pubkey" where
  "derive_position_token_account sdk margin_account mint = derive sdk JET_MARGIN [SeedKey margin_account, SeedKey mint]"

definition derive_margin_account :: "Sdk \<Rightarrow> Pubkey \<Rightarrow> Pubkey \<Rightarrow> nat \<Rightarrow> Pubkey" where
  "derive_margin_account sdk airspace owner seed = derive sdk JET_MARGIN [SeedKey owner, SeedInt seed]"

definition derive_margin_account_from_state :: "Sdk \<Rightarrow> MarginAccount \<Rightarrow> Pubkey" where
  "derive_margin_account_from_state sdk a = derive_margin_account sdk (ma_airspace a) (ma_owner a) (ma_user_seed a)"

definition derive_token_config :: "Sdk \<Rightarrow> Pubkey \<Rightarrow> Pubkey \<Rightarrow> Pubkey" where
  "derive_token_config sdk airspace mint =
     derive sdk JET_MARGIN [SeedBytes ''token-config'', SeedKey airspace, SeedKey mint]"

definition derive_adapter_config :: "Sdk \<Rightarrow> Pubkey \<Rightarrow> Pubkey \<Rightarrow> Pubkey" where
  "derive_adapter_config sdk airspace adapter =
     derive sdk JET_MARGIN [SeedBytes ''adapter-config'', SeedKey airspace, SeedKey adapter]"

definition derive_margin_permit :: "Sdk \<Rightarrow> Pubkey \<Rightarrow> Pubkey \<Rightarrow> Pubkey" where
  "derive_margin_permit sdk airspace owner = derive sdk JET_MARGIN [SeedBytes ''permit'', SeedKey airspace, SeedKey owner]"

definition derive_liquidation :: "Sdk \<Rightarrow> Pubkey \<Rightarrow> Pubkey \<Rightarrow> Pubkey" where
  "derive_liquidation sdk margin_account liquidator =
     derive sdk JET_MARGIN [SeedBytes ''liquidation'', SeedKey margin_account, SeedKey liquidator]"

subsection \<open>Invoking adapters\<close>

definition margin_ix :: "AccountMeta list \<Rightarrow> MarginIxData \<Rightarrow> MarginIxData Instruction" where
  "margin_ix accounts data = \<lparr>ix_program = JET_MARGIN, ix_accounts = accounts, ix_data = data\<rparr>"

text \<open>
  The macro \<open>invoke!\<close>: the accounts of the instruction, then those of the adapter's, where the margin
  account no longer signs. It signs when the margin program calls the adapter.
\<close>

definition unsigned_for :: "Pubkey \<Rightarrow> AccountMeta \<Rightarrow> AccountMeta" where
  "unsigned_for margin_account m = (if am_pubkey m = margin_account then m\<lparr>am_is_signer := False\<rparr> else m)"

definition invoke_ix ::
  "AccountMeta list \<Rightarrow> Pubkey \<Rightarrow> 'd Instruction \<Rightarrow> MarginIxData \<Rightarrow> MarginIxData Instruction" where
  "invoke_ix accounts margin_account adapter_ix data =
     margin_ix (accounts @ map (unsigned_for margin_account) (ix_accounts adapter_ix)) data"

definition adapter_invoke_ix :: "Sdk \<Rightarrow> Pubkey \<Rightarrow> Pubkey \<Rightarrow> Pubkey \<Rightarrow> nat list Instruction \<Rightarrow> MarginIxData Instruction" where
  "adapter_invoke_ix sdk airspace owner margin_account adapter_ix =
     invoke_ix
       [meta_signer owner, meta_mut margin_account, meta_ro (ix_program adapter_ix),
        meta_ro (derive_adapter_config sdk airspace (ix_program adapter_ix))]
       margin_account adapter_ix (AdapterInvokeData (ix_data adapter_ix))"

definition liquidator_invoke_ix ::
  "Sdk \<Rightarrow> Pubkey \<Rightarrow> Pubkey \<Rightarrow> Pubkey \<Rightarrow> nat list Instruction \<Rightarrow> MarginIxData Instruction" where
  "liquidator_invoke_ix sdk airspace liquidator margin_account adapter_ix =
     invoke_ix
       [meta_signer liquidator, meta_mut (derive_liquidation sdk margin_account liquidator), meta_mut margin_account,
        meta_ro (ix_program adapter_ix), meta_ro (derive_adapter_config sdk airspace (ix_program adapter_ix))]
       margin_account adapter_ix (LiquidatorInvokeData (ix_data adapter_ix))"

definition accounting_invoke_ix :: "Sdk \<Rightarrow> Pubkey \<Rightarrow> Pubkey \<Rightarrow> nat list Instruction \<Rightarrow> MarginIxData Instruction" where
  "accounting_invoke_ix sdk airspace margin_account adapter_ix =
     invoke_ix
       [meta_mut margin_account, meta_ro (ix_program adapter_ix),
        meta_ro (derive_adapter_config sdk airspace (ix_program adapter_ix))]
       margin_account adapter_ix (AccountingInvokeData (ix_data adapter_ix))"

subsection \<open>Instructions that need no builder\<close>

definition update_position_balance_ix :: "Pubkey \<Rightarrow> Pubkey \<Rightarrow> MarginIxData Instruction" where
  "update_position_balance_ix margin_account token_account =
     margin_ix [meta_mut margin_account, meta_ro token_account] UpdatePositionBalanceData"

definition create_deposit_position_ix ::
  "Sdk \<Rightarrow> Pubkey \<Rightarrow> Pubkey \<Rightarrow> Pubkey \<Rightarrow> Pubkey \<Rightarrow> Pubkey \<Rightarrow> MarginIxData Instruction" where
  "create_deposit_position_ix sdk margin_account airspace authority payer mint =
     margin_ix
       [meta_signer authority, meta_payer payer, meta_mut margin_account, meta_ro mint,
        meta_ro (derive_token_config sdk airspace mint), meta_ro (sdk_associated sdk margin_account mint),
        meta_ro (sdk_associated_program sdk), meta_ro (sdk_token_program sdk), meta_ro (sdk_rent sdk),
        meta_ro (sdk_system_program sdk)]
       CreateDepositPositionData"

definition liquidate_begin_ix :: "Sdk \<Rightarrow> Pubkey \<Rightarrow> Pubkey \<Rightarrow> Pubkey \<Rightarrow> Pubkey \<Rightarrow> MarginIxData Instruction" where
  "liquidate_begin_ix sdk airspace margin_account liquidator payer =
     margin_ix
       [meta_mut margin_account, meta_payer payer, meta_signer liquidator,
        meta_ro (derive_margin_permit sdk airspace liquidator), meta_mut (derive_liquidation sdk margin_account liquidator),
        meta_ro (sdk_system_program sdk)]
       LiquidateBeginData"

definition liquidate_end_ix :: "Sdk \<Rightarrow> Pubkey \<Rightarrow> Pubkey \<Rightarrow> Pubkey \<Rightarrow> MarginIxData Instruction" where
  "liquidate_end_ix sdk margin_account original_liquidator authority =
     margin_ix
       [meta_payer authority, meta_mut margin_account, meta_mut (derive_liquidation sdk margin_account original_liquidator)]
       LiquidateEndData"

definition refresh_deposit_position_ix ::
  "Sdk \<Rightarrow> Pubkey \<Rightarrow> Pubkey \<Rightarrow> Pubkey \<Rightarrow> Pubkey \<Rightarrow> bool \<Rightarrow> MarginIxData Instruction" where
  "refresh_deposit_position_ix sdk airspace margin_account mint price_oracle refresh_balance =
     margin_ix
       ([meta_mut margin_account, meta_ro (derive_token_config sdk airspace mint), meta_ro price_oracle] @
        (if refresh_balance then [meta_ro (sdk_associated sdk margin_account mint)] else []))
       RefreshDepositPositionData"

subsection \<open>The builder for an account\<close>

record MarginIxBuilder =
  mi_owner :: Pubkey
  mi_seed :: nat
  mi_address :: Pubkey
  mi_airspace :: Pubkey
  mi_payer_option :: "Pubkey option"
  mi_authority_option :: "Pubkey option"

definition margin_builder_new :: "Sdk \<Rightarrow> Pubkey \<Rightarrow> Pubkey \<Rightarrow> nat \<Rightarrow> MarginIxBuilder" where
  "margin_builder_new sdk airspace owner seed =
     \<lparr>mi_owner = owner, mi_seed = seed, mi_address = derive sdk JET_MARGIN [SeedKey owner, SeedInt seed],
      mi_airspace = airspace, mi_payer_option = None, mi_authority_option = None\<rparr>"

definition margin_builder_new_for_address :: "Pubkey \<Rightarrow> Pubkey \<Rightarrow> Pubkey \<Rightarrow> MarginIxBuilder" where
  "margin_builder_new_for_address airspace address payer =
     \<lparr>mi_owner = payer, mi_seed = 0, mi_address = address, mi_airspace = airspace, mi_payer_option = Some payer,
      mi_authority_option = None\<rparr>"

definition with_authority :: "Pubkey \<Rightarrow> MarginIxBuilder \<Rightarrow> MarginIxBuilder" where
  "with_authority authority b = b\<lparr>mi_authority_option := Some authority\<rparr>"

definition with_payer :: "Pubkey \<Rightarrow> MarginIxBuilder \<Rightarrow> MarginIxBuilder" where
  "with_payer payer b = b\<lparr>mi_payer_option := Some payer\<rparr>"

definition mi_authority :: "MarginIxBuilder \<Rightarrow> Pubkey" where
  "mi_authority b = (case mi_authority_option b of Some k \<Rightarrow> k | None \<Rightarrow> mi_owner b)"

definition mi_payer :: "MarginIxBuilder \<Rightarrow> Pubkey" where
  "mi_payer b = (case mi_payer_option b of Some k \<Rightarrow> k | None \<Rightarrow> mi_authority b)"

definition mi_needs_signature :: "MarginIxBuilder \<Rightarrow> 'd Instruction \<Rightarrow> bool" where
  "mi_needs_signature b inner = list_ex (\<lambda>m. am_is_signer m \<and> mi_address b = am_pubkey m) (ix_accounts inner)"

definition mi_registry_address :: "Sdk \<Rightarrow> MarginIxBuilder \<Rightarrow> Pubkey" where
  "mi_registry_address sdk b = derive sdk ADDRESS_LOOKUP_REGISTRY_ID [SeedKey (mi_address b)]"

definition mi_create_account :: "Sdk \<Rightarrow> MarginIxBuilder \<Rightarrow> MarginIxData Instruction" where
  "mi_create_account sdk b =
     margin_ix
       [meta_signer (mi_owner b), meta_ro (derive_permit sdk (mi_airspace b) (mi_owner b)), meta_payer (mi_payer b),
        meta_mut (mi_address b), meta_ro (sdk_system_program sdk)]
       (CreateAccountData (mi_seed b))"

definition mi_close_account :: "MarginIxBuilder \<Rightarrow> MarginIxData Instruction" where
  "mi_close_account b =
     margin_ix [meta_signer (mi_owner b), meta_mut (mi_payer b), meta_mut (mi_address b)] CloseAccountData"

definition mi_init_lookup_registry :: "Sdk \<Rightarrow> MarginIxBuilder \<Rightarrow> MarginIxData Instruction" where
  "mi_init_lookup_registry sdk b =
     margin_ix
       [meta_signer (mi_authority b), meta_payer (mi_payer b), meta_ro (mi_address b),
        meta_mut (mi_registry_address sdk b), meta_ro ADDRESS_LOOKUP_REGISTRY_ID, meta_ro (sdk_system_program sdk)]
       InitLookupRegistryData"

text \<open>The accounts of the two instructions on a lookup table.\<close>

definition mi_lookup_metas :: "Sdk \<Rightarrow> MarginIxBuilder \<Rightarrow> Pubkey \<Rightarrow> AccountMeta list" where
  "mi_lookup_metas sdk b lookup_table =
     [meta_signer (mi_authority b), meta_payer (mi_payer b), meta_ro (mi_address b), meta_mut (mi_registry_address sdk b),
      meta_mut lookup_table, meta_ro (sdk_lookup_program sdk), meta_ro ADDRESS_LOOKUP_REGISTRY_ID,
      meta_ro (sdk_system_program sdk)]"

definition mi_create_lookup_table :: "Sdk \<Rightarrow> MarginIxBuilder \<Rightarrow> nat \<Rightarrow> MarginIxData Instruction \<times> Pubkey" where
  "mi_create_lookup_table sdk b slot =
     (let lookup_table = sdk_lookup_table sdk (mi_address b) slot in
      (margin_ix (mi_lookup_metas sdk b lookup_table) (CreateLookupTableData slot 10), lookup_table))"

text \<open>The addresses pass through a hash set, which loses duplicates and the order.\<close>

definition mi_append_to_lookup_table ::
  "Sdk \<Rightarrow> (Pubkey set \<Rightarrow> Pubkey list) \<Rightarrow> MarginIxBuilder \<Rightarrow> Pubkey \<Rightarrow> Pubkey list \<Rightarrow> MarginIxData Instruction" where
  "mi_append_to_lookup_table sdk in_order b lookup_table addresses =
     margin_ix (mi_lookup_metas sdk b lookup_table) (AppendToLookupData 10 (in_order (set addresses)))"

definition mi_update_position_balance :: "MarginIxBuilder \<Rightarrow> Pubkey \<Rightarrow> MarginIxData Instruction" where
  "mi_update_position_balance b account = update_position_balance_ix (mi_address b) account"

definition mi_register_position :: "Sdk \<Rightarrow> MarginIxBuilder \<Rightarrow> Pubkey \<Rightarrow> MarginIxData Instruction" where
  "mi_register_position sdk b mint =
     margin_ix
       [meta_signer (mi_authority b), meta_payer (mi_payer b), meta_mut (mi_address b), meta_ro mint,
        meta_ro (derive_token_config sdk (mi_airspace b) mint),
        meta_mut (derive_position_token_account sdk (mi_address b) mint), meta_ro (sdk_token_program sdk),
        meta_ro (sdk_rent sdk), meta_ro (sdk_system_program sdk)]
       RegisterPositionData"

definition mi_close_position :: "Sdk \<Rightarrow> MarginIxBuilder \<Rightarrow> Pubkey \<Rightarrow> Pubkey \<Rightarrow> MarginIxData Instruction" where
  "mi_close_position sdk b mint token_account =
     margin_ix
       [meta_signer (mi_authority b), meta_mut (mi_payer b), meta_mut (mi_address b), meta_ro mint,
        meta_mut token_account, meta_ro (sdk_token_program sdk)]
       ClosePositionData"

definition mi_refresh_position_config :: "Sdk \<Rightarrow> MarginIxBuilder \<Rightarrow> Pubkey \<Rightarrow> MarginIxData Instruction" where
  "mi_refresh_position_config sdk b mint =
     margin_ix
       [meta_mut (mi_address b), meta_ro (derive_token_config sdk (mi_airspace b) mint),
        meta_ro (derive_margin_permit sdk (mi_airspace b) (mi_authority b)), meta_signer (mi_authority b)]
       RefreshPositionConfigData"

definition mi_refresh_deposit_position :: "Sdk \<Rightarrow> MarginIxBuilder \<Rightarrow> Pubkey \<Rightarrow> Pubkey \<Rightarrow> bool \<Rightarrow> MarginIxData Instruction" where
  "mi_refresh_deposit_position sdk b mint price_oracle refresh_balance =
     refresh_deposit_position_ix sdk (mi_airspace b) (mi_address b) mint price_oracle refresh_balance"

definition mi_adapter_invoke :: "Sdk \<Rightarrow> MarginIxBuilder \<Rightarrow> nat list Instruction \<Rightarrow> MarginIxData Instruction" where
  "mi_adapter_invoke sdk b adapter_ix = adapter_invoke_ix sdk (mi_airspace b) (mi_owner b) (mi_address b) adapter_ix"

definition mi_accounting_invoke :: "Sdk \<Rightarrow> MarginIxBuilder \<Rightarrow> nat list Instruction \<Rightarrow> MarginIxData Instruction" where
  "mi_accounting_invoke sdk b adapter_ix = accounting_invoke_ix sdk (mi_airspace b) (mi_address b) adapter_ix"

definition mi_liquidate_begin :: "Sdk \<Rightarrow> MarginIxBuilder \<Rightarrow> MarginIxData Instruction" where
  "mi_liquidate_begin sdk b = liquidate_begin_ix sdk (mi_airspace b) (mi_address b) (mi_authority b) (mi_payer b)"

definition mi_liquidator_invoke :: "Sdk \<Rightarrow> MarginIxBuilder \<Rightarrow> nat list Instruction \<Rightarrow> MarginIxData Instruction" where
  "mi_liquidator_invoke sdk b adapter_ix =
     liquidator_invoke_ix sdk (mi_airspace b) (mi_authority b) (mi_address b) adapter_ix"

definition mi_liquidate_end :: "Sdk \<Rightarrow> MarginIxBuilder \<Rightarrow> Pubkey option \<Rightarrow> MarginIxData Instruction" where
  "mi_liquidate_end sdk b original_liquidator =
     liquidate_end_ix sdk (mi_address b)
       (case original_liquidator of Some k \<Rightarrow> k | None \<Rightarrow> mi_authority b) (mi_authority b)"

definition mi_create_deposit_position :: "Sdk \<Rightarrow> MarginIxBuilder \<Rightarrow> Pubkey \<Rightarrow> MarginIxData Instruction" where
  "mi_create_deposit_position sdk b mint =
     create_deposit_position_ix sdk (mi_address b) (mi_airspace b) (mi_authority b) (mi_payer b) mint"

definition mi_transfer_deposit ::
  "Sdk \<Rightarrow> MarginIxBuilder \<Rightarrow> Pubkey \<Rightarrow> Pubkey \<Rightarrow> Pubkey \<Rightarrow> nat \<Rightarrow> MarginIxData Instruction" where
  "mi_transfer_deposit sdk b source_owner source destination amount =
     margin_ix
       [meta_signer (mi_owner b), meta_mut (mi_address b), meta_ro source_owner, meta_mut source, meta_mut destination,
        meta_ro (sdk_token_program sdk)]
       (TransferDepositData amount)"

definition mi_verify_healthy :: "MarginIxBuilder \<Rightarrow> MarginIxData Instruction" where
  "mi_verify_healthy b = margin_ix [meta_ro (mi_address b)] VerifyHealthyData"

definition mi_verify_unhealthy :: "MarginIxBuilder \<Rightarrow> MarginIxData Instruction" where
  "mi_verify_unhealthy b = margin_ix [meta_ro (mi_address b)] VerifyUnhealthyData"

definition mi_admin_transfer_position_to ::
  "Sdk \<Rightarrow> MarginIxBuilder \<Rightarrow> Pubkey \<Rightarrow> Pubkey \<Rightarrow> nat \<Rightarrow> MarginIxData Instruction" where
  "mi_admin_transfer_position_to sdk b target mint amount =
     margin_ix
       [meta_signer GOVERNOR_ID, meta_mut target, meta_mut (mi_address b),
        meta_mut (derive_position_token_account sdk (mi_address b) mint),
        meta_mut (derive_position_token_account sdk target mint), meta_ro (sdk_token_program sdk)]
       (AdminTransferPositionData amount)"

definition mi_configure_account_airspace :: "MarginIxBuilder \<Rightarrow> MarginIxData Instruction" where
  "mi_configure_account_airspace b = margin_ix [meta_mut (mi_address b)] ConfigureAccountAirspaceData"

subsection \<open>The builder for an airspace\<close>

record MarginConfigIxBuilder =
  mc_airspace :: Pubkey
  mc_authority :: Pubkey
  mc_payer :: Pubkey

definition config_builder_new :: "Pubkey \<Rightarrow> Pubkey \<Rightarrow> Pubkey option \<Rightarrow> MarginConfigIxBuilder" where
  "config_builder_new airspace payer authority =
     \<lparr>mc_airspace = airspace, mc_authority = (case authority of Some k \<Rightarrow> k | None \<Rightarrow> payer), mc_payer = payer\<rparr>"

definition mc_with_authority :: "Pubkey \<Rightarrow> MarginConfigIxBuilder \<Rightarrow> MarginConfigIxBuilder" where
  "mc_with_authority authority b = b\<lparr>mc_authority := authority\<rparr>"

text \<open>What the configuration instructions have in common: their subject and the account they write.\<close>

definition mc_metas :: "Sdk \<Rightarrow> MarginConfigIxBuilder \<Rightarrow> Pubkey \<Rightarrow> Pubkey \<Rightarrow> AccountMeta list" where
  "mc_metas sdk b subject account =
     [meta_signer (mc_authority b), meta_ro (mc_airspace b), meta_payer (mc_payer b), meta_ro subject,
      meta_mut account, meta_ro (sdk_system_program sdk)]"

definition mc_configure_token ::
  "Sdk \<Rightarrow> MarginConfigIxBuilder \<Rightarrow> Pubkey \<Rightarrow> TokenConfigUpdate option \<Rightarrow> MarginIxData Instruction" where
  "mc_configure_token sdk b mint new_config =
     margin_ix (mc_metas sdk b mint (derive_token_config sdk (mc_airspace b) mint)) (ConfigureTokenData new_config)"

definition mc_configure_adapter :: "Sdk \<Rightarrow> MarginConfigIxBuilder \<Rightarrow> Pubkey \<Rightarrow> bool \<Rightarrow> MarginIxData Instruction" where
  "mc_configure_adapter sdk b program_id is_adapter =
     margin_ix (mc_metas sdk b program_id (derive_adapter_config sdk (mc_airspace b) program_id))
       (ConfigureAdapterData is_adapter)"

definition mc_configure_liquidator :: "Sdk \<Rightarrow> MarginConfigIxBuilder \<Rightarrow> Pubkey \<Rightarrow> bool \<Rightarrow> MarginIxData Instruction" where
  "mc_configure_liquidator sdk b liquidator is_liquidator =
     margin_ix (mc_metas sdk b liquidator (derive_margin_permit sdk (mc_airspace b) liquidator))
       (ConfigureLiquidatorData is_liquidator)"

definition mc_configure_position_config_refresher ::
  "Sdk \<Rightarrow> MarginConfigIxBuilder \<Rightarrow> Pubkey \<Rightarrow> bool \<Rightarrow> MarginIxData Instruction" where
  "mc_configure_position_config_refresher sdk b refresher may_refresh =
     margin_ix (mc_metas sdk b refresher (derive_margin_permit sdk (mc_airspace b) refresher))
       (ConfigurePositionConfigRefresherData may_refresh)"

subsection \<open>What the built instructions do\<close>

text \<open>The addresses that the program requires are the ones that the builder derives.\<close>

lemma margin_addresses:
  assumes "runs_as sdk JET_MARGIN rt"
  shows "pda rt [SeedKey k, SeedKey m] = derive_position_token_account sdk k m"
    "pda rt [SeedKey owner, SeedInt seed] = derive sdk JET_MARGIN [SeedKey owner, SeedInt seed]"
    "pda rt [SeedBytes ''liquidation'', SeedKey k, SeedKey liq] = derive_liquidation sdk k liq"
    "pda rt [SeedBytes ''token-config'', SeedKey air, SeedKey m] = derive_token_config sdk air m"
    "pda rt [SeedBytes ''adapter-config'', SeedKey air, SeedKey m] = derive_adapter_config sdk air m"
    "pda rt [SeedBytes ''permit'', SeedKey air, SeedKey m] = derive_margin_permit sdk air m"
  by (simp_all add: derive_position_token_account_def derive_liquidation_def derive_token_config_def
      derive_adapter_config_def derive_margin_permit_def pda_eq_derive [OF assms])

lemmas margin_process_simps =
  margin_process_def margin_ix_def metas check_program_def require_signer_def margin_put_defs

lemma margin_builder_new_simps [simp]:
  "mi_owner (margin_builder_new sdk air owner seed) = owner" "mi_seed (margin_builder_new sdk air owner seed) = seed"
  "mi_airspace (margin_builder_new sdk air owner seed) = air" "mi_authority (margin_builder_new sdk air owner seed) = owner"
  "mi_payer (margin_builder_new sdk air owner seed) = owner"
  "mi_address (margin_builder_new sdk air owner seed) = derive sdk JET_MARGIN [SeedKey owner, SeedInt seed]"
  by (simp_all add: margin_builder_new_def mi_authority_def mi_payer_def)

definition margin_run ::
  "Sdk \<Rightarrow> ('l, 'r) MarginEnv \<Rightarrow> 'l Runtime \<Rightarrow> MarginIxData Instruction list \<Rightarrow> ('l, 'r) MarginProgram \<Rightarrow>
     ('l, 'r) MarginProgram margin_tx" where
  "margin_run sdk env rt = foldE (margin_process sdk env rt)"

lemma no_positions_when_empty:
  assumes "wf_account a" "account_view a = Map.empty"
  shows "account_positions a = []"
proof -
  let ?l = "ma_positions a"
  have "used_keys ?l = []"
  proof (rule ccontr)
    assume "used_keys ?l \<noteq> []"
    then obtain k where k: "k \<in> set (used_keys ?l)" by (cases "used_keys ?l") auto
    then obtain k' where "find (\<lambda>x. key_mint x = key_mint k) (used_keys ?l) = Some k'"
      by (cases "find (\<lambda>x. key_mint x = key_mint k) (used_keys ?l)") (auto simp: find_None_iff)
    then have "account_view a (key_mint k) \<noteq> None" by (simp add: plist_abs_def)
    with assms(2) show False by simp
  qed
  with assms(1) have "\<forall>j < 32. pl_positions ?l ! j = zeroed_position" "length (pl_positions ?l) = 32"
    unfolding wf_plist_def by auto
  then show ?thesis
    by (auto simp: account_positions_def filter_empty_conv in_set_conv_nth pubkey_default_def zeroed_position_def)
qed

lemma register_position_writes:
  "register_position c approvals a = Inr (a', k) \<Longrightarrow> a' = a\<lparr>ma_positions := ma_positions a'\<rparr>"
  by (auto simp: register_position_def Let_def split: if_split_asm option.split_asm)

lemma unregister_position_writes:
  "unregister_position m k approvals a = Inr a' \<Longrightarrow> a' = a\<lparr>ma_positions := ma_positions a'\<rparr>"
  by (auto simp: unregister_position_def split: if_split_asm prod.split_asm)

text \<open>A collateral position in a new account, opened and closed again.\<close>

lemma open_and_close_position:
  assumes "wf_account a" "account_view a = Map.empty" "pl_length (ma_positions a) = 0" "\<not> is_liquidating a"
    and "ma_airspace a = pcu_airspace c" "pcu_mint c \<noteq> 0" "pcu_kind c = Collateral"
  obtains a' k a'' xs ys where "register_position c [MarginAccountAuthority] a = Inr (a', k)"
    "unregister_position (pcu_mint c) (pcu_address c) [MarginAccountAuthority] a' = Inr a''"
    "a' = a\<lparr>ma_positions := xs\<rparr>" "a'' = a\<lparr>ma_positions := ys\<rparr>" "account_positions a'' = []"
proof -
  let ?p = "fill_position c (zeroed_position\<lparr>pos_token := pcu_mint c\<rparr>)"
  have ok: "may_be_registered_or_closed ?p [MarginAccountAuthority]"
    using assms(7) by (simp add: may_be_registered_or_closed_def position_kind_def fill_position_def tokenkind_from_integer_def)
  obtain a' k where r: "register_position c [MarginAccountAuthority] a = Inr (a', k)" "wf_account a'"
    "account_view a' = [pcu_mint c \<mapsto> ?p]"
    using register_position_result [OF assms(1,6), of "[MarginAccountAuthority]"] assms(2-5) ok by auto
  have p: "pos_address ?p = pcu_address c" "pos_balance ?p = 0" "\<not> has_flag (pos_flags ?p) FLAG_REQUIRED"
    by (simp_all add: fill_position_def zeroed_position_def has_flag_def FLAG_REQUIRED_def)
  obtain a'' where u: "unregister_position (pcu_mint c) (pcu_address c) [MarginAccountAuthority] a' = Inr a''"
    "wf_account a''" "account_view a'' = Map.empty"
    using unregister_position_cases [OF r(2), of "pcu_mint c" "pcu_address c" "[MarginAccountAuthority]"] r(3) ok p
    by auto
  from register_position_writes [OF r(1)] obtain xs where xs: "a' = a\<lparr>ma_positions := xs\<rparr>" by blast
  from unregister_position_writes [OF u(1)] obtain ys where "a'' = a'\<lparr>ma_positions := ys\<rparr>" by blast
  with xs have "a'' = a\<lparr>ma_positions := ys\<rparr>" by simp
  from that [OF r(1) u(1) xs this no_positions_when_empty [OF u(2,3)]] show ?thesis .
qed

text \<open>A new account, in which a position of its owner is opened and closed again.\<close>

lemma new_account:
  fixes airspace owner seed bump
  defines "a \<equiv> account_initialize airspace owner seed bump zeroed_account"
  shows "wf_account a" "account_view a = Map.empty" "pl_length (ma_positions a) = 0" "\<not> is_liquidating a"
    "ma_airspace a = airspace" "ma_owner a = owner" "ma_user_seed a = seed" "ma_bump_seed a = bump"
    "verify_authority owner a = Inr ()" "account_signer a = [SeedKey owner, SeedInt seed, SeedInt bump]"
  using wf_empty_plist plist_abs_empty
  by (simp_all add: a_def account_initialize_def zeroed_account_def is_liquidating_def verify_authority_def
      account_signer_def)
    (simp add: empty_plist_def)

lemma account_with_positions:
  assumes "a' = a\<lparr>ma_positions := xs\<rparr>"
  shows "verify_authority k a' = verify_authority k a" "ma_owner a' = ma_owner a" "account_signer a' = account_signer a"
  by (simp_all add: assms verify_authority_def is_liquidating_def account_signer_def)

text \<open>
  C21: The four instructions that the builder makes to create a margin account, register a position in it,
  close the position and close the account lead back to where they started: for an owner with a permit for
  the airspace, a token configured there as collateral of an adapter and a token program that creates and
  closes the token account, all four succeed, and afterwards nothing is left but the two events.
\<close>

theorem account_round_trip:
  assumes "runs_as sdk JET_MARGIN rt" "spl_token rt" and b: "b = margin_builder_new sdk airspace owner seed"
    and "mg_accounts s (mi_address b) = None"
    and "st_permits (mg_airspace s) (derive_permit sdk airspace owner) = Some p" "ap_owner p = owner"
    and "ap_airspace p = airspace"
    and "mg_token_configs s (derive_token_config sdk airspace mint) = Some c" "tc_airspace c = airspace"
    and "tc_mint c = mint" "mint \<noteq> 0" "tc_token_kind c = Collateral" "adapter_program c = Some adapter"
    and "rt_mint rt (mg_ledger s) mint = Some m" "k = derive_position_token_account sdk (mi_address b) mint"
    and "rt_create rt k \<lparr>ta_mint = mint, ta_owner = mi_address b, ta_delegate = None, ta_amount = 0\<rparr> (mg_ledger s) = Some l"
    and "rt_invoke rt [rt_signer_address rt [SeedKey owner, SeedInt seed,
            SeedInt (snd (sdk_find_address sdk JET_MARGIN [SeedKey owner, SeedInt seed]))], owner]
          (TokenClose k owner (mi_address b)) l = Some l'"
  shows "margin_run sdk env rt
      [mi_create_account sdk b, mi_register_position sdk b mint, mi_close_position sdk b mint k, mi_close_account b] s =
    Inr (s\<lparr>mg_ledger := l', mg_events := mg_events s @
             [AccountCreated (mi_address b) owner airspace seed, AccountClosed (mi_address b)]\<rparr>) \<and>
    rt_account rt l' = rt_account rt (mg_ledger s) \<and> rt_mint rt l' = rt_mint rt (mg_ledger s)"
proof -
  let ?k = "derive sdk JET_MARGIN [SeedKey owner, SeedInt seed]" and ?find = "sdk_find_address sdk JET_MARGIN"
  let ?bump = "snd (?find [SeedKey owner, SeedInt seed])"
  let ?a = "account_initialize airspace owner seed ?bump zeroed_account"
  let ?c = "new_from_config c (mint_decimals m) k adapter"
  note tk = token_program.spl_create [OF token_program.intro [OF assms(2)] assms(16)]
  obtain closed: "rt_mint rt l' = rt_mint rt l" "rt_account rt l' = (rt_account rt l)(k := None)"
    by (rule token_program.spl_close [OF token_program.intro [OF assms(2)] assms(17)])
  with tk have restored: "rt_account rt l' = rt_account rt (mg_ledger s)" "rt_mint rt l' = rt_mint rt (mg_ledger s)"
    by (simp_all add: fun_upd_idem)
  have find: "rt_find_address rt = ?find" using assms(1) by (simp add: runs_as_def)
  note a = new_account [where airspace = airspace and owner = owner and seed = seed and bump = ?bump]
  have cfg: "pcu_airspace ?c = airspace" "pcu_mint ?c = mint" "pcu_kind ?c = Collateral" "pcu_address ?c = k"
    using assms(9,10,12) by (simp_all add: new_from_config_def)
  obtain a' i a'' xs ys where reg: "register_position ?c [MarginAccountAuthority] ?a = Inr (a', i)"
    and unreg: "unregister_position mint k [MarginAccountAuthority] a' = Inr a''"
    and xs: "a' = ?a\<lparr>ma_positions := xs\<rparr>" and ys: "a'' = ?a\<lparr>ma_positions := ys\<rparr>"
    and none: "account_positions a'' = []"
    using open_and_close_position [OF a(1-4), of ?c] a(5) cfg assms(11) by metis
  have a': "verify_authority owner a' = Inr ()" "ma_owner a'' = owner"
    "account_signer a'' = [SeedKey owner, SeedInt seed, SeedInt ?bump]"
    by (simp_all add: account_with_positions [OF xs] account_with_positions [OF ys] a)
  have b_simps: "mi_address b = ?k" "mi_owner b = owner" "mi_authority b = owner" "mi_payer b = owner" "mi_seed b = seed"
    "mi_airspace b = airspace" by (simp_all add: b)
  let ?e1 = "AccountCreated ?k owner airspace seed"
  have "margin_process sdk env rt (mi_create_account sdk b) s = Inr (emit [?e1] (put_account ?k ?a s))"
    using assms(4-7)
    by (simp add: mi_create_account_def b_simps margin_process_simps create_account_handler_def find pda_eq_derive [OF assms(1)])
  moreover have "margin_process sdk env rt (mi_register_position sdk b mint) (emit [?e1] (put_account ?k ?a s)) =
      Inr (put_ledger l (put_account ?k a' (emit [?e1] (put_account ?k ?a s))))"
    using assms(8-16) reg
    by (simp add: a mi_register_position_def b_simps margin_process_simps register_position_handler_def load_mint_def
        margin_addresses [OF assms(1)] create_token_account_def)
  moreover have "margin_process sdk env rt (mi_close_position sdk b mint k) (put_ledger l (put_account ?k a' (emit [?e1] (put_account ?k ?a s)))) =
      Inr (put_ledger l' (put_account ?k a'' (emit [?e1] s)))"
    using assms(11,14,17) unreg a' tk(1,3)
    by (simp add: mi_close_position_def b_simps margin_process_simps close_position_handler_def load_mint_def
        load_token_account_def token_cpi_signed_def)
  moreover have "margin_process sdk env rt (mi_close_account b) (put_ledger l' (put_account ?k a'' (emit [?e1] s))) =
     Inr (s\<lparr>mg_ledger := l', mg_events := mg_events s @ [?e1, AccountClosed ?k]\<rparr>)"
    using assms(4) none a'
    by (simp add: mi_close_account_def b_simps margin_process_simps close_account_handler_def fun_upd_idem)
  ultimately show ?thesis using restored by (simp add: margin_run_def b_simps)
qed

fun margin_pda :: "Seed list \<Rightarrow> Pubkey" where
  "margin_pda [SeedKey a, SeedInt n] = 100"
| "margin_pda [SeedKey a, SeedInt n, SeedInt b] = 100"
| "margin_pda [SeedKey a, SeedKey m] = 103"
| "margin_pda [SeedBytes b, SeedKey a, SeedKey k] = 1000 + length b"
| "margin_pda _ = 0"

definition sample_margin_program :: "(Ledger, unit) MarginProgram" where
  "sample_margin_program =
     \<lparr>mg_accounts = Map.empty, mg_liquidations = Map.empty, mg_permits = Map.empty,
      mg_token_configs = [1012 \<mapsto> \<lparr>tc_mint = 9, tc_underlying_mint = 8, tc_airspace = 50, tc_token_kind = Collateral,
         tc_value_modifier = 100, tc_max_staleness = 0, tc_admin = AdminAdapter 60\<rparr>],
      mg_adapter_configs = Map.empty,
      mg_airspace = \<lparr>st_airspaces = Map.empty, st_issuers = Map.empty,
         st_permits = [1015 \<mapsto> \<lparr>ap_airspace = 50, ap_owner = 7, ap_issuer = 50\<rparr>], st_governor = None\<rparr>,
      mg_ledger = \<lparr>lg_accounts = Map.empty,
         lg_mints = [9 \<mapsto> \<lparr>mint_supply = 0, mint_authority = None, mint_decimals = 6\<rparr>]\<rparr>,
      mg_registry = (), mg_events = []\<rparr>"

theorem account_round_trip_witness:
  "let sdk = sample_sdk margin_pda; b = margin_builder_new sdk 50 7 0 in
   \<forall>env. \<exists>s'. margin_run sdk env (ledger_runtime margin_pda [] 0)
     [mi_create_account sdk b, mi_register_position sdk b 9, mi_close_position sdk b 9 103, mi_close_account b]
     sample_margin_program = Inr s' \<and> mg_accounts s' = Map.empty \<and> lg_accounts (mg_ledger s') = Map.empty"
proof -
  let ?sdk = "sample_sdk margin_pda"
  let ?l = "(mg_ledger sample_margin_program)\<lparr>lg_accounts :=
      [103 \<mapsto> \<lparr>ta_mint = 9, ta_owner = 100, ta_delegate = None, ta_amount = 0\<rparr>]\<rparr>"
  note derives = derive_permit_def derive_token_config_def derive_position_token_account_def
  show ?thesis unfolding Let_def
  proof
    fix env
    show "\<exists>s'. margin_run ?sdk env (ledger_runtime margin_pda [] 0)
       [mi_create_account ?sdk (margin_builder_new ?sdk 50 7 0), mi_register_position ?sdk (margin_builder_new ?sdk 50 7 0) 9,
        mi_close_position ?sdk (margin_builder_new ?sdk 50 7 0) 9 103, mi_close_account (margin_builder_new ?sdk 50 7 0)]
       sample_margin_program = Inr s' \<and> mg_accounts s' = Map.empty \<and> lg_accounts (mg_ledger s') = Map.empty"
    using account_round_trip [of ?sdk "ledger_runtime margin_pda [] 0" "margin_builder_new ?sdk 50 7 0" 50 7 0
        sample_margin_program "\<lparr>ap_airspace = 50, ap_owner = 7, ap_issuer = 50\<rparr>" 9
        "\<lparr>tc_mint = 9, tc_underlying_mint = 8, tc_airspace = 50, tc_token_kind = Collateral,
          tc_value_modifier = 100, tc_max_staleness = 0, tc_admin = AdminAdapter 60\<rparr>" 60
        "\<lparr>mint_supply = 0, mint_authority = None, mint_decimals = 6\<rparr>" 103 ?l "?l\<lparr>lg_accounts := Map.empty\<rparr>" env]
      ledger_runtime_spl [of margin_pda "[]" 0]
    by (simp add: sample_margin_program_def derives adapter_program_def ledger_create_def sample_sdk_def [of margin_pda]
        derive_def runs_as_def)
  qed
qed

end
