(* ===== verification/FixedTermBuilder.thy ===== *)
theory FixedTermBuilder
  imports FixedTermAddresses FixedTermSample MarginBuilder
begin

text \<open>
  The builders of fixed-term instructions, \<open>instructions/src/fixed_term\<close>: the derivation of addresses (\<open>derive.rs\<close>),
  a constructor \<open>ix_*\<close> for each instruction (\<open>ix\<close>) and \<open>FixedTermIxBuilder\<close>, which holds the addresses of one market
  and delegates to them (\<open>builder.rs\<close>, \<open>fb_*\<close>).
\<close>

subsection \<open>Addresses\<close>

definition fixed_term_address :: "Sdk \<Rightarrow> Seed list \<Rightarrow> Pubkey" where
  "fixed_term_address sdk seeds = derive sdk JET_FIXED_TERM seeds"

definition derive_market :: "Sdk \<Rightarrow> Pubkey \<Rightarrow> Pubkey \<Rightarrow> string \<Rightarrow> Pubkey" where
  "derive_market sdk airspace mint seed =
     fixed_term_address sdk [SeedBytes ''market'', SeedKey airspace, SeedKey mint, SeedBytes seed]"

text \<open>The eight bytes of the tenor, then zeros.\<close>

definition tenor_seed :: "nat \<Rightarrow> string" where
  "tenor_seed tenor = map char_of (le_bytes 8 tenor @ replicate 24 0)"

definition derive_market_from_tenor :: "Sdk \<Rightarrow> Pubkey \<Rightarrow> Pubkey \<Rightarrow> nat \<Rightarrow> Pubkey" where
  "derive_market_from_tenor sdk airspace mint tenor = derive_market sdk airspace mint (tenor_seed tenor)"

definition derive_ticket_mint :: "Sdk \<Rightarrow> Pubkey \<Rightarrow> Pubkey" where
  "derive_ticket_mint sdk market = fixed_term_address sdk [SeedBytes ''ticket_mint'', SeedKey market]"

definition derive_underlying_token_vault :: "Sdk \<Rightarrow> Pubkey \<Rightarrow> Pubkey" where
  "derive_underlying_token_vault sdk market =
     fixed_term_address sdk [SeedBytes ''underlying_token_vault'', SeedKey market]"

definition derive_claims_mint :: "Sdk \<Rightarrow> Pubkey \<Rightarrow> Pubkey" where
  "derive_claims_mint sdk market = fixed_term_address sdk [SeedBytes ''claim_notes'', SeedKey market]"

definition derive_ticket_collateral_mint :: "Sdk \<Rightarrow> Pubkey \<Rightarrow> Pubkey" where
  "derive_ticket_collateral_mint sdk market =
     fixed_term_address sdk [SeedBytes ''ticket_collateral_notes'', SeedKey market]"

definition derive_underlying_collateral_mint :: "Sdk \<Rightarrow> Pubkey \<Rightarrow> Pubkey" where
  "derive_underlying_collateral_mint sdk market =
     fixed_term_address sdk [SeedBytes ''underlying_collateral_notes'', SeedKey market]"

definition derive_margin_user :: "Sdk \<Rightarrow> Pubkey \<Rightarrow> Pubkey \<Rightarrow> Pubkey" where
  "derive_margin_user sdk market margin_account =
     fixed_term_address sdk [SeedBytes ''margin_user'', SeedKey market, SeedKey margin_account]"

definition derive_term_loan :: "Sdk \<Rightarrow> Pubkey \<Rightarrow> Pubkey \<Rightarrow> nat \<Rightarrow> Pubkey" where
  "derive_term_loan sdk market user debt_seqno =
     fixed_term_address sdk [SeedBytes ''term_loan'', SeedKey market, SeedKey user, SeedInt debt_seqno]"

definition derive_term_deposit :: "Sdk \<Rightarrow> Pubkey \<Rightarrow> Pubkey \<Rightarrow> nat \<Rightarrow> Pubkey" where
  "derive_term_deposit sdk market owner deposit_seqno =
     fixed_term_address sdk [SeedBytes ''term_deposit'', SeedKey market, SeedKey owner, SeedInt deposit_seqno]"

definition derive_term_loan_bytes :: "Sdk \<Rightarrow> Pubkey \<Rightarrow> Pubkey \<Rightarrow> Seed \<Rightarrow> Pubkey" where
  "derive_term_loan_bytes sdk market user seed =
     fixed_term_address sdk [SeedBytes ''term_loan'', SeedKey market, SeedKey user, seed]"

definition derive_term_deposit_bytes :: "Sdk \<Rightarrow> Pubkey \<Rightarrow> Pubkey \<Rightarrow> Seed \<Rightarrow> Pubkey" where
  "derive_term_deposit_bytes sdk market owner seed =
     fixed_term_address sdk [SeedBytes ''term_deposit'', SeedKey market, SeedKey owner, seed]"

definition derive_term_deposit_user_bytes :: "Sdk \<Rightarrow> Pubkey \<Rightarrow> Pubkey \<Rightarrow> Seed \<Rightarrow> Pubkey" where
  "derive_term_deposit_user_bytes sdk market owner seed =
     fixed_term_address sdk [SeedBytes ''term_deposit'', SeedKey market, SeedKey owner, SeedBytes ''user'', seed]"

definition derive_crank_authorization :: "Sdk \<Rightarrow> Pubkey \<Rightarrow> Pubkey \<Rightarrow> Pubkey" where
  "derive_crank_authorization sdk market crank =
     derive sdk JET_FIXED_TERM [SeedBytes ''crank_authorization'', SeedKey market, SeedKey crank]"

definition derive_user_claims :: "Sdk \<Rightarrow> Pubkey \<Rightarrow> Pubkey" where
  "derive_user_claims sdk user = fixed_term_address sdk [SeedBytes ''claim_notes'', SeedKey user]"

definition derive_user_ticket_collateral :: "Sdk \<Rightarrow> Pubkey \<Rightarrow> Pubkey" where
  "derive_user_ticket_collateral sdk user =
     fixed_term_address sdk [SeedBytes ''ticket_collateral_notes'', SeedKey user]"

definition derive_user_underlying_collateral :: "Sdk \<Rightarrow> Pubkey \<Rightarrow> Pubkey" where
  "derive_user_underlying_collateral sdk user =
     fixed_term_address sdk [SeedBytes ''underlying_collateral_notes'', SeedKey user]"

definition derive_orderbook_market_state :: "Sdk \<Rightarrow> Pubkey \<Rightarrow> Pubkey" where
  "derive_orderbook_market_state sdk market =
     fixed_term_address sdk [SeedBytes ''orderbook_market_state'', SeedKey market]"

definition derive_fee_vault :: "Sdk \<Rightarrow> Pubkey \<Rightarrow> Pubkey" where
  "derive_fee_vault sdk market = fixed_term_address sdk [SeedBytes ''fee_vault'', SeedKey market]"

lemmas derive_market_defs =
  derive_market_def derive_ticket_mint_def derive_underlying_token_vault_def derive_claims_mint_def
  derive_ticket_collateral_mint_def derive_underlying_collateral_mint_def derive_fee_vault_def
  derive_orderbook_market_state_def fixed_term_address_def

subsection \<open>Groups of addresses\<close>

record MarketAdmin =
  md_market :: Pubkey
  md_authority :: Pubkey
  md_airspace :: Pubkey

record OrderbookAddresses =
  oa_bids :: Pubkey
  oa_asks :: Pubkey
  oa_event_queue :: Pubkey

record MarginUserAddresses =
  ua_address :: Pubkey
  ua_claims :: Pubkey
  ua_ticket_collateral :: Pubkey
  ua_underlying_collateral :: Pubkey

text \<open>The accounts of \<open>OrderbookMut\<close>, which an instruction with an order holds in the middle of its own.\<close>

record OrderbookMutAccounts =
  om_market :: Pubkey
  om_orderbook_market_state :: Pubkey
  om_event_queue :: Pubkey
  om_bids :: Pubkey
  om_asks :: Pubkey

definition book_metas :: "OrderbookMutAccounts \<Rightarrow> AccountMeta list" where
  "book_metas om =
     [meta_mut (om_market om), meta_mut (om_orderbook_market_state om), meta_mut (om_event_queue om),
      meta_mut (om_bids om), meta_mut (om_asks om)]"

definition ft_ix :: "AccountMeta list \<Rightarrow> FtIxData \<Rightarrow> FtIxData Instruction" where
  "ft_ix accounts data = \<lparr>ix_program = JET_FIXED_TERM, ix_accounts = accounts, ix_data = data\<rparr>"

definition unwrap_or :: "'a option \<Rightarrow> 'a \<Rightarrow> 'a" where
  "unwrap_or x d = (case x of Some y \<Rightarrow> y | None \<Rightarrow> d)"

subsection \<open>Instructions of the market's authority\<close>

definition ix_initialize_market ::
  "Sdk \<Rightarrow> InitializeMarketParams \<Rightarrow> Pubkey \<Rightarrow> Pubkey \<Rightarrow> Pubkey \<Rightarrow> Pubkey \<Rightarrow> Pubkey \<Rightarrow> Pubkey \<Rightarrow> Pubkey \<Rightarrow>
     FtIxData Instruction" where
  "ix_initialize_market sdk p mint airspace authority underlying_oracle ticket_oracle fee_dest payer =
     (let market = derive_market sdk airspace mint (ip_seed p) in
      ft_ix
        [meta_mut market, meta_mut (derive_underlying_token_vault sdk market), meta_ro mint,
         meta_mut (derive_ticket_mint sdk market), meta_mut (derive_claims_mint sdk market),
         meta_mut (derive_ticket_collateral_mint sdk market), meta_mut (derive_underlying_collateral_mint sdk market),
         meta_signer authority, meta_ro airspace, meta_ro underlying_oracle, meta_ro ticket_oracle,
         meta_mut (derive_fee_vault sdk market), meta_ro fee_dest, meta_payer payer, meta_ro (sdk_rent sdk),
         meta_ro (sdk_token_program sdk), meta_ro (sdk_system_program sdk)]
        (InitializeMarketData p))"

definition ix_initialize_orderbook ::
  "Sdk \<Rightarrow> nat \<Rightarrow> OrderbookAddresses \<Rightarrow> MarketAdmin \<Rightarrow> Pubkey \<Rightarrow> FtIxData Instruction" where
  "ix_initialize_orderbook sdk min_base_order_size ob admin payer =
     ft_ix
       [meta_mut (md_market admin), meta_mut (derive_orderbook_market_state sdk (md_market admin)),
        meta_mut (oa_event_queue ob), meta_mut (oa_bids ob), meta_mut (oa_asks ob), meta_signer (md_authority admin),
        meta_ro (md_airspace admin), meta_payer payer, meta_ro (sdk_system_program sdk)]
       (InitializeOrderbookData min_base_order_size)"

definition ix_pause_order_matching :: "MarketAdmin \<Rightarrow> Pubkey \<Rightarrow> FtIxData Instruction" where
  "ix_pause_order_matching admin state =
     ft_ix [meta_ro (md_market admin), meta_mut state, meta_signer (md_authority admin), meta_ro (md_airspace admin)]
       PauseOrderMatchingData"

definition ix_resume_order_matching :: "Sdk \<Rightarrow> MarketAdmin \<Rightarrow> OrderbookAddresses \<Rightarrow> FtIxData Instruction" where
  "ix_resume_order_matching sdk admin ob =
     ft_ix
       [meta_ro (md_market admin), meta_mut (derive_orderbook_market_state sdk (md_market admin)),
        meta_mut (oa_event_queue ob), meta_mut (oa_bids ob), meta_mut (oa_asks ob), meta_signer (md_authority admin),
        meta_ro (md_airspace admin)]
       ResumeOrderMatchingData"

definition ix_modify_market :: "string \<Rightarrow> nat \<Rightarrow> MarketAdmin \<Rightarrow> FtIxData Instruction" where
  "ix_modify_market bytes offset admin =
     ft_ix [meta_mut (md_market admin), meta_signer (md_authority admin), meta_ro (md_airspace admin)]
       (ModifyMarketData bytes offset)"

definition TICKETS_PAUSED_OFFSET :: nat where "TICKETS_PAUSED_OFFSET = 8 + 32 * 16 + 2"

definition ix_pause_ticket_redemption :: "MarketAdmin \<Rightarrow> FtIxData Instruction" where
  "ix_pause_ticket_redemption admin = ix_modify_market [char_of (1 :: nat)] TICKETS_PAUSED_OFFSET admin"

definition ix_resume_ticket_redemption :: "MarketAdmin \<Rightarrow> FtIxData Instruction" where
  "ix_resume_ticket_redemption admin = ix_modify_market [char_of (0 :: nat)] TICKETS_PAUSED_OFFSET admin"

definition ix_authorize_crank :: "Sdk \<Rightarrow> Pubkey \<Rightarrow> MarketAdmin \<Rightarrow> Pubkey \<Rightarrow> FtIxData Instruction" where
  "ix_authorize_crank sdk crank admin payer =
     ft_ix
       [meta_ro crank, meta_mut (derive_crank_authorization sdk (md_market admin) crank), meta_ro (md_market admin),
        meta_signer (md_authority admin), meta_ro (md_airspace admin), meta_payer payer, meta_ro (sdk_system_program sdk)]
       AuthorizeCrankData"

definition ix_recover_uninitialized :: "Sdk \<Rightarrow> Pubkey \<Rightarrow> Pubkey \<Rightarrow> Pubkey \<Rightarrow> FtIxData Instruction" where
  "ix_recover_uninitialized sdk governor uninitialized recipient =
     ft_ix [meta_signer governor, meta_ro (derive_governor_id sdk), meta_mut uninitialized, meta_mut recipient]
       RecoverUninitializedData"

subsection \<open>Instructions of a crank\<close>

text \<open>\<open>events\<close> holds for each event the accounts it needs.\<close>

definition ix_consume_events ::
  "Sdk \<Rightarrow> nat list \<Rightarrow> Pubkey list list \<Rightarrow> Pubkey \<Rightarrow> Pubkey \<Rightarrow> Pubkey \<Rightarrow> Pubkey \<Rightarrow> FtIxData Instruction" where
  "ix_consume_events sdk seed events market event_queue crank payer =
     ft_ix
       ([meta_mut market, meta_mut (derive_ticket_mint sdk market), meta_mut (derive_underlying_token_vault sdk market),
         meta_mut (derive_fee_vault sdk market), meta_mut (derive_orderbook_market_state sdk market), meta_mut event_queue,
         meta_ro (derive_crank_authorization sdk market crank), meta_signer crank, meta_payer payer,
         meta_ro (sdk_system_program sdk), meta_ro (sdk_token_program sdk)] @
        map meta_mut (concat events))
       (ConsumeEventsData (length events mod 2 ^ 32) seed)"

definition ix_settle :: "Sdk \<Rightarrow> Pubkey \<Rightarrow> Pubkey \<Rightarrow> Pubkey \<Rightarrow> FtIxData Instruction" where
  "ix_settle sdk market underlying_mint margin_account =
     (let user = derive_margin_user sdk market margin_account; tickets = derive_ticket_mint sdk market in
      ft_ix
        [meta_mut user, meta_ro margin_account, meta_ro market, meta_ro (sdk_token_program sdk),
         meta_mut (derive_user_claims sdk user), meta_mut (derive_claims_mint sdk market),
         meta_mut (derive_user_ticket_collateral sdk user), meta_mut (derive_ticket_collateral_mint sdk market),
         meta_mut (derive_user_underlying_collateral sdk user), meta_mut (derive_underlying_collateral_mint sdk market),
         meta_mut (derive_underlying_token_vault sdk market), meta_mut tickets,
         meta_mut (sdk_associated sdk margin_account underlying_mint), meta_mut (sdk_associated sdk margin_account tickets)]
        SettleData)"

subsection \<open>Instructions of a user\<close>

definition ix_convert_tokens ::
  "Sdk \<Rightarrow> nat \<Rightarrow> Pubkey \<Rightarrow> Pubkey \<Rightarrow> Pubkey \<Rightarrow> Pubkey option \<Rightarrow> Pubkey option \<Rightarrow> Pubkey \<Rightarrow> FtIxData Instruction" where
  "ix_convert_tokens sdk amount airspace market owner token_source ticket_destination underlying_mint =
     (let tickets = derive_ticket_mint sdk market in
      ft_ix
        [meta_ro (derive_permit sdk airspace owner), meta_ro market, meta_mut (derive_underlying_token_vault sdk market),
         meta_mut tickets, meta_mut (unwrap_or ticket_destination (sdk_associated sdk owner tickets)),
         meta_mut (unwrap_or token_source (sdk_associated sdk owner underlying_mint)), meta_signer owner,
         meta_ro (sdk_token_program sdk)]
        (ExchangeTokensData amount))"

definition ix_stake_tickets ::
  "Sdk \<Rightarrow> nat \<Rightarrow> string \<Rightarrow> Pubkey \<Rightarrow> Pubkey \<Rightarrow> Pubkey \<Rightarrow> Pubkey option \<Rightarrow> Pubkey \<Rightarrow> FtIxData Instruction" where
  "ix_stake_tickets sdk amount seed airspace market ticket_holder ticket_source payer =
     (let tickets = derive_ticket_mint sdk market in
      ft_ix
        [meta_ro (derive_permit sdk airspace ticket_holder),
         meta_mut (derive_term_deposit_user_bytes sdk market ticket_holder (SeedBytes seed)), meta_mut market,
         meta_signer ticket_holder, meta_mut (unwrap_or ticket_source (sdk_associated sdk ticket_holder tickets)),
         meta_mut tickets, meta_payer payer, meta_ro (sdk_token_program sdk), meta_ro (sdk_system_program sdk)]
        (StakeTicketsData amount seed))"

record RedeemDepositAccounts =
  rda_permit :: Pubkey
  rda_deposit :: Pubkey
  rda_owner :: Pubkey
  rda_payer :: Pubkey
  rda_token_account :: Pubkey
  rda_market :: Pubkey
  rda_underlying_token_vault :: Pubkey
  rda_token_program :: Pubkey

definition ix_redeem_deposit :: "RedeemDepositAccounts \<Rightarrow> FtIxData Instruction" where
  "ix_redeem_deposit ac =
     ft_ix
       [meta_ro (rda_permit ac), meta_mut (rda_deposit ac), meta_payer (rda_owner ac), meta_mut (rda_payer ac),
        meta_mut (rda_token_account ac), meta_ro (rda_market ac), meta_mut (rda_underlying_token_vault ac),
        meta_ro (rda_token_program ac)]
       RedeemDepositData"

definition redeem_deposit_accounts ::
  "Sdk \<Rightarrow> Pubkey \<Rightarrow> Pubkey \<Rightarrow> Pubkey \<Rightarrow> Pubkey \<Rightarrow> Pubkey \<Rightarrow> Pubkey option \<Rightarrow> Pubkey \<Rightarrow> RedeemDepositAccounts" where
  "redeem_deposit_accounts sdk airspace market owner underlying_mint deposit token_destination payer =
     \<lparr>rda_permit = derive_permit sdk airspace owner, rda_deposit = deposit, rda_owner = owner, rda_payer = payer,
      rda_token_account = unwrap_or token_destination (sdk_associated sdk owner underlying_mint), rda_market = market,
      rda_underlying_token_vault = derive_underlying_token_vault sdk market, rda_token_program = sdk_token_program sdk\<rparr>"

definition ix_refresh_position ::
  "Sdk \<Rightarrow> bool \<Rightarrow> Pubkey \<Rightarrow> Pubkey \<Rightarrow> Pubkey \<Rightarrow> Pubkey \<Rightarrow> FtIxData Instruction" where
  "ix_refresh_position sdk expect_price market margin_account underlying_oracle ticket_oracle =
     ft_ix
       [meta_ro (derive_margin_user sdk market margin_account), meta_ro margin_account, meta_ro market,
        meta_ro underlying_oracle, meta_ro ticket_oracle, meta_ro (sdk_token_program sdk)]
       (RefreshPositionData expect_price)"

record SellTicketsAccounts =
  sta_permit :: Pubkey
  sta_authority :: Pubkey
  sta_user_ticket_vault :: Pubkey
  sta_user_token_vault :: Pubkey
  sta_orderbook_mut :: OrderbookMutAccounts
  sta_ticket_mint :: Pubkey
  sta_underlying_token_vault :: Pubkey
  sta_token_program :: Pubkey

definition ix_sell_tickets_order :: "OrderParams \<Rightarrow> SellTicketsAccounts \<Rightarrow> FtIxData Instruction" where
  "ix_sell_tickets_order p ac =
     ft_ix
       ([meta_ro (sta_permit ac), meta_signer (sta_authority ac), meta_mut (sta_user_ticket_vault ac),
         meta_mut (sta_user_token_vault ac)] @ book_metas (sta_orderbook_mut ac) @
        [meta_mut (sta_ticket_mint ac), meta_mut (sta_underlying_token_vault ac), meta_ro (sta_token_program ac)])
       (SellTicketsOrderData p)"

definition sell_tickets_order_accounts ::
  "Sdk \<Rightarrow> OrderbookMutAccounts \<Rightarrow> Pubkey \<Rightarrow> Pubkey \<Rightarrow> Pubkey \<Rightarrow> Pubkey option \<Rightarrow> Pubkey option \<Rightarrow>
     SellTicketsAccounts" where
  "sell_tickets_order_accounts sdk om authority airspace underlying_mint ticket_source token_destination =
     (let tickets = derive_ticket_mint sdk (om_market om) in
      \<lparr>sta_permit = derive_permit sdk airspace authority, sta_authority = authority,
       sta_user_ticket_vault = unwrap_or ticket_source (sdk_associated sdk authority tickets),
       sta_user_token_vault = unwrap_or token_destination (sdk_associated sdk authority underlying_mint),
       sta_orderbook_mut = om, sta_ticket_mint = tickets,
       sta_underlying_token_vault = derive_underlying_token_vault sdk (om_market om),
       sta_token_program = sdk_token_program sdk\<rparr>)"

record LendOrderAccounts =
  loa_permit :: Pubkey
  loa_authority :: Pubkey
  loa_orderbook_mut :: OrderbookMutAccounts
  loa_ticket_settlement :: Pubkey
  loa_lender_tokens :: Pubkey
  loa_underlying_token_vault :: Pubkey
  loa_ticket_mint :: Pubkey
  loa_payer :: Pubkey
  loa_system_program :: Pubkey
  loa_token_program :: Pubkey

definition lend_order_accounts ::
  "Sdk \<Rightarrow> OrderParams \<Rightarrow> Seed \<Rightarrow> Pubkey \<Rightarrow> Pubkey \<Rightarrow> Pubkey \<Rightarrow> Pubkey option \<Rightarrow> Pubkey option \<Rightarrow> OrderbookMutAccounts \<Rightarrow>
     Pubkey \<Rightarrow> Pubkey \<Rightarrow> LendOrderAccounts" where
  "lend_order_accounts sdk p seed airspace market authority lender_tickets lender_tokens om underlying_mint payer =
     (let tickets = derive_ticket_mint sdk market;
          lender_tickets = unwrap_or lender_tickets (sdk_associated sdk authority tickets);
          lender_tokens = unwrap_or lender_tokens (sdk_associated sdk authority underlying_mint);
          deposit = derive_term_deposit_bytes sdk market authority seed in
      \<lparr>loa_permit = derive_permit sdk airspace authority, loa_authority = authority, loa_orderbook_mut = om,
       loa_ticket_settlement = (if op_auto_stake p then deposit else lender_tickets), loa_lender_tokens = lender_tokens,
       loa_underlying_token_vault = derive_underlying_token_vault sdk market, loa_ticket_mint = tickets,
       loa_payer = payer, loa_system_program = sdk_system_program sdk, loa_token_program = sdk_token_program sdk\<rparr>)"

definition ix_lend_order ::
  "Sdk \<Rightarrow> OrderParams \<Rightarrow> string \<Rightarrow> Pubkey \<Rightarrow> Pubkey \<Rightarrow> Pubkey \<Rightarrow> Pubkey option \<Rightarrow> Pubkey option \<Rightarrow>
     OrderbookMutAccounts \<Rightarrow> Pubkey \<Rightarrow> Pubkey \<Rightarrow> FtIxData Instruction" where
  "ix_lend_order sdk p seed airspace market authority lender_tickets lender_tokens om underlying_mint payer =
     (let ac = lend_order_accounts sdk p (SeedBytes seed) airspace market authority lender_tickets lender_tokens om
                 underlying_mint payer in
      ft_ix
        ([meta_ro (loa_permit ac), meta_signer (loa_authority ac)] @ book_metas (loa_orderbook_mut ac) @
         [meta_mut (loa_ticket_settlement ac), meta_mut (loa_lender_tokens ac), meta_mut (loa_underlying_token_vault ac),
          meta_mut (loa_ticket_mint ac), meta_payer (loa_payer ac), meta_ro (loa_system_program ac),
          meta_ro (loa_token_program ac)])
        (LendOrderData p seed))"

definition ix_cancel_order :: "nat \<Rightarrow> Pubkey \<Rightarrow> OrderbookMutAccounts \<Rightarrow> FtIxData Instruction" where
  "ix_cancel_order order_id owner om = ft_ix (meta_signer owner # book_metas om) (CancelOrderData order_id)"

subsection \<open>Instructions of a margin account\<close>

definition ix_initialize_margin_user :: "Sdk \<Rightarrow> Pubkey \<Rightarrow> Pubkey \<Rightarrow> Pubkey \<Rightarrow> Pubkey \<Rightarrow> FtIxData Instruction" where
  "ix_initialize_margin_user sdk margin_account market airspace payer =
     (let tmint = derive_ticket_collateral_mint sdk market; umint = derive_underlying_collateral_mint sdk market;
          cmint = derive_claims_mint sdk market; user = derive_margin_user sdk market margin_account in
      ft_ix
        [meta_mut user, meta_signer margin_account, meta_ro market, meta_mut (derive_user_claims sdk user),
         meta_ro cmint, meta_mut (derive_user_ticket_collateral sdk user), meta_ro tmint,
         meta_mut (derive_user_underlying_collateral sdk user), meta_ro umint, meta_payer payer, meta_ro (sdk_rent sdk),
         meta_ro (sdk_system_program sdk), meta_ro (sdk_token_program sdk), meta_ro (derive_token_config sdk airspace cmint),
         meta_ro (derive_token_config sdk airspace tmint), meta_ro (derive_token_config sdk airspace umint)]
        InitializeMarginUserData)"

definition ix_margin_redeem_deposit ::
  "Sdk \<Rightarrow> Pubkey \<Rightarrow> Pubkey \<Rightarrow> RedeemDepositAccounts \<Rightarrow> FtIxData Instruction" where
  "ix_margin_redeem_deposit sdk market user ac =
     ft_ix
       [meta_mut user, meta_signer (rda_owner ac), meta_mut (derive_user_ticket_collateral sdk user),
        meta_mut (derive_ticket_collateral_mint sdk market), meta_mut (rda_deposit ac), meta_mut (rda_payer ac),
        meta_mut (rda_token_account ac), meta_ro (rda_market ac), meta_mut (rda_underlying_token_vault ac),
        meta_ro (rda_token_program ac)]
       MarginRedeemDepositData"

definition ix_margin_sell_tickets_order ::
  "Sdk \<Rightarrow> OrderParams \<Rightarrow> Pubkey \<Rightarrow> SellTicketsAccounts \<Rightarrow> FtIxData Instruction" where
  "ix_margin_sell_tickets_order sdk p user ac =
     ft_ix
       ([meta_mut user, meta_mut (derive_user_ticket_collateral sdk user),
         meta_mut (derive_ticket_collateral_mint sdk (om_market (sta_orderbook_mut ac))), meta_signer (sta_authority ac),
         meta_mut (sta_user_ticket_vault ac), meta_mut (sta_user_token_vault ac)] @ book_metas (sta_orderbook_mut ac) @
        [meta_mut (sta_ticket_mint ac), meta_mut (sta_underlying_token_vault ac), meta_ro (sta_token_program ac)])
       (MarginSellTicketsOrderData p)"

definition ix_margin_borrow_order ::
  "Sdk \<Rightarrow> OrderParams \<Rightarrow> nat \<Rightarrow> OrderbookMutAccounts \<Rightarrow> Pubkey \<Rightarrow> Pubkey \<Rightarrow> Pubkey \<Rightarrow> FtIxData Instruction" where
  "ix_margin_borrow_order sdk p debt_seqno om margin_account underlying_mint payer =
     (let market = om_market om; user = derive_margin_user sdk market margin_account in
      ft_ix
        ([meta_mut user, meta_mut (derive_term_loan sdk market user debt_seqno), meta_signer margin_account,
          meta_mut (derive_user_claims sdk user), meta_mut (derive_claims_mint sdk market),
          meta_mut (derive_user_underlying_collateral sdk user), meta_mut (derive_underlying_collateral_mint sdk market),
          meta_mut (derive_underlying_token_vault sdk market), meta_mut (derive_fee_vault sdk market),
          meta_mut (sdk_associated sdk margin_account underlying_mint)] @ book_metas om @
         [meta_payer payer, meta_ro (sdk_system_program sdk), meta_ro (sdk_token_program sdk)])
        (MarginBorrowOrderData p))"

text \<open>The airspace is needed for the permit alone, which margin users have no use for.\<close>

definition ix_margin_lend_order ::
  "Sdk \<Rightarrow> OrderParams \<Rightarrow> nat \<Rightarrow> Pubkey \<Rightarrow> Pubkey \<Rightarrow> Pubkey option \<Rightarrow> OrderbookMutAccounts \<Rightarrow> Pubkey \<Rightarrow> Pubkey \<Rightarrow>
     FtIxData Instruction" where
  "ix_margin_lend_order sdk p deposit_seqno market margin_account lender_tokens om underlying_mint payer =
     (let user = derive_margin_user sdk market margin_account;
          ac = lend_order_accounts sdk p (SeedInt deposit_seqno) pubkey_default market margin_account
                 (Some (sdk_associated sdk margin_account (derive_ticket_mint sdk market))) lender_tokens om
                 underlying_mint payer in
      ft_ix
        ([meta_mut user, meta_mut (derive_user_ticket_collateral sdk user),
          meta_mut (derive_ticket_collateral_mint sdk (om_market (loa_orderbook_mut ac))), meta_signer margin_account] @
         book_metas (loa_orderbook_mut ac) @
         [meta_mut (loa_ticket_settlement ac), meta_mut (loa_lender_tokens ac), meta_mut (loa_underlying_token_vault ac),
          meta_mut (loa_ticket_mint ac), meta_payer payer, meta_ro (loa_system_program ac), meta_ro (loa_token_program ac)])
        (MarginLendOrderData p))"

definition ix_margin_repay ::
  "Sdk \<Rightarrow> nat \<Rightarrow> nat \<Rightarrow> Pubkey \<Rightarrow> Pubkey \<Rightarrow> Pubkey \<Rightarrow> Pubkey \<Rightarrow> Pubkey \<Rightarrow> FtIxData Instruction" where
  "ix_margin_repay sdk term_loan_seqno amount market source_authority payer user source =
     ft_ix
       [meta_mut user, meta_mut (derive_term_loan sdk market user term_loan_seqno),
        meta_ro (derive_term_loan sdk market user ((term_loan_seqno + 1) mod 2 ^ 64)), meta_mut source,
        meta_signer source_authority, meta_mut payer, meta_mut (derive_underlying_token_vault sdk market),
        meta_mut (derive_user_claims sdk user), meta_mut (derive_claims_mint sdk market), meta_ro market,
        meta_ro (sdk_token_program sdk)]
       (TermRepayData amount)"

definition ix_configure_auto_roll :: "Sdk \<Rightarrow> Pubkey \<Rightarrow> Pubkey \<Rightarrow> Pubkey \<Rightarrow> AutoRollConfig \<Rightarrow> FtIxData Instruction" where
  "ix_configure_auto_roll sdk market margin_account owner roll =
     ft_ix
       [meta_mut (derive_margin_user sdk market margin_account), meta_ro margin_account, meta_signer owner, meta_ro market]
       (case roll of BorrowRoll c \<Rightarrow> ConfigureAutoRollBorrowData c | LendRoll c \<Rightarrow> ConfigureAutoRollLendData c)"

definition ix_toggle_auto_roll_deposit :: "Pubkey \<Rightarrow> Pubkey \<Rightarrow> FtIxData Instruction" where
  "ix_toggle_auto_roll_deposit margin_account deposit =
     ft_ix [meta_signer margin_account, meta_mut deposit] ToggleAutoRollDepositData"

definition ix_toggle_auto_roll_loan :: "Pubkey \<Rightarrow> Pubkey \<Rightarrow> Pubkey \<Rightarrow> FtIxData Instruction" where
  "ix_toggle_auto_roll_loan margin_account user loan =
     ft_ix [meta_signer margin_account, meta_mut user, meta_mut loan] ToggleAutoRollLoanData"

definition ix_auto_roll_lend_order ::
  "Sdk \<Rightarrow> nat \<Rightarrow> Pubkey \<Rightarrow> Pubkey \<Rightarrow> Pubkey \<Rightarrow> OrderbookMutAccounts \<Rightarrow> Pubkey \<Rightarrow> FtIxData Instruction" where
  "ix_auto_roll_lend_order sdk next_deposit_seqno margin_account deposit rent_receiver om payer =
     (let market = om_market om; user = derive_margin_user sdk market margin_account in
      ft_ix
        ([meta_mut user, meta_ro margin_account, meta_mut deposit,
          meta_mut (derive_term_deposit sdk market margin_account next_deposit_seqno),
          meta_mut (derive_user_ticket_collateral sdk user), meta_mut (derive_ticket_collateral_mint sdk market),
          meta_mut (derive_ticket_mint sdk market), meta_mut (derive_underlying_token_vault sdk market),
          meta_mut rent_receiver] @ book_metas om @
         [meta_payer payer, meta_ro (sdk_system_program sdk), meta_ro (sdk_token_program sdk)])
        AutoRollLendOrderData)"

definition ix_auto_roll_borrow_order ::
  "Sdk \<Rightarrow> nat \<Rightarrow> nat \<Rightarrow> Pubkey \<Rightarrow> Pubkey \<Rightarrow> Pubkey \<Rightarrow> OrderbookMutAccounts \<Rightarrow> Pubkey \<Rightarrow> FtIxData Instruction" where
  "ix_auto_roll_borrow_order sdk next_debt_seqno next_unpaid_loan_seqno margin_account loan rent_receiver om payer =
     (let market = om_market om; user = derive_margin_user sdk market margin_account in
      ft_ix
        ([meta_mut user, meta_ro margin_account, meta_mut (derive_user_claims sdk user),
          meta_mut (derive_claims_mint sdk market), meta_mut (derive_user_underlying_collateral sdk user),
          meta_mut (derive_underlying_collateral_mint sdk market), meta_mut (derive_underlying_token_vault sdk market),
          meta_mut (derive_fee_vault sdk market), meta_mut loan,
          meta_mut (derive_term_loan sdk market user next_debt_seqno),
          meta_ro (derive_term_loan sdk market user next_unpaid_loan_seqno), meta_mut rent_receiver] @ book_metas om @
         [meta_payer payer, meta_ro (sdk_system_program sdk), meta_ro (sdk_token_program sdk)])
        AutoRollBorrowOrderData)"

subsection \<open>The builder of a market\<close>

record FixedTermIxBuilder =
  fb_airspace :: Pubkey
  fb_authority :: Pubkey
  fb_market :: Pubkey
  fb_underlying_mint :: Pubkey
  fb_underlying_oracle :: Pubkey
  fb_ticket_oracle :: Pubkey
  fb_fee_destination :: Pubkey
  fb_orderbook :: OrderbookAddresses
  fb_payer :: Pubkey

text \<open>Without a destination for the fees they go to the token account of the authority.\<close>

definition fixed_term_builder_new ::
  "Sdk \<Rightarrow> Pubkey \<Rightarrow> Pubkey \<Rightarrow> Pubkey \<Rightarrow> Pubkey \<Rightarrow> Pubkey \<Rightarrow> Pubkey \<Rightarrow> Pubkey \<Rightarrow> Pubkey option \<Rightarrow> OrderbookAddresses \<Rightarrow>
     FixedTermIxBuilder" where
  "fixed_term_builder_new sdk payer airspace mint market authority underlying_oracle ticket_oracle fee_dest ob =
     \<lparr>fb_airspace = airspace, fb_authority = authority, fb_market = market, fb_underlying_mint = mint,
      fb_underlying_oracle = underlying_oracle, fb_ticket_oracle = ticket_oracle,
      fb_fee_destination = unwrap_or fee_dest (sdk_associated sdk authority mint), fb_orderbook = ob,
      fb_payer = payer\<rparr>"

definition fixed_term_builder_from_state :: "Sdk \<Rightarrow> Pubkey \<Rightarrow> Market \<Rightarrow> FixedTermIxBuilder" where
  "fixed_term_builder_from_state sdk payer m =
     \<lparr>fb_airspace = mk_airspace m, fb_authority = pubkey_default,
      fb_market = derive_market sdk (mk_airspace m) (mk_underlying_token_mint m) (mk_seed m),
      fb_underlying_mint = mk_underlying_token_mint m, fb_underlying_oracle = mk_underlying_oracle m,
      fb_ticket_oracle = mk_ticket_oracle m, fb_fee_destination = mk_fee_destination m,
      fb_orderbook = \<lparr>oa_bids = mk_bids m, oa_asks = mk_asks m, oa_event_queue = mk_event_queue m\<rparr>, fb_payer = payer\<rparr>"

definition fixed_term_builder_from_seed ::
  "Sdk \<Rightarrow> Pubkey \<Rightarrow> Pubkey \<Rightarrow> Pubkey \<Rightarrow> string \<Rightarrow> Pubkey \<Rightarrow> Pubkey \<Rightarrow> Pubkey \<Rightarrow> Pubkey option \<Rightarrow> OrderbookAddresses \<Rightarrow>
     FixedTermIxBuilder" where
  "fixed_term_builder_from_seed sdk payer airspace mint seed authority underlying_oracle ticket_oracle fee_dest ob =
     fixed_term_builder_new sdk payer airspace mint (derive_market sdk airspace mint seed) authority underlying_oracle
       ticket_oracle fee_dest ob"

text \<open>The derived addresses of the market.\<close>

definition fb_ticket_mint :: "Sdk \<Rightarrow> FixedTermIxBuilder \<Rightarrow> Pubkey" where
  "fb_ticket_mint sdk b = derive_ticket_mint sdk (fb_market b)"

definition fb_vault :: "Sdk \<Rightarrow> FixedTermIxBuilder \<Rightarrow> Pubkey" where
  "fb_vault sdk b = derive_underlying_token_vault sdk (fb_market b)"

definition fb_orderbook_state :: "Sdk \<Rightarrow> FixedTermIxBuilder \<Rightarrow> Pubkey" where
  "fb_orderbook_state sdk b = derive_orderbook_market_state sdk (fb_market b)"

definition fb_claims :: "Sdk \<Rightarrow> FixedTermIxBuilder \<Rightarrow> Pubkey" where
  "fb_claims sdk b = derive_claims_mint sdk (fb_market b)"

definition fb_collateral :: "Sdk \<Rightarrow> FixedTermIxBuilder \<Rightarrow> Pubkey" where
  "fb_collateral sdk b = derive_ticket_collateral_mint sdk (fb_market b)"

definition fb_underlying_collateral :: "Sdk \<Rightarrow> FixedTermIxBuilder \<Rightarrow> Pubkey" where
  "fb_underlying_collateral sdk b = derive_underlying_collateral_mint sdk (fb_market b)"

definition fb_orderbook_mut :: "Sdk \<Rightarrow> FixedTermIxBuilder \<Rightarrow> OrderbookMutAccounts" where
  "fb_orderbook_mut sdk b =
     \<lparr>om_market = fb_market b, om_orderbook_market_state = derive_orderbook_market_state sdk (fb_market b),
      om_event_queue = oa_event_queue (fb_orderbook b), om_bids = oa_bids (fb_orderbook b),
      om_asks = oa_asks (fb_orderbook b)\<rparr>"

definition fb_market_admin :: "FixedTermIxBuilder \<Rightarrow> MarketAdmin" where
  "fb_market_admin b = \<lparr>md_market = fb_market b, md_authority = fb_authority b, md_airspace = fb_airspace b\<rparr>"

definition fb_margin_user :: "Sdk \<Rightarrow> FixedTermIxBuilder \<Rightarrow> Pubkey \<Rightarrow> MarginUserAddresses" where
  "fb_margin_user sdk b margin_account =
     (let user = derive_margin_user sdk (fb_market b) margin_account in
      \<lparr>ua_address = user, ua_claims = derive_user_claims sdk user,
       ua_ticket_collateral = derive_user_ticket_collateral sdk user,
       ua_underlying_collateral = derive_user_underlying_collateral sdk user\<rparr>)"

subsection \<open>What the builder makes\<close>

definition fb_consume_events ::
  "Sdk \<Rightarrow> FixedTermIxBuilder \<Rightarrow> nat list \<Rightarrow> Pubkey list list \<Rightarrow> FtIxData Instruction" where
  "fb_consume_events sdk b seed events =
     ix_consume_events sdk seed events (fb_market b) (oa_event_queue (fb_orderbook b)) (fb_payer b) (fb_payer b)"

definition fb_initialize_market ::
  "Sdk \<Rightarrow> FixedTermIxBuilder \<Rightarrow> Pubkey \<Rightarrow> InitializeMarketParams \<Rightarrow> FtIxData Instruction" where
  "fb_initialize_market sdk b payer p =
     ix_initialize_market sdk p (fb_underlying_mint b) (fb_airspace b) (fb_authority b) (fb_underlying_oracle b)
       (fb_ticket_oracle b) (fb_fee_destination b) payer"

definition fb_initialize_orderbook :: "Sdk \<Rightarrow> FixedTermIxBuilder \<Rightarrow> Pubkey \<Rightarrow> nat \<Rightarrow> FtIxData Instruction" where
  "fb_initialize_orderbook sdk b payer min_base_order_size =
     ix_initialize_orderbook sdk min_base_order_size (fb_orderbook b) (fb_market_admin b) payer"

definition fb_initialize_margin_user :: "Sdk \<Rightarrow> FixedTermIxBuilder \<Rightarrow> Pubkey \<Rightarrow> FtIxData Instruction" where
  "fb_initialize_margin_user sdk b margin_account =
     ix_initialize_margin_user sdk margin_account (fb_market b) (fb_airspace b) (fb_payer b)"

definition fb_convert_tokens ::
  "Sdk \<Rightarrow> FixedTermIxBuilder \<Rightarrow> Pubkey \<Rightarrow> Pubkey option \<Rightarrow> Pubkey option \<Rightarrow> nat \<Rightarrow> FtIxData Instruction" where
  "fb_convert_tokens sdk b owner token_source ticket_destination amount =
     ix_convert_tokens sdk amount (fb_airspace b) (fb_market b) owner token_source ticket_destination
       (fb_underlying_mint b)"

definition fb_stake_tickets ::
  "Sdk \<Rightarrow> FixedTermIxBuilder \<Rightarrow> Pubkey \<Rightarrow> Pubkey option \<Rightarrow> nat \<Rightarrow> string \<Rightarrow> FtIxData Instruction" where
  "fb_stake_tickets sdk b ticket_holder ticket_source amount seed =
     ix_stake_tickets sdk amount seed (fb_airspace b) (fb_market b) ticket_holder ticket_source (fb_payer b)"

definition fb_redeem_deposit ::
  "Sdk \<Rightarrow> FixedTermIxBuilder \<Rightarrow> Pubkey \<Rightarrow> Pubkey \<Rightarrow> Pubkey option \<Rightarrow> FtIxData Instruction" where
  "fb_redeem_deposit sdk b ticket_holder deposit token_destination =
     ix_redeem_deposit (redeem_deposit_accounts sdk (fb_airspace b) (fb_market b) ticket_holder (fb_underlying_mint b)
       deposit token_destination (fb_payer b))"

definition fb_settle :: "Sdk \<Rightarrow> FixedTermIxBuilder \<Rightarrow> Pubkey \<Rightarrow> FtIxData Instruction" where
  "fb_settle sdk b margin_account = ix_settle sdk (fb_market b) (fb_underlying_mint b) margin_account"

text \<open>The tokens go to the account of \<open>owner\<close>, the deposit is that of the margin account.\<close>

definition fb_margin_redeem_deposit ::
  "Sdk \<Rightarrow> FixedTermIxBuilder \<Rightarrow> Pubkey \<Rightarrow> Pubkey \<Rightarrow> Pubkey \<Rightarrow> Pubkey option \<Rightarrow> FtIxData Instruction" where
  "fb_margin_redeem_deposit sdk b owner margin_account deposit token_destination =
     (let inner = redeem_deposit_accounts sdk (fb_airspace b) (fb_market b) owner (fb_underlying_mint b) deposit
                    token_destination (fb_payer b) in
      ix_margin_redeem_deposit sdk (fb_market b) (derive_margin_user sdk (fb_market b) margin_account)
        (inner\<lparr>rda_owner := margin_account\<rparr>))"

definition fb_refresh_position :: "Sdk \<Rightarrow> FixedTermIxBuilder \<Rightarrow> Pubkey \<Rightarrow> bool \<Rightarrow> FtIxData Instruction" where
  "fb_refresh_position sdk b margin_account expect_price =
     ix_refresh_position sdk expect_price (fb_market b) margin_account (fb_underlying_oracle b) (fb_ticket_oracle b)"

definition fb_sell_tickets_order ::
  "Sdk \<Rightarrow> FixedTermIxBuilder \<Rightarrow> Pubkey \<Rightarrow> Pubkey option \<Rightarrow> Pubkey option \<Rightarrow> OrderParams \<Rightarrow> FtIxData Instruction" where
  "fb_sell_tickets_order sdk b user ticket_source token_destination p =
     ix_sell_tickets_order p (sell_tickets_order_accounts sdk (fb_orderbook_mut sdk b) user (fb_airspace b)
       (fb_underlying_mint b) ticket_source token_destination)"

definition fb_margin_sell_tickets_order ::
  "Sdk \<Rightarrow> FixedTermIxBuilder \<Rightarrow> Pubkey \<Rightarrow> Pubkey option \<Rightarrow> Pubkey option \<Rightarrow> OrderParams \<Rightarrow> FtIxData Instruction" where
  "fb_margin_sell_tickets_order sdk b margin_account ticket_source token_destination p =
     ix_margin_sell_tickets_order sdk p (derive_margin_user sdk (fb_market b) margin_account)
       (sell_tickets_order_accounts sdk (fb_orderbook_mut sdk b) margin_account (fb_airspace b) (fb_underlying_mint b)
          ticket_source token_destination)"

definition fb_margin_borrow_order ::
  "Sdk \<Rightarrow> FixedTermIxBuilder \<Rightarrow> Pubkey \<Rightarrow> OrderParams \<Rightarrow> nat \<Rightarrow> FtIxData Instruction" where
  "fb_margin_borrow_order sdk b margin_account p debt_seqno =
     ix_margin_borrow_order sdk p debt_seqno (fb_orderbook_mut sdk b) margin_account (fb_underlying_mint b) (fb_payer b)"

definition fb_lend_order ::
  "Sdk \<Rightarrow> FixedTermIxBuilder \<Rightarrow> Pubkey \<Rightarrow> Pubkey option \<Rightarrow> Pubkey option \<Rightarrow> OrderParams \<Rightarrow> string \<Rightarrow> FtIxData Instruction" where
  "fb_lend_order sdk b user lender_tickets lender_tokens p seed =
     ix_lend_order sdk p seed (fb_airspace b) (fb_market b) user lender_tickets lender_tokens (fb_orderbook_mut sdk b)
       (fb_underlying_mint b) (fb_payer b)"

definition fb_margin_lend_order ::
  "Sdk \<Rightarrow> FixedTermIxBuilder \<Rightarrow> Pubkey \<Rightarrow> Pubkey option \<Rightarrow> OrderParams \<Rightarrow> nat \<Rightarrow> FtIxData Instruction" where
  "fb_margin_lend_order sdk b margin_account lender_tokens p deposit_seqno =
     ix_margin_lend_order sdk p deposit_seqno (fb_market b) margin_account lender_tokens (fb_orderbook_mut sdk b)
       (fb_underlying_mint b) (fb_payer b)"

definition fb_auto_roll_lend_order ::
  "Sdk \<Rightarrow> FixedTermIxBuilder \<Rightarrow> Pubkey \<Rightarrow> Pubkey \<Rightarrow> Pubkey \<Rightarrow> nat \<Rightarrow> FtIxData Instruction" where
  "fb_auto_roll_lend_order sdk b margin_account deposit rent_receiver next_deposit_seqno =
     ix_auto_roll_lend_order sdk next_deposit_seqno margin_account deposit rent_receiver (fb_orderbook_mut sdk b)
       (fb_payer b)"

definition fb_auto_roll_borrow_order ::
  "Sdk \<Rightarrow> FixedTermIxBuilder \<Rightarrow> Pubkey \<Rightarrow> Pubkey \<Rightarrow> Pubkey \<Rightarrow> nat \<Rightarrow> nat \<Rightarrow> FtIxData Instruction" where
  "fb_auto_roll_borrow_order sdk b margin_account loan rent_receiver next_debt_seqno next_unpaid_loan_seqno =
     ix_auto_roll_borrow_order sdk next_debt_seqno next_unpaid_loan_seqno margin_account loan rent_receiver
       (fb_orderbook_mut sdk b) (fb_payer b)"

definition fb_cancel_order :: "Sdk \<Rightarrow> FixedTermIxBuilder \<Rightarrow> Pubkey \<Rightarrow> nat \<Rightarrow> FtIxData Instruction" where
  "fb_cancel_order sdk b owner order_id = ix_cancel_order order_id owner (fb_orderbook_mut sdk b)"

definition fb_pause_order_matching :: "Sdk \<Rightarrow> FixedTermIxBuilder \<Rightarrow> FtIxData Instruction" where
  "fb_pause_order_matching sdk b =
     ix_pause_order_matching (fb_market_admin b) (derive_orderbook_market_state sdk (fb_market b))"

definition fb_resume_order_matching :: "Sdk \<Rightarrow> FixedTermIxBuilder \<Rightarrow> FtIxData Instruction" where
  "fb_resume_order_matching sdk b = ix_resume_order_matching sdk (fb_market_admin b) (fb_orderbook b)"

definition fb_pause_ticket_redemption :: "FixedTermIxBuilder \<Rightarrow> FtIxData Instruction" where
  "fb_pause_ticket_redemption b = ix_pause_ticket_redemption (fb_market_admin b)"

definition fb_resume_ticket_redemption :: "FixedTermIxBuilder \<Rightarrow> FtIxData Instruction" where
  "fb_resume_ticket_redemption b = ix_resume_ticket_redemption (fb_market_admin b)"

definition fb_modify_market :: "FixedTermIxBuilder \<Rightarrow> string \<Rightarrow> nat \<Rightarrow> FtIxData Instruction" where
  "fb_modify_market b bytes offset = ix_modify_market bytes offset (fb_market_admin b)"

definition fb_authorize_crank :: "Sdk \<Rightarrow> FixedTermIxBuilder \<Rightarrow> Pubkey \<Rightarrow> FtIxData Instruction" where
  "fb_authorize_crank sdk b crank = ix_authorize_crank sdk crank (fb_market_admin b) (fb_payer b)"

definition fb_margin_repay ::
  "Sdk \<Rightarrow> FixedTermIxBuilder \<Rightarrow> Pubkey \<Rightarrow> Pubkey \<Rightarrow> Pubkey \<Rightarrow> Pubkey \<Rightarrow> nat \<Rightarrow> nat \<Rightarrow> FtIxData Instruction" where
  "fb_margin_repay sdk b source_authority payer margin_account source term_loan_seqno amount =
     ix_margin_repay sdk term_loan_seqno amount (fb_market b) source_authority payer
       (derive_margin_user sdk (fb_market b) margin_account) source"

definition fb_configure_auto_roll ::
  "Sdk \<Rightarrow> FixedTermIxBuilder \<Rightarrow> Pubkey \<Rightarrow> Pubkey \<Rightarrow> AutoRollConfig \<Rightarrow> FtIxData Instruction" where
  "fb_configure_auto_roll sdk b margin_account owner roll =
     ix_configure_auto_roll sdk (fb_market b) margin_account owner roll"

definition fb_toggle_auto_roll_deposit :: "Pubkey \<Rightarrow> Pubkey \<Rightarrow> FtIxData Instruction" where
  "fb_toggle_auto_roll_deposit margin_account deposit = ix_toggle_auto_roll_deposit margin_account deposit"

definition fb_toggle_auto_roll_loan :: "Sdk \<Rightarrow> FixedTermIxBuilder \<Rightarrow> Pubkey \<Rightarrow> Pubkey \<Rightarrow> FtIxData Instruction" where
  "fb_toggle_auto_roll_loan sdk b margin_account loan =
     ix_toggle_auto_roll_loan margin_account (derive_margin_user sdk (fb_market b) margin_account) loan"

subsection \<open>The markets there can be\<close>

text \<open>Instructions, each in its environment at its time.\<close>

definition ft_run ::
  "Sdk \<Rightarrow> 'l Runtime \<Rightarrow> 'b Engine \<Rightarrow> (FtEnv \<times> int \<times> FtIxData Instruction) list \<Rightarrow> ('b, 'l) FtProgram \<Rightarrow>
     ('b, 'l) FtProgram ft_tx" where
  "ft_run sdk rt en = foldE (\<lambda>(env, t, ix). ft_process sdk env (instruction rt [] t) en ix)"

lemma market_addresses_runtime:
  "all_markets_ok (runtime_of (instruction rt xs t) ms) s = all_markets_ok rt s"
  by (simp add: all_markets_ok_def market_addresses_ok_def market_pda_def)

lemma ft_run_markets:
  assumes "ft_run sdk rt en steps s = Inr s'" "all_markets_ok rt s"
  shows "all_markets_ok rt s'"
  using assms(1) [unfolded ft_run_def] assms(2)
proof (rule foldE_invariant)
  fix x u v assume a: "all_markets_ok rt u" "(case x of (env, t, ix) \<Rightarrow> ft_process sdk env (instruction rt [] t) en ix) u = Inr v"
  obtain env t ix where x: "x = (env, t, ix)" by (cases x) auto
  from a(2) dispatch_markets [where rt = "runtime_of (instruction rt [] t) (ix_accounts ix)"] a(1)
  show "all_markets_ok rt v" by (simp add: x ft_process_def market_addresses_runtime)
qed

text \<open>
  C23: Whatever instructions the fixed-term program executes, a builder made from the state of a market derives the
  address of the market, and from it the vaults and mints that the market names, the order book's included.
\<close>

theorem market_has_built_addresses:
  assumes "runs_as sdk JET_FIXED_TERM rt" "fp_markets s = Map.empty" "ft_run sdk rt en steps s = Inr s'"
    and "fp_markets s' k = Some m" "b = fixed_term_builder_from_state sdk payer m"
  shows "fb_market b = k \<and> mk_underlying_token_vault m = fb_vault sdk b \<and> mk_ticket_mint m = fb_ticket_mint sdk b \<and>
    mk_claims_mint m = fb_claims sdk b \<and> mk_ticket_collateral_mint m = fb_collateral sdk b \<and>
    mk_underlying_collateral_mint m = fb_underlying_collateral sdk b \<and> mk_fee_vault m = derive_fee_vault sdk k \<and>
    mk_orderbook_market_state m \<in> {pubkey_default, fb_orderbook_state sdk b}"
  using ft_run_markets [OF assms(3)] assms(2,4)
  by (auto simp: assms(5) all_markets_ok_def market_addresses_ok_def fixed_term_builder_from_state_def market_pda_def
      pda_eq_derive [OF assms(1)] fb_vault_def fb_ticket_mint_def fb_claims_def fb_collateral_def
      fb_underlying_collateral_def fb_orderbook_state_def derive_market_defs)

text \<open>Distinct addresses for the accounts of one market.\<close>

definition ft_address :: "Seed list \<Rightarrow> Pubkey" where
  "ft_address seeds =
     (case seeds of
        [SeedBytes tag, SeedKey _] \<Rightarrow>
          if tag = ''underlying_token_vault'' then 201 else if tag = ''ticket_mint'' then 202
          else if tag = ''claim_notes'' then 203 else if tag = ''ticket_collateral_notes'' then 204
          else if tag = ''underlying_collateral_notes'' then 205 else if tag = ''fee_vault'' then 206
          else if tag = ''orderbook_market_state'' then 207 else 208
      | [SeedBytes _, SeedKey _, SeedKey _, SeedBytes _] \<Rightarrow> 100
      | _ \<Rightarrow> 300)"

definition sample_ft_env :: FtEnv where
  "sample_ft_env =
     \<lparr>fe_airspace = (\<lambda>_. Some \<lparr>as_authority = 3, as_is_restricted = False\<rparr>), fe_permit = Map.empty, fe_governor = Map.empty,
      fe_margin_account = Map.empty, fe_feed = (\<lambda>_. None), fe_owned = (\<lambda>_. True),
      fe_fresh_queue = (\<lambda>n. \<lparr>eq_owned_by_program = True, eq_head = 0, eq_count = 0, eq_capacity = n, eq_events = [],
        eq_callbacks = []\<rparr>), fe_height = 1, fe_writable = (\<lambda>_. False)\<rparr>"

definition sample_ft_program :: "(unit, Ledger) FtProgram" where
  "sample_ft_program =
     \<lparr>fp_markets = Map.empty, fp_books = Map.empty, fp_users = Map.empty, fp_loans = Map.empty, fp_deposits = Map.empty,
      fp_cranks = Map.empty, fp_adapters = Map.empty, fp_zeroed = (\<lambda>_. True), fp_lamports = (\<lambda>_. 0),
      fp_ledger = \<lparr>lg_accounts = [50 \<mapsto> \<lparr>ta_mint = 7, ta_owner = 3, ta_delegate = None, ta_amount = 0\<rparr>],
        lg_mints = [7 \<mapsto> \<lparr>mint_supply = 1000, mint_authority = None, mint_decimals = 6\<rparr>]\<rparr>,
      fp_events = [], fp_skipped = 0, fp_result = None\<rparr>"

definition sample_ft_builder :: "Sdk \<Rightarrow> FixedTermIxBuilder" where
  "sample_ft_builder sdk =
     fixed_term_builder_from_seed sdk 4 2 7 ''seed'' 3 0 0 (Some 50) \<lparr>oa_bids = 11, oa_asks = 12, oa_event_queue = 13\<rparr>"

definition sample_ft_params :: InitializeMarketParams where
  "sample_ft_params =
     \<lparr>ip_version_tag = 0, ip_seed = ''seed'', ip_borrow_tenor = 50, ip_lend_tenor = 50, ip_origination_fee = 0\<rparr>"

lemmas sample_ft_defs =
  sample_ft_env_def sample_ft_program_def sample_ft_builder_def sample_ft_params_def fixed_term_builder_from_seed_def
  fixed_term_builder_new_def unwrap_or_def ft_ix_def metas ft_address_def fixed_term_address_def

lemma instruction_ledger: "instruction (ledger_runtime g sg c) xs t = ledger_runtime g xs t"
  by (simp add: instruction_def ledger_runtime_def)

lemmas ft_sample_run =
  ft_run_def ft_process_def fb_initialize_market_def fb_initialize_orderbook_def ix_initialize_market_def
  ix_initialize_orderbook_def initialize_market_entry_def initialize_orderbook_entry_def initialize_market_handler_def
  initialize_orderbook_handler_def init_market_mint_def init_market_vault_def market_pda_def check_airspace_def
  load_from_def check_program_ids_def check_token_id_def check_system_id_def check_program_def load_mint_def
  load_token_account_def require_signer_def create_token_account_def create_mint_def ledger_create_def
  ledger_create_mint_def fb_market_admin_def filling_engine_def derive_market_defs Let_def sample_ft_defs
  instruction_ledger

theorem market_has_built_addresses_witness:
  "let sdk = sample_sdk ft_address; b = sample_ft_builder sdk in
   \<exists>s' m. ft_run sdk (ledger_runtime ft_address [] 0) filling_engine
       [(sample_ft_env, 5, fb_initialize_market sdk b 4 sample_ft_params), (sample_ft_env, 6, fb_initialize_orderbook sdk b 4 1)]
       sample_ft_program = Inr s' \<and> fp_markets s' (fb_market b) = Some m \<and> mk_fee_vault m = derive_fee_vault sdk (fb_market b) \<and>
     mk_orderbook_market_state m = 207"
proof -
  let ?sdk = "sample_sdk ft_address" and ?b = "sample_ft_builder (sample_sdk ft_address)"
  let ?rt = "ledger_runtime ft_address [] 0"
  let ?steps = "[(sample_ft_env, 5, fb_initialize_market ?sdk ?b 4 sample_ft_params),
    (sample_ft_env, 6, fb_initialize_orderbook ?sdk ?b 4 1)]"
  obtain s' m where run: "ft_run ?sdk ?rt filling_engine ?steps sample_ft_program = Inr s'"
    and m: "fp_markets s' 100 = Some m" "mk_orderbook_market_state m = 207"
  proof -
    have "case ft_run ?sdk ?rt filling_engine ?steps sample_ft_program of
        Inr s' \<Rightarrow> (case fp_markets s' 100 of Some m \<Rightarrow> mk_orderbook_market_state m = 207 | None \<Rightarrow> False) | _ \<Rightarrow> False"
      by (simp add: ft_sample_run)
    with that show ?thesis by (auto split: sum.splits option.splits)
  qed
  have b: "fb_market ?b = 100"
    by (simp add: sample_ft_builder_def fixed_term_builder_from_seed_def fixed_term_builder_new_def derive_market_defs
        ft_address_def)
  have "runs_as ?sdk JET_FIXED_TERM ?rt" "fp_markets sample_ft_program = Map.empty"
    by (simp_all add: sample_ft_program_def)
  from market_has_built_addresses [OF this run m(1) refl] m run show ?thesis
    unfolding Let_def b by blast
qed

text \<open>
  A builder made from a market's state has no authority: what it makes for the authority of the airspace succeeds only
  if that is the default key.
\<close>

lemma built_from_state_lacks_authority:
  assumes "ft_process sdk env rt en (fb_authorize_crank sdk (fixed_term_builder_from_state sdk payer m) crank) s = Inr s'"
    and "fe_airspace env (mk_airspace m) = Some a"
  shows "as_authority a = pubkey_default"
  using assms
  by (auto simp: ft_process_def fb_authorize_crank_def ix_authorize_crank_def ft_ix_def metas authorize_crank_entry_def
      authorize_crank_handler_def check_airspace_def fb_market_admin_def fixed_term_builder_from_state_def)

text \<open>The instructions that are built to pause and resume the redemption of tickets change no market.\<close>

lemma built_ticket_pause_has_no_effect:
  "ft_process sdk env rt en (fb_pause_ticket_redemption b) s = Inr s' \<Longrightarrow> fp_markets s' = fp_markets s"
  "ft_process sdk env rt en (fb_resume_ticket_redemption b) s = Inr s' \<Longrightarrow> fp_markets s' = fp_markets s"
  by (auto simp: ft_process_def fb_pause_ticket_redemption_def ix_pause_ticket_redemption_def
      fb_resume_ticket_redemption_def ix_resume_ticket_redemption_def ix_modify_market_def ft_ix_def metas
      modify_market_entry_def modify_market_handler_def fun_eq_iff)

end
