(* ===== verification/FixedTermFees.thy ===== *)
theory FixedTermFees
  imports FixedTermBuilder
begin

text \<open>
  The fees of a fixed-term market. Borrowing and the crank pay them into the fee vault of the market. The handler that
  would pay them out has no entry in the program, and no instruction that has one can: \<open>fees_never_leave\<close>.

  A market signs for its accounts only with its own address, and every handler lets it spend from the vault of the
  underlying tokens alone and burn only notes. The locale \<open>fee_vault\<close> states this for one instruction, in whose list
  the address of the market is no signer, which as a program address it cannot be.
\<close>

record FeeVault =
  fv_market :: Pubkey
  fv_mint :: Pubkey
  fv_vault :: Pubkey
  fv_amount :: nat

text \<open>The vault belongs to the market, has no delegate and holds the amount at least.\<close>

definition fee_account :: "'l Runtime \<Rightarrow> FeeVault \<Rightarrow> 'l \<Rightarrow> bool" where
  "fee_account rt w l \<longleftrightarrow>
     (\<exists>a. rt_account rt l (fv_vault w) = Some a \<and> ta_owner a = fv_market w \<and> ta_mint a = fv_mint w \<and>
        ta_delegate a = None \<and> fv_amount w \<le> ta_amount a)"

text \<open>What a market may spend from and burn is not the fee vault and not its tokens.\<close>

definition fee_safe :: "FeeVault \<Rightarrow> Market \<Rightarrow> bool" where
  "fee_safe w m \<longleftrightarrow> (mk_address m = fv_market w \<longrightarrow>
     mk_underlying_token_vault m \<noteq> fv_vault w \<and> mk_claims_mint m \<noteq> fv_mint w \<and>
     mk_ticket_collateral_mint m \<noteq> fv_mint w \<and> mk_underlying_collateral_mint m \<noteq> fv_mint w)"

abbreviation same_keys :: "Market \<Rightarrow> Market \<Rightarrow> bool" where
  "same_keys m' m \<equiv>
     mk_address m' = mk_address m \<and> mk_underlying_token_vault m' = mk_underlying_token_vault m \<and>
     mk_claims_mint m' = mk_claims_mint m \<and> mk_ticket_collateral_mint m' = mk_ticket_collateral_mint m \<and>
     mk_underlying_collateral_mint m' = mk_underlying_collateral_mint m"

lemma core_keys: "market_core m' = market_core m \<Longrightarrow> same_keys m' m"
  by (cases m, cases m') (simp add: market_core_def)

definition all_fee_safe :: "FeeVault \<Rightarrow> ('b, 'l) FtProgram \<Rightarrow> bool" where
  "all_fee_safe w s \<longleftrightarrow> (\<forall>k m. fp_markets s k = Some m \<longrightarrow> fee_safe w m)"

lemma put_ledgers [simp]:
  "fp_ledger (put_market k t s) = ms_ledger t" "fp_ledger (put_book k u s) = fp_ledger s"
  "fp_ledger (put_user k v s) = fp_ledger s" "fp_ledger (put_new_loan k l s) = fp_ledger s"
  "fp_ledger (put_new_deposit k d s) = fp_ledger s" "fp_ledger (put_loan_account k l s) = fp_ledger s"
  "fp_ledger (put_deposit_account k d s) = fp_ledger s" "fp_ledger (put_ft_result r s) = fp_ledger s"
  "fp_ledger (put_crank k b c s) = ms_ledger c" "ms_ledger (user_state s m e x) = fp_ledger s"
  by (simp_all add: user_state_def put_market_def put_book_def put_user_def put_new_loan_def put_new_deposit_def put_loan_account_def
      put_deposit_account_def put_ft_result_def put_crank_def)

named_theorems fees \<open>successful operations keep the fee vault under a condition on their keys\<close>

locale fee_vault = token_program rt for rt :: "'l Runtime" +
  fixes w :: FeeVault
  assumes not_signer: "fv_market w \<notin> set (rt_signers rt)"
begin

subsection \<open>Calls of the token program\<close>

lemma transfer_keeps:
  assumes "rt_invoke rt sg (TokenTransfer src dst auth n) l = Some l'" "fee_account rt w l"
    and "auth = fv_market w \<longrightarrow> src \<noteq> fv_vault w"
  shows "fee_account rt w l'"
  using assms(1)
proof (rule spl_transfer)
  fix a b dl
  assume "may_spend sg auth a" "rt_account rt l src = Some a" "rt_account rt l dst = Some b"
    "rt_account rt l' = (if src = dst then rt_account rt l
       else (rt_account rt l)(src \<mapsto> spend a dl n, dst \<mapsto> b\<lparr>ta_amount := ta_amount b + n\<rparr>))"
  with assms(2,3) show ?thesis by (auto simp: fee_account_def may_spend_def)
qed

lemma mint_keeps:
  assumes "rt_invoke rt sg (TokenMintTo m dst auth n) l = Some l'" "fee_account rt w l"
  shows "fee_account rt w l'"
  using assms(1)
proof (rule spl_mint)
  fix b d
  assume "rt_account rt l dst = Some b" "rt_account rt l' = (rt_account rt l)(dst \<mapsto> b\<lparr>ta_amount := ta_amount b + n\<rparr>)"
  with assms(2) show ?thesis by (auto simp: fee_account_def)
qed

lemma burn_keeps:
  assumes "rt_invoke rt sg (TokenBurn m src auth n) l = Some l'" "fee_account rt w l"
    and "auth = fv_market w \<longrightarrow> m \<noteq> fv_mint w"
  shows "fee_account rt w l'"
  using assms(1)
proof (rule spl_burn)
  fix a d dl
  assume "may_spend sg auth a" "rt_account rt l src = Some a" "ta_mint a = m"
    "rt_account rt l' = (rt_account rt l)(src \<mapsto> spend a dl n)"
  with assms(2,3) show ?thesis by (auto simp: fee_account_def may_spend_def)
qed

lemma create_keeps:
  "rt_create rt k a l = Some l' \<Longrightarrow> fee_account rt w l \<Longrightarrow> fee_account rt w l'"
  "rt_create_mint rt k d l = Some l' \<Longrightarrow> fee_account rt w l \<Longrightarrow> fee_account rt w l'"
  using spl_create(2,3) [of k a l l'] by (auto simp: fee_account_def spl_create_mint)

lemma spender_signs:
  "rt_invoke rt sg (TokenTransfer src dst auth n) l = Some l' \<Longrightarrow> auth \<in> set sg"
  "rt_invoke rt sg (TokenBurn m src auth n) l = Some l' \<Longrightarrow> auth \<in> set sg"
  by (auto simp: may_spend_def elim!: spl_transfer spl_burn)

text \<open>The market signs for what it is the authority of; other calls carry the signers of the instruction.\<close>

lemma market_tokens_keep [fees]:
  "market_mint rt m k n s = Inr s' \<Longrightarrow>
     same_keys (ms_market s') (ms_market s) \<and> (fee_account rt w (ms_ledger s) \<longrightarrow> fee_account rt w (ms_ledger s'))"
  "market_withdraw rt src k n s = Inr s' \<Longrightarrow>
     same_keys (ms_market s') (ms_market s) \<and>
     ((mk_address (ms_market s) = fv_market w \<longrightarrow> src \<noteq> fv_vault w) \<longrightarrow>
       fee_account rt w (ms_ledger s) \<longrightarrow> fee_account rt w (ms_ledger s'))"
  "market_burn rt m k n s = Inr s' \<Longrightarrow>
     same_keys (ms_market s') (ms_market s) \<and>
     ((mk_address (ms_market s) = fv_market w \<longrightarrow> m \<noteq> fv_mint w) \<longrightarrow>
       fee_account rt w (ms_ledger s) \<longrightarrow> fee_account rt w (ms_ledger s'))"
  by (auto simp: market_mint_def market_withdraw_def market_burn_def market_cpi_def
      dest: mint_keeps transfer_keeps burn_keeps)

lemma user_tokens_keep [fees]:
  "user_cpi rt (TokenTransfer src dst auth n) s = Inr s' \<Longrightarrow>
     same_keys (ms_market s') (ms_market s) \<and> (fee_account rt w (ms_ledger s) \<longrightarrow> fee_account rt w (ms_ledger s'))"
  "user_cpi rt (TokenBurn m src auth n) s = Inr s' \<Longrightarrow>
     same_keys (ms_market s') (ms_market s) \<and> (fee_account rt w (ms_ledger s) \<longrightarrow> fee_account rt w (ms_ledger s'))"
  using not_signer spender_signs
  by (auto simp: user_cpi_def intro: transfer_keeps burn_keeps)

subsection \<open>Operations\<close>

lemma place_orders_keep [fees]:
  "place_margin_order rt en side p a u k f s = Inr (i, summary, s') \<Longrightarrow>
     same_keys (ms_market s') (ms_market s) \<and> ms_ledger s' = ms_ledger s"
  "place_signer_order rt en side p g t v k f s = Inr (j, summary, s') \<Longrightarrow>
     same_keys (ms_market s') (ms_market s) \<and> ms_ledger s' = ms_ledger s"
  by (auto simp: place_margin_order_def place_signer_order_def place_order_def generate_from_market_def Let_def)

lemma balances_keep [fees]:
  "on_user g s = Inr s' \<Longrightarrow> ms_market s' = ms_market s \<and> ms_ledger s' = ms_ledger s"
  "emit_debt_balances rt s = Inr s' \<Longrightarrow> ms_market s' = ms_market s \<and> ms_ledger s' = ms_ledger s"
  "emit_asset_balances rt s = Inr s' \<Longrightarrow> ms_market s' = ms_market s \<and> ms_ledger s' = ms_ledger s"
  "emit_all_balances rt s = Inr s' \<Longrightarrow> ms_market s' = ms_market s \<and> ms_ledger s' = ms_ledger s"
  by (auto simp: on_user_def emit_debt_balances_def emit_asset_balances_def emit_all_balances_def emit_event_def)

lemma emit_ledger [simp]: "ms_ledger (emit_event e s) = ms_ledger s"
  by (simp add: emit_event_def)

lemma lending_keeps [fees]:
  "issue rt lk ex summary wr s = Inr (n, d, s') \<Longrightarrow>
     same_keys (ms_market s') (ms_market s) \<and>
     (fee_account rt w (ms_ledger s) \<longrightarrow> fee_account rt w (ms_ledger s'))"
  "lend rt lk ex summary wr pay s = Inr (n, d, s') \<Longrightarrow>
     same_keys (ms_market s') (ms_market s) \<and>
     (fee_account rt w (ms_ledger s) \<longrightarrow> fee_account rt w (ms_ledger s'))"
proof -
  show issue: "issue rt lk ex summary wr s = Inr (n, d, s') \<Longrightarrow>
     same_keys (ms_market s') (ms_market s) \<and> (fee_account rt w (ms_ledger s) \<longrightarrow> fee_account rt w (ms_ledger s'))"
    for n d s'
    by (cases wr) (auto simp: issue_def dest!: fees split: if_split_asm)
  show "lend rt lk ex summary wr pay s = Inr (n, d, s') \<Longrightarrow>
     same_keys (ms_market s') (ms_market s) \<and> (fee_account rt w (ms_ledger s) \<longrightarrow> fee_account rt w (ms_ledger s'))"
    by (auto simp: lend_def dest!: issue fees split: if_split_asm)
qed

lemma sell_tickets_keeps [fees]:
  "sell_tickets rt sk tag summary p u ot s = Inr s' \<Longrightarrow>
     same_keys (ms_market s') (ms_market s) \<and>
     ((mk_address (ms_market s) = fv_market w \<longrightarrow> sl_underlying_token_vault sk \<noteq> fv_vault w) \<longrightarrow>
       fee_account rt w (ms_ledger s) \<longrightarrow> fee_account rt w (ms_ledger s'))"
  by (auto simp: sell_tickets_def dest!: fees)

lemma redeem_keeps [fees]:
  "redeem rt dk ow vk ta wd d s = Inr (n, s') \<Longrightarrow>
     same_keys (ms_market s') (ms_market s) \<and>
     ((mk_address (ms_market s) = fv_market w \<longrightarrow> vk \<noteq> fv_vault w) \<longrightarrow>
       fee_account rt w (ms_ledger s) \<longrightarrow> fee_account rt w (ms_ledger s'))"
  by (auto simp: redeem_def Let_def dest!: fees split: if_split_asm)

lemma settle_notes_keep [fees]:
  "settle_notes rt m a h d s = Inr s' \<Longrightarrow>
     same_keys (ms_market s') (ms_market s) \<and>
     ((mk_address (ms_market s) = fv_market w \<longrightarrow> m \<noteq> fv_mint w) \<longrightarrow>
       fee_account rt w (ms_ledger s) \<longrightarrow> fee_account rt w (ms_ledger s'))"
  by (auto simp: settle_notes_def dest!: fees split: if_split_asm)

lemma borrow_parts_keep [fees]:
  "borrow_handle_posted rt k summary s = Inr s' \<Longrightarrow>
     same_keys (ms_market s') (ms_market s) \<and>
     (fee_account rt w (ms_ledger s) \<longrightarrow> fee_account rt w (ms_ledger s'))"
  "borrow_handle_filled rt k ex summary info s = Inr (n, l, s') \<Longrightarrow>
     same_keys (ms_market s') (ms_market s) \<and>
     ((mk_address (ms_market s) = fv_market w \<longrightarrow> bk_underlying_token_vault k \<noteq> fv_vault w) \<longrightarrow>
       fee_account rt w (ms_ledger s) \<longrightarrow> fee_account rt w (ms_ledger s'))"
  by (auto simp: borrow_handle_posted_def borrow_handle_filled_def Let_def dest!: fees)

lemma borrow_order_keeps [fees]:
  "borrow_order rt en h k p ad ex a s = Inr (n, l, r, s') \<Longrightarrow>
     same_keys (ms_market s') (ms_market s) \<and>
     ((mk_address (ms_market s) = fv_market w \<longrightarrow> bk_underlying_token_vault k \<noteq> fv_vault w) \<longrightarrow>
       fee_account rt w (ms_ledger s) \<longrightarrow> fee_account rt w (ms_ledger s'))"
  by (auto simp: borrow_order_def Let_def dest!: fees split: if_split_asm)

lemma margin_lend_keeps [fees]:
  "margin_lend_order rt en mk p ad pay ex s = Inr (d, s') \<Longrightarrow>
     same_keys (ms_market s') (ms_market s) \<and>
     (fee_account rt w (ms_ledger s) \<longrightarrow> fee_account rt w (ms_ledger s'))"
  by (auto simp: margin_lend_order_def Let_def dest!: fees)

lemma margin_redeem_keeps [fees]:
  "margin_redeem rt rk wd d s = Inr s' \<Longrightarrow>
     same_keys (ms_market s') (ms_market s) \<and>
     ((mk_address (ms_market s) = fv_market w \<longrightarrow>
       mr_underlying_token_vault rk \<noteq> fv_vault w \<and> mr_ticket_collateral_mint rk \<noteq> fv_mint w) \<longrightarrow>
       fee_account rt w (ms_ledger s) \<longrightarrow> fee_account rt w (ms_ledger s'))"
  by (auto simp: margin_redeem_def dest!: fees)

lemma repay_loan_keeps [fees]:
  "repay_loan rt rk n skip l nx s = Inr (l', s') \<Longrightarrow>
     same_keys (ms_market s') (ms_market s) \<and>
     ((mk_address (ms_market s) = fv_market w \<longrightarrow> rk_claims_mint rk \<noteq> fv_mint w) \<longrightarrow>
       fee_account rt w (ms_ledger s) \<longrightarrow> fee_account rt w (ms_ledger s'))"
  by (auto simp: repay_loan_def Let_def dest!: fees split: if_split_asm)

subsection \<open>Handlers\<close>

text \<open>Settlement makes five payments; each is a call that keeps the vault.\<close>

lemma settle_keeps [fees]:
  assumes "settle_handler rt assoc h stk a s = Inr (r, s')"
  shows "same_keys (ms_market s') (ms_market s) \<and>
     (fee_safe w (ms_market s) \<longrightarrow> fee_account rt w (ms_ledger s) \<longrightarrow> fee_account rt w (ms_ledger s'))"
proof (intro conjI impI)
  assume safe: "fee_safe w (ms_market s)" and vault: "fee_account rt w (ms_ledger s)"
  let ?mint = "\<lambda>t. if fa_entitled_tickets (mu_assets (us_user s)) > 0 then
      bindE (verify_settlement_account_registration a (st_ticket_mint stk) (st_ticket_settlement stk)
        TicketSettlementAccountNotRegistered) (\<lambda>_.
      market_mint rt (st_ticket_mint stk) (st_ticket_settlement stk) (fa_entitled_tickets (mu_assets (us_user s))) t)
    else Inr t"
  let ?pay = "\<lambda>t. if fa_entitled_tokens (mu_assets (us_user s)) > 0 then
      bindE (verify_settlement_account_registration a (mk_underlying_token_mint (ms_market t))
        (st_underlying_settlement stk) UnderlyingSettlementAccountNotRegistered) (\<lambda>_.
      market_withdraw rt (st_underlying_token_vault stk) (st_underlying_settlement stk)
        (fa_entitled_tokens (mu_assets (us_user s))) t)
    else Inr t"
  from assms obtain n1 n2 n3 d1 d2 d3 s1 s2 s3 s4 s5 where keys: "check_settle_keys assoc stk (ms_market s) (us_user s)"
    and s1: "settle_notes rt (st_claims_mint stk) (st_claims stk) n1 d1 s = Inr s1"
    and s2: "settle_notes rt (st_ticket_collateral_mint stk) (st_ticket_collateral stk) n2 d2 s1 = Inr s2"
    and s3: "settle_notes rt (st_underlying_collateral_mint stk) (st_underlying_collateral stk) n3 d3 s2 = Inr s3"
    and s4: "?mint s3 = Inr s4" and s5: "?pay s4 = Inr s5"
    and s': "emit_all_balances rt (s5\<lparr>us_user := settlement_complete (us_user s5)\<rparr>) = Inr s'"
    by (auto simp: settle_handler_def Let_def)
  have k: "mk_address (ms_market s) = fv_market w \<longrightarrow> st_claims_mint stk \<noteq> fv_mint w \<and>
      st_ticket_collateral_mint stk \<noteq> fv_mint w \<and> st_underlying_collateral_mint stk \<noteq> fv_mint w \<and>
      st_underlying_token_vault stk \<noteq> fv_vault w"
    using keys safe by (simp add: check_settle_keys_def fee_safe_def)
  have f1: "mk_address (ms_market s1) = mk_address (ms_market s)" "fee_account rt w (ms_ledger s1)"
    using settle_notes_keep [OF s1] k vault by auto
  have f2: "mk_address (ms_market s2) = mk_address (ms_market s)" "fee_account rt w (ms_ledger s2)"
    using settle_notes_keep [OF s2] k f1 by auto
  have f3: "mk_address (ms_market s3) = mk_address (ms_market s)" "fee_account rt w (ms_ledger s3)"
    using settle_notes_keep [OF s3] k f2 by auto
  have f4: "mk_address (ms_market s4) = mk_address (ms_market s)" "fee_account rt w (ms_ledger s4)"
    using s4 f3 by (auto dest!: market_tokens_keep split: if_split_asm)
  have "fee_account rt w (ms_ledger s5)"
    using s5 f4 k by (auto dest!: market_tokens_keep split: if_split_asm)
  with balances_keep(4) [OF s'] show "fee_account rt w (ms_ledger s')" by simp
qed (use core_keys [OF user_handlers_core(1) [OF assms]] in auto)

lemma margin_handlers_keep [fees]:
  "refresh_position_handler rt h uk ma uo to uf tf expect a s = Inr (r, s') \<Longrightarrow>
     same_keys (ms_market s') (ms_market s) \<and> ms_ledger s' = ms_ledger s"
  "margin_redeem_deposit_handler rt rk d s = Inr s' \<Longrightarrow>
     same_keys (ms_market s') (ms_market s) \<and>
     (fee_safe w (ms_market s) \<longrightarrow> fee_account rt w (ms_ledger s) \<longrightarrow> fee_account rt w (ms_ledger s'))"
  "term_repay_handler rt rpk n l nx s = Inr (l', s') \<Longrightarrow>
     same_keys (ms_market s') (ms_market s) \<and>
     (fee_safe w (ms_market s) \<longrightarrow> fee_account rt w (ms_ledger s) \<longrightarrow> fee_account rt w (ms_ledger s'))"
  by (auto simp: refresh_position_handler_def margin_redeem_deposit_handler_def term_repay_handler_def fee_safe_def
      Let_def dest!: fees)

lemma configure_keeps [fees]:
  "configure_auto_roll_handler rt ma ow roll a s = Inr s' \<Longrightarrow>
     same_keys (ms_market s') (ms_market s) \<and>
     (fee_account rt w (ms_ledger s) \<longrightarrow> fee_account rt w (ms_ledger s'))"
  by (cases roll) (auto simp: configure_auto_roll_handler_def Let_def)

lemma initialize_user_keeps [fees]:
  "initialize_margin_user_handler rt h k a ex s = Inr (u, r, s') \<Longrightarrow>
     same_keys (ms_market s') (ms_market s) \<and>
     (fee_account rt w (ms_ledger s) \<longrightarrow> fee_account rt w (ms_ledger s'))"
  by (auto simp: initialize_margin_user_handler_def Let_def) (metis create_keeps(1))+

lemma margin_orders_keep [fees]:
  "margin_borrow_order_handler rt en assoc h ok bk p ad ex a s = Inr (l, r, s') \<Longrightarrow>
     same_keys (ms_market s') (ms_market s) \<and>
     ((fee_safe w (ms_market s)) \<longrightarrow>
       fee_account rt w (ms_ledger s) \<longrightarrow> fee_account rt w (ms_ledger s'))"
  "margin_lend_order_handler rt en ok mk p ad ed s = Inr (d, s') \<Longrightarrow>
     same_keys (ms_market s') (ms_market s) \<and>
     ((fee_safe w (ms_market s)) \<longrightarrow>
       fee_account rt w (ms_ledger s) \<longrightarrow> fee_account rt w (ms_ledger s'))"
  "margin_sell_tickets_order_handler rt en ok mu c cm sk p ad s = Inr s' \<Longrightarrow>
     same_keys (ms_market s') (ms_market s) \<and>
     ((fee_safe w (ms_market s)) \<longrightarrow>
       fee_account rt w (ms_ledger s) \<longrightarrow> fee_account rt w (ms_ledger s'))"
  by (auto simp: margin_borrow_order_handler_def margin_lend_order_handler_def margin_sell_tickets_order_handler_def
      check_borrow_keys_def check_sell_keys_def fee_safe_def Let_def dest!: fees)

lemma rolls_keep [fees]:
  "auto_roll_borrow_order_handler rt en h ok rbk ad l ex nx a s = Inr (new, old, r, s') \<Longrightarrow>
     same_keys (ms_market s') (ms_market s) \<and>
     ((fee_safe w (ms_market s)) \<longrightarrow>
       fee_account rt w (ms_ledger s) \<longrightarrow> fee_account rt w (ms_ledger s'))"
  "auto_roll_lend_order_handler rt en ok rlk ad d ed s = Inr (dn, s') \<Longrightarrow>
     same_keys (ms_market s') (ms_market s) \<and>
     ((fee_safe w (ms_market s)) \<longrightarrow>
       fee_account rt w (ms_ledger s) \<longrightarrow> fee_account rt w (ms_ledger s'))"
  by (auto simp: auto_roll_borrow_order_handler_def auto_roll_lend_order_handler_def check_borrow_keys_def
      roll_repay_keys_def roll_redeem_keys_def fee_safe_def Let_def dest!: fees)

lemma market_handlers_keep [fees]:
  "sell_tickets_order_handler rt en ok sk q p ad s = Inr s' \<Longrightarrow>
     same_keys (ms_market s') (ms_market s) \<and>
     ((fee_safe w (ms_market s)) \<longrightarrow>
       fee_account rt w (ms_ledger s) \<longrightarrow> fee_account rt w (ms_ledger s'))"
  "lend_order_handler rt en ok lk q p seed ad ex s = Inr (d, s') \<Longrightarrow>
     same_keys (ms_market s') (ms_market s) \<and>
     ((fee_safe w (ms_market s)) \<longrightarrow>
       fee_account rt w (ms_ledger s) \<longrightarrow> fee_account rt w (ms_ledger s'))"
  "cancel_order_handler rt en ok ow i s = Inr s' \<Longrightarrow>
     same_keys (ms_market s') (ms_market s) \<and>
     ((fee_safe w (ms_market s)) \<longrightarrow>
       fee_account rt w (ms_ledger s) \<longrightarrow> fee_account rt w (ms_ledger s'))"
  by (auto simp: sell_tickets_order_handler_def lend_order_handler_def cancel_order_handler_def check_sell_keys_def
      fee_safe_def Let_def split_beta dest!: fees)

lemma ticket_handlers_keep [fees]:
  "exchange_tokens_handler rt v t ut uk au q n s = Inr s' \<Longrightarrow>
     same_keys (ms_market s') (ms_market s) \<and>
     ((fee_safe w (ms_market s)) \<longrightarrow>
       fee_account rt w (ms_ledger s) \<longrightarrow> fee_account rt w (ms_ledger s'))"
  "stake_tickets_handler rt sxk q n seed ex s = Inr (d, s') \<Longrightarrow>
     same_keys (ms_market s') (ms_market s) \<and>
     ((fee_safe w (ms_market s)) \<longrightarrow>
       fee_account rt w (ms_ledger s) \<longrightarrow> fee_account rt w (ms_ledger s'))"
  "redeem_deposit_handler rt dk ow pa v ta q dp s = Inr s' \<Longrightarrow>
     same_keys (ms_market s') (ms_market s) \<and>
     ((fee_safe w (ms_market s)) \<longrightarrow>
       fee_account rt w (ms_ledger s) \<longrightarrow> fee_account rt w (ms_ledger s'))"
  by (auto simp: exchange_tokens_handler_def stake_tickets_handler_def redeem_deposit_handler_def fee_safe_def Let_def
      dest!: fees split: if_split_asm)

lemma pause_keeps [fees]:
  "pause_order_matching_handler rt en k au ak a s = Inr s' \<Longrightarrow>
     same_keys (ms_market s') (ms_market s) \<and>
     (fee_account rt w (ms_ledger s) \<longrightarrow> fee_account rt w (ms_ledger s'))"
  "resume_order_matching_handler rt en ok au ak a s = Inr s' \<Longrightarrow>
     same_keys (ms_market s') (ms_market s) \<and>
     (fee_account rt w (ms_ledger s) \<longrightarrow> fee_account rt w (ms_ledger s'))"
  by (auto simp: pause_order_matching_handler_def resume_order_matching_handler_def Let_def split: if_split_asm)

subsection \<open>The crank\<close>

lemma crank_accounts_keep [fees]:
  "next_account c = Inr (k, c') \<Longrightarrow> ms_market c' = ms_market c \<and> ms_ledger c' = ms_ledger c"
  "next_user_account k c = Inr c' \<Longrightarrow> ms_market c' = ms_market c \<and> ms_ledger c' = ms_ledger c"
  "next_margin_user k c = Inr (u, c') \<Longrightarrow> ms_market c' = ms_market c \<and> ms_ledger c' = ms_ledger c"
  "init_next rt seeds ex c = Inr (k, c') \<Longrightarrow> ms_market c' = ms_market c \<and> ms_ledger c' = ms_ledger c"
  "next_seed c = Inr (n, c') \<Longrightarrow> ms_market c' = ms_market c \<and> ms_ledger c' = ms_ledger c"
  "user_event g rt u c = Inr c' \<Longrightarrow> ms_market c' = ms_market c \<and> ms_ledger c' = ms_ledger c"
  by (auto simp: next_account_def next_user_account_def next_margin_user_def init_next_def next_seed_def user_event_def
      split: list.splits)

lemma crank_adapters_keep [fees]:
  "try_push_event ad e mk tk c = Inr c' \<Longrightarrow> ms_market c' = ms_market c \<and> ms_ledger c' = ms_ledger c"
  by (auto simp: try_push_event_def Let_def split: if_splits list.splits option.splits sum.splits fault.splits)

lemma crank_fill_adapters_keep [fees]:
  "try_update_fill_adapters f mk tk c = Inr c' \<Longrightarrow> ms_market c' = ms_market c \<and> ms_ledger c' = ms_ledger c"
  by (auto simp: try_update_fill_adapters_def Let_def dest!: fees)

lemma crank_extract_keeps [fees]:
  "extract_fill_accounts rt f mk tk c = Inr (x, c') \<Longrightarrow> ms_market c' = ms_market c \<and> ms_ledger c' = ms_ledger c"
  by (cases mk) (auto simp: extract_fill_accounts_def Let_def dest!: fees split: if_split_asm)

lemma crank_margin_fills_keep [fees]:
  "handle_lend_fill rt n q i u ta s = Inr (m, s') \<Longrightarrow>
     same_keys (ms_market s') (ms_market s) \<and>
     (fee_safe w (ms_market s) \<longrightarrow> fee_account rt w (ms_ledger s) \<longrightarrow> fee_account rt w (ms_ledger s'))"
  "handle_borrow_fill rt n q i u ta s = Inr (m, s') \<Longrightarrow>
     same_keys (ms_market s') (ms_market s) \<and>
     (fee_safe w (ms_market s) \<longrightarrow> fee_account rt w (ms_ledger s) \<longrightarrow> fee_account rt w (ms_ledger s'))"
  by (cases ta rule: term_account_cases;
      auto simp: handle_lend_fill_def handle_borrow_fill_def fee_safe_def Let_def dest!: fees)+

lemma crank_fills_keep [fees]:
  "handle_margin_fill rt f mk tk u ta s = Inr s' \<Longrightarrow>
     same_keys (ms_market s') (ms_market s) \<and>
     (fee_safe w (ms_market s) \<longrightarrow> fee_account rt w (ms_ledger s) \<longrightarrow> fee_account rt w (ms_ledger s'))"
  "handle_signer_fill rt f mk tk ac s = Inr s' \<Longrightarrow>
     same_keys (ms_market s') (ms_market s) \<and>
     (fee_safe w (ms_market s) \<longrightarrow> fee_account rt w (ms_ledger s) \<longrightarrow> fee_account rt w (ms_ledger s'))"
  by (cases "market_side (opposite (fe_taker_side f))"; cases ac;
      auto simp: handle_margin_fill_def handle_signer_fill_def fee_safe_def Let_def dest!: fees)+

lemma crank_fill_keeps [fees]:
  assumes "handle_fill rt f mk tk s = Inr s'"
  shows "same_keys (ms_market s') (ms_market s) \<and>
     (fee_safe w (ms_market s) \<longrightarrow> fee_account rt w (ms_ledger s) \<longrightarrow> fee_account rt w (ms_ledger s'))"
proof -
  from assms obtain accounts t where t: "extract_fill_accounts rt f mk tk s = Inr (accounts, t)"
    and r: "(case accounts of MarginFill u term_account \<Rightarrow> handle_margin_fill rt f mk tk u term_account t
          | _ \<Rightarrow> handle_signer_fill rt f mk tk accounts t) = Inr s'"
    by (auto simp: handle_fill_def)
  from r have "same_keys (ms_market s') (ms_market t) \<and>
     (fee_safe w (ms_market t) \<longrightarrow> fee_account rt w (ms_ledger t) \<longrightarrow> fee_account rt w (ms_ledger s'))"
    by (cases accounts) (auto dest!: crank_fills_keep)
  with crank_extract_keeps [OF t] show ?thesis by simp
qed

lemma crank_out_keeps [fees]:
  "handle_out rt e i s = Inr s' \<Longrightarrow>
     same_keys (ms_market s') (ms_market s) \<and>
     (fee_safe w (ms_market s) \<longrightarrow> fee_account rt w (ms_ledger s) \<longrightarrow> fee_account rt w (ms_ledger s'))"
  by (cases i; cases "market_side (oe_side e)"; cases "oe_side e")
    (auto simp: handle_out_def fee_safe_def Let_def dest!: fees)

lemma crank_event_keeps:
  "handle_event rt e s = Inr s' \<Longrightarrow>
     same_keys (ms_market s') (ms_market s) \<and>
     (fee_safe w (ms_market s) \<longrightarrow> fee_account rt w (ms_ledger s) \<longrightarrow> fee_account rt w (ms_ledger s'))"
  by (cases e) (auto dest!: crank_fill_keeps crank_out_keeps)

lemma crank_events_keep:
  assumes "foldE (handle_event rt) es s = Inr s'" "fee_safe w (ms_market s)" "fee_account rt w (ms_ledger s)"
  shows "fee_account rt w (ms_ledger s')"
proof -
  have "fee_safe w (ms_market s') \<and> fee_account rt w (ms_ledger s')"
    using assms(1)
  proof (rule foldE_invariant)
    fix e u v assume "fee_safe w (ms_market u) \<and> fee_account rt w (ms_ledger u)" "handle_event rt e u = Inr v"
    with crank_event_keeps [of e u v] show "fee_safe w (ms_market v) \<and> fee_account rt w (ms_ledger v)"
      by (simp add: fee_safe_def)
  qed (use assms(2,3) in simp)
  then show ?thesis ..
qed

lemma consume_events_keeps:
  "consume_events_handler rt en crank c n s = Inr s' \<Longrightarrow> fee_safe w (ms_market s) \<Longrightarrow>
     fee_account rt w (ms_ledger s) \<Longrightarrow> fee_account rt w (ms_ledger s')"
  by (auto simp: consume_events_handler_def dest: crank_events_keep)

subsection \<open>Entries\<close>

lemma initialize_market_keeps:
  "initialize_market_handler rt k p a ex l = Inr (m, e, l') \<Longrightarrow> fee_account rt w l \<Longrightarrow> fee_account rt w l'"
  by (auto simp: initialize_market_handler_def init_market_vault_def init_market_mint_def Let_def)
    (metis create_keeps)+

lemma margin_entries_keep:
  "settle_entry sdk env rt ks s = Inr s' \<Longrightarrow> all_fee_safe w s \<Longrightarrow> fee_account rt w (fp_ledger s) \<Longrightarrow>
     fee_account rt w (fp_ledger s')"
  "refresh_position_entry sdk env rt expect ks s = Inr s' \<Longrightarrow> all_fee_safe w s \<Longrightarrow> fee_account rt w (fp_ledger s) \<Longrightarrow>
     fee_account rt w (fp_ledger s')"
  "configure_auto_roll_entry env rt roll ks s = Inr s' \<Longrightarrow> all_fee_safe w s \<Longrightarrow> fee_account rt w (fp_ledger s) \<Longrightarrow>
     fee_account rt w (fp_ledger s')"
  "margin_redeem_deposit_entry sdk rt ks s = Inr s' \<Longrightarrow> all_fee_safe w s \<Longrightarrow> fee_account rt w (fp_ledger s) \<Longrightarrow>
     fee_account rt w (fp_ledger s')"
  "term_repay_entry sdk rt n ks s = Inr s' \<Longrightarrow> all_fee_safe w s \<Longrightarrow> fee_account rt w (fp_ledger s) \<Longrightarrow>
     fee_account rt w (fp_ledger s')"
  "initialize_margin_user_entry sdk env rt ks s = Inr s' \<Longrightarrow> all_fee_safe w s \<Longrightarrow> fee_account rt w (fp_ledger s) \<Longrightarrow>
     fee_account rt w (fp_ledger s')"
  by (auto simp: settle_entry_def refresh_position_entry_def configure_auto_roll_entry_def
      margin_redeem_deposit_entry_def term_repay_entry_def initialize_margin_user_entry_def all_fee_safe_def Let_def
      dest!: fees)

lemma order_entries_keep:
  "margin_borrow_order_entry sdk env rt en p ks s = Inr s' \<Longrightarrow> all_fee_safe w s \<Longrightarrow> fee_account rt w (fp_ledger s) \<Longrightarrow>
     fee_account rt w (fp_ledger s')"
  "margin_sell_tickets_order_entry sdk env rt en p ks s = Inr s' \<Longrightarrow> all_fee_safe w s \<Longrightarrow>
     fee_account rt w (fp_ledger s) \<Longrightarrow> fee_account rt w (fp_ledger s')"
  "margin_lend_order_entry sdk env rt en p ks s = Inr s' \<Longrightarrow> all_fee_safe w s \<Longrightarrow> fee_account rt w (fp_ledger s) \<Longrightarrow>
     fee_account rt w (fp_ledger s')"
  "auto_roll_borrow_order_entry sdk env rt en ks s = Inr s' \<Longrightarrow> all_fee_safe w s \<Longrightarrow> fee_account rt w (fp_ledger s) \<Longrightarrow>
     fee_account rt w (fp_ledger s')"
  "auto_roll_lend_order_entry sdk env rt en ks s = Inr s' \<Longrightarrow> all_fee_safe w s \<Longrightarrow> fee_account rt w (fp_ledger s) \<Longrightarrow>
     fee_account rt w (fp_ledger s')"
  "sell_tickets_order_entry sdk env rt en p ks s = Inr s' \<Longrightarrow> all_fee_safe w s \<Longrightarrow> fee_account rt w (fp_ledger s) \<Longrightarrow>
     fee_account rt w (fp_ledger s')"
  "cancel_order_entry rt en i ks s = Inr s' \<Longrightarrow> all_fee_safe w s \<Longrightarrow> fee_account rt w (fp_ledger s) \<Longrightarrow>
     fee_account rt w (fp_ledger s')"
  "lend_order_entry sdk env rt en p seed ks s = Inr s' \<Longrightarrow> all_fee_safe w s \<Longrightarrow> fee_account rt w (fp_ledger s) \<Longrightarrow>
     fee_account rt w (fp_ledger s')"
  by (auto simp: margin_borrow_order_entry_def margin_sell_tickets_order_entry_def margin_lend_order_entry_def
      auto_roll_borrow_order_entry_def auto_roll_lend_order_entry_def sell_tickets_order_entry_def
      cancel_order_entry_def lend_order_entry_def all_fee_safe_def dest!: fees)

lemma ticket_entries_keep:
  "exchange_tokens_entry sdk env rt n ks s = Inr s' \<Longrightarrow> all_fee_safe w s \<Longrightarrow> fee_account rt w (fp_ledger s) \<Longrightarrow>
     fee_account rt w (fp_ledger s')"
  "stake_tickets_entry sdk env rt n seed ks s = Inr s' \<Longrightarrow> all_fee_safe w s \<Longrightarrow> fee_account rt w (fp_ledger s) \<Longrightarrow>
     fee_account rt w (fp_ledger s')"
  "redeem_deposit_entry sdk env rt ks s = Inr s' \<Longrightarrow> all_fee_safe w s \<Longrightarrow> fee_account rt w (fp_ledger s) \<Longrightarrow>
     fee_account rt w (fp_ledger s')"
  "consume_events_entry sdk env rt en n seq ks s = Inr s' \<Longrightarrow> all_fee_safe w s \<Longrightarrow> fee_account rt w (fp_ledger s) \<Longrightarrow>
     fee_account rt w (fp_ledger s')"
  "pause_order_matching_entry env rt en ks s = Inr s' \<Longrightarrow> all_fee_safe w s \<Longrightarrow> fee_account rt w (fp_ledger s) \<Longrightarrow>
     fee_account rt w (fp_ledger s')"
  "resume_order_matching_entry env rt en ks s = Inr s' \<Longrightarrow> all_fee_safe w s \<Longrightarrow> fee_account rt w (fp_ledger s) \<Longrightarrow>
     fee_account rt w (fp_ledger s')"
  by (auto simp: exchange_tokens_entry_def stake_tickets_entry_def redeem_deposit_entry_def consume_events_entry_def
      pause_order_matching_entry_def resume_order_matching_entry_def all_fee_safe_def dest!: fees
      dest: consume_events_keeps)

lemma initialize_market_entry_keeps:
  "initialize_market_entry sdk env rt p ks s = Inr s' \<Longrightarrow> fee_account rt w (fp_ledger s) \<Longrightarrow> fee_account rt w (fp_ledger s')"
  by (auto simp: initialize_market_entry_def dest: initialize_market_keeps)

text \<open>The other instructions leave the token program alone.\<close>

lemma other_entries_keep:
  "recover_uninitialized_entry env rt ks s = Inr s' \<Longrightarrow> fp_ledger s' = fp_ledger s"
  "authorize_crank_entry sdk env rt ks s = Inr s' \<Longrightarrow> fp_ledger s' = fp_ledger s"
  "revoke_crank_entry env rt ks s = Inr s' \<Longrightarrow> fp_ledger s' = fp_ledger s"
  "modify_market_entry env rt bytes offset ks s = Inr s' \<Longrightarrow> fp_ledger s' = fp_ledger s"
  "initialize_orderbook_entry sdk env rt en n ks s = Inr s' \<Longrightarrow> fp_ledger s' = fp_ledger s"
  "transfer_deposit_entry rt new ks s = Inr s' \<Longrightarrow> fp_ledger s' = fp_ledger s"
  "toggle_auto_roll_loan_entry rt ks s = Inr s' \<Longrightarrow> fp_ledger s' = fp_ledger s"
  "toggle_auto_roll_deposit_entry rt ks s = Inr s' \<Longrightarrow> fp_ledger s' = fp_ledger s"
  "register_adapter_entry sdk env rt n ks s = Inr s' \<Longrightarrow> fp_ledger s' = fp_ledger s"
  "pop_adapter_events_entry env rt n ks s = Inr s' \<Longrightarrow> fp_ledger s' = fp_ledger s"
  by (auto simp: recover_uninitialized_entry_def authorize_crank_entry_def revoke_crank_entry_def modify_market_entry_def
      initialize_orderbook_entry_def transfer_deposit_entry_def toggle_auto_roll_loan_entry_def
      toggle_auto_roll_deposit_entry_def register_adapter_entry_def pop_adapter_events_entry_def)

lemmas entries_keep =
  margin_entries_keep order_entries_keep ticket_entries_keep initialize_market_entry_keeps

lemma dispatch_keeps:
  "ft_dispatch sdk env rt en d ks s = Inr s' \<Longrightarrow> all_fee_safe w s \<Longrightarrow> fee_account rt w (fp_ledger s) \<Longrightarrow>
     fee_account rt w (fp_ledger s')"
  by (cases d) (auto dest: entries_keep other_entries_keep)

end

interpretation ledger_fees: fee_vault "ledger_runtime g [] c" w for g c w
  by unfold_locales (simp_all add: ledger_runtime_spl)

subsection \<open>The fees of a market\<close>

lemma fee_account_runtime:
  "fee_account (runtime_of (instruction rt xs t) ms) w l = fee_account rt w l"
  by (simp add: fee_account_def instruction_def)

lemma spl_runtime_of [simp]: "spl_token (runtime_of rt ms) = spl_token rt"
  by (simp add: spl_token_def transfer_law_def mint_law_def burn_law_def close_law_def create_law_def create_mint_law_def)

lemma markets_fee_safe:
  assumes "all_markets_ok rt s" "market_pda rt ''underlying_token_vault'' (fv_market w) \<noteq> fv_vault w"
    and "fv_mint w \<notin> {market_pda rt ''claim_notes'' (fv_market w), market_pda rt ''ticket_collateral_notes'' (fv_market w),
      market_pda rt ''underlying_collateral_notes'' (fv_market w)}"
  shows "all_fee_safe w s"
  using assms by (auto simp: all_markets_ok_def market_addresses_ok_def all_fee_safe_def fee_safe_def)

lemma process_keeps_fees:
  assumes "spl_token rt" "fv_market w \<notin> set (signers_of (ix_accounts ix))" "all_fee_safe w s"
    and "fee_account rt w (fp_ledger s)" "ft_process sdk env (instruction rt [] t) en ix s = Inr s'"
  shows "fee_account rt w (fp_ledger s')"
proof -
  let ?rt = "runtime_of (instruction rt [] t) (ix_accounts ix)"
  have "fee_vault ?rt w"
    using assms(1,2) by unfold_locales simp_all
  from fee_vault.dispatch_keeps [OF this assms(5) [unfolded ft_process_def] assms(3)] assms(4) show ?thesis
    by (simp add: fee_account_runtime)
qed

text \<open>
  C13: The fees of a market never leave its fee vault. Whatever instructions the program executes from a state whose
  markets have the derived addresses, the balance of the vault never falls.
\<close>

theorem fees_never_leave:
  fixes s :: "('b, 'l) FtProgram"
  assumes "spl_token rt" "all_markets_ok rt s" "ft_run sdk rt en steps s = Inr s'"
    and "\<forall>(env, t, ix) \<in> set steps. k \<notin> set (signers_of (ix_accounts ix))"
    and "fees = market_pda rt ''fee_vault'' k" "market_pda rt ''underlying_token_vault'' k \<noteq> fees"
    and "mint \<notin> {market_pda rt ''claim_notes'' k, market_pda rt ''ticket_collateral_notes'' k,
      market_pda rt ''underlying_collateral_notes'' k}"
    and "rt_account rt (fp_ledger s) fees = Some v" "ta_owner v = k" "ta_mint v = mint" "ta_delegate v = None"
  shows "\<exists>v'. rt_account rt (fp_ledger s') fees = Some v' \<and> ta_amount v \<le> ta_amount v'"
proof -
  let ?w = "\<lparr>fv_market = k, fv_mint = mint, fv_vault = fees, fv_amount = ta_amount v\<rparr>"
  have safe: "all_markets_ok rt u \<Longrightarrow> all_fee_safe ?w u" for u :: "('b, 'l) FtProgram"
    using assms(6,7) by (intro markets_fee_safe) simp_all
  have "all_markets_ok rt s' \<and> fee_account rt ?w (fp_ledger s')"
    using assms(3) [unfolded ft_run_def]
  proof (rule foldE_invariant)
    fix x u r
    assume x: "x \<in> set steps" and u: "all_markets_ok rt u \<and> fee_account rt ?w (fp_ledger u)"
      and r: "(case x of (env, t, ix) \<Rightarrow> ft_process sdk env (instruction rt [] t) en ix) u = Inr r"
    obtain env t ix where x3: "x = (env, t, ix)" by (cases x) auto
    from r have "ft_run sdk rt en [x] u = Inr r" by (simp add: ft_run_def)
    moreover have "fee_account rt ?w (fp_ledger r)"
    proof (rule process_keeps_fees [OF assms(1)])
      show "fv_market ?w \<notin> set (signers_of (ix_accounts ix))" using assms(4) x by (auto simp: x3)
      show "all_fee_safe ?w u" "fee_account rt ?w (fp_ledger u)" using u safe by blast+
      show "ft_process sdk env (instruction rt [] t) en ix u = Inr r" using r by (simp add: x3)
    qed
    ultimately show "all_markets_ok rt r \<and> fee_account rt ?w (fp_ledger r)"
      using u ft_run_markets by blast
  next
    show "all_markets_ok rt s \<and> fee_account rt ?w (fp_ledger s)"
      using assms(2,8-11) by (simp add: fee_account_def)
  qed
  then show ?thesis by (auto simp: fee_account_def)
qed

theorem fees_never_leave_witness:
  "\<exists>s s' v'. ft_run (sample_sdk ft_address) (ledger_runtime ft_address [] 0) filling_engine
       [(sample_ft_env, 6, fb_initialize_orderbook (sample_sdk ft_address) (sample_ft_builder (sample_sdk ft_address)) 4 1)]
       s = Inr s' \<and> lg_accounts (fp_ledger s') 206 = Some v' \<and> 5 \<le> ta_amount v'"
proof -
  let ?sdk = "sample_sdk ft_address" and ?b = "sample_ft_builder (sample_sdk ft_address)"
  let ?rt = "ledger_runtime ft_address [] 0"
  let ?create = "[(sample_ft_env, 5, fb_initialize_market ?sdk ?b 4 sample_ft_params)]"
  let ?steps = "[(sample_ft_env, 6, fb_initialize_orderbook ?sdk ?b 4 1)]"
  let ?v = "\<lparr>ta_mint = 7, ta_owner = 100, ta_delegate = None, ta_amount = 5\<rparr>"
  let ?collect = "\<lambda>s. s\<lparr>fp_ledger := (fp_ledger s)\<lparr>lg_accounts := (lg_accounts (fp_ledger s))(206 \<mapsto> ?v)\<rparr>\<rparr>"
  have "case ft_run ?sdk ?rt filling_engine ?create sample_ft_program of
      Inr s \<Rightarrow> (case ft_run ?sdk ?rt filling_engine ?steps (?collect s) of Inr _ \<Rightarrow> True | _ \<Rightarrow> False) | _ \<Rightarrow> False"
    by (simp add: ft_sample_run)
  then obtain s0 s' where create: "ft_run ?sdk ?rt filling_engine ?create sample_ft_program = Inr s0"
    and run: "ft_run ?sdk ?rt filling_engine ?steps (?collect s0) = Inr s'"
    by (auto split: sum.splits)
  have "all_markets_ok ?rt s0"
    using ft_run_markets [OF create] by (simp add: all_markets_ok_def sample_ft_program_def)
  then have "all_markets_ok ?rt (?collect s0)" by (simp add: all_markets_ok_def)
  moreover have "\<forall>(env, t, ix) \<in> set ?steps. 100 \<notin> set (signers_of (ix_accounts ix))"
    by (simp add: ft_sample_run)
  ultimately have "\<exists>v'. rt_account ?rt (fp_ledger s') 206 = Some v' \<and> ta_amount ?v \<le> ta_amount v'"
    by (rule fees_never_leave [OF ledger_runtime_spl _ run, where k = 100 and mint = 7])
      (simp_all add: market_pda_def ft_address_def)
  then obtain v' where "lg_accounts (fp_ledger s') 206 = Some v'" "5 \<le> ta_amount v'" by auto
  with run show ?thesis by blast
qed

end
