(* ===== verification/MarginSwap.thy ===== *)
theory MarginSwap
  imports PoolHandlers
begin

text \<open>
  The margin swap program, \<open>programs/margin-swap\<close>: it exchanges the deposits of a margin account on
  external venues. A swap withdraws from a margin pool, goes through up to three legs, each on one
  venue or split between two calls, and deposits the proceeds.

  The venues are outside the repository and a parameter, \<open>Venues\<close>: what the program reads of their
  accounts and the effect of their instructions on the ledger, about which nothing is assumed. The
  margin pools are the ones of \<open>PoolHandlers\<close>, called through their instructions.
\<close>

subsection \<open>Routes\<close>

datatype SwapError =
    NoSwapTokensWithdrawn | InvalidSwapRoute | InvalidSwapRouteParam | SlippageExceeded
  | DisallowedDirectInstruction | InvalidSplitDestination | InvalidLiquidator | InvalidFeeDestination
  | UnknownProgramId

type_synonym 'a swap_tx = "(SwapError, 'a) tx"

datatype SwapRouteIdentifier = Empty | Spl | Whirlpool | SaberStable | OpenBook

record SwapRouteDetail =
  route_a :: SwapRouteIdentifier
  route_b :: SwapRouteIdentifier
  destination_mint :: Pubkey
  split :: nat

definition default_route :: SwapRouteDetail where
  "default_route = \<lparr>route_a = Empty, route_b = Empty, destination_mint = pubkey_default, split = 0\<rparr>"

definition validate :: "SwapRouteDetail \<Rightarrow> bool swap_tx" where
  "validate r =
     (if route_a r = Empty \<and> route_b r = Empty then Inr False
      else if route_b r = Empty \<and> split r = 0 then Inr True
      else if route_a r = Empty \<or> split r \<le> 9 \<or> split r \<ge> 91 then err (ProgramErr InvalidSwapRouteParam)
      else Inr True)"

type_synonym Routes = "SwapRouteDetail \<times> SwapRouteDetail \<times> SwapRouteDetail"

definition valid_swaps :: "Routes \<Rightarrow> nat swap_tx" where
  "valid_swaps = (\<lambda>(r0, r1, r2).
     bindE (validate r0) (\<lambda>a. bindE (validate r1) (\<lambda>b. bindE (validate r2) (\<lambda>c.
     if (\<not> b \<and> c) \<or> \<not> a then err (ProgramErr InvalidSwapRoute)
     else Inr (if b \<and> c then 3 else if b then 2 else 1)))))"

definition route_list :: "Routes \<Rightarrow> SwapRouteDetail list" where
  "route_list = (\<lambda>(r0, r1, r2). [r0, r1, r2])"

definition LIQUIDATION_FEE :: nat where "LIQUIDATION_FEE = 300"

definition liquidation_fee :: "nat \<Rightarrow> nat swap_tx" where
  "liquidation_fee amount_out =
     bindE (plain_mul 128 amount_out LIQUIDATION_FEE) (\<lambda>x.
     bindE (plain_div x 10000) (\<lambda>fee. if u64 fee then Inr fee else panic))"

text \<open>The address of the control authority, its 32 bytes as a number.\<close>

definition CONTROL_AUTHORITY :: Pubkey where
  "CONTROL_AUTHORITY = 23522917055470925175148208382345787422291732953914197371826992319475391900159"

subsection \<open>Swap programs\<close>

datatype SwapProgram = Spl2 | OrcaV1 | OrcaV2

fun swap_program_id :: "SwapProgram \<Rightarrow> Pubkey" where
  "swap_program_id Spl2 = 3005811855272418675002752047281797966117475919198962116569294598437590793185"
| "swap_program_id OrcaV1 = 85569378670050260706446066695897209470127560427169937852225189252719493539036"
| "swap_program_id OrcaV2 = 57140656092937676209318591234803599767746485479502391896916656166771654564080"

text \<open>The macro \<open>use_client!\<close>: the client library of a registered program.\<close>

definition use_client :: "Pubkey \<Rightarrow> SwapProgram swap_tx" where
  "use_client k = ok_or (find (\<lambda>p. swap_program_id p = k) [Spl2, OrcaV1, OrcaV2]) (ProgramErr UnknownProgramId)"

text \<open>
  Calls of the venues. Token swap: pool, pool authority, user authority, source, pool source, pool
  destination, destination, pool mint, fee account, amount in, minimum out. Saber: pool, pool
  authority, user authority, source, pool source, destination, pool destination, fees, amount in,
  minimum out. Whirlpool: authority, pool, vaults, the user's accounts of the two tokens, tick arrays, oracle,
  amount, threshold, price limit, exact input, direction. OpenBook: market, open orders, queues,
  bids, asks, payer, authority, vaults, side, limit price, maximal base and quote amounts.
\<close>

datatype BookSide = BookBid | BookAsk

datatype VenueIx =
    SplSwapIx SwapProgram Pubkey Pubkey Pubkey Pubkey Pubkey Pubkey Pubkey Pubkey Pubkey nat nat
  | SaberSwapIx Pubkey Pubkey Pubkey Pubkey Pubkey Pubkey Pubkey Pubkey nat nat
  | WhirlpoolSwapIx Pubkey Pubkey Pubkey Pubkey Pubkey Pubkey "Pubkey list" Pubkey nat nat nat bool bool
  | NewOrderV3 Pubkey Pubkey Pubkey Pubkey Pubkey Pubkey Pubkey Pubkey Pubkey Pubkey BookSide nat nat nat
  | SettleFunds Pubkey Pubkey Pubkey Pubkey Pubkey Pubkey Pubkey Pubkey Pubkey
  | InitOpenOrdersIx Pubkey Pubkey Pubkey
  | CloseOpenOrdersIx Pubkey Pubkey Pubkey Pubkey

record 'l Venues =
  vn_invoke :: "Pubkey list \<Rightarrow> VenueIx \<Rightarrow> 'l \<Rightarrow> 'l option"
  vn_owner :: "'l \<Rightarrow> Pubkey \<Rightarrow> Pubkey"
  vn_whirlpool_mint_b :: "'l \<Rightarrow> Pubkey \<Rightarrow> Pubkey option"
  vn_book_market :: "'l \<Rightarrow> Pubkey \<Rightarrow> (nat \<times> Pubkey) option"
  vn_associated :: "Pubkey \<Rightarrow> Pubkey \<Rightarrow> Pubkey"
  vn_saber :: Pubkey
  vn_whirlpool :: Pubkey
  vn_dex :: Pubkey
  vn_min_sqrt_price :: nat
  vn_max_sqrt_price :: nat

datatype SwapEvent =
    RouteSwapped Pubkey Pubkey nat nat nat Routes
  | ProtocolSwapFee Pubkey Pubkey nat SwapRouteIdentifier

record 'l SwapState =
  sw_ledger :: 'l
  sw_pools :: "Pubkey \<Rightarrow> MarginPool option"
  sw_events :: "SwapEvent list"

definition venue_cpi :: "'l Runtime \<Rightarrow> 'l Venues \<Rightarrow> VenueIx \<Rightarrow> 'l SwapState \<Rightarrow> 'l SwapState swap_tx" where
  "venue_cpi rt vn ix s =
     bindE (ok_or (vn_invoke vn (rt_signers rt) ix (sw_ledger s)) AdapterErr) (\<lambda>l. Inr (s\<lparr>sw_ledger := l\<rparr>))"

definition pool_withdraw_cpi ::
  "'l Runtime \<Rightarrow> WithdrawAccounts \<Rightarrow> ChangeKind \<Rightarrow> nat \<Rightarrow> 'l SwapState \<Rightarrow> 'l SwapState swap_tx" where
  "pool_withdraw_cpi rt ac ck amount s =
     bindE (ok_or (sw_pools s (wd_margin_pool ac)) AccountErr) (\<lambda>pool.
     bindE (lift_err (\<lambda>_. AdapterErr) (withdraw_handler rt ac ck amount pool (sw_ledger s))) (\<lambda>(pool, l, _).
     Inr (s\<lparr>sw_ledger := l, sw_pools := (sw_pools s)(wd_margin_pool ac \<mapsto> pool)\<rparr>)))"

definition pool_deposit_cpi ::
  "'l Runtime \<Rightarrow> DepositAccounts \<Rightarrow> ChangeKind \<Rightarrow> nat \<Rightarrow> 'l SwapState \<Rightarrow> 'l SwapState swap_tx" where
  "pool_deposit_cpi rt ac ck amount s =
     bindE (ok_or (sw_pools s (dep_margin_pool ac)) AccountErr) (\<lambda>pool.
     bindE (lift_err (\<lambda>_. AdapterErr) (deposit_handler rt ac ck amount pool (sw_ledger s))) (\<lambda>(pool, l, _).
     Inr (s\<lparr>sw_ledger := l, sw_pools := (sw_pools s)(dep_margin_pool ac \<mapsto> pool)\<rparr>)))"

definition swap_amount_of :: "'l Runtime \<Rightarrow> Pubkey \<Rightarrow> 'l SwapState \<Rightarrow> nat swap_tx" where
  "swap_amount_of rt k s = accessor_amount rt (sw_ledger s) k"

definition swap_mint_of :: "'l Runtime \<Rightarrow> Pubkey \<Rightarrow> 'l SwapState \<Rightarrow> Pubkey swap_tx" where
  "swap_mint_of rt k s = bindE (load_token_account rt (sw_ledger s) k) (\<lambda>a. Inr (ta_mint a))"

subsection \<open>Token swap programs\<close>

record SplSwapInfo =
  ss_swap_pool :: Pubkey
  ss_authority :: Pubkey
  ss_vault_a :: Pubkey
  ss_vault_b :: Pubkey
  ss_token_mint :: Pubkey
  ss_fee_account :: Pubkey
  ss_swap_program :: Pubkey

text \<open>\<open>try_accounts\<close> takes the accounts of a venue from the remaining accounts.\<close>

definition take_spl_accounts :: "Pubkey list \<Rightarrow> (SplSwapInfo \<times> Pubkey list) swap_tx" where
  "take_spl_accounts ks =
     (case take 7 ks of
        [p, a, va, vb, m, f, prog] \<Rightarrow>
          Inr (\<lparr>ss_swap_pool = p, ss_authority = a, ss_vault_a = va, ss_vault_b = vb, ss_token_mint = m,
                ss_fee_account = f, ss_swap_program = prog\<rparr>, drop 7 ks)
      | _ \<Rightarrow> err AccountErr)"

definition spl_swap ::
  "'l Runtime \<Rightarrow> 'l Venues \<Rightarrow> SplSwapInfo \<Rightarrow> Pubkey \<Rightarrow> Pubkey \<Rightarrow> Pubkey \<Rightarrow> nat \<Rightarrow> nat \<Rightarrow>
     'l SwapState \<Rightarrow> 'l SwapState swap_tx" where
  "spl_swap rt vn k source target authority amount_in minimum_amount_out s =
     bindE (swap_mint_of rt source s) (\<lambda>source_mint.
     bindE (swap_mint_of rt (ss_vault_a k) s) (\<lambda>mint_a.
     let (source_vault, target_vault) =
           if source_mint = mint_a then (ss_vault_a k, ss_vault_b k) else (ss_vault_b k, ss_vault_a k) in
     bindE (use_client (ss_swap_program k)) (\<lambda>prog.
     venue_cpi rt vn (SplSwapIx prog (ss_swap_pool k) (ss_authority k) authority source source_vault target_vault
       target (ss_token_mint k) (ss_fee_account k) amount_in minimum_amount_out) s)))"

subsection \<open>Saber\<close>

record SaberSwapInfo =
  sb_swap_pool :: Pubkey
  sb_authority :: Pubkey
  sb_vault_a :: Pubkey
  sb_vault_b :: Pubkey
  sb_admin_fee_a :: Pubkey
  sb_admin_fee_b :: Pubkey

definition take_saber_accounts :: "'l Venues \<Rightarrow> Pubkey list \<Rightarrow> (SaberSwapInfo \<times> Pubkey list) swap_tx" where
  "take_saber_accounts vn ks =
     (case take 7 ks of
        [p, a, va, vb, fa, fb, prog] \<Rightarrow>
          bindE (constraint (prog = vn_saber vn)) (\<lambda>_.
          Inr (\<lparr>sb_swap_pool = p, sb_authority = a, sb_vault_a = va, sb_vault_b = vb, sb_admin_fee_a = fa,
                sb_admin_fee_b = fb\<rparr>, drop 7 ks))
      | _ \<Rightarrow> err AccountErr)"

definition saber_swap ::
  "'l Runtime \<Rightarrow> 'l Venues \<Rightarrow> SaberSwapInfo \<Rightarrow> Pubkey \<Rightarrow> Pubkey \<Rightarrow> Pubkey \<Rightarrow> nat \<Rightarrow> nat \<Rightarrow>
     'l SwapState \<Rightarrow> 'l SwapState swap_tx" where
  "saber_swap rt vn k source target authority amount_in minimum_amount_out s =
     bindE (swap_mint_of rt source s) (\<lambda>source_mint.
     bindE (swap_mint_of rt (sb_vault_a k) s) (\<lambda>mint_a.
     let (source_vault, target_vault, fees) =
           if source_mint = mint_a then (sb_vault_a k, sb_vault_b k, sb_admin_fee_b k)
           else (sb_vault_b k, sb_vault_a k, sb_admin_fee_a k) in
     venue_cpi rt vn (SaberSwapIx (sb_swap_pool k) (sb_authority k) authority source source_vault target target_vault
       fees amount_in minimum_amount_out) s))"

subsection \<open>Orca Whirlpools\<close>

record WhirlpoolInfo =
  wp_whirlpool :: Pubkey
  wp_vault_a :: Pubkey
  wp_vault_b :: Pubkey
  wp_tick_array_0 :: Pubkey
  wp_tick_array_1 :: Pubkey
  wp_tick_array_2 :: Pubkey
  wp_oracle :: Pubkey
  wp_token_mint_b :: Pubkey

definition take_whirlpool_accounts ::
  "'l Venues \<Rightarrow> 'l SwapState \<Rightarrow> Pubkey list \<Rightarrow> (WhirlpoolInfo \<times> Pubkey list) swap_tx" where
  "take_whirlpool_accounts vn s ks =
     (case take 8 ks of
        [prog, w, va, vb, t0, t1, t2, orc] \<Rightarrow>
          bindE (constraint (prog = vn_whirlpool vn)) (\<lambda>_.
          bindE (ok_or (vn_whirlpool_mint_b vn (sw_ledger s) w) AccountErr) (\<lambda>mint_b.
          Inr (\<lparr>wp_whirlpool = w, wp_vault_a = va, wp_vault_b = vb, wp_tick_array_0 = t0, wp_tick_array_1 = t1,
                wp_tick_array_2 = t2, wp_oracle = orc, wp_token_mint_b = mint_b\<rparr>, drop 8 ks)))
      | _ \<Rightarrow> err AccountErr)"

definition whirlpool_swap ::
  "'l Runtime \<Rightarrow> 'l Venues \<Rightarrow> WhirlpoolInfo \<Rightarrow> Pubkey \<Rightarrow> Pubkey \<Rightarrow> Pubkey \<Rightarrow> nat \<Rightarrow> nat \<Rightarrow> nat \<Rightarrow> bool \<Rightarrow> bool \<Rightarrow>
     'l SwapState \<Rightarrow> 'l SwapState swap_tx" where
  "whirlpool_swap rt vn k authority source target amount threshold price_limit is_input a_to_b s =
     bindE (swap_mint_of rt source s) (\<lambda>source_mint.
     bindE (swap_mint_of rt (wp_vault_a k) s) (\<lambda>mint_a.
     let (owner_a, owner_b) = if mint_a = source_mint then (source, target) else (target, source);
         tick = (\<lambda>t. if vn_owner vn (sw_ledger s) t = vn_whirlpool vn then t else wp_tick_array_0 k) in
     venue_cpi rt vn (WhirlpoolSwapIx authority (wp_whirlpool k) (wp_vault_a k) (wp_vault_b k) owner_a owner_b
       [wp_tick_array_0 k, tick (wp_tick_array_1 k), tick (wp_tick_array_2 k)] (wp_oracle k) amount threshold
       price_limit is_input a_to_b) s))"

subsection \<open>OpenBook\<close>

record OpenbookInfo =
  ob_market :: Pubkey
  ob_open_orders :: Pubkey
  ob_request_queue :: Pubkey
  ob_event_queue :: Pubkey
  ob_market_bids :: Pubkey
  ob_market_asks :: Pubkey
  ob_base_vault :: Pubkey
  ob_quote_vault :: Pubkey
  ob_quote_mint :: Pubkey
  ob_vault_signer :: Pubkey
  ob_referrer_account :: Pubkey

definition take_openbook_accounts ::
  "'l Runtime \<Rightarrow> 'l Venues \<Rightarrow> 'l SwapState \<Rightarrow> Pubkey list \<Rightarrow> (OpenbookInfo \<times> Pubkey list) swap_tx" where
  "take_openbook_accounts rt vn s ks =
     (case take 13 ks of
        [m, oo, rq, eq, bids, asks, bv, qv, qm, vs, ref, prog, rent] \<Rightarrow>
          bindE (load_mint rt (sw_ledger s) qm) (\<lambda>_.
          bindE (load_token_account rt (sw_ledger s) ref) (\<lambda>r.
          bindE (constraint (ta_mint r = qm \<and> ta_owner r = CONTROL_AUTHORITY \<and>
                   ref = vn_associated vn CONTROL_AUTHORITY qm)) (\<lambda>_.
          bindE (constraint (prog = vn_dex vn)) (\<lambda>_.
          Inr (\<lparr>ob_market = m, ob_open_orders = oo, ob_request_queue = rq, ob_event_queue = eq,
                ob_market_bids = bids, ob_market_asks = asks, ob_base_vault = bv, ob_quote_vault = qv,
                ob_quote_mint = qm, ob_vault_signer = vs, ob_referrer_account = ref\<rparr>, drop 13 ks)))))
      | _ \<Rightarrow> err AccountErr)"

definition non_zero :: "nat \<Rightarrow> nat swap_tx" where
  "non_zero n = (if n = 0 then panic else Inr n)"

definition openbook_swap ::
  "'l Runtime \<Rightarrow> 'l Venues \<Rightarrow> OpenbookInfo \<Rightarrow> Pubkey \<Rightarrow> Pubkey \<Rightarrow> Pubkey \<Rightarrow> nat \<Rightarrow> nat \<Rightarrow>
     'l SwapState \<Rightarrow> 'l SwapState swap_tx" where
  "openbook_swap rt vn k source target authority amount_in minimum_amount_out s =
     bindE (unwrap (vn_book_market vn (sw_ledger s) (ob_market k))) (\<lambda>(base_lot_size, base_mint).
     bindE (swap_amount_of rt (ob_referrer_account k) s) (\<lambda>referrer_opening.
     bindE (swap_mint_of rt source s) (\<lambda>source_mint.
     bindE (if source_mint = base_mint then
              bindE (unwrap (checked_div amount_in base_lot_size)) (\<lambda>max_base.
              Inr (BookAsk, source, target, 1, max_base, 2 ^ 64 - 1))
            else Inr (BookBid, target, source, 2 ^ 64 - 1, 2 ^ 64 - 1, amount_in))
       (\<lambda>(side, base_wallet, quote_wallet, limit_price, max_base, max_quote).
     bindE (non_zero limit_price) (\<lambda>limit_price.
     bindE (non_zero max_base) (\<lambda>max_base.
     bindE (non_zero max_quote) (\<lambda>max_quote.
     bindE (venue_cpi rt vn (NewOrderV3 (ob_market k) (ob_open_orders k) (ob_request_queue k) (ob_event_queue k)
              (ob_market_bids k) (ob_market_asks k) source authority (ob_base_vault k) (ob_quote_vault k)
              side limit_price max_base max_quote) s) (\<lambda>s.
     bindE (venue_cpi rt vn (SettleFunds (ob_market k) (ob_open_orders k) authority (ob_base_vault k)
              (ob_quote_vault k) base_wallet quote_wallet (ob_vault_signer k) (ob_referrer_account k)) s) (\<lambda>s.
     bindE (swap_amount_of rt (ob_referrer_account k) s) (\<lambda>referrer_closing.
     bindE (unwrap (checked_sub referrer_closing referrer_opening)) (\<lambda>referral_fee.
     Inr (s\<lparr>sw_events := sw_events s @ [ProtocolSwapFee (ob_market k) (ob_quote_mint k) referral_fee OpenBook]\<rparr>)
     )))))))))))"

record OpenOrdersKeys =
  oo_margin_account :: Pubkey
  oo_market :: Pubkey
  oo_payer :: Pubkey
  oo_open_orders :: Pubkey
  oo_destination :: Pubkey

text \<open>\<open>existing\<close>: the open orders account exists already.\<close>

definition init_open_orders_handler ::
  "'l Runtime \<Rightarrow> 'l Venues \<Rightarrow> OpenOrdersKeys \<Rightarrow> bool \<Rightarrow> 'l SwapState \<Rightarrow> 'l SwapState swap_tx" where
  "init_open_orders_handler rt vn k existing s =
     bindE (require_signer rt (oo_margin_account k)) (\<lambda>_.
     bindE (constraint (vn_owner vn (sw_ledger s) (oo_market k) = vn_dex vn)) (\<lambda>_.
     bindE (require_signer rt (oo_payer k)) (\<lambda>_.
     bindE (constraint (\<not> existing \<and> oo_open_orders k =
              pda rt [SeedBytes ''open_orders'', SeedKey (oo_margin_account k), SeedKey (oo_market k)])) (\<lambda>_.
     venue_cpi rt vn (InitOpenOrdersIx (oo_open_orders k) (oo_margin_account k) (oo_market k)) s))))"

definition close_open_orders_handler ::
  "'l Runtime \<Rightarrow> 'l Venues \<Rightarrow> OpenOrdersKeys \<Rightarrow> 'l SwapState \<Rightarrow> 'l SwapState swap_tx" where
  "close_open_orders_handler rt vn k s =
     bindE (require_signer rt (oo_margin_account k)) (\<lambda>_.
     bindE (constraint (vn_owner vn (sw_ledger s) (oo_open_orders k) = vn_dex vn)) (\<lambda>_.
     venue_cpi rt vn (CloseOpenOrdersIx (oo_open_orders k) (oo_margin_account k) (oo_destination k) (oo_market k)) s))"

subsection \<open>Executing a route\<close>

definition next_key :: "Pubkey list \<Rightarrow> (Pubkey \<times> Pubkey list) swap_tx" where
  "next_key ks = (case ks of [] \<Rightarrow> panic | k # ks \<Rightarrow> Inr (k, ks))"

text \<open>The balances of the destination around the call of a venue.\<close>

definition exec_swap_split ::
  "'l Runtime \<Rightarrow> 'l Venues \<Rightarrow> Pubkey \<Rightarrow> SwapRouteIdentifier \<Rightarrow> Pubkey \<Rightarrow> Pubkey list \<Rightarrow> nat \<Rightarrow> 'l SwapState \<Rightarrow>
     (nat \<times> nat \<times> Pubkey \<times> Pubkey list \<times> 'l SwapState) swap_tx" where
  "exec_swap_split rt vn authority ident src_ata ks swap_amount_in s =
     (case ident of
        Empty \<Rightarrow> err (ProgramErr InvalidSwapRoute)
      | Spl \<Rightarrow>
          bindE (take_spl_accounts ks) (\<lambda>(k, ks).
          bindE (next_key ks) (\<lambda>(dst_ata, ks).
          bindE (swap_amount_of rt dst_ata s) (\<lambda>opening.
          bindE (spl_swap rt vn k src_ata dst_ata authority swap_amount_in 0 s) (\<lambda>s.
          bindE (swap_amount_of rt dst_ata s) (\<lambda>closing. Inr (opening, closing, dst_ata, ks, s))))))
      | Whirlpool \<Rightarrow>
          bindE (take_whirlpool_accounts vn s ks) (\<lambda>(k, ks).
          bindE (next_key ks) (\<lambda>(dst_ata, ks).
          bindE (swap_mint_of rt dst_ata s) (\<lambda>dst_mint.
          bindE (swap_amount_of rt dst_ata s) (\<lambda>opening.
          let a_to_b = (dst_mint = wp_token_mint_b k);
              price_limit = (if a_to_b then vn_min_sqrt_price vn else vn_max_sqrt_price vn) in
          bindE (whirlpool_swap rt vn k authority src_ata dst_ata swap_amount_in 0 price_limit True a_to_b s) (\<lambda>s.
          bindE (swap_amount_of rt dst_ata s) (\<lambda>closing. Inr (opening, closing, dst_ata, ks, s)))))))
      | SaberStable \<Rightarrow>
          bindE (take_saber_accounts vn ks) (\<lambda>(k, ks).
          bindE (next_key ks) (\<lambda>(dst_ata, ks).
          bindE (swap_amount_of rt dst_ata s) (\<lambda>opening.
          bindE (saber_swap rt vn k src_ata dst_ata authority swap_amount_in 0 s) (\<lambda>s.
          bindE (swap_amount_of rt dst_ata s) (\<lambda>closing. Inr (opening, closing, dst_ata, ks, s))))))
      | OpenBook \<Rightarrow>
          bindE (take_openbook_accounts rt vn s ks) (\<lambda>(k, ks).
          bindE (next_key ks) (\<lambda>(dst_ata, ks).
          bindE (swap_amount_of rt dst_ata s) (\<lambda>opening.
          bindE (openbook_swap rt vn k src_ata dst_ata authority swap_amount_in 0 s) (\<lambda>s.
          bindE (swap_amount_of rt dst_ata s) (\<lambda>closing. Inr (opening, closing, dst_ata, ks, s)))))))"

text \<open>Both parts of a split run on the first venue of the leg.\<close>

definition exec_swap ::
  "'l Runtime \<Rightarrow> 'l Venues \<Rightarrow> Pubkey \<Rightarrow> SwapRouteDetail \<Rightarrow> Pubkey \<Rightarrow> Pubkey list \<Rightarrow> nat \<Rightarrow> 'l SwapState \<Rightarrow>
     (nat \<times> Pubkey \<times> Pubkey list \<times> 'l SwapState) swap_tx" where
  "exec_swap rt vn authority route src_ata ks swap_amount_in s =
     bindE (if split route = 0 then Inr swap_amount_in
            else bindE (plain_mul 64 swap_amount_in (split route)) (\<lambda>x. plain_div x 100)) (\<lambda>first_in.
     bindE (exec_swap_split rt vn authority (route_a route) src_ata ks first_in s)
       (\<lambda>(opening, closing, dst_transit, ks, s).
     bindE (if split route > 0 then
              bindE (unwrap (checked_sub swap_amount_in first_in)) (\<lambda>second_in.
              bindE (assertE (second_in > 0)) (\<lambda>_.
              bindE (exec_swap_split rt vn authority (route_a route) src_ata ks second_in s)
                (\<lambda>(_, closing, dst, ks, s).
              if dst_transit \<noteq> dst then err (ProgramErr InvalidSplitDestination) else Inr (closing, ks, s))))
            else Inr (closing, ks, s)) (\<lambda>(closing, ks, s).
     bindE (unwrap (checked_sub closing opening)) (\<lambda>out.
     Inr (out, dst_transit, ks, s)))))"

definition liquidation_fee_destination ::
  "'l Runtime \<Rightarrow> Pubkey list \<Rightarrow> 'l SwapState \<Rightarrow> (Pubkey \<times> Pubkey list) swap_tx" where
  "liquidation_fee_destination rt ks s =
     (case ks of
        [] \<Rightarrow> err AccountErr
      | k # ks \<Rightarrow>
          bindE (load_token_account rt (sw_ledger s) k) (\<lambda>a.
          bindE (guardE (ta_owner a = CONTROL_AUTHORITY) (ProgramErr InvalidFeeDestination)) (\<lambda>_. Inr (k, ks))))"

text \<open>The part before the first leg: the recipient of the fee, the source and the last account.\<close>

definition fee_recipient_of ::
  "'l Runtime \<Rightarrow> bool \<Rightarrow> Pubkey list \<Rightarrow> 'l SwapState \<Rightarrow> (Pubkey option \<times> Pubkey list) swap_tx" where
  "fee_recipient_of rt is_liquidation ks s =
     (if is_liquidation then
        bindE (liquidation_fee_destination rt ks s) (\<lambda>(k, ks). Inr (Some k, ks))
      else Inr (None, ks))"

definition transit_accounts :: "Pubkey list \<Rightarrow> (Pubkey \<times> Pubkey \<times> Pubkey list) swap_tx" where
  "transit_accounts ks = bindE (next_key ks) (\<lambda>(src, rest). Inr (src, last ks, rest))"

text \<open>The loop over the legs, the account of each leg's proceeds the source of the next.\<close>

definition exec_routes ::
  "'l Runtime \<Rightarrow> 'l Venues \<Rightarrow> Pubkey \<Rightarrow> SwapRouteDetail list \<Rightarrow> nat \<times> Pubkey \<times> Pubkey list \<times> 'l SwapState \<Rightarrow>
     (nat \<times> Pubkey \<times> Pubkey list \<times> 'l SwapState) swap_tx" where
  "exec_routes rt vn authority =
     foldE (\<lambda>route (amount, src, ks, s). exec_swap rt vn authority route src ks amount s)"

definition transfer_swap_fee ::
  "'l Runtime \<Rightarrow> Pubkey \<Rightarrow> Pubkey option \<Rightarrow> Pubkey \<Rightarrow> nat \<Rightarrow> 'l SwapState \<Rightarrow> (nat \<times> nat \<times> 'l SwapState) swap_tx" where
  "transfer_swap_fee rt margin_account fee_recipient dst_transit out s =
     (case fee_recipient of
        None \<Rightarrow> Inr (out, 0, s)
      | Some r \<Rightarrow>
          bindE (liquidation_fee out) (\<lambda>fees.
          bindE (unwrap (checked_sub out fees)) (\<lambda>out.
          bindE (assertE (out > fees)) (\<lambda>_.
          bindE (token_cpi rt (TokenTransfer dst_transit r margin_account fees) (sw_ledger s)) (\<lambda>l.
          Inr (out, fees, s\<lparr>sw_ledger := l\<rparr>))))))"

subsection \<open>Instructions\<close>

definition route_swap_handler ::
  "'l Runtime \<Rightarrow> 'l Venues \<Rightarrow> Pubkey \<Rightarrow> nat \<Rightarrow> nat \<Rightarrow> Routes \<Rightarrow> bool \<Rightarrow> Pubkey list \<Rightarrow> 'l SwapState \<Rightarrow>
     'l SwapState swap_tx" where
  "route_swap_handler rt vn margin_account amount_in minimum_amount_out swap_routes is_liquidation ks s =
     bindE (require_signer rt margin_account) (\<lambda>_.
     bindE (assertE (amount_in > 0 \<and> minimum_amount_out > 0)) (\<lambda>_.
     bindE (valid_swaps swap_routes) (\<lambda>n.
     bindE (fee_recipient_of rt is_liquidation ks s) (\<lambda>(fee_recipient, ks).
     bindE (transit_accounts ks) (\<lambda>(src_transit, dst_transit, ks).
     bindE (swap_mint_of rt src_transit s) (\<lambda>token_in.
     bindE (swap_amount_of rt dst_transit s) (\<lambda>opening.
     bindE (exec_routes rt vn margin_account (take n (route_list swap_routes)) (amount_in, src_transit, ks, s))
       (\<lambda>(_, _, _, s).
     bindE (swap_amount_of rt dst_transit s) (\<lambda>closing.
     bindE (unwrap (checked_sub closing opening)) (\<lambda>out.
     bindE (transfer_swap_fee rt margin_account fee_recipient dst_transit out s) (\<lambda>(out, fees, s).
     bindE (guardE (out \<ge> minimum_amount_out) (ProgramErr SlippageExceeded)) (\<lambda>_.
     Inr (s\<lparr>sw_events := sw_events s @
                 [RouteSwapped margin_account token_in amount_in out fees swap_routes]\<rparr>)))))))))))))"

record MarginPoolInfo =
  pi_margin_pool :: Pubkey
  pi_vault :: Pubkey
  pi_deposit_note_mint :: Pubkey

record RouteSwapPool =
  rs_margin_account :: Pubkey
  rs_source_account :: Pubkey
  rs_destination_account :: Pubkey
  rs_source_margin_pool :: MarginPoolInfo
  rs_destination_margin_pool :: MarginPoolInfo

definition swap_withdraw_accounts :: "RouteSwapPool \<Rightarrow> Pubkey \<Rightarrow> WithdrawAccounts" where
  "swap_withdraw_accounts k transit =
     \<lparr>wd_depositor = rs_margin_account k, wd_margin_pool = pi_margin_pool (rs_source_margin_pool k),
      wd_vault = pi_vault (rs_source_margin_pool k),
      wd_deposit_note_mint = pi_deposit_note_mint (rs_source_margin_pool k),
      wd_source = rs_source_account k, wd_destination = transit\<rparr>"

definition swap_deposit_accounts :: "RouteSwapPool \<Rightarrow> MarginPoolInfo \<Rightarrow> Pubkey \<Rightarrow> Pubkey \<Rightarrow> DepositAccounts" where
  "swap_deposit_accounts k pool transit destination =
     \<lparr>dep_margin_pool = pi_margin_pool pool, dep_vault = pi_vault pool,
      dep_deposit_note_mint = pi_deposit_note_mint pool, dep_depositor = rs_margin_account k,
      dep_source = transit, dep_destination = destination\<rparr>"

definition route_swap_pool_handler ::
  "'l Runtime \<Rightarrow> 'l Venues \<Rightarrow> RouteSwapPool \<Rightarrow> ChangeKind \<Rightarrow> nat \<Rightarrow> nat \<Rightarrow> Routes \<Rightarrow> bool \<Rightarrow> Pubkey list \<Rightarrow>
     'l SwapState \<Rightarrow> 'l SwapState swap_tx" where
  "route_swap_pool_handler rt vn k kind withdrawal_amount minimum_amount_out swap_routes is_liquidation ks s =
     bindE (require_signer rt (rs_margin_account k)) (\<lambda>_.
     bindE (assertE (minimum_amount_out > 0)) (\<lambda>_.
     bindE (valid_swaps swap_routes) (\<lambda>n.
     bindE (fee_recipient_of rt is_liquidation ks s) (\<lambda>(fee_recipient, ks).
     bindE (transit_accounts ks) (\<lambda>(src_transit, dst_transit, ks).
     bindE (swap_amount_of rt src_transit s) (\<lambda>source_opening.
     bindE (pool_withdraw_cpi rt (swap_withdraw_accounts k src_transit) kind withdrawal_amount s) (\<lambda>s.
     bindE (swap_amount_of rt src_transit s) (\<lambda>source_closing.
     bindE (swap_amount_of rt dst_transit s) (\<lambda>opening.
     bindE (unwrap (checked_sub source_closing source_opening)) (\<lambda>amount_in.
     bindE (guardE (amount_in \<noteq> 0) (ProgramErr NoSwapTokensWithdrawn)) (\<lambda>_.
     bindE (swap_mint_of rt src_transit s) (\<lambda>token_in.
     bindE (exec_routes rt vn (rs_margin_account k) (take n (route_list swap_routes))
              (amount_in, src_transit, ks, s)) (\<lambda>(_, _, _, s).
     bindE (swap_amount_of rt dst_transit s) (\<lambda>closing.
     bindE (unwrap (checked_sub closing opening)) (\<lambda>out.
     bindE (transfer_swap_fee rt (rs_margin_account k) fee_recipient dst_transit out s) (\<lambda>(out, fees, s).
     bindE (guardE (out \<ge> minimum_amount_out) (ProgramErr SlippageExceeded)) (\<lambda>_.
     bindE (pool_deposit_cpi rt (swap_deposit_accounts k (rs_destination_margin_pool k) dst_transit
              (rs_destination_account k)) ShiftBy out s) (\<lambda>s.
     Inr (s\<lparr>sw_events := sw_events s @
                 [RouteSwapped (rs_margin_account k) token_in amount_in out fees swap_routes]\<rparr>)))))))))))))))))))"

record SwapInfo =
  si_swap_pool :: Pubkey
  si_authority :: Pubkey
  si_vault_into :: Pubkey
  si_vault_from :: Pubkey
  si_token_mint :: Pubkey
  si_fee_account :: Pubkey
  si_swap_program :: Pubkey

definition margin_spl_swap_ix ::
  "'l Runtime \<Rightarrow> 'l Venues \<Rightarrow> SwapInfo \<Rightarrow> Pubkey \<Rightarrow> Pubkey \<Rightarrow> Pubkey \<Rightarrow> nat \<Rightarrow> nat \<Rightarrow>
     'l SwapState \<Rightarrow> 'l SwapState swap_tx" where
  "margin_spl_swap_ix rt vn k margin_account transit_source transit_destination amount_in minimum_amount_out s =
     bindE (use_client (si_swap_program k)) (\<lambda>prog.
     venue_cpi rt vn (SplSwapIx prog (si_swap_pool k) (si_authority k) margin_account transit_source (si_vault_into k)
       (si_vault_from k) transit_destination (si_token_mint k) (si_fee_account k) amount_in minimum_amount_out) s)"

definition margin_spl_swap_handler ::
  "'l Runtime \<Rightarrow> 'l Venues \<Rightarrow> RouteSwapPool \<Rightarrow> SwapInfo \<Rightarrow> Pubkey \<Rightarrow> Pubkey \<Rightarrow> ChangeKind \<Rightarrow> nat \<Rightarrow> nat \<Rightarrow>
     'l SwapState \<Rightarrow> 'l SwapState swap_tx" where
  "margin_spl_swap_handler rt vn k info transit_source transit_destination kind withdrawal_amount
       minimum_amount_out s =
     bindE (require_signer rt (rs_margin_account k)) (\<lambda>_.
     bindE (swap_amount_of rt transit_source s) (\<lambda>source_opening.
     bindE (pool_withdraw_cpi rt (swap_withdraw_accounts k transit_source) kind withdrawal_amount s) (\<lambda>s.
     bindE (swap_amount_of rt transit_source s) (\<lambda>source_closing.
     bindE (unwrap (checked_sub source_closing source_opening)) (\<lambda>amount_in.
     bindE (guardE (amount_in \<noteq> 0) (ProgramErr NoSwapTokensWithdrawn)) (\<lambda>_.
     bindE (swap_amount_of rt transit_destination s) (\<lambda>opening.
     bindE (margin_spl_swap_ix rt vn info (rs_margin_account k) transit_source transit_destination amount_in
              minimum_amount_out s) (\<lambda>s.
     bindE (swap_amount_of rt transit_destination s) (\<lambda>closing.
     bindE (unwrap (checked_sub closing opening)) (\<lambda>out.
     bindE (pool_deposit_cpi rt (swap_deposit_accounts k (rs_destination_margin_pool k) transit_destination
              (rs_destination_account k)) ShiftBy out s) (\<lambda>s.
     bindE (swap_amount_of rt transit_source s) (\<lambda>source_after.
     bindE (unwrap (checked_sub source_after source_opening)) (\<lambda>leftover.
     if leftover > 0 then
       pool_deposit_cpi rt (swap_deposit_accounts k (rs_source_margin_pool k) transit_source (rs_source_account k))
         ShiftBy leftover s
     else Inr s)))))))))))))"

text \<open>The venue instructions of the program itself are there for clients to build and refuse to run.\<close>

definition direct_swap :: "'l SwapState \<Rightarrow> 'l SwapState swap_tx" where
  "direct_swap s = err (ProgramErr DisallowedDirectInstruction)"

end
