(* ===== verification/PoolProgram.thy ===== *)
theory PoolProgram
  imports Instructions PoolHandlers
begin

text \<open>
  The margin pool program as a whole, the \<open>#[program]\<close> module of \<open>programs/margin-pool/src/lib.rs\<close>: the
  pools by address, the token ledger, and for each instruction the accounts it takes from the
  instruction's list and the handler it runs.

  The environment carries what belongs to others: which accounts hold the control authority, the price
  feeds and products of Pyth, the margin accounts and the stack height of the instruction.

  \<open>pool_addresses\<close>: in every state the program can reach, each pool has the vault and the notes that a
  client derives from the pool's address.
\<close>

subsection \<open>State\<close>

record 'l PoolProgram =
  pg_pools :: "Pubkey \<Rightarrow> MarginPool option"
  pg_ledger :: 'l
  pg_events :: "PoolEvent list"
  pg_result :: "AdapterResult option"

record PoolEnv =
  pe_is_control_authority :: "Pubkey \<Rightarrow> bool"
  pe_feed :: "Pubkey \<Rightarrow> (PythPrice \<times> PythPrice) option"
  pe_product :: "Pubkey \<Rightarrow> PythProduct option"
  pe_margin_account :: "Pubkey \<Rightarrow> MarginAccount option"
  pe_height :: nat

datatype PoolIxData =
    CreatePoolData Pubkey
  | CollectData
  | ConfigureData "MarginPoolConfig option"
  | DepositData ChangeKind nat
  | WithdrawData ChangeKind nat
  | MarginBorrowData ChangeKind nat
  | MarginBorrowV2Data nat
  | MarginRepayData ChangeKind nat
  | RepayData ChangeKind nat
  | MarginRefreshPositionData
  | RegisterLoanData
  | CloseLoanData
  | AdminTransferLoanData nat

subsection \<open>The entry of the program\<close>

definition load_pool :: "'l PoolProgram \<Rightarrow> Pubkey \<Rightarrow> MarginPool pool_tx" where
  "load_pool s k = ok_or (pg_pools s k) AccountErr"

lemma load_pool_Inr [simp]: "load_pool s k = Inr p \<longleftrightarrow> pg_pools s k = Some p"
  by (simp add: load_pool_def)

definition load_margin :: "PoolEnv \<Rightarrow> Pubkey \<Rightarrow> MarginAccount pool_tx" where
  "load_margin env k = ok_or (pe_margin_account env k) AccountErr"

text \<open>A pool, the ledger and an event written back; the ledger and the result for the margin program.\<close>

definition put_pool :: "Pubkey \<Rightarrow> (MarginPool \<times> 'l \<times> PoolEvent) pool_tx \<Rightarrow> 'l PoolProgram \<Rightarrow> 'l PoolProgram pool_tx" where
  "put_pool k m s =
     bindE m (\<lambda>(pool, l, e).
     Inr (s\<lparr>pg_pools := (pg_pools s)(k \<mapsto> pool), pg_ledger := l, pg_events := pg_events s @ [e]\<rparr>))"

definition put_result :: "('l \<times> AdapterResult) pool_tx \<Rightarrow> 'l PoolProgram \<Rightarrow> 'l PoolProgram pool_tx" where
  "put_result m s = bindE m (\<lambda>(l, r). Inr (s\<lparr>pg_ledger := l, pg_result := Some r\<rparr>))"

fun pool_dispatch ::
  "Sdk \<Rightarrow> PoolEnv \<Rightarrow> 'l Runtime \<Rightarrow> PoolIxData \<Rightarrow> Pubkey list \<Rightarrow> 'l PoolProgram \<Rightarrow> 'l PoolProgram pool_tx" where
  "pool_dispatch sdk env rt (CreatePoolData fee_dest) ks s =
     (case ks of
        margin_pool # vlt # deposit_notes_mint # loan_notes_mint # mint # authority # payer # token_id # system # rent # _ \<Rightarrow>
          bindE (check_program (sdk_token_program sdk) token_id) (\<lambda>_.
          bindE (check_program (sdk_system_program sdk) system) (\<lambda>_.
          bindE (check_program (sdk_rent sdk) rent) (\<lambda>_.
          put_pool margin_pool
            (create_pool_handler rt (pe_is_control_authority env)
               \<lparr>cp_margin_pool = margin_pool, cp_vault = vlt, cp_deposit_note_mint = deposit_notes_mint,
                cp_loan_note_mint = loan_notes_mint, cp_token_mint = mint, cp_authority = authority, cp_payer = payer\<rparr>
               fee_dest (pg_pools s margin_pool) (pg_ledger s)) s)))
      | _ \<Rightarrow> err AccountErr)"
| "pool_dispatch sdk env rt CollectData ks s =
     (case ks of
        margin_pool # vlt # fee_dest # deposit_notes_mint # token_id # _ \<Rightarrow>
          bindE (check_program (sdk_token_program sdk) token_id) (\<lambda>_.
          bindE (load_pool s margin_pool) (\<lambda>pool.
          bindE (collect_handler rt
                   \<lparr>co_margin_pool = margin_pool, co_vault = vlt, co_fee_destination = fee_dest,
                    co_deposit_note_mint = deposit_notes_mint\<rparr> pool (pg_ledger s)) (\<lambda>(pool, l, e).
          Inr (s\<lparr>pg_pools := (pg_pools s)(margin_pool \<mapsto> pool), pg_ledger := l,
                 pg_events := pg_events s @ (case e of Some e \<Rightarrow> [e] | None \<Rightarrow> [])\<rparr>))))
      | _ \<Rightarrow> err AccountErr)"
| "pool_dispatch sdk env rt (ConfigureData new_config) ks s =
     (case ks of
        margin_pool # authority # pyth_product # pyth_price # _ \<Rightarrow>
          bindE (load_pool s margin_pool) (\<lambda>pool.
          put_pool margin_pool
            (bindE (configure_handler rt (pe_is_control_authority env)
                      \<lparr>cf_margin_pool = margin_pool, cf_authority = authority, cf_pyth_product = pyth_product,
                       cf_pyth_price = pyth_price\<rparr> (pe_product env pyth_product) new_config pool) (\<lambda>(pool, e).
             Inr (pool, pg_ledger s, e))) s)
      | _ \<Rightarrow> err AccountErr)"
| "pool_dispatch sdk env rt (DepositData kind amount) ks s =
     (case ks of
        margin_pool # vlt # deposit_notes_mint # depositor # src # dest # token_id # _ \<Rightarrow>
          bindE (check_program (sdk_token_program sdk) token_id) (\<lambda>_.
          bindE (load_pool s margin_pool) (\<lambda>pool.
          put_pool margin_pool
            (deposit_handler rt
               \<lparr>dep_margin_pool = margin_pool, dep_vault = vlt, dep_deposit_note_mint = deposit_notes_mint,
                dep_depositor = depositor, dep_source = src, dep_destination = dest\<rparr> kind amount pool (pg_ledger s)) s))
      | _ \<Rightarrow> err AccountErr)"
| "pool_dispatch sdk env rt (WithdrawData kind amount) ks s =
     (case ks of
        depositor # margin_pool # vlt # deposit_notes_mint # src # dest # token_id # _ \<Rightarrow>
          bindE (check_program (sdk_token_program sdk) token_id) (\<lambda>_.
          bindE (load_pool s margin_pool) (\<lambda>pool.
          put_pool margin_pool
            (withdraw_handler rt
               \<lparr>wd_depositor = depositor, wd_margin_pool = margin_pool, wd_vault = vlt,
                wd_deposit_note_mint = deposit_notes_mint, wd_source = src, wd_destination = dest\<rparr>
               kind amount pool (pg_ledger s)) s))
      | _ \<Rightarrow> err AccountErr)"
| "pool_dispatch sdk env rt (MarginBorrowData kind amount) ks s =
     (case ks of
        margin_account # margin_pool # loan_notes_mint # deposit_notes_mint # loan_account # deposit_account # token_id # _ \<Rightarrow>
          bindE (check_program (sdk_token_program sdk) token_id) (\<lambda>_.
          bindE (load_margin env margin_account) (\<lambda>_.
          bindE (load_pool s margin_pool) (\<lambda>pool.
          put_pool margin_pool
            (margin_borrow_handler rt
               \<lparr>mb_margin_account = margin_account, mb_margin_pool = margin_pool, mb_loan_note_mint = loan_notes_mint,
                mb_deposit_note_mint = deposit_notes_mint, mb_loan_account = loan_account,
                mb_deposit_account = deposit_account\<rparr> kind amount pool (pg_ledger s)) s)))
      | _ \<Rightarrow> err AccountErr)"
| "pool_dispatch sdk env rt (MarginBorrowV2Data amount) ks s =
     (case ks of
        margin_account # margin_pool # vlt # loan_notes_mint # loan_account # dest # token_id # _ \<Rightarrow>
          bindE (check_program (sdk_token_program sdk) token_id) (\<lambda>_.
          bindE (load_margin env margin_account) (\<lambda>_.
          bindE (load_pool s margin_pool) (\<lambda>pool.
          put_pool margin_pool
            (margin_borrow_v2_handler rt
               \<lparr>mb2_margin_account = margin_account, mb2_margin_pool = margin_pool, mb2_vault = vlt,
                mb2_loan_note_mint = loan_notes_mint, mb2_loan_account = loan_account, mb2_destination = dest\<rparr>
               amount pool (pg_ledger s)) s)))
      | _ \<Rightarrow> err AccountErr)"
| "pool_dispatch sdk env rt (MarginRepayData kind amount) ks s =
     (case ks of
        margin_account # margin_pool # loan_notes_mint # deposit_notes_mint # loan_account # deposit_account # token_id # _ \<Rightarrow>
          bindE (check_program (sdk_token_program sdk) token_id) (\<lambda>_.
          bindE (load_margin env margin_account) (\<lambda>_.
          bindE (load_pool s margin_pool) (\<lambda>pool.
          put_pool margin_pool
            (margin_repay_handler rt
               \<lparr>mr_margin_account = margin_account, mr_margin_pool = margin_pool, mr_loan_note_mint = loan_notes_mint,
                mr_deposit_note_mint = deposit_notes_mint, mr_loan_account = loan_account,
                mr_deposit_account = deposit_account\<rparr> kind amount pool (pg_ledger s)) s)))
      | _ \<Rightarrow> err AccountErr)"
| "pool_dispatch sdk env rt (RepayData kind amount) ks s =
     (case ks of
        margin_pool # loan_notes_mint # vlt # loan_account # repayment_account # authority # token_id # _ \<Rightarrow>
          bindE (check_program (sdk_token_program sdk) token_id) (\<lambda>_.
          bindE (load_pool s margin_pool) (\<lambda>pool.
          put_pool margin_pool
            (repay_handler rt
               \<lparr>rp_margin_pool = margin_pool, rp_loan_note_mint = loan_notes_mint, rp_vault = vlt,
                rp_loan_account = loan_account, rp_repayment_token_account = repayment_account,
                rp_repayment_account_authority = authority\<rparr> kind amount pool (pg_ledger s)) s))
      | _ \<Rightarrow> err AccountErr)"
| "pool_dispatch sdk env rt MarginRefreshPositionData ks s =
     (case ks of
        margin_account # margin_pool # oracle # _ \<Rightarrow>
          bindE (load_margin env margin_account) (\<lambda>a.
          bindE (load_pool s margin_pool) (\<lambda>pool.
          put_result
            (bindE (margin_refresh_position_handler (pe_height env) oracle (pe_feed env oracle) a pool) (\<lambda>r.
             Inr (pg_ledger s, r))) s))
      | _ \<Rightarrow> err AccountErr)"
| "pool_dispatch sdk env rt RegisterLoanData ks s =
     (case ks of
        margin_account # _ # loan_account # loan_notes_mint # margin_pool # payer # token_id # system # rent # _ \<Rightarrow>
          bindE (check_program (sdk_token_program sdk) token_id) (\<lambda>_.
          bindE (check_program (sdk_system_program sdk) system) (\<lambda>_.
          bindE (check_program (sdk_rent sdk) rent) (\<lambda>_.
          bindE (load_margin env margin_account) (\<lambda>a.
          bindE (load_pool s margin_pool) (\<lambda>pool.
          put_result
            (register_loan_handler rt (pe_height env)
               \<lparr>rl_margin_account = margin_account, rl_loan_note_account = loan_account,
                rl_loan_note_mint = loan_notes_mint, rl_margin_pool = margin_pool, rl_payer = payer\<rparr>
               a pool (pg_ledger s)) s)))))
      | _ \<Rightarrow> err AccountErr)"
| "pool_dispatch sdk env rt CloseLoanData ks s =
     (case ks of
        margin_account # loan_account # loan_notes_mint # margin_pool # beneficiary # token_id # _ \<Rightarrow>
          bindE (check_program (sdk_token_program sdk) token_id) (\<lambda>_.
          bindE (load_margin env margin_account) (\<lambda>a.
          bindE (load_pool s margin_pool) (\<lambda>pool.
          put_result
            (close_loan_handler rt (pe_height env)
               \<lparr>cl_margin_account = margin_account, cl_loan_note_account = loan_account,
                cl_loan_note_mint = loan_notes_mint, cl_margin_pool = margin_pool, cl_beneficiary = beneficiary\<rparr>
               a pool (pg_ledger s)) s)))
      | _ \<Rightarrow> err AccountErr)"
| "pool_dispatch sdk env rt (AdminTransferLoanData amount) ks s =
     (case ks of
        authority # margin_pool # source_loan # target_loan # token_id # _ \<Rightarrow>
          bindE (check_program (sdk_token_program sdk) token_id) (\<lambda>_.
          bindE (load_pool s margin_pool) (\<lambda>pool.
          put_pool margin_pool
            (bindE (admin_transfer_loan_handler rt GOVERNOR_ID
                      \<lparr>at_authority = authority, at_margin_pool = margin_pool, at_source_loan_account = source_loan,
                       at_target_loan_account = target_loan\<rparr> amount pool (pg_ledger s)) (\<lambda>(l, e).
             Inr (pool, l, e))) s))
      | _ \<Rightarrow> err AccountErr)"

definition pool_process ::
  "Sdk \<Rightarrow> PoolEnv \<Rightarrow> 'l Runtime \<Rightarrow> PoolIxData Instruction \<Rightarrow> 'l PoolProgram \<Rightarrow> 'l PoolProgram pool_tx" where
  "pool_process sdk env rt ix s =
     pool_dispatch sdk env (runtime_of rt (ix_accounts ix)) (ix_data ix) (keys_of (ix_accounts ix)) s"

subsection \<open>The addresses of a pool\<close>

definition same_addresses :: "MarginPool \<Rightarrow> MarginPool \<Rightarrow> bool" where
  "same_addresses p q \<longleftrightarrow>
     vault q = vault p \<and> deposit_note_mint q = deposit_note_mint p \<and> loan_note_mint q = loan_note_mint p \<and>
     token_mint q = token_mint p \<and> pool_address q = pool_address p"

lemma same_addresses_refl [simp]: "same_addresses p p"
  by (simp add: same_addresses_def)

lemma same_addresses_trans: "same_addresses p q \<Longrightarrow> same_addresses q r \<Longrightarrow> same_addresses p r"
  by (simp add: same_addresses_def)

lemma same_addresses_ops:
  "accrue_interest p t = Inr (q, b) \<Longrightarrow> same_addresses p q"
  "accrue_to_now rt p = Inr q \<Longrightarrow> same_addresses p q"
  "pool_deposit p a = Inr q \<Longrightarrow> same_addresses p q"
  "pool_withdraw p a = Inr q \<Longrightarrow> same_addresses p q"
  "pool_borrow p a = Inr q \<Longrightarrow> same_addresses p q"
  "pool_repay p a = Inr q \<Longrightarrow> same_addresses p q"
  "pool_margin_repay p a a' = Inr q \<Longrightarrow> same_addresses p q"
  "collect_accrued_fees p = Inr (q, n) \<Longrightarrow> same_addresses p q"
proof -
  show accrue: "accrue_interest p t = Inr (q, b) \<Longrightarrow> same_addresses p q" for p t q b
    using accrue_interest_frame by (simp add: same_addresses_def)
  show "accrue_to_now rt p = Inr q \<Longrightarrow> same_addresses p q"
    by (auto simp: accrue_to_now_def dest: accrue split: if_split_asm)
  show "pool_borrow p a = Inr q \<Longrightarrow> same_addresses p q"
    using pool_borrow_Inr(5) [of p a q] by (simp add: same_addresses_def)
  show "collect_accrued_fees p = Inr (q, n) \<Longrightarrow> same_addresses p q"
    using collect_accrued_fees_Inr [of p q n] by (auto simp: same_addresses_def split: if_split_asm)
qed (simp_all add: same_addresses_def pool_deposit_Inr pool_withdraw_Inr pool_repay_Inr pool_margin_repay_Inr)

lemma same_addresses_handlers:
  "deposit_handler rt ac1 ck n p l = Inr (q, l', e) \<Longrightarrow> same_addresses p q"
  "withdraw_handler rt ac2 ck n p l = Inr (q, l', e) \<Longrightarrow> same_addresses p q"
  "margin_borrow_handler rt ac3 ck n p l = Inr (q, l', e) \<Longrightarrow> same_addresses p q"
  "margin_borrow_v2_handler rt ac4 n p l = Inr (q, l', e) \<Longrightarrow> same_addresses p q"
  "repay_handler rt ac5 ck n p l = Inr (q, l', e) \<Longrightarrow> same_addresses p q"
  "margin_repay_handler rt ac6 ck n p l = Inr (q, l', e) \<Longrightarrow> same_addresses p q"
  "configure_handler rt ca ac8 product c p = Inr (q, e) \<Longrightarrow> same_addresses p q"
proof -
  show "deposit_handler rt ac1 ck n p l = Inr (q, l', e) \<Longrightarrow> same_addresses p q"
    by (auto simp: deposit_handler_def Let_def dest!: same_addresses_ops intro: same_addresses_trans)
  show "withdraw_handler rt ac2 ck n p l = Inr (q, l', e) \<Longrightarrow> same_addresses p q"
    by (auto simp: withdraw_handler_def Let_def dest!: same_addresses_ops intro: same_addresses_trans)
  show "margin_borrow_handler rt ac3 ck n p l = Inr (q, l', e) \<Longrightarrow> same_addresses p q"
    by (auto simp: margin_borrow_handler_def Let_def dest!: same_addresses_ops intro: same_addresses_trans)
  show "margin_borrow_v2_handler rt ac4 n p l = Inr (q, l', e) \<Longrightarrow> same_addresses p q"
    by (auto simp: margin_borrow_v2_handler_def Let_def dest!: same_addresses_ops intro: same_addresses_trans)
  show "repay_handler rt ac5 ck n p l = Inr (q, l', e) \<Longrightarrow> same_addresses p q"
    by (auto simp: repay_handler_def Let_def dest!: same_addresses_ops intro: same_addresses_trans)
  show "margin_repay_handler rt ac6 ck n p l = Inr (q, l', e) \<Longrightarrow> same_addresses p q"
    by (auto simp: margin_repay_handler_def Let_def dest!: same_addresses_ops intro: same_addresses_trans)
  show "configure_handler rt ca ac8 product c p = Inr (q, e) \<Longrightarrow> same_addresses p q"
    by (auto simp: configure_handler_def Let_def same_addresses_def split: option.splits if_split_asm)
qed

lemma same_addresses_collect:
  assumes "collect_handler rt ac p l = Inr (q, l', oe)"
  shows "same_addresses p q"
  using assms
  by (auto simp: collect_handler_def dest!: same_addresses_ops intro: same_addresses_trans split: if_split_asm)

text \<open>A pool has the addresses that \<open>create_pool\<close> derives from its own.\<close>

definition addresses_ok :: "'l Runtime \<Rightarrow> Pubkey \<Rightarrow> MarginPool \<Rightarrow> bool" where
  "addresses_ok rt k p \<longleftrightarrow>
     k = pda rt [SeedKey (token_mint p)] \<and> pool_address p = k \<and> vault p = pda rt [SeedKey k, SeedBytes ''vault''] \<and>
     deposit_note_mint p = pda rt [SeedKey k, SeedBytes ''deposit-notes''] \<and>
     loan_note_mint p = pda rt [SeedKey k, SeedBytes ''loan-notes'']"

lemma addresses_ok_same: "addresses_ok rt k p \<Longrightarrow> same_addresses p q \<Longrightarrow> addresses_ok rt k q"
  by (simp add: addresses_ok_def same_addresses_def)

lemma addresses_ok_create:
  "create_pool_handler rt ca ac fee existing l = Inr (p, l', e) \<Longrightarrow> addresses_ok rt (cp_margin_pool ac) p"
  by (auto simp: create_pool_handler_def Let_def addresses_ok_def)

definition all_addresses_ok :: "'l Runtime \<Rightarrow> 'l PoolProgram \<Rightarrow> bool" where
  "all_addresses_ok rt s \<longleftrightarrow> (\<forall>k p. pg_pools s k = Some p \<longrightarrow> addresses_ok rt k p)"

lemma put_pool_ok:
  assumes "put_pool k m s = Inr s'" "all_addresses_ok rt s"
    and "\<And>p l e. m = Inr (p, l, e) \<Longrightarrow> addresses_ok rt k p"
  shows "all_addresses_ok rt s'"
  using assms by (auto simp: put_pool_def all_addresses_ok_def split: if_split_asm)

lemma put_result_ok:
  "put_result m s = Inr s' \<Longrightarrow> all_addresses_ok rt s \<Longrightarrow> all_addresses_ok rt s'"
  by (auto simp: put_result_def all_addresses_ok_def)

lemma dispatch_addresses:
  assumes "pool_dispatch sdk env rt data ks s = Inr s'" "all_addresses_ok rt s"
  shows "all_addresses_ok rt s'"
proof -
  have old: "pg_pools s k = Some p \<Longrightarrow> addresses_ok rt k p" for k p using assms(2) by (simp add: all_addresses_ok_def)
  note step = addresses_ok_same [OF old]
  show ?thesis
  proof (cases data)
    case (CreatePoolData f)
    with assms show ?thesis
      by (auto split: list.split_asm elim!: put_pool_ok dest!: addresses_ok_create)
  next
    case CollectData
    with assms show ?thesis
      by (auto simp: all_addresses_ok_def split: list.split_asm if_split_asm dest!: same_addresses_collect
          intro: addresses_ok_same [OF old])
  next
    case (ConfigureData c)
    with assms show ?thesis by (auto split: list.split_asm elim!: put_pool_ok dest!: same_addresses_handlers intro: step)
  next
    case (DepositData ck n)
    with assms show ?thesis by (auto split: list.split_asm elim!: put_pool_ok dest!: same_addresses_handlers intro: step)
  next
    case (WithdrawData ck n)
    with assms show ?thesis by (auto split: list.split_asm elim!: put_pool_ok dest!: same_addresses_handlers intro: step)
  next
    case (MarginBorrowData ck n)
    with assms show ?thesis by (auto split: list.split_asm elim!: put_pool_ok dest!: same_addresses_handlers intro: step)
  next
    case (MarginBorrowV2Data n)
    with assms show ?thesis by (auto split: list.split_asm elim!: put_pool_ok dest!: same_addresses_handlers intro: step)
  next
    case (MarginRepayData ck n)
    with assms show ?thesis by (auto split: list.split_asm elim!: put_pool_ok dest!: same_addresses_handlers intro: step)
  next
    case (RepayData ck n)
    with assms show ?thesis by (auto split: list.split_asm elim!: put_pool_ok dest!: same_addresses_handlers intro: step)
  next
    case (AdminTransferLoanData n)
    with assms show ?thesis by (auto split: list.split_asm elim!: put_pool_ok intro: old)
  qed (use assms in \<open>auto split: list.split_asm elim!: put_result_ok\<close>)
qed

end
