(* ===== verification/PoolBuilder.thy ===== *)
theory PoolBuilder
  imports PoolProgram PoolSolvency MarginBuilder
begin

text \<open>
  The builder of pool instructions, \<open>instructions/src/margin_pool.rs\<close>. It derives all addresses of a pool from
  its token; \<open>pool_has_built_addresses\<close> states that these are the addresses of every pool there can be.
\<close>

subsection \<open>Addresses\<close>

definition derive_loan_account :: "Sdk \<Rightarrow> Pubkey \<Rightarrow> Pubkey \<Rightarrow> Pubkey" where
  "derive_loan_account sdk margin_account loan_notes_mint =
     derive sdk JET_MARGIN_POOL [SeedKey margin_account, SeedKey loan_notes_mint]"

definition derive_margin_pool :: "Sdk \<Rightarrow> Pubkey \<Rightarrow> Pubkey \<Rightarrow> Pubkey" where
  "derive_margin_pool sdk airspace mint = derive sdk JET_MARGIN_POOL [SeedKey mint]"

text \<open>The address \<open>authority::ID\<close> of the pool program's library.\<close>

definition POOL_AUTHORITY :: Pubkey where
  "POOL_AUTHORITY = 98617208707033555559327350148190535892573382300096496360710887715117158007591"

subsection \<open>The builder\<close>

record MarginPoolIxBuilder =
  pb_token_mint :: Pubkey
  pb_address :: Pubkey
  pb_vault :: Pubkey
  pb_deposit_note_mint :: Pubkey
  pb_loan_note_mint :: Pubkey

definition pool_builder_new :: "Sdk \<Rightarrow> Pubkey \<Rightarrow> MarginPoolIxBuilder" where
  "pool_builder_new sdk mint =
     (let address = derive_margin_pool sdk pubkey_default mint in
      \<lparr>pb_token_mint = mint, pb_address = address,
       pb_vault = derive sdk JET_MARGIN_POOL [SeedKey address, SeedBytes ''vault''],
       pb_deposit_note_mint = derive sdk JET_MARGIN_POOL [SeedKey address, SeedBytes ''deposit-notes''],
       pb_loan_note_mint = derive sdk JET_MARGIN_POOL [SeedKey address, SeedBytes ''loan-notes'']\<rparr>)"

definition pool_ix :: "AccountMeta list \<Rightarrow> PoolIxData \<Rightarrow> PoolIxData Instruction" where
  "pool_ix accounts data = \<lparr>ix_program = JET_MARGIN_POOL, ix_accounts = accounts, ix_data = data\<rparr>"

text \<open>The build for production; on the development network the authority is the payer.\<close>

definition pb_create :: "Sdk \<Rightarrow> MarginPoolIxBuilder \<Rightarrow> Pubkey \<Rightarrow> Pubkey \<Rightarrow> PoolIxData Instruction" where
  "pb_create sdk b payer fee_dest =
     pool_ix
       [meta_mut (pb_address b), meta_mut (pb_vault b), meta_mut (pb_deposit_note_mint b), meta_mut (pb_loan_note_mint b),
        meta_ro (pb_token_mint b), meta_signer POOL_AUTHORITY, meta_payer payer, meta_ro (sdk_token_program sdk),
        meta_ro (sdk_system_program sdk), meta_ro (sdk_rent sdk)]
       (CreatePoolData fee_dest)"

definition pb_deposit ::
  "Sdk \<Rightarrow> MarginPoolIxBuilder \<Rightarrow> Pubkey \<Rightarrow> Pubkey \<Rightarrow> Pubkey \<Rightarrow> TokenChange \<Rightarrow> PoolIxData Instruction" where
  "pb_deposit sdk b depositor source_account destination change =
     pool_ix
       [meta_mut (pb_address b), meta_mut (pb_vault b), meta_mut (pb_deposit_note_mint b), meta_signer depositor,
        meta_mut source_account, meta_mut destination, meta_ro (sdk_token_program sdk)]
       (DepositData (change_kind change) (change_tokens change))"

definition pb_withdraw ::
  "Sdk \<Rightarrow> MarginPoolIxBuilder \<Rightarrow> Pubkey \<Rightarrow> Pubkey \<Rightarrow> Pubkey \<Rightarrow> TokenChange \<Rightarrow> PoolIxData Instruction" where
  "pb_withdraw sdk b depositor source_account destination change =
     pool_ix
       [meta_signer depositor, meta_mut (pb_address b), meta_mut (pb_vault b), meta_mut (pb_deposit_note_mint b),
        meta_mut source_account, meta_mut destination, meta_ro (sdk_token_program sdk)]
       (WithdrawData (change_kind change) (change_tokens change))"

definition pb_margin_borrow ::
  "Sdk \<Rightarrow> MarginPoolIxBuilder \<Rightarrow> Pubkey \<Rightarrow> Pubkey \<Rightarrow> TokenChange \<Rightarrow> PoolIxData Instruction" where
  "pb_margin_borrow sdk b margin_account deposit_account change =
     pool_ix
       [meta_signer margin_account, meta_mut (pb_address b), meta_mut (pb_loan_note_mint b),
        meta_mut (pb_deposit_note_mint b), meta_mut (derive_loan_account sdk margin_account (pb_loan_note_mint b)),
        meta_mut deposit_account, meta_ro (sdk_token_program sdk)]
       (MarginBorrowData (change_kind change) (change_tokens change))"

definition pb_margin_borrow_v2 :: "Sdk \<Rightarrow> MarginPoolIxBuilder \<Rightarrow> Pubkey \<Rightarrow> Pubkey \<Rightarrow> nat \<Rightarrow> PoolIxData Instruction" where
  "pb_margin_borrow_v2 sdk b margin_account destination amount =
     pool_ix
       [meta_signer margin_account, meta_mut (pb_address b), meta_mut (pb_vault b), meta_mut (pb_loan_note_mint b),
        meta_mut (derive_loan_account sdk margin_account (pb_loan_note_mint b)), meta_mut destination,
        meta_ro (sdk_token_program sdk)]
       (MarginBorrowV2Data amount)"

definition pb_margin_repay ::
  "Sdk \<Rightarrow> MarginPoolIxBuilder \<Rightarrow> Pubkey \<Rightarrow> Pubkey \<Rightarrow> TokenChange \<Rightarrow> PoolIxData Instruction" where
  "pb_margin_repay sdk b margin_account deposit_account change =
     pool_ix
       [meta_signer margin_account, meta_mut (pb_address b), meta_mut (pb_loan_note_mint b),
        meta_mut (pb_deposit_note_mint b), meta_mut (derive_loan_account sdk margin_account (pb_loan_note_mint b)),
        meta_mut deposit_account, meta_ro (sdk_token_program sdk)]
       (MarginRepayData (change_kind change) (change_tokens change))"

definition pb_repay ::
  "Sdk \<Rightarrow> MarginPoolIxBuilder \<Rightarrow> Pubkey \<Rightarrow> Pubkey \<Rightarrow> Pubkey \<Rightarrow> TokenChange \<Rightarrow> PoolIxData Instruction" where
  "pb_repay sdk b source_authority source_account loan_account change =
     pool_ix
       [meta_mut (pb_address b), meta_mut (pb_loan_note_mint b), meta_mut (pb_vault b), meta_mut loan_account,
        meta_mut source_account, meta_signer source_authority, meta_ro (sdk_token_program sdk)]
       (RepayData (change_kind change) (change_tokens change))"

definition pb_margin_refresh_position :: "MarginPoolIxBuilder \<Rightarrow> Pubkey \<Rightarrow> Pubkey \<Rightarrow> PoolIxData Instruction" where
  "pb_margin_refresh_position b margin_account oracle =
     pool_ix [meta_ro margin_account, meta_ro (pb_address b), meta_ro oracle] MarginRefreshPositionData"

definition pb_register_loan :: "Sdk \<Rightarrow> MarginPoolIxBuilder \<Rightarrow> Pubkey \<Rightarrow> Pubkey \<Rightarrow> Pubkey \<Rightarrow> PoolIxData Instruction" where
  "pb_register_loan sdk b margin_account payer airspace =
     pool_ix
       [meta_signer margin_account, meta_ro (derive_token_config sdk airspace (pb_loan_note_mint b)),
        meta_mut (derive_loan_account sdk margin_account (pb_loan_note_mint b)), meta_ro (pb_loan_note_mint b),
        meta_ro (pb_address b), meta_payer payer, meta_ro (sdk_token_program sdk), meta_ro (sdk_system_program sdk),
        meta_ro (sdk_rent sdk)]
       RegisterLoanData"

definition pb_close_loan :: "Sdk \<Rightarrow> MarginPoolIxBuilder \<Rightarrow> Pubkey \<Rightarrow> Pubkey \<Rightarrow> PoolIxData Instruction" where
  "pb_close_loan sdk b margin_account payer =
     pool_ix
       [meta_signer margin_account, meta_mut (derive_loan_account sdk margin_account (pb_loan_note_mint b)),
        meta_ro (pb_loan_note_mint b), meta_ro (pb_address b), meta_payer payer, meta_ro (sdk_token_program sdk)]
       CloseLoanData"

definition pb_collect :: "Sdk \<Rightarrow> MarginPoolIxBuilder \<Rightarrow> Pubkey \<Rightarrow> PoolIxData Instruction" where
  "pb_collect sdk b fee_dest =
     pool_ix
       [meta_mut (pb_address b), meta_mut (pb_vault b), meta_mut fee_dest, meta_mut (pb_deposit_note_mint b),
        meta_ro (sdk_token_program sdk)]
       CollectData"

definition pb_admin_transfer_loan :: "Sdk \<Rightarrow> MarginPoolIxBuilder \<Rightarrow> Pubkey \<Rightarrow> Pubkey \<Rightarrow> nat \<Rightarrow> PoolIxData Instruction" where
  "pb_admin_transfer_loan sdk b source_margin_account target_margin_account amount =
     pool_ix
       [meta_signer GOVERNOR_ID, meta_ro (pb_address b),
        meta_mut (derive_loan_account sdk source_margin_account (pb_loan_note_mint b)),
        meta_mut (derive_loan_account sdk target_margin_account (pb_loan_note_mint b)), meta_ro (sdk_token_program sdk)]
       (AdminTransferLoanData amount)"

subsection \<open>The pools there can be\<close>

text \<open>Instructions, each in its environment at its time.\<close>

definition pool_run ::
  "Sdk \<Rightarrow> 'l Runtime \<Rightarrow> (PoolEnv \<times> int \<times> PoolIxData Instruction) list \<Rightarrow> 'l PoolProgram \<Rightarrow> 'l PoolProgram pool_tx" where
  "pool_run sdk rt = foldE (\<lambda>(env, t, ix). pool_process sdk env (instruction rt [] t) ix)"

lemma addresses_ok_runtime:
  "addresses_ok (runtime_of (instruction rt xs t) ms) k p = addresses_ok rt k p"
  "all_addresses_ok (runtime_of (instruction rt xs t) ms) s = all_addresses_ok rt s"
  by (simp_all add: addresses_ok_def all_addresses_ok_def)

lemma pool_run_addresses:
  assumes "pool_run sdk rt steps s = Inr s'" "all_addresses_ok rt s"
  shows "all_addresses_ok rt s'"
  using assms(1) [unfolded pool_run_def] assms(2)
proof (rule foldE_invariant)
  fix x u v assume a: "all_addresses_ok rt u" "(case x of (env, t, ix) \<Rightarrow> pool_process sdk env (instruction rt [] t) ix) u = Inr v"
  obtain env t ix where x: "x = (env, t, ix)" by (cases x) auto
  from a(2) dispatch_addresses [where rt = "runtime_of (instruction rt [] t) (ix_accounts ix)"] a(1)
  show "all_addresses_ok rt v" by (simp add: x pool_process_def addresses_ok_runtime)
qed

text \<open>
  C22: Whatever instructions the pool program executes, the addresses that a client derives from the
  token of a pool are the pool's own, its vault and the mints of its notes.
\<close>

theorem pool_has_built_addresses:
  assumes "runs_as sdk JET_MARGIN_POOL rt" "pg_pools s = Map.empty" "pool_run sdk rt steps s = Inr s'"
    and "pg_pools s' k = Some p"
  shows "k = pb_address (pool_builder_new sdk (token_mint p)) \<and> vault p = pb_vault (pool_builder_new sdk (token_mint p)) \<and>
    deposit_note_mint p = pb_deposit_note_mint (pool_builder_new sdk (token_mint p)) \<and>
    loan_note_mint p = pb_loan_note_mint (pool_builder_new sdk (token_mint p))"
  using pool_run_addresses [OF assms(3)] assms(2,4)
  by (simp add: all_addresses_ok_def addresses_ok_def pool_builder_new_def derive_margin_pool_def
      pda_eq_derive [OF assms(1)])

definition sample_pool_env :: PoolEnv where
  "sample_pool_env =
     \<lparr>pe_is_control_authority = (\<lambda>k. True), pe_feed = Map.empty, pe_product = Map.empty, pe_margin_account = Map.empty,
      pe_height = 1\<rparr>"

definition sample_pool_program :: "Ledger PoolProgram" where
  "sample_pool_program = \<lparr>pg_pools = Map.empty, pg_ledger = sample_ledger, pg_events = [], pg_result = None\<rparr>"

theorem pool_has_built_addresses_witness:
  "let sdk = sample_sdk sample_address; b = pool_builder_new sdk 7 in
   \<exists>s' p. pool_run sdk sample_runtime [(sample_pool_env, 5, pb_create sdk b 2 9)] sample_pool_program = Inr s' \<and>
     pg_pools s' (pb_address b) = Some p \<and> loan_note_mint p = pb_loan_note_mint b"
proof -
  let ?sdk = "sample_sdk sample_address" and ?b = "pool_builder_new (sample_sdk sample_address) 7"
  let ?steps = "[(sample_pool_env, 5, pb_create ?sdk ?b 2 9)]"
  have b: "pb_token_mint ?b = 7" "pb_address ?b = 100" "pb_vault ?b = 205" "pb_deposit_note_mint ?b = 213" "pb_loan_note_mint ?b = 210"
    by (simp_all add: pool_builder_new_def derive_margin_pool_def Let_def)
  obtain s' where run: "pool_run ?sdk sample_runtime ?steps sample_pool_program = Inr s'"
    and p: "pg_pools s' = [100 \<mapsto> created_pool]"
    by (simp add: pool_run_def pool_process_def pb_create_def pool_ix_def metas check_program_def put_pool_def b
        sample_pool_env_def sample_pool_program_def create_pool_handler_def load_mint_def sample_ledger_def
        require_signer_def create_token_account_def create_mint_def ledger_create_def ledger_create_mint_def
        zeroed_pool_def pool_summary_no_loans Let_def created_pool_def)
  have "runs_as ?sdk JET_MARGIN_POOL sample_runtime" by (simp add: sample_runtime_def)
  from pool_has_built_addresses [OF this _ run, of 100 created_pool] p run show ?thesis
    unfolding Let_def by (auto simp: sample_pool_program_def created_pool_def zeroed_pool_def b)
qed

text \<open>
  What the builder makes to create a pool names an authority of its own, so it succeeds only if that
  address holds the control authority; the control program's instruction is the one to use.
\<close>

lemma built_create_needs_authority:
  "pool_process sdk env rt (pb_create sdk b payer fee_dest) s = Inr s' \<Longrightarrow> pe_is_control_authority env POOL_AUTHORITY"
  by (auto simp: pool_process_def pb_create_def pool_ix_def metas put_pool_def create_pool_handler_def)

end
