(* ===== verification/SwapRouteBuilder.thy ===== *)
theory SwapRouteBuilder
  imports MarginSwap PoolBuilder
begin

text \<open>
  The builders of swap instructions, \<open>instructions/src/margin_swap.rs\<close> and \<open>openbook.rs\<close>, and the venues'
  accounts of \<open>libraries/rust/margin/src/swap\<close>.

  A swap instruction has its venues' accounts in one flat list, which the program cuts by the types
  of the venues. The builder makes this list leg by leg. \<open>built_route_executes\<close> states that the two agree: the
  program, on the list the builder has made, executes each leg on its own accounts.
\<close>

subsection \<open>Venues\<close>

text \<open>The implementations of the trait \<open>SwapAccounts\<close>.\<close>

record SplSwapPool =
  sp_pool :: Pubkey
  sp_pool_mint :: Pubkey
  sp_mint_a :: Pubkey
  sp_mint_b :: Pubkey
  sp_token_a :: Pubkey
  sp_token_b :: Pubkey
  sp_fee_account :: Pubkey
  sp_program :: Pubkey

record SaberSwapPool =
  sv_pool :: Pubkey
  sv_mint_a :: Pubkey
  sv_mint_b :: Pubkey
  sv_token_a :: Pubkey
  sv_token_b :: Pubkey
  sv_fee_a :: Pubkey
  sv_fee_b :: Pubkey
  sv_program :: Pubkey

record WhirlpoolSwapAccounts =
  ws_whirlpool :: Pubkey
  ws_oracle :: Pubkey
  ws_tick_arrays :: "Pubkey \<times> Pubkey \<times> Pubkey"
  ws_token_vault_a :: Pubkey
  ws_token_vault_b :: Pubkey
  ws_token_a :: Pubkey
  ws_token_b :: Pubkey

record WhirlpoolSwap =
  wh_whirlpool :: Pubkey
  wh_oracle :: Pubkey
  wh_tick_arrays :: "Pubkey \<times> Pubkey \<times> Pubkey \<times> Pubkey \<times> Pubkey"
  wh_token_vault_a :: Pubkey
  wh_token_vault_b :: Pubkey
  wh_token_a :: Pubkey
  wh_token_b :: Pubkey

definition whirlpool_accounts :: "WhirlpoolSwap \<Rightarrow> Pubkey \<times> Pubkey \<times> Pubkey \<Rightarrow> WhirlpoolSwapAccounts" where
  "whirlpool_accounts w ticks =
     \<lparr>ws_whirlpool = wh_whirlpool w, ws_oracle = wh_oracle w, ws_tick_arrays = ticks,
      ws_token_vault_a = wh_token_vault_a w, ws_token_vault_b = wh_token_vault_b w, ws_token_a = wh_token_a w,
      ws_token_b = wh_token_b w\<rparr>"

definition swap_a_to_b :: "WhirlpoolSwap \<Rightarrow> WhirlpoolSwapAccounts" where
  "swap_a_to_b w = (case wh_tick_arrays w of (t0, t1, t2, t3, t4) \<Rightarrow> whirlpool_accounts w (t2, t1, t0))"

definition swap_b_to_a :: "WhirlpoolSwap \<Rightarrow> WhirlpoolSwapAccounts" where
  "swap_b_to_a w = (case wh_tick_arrays w of (t0, t1, t2, t3, t4) \<Rightarrow> whirlpool_accounts w (t2, t3, t4))"

record OpenBookMarket =
  om_market :: Pubkey
  om_base_mint :: Pubkey
  om_quote_mint :: Pubkey
  om_request_queue :: Pubkey
  om_bids :: Pubkey
  om_asks :: Pubkey
  om_event_queue :: Pubkey
  om_base_vault :: Pubkey
  om_quote_vault :: Pubkey
  om_vault_signer :: Pubkey
  om_program :: Pubkey

datatype SwapPool =
    SplPool SplSwapPool
  | SaberPool SaberSwapPool
  | WhirlpoolPool WhirlpoolSwapAccounts
  | OpenBookPool OpenBookMarket

definition derive_open_orders :: "Sdk \<Rightarrow> Pubkey \<Rightarrow> Pubkey \<Rightarrow> Pubkey" where
  "derive_open_orders sdk authority market =
     derive sdk JET_MARGIN_SWAP [SeedBytes ''open_orders'', SeedKey authority, SeedKey market]"

definition derive_spl_swap_authority :: "Sdk \<Rightarrow> Pubkey \<Rightarrow> Pubkey \<Rightarrow> Pubkey" where
  "derive_spl_swap_authority sdk program_id pool = derive sdk program_id [SeedKey pool]"

definition spl_account_meta :: "Sdk \<Rightarrow> SplSwapPool \<Rightarrow> AccountMeta list" where
  "spl_account_meta sdk p =
     [meta_ro (sp_pool p), meta_ro (derive sdk (sp_program p) [SeedKey (sp_pool p)]), meta_mut (sp_token_a p),
      meta_mut (sp_token_b p), meta_mut (sp_pool_mint p), meta_mut (sp_fee_account p), meta_ro (sp_program p)]"

definition saber_account_meta :: "Sdk \<Rightarrow> SaberSwapPool \<Rightarrow> AccountMeta list" where
  "saber_account_meta sdk p =
     [meta_ro (sv_pool p), meta_ro (derive sdk (sv_program p) [SeedKey (sv_pool p)]), meta_mut (sv_token_a p),
      meta_mut (sv_token_b p), meta_mut (sv_fee_a p), meta_mut (sv_fee_b p), meta_ro (sv_program p)]"

text \<open>\<open>orca\<close> is the address of the Whirlpool program.\<close>

definition whirlpool_account_meta :: "Pubkey \<Rightarrow> WhirlpoolSwapAccounts \<Rightarrow> AccountMeta list" where
  "whirlpool_account_meta orca p =
     (case ws_tick_arrays p of (t0, t1, t2) \<Rightarrow>
       [meta_ro orca, meta_mut (ws_whirlpool p), meta_mut (ws_token_vault_a p), meta_mut (ws_token_vault_b p),
        meta_mut t0, meta_mut t1, meta_mut t2, meta_ro (ws_oracle p)])"

definition openbook_account_meta :: "Sdk \<Rightarrow> OpenBookMarket \<Rightarrow> Pubkey \<Rightarrow> AccountMeta list" where
  "openbook_account_meta sdk p authority =
     [meta_mut (om_market p), meta_mut (derive_open_orders sdk authority (om_market p)), meta_mut (om_request_queue p),
      meta_mut (om_event_queue p), meta_mut (om_bids p), meta_mut (om_asks p), meta_mut (om_base_vault p),
      meta_mut (om_quote_vault p), meta_ro (om_quote_mint p), meta_ro (om_vault_signer p),
      meta_mut (sdk_associated sdk CONTROL_AUTHORITY (om_quote_mint p)), meta_ro (om_program p), meta_ro (sdk_rent sdk)]"

fun to_account_meta :: "Sdk \<Rightarrow> Pubkey \<Rightarrow> SwapPool \<Rightarrow> Pubkey \<Rightarrow> AccountMeta list" where
  "to_account_meta sdk orca (SplPool p) authority = spl_account_meta sdk p"
| "to_account_meta sdk orca (SaberPool p) authority = saber_account_meta sdk p"
| "to_account_meta sdk orca (WhirlpoolPool p) authority = whirlpool_account_meta orca p"
| "to_account_meta sdk orca (OpenBookPool p) authority = openbook_account_meta sdk p authority"

fun pool_tokens :: "SwapPool \<Rightarrow> Pubkey \<times> Pubkey" where
  "pool_tokens (SplPool p) = (sp_mint_a p, sp_mint_b p)"
| "pool_tokens (SaberPool p) = (sv_mint_a p, sv_mint_b p)"
| "pool_tokens (WhirlpoolPool p) = (ws_token_a p, ws_token_b p)"
| "pool_tokens (OpenBookPool p) = (om_base_mint p, om_quote_mint p)"

fun route_type :: "SwapPool \<Rightarrow> SwapRouteIdentifier" where
  "route_type (SplPool p) = Spl"
| "route_type (SaberPool p) = SaberStable"
| "route_type (WhirlpoolPool p) = Whirlpool"
| "route_type (OpenBookPool p) = OpenBook"

lemma route_type_not_empty [simp]: "route_type p \<noteq> Empty" "Empty \<noteq> route_type p"
  by (cases p; simp)+

subsection \<open>Instructions of the program\<close>

datatype SwapIxData =
    MarginSwapData ChangeKind nat nat
  | RouteSwapPoolData ChangeKind nat nat Routes bool
  | RouteSwapData nat nat Routes bool
  | SplTokenSwapData | SaberStableSwapData | OpenbookSwapData | WhirlpoolSwapData
  | InitOpenbookOpenOrdersData
  | CloseOpenbookOpenOrdersData

definition swap_ix :: "AccountMeta list \<Rightarrow> SwapIxData \<Rightarrow> SwapIxData Instruction" where
  "swap_ix accounts data = \<lparr>ix_program = JET_MARGIN_SWAP, ix_accounts = accounts, ix_data = data\<rparr>"

text \<open>
  The entry point: the accounts that the \<open>#[derive(Accounts)]\<close> structs of an instruction take, with the
  programs among them checked, the others the remaining accounts. \<open>existing\<close> says which accounts exist.
\<close>

definition swap_dispatch ::
  "Sdk \<Rightarrow> 'l Venues \<Rightarrow> (Pubkey \<Rightarrow> bool) \<Rightarrow> 'l Runtime \<Rightarrow> Pubkey list \<Rightarrow> SwapIxData \<Rightarrow> 'l SwapState \<Rightarrow>
     'l SwapState swap_tx" where
  "swap_dispatch sdk vn existing rt ks d s =
     (case (d, ks) of
        (MarginSwapData kind amount min_out,
         ma # sa # da # ts # td # p # a # vi # vf # m # f # prog # sp # sv # sm # dp # dv # dm # pool_prog # tok # _) \<Rightarrow>
          bindE (check_program JET_MARGIN_POOL pool_prog) (\<lambda>_.
          bindE (check_program (sdk_token_program sdk) tok) (\<lambda>_.
          margin_spl_swap_handler rt vn
            \<lparr>rs_margin_account = ma, rs_source_account = sa, rs_destination_account = da,
             rs_source_margin_pool = \<lparr>pi_margin_pool = sp, pi_vault = sv, pi_deposit_note_mint = sm\<rparr>,
             rs_destination_margin_pool = \<lparr>pi_margin_pool = dp, pi_vault = dv, pi_deposit_note_mint = dm\<rparr>\<rparr>
            \<lparr>si_swap_pool = p, si_authority = a, si_vault_into = vi, si_vault_from = vf, si_token_mint = m,
             si_fee_account = f, si_swap_program = prog\<rparr> ts td kind amount min_out s))
      | (RouteSwapPoolData kind amount min_out routes liq, ma # sa # da # sp # sv # sm # dp # dv # dm # pool_prog # tok # rest) \<Rightarrow>
          bindE (check_program JET_MARGIN_POOL pool_prog) (\<lambda>_.
          bindE (check_program (sdk_token_program sdk) tok) (\<lambda>_.
          route_swap_pool_handler rt vn
            \<lparr>rs_margin_account = ma, rs_source_account = sa, rs_destination_account = da,
             rs_source_margin_pool = \<lparr>pi_margin_pool = sp, pi_vault = sv, pi_deposit_note_mint = sm\<rparr>,
             rs_destination_margin_pool = \<lparr>pi_margin_pool = dp, pi_vault = dv, pi_deposit_note_mint = dm\<rparr>\<rparr>
            kind amount min_out routes liq rest s))
      | (RouteSwapData amount min_out routes liq, ma # tok # rest) \<Rightarrow>
          bindE (check_program (sdk_token_program sdk) tok) (\<lambda>_.
          route_swap_handler rt vn ma amount min_out routes liq rest s)
      | (SplTokenSwapData, _) \<Rightarrow> bindE (take_spl_accounts ks) (\<lambda>_. direct_swap s)
      | (SaberStableSwapData, _) \<Rightarrow> bindE (take_saber_accounts vn ks) (\<lambda>_. direct_swap s)
      | (OpenbookSwapData, _) \<Rightarrow> bindE (take_openbook_accounts rt vn s ks) (\<lambda>_. direct_swap s)
      | (WhirlpoolSwapData, _) \<Rightarrow> bindE (take_whirlpool_accounts vn s ks) (\<lambda>_. direct_swap s)
      | (InitOpenbookOpenOrdersData, ma # m # payer # oo # dex # sys # rent # _) \<Rightarrow>
          bindE (check_program (vn_dex vn) dex) (\<lambda>_.
          bindE (check_program (sdk_system_program sdk) sys) (\<lambda>_.
          bindE (check_program (sdk_rent sdk) rent) (\<lambda>_.
          init_open_orders_handler rt vn
            \<lparr>oo_margin_account = ma, oo_market = m, oo_payer = payer, oo_open_orders = oo, oo_destination = payer\<rparr>
            (existing oo) s)))
      | (CloseOpenbookOpenOrdersData, ma # oo # dest # m # dex # _) \<Rightarrow>
          bindE (check_program (vn_dex vn) dex) (\<lambda>_.
          close_open_orders_handler rt vn
            \<lparr>oo_margin_account = ma, oo_market = m, oo_payer = dest, oo_open_orders = oo, oo_destination = dest\<rparr> s)
      | _ \<Rightarrow> err AccountErr)"

definition swap_process ::
  "Sdk \<Rightarrow> 'l Venues \<Rightarrow> (Pubkey \<Rightarrow> bool) \<Rightarrow> 'l Runtime \<Rightarrow> SwapIxData Instruction \<Rightarrow> 'l SwapState \<Rightarrow> 'l SwapState swap_tx" where
  "swap_process sdk vn existing rt ix s =
     swap_dispatch sdk vn existing (runtime_of rt (ix_accounts ix)) (keys_of (ix_accounts ix)) (ix_data ix) s"

definition create_open_orders ::
  "Sdk \<Rightarrow> Pubkey \<Rightarrow> Pubkey \<Rightarrow> Pubkey \<Rightarrow> Pubkey \<Rightarrow> SwapIxData Instruction \<times> Pubkey" where
  "create_open_orders sdk authority market payer program_id =
     (let open_orders = derive_open_orders sdk authority market in
      (swap_ix
         [meta_signer authority, meta_ro market, meta_payer payer, meta_mut open_orders, meta_ro program_id,
          meta_ro (sdk_system_program sdk), meta_ro (sdk_rent sdk)]
         InitOpenbookOpenOrdersData, open_orders))"

definition close_open_orders :: "Sdk \<Rightarrow> Pubkey \<Rightarrow> Pubkey \<Rightarrow> Pubkey \<Rightarrow> Pubkey \<Rightarrow> SwapIxData Instruction" where
  "close_open_orders sdk authority market recipient program_id =
     swap_ix
       [meta_signer authority, meta_mut (derive_open_orders sdk authority market), meta_mut recipient, meta_ro market,
        meta_ro program_id]
       CloseOpenbookOpenOrdersData"


subsection \<open>The SPL swap of the first version\<close>

record SplSwap =
  sl_program :: Pubkey
  sl_address :: Pubkey
  sl_pool_mint :: Pubkey
  sl_token_a :: Pubkey
  sl_token_b :: Pubkey
  sl_token_a_vault :: Pubkey
  sl_token_b_vault :: Pubkey
  sl_fee_account :: Pubkey

definition pool_metas :: "MarginPoolIxBuilder \<Rightarrow> AccountMeta list" where
  "pool_metas p = [meta_mut (pb_address p), meta_mut (pb_vault p), meta_mut (pb_deposit_note_mint p)]"

definition pool_spl_swap ::
  "Sdk \<Rightarrow> SplSwap \<Rightarrow> Pubkey \<Rightarrow> Pubkey \<Rightarrow> Pubkey \<Rightarrow> Pubkey option \<Rightarrow> Pubkey option \<Rightarrow> ChangeKind \<Rightarrow> nat \<Rightarrow> nat \<Rightarrow>
     SwapIxData Instruction" where
  "pool_spl_swap sdk info margin_account source_mint target_mint source_account target_account kind amount min_out =
     (let pool_source = pool_builder_new sdk source_mint; pool_target = pool_builder_new sdk target_mint;
          source_account = (case source_account of None \<Rightarrow> sdk_associated sdk margin_account (pb_deposit_note_mint pool_source)
                              | Some k \<Rightarrow> k);
          target_account = (case target_account of None \<Rightarrow> sdk_associated sdk margin_account (pb_deposit_note_mint pool_target)
                              | Some k \<Rightarrow> k);
          (vault_into, vault_from) =
            (if source_mint = sl_token_a info then (sl_token_a_vault info, sl_token_b_vault info)
             else (sl_token_b_vault info, sl_token_a_vault info)) in
      swap_ix
        ([meta_signer margin_account, meta_mut source_account, meta_mut target_account,
          meta_mut (sdk_associated sdk margin_account source_mint), meta_mut (sdk_associated sdk margin_account target_mint),
          meta_ro (sl_address info), meta_ro (derive_spl_swap_authority sdk (sl_program info) (sl_address info)),
          meta_mut vault_into, meta_mut vault_from, meta_mut (sl_pool_mint info), meta_mut (sl_fee_account info),
          meta_ro (sl_program info)] @ pool_metas pool_source @ pool_metas pool_target @
         [meta_ro JET_MARGIN_POOL, meta_ro (sdk_token_program sdk)])
        (MarginSwapData kind amount min_out))"

subsection \<open>The route builder\<close>

text \<open>\<open>JetIxError::SwapIxError\<close>, one constructor for each of its messages.\<close>

datatype SwapIxError =
    LiquidatorAlreadySet | AlreadyFinalized | RouteNotEmpty | InvalidSwapSplit | NoRouteDetail | NoSwapRoutes
  | ExpectedSecondPart | NoRouteTokens | WrongDestination | NotFinalized | PoolLacksToken Pubkey | RouteFinalized
  | TooManyRoutes | SplitOnSecondPart | SplitTokensDiffer | SourceTokenDiffers

type_synonym 'a ix_result = "(SwapIxError, 'a) res"

datatype SwapContext = MarginPoolContext | MarginPositions

record MarginSwapRouteIxBuilder =
  br_margin_account :: Pubkey
  br_src_token :: Pubkey
  br_dst_token :: Pubkey
  br_route_details :: "SwapRouteDetail list"
  br_withdrawal_change :: TokenChange
  br_minimum_amount_out :: nat
  br_account_metas :: "AccountMeta list"
  br_current_route_tokens :: "(Pubkey \<times> Pubkey) option"
  br_next_route_index :: nat
  br_is_finalized :: bool
  br_expects_multi_route :: bool
  br_spl_token_accounts :: "Pubkey set"
  br_pool_note_mints :: "Pubkey set"
  br_swap_context :: SwapContext
  br_is_liquidation :: bool

definition context_metas :: "Sdk \<Rightarrow> SwapContext \<Rightarrow> Pubkey \<Rightarrow> Pubkey \<Rightarrow> Pubkey \<Rightarrow> AccountMeta list" where
  "context_metas sdk ctx margin_account src_token dst_token =
     (let src_pool = pool_builder_new sdk src_token; dst_pool = pool_builder_new sdk dst_token in
      case ctx of
        MarginPoolContext \<Rightarrow>
          [meta_signer margin_account,
           meta_mut (derive_position_token_account sdk margin_account (pb_deposit_note_mint src_pool)),
           meta_mut (derive_position_token_account sdk margin_account (pb_deposit_note_mint dst_pool))] @
          pool_metas src_pool @ pool_metas dst_pool @ [meta_ro JET_MARGIN_POOL, meta_ro (sdk_token_program sdk)]
      | MarginPositions \<Rightarrow> [meta_signer margin_account, meta_ro (sdk_token_program sdk)])"

definition try_new ::
  "Sdk \<Rightarrow> SwapContext \<Rightarrow> Pubkey \<Rightarrow> Pubkey \<Rightarrow> Pubkey \<Rightarrow> TokenChange \<Rightarrow> nat \<Rightarrow> MarginSwapRouteIxBuilder ix_result" where
  "try_new sdk ctx margin_account src_token dst_token change min_out =
     Inr \<lparr>br_margin_account = margin_account, br_src_token = src_token, br_dst_token = dst_token,
          br_route_details = [default_route, default_route, default_route], br_withdrawal_change = change,
          br_minimum_amount_out = min_out, br_account_metas = context_metas sdk ctx margin_account src_token dst_token,
          br_current_route_tokens = None, br_next_route_index = 0, br_is_finalized = False,
          br_expects_multi_route = False, br_spl_token_accounts = {src_token, dst_token},
          br_pool_note_mints =
            (case ctx of
               MarginPoolContext \<Rightarrow> {pb_deposit_note_mint (pool_builder_new sdk src_token),
                                 pb_deposit_note_mint (pool_builder_new sdk dst_token)}
             | MarginPositions \<Rightarrow> {}),
          br_swap_context = ctx, br_is_liquidation = False\<rparr>"

definition set_liquidation :: "Sdk \<Rightarrow> MarginSwapRouteIxBuilder \<Rightarrow> MarginSwapRouteIxBuilder ix_result" where
  "set_liquidation sdk b =
     bindE (guardE (\<not> br_is_liquidation b) LiquidatorAlreadySet) (\<lambda>_.
     bindE (guardE (\<not> br_is_finalized b) AlreadyFinalized) (\<lambda>_.
     bindE (guardE (br_current_route_tokens b = None) RouteNotEmpty) (\<lambda>_.
     Inr (b\<lparr>br_account_metas := br_account_metas b @
              [meta_mut (sdk_associated sdk (get_control_authority_address sdk) (br_dst_token b))],
            br_is_liquidation := True\<rparr>))))"

definition src_dst_tokens :: "MarginSwapRouteIxBuilder \<Rightarrow> SwapPool \<Rightarrow> (Pubkey \<times> Pubkey) ix_result" where
  "src_dst_tokens b pool =
     (let (mint_a, mint_b) = pool_tokens pool;
          next_src_token =
            (case br_current_route_tokens b of
               None \<Rightarrow> br_src_token b
             | Some (x, y) \<Rightarrow> if br_expects_multi_route b then x else y) in
      if mint_a = next_src_token then Inr (mint_a, mint_b)
      else if mint_b = next_src_token then Inr (mint_b, mint_a)
      else err (PoolLacksToken next_src_token))"

definition verify_addition :: "MarginSwapRouteIxBuilder \<Rightarrow> Pubkey \<Rightarrow> Pubkey \<Rightarrow> nat \<Rightarrow> unit ix_result" where
  "verify_addition b src_token dst_token swap_split =
     bindE (guardE (\<not> br_is_finalized b) RouteFinalized) (\<lambda>_.
     bindE (guardE (br_next_route_index b \<le> 2) TooManyRoutes) (\<lambda>_.
     bindE (guardE (\<not> (br_expects_multi_route b \<and> swap_split > 0)) SplitOnSecondPart) (\<lambda>_.
     case br_current_route_tokens b of
       None \<Rightarrow> Inr ()
     | Some (x, y) \<Rightarrow>
         if br_expects_multi_route b \<and> (x \<noteq> src_token \<or> y \<noteq> dst_token) then err SplitTokensDiffer
         else if \<not> br_expects_multi_route b \<and> y \<noteq> src_token then err SourceTokenDiffers
         else Inr ())))"

definition ROUTE_SWAP_MAX_SPLIT :: nat where "ROUTE_SWAP_MAX_SPLIT = 90"
definition ROUTE_SWAP_MIN_SPLIT :: nat where "ROUTE_SWAP_MIN_SPLIT = 100 - ROUTE_SWAP_MAX_SPLIT"

definition add_route_detail :: "MarginSwapRouteIxBuilder \<Rightarrow> SwapPool \<Rightarrow> nat \<Rightarrow> MarginSwapRouteIxBuilder ix_result" where
  "add_route_detail b pool swap_split =
     (let i = br_next_route_index b in
      if length (br_route_details b) \<le> i then err NoRouteDetail
      else if br_expects_multi_route b then
        Inr (b\<lparr>br_route_details := (br_route_details b)[i := (br_route_details b ! i)\<lparr>route_b := route_type pool\<rparr>],
               br_expects_multi_route := False, br_next_route_index := i + 1\<rparr>)
      else
        let b = b\<lparr>br_route_details :=
                    (br_route_details b)[i := (br_route_details b ! i)\<lparr>route_a := route_type pool, split := swap_split\<rparr>]\<rparr> in
        Inr (if swap_split > 0 then b\<lparr>br_expects_multi_route := True\<rparr> else b\<lparr>br_next_route_index := i + 1\<rparr>))"

definition add_swap_leg ::
  "Sdk \<Rightarrow> Pubkey \<Rightarrow> SwapPool \<Rightarrow> nat \<Rightarrow> MarginSwapRouteIxBuilder \<Rightarrow> MarginSwapRouteIxBuilder ix_result" where
  "add_swap_leg sdk orca pool swap_split b =
     bindE (guardE (\<not> (swap_split > ROUTE_SWAP_MAX_SPLIT \<or> (swap_split > 0 \<and> swap_split < ROUTE_SWAP_MIN_SPLIT)))
              InvalidSwapSplit) (\<lambda>_.
     bindE (src_dst_tokens b pool) (\<lambda>(src_token, dst_token).
     bindE (verify_addition b src_token dst_token swap_split) (\<lambda>_.
     let src_ata = sdk_associated sdk (br_margin_account b) src_token;
         dst_ata = sdk_associated sdk (br_margin_account b) dst_token;
         metas = br_account_metas b @
           (if br_expects_multi_route b then [] else [meta_mut src_ata]) @
           to_account_meta sdk orca pool (br_margin_account b) @
           (if \<not> br_expects_multi_route b \<and> swap_split > 0 then [meta_mut dst_ata] else []) in
     bindE (add_route_detail (b\<lparr>br_account_metas := metas\<rparr>) pool swap_split) (\<lambda>b.
     Inr (b\<lparr>br_current_route_tokens := Some (src_token, dst_token),
            br_spl_token_accounts := insert dst_token (insert src_token (br_spl_token_accounts b))\<rparr>)))))"

definition finalize :: "Sdk \<Rightarrow> MarginSwapRouteIxBuilder \<Rightarrow> MarginSwapRouteIxBuilder ix_result" where
  "finalize sdk b =
     bindE (guardE (\<not> br_is_finalized b) AlreadyFinalized) (\<lambda>_.
     bindE (guardE (br_next_route_index b \<noteq> 0) NoSwapRoutes) (\<lambda>_.
     bindE (guardE (\<not> br_expects_multi_route b) ExpectedSecondPart) (\<lambda>_.
     bindE (ok_or (br_current_route_tokens b) NoRouteTokens) (\<lambda>(_, y).
     bindE (guardE (br_dst_token b = y) WrongDestination) (\<lambda>_.
     Inr (b\<lparr>br_account_metas := br_account_metas b @
              [meta_mut (sdk_associated sdk (br_margin_account b) (br_dst_token b))],
            br_is_finalized := True\<rparr>))))))"

definition routes_of :: "SwapRouteDetail list \<Rightarrow> Routes" where
  "routes_of rs = (rs ! 0, rs ! 1, rs ! 2)"

definition get_instruction :: "MarginSwapRouteIxBuilder \<Rightarrow> SwapIxData Instruction ix_result" where
  "get_instruction b =
     bindE (guardE (br_is_finalized b) NotFinalized) (\<lambda>_.
     Inr (swap_ix (br_account_metas b)
       (case br_swap_context b of
          MarginPoolContext \<Rightarrow>
            RouteSwapPoolData (change_kind (br_withdrawal_change b)) (change_tokens (br_withdrawal_change b))
              (br_minimum_amount_out b) (routes_of (br_route_details b)) (br_is_liquidation b)
        | MarginPositions \<Rightarrow>
            RouteSwapData (change_tokens (br_withdrawal_change b)) (br_minimum_amount_out b)
              (routes_of (br_route_details b)) (br_is_liquidation b))))"

end
