(* ===== verification/SwapRouteLegs.thy ===== *)
theory SwapRouteLegs
  imports SwapRouteBuilder
begin

text \<open>
  What a route is meant to be: a list of legs, each on one venue or split between two, from the token
  before to the next. The builder holds exactly the legs it was given, and the program executes them.
\<close>

subsection \<open>Legs\<close>

record Leg =
  lg_pool :: SwapPool
  lg_second :: "SwapPool option"
  lg_split :: nat
  lg_src :: Pubkey
  lg_dst :: Pubkey

definition other_mint :: "SwapPool \<Rightarrow> Pubkey \<Rightarrow> Pubkey" where
  "other_mint p k = (case pool_tokens p of (x, y) \<Rightarrow> if x = k then y else x)"

definition leg_of :: "Pubkey \<Rightarrow> SwapPool \<Rightarrow> SwapPool option \<Rightarrow> nat \<Rightarrow> Leg" where
  "leg_of src p second n =
     \<lparr>lg_pool = p, lg_second = second, lg_split = n, lg_src = src, lg_dst = other_mint p src\<rparr>"

text \<open>The legs of a sequence of calls, a call with a split followed by its second part.\<close>

fun legs_of :: "Pubkey \<Rightarrow> (SwapPool \<times> nat) list \<Rightarrow> Leg list" where
  "legs_of src [] = []"
| "legs_of src ((p, 0) # calls) = leg_of src p None 0 # legs_of (other_mint p src) calls"
| "legs_of src [(p, Suc n)] = []"
| "legs_of src ((p, Suc n) # (q, m) # calls) = leg_of src p (Some q) (Suc n) # legs_of (other_mint p src) calls"

fun end_token :: "Pubkey \<Rightarrow> Leg list \<Rightarrow> Pubkey" where
  "end_token src [] = src"
| "end_token src (lg # legs) = end_token (lg_dst lg) legs"

lemma end_token_append [simp]: "end_token src (legs @ [lg]) = lg_dst lg"
  by (induction legs arbitrary: src) auto

fun chained :: "Pubkey \<Rightarrow> Leg list \<Rightarrow> bool" where
  "chained src [] \<longleftrightarrow> True"
| "chained src (lg # legs) \<longleftrightarrow> lg_src lg = src \<and> chained (lg_dst lg) legs"

lemma chained_append [simp]: "chained src (legs @ [lg]) \<longleftrightarrow> chained src legs \<and> lg_src lg = end_token src legs"
  by (induction legs arbitrary: src) auto

definition proper_leg :: "Leg \<Rightarrow> bool" where
  "proper_leg lg \<longleftrightarrow> (if lg_split lg = 0 then lg_second lg = None else lg_second lg \<noteq> None \<and> 10 \<le> lg_split lg \<and> lg_split lg \<le> 90)"

definition leg_route :: "Leg \<Rightarrow> SwapRouteDetail" where
  "leg_route lg =
     \<lparr>route_a = route_type (lg_pool lg), route_b = (case lg_second lg of None \<Rightarrow> Empty | Some q \<Rightarrow> route_type q),
      destination_mint = pubkey_default, split = lg_split lg\<rparr>"

definition leg_metas :: "Sdk \<Rightarrow> Pubkey \<Rightarrow> Pubkey \<Rightarrow> Leg \<Rightarrow> AccountMeta list" where
  "leg_metas sdk orca authority lg =
     meta_mut (sdk_associated sdk authority (lg_src lg)) # to_account_meta sdk orca (lg_pool lg) authority @
     (case lg_second lg of
        None \<Rightarrow> []
      | Some q \<Rightarrow> meta_mut (sdk_associated sdk authority (lg_dst lg)) # to_account_meta sdk orca q authority)"

subsection \<open>A builder with so many legs\<close>

definition fresh_builder :: "MarginSwapRouteIxBuilder \<Rightarrow> bool" where
  "fresh_builder b \<longleftrightarrow> br_current_route_tokens b = None \<and> br_next_route_index b = 0 \<and> \<not> br_is_finalized b \<and>
     \<not> br_expects_multi_route b \<and> br_route_details b = replicate 3 default_route"

definition with_legs ::
  "Sdk \<Rightarrow> Pubkey \<Rightarrow> MarginSwapRouteIxBuilder \<Rightarrow> Leg list \<Rightarrow> Pubkey set \<Rightarrow> MarginSwapRouteIxBuilder" where
  "with_legs sdk orca b legs tokens =
     b\<lparr>br_account_metas := br_account_metas b @ concat (map (leg_metas sdk orca (br_margin_account b)) legs),
       br_route_details := map leg_route legs @ replicate (3 - length legs) default_route,
       br_current_route_tokens := (if legs = [] then None else Some (lg_src (last legs), lg_dst (last legs))),
       br_next_route_index := length legs, br_spl_token_accounts := tokens\<rparr>"

lemma with_legs_simps [simp]:
  "br_margin_account (with_legs sdk orca b legs tokens) = br_margin_account b"
  "br_src_token (with_legs sdk orca b legs tokens) = br_src_token b"
  "br_dst_token (with_legs sdk orca b legs tokens) = br_dst_token b"
  "br_is_finalized (with_legs sdk orca b legs tokens) = br_is_finalized b"
  "br_expects_multi_route (with_legs sdk orca b legs tokens) = br_expects_multi_route b"
  "br_next_route_index (with_legs sdk orca b legs tokens) = length legs"
  "br_route_details (with_legs sdk orca b legs tokens) = map leg_route legs @ replicate (3 - length legs) default_route"
  "br_current_route_tokens (with_legs sdk orca b legs tokens) =
     (if legs = [] then None else Some (lg_src (last legs), lg_dst (last legs)))"
  "br_account_metas (with_legs sdk orca b legs tokens) =
     br_account_metas b @ concat (map (leg_metas sdk orca (br_margin_account b)) legs)"
  by (simp_all add: with_legs_def)

lemma with_no_legs: "fresh_builder b \<Longrightarrow> b = with_legs sdk orca b [] (br_spl_token_accounts b)"
  by (cases b) (simp add: with_legs_def fresh_builder_def)

lemma end_token_last: "end_token src legs = (if legs = [] then src else lg_dst (last legs))"
  by (induction legs arbitrary: src) auto

lemma replicate_routes: "n \<le> 2 \<Longrightarrow> replicate (3 - n) d = d # replicate (2 - n) d"
  by (simp add: Suc_diff_le numeral_3_eq_3)

lemma src_dst_tokens_other:
  "src_dst_tokens b p = Inr (x, y) \<Longrightarrow>
     x = (case br_current_route_tokens b of None \<Rightarrow> br_src_token b | Some (u, v) \<Rightarrow> if br_expects_multi_route b then u else v) \<and>
     y = other_mint p x"
  by (auto simp: src_dst_tokens_def other_mint_def Let_def split: prod.splits option.splits if_splits)

text \<open>What a successful call does, to a builder that expects no second part and to one that does.\<close>

lemma add_first_part:
  assumes "add_swap_leg sdk orca p n b = Inr b'" "\<not> br_expects_multi_route b"
  obtains x y where "src_dst_tokens b p = Inr (x, y)" "br_next_route_index b \<le> 2" "n = 0 \<or> 10 \<le> n \<and> n \<le> 90"
    "b' = b\<lparr>br_account_metas := br_account_metas b @ meta_mut (sdk_associated sdk (br_margin_account b) x) #
              to_account_meta sdk orca p (br_margin_account b) @
              (if n > 0 then [meta_mut (sdk_associated sdk (br_margin_account b) y)] else []),
            br_route_details := (br_route_details b)
              [br_next_route_index b := (br_route_details b ! br_next_route_index b)\<lparr>route_a := route_type p, split := n\<rparr>],
            br_current_route_tokens := Some (x, y),
            br_next_route_index := (if n = 0 then br_next_route_index b + 1 else br_next_route_index b),
            br_expects_multi_route := (n > 0),
            br_spl_token_accounts := insert y (insert x (br_spl_token_accounts b))\<rparr>"
proof -
  from assms obtain x y b1 where t: "src_dst_tokens b p = Inr (x, y)" and v: "br_next_route_index b \<le> 2"
    and n: "n = 0 \<or> 10 \<le> n \<and> n \<le> 90"
    and r: "add_route_detail (b\<lparr>br_account_metas := br_account_metas b @ meta_mut (sdk_associated sdk (br_margin_account b) x) #
              to_account_meta sdk orca p (br_margin_account b) @
              (if n > 0 then [meta_mut (sdk_associated sdk (br_margin_account b) y)] else [])\<rparr>) p n = Inr b1"
    and b': "b' = b1\<lparr>br_current_route_tokens := Some (x, y),
            br_spl_token_accounts := insert y (insert x (br_spl_token_accounts b1))\<rparr>"
    by (cases "n > 0") (auto simp: add_swap_leg_def verify_addition_def Let_def ROUTE_SWAP_MAX_SPLIT_def ROUTE_SWAP_MIN_SPLIT_def)
  from r assms(2) show ?thesis
    by (intro that [OF t v n]) (cases b, auto simp: add_route_detail_def Let_def b' split: if_splits)
qed

lemma add_second_part:
  assumes "add_swap_leg sdk orca q m b = Inr b'" "br_expects_multi_route b" "br_current_route_tokens b = Some (x, y)"
  shows "m = 0 \<and> b' = b\<lparr>br_account_metas := br_account_metas b @ to_account_meta sdk orca q (br_margin_account b),
            br_route_details := (br_route_details b)
              [br_next_route_index b := (br_route_details b ! br_next_route_index b)\<lparr>route_b := route_type q\<rparr>],
            br_next_route_index := br_next_route_index b + 1, br_expects_multi_route := False,
            br_spl_token_accounts := insert y (insert x (br_spl_token_accounts b))\<rparr>"
  using assms by (cases b) (auto simp: add_swap_leg_def verify_addition_def add_route_detail_def Let_def split: if_splits)

lemma add_whole_leg:
  assumes "add_swap_leg sdk orca p 0 (with_legs sdk orca b legs tokens) = Inr b'" "fresh_builder b"
  shows "length legs \<le> 2 \<and>
    (\<exists>tokens'. b' = with_legs sdk orca b (legs @ [leg_of (end_token (br_src_token b) legs) p None 0]) tokens')"
proof -
  have e: "\<not> br_expects_multi_route (with_legs sdk orca b legs tokens)"
    using assms(2) by (simp add: fresh_builder_def)
  from assms(1) e show ?thesis
  proof (rule add_first_part, goal_cases)
    case (1 x y)
    from src_dst_tokens_other [OF 1(1)] e have xy: "x = end_token (br_src_token b) legs" "y = other_mint p x"
      by (auto simp: end_token_last)
    from 1(2,4) assms(2) have "b' = with_legs sdk orca b (legs @ [leg_of x p None 0]) (insert y (insert x tokens))"
      by (cases b) (simp add: with_legs_def fresh_builder_def replicate_routes nth_append list_update_append
          leg_of_def leg_metas_def leg_route_def default_route_def xy)
    with 1(2) xy show ?thesis by auto
  qed
qed

lemma add_split_leg:
  assumes "add_swap_leg sdk orca p (Suc n) (with_legs sdk orca b legs tokens) = Inr b1"
    and "add_swap_leg sdk orca q m b1 = Inr b'" "fresh_builder b"
  shows "length legs \<le> 2 \<and> 10 \<le> Suc n \<and> Suc n \<le> 90 \<and>
    (\<exists>tokens'. b' = with_legs sdk orca b (legs @ [leg_of (end_token (br_src_token b) legs) p (Some q) (Suc n)]) tokens')"
proof -
  have e: "\<not> br_expects_multi_route (with_legs sdk orca b legs tokens)"
    using assms(3) by (simp add: fresh_builder_def)
  from assms(1) e show ?thesis
  proof (rule add_first_part, goal_cases)
    case (1 x y)
    from src_dst_tokens_other [OF 1(1)] e have xy: "x = end_token (br_src_token b) legs" "y = other_mint p x"
      by (auto simp: end_token_last)
    from 1(4) have "br_expects_multi_route b1" "br_current_route_tokens b1 = Some (x, y)" by simp_all
    note two = conjunct2 [OF add_second_part [OF assms(2) this]]
    let ?legs = "legs @ [leg_of x p (Some q) (Suc n)]"
    have rd: "br_route_details b' = map leg_route ?legs @ replicate (3 - length ?legs) default_route"
      unfolding two 1(4) using 1(2)
      by (simp add: replicate_routes nth_append list_update_append leg_of_def leg_route_def default_route_def)
    have am: "br_account_metas b' = br_account_metas b @ concat (map (leg_metas sdk orca (br_margin_account b)) ?legs)"
      unfolding two 1(4) by (simp add: leg_of_def leg_metas_def xy)
    have "b' = b1\<lparr>br_account_metas := br_account_metas b', br_route_details := br_route_details b',
        br_next_route_index := length legs + 1, br_expects_multi_route := False, br_spl_token_accounts := br_spl_token_accounts b'\<rparr>"
      unfolding two 1(4) by simp
    also have "\<dots> = with_legs sdk orca b ?legs (br_spl_token_accounts b')"
      unfolding 1(4) rd am using assms(3) by (cases b) (simp add: with_legs_def fresh_builder_def xy leg_of_def)
    finally have "b' = with_legs sdk orca b ?legs (br_spl_token_accounts b')" .
    with 1(2,3) xy show ?thesis by auto
  qed
qed

subsection \<open>The legs that a builder has been given\<close>

definition add_calls ::
  "Sdk \<Rightarrow> Pubkey \<Rightarrow> (SwapPool \<times> nat) list \<Rightarrow> MarginSwapRouteIxBuilder \<Rightarrow> MarginSwapRouteIxBuilder ix_result" where
  "add_calls sdk orca = foldE (\<lambda>(p, n). add_swap_leg sdk orca p n)"

lemma add_calls_simps [simp]:
  "add_calls sdk orca [] b = Inr b"
  "add_calls sdk orca ((p, n) # calls) b = bindE (add_swap_leg sdk orca p n b) (add_calls sdk orca calls)"
  by (simp_all add: add_calls_def)

lemma leg_of_simps [simp]:
  "lg_src (leg_of src p q n) = src" "lg_dst (leg_of src p q n) = other_mint p src" "lg_pool (leg_of src p q n) = p"
  "lg_second (leg_of src p q n) = q" "lg_split (leg_of src p q n) = n"
  by (simp_all add: leg_of_def)

lemma add_calls_legs:
  assumes "add_calls sdk orca calls (with_legs sdk orca b legs tokens) = Inr b'" "\<not> br_expects_multi_route b'"
    and "fresh_builder b" "length legs \<le> 3"
  shows "\<exists>tokens'. b' = with_legs sdk orca b (legs @ legs_of (end_token (br_src_token b) legs) calls) tokens' \<and>
    (\<forall>lg \<in> set (legs_of (end_token (br_src_token b) legs) calls). proper_leg lg) \<and>
    length legs + length (legs_of (end_token (br_src_token b) legs) calls) \<le> 3"
  using assms(1,2,4)
proof (induction "end_token (br_src_token b) legs" calls arbitrary: legs tokens rule: legs_of.induct)
  case 1
  then show ?case by auto
next
  case (2 p calls)
  let ?lg = "leg_of (end_token (br_src_token b) legs) p None 0"
  from 2(2) obtain b1 where b1: "add_swap_leg sdk orca p 0 (with_legs sdk orca b legs tokens) = Inr b1"
    and r: "add_calls sdk orca calls b1 = Inr b'" by auto
  from add_whole_leg [OF b1 assms(3)] obtain tokens' where n: "length legs \<le> 2"
    and w: "b1 = with_legs sdk orca b (legs @ [?lg]) tokens'" by blast
  from 2(1) [of "legs @ [?lg]" tokens'] r w 2(3) n show ?case by (simp add: proper_leg_def)
next
  case (3 p n)
  from 3(1) have "add_swap_leg sdk orca p (Suc n) (with_legs sdk orca b legs tokens) = Inr b'" by simp
  moreover have "\<not> br_expects_multi_route (with_legs sdk orca b legs tokens)"
    using assms(3) by (simp add: fresh_builder_def)
  ultimately show ?case by (rule add_first_part) (use 3(2) in simp)
next
  case (4 p n q m calls)
  let ?lg = "leg_of (end_token (br_src_token b) legs) p (Some q) (Suc n)"
  from 4(2) obtain b1 b2 where b1: "add_swap_leg sdk orca p (Suc n) (with_legs sdk orca b legs tokens) = Inr b1"
    and b2: "add_swap_leg sdk orca q m b1 = Inr b2" and r: "add_calls sdk orca calls b2 = Inr b'" by auto
  from add_split_leg [OF b1 b2 assms(3)] obtain tokens' where n: "length legs \<le> 2" "10 \<le> Suc n" "Suc n \<le> 90"
    and w: "b2 = with_legs sdk orca b (legs @ [?lg]) tokens'" by blast
  from 4(1) [of "legs @ [?lg]" tokens'] r w 4(3) n show ?case by (simp add: proper_leg_def)
qed

lemma legs_of_chained [simp]: "chained src (legs_of src calls)"
  by (induction src calls rule: legs_of.induct) simp_all

text \<open>All calls of a client that gets an instruction, in the order that succeeds.\<close>

definition build_route ::
  "Sdk \<Rightarrow> Pubkey \<Rightarrow> bool \<Rightarrow> (SwapPool \<times> nat) list \<Rightarrow> MarginSwapRouteIxBuilder \<Rightarrow> MarginSwapRouteIxBuilder ix_result" where
  "build_route sdk orca is_liquidation calls b =
     bindE (if is_liquidation then set_liquidation sdk b else Inr b) (\<lambda>b.
     bindE (add_calls sdk orca calls b) (finalize sdk))"

definition header_metas :: "Sdk \<Rightarrow> bool \<Rightarrow> MarginSwapRouteIxBuilder \<Rightarrow> AccountMeta list" where
  "header_metas sdk is_liquidation b =
     context_metas sdk (br_swap_context b) (br_margin_account b) (br_src_token b) (br_dst_token b) @
     (if is_liquidation then [meta_mut (sdk_associated sdk (get_control_authority_address sdk) (br_dst_token b))] else [])"

lemma built_route:
  assumes "try_new sdk ctx ma src dst change min_out = Inr b0" "build_route sdk orca liq calls b0 = Inr b"
    and "legs = legs_of src calls"
  shows "br_account_metas b = header_metas sdk liq b0 @ concat (map (leg_metas sdk orca ma) legs) @
      [meta_mut (sdk_associated sdk ma dst)]"
    "br_route_details b = map leg_route legs @ replicate (3 - length legs) default_route"
    "legs \<noteq> []" "length legs \<le> 3" "end_token src legs = dst" "\<forall>lg \<in> set legs. proper_leg lg"
    "br_swap_context b = ctx" "br_is_liquidation b = liq" "br_is_finalized b" "br_withdrawal_change b = change"
    "br_minimum_amount_out b = min_out"
proof -
  from assms(2) obtain b1 b2 where b1: "(if liq then set_liquidation sdk b0 else Inr b0) = Inr b1"
    and b2: "add_calls sdk orca calls b1 = Inr b2" and b: "finalize sdk b2 = Inr b"
    by (auto simp: build_route_def)
  have new: "br_margin_account b0 = ma" "br_src_token b0 = src" "br_dst_token b0 = dst" "br_swap_context b0 = ctx"
    "\<not> br_is_liquidation b0" "br_withdrawal_change b0 = change" "br_minimum_amount_out b0 = min_out"
    "br_account_metas b0 = context_metas sdk ctx ma src dst" "fresh_builder b0"
    using assms(1) by (auto simp: try_new_def fresh_builder_def numeral_3_eq_3)
  from b1 new have one: "fresh_builder b1" "br_account_metas b1 = header_metas sdk liq b0" "br_margin_account b1 = ma"
    "br_src_token b1 = src" "br_dst_token b1 = dst" "br_swap_context b1 = ctx" "br_is_liquidation b1 = liq"
    "br_withdrawal_change b1 = change" "br_minimum_amount_out b1 = min_out"
    by (auto simp: set_liquidation_def fresh_builder_def header_metas_def split: if_splits)
  from b have "\<not> br_expects_multi_route b2" by (auto simp: finalize_def)
  moreover from b2 have "add_calls sdk orca calls (with_legs sdk orca b1 [] (br_spl_token_accounts b1)) = Inr b2"
    by (simp add: with_no_legs [OF one(1), symmetric])
  ultimately obtain tokens where two: "b2 = with_legs sdk orca b1 legs tokens" "\<forall>lg \<in> set legs. proper_leg lg" "length legs \<le> 3"
    using add_calls_legs [of sdk orca calls b1 "[]" "br_spl_token_accounts b1" b2] one(1,4) assms(3) by auto
  from b two(1) have e: "legs \<noteq> []" "lg_dst (last legs) = dst"
    by (auto simp: finalize_def one split: if_splits)
  then show "end_token src legs = dst" by (simp add: end_token_last)
  from b e two(1) show "br_account_metas b = header_metas sdk liq b0 @ concat (map (leg_metas sdk orca ma) legs) @
      [meta_mut (sdk_associated sdk ma dst)]"
    "br_route_details b = map leg_route legs @ replicate (3 - length legs) default_route"
    "br_swap_context b = ctx" "br_is_liquidation b = liq" "br_is_finalized b" "br_withdrawal_change b = change"
    "br_minimum_amount_out b = min_out"
    by (auto simp: finalize_def one with_legs_def)
  from two e show "legs \<noteq> []" "length legs \<le> 3" "\<forall>lg \<in> set legs. proper_leg lg" by auto
qed


text \<open>The routes that the builder sends are the ones the program accepts, as many as there are legs.\<close>

lemma validate_leg: "proper_leg lg \<Longrightarrow> validate (leg_route lg) = Inr True"
  by (auto simp: validate_def leg_route_def proper_leg_def split: if_splits option.splits)

lemma validate_default: "validate default_route = Inr False"
  by (simp add: validate_def default_route_def)

lemma valid_legs:
  assumes "\<forall>lg \<in> set legs. proper_leg lg" "legs \<noteq> []" "length legs \<le> 3"
  shows "valid_swaps (routes_of (map leg_route legs @ replicate (3 - length legs) default_route)) = Inr (length legs) \<and>
    take (length legs) (route_list (routes_of (map leg_route legs @ replicate (3 - length legs) default_route))) = map leg_route legs"
proof -
  from assms(2,3) consider a where "legs = [a]" | a b where "legs = [a, b]" | a b c where "legs = [a, b, c]"
    by (cases legs rule: remdups_adj.cases) (auto simp: neq_Nil_conv le_Suc_eq length_Suc_conv numeral_3_eq_3)
  then show ?thesis
    using assms(1) by cases
      (simp_all add: valid_swaps_def routes_of_def route_list_def validate_leg validate_default numeral_2_eq_2 numeral_3_eq_3)
qed

subsection \<open>Executing legs\<close>

definition spl_info :: "Sdk \<Rightarrow> SplSwapPool \<Rightarrow> SplSwapInfo" where
  "spl_info sdk p =
     \<lparr>ss_swap_pool = sp_pool p, ss_authority = derive sdk (sp_program p) [SeedKey (sp_pool p)], ss_vault_a = sp_token_a p,
      ss_vault_b = sp_token_b p, ss_token_mint = sp_pool_mint p, ss_fee_account = sp_fee_account p,
      ss_swap_program = sp_program p\<rparr>"

definition saber_info :: "Sdk \<Rightarrow> SaberSwapPool \<Rightarrow> SaberSwapInfo" where
  "saber_info sdk p =
     \<lparr>sb_swap_pool = sv_pool p, sb_authority = derive sdk (sv_program p) [SeedKey (sv_pool p)], sb_vault_a = sv_token_a p,
      sb_vault_b = sv_token_b p, sb_admin_fee_a = sv_fee_a p, sb_admin_fee_b = sv_fee_b p\<rparr>"

definition whirlpool_info :: "WhirlpoolSwapAccounts \<Rightarrow> Pubkey \<Rightarrow> WhirlpoolInfo" where
  "whirlpool_info p mint_b =
     (case ws_tick_arrays p of (t0, t1, t2) \<Rightarrow>
       \<lparr>wp_whirlpool = ws_whirlpool p, wp_vault_a = ws_token_vault_a p, wp_vault_b = ws_token_vault_b p,
        wp_tick_array_0 = t0, wp_tick_array_1 = t1, wp_tick_array_2 = t2, wp_oracle = ws_oracle p, wp_token_mint_b = mint_b\<rparr>)"

definition openbook_info :: "Sdk \<Rightarrow> OpenBookMarket \<Rightarrow> Pubkey \<Rightarrow> OpenbookInfo" where
  "openbook_info sdk p authority =
     \<lparr>ob_market = om_market p, ob_open_orders = derive_open_orders sdk authority (om_market p),
      ob_request_queue = om_request_queue p, ob_event_queue = om_event_queue p, ob_market_bids = om_bids p,
      ob_market_asks = om_asks p, ob_base_vault = om_base_vault p, ob_quote_vault = om_quote_vault p,
      ob_quote_mint = om_quote_mint p, ob_vault_signer = om_vault_signer p,
      ob_referrer_account = sdk_associated sdk CONTROL_AUTHORITY (om_quote_mint p)\<rparr>"

text \<open>The balances of the destination before and after the call, as \<open>call\<close> changes the state.\<close>

definition around ::
  "'l Runtime \<Rightarrow> Pubkey \<Rightarrow> ('l SwapState \<Rightarrow> 'l SwapState swap_tx) \<Rightarrow> 'l SwapState \<Rightarrow> (nat \<times> nat \<times> 'l SwapState) swap_tx" where
  "around rt dst call s =
     bindE (swap_amount_of rt dst s) (\<lambda>opening. bindE (call s) (\<lambda>s.
     bindE (swap_amount_of rt dst s) (\<lambda>closing. Inr (opening, closing, s))))"

fun exec_venue ::
  "Sdk \<Rightarrow> Pubkey \<Rightarrow> 'l Runtime \<Rightarrow> 'l Venues \<Rightarrow> Pubkey \<Rightarrow> SwapPool \<Rightarrow> Pubkey \<Rightarrow> Pubkey \<Rightarrow> nat \<Rightarrow> 'l SwapState \<Rightarrow>
     (nat \<times> nat \<times> 'l SwapState) swap_tx" where
  "exec_venue sdk orca rt vn authority (SplPool p) src dst amount s =
     around rt dst (spl_swap rt vn (spl_info sdk p) src dst authority amount 0) s"
| "exec_venue sdk orca rt vn authority (SaberPool p) src dst amount s =
     bindE (constraint (sv_program p = vn_saber vn)) (\<lambda>_.
     around rt dst (saber_swap rt vn (saber_info sdk p) src dst authority amount 0) s)"
| "exec_venue sdk orca rt vn authority (WhirlpoolPool p) src dst amount s =
     bindE (constraint (orca = vn_whirlpool vn)) (\<lambda>_.
     bindE (ok_or (vn_whirlpool_mint_b vn (sw_ledger s) (ws_whirlpool p)) AccountErr) (\<lambda>mint_b.
     bindE (swap_mint_of rt dst s) (\<lambda>dst_mint.
     let a_to_b = (dst_mint = mint_b) in
     around rt dst (whirlpool_swap rt vn (whirlpool_info p mint_b) authority src dst amount 0
       (if a_to_b then vn_min_sqrt_price vn else vn_max_sqrt_price vn) True a_to_b) s)))"
| "exec_venue sdk orca rt vn authority (OpenBookPool p) src dst amount s =
     bindE (take_openbook_accounts rt vn s (keys_of (openbook_account_meta sdk p authority))) (\<lambda>_.
     around rt dst (openbook_swap rt vn (openbook_info sdk p authority) src dst authority amount 0) s)"

definition exec_leg ::
  "Sdk \<Rightarrow> Pubkey \<Rightarrow> 'l Runtime \<Rightarrow> 'l Venues \<Rightarrow> Pubkey \<Rightarrow> Leg \<Rightarrow> nat \<times> 'l SwapState \<Rightarrow> (nat \<times> 'l SwapState) swap_tx" where
  "exec_leg sdk orca rt vn authority lg = (\<lambda>(amount, s).
     let src = sdk_associated sdk authority (lg_src lg); dst = sdk_associated sdk authority (lg_dst lg);
         venue = (\<lambda>p. exec_venue sdk orca rt vn authority p src dst) in
     bindE (case lg_second lg of
              None \<Rightarrow> venue (lg_pool lg) amount s
            | Some q \<Rightarrow>
                bindE (plain_mul 64 amount (lg_split lg)) (\<lambda>x. bindE (plain_div x 100) (\<lambda>first_in.
                bindE (venue (lg_pool lg) first_in s) (\<lambda>(opening, _, s).
                bindE (unwrap (checked_sub amount first_in)) (\<lambda>second_in.
                bindE (assertE (second_in > 0)) (\<lambda>_.
                bindE (venue q second_in s) (\<lambda>(_, closing, s). Inr (opening, closing, s))))))))
       (\<lambda>(opening, closing, s). bindE (unwrap (checked_sub closing opening)) (\<lambda>out. Inr (out, s))))"

definition exec_legs ::
  "Sdk \<Rightarrow> Pubkey \<Rightarrow> 'l Runtime \<Rightarrow> 'l Venues \<Rightarrow> Pubkey \<Rightarrow> Leg list \<Rightarrow> nat \<times> 'l SwapState \<Rightarrow> (nat \<times> 'l SwapState) swap_tx" where
  "exec_legs sdk orca rt vn authority = foldE (exec_leg sdk orca rt vn authority)"

text \<open>The program cuts the accounts of a venue from the list and takes the destination after them.\<close>

lemma exec_split_venue:
  "exec_swap_split rt vn authority (route_type p) src (keys_of (to_account_meta sdk orca p authority) @ dst # rest) amount s =
     bindE (exec_venue sdk orca rt vn authority p src dst amount s) (\<lambda>(opening, closing, s). Inr (opening, closing, dst, rest, s))"
proof (cases p)
  case (SplPool x)
  then show ?thesis
    by (simp add: exec_swap_split_def spl_account_meta_def metas take_spl_accounts_def next_key_def around_def
        spl_info_def bindE_assoc cong: bindE_cong)
next
  case (SaberPool x)
  then show ?thesis
    by (simp add: exec_swap_split_def saber_account_meta_def metas take_saber_accounts_def next_key_def around_def
        saber_info_def bindE_assoc cong: bindE_cong)
next
  case (WhirlpoolPool x)
  then show ?thesis
    by (simp add: exec_swap_split_def whirlpool_account_meta_def metas take_whirlpool_accounts_def next_key_def around_def
        whirlpool_info_def bindE_assoc Let_def split: prod.splits cong: bindE_cong)
next
  case (OpenBookPool x)
  then show ?thesis
    by (simp add: exec_swap_split_def openbook_account_meta_def metas take_openbook_accounts_def next_key_def around_def
        openbook_info_def bindE_assoc cong: bindE_cong)
qed

lemma exec_split_venue_typed:
  "ident = route_type p \<Longrightarrow>
     exec_swap_split rt vn authority ident src (keys_of (to_account_meta sdk orca p authority) @ dst # rest) amount s =
       bindE (exec_venue sdk orca rt vn authority p src dst amount s) (\<lambda>(opening, closing, s). Inr (opening, closing, dst, rest, s))"
  by (simp add: exec_split_venue)

text \<open>Both parts of a leg on venues of one type: the program uses the type of the first for both.\<close>

definition same_venue :: "Leg \<Rightarrow> bool" where
  "same_venue lg \<longleftrightarrow> (case lg_second lg of None \<Rightarrow> True | Some q \<Rightarrow> route_type q = route_type (lg_pool lg))"

lemma exec_swap_leg:
  assumes "proper_leg lg" "same_venue lg"
  shows "exec_swap rt vn authority (leg_route lg) (sdk_associated sdk authority (lg_src lg))
      (tl (keys_of (leg_metas sdk orca authority lg)) @ sdk_associated sdk authority (lg_dst lg) # rest) amount s =
    bindE (exec_leg sdk orca rt vn authority lg (amount, s))
      (\<lambda>(out, s). Inr (out, sdk_associated sdk authority (lg_dst lg), rest, s))"
proof (cases "lg_second lg")
  case None
  with assms(1) have "split (leg_route lg) = 0" by (auto simp: proper_leg_def leg_route_def split: if_splits)
  with None show ?thesis
    by (simp add: exec_swap_def leg_metas_def metas exec_leg_def leg_route_def exec_split_venue bindE_assoc case_prod_unfold
        cong: bindE_cong)
next
  case (Some q)
  with assms have "split (leg_route lg) = lg_split lg" "lg_split lg > 0" "route_type (lg_pool lg) = route_type q"
    by (auto simp: proper_leg_def leg_route_def same_venue_def split: if_splits)
  moreover have "route_a (leg_route lg) = route_type (lg_pool lg)" by (simp add: leg_route_def)
  ultimately show ?thesis using Some
    by (simp add: exec_swap_def leg_metas_def metas exec_leg_def exec_split_venue_typed
        bindE_assoc case_prod_unfold Let_def cong: bindE_cong)
qed

lemma exec_routes_legs:
  assumes "chained src legs" "\<forall>lg \<in> set legs. proper_leg lg \<and> same_venue lg"
  shows "exec_routes rt vn authority (map leg_route legs)
      (amount, sdk_associated sdk authority src,
       tl (keys_of (concat (map (leg_metas sdk orca authority) legs)) @ [sdk_associated sdk authority (end_token src legs)]), s) =
    bindE (exec_legs sdk orca rt vn authority legs (amount, s))
      (\<lambda>(out, s). Inr (out, sdk_associated sdk authority (end_token src legs), [], s))"
  using assms
proof (induction legs arbitrary: src amount s)
  case Nil
  then show ?case by (simp add: exec_routes_def exec_legs_def metas)
next
  case (Cons lg legs)
  let ?rest = "keys_of (concat (map (leg_metas sdk orca authority) legs)) @
    [sdk_associated sdk authority (end_token (lg_dst lg) legs)]"
  have head: "?rest = sdk_associated sdk authority (lg_dst lg) # tl ?rest"
    using Cons.prems(1) by (cases legs) (simp_all add: metas leg_metas_def)
  have ks: "tl (keys_of (concat (map (leg_metas sdk orca authority) (lg # legs))) @
      [sdk_associated sdk authority (end_token src (lg # legs))]) =
    tl (keys_of (leg_metas sdk orca authority lg)) @ sdk_associated sdk authority (lg_dst lg) # tl ?rest"
    using head by (simp add: metas leg_metas_def)
  have src: "src = lg_src lg" using Cons.prems(1) by simp
  show ?case unfolding ks
    using Cons.prems Cons.IH [of "lg_dst lg"] exec_swap_leg [of lg rt vn authority sdk orca "tl ?rest" amount s]
    by (simp add: exec_routes_def exec_legs_def src bindE_assoc case_prod_unfold del: tl_append2 cong: bindE_cong)
qed

end
