(* ===== verification/MarginSwapSafety.thy ===== *)
theory MarginSwapSafety
  imports MarginSwap PoolSolvency
begin

text \<open>
  What a swap guarantees whatever the venues do: the proceeds reach the minimum, the fee of a
  liquidation is what the program says and goes to the control authority, and the transit accounts
  of a margin swap keep what they held before. \<open>exec_swap\<close> does not use the second venue of a split.
\<close>

subsection \<open>The pools as called by a swap\<close>

lemma convert_tokens:
  assumes "convert_amount p (amount_tokens n) action = Inr a" shows "fa_tokens a = n"
  using assms by (auto simp: convert_amount_def convert_with_rounding_and_rate_def amount_tokens_def split: if_splits)

context token_program begin

text \<open>A deposit of so many tokens moves exactly them, into the vault, and changes the notes of the destination.\<close>

lemma deposit_handler_moves:
  assumes "deposit_handler rt ac ShiftBy n pool l = Inr (pool', l', e)" "dep_source ac \<noteq> dep_vault ac"
  shows "touches_only rt {dep_source ac, dep_vault ac, dep_destination ac} l l' \<and>
    (dep_source ac \<noteq> dep_destination ac \<longrightarrow> tokens_at rt l (dep_source ac) = tokens_at rt l' (dep_source ac) + n)"
proof -
  from assms(1) obtain p a s l1 where a: "convert_amount p (amount_tokens n) Deposit = Inr a"
    and t: "rt_invoke rt (rt_signers rt) (TokenTransfer (dep_source ac) (dep_vault ac) (dep_depositor ac) (fa_tokens a)) l = Some l1"
    and m: "rt_invoke rt s (TokenMintTo (dep_deposit_note_mint ac) (dep_destination ac) (dep_margin_pool ac) (fa_notes a)) l1 = Some l'"
    by (auto simp: deposit_handler_def Let_def calculate_full_amount_def)
  note t = transfer_tokens [OF t assms(2)] and m = mint_tokens [OF m]
  have "touches_only rt {dep_source ac, dep_vault ac, dep_destination ac} l l'"
    using touches_only_trans [OF conjunct1 [OF t] conjunct1 [OF m]] by (simp add: insert_commute)
  moreover have "tokens_at rt l' (dep_source ac) = tokens_at rt l1 (dep_source ac)" if "dep_source ac \<noteq> dep_destination ac"
    using touches_only_tokens [OF conjunct1 [OF m]] that by simp
  ultimately show ?thesis using t convert_tokens [OF a] by simp
qed

lemma pool_deposit_cpi_moves:
  assumes "pool_deposit_cpi rt ac ShiftBy n s = Inr s'" "dep_source ac \<notin> {dep_vault ac, dep_destination ac}"
  shows "touches_only rt {dep_source ac, dep_vault ac, dep_destination ac} (sw_ledger s) (sw_ledger s') \<and>
    tokens_at rt (sw_ledger s) (dep_source ac) = tokens_at rt (sw_ledger s') (dep_source ac) + n \<and>
    sw_events s' = sw_events s"
proof -
  from assms(1) obtain pool pool' l e where "deposit_handler rt ac ShiftBy n pool (sw_ledger s) = Inr (pool', l, e)"
    "s' = s\<lparr>sw_ledger := l, sw_pools := (sw_pools s)(dep_margin_pool ac \<mapsto> pool')\<rparr>"
    by (auto simp: pool_deposit_cpi_def)
  with deposit_handler_moves [of ac n pool "sw_ledger s"] assms(2) show ?thesis by auto
qed

lemma pool_withdraw_cpi_moves:
  assumes "pool_withdraw_cpi rt ac kind n s = Inr s'" "wd_vault ac \<noteq> wd_destination ac"
  shows "touches_only rt {wd_vault ac, wd_destination ac, wd_source ac} (sw_ledger s) (sw_ledger s')"
proof -
  from assms(1) obtain sg n m l1 where
    t: "rt_invoke rt sg (TokenTransfer (wd_vault ac) (wd_destination ac) (wd_margin_pool ac) n) (sw_ledger s) = Some l1"
    and b: "rt_invoke rt (rt_signers rt) (TokenBurn (wd_deposit_note_mint ac) (wd_source ac) (wd_depositor ac) m) l1
      = Some (sw_ledger s')"
    by (fastforce simp: pool_withdraw_cpi_def withdraw_handler_def Let_def)
  from touches_only_trans [OF conjunct1 [OF transfer_tokens [OF t assms(2)]] conjunct1 [OF burn_tokens [OF b]]]
  show ?thesis by (simp add: insert_commute)
qed

lemma transfer_swap_fee_effect:
  assumes "transfer_swap_fee rt k recipient dst out0 s = Inr (out, fees, s')" "recipient \<noteq> Some dst"
  shows "out0 = out + fees \<and> (case recipient of None \<Rightarrow> fees = 0 | Some r \<Rightarrow> liquidation_fee out0 = Inr fees \<and>
      tokens_at rt (sw_ledger s') r = tokens_at rt (sw_ledger s) r + fees) \<and>
    sw_events s' = sw_events s \<and> tokens_at rt (sw_ledger s) dst = tokens_at rt (sw_ledger s') dst + fees"
proof (cases recipient)
  case (Some r)
  with assms(1) obtain l where l: "rt_invoke rt (rt_signers rt) (TokenTransfer dst r k fees) (sw_ledger s) = Some l"
    "s' = s\<lparr>sw_ledger := l\<rparr>" and f: "liquidation_fee out0 = Inr fees" "checked_sub out0 fees = Some out"
    by (auto simp: transfer_swap_fee_def)
  from f(2) have "out0 = out + fees" by (auto simp: checked_sub_def split: if_splits)
  with f(1) l transfer_tokens [OF l(1)] assms(2) Some show ?thesis by auto
qed (use assms in \<open>simp add: transfer_swap_fee_def\<close>)

end

lemma liquidation_fee_value: "u64 n \<Longrightarrow> liquidation_fee n = Inr (3 * n div 100)"
proof -
  assume n: "u64 n"
  then have "u_range 128 (n * 300)" by (simp add: u_range_def)
  moreover have "n * 300 div 10000 = 3 * n div 100"
    using div_mult_mult1 [of 100 "3 * n" 100] by (simp add: mult.commute)
  moreover have "u64 (3 * n div 100)" using n by (auto simp: u_range_def)
  ultimately show ?thesis by (simp add: liquidation_fee_def LIQUIDATION_FEE_def)
qed

subsection \<open>Transit accounts\<close>

lemma swap_amount_tokens: "swap_amount_of rt k s = Inr n \<Longrightarrow> tokens_at rt (sw_ledger s) k = n"
  by (auto simp: swap_amount_of_def dest: accessor_amount_tokens)

context token_program begin

lemma margin_swap_transit:
  assumes "margin_spl_swap_handler rt vn k info ts td kind amount min_out s = Inr s'"
    and "ts \<noteq> td" "{ts, td} \<inter> {pi_vault (rs_source_margin_pool k), pi_vault (rs_destination_margin_pool k),
      rs_source_account k, rs_destination_account k} = {}"
  shows "tokens_at rt (sw_ledger s') ts = tokens_at rt (sw_ledger s) ts \<and>
    tokens_at rt (sw_ledger s') td = tokens_at rt (sw_ledger s) td"
proof -
  let ?src = "swap_deposit_accounts k (rs_source_margin_pool k) ts (rs_source_account k)"
  from assms(1) obtain a0 s1 b0 s2 b1 s3 a1 where
    o: "swap_amount_of rt ts s = Inr a0" "swap_amount_of rt td s1 = Inr b0" "swap_amount_of rt td s2 = Inr b1"
      "swap_amount_of rt ts s3 = Inr a1" "b0 \<le> b1" "a0 \<le> a1"
    and w: "pool_withdraw_cpi rt (swap_withdraw_accounts k ts) kind amount s = Inr s1"
    and d: "pool_deposit_cpi rt (swap_deposit_accounts k (rs_destination_margin_pool k) td (rs_destination_account k))
        ShiftBy (b1 - b0) s2 = Inr s3"
    and l: "if a1 - a0 > 0 then pool_deposit_cpi rt ?src ShiftBy (a1 - a0) s3 = Inr s' else s' = s3"
    by (auto simp: margin_spl_swap_handler_def split: if_split_asm)
  note o = o(1-4) [THEN swap_amount_tokens] o(5,6)
  have "tokens_at rt (sw_ledger s1) td = tokens_at rt (sw_ledger s) td"
    using touches_only_tokens [OF pool_withdraw_cpi_moves [OF w]] assms(2,3) by (simp add: swap_withdraw_accounts_def)
  moreover have "tokens_at rt (sw_ledger s2) td = tokens_at rt (sw_ledger s3) td + (b1 - b0)"
    using pool_deposit_cpi_moves [OF d] assms(2,3) by (simp add: swap_deposit_accounts_def)
  moreover have "tokens_at rt (sw_ledger s') td = tokens_at rt (sw_ledger s3) td \<and>
      tokens_at rt (sw_ledger s3) ts = tokens_at rt (sw_ledger s') ts + (a1 - a0)"
  proof (cases "a1 - a0 > 0")
    case True
    with l have m: "pool_deposit_cpi rt ?src ShiftBy (a1 - a0) s3 = Inr s'" by simp
    from pool_deposit_cpi_moves [OF m] touches_only_tokens [where k = td] assms(2,3) show ?thesis
      by (fastforce simp: swap_deposit_accounts_def)
  qed (use l in simp)
  ultimately show ?thesis using o by linarith
qed

lemma route_swap_transit:
  assumes "route_swap_handler rt vn k amount min_out routes liq ks s = Inr s'"
    and "dst = last (if liq then tl ks else ks)" "liq \<Longrightarrow> hd ks \<noteq> dst"
  shows "\<exists>token_in out fees. last (sw_events s') = RouteSwapped k token_in amount out fees routes \<and>
    0 < min_out \<and> min_out \<le> out \<and> tokens_at rt (sw_ledger s') dst = tokens_at rt (sw_ledger s) dst + out \<and>
    (if liq then liquidation_fee (out + fees) = Inr fees \<and>
       (\<exists>a. rt_account rt (sw_ledger s) (hd ks) = Some a \<and> ta_owner a = CONTROL_AUTHORITY) else fees = 0)"
proof -
  from assms(1) obtain recipient ks' src dst' rest token_in s1 b0 b1 out fees s2 where
    r: "fee_recipient_of rt liq ks s = Inr (recipient, ks')" "transit_accounts ks' = Inr (src, dst', rest)"
    and o: "swap_amount_of rt dst' s = Inr b0" "swap_amount_of rt dst' s1 = Inr b1" "b0 \<le> b1"
    and f: "transfer_swap_fee rt k recipient dst' (b1 - b0) s1 = Inr (out, fees, s2)"
    and e: "s' = s2\<lparr>sw_events := sw_events s2 @ [RouteSwapped k token_in amount out fees routes]\<rparr>" "0 < min_out" "min_out \<le> out"
    by (auto simp: route_swap_handler_def)
  from r have d: "dst' = dst" "recipient = (if liq then Some (hd ks) else None)"
    using assms(2) by (auto simp: fee_recipient_of_def liquidation_fee_destination_def transit_accounts_def next_key_def
        split: if_splits list.splits)
  have c: "liq \<Longrightarrow> \<exists>a. rt_account rt (sw_ledger s) (hd ks) = Some a \<and> ta_owner a = CONTROL_AUTHORITY"
    using r(1) by (auto simp: fee_recipient_of_def liquidation_fee_destination_def split: list.splits)
  note o = o(1,2) [THEN swap_amount_tokens] o(3)
  from transfer_swap_fee_effect [OF f] assms(3) d
  have "b1 - b0 = out + fees" "tokens_at rt (sw_ledger s1) dst = tokens_at rt (sw_ledger s2) dst + fees"
    "if liq then liquidation_fee (out + fees) = Inr fees else fees = 0"
    by (auto split: if_splits)
  with o c d(1) e show ?thesis by (auto split: if_splits)
qed

end

text \<open>
  C18: A margin swap, whatever the swap program does, leaves in both transit accounts exactly the tokens
  they held before: what was withdrawn and not exchanged goes back to the source pool, what was received
  goes into the destination pool.
\<close>

theorem transit_accounts_restored:
  assumes "spl_token rt"
    and "margin_spl_swap_handler rt vn k info ts td kind amount min_out s = Inr s'"
    and "ts \<noteq> td" "{ts, td} \<inter> {pi_vault (rs_source_margin_pool k), pi_vault (rs_destination_margin_pool k),
      rs_source_account k, rs_destination_account k} = {}"
  shows "tokens_at rt (sw_ledger s') ts = tokens_at rt (sw_ledger s) ts \<and>
    tokens_at rt (sw_ledger s') td = tokens_at rt (sw_ledger s) td"
  by (rule token_program.margin_swap_transit [OF token_program.intro [OF assms(1)] assms(2-4)])

text \<open>A venue that leaves 10 tokens of the source and pays one for two.\<close>

fun swap_address :: "Seed list \<Rightarrow> Pubkey" where
  "swap_address [SeedKey k, SeedInt b] = 100 + k"
| "swap_address _ = 300"

fun swap_invoke :: "Pubkey list \<Rightarrow> VenueIx \<Rightarrow> Ledger \<Rightarrow> Ledger option" where
  "swap_invoke sg (SplSwapIx prog pool auth user src sv tv tgt m f n least) l =
     (case ledger_invoke sg (TokenTransfer src sv user (n - 10)) l of
        None \<Rightarrow> None | Some l \<Rightarrow> ledger_invoke [auth] (TokenTransfer tv tgt auth (n div 2)) l)"
| "swap_invoke sg _ l = None"

definition swap_venues :: "Ledger Venues" where
  "swap_venues = \<lparr>vn_invoke = swap_invoke, vn_owner = (\<lambda>l k. 0), vn_whirlpool_mint_b = (\<lambda>l k. None),
     vn_book_market = (\<lambda>l k. None), vn_associated = (\<lambda>w m. 0), vn_saber = 1, vn_whirlpool = 2, vn_dex = 3,
     vn_min_sqrt_price = 1, vn_max_sqrt_price = 2\<rparr>"

definition swap_runtime :: "Ledger Runtime" where
  "swap_runtime = ledger_runtime swap_address [60] 5"

definition token_account :: "Pubkey \<Rightarrow> Pubkey \<Rightarrow> nat \<Rightarrow> TokenAccount" where
  "token_account mint owner n = \<lparr>ta_mint = mint, ta_owner = owner, ta_delegate = None, ta_amount = n\<rparr>"

definition note_mint :: "Pubkey \<Rightarrow> nat \<Rightarrow> MintAccount" where
  "note_mint pool n = \<lparr>mint_supply = n, mint_authority = Some pool, mint_decimals = 6\<rparr>"

text \<open>The accounts: transits 50 and 52, note accounts 51 and 53, the vaults of the pools and of the venue.\<close>

definition swap_ledger :: "nat \<Rightarrow> nat \<Rightarrow> nat \<Rightarrow> nat \<Rightarrow> nat \<Rightarrow> nat \<Rightarrow> nat \<Rightarrow> nat \<Rightarrow> Ledger" where
  "swap_ledger ts td n1 n2 v1 v2 w1 w2 =
     \<lparr>lg_accounts = [50 \<mapsto> token_account 7 60 ts, 52 \<mapsto> token_account 8 60 td, 51 \<mapsto> token_account 213 60 n1,
        53 \<mapsto> token_account 214 60 n2, 205 \<mapsto> token_account 7 107 v1, 206 \<mapsto> token_account 8 108 v2,
        70 \<mapsto> token_account 7 71 w1, 72 \<mapsto> token_account 8 71 w2],
      lg_mints = [213 \<mapsto> note_mint 107 n1, 214 \<mapsto> note_mint 108 n2]\<rparr>"

definition idle_pool :: "Pubkey \<Rightarrow> Pubkey \<Rightarrow> Pubkey \<Rightarrow> nat \<Rightarrow> MarginPool" where
  "idle_pool mint vlt notes n = zeroed_pool\<lparr>pool_address := 100 + mint, pool_bump := 255, token_mint := mint,
     vault := vlt, deposit_note_mint := notes, deposit_tokens := n, deposit_notes := n, accrued_until := 5\<rparr>"

definition swap_state :: "Ledger \<Rightarrow> nat \<Rightarrow> nat \<Rightarrow> Ledger SwapState" where
  "swap_state l n1 n2 = \<lparr>sw_ledger = l,
     sw_pools = [107 \<mapsto> idle_pool 7 205 213 n1, 108 \<mapsto> idle_pool 8 206 214 n2], sw_events = []\<rparr>"

definition swap_keys :: RouteSwapPool where
  "swap_keys = \<lparr>rs_margin_account = 60, rs_source_account = 51, rs_destination_account = 53,
     rs_source_margin_pool = \<lparr>pi_margin_pool = 107, pi_vault = 205, pi_deposit_note_mint = 213\<rparr>,
     rs_destination_margin_pool = \<lparr>pi_margin_pool = 108, pi_vault = 206, pi_deposit_note_mint = 214\<rparr>\<rparr>"

definition swap_info :: SwapInfo where
  "swap_info = \<lparr>si_swap_pool = 73, si_authority = 71, si_vault_into = 70, si_vault_from = 72, si_token_mint = 74,
     si_fee_account = 75, si_swap_program = swap_program_id Spl2\<rparr>"

lemmas swap_defs = swap_runtime_def swap_ledger_def token_account_def note_mint_def swap_state_def swap_keys_def
  swap_withdraw_accounts_def swap_deposit_accounts_def

lemma idle_pool_simps [simp]:
  "borrowed_tokens (idle_pool m v k n) = num_ZERO" "uncollected_fees (idle_pool m v k n) = num_ZERO"
  "deposit_tokens (idle_pool m v k n) = n" "deposit_notes (idle_pool m v k n) = n"
  "loan_notes (idle_pool m v k n) = 0" "accrued_until (idle_pool m v k n) = 5" "vault (idle_pool m v k n) = v"
  "deposit_note_mint (idle_pool m v k n) = k"
  "idle_pool m v k n\<lparr>deposit_tokens := n', deposit_notes := n'\<rparr> = idle_pool m v k n'"
  by (simp_all add: idle_pool_def zeroed_pool_def)

lemma idle_accrue [simp]: "accrue_to_now (ledger_runtime g sg 5) (idle_pool m v k n) = Inr (idle_pool m v k n)"
  by (simp add: accrue_to_now_def accrue_interest_def plain_i_def i_range_def Let_def seconds_defs)

lemma idle_signer [simp]: "pool_signer (idle_pool m v k n) = Inr [SeedKey m, SeedInt 255]"
  by (simp add: pool_signer_def signer_seeds_def flag_defs idle_pool_def zeroed_pool_def default_config_def)

lemma idle_convert:
  "convert_amount (idle_pool m v k 500) (amount_tokens 100) Withdraw = Inr \<lparr>fa_tokens = 100, fa_notes = 100\<rparr>"
  "convert_amount (idle_pool m v k 500) (amount_tokens 50) Deposit = Inr \<lparr>fa_tokens = 50, fa_notes = 50\<rparr>"
  "convert_amount (idle_pool m v k 400) (amount_tokens 10) Deposit = Inr \<lparr>fa_tokens = 10, fa_notes = 10\<rparr>"
  by (simp_all add: convert_amount_def deposit_note_exchange_rate_def total_value_def Let_def
      u_range_def ONE_def num_ONE_def num_ZERO_def max_def less_eq_Number_def
      convert_with_rounding_and_rate_def num_add_def num_sub_def num_div_def u192_defs
      as_u64_def as_u64_ceil_def ten_pow_eq U64_MAX_def num_from_def)


lemmas swap_run_defs = require_signer_def Let_def accessor_amount_def load_token_account_def calculate_full_amount_def
  idle_convert pool_summary_no_loans checked_sub_def may_spend_def fun_upd_twist fun_upd_idem_iff

lemma swap_run_withdraw:
  "pool_withdraw_cpi swap_runtime (swap_withdraw_accounts swap_keys 50) ShiftBy 100
     (swap_state (swap_ledger 3 4 500 0 500 500 1000 1000) 500 500) =
   Inr (swap_state (swap_ledger 103 4 400 0 400 500 1000 1000) 400 500)"
  by (simp add: pool_withdraw_cpi_def withdraw_handler_def pool_withdraw_def swap_defs swap_run_defs)

lemma swap_run_deposit:
  "pool_deposit_cpi swap_runtime (swap_deposit_accounts swap_keys (rs_destination_margin_pool swap_keys) 52
     (rs_destination_account swap_keys)) ShiftBy 50 (swap_state (swap_ledger 13 54 400 0 400 500 1090 950) 400 500) =
   Inr (swap_state (swap_ledger 13 4 400 50 400 550 1090 950) 400 550)"
  "pool_deposit_cpi swap_runtime (swap_deposit_accounts swap_keys (rs_source_margin_pool swap_keys) 50
     (rs_source_account swap_keys)) ShiftBy 10 (swap_state (swap_ledger 13 4 400 50 400 550 1090 950) 400 550) =
   Inr (swap_state (swap_ledger 3 4 410 50 410 550 1090 950) 410 550)"
  by (simp_all add: pool_deposit_cpi_def deposit_handler_def pool_deposit_Inr u_range_def swap_defs swap_run_defs)

lemma swap_run_venue:
  "margin_spl_swap_ix swap_runtime swap_venues swap_info 60 50 52 100 5
     (swap_state (swap_ledger 103 4 400 0 400 500 1000 1000) 400 500) =
   Inr (swap_state (swap_ledger 13 54 400 0 400 500 1090 950) 400 500)"
  by (simp add: margin_spl_swap_ix_def venue_cpi_def swap_venues_def swap_info_def use_client_def swap_defs swap_run_defs)

lemma swap_run_amounts:
  "swap_amount_of swap_runtime 50 (swap_state (swap_ledger ts td n1 n2 v1 v2 w1 w2) p q) = Inr ts"
  "swap_amount_of swap_runtime 52 (swap_state (swap_ledger ts td n1 n2 v1 v2 w1 w2) p q) = Inr td"
  by (simp_all add: swap_amount_of_def swap_defs swap_run_defs)

lemma swap_run:
  "margin_spl_swap_handler swap_runtime swap_venues swap_keys swap_info 50 52 ShiftBy 100 5
     (swap_state (swap_ledger 3 4 500 0 500 500 1000 1000) 500 500) =
   Inr (swap_state (swap_ledger 3 4 410 50 410 550 1090 950) 410 550)"
proof -
  have m: "rs_margin_account swap_keys = 60" and r: "require_signer swap_runtime 60 = (Inr () :: unit swap_tx)"
    by (simp_all add: swap_keys_def swap_runtime_def)
  show ?thesis
    unfolding margin_spl_swap_handler_def m r bindE_simps swap_run_amounts swap_run_withdraw
    by (simp add: checked_sub_def swap_run_venue swap_run_amounts swap_run_deposit)
qed

theorem transit_accounts_restored_witness:
  "tokens_at swap_runtime (swap_ledger 3 4 410 50 410 550 1090 950) 50 = 3 \<and>
   tokens_at swap_runtime (swap_ledger 3 4 410 50 410 550 1090 950) 52 = 4"
proof -
  have "spl_token swap_runtime" by (simp add: swap_runtime_def ledger_runtime_spl)
  from transit_accounts_restored [OF this swap_run] show ?thesis
    by (simp add: swap_keys_def swap_state_def) (simp add: tokens_at_def swap_defs)
qed

text \<open>
  C19: A routed swap that succeeds has put into the last account, on top of what it held, the amount the
  event reports, which is at least the minimum and so positive, after every leg and after the fee; the fee of
  a liquidation is what the program computes from the proceeds and its recipient belongs to the control authority.
\<close>

theorem route_swap_output:
  assumes "spl_token rt" "route_swap_handler rt vn k amount min_out routes liq ks s = Inr s'"
    and "dst = last (if liq then tl ks else ks)" "liq \<Longrightarrow> hd ks \<noteq> dst"
  shows "\<exists>token_in out fees. last (sw_events s') = RouteSwapped k token_in amount out fees routes \<and>
    0 < min_out \<and> min_out \<le> out \<and> tokens_at rt (sw_ledger s') dst = tokens_at rt (sw_ledger s) dst + out \<and>
    (if liq then liquidation_fee (out + fees) = Inr fees \<and>
       (\<exists>a. rt_account rt (sw_ledger s) (hd ks) = Some a \<and> ta_owner a = CONTROL_AUTHORITY) else fees = 0)"
  by (rule token_program.route_swap_transit [OF token_program.intro [OF assms(1)] assms(2-4)])

definition spl_route :: Routes where
  "spl_route = (default_route\<lparr>route_a := Spl\<rparr>, default_route, default_route)"

definition spl_accounts :: "Pubkey list" where
  "spl_accounts = [50, 73, 71, 70, 72, 74, 75, swap_program_id Spl2, 52]"

lemma route_run:
  "route_swap_handler swap_runtime swap_venues 60 100 5 spl_route False spl_accounts
     (swap_state (swap_ledger 103 4 400 0 400 500 1000 1000) 400 500) =
   Inr (swap_state (swap_ledger 13 54 400 0 400 500 1090 950) 400 500
     \<lparr>sw_events := [RouteSwapped 60 7 100 50 0 spl_route]\<rparr>)"
proof -
  let ?s = "swap_state (swap_ledger 103 4 400 0 400 500 1000 1000) 400 500"
  let ?t = "swap_state (swap_ledger 13 54 400 0 400 500 1090 950) 400 500"
  have r: "require_signer swap_runtime 60 = (Inr () :: unit swap_tx)" by (simp add: swap_runtime_def)
  have v: "valid_swaps spl_route = Inr (Suc 0)"
    by (simp add: valid_swaps_def spl_route_def validate_def default_route_def)
  have m: "swap_mint_of swap_runtime 50 ?s = Inr 7" "swap_mint_of swap_runtime 70 ?s = Inr 7"
    by (simp_all add: swap_mint_of_def swap_defs swap_run_defs)
  have x: "spl_swap swap_runtime swap_venues \<lparr>ss_swap_pool = 73, ss_authority = 71, ss_vault_a = 70, ss_vault_b = 72,
      ss_token_mint = 74, ss_fee_account = 75, ss_swap_program = swap_program_id Spl2\<rparr> 50 52 60 100 0 ?s = Inr ?t"
    unfolding spl_swap_def
    by (simp add: m venue_cpi_def swap_venues_def use_client_def, simp add: swap_defs swap_run_defs)
  have e: "exec_routes swap_runtime swap_venues 60 (take (Suc 0) (route_list spl_route)) (100, 50, tl spl_accounts, ?s) =
      Inr (50, 52, [], ?t)"
    by (simp add: exec_routes_def spl_route_def route_list_def exec_swap_def exec_swap_split_def default_route_def
        take_spl_accounts_def spl_accounts_def next_key_def swap_run_amounts x checked_sub_def del: swap_program_id.simps)
  show ?thesis
    by (simp add: route_swap_handler_def v fee_recipient_of_def transit_accounts_def swap_run_amounts m
        e [unfolded spl_accounts_def list.sel] spl_accounts_def next_key_def transfer_swap_fee_def checked_sub_def
        r del: swap_program_id.simps)
      (simp add: swap_state_def)
qed

theorem route_swap_output_witness:
  "\<exists>out\<ge>5. tokens_at swap_runtime (swap_ledger 13 54 400 0 400 500 1090 950) 52 = 4 + out"
proof -
  have "spl_token swap_runtime" by (simp add: swap_runtime_def ledger_runtime_spl)
  moreover have "tokens_at swap_runtime (swap_ledger 103 4 400 0 400 500 1000 1000) 52 = 4"
    by (simp add: tokens_at_def swap_defs)
  ultimately show ?thesis
    using route_swap_output [OF _ route_run, of 52] by (fastforce simp: spl_accounts_def swap_state_def)
qed

text \<open>
  The second venue of a leg has no influence on the swap: both parts of a split go to the first.
\<close>

theorem split_ignores_second_venue:
  "exec_swap rt vn authority (r\<lparr>route_b := other\<rparr>) src ks amount s = exec_swap rt vn authority r src ks amount s"
  by (simp add: exec_swap_def)

end
