(* ===== verification/SwapRouteSafety.thy ===== *)
theory SwapRouteSafety
  imports SwapRouteLegs MarginSwapSafety
begin

text \<open>
  The swap program on the instructions of the route builder: it accepts their routes, and it executes
  the legs the builder was given, one after the other, each on the accounts of its own venues between
  the margin account's own token accounts, signed by the margin account alone.
\<close>

subsection \<open>Accepted routes\<close>

text \<open>
  C25: Whatever calls of the builder succeed, the routes of the instruction are valid for the program, which
  executes exactly the legs that were added, between one and three, the last to the destination token.
\<close>

theorem built_routes_valid:
  assumes "try_new sdk ctx ma src dst change min_out = Inr b0" "build_route sdk orca liq calls b0 = Inr b"
  shows "valid_swaps (routes_of (br_route_details b)) = Inr (length (legs_of src calls)) \<and>
    take (length (legs_of src calls)) (route_list (routes_of (br_route_details b))) = map leg_route (legs_of src calls) \<and>
    1 \<le> length (legs_of src calls) \<and> length (legs_of src calls) \<le> 3 \<and> end_token src (legs_of src calls) = dst"
  using built_route [OF assms refl] valid_legs [of "legs_of src calls"] by (auto simp: Suc_le_eq)

subsection \<open>Executed legs\<close>

definition legs_fee_recipient :: "Sdk \<Rightarrow> 'l Runtime \<Rightarrow> bool \<Rightarrow> Pubkey \<Rightarrow> 'l SwapState \<Rightarrow> Pubkey option swap_tx" where
  "legs_fee_recipient sdk rt liq dst s =
     (if liq then
        let k = sdk_associated sdk (get_control_authority_address sdk) dst in
        bindE (load_token_account rt (sw_ledger s) k) (\<lambda>a.
        bindE (guardE (ta_owner a = CONTROL_AUTHORITY) (ProgramErr InvalidFeeDestination)) (\<lambda>_. Inr (Some k)))
      else Inr None)"

text \<open>What a swap of tokens along legs is, without any list of accounts.\<close>

definition swap_along_legs ::
  "Sdk \<Rightarrow> Pubkey \<Rightarrow> 'l Runtime \<Rightarrow> 'l Venues \<Rightarrow> Pubkey \<Rightarrow> bool \<Rightarrow> Routes \<Rightarrow> Leg list \<Rightarrow> Pubkey \<Rightarrow> Pubkey \<Rightarrow> nat \<Rightarrow> nat \<Rightarrow>
     'l SwapState \<Rightarrow> 'l SwapState swap_tx" where
  "swap_along_legs sdk orca rt vn ma liq routes legs src dst amount_in min_out s =
     (let src_ata = sdk_associated sdk ma src; dst_ata = sdk_associated sdk ma dst in
     bindE (assertE (amount_in > 0 \<and> min_out > 0)) (\<lambda>_.
     bindE (legs_fee_recipient sdk rt liq dst s) (\<lambda>recipient.
     bindE (swap_mint_of rt src_ata s) (\<lambda>token_in.
     bindE (swap_amount_of rt dst_ata s) (\<lambda>opening.
     bindE (exec_legs sdk orca rt vn ma legs (amount_in, s)) (\<lambda>(_, s).
     bindE (swap_amount_of rt dst_ata s) (\<lambda>closing.
     bindE (unwrap (checked_sub closing opening)) (\<lambda>out.
     bindE (transfer_swap_fee rt ma recipient dst_ata out s) (\<lambda>(out, fees, s).
     bindE (guardE (out \<ge> min_out) (ProgramErr SlippageExceeded)) (\<lambda>_.
     Inr (s\<lparr>sw_events := sw_events s @ [RouteSwapped ma token_in amount_in out fees routes]\<rparr>)))))))))))"

lemma signers_of_venue [simp]: "signers_of (to_account_meta sdk orca p authority) = []"
  by (cases p) (simp_all add: metas spl_account_meta_def saber_account_meta_def whirlpool_account_meta_def
      openbook_account_meta_def split: prod.split)

lemma signers_of_legs [simp]: "signers_of (concat (map (leg_metas sdk orca authority) legs)) = []"
  by (induction legs) (auto simp: leg_metas_def metas split: option.split)

lemma last_leg_account:
  assumes "legs \<noteq> []"
  shows "keys_of (concat (map (leg_metas sdk orca authority) legs)) @ [k] =
    sdk_associated sdk authority (lg_src (hd legs)) # tl (keys_of (concat (map (leg_metas sdk orca authority) legs)) @ [k])"
  using assms by (cases legs) (simp_all add: leg_metas_def metas)

lemma built_route_context:
  assumes "try_new sdk MarginPositions ma src dst change min_out = Inr b0" "build_route sdk orca liq calls b0 = Inr b"
    and "get_instruction b = Inr ix"
  defines "legs \<equiv> legs_of src calls"
  shows "ix_accounts ix = [meta_signer ma, meta_ro (sdk_token_program sdk)] @
      (if liq then [meta_mut (sdk_associated sdk (get_control_authority_address sdk) dst)] else []) @
      concat (map (leg_metas sdk orca ma) legs) @ [meta_mut (sdk_associated sdk ma dst)]"
    "ix_data ix = RouteSwapData (change_tokens change) min_out (routes_of (br_route_details b)) liq"
proof -
  have "header_metas sdk liq b0 = [meta_signer ma, meta_ro (sdk_token_program sdk)] @
      (if liq then [meta_mut (sdk_associated sdk (get_control_authority_address sdk) dst)] else [])"
    using assms(1) by (auto simp: try_new_def header_metas_def context_metas_def)
  with assms(3) built_route [OF assms(1,2) refl]
  show "ix_accounts ix = [meta_signer ma, meta_ro (sdk_token_program sdk)] @
      (if liq then [meta_mut (sdk_associated sdk (get_control_authority_address sdk) dst)] else []) @
      concat (map (leg_metas sdk orca ma) legs) @ [meta_mut (sdk_associated sdk ma dst)]"
    "ix_data ix = RouteSwapData (change_tokens change) min_out (routes_of (br_route_details b)) liq"
    by (auto simp: get_instruction_def swap_ix_def legs_def)
qed

lemma handler_along_legs:
  assumes "legs \<noteq> []" "chained src legs" "end_token src legs = dst" "\<forall>lg \<in> set legs. proper_leg lg \<and> same_venue lg"
    and "valid_swaps routes = Inr n" "take n (route_list routes) = map leg_route legs" "ma \<in> set (rt_signers rt)"
  shows "route_swap_handler rt vn ma amount min_out routes liq
      ((if liq then [sdk_associated sdk (get_control_authority_address sdk) dst] else []) @
       keys_of (concat (map (leg_metas sdk orca ma) legs)) @ [sdk_associated sdk ma dst]) s =
    swap_along_legs sdk orca rt vn ma liq routes legs src dst amount min_out s"
proof -
  let ?ks = "keys_of (concat (map (leg_metas sdk orca ma) legs)) @ [sdk_associated sdk ma dst]"
  have src: "lg_src (hd legs) = src" using assms(1,2) by (cases legs) auto
  obtain x xs where ks: "?ks = x # xs" by (metis append_is_Nil_conv neq_Nil_conv not_Cons_self2)
  with last_leg_account [OF assms(1), of sdk orca ma "sdk_associated sdk ma dst"] src
  have x: "x = sdk_associated sdk ma src" by simp
  have "last (x # xs) = sdk_associated sdk ma dst" unfolding ks [symmetric] by simp
  then have t: "transit_accounts ?ks = Inr (sdk_associated sdk ma src, sdk_associated sdk ma dst, tl ?ks)"
    unfolding transit_accounts_def ks x by (simp add: next_key_def)
  have e: "exec_routes rt vn ma (take n (route_list routes)) (amount, sdk_associated sdk ma src, tl ?ks, s) =
      bindE (exec_legs sdk orca rt vn ma legs (amount, s)) (\<lambda>(out, s). Inr (out, sdk_associated sdk ma dst, [], s))" for amount s
    using exec_routes_legs [OF assms(2,4)] assms(3) unfolding assms(6) by blast
  have f: "fee_recipient_of rt liq ((if liq then [sdk_associated sdk (get_control_authority_address sdk) dst] else []) @ ?ks) s =
      bindE (legs_fee_recipient sdk rt liq dst s) (\<lambda>r. Inr (r, ?ks))"
    by (simp add: fee_recipient_of_def legs_fee_recipient_def liquidation_fee_destination_def Let_def bindE_assoc)
  show ?thesis
    unfolding route_swap_handler_def swap_along_legs_def Let_def f assms(5)
    using assms(7) by (simp add: t e bindE_assoc case_prod_unfold require_signer_def cong: bindE_cong)
qed

text \<open>
  C20: A route built for the margin account's own positions (the context \<open>MarginPositions\<close>), in which the two parts
  of each split leg are on venues of one type: the program, given the instruction of the builder, executes the
  legs the builder was given, with no knowledge of the list of accounts. Each venue gets its own accounts, the
  tokens of a leg go between the margin account's own accounts, and the only signature is the margin account's.
  Routes through the pools are not covered; nor are legs split between venues of different types, which the
  builder accepts and whose second part the program sends to a venue of the first type.
\<close>

theorem built_route_executes:
  assumes "try_new sdk MarginPositions ma src dst change min_out = Inr b0" "build_route sdk orca liq calls b0 = Inr b"
    and "get_instruction b = Inr ix" "\<forall>lg \<in> set (legs_of src calls). same_venue lg"
  shows "swap_process sdk vn existing rt ix s =
    swap_along_legs sdk orca (rt\<lparr>rt_signers := [ma]\<rparr>) vn ma liq (routes_of (br_route_details b)) (legs_of src calls)
      src dst (change_tokens change) min_out s"
proof -
  note b = built_route [OF assms(1,2) refl] and ix = built_route_context [OF assms(1,2,3)]
  have rt: "runtime_of rt (ix_accounts ix) = rt\<lparr>rt_signers := [ma]\<rparr>"
    unfolding ix(1) by (simp add: runtime_of_def metas)
  have v: "valid_swaps (routes_of (br_route_details b)) = Inr (length (legs_of src calls))"
    "take (length (legs_of src calls)) (route_list (routes_of (br_route_details b))) = map leg_route (legs_of src calls)"
    using b valid_legs [of "legs_of src calls"] by auto
  have "\<forall>lg \<in> set (legs_of src calls). proper_leg lg \<and> same_venue lg" using assms(4) b(6) by simp
  from handler_along_legs [OF b(3) legs_of_chained b(5) this v, of ma "rt\<lparr>rt_signers := [ma]\<rparr>" vn "change_tokens change" min_out liq sdk orca s] show ?thesis
    unfolding swap_process_def rt by (cases liq) (simp_all add: swap_dispatch_def ix metas check_program_def)
qed

text \<open>One leg on the pool of \<open>route_run\<close>.\<close>

definition route_sdk :: Sdk where
  "route_sdk = \<lparr>sdk_find_address = (\<lambda>_ _. (71, 255)), sdk_associated = (\<lambda>owner mint. if mint = 7 then 50 else 52),
     sdk_lookup_table = (\<lambda>owner slot. 0), sdk_token_program = 1, sdk_associated_program = 2, sdk_system_program = 3,
     sdk_lookup_program = 4, sdk_rent = 5\<rparr>"

definition spl_venue :: SplSwapPool where
  "spl_venue = \<lparr>sp_pool = 73, sp_pool_mint = 74, sp_mint_a = 7, sp_mint_b = 8, sp_token_a = 70, sp_token_b = 72,
     sp_fee_account = 75, sp_program = swap_program_id Spl2\<rparr>"

definition hundred_tokens :: TokenChange where
  "hundred_tokens = \<lparr>change_kind = ShiftBy, change_tokens = 100\<rparr>"

lemma route_sdk_simps [simp]:
  "derive route_sdk p seeds = 71" "sdk_associated route_sdk owner mint = (if mint = 7 then 50 else 52)"
  "sdk_token_program route_sdk = 1"
  by (simp_all add: route_sdk_def derive_def)

lemma route_built:
  "\<exists>b0 b ix. try_new route_sdk MarginPositions 60 7 8 hundred_tokens 5 = Inr b0 \<and>
     build_route route_sdk 2 False [(SplPool spl_venue, 0)] b0 = Inr b \<and> get_instruction b = Inr ix \<and>
     routes_of (br_route_details b) = spl_route \<and>
     ix = swap_ix (meta_signer 60 # meta_ro 1 # map meta_mut [50] @ spl_account_meta route_sdk spl_venue @ [meta_mut 52])
            (RouteSwapData 100 5 spl_route False)"
  by (simp add: try_new_def context_metas_def Let_def build_route_def add_swap_leg_def src_dst_tokens_def spl_venue_def
      verify_addition_def add_route_detail_def finalize_def get_instruction_def routes_of_def hundred_tokens_def
      default_route_def spl_route_def)

theorem built_route_executes_witness:
  "swap_along_legs route_sdk 2 swap_runtime swap_venues 60 False spl_route
     [leg_of 7 (SplPool spl_venue) None 0] 7 8 100 5 (swap_state (swap_ledger 103 4 400 0 400 500 1000 1000) 400 500) =
   Inr (swap_state (swap_ledger 13 54 400 0 400 500 1090 950) 400 500
     \<lparr>sw_events := [RouteSwapped 60 7 100 50 0 spl_route]\<rparr>)"
proof -
  from route_built obtain b0 b ix where b: "try_new route_sdk MarginPositions 60 7 8 hundred_tokens 5 = Inr b0"
    "build_route route_sdk 2 False [(SplPool spl_venue, 0)] b0 = Inr b" "get_instruction b = Inr ix"
    and r: "routes_of (br_route_details b) = spl_route"
    and ix: "ix = swap_ix (meta_signer 60 # meta_ro 1 # map meta_mut [50] @ spl_account_meta route_sdk spl_venue @ [meta_mut 52])
            (RouteSwapData 100 5 spl_route False)"
    by blast
  have rt: "swap_runtime\<lparr>rt_signers := [60]\<rparr> = swap_runtime" by (simp add: swap_runtime_def ledger_runtime_def)
  have "\<forall>lg \<in> set (legs_of 7 [(SplPool spl_venue, 0)]). same_venue lg" by (simp add: same_venue_def)
  from built_route_executes [OF b this, of swap_venues "\<lambda>_. False" swap_runtime
      "swap_state (swap_ledger 103 4 400 0 400 500 1000 1000) 400 500"]
  have "swap_along_legs route_sdk 2 swap_runtime swap_venues 60 False spl_route
     [leg_of 7 (SplPool spl_venue) None 0] 7 8 100 5 (swap_state (swap_ledger 103 4 400 0 400 500 1000 1000) 400 500) =
    swap_process route_sdk swap_venues (\<lambda>_. False) swap_runtime ix (swap_state (swap_ledger 103 4 400 0 400 500 1000 1000) 400 500)"
    by (simp add: r hundred_tokens_def rt)
  also have "\<dots> = route_swap_handler (swap_runtime\<lparr>rt_signers := [60]\<rparr>) swap_venues 60 100 5 spl_route False spl_accounts
      (swap_state (swap_ledger 103 4 400 0 400 500 1000 1000) 400 500)"
    by (simp add: ix swap_process_def swap_ix_def swap_dispatch_def metas runtime_of_def spl_account_meta_def spl_accounts_def
        spl_venue_def check_program_def del: swap_program_id.simps)
  finally show ?thesis unfolding rt route_run .
qed

theorem built_routes_valid_witness:
  "valid_swaps spl_route = Inr (length (legs_of 7 [(SplPool spl_venue, 0)]))"
proof -
  from route_built obtain b0 b where b: "try_new route_sdk MarginPositions 60 7 8 hundred_tokens 5 = Inr b0"
    "build_route route_sdk 2 False [(SplPool spl_venue, 0)] b0 = Inr b" "routes_of (br_route_details b) = spl_route"
    by blast
  from built_routes_valid [OF b(1,2)] b(3) show ?thesis by simp
qed

end
