(* ===== verification/Metadata.thy ===== *)
theory Metadata
  imports Runtime
begin

text \<open>
  The metadata program, \<open>programs/metadata/src/lib.rs\<close>: accounts of bytes, found at an address derived
  from a key, that only the authority of the control program writes. The control program keeps in
  them what clients need to know of a token.

  The encoding of the entries is generated by the Anchor framework and a parameter, \<open>Codec\<close>, with
  its documented laws: a fixed number of bytes behind an eight byte discriminator that decode to the
  entry, whatever follows them.
\<close>

subsection \<open>Entries\<close>

datatype MetaTokenKind = MetaNonCollateral | MetaCollateral | MetaClaim | MetaAdapterCollateral

datatype PositionOwner = OwnedByMarginAccount | OwnedByAdapter

definition default_token_kind :: MetaTokenKind where "default_token_kind = MetaNonCollateral"

record PositionTokenMetadata =
  pm_position_token_mint :: Pubkey
  pm_underlying_token_mint :: Pubkey
  pm_adapter_program :: Pubkey
  pm_token_kind :: MetaTokenKind
  pm_value_modifier :: nat
  pm_max_staleness :: nat

record TokenMetadata =
  tm_token_mint :: Pubkey
  tm_pyth_price :: Pubkey
  tm_pyth_product :: Pubkey

record MarginAdapterMetadata =
  am_adapter_program :: Pubkey

record LiquidatorMetadata =
  lm_liquidator :: Pubkey

datatype MetadataEntry =
    PositionEntry PositionTokenMetadata
  | TokenEntry TokenMetadata
  | AdapterEntry MarginAdapterMetadata
  | LiquidatorEntry LiquidatorMetadata

text \<open>The size of the fields: addresses of 32 bytes, a kind of one, integers of two and eight.\<close>

fun entry_size :: "MetadataEntry \<Rightarrow> nat" where
  "entry_size (PositionEntry _) = 32 + 32 + 32 + 1 + 2 + 8"
| "entry_size (TokenEntry _) = 32 + 32 + 32"
| "entry_size (AdapterEntry _) = 32"
| "entry_size (LiquidatorEntry _) = 32"

record Codec =
  cd_serialize :: "MetadataEntry \<Rightarrow> nat list"
  cd_deserialize :: "nat list \<Rightarrow> MetadataEntry option"

definition codec_laws :: "Codec \<Rightarrow> bool" where
  "codec_laws cd \<longleftrightarrow> (\<forall>m rest. cd_deserialize cd (cd_serialize cd m @ rest) = Some m) \<and>
     (\<forall>m. length (cd_serialize cd m) = 8 + entry_size m)"

subsection \<open>Instructions\<close>

record MetaState =
  mt_data :: "Pubkey \<Rightarrow> nat list option"
  mt_lamports :: "Pubkey \<Rightarrow> nat"

text \<open>The program has no errors of its own.\<close>

type_synonym 'a meta_tx = "(unit, 'a) tx"

text \<open>\<open>is_control_authority\<close> as in the pool program; \<open>rent\<close> is the deposit for an account of a size.\<close>

definition check_control_authority :: "'l Runtime \<Rightarrow> (Pubkey \<Rightarrow> bool) \<Rightarrow> Pubkey \<Rightarrow> unit meta_tx" where
  "check_control_authority rt is_control_authority authority =
     bindE (constraint (is_control_authority authority)) (\<lambda>_. require_signer rt authority)"

record CreateEntry =
  ce_key_account :: Pubkey
  ce_metadata_account :: Pubkey
  ce_authority :: Pubkey
  ce_payer :: Pubkey

definition create_entry_handler ::
  "'l Runtime \<Rightarrow> (Pubkey \<Rightarrow> bool) \<Rightarrow> (nat \<Rightarrow> nat) \<Rightarrow> CreateEntry \<Rightarrow> string \<Rightarrow> nat \<Rightarrow> MetaState \<Rightarrow> MetaState meta_tx" where
  "create_entry_handler rt is_ca rent ac seed space s =
     bindE (require_signer rt (ce_payer ac)) (\<lambda>_.
     bindE (constraint (mt_data s (ce_metadata_account ac) = None \<and>
              ce_metadata_account ac = pda rt [SeedKey (ce_key_account ac), SeedBytes seed])) (\<lambda>_.
     bindE (check_control_authority rt is_ca (ce_authority ac)) (\<lambda>_.
     Inr (s\<lparr>mt_data := (mt_data s)(ce_metadata_account ac \<mapsto> replicate space 0),
            mt_lamports := (mt_lamports s)(ce_metadata_account ac := rent space)\<rparr>))))"

text \<open>The bounds of a slice are checked; the sum wraps and then lies below the offset.\<close>

definition copy_from_slice :: "nat \<Rightarrow> nat list \<Rightarrow> nat list \<Rightarrow> nat list meta_tx" where
  "copy_from_slice offset data xs =
     bindE (plain_add 64 offset (length data)) (\<lambda>last.
     bindE (assertE (offset \<le> last \<and> last \<le> length xs)) (\<lambda>_.
     Inr (take offset xs @ data @ drop last xs)))"

definition set_entry_handler ::
  "'l Runtime \<Rightarrow> (Pubkey \<Rightarrow> bool) \<Rightarrow> Pubkey \<Rightarrow> Pubkey \<Rightarrow> nat \<Rightarrow> nat list \<Rightarrow> MetaState \<Rightarrow> MetaState meta_tx" where
  "set_entry_handler rt is_ca account authority offset data s =
     bindE (check_control_authority rt is_ca authority) (\<lambda>_.
     bindE (ok_or (mt_data s account) AccountErr) (\<lambda>xs.
     bindE (copy_from_slice offset data xs) (\<lambda>xs.
     Inr (s\<lparr>mt_data := (mt_data s)(account \<mapsto> xs)\<rparr>))))"

text \<open>
  The lamports go to the receiver and the discriminator is cleared; the runtime then drops the
  account. Borrowing the lamports of one account twice fails.
\<close>

definition remove_entry_handler ::
  "'l Runtime \<Rightarrow> (Pubkey \<Rightarrow> bool) \<Rightarrow> Pubkey \<Rightarrow> Pubkey \<Rightarrow> Pubkey \<Rightarrow> MetaState \<Rightarrow> MetaState meta_tx" where
  "remove_entry_handler rt is_ca account authority receiver s =
     bindE (check_control_authority rt is_ca authority) (\<lambda>_.
     bindE (ok_or (mt_data s account) AccountErr) (\<lambda>xs.
     bindE (constraint (account \<noteq> receiver)) (\<lambda>_.
     bindE (unwrap (checked_add 64 (mt_lamports s receiver) (mt_lamports s account))) (\<lambda>n.
     bindE (assertE (8 \<le> length xs)) (\<lambda>_.
     Inr (s\<lparr>mt_lamports := (mt_lamports s)(receiver := n, account := 0),
            mt_data := (mt_data s)(account \<mapsto> replicate 8 0 @ drop 8 xs)\<rparr>))))))"

subsection \<open>Properties\<close>

lemma copy_from_slice_start:
  "copy_from_slice 0 data xs = Inr ys \<Longrightarrow> length data < 2 ^ 64 \<Longrightarrow> ys = data @ drop (length data) xs"
  by (auto simp: copy_from_slice_def u_range_def)

text \<open>What is written at the start of an account is read back, and no other account changes.\<close>

lemma set_entry_reads_back:
  assumes "codec_laws cd" "set_entry_handler rt is_ca account authority 0 (cd_serialize cd m) s = Inr s'"
  shows "is_ca authority \<and> authority \<in> set (rt_signers rt) \<and>
    (\<exists>xs. mt_data s' = (mt_data s)(account \<mapsto> xs) \<and> cd_deserialize cd xs = Some m)"
proof -
  from assms(2) obtain xs ys where "copy_from_slice 0 (cd_serialize cd m) xs = Inr ys"
    "s' = s\<lparr>mt_data := (mt_data s)(account \<mapsto> ys)\<rparr>" "is_ca authority" "authority \<in> set (rt_signers rt)"
    by (auto simp: set_entry_handler_def check_control_authority_def)
  moreover have "length (cd_serialize cd m) < 2 ^ 64"
    using assms(1) by (cases m) (simp_all add: codec_laws_def)
  ultimately show ?thesis using assms(1) copy_from_slice_start [of "cd_serialize cd m" xs ys]
    by (auto simp: codec_laws_def)
qed

end
