(* ===== verification/ControlProgram.thy ===== *)
theory ControlProgram
  imports Metadata PoolHandlers
begin

text \<open>
  The control program, \<open>programs/control\<close>: the governor creates and configures margin pools through
  it. It calls the pool program and the metadata program with the signature of its authority.

  The three programs derive addresses of their own, so there are three runtimes on one ledger: the
  control program's own \<open>rt\<close>, \<open>prt\<close> of the pool program and \<open>mrt\<close> of the metadata program.
\<close>

type_synonym 'a control_tx = "(unit, 'a) tx"

record Authority =
  au_seed :: nat

datatype ControlEvent =
    AuthorityCreated Pubkey nat
  | TokenMetadataConfigured Pubkey Pubkey Pubkey TokenMetadata
  | PositionTokenMetadataConfigured Pubkey Pubkey Pubkey PositionTokenMetadata

record 'l ControlState =
  ct_ledger :: 'l
  ct_pools :: "Pubkey \<Rightarrow> MarginPool option"
  ct_meta :: MetaState
  ct_events :: "ControlEvent list"

definition control_event :: "ControlEvent \<Rightarrow> 'l ControlState \<Rightarrow> 'l ControlState" where
  "control_event e s = s\<lparr>ct_events := ct_events s @ [e]\<rparr>"

subsection \<open>The authority\<close>

definition create_authority_handler ::
  "'l Runtime \<Rightarrow> Pubkey \<Rightarrow> Pubkey \<Rightarrow> Authority option \<Rightarrow> (Authority \<times> ControlEvent) control_tx" where
  "create_authority_handler rt authority payer existing =
     bindE (require_signer rt payer) (\<lambda>_.
     bindE (constraint (existing = None \<and> authority = pda rt [])) (\<lambda>_.
     let seed = snd (rt_find_address rt []) in
     Inr (\<lparr>au_seed = seed\<rparr>, AuthorityCreated authority seed)))"

text \<open>The signers of a call that carries the authority's signature.\<close>

definition signed_by_authority :: "'l Runtime \<Rightarrow> Authority \<Rightarrow> 'l Runtime \<Rightarrow> 'l Runtime" where
  "signed_by_authority rt a other =
     other\<lparr>rt_signers := rt_signer_address rt [SeedInt (au_seed a)] # rt_signers rt\<rparr>"

definition create_entry_cpi ::
  "'l Runtime \<Rightarrow> (Pubkey \<Rightarrow> bool) \<Rightarrow> (nat \<Rightarrow> nat) \<Rightarrow> CreateEntry \<Rightarrow> nat \<Rightarrow> 'l ControlState \<Rightarrow> 'l ControlState control_tx" where
  "create_entry_cpi mrt is_ca rent ac space s =
     bindE (create_entry_handler mrt is_ca rent ac '''' space (ct_meta s)) (\<lambda>m. Inr (s\<lparr>ct_meta := m\<rparr>))"

definition set_entry_cpi ::
  "'l Runtime \<Rightarrow> (Pubkey \<Rightarrow> bool) \<Rightarrow> Pubkey \<Rightarrow> Pubkey \<Rightarrow> nat list \<Rightarrow> 'l ControlState \<Rightarrow> 'l ControlState control_tx" where
  "set_entry_cpi mrt is_ca account authority data s =
     bindE (set_entry_handler mrt is_ca account authority 0 data (ct_meta s)) (\<lambda>m. Inr (s\<lparr>ct_meta := m\<rparr>))"

text \<open>Whether a call to the pool program was refused does not tell why.\<close>

definition pool_cpi :: "'a pool_tx \<Rightarrow> 'a control_tx" where
  "pool_cpi = lift_err (\<lambda>_. AdapterErr)"

lemma pool_cpi_Inr [simp]: "pool_cpi m = Inr x \<longleftrightarrow> m = Inr x"
  by (simp add: pool_cpi_def)

subsection \<open>Creating a pool\<close>

record CreateMarginPool =
  cm_requester :: Pubkey
  cm_payer :: Pubkey
  cm_authority :: Pubkey
  cm_margin_pool :: Pubkey
  cm_vault :: Pubkey
  cm_deposit_note_mint :: Pubkey
  cm_loan_note_mint :: Pubkey
  cm_token_mint :: Pubkey
  cm_token_metadata :: Pubkey
  cm_deposit_note_metadata :: Pubkey
  cm_loan_note_metadata :: Pubkey
  cm_fee_destination :: Pubkey
  cm_margin_pool_program :: Pubkey

definition create_pool_accounts :: "CreateMarginPool \<Rightarrow> CreatePoolAccounts" where
  "create_pool_accounts k =
     \<lparr>cp_margin_pool = cm_margin_pool k, cp_vault = cm_vault k, cp_deposit_note_mint = cm_deposit_note_mint k,
      cp_loan_note_mint = cm_loan_note_mint k, cp_token_mint = cm_token_mint k, cp_authority = cm_authority k,
      cp_payer = cm_payer k\<rparr>"

definition entry_accounts :: "CreateMarginPool \<Rightarrow> Pubkey \<Rightarrow> Pubkey \<Rightarrow> CreateEntry" where
  "entry_accounts k key account =
     \<lparr>ce_key_account = key, ce_metadata_account = account, ce_authority = cm_authority k, ce_payer = cm_payer k\<rparr>"

text \<open>Creating an entry and writing it, with the event.\<close>

definition write_new_entry ::
  "'l Runtime \<Rightarrow> Codec \<Rightarrow> (Pubkey \<Rightarrow> bool) \<Rightarrow> (nat \<Rightarrow> nat) \<Rightarrow> CreateMarginPool \<Rightarrow> Pubkey \<Rightarrow> Pubkey \<Rightarrow>
     MetadataEntry \<Rightarrow> ControlEvent \<Rightarrow> 'l ControlState \<Rightarrow> 'l ControlState control_tx" where
  "write_new_entry mrt cd is_ca rent k key account m e s =
     (let data = cd_serialize cd m in
      bindE (create_entry_cpi mrt is_ca rent (entry_accounts k key account) (length data) s) (\<lambda>s.
      bindE (set_entry_cpi mrt is_ca account (cm_authority k) data s) (\<lambda>s.
      Inr (control_event e s))))"

definition new_deposit_metadata :: "CreateMarginPool \<Rightarrow> PositionTokenMetadata" where
  "new_deposit_metadata k =
     \<lparr>pm_position_token_mint = cm_deposit_note_mint k, pm_underlying_token_mint = cm_token_mint k,
      pm_adapter_program = cm_margin_pool_program k, pm_token_kind = MetaNonCollateral,
      pm_value_modifier = 0, pm_max_staleness = 0\<rparr>"

definition new_loan_metadata :: "CreateMarginPool \<Rightarrow> PositionTokenMetadata" where
  "new_loan_metadata k =
     \<lparr>pm_position_token_mint = cm_loan_note_mint k, pm_underlying_token_mint = cm_token_mint k,
      pm_adapter_program = cm_margin_pool_program k, pm_token_kind = MetaClaim,
      pm_value_modifier = 0, pm_max_staleness = 0\<rparr>"

definition new_token_metadata :: "CreateMarginPool \<Rightarrow> TokenMetadata" where
  "new_token_metadata k =
     \<lparr>tm_token_mint = cm_token_mint k, tm_pyth_price = pubkey_default, tm_pyth_product = pubkey_default\<rparr>"

definition create_margin_pool_handler ::
  "'l Runtime \<Rightarrow> 'l Runtime \<Rightarrow> 'l Runtime \<Rightarrow> Codec \<Rightarrow> (Pubkey \<Rightarrow> bool) \<Rightarrow> (nat \<Rightarrow> nat) \<Rightarrow> Pubkey \<Rightarrow>
     CreateMarginPool \<Rightarrow> Authority \<Rightarrow> 'l ControlState \<Rightarrow> 'l ControlState control_tx" where
  "create_margin_pool_handler rt prt mrt cd is_ca rent governor k a s =
     (let prt = signed_by_authority rt a prt; mrt = signed_by_authority rt a mrt in
      bindE (constraint (cm_requester k = governor)) (\<lambda>_.
      bindE (require_signer rt (cm_requester k)) (\<lambda>_.
      bindE (require_signer rt (cm_payer k)) (\<lambda>_.
      bindE (constraint (rt_account rt (ct_ledger s) (cm_fee_destination k) = None \<and> cm_fee_destination k =
               pda rt [SeedBytes ''margin-pool-fee-destination'', SeedKey (cm_margin_pool k)])) (\<lambda>_.
      bindE (pool_cpi (create_pool_handler prt is_ca (create_pool_accounts k) (cm_fee_destination k)
               (ct_pools s (cm_margin_pool k)) (ct_ledger s))) (\<lambda>(pool, l, _).
      bindE (load_mint rt l (cm_deposit_note_mint k)) (\<lambda>_.
      bindE (create_token_account rt (cm_fee_destination k) (cm_deposit_note_mint k) (cm_authority k) l) (\<lambda>l.
      let s = s\<lparr>ct_ledger := l, ct_pools := (ct_pools s)(cm_margin_pool k \<mapsto> pool)\<rparr>;
          event = PositionTokenMetadataConfigured (cm_requester k) (cm_authority k) in
      bindE (write_new_entry mrt cd is_ca rent k (cm_deposit_note_mint k) (cm_deposit_note_metadata k)
               (PositionEntry (new_deposit_metadata k))
               (event (cm_deposit_note_metadata k) (new_deposit_metadata k)) s) (\<lambda>s.
      bindE (write_new_entry mrt cd is_ca rent k (cm_loan_note_mint k) (cm_loan_note_metadata k)
               (PositionEntry (new_loan_metadata k))
               (event (cm_loan_note_metadata k) (new_loan_metadata k)) s) (\<lambda>s.
      write_new_entry mrt cd is_ca rent k (cm_token_mint k) (cm_token_metadata k)
        (TokenEntry (new_token_metadata k))
        (TokenMetadataConfigured (cm_requester k) (cm_authority k) (cm_token_metadata k) (new_token_metadata k))
        s))))))))))"

subsection \<open>Configuring a pool\<close>

record TokenMetadataParams =
  tp_token_kind :: MetaTokenKind
  tp_collateral_weight :: nat
  tp_max_leverage :: nat

record ConfigureMarginPool =
  cg_requester :: Pubkey
  cg_authority :: Pubkey
  cg_token_mint :: Pubkey
  cg_margin_pool :: Pubkey
  cg_token_metadata :: Pubkey
  cg_deposit_metadata :: Pubkey
  cg_loan_metadata :: Pubkey
  cg_pyth_product :: Pubkey
  cg_pyth_price :: Pubkey

definition load_entry :: "Codec \<Rightarrow> Pubkey \<Rightarrow> 'l ControlState \<Rightarrow> MetadataEntry control_tx" where
  "load_entry cd k s =
     bindE (ok_or (mt_data (ct_meta s) k) AccountErr) (\<lambda>xs. ok_or (cd_deserialize cd xs) AccountErr)"

definition load_token_metadata :: "Codec \<Rightarrow> Pubkey \<Rightarrow> 'l ControlState \<Rightarrow> TokenMetadata control_tx" where
  "load_token_metadata cd k s =
     bindE (load_entry cd k s) (\<lambda>e. case e of TokenEntry m \<Rightarrow> Inr m | _ \<Rightarrow> err AccountErr)"

definition load_position_metadata :: "Codec \<Rightarrow> Pubkey \<Rightarrow> 'l ControlState \<Rightarrow> PositionTokenMetadata control_tx" where
  "load_position_metadata cd k s =
     bindE (load_entry cd k s) (\<lambda>e. case e of PositionEntry m \<Rightarrow> Inr m | _ \<Rightarrow> err AccountErr)"

definition configure_pool_cpi ::
  "'l Runtime \<Rightarrow> (Pubkey \<Rightarrow> bool) \<Rightarrow> ConfigureMarginPool \<Rightarrow> PythProduct option \<Rightarrow> MarginPoolConfig option \<Rightarrow>
     'l ControlState \<Rightarrow> 'l ControlState control_tx" where
  "configure_pool_cpi prt is_ca k product c s =
     bindE (ok_or (ct_pools s (cg_margin_pool k)) AccountErr) (\<lambda>pool.
     bindE (pool_cpi (configure_handler prt is_ca
              \<lparr>cf_margin_pool = cg_margin_pool k, cf_authority = cg_authority k,
               cf_pyth_product = cg_pyth_product k, cf_pyth_price = cg_pyth_price k\<rparr> product c pool)) (\<lambda>(pool, _).
     Inr (s\<lparr>ct_pools := (ct_pools s)(cg_margin_pool k \<mapsto> pool)\<rparr>)))"

text \<open>The two notes as a margin account counts them: a deposit by the given kind and weight, a loan as a claim.\<close>

definition set_position_params :: "MetaTokenKind \<Rightarrow> nat \<Rightarrow> PositionTokenMetadata \<Rightarrow> PositionTokenMetadata" where
  "set_position_params kind modifier m =
     m\<lparr>pm_token_kind := kind, pm_value_modifier := modifier, pm_max_staleness := 0\<rparr>"

definition configure_margin_pool_handler ::
  "'l Runtime \<Rightarrow> 'l Runtime \<Rightarrow> 'l Runtime \<Rightarrow> Codec \<Rightarrow> (Pubkey \<Rightarrow> bool) \<Rightarrow> Pubkey \<Rightarrow> ConfigureMarginPool \<Rightarrow>
     Authority \<Rightarrow> PythProduct option \<Rightarrow> TokenMetadataParams option \<Rightarrow> MarginPoolConfig option \<Rightarrow>
     'l ControlState \<Rightarrow> 'l ControlState control_tx" where
  "configure_margin_pool_handler rt prt mrt cd is_ca governor k a product params pool_config s =
     (let prt = signed_by_authority rt a prt; mrt = signed_by_authority rt a mrt in
      bindE (constraint (cg_requester k = governor)) (\<lambda>_.
      bindE (require_signer rt (cg_requester k)) (\<lambda>_.
      bindE (ok_or (ct_pools s (cg_margin_pool k)) AccountErr) (\<lambda>pool.
      bindE (constraint (token_mint pool = cg_token_mint k)) (\<lambda>_.
      bindE (load_token_metadata cd (cg_token_metadata k) s) (\<lambda>token_metadata.
      bindE (constraint (tm_token_mint token_metadata = cg_token_mint k)) (\<lambda>_.
      bindE (load_position_metadata cd (cg_deposit_metadata k) s) (\<lambda>deposit_metadata.
      bindE (constraint (pm_underlying_token_mint deposit_metadata = cg_token_mint k \<and>
               pm_position_token_mint deposit_metadata = deposit_note_mint pool)) (\<lambda>_.
      bindE (load_position_metadata cd (cg_loan_metadata k) s) (\<lambda>loan_metadata.
      bindE (constraint (pm_underlying_token_mint loan_metadata = cg_token_mint k \<and>
               pm_position_token_mint loan_metadata = loan_note_mint pool)) (\<lambda>_.
      bindE (if cg_pyth_price k \<noteq> pubkey_default \<or> pool_config \<noteq> None then
               configure_pool_cpi prt is_ca k product pool_config s
             else Inr s) (\<lambda>s.
      bindE (if cg_pyth_price k \<noteq> pubkey_default then
               (let m = token_metadata\<lparr>tm_pyth_product := cg_pyth_product k, tm_pyth_price := cg_pyth_price k\<rparr> in
                bindE (set_entry_cpi mrt is_ca (cg_token_metadata k) (cg_authority k)
                         (cd_serialize cd (TokenEntry m)) s) (\<lambda>s.
                Inr (control_event (TokenMetadataConfigured (cg_requester k) (cg_authority k)
                       (cg_token_metadata k) m) s)))
             else Inr s) (\<lambda>s.
      case params of
        None \<Rightarrow> Inr s
      | Some p \<Rightarrow>
          (let m = set_position_params (tp_token_kind p) (tp_collateral_weight p) deposit_metadata;
               n = set_position_params MetaClaim (tp_max_leverage p) loan_metadata in
           bindE (set_entry_cpi mrt is_ca (cg_deposit_metadata k) (cg_authority k)
                    (cd_serialize cd (PositionEntry m)) s) (\<lambda>s.
           let s = control_event (PositionTokenMetadataConfigured (cg_requester k) (cg_authority k)
                     (cg_deposit_metadata k) m) s in
           bindE (set_entry_cpi mrt is_ca (cg_loan_metadata k) (cg_authority k)
                    (cd_serialize cd (PositionEntry n)) s) (\<lambda>s.
           Inr (control_event (PositionTokenMetadataConfigured (cg_requester k) (cg_authority k)
                  (cg_loan_metadata k) n) s)))))))))))))))))"

end
