(* ===== verification/ControlSafety.thy ===== *)
theory ControlSafety
  imports ControlProgram PoolSolvency Instructions
begin

text \<open>
  A pool that the control program created can be configured by it, and the metadata it writes is
  what clients read.
\<close>

lemma codec_read [simp]: "codec_laws cd \<Longrightarrow> cd_deserialize cd (cd_serialize cd m) = Some m"
  unfolding codec_laws_def by (metis append_Nil2)

lemma codec_length: "codec_laws cd \<Longrightarrow> length (cd_serialize cd m) = 8 + entry_size m"
  by (simp add: codec_laws_def)

lemma codec_length_u64: "codec_laws cd \<Longrightarrow> length (cd_serialize cd m) < 2 ^ 64"
  by (cases m) (simp_all add: codec_length)

lemma copy_all: "length data = length xs \<Longrightarrow> length data < 2 ^ 64 \<Longrightarrow> copy_from_slice 0 data xs = Inr data"
  by (simp add: copy_from_slice_def u_range_def)

definition put_entry :: "Pubkey \<Rightarrow> nat list \<Rightarrow> 'l ControlState \<Rightarrow> 'l ControlState" where
  "put_entry k xs s = s\<lparr>ct_meta := (ct_meta s)\<lparr>mt_data := (mt_data (ct_meta s))(k \<mapsto> xs)\<rparr>\<rparr>"

lemma put_entry_simps [simp]:
  "mt_data (ct_meta (put_entry k xs s)) = (mt_data (ct_meta s))(k \<mapsto> xs)"
  "ct_pools (put_entry k xs s) = ct_pools s" "ct_ledger (put_entry k xs s) = ct_ledger s"
  "mt_data (ct_meta (control_event e s)) = mt_data (ct_meta s)" "ct_pools (control_event e s) = ct_pools s"
  "ct_ledger (control_event e s) = ct_ledger s"
  by (simp_all add: put_entry_def control_event_def)

lemma set_entry_cpi_put:
  assumes "codec_laws cd" "is_ca authority" "authority \<in> set (rt_signers mrt)"
    and "mt_data (ct_meta s) k = Some (cd_serialize cd m)" "entry_size m = entry_size n"
  shows "set_entry_cpi mrt is_ca k authority (cd_serialize cd n) s = Inr (put_entry k (cd_serialize cd n) s)"
  using assms codec_length [OF assms(1)] codec_length_u64 [OF assms(1), of n]
  by (simp add: set_entry_cpi_def set_entry_handler_def check_control_authority_def copy_all put_entry_def)

lemma write_new_entry_put:
  assumes "codec_laws cd" "write_new_entry mrt cd is_ca rent k key account m e s = Inr s'"
  shows "mt_data (ct_meta s') = (mt_data (ct_meta s))(account \<mapsto> cd_serialize cd m) \<and> ct_pools s' = ct_pools s \<and>
    ct_ledger s' = ct_ledger s \<and> is_ca (cm_authority k) \<and> cm_authority k \<in> set (rt_signers mrt)"
proof -
  have c: "copy_from_slice 0 (cd_serialize cd m) (replicate (length (cd_serialize cd m)) 0) = Inr (cd_serialize cd m)"
    using codec_length_u64 [OF assms(1), of m] by (intro copy_all) simp_all
  from assms(2) show ?thesis
    by (auto simp: write_new_entry_def create_entry_cpi_def create_entry_handler_def set_entry_cpi_def Let_def
        set_entry_handler_def check_control_authority_def entry_accounts_def control_event_def c)
qed

lemma create_pool_fields:
  assumes "create_pool_handler prt is_ca (create_pool_accounts k) fee existing l = Inr (pool, l', e)"
  shows "token_mint pool = cm_token_mint k \<and> deposit_note_mint pool = cm_deposit_note_mint k \<and>
    loan_note_mint pool = cm_loan_note_mint k \<and> fee_destination pool = fee"
  using assms by (auto simp: create_pool_handler_def create_pool_accounts_def Let_def)

text \<open>What the creation of a pool leaves behind.\<close>

lemma create_margin_pool_effect:
  assumes "codec_laws cd" "create_margin_pool_handler rt prt mrt cd is_ca rent governor k a s = Inr s'"
  shows "cm_requester k = governor \<and> governor \<in> set (rt_signers rt) \<and> is_ca (cm_authority k) \<and>
    cm_authority k \<in> set (rt_signer_address rt [SeedInt (au_seed a)] # rt_signers rt) \<and>
    (\<exists>pool. ct_pools s' (cm_margin_pool k) = Some pool \<and> token_mint pool = cm_token_mint k \<and>
       deposit_note_mint pool = cm_deposit_note_mint k \<and> loan_note_mint pool = cm_loan_note_mint k \<and>
       fee_destination pool = cm_fee_destination k) \<and>
    mt_data (ct_meta s') = (mt_data (ct_meta s))
      (cm_deposit_note_metadata k \<mapsto> cd_serialize cd (PositionEntry (new_deposit_metadata k)),
       cm_loan_note_metadata k \<mapsto> cd_serialize cd (PositionEntry (new_loan_metadata k)),
       cm_token_metadata k \<mapsto> cd_serialize cd (TokenEntry (new_token_metadata k)))"
proof -
  from assms(2) obtain pool l e l' e1 e2 e3 s1 s2 where g: "cm_requester k = governor" "governor \<in> set (rt_signers rt)"
    and p: "create_pool_handler (signed_by_authority rt a prt) is_ca (create_pool_accounts k) (cm_fee_destination k)
      (ct_pools s (cm_margin_pool k)) (ct_ledger s) = Inr (pool, l, e)"
    and w: "write_new_entry (signed_by_authority rt a mrt) cd is_ca rent k (cm_deposit_note_mint k)
        (cm_deposit_note_metadata k) (PositionEntry (new_deposit_metadata k)) e1
        (s\<lparr>ct_ledger := l', ct_pools := (ct_pools s)(cm_margin_pool k \<mapsto> pool)\<rparr>) = Inr s1"
      "write_new_entry (signed_by_authority rt a mrt) cd is_ca rent k (cm_loan_note_mint k)
        (cm_loan_note_metadata k) (PositionEntry (new_loan_metadata k)) e2 s1 = Inr s2"
      "write_new_entry (signed_by_authority rt a mrt) cd is_ca rent k (cm_token_mint k)
        (cm_token_metadata k) (TokenEntry (new_token_metadata k)) e3 s2 = Inr s'"
    by (auto simp: create_margin_pool_handler_def Let_def)
  note w = w [THEN write_new_entry_put [OF assms(1)]]
  from g w create_pool_fields [OF p] show ?thesis by (auto simp: signed_by_authority_def)
qed

text \<open>The accounts of a created pool as the configuration takes them.\<close>

definition configure_created :: "CreateMarginPool \<Rightarrow> Pubkey \<Rightarrow> ConfigureMarginPool" where
  "configure_created k product =
     \<lparr>cg_requester = cm_requester k, cg_authority = cm_authority k, cg_token_mint = cm_token_mint k,
      cg_margin_pool = cm_margin_pool k, cg_token_metadata = cm_token_metadata k,
      cg_deposit_metadata = cm_deposit_note_metadata k, cg_loan_metadata = cm_loan_note_metadata k,
      cg_pyth_product = product, cg_pyth_price = pubkey_default\<rparr>"

lemma configure_pool_cpi_ok:
  assumes "is_ca (cg_authority k)" "cg_authority k \<in> set (rt_signers prt)" "cg_pyth_price k = pubkey_default"
    and "ct_pools s (cg_margin_pool k) = Some pool"
  shows "configure_pool_cpi prt is_ca k product (Some c) s =
    Inr (s\<lparr>ct_pools := (ct_pools s)(cg_margin_pool k \<mapsto> pool\<lparr>config := c\<rparr>)\<rparr>)"
  using assms by (simp add: configure_pool_cpi_def configure_handler_def pool_cpi_def)

lemma load_metadata_iff:
  "load_token_metadata cd k s = Inr m \<longleftrightarrow> (\<exists>xs. mt_data (ct_meta s) k = Some xs \<and> cd_deserialize cd xs = Some (TokenEntry m))"
  "load_position_metadata cd k s = Inr n \<longleftrightarrow>
     (\<exists>xs. mt_data (ct_meta s) k = Some xs \<and> cd_deserialize cd xs = Some (PositionEntry n))"
  by (auto simp: load_token_metadata_def load_position_metadata_def load_entry_def split: MetadataEntry.split_asm)

text \<open>
  A pool that the governor creates through the control program can be configured by the governor right
  away with any parameters, and from then on the metadata of its notes reads as intended.
\<close>

lemma created_pool_configurable:
  assumes "codec_laws cd" "create_margin_pool_handler rt prt mrt cd is_ca rent governor k a s = Inr s1"
    and "distinct [cm_token_metadata k, cm_deposit_note_metadata k, cm_loan_note_metadata k]"
    and "cm_requester k \<in> set (rt_signers rt')" "rt_signer_address rt' [SeedInt (au_seed a)] = cm_authority k"
  shows "\<exists>s2 pool. configure_margin_pool_handler rt' prt mrt cd is_ca governor (configure_created k product) a px
      (Some params) (Some c) s1 = Inr s2 \<and>
    ct_pools s2 (cm_margin_pool k) = Some pool \<and> config pool = c \<and> fee_destination pool = cm_fee_destination k \<and>
    load_position_metadata cd (cm_deposit_note_metadata k) s2 =
      Inr (set_position_params (tp_token_kind params) (tp_collateral_weight params) (new_deposit_metadata k)) \<and>
    load_position_metadata cd (cm_loan_note_metadata k) s2 =
      Inr (set_position_params MetaClaim (tp_max_leverage params) (new_loan_metadata k))"
proof -
  let ?k = "configure_created k product" and ?mrt = "signed_by_authority rt' a mrt" and ?prt = "signed_by_authority rt' a prt"
  let ?m = "set_position_params (tp_token_kind params) (tp_collateral_weight params) (new_deposit_metadata k)"
  let ?n = "set_position_params MetaClaim (tp_max_leverage params) (new_loan_metadata k)"
  note e = create_margin_pool_effect [OF assms(1,2)]
  then obtain pool where p: "ct_pools s1 (cm_margin_pool k) = Some pool" "token_mint pool = cm_token_mint k"
      "deposit_note_mint pool = cm_deposit_note_mint k" "loan_note_mint pool = cm_loan_note_mint k"
      "fee_destination pool = cm_fee_destination k" by blast
  have sg: "cm_authority k \<in> set (rt_signers ?mrt)" "cm_authority k \<in> set (rt_signers ?prt)"
    using assms(5) by (simp_all add: signed_by_authority_def)
  have l: "load_token_metadata cd (cm_token_metadata k) s1 = Inr (new_token_metadata k)"
    "load_position_metadata cd (cm_deposit_note_metadata k) s1 = Inr (new_deposit_metadata k)"
    "load_position_metadata cd (cm_loan_note_metadata k) s1 = Inr (new_loan_metadata k)"
    using e assms(1,3) by (simp_all add: load_metadata_iff)
  define s1a where "s1a = s1\<lparr>ct_pools := (ct_pools s1)(cm_margin_pool k \<mapsto> pool\<lparr>config := c\<rparr>)\<rparr>"
  have c: "configure_pool_cpi ?prt is_ca ?k px (Some c) s1 = Inr s1a"
    using configure_pool_cpi_ok [of is_ca ?k ?prt s1 pool] e p(1) sg(2)
    by (simp add: configure_created_def s1a_def)
  define s1b where "s1b = control_event (PositionTokenMetadataConfigured (cm_requester k) (cm_authority k)
      (cm_deposit_note_metadata k) ?m) (put_entry (cm_deposit_note_metadata k) (cd_serialize cd (PositionEntry ?m)) s1a)"
  have w1: "set_entry_cpi ?mrt is_ca (cm_deposit_note_metadata k) (cm_authority k) (cd_serialize cd (PositionEntry ?m)) s1a =
      Inr (put_entry (cm_deposit_note_metadata k) (cd_serialize cd (PositionEntry ?m)) s1a)"
    by (rule set_entry_cpi_put [OF assms(1) _ sg(1), where m = "PositionEntry (new_deposit_metadata k)"])
      (use e assms(3) in \<open>auto simp: s1a_def\<close>)
  have w2: "set_entry_cpi ?mrt is_ca (cm_loan_note_metadata k) (cm_authority k) (cd_serialize cd (PositionEntry ?n)) s1b =
      Inr (put_entry (cm_loan_note_metadata k) (cd_serialize cd (PositionEntry ?n)) s1b)"
    by (rule set_entry_cpi_put [OF assms(1) _ sg(1), where m = "PositionEntry (new_loan_metadata k)"])
      (use e assms(3) in \<open>auto simp: s1a_def s1b_def\<close>)
  have "configure_margin_pool_handler rt' prt mrt cd is_ca governor ?k a px (Some params) (Some c) s1 =
    Inr (control_event (PositionTokenMetadataConfigured (cm_requester k) (cm_authority k) (cm_loan_note_metadata k) ?n)
      (put_entry (cm_loan_note_metadata k) (cd_serialize cd (PositionEntry ?n)) s1b))"
    using e p l c w1 w2 assms(4) unfolding s1b_def
    by (simp add: configure_margin_pool_handler_def Let_def configure_created_def new_token_metadata_def
        new_deposit_metadata_def new_loan_metadata_def require_signer_def)
  then show ?thesis using assms(1,3) p(5)
    by (auto simp: load_metadata_iff s1a_def s1b_def)
qed

text \<open>A codec that puts each number in the first place of its field.\<close>

definition field :: "nat \<Rightarrow> nat \<Rightarrow> nat list" where
  "field n x = x # replicate (n - 1) 0"

lemma field_simps [simp]: "0 < n \<Longrightarrow> length (field n x) = n" "field n x ! 0 = x"
  by (simp_all add: field_def)

fun kind_number :: "MetaTokenKind \<Rightarrow> nat" where
  "kind_number MetaNonCollateral = 0" | "kind_number MetaCollateral = 1"
| "kind_number MetaClaim = 2" | "kind_number MetaAdapterCollateral = 3"

definition number_kind :: "nat \<Rightarrow> MetaTokenKind" where
  "number_kind n = (if n = 0 then MetaNonCollateral else if n = 1 then MetaCollateral
     else if n = 2 then MetaClaim else MetaAdapterCollateral)"

lemma number_kind_inverse [simp]: "number_kind (kind_number k) = k"
  by (cases k) (simp_all add: number_kind_def)

fun number_serialize :: "MetadataEntry \<Rightarrow> nat list" where
  "number_serialize (PositionEntry m) = field 8 0 @ field 32 (pm_position_token_mint m) @
     field 32 (pm_underlying_token_mint m) @ field 32 (pm_adapter_program m) @ field 1 (kind_number (pm_token_kind m)) @
     field 2 (pm_value_modifier m) @ field 8 (pm_max_staleness m)"
| "number_serialize (TokenEntry m) = field 8 1 @ field 32 (tm_token_mint m) @ field 32 (tm_pyth_price m) @
     field 32 (tm_pyth_product m)"
| "number_serialize (AdapterEntry m) = field 8 2 @ field 32 (am_adapter_program m)"
| "number_serialize (LiquidatorEntry m) = field 8 3 @ field 32 (lm_liquidator m)"

definition number_deserialize :: "nat list \<Rightarrow> MetadataEntry option" where
  "number_deserialize xs =
     (if length xs < 40 then None
      else if xs ! 0 = 0 then
        Some (PositionEntry \<lparr>pm_position_token_mint = xs ! 8, pm_underlying_token_mint = xs ! 40,
          pm_adapter_program = xs ! 72, pm_token_kind = number_kind (xs ! 104), pm_value_modifier = xs ! 105,
          pm_max_staleness = xs ! 107\<rparr>)
      else if xs ! 0 = 1 then
        Some (TokenEntry \<lparr>tm_token_mint = xs ! 8, tm_pyth_price = xs ! 40, tm_pyth_product = xs ! 72\<rparr>)
      else if xs ! 0 = 2 then Some (AdapterEntry \<lparr>am_adapter_program = xs ! 8\<rparr>)
      else Some (LiquidatorEntry \<lparr>lm_liquidator = xs ! 8\<rparr>))"

definition number_codec :: Codec where
  "number_codec = \<lparr>cd_serialize = number_serialize, cd_deserialize = number_deserialize\<rparr>"

lemma number_codec_laws: "codec_laws number_codec"
proof -
  have "number_deserialize (number_serialize m @ rest) = Some m" for m rest
    by (cases m) (simp_all add: number_deserialize_def nth_append)
  moreover have "length (number_serialize m) = 8 + entry_size m" for m
    by (cases m) simp_all
  ultimately show ?thesis by (simp add: codec_laws_def number_codec_def)
qed

text \<open>The governor creates the pool of the sample ledger, with the fees in account 9.\<close>

fun control_address :: "Seed list \<Rightarrow> Pubkey" where
  "control_address [SeedInt b] = 1"
| "control_address [SeedBytes b, SeedKey k] = 9"
| "control_address _ = 300"

fun meta_address :: "Seed list \<Rightarrow> Pubkey" where
  "meta_address [SeedKey k, SeedBytes b] = 400 + k"
| "meta_address _ = 300"

definition sample_pool_creation :: CreateMarginPool where
  "sample_pool_creation = \<lparr>cm_requester = GOVERNOR_ID, cm_payer = 2, cm_authority = 1, cm_margin_pool = 100, cm_vault = 205,
     cm_deposit_note_mint = 213, cm_loan_note_mint = 210, cm_token_mint = 7, cm_token_metadata = 407,
     cm_deposit_note_metadata = 613, cm_loan_note_metadata = 610, cm_fee_destination = 9, cm_margin_pool_program = JET_MARGIN_POOL\<rparr>"

definition sample_control_state :: "Ledger ControlState" where
  "sample_control_state = \<lparr>ct_ledger = sample_ledger, ct_pools = (\<lambda>k. None),
     ct_meta = \<lparr>mt_data = (\<lambda>k. None), mt_lamports = (\<lambda>k. 0)\<rparr>, ct_events = []\<rparr>"

lemma write_new_entry_ok:
  assumes "codec_laws cd" "cm_payer k \<in> set (rt_signers mrt)" "is_ca (cm_authority k)" "cm_authority k \<in> set (rt_signers mrt)"
    and "mt_data (ct_meta s) account = None" "account = pda mrt [SeedKey key, SeedBytes '''']"
  shows "\<exists>s'. write_new_entry mrt cd is_ca rent k key account m e s = Inr s'"
proof -
  have "copy_from_slice 0 (cd_serialize cd m) (replicate (length (cd_serialize cd m)) 0) = Inr (cd_serialize cd m)"
    using codec_length_u64 [OF assms(1), of m] by (intro copy_all) simp_all
  with assms show ?thesis
    by (simp add: write_new_entry_def create_entry_cpi_def create_entry_handler_def set_entry_cpi_def Let_def
        set_entry_handler_def check_control_authority_def entry_accounts_def)
qed

lemma signed_create_pool:
  "1 \<in> set sg \<Longrightarrow> 2 \<in> set sg \<Longrightarrow>
     \<exists>e. create_pool_handler (ledger_runtime sample_address sg 5) (\<lambda>k. k = 1) sample_create 9 None sample_ledger =
       Inr (created_pool, created_ledger, e)"
  by (simp add: create_pool_handler_def sample_create_def Let_def load_mint_def sample_ledger_def require_signer_def
      create_token_account_def create_mint_def ledger_create_def ledger_create_mint_def created_pool_def
      created_ledger_def zeroed_pool_def pool_summary_no_loans)

lemma sample_pool_creation_runs:
  "\<exists>s. create_margin_pool_handler (ledger_runtime control_address [GOVERNOR_ID, 2] 5) (ledger_runtime sample_address [] 5)
     (ledger_runtime meta_address [] 5) number_codec (\<lambda>k. k = 1) (\<lambda>n. n) GOVERNOR_ID sample_pool_creation \<lparr>au_seed = 255\<rparr>
     sample_control_state = Inr s"
proof -
  let ?a = "\<lparr>au_seed = 255\<rparr>" and ?rt = "ledger_runtime control_address [GOVERNOR_ID, 2] 5"
  let ?mrt = "ledger_runtime meta_address [1, GOVERNOR_ID, 2] 5"
  have sg: "signed_by_authority ?rt ?a (ledger_runtime g [] 5) = ledger_runtime g [1, GOVERNOR_ID, 2] 5" for g :: "Seed list \<Rightarrow> Pubkey"
    by (simp add: signed_by_authority_def ledger_runtime_def)
  obtain e where c: "create_pool_handler (ledger_runtime sample_address [1, GOVERNOR_ID, 2] 5) (\<lambda>k. k = 1)
      (create_pool_accounts sample_pool_creation) 9 None sample_ledger = Inr (created_pool, created_ledger, e)"
    using signed_create_pool [of "[1, GOVERNOR_ID, 2]"] by (auto simp: create_pool_accounts_def sample_pool_creation_def sample_create_def)
  define l where "l = created_ledger\<lparr>lg_accounts := (lg_accounts created_ledger)
      (9 \<mapsto> \<lparr>ta_mint = 213, ta_owner = 1, ta_delegate = None, ta_amount = 0\<rparr>)\<rparr>"
  have t: "create_token_account ?rt 9 213 1 created_ledger = (Inr l :: Ledger control_tx)"
    by (simp add: create_token_account_def ledger_create_def created_ledger_def sample_ledger_def l_def)
  have m: "\<exists>d. load_mint ?rt created_ledger 213 = (Inr d :: MintAccount control_tx)"
    by (simp add: created_ledger_def)
  have new_ok: "\<exists>s'. write_new_entry ?mrt number_codec (\<lambda>k. k = 1) (\<lambda>n. n) sample_pool_creation key account m e s = Inr s'"
    if "mt_data (ct_meta s) account = None" "account = 400 + key" for key account m e and s :: "Ledger ControlState"
    by (rule write_new_entry_ok [OF number_codec_laws]) (use that in \<open>simp_all add: sample_pool_creation_def\<close>)
  note put = write_new_entry_put [OF number_codec_laws, THEN conjunct1]
  let ?s = "sample_control_state\<lparr>ct_ledger := l, ct_pools := (\<lambda>k. None)(100 \<mapsto> created_pool)\<rparr>"
  let ?w = "write_new_entry ?mrt number_codec (\<lambda>k. k = 1) (\<lambda>n. n) sample_pool_creation"
  let ?m1 = "new_deposit_metadata sample_pool_creation" and ?m2 = "new_loan_metadata sample_pool_creation"
    and ?m3 = "new_token_metadata sample_pool_creation"
  have "mt_data (ct_meta ?s) 613 = None" by (simp add: sample_control_state_def)
  from new_ok [OF this, of 213 "PositionEntry ?m1" "PositionTokenMetadataConfigured GOVERNOR_ID 1 613 ?m1"] obtain s1 where
    w1: "?w 213 613 (PositionEntry ?m1) (PositionTokenMetadataConfigured GOVERNOR_ID 1 613 ?m1) ?s = Inr s1" by auto
  have "mt_data (ct_meta s1) 610 = None" by (simp add: put [OF w1] sample_control_state_def)
  from new_ok [OF this, of 210 "PositionEntry ?m2" "PositionTokenMetadataConfigured GOVERNOR_ID 1 610 ?m2"] obtain s2 where
    w2: "?w 210 610 (PositionEntry ?m2) (PositionTokenMetadataConfigured GOVERNOR_ID 1 610 ?m2) s1 = Inr s2" by auto
  have "mt_data (ct_meta s2) 407 = None" by (simp add: put [OF w1] put [OF w2] sample_control_state_def)
  from new_ok [OF this, of 7 "TokenEntry ?m3" "TokenMetadataConfigured GOVERNOR_ID 1 407 ?m3"] obtain s3 where
    w3: "?w 7 407 (TokenEntry ?m3) (TokenMetadataConfigured GOVERNOR_ID 1 407 ?m3) s2 = Inr s3" by auto
  show ?thesis
    using w1 w2 w3 c t m
    by (auto simp: create_margin_pool_handler_def sg pool_cpi_def sample_pool_creation_def sample_control_state_def
        sample_ledger_def Let_def)
qed

end
