(* ===== verification/ControlBuilder.thy ===== *)
theory ControlBuilder
  imports ControlSafety PoolBuilder
begin

text \<open>
  The entry point of the control program, \<open>programs/control/src/lib.rs\<close>, and the builder of its
  instructions, \<open>instructions/src/control.rs\<close>. The builder derives every account from the token, so the
  instruction that configures a pool finds what the one that created it has left.
\<close>

subsection \<open>The program\<close>

text \<open>The accounts of the program are its authorities; the rest is the state of the handlers.\<close>

record 'l ControlProgramState =
  cn_state :: "'l ControlState"
  cn_authorities :: "Pubkey \<Rightarrow> Authority option"

record 'l ControlEnv =
  cv_pool_runtime :: "'l Runtime"
  cv_meta_runtime :: "'l Runtime"
  cv_codec :: Codec
  cv_is_control_authority :: "Pubkey \<Rightarrow> bool"
  cv_rent :: "nat \<Rightarrow> nat"
  cv_product :: "Pubkey \<Rightarrow> PythProduct option"

datatype ControlIxData =
    CreateAuthorityData
  | CreateMarginPoolData
  | ConfigureMarginPoolData "TokenMetadataParams option" "MarginPoolConfig option"

definition put_control :: "'l ControlState control_tx \<Rightarrow> 'l ControlProgramState \<Rightarrow> 'l ControlProgramState control_tx" where
  "put_control m p = bindE m (\<lambda>s. Inr (p\<lparr>cn_state := s\<rparr>))"

definition control_dispatch ::
  "Sdk \<Rightarrow> 'l ControlEnv \<Rightarrow> 'l Runtime \<Rightarrow> Pubkey list \<Rightarrow> ControlIxData \<Rightarrow> 'l ControlProgramState \<Rightarrow>
     'l ControlProgramState control_tx" where
  "control_dispatch sdk env rt ks d p =
     (case (d, ks) of
        (CreateAuthorityData, authority # payer # sys # _) \<Rightarrow>
          bindE (check_program (sdk_system_program sdk) sys) (\<lambda>_.
          bindE (create_authority_handler rt authority payer (cn_authorities p authority)) (\<lambda>(a, e).
          Inr (p\<lparr>cn_authorities := (cn_authorities p)(authority \<mapsto> a), cn_state := control_event e (cn_state p)\<rparr>)))
      | (CreateMarginPoolData, requester # payer # authority # pool # v # dn # ln # mint # tm # dm # lm # fee #
           pool_prog # meta_prog # tok # sys # rent # _) \<Rightarrow>
          bindE (ok_or (cn_authorities p authority) AccountErr) (\<lambda>a.
          bindE (check_program JET_MARGIN_POOL pool_prog) (\<lambda>_.
          bindE (check_program JET_METADATA meta_prog) (\<lambda>_.
          bindE (check_program (sdk_token_program sdk) tok) (\<lambda>_.
          bindE (check_program (sdk_system_program sdk) sys) (\<lambda>_.
          bindE (check_program (sdk_rent sdk) rent) (\<lambda>_.
          put_control (create_margin_pool_handler rt (cv_pool_runtime env) (cv_meta_runtime env) (cv_codec env)
            (cv_is_control_authority env) (cv_rent env) GOVERNOR_ID
            \<lparr>cm_requester = requester, cm_payer = payer, cm_authority = authority, cm_margin_pool = pool, cm_vault = v,
             cm_deposit_note_mint = dn, cm_loan_note_mint = ln, cm_token_mint = mint, cm_token_metadata = tm,
             cm_deposit_note_metadata = dm, cm_loan_note_metadata = lm, cm_fee_destination = fee,
             cm_margin_pool_program = pool_prog\<rparr> a (cn_state p)) p))))))
      | (ConfigureMarginPoolData params pool_config, requester # authority # mint # pool # tm # dm # lm # product #
           price # pool_prog # meta_prog # _) \<Rightarrow>
          bindE (ok_or (cn_authorities p authority) AccountErr) (\<lambda>a.
          bindE (check_program JET_MARGIN_POOL pool_prog) (\<lambda>_.
          bindE (check_program JET_METADATA meta_prog) (\<lambda>_.
          put_control (configure_margin_pool_handler rt (cv_pool_runtime env) (cv_meta_runtime env) (cv_codec env)
            (cv_is_control_authority env) GOVERNOR_ID
            \<lparr>cg_requester = requester, cg_authority = authority, cg_token_mint = mint, cg_margin_pool = pool,
             cg_token_metadata = tm, cg_deposit_metadata = dm, cg_loan_metadata = lm, cg_pyth_product = product,
             cg_pyth_price = price\<rparr> a (cv_product env product) params pool_config (cn_state p)) p)))
      | _ \<Rightarrow> err AccountErr)"

definition control_process ::
  "Sdk \<Rightarrow> 'l ControlEnv \<Rightarrow> 'l Runtime \<Rightarrow> ControlIxData Instruction \<Rightarrow> 'l ControlProgramState \<Rightarrow>
     'l ControlProgramState control_tx" where
  "control_process sdk env rt ix p =
     control_dispatch sdk env (runtime_of rt (ix_accounts ix)) (keys_of (ix_accounts ix)) (ix_data ix) p"

subsection \<open>The builder\<close>

record ControlIxBuilder =
  cb_payer :: Pubkey
  cb_requester :: Pubkey

definition control_builder_new :: "Pubkey \<Rightarrow> ControlIxBuilder" where
  "control_builder_new payer = \<lparr>cb_payer = payer, cb_requester = payer\<rparr>"

definition control_builder_new_for_authority :: "Pubkey \<Rightarrow> Pubkey \<Rightarrow> ControlIxBuilder" where
  "control_builder_new_for_authority authority payer = \<lparr>cb_payer = payer, cb_requester = authority\<rparr>"

definition get_margin_pool_fee_destination_address :: "Sdk \<Rightarrow> Pubkey \<Rightarrow> Pubkey" where
  "get_margin_pool_fee_destination_address sdk pool =
     derive sdk JET_CONTROL [SeedBytes ''margin-pool-fee-destination'', SeedKey pool]"

definition control_ix :: "AccountMeta list \<Rightarrow> ControlIxData \<Rightarrow> ControlIxData Instruction" where
  "control_ix accounts data = \<lparr>ix_program = JET_CONTROL, ix_accounts = accounts, ix_data = data\<rparr>"

definition cb_create_authority :: "Sdk \<Rightarrow> ControlIxBuilder \<Rightarrow> ControlIxData Instruction" where
  "cb_create_authority sdk b =
     control_ix [meta_mut (get_control_authority_address sdk), meta_payer (cb_payer b), meta_ro (sdk_system_program sdk)]
       CreateAuthorityData"

definition cb_create_margin_pool :: "Sdk \<Rightarrow> ControlIxBuilder \<Rightarrow> Pubkey \<Rightarrow> ControlIxData Instruction" where
  "cb_create_margin_pool sdk b mint =
     (let p = pool_builder_new sdk mint in
      control_ix
        [meta_signer (cb_requester b), meta_payer (cb_payer b), meta_ro (get_control_authority_address sdk),
         meta_mut (pb_address p), meta_mut (pb_vault p), meta_mut (pb_deposit_note_mint p), meta_mut (pb_loan_note_mint p),
         meta_ro mint, meta_mut (get_metadata_address sdk (pb_token_mint p)),
         meta_mut (get_metadata_address sdk (pb_deposit_note_mint p)),
         meta_mut (get_metadata_address sdk (pb_loan_note_mint p)),
         meta_mut (get_margin_pool_fee_destination_address sdk (pb_address p)), meta_ro JET_MARGIN_POOL,
         meta_ro JET_METADATA, meta_ro (sdk_token_program sdk), meta_ro (sdk_system_program sdk), meta_ro (sdk_rent sdk)]
        CreateMarginPoolData)"

record MarginPoolConfiguration =
  mp_pyth_product :: "Pubkey option"
  mp_pyth_price :: "Pubkey option"
  mp_parameters :: "MarginPoolConfig option"
  mp_metadata :: "TokenMetadataParams option"

definition unwrap_or_default :: "Pubkey option \<Rightarrow> Pubkey" where
  "unwrap_or_default k = (case k of None \<Rightarrow> pubkey_default | Some k \<Rightarrow> k)"

definition cb_configure_margin_pool ::
  "Sdk \<Rightarrow> ControlIxBuilder \<Rightarrow> Pubkey \<Rightarrow> MarginPoolConfiguration \<Rightarrow> ControlIxData Instruction" where
  "cb_configure_margin_pool sdk b mint c =
     (let p = pool_builder_new sdk mint in
      control_ix
        [meta_signer (cb_requester b), meta_ro (get_control_authority_address sdk), meta_ro mint, meta_mut (pb_address p),
         meta_mut (get_metadata_address sdk mint), meta_mut (get_metadata_address sdk (pb_deposit_note_mint p)),
         meta_mut (get_metadata_address sdk (pb_loan_note_mint p)), meta_ro (unwrap_or_default (mp_pyth_product c)),
         meta_ro (unwrap_or_default (mp_pyth_price c)), meta_ro JET_MARGIN_POOL, meta_ro JET_METADATA]
        (ConfigureMarginPoolData (mp_metadata c) (mp_parameters c)))"

subsection \<open>Creating and configuring a pool with the builder\<close>

definition built_pool :: "Sdk \<Rightarrow> ControlIxBuilder \<Rightarrow> Pubkey \<Rightarrow> CreateMarginPool" where
  "built_pool sdk b mint =
     (let p = pool_builder_new sdk mint in
      \<lparr>cm_requester = cb_requester b, cm_payer = cb_payer b, cm_authority = get_control_authority_address sdk,
       cm_margin_pool = pb_address p, cm_vault = pb_vault p, cm_deposit_note_mint = pb_deposit_note_mint p,
       cm_loan_note_mint = pb_loan_note_mint p, cm_token_mint = mint, cm_token_metadata = get_metadata_address sdk mint,
       cm_deposit_note_metadata = get_metadata_address sdk (pb_deposit_note_mint p),
       cm_loan_note_metadata = get_metadata_address sdk (pb_loan_note_mint p),
       cm_fee_destination = get_margin_pool_fee_destination_address sdk (pb_address p),
       cm_margin_pool_program = JET_MARGIN_POOL\<rparr>)"

lemma builder_mint [simp]: "pb_token_mint (pool_builder_new sdk mint) = mint"
  by (simp add: pool_builder_new_def Let_def)

lemma process_create_pool:
  "control_process sdk env rt (cb_create_margin_pool sdk b mint) s =
     bindE (ok_or (cn_authorities s (get_control_authority_address sdk)) AccountErr) (\<lambda>a.
     put_control (create_margin_pool_handler (rt\<lparr>rt_signers := [cb_requester b, cb_payer b]\<rparr>) (cv_pool_runtime env)
       (cv_meta_runtime env) (cv_codec env) (cv_is_control_authority env) (cv_rent env) GOVERNOR_ID
       (built_pool sdk b mint) a (cn_state s)) s)"
  by (simp add: control_process_def cb_create_margin_pool_def control_ix_def Let_def control_dispatch_def metas
      check_program_def runtime_of_def built_pool_def)

lemma process_configure_pool:
  "control_process sdk env rt (cb_configure_margin_pool sdk b mint c) s =
     bindE (ok_or (cn_authorities s (get_control_authority_address sdk)) AccountErr) (\<lambda>a.
     put_control (configure_margin_pool_handler (rt\<lparr>rt_signers := [cb_requester b]\<rparr>) (cv_pool_runtime env)
       (cv_meta_runtime env) (cv_codec env) (cv_is_control_authority env) GOVERNOR_ID
       (configure_created (built_pool sdk b mint) (unwrap_or_default (mp_pyth_product c))
          \<lparr>cg_pyth_price := unwrap_or_default (mp_pyth_price c)\<rparr>)
       a (cv_product env (unwrap_or_default (mp_pyth_product c))) (mp_metadata c) (mp_parameters c) (cn_state s)) s)"
  by (simp add: control_process_def cb_configure_margin_pool_def control_ix_def Let_def control_dispatch_def metas
      check_program_def runtime_of_def built_pool_def configure_created_def)

text \<open>
  C24: After the governor has created a pool for a token with the builder's instruction, the builder's
  instruction to configure it succeeds with any parameters, the builder's accounts being those of the pool: the
  pool has the parameters, its deposit notes count with the kind and the weight given, and its loan notes as
  claims with the leverage given. The program signs as the address it has derived for its authority.
\<close>

theorem built_pool_configures:
  assumes "codec_laws (cv_codec env)" "control_process sdk env rt (cb_create_margin_pool sdk b mint) s = Inr s1"
    and "cn_authorities s (get_control_authority_address sdk) = Some a"
    and "rt_signer_address rt [SeedInt (au_seed a)] = get_control_authority_address sdk"
    and "p = pool_builder_new sdk mint"
    and "distinct (map (get_metadata_address sdk) [mint, pb_deposit_note_mint p, pb_loan_note_mint p])"
    and "c = \<lparr>mp_pyth_product = product, mp_pyth_price = None, mp_parameters = Some parameters, mp_metadata = Some params\<rparr>"
  shows "\<exists>s2 pool. control_process sdk env rt (cb_configure_margin_pool sdk b mint c) s1 = Inr s2 \<and>
    ct_pools (cn_state s2) (pb_address p) = Some pool \<and> config pool = parameters \<and>
    fee_destination pool = get_margin_pool_fee_destination_address sdk (pb_address p) \<and>
    load_position_metadata (cv_codec env) (get_metadata_address sdk (pb_deposit_note_mint p)) (cn_state s2) =
      Inr (set_position_params (tp_token_kind params) (tp_collateral_weight params) (new_deposit_metadata (built_pool sdk b mint))) \<and>
    load_position_metadata (cv_codec env) (get_metadata_address sdk (pb_loan_note_mint p)) (cn_state s2) =
      Inr (set_position_params MetaClaim (tp_max_leverage params) (new_loan_metadata (built_pool sdk b mint)))"
proof -
  from assms(2,3) obtain t where t: "create_margin_pool_handler (rt\<lparr>rt_signers := [cb_requester b, cb_payer b]\<rparr>)
      (cv_pool_runtime env) (cv_meta_runtime env) (cv_codec env) (cv_is_control_authority env) (cv_rent env) GOVERNOR_ID
      (built_pool sdk b mint) a (cn_state s) = Inr t" and s1: "s1 = s\<lparr>cn_state := t\<rparr>"
    by (auto simp: process_create_pool put_control_def)
  have k: "configure_created k x\<lparr>cg_pyth_price := pubkey_default\<rparr> = configure_created k x" for k x
    by (simp add: configure_created_def)
  have "distinct [cm_token_metadata (built_pool sdk b mint), cm_deposit_note_metadata (built_pool sdk b mint),
      cm_loan_note_metadata (built_pool sdk b mint)]" using assms(5,6) by (auto simp: built_pool_def Let_def)
  from created_pool_configurable [OF assms(1) t this, of "rt\<lparr>rt_signers := [cb_requester b]\<rparr>"
      "unwrap_or_default product" "cv_product env (unwrap_or_default product)" params parameters] assms(3,4,5,7)
  show ?thesis
    by (fastforce simp: process_configure_pool put_control_def s1 k built_pool_def Let_def unwrap_or_default_def)
qed

text \<open>The governor's pool of \<open>sample_pool_creation\<close>.\<close>

definition control_sdk :: Sdk where
  "control_sdk = (sample_sdk sample_address)\<lparr>sdk_find_address := (\<lambda>p seeds.
     (if p = JET_METADATA then (case seeds of [SeedKey k] \<Rightarrow> 400 + k | _ \<Rightarrow> 300)
      else if p = JET_CONTROL then (case seeds of [] \<Rightarrow> 1 | _ \<Rightarrow> 9) else sample_address seeds, 255))\<rparr>"

definition sample_control_env :: "Ledger ControlEnv" where
  "sample_control_env = \<lparr>cv_pool_runtime = ledger_runtime sample_address [] 5, cv_meta_runtime = ledger_runtime meta_address [] 5,
     cv_codec = number_codec, cv_is_control_authority = (\<lambda>k. k = 1), cv_rent = (\<lambda>n. n), cv_product = Map.empty\<rparr>"

definition governor_builder :: ControlIxBuilder where
  "governor_builder = control_builder_new_for_authority GOVERNOR_ID 2"

lemma control_sdk_simps [simp]:
  "get_metadata_address control_sdk k = 400 + k" "get_control_authority_address control_sdk = 1"
  "get_margin_pool_fee_destination_address control_sdk k = 9"
  "derive control_sdk JET_MARGIN_POOL seeds = sample_address seeds"
  by (simp_all add: control_sdk_def derive_def get_metadata_address_def get_control_authority_address_def
      get_margin_pool_fee_destination_address_def JET_METADATA_def JET_CONTROL_def JET_MARGIN_POOL_def)

lemma sample_pool_addresses:
  "pb_address (pool_builder_new control_sdk 7) = 100" "pb_vault (pool_builder_new control_sdk 7) = 205"
  "pb_deposit_note_mint (pool_builder_new control_sdk 7) = 213" "pb_loan_note_mint (pool_builder_new control_sdk 7) = 210"
  by (simp_all add: pool_builder_new_def derive_margin_pool_def Let_def)

lemma sample_built_pool: "built_pool control_sdk governor_builder 7 = sample_pool_creation"
  by (simp add: built_pool_def sample_pool_creation_def sample_pool_addresses governor_builder_def
      control_builder_new_for_authority_def Let_def)

lemma governor_builder_simps [simp]: "cb_requester governor_builder = GOVERNOR_ID" "cb_payer governor_builder = 2"
  by (simp_all add: governor_builder_def control_builder_new_for_authority_def)

theorem built_pool_configures_witness:
  "\<exists>s1 s2. control_process control_sdk sample_control_env (ledger_runtime control_address [] 5)
     (cb_configure_margin_pool control_sdk governor_builder 7 \<lparr>mp_pyth_product = Some 8, mp_pyth_price = None,
        mp_parameters = Some default_config,
        mp_metadata = Some \<lparr>tp_token_kind = MetaCollateral, tp_collateral_weight = 95, tp_max_leverage = 400\<rparr>\<rparr>) s1 = Inr s2"
proof -
  let ?s = "\<lparr>cn_state = sample_control_state, cn_authorities = [1 \<mapsto> \<lparr>au_seed = 255\<rparr>]\<rparr>"
  have rt: "ledger_runtime control_address [] 5\<lparr>rt_signers := [GOVERNOR_ID, 2]\<rparr> = ledger_runtime control_address [GOVERNOR_ID, 2] 5"
    by (simp add: ledger_runtime_def)
  from sample_pool_creation_runs obtain s1 where
    "control_process control_sdk sample_control_env (ledger_runtime control_address [] 5)
      (cb_create_margin_pool control_sdk governor_builder 7) ?s = Inr s1"
    by (auto simp: process_create_pool put_control_def sample_built_pool rt sample_control_env_def)
  moreover have "codec_laws (cv_codec sample_control_env)" by (simp add: sample_control_env_def number_codec_laws)
  ultimately show ?thesis
    using built_pool_configures [of sample_control_env control_sdk "ledger_runtime control_address [] 5" governor_builder 7 ?s s1
        "\<lparr>au_seed = 255\<rparr>" _ _ "Some 8" default_config]
    by (fastforce simp: sample_pool_addresses ledger_runtime_def)
qed

end
