(* ===== verification/Spec2Isabelle.thy ===== *)
theory Spec2Isabelle
  imports FixedPoint Conversions Pricing PoolRates PoolSolvency MarginLiquidation StakingSafety RewardsSafety
    FixedTermOutcomes FixedTermFees SwapRouteSafety ControlBuilder
begin

text \<open>
  Verification of the on-chain programs of Jet Protocol v2, a lending protocol on Solana.

  Users deposit tokens into margin pools (\<open>programs/margin-pool\<close>), which lend them to margin
  accounts (\<open>programs/margin\<close>). A margin account holds positions, tokens it owns or owes, and lets
  its owner act through adapter programs, of which the pools are one, as long as the account stays
  healthy: its collateral, weighted, covers its debts. An unhealthy account is open to liquidation.
  Both programs compute in the fixed-point numbers of \<open>libraries/rust/program-common\<close>. Holders of the
  governance token stake it (\<open>programs/staking\<close>) and receive it from airdrops, awards and distributions
  (\<open>programs/rewards\<close>). Markets of fixed-term loans (\<open>programs/fixed-term\<close>) match lenders and borrowers in
  an order book; its users are margin accounts, to which the program is an adapter, or plain signers.

  The theories, bottom up:

  \<^item> \<open>Prelude\<close>: results of Rust code that can fail or panic, machine integers at a width, loops.
  \<^item> \<open>Numbers\<close>, \<open>Numbers128\<close>, \<open>Fp32Numbers\<close>: \<open>number.rs\<close>, \<open>number_128.rs\<close>, \<open>fp32.rs\<close>; \<open>FixedPoint\<close> is the
    contract of a fixed-point multiplication and division, interpreted for each of them;
    \<open>Conversions\<close> proves roundings and round trips.
  \<^item> \<open>Interest\<close>: \<open>functions.rs\<close>, \<open>interest_pricing.rs\<close> and \<open>margin-pool/src/util.rs\<close>; \<open>Pricing\<close> bounds
    compound interest and prices.
  \<^item> \<open>PoolState\<close>: the pool account of \<open>margin-pool/src/state.rs\<close> and its operations; \<open>Pool\<close> inverts
    them, \<open>PoolSafety\<close> and \<open>PoolRates\<close> prove what they promise.
  \<^item> \<open>MarginTypes\<close>: errors, configuration, prices, adapter messages and invocation flags of the margin
    program; \<open>PositionList\<close>: the fixed array of positions with its sorted index, refined to a finite
    map, and the contract \<open>position_store\<close>; \<open>MarginAccount\<close>: \<open>state/account.rs\<close>, the account, its
    invariant, valuation and health.
  \<^item> \<open>Search\<close>: the binary search of the Rust library over sorted keys.
  \<^item> \<open>Runtime\<close>: Solana and the token program as a parameter with its documented laws, and a ledger
    that satisfies them; \<open>Vaults\<close>: what these laws mean for a vault that a program owns.
  \<^item> \<open>MarginAdapter\<close>: \<open>adapter.rs\<close>, the invocation of an adapter and what it may change.
  \<^item> \<open>Airspaces\<close>: the airspace program, who may issue and revoke permits.
  \<^item> \<open>MarginHandlers\<close>: the instructions of the margin program; \<open>MarginLiquidation\<close>: the transition system
    of margin accounts and liquidation records and what an invocation and a liquidation guarantee.
  \<^item> \<open>PoolHandlers\<close>: every instruction of the pool program; \<open>PoolSolvency\<close>: the transition system
    around a pool and the invariant that its vault covers its books.
  \<^item> \<open>Staking\<close>: the staking program, with the \<open>auth\<close> program that admits its users; \<open>StakingSafety\<close>: the
    value of shares, the transition system around a stake pool and its books, the unbonding period.
  \<^item> \<open>Rewards\<close>: the rewards program, whose claims call the model of \<open>add_stake\<close>; \<open>RewardsSafety\<close>: vesting
    schedules, the accounting of an airdrop, distributions.
  \<^item> \<open>FixedTermState\<close>: \<open>margin/state.rs\<close>, \<open>origination_fee.rs\<close>, \<open>rounding.rs\<close>, the markets, users, loans
    and deposits of the fixed-term program. \<open>FixedTermOrders\<close>: \<open>orderbook/state\<close>, orders, callback
    information, the event queue, the events that are emitted. \<open>EventQueues\<close>: the ring buffer of events
    refines a queue.
  \<^item> \<open>FixedTermMargin\<close>, \<open>FixedTermInstructions\<close>: placing orders, repaying, every instruction of users;
    \<open>FixedTermCrank\<close>: \<open>consume_events\<close>; \<open>FixedTermControl\<close>: the instructions of administrators.
  \<^item> \<open>FixedTermFrames\<close>, \<open>FixedTermLoans\<close>: what each step leaves alone, and what it does to the loans of a
    user; \<open>FixedTermSample\<close>: a market on which the theorems are tried; \<open>FixedTermSafety\<close>: the transition
    system of loans and debts; \<open>FixedTermSettlement\<close>: what a settlement pays; \<open>FixedTermOutcomes\<close>:
    the origination fee with one or several fills, automatic rolls, event adapters, redemption, sales of tickets
    and how they stop the crank.
  \<^item> \<open>MarginSwap\<close>: \<open>programs/margin-swap\<close>, swaps of deposits over external venues; \<open>MarginSwapSafety\<close>: what they
    guarantee whatever the venues do.
  \<^item> \<open>Metadata\<close>, \<open>ControlProgram\<close>: \<open>programs/metadata\<close> and \<open>programs/control\<close>, through which the governor creates
    and configures pools; \<open>ControlSafety\<close> composes the two with the pool program. \<open>LookupTables\<close>: the lookup
    tables of margin accounts.
  \<^item> \<open>Instructions\<close>: instructions with their account metas, the addresses of the programs, the derivation of
    addresses by clients. \<open>MarginProgram\<close>, \<open>PoolProgram\<close>, \<open>FixedTermProgram\<close>: the entry points of the margin, the pool and
    the fixed-term program, which take the accounts of a handler from the list of an instruction; those of the
    airspace, control and swap programs are in \<open>AirspaceBuilder\<close>, \<open>ControlBuilder\<close> and \<open>SwapRouteBuilder\<close>.
  \<^item> \<open>AirspaceBuilder\<close>, \<open>MarginBuilder\<close>, \<open>PoolBuilder\<close>, \<open>ControlBuilder\<close>, \<open>SwapRouteBuilder\<close>,
    \<open>FixedTermBuilder\<close>: the clients' builders of
    \<open>libraries/rust/instructions\<close>, run against the entry points: what is built is accepted, and the addresses
    that a client derives are those the programs keep. \<open>SwapRouteLegs\<close>, \<open>SwapRouteSafety\<close>: a built route is a
    list of legs, and the program, which cuts its flat list of accounts, executes exactly these.
  \<^item> \<open>FixedTermAddresses\<close>: no instruction changes the addresses that a market names, which are the derived ones.
    \<open>FixedTermFees\<close>: no instruction of the whole fixed-term program takes tokens out of the fee vault of a market.

  Conventions. A function that returns a result or can panic yields \<open>Inr\<close> of its value, an error or
  a panic; either of the latter aborts the transaction, so it carries no state. Integers keep their
  width: checked operations fail as the code says, plain operators wrap, since the workspace
  builds its programs without overflow checks. An address is a number. Loops over slices are
  \<open>foldE\<close>; the only other recursion, the binary search and the powers of ten, terminates by its
  interval and its exponent, and no fuel is used. Account constraints of the Anchor framework are
  the \<open>constraint\<close>s at the start of each handler.

  Parameters: the token program and program addresses (\<open>Runtime\<close>), adapters (\<open>AdapterProgram\<close>), what the Pyth
  library decodes from an oracle account, the order book of the crate \<open>agnostic-orderbook\<close> (\<open>Engine\<close>),
  the exchanges behind \<open>margin-swap\<close> (\<open>Venues\<close>), the registry of lookup tables, the encoding of metadata (\<open>Codec\<close>), the address
  derivation and constants of the Solana SDK (\<open>Sdk\<close>).

  Not modelled: clients beyond the builders above, tools, tests, account serialisation, logging and rent; of the fixed-term program the floating point
  \<open>TermLoan::rate\<close>; of the builders those of the test service, of Orca and of the accounts that hold the slabs, the
  event queue and the fees of a market before it exists, which are instructions of the system and token programs.
\<close>

end
